(* ===== verification/Prelude.thy ===== *)
theory Prelude
  imports
    Main
    "HOL-Library.Char_ord"
    "HOL-Library.List_Lexorder"
    "HOL-Library.Product_Lexorder"
    "HOL-Library.Sublist"
begin

text \<open>
  The shared vocabulary of the development: the exceptions the orchestrator raises, the two
  result types the models use (a sum for code that only computes, a state and a sum for code
  with effects that survive an exception), the loops over lists in both, and the generic
  lemmas on them. The collection \<open>res\<close> holds the equations that open a successful or a failed
  computation step by step.
\<close>

named_theorems res

section \<open>Exceptions\<close>

text \<open>
  One constructor per exception class. The classes below the first block are the ones of the
  orchestrator, each with its message; \<open>IntegrityError\<close> is the database's refusal of a row and
  \<open>External\<close> carries the class name of an exception raised by a device, a service or a secret
  provider, which are outside the repository.
\<close>

datatype exn =
    KeyError string
  | TypeError
  | OverflowError
  | AttributeError
  | IndexError
  | ValueError string
  | IntegrityError
  | External string
  | AllocationError string
  | ReconciliationError string
  | NotFoundError string
  | ConflictError string
  | ApprovalRequiredError string
  | ExecutionDisabledError string
  | MaintenanceWindowError string
  | StoreError string
  | WorkerError string
  | PreflightSecretError string
  | AdapterError string
  | ConfigurationRejectedError string
  | AuthenticationConfigError string
  | RuntimeRecoveryInspectionError string
  | PocIntakeError string
  | PlanValidationError
  | RenderError string
  | StopIteration

text \<open>\<open>type(exc).__name__\<close>\<close>

fun exn_name :: "exn \<Rightarrow> string" where
  "exn_name (KeyError _) = ''KeyError''"
| "exn_name TypeError = ''TypeError''"
| "exn_name OverflowError = ''OverflowError''"
| "exn_name AttributeError = ''AttributeError''"
| "exn_name IndexError = ''IndexError''"
| "exn_name (ValueError _) = ''ValueError''"
| "exn_name IntegrityError = ''IntegrityError''"
| "exn_name (External n) = n"
| "exn_name (AllocationError _) = ''AllocationError''"
| "exn_name (ReconciliationError _) = ''ReconciliationError''"
| "exn_name (NotFoundError _) = ''NotFoundError''"
| "exn_name (ConflictError _) = ''ConflictError''"
| "exn_name (ApprovalRequiredError _) = ''ApprovalRequiredError''"
| "exn_name (ExecutionDisabledError _) = ''ExecutionDisabledError''"
| "exn_name (MaintenanceWindowError _) = ''MaintenanceWindowError''"
| "exn_name (StoreError _) = ''StoreError''"
| "exn_name (WorkerError _) = ''WorkerError''"
| "exn_name (PreflightSecretError _) = ''PreflightSecretError''"
| "exn_name (AdapterError _) = ''AdapterError''"
| "exn_name (ConfigurationRejectedError _) = ''ConfigurationRejectedError''"
| "exn_name (AuthenticationConfigError _) = ''AuthenticationConfigError''"
| "exn_name (RuntimeRecoveryInspectionError _) = ''RuntimeRecoveryInspectionError''"
| "exn_name (PocIntakeError _) = ''PocIntakeError''"
| "exn_name PlanValidationError = ''PlanValidationError''"
| "exn_name (RenderError _) = ''RenderError''"
| "exn_name StopIteration = ''StopIteration''"

section \<open>Computations that may raise\<close>

type_synonym 'a result = "exn + 'a"

definition ebind :: "'a result \<Rightarrow> ('a \<Rightarrow> 'b result) \<Rightarrow> 'b result" where
  "ebind m f = (case m of Inl e \<Rightarrow> Inl e | Inr x \<Rightarrow> f x)"

definition raise_if :: "bool \<Rightarrow> exn \<Rightarrow> unit result" where
  "raise_if c e = (if c then Inl e else Inr ())"

definition of_option :: "exn \<Rightarrow> 'a option \<Rightarrow> 'a result" where
  "of_option e x = (case x of None \<Rightarrow> Inl e | Some y \<Rightarrow> Inr y)"

fun is_ok :: "'a result \<Rightarrow> bool" where
  "is_ok (Inl e) = False"
| "is_ok (Inr x) = True"

lemma ebind_simps [simp]:
  "ebind (Inl e) f = Inl e"
  "ebind (Inr x) f = f x"
  by (simp_all add: ebind_def)

lemma ebind_cong [fundef_cong]:
  "m = m' \<Longrightarrow> (\<And>x. m' = Inr x \<Longrightarrow> f x = f' x) \<Longrightarrow> ebind m f = ebind m' f'"
  by (auto simp: ebind_def split: sum.splits)

text \<open>For evaluating a run: the continuation is not rewritten before its argument is a value.\<close>

lemma ebind_weak_cong: "m = m' \<Longrightarrow> ebind m f = ebind m' f"
  by simp

lemma ebind_assoc: "ebind (ebind m f) g = ebind m (\<lambda>x. ebind (f x) g)"
  by (simp add: ebind_def split: sum.splits)

lemma ebind_Inr [res]: "ebind m f = Inr y \<longleftrightarrow> (\<exists>x. m = Inr x \<and> f x = Inr y)"
  by (auto simp: ebind_def split: sum.splits)

lemma ebind_Inl [res]: "ebind m f = Inl e \<longleftrightarrow> m = Inl e \<or> (\<exists>x. m = Inr x \<and> f x = Inl e)"
  by (auto simp: ebind_def split: sum.splits)

lemma raise_if_Inr [res]: "raise_if c e = Inr u \<longleftrightarrow> \<not> c"
  by (simp add: raise_if_def)

lemma raise_if_Inl [res]: "raise_if c e = Inl e' \<longleftrightarrow> c \<and> e' = e"
  by (auto simp: raise_if_def)

lemma raise_if_simps [simp]:
  "raise_if True e = Inl e"
  "raise_if False e = Inr ()"
  by (simp_all add: raise_if_def)

lemma of_option_Inr [res]: "of_option e x = Inr y \<longleftrightarrow> x = Some y"
  by (auto simp: of_option_def split: option.splits)

lemma of_option_Inl [res]: "of_option e x = Inl e' \<longleftrightarrow> x = None \<and> e' = e"
  by (auto simp: of_option_def split: option.splits)

lemma of_option_simps [simp]:
  "of_option e None = Inl e"
  "of_option e (Some x) = Inr x"
  by (simp_all add: of_option_def)

lemma ebind_InrE: "ebind m f = Inr y \<Longrightarrow> (\<And>x. m = Inr x \<Longrightarrow> f x = Inr y \<Longrightarrow> P) \<Longrightarrow> P"
  by (auto simp: ebind_Inr)

lemma raise_if_InrE: "raise_if c e = Inr u \<Longrightarrow> (\<not> c \<Longrightarrow> P) \<Longrightarrow> P"
  by (auto simp: raise_if_Inr)

lemma of_option_InrE: "of_option e x = Inr y \<Longrightarrow> (x = Some y \<Longrightarrow> P) \<Longrightarrow> P"
  by (auto simp: of_option_Inr)

lemma is_ok_iff: "is_ok m \<longleftrightarrow> (\<exists>x. m = Inr x)"
  by (cases m) auto

subsection \<open>Loops\<close>

text \<open>A comprehension and a \<open>for\<close> loop with an accumulator: the first exception ends them.\<close>

fun mapE :: "('a \<Rightarrow> 'b result) \<Rightarrow> 'a list \<Rightarrow> 'b list result" where
  "mapE f [] = Inr []"
| "mapE f (x # xs) = ebind (f x) (\<lambda>y. ebind (mapE f xs) (\<lambda>ys. Inr (y # ys)))"

fun foldE :: "('s \<Rightarrow> 'a \<Rightarrow> 's result) \<Rightarrow> 's \<Rightarrow> 'a list \<Rightarrow> 's result" where
  "foldE f s [] = Inr s"
| "foldE f s (x # xs) = ebind (f s x) (\<lambda>s'. foldE f s' xs)"

definition filterE :: "('a \<Rightarrow> bool result) \<Rightarrow> 'a list \<Rightarrow> 'a list result" where
  "filterE p xs = ebind (mapE (\<lambda>x. ebind (p x) (\<lambda>b. Inr (b, x))) xs)
     (\<lambda>ys. Inr (map snd (filter fst ys)))"

lemma mapE_cong [fundef_cong]:
  "xs = ys \<Longrightarrow> (\<And>x. x \<in> set ys \<Longrightarrow> f x = g x) \<Longrightarrow> mapE f xs = mapE g ys"
  by (induction xs arbitrary: ys) (auto simp: ebind_def split: sum.splits)

lemma mapE_Inr_length: "mapE f xs = Inr ys \<Longrightarrow> length ys = length xs"
  by (induction xs arbitrary: ys) (auto simp: res)

lemma mapE_Inr_list_all2: "mapE f xs = Inr ys \<longleftrightarrow> list_all2 (\<lambda>x y. f x = Inr y) xs ys"
  by (induction xs arbitrary: ys) (auto simp: res list_all2_Cons1)

lemma mapE_Inr_set: "mapE f xs = Inr ys \<Longrightarrow> y \<in> set ys \<Longrightarrow> \<exists>x \<in> set xs. f x = Inr y"
  by (induction xs arbitrary: ys) (auto simp: res)

lemma mapE_Inr_setD: "mapE f xs = Inr ys \<Longrightarrow> x \<in> set xs \<Longrightarrow> \<exists>y \<in> set ys. f x = Inr y"
  by (induction xs arbitrary: ys) (auto simp: res)

lemma mapE_Inr_map: "mapE f xs = Inr ys \<Longrightarrow> (\<And>x y. f x = Inr y \<Longrightarrow> y = g x) \<Longrightarrow> ys = map g xs"
  by (induction xs arbitrary: ys) (auto simp: res)

lemma mapE_total: "(\<And>x. x \<in> set xs \<Longrightarrow> f x = Inr (g x)) \<Longrightarrow> mapE f xs = Inr (map g xs)"
  by (induction xs) auto

lemma foldE_append: "foldE f s (xs @ ys) = ebind (foldE f s xs) (\<lambda>s'. foldE f s' ys)"
  by (induction xs arbitrary: s) (auto simp: ebind_assoc)

lemma foldE_invariant:
  assumes "foldE f s xs = Inr s'" and "P s"
    and "\<And>s x s'. x \<in> set xs \<Longrightarrow> P s \<Longrightarrow> f s x = Inr s' \<Longrightarrow> P s'"
  shows "P s'"
  using assms by (induction xs arbitrary: s) (auto simp: res)

section \<open>Stateful computations\<close>

text \<open>
  A computation over a state \<open>'s\<close> returns the state it leaves behind also when it raises, as
  Python's effects do. \<open>s_try\<close> is \<open>try/except\<close>.
\<close>

type_synonym ('s, 'a) eff = "'s \<Rightarrow> 'a result \<times> 's"

definition sret :: "'a \<Rightarrow> ('s, 'a) eff" where
  "sret x s = (Inr x, s)"

definition sraise :: "exn \<Rightarrow> ('s, 'a) eff" where
  "sraise e s = (Inl e, s)"

definition sbind :: "('s, 'a) eff \<Rightarrow> ('a \<Rightarrow> ('s, 'b) eff) \<Rightarrow> ('s, 'b) eff" where
  "sbind m f s = (case m s of (Inl e, t) \<Rightarrow> (Inl e, t) | (Inr x, t) \<Rightarrow> f x t)"

definition s_try :: "('s, 'a) eff \<Rightarrow> (exn \<Rightarrow> ('s, 'a) eff) \<Rightarrow> ('s, 'a) eff" where
  "s_try m h s = (case m s of (Inl e, t) \<Rightarrow> h e t | (Inr x, t) \<Rightarrow> (Inr x, t))"

definition slift :: "'a result \<Rightarrow> ('s, 'a) eff" where
  "slift r s = (r, s)"

definition sguard :: "bool \<Rightarrow> exn \<Rightarrow> ('s, unit) eff" where
  "sguard c e = (if c then sraise e else sret ())"

fun s_mapM :: "('a \<Rightarrow> ('s, 'b) eff) \<Rightarrow> 'a list \<Rightarrow> ('s, 'b list) eff" where
  "s_mapM f [] = sret []"
| "s_mapM f (x # xs) = sbind (f x) (\<lambda>y. sbind (s_mapM f xs) (\<lambda>ys. sret (y # ys)))"

fun s_foldM :: "('b \<Rightarrow> 'a \<Rightarrow> ('s, 'b) eff) \<Rightarrow> 'b \<Rightarrow> 'a list \<Rightarrow> ('s, 'b) eff" where
  "s_foldM f b [] = sret b"
| "s_foldM f b (x # xs) = sbind (f b x) (\<lambda>b'. s_foldM f b' xs)"

lemma sret_apply [simp]: "sret x s = (Inr x, s)"
  by (simp add: sret_def)

lemma sraise_apply [simp]: "sraise e s = (Inl e, s)"
  by (simp add: sraise_def)

lemma slift_apply [simp]: "slift r s = (r, s)"
  by (simp add: slift_def)

lemma sguard_simps [simp]:
  "sguard True e s = (Inl e, s)"
  "sguard False e s = (Inr (), s)"
  by (simp_all add: sguard_def)

lemma sbind_apply_Inl [simp]: "m s = (Inl e, t) \<Longrightarrow> sbind m f s = (Inl e, t)"
  by (simp add: sbind_def)

lemma sbind_apply_Inr [simp]: "m s = (Inr x, t) \<Longrightarrow> sbind m f s = f x t"
  by (simp add: sbind_def)

lemma sbind_Inr [res]:
  "sbind m f s = (Inr y, u) \<longleftrightarrow> (\<exists>x t. m s = (Inr x, t) \<and> f x t = (Inr y, u))"
  by (auto simp: sbind_def split: prod.splits sum.splits)

lemma sbind_Inl [res]:
  "sbind m f s = (Inl e, u) \<longleftrightarrow>
     m s = (Inl e, u) \<or> (\<exists>x t. m s = (Inr x, t) \<and> f x t = (Inl e, u))"
  by (auto simp: sbind_def split: prod.splits sum.splits)

lemma sguard_Inr [res]: "sguard c e s = (Inr u, t) \<longleftrightarrow> \<not> c \<and> t = s"
  by (auto simp: sguard_def)

subsection \<open>State invariants of stateful computations\<close>

text \<open>
  \<open>keeps I m\<close>: whatever \<open>m\<close> does, normally or by raising, \<open>I\<close> holds afterwards if it held
  before. The rules below let \<open>intro keeps\<close> carry an invariant through a whole handler, from
  the lemmas on its primitive steps alone.
\<close>

named_theorems keeps

definition keeps :: "('s \<Rightarrow> bool) \<Rightarrow> ('s, 'a) eff \<Rightarrow> bool" where
  "keeps I m \<longleftrightarrow> (\<forall>s. I s \<longrightarrow> I (snd (m s)))"

lemma keepsI: "(\<And>s r t. I s \<Longrightarrow> m s = (r, t) \<Longrightarrow> I t) \<Longrightarrow> keeps I m"
  by (auto simp: keeps_def) (metis prod.collapse)

lemma keepsD: "keeps I m \<Longrightarrow> I s \<Longrightarrow> m s = (r, t) \<Longrightarrow> I t"
  by (metis keeps_def snd_conv)

lemma keeps_sret [keeps]: "keeps I (sret x)"
  by (simp add: keeps_def)

lemma keeps_sraise [keeps]: "keeps I (sraise e)"
  by (simp add: keeps_def)

lemma keeps_slift [keeps]: "keeps I (slift r)"
  by (simp add: keeps_def)

lemma keeps_sguard [keeps]: "keeps I (sguard c e)"
  by (simp add: keeps_def sguard_def)

lemma keeps_sbind [keeps]: "keeps I m \<Longrightarrow> (\<And>x. keeps I (f x)) \<Longrightarrow> keeps I (sbind m f)"
  by (rule keepsI) (auto simp: sbind_def split: prod.splits sum.splits dest: keepsD)

lemma keeps_s_try [keeps]: "keeps I m \<Longrightarrow> (\<And>e. keeps I (h e)) \<Longrightarrow> keeps I (s_try m h)"
  by (rule keepsI) (auto simp: s_try_def split: prod.splits sum.splits dest: keepsD)

lemma keeps_if [keeps]: "keeps I m \<Longrightarrow> keeps I m' \<Longrightarrow> keeps I (if c then m else m')"
  by simp

lemma keeps_s_mapM [keeps]: "(\<And>x. x \<in> set xs \<Longrightarrow> keeps I (f x)) \<Longrightarrow> keeps I (s_mapM f xs)"
  by (induction xs) (auto intro!: keeps)

lemma keeps_s_foldM [keeps]:
  "(\<And>b x. x \<in> set xs \<Longrightarrow> keeps I (f b x)) \<Longrightarrow> keeps I (s_foldM f b xs)"
  by (induction xs arbitrary: b) (auto intro!: keeps)

section \<open>Lists\<close>

lemma find_Some_iff': "find p xs = Some x \<Longrightarrow> x \<in> set xs \<and> p x"
  by (induction xs) (auto split: if_splits)

lemma find_None_iff': "find p xs = None \<longleftrightarrow> (\<forall>x \<in> set xs. \<not> p x)"
  by (induction xs) auto

lemma distinct_map_filter: "distinct (map f xs) \<Longrightarrow> distinct (map f (filter p xs))"
  by (induction xs) auto

lemma distinct_map_sort_key: "distinct (map f xs) \<Longrightarrow> distinct (map f (sort_key g xs))"
  by (simp add: distinct_map)

lemma distinct_map_eqD: "distinct (map f xs) \<Longrightarrow> x \<in> set xs \<Longrightarrow> y \<in> set xs \<Longrightarrow> f x = f y \<Longrightarrow> x = y"
  by (auto simp: distinct_map inj_on_def)

lemma find_key_eq:
  "distinct (map key xs) \<Longrightarrow> x \<in> set xs \<Longrightarrow> find (\<lambda>r. key r = key x) xs = Some x"
  by (induction xs) (auto simp: image_iff)

end
