(* ===== verification/PyStr.thy ===== *)
theory PyStr
  imports Prelude
begin

text \<open>
  The part of Python's \<open>str\<close> the orchestrator uses, on lists of characters: decimal rendering
  and parsing, \<open>strip\<close>, \<open>split\<close>, \<open>splitlines\<close>, \<open>join\<close>, substring tests, case mapping, and the
  character classes of the regular expressions. A character is a code point below 256 and the
  case mappings are those of ASCII letters.
\<close>

section \<open>Character classes\<close>

abbreviation ordc :: "char \<Rightarrow> nat" where "ordc c \<equiv> of_char c"

definition is_digit :: "char \<Rightarrow> bool" where
  "is_digit c \<longleftrightarrow> 48 \<le> ordc c \<and> ordc c \<le> 57"

definition is_upper :: "char \<Rightarrow> bool" where
  "is_upper c \<longleftrightarrow> 65 \<le> ordc c \<and> ordc c \<le> 90"

definition is_lower :: "char \<Rightarrow> bool" where
  "is_lower c \<longleftrightarrow> 97 \<le> ordc c \<and> ordc c \<le> 122"

definition is_alnum :: "char \<Rightarrow> bool" where
  "is_alnum c \<longleftrightarrow> is_digit c \<or> is_upper c \<or> is_lower c"

definition is_hex_lower :: "char \<Rightarrow> bool" where
  "is_hex_lower c \<longleftrightarrow> is_digit c \<or> 97 \<le> ordc c \<and> ordc c \<le> 102"

definition is_hex :: "char \<Rightarrow> bool" where
  "is_hex c \<longleftrightarrow> is_hex_lower c \<or> 65 \<le> ordc c \<and> ordc c \<le> 70"

definition newline :: char where "newline = CHR 0x0A"
definition creturn :: char where "creturn = CHR 0x0D"

text \<open>\<open>str.isspace\<close> on one character: what \<open>strip\<close> and \<open>split\<close> treat as white space.\<close>

definition is_space :: "char \<Rightarrow> bool" where
  "is_space c \<longleftrightarrow> (let n = ordc c in
     9 \<le> n \<and> n \<le> 13 \<or> 28 \<le> n \<and> n \<le> 32 \<or> n = 133 \<or> n = 160)"

text \<open>The line boundaries of \<open>str.splitlines\<close>, apart from the pair CR LF.\<close>

definition is_linebreak :: "char \<Rightarrow> bool" where
  "is_linebreak c \<longleftrightarrow> (let n = ordc c in
     10 \<le> n \<and> n \<le> 13 \<or> 28 \<le> n \<and> n \<le> 30 \<or> n = 133)"

text \<open>\<open>[0-9a-f]{64}\<close> and its case-insensitive form, as full matches.\<close>

definition sha256_hex_lower :: "string \<Rightarrow> bool" where
  "sha256_hex_lower s \<longleftrightarrow> length s = 64 \<and> list_all is_hex_lower s"

definition sha256_hex_any :: "string \<Rightarrow> bool" where
  "sha256_hex_any s \<longleftrightarrow> length s = 64 \<and> list_all is_hex s"

lemma sha256_hex_lower_any: "sha256_hex_lower s \<Longrightarrow> sha256_hex_any s"
  by (auto simp: sha256_hex_lower_def sha256_hex_any_def is_hex_def list_all_iff)

section \<open>Case, white space, substrings\<close>

definition lower_char :: "char \<Rightarrow> char" where
  "lower_char c = (if is_upper c then char_of (ordc c + 32) else c)"

definition upper_char :: "char \<Rightarrow> char" where
  "upper_char c = (if is_lower c then char_of (ordc c - 32) else c)"

definition lower :: "string \<Rightarrow> string" where "lower = map lower_char"
definition upper :: "string \<Rightarrow> string" where "upper = map upper_char"

definition lstrip :: "string \<Rightarrow> string" where "lstrip = dropWhile is_space"
definition strip :: "string \<Rightarrow> string" where
  "strip s = rev (dropWhile is_space (rev (lstrip s)))"

definition starts_with :: "string \<Rightarrow> string \<Rightarrow> bool" where
  "starts_with s p \<longleftrightarrow> take (length p) s = p"

fun contains :: "string \<Rightarrow> string \<Rightarrow> bool" where
  "contains [] p = (p = [])"
| "contains (c # s) p = (starts_with (c # s) p \<or> contains s p)"

definition has_break :: "string \<Rightarrow> bool" where
  "has_break s \<longleftrightarrow> newline \<in> set s \<or> creturn \<in> set s"

definition replace_char :: "char \<Rightarrow> char \<Rightarrow> string \<Rightarrow> string" where
  "replace_char a b = map (\<lambda>c. if c = a then b else c)"

fun join :: "string \<Rightarrow> string list \<Rightarrow> string" where
  "join sep [] = []"
| "join sep [x] = x"
| "join sep (x # y # xs) = x @ sep @ join sep (y # xs)"

text \<open>\<open>str.split()\<close>: the maximal runs of other characters.\<close>

fun split_acc :: "string \<Rightarrow> string \<Rightarrow> string list" where
  "split_acc acc [] = (if acc = [] then [] else [rev acc])"
| "split_acc acc (c # s) =
     (if is_space c then (if acc = [] then split_acc [] s else rev acc # split_acc [] s)
      else split_acc (c # acc) s)"

definition split :: "string \<Rightarrow> string list" where "split s = split_acc [] s"

text \<open>\<open>str.splitlines()\<close>: no empty last line, CR LF is one boundary.\<close>

fun splitlines_acc :: "string \<Rightarrow> string \<Rightarrow> string list" where
  "splitlines_acc acc [] = (if acc = [] then [] else [rev acc])"
| "splitlines_acc acc (c # s) =
     (if c = creturn then
        (case s of
           [] \<Rightarrow> [rev acc]
         | d # s' \<Rightarrow> rev acc # (if d = newline then splitlines_acc [] s' else splitlines_acc [] s))
      else if is_linebreak c then rev acc # splitlines_acc [] s
      else splitlines_acc (c # acc) s)"

definition splitlines :: "string \<Rightarrow> string list" where "splitlines s = splitlines_acc [] s"

lemma contains_iff: "contains s p \<longleftrightarrow> (\<exists>u v. s = u @ p @ v)"
proof (induction s)
  case Nil
  then show ?case by auto
next
  case (Cons c s)
  have pre: "starts_with (c # s) p \<longleftrightarrow> (\<exists>v. c # s = p @ v)"
    by (auto simp: starts_with_def) (metis append_take_drop_id)
  have "(\<exists>u v. c # s = u @ p @ v) \<longleftrightarrow> (\<exists>v. c # s = p @ v) \<or> (\<exists>u v. s = u @ p @ v)"
    by (metis (no_types, opaque_lifting) append_Cons append_Nil list.exhaust list.inject)
  then show ?case by (simp add: pre Cons.IH)
qed

section \<open>Decimal numbers\<close>

definition digit_char :: "nat \<Rightarrow> char" where
  "digit_char d = char_of (48 + d)"

definition digit_val :: "char \<Rightarrow> nat" where
  "digit_val c = ordc c - 48"

fun nat_str :: "nat \<Rightarrow> string" where
  "nat_str n = (if n < 10 then [digit_char n] else nat_str (n div 10) @ [digit_char (n mod 10)])"

declare nat_str.simps [simp del]

definition int_str :: "int \<Rightarrow> string" where
  "int_str i = (if i < 0 then CHR ''-'' # nat_str (nat (- i)) else nat_str (nat i))"

definition digits_val :: "string \<Rightarrow> nat" where
  "digits_val s = foldl (\<lambda>n c. 10 * n + digit_val c) 0 s"

text \<open>The limit that Python sets on the digits of a text that \<open>int\<close> converts.\<close>

abbreviation max_str_digits :: nat where
  "max_str_digits \<equiv> 4300"

definition parse_nat :: "string \<Rightarrow> nat option" where
  "parse_nat s =
     (if s \<noteq> [] \<and> list_all is_digit s \<and> length s \<le> max_str_digits then Some (digits_val s) else None)"

text \<open>
  \<open>int(s)\<close>: surrounding white space, a sign, digits with single underscores between them; the
  digits, leading zeros too and underscores not, count towards the limit.
\<close>

fun drop_underscores :: "string \<Rightarrow> string option" where
  "drop_underscores [] = Some []"
| "drop_underscores [c] = (if is_digit c then Some [c] else None)"
| "drop_underscores (c # d # s) =
     (if \<not> is_digit c then None
      else if d = CHR ''_'' then map_option ((#) c) (case s of [] \<Rightarrow> None | _ \<Rightarrow> drop_underscores s)
      else map_option ((#) c) (drop_underscores (d # s)))"

definition int_of_string :: "string \<Rightarrow> int option" where
  "int_of_string s =
     (case strip s of
        [] \<Rightarrow> None
      | c # t \<Rightarrow>
          (let neg = (c = CHR ''-''); body = (if neg \<or> c = CHR ''+'' then t else c # t) in
           case drop_underscores body of
             None \<Rightarrow> None
           | Some [] \<Rightarrow> None
           | Some ds \<Rightarrow>
               if max_str_digits < length ds then None
               else Some (if neg then - int (digits_val ds) else int (digits_val ds))))"

lemma digit_char_simps:
  "digit_char 0 = CHR ''0''" "digit_char (Suc 0) = CHR ''1''" "digit_char 1 = CHR ''1''" "digit_char 2 = CHR ''2''"
  "digit_char 3 = CHR ''3''" "digit_char 4 = CHR ''4''" "digit_char 5 = CHR ''5''" "digit_char 6 = CHR ''6''"
  "digit_char 7 = CHR ''7''" "digit_char 8 = CHR ''8''" "digit_char 9 = CHR ''9''"
  by (simp_all add: digit_char_def char_of_def bit_0)

lemma of_char_digit [simp]: "d < 10 \<Longrightarrow> ordc (digit_char d) = 48 + d"
  by (simp add: digit_char_def)

lemma is_digit_digit_char [simp]: "d < 10 \<Longrightarrow> is_digit (digit_char d)"
  by (simp add: is_digit_def)

lemma digit_val_digit_char [simp]: "d < 10 \<Longrightarrow> digit_val (digit_char d) = d"
  by (simp add: digit_val_def)

lemma nat_str_digits: "list_all is_digit (nat_str n)"
proof (induction n rule: nat_str.induct)
  case (1 n)
  then show ?case by (subst nat_str.simps) auto
qed

lemma nat_str_nonempty [simp]: "nat_str n \<noteq> []"
  by (subst nat_str.simps) simp

lemma digits_val_snoc: "digits_val (s @ [c]) = 10 * digits_val s + digit_val c"
  by (simp add: digits_val_def)

lemma digits_val_nat_str [simp]: "digits_val (nat_str n) = n"
proof (induction n rule: nat_str.induct)
  case (1 n)
  show ?case
  proof (cases "n < 10")
    case True
    then show ?thesis by (subst nat_str.simps) (simp add: digits_val_def)
  next
    case False
    with 1 show ?thesis by (subst nat_str.simps) (simp add: digits_val_snoc)
  qed
qed

lemma parse_nat_nat_str [simp]: "length (nat_str n) \<le> max_str_digits \<Longrightarrow> parse_nat (nat_str n) = Some n"
  by (simp add: parse_nat_def nat_str_digits)

lemma length_nat_str: "n < 10 ^ Suc k \<Longrightarrow> length (nat_str n) \<le> Suc k"
proof (induction k arbitrary: n)
  case 0
  then show ?case by (simp add: nat_str.simps)
next
  case (Suc k)
  then have "n div 10 < 10 ^ Suc k" by (simp add: less_mult_imp_div_less)
  with Suc.IH show ?case by (subst nat_str.simps) (simp add: le_SucI)
qed

lemma short_nat_str: "n < 10 ^ 19 \<Longrightarrow> length (nat_str n) \<le> max_str_digits"
  using length_nat_str [of n 18] by simp

lemma nat_str_inject [simp]: "nat_str m = nat_str n \<longleftrightarrow> m = n"
  by (metis digits_val_nat_str)

lemma nat_str_hd_digit: "is_digit (hd (nat_str n))"
  using nat_str_digits [of n] by (cases "nat_str n") auto

lemma is_digit_not_space: "is_digit c \<Longrightarrow> \<not> is_space c"
  by (auto simp: is_digit_def is_space_def Let_def)

lemma strip_digits: "list_all is_digit s \<Longrightarrow> strip s = s"
proof -
  assume a: "list_all is_digit s"
  have *: "dropWhile is_space t = t" if "list_all is_digit t" for t
    using that by (cases t) (auto simp: is_digit_not_space)
  from a have "list_all is_digit (rev s)" by (simp add: list_all_iff)
  with a show ?thesis by (simp add: strip_def lstrip_def *)
qed

lemma drop_underscores_digits: "list_all is_digit s \<Longrightarrow> drop_underscores s = Some s"
proof (induction s rule: drop_underscores.induct)
  case (3 c d s)
  then have "d \<noteq> CHR ''_''" by (auto simp: is_digit_def)
  with 3 show ?case by simp
qed auto

lemma int_of_string_nat_str [simp]:
  assumes "length (nat_str n) \<le> max_str_digits"
  shows "int_of_string (nat_str n) = Some (int n)"
proof -
  obtain c t where ct: "nat_str n = c # t" by (cases "nat_str n") auto
  with nat_str_digits [of n] have "is_digit c" and d: "list_all is_digit (c # t)" by auto
  then have "c \<noteq> CHR ''-''" "c \<noteq> CHR ''+''" by (auto simp: is_digit_def)
  moreover have "strip (nat_str n) = c # t" using d by (simp add: ct strip_digits)
  ultimately show ?thesis
    using d digits_val_nat_str [of n] assms
    by (simp add: int_of_string_def drop_underscores_digits ct)
qed

lemma int_str_of_nat [simp]: "int_str (int n) = nat_str n"
  by (simp add: int_str_def)

lemma int_str_nonneg: "0 \<le> i \<Longrightarrow> int_str i = nat_str (nat i)"
  by (simp add: int_str_def)

lemma nat_str_no_minus: "nat_str n \<noteq> CHR ''-'' # s"
  using nat_str_hd_digit [of n] by (auto simp: is_digit_def)

lemma int_str_inject [simp]: "int_str i = int_str j \<longleftrightarrow> i = j"
  by (auto simp: int_str_def nat_str_no_minus nat_str_no_minus [symmetric])

lemma int_str_nonempty [simp]: "int_str i \<noteq> []"
  by (simp add: int_str_def)

end
