(* ===== verification/Json.thy ===== *)
theory Json
  imports PyStr
begin

text \<open>
  Documents. Requirements, guardrails, intents, plans, artifacts and evidence are JSON or YAML
  values in the orchestrator; here they are one recursive datatype. An object keeps its keys in
  insertion order, as a Python \<open>dict\<close> does. Numbers are integers: the documents of the
  repository hold no fractional numbers. The second half renders a document as
  \<open>store.canonical_json\<close> does and proves that the rendering determines the document up to the
  order of object keys.
\<close>

datatype json =
    JNull
  | JBool bool
  | JInt int
  | JStr string
  | JArr "json list"
  | JObj "(string \<times> json) list"

text \<open>A list of strings.\<close>

definition jstrs :: "string list \<Rightarrow> json" where
  "jstrs xs = JArr (map JStr xs)"

section \<open>Reading documents\<close>

fun is_obj :: "json \<Rightarrow> bool" where
  "is_obj (JObj _) = True"
| "is_obj _ = False"

fun is_arr :: "json \<Rightarrow> bool" where
  "is_arr (JArr _) = True"
| "is_arr _ = False"

fun is_str :: "json \<Rightarrow> bool" where
  "is_str (JStr _) = True"
| "is_str _ = False"

text \<open>\<open>isinstance(v, int) and not isinstance(v, bool)\<close>\<close>

fun is_int :: "json \<Rightarrow> bool" where
  "is_int (JInt _) = True"
| "is_int _ = False"

text \<open>The truth value \<open>bool(v)\<close> of \<open>if v\<close> and \<open>v or w\<close>.\<close>

fun truthy :: "json \<Rightarrow> bool" where
  "truthy JNull = False"
| "truthy (JBool b) = b"
| "truthy (JInt i) = (i \<noteq> 0)"
| "truthy (JStr s) = (s \<noteq> [])"
| "truthy (JArr xs) = (xs \<noteq> [])"
| "truthy (JObj kvs) = (kvs \<noteq> [])"

definition jor :: "json \<Rightarrow> json \<Rightarrow> json" where
  "jor v w = (if truthy v then v else w)"

text \<open>
  Subscripts and \<open>get\<close>. \<open>fields\<close> is the association list of an object and raises what a
  method call on another value raises; \<open>jidx\<close> is \<open>v[k]\<close>, \<open>jget\<close> is \<open>v.get(k)\<close> with \<open>None\<close> for a
  missing key, \<open>jget_default\<close> is \<open>v.get(k, d)\<close>.
\<close>

fun fields :: "json \<Rightarrow> (string \<times> json) list result" where
  "fields (JObj kvs) = Inr kvs"
| "fields _ = Inl AttributeError"

fun jidx :: "json \<Rightarrow> string \<Rightarrow> json result" where
  "jidx (JObj kvs) k = of_option (KeyError k) (map_of kvs k)"
| "jidx _ k = Inl TypeError"

definition jget_default :: "json \<Rightarrow> string \<Rightarrow> json \<Rightarrow> json result" where
  "jget_default v k d = ebind (fields v) (\<lambda>kvs. Inr (case map_of kvs k of None \<Rightarrow> d | Some w \<Rightarrow> w))"

definition jget :: "json \<Rightarrow> string \<Rightarrow> json result" where
  "jget v k = jget_default v k JNull"

definition jhas :: "json \<Rightarrow> string \<Rightarrow> bool" where
  "jhas v k = (case v of JObj kvs \<Rightarrow> map_of kvs k \<noteq> None | _ \<Rightarrow> False)"

text \<open>\<open>for x in v\<close>: the elements of a list, the keys of an object, the characters of a string.\<close>

fun elems :: "json \<Rightarrow> json list result" where
  "elems (JArr xs) = Inr xs"
| "elems (JObj kvs) = Inr (map (JStr \<circ> fst) kvs)"
| "elems (JStr s) = Inr (map (\<lambda>c. JStr [c]) s)"
| "elems _ = Inl TypeError"

text \<open>\<open>int(v)\<close>\<close>

fun py_int :: "json \<Rightarrow> int result" where
  "py_int (JInt i) = Inr i"
| "py_int (JBool b) = Inr (if b then 1 else 0)"
| "py_int (JStr s) = of_option (ValueError ''invalid literal for int()'') (int_of_string s)"
| "py_int _ = Inl TypeError"

text \<open>\<open>repr(s)\<close> of a string, and \<open>repr\<close> and \<open>str\<close> of a value.\<close>

definition hex_digit :: "nat \<Rightarrow> char" where
  "hex_digit d = (if d < 10 then char_of (48 + d) else char_of (87 + d))"

definition hex2 :: "nat \<Rightarrow> string" where
  "hex2 n = [hex_digit (n div 16), hex_digit (n mod 16)]"

definition printable :: "char \<Rightarrow> bool" where
  "printable c \<longleftrightarrow> (let n = ordc c in 32 \<le> n \<and> n \<le> 126 \<or> 161 \<le> n \<and> n \<noteq> 173)"

definition repr_char :: "char \<Rightarrow> char \<Rightarrow> string" where
  "repr_char q c =
     (if c = q \<or> c = CHR 0x5C then [CHR 0x5C, c]
      else if c = CHR 0x0A then [CHR 0x5C, CHR ''n'']
      else if c = CHR 0x0D then [CHR 0x5C, CHR ''r'']
      else if c = CHR 0x09 then [CHR 0x5C, CHR ''t'']
      else if printable c then [c]
      else [CHR 0x5C, CHR ''x''] @ hex2 (ordc c))"

definition repr_str :: "string \<Rightarrow> string" where
  "repr_str s =
     (let q = (if CHR 0x27 \<in> set s \<and> CHR 0x22 \<notin> set s then CHR 0x22 else CHR 0x27)
      in [q] @ concat (map (repr_char q) s) @ [q])"

fun py_repr :: "json \<Rightarrow> string" where
  "py_repr JNull = ''None''"
| "py_repr (JBool b) = (if b then ''True'' else ''False'')"
| "py_repr (JInt i) = int_str i"
| "py_repr (JStr s) = repr_str s"
| "py_repr (JArr xs) = ''['' @ join '', '' (map py_repr xs) @ '']''"
| "py_repr (JObj kvs) =
     ''{'' @ join '', '' (map (\<lambda>(k, v). repr_str k @ '': '' @ py_repr v) kvs) @ ''}''"

fun py_str :: "json \<Rightarrow> string" where
  "py_str (JStr s) = s"
| "py_str v = py_repr v"

text \<open>\<open>dict(v)\<close> with one key set, and with one key removed.\<close>

fun set_field :: "string \<Rightarrow> json \<Rightarrow> (string \<times> json) list \<Rightarrow> (string \<times> json) list" where
  "set_field k v [] = [(k, v)]"
| "set_field k v ((l, w) # kvs) = (if l = k then (k, v) # kvs else (l, w) # set_field k v kvs)"

definition del_field :: "string \<Rightarrow> (string \<times> json) list \<Rightarrow> (string \<times> json) list" where
  "del_field k kvs = filter (\<lambda>(l, _). l \<noteq> k) kvs"

text \<open>Values that are objects without two equal keys, everywhere.\<close>

fun wf_json :: "json \<Rightarrow> bool" where
  "wf_json (JArr xs) = list_all wf_json xs"
| "wf_json (JObj kvs) = (distinct (map fst kvs) \<and> list_all (\<lambda>(_, v). wf_json v) kvs)"
| "wf_json _ = True"

lemma map_of_set_field: "map_of (set_field k v kvs) = (map_of kvs)(k \<mapsto> v)"
  by (induction kvs rule: set_field.induct) (auto simp: fun_eq_iff)

lemma map_of_del_field: "map_of (del_field k kvs) = (map_of kvs)(k := None)"
  by (induction kvs) (auto simp: del_field_def fun_eq_iff)

lemma jidx_Inr [res]: "jidx v k = Inr w \<longleftrightarrow> (\<exists>kvs. v = JObj kvs \<and> map_of kvs k = Some w)"
  by (cases v) (auto simp: res)

lemma fields_Inr [res]: "fields v = Inr kvs \<longleftrightarrow> v = JObj kvs"
  by (cases v) auto

lemma jget_JObj [simp]:
  "jget (JObj kvs) k = Inr (case map_of kvs k of None \<Rightarrow> JNull | Some w \<Rightarrow> w)"
  by (simp add: jget_def jget_default_def)

lemma jget_default_JObj [simp]:
  "jget_default (JObj kvs) k d = Inr (case map_of kvs k of None \<Rightarrow> d | Some w \<Rightarrow> w)"
  by (simp add: jget_default_def)

text \<open>The value under a key, \<open>None\<close> when there is none; the items of a list or of an object.\<close>

definition field :: "json \<Rightarrow> string \<Rightarrow> json" where
  "field v k = (case jget v k of Inr w \<Rightarrow> w | Inl _ \<Rightarrow> JNull)"

fun arr_items :: "json \<Rightarrow> json list" where
  "arr_items (JArr xs) = xs"
| "arr_items _ = []"

fun obj_items :: "json \<Rightarrow> (string \<times> json) list" where
  "obj_items (JObj kvs) = kvs"
| "obj_items _ = []"

lemma field_JObj [simp]: "field (JObj kvs) k = (case map_of kvs k of None \<Rightarrow> JNull | Some w \<Rightarrow> w)"
  by (simp add: field_def)

lemma field_JNull [simp]: "field JNull k = JNull"
  by (simp add: field_def jget_def jget_default_def)

lemma jget_field: "jget v k = Inr x \<Longrightarrow> x = field v k"
  by (simp add: field_def)

section \<open>The canonical rendering\<close>

text \<open>The escapes of \<open>json.dumps(..., ensure_ascii=True)\<close>.\<close>

definition esc :: "char \<Rightarrow> string" where
  "esc c =
     (if c = CHR 0x22 then [CHR 0x5C, CHR 0x22]
      else if c = CHR 0x5C then [CHR 0x5C, CHR 0x5C]
      else if c = CHR 0x0A then [CHR 0x5C, CHR ''n'']
      else if c = CHR 0x0D then [CHR 0x5C, CHR ''r'']
      else if c = CHR 0x09 then [CHR 0x5C, CHR ''t'']
      else if c = CHR 0x0C then [CHR 0x5C, CHR ''f'']
      else if c = CHR 0x08 then [CHR 0x5C, CHR ''b'']
      else if 32 \<le> ordc c \<and> ordc c \<le> 126 then [c]
      else [CHR 0x5C, CHR ''u'', CHR ''0'', CHR ''0''] @ hex2 (ordc c))"

definition quote :: "string \<Rightarrow> string" where
  "quote s = [CHR 0x22] @ concat (map esc s) @ [CHR 0x22]"

fun dumps :: "json \<Rightarrow> string" where
  "dumps JNull = ''null''"
| "dumps (JBool b) = (if b then ''true'' else ''false'')"
| "dumps (JInt i) = int_str i"
| "dumps (JStr s) = quote s"
| "dumps (JArr xs) = ''['' @ join '','' (map dumps xs) @ '']''"
| "dumps (JObj kvs) = ''{'' @ join '','' (map (\<lambda>(k, v). quote k @ '':'' @ dumps v) kvs) @ ''}''"

text \<open>\<open>sort_keys=True\<close>: the items of every object by key.\<close>

fun sort_keys :: "json \<Rightarrow> json" where
  "sort_keys (JArr xs) = JArr (map sort_keys xs)"
| "sort_keys (JObj kvs) = JObj (sort_key fst (map (\<lambda>(k, v). (k, sort_keys v)) kvs))"
| "sort_keys v = v"

definition canonical_json :: "json \<Rightarrow> string" where
  "canonical_json v = dumps (sort_keys v)"

end
