(* ===== verification/Sha256.thy ===== *)
theory Sha256
  imports Json "HOL-Library.Word"
begin

unbundle bit_operations_syntax

text \<open>
  \<open>hashlib.sha256\<close> of FIPS 180-4 on 32-bit words, its hexadecimal digest, and the two ways the
  orchestrator uses it: of a text in UTF-8 and of the canonical rendering of a document. Proofs
  rest on the form of a digest only, 64 lower-case hexadecimal digits, and on its being a
  function of its argument; nothing assumes that different documents have different digests.
\<close>

type_synonym w32 = "32 word"

text \<open>The fractional parts of the cube and square roots of the first primes, in decimal.\<close>

definition round_constants :: "w32 list" where
  "round_constants =
    [1116352408, 1899447441, 3049323471, 3921009573, 961987163, 1508970993, 2453635748, 2870763221,
     3624381080, 310598401, 607225278, 1426881987, 1925078388, 2162078206, 2614888103, 3248222580,
     3835390401, 4022224774, 264347078, 604807628, 770255983, 1249150122, 1555081692, 1996064986,
     2554220882, 2821834349, 2952996808, 3210313671, 3336571891, 3584528711, 113926993, 338241895,
     666307205, 773529912, 1294757372, 1396182291, 1695183700, 1986661051, 2177026350, 2456956037,
     2730485921, 2820302411, 3259730800, 3345764771, 3516065817, 3600352804, 4094571909, 275423344,
     430227734, 506948616, 659060556, 883997877, 958139571, 1322822218, 1537002063, 1747873779,
     1955562222, 2024104815, 2227730452, 2361852424, 2428436474, 2756734187, 3204031479, 3329325298]"

definition initial_hash :: "w32 list" where
  "initial_hash =
    [1779033703, 3144134277, 1013904242, 2773480762, 1359893119, 2600822924, 528734635, 1541459225]"

definition rotr :: "nat \<Rightarrow> w32 \<Rightarrow> w32" where
  "rotr n x = drop_bit n x OR push_bit (32 - n) x"

text \<open>The message schedule, newest word first, and one round on the eight working words.\<close>

fun extend_schedule :: "nat \<Rightarrow> w32 list \<Rightarrow> w32 list" where
  "extend_schedule 0 ws = ws"
| "extend_schedule (Suc n) ws =
     (let w15 = ws ! 14; w2 = ws ! 1;
          s0 = rotr 7 w15 XOR rotr 18 w15 XOR drop_bit 3 w15;
          s1 = rotr 17 w2 XOR rotr 19 w2 XOR drop_bit 10 w2
      in extend_schedule n ((ws ! 15 + s0 + ws ! 6 + s1) # ws))"

fun round_step :: "w32 list \<Rightarrow> w32 \<times> w32 \<Rightarrow> w32 list" where
  "round_step [a, b, c, d, e, f, g, h] (k, w) =
     (let s1 = rotr 6 e XOR rotr 11 e XOR rotr 25 e;
          ch = (e AND f) XOR (NOT e AND g);
          t1 = h + s1 + ch + k + w;
          s0 = rotr 2 a XOR rotr 13 a XOR rotr 22 a;
          maj = (a AND b) XOR (a AND c) XOR (b AND c);
          t2 = s0 + maj
      in [t1 + t2, a, b, c, d + t1, e, f, g])"
| "round_step hs _ = hs"

definition compress :: "w32 list \<Rightarrow> w32 list \<Rightarrow> w32 list" where
  "compress hs block =
     map2 (+) hs
       (foldl round_step hs (zip round_constants (rev (extend_schedule 48 (rev block)))))"

text \<open>Padding to whole blocks of 64 bytes, and big-endian words of four bytes.\<close>

fun be_bytes :: "nat \<Rightarrow> nat \<Rightarrow> nat list" where
  "be_bytes 0 n = []"
| "be_bytes (Suc k) n = be_bytes k (n div 256) @ [n mod 256]"

definition pad :: "nat list \<Rightarrow> nat list" where
  "pad bs = bs @ [128] @ replicate ((119 - length bs mod 64) mod 64) 0 @ be_bytes 8 (8 * length bs)"

fun words_of_bytes :: "nat list \<Rightarrow> w32 list" where
  "words_of_bytes (a # b # c # d # bs) =
     (of_nat a * 0x1000000 + of_nat b * 0x10000 + of_nat c * 0x100 + of_nat d) # words_of_bytes bs"
| "words_of_bytes _ = []"

fun hash_blocks :: "nat \<Rightarrow> w32 list \<Rightarrow> w32 list \<Rightarrow> w32 list" where
  "hash_blocks 0 hs ws = hs"
| "hash_blocks (Suc n) hs ws = hash_blocks n (compress hs (take 16 ws)) (drop 16 ws)"

definition sha256_words :: "nat list \<Rightarrow> w32 list" where
  "sha256_words bs =
     (let ws = words_of_bytes (pad bs) in hash_blocks (length ws div 16) initial_hash ws)"

definition word_hex :: "w32 \<Rightarrow> string" where
  "word_hex w = map (\<lambda>i. hex_digit (unat (drop_bit (28 - 4 * i) w AND 15))) [0..<8]"

text \<open>\<open>text.encode("utf-8")\<close> for code points below 256.\<close>

definition utf8 :: "string \<Rightarrow> nat list" where
  "utf8 s = concat (map (\<lambda>c. let n = ordc c in
     if n < 128 then [n] else [192 + n div 64, 128 + n mod 64]) s)"

definition sha256_hex :: "string \<Rightarrow> string" where
  "sha256_hex s = concat (map word_hex (sha256_words (utf8 s)))"

definition sha256_json :: "json \<Rightarrow> string" where
  "sha256_json v = sha256_hex (canonical_json v)"

section \<open>The form of a digest\<close>

lemma length_compress: "length hs = 8 \<Longrightarrow> length (compress hs ws) = 8"
proof -
  assume h: "length hs = 8"
  have step: "length (round_step as kw) = length as" for as kw
    by (induction as kw rule: round_step.induct) (simp_all add: Let_def)
  have "length (foldl round_step hs kws) = 8" for kws
    using h by (induction kws arbitrary: hs) (simp_all add: step)
  with h show ?thesis by (simp add: compress_def)
qed

lemma length_hash_blocks: "length hs = 8 \<Longrightarrow> length (hash_blocks n hs ws) = 8"
  by (induction n arbitrary: hs ws) (simp_all add: length_compress)

lemma is_hex_lower_hex_digit: "d < 16 \<Longrightarrow> is_hex_lower (hex_digit d)"
  by (auto simp: is_hex_lower_def is_digit_def hex_digit_def)

lemma unat_and_15: "unat ((w :: w32) AND 15) < 16"
proof -
  have "unat (w AND 15) \<le> unat (15 :: w32)"
    by (rule word_and_le1 [THEN word_le_nat_alt [THEN iffD1]])
  then show ?thesis by simp
qed

lemma word_hex_digits: "length (word_hex w) = 8 \<and> list_all is_hex_lower (word_hex w)"
  by (simp add: word_hex_def list_all_iff is_hex_lower_hex_digit unat_and_15)

theorem sha256_hex_form: "sha256_hex_lower (sha256_hex s)"
proof -
  let ?ws = "sha256_words (utf8 s)"
  have len: "length ?ws = 8"
    by (simp add: sha256_words_def Let_def length_hash_blocks initial_hash_def)
  have "length (concat (map word_hex ws)) = 8 * length ws" for ws
    by (induction ws) (simp_all add: word_hex_digits)
  moreover have "list_all is_hex_lower (concat (map word_hex ws))" for ws
    by (induction ws) (simp_all add: word_hex_digits)
  ultimately show ?thesis by (simp add: sha256_hex_lower_def sha256_hex_def len)
qed

lemma sha256_json_form [simp]: "sha256_hex_lower (sha256_json v)"
  by (simp add: sha256_json_def sha256_hex_form)

lemma sha256_json_any [simp]: "sha256_hex_any (sha256_json v)"
  by (simp add: sha256_hex_lower_any)

lemma length_sha256_json [simp]: "length (sha256_json v) = 64"
  using sha256_json_form [of v] by (simp add: sha256_hex_lower_def)

lemma length_sha256_hex [simp]: "length (sha256_hex s) = 64"
  using sha256_hex_form [of s] by (simp add: sha256_hex_lower_def)

lemma sha256_json_nonempty [simp]: "sha256_json v \<noteq> []"
  by (metis length_sha256_json list.size(3) zero_neq_numeral)

end
