(* ===== verification/Reconcile.thy ===== *)
theory Reconcile
  imports Sha256 "HOL-Library.AList"
begin

text \<open>
  \<open>reconciliation.py\<close>, apart from the builder of the candidate manifest: the validation of
  owned-state manifests and baselines, and the reconciliation plan that removes what a trusted
  baseline owns and the candidate does not. The regular expressions of the module are lists of
  literal and repeated-class items with the full-match semantics of \<open>Pattern.fullmatch\<close>.
\<close>

section \<open>Patterns\<close>

datatype pat = Lit string | Plus "char \<Rightarrow> bool"

function rmatch :: "pat list \<Rightarrow> string \<Rightarrow> bool" where
  "rmatch [] s = (s = [])"
| "rmatch (Lit p # ps) s = (starts_with s p \<and> rmatch ps (drop (length p) s))"
| "rmatch (Plus c # ps) [] = False"
| "rmatch (Plus c # ps) (x # s) = (c x \<and> (rmatch ps s \<or> rmatch (Plus c # ps) s))"
  by pat_completeness auto
termination by (relation "measure (\<lambda>(ps, s). length ps + length s)") auto

text \<open>\<open>[A-Za-z0-9_.:-]\<close>, with the further characters of a class as a string.\<close>

definition in_class :: "string \<Rightarrow> char \<Rightarrow> bool" where
  "in_class extra c \<longleftrightarrow> is_alnum c \<or> c \<in> set extra"

definition name_class :: "char \<Rightarrow> bool" where "name_class = in_class ''_.:-''"

definition addr_class :: "char \<Rightarrow> bool" where
  "addr_class c \<longleftrightarrow> is_digit c \<or> c = CHR ''.''"

text \<open>\<open>(?:no )?interface (?:Loopback\d+|LISP0\.\d+|Vlan\d+|[A-Za-z][A-Za-z0-9./-]*)\<close>\<close>

definition safe_interface :: "string \<Rightarrow> bool" where
  "safe_interface s \<longleftrightarrow>
     (\<exists>pre \<in> {''no interface '', ''interface ''}.
        rmatch [Lit (pre @ ''Loopback''), Plus is_digit] s
      \<or> rmatch [Lit (pre @ ''LISP0.''), Plus is_digit] s
      \<or> rmatch [Lit (pre @ ''Vlan''), Plus is_digit] s
      \<or> (starts_with s pre \<and>
          (case drop (length pre) s of [] \<Rightarrow> False
           | c # t \<Rightarrow> (is_upper c \<or> is_lower c) \<and> list_all (in_class ''./-'') t)))"

definition safe_remove_patterns :: "pat list list" where
  "safe_remove_patterns =
     [[Lit '' no ip pim passive''],
      [Lit '' no ip igmp version 3''],
      [Lit '' no ip igmp explicit-tracking''],
      [Lit '' no ip pim sparse-mode''],
      [Lit ''no ip multicast-routing vrf '', Plus name_class],
      [Lit ''no ip access-list standard '', Plus name_class],
      [Lit ''no ip pim vrf '', Plus name_class, Lit '' ssm range '', Plus name_class],
      [Lit ''no ip pim vrf '', Plus name_class, Lit '' register-source Loopback'', Plus is_digit],
      [Lit ''no ip pim vrf '', Plus name_class, Lit '' rp-address '', Plus addr_class, Lit '' '', Plus name_class],
      [Lit ''no ip msdp peer '', Plus addr_class, Lit '' connect-source Loopback0''],
      [Lit ''no ip msdp cache-sa-state''],
      [Lit ''no ip msdp originator-id Loopback0''],
      [Lit ''router lisp''],
      [Lit '' instance-id '', Plus is_digit],
      [Lit ''  service ipv4''],
      [Lit ''  service ethernet''],
      [Lit ''   no database-mapping '', Plus addr_class, Lit ''/32 locator-set '', Plus (in_class ''_.:/-'')],
      [Lit ''   no broadcast-underlay '', Plus addr_class],
      [Lit ''   exit-service-ipv4''],
      [Lit ''   exit-service-ethernet''],
      [Lit ''  exit-instance-id''],
      [Lit '' exit-router-lisp'']]"

definition safe_remove :: "string \<Rightarrow> bool" where
  "safe_remove s \<longleftrightarrow> safe_interface s \<or> list_ex (\<lambda>p. rmatch p s) safe_remove_patterns"

definition owned_resource_kinds :: "string list" where
  "owned_resource_kinds =
     [''multicast_rp_loopback'', ''msdp_peer'', ''msdp_global'', ''multicast_routing'', ''overlay_acl'',
      ''overlay_policy'', ''segment_loopback'', ''lisp_interface'', ''lisp_mapping'', ''edge_svi'',
      ''handoff_pim'', ''l2_bum'']"

definition device_descriptor_fields :: "string list" where
  "device_descriptor_fields =
     [''id'', ''hostname'', ''site'', ''platform'', ''software_version'', ''management_ip'',
      ''dashboard_management_ip'', ''loopback0_ip'', ''roles'', ''credential_ref'', ''bgp_asn'']"

definition required_descriptor_fields :: "string list" where
  "required_descriptor_fields =
     [''id'', ''hostname'', ''platform'', ''software_version'', ''management_ip'', ''roles'', ''credential_ref'']"

definition safe_show_command :: "string \<Rightarrow> bool" where
  "safe_show_command s \<longleftrightarrow> s \<noteq> [] \<and> list_all (in_class '' ._:/|^$-'') s"

section \<open>Resources\<close>

definition commands_hash :: "string list \<Rightarrow> string" where
  "commands_hash commands = sha256_json (JArr (map JStr commands))"

definition resource ::
    "string \<Rightarrow> string \<Rightarrow> string list \<Rightarrow> string list \<Rightarrow> string \<Rightarrow> string list \<Rightarrow> int \<Rightarrow> json" where
  "resource key kind configured_lines remove_commands gate_command forbidden_lines remove_order =
     (let state = [(''configured_lines'', jstrs configured_lines),
                   (''remove_commands'', jstrs remove_commands),
                   (''gate_command'', JStr gate_command),
                   (''forbidden_lines'', jstrs forbidden_lines)] in
      JObj ([(''key'', JStr key), (''kind'', JStr kind)] @ state @
            [(''remove_order'', JInt remove_order),
             (''state_hash'', JStr (sha256_json (JObj state))),
             (''remove_command_hash'', JStr (commands_hash remove_commands))]))"

section \<open>Validation of a manifest\<close>

abbreviation rec_err :: "string \<Rightarrow> exn" where "rec_err \<equiv> ReconciliationError"

definition validate_remove_command :: "string \<Rightarrow> unit result" where
  "validate_remove_command command =
     (ebind (raise_if (has_break command \<or> contains command ''<secret:'')
           (rec_err ''Unsafe owned-state removal command'')) (\<lambda>_.
        raise_if (\<not> safe_remove command)
           (rec_err (''Unsupported owned-state removal command: '' @ command))))"

definition validate_remove_commands :: "json \<Rightarrow> string list result" where
  "validate_remove_commands commands =
     (case commands of
        JArr (c # cs) \<Rightarrow>
          (let normalized = map py_str (c # cs) in
           (ebind (mapE validate_remove_command normalized) (\<lambda>_.
              ebind (raise_if (\<not> list_ex (\<lambda>l. starts_with (lstrip l) ''no '') normalized)
                 (rec_err ''Removal block contains no negation'')) (\<lambda>_.
              Inr normalized))))
      | _ \<Rightarrow> Inl (rec_err ''Owned resource removal commands are required''))"

text \<open>\<open>isinstance(v, str) and v and no line break\<close>, for descriptor fields and lines.\<close>

definition is_text :: "json \<Rightarrow> bool" where
  "is_text v = (case v of JStr s \<Rightarrow> s \<noteq> [] \<and> \<not> has_break s | _ \<Rightarrow> False)"

definition validate_descriptor :: "string \<Rightarrow> json \<Rightarrow> unit result" where
  "validate_descriptor device_id descriptor =
     (case descriptor of
        JObj kvs \<Rightarrow>
          (ebind (raise_if (py_str (case map_of kvs ''id'' of None \<Rightarrow> JNull | Some v \<Rightarrow> v) \<noteq> device_id)
                (rec_err ''Owned-state device descriptor is invalid'')) (\<lambda>_.
             ebind (raise_if (\<not> list_all (\<lambda>k. k \<in> set device_descriptor_fields) (map fst kvs))
                (rec_err ''Owned-state device descriptor has unsupported fields'')) (\<lambda>_.
             let missing = filter (\<lambda>k. map_of kvs k = None) required_descriptor_fields in
             ebind (raise_if (missing \<noteq> [])
                (rec_err (''Owned-state device descriptor is missing required fields: ''
                   @ join '', '' (sort missing)))) (\<lambda>_.
             ebind (mapE (\<lambda>f. (ebind (jidx descriptor f) (\<lambda>v.
                 raise_if (\<not> is_text v)
                              (rec_err (''Owned-state device descriptor field '' @ f @ '' is invalid'')))))
                [''id'', ''hostname'', ''platform'', ''software_version'', ''management_ip'']) (\<lambda>_.
             ebind (jidx descriptor ''roles'') (\<lambda>roles.
             ebind (raise_if (case roles of JArr (r # rs) \<Rightarrow> \<not> list_all (\<lambda>r. is_str r \<and> truthy r) (r # rs) | _ \<Rightarrow> True)
                (rec_err ''Owned-state device roles are invalid'')) (\<lambda>_.
             ebind (jget_default descriptor ''credential_ref'' (JStr [])) (\<lambda>cred.
             raise_if (\<not> starts_with (py_str cred) ''secret://'')
                (rec_err ''Owned-state device credential must be a secret reference'')))))))))
      | _ \<Rightarrow> Inl (rec_err ''Owned-state device descriptor is invalid''))"

definition validate_config_line :: "json \<Rightarrow> unit result" where
  "validate_config_line line =
     (ebind (raise_if (\<not> is_text line) (rec_err ''Owned-state configuration line is invalid'')) (\<lambda>_.
        raise_if (contains (py_str line) ''<secret:'')
           (rec_err ''Owned-state configuration line contains a secret'')))"

definition validate_lines :: "json \<Rightarrow> string \<Rightarrow> json list result" where
  "validate_lines v message =
     (case v of JArr (l # ls) \<Rightarrow> Inr (l # ls) | _ \<Rightarrow> Inl (rec_err message))"

definition validate_resource :: "json \<Rightarrow> string result" where
  "validate_resource item =
     (ebind (raise_if (\<not> is_obj item) (rec_err ''Owned-state resource must be an object'')) (\<lambda>_.
        ebind (jget_default item ''key'' (JStr [])) (\<lambda>kv.
        let key = py_str kv in
        ebind (raise_if (key = [] \<or> \<not> list_all name_class key) (rec_err ''Owned-state resource key is invalid'')) (\<lambda>_.
        ebind (jget_default item ''kind'' (JStr [])) (\<lambda>kind.
        ebind (raise_if (py_str kind \<notin> set owned_resource_kinds)
           (rec_err ''Owned-state resource kind is unsupported'')) (\<lambda>_.
        ebind (jget item ''remove_commands'') (\<lambda>rc.
        ebind (validate_remove_commands rc) (\<lambda>commands.
        ebind (jget_default item ''remove_command_hash'' (JStr [])) (\<lambda>rch.
        ebind (raise_if (commands_hash commands \<noteq> py_str rch)
           (rec_err ''Owned-state removal command hash is invalid'')) (\<lambda>_.
        ebind (jget item ''configured_lines'') (\<lambda>configured.
        ebind (jget item ''gate_command'') (\<lambda>gate.
        ebind (jget item ''forbidden_lines'') (\<lambda>forbidden.
        ebind (jget_default item ''state_hash'' (JStr [])) (\<lambda>sh.
        ebind (raise_if (sha256_json (JObj [(''configured_lines'', configured), (''remove_commands'', jstrs commands),
                     (''gate_command'', gate), (''forbidden_lines'', forbidden)]) \<noteq> py_str sh)
           (rec_err ''Owned-state resource hash is invalid'')) (\<lambda>_.
        ebind (validate_lines configured ''Owned-state configured lines are required'') (\<lambda>cl.
        ebind (validate_lines forbidden ''Owned-state absence gate is required'') (\<lambda>fl.
        ebind (mapE validate_config_line (cl @ fl)) (\<lambda>_.
        ebind (jget_default item ''gate_command'' (JStr [])) (\<lambda>gate_text.
        ebind (raise_if (\<not> starts_with (py_str gate_text) ''show running-config '' \<or> \<not> safe_show_command (py_str gate_text))
           (rec_err ''Owned-state gate command is invalid'')) (\<lambda>_.
        Inr key))))))))))))))))))))"

definition validate_device :: "string \<times> json \<Rightarrow> unit result" where
  "validate_device d =
     (case d of (device_id, device) \<Rightarrow>
        (ebind (raise_if (\<not> is_obj device \<or> \<not> (case jget device ''resources'' of Inr v \<Rightarrow> is_arr v | Inl _ \<Rightarrow> False))
              (rec_err ''Owned-state device resources are invalid'')) (\<lambda>_.
           ebind (jget device ''device'') (\<lambda>descriptor.
           ebind (validate_descriptor device_id descriptor) (\<lambda>_.
           ebind (jidx device ''resources'') (\<lambda>resources.
           ebind (elems resources) (\<lambda>items.
           ebind (mapE validate_resource items) (\<lambda>keys.
           raise_if (\<not> distinct keys)
              (rec_err (''Duplicate owned-state resource key on '' @ device_id))))))))))"

definition validate_owned_state :: "json \<Rightarrow> string option \<Rightarrow> unit result" where
  "validate_owned_state manifest fabric_id =
     (ebind (jget manifest ''owned_state_schema_version'') (\<lambda>version.
        ebind (raise_if (py_str version \<noteq> ''1.0'') (rec_err ''Unsupported owned-state manifest version'')) (\<lambda>_.
        ebind (jget manifest ''scope'') (\<lambda>scope.
        ebind (raise_if (scope \<noteq> JStr ''multicast'') (rec_err ''Owned-state manifest scope must be multicast'')) (\<lambda>_.
        ebind (jget manifest ''fabric_id'') (\<lambda>fab.
        ebind (raise_if (case fabric_id of None \<Rightarrow> False | Some f \<Rightarrow> py_str fab \<noteq> f)
           (rec_err ''Owned-state manifest belongs to another fabric'')) (\<lambda>_.
        ebind (jget_default manifest ''manifest_hash'' (JStr [])) (\<lambda>supplied.
        ebind (fields manifest) (\<lambda>body.
        ebind (raise_if (\<not> sha256_hex_any (py_str supplied)
                   \<or> sha256_json (JObj (del_field ''manifest_hash'' body)) \<noteq> py_str supplied)
           (rec_err ''Owned-state manifest hash is invalid'')) (\<lambda>_.
        ebind (jget manifest ''devices'') (\<lambda>devices.
        (case devices of
            JObj ds \<Rightarrow> ebind (mapE validate_device ds) (\<lambda>_. Inr ())
          | _ \<Rightarrow> Inl (rec_err ''Owned-state devices must be an object'')))))))))))))"

section \<open>Baselines\<close>

definition opt_text_field :: "string \<Rightarrow> string option \<Rightarrow> (string \<times> json) list" where
  "opt_text_field k v = (case v of None \<Rightarrow> [] | Some s \<Rightarrow> (if s = [] then [] else [(k, JStr s)]))"

definition make_baseline ::
    "json \<Rightarrow> string \<Rightarrow> string \<Rightarrow> string option \<Rightarrow> string option \<Rightarrow> json result" where
  "make_baseline manifest source_type source_reference source_artifact_hash evidence_hash =
     (ebind (validate_owned_state manifest None) (\<lambda>_.
        ebind (raise_if (source_type \<notin> {''successful_apply'', ''adopted_discovery''})
           (rec_err ''Unsupported owned-state baseline source'')) (\<lambda>_.
        ebind (raise_if (source_reference = []) (rec_err ''Owned-state baseline source reference is required'')) (\<lambda>_.
        ebind (jidx manifest ''manifest_hash'') (\<lambda>mh.
        let body = [(''baseline_schema_version'', JStr ''1.0''), (''source_type'', JStr source_type),
                     (''source_reference'', JStr source_reference), (''manifest'', manifest),
                     (''manifest_hash'', JStr (py_str mh))]
                    @ opt_text_field ''source_artifact_hash'' source_artifact_hash
                    @ opt_text_field ''evidence_hash'' evidence_hash in
        Inr (JObj (body @ [(''baseline_hash'', JStr (sha256_json (JObj body)))])))))))"

definition validate_baseline :: "json \<Rightarrow> string \<Rightarrow> unit result" where
  "validate_baseline baseline fabric_id =
     (ebind (jget baseline ''baseline_schema_version'') (\<lambda>version.
        ebind (raise_if (py_str version \<noteq> ''1.0'') (rec_err ''Unsupported owned-state baseline version'')) (\<lambda>_.
        ebind (jget_default baseline ''source_type'' (JStr [])) (\<lambda>st.
        let source_type = py_str st in
        ebind (raise_if (source_type \<notin> {''successful_apply'', ''adopted_discovery''})
           (rec_err ''Unsupported owned-state baseline source'')) (\<lambda>_.
        ebind (jget_default baseline ''source_reference'' (JStr [])) (\<lambda>sr.
        ebind (raise_if (py_str sr = []) (rec_err ''Owned-state baseline source reference is required'')) (\<lambda>_.
        ebind (fields baseline) (\<lambda>body.
        ebind (jget_default baseline ''baseline_hash'' (JStr [])) (\<lambda>bh.
        ebind (raise_if (\<not> sha256_hex_any (py_str bh)
                   \<or> sha256_json (JObj (del_field ''baseline_hash'' body)) \<noteq> py_str bh)
           (rec_err ''Owned-state baseline hash is invalid'')) (\<lambda>_.
        ebind (jget baseline ''manifest'') (\<lambda>manifest.
        ebind (raise_if (\<not> is_obj manifest) (rec_err ''Owned-state baseline manifest is required'')) (\<lambda>_.
        ebind (validate_owned_state manifest (Some fabric_id)) (\<lambda>_.
        ebind (jget baseline ''manifest_hash'') (\<lambda>bmh.
        ebind (jget manifest ''manifest_hash'') (\<lambda>mmh.
        ebind (raise_if (py_str bmh \<noteq> py_str mmh) (rec_err ''Owned-state baseline manifest hash does not match'')) (\<lambda>_.
        ebind (jget_default baseline ''source_artifact_hash'' (JStr [])) (\<lambda>sah.
        ebind (raise_if (source_type = ''successful_apply'' \<and> \<not> sha256_hex_any (py_str sah))
           (rec_err ''Successful-apply baseline requires an artifact hash'')) (\<lambda>_.
        ebind (jget_default baseline ''evidence_hash'' (JStr [])) (\<lambda>eh.
        raise_if (source_type = ''adopted_discovery'' \<and> \<not> sha256_hex_any (py_str eh))
           (rec_err ''Adopted baseline requires discovery evidence''))))))))))))))))))))"

section \<open>The reconciliation plan\<close>

type_synonym resource_index = "((string \<times> string) \<times> json) list"

text \<open>The loop that indexes a manifest's resources by device and key.\<close>

definition index_device :: "resource_index \<Rightarrow> string \<times> json \<Rightarrow> resource_index result" where
  "index_device ix d =
     (case d of (device_id, device) \<Rightarrow>
        (ebind (jget_default device ''resources'' (JArr [])) (\<lambda>rs.
           ebind (elems rs) (\<lambda>items.
           foldE (\<lambda>ix item. (ebind (jidx item ''key'') (\<lambda>k.
               Inr (AList.update (device_id, py_str k) item ix)))) ix items))))"

definition resource_index :: "json \<Rightarrow> resource_index result" where
  "resource_index manifest =
     (ebind (jget_default manifest ''devices'' (JObj [])) (\<lambda>devices.
        ebind (fields devices) (\<lambda>ds.
        foldE index_device [] ds)))"

definition is_stale :: "resource_index \<Rightarrow> (string \<times> string) \<times> json \<Rightarrow> bool result" where
  "is_stale current entry =
     (case entry of (key, item) \<Rightarrow>
        (case map_of current key of
           None \<Rightarrow> Inr True
         | Some now_item \<Rightarrow>
             (ebind (jidx now_item ''state_hash'') (\<lambda>h.
                ebind (jidx item ''state_hash'') (\<lambda>h'.
                Inr (py_str h \<noteq> py_str h'))))))"

text \<open>The sort key: device, falling removal order, resource key.\<close>

definition removal_key ::
    "(string \<times> string) \<times> json \<Rightarrow> ((string \<times> int \<times> string) \<times> (string \<times> string) \<times> json) result" where
  "removal_key entry =
     (case entry of ((device_id, key), item) \<Rightarrow>
        (ebind (jget_default item ''remove_order'' (JInt 0)) (\<lambda>o'.
           ebind (py_int o') (\<lambda>order.
           Inr ((device_id, - order, key), entry)))))"

record removal =
  rm_device :: string
  rm_key :: string
  rm_commands :: "json list"
  rm_command_hash :: string
  rm_gate_command :: string
  rm_forbidden :: "json list"

definition removal_of :: "(string \<times> string) \<times> json \<Rightarrow> removal result" where
  "removal_of entry =
     (case entry of ((device_id, key), item) \<Rightarrow>
        (ebind (jidx item ''remove_commands'') (\<lambda>rc.
           ebind (elems rc) (\<lambda>commands.
           ebind (jidx item ''remove_command_hash'') (\<lambda>ch.
           ebind (jidx item ''gate_command'') (\<lambda>g.
           ebind (jidx item ''forbidden_lines'') (\<lambda>f.
           ebind (elems f) (\<lambda>forbidden.
           Inr \<lparr>rm_device = device_id, rm_key = key, rm_commands = commands,
                 rm_command_hash = py_str ch, rm_gate_command = py_str g, rm_forbidden = forbidden\<rparr>))))))))"

definition removal_block :: "removal \<Rightarrow> json" where
  "removal_block r =
     JObj [(''block_id'', JStr (''reconcile_'' @ take 16 (sha256_json (JArr [JStr (rm_device r), JStr (rm_key r)])))),
           (''owned_resource_key'', JStr (rm_key r)),
           (''commands'', JArr (rm_commands r)),
           (''command_hash'', JStr (rm_command_hash r)),
           (''secret_refs'', JArr [])]"

definition removal_gate :: "removal \<Rightarrow> json" where
  "removal_gate r =
     JObj [(''gate_id'', JStr (''reconcile.absent.'' @ rm_device r @ ''.'' @ take 12 (sha256_json (JStr (rm_key r))))),
           (''phase_id'', JStr ''multicast_reconciliation''),
           (''device_id'', JStr (rm_device r)),
           (''command'', JStr (rm_gate_command r)),
           (''evaluator'', JStr ''config_lines_absent''),
           (''expected'', JObj [(''lines'', JArr (rm_forbidden r))]),
           (''blocking'', JBool True),
           (''owned_resource_key'', JStr (rm_key r))]"

record device_removals =
  dr_device :: json
  dr_removals :: "removal list"

type_synonym removal_plan = "(string \<times> device_removals) list"

text \<open>\<open>setdefault\<close> and the two appends.\<close>

definition add_removal :: "json \<Rightarrow> removal_plan \<Rightarrow> (string \<times> string) \<times> json \<Rightarrow> removal_plan result" where
  "add_removal previous devices entry =
     (let device_id = fst (fst entry) in
      (ebind (jidx previous ''devices'') (\<lambda>ds.
         ebind (jidx ds device_id) (\<lambda>pd.
         ebind (jidx pd ''device'') (\<lambda>descriptor.
         ebind (removal_of entry) (\<lambda>r.
         let old = (case map_of devices device_id of
                       None \<Rightarrow> \<lparr>dr_device = descriptor, dr_removals = []\<rparr> | Some d \<Rightarrow> d) in
         Inr (AList.update device_id (old\<lparr>dr_removals := dr_removals old @ [r]\<rparr>) devices)))))))"

text \<open>The stale resources in the order they are removed, and the plan by device.\<close>

definition stale_resources :: "json \<Rightarrow> json \<Rightarrow> ((string \<times> string) \<times> json) list result" where
  "stale_resources previous current =
     (ebind (resource_index previous) (\<lambda>prev_ix.
        ebind (resource_index current) (\<lambda>cur_ix.
        ebind (filterE (is_stale cur_ix) prev_ix) (\<lambda>stale.
        ebind (mapE removal_key stale) (\<lambda>keyed.
        Inr (map snd (sort_key fst keyed)))))))"

definition removal_plan_json :: "removal_plan \<Rightarrow> json" where
  "removal_plan_json devices =
     JObj (map (\<lambda>(d, v). (d, JObj [(''device'', dr_device v),
                                   (''blocks'', JArr (map removal_block (dr_removals v))),
                                   (''gates'', JArr (map removal_gate (dr_removals v)))])) devices)"

definition plan_removals :: "json \<Rightarrow> json \<Rightarrow> (nat \<times> removal_plan) result" where
  "plan_removals previous current =
     (ebind (stale_resources previous current) (\<lambda>stale.
        ebind (foldE (add_removal previous) [] stale) (\<lambda>devices.
        Inr (length stale, devices))))"

definition build_multicast_reconciliation :: "json option \<Rightarrow> json \<Rightarrow> json result" where
  "build_multicast_reconciliation baseline current_manifest =
     (ebind (validate_owned_state current_manifest None) (\<lambda>_.
        (case baseline of
            None \<Rightarrow> Inr (JObj [(''status'', JStr ''baseline_missing''), (''baseline_hash'', JNull),
                              (''stale_resource_count'', JInt 0), (''devices'', JObj [])])
          | Some base \<Rightarrow>
              (ebind (jidx current_manifest ''fabric_id'') (\<lambda>fid.
                 ebind (validate_baseline base (py_str fid)) (\<lambda>_.
                 ebind (jidx base ''manifest'') (\<lambda>previous.
                 ebind (plan_removals previous current_manifest) (\<lambda>(count, devices).
                 ebind (jidx base ''baseline_hash'') (\<lambda>bh.
                 ebind (jidx previous ''manifest_hash'') (\<lambda>pmh.
                 ebind (jidx current_manifest ''manifest_hash'') (\<lambda>cmh.
                 let body = [(''status'', JStr ''ready''), (''baseline_hash'', JStr (py_str bh)),
                              (''previous_manifest_hash'', JStr (py_str pmh)),
                              (''current_manifest_hash'', JStr (py_str cmh)),
                              (''stale_resource_count'', JInt (int count)),
                              (''devices'', removal_plan_json devices)] in
                 Inr (JObj (body @ [(''reconciliation_hash'', JStr (sha256_json (JObj body)))])))))))))))))"

end
