(* ===== verification/ReconcileSpec.thy ===== *)
theory ReconcileSpec
  imports Reconcile
begin

text \<open>
  What reconciliation promises: on validated manifests the plan removes exactly the resources
  the baseline owns that the candidate no longer owns in the same state, in falling removal
  order on each device, with commands that all match the allowed patterns.
\<close>

section \<open>Owned resources of a manifest\<close>

text \<open>Device, key and record of every resource, in document order.\<close>

definition device_resources :: "string \<times> json \<Rightarrow> resource_index" where
  "device_resources d =
     map (\<lambda>item. ((fst d, py_str (field item ''key'')), item)) (arr_items (field (snd d) ''resources''))"

definition owned_resources :: "json \<Rightarrow> resource_index" where
  "owned_resources manifest = concat (map device_resources (obj_items (field manifest ''devices'')))"

lemma wf_json_map_of: "wf_json (JObj kvs) \<Longrightarrow> map_of kvs k = Some v \<Longrightarrow> wf_json v"
  by (auto simp: list_all_iff dest!: map_of_SomeD)

section \<open>What validation guarantees\<close>

lemma validate_remove_commandsD:
  assumes "validate_remove_commands v = Inr cmds"
  obtains c cs where "v = JArr (c # cs)" "cmds = map py_str (c # cs)"
    "\<forall>l \<in> set cmds. safe_remove l \<and> \<not> has_break l \<and> \<not> contains l ''<secret:''"
    "\<exists>l \<in> set cmds. starts_with (lstrip l) ''no ''"
proof -
  from assms obtain c cs where v: "v = JArr (c # cs)"
    by (auto simp: validate_remove_commands_def split: json.splits list.splits)
  define xs where "xs = map py_str (c # cs)"
  from assms have "ebind (mapE validate_remove_command xs) (\<lambda>_. ebind (raise_if (\<not> list_ex (\<lambda>l. starts_with (lstrip l) ''no '') xs)
      (rec_err ''Removal block contains no negation'')) (\<lambda>_. Inr xs)) = Inr cmds"
    unfolding validate_remove_commands_def v xs_def by (simp only: json.case list.case Let_def)
  then obtain ys where *: "v = JArr (c # cs)" "cmds = map py_str (c # cs)"
      "mapE validate_remove_command cmds = Inr ys" "list_ex (\<lambda>l. starts_with (lstrip l) ''no '') cmds"
    by (auto simp only: res v xs_def not_not)
  have "safe_remove l \<and> \<not> has_break l \<and> \<not> contains l ''<secret:''" if "l \<in> set cmds" for l
    using mapE_Inr_setD [OF *(3) that] by (auto simp: validate_remove_command_def res)
  with * show thesis by (intro that) (auto simp only: list_ex_iff)
qed

lemma validate_linesD:
  "validate_lines v m = Inr ls \<Longrightarrow> v = JArr ls \<and> ls \<noteq> []"
  by (auto simp: validate_lines_def split: json.splits list.splits)

lemma validate_resourceD:
  assumes "validate_resource item = Inr key"
  shows "is_obj item" and "py_str (field item ''key'') = key" and "key \<noteq> []"
    and "jidx item ''key'' = Inr (field item ''key'')"
    and "jidx item ''state_hash'' = Inr (field item ''state_hash'')"
    and "jidx item ''remove_command_hash'' = Inr (field item ''remove_command_hash'')"
    and "jidx item ''gate_command'' = Inr (field item ''gate_command'')"
    and "validate_remove_commands (field item ''remove_commands'') =
           Inr (map py_str (arr_items (field item ''remove_commands'')))"
    and "jidx item ''remove_commands'' = Inr (JArr (arr_items (field item ''remove_commands'')))"
    and "jidx item ''forbidden_lines'' = Inr (JArr (arr_items (field item ''forbidden_lines'')))"
    and "arr_items (field item ''forbidden_lines'') \<noteq> []"
    and "py_str (field item ''remove_command_hash'') =
           commands_hash (map py_str (arr_items (field item ''remove_commands'')))"
proof -
  obtain kvs where item: "item = JObj kvs"
    using assms by (cases item) (auto simp: validate_resource_def)
  note D = assms [unfolded item validate_resource_def, simplified Let_def, simplified res is_obj.simps
      jget_JObj jget_default_JObj]
  from D obtain cmds cl fl where
    key: "py_str (case map_of kvs ''key'' of None \<Rightarrow> JStr [] | Some w \<Rightarrow> w) = key" "key \<noteq> []"
    and cmds: "validate_remove_commands (case map_of kvs ''remove_commands'' of None \<Rightarrow> JNull | Some w \<Rightarrow> w) = Inr cmds"
    and ch: "commands_hash cmds = py_str (case map_of kvs ''remove_command_hash'' of None \<Rightarrow> JStr [] | Some w \<Rightarrow> w)"
    and sh: "\<exists>v. sha256_json v = py_str (case map_of kvs ''state_hash'' of None \<Rightarrow> JStr [] | Some w \<Rightarrow> w)"
    and fl: "validate_lines (case map_of kvs ''forbidden_lines'' of None \<Rightarrow> JNull | Some w \<Rightarrow> w)
               ''Owned-state absence gate is required'' = Inr fl"
    and g: "starts_with (py_str (case map_of kvs ''gate_command'' of None \<Rightarrow> JStr [] | Some w \<Rightarrow> w)) ''show running-config ''"
    by auto
  show "is_obj item" by (simp add: item)
  from key have k: "map_of kvs ''key'' \<noteq> None" by (auto split: option.splits)
  then show "py_str (field item ''key'') = key" "jidx item ''key'' = Inr (field item ''key'')"
    using key by (auto simp: item)
  show "key \<noteq> []" by (rule key)
  have "map_of kvs ''state_hash'' \<noteq> None"
  proof
    assume "map_of kvs ''state_hash'' = None"
    with sh obtain v where "sha256_json v = []" by auto
    then show False by (metis length_sha256_json list.size(3) zero_neq_numeral)
  qed
  then show "jidx item ''state_hash'' = Inr (field item ''state_hash'')" by (auto simp: item)
  have m: "map_of kvs ''remove_command_hash'' \<noteq> None"
  proof
    assume "map_of kvs ''remove_command_hash'' = None"
    with ch have "commands_hash cmds = []" by simp
    then show False by (metis commands_hash_def length_sha256_json list.size(3) zero_neq_numeral)
  qed
  then show "jidx item ''remove_command_hash'' = Inr (field item ''remove_command_hash'')"
    by (auto simp: item)
  from g have "map_of kvs ''gate_command'' \<noteq> None"
    by (auto simp: starts_with_def split: option.splits)
  then show "jidx item ''gate_command'' = Inr (field item ''gate_command'')" by (auto simp: item)
  from validate_remove_commandsD [OF cmds] obtain c cs where
    c: "(case map_of kvs ''remove_commands'' of None \<Rightarrow> JNull | Some w \<Rightarrow> w) = JArr (c # cs)"
       "cmds = map py_str (c # cs)" by metis
  then have rc: "map_of kvs ''remove_commands'' = Some (JArr (c # cs))" by (auto split: option.splits)
  show "validate_remove_commands (field item ''remove_commands'') =
      Inr (map py_str (arr_items (field item ''remove_commands'')))"
    using cmds c rc by (simp add: item)
  show "jidx item ''remove_commands'' = Inr (JArr (arr_items (field item ''remove_commands'')))"
    using rc by (simp add: item)
  from validate_linesD [OF fl] have f: "map_of kvs ''forbidden_lines'' = Some (JArr fl)" "fl \<noteq> []"
    by (auto split: option.splits)
  then show "jidx item ''forbidden_lines'' = Inr (JArr (arr_items (field item ''forbidden_lines'')))"
    and "arr_items (field item ''forbidden_lines'') \<noteq> []"
    by (simp_all add: item)
  show "py_str (field item ''remove_command_hash'') =
      commands_hash (map py_str (arr_items (field item ''remove_commands'')))"
    using ch m c rc by (auto simp: item)
qed

lemma validate_deviceD:
  assumes "validate_device (d, dev) = Inr u"
  shows "is_obj dev" and "jget_default dev ''resources'' (JArr []) = Inr (JArr (arr_items (field dev ''resources'')))"
    and "mapE validate_resource (arr_items (field dev ''resources'')) = Inr (map (snd \<circ> fst) (device_resources (d, dev)))"
    and "distinct (map fst (device_resources (d, dev)))"
    and "jidx dev ''device'' = Inr (field dev ''device'')" and "is_obj (field dev ''device'')"
    and "py_str (field (field dev ''device'') ''id'') = d"
proof -
  obtain kvs where dev: "dev = JObj kvs"
    using assms by (cases dev) (auto simp: validate_device_def)
  from assms obtain rs keys desc where
    rs: "map_of kvs ''resources'' = Some rs" "is_arr rs"
    and desc: "jget dev ''device'' = Inr desc" "validate_descriptor d desc = Inr ()"
    and keys: "mapE validate_resource (arr_items rs) = Inr keys" "distinct keys"
    by (auto simp: validate_device_def dev res split: option.splits elim!: is_arr.elims)
  show "is_obj dev" by (simp add: dev)
  show "jget_default dev ''resources'' (JArr []) = Inr (JArr (arr_items (field dev ''resources'')))"
    using rs by (auto simp: dev elim!: is_arr.elims)
  have "keys = map (\<lambda>i. py_str (field i ''key'')) (arr_items rs)"
    using keys(1) validate_resourceD(2)
    by (fastforce simp: mapE_Inr_list_all2 list_all2_conv_all_nth intro!: nth_equalityI)
  then have "keys = map (snd \<circ> fst) (device_resources (d, dev))"
    by (simp add: device_resources_def dev rs(1))
  with keys show "mapE validate_resource (arr_items (field dev ''resources'')) = Inr (map (snd \<circ> fst) (device_resources (d, dev)))"
    and "distinct (map fst (device_resources (d, dev)))"
    by (auto simp: dev rs(1) device_resources_def distinct_map inj_on_def)
  from desc(2) obtain ds where ds: "desc = JObj ds"
      "py_str (case map_of ds ''id'' of None \<Rightarrow> JNull | Some v \<Rightarrow> v) = d"
    by (cases desc) (auto simp: validate_descriptor_def res)
  then show "jidx dev ''device'' = Inr (field dev ''device'')" and "is_obj (field dev ''device'')"
    and "py_str (field (field dev ''device'') ''id'') = d"
    using desc(1) by (auto simp: dev split: option.splits)
qed

lemma validate_owned_stateD:
  assumes "validate_owned_state m f = Inr u"
  shows "is_obj m" and "jidx m ''devices'' = Inr (JObj (obj_items (field m ''devices'')))"
    and "d \<in> set (obj_items (field m ''devices'')) \<Longrightarrow> \<exists>u. validate_device d = Inr u"
    and "jidx m ''manifest_hash'' = Inr (field m ''manifest_hash'')"
    and "sha256_json (JObj (del_field ''manifest_hash'' (obj_items m))) = py_str (field m ''manifest_hash'')"
    and "sha256_hex_any (py_str (field m ''manifest_hash''))"
    and "f = Some fab \<Longrightarrow> py_str (field m ''fabric_id'') = fab"
proof -
  obtain kvs where m: "m = JObj kvs"
    using assms by (cases m) (auto simp: validate_owned_state_def jget_def jget_default_def)
  from assms obtain ds us where ds: "map_of kvs ''devices'' = Some (JObj ds)" "mapE validate_device ds = Inr us"
    and h: "sha256_hex_any (py_str (case map_of kvs ''manifest_hash'' of None \<Rightarrow> JStr [] | Some w \<Rightarrow> w))"
      "sha256_json (JObj (del_field ''manifest_hash'' kvs)) =
         py_str (case map_of kvs ''manifest_hash'' of None \<Rightarrow> JStr [] | Some w \<Rightarrow> w)"
    and fb: "f = Some fab \<Longrightarrow> py_str (case map_of kvs ''fabric_id'' of None \<Rightarrow> JNull | Some w \<Rightarrow> w) = fab" for fab
    by (auto simp: validate_owned_state_def m res split: json.splits option.splits)
  show "is_obj m" and "jidx m ''devices'' = Inr (JObj (obj_items (field m ''devices'')))"
    using ds by (simp_all add: m)
  show "\<exists>u. validate_device d = Inr u" if "d \<in> set (obj_items (field m ''devices''))"
  proof -
    have "d \<in> set ds" using that by (simp add: m ds(1))
    with mapE_Inr_setD [OF ds(2)] show ?thesis by blast
  qed
  have "map_of kvs ''manifest_hash'' \<noteq> None"
    using h(1) by (auto simp: sha256_hex_any_def split: option.splits)
  with h show "jidx m ''manifest_hash'' = Inr (field m ''manifest_hash'')"
    and "sha256_json (JObj (del_field ''manifest_hash'' (obj_items m))) = py_str (field m ''manifest_hash'')"
    and "sha256_hex_any (py_str (field m ''manifest_hash''))"
    by (auto simp: m)
  show "f = Some fab \<Longrightarrow> py_str (field m ''fabric_id'') = fab"
    using fb by (simp add: m)
qed

section \<open>The index is the list of owned resources\<close>

lemma update_fresh: "k \<notin> fst ` set al \<Longrightarrow> AList.update k v al = al @ [(k, v)]"
  by (induction al) auto

lemma index_items:
  assumes "\<forall>item \<in> set items. \<exists>k. validate_resource item = Inr k"
    and "distinct (map fst ix @ map (\<lambda>i. (d, py_str (field i ''key''))) items)"
  shows "foldE (\<lambda>ix item. ebind (jidx item ''key'') (\<lambda>k. Inr (AList.update (d, py_str k) item ix))) ix items
    = Inr (ix @ map (\<lambda>i. ((d, py_str (field i ''key'')), i)) items)"
  using assms
proof (induction items arbitrary: ix)
  case Nil
  then show ?case by simp
next
  case (Cons i items)
  then obtain k where "validate_resource i = Inr k" by auto
  then have "jidx i ''key'' = Inr (field i ''key'')" by (rule validate_resourceD)
  moreover have "AList.update (d, py_str (field i ''key'')) i ix = ix @ [((d, py_str (field i ''key'')), i)]"
    using Cons.prems(2) by (intro update_fresh) auto
  ultimately show ?case
    using Cons.IH [of "ix @ [((d, py_str (field i ''key'')), i)]"] Cons.prems by auto
qed

lemma device_resources_device: "e \<in> set (device_resources d) \<Longrightarrow> fst (fst e) = fst d"
  by (auto simp: device_resources_def)

lemma index_device_eq:
  assumes v: "validate_device dv = Inr u" and "fst dv \<notin> fst ` fst ` set ix" and "distinct (map fst ix)"
  shows "index_device ix dv = Inr (ix @ device_resources dv)"
proof -
  obtain d dev where dv: "dv = (d, dev)" by (cases dv)
  note D = validate_deviceD [OF v [unfolded dv]]
  have a: "\<forall>i \<in> set (arr_items (field dev ''resources'')). \<exists>k. validate_resource i = Inr k"
    using mapE_Inr_setD [OF D(3)] by blast
  have k: "map (\<lambda>i. (d, py_str (field i ''key''))) (arr_items (field dev ''resources'')) = map fst (device_resources dv)"
    by (simp add: dv device_resources_def)
  have "distinct (map fst ix @ map fst (device_resources dv))"
    using assms(2,3) D(4) device_resources_device [of _ dv] unfolding dv by (auto simp: image_iff) (metis fst_conv)
  with k have b: "distinct (map fst ix @ map (\<lambda>i. (d, py_str (field i ''key''))) (arr_items (field dev ''resources'')))"
    by simp
  show ?thesis
    unfolding index_device_def dv prod.case D(2) ebind_simps elems.simps index_items [OF a b]
    by (simp add: device_resources_def)
qed

lemma index_devices:
  assumes "\<forall>d \<in> set ds. \<exists>u. validate_device d = Inr u" and "distinct (map fst ds)"
    and "\<forall>d \<in> set ds. fst d \<notin> fst ` fst ` set ix" and "distinct (map fst ix)"
  shows "foldE index_device ix ds = Inr (ix @ concat (map device_resources ds))
    \<and> distinct (map fst (ix @ concat (map device_resources ds)))"
  using assms
proof (induction ds arbitrary: ix)
  case Nil
  then show ?case by simp
next
  case (Cons d ds)
  then obtain u where u: "validate_device d = Inr u" by auto
  have dd: "distinct (map fst (device_resources d))"
    using validate_deviceD(4) [of "fst d" "snd d" u] u by simp
  have dev: "fst (fst e) = fst d" if "e \<in> set (device_resources d)" for e
    using that by (rule device_resources_device)
  have dist: "distinct (map fst (ix @ device_resources d))"
    using dd Cons.prems(3,4) dev by (auto simp: image_iff)
  have "\<forall>e \<in> set ds. fst e \<notin> fst ` fst ` set (ix @ device_resources d)"
    using Cons.prems(2,3) dev by (auto simp: image_iff)
  from Cons.IH [OF _ _ this dist] Cons.prems(1,2)
  have "foldE index_device (ix @ device_resources d) ds
      = Inr ((ix @ device_resources d) @ concat (map device_resources ds))
    \<and> distinct (map fst ((ix @ device_resources d) @ concat (map device_resources ds)))"
    by simp
  moreover have "index_device ix d = Inr (ix @ device_resources d)"
    using u Cons.prems(3,4) by (intro index_device_eq) auto
  ultimately show ?case by simp
qed

text \<open>A document read from JSON has no object with two equal keys.\<close>

lemma resource_index_eq:
  assumes v: "validate_owned_state m f = Inr u" and w: "wf_json m"
  shows "resource_index m = Inr (owned_resources m)" and "distinct (map fst (owned_resources m))"
proof -
  note D = validate_owned_stateD [OF v]
  from D(1) obtain kvs where m: "m = JObj kvs" by (cases m) auto
  from D(2) obtain ds where ds: "map_of kvs ''devices'' = Some (JObj ds)" unfolding m jidx_Inr by auto
  then have f: "field m ''devices'' = JObj ds" by (simp add: m)
  have "wf_json (JObj ds)" using w ds unfolding m by (rule wf_json_map_of)
  then have "distinct (map fst ds)" by simp
  moreover have "\<forall>d \<in> set ds. \<exists>u. validate_device d = Inr u" using D(3) by (simp add: f)
  ultimately have "foldE index_device [] ds = Inr ([] @ concat (map device_resources ds))
      \<and> distinct (map fst ([] @ concat (map device_resources ds)))"
    by (intro index_devices) simp_all
  moreover have "concat (map device_resources ds) = owned_resources m"
    by (simp add: owned_resources_def f)
  moreover have "jget_default m ''devices'' (JObj []) = Inr (JObj ds)" by (simp add: m ds)
  ultimately show "resource_index m = Inr (owned_resources m)" and "distinct (map fst (owned_resources m))"
    by (simp_all add: resource_index_def)
qed

section \<open>The plan\<close>

text \<open>A resource of the baseline that the candidate does not own in the same state.\<close>

definition stale_in :: "json \<Rightarrow> (string \<times> string) \<times> json \<Rightarrow> bool" where
  "stale_in current e =
     (case map_of (owned_resources current) (fst e) of
        None \<Rightarrow> True
      | Some i \<Rightarrow> py_str (field i ''state_hash'') \<noteq> py_str (field (snd e) ''state_hash''))"

definition removal_order :: "(string \<times> string) \<times> json \<Rightarrow> int" where
  "removal_order e = (case ebind (jget_default (snd e) ''remove_order'' (JInt 0)) py_int of Inr i \<Rightarrow> i | Inl _ \<Rightarrow> 0)"

definition removal_rec :: "(string \<times> string) \<times> json \<Rightarrow> removal" where
  "removal_rec e =
     \<lparr>rm_device = fst (fst e), rm_key = snd (fst e),
      rm_commands = arr_items (field (snd e) ''remove_commands''),
      rm_command_hash = py_str (field (snd e) ''remove_command_hash''),
      rm_gate_command = py_str (field (snd e) ''gate_command''),
      rm_forbidden = arr_items (field (snd e) ''forbidden_lines'')\<rparr>"

lemma owned_resources_valid:
  assumes "validate_owned_state m f = Inr u" and "e \<in> set (owned_resources m)"
  shows "validate_resource (snd e) = Inr (snd (fst e))"
    and "\<exists>dev. (fst (fst e), dev) \<in> set (obj_items (field m ''devices'')) \<and> is_obj (field dev ''device'')
           \<and> jidx dev ''device'' = Inr (field dev ''device'')"
proof -
  from assms(2) obtain d dev where d: "(d, dev) \<in> set (obj_items (field m ''devices''))"
    and e: "e \<in> set (device_resources (d, dev))"
    by (auto simp: owned_resources_def)
  from validate_owned_stateD(3) [OF assms(1) d] obtain u where "validate_device (d, dev) = Inr u" ..
  note D = validate_deviceD [OF this]
  from D(3) e show "validate_resource (snd e) = Inr (snd (fst e))"
    by (auto simp: device_resources_def mapE_Inr_list_all2 list_all2_map2 list.rel_map list_all2_same)
  have "fst (fst e) = d" using device_resources_device [OF e] by simp
  with d D(5,6) show "\<exists>dev. (fst (fst e), dev) \<in> set (obj_items (field m ''devices''))
      \<and> is_obj (field dev ''device'') \<and> jidx dev ''device'' = Inr (field dev ''device'')"
    by blast
qed

lemma removal_of_valid:
  assumes "validate_resource (snd e) = Inr (snd (fst e))"
  shows "removal_of e = Inr (removal_rec e)"
proof -
  obtain d k i where e: "e = ((d, k), i)" by (metis prod.collapse)
  with assms have "validate_resource i = Inr k" by simp
  note D = validate_resourceD [OF this]
  show ?thesis
    unfolding e removal_of_def prod.case D(6,7,9,10) ebind_simps elems.simps
    by (simp add: removal_rec_def)
qed

lemma is_stale_eq:
  assumes c: "validate_owned_state c f = Inr u" and e: "validate_resource (snd e) = Inr k"
  shows "is_stale (owned_resources c) e = Inr (stale_in c e)"
proof (cases "map_of (owned_resources c) (fst e)")
  case None
  then show ?thesis by (cases e) (simp add: is_stale_def stale_in_def)
next
  case (Some i)
  from owned_resources_valid(1) [OF c map_of_SomeD [OF Some]]
  have "validate_resource i = Inr (snd (fst e))" by simp
  then have "jidx i ''state_hash'' = Inr (field i ''state_hash'')" by (rule validate_resourceD)
  moreover have "jidx (snd e) ''state_hash'' = Inr (field (snd e) ''state_hash'')"
    using e by (rule validate_resourceD)
  ultimately show ?thesis using Some by (cases e) (simp add: is_stale_def stale_in_def)
qed

lemma filterE_total: "(\<And>x. x \<in> set xs \<Longrightarrow> p x = Inr (q x)) \<Longrightarrow> filterE p xs = Inr (filter q xs)"
proof -
  assume "\<And>x. x \<in> set xs \<Longrightarrow> p x = Inr (q x)"
  then have "mapE (\<lambda>x. ebind (p x) (\<lambda>b. Inr (b, x))) xs = Inr (map (\<lambda>x. (q x, x)) xs)"
    by (intro mapE_total) simp
  moreover have "map snd (filter fst (map (\<lambda>x. (q x, x)) xs)) = filter q xs"
    by (induction xs) auto
  ultimately show ?thesis by (simp add: filterE_def)
qed

lemma removal_key_Inr:
  "removal_key e = Inr k \<Longrightarrow> k = ((fst (fst e), - removal_order e, snd (fst e)), e)"
  by (auto simp: removal_key_def removal_order_def res split: prod.splits)

lemma stale_resources_spec:
  assumes p: "validate_owned_state p f = Inr u" "wf_json p"
    and c: "validate_owned_state c g = Inr v" "wf_json c"
    and st: "stale_resources p c = Inr st"
  shows "st = sort_key (\<lambda>e. (fst (fst e), - removal_order e, snd (fst e)))
    (filter (stale_in c) (owned_resources p))"
proof -
  let ?key = "\<lambda>e. (fst (fst e), - removal_order e, snd (fst e))"
  let ?fs = "filter (stale_in c) (owned_resources p)"
  have "filterE (is_stale (owned_resources c)) (owned_resources p) = Inr ?fs"
    by (intro filterE_total is_stale_eq [OF c(1) owned_resources_valid(1) [OF p(1)]])
  with st obtain keyed where k: "mapE removal_key ?fs = Inr keyed" and st': "st = map snd (sort_key fst keyed)"
    by (auto simp: stale_resources_def resource_index_eq [OF p] resource_index_eq [OF c] res)
  have keyed: "keyed = map (\<lambda>e. (?key e, e)) ?fs"
    using k by (rule mapE_Inr_map) (rule removal_key_Inr)
  have sk: "map snd (sort_key fst (map (\<lambda>e. (h e, e)) xs)) = sort_key h xs" for h :: "_ \<Rightarrow> 'k :: linorder" and xs
  proof (induction xs)
    case (Cons x xs)
    have "map snd (insort_key fst (h x, x) (map (\<lambda>e. (h e, e)) ys)) = insort_key h x ys" for ys
      by (induction ys) (auto simp: comp_def)
    moreover have "sort_key fst (map (\<lambda>e. (h e, e)) xs) = map (\<lambda>e. (h e, e)) (sort_key h xs)"
    proof -
      have "insort_key fst (h y, y) (map (\<lambda>e. (h e, e)) ys) = map (\<lambda>e. (h e, e)) (insort_key h y ys)" for y ys
        by (induction ys) auto
      then show ?thesis by (induction xs) auto
    qed
    ultimately show ?case by simp
  qed simp
  show ?thesis unfolding st' keyed by (rule sk)
qed

text \<open>The devices of the plan: what the fold of the stale resources leaves.\<close>

definition removals_on :: "string \<Rightarrow> ((string \<times> string) \<times> json) list \<Rightarrow> removal list" where
  "removals_on d st = map removal_rec (filter (\<lambda>e. fst (fst e) = d) st)"

definition plan_of :: "removal_plan \<Rightarrow> string \<Rightarrow> removal list" where
  "plan_of devs d = (case map_of devs d of None \<Rightarrow> [] | Some v \<Rightarrow> dr_removals v)"

lemma add_removal_fold:
  assumes "foldE (add_removal p) devs0 st = Inr devs"
    and "\<forall>e \<in> set st. validate_resource (snd e) = Inr (snd (fst e))"
    and "distinct (map fst devs0)"
  shows "plan_of devs d = plan_of devs0 d @ removals_on d st \<and> distinct (map fst devs)
    \<and> fst ` set devs = fst ` set devs0 \<union> fst ` fst ` set st"
  using assms
proof (induction st arbitrary: devs0)
  case Nil
  then show ?case by (simp add: removals_on_def)
next
  case (Cons e st)
  from Cons.prems(1) obtain devs1 where add: "add_removal p devs0 e = Inr devs1"
    and step: "foldE (add_removal p) devs1 st = Inr devs"
    by (auto simp only: foldE.simps ebind_Inr)
  have r: "removal_of e = Inr (removal_rec e)" using Cons.prems(2) by (intro removal_of_valid) simp
  define old where "old descriptor = (case map_of devs0 (fst (fst e)) of
     None \<Rightarrow> \<lparr>dr_device = descriptor, dr_removals = []\<rparr> | Some v \<Rightarrow> v)" for descriptor
  from add obtain descriptor where
    devs1: "devs1 = AList.update (fst (fst e)) ((old descriptor)\<lparr>dr_removals := dr_removals (old descriptor) @ [removal_rec e]\<rparr>) devs0"
    by (auto simp: add_removal_def Let_def ebind_Inr r old_def)
  have "distinct (map fst devs1)" using Cons.prems(3) unfolding devs1 by (rule distinct_update)
  from Cons.IH [OF step _ this] Cons.prems(2)
  have "plan_of devs d = plan_of devs1 d @ removals_on d st \<and> distinct (map fst devs)
    \<and> fst ` set devs = fst ` set devs1 \<union> fst ` fst ` set st" by simp
  moreover have "plan_of devs1 d = plan_of devs0 d @ (if fst (fst e) = d then [removal_rec e] else [])"
    by (cases "fst (fst e) = d"; cases "map_of devs0 d") (simp_all add: devs1 plan_of_def old_def update_conv')
  moreover have "fst ` set devs1 = insert (fst (fst e)) (fst ` set devs0)"
    by (simp add: devs1 dom_update)
  moreover have "removals_on d (e # st) = (if fst (fst e) = d then [removal_rec e] else []) @ removals_on d st"
    by (simp add: removals_on_def)
  ultimately show ?case by simp
qed

text \<open>The plan of a device: its stale resources by falling removal order, then by key.\<close>

definition sorted_stale :: "json \<Rightarrow> json \<Rightarrow> ((string \<times> string) \<times> json) list" where
  "sorted_stale previous current =
     sort_key (\<lambda>e. (fst (fst e), - removal_order e, snd (fst e)))
       (filter (stale_in current) (owned_resources previous))"

lemma plan_removals_spec:
  assumes p: "validate_owned_state p f = Inr u" "wf_json p"
    and c: "validate_owned_state c g = Inr v" "wf_json c"
    and plan: "plan_removals p c = Inr (n, devs)"
  shows "n = length (sorted_stale p c)" and "plan_of devs d = removals_on d (sorted_stale p c)"
    and "distinct (map fst devs)" and "fst ` set devs = fst ` fst ` set (sorted_stale p c)"
proof -
  from plan obtain st where st: "stale_resources p c = Inr st" and n: "n = length st"
    and fold: "foldE (add_removal p) [] st = Inr devs"
    by (auto simp: plan_removals_def res)
  from stale_resources_spec [OF p c st] have st': "st = sorted_stale p c" by (simp add: sorted_stale_def)
  have "\<forall>e \<in> set st. validate_resource (snd e) = Inr (snd (fst e))"
    using owned_resources_valid(1) [OF p(1)] by (simp add: st' sorted_stale_def)
  from add_removal_fold [OF fold this]
  show "plan_of devs d = removals_on d (sorted_stale p c)" "distinct (map fst devs)"
    "fst ` set devs = fst ` fst ` set (sorted_stale p c)"
    by (simp_all add: st' plan_of_def)
  show "n = length (sorted_stale p c)" by (simp add: n st')
qed

text \<open>The blocks of a device in a finished reconciliation.\<close>

definition plan_blocks :: "json \<Rightarrow> string \<Rightarrow> json list" where
  "plan_blocks plan d = arr_items (field (field (field plan ''devices'') d) ''blocks'')"

definition plan_gates :: "json \<Rightarrow> string \<Rightarrow> json list" where
  "plan_gates plan d = arr_items (field (field (field plan ''devices'') d) ''gates'')"

lemma field_removal_plan:
  "field (removal_plan_json devs) d = (case map_of devs d of None \<Rightarrow> JNull
     | Some v \<Rightarrow> JObj [(''device'', dr_device v), (''blocks'', JArr (map removal_block (dr_removals v))),
                      (''gates'', JArr (map removal_gate (dr_removals v)))])"
proof -
  have "map_of (map (\<lambda>(d, v). (d, h v)) devs) d = map_option h (map_of devs d)" for h :: "_ \<Rightarrow> json"
    by (induction devs) auto
  then show ?thesis by (auto simp: removal_plan_json_def split: option.splits)
qed

lemma reconciliationE:
  assumes "build_multicast_reconciliation (Some b) c = Inr plan" and "wf_json b" and "wf_json c"
  obtains n devs where
    "validate_baseline b (py_str (field c ''fabric_id'')) = Inr ()"
    "validate_owned_state (field b ''manifest'') (Some (py_str (field c ''fabric_id''))) = Inr ()"
    "wf_json (field b ''manifest'')"
    "validate_owned_state c None = Inr ()"
    "plan_removals (field b ''manifest'') c = Inr (n, devs)"
    "field plan ''devices'' = removal_plan_json devs"
    "field plan ''stale_resource_count'' = JInt (int n)"
    "\<And>d. plan_blocks plan d = map removal_block (removals_on d (sorted_stale (field b ''manifest'') c))"
    "\<And>d. plan_gates plan d = map removal_gate (removals_on d (sorted_stale (field b ''manifest'') c))"
proof -
  from assms(1) obtain fid previous n devs where
    c: "validate_owned_state c None = Inr ()" and fid: "jidx c ''fabric_id'' = Inr fid"
    and vb: "validate_baseline b (py_str fid) = Inr ()"
    and prev: "jidx b ''manifest'' = Inr previous" and pr: "plan_removals previous c = Inr (n, devs)"
    and dv: "field plan ''devices'' = removal_plan_json devs"
    and cn: "field plan ''stale_resource_count'' = JInt (int n)"
    by (auto simp: build_multicast_reconciliation_def res)
  from prev obtain kvs where b: "b = JObj kvs" "map_of kvs ''manifest'' = Some previous"
    by (auto simp: res)
  then have p: "field b ''manifest'' = previous" by simp
  from fid have f: "field c ''fabric_id'' = fid" by (auto simp: res)
  have w: "wf_json previous" using assms(2) b by (metis wf_json_map_of)
  have vp: "validate_owned_state previous (Some (py_str fid)) = Inr ()"
    using vb b by (auto simp: validate_baseline_def res Let_def)
  note spec = plan_removals_spec [OF vp w c assms(3) pr]
  have "plan_blocks plan d = map removal_block (plan_of devs d)" for d
    by (simp add: plan_blocks_def dv field_removal_plan plan_of_def split: option.splits)
  moreover have "plan_gates plan d = map removal_gate (plan_of devs d)" for d
    by (simp add: plan_gates_def dv field_removal_plan plan_of_def split: option.splits)
  ultimately show thesis
    using c vb vp w pr dv cn spec(2) by (intro that [of n devs]) (simp_all add: p f)
qed

section \<open>Baselines\<close>

lemma del_field_last: "k \<notin> fst ` set kvs \<Longrightarrow> del_field k (kvs @ [(k, v)]) = kvs"
  by (induction kvs) (auto simp: del_field_def)

lemma map_of_snoc: "map_of (kvs @ [(k, v)]) j = (case map_of kvs j of Some w \<Rightarrow> Some w | None \<Rightarrow> if j = k then Some v else None)"
  by (induction kvs) auto

lemma make_baseline_Inr:
  assumes "make_baseline m st sr sah eh = Inr b"
  obtains mh body where "validate_owned_state m None = Inr ()"
    and "st \<in> {''successful_apply'', ''adopted_discovery''}" and "sr \<noteq> []" and "jidx m ''manifest_hash'' = Inr mh"
    and "body = [(''baseline_schema_version'', JStr ''1.0''), (''source_type'', JStr st),
                     (''source_reference'', JStr sr), (''manifest'', m),
                     (''manifest_hash'', JStr (py_str mh))]
                    @ opt_text_field ''source_artifact_hash'' sah
                    @ opt_text_field ''evidence_hash'' eh"
    and "b = JObj (body @ [(''baseline_hash'', JStr (sha256_json (JObj body)))])"
  using assms by (auto simp: make_baseline_def res Let_def)

lemma make_baseline_fields:
  assumes "make_baseline m st sr sah eh = Inr b"
  shows "validate_owned_state m None = Inr ()" and "jidx b ''manifest'' = Inr m"
    and "\<exists>h. jidx b ''baseline_hash'' = Inr h" and "\<exists>mh. jidx m ''manifest_hash'' = Inr mh"
proof -
  from assms obtain mh body where *: "validate_owned_state m None = Inr ()" "jidx m ''manifest_hash'' = Inr mh"
    and body: "body = [(''baseline_schema_version'', JStr ''1.0''), (''source_type'', JStr st),
                     (''source_reference'', JStr sr), (''manifest'', m), (''manifest_hash'', JStr (py_str mh))]
                    @ opt_text_field ''source_artifact_hash'' sah @ opt_text_field ''evidence_hash'' eh"
    and b: "b = JObj (body @ [(''baseline_hash'', JStr (sha256_json (JObj body)))])"
    by (rule make_baseline_Inr)
  from * show "validate_owned_state m None = Inr ()" "\<exists>mh. jidx m ''manifest_hash'' = Inr mh" by auto
  have "map_of body ''manifest'' = Some m" by (simp add: body)
  then show "jidx b ''manifest'' = Inr m" by (simp add: b map_of_snoc del: map_of_append)
  show "\<exists>h. jidx b ''baseline_hash'' = Inr h"
    by (cases "map_of body ''baseline_hash''") (simp_all add: b map_of_snoc del: map_of_append)
qed

lemma opt_text_field_cases: "opt_text_field k v = [] \<or> (\<exists>s. opt_text_field k v = [(k, JStr s)])"
  by (auto simp: opt_text_field_def split: option.splits)

lemma validate_owned_state_fabric:
  assumes "validate_owned_state m None = Inr ()" and "py_str (field m ''fabric_id'') = f"
  shows "validate_owned_state m (Some f) = Inr ()"
proof -
  obtain kvs where m: "m = JObj kvs" using validate_owned_stateD(1) [OF assms(1)] by (cases m) auto
  from assms show ?thesis by (simp add: m validate_owned_state_def)
qed

text \<open>The evidence a source type needs.\<close>

definition source_proved :: "string \<Rightarrow> string option \<Rightarrow> string option \<Rightarrow> bool" where
  "source_proved st sah eh \<longleftrightarrow>
     (st = ''successful_apply'' \<longrightarrow> (\<exists>h. sah = Some h \<and> sha256_hex_any h))
   \<and> (st = ''adopted_discovery'' \<longrightarrow> (\<exists>h. eh = Some h \<and> sha256_hex_any h))"

lemma make_baseline_validates:
  assumes mk: "make_baseline m st sr sah eh = Inr b" and sp: "source_proved st sah eh"
    and f: "py_str (field m ''fabric_id'') = f"
  shows "validate_baseline b f = Inr ()"
proof -
  from mk obtain mh body where v: "validate_owned_state m None = Inr ()"
    and st: "st \<in> {''successful_apply'', ''adopted_discovery''}" and sr: "sr \<noteq> []" and mh: "jidx m ''manifest_hash'' = Inr mh"
    and body: "body = [(''baseline_schema_version'', JStr ''1.0''), (''source_type'', JStr st),
                     (''source_reference'', JStr sr), (''manifest'', m),
                     (''manifest_hash'', JStr (py_str mh))]
                    @ opt_text_field ''source_artifact_hash'' sah
                    @ opt_text_field ''evidence_hash'' eh"
    and b: "b = JObj (body @ [(''baseline_hash'', JStr (sha256_json (JObj body)))])"
    by (rule make_baseline_Inr)
  obtain kvs where m: "m = JObj kvs" and mh': "map_of kvs ''manifest_hash'' = Some mh"
    using mh by (auto simp: res)
  have fresh: "''baseline_hash'' \<notin> fst ` set body"
    by (auto simp: body opt_text_field_def split: option.splits if_splits)
  have h: "map_of (body @ [(''baseline_hash'', JStr (sha256_json (JObj body)))]) ''baseline_hash''
      = Some (JStr (sha256_json (JObj body)))"
    using fresh by (simp only: map_of_snoc) (simp add: map_of_eq_None_iff [THEN iffD2] del: map_of_append)
  have look: "map_of (body @ [(''baseline_hash'', JStr (sha256_json (JObj body)))]) k = map_of body k"
    if "k \<noteq> ''baseline_hash''" for k
    using that by (simp add: map_of_snoc del: map_of_append split: option.splits)
  have sah: "map_of body ''source_artifact_hash'' = Some (JStr h)" if "st = ''successful_apply''" "sah = Some h" "h \<noteq> []" for h
    using that by (simp add: body opt_text_field_def)
  have eh: "map_of body ''evidence_hash'' = Some (JStr h)" if "eh = Some h" "h \<noteq> []" for h
    using that opt_text_field_cases [of "''source_artifact_hash''" sah]
    by (auto simp: body opt_text_field_def)
  have ne: "h \<noteq> []" if "sha256_hex_any h" for h :: string using that by (auto simp: sha256_hex_any_def)
  have a: "st = ''successful_apply'' \<longrightarrow> sha256_hex_any (py_str (case map_of body ''source_artifact_hash'' of None \<Rightarrow> JStr [] | Some w \<Rightarrow> w))"
    using sp sah ne by (auto simp: source_proved_def)
  have e: "st = ''adopted_discovery'' \<longrightarrow> sha256_hex_any (py_str (case map_of body ''evidence_hash'' of None \<Rightarrow> JStr [] | Some w \<Rightarrow> w))"
    using sp eh ne by (auto simp: source_proved_def)
  have g: "map_of body ''baseline_schema_version'' = Some (JStr ''1.0'')" "map_of body ''source_type'' = Some (JStr st)"
    "map_of body ''source_reference'' = Some (JStr sr)" "map_of body ''manifest'' = Some m"
    "map_of body ''manifest_hash'' = Some (JStr (py_str mh))"
    by (simp_all add: body)
  show ?thesis
    using validate_owned_state_fabric [OF v f] a e sr st
    by (simp add: validate_baseline_def Let_def b h look g del_field_last [OF fresh] sha256_json_any m mh' res del: map_of_append)
qed

section \<open>A concrete pair of manifests\<close>

text \<open>
  A baseline with two resources on one device, and a candidate that still owns the second. The
  digests are left symbolic.
\<close>

definition hashed :: "(string \<times> json) list \<Rightarrow> json" where
  "hashed body = JObj (body @ [(''manifest_hash'', JStr (sha256_json (JObj body)))])"

definition sample_routing :: json where
  "sample_routing = resource ''multicast.overlay.routing:BLUE'' ''multicast_routing''
     [''ip multicast-routing vrf BLUE''] [''no ip multicast-routing vrf BLUE'']
     ''show running-config | include ^ip multicast-routing vrf BLUE$'' [''ip multicast-routing vrf BLUE''] 400"

definition sample_originator :: json where
  "sample_originator = resource ''multicast.underlay.msdp_originator'' ''msdp_global''
     [''ip msdp originator-id Loopback0''] [''no ip msdp originator-id Loopback0'']
     ''show running-config | include ^ip msdp originator-id Loopback0$'' [''ip msdp originator-id Loopback0''] 250"

definition sample_device :: "json list \<Rightarrow> string \<times> json" where
  "sample_device rs =
     (''b1'', JObj [(''device'', JObj [(''id'', JStr ''b1''), (''hostname'', JStr ''border-1''), (''platform'', JStr ''c9500''),
          (''software_version'', JStr ''17.15.1''), (''management_ip'', JStr ''10.0.0.1''),
          (''roles'', JArr [JStr ''border'']), (''credential_ref'', JStr ''secret://device'')]),
        (''resources'', JArr rs)])"

definition sample_manifest :: "json list \<Rightarrow> json" where
  "sample_manifest rs =
     hashed [(''owned_state_schema_version'', JStr ''1.0''), (''scope'', JStr ''multicast''),
       (''fabric_id'', JStr ''f1''), (''intent_hash'', JStr ''0''),
       (''devices'', JObj [sample_device rs])]"

lemma sample_commands_safe:
  "safe_remove ''no ip multicast-routing vrf BLUE''"
  "safe_remove ''no ip msdp originator-id Loopback0''"
  by (simp_all add: safe_remove_def safe_remove_patterns_def starts_with_def name_class_def
      in_class_def is_alnum_def is_upper_def is_digit_def)

lemma commands_hash_jstrs: "commands_hash cs = sha256_json (jstrs cs)"
  by (simp add: commands_hash_def jstrs_def)

lemma sample_resources_valid:
  "validate_resource sample_routing = Inr ''multicast.overlay.routing:BLUE''"
  "validate_resource sample_originator = Inr ''multicast.underlay.msdp_originator''"
  by (simp_all add: validate_resource_def sample_routing_def sample_originator_def resource_def Let_def
      validate_remove_commands_def validate_remove_command_def jstrs_def sample_commands_safe has_break_def newline_def
      creturn_def starts_with_def lstrip_def is_space_def owned_resource_kinds_def commands_hash_jstrs
      validate_lines_def validate_config_line_def is_text_def safe_show_command_def name_class_def
      in_class_def is_alnum_def is_upper_def is_lower_def is_digit_def)

lemma sample_manifest_valid:
  assumes "rs \<in> {[], [sample_routing], [sample_originator], [sample_routing, sample_originator]}"
  shows "validate_owned_state (sample_manifest rs) None = Inr ()"
  using assms
  by (auto simp: validate_owned_state_def sample_manifest_def hashed_def sample_device_def del_field_def
      sha256_json_any validate_device_def sample_resources_valid validate_descriptor_def
      device_descriptor_fields_def required_descriptor_fields_def is_text_def has_break_def newline_def
      creturn_def starts_with_def Let_def)

definition sample_hash :: string where "sample_hash = replicate 64 CHR ''a''"

lemma sample_hash_any: "sha256_hex_any sample_hash"
  by (simp add: sample_hash_def sha256_hex_any_def is_hex_def is_hex_lower_def list_all_iff)

definition sample_baseline :: json where
  "sample_baseline =
     (case make_baseline (sample_manifest [sample_routing, sample_originator]) ''successful_apply'' ''run_1''
         (Some sample_hash) None of Inr b \<Rightarrow> b | Inl _ \<Rightarrow> JNull)"

lemma sample_manifest_fields:
  "jidx (sample_manifest rs) ''fabric_id'' = Inr (JStr ''f1'')"
  "jidx (sample_manifest rs) ''devices'' = Inr (JObj [sample_device rs])"
  "jidx (sample_manifest rs) ''manifest_hash'' = Inr (field (sample_manifest rs) ''manifest_hash'')"
  by (simp_all add: sample_manifest_def hashed_def)

lemma sample_manifest_wf:
  "wf_json (sample_manifest [sample_routing, sample_originator])"
  "wf_json (sample_manifest [sample_originator])"
  by (simp_all add: sample_manifest_def hashed_def sample_device_def sample_routing_def sample_originator_def
      resource_def Let_def jstrs_def)

lemma sample_baseline:
  "make_baseline (sample_manifest [sample_routing, sample_originator]) ''successful_apply'' ''run_1''
     (Some sample_hash) None = Inr sample_baseline" (is ?mk)
  "field sample_baseline ''manifest'' = sample_manifest [sample_routing, sample_originator]"
  "jidx sample_baseline ''manifest'' = Inr (sample_manifest [sample_routing, sample_originator])"
  "\<exists>h. jidx sample_baseline ''baseline_hash'' = Inr h"
  "wf_json sample_baseline"
proof -
  obtain b where b: "make_baseline (sample_manifest [sample_routing, sample_originator]) ''successful_apply'' ''run_1''
     (Some sample_hash) None = Inr b"
    by (simp add: make_baseline_def sample_manifest_valid sample_manifest_fields Let_def)
  then show mk: ?mk by (simp add: sample_baseline_def)
  from mk obtain mh body where e:
    "body = [(''baseline_schema_version'', JStr ''1.0''), (''source_type'', JStr ''successful_apply''),
       (''source_reference'', JStr ''run_1''), (''manifest'', sample_manifest [sample_routing, sample_originator]),
       (''manifest_hash'', JStr (py_str mh))]
       @ opt_text_field ''source_artifact_hash'' (Some sample_hash) @ opt_text_field ''evidence_hash'' None"
    "sample_baseline = JObj (body @ [(''baseline_hash'', JStr (sha256_json (JObj body)))])"
    by (rule make_baseline_Inr)
  show "field sample_baseline ''manifest'' = sample_manifest [sample_routing, sample_originator]"
    "jidx sample_baseline ''manifest'' = Inr (sample_manifest [sample_routing, sample_originator])"
    "\<exists>h. jidx sample_baseline ''baseline_hash'' = Inr h"
    "wf_json sample_baseline"
    unfolding e by (simp_all add: opt_text_field_def sample_hash_def sample_manifest_wf)
qed

lemma sample_index:
  "resource_index (sample_manifest [sample_routing, sample_originator]) =
     Inr [((''b1'', ''multicast.overlay.routing:BLUE''), sample_routing),
          ((''b1'', ''multicast.underlay.msdp_originator''), sample_originator)]"
  "resource_index (sample_manifest [sample_originator]) =
     Inr [((''b1'', ''multicast.underlay.msdp_originator''), sample_originator)]"
  by (simp_all add: resource_index_def sample_manifest_def hashed_def index_device_def sample_device_def
      sample_routing_def sample_originator_def resource_def Let_def)

lemma sample_routing_fields:
  "jidx sample_routing ''remove_commands'' = Inr (jstrs [''no ip multicast-routing vrf BLUE''])"
  "jidx sample_routing ''forbidden_lines'' = Inr (jstrs [''ip multicast-routing vrf BLUE''])"
  "\<exists>h. jidx sample_routing ''remove_command_hash'' = Inr h"
  "\<exists>g. jidx sample_routing ''gate_command'' = Inr g"
  "jget_default sample_routing ''remove_order'' (JInt 0) = Inr (JInt 400)"
  "\<exists>h. jidx sample_originator ''state_hash'' = Inr h"
  by (simp_all add: sample_routing_def sample_originator_def resource_def Let_def)

lemma elems_jstrs: "elems (jstrs xs) = Inr (map JStr xs)"
  by (simp add: jstrs_def)

lemma sample_plan:
  "\<exists>device r. plan_removals (sample_manifest [sample_routing, sample_originator]) (sample_manifest [sample_originator])
     = Inr (1, [(''b1'', \<lparr>dr_device = device, dr_removals = [r]\<rparr>)]) \<and> rm_device r = ''b1''"
proof -
  obtain h g sh where f: "jidx sample_routing ''remove_command_hash'' = Inr h"
      "jidx sample_routing ''gate_command'' = Inr g" "jidx sample_originator ''state_hash'' = Inr sh"
    using sample_routing_fields by blast
  let ?e = "((''b1'', ''multicast.overlay.routing:BLUE''), sample_routing)"
  have st: "stale_resources (sample_manifest [sample_routing, sample_originator]) (sample_manifest [sample_originator]) = Inr [?e]"
    by (simp add: stale_resources_def sample_index filterE_def is_stale_def removal_key_def f sample_routing_fields)
  show ?thesis
    by (simp add: plan_removals_def st add_removal_def removal_of_def sample_manifest_fields sample_device_def
        f sample_routing_fields elems_jstrs Let_def)
qed

lemma sample_reconciliation:
  "\<exists>plan. build_multicast_reconciliation (Some sample_baseline) (sample_manifest [sample_originator]) = Inr plan"
proof -
  have v: "validate_baseline sample_baseline ''f1'' = Inr ()"
    using sample_baseline(1)
    by (rule make_baseline_validates)
      (simp_all add: source_proved_def sample_hash_any sample_manifest_def hashed_def)
  obtain devs where d: "plan_removals (sample_manifest [sample_routing, sample_originator]) (sample_manifest [sample_originator])
     = Inr (1, devs)" using sample_plan by blast
  obtain h where h: "jidx sample_baseline ''baseline_hash'' = Inr h" using sample_baseline(4) by blast
  show ?thesis
    by (simp add: build_multicast_reconciliation_def sample_manifest_valid v h d sample_baseline(3)
        sample_manifest_fields Let_def)
qed

lemma sample_owned:
  "owned_resources (sample_manifest [sample_routing, sample_originator]) =
      [((''b1'', ''multicast.overlay.routing:BLUE''), sample_routing),
       ((''b1'', ''multicast.underlay.msdp_originator''), sample_originator)]"
  "owned_resources (sample_manifest [sample_originator]) = [((''b1'', ''multicast.underlay.msdp_originator''), sample_originator)]"
  using sample_index resource_index_eq(1) [OF sample_manifest_valid [of "[sample_originator]"] sample_manifest_wf(2)]
    resource_index_eq(1) [OF sample_manifest_valid [of "[sample_routing, sample_originator]"] sample_manifest_wf(1)]
  by simp_all

lemma sample_reconciliation_block:
  "\<exists>plan blk. build_multicast_reconciliation (Some sample_baseline) (sample_manifest [sample_originator]) = Inr plan
     \<and> blk \<in> set (plan_blocks plan ''b1'')"
proof -
  obtain plan where p: "build_multicast_reconciliation (Some sample_baseline) (sample_manifest [sample_originator]) = Inr plan"
    using sample_reconciliation by blast
  then have bl: "plan_blocks plan ''b1'' = map removal_block (removals_on ''b1''
      (sorted_stale (field sample_baseline ''manifest'') (sample_manifest [sample_originator])))"
    using sample_baseline(5) sample_manifest_wf(2) by (rule reconciliationE) blast
  have "((''b1'', ''multicast.overlay.routing:BLUE''), sample_routing)
      \<in> set (sorted_stale (field sample_baseline ''manifest'') (sample_manifest [sample_originator]))"
    by (simp add: sorted_stale_def sample_baseline(2) sample_owned stale_in_def)
  then have "plan_blocks plan ''b1'' \<noteq> []" by (force simp: bl removals_on_def filter_empty_conv)
  with p show ?thesis by (metis list.set_intros(1) neq_Nil_conv)
qed

end
