(* ===== verification/ReconcileProps.thy ===== *)
theory ReconcileProps
  imports ReconcileSpec
begin

text \<open>The properties of reconciliation, over whole baselines and finished plans.\<close>

text \<open>
  C1: a reconciliation has, on each device, exactly one removal block and one absence gate
  for every resource the baseline owns there and the candidate does not own with the same state
  hash.
\<close>

theorem reconciliation_removes_exactly_stale:
  assumes "build_multicast_reconciliation (Some b) c = Inr plan" and "wf_json b" and "wf_json c"
  shows "(JStr k \<in> set (map (\<lambda>blk. field blk ''owned_resource_key'') (plan_blocks plan d))) =
           (\<exists>item. ((d, k), item) \<in> set (owned_resources (field b ''manifest'')) \<and> stale_in c ((d, k), item))
       \<and> distinct (map (\<lambda>blk. field blk ''owned_resource_key'') (plan_blocks plan d))
       \<and> map (\<lambda>g. field g ''owned_resource_key'') (plan_gates plan d) =
           map (\<lambda>blk. field blk ''owned_resource_key'') (plan_blocks plan d)"
proof -
  from assms obtain v where v: "validate_owned_state (field b ''manifest'') v = Inr ()" "wf_json (field b ''manifest'')"
    and bl: "plan_blocks plan d = map removal_block (removals_on d (sorted_stale (field b ''manifest'') c))"
    and gt: "plan_gates plan d = map removal_gate (removals_on d (sorted_stale (field b ''manifest'') c))"
    by (rule reconciliationE) blast
  define es where "es = filter (\<lambda>e. fst (fst e) = d) (sorted_stale (field b ''manifest'') c)"
  have keys: "map (\<lambda>blk. field blk ''owned_resource_key'') (plan_blocks plan d) = map (\<lambda>e. JStr (snd (fst e))) es"
    by (simp add: bl removals_on_def es_def removal_block_def removal_rec_def comp_def)
  have gates: "map (\<lambda>g. field g ''owned_resource_key'') (plan_gates plan d) = map (\<lambda>e. JStr (snd (fst e))) es"
    by (simp add: gt removals_on_def es_def removal_gate_def removal_rec_def comp_def)
  have set_es: "set es = {e \<in> set (owned_resources (field b ''manifest'')). stale_in c e \<and> fst (fst e) = d}"
    by (auto simp: es_def sorted_stale_def)
  have "distinct (map fst (owned_resources (field b ''manifest'')))" using v by (rule resource_index_eq)
  then have "distinct (map fst es)"
    unfolding es_def sorted_stale_def by (intro distinct_map_filter distinct_map_sort_key)
  then have "distinct (map (\<lambda>e. JStr (snd (fst e))) es)"
    using set_es by (force simp: distinct_map inj_on_def)
  then show ?thesis unfolding keys gates by (force simp: set_es image_iff)
qed

theorem reconciliation_removes_exactly_stale_witness:
  "\<exists>plan. build_multicast_reconciliation (Some sample_baseline) (sample_manifest [sample_originator]) = Inr plan
     \<and> JStr ''multicast.overlay.routing:BLUE'' \<in> set (map (\<lambda>blk. field blk ''owned_resource_key'') (plan_blocks plan ''b1''))"
proof -
  obtain plan where p: "build_multicast_reconciliation (Some sample_baseline) (sample_manifest [sample_originator]) = Inr plan"
    using sample_reconciliation by blast
  have "\<exists>item. ((''b1'', ''multicast.overlay.routing:BLUE''), item) \<in> set (owned_resources (field sample_baseline ''manifest''))
      \<and> stale_in (sample_manifest [sample_originator]) ((''b1'', ''multicast.overlay.routing:BLUE''), item)"
    by (simp add: sample_baseline(2) sample_owned stale_in_def)
  with p reconciliation_removes_exactly_stale [OF p sample_baseline(5) sample_manifest_wf(2),
      of "''multicast.overlay.routing:BLUE''" "''b1''"]
  show ?thesis by blast
qed

text \<open>
  C2: every command of a removal block is one the approved baseline stored for the resource the
  block names; it matches an allowed pattern, is one line and holds no secret placeholder.
\<close>

theorem reconciliation_commands_safe:
  assumes "build_multicast_reconciliation (Some b) c = Inr plan" and "wf_json b" and "wf_json c"
    and "blk \<in> set (plan_blocks plan d)"
  shows "\<exists>k item. ((d, k), item) \<in> set (owned_resources (field b ''manifest''))
      \<and> field blk ''owned_resource_key'' = JStr k
      \<and> arr_items (field blk ''commands'') = arr_items (field item ''remove_commands'')
      \<and> field blk ''command_hash'' = JStr (commands_hash (map py_str (arr_items (field blk ''commands''))))
      \<and> (\<forall>l \<in> set (map py_str (arr_items (field blk ''commands''))).
            safe_remove l \<and> \<not> has_break l \<and> \<not> contains l ''<secret:'')"
proof -
  from assms(1-3) obtain v where v: "validate_owned_state (field b ''manifest'') v = Inr ()"
    and bl: "plan_blocks plan d = map removal_block (removals_on d (sorted_stale (field b ''manifest'') c))"
    by (rule reconciliationE) blast
  from assms(4) obtain k item where e: "((d, k), item) \<in> set (owned_resources (field b ''manifest''))"
    and blk: "blk = removal_block (removal_rec ((d, k), item))"
    by (auto simp: bl removals_on_def sorted_stale_def)
  from owned_resources_valid(1) [OF v e] have "validate_resource item = Inr k" by simp
  note D = validate_resourceD [OF this]
  have "\<forall>l \<in> set (map py_str (arr_items (field item ''remove_commands''))).
      safe_remove l \<and> \<not> has_break l \<and> \<not> contains l ''<secret:''"
    using D(8) by (rule validate_remove_commandsD)
  then show ?thesis
    using e D(12) by (intro exI [of _ k] exI [of _ item]) (simp add: blk removal_block_def removal_rec_def)
qed

theorem reconciliation_commands_safe_witness:
  "\<exists>plan blk. build_multicast_reconciliation (Some sample_baseline) (sample_manifest [sample_originator]) = Inr plan
     \<and> blk \<in> set (plan_blocks plan ''b1'') \<and> (\<forall>l \<in> set (map py_str (arr_items (field blk ''commands''))). safe_remove l)"
proof -
  from sample_reconciliation_block obtain plan blk where
    p: "build_multicast_reconciliation (Some sample_baseline) (sample_manifest [sample_originator]) = Inr plan"
    and b: "blk \<in> set (plan_blocks plan ''b1'')" by blast
  with reconciliation_commands_safe [OF p sample_baseline(5) sample_manifest_wf(2) b] show ?thesis by blast
qed

text \<open>
  C3: the blocks of a device are those of its stale resources by falling removal order and then
  by key.
\<close>

theorem reconciliation_order:
  assumes "build_multicast_reconciliation (Some b) c = Inr plan" and "wf_json b" and "wf_json c"
  shows "\<exists>es. map (\<lambda>blk. field blk ''owned_resource_key'') (plan_blocks plan d) = map (\<lambda>e. JStr (snd (fst e))) es
      \<and> set es \<subseteq> set (owned_resources (field b ''manifest''))
      \<and> sorted_wrt (\<lambda>e e'. removal_order e' < removal_order e
           \<or> removal_order e' = removal_order e \<and> snd (fst e) \<le> snd (fst e')) es"
proof -
  from assms obtain v where bl: "plan_blocks plan d = map removal_block (removals_on d (sorted_stale (field b ''manifest'') c))"
    by (rule reconciliationE) blast
  let ?key = "\<lambda>e. (fst (fst e), - removal_order e, snd (fst e))"
  define es where "es = filter (\<lambda>e. fst (fst e) = d) (sorted_stale (field b ''manifest'') c)"
  have "map (\<lambda>blk. field blk ''owned_resource_key'') (plan_blocks plan d) = map (\<lambda>e. JStr (snd (fst e))) es"
    by (simp add: bl removals_on_def es_def removal_block_def removal_rec_def comp_def)
  moreover have "set es \<subseteq> set (owned_resources (field b ''manifest''))"
    by (auto simp: es_def sorted_stale_def)
  moreover have "sorted_wrt (\<lambda>e e'. ?key e \<le> ?key e') (sorted_stale (field b ''manifest'') c)"
    using sorted_sort_key [of ?key "filter (stale_in c) (owned_resources (field b ''manifest''))"]
    unfolding sorted_stale_def sorted_map .
  then have "sorted_wrt (\<lambda>e e'. ?key e \<le> ?key e') es"
    unfolding es_def by (rule sorted_wrt_filter)
  then have "sorted_wrt (\<lambda>e e'. removal_order e' < removal_order e
           \<or> removal_order e' = removal_order e \<and> snd (fst e) \<le> snd (fst e')) es"
    by (rule sorted_wrt_mono_rel [rotated]) (auto simp: es_def less_eq_prod_def)
  ultimately show ?thesis by blast
qed

theorem reconciliation_order_witness:
  "\<exists>plan (es :: ((string \<times> string) \<times> json) list). build_multicast_reconciliation (Some sample_baseline) (sample_manifest [sample_originator]) = Inr plan
     \<and> map (\<lambda>blk. field blk ''owned_resource_key'') (plan_blocks plan ''b1'') = map (\<lambda>e. JStr (snd (fst e))) es \<and> es \<noteq> []"
proof -
  from sample_reconciliation_block obtain plan blk where
    p: "build_multicast_reconciliation (Some sample_baseline) (sample_manifest [sample_originator]) = Inr plan"
    and b: "blk \<in> set (plan_blocks plan ''b1'')" by blast
  obtain es :: "((string \<times> string) \<times> json) list" where es: "map (\<lambda>blk. field blk ''owned_resource_key'') (plan_blocks plan ''b1'') = map (\<lambda>e. JStr (snd (fst e))) es"
    using reconciliation_order [OF p sample_baseline(5) sample_manifest_wf(2), of "''b1''"] by blast
  have "plan_blocks plan ''b1'' \<noteq> []" using b by auto
  with es have "es \<noteq> []" by (metis list.map_disc_iff)
  with p es show ?thesis by blast
qed

text \<open>
  Reconciling a manifest against the baseline made from it succeeds and removes nothing.
\<close>

theorem reconciliation_idempotent:
  assumes "make_baseline m st sr sah eh = Inr b" and "source_proved st sah eh"
    and "wf_json m" and "jidx m ''fabric_id'' = Inr fid"
  shows "\<exists>plan. build_multicast_reconciliation (Some b) m = Inr plan \<and> field plan ''status'' = JStr ''ready''
     \<and> field plan ''stale_resource_count'' = JInt 0 \<and> field plan ''devices'' = JObj []"
proof -
  have f: "field m ''fabric_id'' = fid" using assms(4) by (auto simp: res)
  note mk = make_baseline_fields [OF assms(1)]
  obtain mh h where mh: "jidx m ''manifest_hash'' = Inr mh" and h: "jidx b ''baseline_hash'' = Inr h" using mk by blast
  note v = mk(1)
  have vb: "validate_baseline b (py_str fid) = Inr ()"
    using make_baseline_validates [OF assms(1,2)] f by simp
  note ix = resource_index_eq [OF v assms(3)]
  have "is_stale (owned_resources m) e = Inr False" if "e \<in> set (owned_resources m)" for e
  proof -
    have "stale_in m e = False"
      using map_of_is_SomeI [OF ix(2), of "fst e" "snd e"] that by (simp add: stale_in_def)
    with is_stale_eq [OF v owned_resources_valid(1) [OF v that]] show ?thesis by simp
  qed
  then have "filterE (is_stale (owned_resources m)) (owned_resources m) = Inr (filter (\<lambda>_. False) (owned_resources m))"
    by (intro filterE_total) simp
  then have "plan_removals m m = Inr (0, [])"
    by (simp add: plan_removals_def stale_resources_def ix(1))
  then show ?thesis
    by (simp add: build_multicast_reconciliation_def v assms(4) vb mk(2) h mh removal_plan_json_def Let_def)
qed

theorem reconciliation_idempotent_witness:
  "\<exists>plan. build_multicast_reconciliation (Some sample_baseline) (sample_manifest [sample_routing, sample_originator]) = Inr plan
     \<and> field plan ''devices'' = JObj []"
  using reconciliation_idempotent [OF sample_baseline(1) _ sample_manifest_wf(1) sample_manifest_fields(1)]
  by (auto simp: source_proved_def sample_hash_any)

text \<open>
  C4: what \<open>make_baseline\<close> returns, \<open>validate_baseline\<close> accepts for the fabric of the manifest,
  provided the digest that the kind of source requires was given.
\<close>

theorem baseline_round_trip:
  assumes "make_baseline m st sr sah eh = Inr b" and "source_proved st sah eh"
    and "py_str (field m ''fabric_id'') = f"
  shows "validate_baseline b f = Inr ()"
  using assms by (rule make_baseline_validates)

theorem baseline_round_trip_witness: "validate_baseline sample_baseline ''f1'' = Inr ()"
  by (rule baseline_round_trip [OF sample_baseline(1)])
    (simp_all add: source_proved_def sample_hash_any sample_manifest_def hashed_def)

end
