(* ===== verification/JsonCanon.thy ===== *)
theory JsonCanon
  imports Json "HOL-Library.Multiset"
begin

text \<open>
  The canonical rendering determines the document. \<open>dumps\<close> is read back unambiguously: a
  rendering followed by any text that starts with a delimiter can be split in one way only, so
  equal renderings come from equal documents, and \<open>canonical_json\<close> identifies exactly the
  documents that differ in the order of object keys. The hashes that bind plans, artifacts,
  approvals and audit events are taken over this rendering.
\<close>

section \<open>Characters and strings\<close>

lemma hex_digit_inject: "a < 16 \<Longrightarrow> b < 16 \<Longrightarrow> hex_digit a = hex_digit b \<Longrightarrow> a = b"
proof -
  assume ab: "a < 16" "b < 16" and eq: "hex_digit a = hex_digit b"
  have "ordc (hex_digit x) = (if x < 10 then 48 + x else 87 + x)" if "x < 16" for x
    using that by (auto simp: hex_digit_def)
  with ab eq have "(if a < 10 then 48 + a else 87 + a) = (if b < 10 then 48 + b else 87 + b)"
    by metis
  then show "a = b" using ab by (auto split: if_splits)
qed

lemma hex2_inject:
  assumes "m < 256" "n < 256" "hex2 m = hex2 n"
  shows "m = n"
proof -
  from assms(3) have "hex_digit (m div 16) = hex_digit (n div 16)"
    and "hex_digit (m mod 16) = hex_digit (n mod 16)"
    by (simp_all add: hex2_def)
  moreover have "m div 16 < 16" "n div 16 < 16" using assms(1,2) by auto
  ultimately have "m div 16 = n div 16" and "m mod 16 = n mod 16"
    using hex_digit_inject [of "m div 16" "n div 16"] hex_digit_inject [of "m mod 16" "n mod 16"]
    by simp_all
  then show ?thesis by (metis div_mult_mod_eq)
qed

lemma ordc_less: "ordc c < 256"
  by simp

lemma esc_nonempty [simp]: "esc c \<noteq> []"
  by (simp add: esc_def)

lemma hd_esc: "hd (esc c) \<noteq> CHR 0x22"
  by (auto simp: esc_def)

definition plain :: "char \<Rightarrow> bool" where
  "plain c \<longleftrightarrow> 32 \<le> ordc c \<and> ordc c \<le> 126 \<and> c \<noteq> CHR 0x22 \<and> c \<noteq> CHR 0x5C"

lemma esc_decode: "esc c @ r = esc d @ s \<Longrightarrow> c = d \<and> r = s"
proof -
  assume eq: "esc c @ r = esc d @ s"
  have cases: "plain x \<and> esc x = [x]
     \<or> \<not> plain x \<and> esc x = [CHR 0x5C, CHR ''u'', CHR ''0'', CHR ''0''] @ hex2 (ordc x)
     \<or> (\<exists>l \<in> {(CHR 0x22, CHR 0x22), (CHR 0x5C, CHR 0x5C), (CHR 0x0A, CHR ''n''), (CHR 0x0D, CHR ''r''),
        (CHR 0x09, CHR ''t''), (CHR 0x0C, CHR ''f''), (CHR 0x08, CHR ''b'')}.
        x = fst l \<and> esc x = [CHR 0x5C, snd l])" for x
    unfolding esc_def plain_def by auto
  have np: "\<not> plain (CHR 0x5C)" by (simp add: plain_def)
  show ?thesis
    using cases [of c] cases [of d] eq np
    apply (elim disjE conjE bexE)
    apply (auto simp: hex2_def)
    apply (metis hex2_def hex2_inject ordc_less of_char_eq_iff)
    done
qed

lemma quote_decode: "quote s @ r = quote t @ u \<Longrightarrow> s = t \<and> r = u"
proof -
  have *: "concat (map esc s) @ CHR 0x22 # r = concat (map esc t) @ CHR 0x22 # u
      \<Longrightarrow> s = t \<and> r = u"
  proof (induction s arbitrary: t)
    case Nil
    then show ?case using hd_esc by (cases t) (auto simp: neq_Nil_conv dest!: sym [of "_ # _"], (metis hd_append2 esc_nonempty list.sel(1))+)
  next
    case (Cons a s)
    show ?case
    proof (cases t)
      case Nil
      with Cons.prems have "hd (esc a @ concat (map esc s) @ CHR 0x22 # r) = CHR 0x22" by simp
      then show ?thesis using hd_esc by simp
    next
      case t: (Cons b t')
      with Cons.prems have "esc a @ (concat (map esc s) @ CHR 0x22 # r) = esc b @ (concat (map esc t') @ CHR 0x22 # u)"
        by simp
      then have "a = b" and "concat (map esc s) @ CHR 0x22 # r = concat (map esc t') @ CHR 0x22 # u"
        by (auto dest!: esc_decode)
      with Cons.IH t show ?thesis by simp
    qed
  qed
  assume "quote s @ r = quote t @ u"
  then show ?thesis by (intro *) (simp add: quote_def)
qed

lemma quote_inject [simp]: "quote s = quote t \<longleftrightarrow> s = t"
  using quote_decode [of s "[]" t "[]"] by auto

section \<open>Numbers and delimiters\<close>

definition delim :: "string \<Rightarrow> bool" where
  "delim r \<longleftrightarrow> r = [] \<or> hd r \<in> {CHR '','', CHR '']'', CHR ''}''}"

lemma delim_not_digit: "delim r \<Longrightarrow> r = [] \<or> \<not> is_digit (hd r)"
  by (auto simp: delim_def is_digit_def)

lemma digits_decode:
  assumes "list_all is_digit u" "list_all is_digit v" "u @ r = v @ s"
    "r = [] \<or> \<not> is_digit (hd r)" "s = [] \<or> \<not> is_digit (hd s)"
  shows "u = v \<and> r = s"
  using assms
proof (induction u arbitrary: v)
  case Nil
  then show ?case by (cases v) auto
next
  case (Cons a u)
  then show ?case by (cases v) auto
qed

lemma int_str_decode: "int_str i @ r = int_str j @ s \<Longrightarrow> delim r \<Longrightarrow> delim s \<Longrightarrow> i = j \<and> r = s"
proof -
  assume eq: "int_str i @ r = int_str j @ s" and d: "delim r" "delim s"
  obtain a u where a: "nat_str (nat i) = a # u" by (cases "nat_str (nat i)") auto
  obtain b v where b: "nat_str (nat j) = b # v" by (cases "nat_str (nat j)") auto
  have sgn: "(i < 0) = (j < 0)"
    using eq a b nat_str_no_minus [of "nat i" u] nat_str_no_minus [of "nat j" v]
    by (auto simp: int_str_def split: if_splits)
  have nn: "x = y \<and> r = s" if "nat_str x @ r = nat_str y @ s" for x y
    using digits_decode [OF nat_str_digits nat_str_digits that] d
    by (auto dest: delim_not_digit)
  show ?thesis using eq sgn by (auto simp: int_str_def dest!: nn split: if_splits)
qed

section \<open>Lists of items\<close>

lemma join_concat: "join sep (x # xs) = x @ concat (map (\<lambda>y. sep @ y) xs)"
  by (induction xs arbitrary: x) auto

lemma items_decode:
  assumes item: "\<And>x y r s. x \<in> set xs \<Longrightarrow> p x @ r = p y @ s \<Longrightarrow> delim r \<Longrightarrow> delim s \<Longrightarrow> x = y \<and> r = s"
    and c: "c \<in> {CHR '']'', CHR ''}''}"
    and eq: "concat (map (\<lambda>x. '','' @ p x) xs) @ c # r = concat (map (\<lambda>x. '','' @ p x) ys) @ c # s"
  shows "xs = ys \<and> r = s"
  using item eq
proof (induction xs arbitrary: ys)
  case Nil
  then show ?case using c by (cases ys) auto
next
  case (Cons x xs)
  show ?case
  proof (cases ys)
    case Nil
    then show ?thesis using Cons.prems c by auto
  next
    case ys: (Cons y ys')
    let ?R = "concat (map (\<lambda>x. '','' @ p x) xs) @ c # r"
    let ?S = "concat (map (\<lambda>x. '','' @ p x) ys') @ c # s"
    have dl: "delim ?R" "delim ?S" using c by (cases xs; cases ys'; auto simp: delim_def)+
    have "p x @ ?R = p y @ ?S" using Cons.prems(2) ys by simp
    from Cons.prems(1) [OF _ this dl] have xy: "x = y" and RS: "?R = ?S" by simp_all
    have "xs = ys' \<and> r = s"
      by (rule Cons.IH [OF Cons.prems(1) RS]) simp
    with xy ys show ?thesis by simp
  qed
qed

lemma join_decode:
  assumes item: "\<And>x y r s. x \<in> set xs \<Longrightarrow> p x @ r = p y @ s \<Longrightarrow> delim r \<Longrightarrow> delim s \<Longrightarrow> x = y \<and> r = s"
    and c: "c \<in> {CHR '']'', CHR ''}''}"
    and start: "\<And>x. p x \<noteq> [] \<and> hd (p x) \<noteq> c"
    and eq: "join '','' (map p xs) @ c # r = join '','' (map p ys) @ c # s"
  shows "xs = ys \<and> r = s"
proof (cases xs)
  case Nil
  then show ?thesis using eq start
    by (cases ys) (auto simp: join_concat, (metis hd_append2 list.sel(1))+)
next
  case xs: (Cons x xs')
  show ?thesis
  proof (cases ys)
    case Nil
    then show ?thesis using eq start [of x] xs
      by (auto simp: join_concat) (metis hd_append2 list.sel(1))+
  next
    case ys: (Cons y ys')
    let ?R = "concat (map (\<lambda>x. '','' @ p x) xs') @ c # r"
    let ?S = "concat (map (\<lambda>x. '','' @ p x) ys') @ c # s"
    have dl: "delim ?R" "delim ?S" using c by (cases xs'; cases ys'; auto simp: delim_def)+
    have "p x @ ?R = p y @ ?S"
      using eq unfolding xs ys by (simp add: join_concat comp_def)
    from item [OF _ this dl] xs have xy: "x = y" and RS: "?R = ?S" by simp_all
    have "xs' = ys' \<and> r = s"
      by (rule items_decode [OF item c RS]) (simp add: xs)
    with xy xs ys show ?thesis by simp
  qed
qed

section \<open>Documents\<close>

definition member_text :: "string \<times> json \<Rightarrow> string" where
  "member_text = (\<lambda>(k, v). quote k @ '':'' @ dumps v)"

lemma dumps_JObj: "dumps (JObj kvs) = ''{'' @ join '','' (map member_text kvs) @ ''}''"
  by (simp add: member_text_def)

lemma dumps_start: "dumps v \<noteq> [] \<and> hd (dumps v) \<notin> {CHR '']'', CHR ''}'', CHR '',''}"
proof (cases v)
  case (JInt i)
  have "hd (nat_str n) \<notin> {CHR '']'', CHR ''}'', CHR '',''}" for n
    using nat_str_hd_digit [of n] by (auto simp: is_digit_def)
  then show ?thesis using JInt by (simp add: int_str_def)
qed (auto simp: quote_def)

lemma member_start: "member_text kv \<noteq> [] \<and> hd (member_text kv) \<noteq> CHR ''}''"
  by (auto simp: member_text_def quote_def split: prod.splits)

lemma first_char:
  "hd (dumps v @ r) =
     (case v of JNull \<Rightarrow> CHR ''n'' | JBool b \<Rightarrow> if b then CHR ''t'' else CHR ''f''
      | JInt i \<Rightarrow> hd (int_str i) | JStr s \<Rightarrow> CHR 0x22 | JArr xs \<Rightarrow> CHR ''['' | JObj kvs \<Rightarrow> CHR ''{'')"
  by (cases v) (auto simp: quote_def)

lemma hd_int_str: "hd (int_str i) \<in> {CHR ''-''} \<union> {c. is_digit c}"
  using nat_str_hd_digit by (simp add: int_str_def)

lemma hd_int_str_neq:
  "hd (int_str i) \<noteq> CHR ''n''" "hd (int_str i) \<noteq> CHR ''t''" "hd (int_str i) \<noteq> CHR ''f''"
  "hd (int_str i) \<noteq> CHR 0x22" "hd (int_str i) \<noteq> CHR ''[''" "hd (int_str i) \<noteq> CHR ''{''"
  using hd_int_str [of i] by (auto simp: is_digit_def)

fun shape :: "json \<Rightarrow> nat" where
  "shape JNull = 0"
| "shape (JBool b) = (if b then 1 else 2)"
| "shape (JInt i) = 3"
| "shape (JStr s) = 4"
| "shape (JArr xs) = 5"
| "shape (JObj kvs) = 6"

lemma dumps_shape: "dumps v @ r = dumps w @ s \<Longrightarrow> shape v = shape w"
  using first_char [of v r] first_char [of w s]
  by (cases v; cases w)
    (auto simp: hd_int_str_neq hd_int_str_neq [symmetric] split: if_splits)

theorem dumps_decode:
  "dumps v @ r = dumps w @ s \<Longrightarrow> delim r \<Longrightarrow> delim s \<Longrightarrow> v = w \<and> r = s"
proof (induction v arbitrary: w r s)
  case JNull
  then show ?case using dumps_shape [OF JNull(1)] by (cases w) (auto split: if_splits)
next
  case (JBool b)
  then show ?case using dumps_shape [OF JBool(1)] by (cases w) (auto split: if_splits)
next
  case (JInt i)
  then show ?case using dumps_shape [OF JInt(1)]
    by (cases w) (auto split: if_splits dest: int_str_decode)
next
  case (JStr t)
  then show ?case using dumps_shape [OF JStr(1)]
    by (cases w) (auto split: if_splits dest: quote_decode)
next
  case (JArr xs)
  from dumps_shape [OF JArr.prems(1)] obtain ys where w: "w = JArr ys"
    by (cases w) (auto split: if_splits)
  have "join '','' (map dumps xs) @ CHR '']'' # r = join '','' (map dumps ys) @ CHR '']'' # s"
    using JArr.prems(1) w by simp
  from join_decode [OF _ _ _ this] JArr.IH dumps_start show ?case by (auto simp: w)
next
  case (JObj kvs)
  from dumps_shape [OF JObj.prems(1)] obtain lws where w: "w = JObj lws"
    by (cases w) (auto split: if_splits)
  have eq: "join '','' (map member_text kvs) @ CHR ''}'' # r =
      join '','' (map member_text lws) @ CHR ''}'' # s"
    using JObj.prems(1) unfolding w by (simp only: dumps_JObj) simp
  have item: "x = y \<and> a = b"
    if "x \<in> set kvs" "member_text x @ a = member_text y @ b" "delim a" "delim b" for x y a b
  proof -
    obtain k v l u where xy: "x = (k, v)" "y = (l, u)" by (metis prod.exhaust)
    with that(2) have "quote k @ ('':'' @ dumps v @ a) = quote l @ ('':'' @ dumps u @ b)"
      by (simp add: member_text_def)
    from quote_decode [OF this] have "k = l" "dumps v @ a = dumps u @ b" by auto
    moreover have "v = u \<and> a = b"
      by (rule JObj.IH [of x]) (use that xy calculation in \<open>auto simp: snds.simps\<close>)
    ultimately show ?thesis by (simp add: xy)
  qed
  from join_decode [OF item _ _ eq] member_start show ?case by (auto simp: w)
qed

theorem dumps_inject: "dumps v = dumps w \<longleftrightarrow> v = w"
  using dumps_decode [of v "[]" w "[]"] by (auto simp: delim_def)

lemma canonical_json_eq_iff: "canonical_json v = canonical_json w \<longleftrightarrow> sort_keys v = sort_keys w"
  by (simp add: canonical_json_def dumps_inject)

section \<open>The order of object keys\<close>

lemma sort_key_fst_perm:
  assumes "mset xs = mset ys" and "distinct (map fst xs)"
  shows "sort_key fst xs = sort_key fst ys"
  by (rule sort_key_inj_key_eq) (use assms in \<open>simp_all add: distinct_map\<close>)

lemma canonical_json_key_order:
  assumes "mset kvs = mset lws" and "distinct (map fst kvs)"
  shows "canonical_json (JObj kvs) = canonical_json (JObj lws)"
proof -
  let ?f = "\<lambda>(k :: string, v). (k, sort_keys v)"
  have "mset (map ?f kvs) = mset (map ?f lws)" using assms(1) by simp
  moreover have "distinct (map fst (map ?f kvs))" using assms(2) by (simp add: comp_def case_prod_beta)
  ultimately have "sort_key fst (map ?f kvs) = sort_key fst (map ?f lws)"
    by (rule sort_key_fst_perm)
  then show ?thesis by (simp add: canonical_json_eq_iff)
qed

end
