(* ===== verification/Clock.thy ===== *)
theory Clock
  imports PyStr
begin

text \<open>
  Time. An instant is a number of microseconds since 1970-01-01 UTC, what \<open>datetime\<close> values in
  UTC stand for. \<open>isoformat\<close> writes an instant as \<open>datetime.isoformat\<close> does; \<open>parse_timestamp\<close>
  normalises a text as \<open>store.parse_timestamp\<close> does and leaves the grammar of
  \<open>datetime.fromisoformat\<close>, which depends on the Python release, to the runtime. The runtime of
  one operation is the stream of random identifiers it draws and what the clock shows at each
  place where the operation reads it: \<open>now rt k\<close> is the \<open>k\<close>-th call of \<open>utc_now\<close> in the method,
  \<open>now rt (4 + k)\<close> the one of \<open>_append_audit\<close> for the event whose identifier is \<open>uuid rt k\<close>. The
  readings are unrelated: a clock may be set back, and a transaction may wait between two of them.
\<close>

record runtime =
  now :: "nat \<Rightarrow> int"
  uuid :: "nat \<Rightarrow> string"
  fromisoformat :: "string \<Rightarrow> (int \<times> int option) option"

text \<open>Civil date of a day number, and the digits of a number padded with zeros.\<close>

definition civil :: "int \<Rightarrow> int \<times> int \<times> int" where
  "civil days =
     (let z = days + 719468; era = z div 146097; doe = z mod 146097;
          yoe = (doe - doe div 1460 + doe div 36524 - doe div 146096) div 365;
          doy = doe - (365 * yoe + yoe div 4 - yoe div 100);
          mp = (5 * doy + 2) div 153;
          d = doy - (153 * mp + 2) div 5 + 1;
          m = (if mp < 10 then mp + 3 else mp - 9)
      in (yoe + era * 400 + (if m \<le> 2 then 1 else 0), m, d))"

definition pad0 :: "nat \<Rightarrow> int \<Rightarrow> string" where
  "pad0 k i = (let s = int_str i in replicate (k - length s) (CHR ''0'') @ s)"

definition isoformat :: "int \<Rightarrow> string" where
  "isoformat t =
     (let us = t mod 1000000; secs = t div 1000000; sod = secs mod 86400 in
      case civil (secs div 86400) of (y, m, d) \<Rightarrow>
        pad0 4 y @ ''-'' @ pad0 2 m @ ''-'' @ pad0 2 d @ ''T'' @
        pad0 2 (sod div 3600) @ '':'' @ pad0 2 (sod div 60 mod 60) @ '':'' @ pad0 2 (sod mod 60) @
        (if us = 0 then [] else ''.'' @ pad0 6 us) @ ''+00:00'')"

definition parse_timestamp :: "runtime \<Rightarrow> string \<Rightarrow> int result" where
  "parse_timestamp rt value =
     (if strip value = [] then Inl (ValueError ''A timestamp is required'')
      else
        (let s = strip value;
             normalized = (if last s = CHR ''Z'' then butlast s @ ''+00:00'' else s) in
         case fromisoformat rt normalized of
           None \<Rightarrow> Inl (ValueError ''Invalid isoformat string'')
         | Some (t, None) \<Rightarrow> Inl (ValueError ''Timestamp must include a timezone'')
         | Some (t, Some offset) \<Rightarrow> Inr (t - offset)))"

lemma isoformat_epoch: "isoformat 0 = ''1970-01-01T00:00:00+00:00''"
  by code_simp

lemma isoformat_sample: "isoformat 1785024000000500 = ''2026-07-26T00:00:00.000500+00:00''"
  by code_simp

end
