(* ===== verification/StoreState.thy ===== *)
theory StoreState
  imports JsonCanon Sha256 Clock
begin

text \<open>
  The tables of the state store (\<open>SCHEMA\<close> of \<open>store.py\<close>) as lists of records in insertion
  order, the row operations the SQL statements perform on them with the uniqueness constraints
  of the schema, the JSON columns, and the hash-chained audit log. A locale states what every
  table promises about its primary key; it is interpreted for each table of the store.
\<close>

section \<open>Rows\<close>

datatype res_state = Reserved | Committed | Released | Quarantined

datatype decision = Approved | Rejected

datatype run_mode = DryRun | Apply

datatype run_status =
    DryRunQueued | DryRunRunning | DryRunSucceeded | DryRunBlocked | DryRunFailed
  | ApplyQueued | ApplyRunning | ApplySucceeded | ApplyFailed
  | RollbackRunning | RolledBack | RollbackFailed

datatype source_type = SuccessfulApply | AdoptedDiscovery

record intent_row =
  in_id :: string
  in_hash :: string
  in_fabric :: string
  in_environment :: string
  in_document :: json
  in_created_at :: int
  in_created_by :: string

record plan_row =
  pl_id :: string
  pl_hash :: string
  pl_artifact_hash :: string
  pl_intent_version :: string
  pl_reservation :: "string option"
  pl_intent_id :: string
  pl_fabric :: string
  pl_document :: json
  pl_created_at :: int
  pl_created_by :: string

record approval_row =
  ap_id :: string
  ap_plan_id :: string
  ap_plan_hash :: string
  ap_artifact_hash :: string
  ap_intent_version :: string
  ap_decision :: decision
  ap_approver :: string
  ap_change_reference :: string
  ap_expires_at :: int
  ap_created_at :: int

record run_row =
  rn_id :: string
  rn_plan_id :: string
  rn_plan_hash :: string
  rn_artifact_hash :: string
  rn_intent_version :: string
  rn_fabric :: string
  rn_key_hash :: string
  rn_mode :: run_mode
  rn_status :: run_status
  rn_requested_by :: string
  rn_maintenance_start :: "int option"
  rn_maintenance_end :: "int option"
  rn_created_at :: int
  rn_updated_at :: int

record lock_row =
  lk_fabric :: string
  lk_run :: string
  lk_acquired_at :: int
  lk_expires_at :: int

record evidence_row =
  ev_id :: string
  ev_run :: string
  ev_phase :: string
  ev_device :: "string option"
  ev_type :: string
  ev_payload :: json
  ev_payload_hash :: string
  ev_created_at :: int
  ev_created_by :: string

record audit_row =
  au_event_id :: string
  au_aggregate_type :: string
  au_aggregate_id :: string
  au_event_type :: string
  au_actor :: string
  au_payload :: json
  au_previous_hash :: string
  au_event_hash :: string
  au_created_at :: int

record reservation_row =
  rs_id :: string
  rs_key_hash :: string
  rs_requirements_hash :: string
  rs_policy_hash :: string
  rs_reservation_hash :: string
  rs_domain :: string
  rs_fabric :: string
  rs_state :: res_state
  rs_intent :: json
  rs_created_at :: int
  rs_updated_at :: int
  rs_created_by :: string

record network_row =
  nw_id :: string
  nw_reservation :: string
  nw_domain :: string
  nw_pool :: string
  nw_fabric :: string
  nw_prefix :: string
  nw_state :: res_state
  nw_created_at :: int
  nw_updated_at :: int

record scalar_row =
  sc_id :: string
  sc_reservation :: string
  sc_domain :: string
  sc_type :: string
  sc_fabric :: string
  sc_value :: string
  sc_state :: res_state
  sc_created_at :: int
  sc_updated_at :: int

record owned_row =
  ow_fabric :: string
  ow_manifest_hash :: string
  ow_source_type :: source_type
  ow_source_reference :: string
  ow_source_artifact_hash :: "string option"
  ow_evidence_hash :: "string option"
  ow_manifest :: json
  ow_created_at :: int
  ow_created_by :: string

record store =
  intents :: "intent_row list"
  plans :: "plan_row list"
  approvals :: "approval_row list"
  runs :: "run_row list"
  locks :: "lock_row list"
  evidence :: "evidence_row list"
  audit :: "audit_row list"
  reservations :: "reservation_row list"
  networks :: "network_row list"
  scalars :: "scalar_row list"
  owned :: "owned_row list"

definition empty_store :: store where
  "empty_store =
     \<lparr>intents = [], plans = [], approvals = [], runs = [], locks = [], evidence = [], audit = [],
      reservations = [], networks = [], scalars = [], owned = []\<rparr>"

text \<open>The states the partial unique indexes and the allocation queries treat as active.\<close>

definition is_active :: "res_state \<Rightarrow> bool" where
  "is_active st \<longleftrightarrow> st \<in> {Reserved, Committed, Quarantined}"

lemma is_active_iff [simp]: "is_active st \<longleftrightarrow> st \<noteq> Released"
  by (cases st) (auto simp: is_active_def)

fun res_state_str :: "res_state \<Rightarrow> string" where
  "res_state_str Reserved = ''reserved''"
| "res_state_str Committed = ''committed''"
| "res_state_str Released = ''released''"
| "res_state_str Quarantined = ''quarantined''"

fun decision_str :: "decision \<Rightarrow> string" where
  "decision_str Approved = ''approved''"
| "decision_str Rejected = ''rejected''"

fun mode_str :: "run_mode \<Rightarrow> string" where
  "mode_str DryRun = ''dry_run''"
| "mode_str Apply = ''apply''"

fun status_str :: "run_status \<Rightarrow> string" where
  "status_str DryRunQueued = ''dry_run_queued''"
| "status_str DryRunRunning = ''dry_run_running''"
| "status_str DryRunSucceeded = ''dry_run_succeeded''"
| "status_str DryRunBlocked = ''dry_run_blocked''"
| "status_str DryRunFailed = ''dry_run_failed''"
| "status_str ApplyQueued = ''apply_queued''"
| "status_str ApplyRunning = ''apply_running''"
| "status_str ApplySucceeded = ''apply_succeeded''"
| "status_str ApplyFailed = ''apply_failed''"
| "status_str RollbackRunning = ''rollback_running''"
| "status_str RolledBack = ''rolled_back''"
| "status_str RollbackFailed = ''rollback_failed''"

fun source_type_str :: "source_type \<Rightarrow> string" where
  "source_type_str SuccessfulApply = ''successful_apply''"
| "source_type_str AdoptedDiscovery = ''adopted_discovery''"

section \<open>Row operations\<close>

definition table_get :: "('s \<Rightarrow> 'r list) \<Rightarrow> ('r \<Rightarrow> 'k) \<Rightarrow> 'k \<Rightarrow> 's \<Rightarrow> 'r option" where
  "table_get rows key k s = find (\<lambda>r. key r = k) (rows s)"

definition table_insert ::
    "('s \<Rightarrow> 'r list) \<Rightarrow> ('r list \<Rightarrow> 's \<Rightarrow> 's) \<Rightarrow> ('r \<Rightarrow> 'r \<Rightarrow> bool) \<Rightarrow> 'r \<Rightarrow> 's \<Rightarrow> 's result" where
  "table_insert rows put clash r s =
     (if list_ex (clash r) (rows s) then Inl IntegrityError else Inr (put (rows s @ [r]) s))"

definition table_update ::
    "('s \<Rightarrow> 'r list) \<Rightarrow> ('r list \<Rightarrow> 's \<Rightarrow> 's) \<Rightarrow> ('r \<Rightarrow> bool) \<Rightarrow> ('r \<Rightarrow> 'r) \<Rightarrow> 's \<Rightarrow> 's" where
  "table_update rows put p f s = put (map (\<lambda>r. if p r then f r else r) (rows s)) s"

text \<open>
  What a table with a primary key promises: keys stay distinct under inserts and updates that
  do not touch the key, an inserted row is found under its key, other rows are not affected,
  and the relation between a row and what an update leaves of it.
\<close>

locale table =
  fixes rows :: "'s \<Rightarrow> 'r list"
    and put :: "'r list \<Rightarrow> 's \<Rightarrow> 's"
    and key :: "'r \<Rightarrow> 'k"
    and clash :: "'r \<Rightarrow> 'r \<Rightarrow> bool"
  assumes rows_put [simp]: "rows (put rs s) = rs"
    and clash_key: "key r = key x \<Longrightarrow> clash r x"
begin

lemma insert_Inr:
  "table_insert rows put clash r s = Inr t \<longleftrightarrow>
     t = put (rows s @ [r]) s \<and> (\<forall>x \<in> set (rows s). \<not> clash r x)"
  by (auto simp: table_insert_def list_ex_iff)

lemma insert_rows: "table_insert rows put clash r s = Inr t \<Longrightarrow> rows t = rows s @ [r]"
  by (simp add: insert_Inr)

lemma insert_distinct:
  "distinct (map key (rows s)) \<Longrightarrow> table_insert rows put clash r s = Inr t \<Longrightarrow>
     distinct (map key (rows t))"
  by (auto simp: insert_Inr dest: clash_key)

lemma get_insert_same:
  "table_insert rows put clash r s = Inr t \<Longrightarrow> table_get rows key (key r) t = Some r"
proof -
  assume "table_insert rows put clash r s = Inr t"
  then have t: "rows t = rows s @ [r]" and "\<forall>x \<in> set (rows s). key x \<noteq> key r"
    by (auto simp: insert_Inr dest: clash_key [OF sym] clash_key)
  moreover have "find (\<lambda>x. key x = key r) (xs @ [r]) = Some r" if "\<forall>x \<in> set xs. key x \<noteq> key r" for xs
    using that by (induction xs) auto
  ultimately show ?thesis by (simp add: table_get_def)
qed

lemma get_insert_other:
  "table_insert rows put clash r s = Inr t \<Longrightarrow> k \<noteq> key r \<Longrightarrow>
     table_get rows key k t = table_get rows key k s"
proof -
  have "find (\<lambda>x. key x = k) (xs @ [r]) = find (\<lambda>x. key x = k) xs" if "k \<noteq> key r" for xs
    using that by (induction xs) auto
  then show "table_insert rows put clash r s = Inr t \<Longrightarrow> k \<noteq> key r \<Longrightarrow> ?thesis"
    by (simp add: table_get_def insert_Inr)
qed

lemma update_rows: "rows (table_update rows put p f s) = map (\<lambda>r. if p r then f r else r) (rows s)"
  by (simp add: table_update_def)

lemma update_distinct:
  assumes "\<And>r. key (f r) = key r"
  shows "map key (rows (table_update rows put p f s)) = map key (rows s)"
  using assms by (simp add: update_rows)

lemma get_update:
  assumes "\<And>r. key (f r) = key r"
  shows "table_get rows key k (table_update rows put p f s) =
    map_option (\<lambda>r. if p r then f r else r) (table_get rows key k s)"
proof -
  have "find (\<lambda>x. key x = k) (map (\<lambda>r. if p r then f r else r) xs) =
      map_option (\<lambda>r. if p r then f r else r) (find (\<lambda>x. key x = k) xs)" for xs
    by (induction xs) (auto simp: assms)
  then show ?thesis by (simp add: table_get_def update_rows)
qed

lemma get_Some: "table_get rows key k s = Some r \<Longrightarrow> r \<in> set (rows s) \<and> key r = k"
  by (auto simp: table_get_def dest: find_Some_iff')

lemma get_None: "table_get rows key k s = None \<longleftrightarrow> (\<forall>r \<in> set (rows s). key r \<noteq> k)"
  by (auto simp: table_get_def find_None_iff')

lemma get_unique:
  "distinct (map key (rows s)) \<Longrightarrow> r \<in> set (rows s) \<Longrightarrow> table_get rows key (key r) s = Some r"
  by (simp add: table_get_def find_key_eq)

end

text \<open>The constraints of the schema: primary keys, unique columns, partial unique indexes.\<close>

definition intents_clash :: "intent_row \<Rightarrow> intent_row \<Rightarrow> bool" where
  "intents_clash r x \<longleftrightarrow> in_id r = in_id x \<or> in_hash r = in_hash x"

definition plans_clash :: "plan_row \<Rightarrow> plan_row \<Rightarrow> bool" where
  "plans_clash r x \<longleftrightarrow> pl_id r = pl_id x \<or> pl_hash r = pl_hash x"

definition approvals_clash :: "approval_row \<Rightarrow> approval_row \<Rightarrow> bool" where
  "approvals_clash r x \<longleftrightarrow> ap_id r = ap_id x"

definition runs_clash :: "run_row \<Rightarrow> run_row \<Rightarrow> bool" where
  "runs_clash r x \<longleftrightarrow> rn_id r = rn_id x \<or> rn_key_hash r = rn_key_hash x"

definition locks_clash :: "lock_row \<Rightarrow> lock_row \<Rightarrow> bool" where
  "locks_clash r x \<longleftrightarrow> lk_fabric r = lk_fabric x \<or> lk_run r = lk_run x"

definition evidence_clash :: "evidence_row \<Rightarrow> evidence_row \<Rightarrow> bool" where
  "evidence_clash r x \<longleftrightarrow> ev_id r = ev_id x"

definition audit_clash :: "audit_row \<Rightarrow> audit_row \<Rightarrow> bool" where
  "audit_clash r x \<longleftrightarrow> au_event_id r = au_event_id x \<or> au_event_hash r = au_event_hash x"

definition reservations_clash :: "reservation_row \<Rightarrow> reservation_row \<Rightarrow> bool" where
  "reservations_clash r x \<longleftrightarrow>
     rs_id r = rs_id x
   \<or> is_active (rs_state r) \<and> is_active (rs_state x) \<and>
       (rs_reservation_hash r = rs_reservation_hash x \<or> rs_key_hash r = rs_key_hash x)"

definition networks_clash :: "network_row \<Rightarrow> network_row \<Rightarrow> bool" where
  "networks_clash r x \<longleftrightarrow> nw_id r = nw_id x"

definition scalars_clash :: "scalar_row \<Rightarrow> scalar_row \<Rightarrow> bool" where
  "scalars_clash r x \<longleftrightarrow> sc_id r = sc_id x"

definition owned_clash :: "owned_row \<Rightarrow> owned_row \<Rightarrow> bool" where
  "owned_clash r x \<longleftrightarrow> ow_source_reference r = ow_source_reference x"

interpretation intents_tbl: table intents "\<lambda>rs s. s\<lparr>intents := rs\<rparr>" in_id intents_clash
  by unfold_locales (auto simp: intents_clash_def)
interpretation plans_tbl: table plans "\<lambda>rs s. s\<lparr>plans := rs\<rparr>" pl_id plans_clash
  by unfold_locales (auto simp: plans_clash_def)
interpretation approvals_tbl: table approvals "\<lambda>rs s. s\<lparr>approvals := rs\<rparr>" ap_id approvals_clash
  by unfold_locales (auto simp: approvals_clash_def)
interpretation runs_tbl: table runs "\<lambda>rs s. s\<lparr>runs := rs\<rparr>" rn_id runs_clash
  by unfold_locales (auto simp: runs_clash_def)
interpretation locks_tbl: table locks "\<lambda>rs s. s\<lparr>locks := rs\<rparr>" lk_fabric locks_clash
  by unfold_locales (auto simp: locks_clash_def)
interpretation evidence_tbl: table evidence "\<lambda>rs s. s\<lparr>evidence := rs\<rparr>" ev_id evidence_clash
  by unfold_locales (auto simp: evidence_clash_def)
interpretation audit_tbl: table audit "\<lambda>rs s. s\<lparr>audit := rs\<rparr>" au_event_id audit_clash
  by unfold_locales (auto simp: audit_clash_def)
interpretation reservations_tbl:
    table reservations "\<lambda>rs s. s\<lparr>reservations := rs\<rparr>" rs_id reservations_clash
  by unfold_locales (auto simp: reservations_clash_def)
interpretation networks_tbl: table networks "\<lambda>rs s. s\<lparr>networks := rs\<rparr>" nw_id networks_clash
  by unfold_locales (auto simp: networks_clash_def)
interpretation scalars_tbl: table scalars "\<lambda>rs s. s\<lparr>scalars := rs\<rparr>" sc_id scalars_clash
  by unfold_locales (auto simp: scalars_clash_def)
interpretation owned_tbl: table owned "\<lambda>rs s. s\<lparr>owned := rs\<rparr>" ow_source_reference owned_clash
  by unfold_locales (auto simp: owned_clash_def)

text \<open>The \<open>INSERT\<close> statements, with the foreign keys they check.\<close>

definition insert_intent :: "intent_row \<Rightarrow> store \<Rightarrow> store result" where
  "insert_intent = table_insert intents (\<lambda>rs s. s\<lparr>intents := rs\<rparr>) intents_clash"

definition insert_plan :: "plan_row \<Rightarrow> store \<Rightarrow> store result" where
  "insert_plan r s =
     (if table_get intents in_id (pl_intent_id r) s = None
         \<or> (case pl_reservation r of None \<Rightarrow> False | Some i \<Rightarrow> table_get reservations rs_id i s = None)
      then Inl IntegrityError
      else table_insert plans (\<lambda>rs s. s\<lparr>plans := rs\<rparr>) plans_clash r s)"

definition insert_approval :: "approval_row \<Rightarrow> store \<Rightarrow> store result" where
  "insert_approval r s =
     (if table_get plans pl_id (ap_plan_id r) s = None then Inl IntegrityError
      else table_insert approvals (\<lambda>rs s. s\<lparr>approvals := rs\<rparr>) approvals_clash r s)"

definition insert_run :: "run_row \<Rightarrow> store \<Rightarrow> store result" where
  "insert_run r s =
     (if table_get plans pl_id (rn_plan_id r) s = None then Inl IntegrityError
      else table_insert runs (\<lambda>rs s. s\<lparr>runs := rs\<rparr>) runs_clash r s)"

definition insert_lock :: "lock_row \<Rightarrow> store \<Rightarrow> store result" where
  "insert_lock r s =
     (if table_get runs rn_id (lk_run r) s = None then Inl IntegrityError
      else table_insert locks (\<lambda>rs s. s\<lparr>locks := rs\<rparr>) locks_clash r s)"

definition insert_evidence :: "evidence_row \<Rightarrow> store \<Rightarrow> store result" where
  "insert_evidence r s =
     (if table_get runs rn_id (ev_run r) s = None then Inl IntegrityError
      else table_insert evidence (\<lambda>rs s. s\<lparr>evidence := rs\<rparr>) evidence_clash r s)"

definition insert_reservation :: "reservation_row \<Rightarrow> store \<Rightarrow> store result" where
  "insert_reservation = table_insert reservations (\<lambda>rs s. s\<lparr>reservations := rs\<rparr>) reservations_clash"

definition insert_network :: "network_row \<Rightarrow> store \<Rightarrow> store result" where
  "insert_network r s =
     (if table_get reservations rs_id (nw_reservation r) s = None then Inl IntegrityError
      else table_insert networks (\<lambda>rs s. s\<lparr>networks := rs\<rparr>) networks_clash r s)"

definition insert_scalar :: "scalar_row \<Rightarrow> store \<Rightarrow> store result" where
  "insert_scalar r s =
     (if table_get reservations rs_id (sc_reservation r) s = None then Inl IntegrityError
      else table_insert scalars (\<lambda>rs s. s\<lparr>scalars := rs\<rparr>) scalars_clash r s)"

definition insert_owned :: "owned_row \<Rightarrow> store \<Rightarrow> store result" where
  "insert_owned = table_insert owned (\<lambda>rs s. s\<lparr>owned := rs\<rparr>) owned_clash"

section \<open>JSON columns\<close>

text \<open>
  A document is written with \<open>canonical_json\<close> and read with \<open>decode_json\<close>: what comes back is
  the document with sorted keys, which has the same canonical rendering and the same hash.
\<close>

definition json_column :: "json \<Rightarrow> json" where
  "json_column v = sort_keys v"

lemma sorted_sort_key_id: "sorted (map f xs) \<Longrightarrow> sort_key f xs = xs"
  by (induction xs) (auto simp: insort_key.simps intro: insort_is_Cons)

lemma sort_keys_idem [simp]: "sort_keys (sort_keys v) = sort_keys v"
proof (induction v)
  case (JArr xs)
  then show ?case by simp
next
  case (JObj kvs)
  let ?f = "\<lambda>(k :: string, v). (k, sort_keys v)"
  let ?ys = "sort_key fst (map ?f kvs)"
  have "map ?f ?ys = ?ys"
  proof (rule map_idI)
    fix y assume "y \<in> set ?ys"
    then obtain k v where "(k, v) \<in> set kvs" "y = (k, sort_keys v)" by auto
    with JObj.IH [of "(k, v)" v] show "?f y = y" by (auto simp: snds.simps)
  qed
  moreover have "sort_key fst ?ys = ?ys" by (rule sorted_sort_key_id) simp
  ultimately show ?case by simp
qed simp_all

lemma canonical_json_column [simp]: "canonical_json (json_column v) = canonical_json v"
  by (simp add: canonical_json_def json_column_def)

lemma sha256_json_column [simp]: "sha256_json (json_column v) = sha256_json v"
  by (simp add: sha256_json_def)

section \<open>The audit log\<close>

definition audit_body ::
    "string \<Rightarrow> string \<Rightarrow> string \<Rightarrow> string \<Rightarrow> string \<Rightarrow> json \<Rightarrow> string \<Rightarrow> int \<Rightarrow> json" where
  "audit_body event_id aggregate_type aggregate_id event_type actor payload previous_hash created_at =
     JObj
      [(''event_id'', JStr event_id),
       (''aggregate_type'', JStr aggregate_type),
       (''aggregate_id'', JStr aggregate_id),
       (''event_type'', JStr event_type),
       (''actor'', JStr actor),
       (''payload'', payload),
       (''previous_hash'', JStr previous_hash),
       (''created_at'', JStr (isoformat created_at))]"

definition last_audit_hash :: "store \<Rightarrow> string" where
  "last_audit_hash s = (if audit s = [] then ''GENESIS'' else au_event_hash (last (audit s)))"

text \<open>\<open>k\<close> is the position of the event's identifier among those the operation draws; the clock is
  read for the event itself.\<close>

definition append_audit ::
    "runtime \<Rightarrow> nat \<Rightarrow> string \<Rightarrow> string \<Rightarrow> string \<Rightarrow> string \<Rightarrow> json \<Rightarrow> store \<Rightarrow> store result" where
  "append_audit rt k aggregate_type aggregate_id event_type actor payload s =
     (let previous_hash = last_audit_hash s;
          created_at = now rt (4 + k);
          event_id = ''evt_'' @ uuid rt k;
          event_hash = sha256_json (audit_body event_id aggregate_type aggregate_id event_type actor
            payload previous_hash created_at)
      in table_insert audit (\<lambda>rs s. s\<lparr>audit := rs\<rparr>) audit_clash
           \<lparr>au_event_id = event_id, au_aggregate_type = aggregate_type,
            au_aggregate_id = aggregate_id, au_event_type = event_type, au_actor = actor,
            au_payload = json_column payload, au_previous_hash = previous_hash,
            au_event_hash = event_hash, au_created_at = created_at\<rparr> s)"

definition audit_row_hash :: "audit_row \<Rightarrow> string" where
  "audit_row_hash r = sha256_json
     (audit_body (au_event_id r) (au_aggregate_type r) (au_aggregate_id r) (au_event_type r)
        (au_actor r) (au_payload r) (au_previous_hash r) (au_created_at r))"

fun verify_from :: "string \<Rightarrow> audit_row list \<Rightarrow> bool" where
  "verify_from previous_hash [] = True"
| "verify_from previous_hash (r # rs) =
     (if au_previous_hash r \<noteq> previous_hash then False
      else if audit_row_hash r \<noteq> au_event_hash r then False
      else verify_from (au_event_hash r) rs)"

definition verify_audit_chain :: "store \<Rightarrow> bool" where
  "verify_audit_chain s = verify_from ''GENESIS'' (audit s)"

section \<open>Exchange with the allocator\<close>

text \<open>
  What the store and the allocator exchange: the ledger entries \<open>reserve_design\<close> reads from the
  two allocation tables (the columns of its \<open>SELECT\<close> statements) and the derivation that
  \<open>derive_fabric_intent\<close> returns to it.
\<close>

record net_entry =
  ne_domain :: string
  ne_pool :: string
  ne_prefix :: string
  ne_state :: res_state

record scalar_entry =
  se_domain :: string
  se_type :: string
  se_value :: string
  se_state :: res_state

record derivation =
  dv_intent :: json
  dv_requirements_hash :: string
  dv_policy_hash :: string
  dv_reservation_hash :: string
  dv_domain :: string
  dv_fabric :: string
  dv_network :: "(string \<times> string) list"
  dv_scalar :: "(string \<times> string) list"

type_synonym deriver = "json \<Rightarrow> json \<Rightarrow> net_entry list \<Rightarrow> scalar_entry list \<Rightarrow> derivation result"

end
