(* ===== verification/StoreOps.thy ===== *)
theory StoreOps
  imports StoreState
begin

text \<open>
  The operations of \<open>StateStore\<close> that do not touch owned state: intents, design reservations,
  plans, approvals, runs with their fabric locks, evidence, and the read-only summaries. An
  operation is one transaction: it either returns a value with the new store, or raises, and
  then the store is the one before the call. The clock is read once per operation; \<open>uuid rt k\<close>
  is the \<open>k\<close>-th random identifier the operation draws.
\<close>

type_synonym 'a tx = "('a \<times> store) result"

section \<open>The ledgers of active resources\<close>

definition network_ledger :: "store \<Rightarrow> net_entry list" where
  "network_ledger s =
     map (\<lambda>r. \<lparr>ne_domain = nw_domain r, ne_pool = nw_pool r, ne_prefix = nw_prefix r, ne_state = nw_state r\<rparr>)
       (filter (\<lambda>r. is_active (nw_state r)) (networks s))"

definition scalar_ledger :: "store \<Rightarrow> scalar_entry list" where
  "scalar_ledger s =
     map (\<lambda>r. \<lparr>se_domain = sc_domain r, se_type = sc_type r, se_value = sc_value r, se_state = sc_state r\<rparr>)
       (filter (\<lambda>r. is_active (sc_state r)) (scalars s))"

section \<open>Intents\<close>

definition save_intent :: "runtime \<Rightarrow> json \<Rightarrow> string \<Rightarrow> store \<Rightarrow> (intent_row \<times> bool) tx" where
  "save_intent rt intent actor s =
     (let intent_hash = sha256_json intent;
          intent_id = ''intent_'' @ take 16 intent_hash in
      (ebind (jidx intent ''fabric'') (\<lambda>fabric.
         ebind (jidx fabric ''id'') (\<lambda>fid.
         ebind (jidx intent ''metadata'') (\<lambda>metadata.
         ebind (jidx metadata ''environment'') (\<lambda>env.
         let fabric_id = py_str fid in
         let environment = py_str env in
         (case table_get intents in_hash intent_hash s of
             Some existing \<Rightarrow> Inr ((existing, False), s)
           | None \<Rightarrow>
               (let row = \<lparr>in_id = intent_id, in_hash = intent_hash, in_fabric = fabric_id,
                      in_environment = environment, in_document = json_column intent,
                      in_created_at = now rt 0, in_created_by = actor\<rparr> in
                (ebind (insert_intent row s) (\<lambda>s1.
                   ebind (append_audit rt 0 ''intent'' intent_id ''intent.created'' actor
                            (JObj [(''intent_hash'', JStr intent_hash), (''fabric_id'', JStr fabric_id),
                                   (''environment'', JStr environment)]) s1) (\<lambda>s2.
                   Inr ((row, True), s2))))))))))))"

definition get_intent :: "string \<Rightarrow> store \<Rightarrow> intent_row result" where
  "get_intent intent_id s =
     of_option (NotFoundError ''Intent not found'') (table_get intents in_id intent_id s)"

section \<open>Design reservations\<close>

record reservation_view =
  rv_row :: reservation_row
  rv_networks :: "(string \<times> string \<times> res_state) list"
  rv_scalars :: "(string \<times> string \<times> res_state) list"

definition design_reservation_record :: "store \<Rightarrow> reservation_row \<Rightarrow> reservation_view" where
  "design_reservation_record s row =
     \<lparr>rv_row = row,
      rv_networks = sort_key (\<lambda>(pool, pfx, st). (pool, pfx))
        (map (\<lambda>r. (nw_pool r, nw_prefix r, nw_state r))
          (filter (\<lambda>r. nw_reservation r = rs_id row) (networks s))),
      rv_scalars = sort_key (\<lambda>(kind, v, st). (kind, v))
        (map (\<lambda>r. (sc_type r, sc_value r, sc_state r))
          (filter (\<lambda>r. sc_reservation r = rs_id row) (scalars s)))\<rparr>"

text \<open>The two insert loops of \<open>reserve_design\<close>; \<open>k\<close> counts the identifiers drawn.\<close>

fun insert_networks ::
    "runtime \<Rightarrow> nat \<Rightarrow> string \<Rightarrow> string \<Rightarrow> string \<Rightarrow> (string \<times> string) list \<Rightarrow> store \<Rightarrow> store result" where
  "insert_networks rt k rid domain fabric [] s = Inr s"
| "insert_networks rt k rid domain fabric ((pool, pfx) # items) s =
     (ebind (insert_network
           \<lparr>nw_id = ''net_'' @ uuid rt k, nw_reservation = rid, nw_domain = domain, nw_pool = pool,
            nw_fabric = fabric, nw_prefix = pfx, nw_state = Reserved,
            nw_created_at = now rt 0, nw_updated_at = now rt 0\<rparr> s) (\<lambda>s'.
        insert_networks rt (Suc k) rid domain fabric items s'))"

fun insert_scalars ::
    "runtime \<Rightarrow> nat \<Rightarrow> string \<Rightarrow> string \<Rightarrow> string \<Rightarrow> (string \<times> string) list \<Rightarrow> store \<Rightarrow> store result" where
  "insert_scalars rt k rid domain fabric [] s = Inr s"
| "insert_scalars rt k rid domain fabric ((kind, v) # items) s =
     (ebind (insert_scalar
           \<lparr>sc_id = ''scalar_'' @ uuid rt k, sc_reservation = rid, sc_domain = domain, sc_type = kind,
            sc_fabric = fabric, sc_value = v, sc_state = Reserved,
            sc_created_at = now rt 0, sc_updated_at = now rt 0\<rparr> s) (\<lambda>s'.
        insert_scalars rt (Suc k) rid domain fabric items s'))"

text \<open>The active reservation bound to an idempotency key.\<close>

definition active_reservation_for :: "string \<Rightarrow> store \<Rightarrow> reservation_row option" where
  "active_reservation_for key_hash s =
     find (\<lambda>r. rs_key_hash r = key_hash \<and> is_active (rs_state r)) (reservations s)"

text \<open>Writing a derivation: the reservation, its resources and the audit event.\<close>

definition persist_reservation ::
    "runtime \<Rightarrow> string \<Rightarrow> derivation \<Rightarrow> string \<Rightarrow> store \<Rightarrow> reservation_view tx" where
  "persist_reservation rt key_hash d actor s =
     (let rid = ''reservation_'' @ uuid rt 0;
          row = \<lparr>rs_id = rid, rs_key_hash = key_hash, rs_requirements_hash = dv_requirements_hash d,
                 rs_policy_hash = dv_policy_hash d, rs_reservation_hash = dv_reservation_hash d,
                 rs_domain = dv_domain d, rs_fabric = dv_fabric d, rs_state = Reserved,
                 rs_intent = json_column (dv_intent d), rs_created_at = now rt 0,
                 rs_updated_at = now rt 0, rs_created_by = actor\<rparr>;
          nets = length (dv_network d); vals = length (dv_scalar d) in
      (ebind (insert_reservation row s) (\<lambda>s1.
         ebind (insert_networks rt 1 rid (dv_domain d) (dv_fabric d) (dv_network d) s1) (\<lambda>s2.
         ebind (insert_scalars rt (1 + nets) rid (dv_domain d) (dv_fabric d) (dv_scalar d) s2) (\<lambda>s3.
         ebind (append_audit rt (1 + nets + vals) ''reservation'' rid ''reservation.created'' actor
                  (JObj [(''allocation_domain'', JStr (dv_domain d)), (''fabric_id'', JStr (dv_fabric d)),
                         (''requirements_hash'', JStr (dv_requirements_hash d)),
                         (''policy_hash'', JStr (dv_policy_hash d)),
                         (''reservation_hash'', JStr (dv_reservation_hash d))]) s3) (\<lambda>s4.
         Inr (design_reservation_record s4 row, s4)))))))"

definition reserve_design ::
    "deriver \<Rightarrow> runtime \<Rightarrow> json \<Rightarrow> json \<Rightarrow> string \<Rightarrow> string \<Rightarrow> store \<Rightarrow> (reservation_view \<times> bool) tx" where
  "reserve_design derive rt requirements policy idempotency_key actor s =
     (ebind (raise_if (length (strip idempotency_key) < 12)
           (ValueError ''idempotency_key must contain at least 12 characters'')) (\<lambda>_.
        let key_hash = sha256_hex (strip idempotency_key) in
        let requirements_hash = sha256_json requirements in
        let policy_hash = sha256_json policy in
        (case active_reservation_for key_hash s of
            Some existing \<Rightarrow>
              (if rs_requirements_hash existing \<noteq> requirements_hash \<or> rs_policy_hash existing \<noteq> policy_hash
               then Inl (ConflictError
                 ''Idempotency key is already bound to different requirements or policy'')
               else Inr ((design_reservation_record s existing, False), s))
          | None \<Rightarrow>
              (ebind (derive requirements policy (network_ledger s) (scalar_ledger s)) (\<lambda>d.
                 ebind (persist_reservation rt key_hash d actor s) (\<lambda>(view, s').
                 Inr ((view, True), s')))))))"

definition get_design_reservation :: "string \<Rightarrow> store \<Rightarrow> reservation_view result" where
  "get_design_reservation rid s =
     ebind (of_option (NotFoundError ''Design reservation not found'') (table_get reservations rs_id rid s))
       (\<lambda>row. Inr (design_reservation_record s row))"

fun reservation_allowed :: "res_state \<Rightarrow> res_state \<Rightarrow> bool" where
  "reservation_allowed Reserved st = (st \<in> {Committed, Released, Quarantined})"
| "reservation_allowed Committed st = (st \<in> {Released, Quarantined})"
| "reservation_allowed Quarantined st = (st \<in> {Released})"
| "reservation_allowed Released st = False"

text \<open>The states a caller may ask for.\<close>

definition requested_state :: "string \<Rightarrow> res_state option" where
  "requested_state st =
     (if st = ''committed'' then Some Committed
      else if st = ''released'' then Some Released
      else if st = ''quarantined'' then Some Quarantined else None)"

text \<open>The three \<open>UPDATE\<close> statements.\<close>

definition set_reservation_state :: "int \<Rightarrow> string \<Rightarrow> res_state \<Rightarrow> store \<Rightarrow> store" where
  "set_reservation_state t rid st s =
     (let s1 = table_update reservations (\<lambda>rs s. s\<lparr>reservations := rs\<rparr>) (\<lambda>r. rs_id r = rid)
                 (\<lambda>r. r\<lparr>rs_state := st, rs_updated_at := t\<rparr>) s;
          s2 = table_update networks (\<lambda>rs s. s\<lparr>networks := rs\<rparr>) (\<lambda>r. nw_reservation r = rid)
                 (\<lambda>r. r\<lparr>nw_state := st, nw_updated_at := t\<rparr>) s1
      in table_update scalars (\<lambda>rs s. s\<lparr>scalars := rs\<rparr>) (\<lambda>r. sc_reservation r = rid)
           (\<lambda>r. r\<lparr>sc_state := st, sc_updated_at := t\<rparr>) s2)"

definition transition_design_reservation ::
    "runtime \<Rightarrow> string \<Rightarrow> string \<Rightarrow> string \<Rightarrow> bool \<Rightarrow> store \<Rightarrow> reservation_view tx" where
  "transition_design_reservation rt rid new_state actor verified s =
     (ebind (of_option (ValueError ''Unsupported reservation state'') (requested_state new_state)) (\<lambda>st.
        ebind (of_option (NotFoundError ''Design reservation not found'')
                  (table_get reservations rs_id rid s)) (\<lambda>row.
        ebind (raise_if (\<not> reservation_allowed (rs_state row) st)
           (ConflictError (''Invalid reservation transition '' @ res_state_str (rs_state row)
              @ '' -> '' @ new_state))) (\<lambda>_.
        ebind (raise_if (st = Released \<and> \<not> verified)
           (ConflictError ''Release requires verified rollback or cleanup'')) (\<lambda>_.
        let s1 = set_reservation_state (now rt 0) rid st s in
        ebind (append_audit rt 0 ''reservation'' rid (''reservation.'' @ new_state) actor
                 (JObj [(''previous_state'', JStr (res_state_str (rs_state row))),
                        (''verified'', JBool verified)]) s1) (\<lambda>s2.
        ebind (of_option TypeError (table_get reservations rs_id rid s2)) (\<lambda>updated.
        Inr (design_reservation_record s2 updated, s2))))))))"

section \<open>Plans\<close>

text \<open>\<open>str(value or "")\<close> of a nullable text column.\<close>

definition text_or_empty :: "string option \<Rightarrow> string" where
  "text_or_empty v = (case v of None \<Rightarrow> [] | Some x \<Rightarrow> x)"

definition json_opt :: "string option \<Rightarrow> json" where
  "json_opt v = (case v of None \<Rightarrow> JNull | Some x \<Rightarrow> JStr x)"

definition reservation_bound_to :: "string option \<Rightarrow> string \<Rightarrow> store \<Rightarrow> unit result" where
  "reservation_bound_to reservation_id intent_hash s =
     (if text_or_empty reservation_id = [] then Inr ()
      else (ebind (of_option (NotFoundError ''Design reservation not found'')
                      (table_get reservations rs_id (text_or_empty reservation_id) s)) (\<lambda>r.
         raise_if (sha256_json (rs_intent r) \<noteq> intent_hash)
                 (ConflictError ''Reservation is not bound to the stored intent''))))"

text \<open>A plan that is already stored: rebinding to another reservation once the first is released.\<close>

definition rebind_plan ::
    "runtime \<Rightarrow> plan_row \<Rightarrow> string \<Rightarrow> string \<Rightarrow> string option \<Rightarrow> string \<Rightarrow> store \<Rightarrow> plan_row tx" where
  "rebind_plan rt existing plan_hash artifact_hash reservation_id actor s =
     (let prior = text_or_empty (pl_reservation existing) in
      if prior = text_or_empty reservation_id then Inr (existing, s)
      else
        (let prior_active =
               (prior \<noteq> [] \<and> (case table_get reservations rs_id prior s of
                  None \<Rightarrow> False | Some r \<Rightarrow> is_active (rs_state r))) in
         (ebind (raise_if prior_active
               (ConflictError ''Plan ID is already bound to a different reservation'')) (\<lambda>_.
            ebind (raise_if (case reservation_id of None \<Rightarrow> False
                       | Some i \<Rightarrow> table_get reservations rs_id i s = None) IntegrityError) (\<lambda>_.
            let s1 = table_update plans (\<lambda>rs s. s\<lparr>plans := rs\<rparr>) (\<lambda>r. pl_id r = pl_id existing)
                        (\<lambda>r. r\<lparr>pl_reservation := reservation_id\<rparr>) s in
            ebind (append_audit rt 0 ''plan'' (pl_id existing) ''plan.reservation_rebound'' actor
                     (JObj [(''plan_hash'', JStr plan_hash), (''artifact_hash'', JStr artifact_hash),
                            (''previous_reservation_id'', JStr prior),
                            (''reservation_id'', json_opt reservation_id)]) s1) (\<lambda>s2.
            Inr (existing\<lparr>pl_reservation := reservation_id\<rparr>, s2)))))))"

definition reuse_plan ::
    "runtime \<Rightarrow> plan_row \<Rightarrow> json \<Rightarrow> string \<Rightarrow> string option \<Rightarrow> string \<Rightarrow> store \<Rightarrow> (plan_row \<times> bool) tx" where
  "reuse_plan rt existing plan artifact_hash reservation_id actor s =
     (ebind (raise_if (pl_artifact_hash existing \<noteq> artifact_hash)
           (ConflictError ''Plan ID is already bound to a different artifact hash'')) (\<lambda>_.
        ebind ((if text_or_empty (pl_reservation existing) = text_or_empty reservation_id
                then Inr JNull else jidx plan ''plan_hash'')) (\<lambda>ph.
        ebind (rebind_plan rt existing (py_str ph) artifact_hash reservation_id actor s) (\<lambda>(row, s').
        Inr ((row, False), s')))))"

text \<open>A plan that is not stored yet.\<close>

definition store_new_plan ::
    "runtime \<Rightarrow> intent_row \<Rightarrow> json \<Rightarrow> string \<Rightarrow> string \<Rightarrow> string \<Rightarrow> string \<Rightarrow> string option \<Rightarrow> store
       \<Rightarrow> (plan_row \<times> bool) tx" where
  "store_new_plan rt intent plan plan_id actor artifact_hash intent_version reservation_id s =
     (ebind (jidx plan ''plan_hash'') (\<lambda>ph.
        let row = \<lparr>pl_id = plan_id, pl_hash = py_str ph, pl_artifact_hash = artifact_hash,
               pl_intent_version = strip intent_version, pl_reservation = reservation_id,
               pl_intent_id = in_id intent, pl_fabric = in_fabric intent,
               pl_document = json_column plan, pl_created_at = now rt 0, pl_created_by = actor\<rparr> in
        ebind (insert_plan row s) (\<lambda>s1.
        ebind (append_audit rt 0 ''plan'' plan_id ''plan.created'' actor
                 (JObj [(''plan_hash'', JStr (py_str ph)), (''artifact_hash'', JStr artifact_hash),
                        (''intent_version'', JStr (strip intent_version)),
                        (''reservation_id'', json_opt reservation_id),
                        (''intent_id'', JStr (in_id intent)), (''fabric_id'', JStr (in_fabric intent))]) s1) (\<lambda>s2.
        Inr ((row, True), s2)))))"

definition save_plan ::
    "runtime \<Rightarrow> string \<Rightarrow> json \<Rightarrow> string \<Rightarrow> string \<Rightarrow> string \<Rightarrow> string option \<Rightarrow> store \<Rightarrow> (plan_row \<times> bool) tx" where
  "save_plan rt intent_id plan actor artifact_hash intent_version reservation_id s =
     (ebind (raise_if (length artifact_hash \<noteq> 64) (ValueError ''artifact_hash must be a SHA-256 hex digest'')) (\<lambda>_.
        ebind (raise_if (strip intent_version = []) (ValueError ''intent_version is required'')) (\<lambda>_.
        ebind (of_option (NotFoundError ''Intent not found'') (table_get intents in_id intent_id s)) (\<lambda>intent.
        ebind (jidx plan ''intent_hash'') (\<lambda>ih.
        ebind (raise_if (py_str ih \<noteq> in_hash intent) (ConflictError ''Plan is not bound to the stored intent hash'')) (\<lambda>_.
        ebind (reservation_bound_to reservation_id (in_hash intent) s) (\<lambda>_.
        ebind (jidx plan ''plan_id'') (\<lambda>pid.
        (case table_get plans pl_id (py_str pid) s of
            Some existing \<Rightarrow> reuse_plan rt existing plan artifact_hash reservation_id actor s
          | None \<Rightarrow> store_new_plan rt intent plan (py_str pid) actor artifact_hash intent_version reservation_id s)))))))))"

definition get_plan :: "string \<Rightarrow> store \<Rightarrow> plan_row result" where
  "get_plan plan_id s = of_option (NotFoundError ''Plan not found'') (table_get plans pl_id plan_id s)"

section \<open>Approvals\<close>

definition decision_of :: "string \<Rightarrow> decision option" where
  "decision_of d = (if d = ''approved'' then Some Approved
     else if d = ''rejected'' then Some Rejected else None)"

definition record_approval ::
    "runtime \<Rightarrow> string \<Rightarrow> string \<Rightarrow> string \<Rightarrow> string \<Rightarrow> string \<Rightarrow> store \<Rightarrow> approval_row tx" where
  "record_approval rt plan_id dec approver change_reference expires_at s =
     (ebind (of_option (ValueError ''decision must be approved or rejected'') (decision_of dec)) (\<lambda>d.
        ebind (raise_if (strip change_reference = []) (ValueError ''change_reference is required'')) (\<lambda>_.
        ebind (parse_timestamp rt expires_at) (\<lambda>expiry.
        ebind (raise_if (expiry \<le> now rt 0) (ValueError ''expires_at must be in the future'')) (\<lambda>_.
        ebind (of_option (NotFoundError ''Plan not found'') (table_get plans pl_id plan_id s)) (\<lambda>plan.
        ebind (raise_if (pl_created_by plan = approver) (ConflictError ''Planner cannot approve their own plan'')) (\<lambda>_.
        ebind (raise_if (pl_artifact_hash plan = []) (ConflictError ''Plan has no bound rendered artifact'')) (\<lambda>_.
        let approval_id = ''approval_'' @ uuid rt 0 in
        let row = \<lparr>ap_id = approval_id, ap_plan_id = plan_id, ap_plan_hash = pl_hash plan,
                    ap_artifact_hash = pl_artifact_hash plan, ap_intent_version = pl_intent_version plan,
                    ap_decision = d, ap_approver = approver,
                    ap_change_reference = strip change_reference, ap_expires_at = expiry,
                    ap_created_at = now rt 1\<rparr> in
        ebind (insert_approval row s) (\<lambda>s1.
        ebind (append_audit rt 1 ''plan'' plan_id (''plan.'' @ dec) approver
                 (JObj [(''approval_id'', JStr approval_id), (''plan_hash'', JStr (pl_hash plan)),
                        (''artifact_hash'', JStr (pl_artifact_hash plan)),
                        (''intent_version'', JStr (pl_intent_version plan)),
                        (''change_reference'', JStr (strip change_reference)),
                        (''expires_at'', JStr (isoformat expiry))]) s1) (\<lambda>s2.
        Inr (row, s2)))))))))))"

text \<open>
  \<open>ORDER BY created_at DESC LIMIT 1\<close>; of rows with one instant, the index of the table yields
  the one inserted first.
\<close>

definition latest_approval :: "string \<Rightarrow> store \<Rightarrow> approval_row option" where
  "latest_approval plan_id s =
     (case filter (\<lambda>r. ap_plan_id r = plan_id) (approvals s) of
        [] \<Rightarrow> None
      | r # rs \<Rightarrow> Some (foldl (\<lambda>b x. if ap_created_at b < ap_created_at x then x else b) r rs))"

text \<open>
  \<open>_active_approval\<close> compares with the second reading of \<open>create_run\<close>, inside the transaction;
  \<open>active_approval\<close> is an operation of its own with one reading.
\<close>

definition require_active_approval :: "runtime \<Rightarrow> string \<Rightarrow> store \<Rightarrow> approval_row result" where
  "require_active_approval rt plan_id s =
     (case latest_approval plan_id s of
        None \<Rightarrow> Inl (ApprovalRequiredError ''A current approval is required'')
      | Some row \<Rightarrow>
          (if ap_decision row \<noteq> Approved
           then Inl (ApprovalRequiredError ''A current approval is required'')
           else if ap_expires_at row \<le> now rt 1
           then Inl (ApprovalRequiredError ''The plan approval has expired'')
           else Inr row))"

definition active_approval :: "runtime \<Rightarrow> string \<Rightarrow> store \<Rightarrow> approval_row option" where
  "active_approval rt plan_id s =
     (case latest_approval plan_id s of
        None \<Rightarrow> None
      | Some row \<Rightarrow>
          (if ap_decision row \<noteq> Approved then None
           else if ap_expires_at row \<le> now rt 0 then None
           else Some row))"

section \<open>Runs and fabric locks\<close>

definition mode_of :: "string \<Rightarrow> run_mode option" where
  "mode_of m = (if m = ''dry_run'' then Some DryRun else if m = ''apply'' then Some Apply else None)"

text \<open>The maintenance window an apply must run in: \<open>None\<close> for a dry run. The first reading of \<open>create_run\<close>.\<close>

definition check_window ::
    "runtime \<Rightarrow> run_mode \<Rightarrow> string option \<Rightarrow> string option \<Rightarrow> (int \<times> int) option result" where
  "check_window rt mode mstart mend =
     (if mode = DryRun then Inr None
      else if text_or_empty mstart = [] \<or> text_or_empty mend = []
      then Inl (MaintenanceWindowError ''Apply requires a maintenance window'')
      else
        (ebind (parse_timestamp rt (text_or_empty mstart)) (\<lambda>t0.
           ebind (parse_timestamp rt (text_or_empty mend)) (\<lambda>t1.
           ebind (raise_if (t1 \<le> t0) (MaintenanceWindowError ''Maintenance window end must follow start'')) (\<lambda>_.
           ebind (raise_if (\<not> (t0 \<le> now rt 0 \<and> now rt 0 \<le> t1))
              (MaintenanceWindowError ''Current time is outside the maintenance window'')) (\<lambda>_.
           Inr (Some (t0, t1))))))))"

definition approval_matches :: "approval_row \<Rightarrow> plan_row \<Rightarrow> unit result" where
  "approval_matches approval plan =
     (ebind (raise_if (ap_plan_hash approval \<noteq> pl_hash plan)
           (ApprovalRequiredError ''Approval does not match the stored plan hash'')) (\<lambda>_.
        ebind (raise_if (ap_artifact_hash approval \<noteq> pl_artifact_hash plan)
           (ApprovalRequiredError ''Approval does not match the rendered artifact hash'')) (\<lambda>_.
        raise_if (ap_intent_version approval \<noteq> pl_intent_version plan)
           (ApprovalRequiredError ''Approval does not match the intent version''))))"

definition acquire_lock :: "runtime \<Rightarrow> int \<Rightarrow> string \<Rightarrow> string \<Rightarrow> store \<Rightarrow> store result" where
  "acquire_lock rt lock_ttl_seconds fabric run_id s =
     (ebind (raise_if (table_get locks lk_fabric fabric s \<noteq> None)
           (ConflictError ''Fabric is locked by another active run'')) (\<lambda>_.
        insert_lock \<lparr>lk_fabric = fabric, lk_run = run_id, lk_acquired_at = now rt 2,
                      lk_expires_at = now rt 3 + lock_ttl_seconds * 1000000\<rparr> s))"

text \<open>
  The new run: its row, the fabric lock of an apply, the audit event. The clock is read again for
  the row, and once more for the expiry of the lock.
\<close>

definition queue_run ::
    "runtime \<Rightarrow> plan_row \<Rightarrow> approval_row \<Rightarrow> run_mode \<Rightarrow> string \<Rightarrow> string \<Rightarrow> (int \<times> int) option \<Rightarrow> int
       \<Rightarrow> store \<Rightarrow> run_row tx" where
  "queue_run rt plan approval m key_hash requested_by window lock_ttl s =
     (let run_id = ''run_'' @ uuid rt 0;
          status = (if m = DryRun then DryRunQueued else ApplyQueued);
          row = \<lparr>rn_id = run_id, rn_plan_id = pl_id plan, rn_plan_hash = pl_hash plan,
                 rn_artifact_hash = pl_artifact_hash plan,
                 rn_intent_version = pl_intent_version plan, rn_fabric = pl_fabric plan,
                 rn_key_hash = key_hash, rn_mode = m, rn_status = status,
                 rn_requested_by = requested_by,
                 rn_maintenance_start = map_option fst window,
                 rn_maintenance_end = map_option snd window,
                 rn_created_at = now rt 2, rn_updated_at = now rt 2\<rparr> in
      (ebind (insert_run row s) (\<lambda>s1.
         ebind ((if m = Apply then acquire_lock rt lock_ttl (pl_fabric plan) run_id s1 else Inr s1)) (\<lambda>s2.
         ebind (append_audit rt 1 ''run'' run_id ''run.created'' requested_by
                  (JObj [(''plan_id'', JStr (pl_id plan)), (''plan_hash'', JStr (pl_hash plan)),
                         (''artifact_hash'', JStr (pl_artifact_hash plan)),
                         (''intent_version'', JStr (pl_intent_version plan)),
                         (''fabric_id'', JStr (pl_fabric plan)), (''mode'', JStr (mode_str m)),
                         (''status'', JStr (status_str status)),
                         (''approval_id'', JStr (ap_id approval)),
                         (''idempotency_key_hash'', JStr key_hash)]) s2) (\<lambda>s3.
         Inr (row, s3))))))"

definition create_run ::
    "runtime \<Rightarrow> string \<Rightarrow> string \<Rightarrow> string \<Rightarrow> string \<Rightarrow> bool \<Rightarrow> string option \<Rightarrow> string option \<Rightarrow> int
       \<Rightarrow> store \<Rightarrow> (run_row \<times> bool) tx" where
  "create_run rt plan_id mode idempotency_key requested_by execution_enabled mstart mend lock_ttl s =
     (ebind (of_option (ValueError ''mode must be dry_run or apply'') (mode_of mode)) (\<lambda>m.
        ebind (raise_if (length (strip idempotency_key) < 12)
           (ValueError ''idempotency_key must contain at least 12 characters'')) (\<lambda>_.
        ebind (raise_if (m = Apply \<and> \<not> execution_enabled) (ExecutionDisabledError ''Apply execution is disabled'')) (\<lambda>_.
        let key_hash = sha256_hex (strip idempotency_key) in
        ebind (check_window rt m mstart mend) (\<lambda>window.
        ebind (of_option (NotFoundError ''Plan not found'') (table_get plans pl_id plan_id s)) (\<lambda>plan.
        (case table_get runs rn_key_hash key_hash s of
            Some existing \<Rightarrow>
              (if rn_plan_id existing \<noteq> plan_id \<or> rn_mode existing \<noteq> m
               then Inl (ConflictError ''Idempotency key is already bound to another request'')
               else Inr ((existing, False), s))
          | None \<Rightarrow>
              (ebind (require_active_approval rt plan_id s) (\<lambda>approval.
                 ebind (approval_matches approval plan) (\<lambda>_.
                 ebind (queue_run rt plan approval m key_hash requested_by window lock_ttl s) (\<lambda>(row, s').
                 Inr ((row, True), s'))))))))))))"

definition get_run :: "string \<Rightarrow> store \<Rightarrow> run_row result" where
  "get_run run_id s = of_option (NotFoundError ''Run not found'') (table_get runs rn_id run_id s)"

fun run_allowed :: "run_status \<Rightarrow> run_status \<Rightarrow> bool" where
  "run_allowed DryRunQueued st = (st \<in> {DryRunRunning, DryRunFailed})"
| "run_allowed DryRunRunning st = (st \<in> {DryRunSucceeded, DryRunBlocked, DryRunFailed})"
| "run_allowed ApplyQueued st = (st \<in> {ApplyRunning, ApplyFailed})"
| "run_allowed ApplyRunning st = (st \<in> {ApplySucceeded, ApplyFailed, RollbackRunning})"
| "run_allowed RollbackRunning st = (st \<in> {RolledBack, RollbackFailed})"
| "run_allowed _ st = False"

definition run_terminal :: "run_status \<Rightarrow> bool" where
  "run_terminal st \<longleftrightarrow> st \<in> {DryRunSucceeded, DryRunBlocked, DryRunFailed, ApplySucceeded, ApplyFailed,
     RolledBack, RollbackFailed}"

definition set_run_status :: "int \<Rightarrow> string \<Rightarrow> run_status \<Rightarrow> store \<Rightarrow> store" where
  "set_run_status t run_id st =
     table_update runs (\<lambda>rs s. s\<lparr>runs := rs\<rparr>) (\<lambda>r. rn_id r = run_id)
       (\<lambda>r. r\<lparr>rn_status := st, rn_updated_at := t\<rparr>)"

definition release_lock :: "string \<Rightarrow> store \<Rightarrow> store" where
  "release_lock run_id s = s\<lparr>locks := filter (\<lambda>l. lk_run l \<noteq> run_id) (locks s)\<rparr>"

definition transition_run ::
    "runtime \<Rightarrow> string \<Rightarrow> run_status \<Rightarrow> string \<Rightarrow> json \<Rightarrow> store \<Rightarrow> run_row tx" where
  "transition_run rt run_id new_status actor detail s =
     (ebind (of_option (NotFoundError ''Run not found'') (table_get runs rn_id run_id s)) (\<lambda>run.
        ebind (raise_if (\<not> run_allowed (rn_status run) new_status)
           (ConflictError (''Invalid run transition from '' @ status_str (rn_status run)
              @ '' to '' @ status_str new_status))) (\<lambda>_.
        let s1 = set_run_status (now rt 0) run_id new_status s in
        let s2 = (if run_terminal new_status then release_lock run_id s1 else s1) in
        ebind (append_audit rt 0 ''run'' run_id ''run.status_changed'' actor
                 (JObj [(''from'', JStr (status_str (rn_status run))),
                        (''to'', JStr (status_str new_status)), (''detail'', detail)]) s2) (\<lambda>s3.
        ebind (of_option TypeError (table_get runs rn_id run_id s3)) (\<lambda>updated.
        Inr (updated, s3))))))"

section \<open>Evidence\<close>

definition add_evidence ::
    "runtime \<Rightarrow> string \<Rightarrow> string \<Rightarrow> string \<Rightarrow> json \<Rightarrow> string \<Rightarrow> string option \<Rightarrow> store \<Rightarrow> evidence_row tx" where
  "add_evidence rt run_id phase_id evidence_type payload actor device_id s =
     (let payload_hash = sha256_json payload;
          identity = JObj [(''run_id'', JStr run_id), (''phase_id'', JStr phase_id),
            (''device_id'', json_opt device_id), (''evidence_type'', JStr evidence_type),
            (''payload_hash'', JStr payload_hash)];
          evidence_id = ''evidence_'' @ take 16 (sha256_json identity) in
      (ebind (of_option (NotFoundError ''Run not found'') (table_get runs rn_id run_id s)) (\<lambda>_.
         (case table_get evidence ev_id evidence_id s of
             Some existing \<Rightarrow> Inr (existing, s)
           | None \<Rightarrow>
               (let row = \<lparr>ev_id = evidence_id, ev_run = run_id, ev_phase = phase_id,
                         ev_device = device_id, ev_type = evidence_type,
                         ev_payload = json_column payload, ev_payload_hash = payload_hash,
                         ev_created_at = now rt 0, ev_created_by = actor\<rparr> in
                  ebind (insert_evidence row s) (\<lambda>s1.
                  ebind (append_audit rt 0 ''run'' run_id ''evidence.recorded'' actor
                           (JObj [(''evidence_id'', JStr evidence_id), (''phase_id'', JStr phase_id),
                                  (''device_id'', json_opt device_id),
                                  (''evidence_type'', JStr evidence_type),
                                  (''payload_hash'', JStr payload_hash)]) s1) (\<lambda>s2.
                  Inr (row, s2))))))))"

definition run_evidence :: "string \<Rightarrow> store \<Rightarrow> evidence_row list" where
  "run_evidence run_id s =
     sort_key (\<lambda>r. (ev_created_at r, ev_id r)) (filter (\<lambda>r. ev_run r = run_id) (evidence s))"

section \<open>Audit queries and summaries\<close>

definition audit_events :: "string \<Rightarrow> string \<Rightarrow> store \<Rightarrow> audit_row list" where
  "audit_events aggregate_type aggregate_id s =
     filter (\<lambda>r. au_aggregate_type r = aggregate_type \<and> au_aggregate_id r = aggregate_id) (audit s)"

record observability =
  ob_audit_chain_valid :: bool
  ob_audit_event_count :: nat
  ob_run_status_counts :: "(string \<times> nat) list"
  ob_active_locks :: nat
  ob_expired_locks :: nat

definition observability_summary :: "runtime \<Rightarrow> store \<Rightarrow> observability" where
  "observability_summary rt s =
     (let statuses = map (\<lambda>r. status_str (rn_status r)) (runs s) in
      \<lparr>ob_audit_chain_valid = verify_audit_chain s,
       ob_audit_event_count = length (audit s),
       ob_run_status_counts = map (\<lambda>st. (st, count_list statuses st)) (sort (remdups statuses)),
       ob_active_locks = length (filter (\<lambda>l. now rt 0 \<le> lk_expires_at l) (locks s)),
       ob_expired_locks = length (filter (\<lambda>l. lk_expires_at l < now rt 0) (locks s))\<rparr>)"

end
