(* ===== verification/StoreOwned.thy ===== *)
theory StoreOwned
  imports StoreOps Reconcile
begin

text \<open>
  The owned-state ledger of \<open>StateStore\<close>: the newest baseline of a fabric, adoption of a
  discovered state under dual control, and the commit of a successful apply together with the
  manifest it leaves behind.
\<close>

definition none_if_empty :: "string option \<Rightarrow> string option" where
  "none_if_empty v = (case v of None \<Rightarrow> None | Some x \<Rightarrow> (if x = [] then None else Some x))"

text \<open>\<open>ORDER BY sequence DESC LIMIT 1\<close>\<close>

definition latest_owned_row :: "string \<Rightarrow> store \<Rightarrow> owned_row option" where
  "latest_owned_row fabric_id s = find (\<lambda>r. ow_fabric r = fabric_id) (rev (owned s))"

definition baseline_of_row :: "owned_row \<Rightarrow> json result" where
  "baseline_of_row r =
     make_baseline (ow_manifest r) (source_type_str (ow_source_type r)) (ow_source_reference r)
       (none_if_empty (ow_source_artifact_hash r)) (none_if_empty (ow_evidence_hash r))"

definition latest_owned_state :: "string \<Rightarrow> store \<Rightarrow> json option result" where
  "latest_owned_state fabric_id s =
     (case latest_owned_row fabric_id s of
        None \<Rightarrow> Inr None
      | Some r \<Rightarrow> ebind (baseline_of_row r) (\<lambda>b. Inr (Some b)))"

text \<open>The transaction of \<open>record_adopted_owned_state\<close>.\<close>

definition adopt_manifest ::
    "runtime \<Rightarrow> string \<Rightarrow> string \<Rightarrow> json \<Rightarrow> string \<Rightarrow> string \<Rightarrow> string \<Rightarrow> string \<Rightarrow> store \<Rightarrow> store result" where
  "adopt_manifest rt fabric_id manifest_hash manifest evidence_hash change_reference discovered_by approver s =
     (let source_reference = ''adoption:'' @ change_reference @ '':'' @ manifest_hash in
      case find (\<lambda>r. ow_source_reference r = source_reference) (owned s) of
        Some existing \<Rightarrow>
          (if ow_manifest_hash existing \<noteq> manifest_hash
           then Inl (ConflictError ''Adoption reference is bound to another manifest'') else Inr s)
      | None \<Rightarrow>
          (ebind (insert_owned
                \<lparr>ow_fabric = fabric_id, ow_manifest_hash = manifest_hash,
                 ow_source_type = AdoptedDiscovery, ow_source_reference = source_reference,
                 ow_source_artifact_hash = None, ow_evidence_hash = Some evidence_hash,
                 ow_manifest = json_column manifest, ow_created_at = now rt 0, ow_created_by = approver\<rparr> s) (\<lambda>s1.
             append_audit rt 0 ''fabric'' fabric_id ''owned_state.adopted'' approver
                (JObj [(''manifest_hash'', JStr manifest_hash), (''evidence_hash'', JStr evidence_hash),
                       (''change_reference'', JStr change_reference),
                       (''discovered_by'', JStr discovered_by)]) s1)))"

text \<open>
  The whole operation: the baseline is read back after the transaction has committed, so an
  exception there leaves the adopted row in place.
\<close>

definition record_adopted_owned_state ::
    "runtime \<Rightarrow> string \<Rightarrow> json \<Rightarrow> string \<Rightarrow> string \<Rightarrow> string \<Rightarrow> string \<Rightarrow> (store, json) eff" where
  "record_adopted_owned_state rt fabric_id manifest evidence_hash change_reference discovered_by approver s =
     (case
        (ebind (validate_owned_state manifest (Some fabric_id)) (\<lambda>_.
           ebind (raise_if (\<not> sha256_hex_any evidence_hash)
              (ValueError ''evidence_hash must be a SHA-256 hex digest'')) (\<lambda>_.
           ebind (raise_if (strip change_reference = []) (ValueError ''change_reference is required'')) (\<lambda>_.
           ebind (raise_if (strip discovered_by = [] \<or> strip approver = [])
              (ValueError ''discovered_by and approver are required'')) (\<lambda>_.
           ebind (raise_if (strip discovered_by = strip approver)
              (ConflictError ''Baseline discovery and approval require different actors'')) (\<lambda>_.
           ebind (jidx manifest ''manifest_hash'') (\<lambda>mh.
           adopt_manifest rt fabric_id (py_str mh) manifest evidence_hash (strip change_reference)
              (strip discovered_by) (strip approver) s))))))) of
        Inl e \<Rightarrow> (Inl e, s)
      | Inr s' \<Rightarrow>
          ((ebind (latest_owned_state fabric_id s') (\<lambda>b.
             of_option (StoreError ''Adopted owned-state baseline was not persisted'') b)), s'))"

definition complete_apply ::
    "runtime \<Rightarrow> string \<Rightarrow> string \<Rightarrow> json \<Rightarrow> string \<Rightarrow> json \<Rightarrow> store \<Rightarrow> run_row tx" where
  "complete_apply rt run_id artifact_hash owned_state actor detail s =
     (ebind (validate_owned_state owned_state None) (\<lambda>_.
        ebind (raise_if (length artifact_hash \<noteq> 64) (ValueError ''artifact_hash must be a SHA-256 hex digest'')) (\<lambda>_.
        ebind (of_option (NotFoundError ''Run not found'') (table_get runs rn_id run_id s)) (\<lambda>run.
        ebind (raise_if (rn_status run \<noteq> ApplyRunning)
           (ConflictError ''Run is not active for apply completion'')) (\<lambda>_.
        ebind (raise_if (rn_artifact_hash run \<noteq> artifact_hash)
           (ConflictError ''Owned-state commit artifact hash does not match run'')) (\<lambda>_.
        ebind (jidx owned_state ''fabric_id'') (\<lambda>fid.
        ebind (raise_if (rn_fabric run \<noteq> py_str fid)
           (ConflictError ''Owned-state manifest belongs to another fabric'')) (\<lambda>_.
        ebind (raise_if (find (\<lambda>r. ow_source_reference r = run_id) (owned s) \<noteq> None)
           (ConflictError ''Run already committed an owned-state manifest'')) (\<lambda>_.
        ebind (jidx owned_state ''manifest_hash'') (\<lambda>mh.
        ebind (insert_owned
           \<lparr>ow_fabric = rn_fabric run, ow_manifest_hash = py_str mh, ow_source_type = SuccessfulApply,
            ow_source_reference = run_id, ow_source_artifact_hash = Some artifact_hash,
            ow_evidence_hash = None, ow_manifest = json_column owned_state,
            ow_created_at = now rt 0, ow_created_by = actor\<rparr> s) (\<lambda>s1.
        let s2 = set_run_status (now rt 0) run_id ApplySucceeded s1 in
        let s3 = release_lock run_id s2 in
        ebind (append_audit rt 0 ''run'' run_id ''run.status_changed'' actor
           (JObj [(''from'', JStr ''apply_running''), (''to'', JStr ''apply_succeeded''), (''detail'', detail)]) s3) (\<lambda>s4.
        ebind (append_audit rt 1 ''fabric'' (rn_fabric run) ''owned_state.committed'' actor
           (JObj [(''run_id'', JStr run_id), (''artifact_hash'', JStr artifact_hash),
                  (''manifest_hash'', JStr (py_str mh))]) s4) (\<lambda>s5.
        ebind (of_option TypeError (table_get runs rn_id run_id s5)) (\<lambda>updated.
        Inr (updated, s5)))))))))))))))"

end
