(* ===== verification/AuditChain.thy ===== *)
theory AuditChain
  imports StoreState
begin

text \<open>
  The audit log is append-only and hash-chained: appending keeps a verified chain verified, a
  verified chain is determined by its length and its last hash unless two of its own texts
  collide under SHA-256, and any change of a row's content is caught.
\<close>

section \<open>Appending\<close>

definition chain_head :: "string \<Rightarrow> audit_row list \<Rightarrow> string" where
  "chain_head h rs = (if rs = [] then h else au_event_hash (last rs))"

lemma chain_head_simps [simp]:
  "chain_head h [] = h"
  "chain_head h (rs @ [r]) = au_event_hash r"
  by (simp_all add: chain_head_def)

lemma last_audit_hash_head: "last_audit_hash s = chain_head ''GENESIS'' (audit s)"
  by (simp add: last_audit_hash_def chain_head_def)

lemma verify_from_append:
  "verify_from h (rs @ us) \<longleftrightarrow> verify_from h rs \<and> verify_from (chain_head h rs) us"
proof (induction rs arbitrary: h)
  case Nil
  then show ?case by simp
next
  case (Cons r rs)
  have "chain_head h (r # rs) = chain_head (au_event_hash r) rs" by (simp add: chain_head_def)
  with Cons show ?case by auto
qed

lemma append_auditE:
  assumes "append_audit rt k at ai et actor payload s = Inr t"
  obtains r where "t = s\<lparr>audit := audit s @ [r]\<rparr>"
    and "au_previous_hash r = last_audit_hash s" and "audit_row_hash r = au_event_hash r"
    and "au_event_type r = et" and "au_aggregate_type r = at" and "au_aggregate_id r = ai"
    and "au_actor r = actor" and "au_payload r = json_column payload"
proof -
  let ?h = "sha256_json (audit_body (''evt_'' @ uuid rt k) at ai et actor payload (last_audit_hash s) (now rt (4 + k)))"
  let ?r = "\<lparr>au_event_id = ''evt_'' @ uuid rt k, au_aggregate_type = at, au_aggregate_id = ai,
     au_event_type = et, au_actor = actor, au_payload = json_column payload,
     au_previous_hash = last_audit_hash s, au_event_hash = ?h, au_created_at = now rt (4 + k)\<rparr>"
  have "sort_keys (audit_body i a b c d (json_column p) h u) = sort_keys (audit_body i a b c d p h u)"
    for i a b c d p h u
    by (simp add: audit_body_def json_column_def)
  then have "audit_row_hash ?r = ?h"
    by (simp add: audit_row_hash_def sha256_json_def canonical_json_def)
  moreover have "t = s\<lparr>audit := audit s @ [?r]\<rparr>"
    using assms by (simp add: append_audit_def Let_def audit_tbl.insert_Inr)
  ultimately show thesis by (intro that [of ?r]) simp_all
qed

text \<open>What every operation does to the log.\<close>

definition audit_extends :: "store \<Rightarrow> store \<Rightarrow> bool" where
  "audit_extends s t \<longleftrightarrow>
     prefix (audit s) (audit t) \<and> (verify_audit_chain s \<longrightarrow> verify_audit_chain t)"

lemma audit_extends_refl [simp]: "audit_extends s s"
  by (simp add: audit_extends_def)

lemma audit_extends_trans: "audit_extends s t \<Longrightarrow> audit_extends t u \<Longrightarrow> audit_extends s u"
  by (auto simp: audit_extends_def dest: prefix_order.trans)

lemma audit_extends_same: "audit t = audit s \<Longrightarrow> audit_extends s t"
  by (simp add: audit_extends_def verify_audit_chain_def)

lemma append_audit_extends:
  assumes "append_audit rt k at ai et actor payload s = Inr t"
  shows "audit_extends s t"
  using assms
  by (rule append_auditE)
    (simp add: audit_extends_def verify_audit_chain_def verify_from_append last_audit_hash_head)

section \<open>Binding\<close>

text \<open>What a row says: the fields under its hash, the payload up to the order of keys.\<close>

definition audit_content :: "audit_row \<Rightarrow> string \<times> string \<times> string \<times> string \<times> string \<times> json \<times> string \<times> string" where
  "audit_content r =
     (au_event_id r, au_aggregate_type r, au_aggregate_id r, au_event_type r, au_actor r,
      sort_keys (au_payload r), au_previous_hash r, isoformat (au_created_at r))"

text \<open>The text under the hash of a row, and two rows whose texts differ but share the digest.\<close>

definition audit_text :: "audit_row \<Rightarrow> string" where
  "audit_text r = canonical_json
     (audit_body (au_event_id r) (au_aggregate_type r) (au_aggregate_id r) (au_event_type r) (au_actor r)
        (au_payload r) (au_previous_hash r) (au_created_at r))"

definition rows_collide :: "audit_row \<Rightarrow> audit_row \<Rightarrow> bool" where
  "rows_collide r r' \<longleftrightarrow> audit_text r \<noteq> audit_text r' \<and> sha256_hex (audit_text r) = sha256_hex (audit_text r')"

text \<open>Two logs with such a pair of rows at one position.\<close>

definition logs_collide :: "audit_row list \<Rightarrow> audit_row list \<Rightarrow> bool" where
  "logs_collide rs us \<longleftrightarrow> list_ex (\<lambda>(r, u). rows_collide r u) (zip rs us)"

lemma sort_audit_body:
  "sort_keys (audit_body i a b c d p h u) =
     JObj [(''actor'', JStr d), (''aggregate_id'', JStr b), (''aggregate_type'', JStr a),
       (''created_at'', JStr (isoformat u)), (''event_id'', JStr i), (''event_type'', JStr c),
       (''payload'', sort_keys p), (''previous_hash'', JStr h)]"
  by (simp add: audit_body_def less_eq_char_def less_char_def)

lemma audit_body_inject:
  "sort_keys (audit_body i a b c d p h u) = sort_keys (audit_body i' a' b' c' d' p' h' u') \<longleftrightarrow>
     (i, a, b, c, d, sort_keys p, h, isoformat u) = (i', a', b', c', d', sort_keys p', h', isoformat u')"
  by (auto simp: sort_audit_body)

lemma audit_row_hash_binding:
  assumes "audit_row_hash r = audit_row_hash r'"
  shows "audit_content r = audit_content r' \<or> rows_collide r r'"
proof (cases "audit_text r = audit_text r'")
  case True
  then show ?thesis unfolding audit_text_def canonical_json_eq_iff audit_body_inject audit_content_def by blast
next
  case False
  with assms show ?thesis by (simp add: rows_collide_def audit_row_hash_def sha256_json_def audit_text_def)
qed

lemma logs_collide_snoc:
  "length rs = length us \<Longrightarrow> logs_collide (rs @ [r]) (us @ [u]) \<longleftrightarrow> logs_collide rs us \<or> rows_collide r u"
  by (auto simp: logs_collide_def)

lemma verify_from_binding:
  assumes "verify_from h rs" "verify_from h us" "length rs = length us"
    and "chain_head h rs = chain_head h us"
  shows "map audit_content rs = map audit_content us \<or> logs_collide rs us"
  using assms
proof (induction rs arbitrary: us rule: rev_induct)
  case Nil
  then show ?case by simp
next
  case (snoc r rs)
  then obtain us' u where us: "us = us' @ [u]" by (metis append_Nil2 length_0_conv rev_exhaust)
  from snoc.prems us have hash: "audit_row_hash r = au_event_hash r" "audit_row_hash u = au_event_hash u"
    and prev: "au_previous_hash r = chain_head h rs" "au_previous_hash u = chain_head h us'"
    and eq: "au_event_hash r = au_event_hash u" and len: "length rs = length us'"
    by (auto simp: verify_from_append split: if_splits)
  from hash eq have "audit_content r = audit_content u \<or> rows_collide r u"
    by (intro audit_row_hash_binding) simp
  moreover {
    assume c: "audit_content r = audit_content u"
    then have "chain_head h rs = chain_head h us'"
      using prev by (simp add: audit_content_def)
    with snoc.IH [of us'] snoc.prems us have
      "map audit_content rs = map audit_content us' \<or> logs_collide rs us'"
      by (simp add: verify_from_append)
    with c us len have ?case by (auto simp: logs_collide_snoc)
  }
  ultimately show ?case using us len by (auto simp: logs_collide_snoc)
qed

end
