(* ===== verification/StoreEvents.thy ===== *)
theory StoreEvents
  imports StoreOwned AuditChain
begin

text \<open>
  The abstract specification of the state store: a step relation with one rule per kind of
  event, each with the facts that must hold when it happens. The theorems at the end say that
  every operation of the store, when it succeeds, performs a sequence of these events; an
  invariant is then proved once, on the events.
\<close>

section \<open>Events\<close>

definition apply_active :: "run_status \<Rightarrow> bool" where
  "apply_active st \<longleftrightarrow> st \<in> {ApplyQueued, ApplyRunning, RollbackRunning}"

definition plan_matches :: "plan_row \<Rightarrow> run_row \<Rightarrow> bool" where
  "plan_matches p r \<longleftrightarrow> pl_id p = rn_plan_id r \<and> pl_hash p = rn_plan_hash r
     \<and> pl_artifact_hash p = rn_artifact_hash r \<and> pl_intent_version p = rn_intent_version r
     \<and> pl_fabric p = rn_fabric r"

definition approval_for :: "approval_row \<Rightarrow> run_row \<Rightarrow> bool" where
  "approval_for a r \<longleftrightarrow> ap_plan_id a = rn_plan_id r \<and> ap_plan_hash a = rn_plan_hash r
     \<and> ap_artifact_hash a = rn_artifact_hash r \<and> ap_intent_version a = rn_intent_version r
     \<and> ap_decision a = Approved"

definition set_plan_reservation :: "string \<Rightarrow> string option \<Rightarrow> store \<Rightarrow> store" where
  "set_plan_reservation pid x =
     table_update plans (\<lambda>rs s. s\<lparr>plans := rs\<rparr>) (\<lambda>r. pl_id r = pid) (\<lambda>r. r\<lparr>pl_reservation := x\<rparr>)"

definition end_run :: "int \<Rightarrow> string \<Rightarrow> run_status \<Rightarrow> store \<Rightarrow> store" where
  "end_run t rid st s =
     (if run_terminal st then release_lock rid (set_run_status t rid st s) else set_run_status t rid st s)"

inductive store_event :: "store \<Rightarrow> store \<Rightarrow> bool" where
  ev_audit:
    "au_previous_hash a = last_audit_hash s \<Longrightarrow> audit_row_hash a = au_event_hash a \<Longrightarrow>
     store_event s (s\<lparr>audit := audit s @ [a]\<rparr>)"
| ev_intent:
    "\<forall>x \<in> set (intents s). \<not> intents_clash r x \<Longrightarrow> in_hash r = sha256_json (in_document r) \<Longrightarrow>
     in_id r = ''intent_'' @ take 16 (in_hash r) \<Longrightarrow>
     store_event s (s\<lparr>intents := intents s @ [r]\<rparr>)"
| ev_plan:
    "\<forall>x \<in> set (plans s). \<not> plans_clash r x \<Longrightarrow>
     i \<in> set (intents s) \<Longrightarrow> pl_intent_id r = in_id i \<Longrightarrow> pl_fabric r = in_fabric i \<Longrightarrow>
     (\<And>rid. pl_reservation r = Some rid \<Longrightarrow> rid \<noteq> [] \<Longrightarrow>
        \<exists>v \<in> set (reservations s). rs_id v = rid \<and> sha256_json (rs_intent v) = in_hash i) \<Longrightarrow>
     length (pl_artifact_hash r) = 64 \<Longrightarrow>
     store_event s (s\<lparr>plans := plans s @ [r]\<rparr>)"
| ev_rebind:
    "p \<in> set (plans s) \<Longrightarrow>
     (\<And>v. v \<in> set (reservations s) \<Longrightarrow> pl_reservation p = Some (rs_id v) \<Longrightarrow> rs_id v \<noteq> [] \<Longrightarrow> rs_state v = Released) \<Longrightarrow>
     (\<And>rid. x = Some rid \<Longrightarrow> rid \<noteq> [] \<Longrightarrow>
        \<exists>v \<in> set (reservations s). rs_id v = rid \<and> (\<exists>i \<in> set (intents s). sha256_json (rs_intent v) = in_hash i)) \<Longrightarrow>
     store_event s (set_plan_reservation (pl_id p) x s)"
| ev_approval:
    "\<forall>x \<in> set (approvals s). \<not> approvals_clash a x \<Longrightarrow>
     p \<in> set (plans s) \<Longrightarrow> ap_plan_id a = pl_id p \<Longrightarrow> ap_plan_hash a = pl_hash p \<Longrightarrow>
     ap_artifact_hash a = pl_artifact_hash p \<Longrightarrow> ap_intent_version a = pl_intent_version p \<Longrightarrow>
     pl_created_by p \<noteq> ap_approver a \<Longrightarrow>
     store_event s (s\<lparr>approvals := approvals s @ [a]\<rparr>)"
| ev_dry_run:
    "\<forall>x \<in> set (runs s). \<not> runs_clash r x \<Longrightarrow> p \<in> set (plans s) \<Longrightarrow> plan_matches p r \<Longrightarrow>
     a \<in> set (approvals s) \<Longrightarrow> approval_for a r \<Longrightarrow>
     rn_mode r = DryRun \<Longrightarrow> rn_status r = DryRunQueued \<Longrightarrow>
     store_event s (s\<lparr>runs := runs s @ [r]\<rparr>)"
| ev_apply:
    "\<forall>x \<in> set (runs s). \<not> runs_clash r x \<Longrightarrow> p \<in> set (plans s) \<Longrightarrow> plan_matches p r \<Longrightarrow>
     a \<in> set (approvals s) \<Longrightarrow> approval_for a r \<Longrightarrow>
     rn_mode r = Apply \<Longrightarrow> rn_status r = ApplyQueued \<Longrightarrow>
     rn_maintenance_start r = Some from \<Longrightarrow> rn_maintenance_end r = Some until \<Longrightarrow>
     from < until \<Longrightarrow>
     \<forall>x \<in> set (locks s). \<not> locks_clash l x \<Longrightarrow> lk_fabric l = rn_fabric r \<Longrightarrow> lk_run l = rn_id r \<Longrightarrow>
     store_event s (s\<lparr>runs := runs s @ [r], locks := locks s @ [l]\<rparr>)"
| ev_status:
    "r \<in> set (runs s) \<Longrightarrow> run_allowed (rn_status r) st \<Longrightarrow>
     store_event s (end_run t (rn_id r) st s)"
| ev_commit:
    "r \<in> set (runs s) \<Longrightarrow> rn_status r = ApplyRunning \<Longrightarrow>
     \<forall>x \<in> set (owned s). \<not> owned_clash w x \<Longrightarrow> ow_source_reference w = rn_id r \<Longrightarrow>
     ow_source_type w = SuccessfulApply \<Longrightarrow> ow_fabric w = rn_fabric r \<Longrightarrow>
     ow_source_artifact_hash w = Some (rn_artifact_hash r) \<Longrightarrow>
     validate_owned_state m None = Inr () \<Longrightarrow> ow_manifest w = json_column m \<Longrightarrow>
     store_event s (end_run t (rn_id r) ApplySucceeded (s\<lparr>owned := owned s @ [w]\<rparr>))"
| ev_adopt:
    "\<forall>x \<in> set (owned s). \<not> owned_clash w x \<Longrightarrow> ow_source_type w = AdoptedDiscovery \<Longrightarrow>
     validate_owned_state m (Some (ow_fabric w)) = Inr () \<Longrightarrow> ow_manifest w = json_column m \<Longrightarrow>
     ow_evidence_hash w = Some h \<Longrightarrow> sha256_hex_any h \<Longrightarrow>
     store_event s (s\<lparr>owned := owned s @ [w]\<rparr>)"
| ev_evidence:
    "r \<in> set (runs s) \<Longrightarrow> ev_run v = rn_id r \<Longrightarrow> \<forall>x \<in> set (evidence s). \<not> evidence_clash v x \<Longrightarrow>
     ev_payload_hash v = sha256_json (ev_payload v) \<Longrightarrow>
     store_event s (s\<lparr>evidence := evidence s @ [v]\<rparr>)"
| ev_reserve:
    "\<forall>x \<in> set (reservations s). \<not> reservations_clash r x \<Longrightarrow> rs_state r = Reserved \<Longrightarrow>
     (\<And>n. n \<in> set ns \<Longrightarrow> nw_reservation n = rs_id r \<and> nw_domain n = rs_domain r \<and> nw_state n = Reserved) \<Longrightarrow>
     (\<And>v. v \<in> set vs \<Longrightarrow> sc_reservation v = rs_id r \<and> sc_domain v = rs_domain r \<and> sc_state v = Reserved) \<Longrightarrow>
     store_event s (s\<lparr>reservations := reservations s @ [r], networks := networks s @ ns, scalars := scalars s @ vs\<rparr>)"
| ev_reservation_state:
    "r \<in> set (reservations s) \<Longrightarrow> reservation_allowed (rs_state r) st \<Longrightarrow>
     store_event s (set_reservation_state t (rs_id r) st s)"

abbreviation store_events :: "store \<Rightarrow> store \<Rightarrow> bool" where
  "store_events \<equiv> store_event\<^sup>*\<^sup>*"

section \<open>Every operation performs events\<close>

lemma audit_event: "append_audit rt k at ai et actor payload s = Inr t \<Longrightarrow> store_event s t"
  by (erule append_auditE) (simp add: ev_audit)

lemma audit_events1: "append_audit rt k at ai et actor payload s = Inr t \<Longrightarrow> store_events s t"
  by (rule r_into_rtranclp) (rule audit_event)

lemma event_then_audit:
  "store_event s u \<Longrightarrow> append_audit rt k at ai et actor payload u = Inr t \<Longrightarrow> store_events s t"
  by (meson audit_event converse_rtranclp_into_rtranclp r_into_rtranclp)

lemma save_intent_events:
  assumes "save_intent rt intent actor s = Inr (x, t)"
  shows "store_events s t"
proof -
  from assms consider "t = s"
    | r u payload where "insert_intent r s = Inr u" "in_hash r = sha256_json (in_document r)"
      "in_id r = ''intent_'' @ take 16 (in_hash r)"
      "append_audit rt 0 ''intent'' (in_id r) ''intent.created'' actor payload u = Inr t"
    by (auto simp: save_intent_def Let_def res split: option.splits)
  then show ?thesis
    by cases (auto simp: insert_intent_def intents_tbl.insert_Inr intro: event_then_audit [OF ev_intent])
qed

lemma persist_reservation_rows:
  "insert_networks rt k rid dm fab items s = Inr t \<Longrightarrow>
     \<exists>ns. t = s\<lparr>networks := networks s @ ns\<rparr>
       \<and> (\<forall>n \<in> set ns. nw_reservation n = rid \<and> nw_domain n = dm \<and> nw_state n = Reserved)
       \<and> map (\<lambda>n. (nw_pool n, nw_prefix n)) ns = items"
  "insert_scalars rt k rid dm fab items s = Inr t \<Longrightarrow>
     \<exists>vs. t = s\<lparr>scalars := scalars s @ vs\<rparr>
       \<and> (\<forall>v \<in> set vs. sc_reservation v = rid \<and> sc_domain v = dm \<and> sc_state v = Reserved)
       \<and> map (\<lambda>v. (sc_type v, sc_value v)) vs = items"
proof -
  show "insert_networks rt k rid dm fab items s = Inr t \<Longrightarrow>
     \<exists>ns. t = s\<lparr>networks := networks s @ ns\<rparr>
       \<and> (\<forall>n \<in> set ns. nw_reservation n = rid \<and> nw_domain n = dm \<and> nw_state n = Reserved)
       \<and> map (\<lambda>n. (nw_pool n, nw_prefix n)) ns = items"
  proof (induction items arbitrary: k s)
    case Nil
    then show ?case by (intro exI [of _ "[]"]) simp
  next
    case (Cons i items)
    obtain pool pfx where i: "i = (pool, pfx)" by (cases i)
    define n where "n = \<lparr>nw_id = ''net_'' @ uuid rt k, nw_reservation = rid, nw_domain = dm, nw_pool = pool,
       nw_fabric = fab, nw_prefix = pfx, nw_state = Reserved, nw_created_at = now rt 0, nw_updated_at = now rt 0\<rparr>"
    have n: "nw_reservation n = rid" "nw_domain n = dm" "nw_state n = Reserved" "nw_pool n = pool" "nw_prefix n = pfx"
      by (simp_all add: n_def)
    from Cons.prems have rec: "insert_networks rt (Suc k) rid dm fab items (s\<lparr>networks := networks s @ [n]\<rparr>) = Inr t"
      by (auto simp: i res insert_network_def networks_tbl.insert_Inr n_def split: if_splits)
    from Cons.IH [OF rec] obtain ns where
      "t = s\<lparr>networks := networks s @ n # ns\<rparr>"
      "\<forall>n \<in> set ns. nw_reservation n = rid \<and> nw_domain n = dm \<and> nw_state n = Reserved"
      "map (\<lambda>n. (nw_pool n, nw_prefix n)) ns = items" by auto
    with n show ?case by (intro exI [of _ "n # ns"]) (simp add: i)
  qed
  show "insert_scalars rt k rid dm fab items s = Inr t \<Longrightarrow>
     \<exists>vs. t = s\<lparr>scalars := scalars s @ vs\<rparr>
       \<and> (\<forall>v \<in> set vs. sc_reservation v = rid \<and> sc_domain v = dm \<and> sc_state v = Reserved)
       \<and> map (\<lambda>v. (sc_type v, sc_value v)) vs = items"
  proof (induction items arbitrary: k s)
    case Nil
    then show ?case by (intro exI [of _ "[]"]) simp
  next
    case (Cons i items)
    obtain kind v where i: "i = (kind, v)" by (cases i)
    define n where "n = \<lparr>sc_id = ''scalar_'' @ uuid rt k, sc_reservation = rid, sc_domain = dm, sc_type = kind,
       sc_fabric = fab, sc_value = v, sc_state = Reserved, sc_created_at = now rt 0, sc_updated_at = now rt 0\<rparr>"
    have n: "sc_reservation n = rid" "sc_domain n = dm" "sc_state n = Reserved" "sc_type n = kind" "sc_value n = v"
      by (simp_all add: n_def)
    from Cons.prems have rec: "insert_scalars rt (Suc k) rid dm fab items (s\<lparr>scalars := scalars s @ [n]\<rparr>) = Inr t"
      by (auto simp: i res insert_scalar_def scalars_tbl.insert_Inr n_def split: if_splits)
    from Cons.IH [OF rec] obtain vs where
      "t = s\<lparr>scalars := scalars s @ n # vs\<rparr>"
      "\<forall>v \<in> set vs. sc_reservation v = rid \<and> sc_domain v = dm \<and> sc_state v = Reserved"
      "map (\<lambda>v. (sc_type v, sc_value v)) vs = items" by auto
    with n show ?case by (intro exI [of _ "n # vs"]) (simp add: i)
  qed
qed

lemma persist_reservationE:
  assumes "persist_reservation rt key_hash d actor s = Inr (x, t)"
  obtains r ns vs a where
    "\<forall>y \<in> set (reservations s). \<not> reservations_clash r y" "rs_state r = Reserved"
    "rs_key_hash r = key_hash" "rs_requirements_hash r = dv_requirements_hash d" "rs_policy_hash r = dv_policy_hash d"
    "rs_domain r = dv_domain d" "rs_intent r = json_column (dv_intent d)" "rs_reservation_hash r = dv_reservation_hash d"
    "\<forall>n \<in> set ns. nw_reservation n = rs_id r \<and> nw_domain n = rs_domain r \<and> nw_state n = Reserved"
    "\<forall>v \<in> set vs. sc_reservation v = rs_id r \<and> sc_domain v = rs_domain r \<and> sc_state v = Reserved"
    "map (\<lambda>n. (nw_pool n, nw_prefix n)) ns = dv_network d"
    "map (\<lambda>v. (sc_type v, sc_value v)) vs = dv_scalar d"
    "t = s\<lparr>reservations := reservations s @ [r], networks := networks s @ ns, scalars := scalars s @ vs,
           audit := audit s @ [a]\<rparr>"
    "au_previous_hash a = last_audit_hash s" "audit_row_hash a = au_event_hash a"
    "x = design_reservation_record t r"
proof -
  define r where "r = \<lparr>rs_id = ''reservation_'' @ uuid rt 0, rs_key_hash = key_hash,
     rs_requirements_hash = dv_requirements_hash d, rs_policy_hash = dv_policy_hash d,
     rs_reservation_hash = dv_reservation_hash d, rs_domain = dv_domain d, rs_fabric = dv_fabric d,
     rs_state = Reserved, rs_intent = json_column (dv_intent d), rs_created_at = now rt 0,
     rs_updated_at = now rt 0, rs_created_by = actor\<rparr>"
  have r: "rs_state r = Reserved" "rs_key_hash r = key_hash" "rs_requirements_hash r = dv_requirements_hash d"
      "rs_policy_hash r = dv_policy_hash d" "rs_reservation_hash r = dv_reservation_hash d"
      "rs_domain r = dv_domain d" "rs_intent r = json_column (dv_intent d)" "rs_id r = ''reservation_'' @ uuid rt 0"
    by (simp_all add: r_def)
  from assms obtain s1 s2 s3 k1 k2 k3 payload where
    1: "insert_reservation r s = Inr s1"
    and 2: "insert_networks rt k1 (rs_id r) (dv_domain d) (dv_fabric d) (dv_network d) s1 = Inr s2"
    and 3: "insert_scalars rt k2 (rs_id r) (dv_domain d) (dv_fabric d) (dv_scalar d) s2 = Inr s3"
    and 4: "append_audit rt k3 ''reservation'' (rs_id r) ''reservation.created'' actor payload s3 = Inr t"
    and x: "x = design_reservation_record t r"
    unfolding persist_reservation_def Let_def r(8) r_def [symmetric]
    by (auto simp only: ebind_Inr prod.inject sum.inject)
  from 1 have s1: "s1 = s\<lparr>reservations := reservations s @ [r]\<rparr>" "\<forall>y \<in> set (reservations s). \<not> reservations_clash r y"
    by (auto simp: insert_reservation_def reservations_tbl.insert_Inr)
  from persist_reservation_rows(1) [OF 2] obtain ns where s2: "s2 = s1\<lparr>networks := networks s1 @ ns\<rparr>"
    "\<forall>n \<in> set ns. nw_reservation n = rs_id r \<and> nw_domain n = dv_domain d \<and> nw_state n = Reserved"
    "map (\<lambda>n. (nw_pool n, nw_prefix n)) ns = dv_network d" by blast
  from persist_reservation_rows(2) [OF 3] obtain vs where s3: "s3 = s2\<lparr>scalars := scalars s2 @ vs\<rparr>"
    "\<forall>v \<in> set vs. sc_reservation v = rs_id r \<and> sc_domain v = dv_domain d \<and> sc_state v = Reserved"
    "map (\<lambda>v. (sc_type v, sc_value v)) vs = dv_scalar d" by blast
  from 4 obtain a where a: "t = s3\<lparr>audit := audit s3 @ [a]\<rparr>" "au_previous_hash a = last_audit_hash s3"
      "audit_row_hash a = au_event_hash a"
    by (rule append_auditE)
  show thesis
    using r s1 s2 s3 a x by (intro that [of r ns vs a]) (simp_all add: last_audit_hash_def)
qed

lemma reserve_design_events:
  assumes "reserve_design derive rt req pol key actor s = Inr (x, t)"
  shows "store_events s t"
proof (cases "t = s")
  case False
  with assms obtain d view where "persist_reservation rt (sha256_hex (strip key)) d actor s = Inr (view, t)"
    by (auto simp: reserve_design_def Let_def res split: option.splits if_splits)
  then obtain r ns vs a where *: "\<forall>y \<in> set (reservations s). \<not> reservations_clash r y" "rs_state r = Reserved"
    "\<forall>n \<in> set ns. nw_reservation n = rs_id r \<and> nw_domain n = rs_domain r \<and> nw_state n = Reserved"
    "\<forall>v \<in> set vs. sc_reservation v = rs_id r \<and> sc_domain v = rs_domain r \<and> sc_state v = Reserved"
    "t = s\<lparr>reservations := reservations s @ [r], networks := networks s @ ns, scalars := scalars s @ vs,
           audit := audit s @ [a]\<rparr>"
    "au_previous_hash a = last_audit_hash s" "audit_row_hash a = au_event_hash a"
    by (rule persist_reservationE)
  let ?u = "s\<lparr>reservations := reservations s @ [r], networks := networks s @ ns, scalars := scalars s @ vs\<rparr>"
  have "store_event s ?u" using * by (intro ev_reserve) auto
  moreover have "store_event ?u (?u\<lparr>audit := audit ?u @ [a]\<rparr>)"
    using * by (intro ev_audit) (simp_all add: last_audit_hash_def)
  then have "store_event ?u t" using *(5) by simp
  ultimately show ?thesis by (meson converse_rtranclp_into_rtranclp r_into_rtranclp)
qed simp

lemma transition_design_reservation_events:
  assumes "transition_design_reservation rt rid st actor verified s = Inr (x, t)"
  shows "store_events s t"
proof -
  from assms obtain r st' where r: "table_get reservations rs_id rid s = Some r" "reservation_allowed (rs_state r) st'"
    and a: "\<exists>payload. append_audit rt 0 ''reservation'' rid (''reservation.'' @ st) actor payload
      (set_reservation_state (now rt 0) rid st' s) = Inr t"
    by (auto simp: transition_design_reservation_def Let_def res)
  from reservations_tbl.get_Some [OF r(1)] have r': "r \<in> set (reservations s)" "rs_id r = rid" by auto
  from a show ?thesis
    using event_then_audit [OF ev_reservation_state [OF r'(1) r(2), of "now rt 0"]] r'(2) by auto
qed

lemma reservation_bound_toD:
  assumes "reservation_bound_to x h s = Inr u" and "x = Some rid" and "rid \<noteq> []"
  shows "\<exists>v \<in> set (reservations s). rs_id v = rid \<and> sha256_json (rs_intent v) = h"
  using assms by (auto simp: reservation_bound_to_def text_or_empty_def res split: if_splits dest!: reservations_tbl.get_Some)

lemma rebind_plan_events:
  assumes "rebind_plan rt p ph ah rsv actor s = Inr (x, t)" and p: "table_get plans pl_id pid s = Some p"
    and b: "reservation_bound_to rsv (in_hash i) s = Inr u" and i: "i \<in> set (intents s)"
    and rids: "distinct (map rs_id (reservations s))"
  shows "store_events s t"
proof (cases "text_or_empty (pl_reservation p) = text_or_empty rsv")
  case True
  with assms(1) show ?thesis by (auto simp: rebind_plan_def)
next
  case False
  with assms(1) obtain payload where
    prior: "text_or_empty (pl_reservation p) \<noteq> [] \<Longrightarrow> \<forall>r. table_get reservations rs_id (text_or_empty (pl_reservation p)) s = Some r \<longrightarrow> \<not> is_active (rs_state r)"
    and a: "append_audit rt 0 ''plan'' (pl_id p) ''plan.reservation_rebound'' actor payload
       (set_plan_reservation (pl_id p) rsv s) = Inr t"
    by (fastforce simp: rebind_plan_def Let_def res set_plan_reservation_def split: option.splits)
  have "rs_state v = Released" if "v \<in> set (reservations s)" "pl_reservation p = Some (rs_id v)" "rs_id v \<noteq> []" for v
    using prior that reservations_tbl.get_unique [OF rids that(1)] by (simp add: text_or_empty_def)
  moreover have "\<exists>v \<in> set (reservations s). rs_id v = rid \<and> (\<exists>i \<in> set (intents s). sha256_json (rs_intent v) = in_hash i)"
    if "rsv = Some rid" "rid \<noteq> []" for rid
    using reservation_bound_toD [OF b that] i by blast
  moreover have "p \<in> set (plans s)" using plans_tbl.get_Some [OF p] by simp
  ultimately have "store_event s (set_plan_reservation (pl_id p) rsv s)" by (intro ev_rebind) blast+
  then show ?thesis using a by (rule event_then_audit)
qed

lemma store_new_plan_events:
  assumes "store_new_plan rt i plan pid actor ah ver rsv s = Inr (x, t)" and i: "i \<in> set (intents s)"
    and b: "reservation_bound_to rsv (in_hash i) s = Inr u0" and len: "length ah = 64"
  shows "store_events s t"
proof -
  from assms(1) obtain r u payload where r: "insert_plan r s = Inr u" "pl_artifact_hash r = ah" "pl_reservation r = rsv"
      "pl_intent_id r = in_id i" "pl_fabric r = in_fabric i"
    and a: "append_audit rt 0 ''plan'' pid ''plan.created'' actor payload u = Inr t"
    by (auto simp: store_new_plan_def res Let_def)
  from r(1) have u: "u = s\<lparr>plans := plans s @ [r]\<rparr>" "\<forall>x \<in> set (plans s). \<not> plans_clash r x"
    by (auto simp: insert_plan_def plans_tbl.insert_Inr split: if_splits)
  have "store_event s u"
    unfolding u(1) using u(2) i r len reservation_bound_toD [OF b] by (intro ev_plan [of _ _ i]) auto
  then show ?thesis using a by (rule event_then_audit)
qed

lemma save_plan_events:
  assumes "save_plan rt iid plan actor ah ver rsv s = Inr (x, t)"
    and rids: "distinct (map rs_id (reservations s))"
  shows "store_events s t"
proof -
  from assms(1) obtain i pid where i: "table_get intents in_id iid s = Some i" and len: "length ah = 64"
    and b: "reservation_bound_to rsv (in_hash i) s = Inr ()"
    and c: "(case table_get plans pl_id (py_str pid) s of
            Some existing \<Rightarrow> reuse_plan rt existing plan ah rsv actor s
          | None \<Rightarrow> store_new_plan rt i plan (py_str pid) actor ah ver rsv s) = Inr (x, t)"
    unfolding save_plan_def by (elim ebind_InrE raise_if_InrE of_option_InrE) auto
  from intents_tbl.get_Some [OF i] have i': "i \<in> set (intents s)" by auto
  show ?thesis
  proof (cases "table_get plans pl_id (py_str pid) s")
    case None
    with c store_new_plan_events i' b len show ?thesis by fastforce
  next
    case (Some p)
    with c obtain ph row where "rebind_plan rt p ph ah rsv actor s = Inr (row, t)"
      by (auto simp: reuse_plan_def res)
    with Some show ?thesis using rebind_plan_events b i' rids by blast
  qed
qed

lemma record_approval_events:
  assumes "record_approval rt pid dec approver ref expires s = Inr (x, t)"
  shows "store_events s t"
proof -
  from assms obtain p a u payload et where p: "table_get plans pl_id pid s = Some p"
    and a: "insert_approval a s = Inr u" "ap_plan_id a = pid" "ap_plan_hash a = pl_hash p"
      "ap_artifact_hash a = pl_artifact_hash p" "ap_intent_version a = pl_intent_version p"
      "pl_created_by p \<noteq> ap_approver a"
    and log: "append_audit rt 1 ''plan'' pid et approver payload u = Inr t"
    by (auto simp: record_approval_def Let_def res)
  from a(1) have u: "u = s\<lparr>approvals := approvals s @ [a]\<rparr>" "\<forall>x \<in> set (approvals s). \<not> approvals_clash a x"
    by (auto simp: insert_approval_def approvals_tbl.insert_Inr split: if_splits)
  from plans_tbl.get_Some [OF p] a u(2) have "store_event s u"
    unfolding u(1) by (intro ev_approval [of _ _ p]) auto
  then show ?thesis using log by (rule event_then_audit)
qed

lemma foldl_pick: "foldl (\<lambda>b x. if P b x then x else b) r rs \<in> insert r (set rs)"
  by (induction rs arbitrary: r) (auto split: if_splits)

lemma latest_approval_in:
  assumes "latest_approval pid s = Some a"
  shows "a \<in> set (approvals s) \<and> ap_plan_id a = pid"
proof -
  from assms obtain r rs where f: "filter (\<lambda>r. ap_plan_id r = pid) (approvals s) = r # rs"
    and a: "a = foldl (\<lambda>b x. if ap_created_at b < ap_created_at x then x else b) r rs"
    by (auto simp: latest_approval_def split: list.splits)
  have "a \<in> set (r # rs)" unfolding a using foldl_pick [of "\<lambda>b x. ap_created_at b < ap_created_at x"] by simp
  with f show ?thesis by (metis (mono_tags, lifting) filter_is_subset mem_Collect_eq set_filter subsetD)
qed

lemma require_active_approvalD:
  "require_active_approval rt pid s = Inr a \<Longrightarrow>
     latest_approval pid s = Some a \<and> a \<in> set (approvals s) \<and> ap_plan_id a = pid \<and> ap_decision a = Approved \<and> now rt 1 < ap_expires_at a"
  using latest_approval_in by (auto simp: require_active_approval_def split: option.splits if_splits)

lemma approval_matches_for:
  "approval_matches a p = Inr () \<Longrightarrow> ap_plan_id a = pl_id p \<Longrightarrow> ap_decision a = Approved \<Longrightarrow> plan_matches p r \<Longrightarrow>
     approval_for a r"
  by (auto simp: approval_matches_def approval_for_def plan_matches_def res)

lemma queue_run_events:
  assumes q: "queue_run rt p a m kh by window ttl s = Inr (row, t)"
    and p: "p \<in> set (plans s)" and a: "a \<in> set (approvals s)" "ap_plan_id a = pl_id p" "ap_decision a = Approved"
    and am: "approval_matches a p = Inr ()"
    and w: "m = Apply \<Longrightarrow> \<exists>f u. window = Some (f, u) \<and> f < u"
  shows "store_events s t \<and> row \<in> set (runs t) \<and> rn_status row = (if m = DryRun then DryRunQueued else ApplyQueued)"
proof -
  from q obtain r s1 s2 payload where r: "insert_run r s = Inr s1" "plan_matches p r" "rn_mode r = m"
      "rn_status r = (if m = DryRun then DryRunQueued else ApplyQueued)" "rn_created_at r = now rt 2"
      "rn_maintenance_start r = map_option fst window" "rn_maintenance_end r = map_option snd window" "r = row"
    and l: "(if m = Apply then acquire_lock rt ttl (pl_fabric p) (rn_id r) s1 else Inr s1) = Inr s2"
    and log: "append_audit rt 1 ''run'' (rn_id r) ''run.created'' by payload s2 = Inr t"
    by (auto simp: queue_run_def res Let_def plan_matches_def cong: if_cong)
  from r(1) have s1: "s1 = s\<lparr>runs := runs s @ [r]\<rparr>" "\<forall>x \<in> set (runs s). \<not> runs_clash r x"
    by (auto simp: insert_run_def runs_tbl.insert_Inr split: if_splits)
  have ap: "approval_for a r" using approval_matches_for [OF am a(2,3) r(2)] .
  have in2: "row \<in> set (runs s2)"
    using l r(8) by (cases m) (auto simp: s1 acquire_lock_def insert_lock_def locks_tbl.insert_Inr res split: if_splits)
  have "store_event s s2"
  proof (cases m)
    case DryRun
    with l have "s2 = s\<lparr>runs := runs s @ [r]\<rparr>" by (simp add: s1)
    with DryRun r show ?thesis
      using ev_dry_run [OF s1(2) p r(2) a(1) ap] by simp
  next
    case Apply
    with l obtain l' where l': "insert_lock l' s1 = Inr s2" "lk_fabric l' = pl_fabric p" "lk_run l' = rn_id r"
      by (auto simp: acquire_lock_def res)
    then have s2: "s2 = s\<lparr>runs := runs s @ [r], locks := locks s @ [l']\<rparr>" "\<forall>x \<in> set (locks s). \<not> locks_clash l' x"
      by (auto simp: insert_lock_def locks_tbl.insert_Inr s1 split: if_splits)
    from w [OF Apply] obtain f u where "window = Some (f, u)" "f < u" by blast
    with Apply r l' s1(2) s2(2) p a(1) ap show ?thesis
      unfolding s2(1) by (intro ev_apply [of _ _ p a f u]) (auto simp: plan_matches_def)
  qed
  moreover from log obtain e where "t = s2\<lparr>audit := audit s2 @ [e]\<rparr>" by (rule append_auditE)
  ultimately show ?thesis using event_then_audit [OF _ log] in2 r(4,8) by simp
qed

lemma queue_run_row:
  "queue_run rt p a m kh by window ttl s = Inr (row, t) \<Longrightarrow>
     plan_matches p row \<and> rn_mode row = m \<and> rn_created_at row = now rt 2
     \<and> rn_maintenance_start row = map_option fst window \<and> rn_maintenance_end row = map_option snd window"
  by (auto simp: queue_run_def res Let_def plan_matches_def)

lemma check_windowD:
  "check_window rt m ms me = Inr w \<Longrightarrow> m = Apply \<Longrightarrow> \<exists>f u. w = Some (f, u) \<and> f \<le> now rt 0 \<and> now rt 0 \<le> u \<and> f < u"
  by (auto simp: check_window_def res split: if_splits)

lemma create_run_cases:
  assumes "create_run rt pid mode key by enabled ms me ttl s = Inr ((row, created), t)"
  obtains
    (existing) "t = s" "\<not> created" "row \<in> set (runs s)" "rn_key_hash row = sha256_hex (strip key)" "rn_plan_id row = pid"
      "mode_of mode = Some (rn_mode row)"
  | (new) p a m w where "created" "table_get plans pl_id pid s = Some p"
      "require_active_approval rt pid s = Inr a" "approval_matches a p = Inr ()"
      "mode_of mode = Some m" "check_window rt m ms me = Inr w" "m = Apply \<longrightarrow> enabled"
      "queue_run rt p a m (sha256_hex (strip key)) by w ttl s = Inr (row, t)"
      "table_get runs rn_key_hash (sha256_hex (strip key)) s = None"
proof -
  from assms obtain m w p where m: "mode_of mode = Some m" and w: "check_window rt m ms me = Inr w"
    and en: "m = Apply \<longrightarrow> enabled" and p: "table_get plans pl_id pid s = Some p"
    and c: "(case table_get runs rn_key_hash (sha256_hex (strip key)) s of
            Some existing \<Rightarrow>
              (if rn_plan_id existing \<noteq> pid \<or> rn_mode existing \<noteq> m
               then Inl (ConflictError ''Idempotency key is already bound to another request'')
               else Inr ((existing, False), s))
          | None \<Rightarrow>
              ebind (require_active_approval rt pid s) (\<lambda>approval.
              ebind (approval_matches approval p) (\<lambda>_.
              ebind (queue_run rt p approval m (sha256_hex (strip key)) by w ttl s) (\<lambda>(row, s').
                  Inr ((row, True), s'))))) = Inr ((row, created), t)"
    unfolding create_run_def Let_def by (elim ebind_InrE raise_if_InrE of_option_InrE) blast
  show thesis
  proof (cases "table_get runs rn_key_hash (sha256_hex (strip key)) s")
    case None
    with c show thesis by (auto simp: res intro: new [OF _ p _ _ m w en])
  next
    case (Some r)
    with c m show thesis
      by (intro existing) (auto split: if_splits dest!: find_Some_iff' simp: table_get_def)
  qed
qed

lemma create_run_events:
  assumes "create_run rt pid mode key by enabled ms me ttl s = Inr ((row, created), t)"
  shows "store_events s t"
  using assms
proof (cases rule: create_run_cases)
  case existing
  then show ?thesis by simp
next
  case (new p a m w)
  from plans_tbl.get_Some [OF new(2)] require_active_approvalD [OF new(3)] check_windowD [OF new(6)]
  show ?thesis using queue_run_events [OF new(8)] new(4) by blast
qed

lemma transition_runE:
  assumes "transition_run rt rid st actor detail s = Inr (row, t)"
  obtains r a where "r \<in> set (runs s)" "rn_id r = rid" "run_allowed (rn_status r) st"
    "t = (end_run (now rt 0) rid st s)\<lparr>audit := audit s @ [a]\<rparr>"
    "au_previous_hash a = last_audit_hash s" "audit_row_hash a = au_event_hash a"
    "table_get runs rn_id rid t = Some row"
proof -
  from assms obtain r payload where r: "table_get runs rn_id rid s = Some r" "run_allowed (rn_status r) st"
    and log: "append_audit rt 0 ''run'' rid ''run.status_changed'' actor payload (end_run (now rt 0) rid st s) = Inr t"
    and row: "table_get runs rn_id rid t = Some row"
    by (auto simp: transition_run_def Let_def res end_run_def)
  have e: "audit (end_run u rid st s) = audit s" for u
    by (simp add: end_run_def set_run_status_def release_lock_def table_update_def)
  from log obtain a where "t = (end_run (now rt 0) rid st s)\<lparr>audit := audit s @ [a]\<rparr>"
      "au_previous_hash a = last_audit_hash s" "audit_row_hash a = au_event_hash a"
    by (rule append_auditE) (simp add: e last_audit_hash_def)
  with runs_tbl.get_Some [OF r(1)] r(2) row show thesis by (intro that) auto
qed

lemma audit_end_run [simp]: "audit (end_run u rid st s) = audit s"
  by (simp add: end_run_def set_run_status_def release_lock_def table_update_def)

lemma transition_run_events:
  assumes "transition_run rt rid st actor detail s = Inr (row, t)"
  shows "store_events s t"
proof -
  from assms obtain r a where r: "r \<in> set (runs s)" "rn_id r = rid" "run_allowed (rn_status r) st"
    and t: "t = (end_run (now rt 0) rid st s)\<lparr>audit := audit s @ [a]\<rparr>"
    and a: "au_previous_hash a = last_audit_hash s" "audit_row_hash a = au_event_hash a"
    by (rule transition_runE)
  have "store_event s (end_run (now rt 0) rid st s)" using ev_status [OF r(1,3), of "now rt 0"] by (simp add: r(2))
  moreover have "store_event (end_run (now rt 0) rid st s) t"
    unfolding t using ev_audit [of a "end_run (now rt 0) rid st s"] a by (simp add: last_audit_hash_def)
  ultimately show ?thesis by (meson converse_rtranclp_into_rtranclp r_into_rtranclp)
qed

lemma complete_applyE:
  assumes "complete_apply rt rid ah m actor detail s = Inr (row, t)"
  obtains r w u u' p1 p2 where "table_get runs rn_id rid s = Some r" "rn_status r = ApplyRunning" "rn_artifact_hash r = ah"
    "validate_owned_state m None = Inr ()" "rn_fabric r = py_str (field m ''fabric_id'')"
    "\<forall>x \<in> set (owned s). \<not> owned_clash w x" "ow_source_reference w = rid" "ow_source_type w = SuccessfulApply"
    "ow_fabric w = rn_fabric r" "ow_source_artifact_hash w = Some ah" "ow_manifest w = json_column m"
    "u = end_run (now rt 0) rid ApplySucceeded (s\<lparr>owned := owned s @ [w]\<rparr>)"
    "append_audit rt 0 ''run'' rid ''run.status_changed'' actor p1 u = Inr u'"
    "append_audit rt 1 ''fabric'' (rn_fabric r) ''owned_state.committed'' actor p2 u' = Inr t"
    "table_get runs rn_id rid t = Some row"
proof -
  from assms obtain r w u1 u' p1 p2 fid where *: "table_get runs rn_id rid s = Some r" "rn_status r = ApplyRunning" "rn_artifact_hash r = ah"
    "validate_owned_state m None = Inr ()" "jidx m ''fabric_id'' = Inr fid" "rn_fabric r = py_str fid"
    and w: "insert_owned w s = Inr u1" "ow_source_reference w = rid" "ow_source_type w = SuccessfulApply"
    "ow_fabric w = rn_fabric r" "ow_source_artifact_hash w = Some ah" "ow_manifest w = json_column m"
    and log: "append_audit rt 0 ''run'' rid ''run.status_changed'' actor p1
        (release_lock rid (set_run_status (now rt 0) rid ApplySucceeded u1)) = Inr u'"
    "append_audit rt 1 ''fabric'' (rn_fabric r) ''owned_state.committed'' actor p2 u' = Inr t"
    "table_get runs rn_id rid t = Some row"
    by (auto simp: complete_apply_def Let_def ebind_Inr raise_if_Inr of_option_Inr)
  from w(1) have u1: "u1 = s\<lparr>owned := owned s @ [w]\<rparr>" "\<forall>x \<in> set (owned s). \<not> owned_clash w x"
    by (auto simp: insert_owned_def owned_tbl.insert_Inr)
  have "release_lock rid (set_run_status (now rt 0) rid ApplySucceeded u1) = end_run (now rt 0) rid ApplySucceeded u1"
    by (simp add: end_run_def run_terminal_def)
  moreover have "rn_fabric r = py_str (field m ''fabric_id'')" using *(5,6) by (auto simp: res)
  ultimately show thesis using * w u1 log by (intro that) auto
qed

lemma complete_apply_events:
  assumes "complete_apply rt rid ah m actor detail s = Inr (row, t)"
  shows "store_events s t"
proof -
  from assms obtain r w u u' p1 p2 where *: "table_get runs rn_id rid s = Some r" "rn_status r = ApplyRunning" "rn_artifact_hash r = ah"
    "validate_owned_state m None = Inr ()"
    "\<forall>x \<in> set (owned s). \<not> owned_clash w x" "ow_source_reference w = rid" "ow_source_type w = SuccessfulApply"
    "ow_fabric w = rn_fabric r" "ow_source_artifact_hash w = Some ah" "ow_manifest w = json_column m"
    "u = end_run (now rt 0) rid ApplySucceeded (s\<lparr>owned := owned s @ [w]\<rparr>)"
    and log: "append_audit rt 0 ''run'' rid ''run.status_changed'' actor p1 u = Inr u'"
    "append_audit rt 1 ''fabric'' (rn_fabric r) ''owned_state.committed'' actor p2 u' = Inr t"
    by (rule complete_applyE)
  from runs_tbl.get_Some [OF *(1)] have r: "r \<in> set (runs s)" "rn_id r = rid" by auto
  have "store_event s u"
    unfolding *(11) r(2) [symmetric]
    using * r by (intro ev_commit [of r s w m]) auto
  then have "store_events s u'" using log(1) by (rule event_then_audit)
  with audit_events1 [OF log(2)] show ?thesis by simp
qed

lemma adopt_manifest_events:
  assumes "adopt_manifest rt fab mh m eh cr by ap s = Inr t" and "validate_owned_state m (Some fab) = Inr ()"
    and "sha256_hex_any eh"
  shows "store_events s t"
proof (cases "t = s")
  case False
  with assms(1) obtain w u p where w: "insert_owned w s = Inr u" "ow_source_type w = AdoptedDiscovery" "ow_fabric w = fab"
      "ow_manifest w = json_column m" "ow_evidence_hash w = Some eh"
    and log: "append_audit rt 0 ''fabric'' fab ''owned_state.adopted'' ap p u = Inr t"
    by (auto simp: adopt_manifest_def Let_def res split: option.splits if_splits)
  from w(1) have u: "u = s\<lparr>owned := owned s @ [w]\<rparr>" "\<forall>x \<in> set (owned s). \<not> owned_clash w x"
    by (auto simp: insert_owned_def owned_tbl.insert_Inr)
  have "store_event s u"
    unfolding u(1) using u(2) w assms(2,3) by (intro ev_adopt [of _ _ m eh]) auto
  then show ?thesis using log by (rule event_then_audit)
qed simp

text \<open>Adoption may raise after its transaction has committed.\<close>

lemma record_adopted_events:
  assumes "record_adopted_owned_state rt fab m eh cr by ap s = (r, t)"
  shows "store_events s t"
proof (cases "t = s")
  case False
  with assms obtain mh where "validate_owned_state m (Some fab) = Inr ()" "sha256_hex_any eh"
    "adopt_manifest rt fab (py_str mh) m eh (strip cr) (strip by) (strip ap) s = Inr t"
    by (auto simp: record_adopted_owned_state_def res split: sum.splits)
  then show ?thesis using adopt_manifest_events by blast
qed simp

lemma add_evidence_events:
  assumes "add_evidence rt rid ph ty payload actor dev s = Inr (row, t)"
  shows "store_events s t"
proof (cases "t = s")
  case False
  with assms obtain v u p r where r: "table_get runs rn_id rid s = Some r"
    and v: "insert_evidence v s = Inr u" "ev_run v = rid" "ev_payload_hash v = sha256_json (ev_payload v)"
    and log: "append_audit rt 0 ''run'' rid ''evidence.recorded'' actor p u = Inr t"
    by (auto simp: add_evidence_def Let_def res split: option.splits)
  from v(1) have u: "u = s\<lparr>evidence := evidence s @ [v]\<rparr>" "\<forall>x \<in> set (evidence s). \<not> evidence_clash v x"
    by (auto simp: insert_evidence_def evidence_tbl.insert_Inr split: if_splits)
  have "store_event s u"
    unfolding u(1) using runs_tbl.get_Some [OF r] u(2) v by (intro ev_evidence [of r]) auto
  then show ?thesis using log by (rule event_then_audit)
qed simp

end
