(* ===== verification/StoreInv.thy ===== *)
theory StoreInv
  imports StoreEvents
begin

text \<open>
  The invariants of the state store, each a predicate with one lemma that every event keeps it;
  together they hold in every store that the operations reach from the empty one.
\<close>

section \<open>What the updates do to the tables\<close>

lemma end_run_simps [simp]:
  "intents (end_run t i st s) = intents s" "plans (end_run t i st s) = plans s"
  "approvals (end_run t i st s) = approvals s" "evidence (end_run t i st s) = evidence s"
  "reservations (end_run t i st s) = reservations s" "networks (end_run t i st s) = networks s"
  "scalars (end_run t i st s) = scalars s" "owned (end_run t i st s) = owned s"
  "runs (end_run t i st s) = map (\<lambda>r. if rn_id r = i then r\<lparr>rn_status := st, rn_updated_at := t\<rparr> else r) (runs s)"
  "locks (end_run t i st s) = (if run_terminal st then filter (\<lambda>l. lk_run l \<noteq> i) (locks s) else locks s)"
  by (simp_all add: end_run_def set_run_status_def release_lock_def table_update_def)

lemma set_plan_reservation_simps [simp]:
  "intents (set_plan_reservation i x s) = intents s"
  "approvals (set_plan_reservation i x s) = approvals s" "evidence (set_plan_reservation i x s) = evidence s"
  "reservations (set_plan_reservation i x s) = reservations s" "networks (set_plan_reservation i x s) = networks s"
  "scalars (set_plan_reservation i x s) = scalars s" "owned (set_plan_reservation i x s) = owned s"
  "runs (set_plan_reservation i x s) = runs s" "locks (set_plan_reservation i x s) = locks s"
  "audit (set_plan_reservation i x s) = audit s"
  "plans (set_plan_reservation i x s) = map (\<lambda>p. if pl_id p = i then p\<lparr>pl_reservation := x\<rparr> else p) (plans s)"
  by (simp_all add: set_plan_reservation_def table_update_def)

lemma set_reservation_state_simps [simp]:
  "intents (set_reservation_state t i st s) = intents s" "plans (set_reservation_state t i st s) = plans s"
  "approvals (set_reservation_state t i st s) = approvals s" "evidence (set_reservation_state t i st s) = evidence s"
  "owned (set_reservation_state t i st s) = owned s"
  "runs (set_reservation_state t i st s) = runs s" "locks (set_reservation_state t i st s) = locks s"
  "audit (set_reservation_state t i st s) = audit s"
  "reservations (set_reservation_state t i st s) =
     map (\<lambda>r. if rs_id r = i then r\<lparr>rs_state := st, rs_updated_at := t\<rparr> else r) (reservations s)"
  "networks (set_reservation_state t i st s) =
     map (\<lambda>n. if nw_reservation n = i then n\<lparr>nw_state := st, nw_updated_at := t\<rparr> else n) (networks s)"
  "scalars (set_reservation_state t i st s) =
     map (\<lambda>n. if sc_reservation n = i then n\<lparr>sc_state := st, sc_updated_at := t\<rparr> else n) (scalars s)"
  by (simp_all add: set_reservation_state_def table_update_def Let_def)

declare if_image_distrib [simp del]

section \<open>Keys\<close>

definition ids_inv :: "store \<Rightarrow> bool" where
  "ids_inv s \<longleftrightarrow> distinct (map in_id (intents s)) \<and> distinct (map in_hash (intents s))
     \<and> distinct (map pl_id (plans s)) \<and> distinct (map pl_hash (plans s))
     \<and> distinct (map rn_id (runs s)) \<and> distinct (map rn_key_hash (runs s))
     \<and> distinct (map lk_fabric (locks s)) \<and> distinct (map lk_run (locks s))
     \<and> distinct (map rs_id (reservations s)) \<and> distinct (map ow_source_reference (owned s))"

lemma distinct_snoc: "distinct (map f (xs @ [x])) \<longleftrightarrow> distinct (map f xs) \<and> (\<forall>y \<in> set xs. f x \<noteq> f y)"
  by (auto simp: image_iff)

lemma map_if_fields [simp]:
  "map rn_id (map (\<lambda>r. if P r then r\<lparr>rn_status := st, rn_updated_at := t\<rparr> else r) xs) = map rn_id xs"
  "map rn_key_hash (map (\<lambda>r. if P r then r\<lparr>rn_status := st, rn_updated_at := t\<rparr> else r) xs) = map rn_key_hash xs"
  "map pl_id (map (\<lambda>p. if Q p then p\<lparr>pl_reservation := x\<rparr> else p) ps) = map pl_id ps"
  "map pl_hash (map (\<lambda>p. if Q p then p\<lparr>pl_reservation := x\<rparr> else p) ps) = map pl_hash ps"
  "map rs_id (map (\<lambda>r. if R r then r\<lparr>rs_state := st', rs_updated_at := t\<rparr> else r) vs) = map rs_id vs"
  by (simp_all add: comp_def if_distrib cong: if_cong)

lemma ids_inv_event: "store_event s t \<Longrightarrow> ids_inv s \<Longrightarrow> ids_inv t"
  by (induction rule: store_event.induct)
    (simp_all add: ids_inv_def distinct_snoc intents_clash_def plans_clash_def runs_clash_def locks_clash_def
      reservations_clash_def owned_clash_def distinct_map_filter del: map_map map_append)

section \<open>Plans and approvals\<close>

definition intents_inv :: "store \<Rightarrow> bool" where
  "intents_inv s \<longleftrightarrow> (\<forall>i \<in> set (intents s). in_hash i = sha256_json (in_document i)
     \<and> in_id i = ''intent_'' @ take 16 (in_hash i))"

lemma intents_inv_event: "store_event s t \<Longrightarrow> intents_inv s \<Longrightarrow> intents_inv t"
  by (induction rule: store_event.induct) (auto simp: intents_inv_def)

definition plans_inv :: "store \<Rightarrow> bool" where
  "plans_inv s \<longleftrightarrow> (\<forall>p \<in> set (plans s). length (pl_artifact_hash p) = 64 \<and>
     (\<exists>i \<in> set (intents s). pl_intent_id p = in_id i \<and> pl_fabric p = in_fabric i))"

lemma plans_inv_event: "store_event s t \<Longrightarrow> plans_inv s \<Longrightarrow> plans_inv t"
  by (induction rule: store_event.induct) (force simp: plans_inv_def)+

definition approval_bound :: "approval_row \<Rightarrow> plan_row \<Rightarrow> bool" where
  "approval_bound a p \<longleftrightarrow> ap_plan_id a = pl_id p \<and> ap_plan_hash a = pl_hash p
     \<and> ap_artifact_hash a = pl_artifact_hash p \<and> ap_intent_version a = pl_intent_version p
     \<and> pl_created_by p \<noteq> ap_approver a"

definition approvals_inv :: "store \<Rightarrow> bool" where
  "approvals_inv s \<longleftrightarrow> (\<forall>a \<in> set (approvals s). \<exists>p \<in> set (plans s). approval_bound a p)"

lemma approval_bound_rebind [simp]:
  "approval_bound a (if c then p\<lparr>pl_reservation := x\<rparr> else p) = approval_bound a p"
  by (simp add: approval_bound_def)

lemma approvals_inv_event: "store_event s t \<Longrightarrow> approvals_inv s \<Longrightarrow> approvals_inv t"
proof (induction rule: store_event.induct)
  case (ev_approval s a p)
  then have "approval_bound a p" by (simp add: approval_bound_def)
  with ev_approval show ?case by (auto simp: approvals_inv_def)
qed (auto simp: approvals_inv_def)

section \<open>Runs\<close>

fun dry_status :: "run_status \<Rightarrow> bool" where
  "dry_status DryRunQueued = True"
| "dry_status DryRunRunning = True"
| "dry_status DryRunSucceeded = True"
| "dry_status DryRunBlocked = True"
| "dry_status DryRunFailed = True"
| "dry_status _ = False"

lemma run_allowed_dry: "run_allowed st st' \<Longrightarrow> dry_status st' = dry_status st"
  by (cases st) auto

definition run_authorised :: "store \<Rightarrow> run_row \<Rightarrow> bool" where
  "run_authorised s r \<longleftrightarrow>
     (\<exists>p \<in> set (plans s). plan_matches p r)
   \<and> (\<exists>a \<in> set (approvals s). approval_for a r)
   \<and> (rn_mode r = DryRun) = dry_status (rn_status r)
   \<and> (rn_mode r = Apply \<longrightarrow> (\<exists>f u. rn_maintenance_start r = Some f \<and> rn_maintenance_end r = Some u \<and> f < u))"

definition runs_inv :: "store \<Rightarrow> bool" where
  "runs_inv s \<longleftrightarrow> (\<forall>r \<in> set (runs s). run_authorised s r)"

lemma plan_matches_rebind [simp]: "plan_matches (if c then p\<lparr>pl_reservation := x\<rparr> else p) r = plan_matches p r"
  by (simp add: plan_matches_def)

lemma run_authorised_mono:
  "run_authorised s r \<Longrightarrow> set (approvals s) \<subseteq> set (approvals t) \<Longrightarrow>
     (\<forall>p r. p \<in> set (plans s) \<longrightarrow> plan_matches p r \<longrightarrow> (\<exists>q \<in> set (plans t). plan_matches q r)) \<Longrightarrow> run_authorised t r"
  by (auto simp: run_authorised_def)

lemma run_authorised_status:
  assumes "run_authorised s r" and "dry_status st = dry_status (rn_status r)"
  shows "run_authorised s (r\<lparr>rn_status := st, rn_updated_at := t\<rparr>)"
  using assms by (auto simp: run_authorised_def plan_matches_def approval_for_def)

lemma event_plans_approvals:
  assumes "store_event s t"
  shows "set (approvals s) \<subseteq> set (approvals t)"
    and "p \<in> set (plans s) \<Longrightarrow> plan_matches p r \<Longrightarrow> \<exists>q \<in> set (plans t). plan_matches q r"
  using assms by (induction rule: store_event.induct) auto

lemma end_run_rows:
  assumes "ids_inv s" and "r' \<in> set (runs s)" and "r \<in> set (runs (end_run u (rn_id r') st (s\<lparr>owned := ws\<rparr>)))"
  shows "r \<in> set (runs s) \<and> rn_id r \<noteq> rn_id r' \<or> r = r'\<lparr>rn_status := st, rn_updated_at := u\<rparr>"
proof -
  from assms(3) obtain x where x: "x \<in> set (runs s)" and r: "r = (if rn_id x = rn_id r' then x\<lparr>rn_status := st, rn_updated_at := u\<rparr> else x)"
    by auto
  have "x = r'" if "rn_id x = rn_id r'"
    using assms(1,2) x that by (auto simp: ids_inv_def dest: distinct_map_eqD)
  with x r show ?thesis by auto
qed

lemma end_run_rows':
  assumes "ids_inv s" and "r' \<in> set (runs s)" and "r \<in> set (runs (end_run u (rn_id r') st s))"
  shows "r \<in> set (runs s) \<and> rn_id r \<noteq> rn_id r' \<or> r = r'\<lparr>rn_status := st, rn_updated_at := u\<rparr>"
  using end_run_rows [OF assms(1,2), of r u st "owned s"] assms(3) by simp

lemma runs_inv_event: "store_event s t \<Longrightarrow> ids_inv s \<Longrightarrow> runs_inv s \<Longrightarrow> runs_inv t"
proof -
  assume e: "store_event s t" and ids: "ids_inv s" and i: "runs_inv s"
  have mono: "run_authorised t r" if "run_authorised s r" for r
    using that event_plans_approvals [OF e] by (auto simp: run_authorised_def)
  from e have new: "run_authorised s r" if "r \<in> set (runs t)" for r
    using that
  proof cases
    case (ev_dry_run r' p a)
    then have "run_authorised s r'" by (auto simp: run_authorised_def)
    with ev_dry_run(1) that i show ?thesis by (auto simp: runs_inv_def)
  next
    case (ev_apply r' p a f u l)
    then have "run_authorised s r'" by (auto simp: run_authorised_def)
    with ev_apply(1) that i show ?thesis by (auto simp: runs_inv_def)
  next
    case (ev_status r' st u)
    then have d: "dry_status st = dry_status (rn_status r')" by (simp add: run_allowed_dry)
    from that have "r \<in> set (runs s) \<or> r = r'\<lparr>rn_status := st, rn_updated_at := u\<rparr>"
      using end_run_rows' [OF ids ev_status(2)] unfolding ev_status(1) by blast
    moreover have "run_authorised s (r'\<lparr>rn_status := st, rn_updated_at := u\<rparr>)"
      using i ev_status(2) d by (intro run_authorised_status) (simp_all add: runs_inv_def)
    ultimately show ?thesis using i by (auto simp only: runs_inv_def)
  next
    case (ev_commit r' w m u)
    from that have "r \<in> set (runs s) \<or> r = r'\<lparr>rn_status := ApplySucceeded, rn_updated_at := u\<rparr>"
      using end_run_rows [OF ids ev_commit(2)] unfolding ev_commit(1) by blast
    moreover have "run_authorised s (r'\<lparr>rn_status := ApplySucceeded, rn_updated_at := u\<rparr>)"
      using i ev_commit(2,3) by (intro run_authorised_status) (simp_all add: runs_inv_def)
    ultimately show ?thesis using i by (auto simp only: runs_inv_def)
  qed (use i in \<open>auto simp: runs_inv_def\<close>)
  show "runs_inv t" using new mono by (auto simp: runs_inv_def)
qed

section \<open>Fabric locks\<close>

definition locks_inv :: "store \<Rightarrow> bool" where
  "locks_inv s \<longleftrightarrow>
     (\<forall>l \<in> set (locks s). \<exists>r \<in> set (runs s). rn_id r = lk_run l \<and> rn_fabric r = lk_fabric l \<and> apply_active (rn_status r))
   \<and> (\<forall>r \<in> set (runs s). apply_active (rn_status r) \<longrightarrow> (\<exists>l \<in> set (locks s). lk_run l = rn_id r))"

text \<open>A step of a run's status keeps an active apply active exactly when it is not terminal.\<close>

lemma run_allowed_active:
  "run_allowed st st' \<Longrightarrow> \<not> run_terminal st' \<Longrightarrow> apply_active st' = apply_active st"
  "run_terminal st \<Longrightarrow> \<not> apply_active st"
  by (cases st; auto simp: run_terminal_def apply_active_def)
    (auto simp: run_terminal_def apply_active_def)

lemma locks_inv_end_run:
  assumes ids: "ids_inv s" and i: "locks_inv s" and r: "r \<in> set (runs s)" and st: "run_allowed (rn_status r) st"
  shows "locks_inv (end_run u (rn_id r) st (s\<lparr>owned := ws\<rparr>))"
proof -
  let ?t = "end_run u (rn_id r) st (s\<lparr>owned := ws\<rparr>)"
  let ?r = "r\<lparr>rn_status := st, rn_updated_at := u\<rparr>"
  have rows: "x \<in> set (runs s) \<and> rn_id x \<noteq> rn_id r \<or> x = ?r" if "x \<in> set (runs ?t)" for x
    using end_run_rows [OF ids r that] .
  have other: "x \<in> set (runs ?t)" if "x \<in> set (runs s)" "rn_id x \<noteq> rn_id r" for x
    using that by force
  have same: "?r \<in> set (runs ?t)" using r by force
  have uniq: "x = r" if "x \<in> set (runs s)" "rn_id x = rn_id r" for x
    using ids r that by (auto simp: ids_inv_def dest: distinct_map_eqD)
  have 1: "\<exists>x \<in> set (runs ?t). rn_id x = lk_run l \<and> rn_fabric x = lk_fabric l \<and> apply_active (rn_status x)"
    if l: "l \<in> set (locks ?t)" for l
  proof -
    from l have "l \<in> set (locks s)" by (auto split: if_splits)
    with i obtain x where x: "x \<in> set (runs s)" "rn_id x = lk_run l" "rn_fabric x = lk_fabric l" "apply_active (rn_status x)"
      by (auto simp: locks_inv_def)
    show ?thesis
    proof (cases "rn_id x = rn_id r")
      case True
      with uniq x have xr: "x = r" by blast
      with l x(2) have "\<not> run_terminal st" by (auto split: if_splits)
      with run_allowed_active(1) [OF st] x(4) xr have "apply_active st" by simp
      with same x xr show ?thesis by force
    next
      case False
      with other x show ?thesis by blast
    qed
  qed
  have 2: "\<exists>l \<in> set (locks ?t). lk_run l = rn_id x" if x: "x \<in> set (runs ?t)" and act: "apply_active (rn_status x)" for x
  proof (cases "x = ?r")
    case True
    then have "\<not> run_terminal st" "apply_active st" using act run_allowed_active(2) by auto
    then have "apply_active (rn_status r)" using run_allowed_active(1) [OF st] by simp
    with i r \<open>\<not> run_terminal st\<close> True show ?thesis by (auto simp: locks_inv_def)
  next
    case False
    with rows x have x': "x \<in> set (runs s)" "rn_id x \<noteq> rn_id r" by auto
    with i act obtain l where "l \<in> set (locks s)" "lk_run l = rn_id x" by (auto simp: locks_inv_def)
    with x'(2) show ?thesis by auto
  qed
  from 1 2 show ?thesis by (simp only: locks_inv_def) blast
qed

lemma locks_inv_event: "store_event s t \<Longrightarrow> ids_inv s \<Longrightarrow> locks_inv s \<Longrightarrow> locks_inv t"
proof (induction rule: store_event.induct)
  case (ev_status r s st t)
  then show ?case using locks_inv_end_run [of s r st t "owned s"] by simp
next
  case (ev_commit r s w m t)
  then show ?case by (intro locks_inv_end_run) simp_all
next
  case (ev_apply s r p a f u l)
  then show ?case by (auto simp: locks_inv_def apply_active_def)
qed (auto simp: locks_inv_def apply_active_def)

section \<open>Reservations\<close>

definition networks_inv :: "store \<Rightarrow> bool" where
  "networks_inv s \<longleftrightarrow> (\<forall>n \<in> set (networks s). \<exists>r \<in> set (reservations s).
     rs_id r = nw_reservation n \<and> rs_domain r = nw_domain n \<and> rs_state r = nw_state n)"

definition scalars_inv :: "store \<Rightarrow> bool" where
  "scalars_inv s \<longleftrightarrow> (\<forall>v \<in> set (scalars s). \<exists>r \<in> set (reservations s).
     rs_id r = sc_reservation v \<and> rs_domain r = sc_domain v \<and> rs_state r = sc_state v)"

definition active_keys_inv :: "store \<Rightarrow> bool" where
  "active_keys_inv s \<longleftrightarrow> (\<forall>r \<in> set (reservations s). \<forall>r' \<in> set (reservations s).
     rs_state r \<noteq> Released \<longrightarrow> rs_state r' \<noteq> Released \<longrightarrow>
     rs_key_hash r = rs_key_hash r' \<or> rs_reservation_hash r = rs_reservation_hash r' \<longrightarrow> rs_id r = rs_id r')"

lemma active_keysD:
  "active_keys_inv s \<Longrightarrow> r \<in> set (reservations s) \<Longrightarrow> r' \<in> set (reservations s) \<Longrightarrow>
   rs_state r \<noteq> Released \<Longrightarrow> rs_state r' \<noteq> Released \<Longrightarrow>
   rs_key_hash r = rs_key_hash r' \<or> rs_reservation_hash r = rs_reservation_hash r' \<Longrightarrow> rs_id r = rs_id r'"
  unfolding active_keys_inv_def by blast

lemma active_keys_same: "active_keys_inv s \<Longrightarrow> reservations t = reservations s \<Longrightarrow> active_keys_inv t"
  by (simp only: active_keys_inv_def)

lemma reservation_allowed_not_released: "reservation_allowed st st' \<Longrightarrow> st \<noteq> Released"
  by (cases st) auto

lemma networks_inv_event: "store_event s t \<Longrightarrow> networks_inv s \<Longrightarrow> networks_inv t"
proof (induction rule: store_event.induct)
  case (ev_reservation_state r s st t)
  let ?upd = "\<lambda>x. if rs_id x = rs_id r then x\<lparr>rs_state := st, rs_updated_at := t\<rparr> else x"
  show ?case
    unfolding networks_inv_def set_reservation_state_simps set_map ball_simps bex_simps
  proof (intro ballI)
    fix n assume n: "n \<in> set (networks s)"
    let ?n = "if nw_reservation n = rs_id r then n\<lparr>nw_state := st, nw_updated_at := t\<rparr> else n"
    from ev_reservation_state(3) n obtain y where y: "y \<in> set (reservations s)" "rs_id y = nw_reservation n"
        "rs_domain y = nw_domain n" "rs_state y = nw_state n" by (auto simp: networks_inv_def)
    then show "\<exists>y \<in> set (reservations s). rs_id (?upd y) = nw_reservation ?n \<and> rs_domain (?upd y) = nw_domain ?n
        \<and> rs_state (?upd y) = nw_state ?n"
      by (intro bexI [of _ y]) simp_all
  qed
qed (simp_all add: networks_inv_def bex_Un ball_Un)

lemma scalars_inv_event: "store_event s t \<Longrightarrow> scalars_inv s \<Longrightarrow> scalars_inv t"
proof (induction rule: store_event.induct)
  case (ev_reservation_state r s st t)
  let ?upd = "\<lambda>x. if rs_id x = rs_id r then x\<lparr>rs_state := st, rs_updated_at := t\<rparr> else x"
  show ?case
    unfolding scalars_inv_def set_reservation_state_simps set_map ball_simps bex_simps
  proof (intro ballI)
    fix n assume n: "n \<in> set (scalars s)"
    let ?n = "if sc_reservation n = rs_id r then n\<lparr>sc_state := st, sc_updated_at := t\<rparr> else n"
    from ev_reservation_state(3) n obtain y where y: "y \<in> set (reservations s)" "rs_id y = sc_reservation n"
        "rs_domain y = sc_domain n" "rs_state y = sc_state n" by (auto simp: scalars_inv_def)
    then show "\<exists>y \<in> set (reservations s). rs_id (?upd y) = sc_reservation ?n \<and> rs_domain (?upd y) = sc_domain ?n
        \<and> rs_state (?upd y) = sc_state ?n"
      by (intro bexI [of _ y]) simp_all
  qed
qed (simp_all add: scalars_inv_def bex_Un ball_Un)

text \<open>What a row of a changed reservation table was before: the same keys, and active if it is active.\<close>

lemma reservation_rows:
  assumes ids: "ids_inv s" and r: "r \<in> set (reservations s)" and st: "reservation_allowed (rs_state r) st"
    and x: "x \<in> set (reservations (set_reservation_state u (rs_id r) st s))"
  shows "\<exists>y \<in> set (reservations s). rs_id y = rs_id x \<and> rs_key_hash y = rs_key_hash x
    \<and> rs_reservation_hash y = rs_reservation_hash x \<and> (rs_state x \<noteq> Released \<longrightarrow> rs_state y \<noteq> Released)"
proof -
  from x obtain y where y: "y \<in> set (reservations s)"
    and xy: "x = (if rs_id y = rs_id r then y\<lparr>rs_state := st, rs_updated_at := u\<rparr> else y)" by auto
  have "rs_state y \<noteq> Released" if "rs_id y = rs_id r"
  proof -
    have "y = r" using ids y r that by (auto simp: ids_inv_def dest: distinct_map_eqD)
    with reservation_allowed_not_released [OF st] show ?thesis by simp
  qed
  with y xy show ?thesis by (intro bexI [of _ y]) auto
qed

lemma active_keys_inv_event: "store_event s t \<Longrightarrow> ids_inv s \<Longrightarrow> active_keys_inv s \<Longrightarrow> active_keys_inv t"
proof (induction rule: store_event.induct)
  case (ev_reserve s r ns vs)
  have new: "rs_key_hash r \<noteq> rs_key_hash x \<and> rs_reservation_hash r \<noteq> rs_reservation_hash x"
    if "x \<in> set (reservations s)" "rs_state x \<noteq> Released" for x
    using ev_reserve(1,2) that by (auto simp: reservations_clash_def)
  show ?case
    unfolding active_keys_inv_def
  proof (intro ballI impI)
    fix x x'
    assume *: "x \<in> set (reservations (s\<lparr>reservations := reservations s @ [r], networks := networks s @ ns, scalars := scalars s @ vs\<rparr>))"
      "x' \<in> set (reservations (s\<lparr>reservations := reservations s @ [r], networks := networks s @ ns, scalars := scalars s @ vs\<rparr>))"
      "rs_state x \<noteq> Released" "rs_state x' \<noteq> Released"
      "rs_key_hash x = rs_key_hash x' \<or> rs_reservation_hash x = rs_reservation_hash x'"
    then consider "x = r" "x' = r" | "x = r" "x' \<in> set (reservations s)" | "x \<in> set (reservations s)" "x' = r"
      | "x \<in> set (reservations s)" "x' \<in> set (reservations s)" by auto
    then show "rs_id x = rs_id x'"
    proof cases
      case 2
      with new [of x'] * show ?thesis by simp
    next
      case 3
      with new [of x] * show ?thesis by auto
    next
      case 4
      with ev_reserve(6) *(3-5) show ?thesis by (intro active_keysD)
    qed simp
  qed
next
  case (ev_reservation_state r s st t)
  show ?case
    unfolding active_keys_inv_def
  proof (intro ballI impI)
    fix x x'
    assume *: "x \<in> set (reservations (set_reservation_state t (rs_id r) st s))"
      "x' \<in> set (reservations (set_reservation_state t (rs_id r) st s))" "rs_state x \<noteq> Released" "rs_state x' \<noteq> Released"
      "rs_key_hash x = rs_key_hash x' \<or> rs_reservation_hash x = rs_reservation_hash x'"
    note rows = reservation_rows [OF ev_reservation_state(3,1,2)]
    from rows [OF *(1)] obtain y where y: "y \<in> set (reservations s)" "rs_id y = rs_id x" "rs_key_hash y = rs_key_hash x"
      "rs_reservation_hash y = rs_reservation_hash x" "rs_state y \<noteq> Released" using *(3) by blast
    from rows [OF *(2)] obtain y' where y': "y' \<in> set (reservations s)" "rs_id y' = rs_id x'" "rs_key_hash y' = rs_key_hash x'"
      "rs_reservation_hash y' = rs_reservation_hash x'" "rs_state y' \<noteq> Released" using *(4) by blast
    from ev_reservation_state(4) y(1) y'(1) y(5) y'(5) have "rs_id y = rs_id y'"
      by (rule active_keysD) (use *(5) y y' in simp)
    with y y' show "rs_id x = rs_id x'" by simp
  qed
qed (erule active_keys_same, simp)+

section \<open>Owned state and evidence\<close>

definition owned_inv :: "store \<Rightarrow> bool" where
  "owned_inv s \<longleftrightarrow> (\<forall>w \<in> set (owned s).
     (\<exists>m. validate_owned_state m None = Inr () \<and> ow_manifest w = json_column m)
   \<and> (ow_source_type w = SuccessfulApply \<longrightarrow>
        (\<exists>r \<in> set (runs s). rn_id r = ow_source_reference w \<and> rn_status r = ApplySucceeded \<and> rn_fabric r = ow_fabric w
           \<and> ow_source_artifact_hash w = Some (rn_artifact_hash r)))
   \<and> (ow_source_type w = AdoptedDiscovery \<longrightarrow> (\<exists>h. ow_evidence_hash w = Some h \<and> sha256_hex_any h)))"

lemma validate_owned_state_any: "validate_owned_state m (Some f) = Inr u \<Longrightarrow> validate_owned_state m None = Inr ()"
  by (auto simp: validate_owned_state_def res)

lemma final_status: "run_allowed st st' \<Longrightarrow> \<not> run_terminal st"
  by (cases st) (auto simp: run_terminal_def)

lemma owned_inv_event: "store_event s t \<Longrightarrow> ids_inv s \<Longrightarrow> owned_inv s \<Longrightarrow> owned_inv t"
proof (induction rule: store_event.induct)
  case (ev_status r s st t)
  have "rn_id x \<noteq> rn_id r" if "x \<in> set (runs s)" "rn_status x = ApplySucceeded" for x
  proof
    assume "rn_id x = rn_id r"
    with ev_status(1,3) that have "x = r" by (auto simp: ids_inv_def dest: distinct_map_eqD)
    with that ev_status(2) show False by simp
  qed
  with ev_status(4) show ?case unfolding owned_inv_def by force
next
  case (ev_commit r s w m t)
  have keep: "\<exists>x \<in> set (runs (end_run t (rn_id r) ApplySucceeded (s\<lparr>owned := owned s @ [w]\<rparr>))).
      rn_id x = i \<and> rn_status x = ApplySucceeded \<and> rn_fabric x = f \<and> h = Some (rn_artifact_hash x)"
    if "x \<in> set (runs s)" "rn_id x = i" "rn_id x = rn_id r \<or> rn_status x = ApplySucceeded" "rn_fabric x = f" "h = Some (rn_artifact_hash x)" for x i f h
    using that by (intro bexI [of _ "if rn_id x = rn_id r then x\<lparr>rn_status := ApplySucceeded, rn_updated_at := t\<rparr> else x"]) auto
  show ?case
    unfolding owned_inv_def
  proof (intro ballI)
    fix v assume "v \<in> set (owned (end_run t (rn_id r) ApplySucceeded (s\<lparr>owned := owned s @ [w]\<rparr>)))"
    then consider "v = w" | "v \<in> set (owned s)" by auto
    then show "(\<exists>m. validate_owned_state m None = Inr () \<and> ow_manifest v = json_column m) \<and>
      (ow_source_type v = SuccessfulApply \<longrightarrow>
        (\<exists>x \<in> set (runs (end_run t (rn_id r) ApplySucceeded (s\<lparr>owned := owned s @ [w]\<rparr>))).
           rn_id x = ow_source_reference v \<and> rn_status x = ApplySucceeded \<and> rn_fabric x = ow_fabric v
           \<and> ow_source_artifact_hash v = Some (rn_artifact_hash x)))
      \<and> (ow_source_type v = AdoptedDiscovery \<longrightarrow> (\<exists>h. ow_evidence_hash v = Some h \<and> sha256_hex_any h))"
    proof cases
      case 1
      with ev_commit keep [of r] show ?thesis by auto
    next
      case 2
      with ev_commit(11) show ?thesis unfolding owned_inv_def using keep by metis
    qed
  qed
next
  case (ev_adopt s w m h)
  then show ?case using validate_owned_state_any unfolding owned_inv_def by fastforce
qed (fastforce simp: owned_inv_def)+

definition evidence_inv :: "store \<Rightarrow> bool" where
  "evidence_inv s \<longleftrightarrow> (\<forall>v \<in> set (evidence s). ev_payload_hash v = sha256_json (ev_payload v)
     \<and> ev_run v \<in> rn_id ` set (runs s))"

lemma evidence_inv_event: "store_event s t \<Longrightarrow> evidence_inv s \<Longrightarrow> evidence_inv t"
proof (induction rule: store_event.induct)
qed (auto simp: evidence_inv_def image_image if_distrib cong: if_cong)

lemma audit_event_extends: "store_event s t \<Longrightarrow> audit_extends s t"
  by (induction rule: store_event.induct)
    (auto simp: audit_extends_def verify_audit_chain_def verify_from_append last_audit_hash_head)

end
