(* ===== verification/StoreSystem.thy ===== *)
theory StoreSystem
  imports StoreInv
begin

text \<open>
  The store as a system: any interleaving of its transactions, each with its own clock,
  identifiers and arguments. Every reachable store satisfies the invariants, and what has
  reached a final state stays there.
\<close>

section \<open>Steps\<close>

text \<open>One rule per transaction, for the calls that return; a call that raises leaves the store.
  \<open>derive\<close> is the allocator that \<open>reserve_design\<close> calls.\<close>

inductive store_step :: "deriver \<Rightarrow> store \<Rightarrow> store \<Rightarrow> bool" for derive where
  st_intent: "save_intent rt intent actor s = Inr (x, t) \<Longrightarrow> store_step derive s t"
| st_reserve: "reserve_design derive rt req pol key actor s = Inr (x, t) \<Longrightarrow> store_step derive s t"
| st_reservation: "transition_design_reservation rt rid st actor verified s = Inr (x, t) \<Longrightarrow> store_step derive s t"
| st_plan: "save_plan rt iid plan actor ah ver rsv s = Inr (x, t) \<Longrightarrow> store_step derive s t"
| st_approval: "record_approval rt pid dec approver ref expires s = Inr (x, t) \<Longrightarrow> store_step derive s t"
| st_run: "create_run rt pid mode key by enabled ms me ttl s = Inr (x, t) \<Longrightarrow> store_step derive s t"
| st_transition: "transition_run rt rid st actor detail s = Inr (x, t) \<Longrightarrow> store_step derive s t"
| st_complete: "complete_apply rt rid ah m actor detail s = Inr (x, t) \<Longrightarrow> store_step derive s t"
| st_adopt: "record_adopted_owned_state rt fab m eh cr by ap s = (r, t) \<Longrightarrow> store_step derive s t"
| st_evidence: "add_evidence rt rid ph ty payload actor dev s = Inr (x, t) \<Longrightarrow> store_step derive s t"

definition reachable :: "deriver \<Rightarrow> store \<Rightarrow> bool" where
  "reachable derive s \<longleftrightarrow> (store_step derive)\<^sup>*\<^sup>* empty_store s"

definition store_inv :: "store \<Rightarrow> bool" where
  "store_inv s \<longleftrightarrow> ids_inv s \<and> intents_inv s \<and> plans_inv s \<and> approvals_inv s \<and> runs_inv s \<and> locks_inv s \<and> networks_inv s
     \<and> scalars_inv s \<and> active_keys_inv s \<and> owned_inv s \<and> evidence_inv s \<and> verify_audit_chain s"

lemma store_inv_event:
  assumes e: "store_event s t" and "store_inv s"
  shows "store_inv t"
  using assms(2) ids_inv_event [OF e] intents_inv_event [OF e] plans_inv_event [OF e] approvals_inv_event [OF e] runs_inv_event [OF e]
    locks_inv_event [OF e] networks_inv_event [OF e] scalars_inv_event [OF e] active_keys_inv_event [OF e]
    owned_inv_event [OF e] evidence_inv_event [OF e] audit_event_extends [OF e]
  by (simp add: store_inv_def audit_extends_def)

lemma store_inv_events: "store_events s t \<Longrightarrow> store_inv s \<Longrightarrow> store_inv t"
  by (induction rule: rtranclp_induct) (auto intro: store_inv_event)

text \<open>The operations refine the specification.\<close>

lemma store_step_events: "store_step derive s t \<Longrightarrow> ids_inv s \<Longrightarrow> store_events s t"
proof (induction rule: store_step.induct)
  case (st_plan rt iid plan actor ah ver rsv s x t)
  obtain row created where x: "x = (row, created)" by (cases x)
  show ?case using st_plan by (auto simp: ids_inv_def intro: save_plan_events)
next
  case (st_run rt pid mode key by' enabled ms me ttl s x t)
  obtain row created where x: "x = (row, created)" by (cases x)
  show ?case using st_run create_run_events by (simp add: x)
qed (blast intro: save_intent_events reserve_design_events transition_design_reservation_events
    record_approval_events transition_run_events complete_apply_events record_adopted_events add_evidence_events)+

lemma store_inv_step: "store_step derive s t \<Longrightarrow> store_inv s \<Longrightarrow> store_inv t"
proof -
  assume st: "store_step derive s t" and inv: "store_inv s"
  then have "ids_inv s" by (simp add: store_inv_def)
  from store_inv_events [OF store_step_events [OF st this] inv] show "store_inv t" .
qed

lemma store_inv_steps: "(store_step derive)\<^sup>*\<^sup>* s t \<Longrightarrow> store_inv s \<Longrightarrow> store_inv t \<and> store_events s t"
proof (induction rule: rtranclp_induct)
  case (step t u)
  then have t: "store_inv t" "store_events s t" by simp_all
  then have "ids_inv t" by (simp add: store_inv_def)
  from store_step_events [OF step.hyps(2) this] t(2) have "store_events s u" by (rule rtranclp_trans [rotated])
  then show ?case using store_inv_step [OF step.hyps(2) t(1)] by simp
qed simp

lemma store_inv_empty: "store_inv empty_store"
  by (simp add: store_inv_def ids_inv_def intents_inv_def plans_inv_def approvals_inv_def runs_inv_def locks_inv_def networks_inv_def
      scalars_inv_def active_keys_inv_def owned_inv_def evidence_inv_def verify_audit_chain_def empty_store_def)

lemma reachable_inv: "reachable derive s \<Longrightarrow> store_inv s"
  unfolding reachable_def using store_inv_steps store_inv_empty by blast

section \<open>History\<close>

text \<open>What one event, and then any sequence of them, does to a row that is already there.\<close>

definition row_kept :: "store \<Rightarrow> store \<Rightarrow> bool" where
  "row_kept s t \<longleftrightarrow>
     (\<forall>r \<in> set (runs s). \<exists>r' \<in> set (runs t). rn_id r' = rn_id r \<and> rn_plan_hash r' = rn_plan_hash r
        \<and> rn_artifact_hash r' = rn_artifact_hash r \<and> rn_fabric r' = rn_fabric r \<and> rn_mode r' = rn_mode r
        \<and> run_allowed\<^sup>*\<^sup>* (rn_status r) (rn_status r'))
   \<and> (\<forall>r \<in> set (reservations s). \<exists>r' \<in> set (reservations t). rs_id r' = rs_id r \<and> rs_intent r' = rs_intent r
        \<and> rs_key_hash r' = rs_key_hash r \<and> rs_domain r' = rs_domain r
        \<and> reservation_allowed\<^sup>*\<^sup>* (rs_state r) (rs_state r'))
   \<and> set (approvals s) \<subseteq> set (approvals t) \<and> set (owned s) \<subseteq> set (owned t) \<and> set (evidence s) \<subseteq> set (evidence t)
   \<and> set (intents s) \<subseteq> set (intents t) \<and> audit_extends s t"

lemma row_kept_refl: "row_kept s s"
  by (auto simp: row_kept_def)

lemma row_kept_trans:
  assumes "row_kept s t" and "row_kept t u"
  shows "row_kept s u"
proof -
  have "\<exists>r' \<in> set (runs u). rn_id r' = rn_id r \<and> rn_plan_hash r' = rn_plan_hash r
        \<and> rn_artifact_hash r' = rn_artifact_hash r \<and> rn_fabric r' = rn_fabric r \<and> rn_mode r' = rn_mode r
        \<and> run_allowed\<^sup>*\<^sup>* (rn_status r) (rn_status r')" if "r \<in> set (runs s)" for r
    using assms that unfolding row_kept_def by (metis (no_types, lifting) rtranclp_trans)
  moreover have "\<exists>r' \<in> set (reservations u). rs_id r' = rs_id r \<and> rs_intent r' = rs_intent r
        \<and> rs_key_hash r' = rs_key_hash r \<and> rs_domain r' = rs_domain r
        \<and> reservation_allowed\<^sup>*\<^sup>* (rs_state r) (rs_state r')" if "r \<in> set (reservations s)" for r
    using assms that unfolding row_kept_def by (metis (no_types, lifting) rtranclp_trans)
  moreover have "audit_extends s u" using assms by (auto simp: row_kept_def intro: audit_extends_trans)
  ultimately show ?thesis using assms by (auto simp: row_kept_def)
qed

lemma row_kept_end_run:
  assumes ids: "ids_inv s" and r: "r \<in> set (runs s)" and st: "run_allowed (rn_status r) st"
    and x: "x \<in> set (runs s)"
  shows "\<exists>r' \<in> set (runs (end_run u (rn_id r) st (s\<lparr>owned := ws\<rparr>))). rn_id r' = rn_id x \<and> rn_plan_hash r' = rn_plan_hash x
        \<and> rn_artifact_hash r' = rn_artifact_hash x \<and> rn_fabric r' = rn_fabric x \<and> rn_mode r' = rn_mode x
        \<and> run_allowed\<^sup>*\<^sup>* (rn_status x) (rn_status r')"
proof (cases "rn_id x = rn_id r")
  case True
  with ids r x have "x = r" by (auto simp: ids_inv_def dest: distinct_map_eqD)
  with st x show ?thesis by (intro bexI [of _ "x\<lparr>rn_status := st, rn_updated_at := u\<rparr>"]) auto
next
  case False
  with x show ?thesis by (intro bexI [of _ x]) auto
qed

lemma row_kept_event: "store_event s t \<Longrightarrow> ids_inv s \<Longrightarrow> row_kept s t"
proof (induction rule: store_event.induct)
  case (ev_status r s st t)
  then show ?case
    using row_kept_end_run [of s r st _ t "owned s"] audit_event_extends [OF store_event.ev_status [of r s st t]]
    by (auto simp: row_kept_def simp del: end_run_simps(9)) 
next
  case (ev_commit r s w m t)
  show ?case
    using row_kept_end_run [OF ev_commit(10,1), of ApplySucceeded _ t] ev_commit(2)
      audit_event_extends [OF store_event.ev_commit [OF ev_commit(1-9)]]
    by (auto simp: row_kept_def simp del: end_run_simps(9))
next
  case (ev_reservation_state r s st t)
  have "\<exists>r' \<in> set (reservations (set_reservation_state t (rs_id r) st s)). rs_id r' = rs_id x \<and> rs_intent r' = rs_intent x
        \<and> rs_key_hash r' = rs_key_hash x \<and> rs_domain r' = rs_domain x
        \<and> reservation_allowed\<^sup>*\<^sup>* (rs_state x) (rs_state r')" if x: "x \<in> set (reservations s)" for x
  proof (cases "rs_id x = rs_id r")
    case True
    with ev_reservation_state(1,3) x have "x = r" by (auto simp: ids_inv_def dest: distinct_map_eqD)
    with ev_reservation_state(2) x show ?thesis
      by (intro bexI [of _ "x\<lparr>rs_state := st, rs_updated_at := t\<rparr>"]) auto
  next
    case False
    with x show ?thesis by (intro bexI [of _ x]) auto
  qed
  with audit_event_extends [OF store_event.ev_reservation_state [OF ev_reservation_state(1,2), of t]]
  show ?case by (auto simp: row_kept_def simp del: set_reservation_state_simps(9))
qed (auto simp: row_kept_def audit_extends_same intro: audit_event_extends store_event.intros)

lemma row_kept_steps: "(store_step derive)\<^sup>*\<^sup>* s t \<Longrightarrow> store_inv s \<Longrightarrow> row_kept s t"
proof -
  have "store_events s t \<Longrightarrow> store_inv s \<Longrightarrow> row_kept s t \<and> store_inv t" for t
  proof (induction rule: rtranclp_induct)
    case (step t u)
    then show ?case
      using row_kept_event [of t u] store_inv_event row_kept_trans by (auto simp: store_inv_def)
  qed (simp add: row_kept_refl)
  then show "(store_step derive)\<^sup>*\<^sup>* s t \<Longrightarrow> store_inv s \<Longrightarrow> row_kept s t" using store_inv_steps by blast
qed

lemma final_run_stays: "run_allowed\<^sup>*\<^sup>* st st' \<Longrightarrow> run_terminal st \<Longrightarrow> st' = st"
  by (induction rule: converse_rtranclp_induct) (auto dest: final_status)

lemma released_stays: "reservation_allowed\<^sup>*\<^sup>* st st' \<Longrightarrow> st = Released \<Longrightarrow> st' = Released"
  by (induction rule: converse_rtranclp_induct) (auto dest: reservation_allowed_not_released)

end
