(* ===== verification/StoreProps.thy ===== *)
theory StoreProps
  imports StoreSystem
begin

text \<open>
  The properties of the state store. They hold in every store that the transactions reach from
  one that satisfies the invariants, in particular from the empty store. The sample store at
  the top holds one approved plan with a queued apply; the witnesses run transactions on it.
\<close>

section \<open>A sample store\<close>

definition sample_runtime :: runtime where
  "sample_runtime = \<lparr>now = (\<lambda>_. 1000), uuid = (\<lambda>k. nat_str k),
     fromisoformat = (\<lambda>t. if t = ''2030-01-01T00:00:00+00:00'' then Some (2000, Some 0)
        else if t = ''2020-01-01T00:00:00+00:00'' then Some (500, Some 0) else None)\<rparr>"

definition sample_intent :: json where
  "sample_intent = JObj [(''fabric'', JObj [(''id'', JStr ''f1'')]), (''metadata'', JObj [(''environment'', JStr ''lab'')])]"

definition sample_intent_row :: intent_row where
  "sample_intent_row = \<lparr>in_id = ''intent_'' @ take 16 (sha256_json sample_intent), in_hash = sha256_json sample_intent,
     in_fabric = ''f1'', in_environment = ''lab'', in_document = sample_intent, in_created_at = 100, in_created_by = ''ann''\<rparr>"

definition sample_plan_row :: plan_row where
  "sample_plan_row = \<lparr>pl_id = ''plan_1'', pl_hash = ''ph'', pl_artifact_hash = replicate 64 CHR ''a'',
     pl_intent_version = ''1.2'', pl_reservation = None, pl_intent_id = in_id sample_intent_row, pl_fabric = ''f1'',
     pl_document = JObj [], pl_created_at = 200, pl_created_by = ''ann''\<rparr>"

definition sample_approval_row :: approval_row where
  "sample_approval_row = \<lparr>ap_id = ''approval_1'', ap_plan_id = ''plan_1'', ap_plan_hash = ''ph'',
     ap_artifact_hash = replicate 64 CHR ''a'', ap_intent_version = ''1.2'', ap_decision = Approved, ap_approver = ''bob'',
     ap_change_reference = ''CHG1'', ap_expires_at = 5000, ap_created_at = 300\<rparr>"

definition sample_run_row :: run_row where
  "sample_run_row = \<lparr>rn_id = ''run_9'', rn_plan_id = ''plan_1'', rn_plan_hash = ''ph'',
     rn_artifact_hash = replicate 64 CHR ''a'', rn_intent_version = ''1.2'', rn_fabric = ''f1'', rn_key_hash = ''k'',
     rn_mode = Apply, rn_status = ApplyQueued, rn_requested_by = ''ann'', rn_maintenance_start = Some 0,
     rn_maintenance_end = Some 4000, rn_created_at = 400, rn_updated_at = 400\<rparr>"

definition sample_approved :: store where
  "sample_approved = empty_store\<lparr>intents := [sample_intent_row], plans := [sample_plan_row], approvals := [sample_approval_row]\<rparr>"

definition sample_queued :: store where
  "sample_queued = sample_approved\<lparr>runs := [sample_run_row],
     locks := [\<lparr>lk_fabric = ''f1'', lk_run = ''run_9'', lk_acquired_at = 400, lk_expires_at = 401\<rparr>]\<rparr>"

lemmas sample_defs = sample_queued_def sample_approved_def empty_store_def sample_run_row_def sample_approval_row_def
  sample_plan_row_def sample_intent_row_def sample_runtime_def

lemma sample_approved_inv: "store_inv sample_approved"
  by (simp add: store_inv_def ids_inv_def intents_inv_def plans_inv_def approvals_inv_def runs_inv_def locks_inv_def
      networks_inv_def scalars_inv_def active_keys_inv_def owned_inv_def evidence_inv_def verify_audit_chain_def
      approval_bound_def sample_defs)

lemma sample_queued_inv: "store_inv sample_queued"
  by (simp add: store_inv_def ids_inv_def intents_inv_def plans_inv_def approvals_inv_def runs_inv_def locks_inv_def
      networks_inv_def scalars_inv_def active_keys_inv_def owned_inv_def evidence_inv_def verify_audit_chain_def
      approval_bound_def run_authorised_def plan_matches_def approval_for_def apply_active_def sample_defs)

definition sample_running :: store where
  "sample_running =
     (case transition_run sample_runtime ''run_9'' ApplyRunning ''worker'' JNull sample_queued of
        Inr (_, t) \<Rightarrow> t | Inl _ \<Rightarrow> empty_store)"

lemma sample_running_step: "(store_step derive)\<^sup>*\<^sup>* sample_queued sample_running"
proof -
  have "\<exists>x. transition_run sample_runtime ''run_9'' ApplyRunning ''worker'' JNull sample_queued = Inr (x, sample_running)"
    by (simp add: sample_running_def transition_run_def table_get_def sample_defs set_run_status_def
        table_update_def run_terminal_def append_audit_def table_insert_def Let_def)
  then show ?thesis by (blast intro: store_step.st_transition)
qed

lemma sample_running_runs:
  "runs sample_running = [sample_run_row\<lparr>rn_status := ApplyRunning, rn_updated_at := 1000\<rparr>]"
  "audit sample_running \<noteq> []"
  by (simp_all add: sample_running_def transition_run_def table_get_def sample_defs set_run_status_def
        table_update_def run_terminal_def append_audit_def table_insert_def Let_def)

section \<open>Runs\<close>

text \<open>
  C5: at most one apply run of a fabric is queued, running or rolling back at any time.
\<close>

theorem apply_mutual_exclusion:
  assumes "store_inv s0" and "(store_step derive)\<^sup>*\<^sup>* s0 s"
    and "r \<in> set (runs s)" and "r' \<in> set (runs s)"
    and "apply_active (rn_status r)" and "apply_active (rn_status r')" and "rn_fabric r = rn_fabric r'"
  shows "r = r'"
proof -
  have inv: "store_inv s" using store_inv_steps assms(1,2) by blast
  then have ids: "distinct (map rn_id (runs s))" "distinct (map lk_fabric (locks s))"
    and locks: "locks_inv s" by (simp_all add: store_inv_def ids_inv_def)
  from locks assms(3,5) obtain l where l: "l \<in> set (locks s)" "lk_run l = rn_id r" by (auto simp: locks_inv_def)
  from locks assms(4,6) obtain l' where l': "l' \<in> set (locks s)" "lk_run l' = rn_id r'" by (auto simp: locks_inv_def)
  have fab: "lk_fabric k = rn_fabric x" if "k \<in> set (locks s)" "x \<in> set (runs s)" "lk_run k = rn_id x" for k x
  proof -
    from locks that(1) obtain y where "y \<in> set (runs s)" "rn_id y = lk_run k" "rn_fabric y = lk_fabric k"
      by (auto simp: locks_inv_def)
    with distinct_map_eqD [OF ids(1), of y x] that show ?thesis by simp
  qed
  from fab l l' assms(3,4,7) have "lk_fabric l = lk_fabric l'" by simp
  then have "l = l'" using distinct_map_eqD [OF ids(2)] l(1) l'(1) by blast
  with l l' have "rn_id r = rn_id r'" by simp
  with distinct_map_eqD [OF ids(1)] assms(3,4) show ?thesis by blast
qed

theorem apply_mutual_exclusion_witness:
  "\<exists>r. r \<in> set (runs sample_running) \<and> apply_active (rn_status r)
     \<and> (\<forall>r' \<in> set (runs sample_running). apply_active (rn_status r') \<and> rn_fabric r' = rn_fabric r \<longrightarrow> r' = r)"
proof -
  obtain r where r: "r \<in> set (runs sample_running)" "apply_active (rn_status r)"
    by (simp add: sample_running_runs apply_active_def)
  with apply_mutual_exclusion [OF sample_queued_inv sample_running_step] show ?thesis by metis
qed

text \<open>
  C6: the lock table is the set of active applies: a fabric is locked by a run exactly while that run is an
  apply of the fabric that has not ended.
\<close>

theorem lock_iff_active_apply:
  assumes "store_inv s0" and "(store_step derive)\<^sup>*\<^sup>* s0 s"
  shows "(\<exists>l \<in> set (locks s). lk_run l = i \<and> lk_fabric l = f) =
    (\<exists>r \<in> set (runs s). rn_id r = i \<and> rn_fabric r = f \<and> apply_active (rn_status r))"
proof -
  have inv: "store_inv s" using store_inv_steps assms by blast
  then have ids: "distinct (map rn_id (runs s))" and locks: "locks_inv s" by (simp_all add: store_inv_def ids_inv_def)
  have "\<exists>l \<in> set (locks s). lk_run l = i \<and> lk_fabric l = f"
    if r: "r \<in> set (runs s)" "rn_id r = i" "rn_fabric r = f" "apply_active (rn_status r)" for r
  proof -
    from locks r obtain l where l: "l \<in> set (locks s)" "lk_run l = rn_id r" by (auto simp: locks_inv_def)
    from locks l(1) obtain y where y: "y \<in> set (runs s)" "rn_id y = lk_run l" "rn_fabric y = lk_fabric l"
      by (auto simp: locks_inv_def)
    with distinct_map_eqD [OF ids y(1) r(1)] l(2) have "y = r" by simp
    with l y r show ?thesis by auto
  qed
  then show ?thesis using locks by (auto simp: locks_inv_def)
qed

theorem lock_iff_active_apply_witness:
  "\<exists>l \<in> set (locks sample_running). lk_run l = ''run_9'' \<and> lk_fabric l = ''f1''"
  using lock_iff_active_apply [OF sample_queued_inv sample_running_step, of "''run_9''" "''f1''"]
  by (simp add: sample_running_runs apply_active_def sample_run_row_def)

text \<open>
  C7: every run, at any later time too, carries the hashes of a stored plan and of a stored approval of it
  that somebody other than the planner gave. A transaction that creates a run does so only when the
  latest approval of the plan approves it and had not expired when the transaction looked at the
  clock (\<open>now rt 1\<close>); it creates an apply only when execution is enabled and the clock, read before
  the transaction began (\<open>now rt 0\<close>), was inside the maintenance window the run stores. The
  instant the run carries is a third, later reading: the code does not compare it with either.
\<close>

theorem every_run_authorised:
  assumes "store_inv s0" and "(store_step derive)\<^sup>*\<^sup>* s0 s"
  shows "(\<forall>r \<in> set (runs s). \<exists>p \<in> set (plans s). \<exists>a \<in> set (approvals s).
      plan_matches p r \<and> approval_for a r \<and> approval_bound a p \<and> ap_approver a \<noteq> pl_created_by p
    \<and> (rn_mode r = Apply \<longrightarrow> (\<exists>f u. rn_maintenance_start r = Some f \<and> rn_maintenance_end r = Some u \<and> f < u)))
    \<and> (\<forall>rt pid mode key by enabled ms me ttl r t.
        create_run rt pid mode key by enabled ms me ttl s = Inr ((r, True), t) \<longrightarrow>
        r \<in> set (runs t) \<and> rn_plan_id r = pid \<and> rn_created_at r = now rt 2
      \<and> (\<exists>p \<in> set (plans s). \<exists>a. latest_approval pid s = Some a \<and> plan_matches p r \<and> approval_for a r
          \<and> ap_approver a \<noteq> pl_created_by p \<and> now rt 1 < ap_expires_at a)
      \<and> (rn_mode r = Apply \<longrightarrow> enabled \<and> (\<exists>f u. rn_maintenance_start r = Some f \<and> rn_maintenance_end r = Some u
          \<and> f \<le> now rt 0 \<and> now rt 0 \<le> u)))"
proof -
  have inv: "store_inv s" using store_inv_steps assms(1,2) by blast
  then have ids: "distinct (map pl_id (plans s))" and runs: "runs_inv s" and ap: "approvals_inv s"
    by (simp_all add: store_inv_def ids_inv_def)
  have bound: "approval_bound a p" if "p \<in> set (plans s)" "plan_matches p r" "a \<in> set (approvals s)" "approval_for a r"
    for a p r
  proof -
    from ap that(3) obtain q where q: "q \<in> set (plans s)" "approval_bound a q" by (auto simp: approvals_inv_def)
    from that(2,4) q(2) have "pl_id q = pl_id p" by (simp add: plan_matches_def approval_for_def approval_bound_def)
    with distinct_map_eqD [OF ids q(1) that(1)] q(2) show ?thesis by simp
  qed
  have "\<exists>p \<in> set (plans s). \<exists>a \<in> set (approvals s).
      plan_matches p r \<and> approval_for a r \<and> approval_bound a p \<and> ap_approver a \<noteq> pl_created_by p
    \<and> (rn_mode r = Apply \<longrightarrow> (\<exists>f u. rn_maintenance_start r = Some f \<and> rn_maintenance_end r = Some u \<and> f < u))"
    if "r \<in> set (runs s)" for r
    using runs that bound unfolding runs_inv_def run_authorised_def approval_bound_def by metis
  moreover have "r \<in> set (runs t) \<and> rn_plan_id r = pid \<and> rn_created_at r = now rt 2
      \<and> (\<exists>p \<in> set (plans s). \<exists>a. latest_approval pid s = Some a \<and> plan_matches p r \<and> approval_for a r
          \<and> ap_approver a \<noteq> pl_created_by p \<and> now rt 1 < ap_expires_at a)
      \<and> (rn_mode r = Apply \<longrightarrow> enabled \<and> (\<exists>f u. rn_maintenance_start r = Some f \<and> rn_maintenance_end r = Some u
          \<and> f \<le> now rt 0 \<and> now rt 0 \<le> u))"
    if "create_run rt pid mode key by enabled ms me ttl s = Inr ((r, True), t)" for rt pid mode key "by" enabled ms me ttl r t
    using that
  proof (cases rule: create_run_cases)
    case (new p a m w)
    from plans_tbl.get_Some [OF new(2)] have p: "p \<in> set (plans s)" "pl_id p = pid" by simp_all
    from require_active_approvalD [OF new(3)] have a: "latest_approval pid s = Some a" "a \<in> set (approvals s)"
      "ap_plan_id a = pl_id p" "ap_decision a = Approved" "now rt 1 < ap_expires_at a" by (simp_all add: p)
    note row = queue_run_row [OF new(8)]
    have f: "approval_for a r" using approval_matches_for [OF new(4) a(3,4)] row by simp
    have "rn_plan_id r = pid" using row p(2) by (simp add: plan_matches_def)
    moreover have "r \<in> set (runs t)"
      using queue_run_events [OF new(8) p(1) a(2-4) new(4)] check_windowD [OF new(6)] by blast
    moreover have "rn_mode r = Apply \<longrightarrow> enabled \<and> (\<exists>f u. rn_maintenance_start r = Some f \<and> rn_maintenance_end r = Some u
          \<and> f \<le> now rt 0 \<and> now rt 0 \<le> u)"
      using row check_windowD [OF new(6)] new(7) by auto
    moreover have "ap_approver a \<noteq> pl_created_by p"
      using bound [OF p(1) _ a(2) f] row by (auto simp: approval_bound_def)
    ultimately show ?thesis using a p f row by blast
  qed simp
  ultimately show ?thesis by blast
qed

lemma sample_create_apply:
  "\<exists>r t. create_run sample_runtime ''plan_1'' ''apply'' ''another-key-1'' ''ann'' True (Some ''2020-01-01T00:00:00Z'')
     (Some ''2030-01-01T00:00:00Z'') 1800 sample_approved = Inr ((r, True), t) \<and> rn_mode r = Apply"
  by (simp add: create_run_def mode_of_def strip_def lstrip_def is_space_def check_window_def text_or_empty_def
      parse_timestamp_def table_get_def sample_defs require_active_approval_def latest_approval_def approval_matches_def
      queue_run_def insert_run_def acquire_lock_def insert_lock_def table_insert_def append_audit_def Let_def)

theorem every_run_authorised_witness:
  "\<exists>r t. create_run sample_runtime ''plan_1'' ''apply'' ''another-key-1'' ''ann'' True (Some ''2020-01-01T00:00:00Z'')
       (Some ''2030-01-01T00:00:00Z'') 1800 sample_approved = Inr ((r, True), t)
     \<and> r \<in> set (runs t) \<and> (\<exists>f u. rn_maintenance_start r = Some f \<and> f \<le> 1000 \<and> rn_maintenance_end r = Some u \<and> 1000 \<le> u)
     \<and> (\<exists>a. latest_approval ''plan_1'' sample_approved = Some a \<and> approval_for a r \<and> 1000 < ap_expires_at a)"
proof -
  obtain r t where c: "create_run sample_runtime ''plan_1'' ''apply'' ''another-key-1'' ''ann'' True (Some ''2020-01-01T00:00:00Z'')
     (Some ''2030-01-01T00:00:00Z'') 1800 sample_approved = Inr ((r, True), t)" "rn_mode r = Apply"
    using sample_create_apply by blast
  have n: "now sample_runtime k = 1000" for k by (simp add: sample_runtime_def)
  from every_run_authorised [OF sample_approved_inv rtranclp.rtrancl_refl, THEN conjunct2, rule_format, OF c(1)] c
  show ?thesis unfolding n by blast
qed

text \<open>
  C8: no transaction loses a run or a reservation or rewrites what it was created for; a run in a final
  status and a released reservation never change state again.
\<close>

theorem final_states_stay:
  assumes "store_inv s0" and "(store_step derive)\<^sup>*\<^sup>* s0 s"
  shows "(\<forall>r \<in> set (runs s0). \<exists>r' \<in> set (runs s). rn_id r' = rn_id r \<and> rn_plan_hash r' = rn_plan_hash r
            \<and> rn_artifact_hash r' = rn_artifact_hash r \<and> rn_mode r' = rn_mode r
            \<and> (run_terminal (rn_status r) \<longrightarrow> rn_status r' = rn_status r))
    \<and> (\<forall>r \<in> set (reservations s0). \<exists>r' \<in> set (reservations s). rs_id r' = rs_id r \<and> rs_intent r' = rs_intent r
            \<and> (rs_state r = Released \<longrightarrow> rs_state r' = Released))
    \<and> set (approvals s0) \<subseteq> set (approvals s) \<and> set (owned s0) \<subseteq> set (owned s) \<and> set (evidence s0) \<subseteq> set (evidence s)"
proof -
  have k: "row_kept s0 s" using row_kept_steps assms by blast
  have "\<exists>r' \<in> set (runs s). rn_id r' = rn_id r \<and> rn_plan_hash r' = rn_plan_hash r
            \<and> rn_artifact_hash r' = rn_artifact_hash r \<and> rn_mode r' = rn_mode r
            \<and> (run_terminal (rn_status r) \<longrightarrow> rn_status r' = rn_status r)" if "r \<in> set (runs s0)" for r
    using k that final_run_stays unfolding row_kept_def by metis
  moreover have "\<exists>r' \<in> set (reservations s). rs_id r' = rs_id r \<and> rs_intent r' = rs_intent r
            \<and> (rs_state r = Released \<longrightarrow> rs_state r' = Released)" if "r \<in> set (reservations s0)" for r
    using k that released_stays unfolding row_kept_def by metis
  ultimately show ?thesis using k by (simp add: row_kept_def)
qed

theorem final_states_stay_witness:
  "\<exists>r' \<in> set (runs sample_running). rn_id r' = ''run_9'' \<and> rn_plan_hash r' = ''ph''"
  using final_states_stay [OF sample_queued_inv sample_running_step]
  by (auto simp: sample_queued_def sample_run_row_def)

section \<open>The audit log\<close>

text \<open>
  C9: whatever the transactions do, the log only grows and its chain stays verified.
\<close>

theorem audit_log_append_only:
  assumes "store_inv s0" and "(store_step derive)\<^sup>*\<^sup>* s0 s"
  shows "prefix (audit s0) (audit s) \<and> verify_audit_chain s"
  using row_kept_steps [OF assms(2,1)] assms(1)
  by (simp add: row_kept_def audit_extends_def store_inv_def)

theorem audit_log_append_only_witness: "audit sample_running \<noteq> [] \<and> verify_audit_chain sample_running"
  using audit_log_append_only [OF sample_queued_inv sample_running_step] by (simp add: sample_running_runs)

text \<open>
  C10: two logs that both verify, of one length and with one last hash, say the same in every row,
  or at some position their two rows have different hashed texts with one SHA-256 digest: a
  change of any event that is not such a collision is caught by the last hash.
\<close>

theorem audit_log_tamper_evident:
  assumes "verify_audit_chain s" and "verify_audit_chain t" and "length (audit s) = length (audit t)"
    and "last_audit_hash s = last_audit_hash t"
  shows "map audit_content (audit s) = map audit_content (audit t) \<or> logs_collide (audit s) (audit t)"
  using assms unfolding verify_audit_chain_def last_audit_hash_head by (intro verify_from_binding)

theorem audit_log_tamper_evident_witness:
  "map audit_content (audit sample_running) = map audit_content (audit (sample_running\<lparr>locks := []\<rparr>))
     \<or> logs_collide (audit sample_running) (audit (sample_running\<lparr>locks := []\<rparr>))"
proof -
  have v: "verify_audit_chain sample_running"
    using store_inv_steps [OF sample_running_step sample_queued_inv] by (simp add: store_inv_def)
  show ?thesis
    by (rule audit_log_tamper_evident)
      (use v in \<open>simp_all add: verify_audit_chain_def last_audit_hash_def\<close>)
qed

section \<open>Reservations\<close>

definition sample_reservation :: reservation_row where
  "sample_reservation = \<lparr>rs_id = ''reservation_1'', rs_key_hash = ''rk'', rs_requirements_hash = ''rq'', rs_policy_hash = ''po'',
     rs_reservation_hash = ''rh'', rs_domain = ''d1'', rs_fabric = ''f1'', rs_state = Reserved, rs_intent = JObj [],
     rs_created_at = 10, rs_updated_at = 10, rs_created_by = ''ann''\<rparr>"

definition sample_network :: network_row where
  "sample_network = \<lparr>nw_id = ''net_1'', nw_reservation = ''reservation_1'', nw_domain = ''d1'', nw_pool = ''p1'',
     nw_fabric = ''f1'', nw_prefix = ''10.0.0.0/24'', nw_state = Reserved, nw_created_at = 10, nw_updated_at = 10\<rparr>"

definition sample_reserved :: store where
  "sample_reserved = empty_store\<lparr>reservations := [sample_reservation], networks := [sample_network]\<rparr>"

lemma sample_reserved_inv: "store_inv sample_reserved"
  by (simp add: store_inv_def ids_inv_def intents_inv_def plans_inv_def approvals_inv_def runs_inv_def locks_inv_def
      networks_inv_def scalars_inv_def active_keys_inv_def owned_inv_def evidence_inv_def verify_audit_chain_def
      sample_reserved_def sample_reservation_def sample_network_def empty_store_def)

definition sample_committed :: store where
  "sample_committed =
     (case transition_design_reservation sample_runtime ''reservation_1'' ''committed'' ''worker'' False sample_reserved of
        Inr (_, t) \<Rightarrow> t | Inl _ \<Rightarrow> empty_store)"

lemmas sample_commit_simps = transition_design_reservation_def requested_state_def table_get_def sample_reserved_def
  sample_reservation_def sample_network_def empty_store_def set_reservation_state_def table_update_def append_audit_def
  table_insert_def Let_def

lemma sample_committed_step: "(store_step derive)\<^sup>*\<^sup>* sample_reserved sample_committed"
proof -
  have "\<exists>x. transition_design_reservation sample_runtime ''reservation_1'' ''committed'' ''worker'' False sample_reserved
      = Inr (x, sample_committed)"
    by (simp add: sample_committed_def sample_commit_simps)
  then show ?thesis by (blast intro: store_step.st_reservation)
qed

lemma sample_committed_rows:
  "networks sample_committed = [sample_network\<lparr>nw_state := Committed, nw_updated_at := 1000\<rparr>]"
  "reservations sample_committed = [sample_reservation\<lparr>rs_state := Committed, rs_updated_at := 1000\<rparr>]"
  by (simp_all add: sample_committed_def sample_commit_simps sample_runtime_def)

text \<open>
  C11: every address block and every identifier of the ledgers belongs to exactly one reservation and is in
  the state and the allocation domain of that reservation.
\<close>

theorem resources_follow_reservation:
  assumes "store_inv s0" and "(store_step derive)\<^sup>*\<^sup>* s0 s"
  shows "(\<forall>n \<in> set (networks s). \<exists>!r. r \<in> set (reservations s) \<and> rs_id r = nw_reservation n
            \<and> rs_domain r = nw_domain n \<and> rs_state r = nw_state n)
    \<and> (\<forall>v \<in> set (scalars s). \<exists>!r. r \<in> set (reservations s) \<and> rs_id r = sc_reservation v
            \<and> rs_domain r = sc_domain v \<and> rs_state r = sc_state v)"
proof -
  have inv: "store_inv s" using store_inv_steps assms by blast
  then have ids: "distinct (map rs_id (reservations s))" and i: "networks_inv s" "scalars_inv s"
    by (simp_all add: store_inv_def ids_inv_def)
  have one: "r = r'" if "r \<in> set (reservations s)" "r' \<in> set (reservations s)" "rs_id r = rs_id r'" for r r'
    using distinct_map_eqD [OF ids] that by blast
  have "\<exists>!r. r \<in> set (reservations s) \<and> rs_id r = nw_reservation n \<and> rs_domain r = nw_domain n \<and> rs_state r = nw_state n"
    if "n \<in> set (networks s)" for n
    using i(1) that one unfolding networks_inv_def by metis
  moreover have "\<exists>!r. r \<in> set (reservations s) \<and> rs_id r = sc_reservation v \<and> rs_domain r = sc_domain v \<and> rs_state r = sc_state v"
    if "v \<in> set (scalars s)" for v
    using i(2) that one unfolding scalars_inv_def by metis
  ultimately show ?thesis by blast
qed

theorem resources_follow_reservation_witness:
  "\<exists>!r. r \<in> set (reservations sample_committed) \<and> rs_id r = ''reservation_1'' \<and> rs_domain r = ''d1'' \<and> rs_state r = Committed"
proof -
  have "sample_network\<lparr>nw_state := Committed, nw_updated_at := 1000\<rparr> \<in> set (networks sample_committed)"
    by (simp add: sample_committed_rows)
  with resources_follow_reservation [OF sample_reserved_inv sample_committed_step]
  have "\<exists>!r. r \<in> set (reservations sample_committed)
      \<and> rs_id r = nw_reservation (sample_network\<lparr>nw_state := Committed, nw_updated_at := 1000\<rparr>)
      \<and> rs_domain r = nw_domain (sample_network\<lparr>nw_state := Committed, nw_updated_at := 1000\<rparr>)
      \<and> rs_state r = nw_state (sample_network\<lparr>nw_state := Committed, nw_updated_at := 1000\<rparr>)" by blast
  then show ?thesis by (simp only: sample_network_def network_row.simps)
qed

text \<open>
  C12: two reservations of one idempotency key, or of one derived design, are never active together.
\<close>

theorem one_active_reservation_per_key:
  assumes "store_inv s0" and "(store_step derive)\<^sup>*\<^sup>* s0 s"
    and "r \<in> set (reservations s)" and "r' \<in> set (reservations s)" and "r \<noteq> r'"
    and "rs_key_hash r = rs_key_hash r' \<or> rs_reservation_hash r = rs_reservation_hash r'"
  shows "rs_state r = Released \<or> rs_state r' = Released"
proof (rule ccontr)
  assume a: "\<not> (rs_state r = Released \<or> rs_state r' = Released)"
  have inv: "store_inv s" using store_inv_steps assms(1,2) by blast
  then have ids: "distinct (map rs_id (reservations s))" and "active_keys_inv s"
    by (simp_all add: store_inv_def ids_inv_def)
  then have "rs_id r = rs_id r'" using a assms(3,4,6) by (intro active_keysD) auto
  with distinct_map_eqD [OF ids] assms(3-5) show False by blast
qed

definition sample_rereserved :: store where
  "sample_rereserved = empty_store\<lparr>reservations :=
     [sample_reservation\<lparr>rs_id := ''reservation_0'', rs_state := Released\<rparr>, sample_reservation]\<rparr>"

theorem one_active_reservation_per_key_witness:
  "rs_state (sample_reservation\<lparr>rs_id := ''reservation_0'', rs_state := Released\<rparr>) = Released \<or> rs_state sample_reservation = Released"
proof (rule one_active_reservation_per_key)
  show "store_inv sample_rereserved"
    by (simp add: store_inv_def ids_inv_def intents_inv_def plans_inv_def approvals_inv_def runs_inv_def locks_inv_def
      networks_inv_def scalars_inv_def active_keys_inv_def owned_inv_def evidence_inv_def verify_audit_chain_def
      sample_rereserved_def sample_reservation_def empty_store_def)
  show "(store_step derive)\<^sup>*\<^sup>* sample_rereserved sample_rereserved" by simp
qed (simp_all add: sample_rereserved_def sample_reservation_def)

section \<open>Single operations\<close>

text \<open>
  C13: while a fabric is locked, a new apply of it is refused, whatever the clock says of the expiry of the
  lock: there is no takeover.
\<close>

theorem locked_fabric_refuses_apply:
  assumes "l \<in> set (locks s)" and "table_get plans pl_id pid s = Some p" and "lk_fabric l = pl_fabric p"
    and "table_get runs rn_key_hash (sha256_hex (strip key)) s = None"
  shows "\<exists>e. create_run rt pid ''apply'' key by' enabled ms me ttl s = Inl e"
proof -
  have "False" if c: "create_run rt pid ''apply'' key by' enabled ms me ttl s = Inr ((row, created), t)" for row created t
    using c
  proof (cases rule: create_run_cases)
    case existing
    then have "table_get runs rn_key_hash (sha256_hex (strip key)) s \<noteq> None"
      by (auto simp: table_get_def find_None_iff')
    with assms(4) show ?thesis by simp
  next
    case (new q a m w)
    with assms(2) have "m = Apply" "q = p" by (simp_all add: mode_of_def)
    with new(8) obtain s1 u i where "acquire_lock rt ttl (pl_fabric p) i s1 = Inr u" "locks s1 = locks s"
      by (auto simp: queue_run_def Let_def res insert_run_def runs_tbl.insert_Inr split: if_splits)
    then have "table_get locks lk_fabric (pl_fabric p) s = None"
      by (auto simp: acquire_lock_def res table_get_def)
    with assms(1,3) show ?thesis by (auto simp: locks_tbl.get_None)
  qed
  then show ?thesis by (cases "create_run rt pid ''apply'' key by' enabled ms me ttl s") auto
qed

theorem locked_fabric_refuses_apply_witness:
  "lk_expires_at (hd (locks sample_queued)) < now sample_runtime 0
   \<and> (\<exists>e. create_run sample_runtime ''plan_1'' ''apply'' ''another-key-1'' ''ann'' True (Some ''2020-01-01T00:00:00Z'')
        (Some ''2030-01-01T00:00:00Z'') 1800 sample_queued = Inl e)"
proof -
  have "length (sha256_hex (strip ''another-key-1'')) \<noteq> length ''k''" by simp
  then have "sha256_hex (strip ''another-key-1'') \<noteq> ''k''" by metis
  then have "table_get runs rn_key_hash (sha256_hex (strip ''another-key-1'')) sample_queued = None"
    by (auto simp: table_get_def sample_defs)
  moreover have "hd (locks sample_queued) \<in> set (locks sample_queued)"
    "table_get plans pl_id ''plan_1'' sample_queued = Some sample_plan_row" "lk_fabric (hd (locks sample_queued)) = pl_fabric sample_plan_row"
    "lk_expires_at (hd (locks sample_queued)) < now sample_runtime 0"
    by (simp_all add: table_get_def sample_defs)
  ultimately show ?thesis using locked_fabric_refuses_apply by blast
qed

lemma queue_run_frame:
  assumes "queue_run rt p a m kh by' w ttl s = Inr (row, t)"
  shows "runs t = runs s @ [row] \<and> plans t = plans s \<and> approvals t = approvals s \<and> rn_key_hash row = kh
    \<and> rn_plan_id row = pl_id p \<and> rn_mode row = m \<and> (\<forall>x \<in> set (runs s). rn_key_hash x \<noteq> kh)"
  using assms
  by (auto simp: queue_run_def Let_def res insert_run_def runs_tbl.insert_Inr acquire_lock_def insert_lock_def
      locks_tbl.insert_Inr runs_clash_def split: if_splits elim!: append_auditE)

text \<open>What identifies a request: every event keeps it for each run.\<close>

definition requests :: "store \<Rightarrow> (string \<times> string \<times> string \<times> run_mode) set" where
  "requests s = (\<lambda>r. (rn_id r, rn_key_hash r, rn_plan_id r, rn_mode r)) ` set (runs s)"

lemma requests_map:
  "(\<And>r. rn_id (f r) = rn_id r \<and> rn_key_hash (f r) = rn_key_hash r \<and> rn_plan_id (f r) = rn_plan_id r \<and> rn_mode (f r) = rn_mode r)
     \<Longrightarrow> (\<lambda>r. (rn_id r, rn_key_hash r, rn_plan_id r, rn_mode r)) ` f ` S = (\<lambda>r. (rn_id r, rn_key_hash r, rn_plan_id r, rn_mode r)) ` S"
  unfolding image_image by simp

lemma requests_event: "store_event s t \<Longrightarrow> requests s \<subseteq> requests t"
  by (induction rule: store_event.induct) (auto simp: requests_def requests_map)

lemma requests_grow: "(store_step derive)\<^sup>*\<^sup>* s t \<Longrightarrow> store_inv s \<Longrightarrow> requests s \<subseteq> requests t"
proof -
  assume "(store_step derive)\<^sup>*\<^sup>* s t" and "store_inv s"
  then have "store_events s t" using store_inv_steps by blast
  then show "requests s \<subseteq> requests t" by (induction rule: rtranclp_induct) (use requests_event in blast)+
qed

lemma mode_of_inj: "mode_of m = Some x \<Longrightarrow> mode_of m' = Some x \<Longrightarrow> m' = m"
  by (auto simp: mode_of_def split: if_splits)

lemma create_run_request:
  assumes "create_run rt pid mode key by' enabled ms me ttl s = Inr ((row, created), t)"
  obtains m where "mode_of mode = Some m" "(rn_id row, sha256_hex (strip key), pid, m) \<in> requests t"
  using assms
proof (cases rule: create_run_cases)
  case existing
  then show thesis by (intro that) (auto simp: requests_def intro!: image_eqI [of _ _ row])
next
  case (new p a m w)
  have "pl_id p = pid" using plans_tbl.get_Some [OF new(2)] by simp
  with new(5) queue_run_frame [OF new(8)] show thesis by (intro that) (auto simp: requests_def intro!: image_eqI [of _ _ row])
qed

text \<open>
  C14: a request can be repeated, but its run is created once. At any later time, after any
  transactions of anybody, a call under the same idempotency key (up to the space around it) that
  succeeds names the same plan and mode, returns the run of the first call and changes nothing;
  and the call does succeed, whoever makes it and whether or not the approval has expired, when the
  checks before the transaction pass.
\<close>

theorem retried_request_returns_its_run:
  assumes "store_inv s" and "create_run rt pid mode key by' enabled ms me ttl s = Inr ((row, created), t)"
    and "(store_step derive)\<^sup>*\<^sup>* t u" and "strip key' = strip key"
  shows "(\<forall>rt' pid' mode' by'' enabled' ms' me' ttl' row' created' v.
      create_run rt' pid' mode' key' by'' enabled' ms' me' ttl' u = Inr ((row', created'), v) \<longrightarrow>
        pid' = pid \<and> mode' = mode \<and> rn_id row' = rn_id row \<and> row' \<in> set (runs u) \<and> \<not> created' \<and> v = u)
    \<and> (\<forall>rt' by'' enabled' ms' me' ttl' m w.
      mode_of mode = Some m \<and> (m = Apply \<longrightarrow> enabled') \<and> check_window rt' m ms' me' = Inr w \<longrightarrow>
        (\<exists>row'. create_run rt' pid mode key' by'' enabled' ms' me' ttl' u = Inr ((row', False), u)))"
proof -
  let ?k = "sha256_hex (strip key)"
  from assms(2) obtain m where m: "mode_of mode = Some m" and r: "(rn_id row, ?k, pid, m) \<in> requests t"
    by (rule create_run_request)
  have t: "store_inv t" using store_inv_step [OF st_run [OF assms(2)] assms(1)] .
  have u: "store_inv u" using store_inv_steps [OF assms(3) t] by blast
  from requests_grow [OF assms(3) t] r obtain y where y: "y \<in> set (runs u)" "rn_id y = rn_id row" "rn_key_hash y = ?k"
    "rn_plan_id y = pid" "rn_mode y = m" by (force simp: requests_def)
  have only: "x = y" if "x \<in> set (runs u)" "rn_key_hash x = ?k" for x
    using u that y by (auto simp: store_inv_def ids_inv_def dest: distinct_map_eqD)
  have get: "table_get runs rn_key_hash ?k u = Some y"
    using find_key_eq [of rn_key_hash "runs u" y] u y by (simp add: store_inv_def ids_inv_def table_get_def)
  have "pid' = pid \<and> mode' = mode \<and> rn_id row' = rn_id row \<and> row' \<in> set (runs u) \<and> \<not> created' \<and> v = u"
    if "create_run rt' pid' mode' key' by'' enabled' ms' me' ttl' u = Inr ((row', created'), v)"
    for rt' pid' mode' by'' enabled' ms' me' ttl' row' created' v
    using that
  proof (cases rule: create_run_cases)
    case existing
    with only [of row'] y mode_of_inj [OF m, of mode'] show ?thesis by (auto simp: assms(4))
  next
    case (new p a m' w)
    with get show ?thesis by (simp add: assms(4))
  qed
  moreover have "\<exists>row'. create_run rt' pid mode key' by'' enabled' ms' me' ttl' u = Inr ((row', False), u)"
    if "mode_of mode = Some m' \<and> (m' = Apply \<longrightarrow> enabled') \<and> check_window rt' m' ms' me' = Inr w"
    for rt' by'' enabled' ms' me' ttl' m' w
  proof -
    have "\<not> length (strip key) < 12" using assms(2) by (auto simp: create_run_def Let_def res)
    moreover obtain p where "p \<in> set (plans u)" "pl_id p = pid"
      using u y(1,4) by (auto simp: store_inv_def runs_inv_def run_authorised_def plan_matches_def)
    then have "table_get plans pl_id pid u \<noteq> None" by (auto simp: table_get_def find_None_iff')
    ultimately show ?thesis using that m get y(4,5) by (auto simp: create_run_def Let_def raise_if_def assms(4))
  qed
  ultimately show ?thesis by blast
qed

lemma sample_create_run:
  "\<exists>row t. create_run sample_runtime ''plan_1'' ''dry_run'' ''retry-key-0001'' ''ann'' False None None 1800 sample_approved
     = Inr ((row, True), t)"
  by (simp add: create_run_def mode_of_def strip_def lstrip_def is_space_def check_window_def table_get_def sample_defs
      require_active_approval_def latest_approval_def approval_matches_def queue_run_def insert_run_def table_insert_def
      append_audit_def Let_def)

theorem retried_request_returns_its_run_witness:
  "\<exists>row t row'. create_run sample_runtime ''plan_1'' ''dry_run'' ''retry-key-0001'' ''ann'' False None None 1800 sample_approved
       = Inr ((row, True), t)
     \<and> create_run sample_runtime ''plan_1'' ''dry_run'' '' retry-key-0001'' ''eve'' False None None 1800 t = Inr ((row', False), t)
     \<and> rn_id row' = rn_id row"
proof -
  obtain row t where c: "create_run sample_runtime ''plan_1'' ''dry_run'' ''retry-key-0001'' ''ann'' False None None 1800 sample_approved
     = Inr ((row, True), t)" using sample_create_run by blast
  have k: "strip '' retry-key-0001'' = strip ''retry-key-0001''" by (simp add: strip_def lstrip_def is_space_def)
  note r = retried_request_returns_its_run [OF sample_approved_inv c rtranclp.rtrancl_refl k]
  have "mode_of ''dry_run'' = Some DryRun \<and> (DryRun = Apply \<longrightarrow> False) \<and> check_window sample_runtime DryRun None None = Inr None"
    by (simp add: mode_of_def check_window_def)
  with r obtain row' where c': "create_run sample_runtime ''plan_1'' ''dry_run'' '' retry-key-0001'' ''eve'' False None None 1800 t
      = Inr ((row', False), t)" by blast
  with r have "rn_id row' = rn_id row" by blast
  with c c' show ?thesis by blast
qed

section \<open>Owned state\<close>

text \<open>What the commit of an apply requires.\<close>

definition commit_ready :: "string \<Rightarrow> string \<Rightarrow> json \<Rightarrow> store \<Rightarrow> bool" where
  "commit_ready rid ah m s \<longleftrightarrow>
     validate_owned_state m None = Inr () \<and> length ah = 64
   \<and> (\<exists>r. table_get runs rn_id rid s = Some r \<and> rn_status r = ApplyRunning \<and> rn_artifact_hash r = ah
        \<and> map_option py_str (map_of (obj_items m) ''fabric_id'') = Some (rn_fabric r))
   \<and> rid \<notin> ow_source_reference ` set (owned s)"

lemma append_audit_Inl: "append_audit rt k at ai et actor payload s = Inl e \<Longrightarrow> e = IntegrityError"
  by (auto simp: append_audit_def Let_def table_insert_def split: if_splits)

lemma find_update:
  "find (\<lambda>x. rn_id x = i) (map (\<lambda>x. if rn_id x = i then x\<lparr>rn_status := st, rn_updated_at := u\<rparr> else x) xs)
      = map_option (\<lambda>x. x\<lparr>rn_status := st, rn_updated_at := u\<rparr>) (find (\<lambda>x. rn_id x = i) xs)"
  by (induction xs) auto

lemma complete_apply_spec:
  assumes "complete_apply rt rid ah m actor detail s = Inr (row, t)"
  shows "rn_id row = rid \<and> rn_status row = ApplySucceeded \<and> row \<in> set (runs t)
    \<and> rid \<notin> lk_run ` set (locks t)
    \<and> (\<exists>w. latest_owned_row (rn_fabric row) t = Some w \<and> ow_source_type w = SuccessfulApply
         \<and> ow_source_reference w = rid \<and> ow_source_artifact_hash w = Some ah \<and> ow_manifest w = json_column m)"
proof -
  from assms obtain r w u u' p1 p2 where *: "table_get runs rn_id rid s = Some r" "rn_status r = ApplyRunning" "rn_artifact_hash r = ah"
    "\<forall>x \<in> set (owned s). \<not> owned_clash w x" "ow_source_reference w = rid" "ow_source_type w = SuccessfulApply"
    "ow_fabric w = rn_fabric r" "ow_source_artifact_hash w = Some ah" "ow_manifest w = json_column m"
    and u: "u = end_run (now rt 0) rid ApplySucceeded (s\<lparr>owned := owned s @ [w]\<rparr>)"
    and log: "append_audit rt 0 ''run'' rid ''run.status_changed'' actor p1 u = Inr u'"
    "append_audit rt 1 ''fabric'' (rn_fabric r) ''owned_state.committed'' actor p2 u' = Inr t"
    and row: "table_get runs rn_id rid t = Some row"
    by (rule complete_applyE)
  have t: "runs t = runs u" "locks t = locks u" "owned t = owned u"
    using log by (auto elim!: append_auditE)
  from row *(1) have row': "row = r\<lparr>rn_status := ApplySucceeded, rn_updated_at := now rt 0\<rparr>"
    by (simp add: table_get_def t u find_update)
  have "latest_owned_row (rn_fabric r) t = Some w" by (simp add: latest_owned_row_def t u *(7))
  moreover have "rid \<notin> lk_run ` set (locks t)" by (auto simp: t u run_terminal_def)
  moreover have "rn_id row = rid" "row \<in> set (runs t)" using runs_tbl.get_Some [OF row] by auto
  ultimately show ?thesis using * row' by auto
qed

text \<open>
  C15: the commit of an apply is refused unless the run is running with that artifact, the manifest is valid and of
  its fabric, and the run has committed none before; otherwise it succeeds (up to a clash of
  audit identifiers), and then the run has succeeded, its lock is gone, and the newest ledger
  row of its fabric is the manifest, bound to the run and the artifact.
\<close>

theorem complete_apply_commits:
  "if commit_ready rid ah m s then
     (case complete_apply rt rid ah m actor detail s of
        Inl e \<Rightarrow> e = IntegrityError
      | Inr (row, t) \<Rightarrow> rn_id row = rid \<and> rn_status row = ApplySucceeded \<and> row \<in> set (runs t)
          \<and> rid \<notin> lk_run ` set (locks t)
          \<and> (\<exists>w. latest_owned_row (rn_fabric row) t = Some w \<and> ow_source_type w = SuccessfulApply
               \<and> ow_source_reference w = rid \<and> ow_source_artifact_hash w = Some ah \<and> ow_manifest w = json_column m))
   else \<exists>e. complete_apply rt rid ah m actor detail s = Inl e"
proof (cases "commit_ready rid ah m s")
  case True
  have "e = IntegrityError" if e: "complete_apply rt rid ah m actor detail s = Inl e" for e
  proof -
    from True obtain r where r: "validate_owned_state m None = Inr ()" "length ah = 64"
        "table_get runs rn_id rid s = Some r" "rn_status r = ApplyRunning" "rn_artifact_hash r = ah"
        "map_option py_str (map_of (obj_items m) ''fabric_id'') = Some (rn_fabric r)"
        "rid \<notin> ow_source_reference ` set (owned s)"
      unfolding commit_ready_def by blast
    obtain kvs where m: "m = JObj kvs" using r(1) by (cases m) (auto simp: validate_owned_state_def jget_def jget_default_def)
    obtain fid where fid: "jidx m ''fabric_id'' = Inr fid" "rn_fabric r = py_str fid" using r(6) by (auto simp: m)
    obtain mh where mh: "jidx m ''manifest_hash'' = Inr mh"
      using r(1) by (auto simp: m validate_owned_state_def res sha256_hex_any_def split: option.splits)
    have free: "find (\<lambda>r. ow_source_reference r = rid) (owned s) = None" using r(7) by (auto simp: find_None_iff')
    define w where "w = \<lparr>ow_fabric = rn_fabric r, ow_manifest_hash = py_str mh, ow_source_type = SuccessfulApply,
            ow_source_reference = rid, ow_source_artifact_hash = Some ah, ow_evidence_hash = None,
            ow_manifest = json_column m, ow_created_at = now rt 0, ow_created_by = actor\<rparr>"
    have ins: "insert_owned w s = Inr (s\<lparr>owned := owned s @ [w]\<rparr>)"
      using r(7) by (auto simp: insert_owned_def owned_tbl.insert_Inr owned_clash_def w_def)
    define u where "u = release_lock rid (set_run_status (now rt 0) rid ApplySucceeded (s\<lparr>owned := owned s @ [w]\<rparr>))"
    have look: "table_get runs rn_id rid u \<noteq> None"
      using r(3) by (simp add: u_def release_lock_def set_run_status_def table_update_def table_get_def find_update)
    from e have "\<exists>p1 p2. ebind (append_audit rt 0 ''run'' rid ''run.status_changed'' actor p1 u) (\<lambda>s4.
        ebind (append_audit rt 1 ''fabric'' (rn_fabric r) ''owned_state.committed'' actor p2 s4) (\<lambda>s5.
        ebind (of_option TypeError (table_get runs rn_id rid s5)) (\<lambda>updated. Inr (updated, s5)))) = Inl e"
      unfolding complete_apply_def r(1,3) fid(1) mh
      by (simp add: r(2,4,5) fid(2) [symmetric] free w_def [symmetric] ins u_def [symmetric] Let_def) blast
    then obtain p1 p2 where tail: "ebind (append_audit rt 0 ''run'' rid ''run.status_changed'' actor p1 u) (\<lambda>s4.
        ebind (append_audit rt 1 ''fabric'' (rn_fabric r) ''owned_state.committed'' actor p2 s4) (\<lambda>s5.
        ebind (of_option TypeError (table_get runs rn_id rid s5)) (\<lambda>updated. Inr (updated, s5)))) = Inl e" by blast
    have frame: "runs t = runs s" if "append_audit rt k a b c d p s = Inr t" for k a b c d p s t
      using that by (auto elim!: append_auditE)
    show ?thesis
      using tail look
      by (auto simp: ebind_Inl of_option_Inl table_get_def dest: append_audit_Inl)
        (metis frame option.distinct(1))
  qed
  then show ?thesis
    using True complete_apply_spec by (auto split: sum.splits prod.splits)
next
  case False
  have "complete_apply rt rid ah m actor detail s \<noteq> Inr (row, t)" for row t
  proof
    assume c: "complete_apply rt rid ah m actor detail s = Inr (row, t)"
    then have "length ah = 64" by (auto simp: complete_apply_def res)
    moreover from c have "\<exists>fid. jidx m ''fabric_id'' = Inr fid" by (auto simp: complete_apply_def ebind_Inr)
    then have "map_of (obj_items m) ''fabric_id'' = Some (field m ''fabric_id'')"
      by (auto simp: res)
    ultimately have "commit_ready rid ah m s"
      using c by (elim complete_applyE) (auto simp: commit_ready_def owned_clash_def)
    with False show False ..
  qed
  then have "\<exists>e. complete_apply rt rid ah m actor detail s = Inl e"
    by (cases "complete_apply rt rid ah m actor detail s") auto
  with False show ?thesis by simp
qed

end
