(* ===== verification/Doc.thy ===== *)
theory Doc
  imports Json "HOL-Library.Multiset"
begin

text \<open>
  The idioms with which the orchestrator reads documents: \<open>str(v[k])\<close>, \<open>int(v.get(k, d))\<close>,
  iteration over \<open>v.get(k, [])\<close>, \<open>sorted(xs, key=...)\<close> with a key that may raise, membership
  tests and sorted set differences.
\<close>

text \<open>\<open>if xs: raise ...xs[0]...\<close>\<close>

definition refuse :: "'a list \<Rightarrow> ('a \<Rightarrow> exn) \<Rightarrow> unit result" where
  "refuse xs f = (case xs of [] \<Rightarrow> Inr () | x # _ \<Rightarrow> Inl (f x))"

lemma refuse_Inr [res]: "refuse xs f = Inr u \<longleftrightarrow> xs = []"
  by (cases xs) (auto simp: refuse_def)

section \<open>Reading fields\<close>

text \<open>\<open>str(v[k])\<close>, \<open>str(v.get(k, d))\<close>, \<open>int(v[k])\<close>, \<open>int(v.get(k, d))\<close>\<close>

definition str_at :: "json \<Rightarrow> string \<Rightarrow> string result" where
  "str_at v k = ebind (jidx v k) (\<lambda>w. Inr (py_str w))"

definition str_get :: "json \<Rightarrow> string \<Rightarrow> string \<Rightarrow> string result" where
  "str_get v k d = ebind (jget_default v k (JStr d)) (\<lambda>w. Inr (py_str w))"

definition int_at :: "json \<Rightarrow> string \<Rightarrow> int result" where
  "int_at v k = ebind (jidx v k) py_int"

definition int_get :: "json \<Rightarrow> string \<Rightarrow> int \<Rightarrow> int result" where
  "int_get v k d = ebind (jget_default v k (JInt d)) py_int"

text \<open>Iterating over \<open>v[k]\<close> and over \<open>v.get(k, [])\<close>.\<close>

definition items_at :: "json \<Rightarrow> string \<Rightarrow> json list result" where
  "items_at v k = ebind (jidx v k) elems"

definition items_get :: "json \<Rightarrow> string \<Rightarrow> json list result" where
  "items_get v k = ebind (jget_default v k (JArr [])) elems"

text \<open>\<open>[str(x) for x in v[k]]\<close> and with \<open>v.get(k, [])\<close>.\<close>

definition strs_at :: "json \<Rightarrow> string \<Rightarrow> string list result" where
  "strs_at v k = ebind (items_at v k) (\<lambda>xs. Inr (map py_str xs))"

definition strs_get :: "json \<Rightarrow> string \<Rightarrow> string list result" where
  "strs_get v k = ebind (items_get v k) (\<lambda>xs. Inr (map py_str xs))"

text \<open>\<open>k in v\<close>\<close>

fun contains_key :: "string \<Rightarrow> json \<Rightarrow> bool result" where
  "contains_key k (JObj kvs) = Inr (map_of kvs k \<noteq> None)"
| "contains_key k (JArr xs) = Inr (JStr k \<in> set xs)"
| "contains_key k (JStr s) = Inr (contains s k)"
| "contains_key k _ = Inl TypeError"

text \<open>\<open>set(xs)\<close>: a list or an object in \<open>xs\<close> has no hash.\<close>

definition hashable :: "json \<Rightarrow> bool" where
  "hashable v \<longleftrightarrow> \<not> is_arr v \<and> \<not> is_obj v"

definition py_set :: "json list \<Rightarrow> json list result" where
  "py_set xs = (if list_all hashable xs then Inr xs else Inl TypeError)"

text \<open>\<open>v.items()\<close>\<close>

fun items_of :: "json \<Rightarrow> (string \<times> json) list result" where
  "items_of (JObj kvs) = Inr kvs"
| "items_of _ = Inl AttributeError"

text \<open>\<open>any(p(x) for x in xs)\<close>, which stops at the first hit.\<close>

fun anyE :: "('a \<Rightarrow> bool result) \<Rightarrow> 'a list \<Rightarrow> bool result" where
  "anyE p [] = Inr False"
| "anyE p (x # xs) = ebind (p x) (\<lambda>b. if b then Inr True else anyE p xs)"

section \<open>Sorting and sets\<close>

definition sort_by :: "('a \<Rightarrow> 'k::linorder result) \<Rightarrow> 'a list \<Rightarrow> 'a list result" where
  "sort_by f xs =
     ebind (mapE (\<lambda>x. ebind (f x) (\<lambda>k. Inr (k, x))) xs) (\<lambda>ps. Inr (map snd (sort_key fst ps)))"

text \<open>\<open>sorted(set(xs) - set(ys))\<close> and \<open>sorted(set(xs))\<close>\<close>

definition sorted_diff :: "'a::linorder list \<Rightarrow> 'a list \<Rightarrow> 'a list" where
  "sorted_diff xs ys = sort (remdups (filter (\<lambda>x. x \<notin> set ys) xs))"

definition sorted_set :: "'a::linorder list \<Rightarrow> 'a list" where
  "sorted_set xs = sort (remdups xs)"

text \<open>A printed list of strings.\<close>

definition strs_repr :: "string list \<Rightarrow> string" where
  "strs_repr xs = py_repr (JArr (map JStr xs))"

section \<open>Facts\<close>

lemma sort_by_Inr_length: "sort_by f xs = Inr ys \<Longrightarrow> length ys = length xs"
  by (auto simp: sort_by_def res dest: mapE_Inr_length)

lemma mapE_pairs_snd:
  "mapE (\<lambda>x. ebind (f x) (\<lambda>k. Inr (k, x))) xs = Inr ps \<Longrightarrow> map snd ps = xs"
  by (induction xs arbitrary: ps) (auto simp: res)

lemma mapE_pairs_fst:
  "mapE (\<lambda>x. ebind (f x) (\<lambda>k. Inr (k, x))) xs = Inr ps \<Longrightarrow> p \<in> set ps \<Longrightarrow> f (snd p) = Inr (fst p)"
  by (induction xs arbitrary: ps) (auto simp: res)

lemma sort_by_Inr_mset: "sort_by f xs = Inr ys \<Longrightarrow> mset ys = mset xs"
proof -
  assume "sort_by f xs = Inr ys"
  then obtain ps where ps: "mapE (\<lambda>x. ebind (f x) (\<lambda>k. Inr (k, x))) xs = Inr ps"
    and ys: "ys = map snd (sort_key fst ps)"
    by (auto simp: sort_by_def res)
  have "mset ys = image_mset snd (mset (sort_key fst ps))" unfolding ys by (rule mset_map)
  also have "mset (sort_key fst ps) = mset ps" by (rule mset_sort)
  also have "image_mset snd (mset ps) = mset (map snd ps)" by (rule mset_map [symmetric])
  finally show ?thesis using mapE_pairs_snd [OF ps] by simp
qed

lemma sort_by_Inr_set: "sort_by f xs = Inr ys \<Longrightarrow> set ys = set xs"
  by (rule mset_eq_setD) (rule sort_by_Inr_mset)

lemma sort_by_Inr_sorted:
  "sort_by f xs = Inr ys \<Longrightarrow> sorted (map (\<lambda>x. case f x of Inr k \<Rightarrow> k | Inl _ \<Rightarrow> undefined) ys)"
proof -
  assume "sort_by f xs = Inr ys"
  then obtain ps where ps: "mapE (\<lambda>x. ebind (f x) (\<lambda>k. Inr (k, x))) xs = Inr ps"
    and ys: "ys = map snd (sort_key fst ps)"
    by (auto simp: sort_by_def res)
  have k: "\<forall>p \<in> set (sort_key fst ps). f (snd p) = Inr (fst p)"
    using mapE_pairs_fst [OF ps] by simp
  have "map (\<lambda>x. case f x of Inr k \<Rightarrow> k | Inl _ \<Rightarrow> undefined) ys = map fst (sort_key fst ps)"
    unfolding ys map_map by (rule map_cong) (use k in auto)
  then show ?thesis by simp
qed

lemma sorted_diff_empty [simp]: "sorted_diff xs ys = [] \<longleftrightarrow> set xs \<subseteq> set ys"
proof -
  have "sorted_diff xs ys = [] \<longleftrightarrow> set (sorted_diff xs ys) = {}" by (simp only: set_empty)
  also have "\<dots> \<longleftrightarrow> set xs \<subseteq> set ys" by (auto simp: sorted_diff_def)
  finally show ?thesis .
qed

lemma set_sorted_diff [simp]: "set (sorted_diff xs ys) = set xs - set ys"
  by (auto simp: sorted_diff_def)

lemma set_sorted_set [simp]: "set (sorted_set xs) = set xs"
  by (simp add: sorted_set_def)

section \<open>Issues of the validation\<close>

text \<open>
  \<open>ValidationIssue\<close> and \<open>ValidationResult\<close> (\<open>intent.py\<close>): what the validation of an intent
  reports. Only errors make an intent invalid.
\<close>

datatype severity = Error | Warning

record issue =
  is_code :: string
  is_path :: string
  is_message :: string
  is_severity :: severity

definition is_errors :: "issue list \<Rightarrow> issue list" where
  "is_errors issues = filter (\<lambda>i. is_severity i = Error) issues"

definition is_warnings :: "issue list \<Rightarrow> issue list" where
  "is_warnings issues = filter (\<lambda>i. is_severity i = Warning) issues"

definition is_valid :: "issue list \<Rightarrow> bool" where
  "is_valid issues \<longleftrightarrow> is_errors issues = []"

definition issue_dict :: "issue \<Rightarrow> json" where
  "issue_dict i =
     JObj [(''code'', JStr (is_code i)), (''path'', JStr (is_path i)), (''message'', JStr (is_message i)),
           (''severity'', JStr (case is_severity i of Error \<Rightarrow> ''error'' | Warning \<Rightarrow> ''warning''))]"

definition validation_dict :: "issue list \<Rightarrow> json" where
  "validation_dict issues =
     JObj [(''valid'', JBool (is_valid issues)), (''error_count'', JInt (int (length (is_errors issues)))),
           (''warning_count'', JInt (int (length (is_warnings issues)))), (''issues'', JArr (map issue_dict issues))]"

text \<open>The codes of the errors: what a caller can act on.\<close>

definition error_codes :: "issue list \<Rightarrow> string list" where
  "error_codes issues = map is_code (is_errors issues)"

lemma is_valid_append [simp]: "is_valid (xs @ ys) \<longleftrightarrow> is_valid xs \<and> is_valid ys"
  by (simp add: is_valid_def is_errors_def)

lemma is_valid_Nil [simp]: "is_valid []"
  by (simp add: is_valid_def is_errors_def)

lemma is_valid_Cons [simp]: "is_valid (i # is) \<longleftrightarrow> is_severity i = Warning \<and> is_valid is"
  by (cases "is_severity i") (auto simp: is_valid_def is_errors_def)

end
