(* ===== verification/Ipv4.thy ===== *)
theory Ipv4
  imports PyStr
begin

text \<open>
  The part of Python's \<open>ipaddress\<close> the orchestrator uses, for IPv4: addresses as numbers below
  2^32, networks as an address and a prefix length, parsing with \<open>strict=True\<close>, rendering,
  \<open>overlaps\<close>, \<open>subnet_of\<close>, \<open>hosts\<close> and the order of networks. A network stands for the interval
  of its addresses; overlap and containment are proved to be those of the intervals, and
  parsing reads back what rendering writes.
\<close>

datatype ipv4net = Net (net_addr: nat) (prefixlen: nat)

definition net_size :: "ipv4net \<Rightarrow> nat" where
  "net_size n = 2 ^ (32 - prefixlen n)"

definition wf_net :: "ipv4net \<Rightarrow> bool" where
  "wf_net n \<longleftrightarrow> prefixlen n \<le> 32 \<and> net_addr n < 2 ^ 32 \<and> net_addr n mod net_size n = 0"

definition broadcast :: "ipv4net \<Rightarrow> nat" where
  "broadcast n = net_addr n + net_size n - 1"

definition hostmask :: "ipv4net \<Rightarrow> nat" where
  "hostmask n = net_size n - 1"

definition addrs :: "ipv4net \<Rightarrow> nat set" where
  "addrs n = {net_addr n..broadcast n}"

definition in_net :: "nat \<Rightarrow> ipv4net \<Rightarrow> bool" where
  "in_net a n \<longleftrightarrow> net_addr n \<le> a \<and> a \<le> broadcast n"

definition overlaps :: "ipv4net \<Rightarrow> ipv4net \<Rightarrow> bool" where
  "overlaps m n \<longleftrightarrow>
     in_net (net_addr n) m \<or> in_net (broadcast n) m \<or> in_net (net_addr m) n \<or> in_net (broadcast m) n"

definition subnet_of :: "ipv4net \<Rightarrow> ipv4net \<Rightarrow> bool" where
  "subnet_of m n \<longleftrightarrow> net_addr n \<le> net_addr m \<and> broadcast m \<le> broadcast n"

definition hosts :: "ipv4net \<Rightarrow> nat list" where
  "hosts n =
     (if prefixlen n = 32 then [net_addr n]
      else if prefixlen n = 31 then [net_addr n, net_addr n + 1]
      else [net_addr n + 1..<broadcast n])"

text \<open>The number of hosts and the \<open>i\<close>-th of them, without building the list.\<close>

definition host_count :: "ipv4net \<Rightarrow> nat" where
  "host_count n = (if prefixlen n = 32 then 1 else if prefixlen n = 31 then 2 else net_size n - 2)"

definition nth_host :: "ipv4net \<Rightarrow> nat \<Rightarrow> nat" where
  "nth_host n i = (if 31 \<le> prefixlen n then net_addr n + i else net_addr n + 1 + i)"

section \<open>Text\<close>

definition addr_str :: "nat \<Rightarrow> string" where
  "addr_str a = join ''.''
     [nat_str (a div 16777216), nat_str (a div 65536 mod 256), nat_str (a div 256 mod 256), nat_str (a mod 256)]"

definition net_str :: "ipv4net \<Rightarrow> string" where
  "net_str n = addr_str (net_addr n) @ ''/'' @ nat_str (prefixlen n)"

text \<open>\<open>s.split(c)\<close> on a separator character: always at least one part.\<close>

fun split_on :: "char \<Rightarrow> string \<Rightarrow> string list" where
  "split_on c [] = [[]]"
| "split_on c (d # s) =
     (if d = c then [] # split_on c s
      else (case split_on c s of [] \<Rightarrow> [[d]] | p # ps \<Rightarrow> (d # p) # ps))"

text \<open>One octet: one to three digits, no leading zero, at most 255.\<close>

definition parse_octet :: "string \<Rightarrow> nat option" where
  "parse_octet s =
     (if list_all is_digit s \<and> 1 \<le> length s \<and> length s \<le> 3 \<and> (s = ''0'' \<or> hd s \<noteq> CHR ''0'')
         \<and> digits_val s \<le> 255
      then Some (digits_val s) else None)"

definition parse_addr :: "string \<Rightarrow> nat option" where
  "parse_addr s =
     (case map parse_octet (split_on (CHR ''.'') s) of
        [Some a, Some b, Some c, Some d] \<Rightarrow> Some (((a * 256 + b) * 256 + c) * 256 + d)
      | _ \<Rightarrow> None)"

text \<open>A prefix length in digits, or a netmask, or a host mask.\<close>

definition prefix_of_mask :: "nat \<Rightarrow> nat option" where
  "prefix_of_mask m =
     (case find (\<lambda>p. m = 2 ^ 32 - 2 ^ (32 - p)) [0..<33] of
        Some p \<Rightarrow> Some p
      | None \<Rightarrow> find (\<lambda>p. m = 2 ^ (32 - p) - 1) [0..<33])"

definition parse_prefixlen :: "string \<Rightarrow> nat option" where
  "parse_prefixlen s =
     (case parse_nat s of
        Some p \<Rightarrow> (if p \<le> 32 then Some p else None)
      | None \<Rightarrow> Option.bind (parse_addr s) prefix_of_mask)"

text \<open>\<open>ip_network(s, strict=True)\<close> where the result is an IPv4 network.\<close>

definition parse_net :: "string \<Rightarrow> ipv4net option" where
  "parse_net s =
     (case split_on (CHR ''/'') s of
        [a] \<Rightarrow> map_option (\<lambda>x. Net x 32) (parse_addr a)
      | [a, p] \<Rightarrow>
          (case (parse_addr a, parse_prefixlen p) of
             (Some x, Some l) \<Rightarrow> (if x mod 2 ^ (32 - l) = 0 then Some (Net x l) else None)
           | _ \<Rightarrow> None)
      | _ \<Rightarrow> None)"

section \<open>Order\<close>

text \<open>\<open>IPv4Network.__lt__\<close>: by address, then by netmask.\<close>

instantiation ipv4net :: linorder
begin

definition less_eq_ipv4net :: "ipv4net \<Rightarrow> ipv4net \<Rightarrow> bool" where
  "m \<le> n \<longleftrightarrow> net_addr m < net_addr n \<or> net_addr m = net_addr n \<and> prefixlen m \<le> prefixlen n"

definition less_ipv4net :: "ipv4net \<Rightarrow> ipv4net \<Rightarrow> bool" where
  "m < n \<longleftrightarrow> net_addr m < net_addr n \<or> net_addr m = net_addr n \<and> prefixlen m < prefixlen n"

instance
  by standard (auto simp: less_eq_ipv4net_def less_ipv4net_def ipv4net.expand)

end

section \<open>Intervals\<close>

lemma net_size_pos [simp]: "0 < net_size n"
  by (simp add: net_size_def)

lemma net_addr_le_broadcast [simp]: "net_addr n \<le> broadcast n"
  using net_size_pos [of n] unfolding broadcast_def by linarith

lemma in_net_iff: "in_net a n \<longleftrightarrow> a \<in> addrs n"
  by (simp add: in_net_def addrs_def)

lemma net_addr_in [simp]: "net_addr n \<in> addrs n"
  by (simp add: addrs_def)

lemma overlaps_iff: "overlaps m n \<longleftrightarrow> addrs m \<inter> addrs n \<noteq> {}"
proof
  assume "overlaps m n"
  then show "addrs m \<inter> addrs n \<noteq> {}"
    using net_addr_le_broadcast [of m] net_addr_le_broadcast [of n]
    unfolding overlaps_def in_net_def addrs_def disjoint_iff
    by (meson atLeastAtMost_iff order_refl order_trans)
next
  assume "addrs m \<inter> addrs n \<noteq> {}"
  then obtain a where "net_addr m \<le> a" "a \<le> broadcast m" "net_addr n \<le> a" "a \<le> broadcast n"
    unfolding addrs_def by (metis Int_iff atLeastAtMost_iff equals0I)
  then show "overlaps m n" by (auto simp: overlaps_def in_net_def)
qed

lemma overlaps_sym: "overlaps m n = overlaps n m"
  by (auto simp: overlaps_iff)

lemma overlaps_refl [simp]: "overlaps n n"
  by (auto simp: overlaps_iff intro: net_addr_in)

lemma subnet_of_iff: "subnet_of m n \<longleftrightarrow> addrs m \<subseteq> addrs n"
  by (auto simp: subnet_of_def addrs_def)

lemma host_count_hosts: "wf_net n \<Longrightarrow> host_count n = length (hosts n)"
  by (auto simp: host_count_def hosts_def broadcast_def net_size_def wf_net_def)

lemma nth_host_hosts: "wf_net n \<Longrightarrow> i < host_count n \<Longrightarrow> nth_host n i = hosts n ! i"
  by (auto simp: nth_host_def host_count_def hosts_def broadcast_def wf_net_def less_Suc_eq nth_Cons'
      numeral_2_eq_2)

section \<open>Reading back what is written\<close>

lemma split_on_nonempty [simp]: "split_on c s \<noteq> []"
  by (induction s) (auto split: list.splits)

lemma split_on_chars: "x \<in> set (split_on c s) \<Longrightarrow> set x \<subseteq> set s"
proof (induction c s arbitrary: x rule: split_on.induct)
  case (2 c d s)
  obtain p ps where p: "split_on c s = p # ps" by (cases "split_on c s") (use split_on_nonempty in blast)+
  have IH: "set y \<subseteq> set s" if "y \<in> set (p # ps)" for y
    using "2.IH" that by (cases "d = c") (simp_all add: p)
  show ?case using "2.prems" IH [of x] IH [of p] by (auto simp: p split: if_splits)
qed simp

lemma split_on_plain: "c \<notin> set s \<Longrightarrow> split_on c s = [s]"
  by (induction s) auto

lemma split_on_append: "c \<notin> set s \<Longrightarrow> split_on c (s @ c # t) = s # split_on c t"
  by (induction s) auto

lemma digits_no_sep:
  assumes "\<not> is_digit c"
  shows "c \<notin> set (nat_str n)"
  using assms nat_str_digits [of n] by (auto simp: list_all_iff)

lemma nat_str_length: "n < 1000 \<Longrightarrow> length (nat_str n) \<le> 3"
proof -
  have one: "length (nat_str n) = 1" if "n < 10" for n
    using that by (simp add: nat_str.simps)
  have two: "length (nat_str n) \<le> 2" if "n < 100" for n
    using that one [of "n div 10"] by (simp add: nat_str.simps [of n])
  assume "n < 1000"
  then show ?thesis using two [of "n div 10"] by (simp add: nat_str.simps [of n])
qed

lemma nat_str_no_leading_zero: "0 < n \<Longrightarrow> hd (nat_str n) \<noteq> CHR ''0''"
proof (induction n rule: nat_str.induct)
  case (1 n)
  show ?case
  proof (cases "n < 10")
    case True
    have "digit_char n \<noteq> CHR ''0''"
    proof
      assume "digit_char n = CHR ''0''"
      then have "ordc (digit_char n) = 48" by simp
      with True 1 show False by simp
    qed
    with True show ?thesis by (subst nat_str.simps) simp
  next
    case False
    then have "0 < n div 10" by simp
    with 1 False show ?thesis by (subst nat_str.simps) simp
  qed
qed

lemma parse_octet_nat_str: "n \<le> 255 \<Longrightarrow> parse_octet (nat_str n) = Some n"
proof -
  assume n: "n \<le> 255"
  have "length (nat_str n) \<le> 3" using n by (intro nat_str_length) simp
  moreover have "nat_str n = ''0'' \<or> hd (nat_str n) \<noteq> CHR ''0''"
    using nat_str_no_leading_zero [of n]
    by (cases "n = 0") (auto simp: nat_str.simps digit_char_def)
  ultimately show ?thesis
    using n by (simp add: parse_octet_def nat_str_digits Suc_le_eq)
qed

lemma octets_value:
  assumes "(a :: nat) < 2 ^ 32"
  shows "((a div 16777216 * 256 + a div 65536 mod 256) * 256 + a div 256 mod 256) * 256 + a mod 256 = a"
    and "a div 16777216 \<le> 255"
proof -
  have "a = a div 256 * 256 + a mod 256" by simp
  moreover have "a div 256 = a div 65536 * 256 + a div 256 mod 256"
    using div_mult2_eq [of a 256 256] div_mult_mod_eq [of "a div 256" 256] by simp
  moreover have "a div 65536 = a div 16777216 * 256 + a div 65536 mod 256"
    using div_mult2_eq [of a 65536 256] div_mult_mod_eq [of "a div 65536" 256] by simp
  ultimately show "((a div 16777216 * 256 + a div 65536 mod 256) * 256 + a div 256 mod 256) * 256 + a mod 256 = a"
    by simp
  show "a div 16777216 \<le> 255" using assms by simp
qed

lemma parse_addr_str: "a < 2 ^ 32 \<Longrightarrow> parse_addr (addr_str a) = Some a"
proof -
  assume a: "a < 2 ^ 32"
  have nd: "CHR ''.'' \<notin> set (nat_str n)" for n by (rule digits_no_sep) (simp add: is_digit_def)
  have m: "x mod 256 \<le> 255" for x :: nat using mod_less_divisor [of 256 x] by linarith
  show ?thesis
    using octets_value [OF a]
    by (simp add: parse_addr_def addr_str_def split_on_append split_on_plain nd parse_octet_nat_str m)
qed

lemma addr_str_no_slash: "CHR ''/'' \<notin> set (addr_str a)"
proof -
  have "CHR ''/'' \<notin> set (nat_str n)" for n by (rule digits_no_sep) (simp add: is_digit_def)
  then show ?thesis by (simp add: addr_str_def)
qed

theorem parse_net_str: "wf_net n \<Longrightarrow> parse_net (net_str n) = Some n"
proof (cases n)
  case (Net a l)
  assume wf: "wf_net n"
  have ns: "CHR ''/'' \<notin> set (nat_str l)" by (rule digits_no_sep) (simp add: is_digit_def)
  have "split_on (CHR ''/'') (net_str n) = [addr_str a, nat_str l]"
    using split_on_append [OF addr_str_no_slash, of a "nat_str l"] split_on_plain [OF ns]
    by (simp add: net_str_def Net)
  moreover have "parse_nat (nat_str l) = Some l"
    using wf by (intro parse_nat_nat_str short_nat_str) (simp add: wf_net_def Net)
  ultimately show ?thesis
    using wf by (simp add: parse_net_def parse_addr_str parse_prefixlen_def wf_net_def net_size_def Net)
qed

lemma net_str_inject: "wf_net m \<Longrightarrow> wf_net n \<Longrightarrow> net_str m = net_str n \<longleftrightarrow> m = n"
  by (metis option.inject parse_net_str)

lemma parse_octet_bound: "parse_octet s = Some n \<Longrightarrow> n \<le> 255"
  by (auto simp: parse_octet_def split: if_splits)

lemma parse_addr_bound: "parse_addr s = Some a \<Longrightarrow> a < 2 ^ 32"
  by (auto simp: parse_addr_def split: list.splits option.splits dest!: parse_octet_bound)

lemma prefix_of_mask_bound: "prefix_of_mask m = Some p \<Longrightarrow> p \<le> 32"
  by (auto simp: prefix_of_mask_def split: option.splits dest!: find_Some_iff')

lemma parse_net_wf: "parse_net s = Some n \<Longrightarrow> wf_net n"
  by (auto simp: parse_net_def wf_net_def net_size_def parse_prefixlen_def
      split: list.splits option.splits if_splits bind_splits dest: parse_addr_bound prefix_of_mask_bound)

end
