(* ===== verification/Ipv6.thy ===== *)
theory Ipv6
  imports Ipv4 Json
begin

text \<open>
  \<open>ipaddress.ip_address\<close> and \<open>ipaddress.ip_network\<close> try IPv4 first and IPv6 next. The
  orchestrator allocates IPv4 only and turns IPv6 text away with messages of its own, so IPv6 is
  modelled as far as deciding which text is IPv6 and printing it: an address is eight 16-bit
  groups and a scope identifier, any text after the first percent sign, which \<open>ipaddress\<close> keeps
  and prints back as it was.
\<close>

definition hex_val :: "char \<Rightarrow> nat" where
  "hex_val c = (if is_digit c then ordc c - 48 else if 97 \<le> ordc c then ordc c - 87 else ordc c - 55)"

definition parse_hextet :: "string \<Rightarrow> nat option" where
  "parse_hextet s =
     (if s \<noteq> [] \<and> length s \<le> 4 \<and> list_all is_hex s then Some (foldl (\<lambda>n c. 16 * n + hex_val c) 0 s) else None)"

fun all_some :: "'a option list \<Rightarrow> 'a list option" where
  "all_some [] = Some []"
| "all_some (None # xs) = None"
| "all_some (Some x # xs) = map_option ((#) x) (all_some xs)"

text \<open>A dotted quad in the last part stands for two groups.\<close>

definition expand_quad :: "string list \<Rightarrow> string list option" where
  "expand_quad parts =
     (if CHR ''.'' \<in> set (last parts) then
        map_option (\<lambda>a. butlast parts @ [hex2 (a div 16777216) @ hex2 (a div 65536 mod 256),
            hex2 (a div 256 mod 256) @ hex2 (a mod 256)])
          (parse_addr (last parts))
      else Some parts)"

text \<open>The positions of \<open>::\<close>: empty parts that are neither the first nor the last.\<close>

definition skips :: "string list \<Rightarrow> nat list" where
  "skips parts = filter (\<lambda>i. parts ! i = []) [1..<length parts - 1]"

definition groups6 :: "string list \<Rightarrow> nat list option" where
  "groups6 parts =
     (case skips parts of
        [] \<Rightarrow> (if length parts = 8 then all_some (map parse_hextet parts) else None)
      | [i] \<Rightarrow>
          (let hi = (if parts ! 0 = [] then i - 1 else i);
               lo = (if last parts = [] then length parts - i - 2 else length parts - i - 1) in
           if parts ! 0 = [] \<and> hi \<noteq> 0 \<or> last parts = [] \<and> lo \<noteq> 0 \<or> hi + lo > 7 then None
           else
             (case (all_some (map parse_hextet (take hi parts)),
                    all_some (map parse_hextet (drop (length parts - lo) parts))) of
                (Some hs, Some ls) \<Rightarrow> Some (hs @ replicate (8 - (hi + lo)) 0 @ ls)
              | _ \<Rightarrow> None))
      | _ \<Rightarrow> None)"

definition parse_addr6 :: "string \<Rightarrow> nat list option" where
  "parse_addr6 s =
     (let parts = split_on (CHR '':'') s in
      if length parts < 3 then None
      else Option.bind (expand_quad parts) (\<lambda>ps. if length ps > 9 then None else groups6 ps))"

text \<open>\<open>_split_scope_id\<close>: the scope of an address that has one is not empty and holds no percent sign.\<close>

definition split_scope :: "string \<Rightarrow> (string \<times> string option) option" where
  "split_scope s =
     (let a = takeWhile (\<lambda>c. c \<noteq> CHR ''%'') s in
      case dropWhile (\<lambda>c. c \<noteq> CHR ''%'') s of
        [] \<Rightarrow> Some (a, None)
      | _ # scope \<Rightarrow> (if scope = [] \<or> CHR ''%'' \<in> set scope then None else Some (a, Some scope)))"

type_synonym addr6 = "nat list \<times> string option"

text \<open>\<open>IPv6Address(s)\<close>, which refuses a slash before it looks for the scope.\<close>

definition parse_scoped6 :: "string \<Rightarrow> addr6 option" where
  "parse_scoped6 s =
     (if CHR ''/'' \<in> set s then None
      else
        (case split_scope s of
           None \<Rightarrow> None
         | Some (a, scope) \<Rightarrow> map_option (\<lambda>gs. (gs, scope)) (parse_addr6 a)))"

definition addr6_value :: "nat list \<Rightarrow> nat" where
  "addr6_value gs = foldl (\<lambda>n g. 65536 * n + g) 0 gs"

definition is_net6 :: "string \<Rightarrow> bool" where
  "is_net6 s =
     (case split_on (CHR ''/'') s of
        [a] \<Rightarrow> parse_scoped6 a \<noteq> None
      | [a, p] \<Rightarrow>
          (case (parse_scoped6 a, parse_nat p) of
             (Some (gs, _), Some l) \<Rightarrow> l \<le> 128 \<and> addr6_value gs mod 2 ^ (128 - l) = 0
           | _ \<Rightarrow> False)
      | _ \<Rightarrow> False)"

section \<open>Addresses of either family\<close>

datatype ipaddr = V4 nat | V6 "nat list" "string option"

definition parse_ip :: "string \<Rightarrow> ipaddr option" where
  "parse_ip s =
     (case parse_addr s of Some a \<Rightarrow> Some (V4 a) | None \<Rightarrow> map_option (\<lambda>(gs, scope). V6 gs scope) (parse_scoped6 s))"

text \<open>Hexadecimal groups; the first longest run of two or more zero groups becomes \<open>::\<close>.\<close>

fun hex_str :: "nat \<Rightarrow> string" where
  "hex_str n = (if n < 16 then [hex_digit n] else hex_str (n div 16) @ [hex_digit (n mod 16)])"

declare hex_str.simps [simp del]

definition zero_run :: "nat list \<Rightarrow> nat \<Rightarrow> nat" where
  "zero_run gs i = length (takeWhile (\<lambda>g. g = 0) (drop i gs))"

definition addr6_str :: "nat list \<Rightarrow> string" where
  "addr6_str gs =
     (let best = foldl (\<lambda>b i. if zero_run gs b < zero_run gs i then i else b) 0 [0..<length gs];
          n = zero_run gs best in
      if n < 2 then join '':'' (map hex_str gs)
      else join '':'' (map hex_str (take best gs)) @ ''::'' @ join '':'' (map hex_str (drop (best + n) gs)))"

text \<open>\<open>str(IPv6Address)\<close>, with the scope as it was written.\<close>

fun scoped6_str :: "addr6 \<Rightarrow> string" where
  "scoped6_str (gs, None) = addr6_str gs"
| "scoped6_str (gs, Some scope) = addr6_str gs @ ''%'' @ scope"

fun ip_str :: "ipaddr \<Rightarrow> string" where
  "ip_str (V4 a) = addr_str a"
| "ip_str (V6 gs scope) = scoped6_str (gs, scope)"

text \<open>\<open>address in network\<close> for an IPv4 network.\<close>

fun ip_in_net :: "ipaddr \<Rightarrow> ipv4net \<Rightarrow> bool" where
  "ip_in_net (V4 a) n = in_net a n"
| "ip_in_net (V6 _ _) n = False"

text \<open>\<open>is_multicast\<close>\<close>

fun ip_multicast :: "ipaddr \<Rightarrow> bool" where
  "ip_multicast (V4 a) = (a div 268435456 = 14)"
| "ip_multicast (V6 gs _) = (gs ! 0 div 256 = 255)"

text \<open>\<open>ipaddress.ip_address(str(v))\<close>\<close>

definition ip_address :: "string \<Rightarrow> ipaddr result" where
  "ip_address s = of_option
     (ValueError (repr_str s @ '' does not appear to be an IPv4 or IPv6 address'')) (parse_ip s)"

text \<open>\<open>ipaddress.ip_address(v)\<close> of a document's value: text, or the number of an address.\<close>

fun ip_of_json :: "json \<Rightarrow> ipaddr result" where
  "ip_of_json (JStr s) = ip_address s"
| "ip_of_json (JBool b) = Inr (V4 (if b then 1 else 0))"
| "ip_of_json (JInt i) =
     (if 0 \<le> i \<and> i < 2 ^ 32 then Inr (V4 (nat i))
      else if 0 \<le> i \<and> i < 2 ^ 128
      then Inr (V6 (map (\<lambda>k. nat (i div 65536 ^ (7 - k) mod 65536)) [0..<8]) None)
      else Inl (ValueError (int_str i @ '' does not appear to be an IPv4 or IPv6 address'')))"
| "ip_of_json v = Inl (ValueError (py_repr v @ '' does not appear to be an IPv4 or IPv6 address''))"

section \<open>What is printed of a scope\<close>

lemma is_net6_parses: "is_net6 s \<Longrightarrow> \<exists>x. parse_scoped6 (hd (split_on (CHR ''/'') s)) = Some x"
  by (auto simp: is_net6_def split: list.splits option.splits)

text \<open>The scope of the first part is a part of the text after the percent sign.\<close>

lemma split_on_scope:
  "c \<noteq> CHR ''%'' \<Longrightarrow>
     set (dropWhile (\<lambda>c. c \<noteq> CHR ''%'') (hd (split_on c s))) \<subseteq> set (dropWhile (\<lambda>c. c \<noteq> CHR ''%'') s)"
proof (induction c s rule: split_on.induct)
  case (2 c d s)
  obtain p ps where p: "split_on c s = p # ps" by (cases "split_on c s") (use split_on_nonempty in blast)+
  have "set p \<subseteq> set s" using split_on_chars [of p c s] by (simp add: p)
  with 2 show ?case by (auto simp: p)
qed simp

lemma split_scope_suffix:
  "split_scope s = Some (a, Some scope) \<Longrightarrow> dropWhile (\<lambda>c. c \<noteq> CHR ''%'') s = CHR ''%'' # scope"
  by (auto simp: split_scope_def Let_def dropWhile_eq_Cons_conv split: list.splits if_splits)

text \<open>Every character printed of an address is one of its groups' text or stands in the scope of the source text.\<close>

lemma scoped6_chars:
  assumes "parse_scoped6 s = Some x" and "c \<in> set (scoped6_str x)"
  shows "c \<in> set (addr6_str (fst x)) \<or> c \<in> set (dropWhile (\<lambda>c. c \<noteq> CHR ''%'') s)"
proof -
  from assms(1) obtain a where a: "split_scope s = Some (a, snd x)"
    by (auto simp: parse_scoped6_def split: if_splits option.splits)
  show ?thesis
  proof (cases "snd x")
    case None
    then show ?thesis using assms(2) by (cases x) simp
  next
    case (Some scope)
    then show ?thesis using assms(2) split_scope_suffix [OF a [unfolded Some]] by (cases x) auto
  qed
qed

lemma unscoped6:
  assumes "parse_scoped6 s = Some x" and "CHR ''%'' \<notin> set s"
  shows "scoped6_str x = addr6_str (fst x)"
proof -
  have "dropWhile (\<lambda>c. c \<noteq> CHR ''%'') s = []" unfolding dropWhile_eq_Nil_conv using assms(2) by metis
  then have "split_scope s = Some (takeWhile (\<lambda>c. c \<noteq> CHR ''%'') s, None)"
    by (simp add: split_scope_def Let_def del: dropWhile_eq_Nil_conv)
  with assms(1) have "snd x = None" by (auto simp: parse_scoped6_def split: if_splits)
  then show ?thesis by (cases x) simp
qed

end
