(* ===== verification/AllocCore.thy ===== *)
theory AllocCore
  imports Doc Ipv6 StoreState
begin

text \<open>
  The allocator's primitives (\<open>allocator.py\<close>, first half): the ledger and the guardrails as
  excluded networks and values, first-fit search of a prefix and of a scalar, the size of an
  endpoint prefix, and the platform guardrail. The operations \<open>reserve_prefix\<close>,
  \<open>reserve_scalar\<close> and \<open>reserve_requested_scalar\<close> are the closures of \<open>derive_fabric_intent\<close>
  over the state \<open>alloc\<close>: what is taken in each pool and range, and what was reserved so far.
\<close>

section \<open>Networks and ledgers\<close>

text \<open>\<open>_network(str(v))\<close>\<close>

definition network :: "string \<Rightarrow> ipv4net result" where
  "network s =
     (case parse_net s of
        Some n \<Rightarrow> Inr n
      | None \<Rightarrow>
          (if is_net6 s then Inl (AllocationError ''Only IPv4 allocation pools are supported'')
           else Inl (AllocationError (''Invalid IPv4 prefix '' @ repr_str s))))"

definition active_networks :: "net_entry list \<Rightarrow> string \<Rightarrow> string \<Rightarrow> ipv4net list result" where
  "active_networks ledger domain pool_id =
     mapE (\<lambda>e. network (ne_prefix e))
       (filter (\<lambda>e. ne_domain e = domain \<and> ne_pool e = pool_id \<and> is_active (ne_state e)) ledger)"

definition active_scalars :: "scalar_entry list \<Rightarrow> string \<Rightarrow> string \<Rightarrow> string list" where
  "active_scalars ledger domain resource_type =
     map se_value
       (filter (\<lambda>e. se_domain e = domain \<and> se_type e = resource_type \<and> is_active (se_state e)) ledger)"

section \<open>Guardrails\<close>

definition policy_reserved_networks :: "string \<Rightarrow> json \<Rightarrow> ipv4net list result" where
  "policy_reserved_networks pool_id pool =
     (ebind (str_at pool ''cidr'') (\<lambda>cidr.
        ebind (network cidr) (\<lambda>supernet.
        ebind (strs_get pool ''reserved'') (\<lambda>raw.
        mapE (\<lambda>r. (ebind (network r) (\<lambda>p.
            ebind (raise_if (\<not> subnet_of p supernet)
                         (AllocationError (''Reserved prefix '' @ net_str p @ '' is outside guardrail pool ''
                            @ pool_id @ '' ('' @ net_str supernet @ '')''))) (\<lambda>_.
            Inr p)))) raw))))"

text \<open>An inclusive range \<open>[start, end]\<close> of a guardrail.\<close>

definition reserved_range :: "string \<Rightarrow> json \<Rightarrow> int list result" where
  "reserved_range resource_type bounds =
     (case bounds of
        JArr [a, b] \<Rightarrow>
          (ebind (py_int a) (\<lambda>start.
             ebind (py_int b) (\<lambda>stop.
             ebind (raise_if (stop < start)
                (AllocationError (''Reserved range for '' @ resource_type @ '' has end before start''))) (\<lambda>_.
             Inr [start..stop]))))
      | _ \<Rightarrow> Inl (AllocationError (''Reserved range for '' @ resource_type @ '' must contain [start, end]'')))"

definition policy_reserved_scalars :: "string \<Rightarrow> json \<Rightarrow> string list result" where
  "policy_reserved_scalars resource_type range_policy =
     (ebind (jget_default range_policy ''base'' (JInt 0)) (\<lambda>base.
        ebind (jget_default range_policy ''min'' base) (\<lambda>lo.
        ebind (py_int lo) (\<lambda>minimum.
        ebind (int_get range_policy ''max'' minimum) (\<lambda>maximum.
        ebind (items_get range_policy ''reserved'') (\<lambda>raw.
        ebind (mapE py_int raw) (\<lambda>singles.
        ebind (items_get range_policy ''reserved_ranges'') (\<lambda>ranges.
        ebind (mapE (reserved_range resource_type) ranges) (\<lambda>spans.
        let reserved = remdups (singles @ concat spans) in
        let outside = sort (filter (\<lambda>v. v < minimum \<or> maximum < v) reserved) in
        ebind (refuse outside
           (\<lambda>x. AllocationError (''Reserved '' @ resource_type @ '' value '' @ int_str x
              @ '' is outside '' @ int_str minimum @ ''-'' @ int_str maximum))) (\<lambda>_.
        Inr (map int_str reserved)))))))))))"

section \<open>First fit\<close>

text \<open>\<open>supernet.subnets(new_prefix)\<close>: the \<open>i\<close>-th subnet, and the search through them in order.\<close>

definition nth_subnet :: "ipv4net \<Rightarrow> nat \<Rightarrow> nat \<Rightarrow> ipv4net" where
  "nth_subnet supernet len i = Net (net_addr supernet + i * 2 ^ (32 - len)) len"

function search_subnet :: "ipv4net \<Rightarrow> nat \<Rightarrow> ipv4net list \<Rightarrow> nat \<Rightarrow> ipv4net option" where
  "search_subnet supernet len excluded i =
     (if 2 ^ (len - prefixlen supernet) \<le> i then None
      else if list_ex (overlaps (nth_subnet supernet len i)) excluded
      then search_subnet supernet len excluded (Suc i)
      else Some (nth_subnet supernet len i))"
  by auto
termination by (relation "measure (\<lambda>(s, len, ex, i). 2 ^ (len - prefixlen s) - i)") auto

definition first_prefix :: "ipv4net \<Rightarrow> int \<Rightarrow> ipv4net list \<Rightarrow> ipv4net result" where
  "first_prefix supernet prefix_len excluded =
     (if prefix_len < int (prefixlen supernet) \<or> 32 < prefix_len
      then Inl (AllocationError (''Prefix length /'' @ int_str prefix_len @ '' cannot be carved from ''
                  @ net_str supernet))
      else of_option (AllocationError (''Address pool '' @ net_str supernet @ '' is exhausted for /''
                  @ int_str prefix_len))
             (search_subnet supernet (nat prefix_len) excluded 0))"

function search_scalar :: "int \<Rightarrow> int \<Rightarrow> string list \<Rightarrow> int option" where
  "search_scalar lo hi excluded =
     (if hi < lo then None
      else if int_str lo \<in> set excluded then search_scalar (lo + 1) hi excluded
      else Some lo)"
  by auto
termination by (relation "measure (\<lambda>(lo, hi, ex). nat (hi + 1 - lo))") auto

definition first_scalar :: "int \<Rightarrow> int \<Rightarrow> string list \<Rightarrow> string \<Rightarrow> int result" where
  "first_scalar minimum maximum excluded label =
     of_option (AllocationError (''Scalar pool '' @ label @ '' is exhausted''))
       (search_scalar minimum maximum excluded)"

declare search_subnet.simps [simp del] search_scalar.simps [simp del]

section \<open>The state of an allocation\<close>

record alloc =
  taken_nets :: "(string \<times> ipv4net list) list"
  taken_vals :: "(string \<times> string list) list"
  net_reservations :: "(string \<times> string) list"
  scalar_reservations :: "(string \<times> string) list"

text \<open>The list under a key, and a list extended under a key.\<close>

definition taken_in :: "string \<Rightarrow> (string \<times> 'a list) list \<Rightarrow> 'a list" where
  "taken_in k m = (case map_of m k of None \<Rightarrow> [] | Some xs \<Rightarrow> xs)"

fun add_taken :: "string \<Rightarrow> 'a \<Rightarrow> (string \<times> 'a list) list \<Rightarrow> (string \<times> 'a list) list" where
  "add_taken k x [] = [(k, [x])]"
| "add_taken k x ((l, xs) # m) = (if l = k then (l, xs @ [x]) # m else (l, xs) # add_taken k x m)"

definition note_prefix :: "string \<Rightarrow> ipv4net \<Rightarrow> alloc \<Rightarrow> alloc" where
  "note_prefix pool_id n a =
     a\<lparr>taken_nets := add_taken pool_id n (taken_nets a),
       net_reservations := net_reservations a @ [(pool_id, net_str n)]\<rparr>"

definition note_scalar :: "string \<Rightarrow> int \<Rightarrow> alloc \<Rightarrow> alloc" where
  "note_scalar kind v a =
     a\<lparr>taken_vals := add_taken kind (int_str v) (taken_vals a),
       scalar_reservations := scalar_reservations a @ [(kind, int_str v)]\<rparr>"

definition reserve_prefix :: "json \<Rightarrow> string \<Rightarrow> int \<Rightarrow> (alloc, ipv4net) eff" where
  "reserve_prefix pools pool_id prefix_len a =
     (case (ebind (jidx pools pool_id) (\<lambda>pool.
        ebind (str_at pool ''cidr'') (\<lambda>cidr.
        ebind (network cidr) (\<lambda>supernet.
        first_prefix supernet prefix_len (taken_in pool_id (taken_nets a)))))) of
        Inl e \<Rightarrow> (Inl e, a)
      | Inr n \<Rightarrow> (Inr n, note_prefix pool_id n a))"

definition reserve_scalar :: "string \<Rightarrow> int \<Rightarrow> int \<Rightarrow> (alloc, int) eff" where
  "reserve_scalar kind minimum maximum a =
     (case first_scalar minimum maximum (taken_in kind (taken_vals a)) kind of
        Inl e \<Rightarrow> (Inl e, a)
      | Inr v \<Rightarrow> (Inr v, note_scalar kind v a))"

definition reserve_requested_scalar :: "string \<Rightarrow> int \<Rightarrow> int \<Rightarrow> int \<Rightarrow> (alloc, int) eff" where
  "reserve_requested_scalar kind v minimum maximum a =
     (if v < minimum \<or> maximum < v
      then (Inl (AllocationError (''Requested '' @ kind @ '' value '' @ int_str v @ '' is outside ''
              @ int_str minimum @ ''-'' @ int_str maximum)), a)
      else if int_str v \<in> set (taken_in kind (taken_vals a))
      then (Inl (AllocationError (''Requested '' @ kind @ '' value '' @ int_str v @ '' is unavailable'')), a)
      else (Inr v, note_scalar kind v a))"

section \<open>Platforms\<close>

fun digit_runs :: "string \<Rightarrow> string \<Rightarrow> string list" where
  "digit_runs acc [] = (if acc = [] then [] else [rev acc])"
| "digit_runs acc (c # s) =
     (if is_digit c then digit_runs (c # acc) s
      else if acc = [] then digit_runs [] s else rev acc # digit_runs [] s)"

definition version_tuple :: "string \<Rightarrow> int list result" where
  "version_tuple s =
     (let numbers = digit_runs [] s in
      if numbers = [] then Inl (AllocationError (''Software version '' @ repr_str s @ '' is not comparable''))
      else mapE (\<lambda>x. py_int (JStr x)) (take 4 numbers))"

definition platform_guardrail :: "json \<Rightarrow> json \<Rightarrow> unit result" where
  "platform_guardrail device policy =
     (ebind (str_at device ''platform'') (\<lambda>model.
        ebind (strs_at device ''roles'') (\<lambda>roles.
        ebind (items_get policy ''platform_matrix'') (\<lambda>matrix.
        ebind (filterE (\<lambda>e. (ebind (str_get e ''model'' ''None'') (\<lambda>m.
            Inr (m = model)))) matrix) (\<lambda>entries.
        ebind (raise_if (entries = [])
           (AllocationError (''Platform '' @ model @ '' is not approved by guardrails''))) (\<lambda>_.
        let entry = hd entries in
        ebind (strs_get entry ''roles'') (\<lambda>allowed.
        ebind (raise_if (\<not> set roles \<subseteq> set allowed)
           (AllocationError (''Platform '' @ model @ '' does not support requested roles ''
              @ strs_repr (sorted_diff roles allowed)))) (\<lambda>_.
        ebind (str_at device ''software_version'') (\<lambda>sv.
        ebind (version_tuple sv) (\<lambda>hv.
        ebind (str_at entry ''min_ios_xe'') (\<lambda>mv.
        ebind (version_tuple mv) (\<lambda>need.
        raise_if (hv < need)
           (AllocationError (''Platform '' @ model @ '' requires IOS XE '' @ mv @ '' or later''))))))))))))))"

definition require_keys :: "json \<Rightarrow> string list \<Rightarrow> string \<Rightarrow> unit result" where
  "require_keys document keys path =
     (ebind (mapE (\<lambda>k. contains_key k document) keys) (\<lambda>present.
        let missing = map fst (filter (\<lambda>(k, b). \<not> b) (zip keys present)) in
        raise_if (missing \<noteq> [])
           (AllocationError (path @ '' is missing '' @ join '', '' missing))))"

end
