(* ===== verification/SiteContext.thy ===== *)
theory SiteContext
  imports AllocCore
begin

text \<open>
  \<open>_derive_site_context\<close>: the site hierarchy, the fabric sites and the fabric zones of the
  requirements, checked and put in canonical order. Dictionaries keyed by identifier are
  association lists. The two walks up the hierarchy are recursive functions; they end because a
  walk never visits a node twice.
\<close>

section \<open>The hierarchy tree\<close>

text \<open>The items of a list sorted by their identifier, which must be unique.\<close>

definition by_id :: "json list \<Rightarrow> json list result" where
  "by_id xs = sort_by (\<lambda>x. str_get x ''id'' []) xs"

fun unique_ids :: "string \<Rightarrow> json list \<Rightarrow> (string \<times> json) list \<Rightarrow> (string \<times> json) list result" where
  "unique_ids msg [] acc = Inr acc"
| "unique_ids msg (x # xs) acc =
     (ebind (str_get x ''id'' []) (\<lambda>i.
        ebind (raise_if (map_of acc i \<noteq> None) (AllocationError (msg @ i))) (\<lambda>_.
        unique_ids msg xs (acc @ [(i, x)]))))"

definition allowed_children :: "string \<Rightarrow> string list" where
  "allowed_children t =
     (if t = ''global'' then [''area'', ''building'']
      else if t = ''area'' then [''area'', ''building'']
      else if t = ''building'' then [''floor''] else [])"

text \<open>The parent of one node: \<open>None\<close> for the global node.\<close>

definition node_parent :: "(string \<times> json) list \<Rightarrow> json \<Rightarrow> (string \<times> string) option result" where
  "node_parent node_by_id node =
     (ebind (str_at node ''id'') (\<lambda>node_id.
        ebind (str_at node ''type'') (\<lambda>node_type.
        ebind (jget node ''parent_id'') (\<lambda>parent.
        if node_type = ''global''
         then (ebind (raise_if (parent \<noteq> JNull) (AllocationError ''Global hierarchy node cannot have a parent'')) (\<lambda>_.
            Inr None))
         else
           (ebind (of_option
                 (AllocationError (''Hierarchy node '' @ node_id @ '' references an unknown parent''))
                 (if truthy parent then map_of node_by_id (py_str parent) else None)) (\<lambda>p.
              ebind (str_at p ''type'') (\<lambda>parent_type.
              ebind (raise_if (node_type \<notin> set (allowed_children parent_type))
                 (AllocationError (''Hierarchy type '' @ node_type @ '' cannot be a child of '' @ parent_type))) (\<lambda>_.
              Inr (Some (node_id, py_str parent))))))))))"

text \<open>
  \<open>while cursor not in depths\<close>: from a node upwards to one of known depth. The trail holds the
  nodes on the way, the last one first.
\<close>

function climb ::
    "(string \<times> string) list \<Rightarrow> (string \<times> int) list \<Rightarrow> string \<Rightarrow> string list
       \<Rightarrow> (string \<times> string list \<times> (string \<times> int) list) result" where
  "climb parents depths cursor trail =
     (if map_of depths cursor \<noteq> None then Inr (cursor, trail, depths)
      else if cursor \<in> set trail then Inl (AllocationError ''Site hierarchy contains a parent cycle'')
      else case map_of parents cursor of
          None \<Rightarrow> Inr (cursor, cursor # trail, depths @ [(cursor, 0)])
        | Some p \<Rightarrow> climb parents depths p (cursor # trail))"
  by auto
termination
proof (relation "measure (\<lambda>(parents, depths, cursor, trail). card (set (map fst parents) - set trail))")
  fix parents :: "(string \<times> string) list" and depths cursor trail p
  assume "cursor \<notin> set trail" and "map_of parents cursor = Some p"
  then have "cursor \<in> set (map fst parents) - set trail" by (force dest: map_of_SomeD)
  then have "card (set (map fst parents) - set (cursor # trail)) < card (set (map fst parents) - set trail)"
    by (intro psubset_card_mono) auto
  then show "((parents, depths, p, cursor # trail), (parents, depths, cursor, trail))
      \<in> measure (\<lambda>(parents, depths, cursor, trail). card (set (map fst parents) - set trail))" by simp
qed simp

text \<open>\<open>for node_id in reversed(trail)\<close>: depths downwards from the known node.\<close>

fun settle :: "int \<Rightarrow> string list \<Rightarrow> int \<Rightarrow> (string \<times> int) list \<Rightarrow> (string \<times> int) list result" where
  "settle max_depth [] depth depths = Inr depths"
| "settle max_depth (i # trail) depth depths =
     (case map_of depths i of
        Some d \<Rightarrow> settle max_depth trail d depths
      | None \<Rightarrow>
          (if max_depth < depth + 1
           then Inl (AllocationError (''Site hierarchy exceeds maximum depth '' @ int_str max_depth))
           else settle max_depth trail (depth + 1) (depths @ [(i, depth + 1)])))"

definition node_depths ::
    "(string \<times> string) list \<Rightarrow> int \<Rightarrow> string \<Rightarrow> string list \<Rightarrow> (string \<times> int) list result" where
  "node_depths parents max_depth global_id ids =
     foldE (\<lambda>depths start.
         (ebind (climb parents depths start []) (\<lambda>(cursor, trail, depths).
            settle max_depth trail (the (map_of depths cursor)) depths)))
       [(global_id, 0)] (sort ids)"

definition max_hierarchy_depth :: int where "max_hierarchy_depth = 16"

definition depth_limit :: "json \<Rightarrow> int result" where
  "depth_limit policy =
     (ebind (jget_default policy ''hierarchy'' (JObj [])) (\<lambda>h.
        ebind (int_get h ''max_depth'' max_hierarchy_depth) (\<lambda>max_depth.
        ebind (raise_if (max_depth < 1 \<or> max_hierarchy_depth < max_depth)
           (AllocationError (''Guardrail hierarchy.max_depth must be between 1 and '' @ int_str max_hierarchy_depth))) (\<lambda>_.
        Inr max_depth))))"

record hierarchy =
  hr_nodes :: "json list"
  hr_by_id :: "(string \<times> json) list"
  hr_parents :: "(string \<times> string) list"
  hr_depths :: "(string \<times> int) list"

definition derive_hierarchy :: "json \<Rightarrow> json \<Rightarrow> hierarchy result" where
  "derive_hierarchy requirements policy =
     (ebind (items_get requirements ''site_hierarchy'') (\<lambda>raw.
        ebind (by_id raw) (\<lambda>nodes.
        ebind (unique_ids ''Duplicate hierarchy node id '' nodes []) (\<lambda>node_by_id.
        ebind (filterE (\<lambda>n. (ebind (str_get n ''type'' ''None'') (\<lambda>t.
            Inr (t = ''global'')))) nodes) (\<lambda>globals.
        ebind (raise_if (length globals \<noteq> 1)
           (AllocationError ''Site hierarchy requires exactly one global node'')) (\<lambda>_.
        ebind (mapE (node_parent node_by_id) nodes) (\<lambda>links.
        let parents = List.map_filter id links in
        ebind (depth_limit policy) (\<lambda>max_depth.
        ebind (str_at (hd globals) ''id'') (\<lambda>global_id.
        ebind (node_depths parents max_depth global_id (map fst node_by_id)) (\<lambda>depths.
        ebind (sort_by (\<lambda>n. (ebind (str_at n ''id'') (\<lambda>i.
            Inr (the (map_of depths i), i)))) nodes) (\<lambda>ordered.
        Inr \<lparr>hr_nodes = ordered, hr_by_id = node_by_id, hr_parents = parents, hr_depths = depths\<rparr>)))))))))))"

section \<open>Site profiles and fabric sites\<close>

fun site_profiles :: "json list \<Rightarrow> (string \<times> json) list \<Rightarrow> (string \<times> json) list result" where
  "site_profiles [] acc = Inr acc"
| "site_profiles (entry # xs) acc =
     (if \<not> truthy (field entry ''id'') then Inl (AllocationError ''Guardrail site profile is invalid'')
      else
        (let profile_id = py_str (field entry ''id'') in
         if map_of acc profile_id \<noteq> None
         then Inl (AllocationError (''Duplicate guardrail site profile '' @ profile_id))
         else site_profiles xs (acc @ [(profile_id, entry)])))"

text \<open>\<open>endpoints <= int(limit["max_endpoints"]) and aps <= int(limit["max_aps"])\<close>\<close>

definition fits_profile :: "json \<Rightarrow> int \<Rightarrow> int \<Rightarrow> bool result" where
  "fits_profile limit endpoints aps =
     (ebind (int_at limit ''max_endpoints'') (\<lambda>e.
        (if e < endpoints then Inr False
          else (ebind (int_at limit ''max_aps'') (\<lambda>a.
             Inr (aps \<le> a))))))"

fun first_profile :: "(string \<times> json) list \<Rightarrow> int \<Rightarrow> int \<Rightarrow> string option result" where
  "first_profile [] endpoints aps = Inr None"
| "first_profile ((i, limit) # ps) endpoints aps =
     (ebind (fits_profile limit endpoints aps) (\<lambda>ok.
        (if ok then Inr (Some i) else first_profile ps endpoints aps)))"

text \<open>The profile of a site: the smallest that fits, or the requested one when it fits.\<close>

definition select_profile :: "(string \<times> json) list \<Rightarrow> string \<Rightarrow> json \<Rightarrow> string result" where
  "select_profile profiles site_id raw =
     (ebind (int_at raw ''endpoint_count'') (\<lambda>endpoints.
        ebind (int_at raw ''ap_count'') (\<lambda>aps.
        ebind (first_profile profiles endpoints aps) (\<lambda>recommended.
        ebind (of_option (AllocationError (''Fabric site '' @ site_id @ '' exceeds the largest approved site profile''))
                recommended) (\<lambda>r.
        ebind (jget raw ''profile'') (\<lambda>wanted.
        let selected = py_str (jor wanted (JStr r)) in
        ebind (of_option (AllocationError (''Unknown site profile '' @ selected)) (map_of profiles selected)) (\<lambda>limit.
        ebind (fits_profile limit endpoints aps) (\<lambda>ok.
        ebind (raise_if (\<not> ok)
           (AllocationError (''Fabric site '' @ site_id @ '' exceeds selected profile '' @ selected))) (\<lambda>_.
        Inr selected)))))))))"

definition add_site ::
    "hierarchy \<Rightarrow> (string \<times> json) list \<Rightarrow> (string \<times> json) list \<times> string list \<Rightarrow> json
       \<Rightarrow> ((string \<times> json) list \<times> string list) result" where
  "add_site hr profiles acc raw =
     (ebind (str_get raw ''id'' []) (\<lambda>site_id.
        ebind (raise_if (map_of (fst acc) site_id \<noteq> None) (AllocationError (''Duplicate fabric site id '' @ site_id))) (\<lambda>_.
        ebind (str_get raw ''hierarchy_node_id'' []) (\<lambda>node_id.
        ebind (of_option
           (AllocationError (''Fabric site '' @ site_id @ '' references an unknown hierarchy node''))
           (map_of (hr_by_id hr) node_id)) (\<lambda>node.
        ebind (str_at node ''type'') (\<lambda>t.
        ebind (raise_if (t = ''global'') (AllocationError ''A fabric site cannot be attached to the global node'')) (\<lambda>_.
        ebind (raise_if (node_id \<in> set (snd acc))
           (AllocationError (''Hierarchy node '' @ node_id @ '' is already assigned to a fabric site''))) (\<lambda>_.
        ebind (select_profile profiles site_id raw) (\<lambda>selected.
        ebind (items_of raw) (\<lambda>kvs.
        let site = JObj (set_field ''profile'' (JStr selected) kvs) in
        Inr (fst acc @ [(site_id, site)], snd acc @ [node_id])))))))))))"

definition derive_sites :: "json \<Rightarrow> json \<Rightarrow> hierarchy \<Rightarrow> string \<Rightarrow> (string \<times> json) list result" where
  "derive_sites requirements policy hr deployment_model =
     (ebind (items_get policy ''site_profiles'') (\<lambda>raw_profiles.
        ebind (site_profiles raw_profiles []) (\<lambda>profiles.
        ebind (raise_if (profiles = []) (AllocationError ''Guardrail site profiles are missing'')) (\<lambda>_.
        ebind (items_get requirements ''fabric_sites'') (\<lambda>raw.
        ebind (by_id raw) (\<lambda>sorted_raw.
        ebind (foldE (add_site hr profiles) ([], []) sorted_raw) (\<lambda>(sites, nodes).
        ebind (raise_if (deployment_model = ''single_site'' \<and> length sites \<noteq> 1)
           (AllocationError ''single_site deployment requires exactly one fabric site'')) (\<lambda>_.
        ebind (raise_if (deployment_model = ''distributed_campus'' \<and> length sites < 2)
           (AllocationError ''distributed_campus requires at least two fabric sites'')) (\<lambda>_.
        Inr sites)))))))))"

section \<open>References to sites\<close>

definition check_device_site :: "string list \<Rightarrow> json \<Rightarrow> unit result" where
  "check_device_site site_ids device =
     (ebind (str_get device ''site'' []) (\<lambda>s.
        ebind (jget_default device ''id'' (JStr [])) (\<lambda>i.
        raise_if (s \<notin> set site_ids)
           (AllocationError (''Device '' @ py_str i @ '' references an unknown fabric site'')))))"

definition check_vn_sites :: "string list \<Rightarrow> json \<Rightarrow> unit result" where
  "check_vn_sites site_ids vn =
     (ebind (items_get vn ''sites'') (\<lambda>sites.
        foldE (\<lambda>_ site.
             (ebind (str_get site ''site'' []) (\<lambda>s.
                ebind (jget_default vn ''name'' (JStr [])) (\<lambda>n.
                raise_if (s \<notin> set site_ids)
                   (AllocationError (''Virtual network '' @ py_str n @ '' references an unknown fabric site''))))))
           () sites))"

section \<open>Fabric zones\<close>

function is_descendant ::
    "(string \<times> string) list \<Rightarrow> string \<Rightarrow> string \<Rightarrow> string list \<Rightarrow> bool" where
  "is_descendant parents cursor ancestor visited =
     (if cursor = ancestor then True
      else if cursor \<in> set visited then False
      else case map_of parents cursor of
          None \<Rightarrow> False
        | Some p \<Rightarrow> is_descendant parents p ancestor (cursor # visited))"
  by auto
termination
proof (relation "measure (\<lambda>(parents, cursor, ancestor, visited). card (set (map fst parents) - set visited))")
  fix parents :: "(string \<times> string) list" and cursor ancestor visited p
  assume "cursor \<notin> set visited" and "map_of parents cursor = Some p"
  then have "cursor \<in> set (map fst parents) - set visited" by (force dest: map_of_SomeD)
  then have "card (set (map fst parents) - set (cursor # visited)) < card (set (map fst parents) - set visited)"
    by (intro psubset_card_mono) auto
  then show "((parents, p, ancestor, cursor # visited), (parents, cursor, ancestor, visited))
      \<in> measure (\<lambda>(parents, cursor, ancestor, visited). card (set (map fst parents) - set visited))" by simp
qed simp

declare climb.simps [simp del] is_descendant.simps [simp del]

definition add_zone ::
    "hierarchy \<Rightarrow> (string \<times> json) list \<Rightarrow> string list \<Rightarrow> (string \<times> json) list \<Rightarrow> json
       \<Rightarrow> (string \<times> json) list result" where
  "add_zone hr sites vn_names acc raw =
     (ebind (str_get raw ''id'' []) (\<lambda>zone_id.
        ebind (raise_if (map_of acc zone_id \<noteq> None) (AllocationError (''Duplicate fabric zone id '' @ zone_id))) (\<lambda>_.
        ebind (str_get raw ''fabric_site_id'' []) (\<lambda>site_id.
        ebind (str_get raw ''hierarchy_node_id'' []) (\<lambda>node_id.
        ebind (of_option (AllocationError (''Fabric zone '' @ zone_id @ '' references an unknown site''))
                   (map_of sites site_id)) (\<lambda>site.
        ebind (raise_if (map_of (hr_by_id hr) node_id = None)
           (AllocationError (''Fabric zone '' @ zone_id @ '' references an unknown hierarchy node''))) (\<lambda>_.
        ebind (str_at site ''hierarchy_node_id'') (\<lambda>site_node.
        ebind (raise_if (\<not> is_descendant (hr_parents hr) node_id site_node [])
           (AllocationError (''Fabric zone '' @ zone_id @ '' is outside its fabric site hierarchy''))) (\<lambda>_.
        ebind (strs_at raw ''virtual_networks'') (\<lambda>vns.
        let unknown_vns = sorted_diff vns vn_names in
        ebind (refuse unknown_vns
           (\<lambda>x. AllocationError (''Fabric zone '' @ zone_id @ '' references unknown virtual network '' @ x))) (\<lambda>_.
        ebind (items_of raw) (\<lambda>kvs.
        let zone = JObj (set_field ''virtual_networks'' (jstrs (sort vns)) kvs) in
        Inr (acc @ [(zone_id, zone)])))))))))))))"

section \<open>The whole context\<close>

text \<open>The keys the context adds to the intent; none for a schema 1.0 document without a context.\<close>

definition has_site_context :: "json \<Rightarrow> bool result" where
  "has_site_context requirements =
     (ebind (mapE (\<lambda>k. contains_key k requirements)
           [''deployment_model'', ''site_hierarchy'', ''fabric_sites'', ''fabric_zones'']) (\<lambda>bs.
        Inr (list_ex id bs)))"

definition derive_site_context :: "json \<Rightarrow> json \<Rightarrow> (string \<times> json) list result" where
  "derive_site_context requirements policy =
     (ebind (str_get requirements ''schema_version'' []) (\<lambda>schema_version.
        ebind (has_site_context requirements) (\<lambda>has_context.
        (if schema_version = ''1.0'' \<and> \<not> has_context then Inr []
          else
            (ebind (raise_if (schema_version \<noteq> ''1.1'' \<and> schema_version \<noteq> ''1.2'')
                  (AllocationError ''CVD site context requires requirements schema_version 1.1 or 1.2'')) (\<lambda>_.
               ebind (str_get requirements ''deployment_model'' []) (\<lambda>deployment_model.
               ebind (items_get policy ''deployment_models'') (\<lambda>models.
               ebind (py_set models) (\<lambda>allowed_models.
               ebind (raise_if (JStr deployment_model \<notin> set allowed_models)
                  (AllocationError (''Deployment model '' @ deployment_model @ '' is not approved by guardrails''))) (\<lambda>_.
               ebind (derive_hierarchy requirements policy) (\<lambda>hr.
               ebind (derive_sites requirements policy hr deployment_model) (\<lambda>sites.
               ebind (items_get requirements ''devices'') (\<lambda>devices.
               ebind (foldE (\<lambda>_. check_device_site (map fst sites)) () devices) (\<lambda>_.
               ebind (items_get requirements ''virtual_networks'') (\<lambda>vns.
               ebind (mapE (\<lambda>v. str_get v ''name'' []) vns) (\<lambda>vn_names.
               ebind (foldE (\<lambda>_. check_vn_sites (map fst sites)) () vns) (\<lambda>_.
               ebind (items_get requirements ''fabric_zones'') (\<lambda>raw_zones.
               ebind (by_id raw_zones) (\<lambda>sorted_zones.
               ebind (foldE (add_zone hr sites vn_names) [] sorted_zones) (\<lambda>zones.
               Inr [(''deployment_model'', JStr deployment_model), (''site_hierarchy'', JArr (hr_nodes hr)),
                     (''fabric_sites'', JArr (map snd sites)), (''fabric_zones'', JArr (map snd zones))]))))))))))))))))))))"

end
