(* ===== verification/HostPrefix.thy ===== *)
theory HostPrefix
  imports Complex_Main AllocCore
begin

text \<open>
  \<open>_host_prefix\<close>: how large an endpoint prefix a number of users needs. The source computes
  \<open>ceil(users * (1.0 + headroom_percent / 100.0))\<close> in double precision, so the rounding of every
  operation is written out: a double is the fraction nearest to the exact result with 53
  significant bits, ties to the even one. The rounding is shown to cost at most one host, the
  loop to stop at the smallest prefix that holds the hosts.
\<close>

section \<open>Double precision\<close>

definition round_half_even :: "nat \<Rightarrow> nat \<Rightarrow> nat" where
  "round_half_even a b =
     (let q = a div b; r = a mod b in
      if 2 * r < b then q else if b < 2 * r then q + 1 else q + q mod 2)"

fun bit_len :: "nat \<Rightarrow> nat" where
  "bit_len n = (if n = 0 then 0 else Suc (bit_len (n div 2)))"

declare bit_len.simps [simp del]

text \<open>
  \<open>fl (p, q)\<close> is the double nearest to \<open>p / q\<close>, as a fraction. \<open>s\<close> is the exponent of its last
  bit: \<open>2^52 \<le> p / (q 2^s) < 2^53\<close>. Doubles below \<open>2^1024\<close> are meant; \<open>to_double\<close> raises beyond.
\<close>

type_synonym fraction = "nat \<times> nat"

definition fl_shift :: "nat \<Rightarrow> nat \<Rightarrow> int" where
  "fl_shift p q =
     (let d = int (bit_len p) - int (bit_len q) in
      (if q * 2 ^ nat d \<le> p * 2 ^ nat (- d) then d else d - 1) - 52)"

definition fl :: "fraction \<Rightarrow> fraction" where
  "fl x =
     (let p = fst x; q = snd x; s = fl_shift p q in
      if p = 0 then (0, 1)
      else (round_half_even (p * 2 ^ nat (- s)) (q * 2 ^ nat s) * 2 ^ nat s, 2 ^ nat (- s)))"

definition frac_add :: "fraction \<Rightarrow> fraction \<Rightarrow> fraction" where
  "frac_add x y = (fst x * snd y + fst y * snd x, snd x * snd y)"

definition frac_mul :: "fraction \<Rightarrow> fraction \<Rightarrow> fraction" where
  "frac_mul x y = (fst x * fst y, snd x * snd y)"

definition frac_ceil :: "fraction \<Rightarrow> nat" where
  "frac_ceil x = (fst x + snd x - 1) div snd x"

definition to_double :: "fraction \<Rightarrow> fraction result" where
  "to_double x = (let y = fl x in if 2 ^ 1024 * snd y \<le> fst y then Inl OverflowError else Inr y)"

section \<open>The definition\<close>

text \<open>\<open>int(math.ceil(users * (1.0 + headroom_percent / 100.0)))\<close>\<close>

definition required_hosts :: "nat \<Rightarrow> nat \<Rightarrow> nat result" where
  "required_hosts users headroom =
     (let factor = fl (frac_add (1, 1) (fl (headroom, 100))) in
      (ebind (to_double (users, 1)) (\<lambda>u.
         ebind (to_double (frac_mul u factor)) (\<lambda>r.
         Inr (frac_ceil r)))))"

text \<open>\<open>while (2 ** host_bits) - 2 < required: host_bits += 1\<close>\<close>

function host_bits :: "nat \<Rightarrow> nat \<Rightarrow> nat" where
  "host_bits required b = (if 2 ^ b - 2 < required then host_bits required (Suc b) else b)"
  by auto
termination
proof (relation "measure (\<lambda>(r, b). Suc r - b)")
  fix r b :: nat
  assume "2 ^ b - 2 < r"
  moreover have "b < 2 ^ b" by (rule less_exp)
  ultimately have "b < Suc r" by linarith
  then show "((r, Suc b), (r, b)) \<in> measure (\<lambda>(r, b). Suc r - b)" by simp
qed simp

declare host_bits.simps [simp del]

definition host_prefix :: "int \<Rightarrow> int \<Rightarrow> nat \<Rightarrow> int result" where
  "host_prefix users headroom_percent supernet_prefix =
     (ebind (raise_if (users < 1) (AllocationError ''users must be at least 1'')) (\<lambda>_.
        ebind (raise_if (headroom_percent < 0 \<or> 500 < headroom_percent)
           (AllocationError ''headroom_percent must be between 0 and 500'')) (\<lambda>_.
        ebind (required_hosts (nat users) (nat headroom_percent)) (\<lambda>required.
        let prefix = 32 - int (host_bits required 2) in
        ebind (raise_if (prefix < int supernet_prefix)
           (AllocationError (''Overlay requirement of '' @ nat_str required
              @ '' usable hosts exceeds its supernet''))) (\<lambda>_.
        Inr prefix)))))"

section \<open>Rounding costs at most one part in \<open>2^53\<close>\<close>

definition val :: "fraction \<Rightarrow> real" where
  "val x = real (fst x) / real (snd x)"

lemma round_half_even_error:
  assumes "0 < b"
  shows "\<bar>real (round_half_even a b) - real a / real b\<bar> \<le> 1 / 2"
proof -
  have e: "real a / real b = real (a div b) + real (a mod b) / real b"
  proof -
    have "real a = real (a div b * b + a mod b)" by simp
    also have "\<dots> = real (a div b) * real b + real (a mod b)" by (simp only: of_nat_add of_nat_mult)
    finally have "real a / real b = (real (a div b) * real b + real (a mod b)) / real b" by (rule arg_cong)
    then show ?thesis using assms by (simp add: add_divide_distrib)
  qed
  have m: "real (a mod b) < real b" using assms by simp
  have le: "2 * real (a mod b) \<le> real b \<longleftrightarrow> 2 * (a mod b) \<le> b" by linarith
  show ?thesis
  proof (cases "2 * (a mod b) < b")
    case True
    then show ?thesis using assms unfolding e round_half_even_def Let_def by (simp add: field_simps)
  next
    case ge: False
    show ?thesis
    proof (cases "b < 2 * (a mod b)")
      case True
      then show ?thesis using ge m assms unfolding e round_half_even_def Let_def by (simp add: field_simps)
    next
      case False
      then have h: "real (a mod b) / real b = 1 / 2" using ge assms by (simp add: field_simps)
      have "a div b mod 2 = 0 \<or> a div b mod 2 = 1" by linarith
      then show ?thesis using ge False unfolding e h round_half_even_def Let_def by auto
    qed
  qed
qed

lemma bit_len_bounds: "0 < n \<Longrightarrow> 2 ^ (bit_len n - 1) \<le> n \<and> n < 2 ^ bit_len n \<and> 0 < bit_len n"
proof (induction n rule: bit_len.induct)
  case (1 n)
  show ?case
  proof (cases "n div 2 = 0")
    case True
    with 1 have "n = 1" by auto
    then show ?thesis by (simp add: bit_len.simps)
  next
    case False
    with 1 have IH: "2 ^ (bit_len (n div 2) - 1) \<le> n div 2" "n div 2 < 2 ^ bit_len (n div 2)"
      "0 < bit_len (n div 2)" by auto
    have b: "bit_len n = Suc (bit_len (n div 2))" using 1 by (subst bit_len.simps) simp
    have "(2 :: nat) ^ bit_len (n div 2) = 2 * 2 ^ (bit_len (n div 2) - 1)"
      using IH(3) by (cases "bit_len (n div 2)") auto
    then have "2 * 2 ^ (bit_len (n div 2) - 1) \<le> n" "n < 2 * 2 ^ bit_len (n div 2)"
      using IH by linarith+
    then show ?thesis using IH(3) \<open>2 ^ bit_len (n div 2) = _\<close> unfolding b by simp
  qed
qed

lemma pow2_shift: "real (2 ^ nat s) / real (2 ^ nat (- s)) = 2 powr real_of_int s"
proof (cases "0 \<le> s")
  case True
  then show ?thesis by (simp add: powr_realpow [symmetric])
next
  case False
  then show ?thesis by (simp add: powr_realpow [symmetric] powr_minus divide_inverse)
qed

lemma fl_shift_lower:
  assumes p: "0 < p" and q: "0 < q"
  shows "2 ^ 52 * 2 powr real_of_int (fl_shift p q) \<le> real p / real q"
proof -
  define d where "d = int (bit_len p) - int (bit_len q)"
  have split52: "2 ^ 52 * 2 powr real_of_int (x - 52) = 2 powr real_of_int x" for x
    by (simp add: powr_diff)
  have test: "q * 2 ^ nat d \<le> p * 2 ^ nat (- d) \<longleftrightarrow> 2 powr real_of_int d \<le> real p / real q"
  proof -
    have "q * 2 ^ nat d \<le> p * 2 ^ nat (- d) \<longleftrightarrow> real (q * 2 ^ nat d) \<le> real (p * 2 ^ nat (- d))"
      by (simp only: of_nat_le_iff)
    also have "\<dots> \<longleftrightarrow> real (2 ^ nat d) / real (2 ^ nat (- d)) \<le> real p / real q"
      using q by (simp add: field_simps)
    finally show ?thesis by (simp only: pow2_shift)
  qed
  have lower: "2 powr real_of_int (d - 1) \<le> real p / real q"
  proof -
    have "2 powr real_of_int (d - 1) = 2 powr real (bit_len p - 1) / 2 powr real (bit_len q)"
      using bit_len_bounds [OF p] by (simp add: d_def powr_diff [symmetric] of_nat_diff algebra_simps)
    also have "\<dots> = real (2 ^ (bit_len p - 1)) / real (2 ^ bit_len q)"
      by (simp only: powr_realpow of_nat_power of_nat_numeral zero_less_numeral)
    also have "\<dots> \<le> real p / real q"
    proof (rule frac_le)
      show "real (2 ^ (bit_len p - 1)) \<le> real p" using bit_len_bounds [OF p] by (simp only: of_nat_le_iff)
      show "real q \<le> real (2 ^ bit_len q)" using bit_len_bounds [OF q] by (simp only: of_nat_le_iff less_imp_le)
    qed (use q in auto)
    finally show ?thesis .
  qed
  show ?thesis
  proof (cases "q * 2 ^ nat d \<le> p * 2 ^ nat (- d)")
    case True
    then have "fl_shift p q = d - 52" by (simp add: fl_shift_def d_def Let_def)
    then show ?thesis using True test split52 [of d] by (simp del: of_int_diff)
  next
    case False
    then have "fl_shift p q = (d - 1) - 52" by (simp add: fl_shift_def d_def Let_def)
    then show ?thesis using lower split52 [of "d - 1"] by (simp del: of_int_diff)
  qed
qed

lemma fl_pos: "0 < snd (fl x)"
  by (simp add: fl_def Let_def)

lemma fl_error:
  assumes q: "0 < snd x"
  shows "\<bar>val (fl x) - val x\<bar> \<le> val x / 2 ^ 53"
proof (cases "fst x = 0")
  case True
  then show ?thesis by (simp add: fl_def val_def)
next
  case False
  define p q s where "p = fst x" and "q = snd x" and "s = fl_shift p q"
  define a b where "a = p * 2 ^ nat (- s)" and "b = q * 2 ^ nat s"
  have pos: "0 < p" "0 < q" "0 < b" using False q by (auto simp: p_def q_def b_def)
  define u where "u = 2 powr real_of_int s"
  have u: "0 < u" by (simp add: u_def)
  have shift: "(2 :: real) ^ nat s = u * 2 ^ nat (- s)"
    using pow2_shift [of s] by (simp add: u_def field_simps)
  have v: "val x = real a / real b * u"
    using pos u by (simp add: val_def p_def q_def a_def b_def shift)
  have w: "val (fl x) = real (round_half_even a b) * u"
    using False by (simp add: fl_def Let_def val_def p_def q_def s_def a_def b_def shift [unfolded s_def p_def q_def])
  have "\<bar>val (fl x) - val x\<bar> = \<bar>real (round_half_even a b) - real a / real b\<bar> * u"
    unfolding v w left_diff_distrib [symmetric] abs_mult using u by simp
  also have "\<dots> \<le> 1 / 2 * u"
    by (rule mult_right_mono [OF round_half_even_error [OF pos(3)]]) (use u in simp)
  also have "\<dots> \<le> val x / 2 ^ 53"
    using fl_shift_lower [OF pos(1,2)] by (simp add: val_def p_def q_def u_def s_def)
  finally show ?thesis .
qed

text \<open>A number with at most 53 significant bits is a double: it is not rounded.\<close>

lemma fl_exact:
  assumes q: "0 < snd x" and v: "val x = real m / 2 ^ j" and m: "m < 2 ^ 53"
  shows "val (fl x) = val x"
proof (cases "fst x = 0")
  case True
  then show ?thesis by (simp add: fl_def val_def)
next
  case False
  define p q s where "p = fst x" and "q = snd x" and "s = fl_shift p q"
  define a b where "a = p * 2 ^ nat (- s)" and "b = q * 2 ^ nat s"
  have pos: "0 < p" "0 < q" "0 < b" using False q by (auto simp: p_def q_def b_def)
  define u where "u = 2 powr real_of_int s"
  have u: "0 < u" by (simp add: u_def)
  have shift: "(2 :: real) ^ nat s = u * 2 ^ nat (- s)"
    using pow2_shift [of s] by (simp add: u_def field_simps)
  have vx: "val x = real a / real b * u"
    using pos u by (simp add: val_def p_def q_def a_def b_def shift)
  have w: "val (fl x) = real (round_half_even a b) * u"
    using False by (simp add: fl_def Let_def val_def p_def q_def s_def a_def b_def shift [unfolded s_def p_def q_def])
  have "2 ^ 52 * u \<le> real m / 2 ^ j"
    using fl_shift_lower [OF pos(1,2)] v by (simp add: val_def p_def q_def u_def s_def)
  also have "\<dots> < 2 ^ 53 / 2 ^ j"
    using m by (intro divide_strict_right_mono) (simp_all flip: of_nat_less_iff)
  finally have "u < 2 / 2 ^ j" by simp
  also have "\<dots> = 2 powr (1 - real j)" by (simp add: powr_diff powr_realpow)
  finally have "real_of_int s < 1 - real j" unfolding u_def by simp
  then have s: "s \<le> - int j" by linarith
  define n where "n = m * 2 ^ nat (- s - int j)"
  have "1 / u = 2 ^ nat (- s)"
    using s by (simp add: u_def powr_realpow [symmetric] powr_minus field_simps flip: powr_add)
  moreover have "nat (- s) = j + nat (- s - int j)" using s by simp
  ultimately have e: "1 / u = 2 ^ j * 2 ^ nat (- s - int j)" by (simp add: power_add)
  have "real a / real b = val x * (1 / u)" unfolding vx using u by simp
  also have "\<dots> = real n" unfolding v e n_def by simp
  finally have "real a = real (n * b)" using pos(3) by (simp add: field_simps)
  then have "a = n * b" by (simp only: of_nat_eq_iff)
  then have "round_half_even a b = n" using pos(3) by (simp add: round_half_even_def)
  moreover have "real a / real b = real n" using \<open>a = n * b\<close> pos(3) by simp
  ultimately show ?thesis unfolding w vx by simp
qed

section \<open>The demand and the prefix\<close>

lemma val_nonneg [simp]: "0 \<le> val x"
  by (simp add: val_def)

lemma val_frac_add: "0 < snd x \<Longrightarrow> 0 < snd y \<Longrightarrow> val (frac_add x y) = val x + val y"
  by (simp add: val_def frac_add_def add_divide_distrib)

lemma val_frac_mul: "val (frac_mul x y) = val x * val y"
  by (simp add: val_def frac_mul_def)

lemma fl_upper: "0 < snd x \<Longrightarrow> val (fl x) \<le> val x * (1 + 1 / 2 ^ 53)"
  using fl_error [of x] unfolding distrib_left abs_le_iff by simp

lemma fl_lower: "0 < snd x \<Longrightarrow> val x * (1 - 1 / 2 ^ 53) \<le> val (fl x)"
  using fl_error [of x] unfolding right_diff_distrib abs_le_iff by simp

lemma frac_ceil_bounds:
  assumes "0 < snd x"
  shows "val x \<le> real (frac_ceil x)" and "real (frac_ceil x) < val x + 1"
proof -
  define p q n where "p = fst x" and "q = snd x" and "n = frac_ceil x"
  have q: "0 < q" using assms by (simp add: q_def)
  have d: "p + q - 1 = n * q + (p + q - 1) mod q" "(p + q - 1) mod q < q"
    using q by (simp_all add: n_def frac_ceil_def p_def q_def)
  have "p \<le> n * q" "n * q < p + q" using d q by linarith+
  then have "real p \<le> real n * real q" "real n * real q < real p + real q"
    by (simp_all flip: of_nat_mult of_nat_add)
  then show "val x \<le> real (frac_ceil x)" "real (frac_ceil x) < val x + 1"
    using q by (simp_all add: val_def p_def q_def n_def field_simps)
qed

text \<open>The product the source computes, before the ceiling.\<close>

definition demand :: "nat \<Rightarrow> nat \<Rightarrow> fraction" where
  "demand users headroom =
     fl (frac_mul (fl (users, 1)) (fl (frac_add (1, 1) (fl (headroom, 100)))))"

lemma demand_bounds:
  shows "val (demand users h) \<le> real users * (1 + real h / 100) * (1 + 1 / 2 ^ 53) ^ 4"
    and "real users * (1 + real h / 100) * (1 - 1 / 2 ^ 53) ^ 4 \<le> val (demand users h)"
proof -
  define e :: real where "e = 1 / 2 ^ 53"
  have e: "0 \<le> e" "e \<le> 1" by (simp_all add: e_def)
  define a f u where "a = val (fl (h, 100))" and "f = val (fl (frac_add (1, 1) (fl (h, 100))))"
    and "u = val (fl (users, 1))"
  have nn: "0 \<le> a" "0 \<le> f" "0 \<le> u" by (simp_all add: a_def f_def u_def)
  have a: "a \<le> real h / 100 * (1 + e)" "real h / 100 * (1 - e) \<le> a"
    using fl_upper [of "(h, 100)"] fl_lower [of "(h, 100)"] by (simp_all add: a_def val_def e_def)
  have u: "u \<le> real users * (1 + e)" "real users * (1 - e) \<le> u"
    using fl_upper [of "(users, 1)"] fl_lower [of "(users, 1)"] by (simp_all add: u_def val_def e_def)
  have one: "val (frac_add (1, 1) (fl (h, 100))) = 1 + a"
    by (simp add: val_frac_add fl_pos a_def) (simp add: val_def)
  have sp: "0 < snd (frac_add (1, 1) (fl (h, 100)))" by (simp add: frac_add_def fl_pos)
  have f: "f \<le> (1 + a) * (1 + e)" "(1 + a) * (1 - e) \<le> f"
    using fl_upper [OF sp] fl_lower [OF sp] by (simp_all only: f_def one e_def)
  define m where "m = frac_mul (fl (users, 1)) (fl (frac_add (1, 1) (fl (h, 100))))"
  have mv: "val m = u * f" unfolding m_def val_frac_mul u_def f_def by (rule refl)
  have mp: "0 < snd m" by (simp add: m_def frac_mul_def fl_pos)
  have dm: "demand users h = fl m" unfolding demand_def m_def by (rule refl)
  have d: "val (demand users h) \<le> u * f * (1 + e)" "u * f * (1 - e) \<le> val (demand users h)"
    using fl_upper [OF mp] fl_lower [OF mp] by (simp_all only: dm mv e_def)
  have h: "0 \<le> real h / 100" by simp
  have f1: "f \<le> (1 + real h / 100) * (1 + e) ^ 2"
  proof -
    have "1 + a \<le> (1 + real h / 100) * (1 + e)" unfolding distrib_right [of 1] mult_1
      by (rule add_mono [OF _ a(1)]) (use e in simp)
    then have "(1 + a) * (1 + e) \<le> (1 + real h / 100) * (1 + e) * (1 + e)"
      by (rule mult_right_mono) (use e in simp)
    then show ?thesis using f(1) by (simp add: power2_eq_square mult.assoc)
  qed
  have f2: "(1 + real h / 100) * (1 - e) ^ 2 \<le> f"
  proof -
    have "(1 + real h / 100) * (1 - e) \<le> 1 + a" unfolding distrib_right [of 1] mult_1
      by (rule add_mono [OF _ a(2)]) (use e in simp)
    then have "(1 + real h / 100) * (1 - e) * (1 - e) \<le> (1 + a) * (1 - e)"
      by (rule mult_right_mono) (use e in simp)
    then show ?thesis using f(2) by (simp add: power2_eq_square mult.assoc)
  qed
  have "u * f \<le> real users * (1 + e) * ((1 + real h / 100) * (1 + e) ^ 2)"
    by (rule mult_mono [OF u(1) f1]) (use e nn in auto)
  then have "u * f * (1 + e) \<le> real users * (1 + e) * ((1 + real h / 100) * (1 + e) ^ 2) * (1 + e)"
    by (rule mult_right_mono) (use e in simp)
  also have "\<dots> = real users * (1 + real h / 100) * (1 + e) ^ 4"
    by (simp add: power2_eq_square power4_eq_xxxx)
  finally show "val (demand users h) \<le> real users * (1 + real h / 100) * (1 + 1 / 2 ^ 53) ^ 4"
    using d(1) by (simp add: e_def)
  have "real users * (1 - e) * ((1 + real h / 100) * (1 - e) ^ 2) \<le> u * f"
    by (rule mult_mono [OF u(2) f2]) (use e nn in auto)
  then have "real users * (1 - e) * ((1 + real h / 100) * (1 - e) ^ 2) * (1 - e) \<le> u * f * (1 - e)"
    by (rule mult_right_mono) (use e in simp)
  also have "real users * (1 - e) * ((1 + real h / 100) * (1 - e) ^ 2) * (1 - e)
      = real users * (1 + real h / 100) * (1 - e) ^ 4"
    by (simp add: power2_eq_square power4_eq_xxxx)
  finally have lo: "real users * (1 + real h / 100) * (1 - e) ^ 4 \<le> u * f * (1 - e)" .
  show "real users * (1 + real h / 100) * (1 - 1 / 2 ^ 53) ^ 4 \<le> val (demand users h)"
    using order_trans [OF lo d(2)] by (simp only: e_def)
qed

lemma demand_error:
  assumes "users \<le> 16777214" and "h \<le> 500"
  shows "\<bar>val (demand users h) - real (users * (100 + h)) / 100\<bar> < 1 / 200"
proof -
  define x where "x = real users * (1 + real h / 100)"
  have x: "x = real (users * (100 + h)) / 100" by (simp add: x_def field_simps)
  have "real users \<le> 16777214" "real h \<le> 500" using assms by simp_all
  then have "x \<le> 16777214 * 6" unfolding x_def by (intro mult_mono) auto
  moreover have "0 \<le> x" by (simp add: x_def)
  moreover have "val (demand users h) \<le> x * (1 + 5 / 2 ^ 53)"
    using demand_bounds(1) [of users h] \<open>0 \<le> x\<close> unfolding x_def [symmetric]
    by (elim order_trans) (rule mult_left_mono, simp_all add: power_divide)
  moreover have "x * (1 - 5 / 2 ^ 53) \<le> val (demand users h)"
    using demand_bounds(2) [of users h] \<open>0 \<le> x\<close> unfolding x_def [symmetric]
    by (elim order_trans [rotated]) (rule mult_left_mono, simp_all add: power_divide)
  ultimately have "\<bar>val (demand users h) - x\<bar> < 1 / 200"
    unfolding abs_less_iff by (simp add: algebra_simps)
  then show ?thesis by (simp only: x)
qed

lemma to_double_small: "0 < snd x \<Longrightarrow> val x < 2 ^ 1000 \<Longrightarrow> to_double x = Inr (fl x)"
proof -
  assume x: "0 < snd x" "val x < 2 ^ 1000"
  have "val x * (1 + 1 / 2 ^ 53) \<le> 2 ^ 1000 * (1 + 1 / 2 ^ 53)"
    by (rule mult_right_mono) (use x in simp_all)
  also have "(2 :: real) ^ 1000 * (1 + 1 / 2 ^ 53) < 2 ^ 1024" by simp
  finally have "val (fl x) < 2 ^ 1024" using fl_upper [OF x(1)] by simp
  then have "real (fst (fl x)) < real (2 ^ 1024 * snd (fl x))"
    using fl_pos [of x] by (simp add: val_def field_simps)
  then have "fst (fl x) < 2 ^ 1024 * snd (fl x)" by (simp only: of_nat_less_iff)
  then show ?thesis by (simp add: to_double_def)
qed

lemma required_hosts_demand:
  assumes "users \<le> 16777214" and "h \<le> 500"
  shows "required_hosts users h = Inr (frac_ceil (demand users h))"
proof -
  have big: "(16777214 :: real) < 2 ^ 1000" "(16777214 * 12 :: real) < 2 ^ 1000" by simp_all
  have "val (users, 1) \<le> 16777214" using assms by (simp add: val_def)
  then have a: "to_double (users, 1) = Inr (fl (users, 1))"
    using big by (intro to_double_small) simp_all
  define m where "m = frac_mul (fl (users, 1)) (fl (frac_add (1, 1) (fl (h, 100))))"
  have mp: "0 < snd m" by (simp add: m_def frac_mul_def fl_pos)
  have "val m * (1 - 1 / 2 ^ 53) \<le> val (demand users h)"
    using fl_lower [OF mp] by (simp add: demand_def m_def)
  moreover have "val (demand users h) < 16777214 * 6 + 1"
  proof -
    have "real (users * (100 + h)) \<le> real (16777214 * 600)"
      using assms by (simp only: of_nat_le_iff) (rule mult_mono, simp_all)
    then show ?thesis using demand_error [OF assms] unfolding abs_less_iff by simp
  qed
  ultimately have "val m < 16777214 * 12" by (simp add: field_simps)
  then have "to_double m = Inr (fl m)" using big mp by (intro to_double_small) simp_all
  then show ?thesis using a by (simp add: required_hosts_def Let_def demand_def m_def)
qed

lemma required_hosts_bounds:
  assumes "users \<le> 16777214" and "h \<le> 500"
  obtains r where "required_hosts users h = Inr r"
    and "users * (100 + h) \<le> 100 * r" and "100 * r \<le> users * (100 + h) + 100"
proof (rule that)
  let ?r = "frac_ceil (demand users h)"
  show "required_hosts users h = Inr ?r" by (rule required_hosts_demand [OF assms])
  have p: "0 < snd (demand users h)" by (simp add: demand_def fl_pos)
  note b = frac_ceil_bounds [OF p]
  have "real (users * (100 + h)) < real (100 * ?r + 1)"
    using b(1) demand_error [OF assms] unfolding abs_less_iff by simp
  then show "users * (100 + h) \<le> 100 * ?r" unfolding of_nat_less_iff by simp
  have "real (100 * ?r) < real (users * (100 + h) + 101)"
    using b(2) demand_error [OF assms] unfolding abs_less_iff by simp
  then show "100 * ?r \<le> users * (100 + h) + 100" unfolding of_nat_less_iff by simp
qed

text \<open>Without rounding when a percent of the headroom is a multiple of a quarter.\<close>

lemma required_hosts_exact:
  assumes "users \<le> 16777214" and "h \<le> 500" and "25 dvd h"
  shows "required_hosts users h = Inr ((users * (100 + h) + 99) div 100)"
proof -
  from assms(3) obtain k where k: "h = 25 * k" by (auto simp: dvd_def)
  with assms(2) have k20: "k \<le> 20" by simp
  have a: "val (fl (h, 100)) = real k / 2 ^ 2"
    using fl_exact [of "(h, 100)" k 2] k20 by (simp add: val_def k)
  have f: "val (fl (frac_add (1, 1) (fl (h, 100)))) = real (4 + k) / 2 ^ 2"
  proof -
    have "val (frac_add (1, 1) (fl (h, 100))) = real (4 + k) / 2 ^ 2"
      by (simp add: val_frac_add fl_pos a) (simp add: val_def field_simps)
    then show ?thesis using fl_exact [of "frac_add (1, 1) (fl (h, 100))" "4 + k" 2] k20
      by (simp add: frac_add_def fl_pos)
  qed
  have u: "val (fl (users, 1)) = real users"
    using fl_exact [of "(users, 1)" users 0] assms(1) by (simp add: val_def)
  have d: "val (demand users h) = real (users * (4 + k)) / 2 ^ 2"
  proof -
    have "users * (4 + k) \<le> 16777214 * 24" by (intro mult_mono) (use assms(1) k20 in auto)
    then have "users * (4 + k) < 2 ^ 53" by simp
    moreover have "val (frac_mul (fl (users, 1)) (fl (frac_add (1, 1) (fl (h, 100))))) = real (users * (4 + k)) / 2 ^ 2"
      unfolding val_frac_mul u f by simp
    ultimately show ?thesis unfolding demand_def
      using fl_exact [of "frac_mul (fl (users, 1)) (fl (frac_add (1, 1) (fl (h, 100))))" "users * (4 + k)" 2]
      by (simp add: frac_mul_def fl_pos)
  qed
  define r where "r = frac_ceil (demand users h)"
  have "0 < snd (demand users h)" by (simp add: demand_def fl_pos)
  note b = frac_ceil_bounds [OF this, folded r_def, unfolded d]
  from b(1) have "real (users * (4 + k)) \<le> real (4 * r)" by simp
  then have lo: "users * (4 + k) \<le> 4 * r" by (simp only: of_nat_le_iff)
  from b(2) have "real (4 * r) < real (users * (4 + k) + 4)" by simp
  then have hi: "4 * r < users * (4 + k) + 4" by (simp only: of_nat_less_iff)
  have "users * (100 + h) = 25 * (users * (4 + k))" by (simp add: k algebra_simps)
  with lo hi have "(users * (100 + h) + 99) div 100 = r" by linarith
  then show ?thesis using required_hosts_demand [OF assms(1,2)] by (simp add: r_def)
qed

lemma host_bits_spec:
  "required \<le> 2 ^ host_bits required b - 2 \<and> b \<le> host_bits required b
     \<and> (\<forall>c. b \<le> c \<longrightarrow> c < host_bits required b \<longrightarrow> 2 ^ c - 2 < required)"
proof (induction required b rule: host_bits.induct)
  case (1 r b)
  show ?case
  proof (cases "2 ^ b - 2 < r")
    case True
    then have "host_bits r b = host_bits r (Suc b)" by (simp add: host_bits.simps [of r b])
    then show ?thesis using 1 True by (metis Suc_leD Suc_leI le_neq_implies_less)
  next
    case False
    then show ?thesis by (simp add: host_bits.simps [of r b])
  qed
qed

end
