(* ===== verification/DeriveTopology.thy ===== *)
theory DeriveTopology
  imports SiteContext HostPrefix
begin

text \<open>
  \<open>derive_fabric_intent\<close>, first part: the checks on the requirements, the initial allocation
  state from ledger and guardrails, and the sections that derive the devices, the fusion nodes
  and the point-to-point links. The dictionaries a section builds are records with a rendering
  as JSON; the allocation state is threaded through the sections in the order of the code.
\<close>

section \<open>What the sections share\<close>

record ctx =
  cx_requirements :: json
  cx_policy :: json
  cx_fabric :: json
  cx_pools :: json
  cx_ranges :: json
  cx_domain :: string
  cx_mode :: string
  cx_schema :: string

text \<open>\<open>int(pools[pool_id]["prefix_len"])\<close> and \<open>int(range["min"]), int(range["max"])\<close>\<close>

definition pool_prefix_len :: "json \<Rightarrow> string \<Rightarrow> int result" where
  "pool_prefix_len pools pool_id = (ebind (jidx pools pool_id) (\<lambda>pool.
     int_at pool ''prefix_len''))"

definition range_bounds :: "json \<Rightarrow> (int \<times> int) result" where
  "range_bounds r = (ebind (int_at r ''min'') (\<lambda>lo.
     ebind (int_at r ''max'') (\<lambda>hi.
     Inr (lo, hi))))"

text \<open>\<open>raw.get("dashboard_management_ip")\<close> where it holds.\<close>

definition optional_str :: "json \<Rightarrow> string \<Rightarrow> string option result" where
  "optional_str v k = (ebind (jget v k) (\<lambda>w.
     Inr (if truthy w then Some (py_str w) else None)))"

definition opt_field :: "string \<Rightarrow> string option \<Rightarrow> (string \<times> json) list" where
  "opt_field k v = (case v of None \<Rightarrow> [] | Some s \<Rightarrow> [(k, JStr s)])"

section \<open>The preconditions\<close>

text \<open>
  \<open>validate_shape\<close> is the JSON Schema validator (a third-party package reading
  \<open>fabric-requirements.schema.json\<close>).
\<close>

definition lisp_override_requested :: "json \<Rightarrow> json \<Rightarrow> bool result" where
  "lisp_override_requested requirements fabric =
     (ebind (jget fabric ''lisp_domain_id'') (\<lambda>d.
        (if d \<noteq> JNull then Inr True
          else (ebind (items_get requirements ''fabric_sites'') (\<lambda>sites.
             anyE (\<lambda>s. (ebind (jget s ''lisp_multihoming_id'') (\<lambda>i.
                      Inr (i \<noteq> JNull)))) sites)))))"

definition check_requirements ::
    "(json \<Rightarrow> unit result) \<Rightarrow> json \<Rightarrow> json \<Rightarrow> ctx result" where
  "check_requirements validate_shape requirements policy =
     (ebind (validate_shape requirements) (\<lambda>_.
        ebind (str_get requirements ''schema_version'' ''None'') (\<lambda>version.
        ebind (contains_key ''multicast'' requirements) (\<lambda>has_multicast.
        ebind (raise_if (version \<noteq> ''1.2'' \<and> has_multicast)
           (AllocationError ''Top-level multicast requirements require schema_version 1.2'')) (\<lambda>_.
        ebind (require_keys requirements
           [''schema_version'', ''metadata'', ''allocation_domain'', ''fabric'', ''devices'', ''links'',
            ''virtual_networks''] ''$'') (\<lambda>_.
        ebind (str_at requirements ''allocation_domain'') (\<lambda>domain.
        ebind (raise_if (domain = []) (AllocationError ''allocation_domain is required'')) (\<lambda>_.
        ebind (jidx requirements ''fabric'') (\<lambda>fabric.
        ebind (require_keys fabric [''id'', ''name'', ''mtu'', ''control_plane_mode''] ''$.fabric'') (\<lambda>_.
        ebind (str_at fabric ''control_plane_mode'') (\<lambda>mode.
        ebind (jget_default policy ''fabric_control_plane'' (JObj [])) (\<lambda>cp.
        ebind (items_get cp ''allowed_modes'') (\<lambda>modes.
        ebind (py_set modes) (\<lambda>allowed_modes.
        ebind (raise_if (JStr mode \<notin> set allowed_modes)
           (AllocationError (''Control-plane mode '' @ mode @ '' is not approved''))) (\<lambda>_.
        ebind (lisp_override_requested requirements fabric) (\<lambda>override.
        ebind (raise_if (override \<and> (version \<noteq> ''1.2'' \<or> mode \<noteq> ''lisp_pubsub''))
           (AllocationError ''LISP identity overrides require schema 1.2 lisp_pubsub mode'')) (\<lambda>_.
        ebind (jget_default policy ''supernets'' (JObj [])) (\<lambda>pools.
        ebind (jget_default policy ''ranges'' (JObj [])) (\<lambda>ranges.
        Inr \<lparr>cx_requirements = requirements, cx_policy = policy, cx_fabric = fabric, cx_pools = pools,
              cx_ranges = ranges, cx_domain = domain, cx_mode = mode, cx_schema = version\<rparr>)))))))))))))))))))"

section \<open>The initial allocation state\<close>

definition check_pools :: "json \<Rightarrow> unit result" where
  "check_pools pools =
     foldE (\<lambda>_ pool_id.
         (ebind (contains_key pool_id pools) (\<lambda>present.
            raise_if (\<not> present) (AllocationError (''Guardrail pool '' @ pool_id @ '' is missing'')))))
       () [''underlay_p2p'', ''loopbacks'', ''overlay_hosts'']"

definition initial_networks :: "net_entry list \<Rightarrow> ctx \<Rightarrow> (string \<times> ipv4net list) list result" where
  "initial_networks ledger cx =
     (ebind (items_of (cx_pools cx)) (\<lambda>pools.
        mapE (\<lambda>(pool_id, pool).
             (ebind (active_networks ledger (cx_domain cx) pool_id) (\<lambda>active.
                ebind (policy_reserved_networks pool_id pool) (\<lambda>reserved.
                Inr (pool_id, active @ reserved))))) pools))"

definition scalar_range_names :: "(string \<times> string) list" where
  "scalar_range_names =
     [(''vlan_id'', ''vlan_id''), (''l2_instance_id'', ''l2_instance_id''),
      (''l3_instance_id'', ''l3_instance_id''), (''asn'', ''bgp_asn_local''), (''sgt'', ''sgt''),
      (''lisp_domain_id'', ''lisp_domain_id''), (''lisp_multihoming_id'', ''lisp_multihoming_id'')]"

definition initial_scalars :: "scalar_entry list \<Rightarrow> ctx \<Rightarrow> (string \<times> string list) list result" where
  "initial_scalars ledger cx =
     mapE (\<lambda>(kind, range_name).
         (ebind (jget (cx_ranges cx) range_name) (\<lambda>range.
            ebind ((if is_obj range then policy_reserved_scalars kind range else Inr [])) (\<lambda>reserved.
            Inr (kind, active_scalars ledger (cx_domain cx) kind @ reserved)))))
       scalar_range_names"

definition initial_alloc :: "net_entry list \<Rightarrow> scalar_entry list \<Rightarrow> ctx \<Rightarrow> alloc result" where
  "initial_alloc net_ledger scalar_ledger cx =
     (ebind (check_pools (cx_pools cx)) (\<lambda>_.
        ebind (initial_networks net_ledger cx) (\<lambda>nets.
        ebind (initial_scalars scalar_ledger cx) (\<lambda>vals.
        Inr \<lparr>taken_nets = nets, taken_vals = vals, net_reservations = [], scalar_reservations = []\<rparr>))))"

section \<open>Devices\<close>

record device =
  dev_id :: string
  dev_hostname :: string
  dev_site :: string
  dev_platform :: string
  dev_version :: string
  dev_management_ip :: string
  dev_loopback :: string
  dev_roles :: "string list"
  dev_credential :: string
  dev_dashboard_ip :: "string option"

definition device_json :: "device \<Rightarrow> json" where
  "device_json d = JObj
     ([(''id'', JStr (dev_id d)), (''hostname'', JStr (dev_hostname d)), (''site'', JStr (dev_site d)),
       (''platform'', JStr (dev_platform d)), (''software_version'', JStr (dev_version d)),
       (''management_ip'', JStr (dev_management_ip d)), (''loopback0_ip'', JStr (dev_loopback d)),
       (''roles'', jstrs (dev_roles d)), (''credential_ref'', JStr (dev_credential d))]
      @ opt_field ''dashboard_management_ip'' (dev_dashboard_ip d))"

definition has_role :: "string \<Rightarrow> device \<Rightarrow> bool" where
  "has_role r d \<longleftrightarrow> r \<in> set (dev_roles d)"

definition derive_device :: "ctx \<Rightarrow> device list \<Rightarrow> json \<Rightarrow> (alloc, device list) eff" where
  "derive_device cx acc raw =
     (sbind (slift (require_keys raw [''id'', ''site'', ''platform'', ''software_version'', ''management_ip'', ''roles'',
              ''credential_ref''] ''$.devices[]'')) (\<lambda>_.
        sbind (slift (str_at raw ''id'')) (\<lambda>device_id.
        sbind (sguard (device_id \<in> set (map dev_id acc)) (AllocationError (''Duplicate device id '' @ device_id))) (\<lambda>_.
        sbind (slift (platform_guardrail raw (cx_policy cx))) (\<lambda>_.
        sbind (slift (pool_prefix_len (cx_pools cx) ''loopbacks'')) (\<lambda>len.
        sbind (reserve_prefix (cx_pools cx) ''loopbacks'' len) (\<lambda>loopback.
        sbind (slift (jget raw ''hostname'')) (\<lambda>hostname.
        sbind (slift (str_at raw ''site'')) (\<lambda>site.
        sbind (slift (str_at raw ''platform'')) (\<lambda>platform.
        sbind (slift (str_at raw ''software_version'')) (\<lambda>version.
        sbind (slift (str_at raw ''management_ip'')) (\<lambda>mgmt.
        sbind (slift (strs_at raw ''roles'')) (\<lambda>roles.
        sbind (slift (str_at raw ''credential_ref'')) (\<lambda>cred.
        sbind (slift (optional_str raw ''dashboard_management_ip'')) (\<lambda>dashboard.
        sret (acc @ [\<lparr>dev_id = device_id, dev_hostname = upper (py_str (jor hostname (JStr device_id))),
            dev_site = site, dev_platform = platform, dev_version = version, dev_management_ip = mgmt,
            dev_loopback = addr_str (net_addr loopback), dev_roles = sort roles, dev_credential = cred,
            dev_dashboard_ip = dashboard\<rparr>]))))))))))))))))"

definition derive_devices :: "ctx \<Rightarrow> (alloc, device list) eff" where
  "derive_devices cx =
     (sbind (slift (items_at (cx_requirements cx) ''devices'')) (\<lambda>raw.
        sbind (slift (sort_by (\<lambda>d. str_at d ''id'') raw)) (\<lambda>raw_devices.
        sbind (sguard (length raw_devices < 2) (AllocationError ''At least two devices are required'')) (\<lambda>_.
        s_foldM (derive_device cx) [] raw_devices))))"

section \<open>Fusion nodes\<close>

record fusion_node =
  fu_id :: string
  fu_hostname :: string
  fu_platform :: string
  fu_version :: string
  fu_management_ip :: string
  fu_credential :: string
  fu_asn :: int
  fu_dashboard_ip :: "string option"

definition fusion_json :: "fusion_node \<Rightarrow> json" where
  "fusion_json f = JObj
     ([(''id'', JStr (fu_id f)), (''hostname'', JStr (fu_hostname f)), (''platform'', JStr (fu_platform f)),
       (''software_version'', JStr (fu_version f)), (''management_ip'', JStr (fu_management_ip f)),
       (''credential_ref'', JStr (fu_credential f)), (''bgp_asn'', JInt (fu_asn f))]
      @ opt_field ''dashboard_management_ip'' (fu_dashboard_ip f))"

definition derive_fusion_node ::
    "ctx \<Rightarrow> string list \<Rightarrow> fusion_node list \<Rightarrow> json \<Rightarrow> fusion_node list result" where
  "derive_fusion_node cx device_ids acc raw =
     (ebind (require_keys raw [''id'', ''hostname'', ''platform'', ''software_version'', ''management_ip'',
           ''credential_ref'', ''bgp_asn''] ''$.fusion_nodes[]'') (\<lambda>_.
        ebind (str_at raw ''id'') (\<lambda>fusion_id.
        ebind (raise_if (fusion_id \<in> set (map fu_id acc) \<or> fusion_id \<in> set device_ids)
           (AllocationError (''Duplicate fusion or device id '' @ fusion_id))) (\<lambda>_.
        ebind (items_of raw) (\<lambda>kvs.
        ebind (platform_guardrail (JObj (set_field ''roles'' (JArr [JStr ''fusion'']) kvs)) (cx_policy cx)) (\<lambda>_.
        ebind (str_at raw ''hostname'') (\<lambda>hostname.
        ebind (str_at raw ''platform'') (\<lambda>platform.
        ebind (str_at raw ''software_version'') (\<lambda>version.
        ebind (str_at raw ''management_ip'') (\<lambda>mgmt.
        ebind (str_at raw ''credential_ref'') (\<lambda>cred.
        ebind (int_at raw ''bgp_asn'') (\<lambda>asn.
        ebind (optional_str raw ''dashboard_management_ip'') (\<lambda>dashboard.
        Inr (acc @ [\<lparr>fu_id = fusion_id, fu_hostname = upper hostname, fu_platform = platform,
           fu_version = version, fu_management_ip = mgmt, fu_credential = cred, fu_asn = asn,
           fu_dashboard_ip = dashboard\<rparr>]))))))))))))))"

definition derive_fusion_nodes :: "ctx \<Rightarrow> string list \<Rightarrow> fusion_node list result" where
  "derive_fusion_nodes cx device_ids =
     (ebind (items_get (cx_requirements cx) ''fusion_nodes'') (\<lambda>raw.
        ebind (by_id raw) (\<lambda>sorted_raw.
        foldE (derive_fusion_node cx device_ids) [] sorted_raw)))"

section \<open>Links\<close>

record link_end =
  le_device :: string
  le_interface :: string
  le_ip :: string

record link =
  ln_id :: string
  ln_subnet :: string
  ln_ends :: "link_end list"
  ln_pim :: "bool option"
  ln_bfd :: "json option"

definition link_end_json :: "link_end \<Rightarrow> json" where
  "link_end_json e = JObj [(''device_id'', JStr (le_device e)), (''interface'', JStr (le_interface e)),
     (''ip'', JStr (le_ip e))]"

definition link_json :: "link \<Rightarrow> json" where
  "link_json l = JObj
     ([(''id'', JStr (ln_id l)), (''subnet'', JStr (ln_subnet l)),
       (''endpoints'', JArr (map link_end_json (ln_ends l)))]
      @ (case ln_pim l of None \<Rightarrow> [] | Some b \<Rightarrow> [(''pim_sparse_mode'', JBool b)])
      @ (case ln_bfd l of None \<Rightarrow> [] | Some v \<Rightarrow> [(''bfd'', v)]))"

text \<open>\<open>hosts[index]\<close> of \<open>hosts = list(subnet)\<close>\<close>

definition nth_address :: "ipv4net \<Rightarrow> nat \<Rightarrow> nat result" where
  "nth_address n i = (if i < net_size n then Inr (net_addr n + i) else Inl IndexError)"

definition derive_link :: "ctx \<Rightarrow> string list \<Rightarrow> int \<Rightarrow> link list \<Rightarrow> json \<Rightarrow> (alloc, link list) eff" where
  "derive_link cx device_ids p2p_len acc raw =
     (sbind (slift (require_keys raw [''id'', ''endpoints''] ''$.links[]'')) (\<lambda>_.
        sbind (slift (items_at raw ''endpoints'')) (\<lambda>raw_ends.
        sbind (slift (sort_by (\<lambda>e. (ebind (str_at e ''device_id'') (\<lambda>d.
             ebind (str_at e ''interface'') (\<lambda>i.
             Inr (d, i))))) raw_ends)) (\<lambda>ends.
        sbind (slift (str_at raw ''id'')) (\<lambda>link_id.
        sbind (sguard (length ends \<noteq> 2) (AllocationError (''Link '' @ link_id @ '' must have exactly two endpoints''))) (\<lambda>_.
        sbind (slift (mapE (\<lambda>e. str_at e ''device_id'') ends)) (\<lambda>devices.
        sbind (sguard (\<not> set devices \<subseteq> set device_ids)
            (AllocationError (''Link '' @ link_id @ '' references an unknown device''))) (\<lambda>_.
        sbind (reserve_prefix (cx_pools cx) ''underlay_p2p'' p2p_len) (\<lambda>subnet.
        sbind (slift (mapE (\<lambda>(i, e).
              (ebind (str_at e ''device_id'') (\<lambda>d.
                 ebind (str_at e ''interface'') (\<lambda>port.
                 ebind (nth_address subnet i) (\<lambda>a.
                 Inr \<lparr>le_device = d, le_interface = port, le_ip = addr_str a\<rparr>))))) (enumerate 0 ends))) (\<lambda>rendered.
        sbind (slift (contains_key ''pim_sparse_mode'' raw)) (\<lambda>has_pim.
        sbind (slift (jget raw ''pim_sparse_mode'')) (\<lambda>pim.
        sbind (slift (contains_key ''bfd'' raw)) (\<lambda>has_bfd.
        sbind (slift (jget raw ''bfd'')) (\<lambda>bfd.
        sret (acc @ [\<lparr>ln_id = link_id, ln_subnet = net_str subnet, ln_ends = rendered,
            ln_pim = (if has_pim then Some (truthy pim) else None),
            ln_bfd = (if has_bfd then Some bfd else None)\<rparr>])))))))))))))))"

definition derive_links :: "ctx \<Rightarrow> string list \<Rightarrow> (alloc, link list) eff" where
  "derive_links cx device_ids =
     (sbind (slift (pool_prefix_len (cx_pools cx) ''underlay_p2p'')) (\<lambda>p2p_len.
        sbind (slift (items_at (cx_requirements cx) ''links'')) (\<lambda>raw.
        sbind (slift (sort_by (\<lambda>l. str_at l ''id'') raw)) (\<lambda>raw_links.
        s_foldM (derive_link cx device_ids p2p_len) [] raw_links))))"

end
