(* ===== verification/DeriveNetworks.thy ===== *)
theory DeriveNetworks
  imports DeriveTopology
begin

text \<open>
  \<open>derive_fabric_intent\<close>, second part: the autonomous system, the virtual networks with one
  endpoint pool per site, and the endpoint attachments.
\<close>

section \<open>The autonomous system\<close>

text \<open>\<open>requirements.get("border_handoff") or {"enabled": False, "mode": "isolated"}\<close>\<close>

definition raw_handoff :: "ctx \<Rightarrow> json result" where
  "raw_handoff cx =
     (ebind (jget (cx_requirements cx) ''border_handoff'') (\<lambda>h.
        Inr (jor h (JObj [(''enabled'', JBool False), (''mode'', JStr ''isolated'')]))))"

definition bgp_enabled :: "json \<Rightarrow> bool result" where
  "bgp_enabled h =
     (ebind (jget h ''enabled'') (\<lambda>e.
        ebind (str_get h ''mode'' ''None'') (\<lambda>m.
        Inr (truthy e \<and> m = ''bgp''))))"

definition derive_local_as :: "ctx \<Rightarrow> bool \<Rightarrow> (alloc, int) eff" where
  "derive_local_as cx bgp =
     (if bgp \<or> cx_mode cx = ''lisp_bgp_transit''
      then (sbind (slift (jidx (cx_ranges cx) ''bgp_asn_local'')) (\<lambda>asn_range.
         sbind (slift (range_bounds asn_range)) (\<lambda>(lo, hi).
         reserve_scalar ''asn'' lo hi)))
      else slift (int_get (cx_ranges cx) ''rd_asn'' 65000))"

section \<open>Virtual networks and endpoint pools\<close>

record vnet =
  vn_name :: string
  vn_vrf :: string
  vn_l3 :: int
  vn_rd :: string

definition vnet_json :: "vnet \<Rightarrow> json" where
  "vnet_json v = JObj
     [(''name'', JStr (vn_name v)), (''vrf'', JStr (vn_vrf v)), (''l3_instance_id'', JInt (vn_l3 v)),
      (''rd'', JStr (vn_rd v)), (''route_targets'', JArr [JStr (vn_rd v)])]"

record dhcp_server =
  dh_device :: string
  dh_helper :: string
  dh_lease :: int
  dh_dns :: "string list"

definition dhcp_json :: "dhcp_server \<Rightarrow> json" where
  "dhcp_json d = JObj
     [(''mode'', JStr ''local_border''), (''server_device_id'', JStr (dh_device d)),
      (''helper_address'', JStr (dh_helper d)), (''relay_global'', JBool True),
      (''lease_minutes'', JInt (dh_lease d)), (''dns_servers'', jstrs (dh_dns d))]"

record endpoint_pool =
  ep_id :: string
  ep_site :: string
  ep_vn :: string
  ep_vlan :: int
  ep_l2 :: int
  ep_prefix :: ipv4net
  ep_gateway :: string
  ep_helpers :: "string list"
  ep_dhcp :: "dhcp_server option"

definition endpoint_pool_json :: "endpoint_pool \<Rightarrow> json" where
  "endpoint_pool_json p = JObj
     ([(''id'', JStr (ep_id p)), (''site'', JStr (ep_site p)), (''virtual_network'', JStr (ep_vn p)),
       (''vlan_id'', JInt (ep_vlan p)), (''l2_instance_id'', JInt (ep_l2 p)),
       (''prefix'', JStr (net_str (ep_prefix p))), (''gateway'', JStr (ep_gateway p)),
       (''dhcp_helpers'', jstrs (ep_helpers p))]
      @ (case ep_dhcp p of None \<Rightarrow> [] | Some d \<Rightarrow> [(''dhcp'', dhcp_json d)]))"

text \<open>The DHCP of one site of a virtual network: a border of the fabric, or external helpers.\<close>

definition derive_dhcp :: "device list \<Rightarrow> json \<Rightarrow> (string list \<times> dhcp_server option) result" where
  "derive_dhcp devices site =
     (ebind (jget site ''dhcp'') (\<lambda>local_dhcp.
        (if local_dhcp = JNull
          then (ebind (strs_get site ''dhcp_helpers'') (\<lambda>helpers.
             ebind (raise_if (helpers = []) (AllocationError
                     ''Each virtual-network site must select external DHCP helpers or local_border DHCP'')) (\<lambda>_.
             Inr (sort helpers, None))))
          else
            (ebind (raise_if (\<not> is_obj local_dhcp) (AllocationError ''Local DHCP definition must be an object'')) (\<lambda>_.
               ebind (str_get local_dhcp ''mode'' ''None'') (\<lambda>m.
               ebind (raise_if (m \<noteq> ''local_border'') (AllocationError ''Unsupported DHCP mode'')) (\<lambda>_.
               ebind (str_get local_dhcp ''server_device_id'' []) (\<lambda>server_id.
               ebind (of_option
                  (AllocationError (''Local DHCP server '' @ server_id @ '' must be a fabric border device''))
                  (find (\<lambda>d. dev_id d = server_id \<and> has_role ''border'' d) devices)) (\<lambda>server.
               ebind (int_get local_dhcp ''lease_minutes'' 60) (\<lambda>lease.
               ebind (strs_get local_dhcp ''dns_servers'') (\<lambda>dns.
               Inr ([dev_loopback server],
                     Some \<lparr>dh_device = server_id, dh_helper = dev_loopback server, dh_lease = lease,
                           dh_dns = sort dns\<rparr>))))))))))))"

record vn_ranges =
  vr_l3 :: json
  vr_vlan :: json
  vr_l2_base :: int
  vr_l2_max :: int

definition vn_ranges_of :: "json \<Rightarrow> vn_ranges result" where
  "vn_ranges_of ranges =
     (ebind (jidx ranges ''l3_instance_id'') (\<lambda>l3.
        ebind (jidx ranges ''vlan_id'') (\<lambda>vlan.
        ebind (jidx ranges ''l2_instance_id'') (\<lambda>l2.
        ebind (int_at l2 ''base'') (\<lambda>base.
        ebind (int_get l2 ''max'' 16777215) (\<lambda>top.
        Inr \<lparr>vr_l3 = l3, vr_vlan = vlan, vr_l2_base = base, vr_l2_max = top\<rparr>))))))"

text \<open>The layer-2 instance that goes with a VLAN.\<close>

definition reserve_l2 :: "vn_ranges \<Rightarrow> int \<Rightarrow> (alloc, int) eff" where
  "reserve_l2 vr vlan a =
     (let l2_id = vr_l2_base vr + vlan in
      if vr_l2_max vr < l2_id \<or> int_str l2_id \<in> set (taken_in ''l2_instance_id'' (taken_vals a))
      then (Inl (AllocationError (''Derived L2 instance '' @ int_str l2_id @ '' is unavailable'')), a)
      else (Inr l2_id, note_scalar ''l2_instance_id'' l2_id a))"

definition derive_endpoint_pool ::
    "ctx \<Rightarrow> device list \<Rightarrow> vn_ranges \<Rightarrow> string \<Rightarrow> endpoint_pool list \<Rightarrow> json \<Rightarrow> (alloc, endpoint_pool list) eff" where
  "derive_endpoint_pool cx devices vr vn acc site =
     (sbind (slift (require_keys site [''site'', ''users''] ''$.virtual_networks[].sites[]'')) (\<lambda>_.
        sbind (slift (derive_dhcp devices site)) (\<lambda>(helpers, dhcp).
        sbind (slift (range_bounds (vr_vlan vr))) (\<lambda>(lo, hi).
        sbind (reserve_scalar ''vlan_id'' lo hi) (\<lambda>vlan.
        sbind (reserve_l2 vr vlan) (\<lambda>l2_id.
        sbind (slift (jidx (cx_pools cx) ''overlay_hosts'')) (\<lambda>overlay.
        sbind (slift (str_at overlay ''cidr'')) (\<lambda>cidr.
        sbind (slift (network cidr)) (\<lambda>supernet.
        sbind (slift (int_at site ''users'')) (\<lambda>users.
        sbind (slift (int_get site ''headroom_percent'' 25)) (\<lambda>headroom.
        sbind (slift (host_prefix users headroom (prefixlen supernet))) (\<lambda>prefix_len.
        sbind (reserve_prefix (cx_pools cx) ''overlay_hosts'' prefix_len) (\<lambda>prefix.
        sbind (slift (str_at site ''site'')) (\<lambda>site_id.
        sret (acc @ [\<lparr>ep_id = lower site_id @ ''-'' @ lower vn, ep_site = site_id, ep_vn = vn, ep_vlan = vlan,
            ep_l2 = l2_id, ep_prefix = prefix, ep_gateway = addr_str (nth_host prefix 0),
            ep_helpers = helpers, ep_dhcp = dhcp\<rparr>])))))))))))))))"

definition derive_vnet ::
    "ctx \<Rightarrow> device list \<Rightarrow> vn_ranges \<Rightarrow> int \<Rightarrow> vnet list \<times> endpoint_pool list \<Rightarrow> json
       \<Rightarrow> (alloc, vnet list \<times> endpoint_pool list) eff" where
  "derive_vnet cx devices vr local_as acc raw_vn =
     (sbind (slift (require_keys raw_vn [''name'', ''vrf'', ''sites''] ''$.virtual_networks[]'')) (\<lambda>_.
        sbind (slift (range_bounds (vr_l3 vr))) (\<lambda>(lo, hi).
        sbind (reserve_scalar ''l3_instance_id'' lo hi) (\<lambda>l3_id.
        sbind (slift (str_at raw_vn ''name'')) (\<lambda>name.
        sbind (slift (str_at raw_vn ''vrf'')) (\<lambda>vrf.
        sbind (slift (items_at raw_vn ''sites'')) (\<lambda>raw_sites.
        sbind (slift (sort_by (\<lambda>s. str_at s ''site'') raw_sites)) (\<lambda>sites.
        sbind (s_foldM (derive_endpoint_pool cx devices vr name) (snd acc) sites) (\<lambda>pools.
        sret (fst acc @ [\<lparr>vn_name = name, vn_vrf = vrf, vn_l3 = l3_id,
                  vn_rd = int_str local_as @ '':'' @ int_str l3_id\<rparr>], pools))))))))))"

definition derive_vnets ::
    "ctx \<Rightarrow> device list \<Rightarrow> int \<Rightarrow> (alloc, vnet list \<times> endpoint_pool list) eff" where
  "derive_vnets cx devices local_as =
     (sbind (slift (vn_ranges_of (cx_ranges cx))) (\<lambda>vr.
        sbind (slift (items_at (cx_requirements cx) ''virtual_networks'')) (\<lambda>raw.
        sbind (slift (sort_by (\<lambda>v. str_at v ''name'') raw)) (\<lambda>raw_vns.
        s_foldM (derive_vnet cx devices vr local_as) ([], []) raw_vns))))"

section \<open>Endpoint attachments\<close>

record attachment =
  at_id :: string
  at_device :: string
  at_interface :: string
  at_site :: string
  at_vn :: string
  at_pool :: string
  at_vlan :: int
  at_description :: "string option"

definition attachment_json :: "attachment \<Rightarrow> json" where
  "attachment_json a = JObj
     ([(''id'', JStr (at_id a)), (''device_id'', JStr (at_device a)), (''interface'', JStr (at_interface a)),
       (''site'', JStr (at_site a)), (''virtual_network'', JStr (at_vn a)),
       (''endpoint_pool_id'', JStr (at_pool a)), (''vlan_id'', JInt (at_vlan a))]
      @ opt_field ''description'' (at_description a))"

text \<open>The pool under a site and a virtual network; of two, the later one.\<close>

definition pool_for :: "string \<Rightarrow> string \<Rightarrow> endpoint_pool list \<Rightarrow> endpoint_pool option" where
  "pool_for site vn pools = find (\<lambda>p. ep_site p = site \<and> ep_vn p = vn) (rev pools)"

definition link_interfaces :: "link list \<Rightarrow> (string \<times> string) list" where
  "link_interfaces links = concat (map (\<lambda>l. map (\<lambda>e. (le_device e, le_interface e)) (ln_ends l)) links)"

definition derive_attachment ::
    "device list \<Rightarrow> link list \<Rightarrow> endpoint_pool list \<Rightarrow> attachment list \<Rightarrow> json \<Rightarrow> attachment list result" where
  "derive_attachment devices links pools acc raw =
     (ebind (require_keys raw [''id'', ''device_id'', ''interface'', ''site'', ''virtual_network'']
           ''$.endpoint_attachments[]'') (\<lambda>_.
        ebind (str_at raw ''id'') (\<lambda>aid.
        ebind (str_at raw ''device_id'') (\<lambda>device_id.
        ebind (str_at raw ''interface'') (\<lambda>interface.
        ebind (str_at raw ''site'') (\<lambda>site_id.
        ebind (str_at raw ''virtual_network'') (\<lambda>vn.
        ebind (raise_if (aid \<in> set (map at_id acc)) (AllocationError (''Duplicate endpoint attachment id '' @ aid))) (\<lambda>_.
        ebind (raise_if ((device_id, interface) \<in> set (map (\<lambda>a. (at_device a, at_interface a)) acc))
           (AllocationError (''Duplicate endpoint attachment interface '' @ device_id @ '' '' @ interface))) (\<lambda>_.
        ebind (of_option
           (AllocationError (''Endpoint attachment '' @ aid @ '' must reference a fabric-edge device''))
           (find (\<lambda>d. dev_id d = device_id \<and> has_role ''fabric_edge'' d) devices)) (\<lambda>device.
        ebind (raise_if (dev_site device \<noteq> site_id)
           (AllocationError (''Endpoint attachment '' @ aid @ '' site does not match device site''))) (\<lambda>_.
        ebind (raise_if ((device_id, interface) \<in> set (link_interfaces links))
           (AllocationError (''Endpoint attachment '' @ aid @ '' cannot reuse a fabric link interface''))) (\<lambda>_.
        ebind (of_option
           (AllocationError (''Endpoint attachment '' @ aid @ '' references an unknown site virtual network''))
           (pool_for site_id vn pools)) (\<lambda>pool.
        ebind (optional_str raw ''description'') (\<lambda>description.
        Inr (acc @ [\<lparr>at_id = aid, at_device = device_id, at_interface = interface, at_site = site_id,
           at_vn = vn, at_pool = ep_id pool, at_vlan = ep_vlan pool, at_description = description\<rparr>])))))))))))))))"

definition derive_attachments ::
    "ctx \<Rightarrow> device list \<Rightarrow> link list \<Rightarrow> endpoint_pool list \<Rightarrow> attachment list result" where
  "derive_attachments cx devices links pools =
     (ebind (items_get (cx_requirements cx) ''endpoint_attachments'') (\<lambda>raw.
        ebind (by_id raw) (\<lambda>sorted_raw.
        foldE (derive_attachment devices links pools) [] sorted_raw)))"

end
