(* ===== verification/DeriveServices.thy ===== *)
theory DeriveServices
  imports DeriveNetworks
begin

text \<open>
  \<open>derive_fabric_intent\<close>, third part: shared services. Every fusion node gets a routed handoff
  of its own, every service is checked against the endpoint pools and its addresses against its
  prefixes, and every consumer gets a route leak.
\<close>

section \<open>Handoffs to fusion nodes\<close>

record service_attachment =
  sa_id :: string
  sa_fusion :: string
  sa_interface :: string
  sa_vlan :: int
  sa_prefix :: ipv4net
  sa_local_ip :: string
  sa_next_hop :: string

definition service_attachment_json :: "service_attachment \<Rightarrow> json" where
  "service_attachment_json a = JObj
     [(''id'', JStr (sa_id a)), (''fusion_node_id'', JStr (sa_fusion a)),
      (''interface'', JStr (sa_interface a)), (''vlan_id'', JInt (sa_vlan a)),
      (''prefix'', JStr (net_str (sa_prefix a))), (''local_ip'', JStr (sa_local_ip a)),
      (''next_hop'', JStr (sa_next_hop a))]"

definition derive_service_attachment ::
    "ctx \<Rightarrow> string list \<Rightarrow> json \<Rightarrow> service_attachment list \<Rightarrow> json \<Rightarrow> (alloc, service_attachment list) eff" where
  "derive_service_attachment cx fusion_ids vlan_range acc raw =
     (sbind (slift (str_at raw ''id'')) (\<lambda>aid.
        sbind (slift (str_at raw ''fusion_node_id'')) (\<lambda>fusion_id.
        sbind (sguard (aid \<in> set (map sa_id acc)) (AllocationError (''Duplicate shared-service attachment '' @ aid))) (\<lambda>_.
        sbind (sguard (fusion_id \<notin> set fusion_ids)
            (AllocationError (''Shared-service attachment '' @ aid @ '' references unknown fusion node '' @ fusion_id))) (\<lambda>_.
        sbind (sguard (fusion_id \<in> set (map sa_fusion acc))
            (AllocationError (''Fusion node '' @ fusion_id @ '' has multiple shared-service attachments''))) (\<lambda>_.
        sbind (slift (range_bounds vlan_range)) (\<lambda>(lo, hi).
        sbind (reserve_scalar ''vlan_id'' lo hi) (\<lambda>vlan.
        sbind (slift (pool_prefix_len (cx_pools cx) ''shared_service_handoff'')) (\<lambda>len.
        sbind (reserve_prefix (cx_pools cx) ''shared_service_handoff'' len) (\<lambda>prefix.
        sbind (sguard (host_count prefix < 2)
            (AllocationError (''Shared-service handoff '' @ net_str prefix @ '' must provide two usable addresses''))) (\<lambda>_.
        sbind (slift (str_at raw ''interface'')) (\<lambda>interface.
        sret (acc @ [\<lparr>sa_id = aid, sa_fusion = fusion_id, sa_interface = interface, sa_vlan = vlan,
            sa_prefix = prefix, sa_local_ip = addr_str (nth_host prefix 0),
            sa_next_hop = addr_str (nth_host prefix 1)\<rparr>])))))))))))))"

section \<open>Services\<close>

record service =
  sv_id :: string
  sv_type :: string
  sv_addresses :: "string list"
  sv_prefixes :: "string list"
  sv_consumers :: "string list"

definition service_json :: "service \<Rightarrow> json" where
  "service_json s = JObj
     [(''id'', JStr (sv_id s)), (''type'', JStr (sv_type s)), (''addresses'', jstrs (sv_addresses s)),
      (''prefixes'', jstrs (sv_prefixes s)), (''consumer_virtual_networks'', jstrs (sv_consumers s))]"

text \<open>No service prefix overlaps an endpoint pool of the fabric.\<close>

definition check_service_prefixes :: "string \<Rightarrow> ipv4net list \<Rightarrow> endpoint_pool list \<Rightarrow> unit result" where
  "check_service_prefixes service_id pfxs pools =
     foldE (\<lambda>_ (p, q).
         raise_if (overlaps p q)
           (AllocationError (''Shared service '' @ service_id @ '' prefix '' @ net_str p
              @ '' overlaps fabric endpoint pool '' @ net_str q)))
       () (List.product pfxs (map ep_prefix pools))"

text \<open>Every service address is inside one of the service's prefixes.\<close>

definition check_service_addresses :: "string \<Rightarrow> ipv4net list \<Rightarrow> string list \<Rightarrow> unit result" where
  "check_service_addresses service_id pfxs addresses =
     foldE (\<lambda>_ address.
         (ebind (ip_address address) (\<lambda>a.
            raise_if (\<not> list_ex (ip_in_net a) pfxs)
               (AllocationError (''Shared service '' @ service_id @ '' address '' @ address
                  @ '' is outside its advertised prefixes'')))))
       () addresses"

definition derive_service ::
    "endpoint_pool list \<Rightarrow> string list \<Rightarrow> service list \<Rightarrow> json \<Rightarrow> service list result" where
  "derive_service pools vn_names acc raw =
     (ebind (str_at raw ''id'') (\<lambda>service_id.
        ebind (raise_if (service_id \<in> set (map sv_id acc))
           (AllocationError (''Duplicate shared service id '' @ service_id))) (\<lambda>_.
        ebind (items_at raw ''prefixes'') (\<lambda>raw_prefixes.
        ebind (mapE (\<lambda>p. network (py_str p)) raw_prefixes) (\<lambda>nets.
        let pfxs = sort (map net_str nets) in
        ebind (mapE network pfxs) (\<lambda>parsed.
        ebind (check_service_prefixes service_id parsed pools) (\<lambda>_.
        ebind (items_at raw ''addresses'') (\<lambda>raw_addresses.
        ebind (mapE ip_of_json raw_addresses) (\<lambda>ips.
        let addresses = sort (map ip_str ips) in
        ebind (check_service_addresses service_id parsed addresses) (\<lambda>_.
        ebind (strs_at raw ''consumer_virtual_networks'') (\<lambda>raw_consumers.
        let consumers = sort raw_consumers in
        let unknown_consumers = sorted_diff consumers vn_names in
        ebind (refuse unknown_consumers
           (\<lambda>x. AllocationError (''Shared service '' @ service_id @ '' references unknown virtual network ''
              @ x))) (\<lambda>_.
        ebind (str_at raw ''type'') (\<lambda>t.
        Inr (acc @ [\<lparr>sv_id = service_id, sv_type = t, sv_addresses = addresses, sv_prefixes = pfxs,
           sv_consumers = consumers\<rparr>]))))))))))))))"

section \<open>Route leaks\<close>

record route_leak =
  rl_consumer_vrf :: string
  rl_service_vrf :: string
  rl_imports :: "string list"
  rl_exports :: "string list"

definition route_leak_json :: "route_leak \<Rightarrow> json" where
  "route_leak_json r = JObj
     [(''consumer_vrf'', JStr (rl_consumer_vrf r)), (''service_vrf'', JStr (rl_service_vrf r)),
      (''import_prefixes'', jstrs (rl_imports r)), (''export_prefixes'', jstrs (rl_exports r))]"

text \<open>\<open>import_prefixes_by_consumer[consumer]\<close>, sorted.\<close>

definition import_prefixes :: "service list \<Rightarrow> string \<Rightarrow> string list" where
  "import_prefixes services consumer =
     sorted_set (concat (map sv_prefixes (filter (\<lambda>s. consumer \<in> set (sv_consumers s)) services)))"

text \<open>\<open>{item["name"]: item for item in virtual_networks}[name]\<close>: of two, the later one.\<close>

definition vn_by_name :: "vnet list \<Rightarrow> string \<Rightarrow> vnet option" where
  "vn_by_name vns name = find (\<lambda>v. vn_name v = name) (rev vns)"

definition derive_route_leak ::
    "vnet list \<Rightarrow> endpoint_pool list \<Rightarrow> string \<Rightarrow> service list \<Rightarrow> string \<Rightarrow> route_leak result" where
  "derive_route_leak vns pools service_vrf services consumer =
     (let exports = sort (map (\<lambda>p. net_str (ep_prefix p)) (filter (\<lambda>p. ep_vn p = consumer) pools)) in
      (ebind (raise_if (exports = [])
            (AllocationError (''Shared-services consumer '' @ consumer @ '' has no endpoint pool''))) (\<lambda>_.
         ebind (of_option (KeyError consumer) (vn_by_name vns consumer)) (\<lambda>vn.
         Inr \<lparr>rl_consumer_vrf = vn_vrf vn, rl_service_vrf = service_vrf,
               rl_imports = import_prefixes services consumer, rl_exports = exports\<rparr>))))"

section \<open>The section\<close>

record shared_services =
  ss_vrf :: string
  ss_attachments :: "service_attachment list"
  ss_services :: "service list"
  ss_leaks :: "route_leak list"

definition shared_services_json :: "shared_services \<Rightarrow> json" where
  "shared_services_json s = JObj
     [(''vrf'', JStr (ss_vrf s)), (''default_action'', JStr ''deny''),
      (''attachments'', JArr (map service_attachment_json (ss_attachments s))),
      (''services'', JArr (map service_json (ss_services s))),
      (''route_leaks'', JArr (map route_leak_json (ss_leaks s)))]"

text \<open>\<open>str(requirements["metadata"]["environment"])\<close>\<close>

definition environment_of :: "ctx \<Rightarrow> string result" where
  "environment_of cx = (ebind (jidx (cx_requirements cx) ''metadata'') (\<lambda>m.
     str_at m ''environment''))"

definition derive_services_of ::
    "ctx \<Rightarrow> string list \<Rightarrow> vnet list \<Rightarrow> endpoint_pool list \<Rightarrow> string \<Rightarrow> json \<Rightarrow> (alloc, shared_services) eff" where
  "derive_services_of cx fusion_ids vns pools environment raw =
     (sbind (slift (str_at raw ''vrf'')) (\<lambda>service_vrf.
        sbind (sguard (service_vrf \<notin> set (map vn_vrf vns))
            (AllocationError (''Shared-services VRF '' @ service_vrf @ '' is unknown''))) (\<lambda>_.
        sbind (slift (str_get raw ''default_action'' ''None'')) (\<lambda>action.
        sbind (sguard (action \<noteq> ''deny'') (AllocationError ''Shared-services default action must be deny'')) (\<lambda>_.
        sbind (slift (contains_key ''shared_service_handoff'' (cx_pools cx))) (\<lambda>has_pool.
        sbind (sguard (\<not> has_pool) (AllocationError ''Guardrail pool shared_service_handoff is missing'')) (\<lambda>_.
        sbind (slift (jget (cx_ranges cx) ''shared_service_vlan_id'')) (\<lambda>vlan_range.
        sbind (sguard (\<not> is_obj vlan_range) (AllocationError ''Guardrail range shared_service_vlan_id is missing'')) (\<lambda>_.
        sbind (slift (items_get raw ''attachments'')) (\<lambda>raw_attachments.
        sbind (slift (by_id raw_attachments)) (\<lambda>sorted_attachments.
        sbind (s_foldM (derive_service_attachment cx fusion_ids vlan_range) [] sorted_attachments) (\<lambda>attachments.
        let missing_fusions = sorted_diff fusion_ids (map sa_fusion attachments) in
        sbind (slift ((if environment = ''production'' then refuse missing_fusions
            (\<lambda>x. AllocationError (''Production shared services are missing attachment for fusion node ''
               @ x)) else Inr ()))) (\<lambda>_.
        sbind (slift (items_get raw ''services'')) (\<lambda>raw_services.
        sbind (slift (by_id raw_services)) (\<lambda>sorted_services.
        sbind (slift (foldE (derive_service pools (map vn_name vns)) [] sorted_services)) (\<lambda>services.
        sbind (slift (mapE (derive_route_leak vns pools service_vrf services)
                     (sorted_set (concat (map sv_consumers services))))) (\<lambda>leaks.
        sret \<lparr>ss_vrf = service_vrf, ss_attachments = attachments, ss_services = services, ss_leaks = leaks\<rparr>)))))))))))))))))"

definition derive_shared_services ::
    "ctx \<Rightarrow> string list \<Rightarrow> vnet list \<Rightarrow> endpoint_pool list \<Rightarrow> string \<Rightarrow> (alloc, shared_services option) eff" where
  "derive_shared_services cx fusion_ids vns pools environment =
     (sbind (slift (jget (cx_requirements cx) ''shared_services'')) (\<lambda>raw.
        (if raw = JNull then sret None
           else (sbind (derive_services_of cx fusion_ids vns pools environment raw) (\<lambda>s.
              sret (Some s))))))"

end
