(* ===== verification/DeriveMulticast.thy ===== *)
theory DeriveMulticast
  imports DeriveServices Sha256
begin

text \<open>
  \<open>derive_fabric_intent\<close>, fourth part: multicast. The selection of virtual networks and
  rendezvous points is checked, the underlay rendezvous point, the segment loopbacks, the core
  groups and the groups for layer-2 flooding are reserved from their pools.
\<close>

section \<open>The selection\<close>

record mcast_selection =
  ms_enabled :: bool
  ms_transport :: string
  ms_rp_mode :: string
  ms_rp_devices :: "string list"
  ms_asm :: "string list"
  ms_ssm :: "string list"

definition mcast_selection_of ::
    "device list \<Rightarrow> link list \<Rightarrow> vnet list \<Rightarrow> json \<Rightarrow> mcast_selection result" where
  "mcast_selection_of devices links vns raw =
     (ebind (jidx raw ''enabled'') (\<lambda>enabled.
        ebind (str_at raw ''transport'') (\<lambda>transport.
        ebind (str_at raw ''rp_mode'') (\<lambda>rp_mode.
        ebind (strs_get raw ''rp_device_ids'') (\<lambda>rps.
        let rp_ids = sort rps in
        let unknown_rps = sorted_diff rp_ids (map dev_id (filter (has_role ''border'') devices)) in
        ebind (refuse unknown_rps
           (\<lambda>x. AllocationError (''Multicast RP device '' @ x @ '' is not a border''))) (\<lambda>_.
        ebind (strs_at raw ''asm_virtual_networks'') (\<lambda>asm.
        ebind (strs_at raw ''ssm_virtual_networks'') (\<lambda>ssm.
        let unknown_vns = sorted_diff (asm @ ssm) (map vn_name vns) in
        ebind (refuse unknown_vns
           (\<lambda>x. AllocationError (''Multicast references unknown virtual network '' @ x))) (\<lambda>_.
        let overlap_vns = sorted_set (filter (\<lambda>v. v \<in> set ssm) asm) in
        ebind (refuse overlap_vns
           (\<lambda>x. AllocationError (''Virtual network '' @ x @ '' cannot use both ASM and SSM''))) (\<lambda>_.
        ebind (raise_if (truthy enabled \<and> transport = ''native'' \<and> list_ex (\<lambda>l. ln_pim l \<noteq> Some True) links)
           (AllocationError ''Native multicast requires PIM sparse mode on every fabric link'')) (\<lambda>_.
        Inr \<lparr>ms_enabled = truthy enabled, ms_transport = transport, ms_rp_mode = rp_mode,
              ms_rp_devices = rp_ids, ms_asm = sort asm, ms_ssm = sort ssm\<rparr>)))))))))))"

text \<open>\<open>int(pools[pool_id].get("prefix_len", 32))\<close>\<close>

definition pool_prefix_len_32 :: "json \<Rightarrow> string \<Rightarrow> int result" where
  "pool_prefix_len_32 pools pool_id = (ebind (jidx pools pool_id) (\<lambda>pool.
     int_get pool ''prefix_len'' 32))"

text \<open>The rendezvous point of the underlay.\<close>

definition derive_underlay_rp :: "ctx \<Rightarrow> string \<Rightarrow> mcast_selection \<Rightarrow> (alloc, string option) eff" where
  "derive_underlay_rp cx environment ms =
     (if ms_enabled ms \<and> (ms_rp_mode ms = ''anycast'' \<or> ms_rp_mode ms = ''static'')
      then
        (sbind (slift (contains_key ''multicast_rp'' (cx_pools cx))) (\<lambda>has_pool.
           sbind (sguard (\<not> has_pool) (AllocationError ''Guardrail pool multicast_rp is missing'')) (\<lambda>_.
           sbind (sguard (ms_rp_devices ms = []) (AllocationError ''Enabled ASM multicast requires RP devices'')) (\<lambda>_.
           sbind (sguard (ms_rp_mode ms = ''anycast'' \<and> environment = ''production'' \<and> length (ms_rp_devices ms) < 2)
               (AllocationError ''Production Anycast-RP requires at least two RP devices'')) (\<lambda>_.
           sbind (slift (pool_prefix_len_32 (cx_pools cx) ''multicast_rp'')) (\<lambda>len.
           sbind (reserve_prefix (cx_pools cx) ''multicast_rp'' len) (\<lambda>p.
           sret (Some (addr_str (net_addr p))))))))))
      else sret None)"

section \<open>Checks before the overlay policies\<close>

definition ssm_space :: ipv4net where "ssm_space = Net (232 * 16777216) 8"
definition multicast_space :: ipv4net where "multicast_space = Net (224 * 16777216) 4"

definition derive_ssm_range :: "json \<Rightarrow> ipv4net result" where
  "derive_ssm_range raw =
     (ebind (str_get raw ''ssm_range'' ''232.0.0.0/8'') (\<lambda>s.
        ebind (network s) (\<lambda>n.
        ebind (raise_if (\<not> subnet_of n ssm_space)
           (AllocationError ''Multicast ssm_range must be inside 232.0.0.0/8'')) (\<lambda>_.
        Inr n))))"

definition multicast_devices :: "device list \<Rightarrow> device list" where
  "multicast_devices devices =
     sort_key dev_id (filter (\<lambda>d. has_role ''border'' d \<or> has_role ''fabric_edge'' d) devices)"

definition check_overlay_request ::
    "ctx \<Rightarrow> device list \<Rightarrow> mcast_selection \<Rightarrow> json \<Rightarrow> unit result" where
  "check_overlay_request cx devices ms raw_policies =
     (ebind (raise_if (ms_enabled ms \<and> (ms_asm ms \<noteq> [] \<or> ms_ssm ms \<noteq> []) \<and> \<not> truthy raw_policies)
           (AllocationError ''Enabled overlay multicast requires explicit per-VN overlay_policies'')) (\<lambda>_.
        ebind (raise_if (\<not> ms_enabled ms \<and> truthy raw_policies)
           (AllocationError ''Disabled multicast cannot declare overlay_policies'')) (\<lambda>_.
        ebind (raise_if (ms_enabled ms \<and> truthy raw_policies \<and> multicast_devices devices = [])
           (AllocationError ''Overlay multicast requires at least one border or fabric-edge device'')) (\<lambda>_.
        (if truthy raw_policies
          then (ebind (contains_key ''multicast_overlay_loopbacks'' (cx_pools cx)) (\<lambda>has_pool.
             raise_if (\<not> has_pool)
                     (AllocationError ''Guardrail pool multicast_overlay_loopbacks is missing'')))
          else Inr ())))))"

text \<open>The prefix length and the number of groups of the core pool, when it is used.\<close>

definition core_groups :: "ctx \<Rightarrow> mcast_selection \<Rightarrow> json \<Rightarrow> (int \<times> int) option result" where
  "core_groups cx ms raw_policies =
     (if ms_enabled ms \<and> ms_transport ms = ''native'' \<and> truthy raw_policies
      then
        (ebind (contains_key ''multicast_core_groups'' (cx_pools cx)) (\<lambda>has_pool.
           ebind (raise_if (\<not> has_pool) (AllocationError ''Guardrail pool multicast_core_groups is missing'')) (\<lambda>_.
           ebind (jidx (cx_pools cx) ''multicast_core_groups'') (\<lambda>pool.
           ebind (str_at pool ''cidr'') (\<lambda>cidr.
           ebind (network cidr) (\<lambda>supernet.
           ebind (raise_if (\<not> subnet_of supernet ssm_space)
              (AllocationError ''Guardrail pool multicast_core_groups must be inside 232.0.0.0/8'')) (\<lambda>_.
           ebind (int_at pool ''prefix_len'') (\<lambda>len.
           ebind (raise_if (len < int (prefixlen supernet) \<or> 32 < len)
              (AllocationError ''Guardrail multicast_core_groups prefix_len is invalid'')) (\<lambda>_.
           ebind (int_get pool ''usable_count'' 1000) (\<lambda>groups.
           ebind (raise_if (groups < 1 \<or> 2 ^ nat (32 - len) - 1 < groups)
              (AllocationError ''Guardrail multicast_core_groups usable_count does not fit its prefix'')) (\<lambda>_.
           Inr (Some (len, groups)))))))))))))
      else Inr None)"

section \<open>Overlay policies\<close>

record overlay_policy =
  op_vn :: string
  op_vrf :: string
  op_l3 :: int
  op_mode :: string
  op_group_range :: ipv4net
  op_access_list :: string
  op_rp :: "(string \<times> string) option"
  op_loopbacks :: "(string \<times> string) list"
  op_core :: "(string \<times> string \<times> int) option"

definition overlay_policy_json :: "overlay_policy \<Rightarrow> json" where
  "overlay_policy_json p = JObj
     ([(''virtual_network'', JStr (op_vn p)), (''vrf'', JStr (op_vrf p)), (''l3_instance_id'', JInt (op_l3 p)),
       (''mode'', JStr (op_mode p)), (''group_range'', JStr (net_str (op_group_range p))),
       (''access_list'', JStr (op_access_list p)),
       (''segment_loopbacks'', JArr (map (\<lambda>(d, a). JObj [(''device_id'', JStr d), (''address'', JStr a)])
           (op_loopbacks p)))]
      @ (case op_rp p of None \<Rightarrow> [] | Some (a, n) \<Rightarrow> [(''rp_address'', JStr a), (''rp_prefix'', JStr n)])
      @ (case op_core p of None \<Rightarrow> []
         | Some (n, a, c) \<Rightarrow> [(''core_group'',
             JObj [(''prefix'', JStr n), (''start'', JStr a), (''count'', JInt c)])]))"

text \<open>\<open>"SDA-MCAST-{}".format(sha256_json(...)[:12].upper())\<close>\<close>

definition access_list_name :: "string \<Rightarrow> string \<Rightarrow> ipv4net \<Rightarrow> string" where
  "access_list_name vrf mode group_range =
     ''SDA-MCAST-'' @ upper (take 12 (sha256_json (JObj
       [(''vrf'', JStr vrf), (''mode'', JStr mode), (''group_range'', JStr (net_str group_range))])))"

definition check_overlay_policy ::
    "mcast_selection \<Rightarrow> ipv4net \<Rightarrow> vnet list \<Rightarrow> string list \<Rightarrow> json \<Rightarrow> (vnet \<times> string \<times> ipv4net) result" where
  "check_overlay_policy ms ssm_range vns seen raw =
     (ebind (str_at raw ''virtual_network'') (\<lambda>name.
        ebind (raise_if (name \<in> set seen)
           (AllocationError (''Duplicate multicast overlay policy for virtual network '' @ name))) (\<lambda>_.
        ebind (of_option
           (AllocationError (''Multicast overlay policy references unknown virtual network '' @ name))
           (vn_by_name vns name)) (\<lambda>vn.
        ebind (str_at raw ''mode'') (\<lambda>mode.
        ebind (raise_if (name \<notin> set (ms_asm ms) \<and> name \<notin> set (ms_ssm ms))
           (AllocationError (''Multicast overlay policy '' @ name @ '' is absent from ASM/SSM selections''))) (\<lambda>_.
        ebind (raise_if (mode \<noteq> (if name \<in> set (ms_asm ms) then ''asm'' else ''ssm''))
           (AllocationError (''Multicast overlay policy '' @ name @ '' mode does not match ASM/SSM selection''))) (\<lambda>_.
        ebind (str_at raw ''group_range'') (\<lambda>g.
        ebind (network g) (\<lambda>group_range.
        ebind (raise_if (\<not> subnet_of group_range multicast_space)
           (AllocationError (''Multicast overlay policy '' @ name @ '' group_range is not multicast''))) (\<lambda>_.
        ebind (raise_if (mode = ''ssm'' \<and> \<not> subnet_of group_range ssm_range)
           (AllocationError (''SSM policy '' @ name @ '' group_range must be inside '' @ net_str ssm_range))) (\<lambda>_.
        ebind (raise_if (mode = ''asm'' \<and> overlaps group_range ssm_space)
           (AllocationError (''ASM policy '' @ name @ '' group_range cannot overlap SSM space''))) (\<lambda>_.
        Inr (vn, mode, group_range)))))))))))))"

definition overlay_rp :: "string \<Rightarrow> string \<Rightarrow> json \<Rightarrow> (string \<times> string) option result" where
  "overlay_rp name mode raw =
     (if mode = ''asm''
      then
        (ebind (str_at raw ''rp_address'') (\<lambda>s.
           ebind (ip_address s) (\<lambda>a.
           ebind (str_at raw ''rp_prefix'') (\<lambda>p.
           ebind (network p) (\<lambda>n.
           ebind (raise_if (ip_multicast a \<or> \<not> ip_in_net a n)
              (AllocationError (''ASM policy '' @ name @ '' RP address must be unicast and inside rp_prefix''))) (\<lambda>_.
           Inr (Some (ip_str a, net_str n))))))))
      else Inr None)"

definition reserve_segment :: "ctx \<Rightarrow> device \<Rightarrow> (alloc, string \<times> string) eff" where
  "reserve_segment cx d =
     (sbind (slift (pool_prefix_len_32 (cx_pools cx) ''multicast_overlay_loopbacks'')) (\<lambda>len.
        sbind (reserve_prefix (cx_pools cx) ''multicast_overlay_loopbacks'' len) (\<lambda>p.
        sbind (sguard (prefixlen p \<noteq> 32)
            (AllocationError ''Guardrail multicast_overlay_loopbacks must allocate /32 addresses'')) (\<lambda>_.
        sret (dev_id d, addr_str (net_addr p))))))"

definition reserve_core_group :: "ctx \<Rightarrow> (int \<times> int) option \<Rightarrow> (alloc, (string \<times> string \<times> int) option) eff" where
  "reserve_core_group cx core =
     (case core of
        None \<Rightarrow> sret None
      | Some (len, groups) \<Rightarrow>
          (sbind (reserve_prefix (cx_pools cx) ''multicast_core_groups'' len) (\<lambda>p.
             sret (Some (net_str p, addr_str (net_addr p + 1), groups)))))"

definition derive_overlay_policy ::
    "ctx \<Rightarrow> device list \<Rightarrow> vnet list \<Rightarrow> mcast_selection \<Rightarrow> ipv4net \<Rightarrow> (int \<times> int) option
       \<Rightarrow> overlay_policy list \<Rightarrow> json \<Rightarrow> (alloc, overlay_policy list) eff" where
  "derive_overlay_policy cx devices vns ms ssm_range core acc raw =
     (sbind (slift (check_overlay_policy ms ssm_range vns (map op_vn acc) raw)) (\<lambda>(vn, mode, group_range).
        sbind (slift (str_at raw ''virtual_network'')) (\<lambda>name.
        sbind (slift (overlay_rp name mode raw)) (\<lambda>rp.
        sbind (s_mapM (reserve_segment cx) (multicast_devices devices)) (\<lambda>segments.
        sbind (reserve_core_group cx core) (\<lambda>group.
        sret (acc @ [\<lparr>op_vn = name, op_vrf = vn_vrf vn, op_l3 = vn_l3 vn, op_mode = mode,
            op_group_range = group_range, op_access_list = access_list_name (vn_vrf vn) mode group_range,
            op_rp = rp, op_loopbacks = segments, op_core = group\<rparr>])))))))"

section \<open>Groups for layer-2 flooding\<close>

record bum_group =
  bg_pool :: string
  bg_l2 :: int
  bg_vlan :: int
  bg_group :: string

definition bum_group_json :: "bum_group \<Rightarrow> json" where
  "bum_group_json b = JObj
     [(''endpoint_pool_id'', JStr (bg_pool b)), (''l2_instance_id'', JInt (bg_l2 b)),
      (''vlan_id'', JInt (bg_vlan b)), (''group'', JStr (bg_group b))]"

definition derive_bum_groups ::
    "ctx \<Rightarrow> mcast_selection \<Rightarrow> endpoint_pool list \<Rightarrow> (alloc, bum_group list) eff" where
  "derive_bum_groups cx ms pools =
     (if ms_enabled ms \<and> ms_transport ms = ''native''
      then
        (sbind (slift (contains_key ''multicast_bum_groups'' (cx_pools cx))) (\<lambda>has_pool.
           sbind (sguard (\<not> has_pool) (AllocationError ''Guardrail pool multicast_bum_groups is missing'')) (\<lambda>_.
           sbind (slift (jidx (cx_pools cx) ''multicast_bum_groups'')) (\<lambda>pool.
           sbind (slift (str_at pool ''cidr'')) (\<lambda>cidr.
           sbind (slift (network cidr)) (\<lambda>supernet.
           sbind (sguard (\<not> subnet_of supernet multicast_space \<or> overlaps supernet ssm_space)
               (AllocationError ''Guardrail pool multicast_bum_groups must be ASM multicast space'')) (\<lambda>_.
           sbind (slift (int_get pool ''prefix_len'' 32)) (\<lambda>len.
           sbind (sguard (len \<noteq> 32) (AllocationError ''Guardrail multicast_bum_groups must allocate /32 groups'')) (\<lambda>_.
           s_mapM (\<lambda>p.
                 (sbind (reserve_prefix (cx_pools cx) ''multicast_bum_groups'' 32) (\<lambda>n.
                    sret \<lparr>bg_pool = ep_id p, bg_l2 = ep_l2 p, bg_vlan = ep_vlan p,
                            bg_group = addr_str (net_addr n)\<rparr>)))
               (sort_key ep_l2 pools))))))))))
      else sret [])"

section \<open>The section\<close>

record multicast =
  mc_selection :: mcast_selection
  mc_ssm_range :: ipv4net
  mc_policies :: "overlay_policy list"
  mc_bum :: "bum_group list"
  mc_rp :: "string option"

definition multicast_json :: "multicast \<Rightarrow> json" where
  "multicast_json m =
     (let s = mc_selection m in JObj
       ([(''enabled'', JBool (ms_enabled s)), (''transport'', JStr (ms_transport s)),
         (''rp_mode'', JStr (ms_rp_mode s)), (''rp_device_ids'', jstrs (ms_rp_devices s)),
         (''asm_virtual_networks'', jstrs (ms_asm s)), (''ssm_virtual_networks'', jstrs (ms_ssm s)),
         (''ssm_range'', JStr (net_str (mc_ssm_range m))),
         (''overlay_policies'', JArr (map overlay_policy_json (mc_policies m))),
         (''l2_bum_groups'', JArr (map bum_group_json (mc_bum m)))]
        @ opt_field ''rp_address'' (mc_rp m)))"

definition derive_multicast_of ::
    "ctx \<Rightarrow> device list \<Rightarrow> link list \<Rightarrow> vnet list \<Rightarrow> endpoint_pool list \<Rightarrow> string \<Rightarrow> json \<Rightarrow> (alloc, multicast) eff" where
  "derive_multicast_of cx devices links vns pools environment raw =
     (sbind (slift (mcast_selection_of devices links vns raw)) (\<lambda>ms.
        sbind (derive_underlay_rp cx environment ms) (\<lambda>rp.
        sbind (slift (derive_ssm_range raw)) (\<lambda>ssm_range.
        sbind (slift (jget_default raw ''overlay_policies'' (JArr []))) (\<lambda>raw_policies.
        sbind (slift (check_overlay_request cx devices ms raw_policies)) (\<lambda>_.
        sbind (slift (core_groups cx ms raw_policies)) (\<lambda>core.
        sbind (slift (elems raw_policies)) (\<lambda>items.
        sbind (slift (sort_by (\<lambda>p. str_get p ''virtual_network'' []) items)) (\<lambda>sorted_items.
        sbind (s_foldM (derive_overlay_policy cx devices vns ms ssm_range core) [] sorted_items) (\<lambda>policies.
        let missing = sorted_diff (ms_asm ms @ ms_ssm ms) (map op_vn policies) in
        sbind (slift (refuse missing
            (\<lambda>x. AllocationError (''Missing multicast overlay policy for virtual network '' @ x)))) (\<lambda>_.
        sbind (derive_bum_groups cx ms pools) (\<lambda>bum.
        sret \<lparr>mc_selection = ms, mc_ssm_range = ssm_range, mc_policies = policies, mc_bum = bum, mc_rp = rp\<rparr>))))))))))))"

definition derive_multicast ::
    "ctx \<Rightarrow> device list \<Rightarrow> link list \<Rightarrow> vnet list \<Rightarrow> endpoint_pool list \<Rightarrow> string \<Rightarrow> (alloc, multicast option) eff" where
  "derive_multicast cx devices links vns pools environment =
     (sbind (slift (jget (cx_requirements cx) ''multicast'')) (\<lambda>raw.
        (if raw = JNull then sret None
           else (sbind (derive_multicast_of cx devices links vns pools environment raw) (\<lambda>m.
              sret (Some m))))))"

end
