(* ===== verification/Url.thy ===== *)
theory Url
  imports Ipv4 Json
begin

text \<open>
  \<open>urllib.parse.urlparse\<close> as far as the orchestrator reads its result: scheme, host, port, path,
  query and fragment of an absolute URL. Brackets of an IPv6 host must match; what is between
  them is not inspected.
\<close>

text \<open>\<open>s.partition(c)\<close>: before and after the first \<open>c\<close>; \<open>None\<close> after when there is none.\<close>

fun partition_at :: "char \<Rightarrow> string \<Rightarrow> string \<times> string option" where
  "partition_at c [] = ([], None)"
| "partition_at c (d # s) =
     (if d = c then ([], Some s) else (case partition_at c s of (a, b) \<Rightarrow> (d # a, b)))"

definition rstrip_char :: "char \<Rightarrow> string \<Rightarrow> string" where
  "rstrip_char c s = rev (dropWhile (\<lambda>d. d = c) (rev s))"

definition scheme_char :: "char \<Rightarrow> bool" where
  "scheme_char c \<longleftrightarrow> is_alnum c \<or> c = CHR ''+'' \<or> c = CHR ''-'' \<or> c = CHR ''.''"

record url =
  url_scheme :: string
  url_netloc :: string
  url_path :: string
  url_query :: string
  url_fragment :: string

text \<open>Leading controls and spaces go, tabs and line ends go everywhere.\<close>

definition clean_url :: "string \<Rightarrow> string" where
  "clean_url s = filter (\<lambda>c. c \<notin> {CHR 0x09, CHR 0x0A, CHR 0x0D}) (dropWhile (\<lambda>c. ordc c \<le> 32) s)"

definition split_scheme :: "string \<Rightarrow> string \<times> string" where
  "split_scheme s =
     (case partition_at (CHR '':'') s of
        (a, Some rest) \<Rightarrow>
          (if a \<noteq> [] \<and> (is_upper (hd a) \<or> is_lower (hd a)) \<and> list_all scheme_char a
           then (lower a, rest) else ([], s))
      | (a, None) \<Rightarrow> ([], s))"

definition split_netloc :: "string \<Rightarrow> string \<times> string" where
  "split_netloc s =
     (if starts_with s ''//'' then
        (let t = drop 2 s; p = (\<lambda>c. c \<notin> {CHR ''/'', CHR ''?'', CHR ''#''}) in
         (takeWhile p t, dropWhile p t))
      else ([], s))"

text \<open>The parameters after a \<open>;\<close> in the last segment of the path do not count as path.\<close>

definition split_params :: "string \<Rightarrow> string" where
  "split_params path =
     (let segs = split_on (CHR ''/'') path in
      join ''/'' (butlast segs @ [fst (partition_at (CHR '';'') (last segs))]))"

definition urlparse :: "string \<Rightarrow> url result" where
  "urlparse s =
     (case split_scheme (clean_url s) of (scheme, rest) \<Rightarrow>
      (case split_netloc rest of (netloc, tail) \<Rightarrow>
        (if (CHR ''['' \<in> set netloc) \<noteq> (CHR '']'' \<in> set netloc) then Inl (ValueError ''Invalid IPv6 URL'')
         else
           (case partition_at (CHR ''#'') tail of (body, frag) \<Rightarrow>
            (case partition_at (CHR ''?'') body of (path, query) \<Rightarrow>
              Inr \<lparr>url_scheme = scheme, url_netloc = netloc, url_path = split_params path,
                   url_query = (case query of None \<Rightarrow> [] | Some q \<Rightarrow> q),
                   url_fragment = (case frag of None \<Rightarrow> [] | Some f \<Rightarrow> f)\<rparr>)))))"

text \<open>Host and port text of the network location, after the user information.\<close>

definition host_port :: "string \<Rightarrow> string \<times> string option" where
  "host_port netloc =
     (let hostinfo = last (split_on (CHR ''@'') netloc) in
      case partition_at (CHR ''['') hostinfo of
        (_, Some bracketed) \<Rightarrow>
          (case partition_at (CHR '']'') bracketed of
             (h, Some rest) \<Rightarrow> (h, snd (partition_at (CHR '':'') rest))
           | (h, None) \<Rightarrow> (h, None))
      | (_, None) \<Rightarrow> partition_at (CHR '':'') hostinfo)"

definition url_hostname :: "url \<Rightarrow> string" where
  "url_hostname u = lower (fst (host_port (url_netloc u)))"

text \<open>\<open>parsed.port\<close>: \<open>None\<close> without a port, \<open>ValueError\<close> for one that is no number up to 65535.\<close>

definition url_port :: "url \<Rightarrow> nat option result" where
  "url_port u =
     (case snd (host_port (url_netloc u)) of
        None \<Rightarrow> Inr None
      | Some [] \<Rightarrow> Inr None
      | Some p \<Rightarrow>
          (case parse_nat p of
             None \<Rightarrow> Inl (ValueError ''Port could not be cast to integer value'')
           | Some n \<Rightarrow> (if n \<le> 65535 then Inr (Some n) else Inl (ValueError ''Port out of range 0-65535''))))"

end
