(* ===== verification/DerivePolicy.thy ===== *)
theory DerivePolicy
  imports DeriveMulticast Url
begin

text \<open>
  \<open>derive_fabric_intent\<close>, fifth part: the policy plane. Security groups get tags, contracts are
  checked and named by their hash, the identity services nodes and the exchange-protocol
  connections are validated.
\<close>

section \<open>Security groups and contracts\<close>

record security_group =
  sg_name :: string
  sg_tag :: int

definition security_group_json :: "security_group \<Rightarrow> json" where
  "security_group_json g = JObj [(''name'', JStr (sg_name g)), (''tag'', JInt (sg_tag g))]"

definition derive_security_group ::
    "json \<Rightarrow> security_group list \<Rightarrow> json \<Rightarrow> (alloc, security_group list) eff" where
  "derive_security_group sgt_range acc raw =
     (sbind (slift (str_at raw ''name'')) (\<lambda>name.
        sbind (sguard (name \<in> set (map sg_name acc)) (AllocationError (''Duplicate security group '' @ name))) (\<lambda>_.
        sbind (slift (jget raw ''tag'')) (\<lambda>wanted.
        sbind ((if wanted = JNull
                  then (sbind (slift (range_bounds sgt_range)) (\<lambda>(lo, hi).
                     reserve_scalar ''sgt'' lo hi))
                  else (sbind (slift (py_int wanted)) (\<lambda>t.
                     sbind (slift (range_bounds sgt_range)) (\<lambda>(lo, hi).
                     reserve_requested_scalar ''sgt'' t lo hi))))) (\<lambda>tag.
        sret (acc @ [\<lparr>sg_name = name, sg_tag = tag\<rparr>]))))))"

record contract =
  ct_source :: string
  ct_source_tag :: int
  ct_destination :: string
  ct_destination_tag :: int
  ct_action :: string
  ct_protocol :: string

text \<open>The first twelve digits of the hash of a contract's identity.\<close>

definition contract_digest :: "string \<Rightarrow> string \<Rightarrow> string \<Rightarrow> string \<Rightarrow> string" where
  "contract_digest source destination action protocol =
     upper (take 12 (sha256_json (JObj
       [(''source'', JStr source), (''destination'', JStr destination), (''action'', JStr action),
        (''protocol'', JStr protocol)])))"

definition contract_json :: "contract \<Rightarrow> json" where
  "contract_json c =
     (let d = contract_digest (ct_source c) (ct_destination c) (ct_action c) (ct_protocol c) in
      JObj [(''name'', JStr (''SDA-CONTRACT-'' @ d)), (''source'', JStr (ct_source c)),
        (''source_tag'', JInt (ct_source_tag c)), (''destination'', JStr (ct_destination c)),
        (''destination_tag'', JInt (ct_destination_tag c)), (''action'', JStr (ct_action c)),
        (''protocol'', JStr (ct_protocol c)), (''sgacl_name'', JStr (''SDA-SGACL-'' @ d)),
        (''aces'', JArr [JStr (ct_action c @ '' '' @ ct_protocol c)]), (''default_action'', JStr ''deny'')])"

definition group_tag :: "security_group list \<Rightarrow> string \<Rightarrow> int result" where
  "group_tag groups name =
     ebind (of_option (KeyError name) (find (\<lambda>g. sg_name g = name) groups)) (\<lambda>g. Inr (sg_tag g))"

definition derive_contract :: "security_group list \<Rightarrow> contract list \<Rightarrow> json \<Rightarrow> contract list result" where
  "derive_contract groups acc raw =
     (ebind (str_at raw ''source'') (\<lambda>source.
        ebind (str_at raw ''destination'') (\<lambda>destination.
        let unknown_groups = sorted_diff [source, destination] (map sg_name groups) in
        ebind (refuse unknown_groups
           (\<lambda>x. AllocationError (''Policy contract references unknown security group '' @ x))) (\<lambda>_.
        ebind (str_at raw ''protocol'') (\<lambda>protocol.
        ebind (raise_if ((source, destination, protocol)
               \<in> set (map (\<lambda>c. (ct_source c, ct_destination c, ct_protocol c)) acc))
           (AllocationError (''Duplicate policy contract '' @ source @ '' to '' @ destination @ '' for '' @ protocol))) (\<lambda>_.
        ebind (str_at raw ''action'') (\<lambda>action.
        ebind (raise_if (action = ''deny'' \<and> protocol \<noteq> ''ip'') (AllocationError
           ''Deny policy contracts must use protocol ip because the policy plane is default-deny'')) (\<lambda>_.
        ebind (group_tag groups source) (\<lambda>st.
        ebind (group_tag groups destination) (\<lambda>dt.
        Inr (acc @ [\<lparr>ct_source = source, ct_source_tag = st, ct_destination = destination,
           ct_destination_tag = dt, ct_action = action, ct_protocol = protocol\<rparr>])))))))))))"

definition contract_sort_key :: "json \<Rightarrow> (string \<times> string \<times> string \<times> string) result" where
  "contract_sort_key c =
     (ebind (str_get c ''source'' []) (\<lambda>s.
        ebind (str_get c ''destination'' []) (\<lambda>d.
        ebind (str_get c ''protocol'' []) (\<lambda>p.
        ebind (str_get c ''action'' []) (\<lambda>a.
        Inr (s, d, p, a))))))"

section \<open>Identity services nodes\<close>

record ise_node =
  is_id :: string
  is_address :: string
  is_url :: string
  is_roles :: "string list"

definition ise_node_json :: "ise_node \<Rightarrow> json" where
  "ise_node_json n = JObj [(''id'', JStr (is_id n)), (''address'', JStr (is_address n)),
     (''api_base_url'', JStr (is_url n)), (''roles'', jstrs (is_roles n))]"

text \<open>Scheme \<open>https\<close>, a host, a legal port, nothing after it.\<close>

definition https_origin :: "string \<Rightarrow> bool result" where
  "https_origin text =
     (ebind (urlparse text) (\<lambda>u.
        Inr (url_scheme u = ''https'' \<and> url_hostname u \<noteq> []
              \<and> (case url_port u of Inl _ \<Rightarrow> False | Inr None \<Rightarrow> True | Inr (Some p) \<Rightarrow> 1 \<le> p)
              \<and> url_path u \<in> {[], ''/''} \<and> url_query u = [] \<and> url_fragment u = [])))"

definition derive_ise_node :: "ise_node list \<Rightarrow> json \<Rightarrow> ise_node list result" where
  "derive_ise_node acc item =
     (ebind (str_at item ''id'') (\<lambda>node_id.
        ebind (str_at item ''address'') (\<lambda>address.
        ebind (raise_if (node_id \<in> set (map is_id acc)) (AllocationError (''Duplicate ISE node '' @ node_id))) (\<lambda>_.
        ebind (raise_if (address \<in> set (map is_address acc))
           (AllocationError (''Duplicate ISE node address '' @ address))) (\<lambda>_.
        ebind (str_at item ''api_base_url'') (\<lambda>raw_url.
        let base_url = rstrip_char (CHR ''/'') raw_url in
        ebind (https_origin base_url) (\<lambda>ok.
        ebind (raise_if (\<not> ok)
           (AllocationError (''ISE node '' @ node_id @ '' api_base_url must be an HTTPS origin''))) (\<lambda>_.
        ebind (strs_at item ''roles'') (\<lambda>roles.
        Inr (acc @ [\<lparr>is_id = node_id, is_address = address, is_url = base_url, is_roles = sort roles\<rparr>]))))))))))"

record ise_plane =
  ip_credential :: string
  ip_write_node :: string
  ip_nodes :: "ise_node list"
  ip_ca_bundle :: "string option"

definition ise_plane_json :: "ise_plane \<Rightarrow> json" where
  "ise_plane_json p = JObj
     ([(''credential_ref'', JStr (ip_credential p)), (''write_node_id'', JStr (ip_write_node p)),
       (''nodes'', JArr (map ise_node_json (ip_nodes p)))]
      @ opt_field ''ca_bundle_ref'' (ip_ca_bundle p))"

definition derive_ise :: "json \<Rightarrow> string \<Rightarrow> json \<Rightarrow> ise_plane result" where
  "derive_ise redundancy environment raw_ise =
     (ebind (items_at raw_ise ''nodes'') (\<lambda>raw_nodes.
        ebind (sort_by (\<lambda>n. str_at n ''id'') raw_nodes) (\<lambda>sorted_nodes.
        ebind (foldE derive_ise_node [] sorted_nodes) (\<lambda>nodes.
        ebind (str_at raw_ise ''write_node_id'') (\<lambda>write_id.
        ebind (of_option (AllocationError ''ISE write_node_id references an unknown node'')
           (find (\<lambda>n. is_id n = write_id) nodes)) (\<lambda>write_node.
        ebind (raise_if (''pan'' \<notin> set (is_roles write_node))
           (AllocationError ''ISE write node must have the PAN role'')) (\<lambda>_.
        ebind ((if environment = ''production''
          then (ebind (int_get redundancy ''min_ise_nodes_production'' 2) (\<lambda>least.
             ebind (raise_if (int (length nodes) < least)
                     (AllocationError (''Production policy plane requires at least '' @ int_str least @ '' ISE nodes''))) (\<lambda>_.
             raise_if (length (filter (\<lambda>n. ''pan'' \<in> set (is_roles n)) nodes) < 2)
                     (AllocationError ''Production policy plane requires redundant ISE PAN nodes''))))
          else Inr ())) (\<lambda>_.
        ebind (str_at raw_ise ''credential_ref'') (\<lambda>cred.
        ebind (optional_str raw_ise ''ca_bundle_ref'') (\<lambda>ca.
        Inr \<lparr>ip_credential = cred, ip_write_node = write_id, ip_nodes = nodes, ip_ca_bundle = ca\<rparr>))))))))))"

section \<open>Exchange-protocol connections\<close>

record sxp_connection =
  sx_id :: string
  sx_speaker :: string
  sx_vrf :: string
  sx_listener :: string
  sx_listener_prefix :: string
  sx_password_ref :: string
  sx_source_ip :: "string option"

definition sxp_connection_json :: "sxp_connection \<Rightarrow> json" where
  "sxp_connection_json c = JObj
     ([(''id'', JStr (sx_id c)), (''speaker_id'', JStr (sx_speaker c)), (''transport_vrf'', JStr (sx_vrf c)),
       (''listener_ip'', JStr (sx_listener c)), (''listener_prefix'', JStr (sx_listener_prefix c)),
       (''password_ref'', JStr (sx_password_ref c)), (''local_mode'', JStr ''speaker'')]
      @ opt_field ''source_ip'' (sx_source_ip c))"

definition uses_ise :: "string \<Rightarrow> bool" where
  "uses_ise mode \<longleftrightarrow> mode = ''ise'' \<or> mode = ''hybrid''"

definition uses_sxp :: "string \<Rightarrow> bool" where
  "uses_sxp mode \<longleftrightarrow> mode = ''sxp'' \<or> mode = ''hybrid''"

text \<open>An identity-services listener is reached through the shared services.\<close>

definition check_ise_listener ::
    "shared_services option \<Rightarrow> string \<Rightarrow> string \<Rightarrow> string \<Rightarrow> unit result" where
  "check_ise_listener shared cid listener_prefix transport_vrf =
     (let services = (case shared of None \<Rightarrow> [] | Some s \<Rightarrow> ss_services s);
          ise_prefixes = concat (map sv_prefixes (filter (\<lambda>s. sv_type s = ''ise'') services)) in
      (ebind (raise_if (listener_prefix \<notin> set ise_prefixes)
            (AllocationError (''SXP connection '' @ cid
               @ '' listener_prefix is not an approved ISE service prefix''))) (\<lambda>_.
         raise_if (transport_vrf \<noteq> (case shared of None \<Rightarrow> [] | Some s \<Rightarrow> ss_vrf s))
            (AllocationError (''SXP connection '' @ cid
               @ '' must use the shared-services VRF for an ISE listener'')))))"

text \<open>The value the last earlier connection of the same speaker has, if it is not empty.\<close>

definition earlier_of :: "string \<Rightarrow> (sxp_connection \<Rightarrow> string) \<Rightarrow> sxp_connection list \<Rightarrow> string option" where
  "earlier_of speaker f acc =
     (case find (\<lambda>c. sx_speaker c = speaker) (rev acc) of
        None \<Rightarrow> None | Some c \<Rightarrow> (if f c = [] then None else Some (f c)))"

definition derive_sxp_connection ::
    "device list \<Rightarrow> string list \<Rightarrow> shared_services option \<Rightarrow> string list \<Rightarrow> string
       \<Rightarrow> sxp_connection list \<Rightarrow> json \<Rightarrow> sxp_connection list result" where
  "derive_sxp_connection devices vrf_names shared ise_addresses mode acc item =
     (ebind (str_at item ''id'') (\<lambda>cid.
        ebind (raise_if (cid \<in> set (map sx_id acc)) (AllocationError (''Duplicate SXP connection '' @ cid))) (\<lambda>_.
        ebind (str_at item ''speaker_id'') (\<lambda>speaker_id.
        ebind (of_option
           (AllocationError (''SXP connection '' @ cid @ '' speaker must be a fabric device''))
           (find (\<lambda>d. dev_id d = speaker_id) devices)) (\<lambda>speaker.
        ebind (raise_if (\<not> has_role ''border'' speaker \<and> \<not> has_role ''fabric_edge'' speaker)
           (AllocationError (''SXP connection '' @ cid @ '' speaker must be a border or fabric edge''))) (\<lambda>_.
        ebind ((if uses_ise mode then str_at item ''listener_ip'' else Inr [])) (\<lambda>listener_text.
        ebind (raise_if (uses_ise mode \<and> listener_text \<notin> set ise_addresses)
           (AllocationError (''SXP connection '' @ cid @ '' listener '' @ listener_text
              @ '' is not an approved ISE node''))) (\<lambda>_.
        ebind (str_at item ''transport_vrf'') (\<lambda>transport_vrf.
        ebind (raise_if (transport_vrf \<noteq> ''global'' \<and> transport_vrf \<notin> set vrf_names)
           (AllocationError (''SXP connection '' @ cid @ '' references unknown transport VRF '' @ transport_vrf))) (\<lambda>_.
        ebind (raise_if (case earlier_of speaker_id sx_vrf acc of None \<Rightarrow> False | Some v \<Rightarrow> v \<noteq> transport_vrf)
           (AllocationError (''SXP speaker '' @ speaker_id @ '' cannot use multiple transport VRFs''))) (\<lambda>_.
        ebind (str_at item ''listener_ip'') (\<lambda>ip_text.
        ebind (ip_address ip_text) (\<lambda>listener_ip.
        ebind (str_at item ''listener_prefix'') (\<lambda>prefix_text.
        ebind (network prefix_text) (\<lambda>listener_prefix.
        ebind (raise_if (\<not> ip_in_net listener_ip listener_prefix)
           (AllocationError (''SXP connection '' @ cid @ '' listener must be inside listener_prefix''))) (\<lambda>_.
        ebind ((if uses_ise mode then check_ise_listener shared cid (net_str listener_prefix) transport_vrf else Inr ())) (\<lambda>_.
        ebind (raise_if ((speaker_id, ip_str listener_ip, transport_vrf)
               \<in> set (map (\<lambda>c. (sx_speaker c, sx_listener c, sx_vrf c)) acc))
           (AllocationError ''Duplicate SXP speaker/listener/VRF connection'')) (\<lambda>_.
        ebind (str_at item ''password_ref'') (\<lambda>password_ref.
        ebind (raise_if (case earlier_of speaker_id sx_password_ref acc of None \<Rightarrow> False | Some p \<Rightarrow> p \<noteq> password_ref)
           (AllocationError (''SXP speaker '' @ speaker_id @ '' cannot use multiple default password references''))) (\<lambda>_.
        Inr (acc @ [\<lparr>sx_id = cid, sx_speaker = speaker_id, sx_vrf = transport_vrf,
           sx_listener = ip_str listener_ip, sx_listener_prefix = net_str listener_prefix,
           sx_password_ref = password_ref, sx_source_ip = None\<rparr>])))))))))))))))))))))"

definition derive_sxp ::
    "device list \<Rightarrow> string list \<Rightarrow> shared_services option \<Rightarrow> string list \<Rightarrow> string \<Rightarrow> json \<Rightarrow> string \<Rightarrow> json
       \<Rightarrow> sxp_connection list result" where
  "derive_sxp devices vrf_names shared ise_addresses mode redundancy environment raw_sxp =
     (ebind (items_at raw_sxp ''connections'') (\<lambda>raw.
        ebind (sort_by (\<lambda>c. str_at c ''id'') raw) (\<lambda>sorted_raw.
        ebind (foldE (derive_sxp_connection devices vrf_names shared ise_addresses mode) [] sorted_raw) (\<lambda>connections.
        ebind ((if environment = ''production''
          then (ebind (int_get redundancy ''min_sxp_speakers_production'' 2) (\<lambda>speakers.
             ebind (int_get redundancy ''min_sxp_listeners_production'' 2) (\<lambda>listeners.
             ebind (raise_if (int (length (remdups (map sx_speaker connections))) < speakers)
                     (AllocationError (''Production SXP requires at least '' @ int_str speakers @ '' speakers''))) (\<lambda>_.
             raise_if (int (length (remdups (map sx_listener connections))) < listeners)
                     (AllocationError (''Production SXP requires at least '' @ int_str listeners @ '' listeners''))))))
          else Inr ())) (\<lambda>_.
        Inr connections)))))"

section \<open>The section\<close>

record policy_plane =
  pp_mode :: string
  pp_devices :: "string list"
  pp_vlans :: "int list"
  pp_groups :: "security_group list"
  pp_contracts :: "contract list"
  pp_ise :: "ise_plane option"
  pp_sxp :: "sxp_connection list option"

definition policy_plane_json :: "policy_plane \<Rightarrow> json" where
  "policy_plane_json p = JObj
     ([(''mode'', JStr (pp_mode p)), (''contract_version'', JStr ''1.0''), (''default_action'', JStr ''deny''),
       (''enforcement_device_ids'', jstrs (pp_devices p)),
       (''enforcement_vlan_ids'', JArr (map JInt (pp_vlans p))),
       (''security_groups'', JArr (map security_group_json (pp_groups p))),
       (''contracts'', JArr (map contract_json (pp_contracts p)))]
      @ (case pp_ise p of None \<Rightarrow> [] | Some i \<Rightarrow> [(''ise'', ise_plane_json i)])
      @ (case pp_sxp p of None \<Rightarrow> []
         | Some cs \<Rightarrow> [(''sxp'', JObj [(''connections'', JArr (map sxp_connection_json cs))])]))"

definition check_policy_mode :: "json \<Rightarrow> string result" where
  "check_policy_mode raw =
     (ebind (str_get raw ''contract_version'' ''None'') (\<lambda>version.
        ebind (raise_if (version \<noteq> ''1.0'') (AllocationError
           ''Policy-plane contract_version 1.0 is required; migrate stored schema 1.2 requirements before planning'')) (\<lambda>_.
        ebind (str_at raw ''mode'') (\<lambda>mode.
        ebind (str_get raw ''default_action'' ''None'') (\<lambda>action.
        ebind (raise_if (action \<noteq> ''deny'') (AllocationError ''Policy-plane default action must be deny'')) (\<lambda>_.
        ebind (jget raw ''ise'') (\<lambda>ise.
        ebind (jget raw ''sxp'') (\<lambda>sxp.
        ebind (raise_if (uses_ise mode \<and> \<not> truthy ise)
           (AllocationError (''Policy-plane mode '' @ mode @ '' requires ISE settings''))) (\<lambda>_.
        ebind (raise_if (uses_sxp mode \<and> \<not> truthy sxp)
           (AllocationError (''Policy-plane mode '' @ mode @ '' requires SXP settings''))) (\<lambda>_.
        ebind (raise_if (\<not> uses_ise mode \<and> truthy ise)
           (AllocationError (''Policy-plane mode '' @ mode @ '' cannot contain ISE settings''))) (\<lambda>_.
        ebind (raise_if (\<not> uses_sxp mode \<and> truthy sxp)
           (AllocationError (''Policy-plane mode '' @ mode @ '' cannot contain SXP settings''))) (\<lambda>_.
        Inr mode))))))))))))"

definition derive_policy_plane_of ::
    "ctx \<Rightarrow> device list \<Rightarrow> vnet list \<Rightarrow> endpoint_pool list \<Rightarrow> shared_services option \<Rightarrow> string \<Rightarrow> json
       \<Rightarrow> (alloc, policy_plane) eff" where
  "derive_policy_plane_of cx devices vns pools shared environment raw =
     (sbind (slift (check_policy_mode raw)) (\<lambda>mode.
        sbind (slift (jget (cx_ranges cx) ''sgt'')) (\<lambda>sgt_range.
        sbind (sguard (\<not> is_obj sgt_range) (AllocationError ''Guardrail range sgt is missing'')) (\<lambda>_.
        sbind (slift (items_get raw ''security_groups'')) (\<lambda>raw_groups.
        sbind (slift (sort_by (\<lambda>g. str_get g ''name'' []) raw_groups)) (\<lambda>sorted_groups.
        sbind (s_foldM (derive_security_group sgt_range) [] sorted_groups) (\<lambda>groups.
        sbind (slift (items_get raw ''contracts'')) (\<lambda>raw_contracts.
        sbind (slift (sort_by contract_sort_key raw_contracts)) (\<lambda>sorted_contracts.
        sbind (slift (foldE (derive_contract groups) [] sorted_contracts)) (\<lambda>contracts.
        sbind (slift (jget_default (cx_policy cx) ''redundancy'' (JObj []))) (\<lambda>redundancy.
        sbind (slift (jget raw ''ise'')) (\<lambda>raw_ise.
        sbind (slift ((if truthy raw_ise then (ebind (derive_ise redundancy environment raw_ise) (\<lambda>i.
             Inr (Some i)))
                  else Inr None))) (\<lambda>ise.
        let ise_addresses = (case ise of None \<Rightarrow> [] | Some i \<Rightarrow> map is_address (ip_nodes i)) in
        sbind (slift (jget raw ''sxp'')) (\<lambda>raw_sxp.
        sbind (slift ((if truthy raw_sxp
                  then (ebind (derive_sxp devices (map vn_vrf vns) shared ise_addresses mode redundancy
                                   environment raw_sxp) (\<lambda>cs.
                     Inr (Some cs)))
                  else Inr None))) (\<lambda>sxp.
        sret \<lparr>pp_mode = mode, pp_devices = sort (map dev_id (filter (has_role ''fabric_edge'') devices)),
                pp_vlans = sort (map ep_vlan pools), pp_groups = groups, pp_contracts = contracts,
                pp_ise = ise, pp_sxp = sxp\<rparr>)))))))))))))))"

definition derive_policy_plane ::
    "ctx \<Rightarrow> device list \<Rightarrow> vnet list \<Rightarrow> endpoint_pool list \<Rightarrow> shared_services option \<Rightarrow> string
       \<Rightarrow> (alloc, policy_plane option) eff" where
  "derive_policy_plane cx devices vns pools shared environment =
     (sbind (slift (jget (cx_requirements cx) ''policy_plane'')) (\<lambda>raw.
        (if raw = JNull then sret None
           else (sbind (derive_policy_plane_of cx devices vns pools shared environment raw) (\<lambda>p.
              sret (Some p))))))"

end
