(* ===== verification/DeriveHandoff.thy ===== *)
theory DeriveHandoff
  imports DerivePolicy
begin

text \<open>
  \<open>derive_fabric_intent\<close>, sixth part: the redundancy guardrails, the LISP domain and multihoming
  identifiers, and the handoff of the borders to the fusion nodes or to external peers.
\<close>

section \<open>Control planes and redundancy\<close>

definition control_planes :: "device list \<Rightarrow> string list" where
  "control_planes devices = map dev_id (filter (has_role ''control_plane'') devices)"

definition border_ids :: "device list \<Rightarrow> string list" where
  "border_ids devices = map dev_id (filter (has_role ''border'') devices)"

definition check_redundancy ::
    "ctx \<Rightarrow> device list \<Rightarrow> fusion_node list \<Rightarrow> string \<Rightarrow> unit result" where
  "check_redundancy cx devices fusions environment =
     (ebind (raise_if (control_planes devices = [])
           (AllocationError ''At least one control-plane device is required'')) (\<lambda>_.
        ebind (jget_default (cx_policy cx) ''redundancy'' (JObj [])) (\<lambda>redundancy.
        (if environment = ''production''
          then
            (ebind (int_get redundancy ''min_borders_production'' 2) (\<lambda>borders.
               ebind (raise_if (int (length (border_ids devices)) < borders)
                  (AllocationError ''Production guardrails require redundant borders'')) (\<lambda>_.
               ebind (int_get redundancy ''min_control_planes_production'' 2) (\<lambda>cps.
               ebind (raise_if (int (length (control_planes devices)) < cps)
                  (AllocationError ''Production guardrails require redundant control planes'')) (\<lambda>_.
               (if cx_schema cx = ''1.2''
                 then (ebind (int_get redundancy ''min_fusion_nodes_production'' 2) (\<lambda>least.
                    raise_if (int (length fusions) < least)
                            (AllocationError ''Production guardrails require redundant fusion nodes'')))
                 else Inr ()))))))
          else Inr ()))))"

section \<open>LISP identifiers\<close>

record multihoming =
  mh_site :: string
  mh_id :: int
  mh_borders :: "string list"

definition multihoming_json :: "multihoming \<Rightarrow> json" where
  "multihoming_json m = JObj
     [(''site_id'', JStr (mh_site m)), (''multihoming_id'', JInt (mh_id m)),
      (''border_device_ids'', jstrs (mh_borders m))]"

text \<open>An identifier drawn from its range, or the one the requirements ask for.\<close>

definition reserve_identity :: "string \<Rightarrow> json \<Rightarrow> json \<Rightarrow> (alloc, int) eff" where
  "reserve_identity kind rng wanted =
     (if wanted = JNull
      then (sbind (slift (range_bounds rng)) (\<lambda>(lo, hi).
         reserve_scalar kind lo hi))
      else (sbind (slift (py_int wanted)) (\<lambda>v.
         sbind (slift (range_bounds rng)) (\<lambda>(lo, hi).
         reserve_requested_scalar kind v lo hi))))"

definition borders_of_site :: "device list \<Rightarrow> string \<Rightarrow> string list" where
  "borders_of_site devices site = map dev_id (filter (\<lambda>d. has_role ''border'' d \<and> dev_site d = site) devices)"

definition check_requested_multihoming :: "device list \<Rightarrow> (string \<times> json) list \<Rightarrow> unit result" where
  "check_requested_multihoming devices sites =
     foldE (\<lambda>_ site_id.
         (ebind ((case map_of sites site_id of None \<Rightarrow> Inr JNull | Some s \<Rightarrow> jget s ''lisp_multihoming_id'')) (\<lambda>wanted.
            raise_if (wanted \<noteq> JNull \<and> length (borders_of_site devices site_id) < 2)
               (AllocationError (''Requested lisp_multihoming_id for site '' @ site_id
                  @ '' requires at least two borders'')))))
       () (sorted_set (map fst sites))"

definition derive_multihoming ::
    "device list \<Rightarrow> (string \<times> json) list \<Rightarrow> json \<Rightarrow> multihoming list \<Rightarrow> string \<Rightarrow> (alloc, multihoming list) eff" where
  "derive_multihoming devices sites rng acc site_id =
     (let borders = borders_of_site devices site_id in
      if length borders < 2 then sret acc
      else
        (sbind (slift ((case map_of sites site_id of None \<Rightarrow> Inr JNull | Some s \<Rightarrow> jget s ''lisp_multihoming_id''))) (\<lambda>wanted.
           sbind (reserve_identity ''lisp_multihoming_id'' rng wanted) (\<lambda>mid.
           sret (acc @ [\<lparr>mh_site = site_id, mh_id = mid, mh_borders = sort borders\<rparr>])))))"

definition derive_lisp_ids ::
    "ctx \<Rightarrow> device list \<Rightarrow> (alloc, (int \<times> multihoming list) option) eff" where
  "derive_lisp_ids cx devices =
     (if cx_schema cx = ''1.2'' \<and> cx_mode cx = ''lisp_pubsub''
      then
        (sbind (slift (jget (cx_ranges cx) ''lisp_domain_id'')) (\<lambda>domain_range.
           sbind (slift (jget (cx_ranges cx) ''lisp_multihoming_id'')) (\<lambda>mh_range.
           sbind (sguard (\<not> is_obj domain_range) (AllocationError ''Guardrail range lisp_domain_id is missing'')) (\<lambda>_.
           sbind (sguard (\<not> is_obj mh_range) (AllocationError ''Guardrail range lisp_multihoming_id is missing'')) (\<lambda>_.
           sbind (slift (jget (cx_fabric cx) ''lisp_domain_id'')) (\<lambda>wanted.
           sbind (reserve_identity ''lisp_domain_id'' domain_range wanted) (\<lambda>domain_id.
           sbind (slift (items_get (cx_requirements cx) ''fabric_sites'')) (\<lambda>raw_sites.
           sbind (slift (mapE (\<lambda>s. (ebind (str_at s ''id'') (\<lambda>i.
                Inr (i, s)))) raw_sites)) (\<lambda>pairs.
           let sites = rev pairs in
           sbind (slift (check_requested_multihoming devices sites)) (\<lambda>_.
           sbind (s_foldM (derive_multihoming devices sites mh_range) []
                         (sorted_set (map dev_site (filter (has_role ''border'') devices)))) (\<lambda>groups.
           sret (Some (domain_id, groups)))))))))))))
      else sret None)"

section \<open>Fusion adjacencies\<close>

text \<open>\<open>{item["name"]: item["vrf"]}\<close> and its keys in order.\<close>

definition vrf_of_vn :: "vnet list \<Rightarrow> string \<Rightarrow> string option" where
  "vrf_of_vn vns name = map_option vn_vrf (vn_by_name vns name)"

record adjacency =
  ad_border :: string
  ad_fusion :: string
  ad_vns :: "string list"
  ad_peers :: "json list"

definition adjacency_peer ::
    "fusion_node list \<Rightarrow> vnet list \<Rightarrow> json \<Rightarrow> string \<Rightarrow> string \<Rightarrow> string \<Rightarrow> json result" where
  "adjacency_peer fusions vns raw border fusion vn =
     (ebind (of_option (KeyError vn) (vrf_of_vn vns vn)) (\<lambda>vrf.
        ebind (str_at raw ''border_interface'') (\<lambda>bi.
        ebind (str_at raw ''fusion_interface'') (\<lambda>fi.
        ebind (of_option (KeyError fusion) (find (\<lambda>f. fu_id f = fusion) fusions)) (\<lambda>f.
        Inr (JObj [(''device_id'', JStr border), (''fusion_node_id'', JStr fusion), (''vrf'', JStr vrf),
           (''border_interface'', JStr bi), (''fusion_interface'', JStr fi), (''remote_as'', JInt (fu_asn f))]))))))"

definition derive_adjacency ::
    "device list \<Rightarrow> fusion_node list \<Rightarrow> vnet list \<Rightarrow> adjacency list \<Rightarrow> json \<Rightarrow> adjacency list result" where
  "derive_adjacency devices fusions vns acc raw =
     (ebind (str_get raw ''border_device_id'' []) (\<lambda>border.
        ebind (str_get raw ''fusion_node_id'' []) (\<lambda>fusion.
        ebind (raise_if (border \<notin> set (border_ids devices))
           (AllocationError ''Fusion adjacency must target an approved border'')) (\<lambda>_.
        ebind (raise_if (fusion \<notin> set (map fu_id fusions))
           (AllocationError (''Fusion adjacency references unknown fusion node '' @ fusion))) (\<lambda>_.
        ebind (raise_if ((border, fusion) \<in> set (map (\<lambda>a. (ad_border a, ad_fusion a)) acc))
           (AllocationError (''Duplicate border/fusion adjacency '' @ border @ '' to '' @ fusion))) (\<lambda>_.
        ebind (jget_default raw ''virtual_networks'' (jstrs (sorted_set (map vn_name vns)))) (\<lambda>raw_vns.
        ebind (elems raw_vns) (\<lambda>vn_items.
        let selected = sort (map py_str vn_items) in
        let unknown_vns = sorted_diff selected (map vn_name vns) in
        ebind (refuse unknown_vns
           (\<lambda>x. AllocationError (''Fusion adjacency references unknown virtual network '' @ x))) (\<lambda>_.
        ebind (mapE (adjacency_peer fusions vns raw border fusion) selected) (\<lambda>peers.
        Inr (acc @ [\<lparr>ad_border = border, ad_fusion = fusion, ad_vns = selected, ad_peers = peers\<rparr>])))))))))))"

text \<open>\<open>len(fusion_vns_by_border.get((border_id, vn_name), set()))\<close>\<close>

definition fusion_count :: "adjacency list \<Rightarrow> string \<Rightarrow> string \<Rightarrow> nat" where
  "fusion_count adjs border vn =
     length (remdups (map ad_fusion (filter (\<lambda>a. ad_border a = border \<and> vn \<in> set (ad_vns a)) adjs)))"

definition check_full_mesh ::
    "ctx \<Rightarrow> device list \<Rightarrow> fusion_node list \<Rightarrow> vnet list \<Rightarrow> string \<Rightarrow> adjacency list \<Rightarrow> unit result" where
  "check_full_mesh cx devices fusions vns environment adjs =
     (ebind (jget_default (cx_policy cx) ''fusion'' (JObj [])) (\<lambda>fusion_policy.
        ebind (jget_default fusion_policy ''require_full_mesh_production'' (JBool True)) (\<lambda>mesh.
        (if environment = ''production'' \<and> truthy mesh
          then
            (let missing = sorted_diff (List.product (border_ids devices) (map fu_id fusions))
                   (map (\<lambda>a. (ad_border a, ad_fusion a)) adjs) in
             (ebind (refuse missing
                   (\<lambda>x. AllocationError (''Production fusion full mesh is missing adjacency '' @ fst x
                      @ '' to '' @ snd x))) (\<lambda>_.
                ebind (int_get fusion_policy ''min_fusion_nodes_per_border_vrf_production'' 2) (\<lambda>least.
                ebind (raise_if (least < 1 \<or> int (length fusions) < least)
                   (AllocationError (''Fusion per-VRF redundancy guardrail must be between 1 and ''
                      @ nat_str (length fusions)))) (\<lambda>_.
                foldE (\<lambda>_ (border, vn).
                     raise_if (int (fusion_count adjs border vn) < least)
                       (AllocationError (''Production fusion redundancy requires '' @ int_str least
                          @ '' nodes for border '' @ border @ '' virtual network '' @ vn @ ''; found ''
                          @ nat_str (fusion_count adjs border vn))))
                   () (List.product (sort (border_ids devices)) (sorted_set (map vn_name vns))))))))
          else Inr ()))))"

text \<open>The peers of a schema 1.2 fabric, and of an earlier one.\<close>

definition fusion_peers ::
    "ctx \<Rightarrow> device list \<Rightarrow> fusion_node list \<Rightarrow> vnet list \<Rightarrow> string \<Rightarrow> json \<Rightarrow> json list result" where
  "fusion_peers cx devices fusions vns environment handoff =
     (ebind (jget handoff ''adjacencies'') (\<lambda>raw.
        ebind (raise_if (\<not> truthy raw)
           (AllocationError ''Schema 1.2 BGP handoff requires fusion adjacencies'')) (\<lambda>_.
        ebind (elems raw) (\<lambda>items.
        ebind (sort_by (\<lambda>a. (ebind (str_get a ''border_device_id'' []) (\<lambda>b.
            ebind (str_get a ''fusion_node_id'' []) (\<lambda>f.
            Inr (b, f))))) items) (\<lambda>sorted_items.
        ebind (foldE (derive_adjacency devices fusions vns) [] sorted_items) (\<lambda>adjs.
        ebind (check_full_mesh cx devices fusions vns environment adjs) (\<lambda>_.
        Inr (concat (map ad_peers adjs)))))))))"

definition external_peers :: "device list \<Rightarrow> vnet list \<Rightarrow> json \<Rightarrow> json list result" where
  "external_peers devices vns handoff =
     (ebind (int_get handoff ''remote_as'' 0) (\<lambda>remote_as.
        ebind (raise_if (remote_as < 1 \<or> 4294967295 < remote_as)
           (AllocationError ''A valid border_handoff.remote_as is required'')) (\<lambda>_.
        ebind (jget handoff ''peers'') (\<lambda>raw.
        (if truthy raw then elems raw
          else Inr (map (\<lambda>(d, v). JObj [(''device_id'', JStr d), (''vrf'', JStr v), (''remote_as'', JInt remote_as)])
                 (List.product (sort (border_ids devices)) (sorted_set (map vn_vrf vns)))))))))"

section \<open>Peers\<close>

record peer =
  pe_device :: string
  pe_vrf :: string
  pe_vlan :: int
  pe_interface :: string
  pe_prefix :: ipv4net
  pe_remote_as :: int
  pe_fusion :: "(string \<times> string \<times> string) option"

text \<open>The two addresses of a handoff.\<close>

definition pe_local_ip :: "peer \<Rightarrow> nat" where "pe_local_ip p = nth_host (pe_prefix p) 0"
definition pe_neighbor_ip :: "peer \<Rightarrow> nat" where "pe_neighbor_ip p = nth_host (pe_prefix p) 1"

definition peer_json :: "peer \<Rightarrow> json" where
  "peer_json p = JObj
     ([(''device_id'', JStr (pe_device p)), (''vrf'', JStr (pe_vrf p)), (''vlan_id'', JInt (pe_vlan p)),
       (''interface'', JStr (pe_interface p)), (''prefix'', JStr (net_str (pe_prefix p))),
       (''local_ip'', JStr (addr_str (pe_local_ip p))), (''neighbor_ip'', JStr (addr_str (pe_neighbor_ip p))),
       (''remote_as'', JInt (pe_remote_as p))]
      @ (case pe_fusion p of None \<Rightarrow> []
         | Some (f, bi, fi) \<Rightarrow> [(''fusion_node_id'', JStr f), (''border_interface'', JStr bi),
             (''fusion_interface'', JStr fi)]))"

definition derive_peer ::
    "ctx \<Rightarrow> device list \<Rightarrow> vnet list \<Rightarrow> json \<Rightarrow> peer list \<Rightarrow> json \<Rightarrow> (alloc, peer list) eff" where
  "derive_peer cx devices vns handoff_vlan acc raw =
     (sbind (slift (str_get raw ''device_id'' [])) (\<lambda>device_id.
        sbind (slift (str_get raw ''vrf'' [])) (\<lambda>vrf.
        sbind (sguard (device_id \<notin> set (border_ids devices))
            (AllocationError ''BGP handoff peer must target an approved border'')) (\<lambda>_.
        sbind (sguard (vrf \<notin> set (map vn_vrf vns))
            (AllocationError (''BGP handoff peer references unknown VRF '' @ vrf))) (\<lambda>_.
        sbind (slift (range_bounds handoff_vlan)) (\<lambda>(lo, hi).
        sbind (reserve_scalar ''vlan_id'' lo hi) (\<lambda>vlan.
        sbind (slift (pool_prefix_len (cx_pools cx) ''border_handoff'')) (\<lambda>len.
        sbind (reserve_prefix (cx_pools cx) ''border_handoff'' len) (\<lambda>prefix.
        sbind (slift (jget raw ''interface'')) (\<lambda>interface.
        sbind (sguard (host_count prefix < 2) IndexError) (\<lambda>_.
        sbind (slift (jget raw ''remote_as'')) (\<lambda>ras.
        sbind (slift (py_int ras)) (\<lambda>remote_as.
        sbind (slift (jget raw ''fusion_node_id'')) (\<lambda>fusion.
        sbind (slift ((if truthy fusion
             then (ebind (str_at raw ''border_interface'') (\<lambda>bi.
                ebind (str_at raw ''fusion_interface'') (\<lambda>fi.
                Inr (Some (py_str fusion, bi, fi)))))
             else Inr None))) (\<lambda>fusion_part.
        sret (acc @ [\<lparr>pe_device = device_id, pe_vrf = vrf, pe_vlan = vlan,
            pe_interface = py_str (jor interface (JStr (''Vlan'' @ int_str vlan))), pe_prefix = prefix,
            pe_remote_as = remote_as, pe_fusion = fusion_part\<rparr>]))))))))))))))))"

definition derive_handoff ::
    "ctx \<Rightarrow> device list \<Rightarrow> fusion_node list \<Rightarrow> vnet list \<Rightarrow> string \<Rightarrow> json \<Rightarrow> (alloc, peer list) eff" where
  "derive_handoff cx devices fusions vns environment handoff =
     (sbind (slift (contains_key ''border_handoff'' (cx_pools cx))) (\<lambda>has_pool.
        sbind (sguard (\<not> has_pool) (AllocationError ''Guardrail pool border_handoff is missing'')) (\<lambda>_.
        sbind (slift (jget (cx_ranges cx) ''handoff_vlan_id'')) (\<lambda>handoff_vlan.
        sbind (sguard (\<not> is_obj handoff_vlan) (AllocationError ''Guardrail range handoff_vlan_id is missing'')) (\<lambda>_.
        sbind (slift ((if cx_schema cx = ''1.2'' then fusion_peers cx devices fusions vns environment handoff
                        else external_peers devices vns handoff))) (\<lambda>raw_peers.
        sbind (slift (sort_by (\<lambda>p. (ebind (str_get p ''device_id'' []) (\<lambda>d.
             ebind (str_get p ''fusion_node_id'' []) (\<lambda>f.
             ebind (str_get p ''vrf'' []) (\<lambda>v.
             Inr (d, f, v)))))) raw_peers)) (\<lambda>sorted_peers.
        s_foldM (derive_peer cx devices vns handoff_vlan) [] sorted_peers)))))))"

text \<open>The source address of every exchange-protocol connection.\<close>

definition sxp_source :: "device list \<Rightarrow> peer list \<Rightarrow> sxp_connection \<Rightarrow> sxp_connection result" where
  "sxp_source devices peers c =
     (if sx_vrf c = ''global''
      then (ebind (of_option (KeyError (sx_speaker c)) (find (\<lambda>d. dev_id d = sx_speaker c) devices)) (\<lambda>d.
         Inr (c\<lparr>sx_source_ip := Some (dev_loopback d)\<rparr>)))
      else
        (let candidates = sorted_set (map pe_local_ip
               (filter (\<lambda>p. pe_device p = sx_speaker c \<and> pe_vrf p = sx_vrf c) peers)) in
         case candidates of
           [] \<Rightarrow> Inl (AllocationError (''SXP speaker '' @ sx_speaker c
                  @ '' has no routed source in transport VRF '' @ sx_vrf c))
         | a # _ \<Rightarrow> Inr (c\<lparr>sx_source_ip := Some (addr_str a)\<rparr>)))"

definition sxp_sources :: "device list \<Rightarrow> peer list \<Rightarrow> policy_plane option \<Rightarrow> policy_plane option result" where
  "sxp_sources devices peers plane =
     (case plane of
        None \<Rightarrow> Inr None
      | Some p \<Rightarrow>
          (case pp_sxp p of
             None \<Rightarrow> Inr (Some p)
           | Some cs \<Rightarrow> (ebind (mapE (sxp_source devices peers) cs) (\<lambda>cs'.
              Inr (Some (p\<lparr>pp_sxp := Some cs'\<rparr>))))))"

end
