(* ===== verification/DeriveIntent.thy ===== *)
theory DeriveIntent
  imports DeriveHandoff
begin

text \<open>
  \<open>derive_fabric_intent\<close> as a whole: the sections in the order of the code, the assembly of the
  intent from their results, and the reservation set the store persists.
\<close>

section \<open>The fabric and LISP objects of the intent\<close>

text \<open>The multicast summary of the fabric object.\<close>

definition fabric_multicast :: "multicast \<Rightarrow> json" where
  "fabric_multicast m =
     (let s = mc_selection m in JObj
       ([(''enabled'', JBool (ms_enabled s)), (''transport'', JStr (ms_transport s)),
         (''ssm_default'', JBool (ms_ssm s \<noteq> []))]
        @ (if ms_rp_devices s = [] then [] else [(''rp_device_ids'', jstrs (ms_rp_devices s))])
        @ (case mc_rp m of None \<Rightarrow> []
           | Some a \<Rightarrow> [(''rp_address'', JStr a), (''rp_loopback_id'', JInt 60000)])))"

definition fabric_part :: "ctx \<Rightarrow> multicast option \<Rightarrow> json result" where
  "fabric_part cx mcast =
     (let fabric = cx_fabric cx in
      (ebind (str_at fabric ''id'') (\<lambda>fid.
         ebind (str_at fabric ''name'') (\<lambda>name.
         ebind (int_at fabric ''mtu'') (\<lambda>mtu.
         ebind (int_get fabric ''mtu_headroom'' 50) (\<lambda>headroom.
         ebind (str_get fabric ''isis_process'' ''SDA-ISIS'') (\<lambda>process.
         ebind (str_get fabric ''isis_area'' ''49.0001'') (\<lambda>area.
         Inr (JObj
            ([(''id'', JStr fid), (''name'', JStr name), (''underlay_protocol'', JStr ''isis''), (''mtu'', JInt mtu),
              (''mtu_headroom'', JInt headroom), (''isis_process'', JStr process), (''isis_area'', JStr area)]
             @ (if cx_schema cx = ''1.2''
                then [(''control_plane_mode'', JStr (cx_mode cx))]
                  @ (case mcast of None \<Rightarrow> [] | Some m \<Rightarrow> [(''multicast'', fabric_multicast m)])
                else [])))))))))))"

definition lisp_part :: "ctx \<Rightarrow> device list \<Rightarrow> (int \<times> multihoming list) option \<Rightarrow> json result" where
  "lisp_part cx devices lisp =
     (let fabric = cx_fabric cx in
      (ebind (str_at fabric ''id'') (\<lambda>fid.
         ebind (str_get fabric ''lisp_site_name'' (replace_char (CHR ''-'') (CHR ''_'') fid)) (\<lambda>site.
         ebind (str_at fabric ''lisp_auth_key_ref'') (\<lambda>key_ref.
         ebind (str_get fabric ''locator_set'' ''rloc_fabric'') (\<lambda>locator.
         Inr (JObj
            ([(''site_name'', JStr site), (''auth_key_ref'', JStr key_ref), (''locator_set'', JStr locator),
              (''map_servers'', jstrs (sort (control_planes devices)))]
             @ (if cx_schema cx = ''1.2'' then [(''control_plane_mode'', JStr (cx_mode cx))] else [])
             @ (case lisp of None \<Rightarrow> []
                | Some (domain_id, groups) \<Rightarrow>
                    [(''publishers'', jstrs (sort (control_planes devices))),
                     (''subscribers'', jstrs (sort (border_ids devices))),
                     (''domain_id'', JInt domain_id),
                     (''multihoming_groups'', JArr (map multihoming_json groups))])))))))))"

section \<open>What the sections leave behind\<close>

record design =
  ds_site_context :: "(string \<times> json) list"
  ds_environment :: string
  ds_devices :: "device list"
  ds_fusions :: "fusion_node list"
  ds_links :: "link list"
  ds_local_as :: int
  ds_vnets :: "vnet list"
  ds_pools :: "endpoint_pool list"
  ds_attachments :: "attachment list"
  ds_services :: "shared_services option"
  ds_multicast :: "multicast option"
  ds_policy :: "policy_plane option"
  ds_lisp :: "(int \<times> multihoming list) option"
  ds_metadata :: json
  ds_fabric_part :: json
  ds_lisp_part :: json
  ds_peers :: "peer list option"

definition derive_design :: "ctx \<Rightarrow> (string \<times> json) list \<Rightarrow> (alloc, design) eff" where
  "derive_design cx site_context =
     (sbind (derive_devices cx) (\<lambda>devices.
        sbind (slift (derive_fusion_nodes cx (map dev_id devices))) (\<lambda>fusions.
        sbind (derive_links cx (map dev_id devices)) (\<lambda>links.
        sbind (slift (raw_handoff cx)) (\<lambda>handoff.
        sbind (slift (bgp_enabled handoff)) (\<lambda>bgp.
        sbind (derive_local_as cx bgp) (\<lambda>local_as.
        sbind (derive_vnets cx devices local_as) (\<lambda>(vns, pools).
        sbind (slift (derive_attachments cx devices links pools)) (\<lambda>attachments.
        sbind (slift (environment_of cx)) (\<lambda>environment.
        sbind (derive_shared_services cx (map fu_id fusions) vns pools environment) (\<lambda>shared.
        sbind (derive_multicast cx devices links vns pools environment) (\<lambda>mcast.
        sbind (derive_policy_plane cx devices vns pools shared environment) (\<lambda>plane.
        sbind (slift (check_redundancy cx devices fusions environment)) (\<lambda>_.
        sbind (derive_lisp_ids cx devices) (\<lambda>lisp.
        sbind (slift (jidx (cx_requirements cx) ''metadata'')) (\<lambda>metadata.
        sbind (slift (fabric_part cx mcast)) (\<lambda>fabric_obj.
        sbind (slift (lisp_part cx devices lisp)) (\<lambda>lisp_obj.
        sbind ((if bgp then (sbind (derive_handoff cx devices fusions vns environment handoff) (\<lambda>ps.
             sret (Some ps)))
                    else sret None)) (\<lambda>peers.
        sbind (slift (sxp_sources devices (case peers of None \<Rightarrow> [] | Some ps \<Rightarrow> ps) plane)) (\<lambda>plane'.
        sret \<lparr>ds_site_context = site_context, ds_environment = environment, ds_devices = devices,
            ds_fusions = fusions, ds_links = links, ds_local_as = local_as, ds_vnets = vns, ds_pools = pools,
            ds_attachments = attachments, ds_services = shared, ds_multicast = mcast, ds_policy = plane',
            ds_lisp = lisp, ds_metadata = metadata, ds_fabric_part = fabric_obj, ds_lisp_part = lisp_obj,
            ds_peers = peers\<rparr>))))))))))))))))))))"

section \<open>The intent\<close>

definition opt_json :: "('a \<Rightarrow> json) \<Rightarrow> 'a option \<Rightarrow> json" where
  "opt_json f x = (case x of None \<Rightarrow> JNull | Some v \<Rightarrow> f v)"

definition handoff_part :: "design \<Rightarrow> json" where
  "handoff_part ds =
     (case ds_peers ds of
        None \<Rightarrow> JObj [(''enabled'', JBool False), (''mode'', JStr ''isolated'')]
      | Some ps \<Rightarrow> JObj [(''enabled'', JBool True), (''mode'', JStr ''bgp''), (''local_as'', JInt (ds_local_as ds)),
          (''peers'', JArr (map peer_json ps))])"

definition intent_of :: "ctx \<Rightarrow> design \<Rightarrow> json" where
  "intent_of cx ds =
     JObj
           ([(''schema_version'', JStr (cx_schema cx)), (''metadata'', ds_metadata ds),
             (''fabric'', ds_fabric_part ds),
             (''devices'', JArr (map device_json (ds_devices ds))),
             (''links'', JArr (map link_json (ds_links ds))), (''lisp'', ds_lisp_part ds),
             (''virtual_networks'', JArr (map vnet_json (ds_vnets ds))),
             (''endpoint_pools'', JArr (map endpoint_pool_json (ds_pools ds)))]
            @ (if ds_attachments ds = [] then []
               else [(''endpoint_attachments'', JArr (map attachment_json (ds_attachments ds)))])
            @ ds_site_context ds
            @ (if cx_schema cx = ''1.2''
               then [(''fusion_nodes'', JArr (map fusion_json (ds_fusions ds))),
                     (''shared_services'', opt_json shared_services_json (ds_services ds)),
                     (''multicast'', opt_json multicast_json (ds_multicast ds)),
                     (''policy_plane'', opt_json policy_plane_json (ds_policy ds))]
               else [])
            @ [(''border_handoff'', handoff_part ds)])"

section \<open>The reservation set\<close>

definition net_reservation_json :: "string \<Rightarrow> string \<times> string \<Rightarrow> json" where
  "net_reservation_json domain r =
     JObj [(''allocation_domain'', JStr domain), (''resource_pool_id'', JStr (fst r)),
           (''prefix'', JStr (snd r)), (''state'', JStr ''reserved'')]"

definition scalar_reservation_json :: "string \<Rightarrow> string \<times> string \<Rightarrow> json" where
  "scalar_reservation_json domain r =
     JObj [(''allocation_domain'', JStr domain), (''resource_type'', JStr (fst r)),
           (''value'', JStr (snd r)), (''state'', JStr ''reserved'')]"

definition reservation_body :: "string \<Rightarrow> string \<Rightarrow> alloc \<Rightarrow> json" where
  "reservation_body domain fabric_id a =
     JObj [(''allocation_domain'', JStr domain), (''fabric_id'', JStr fabric_id),
           (''network'', JArr (map (net_reservation_json domain) (net_reservations a))),
           (''scalar'', JArr (map (scalar_reservation_json domain) (scalar_reservations a)))]"

section \<open>The function\<close>

definition derive_allocation ::
    "(json \<Rightarrow> unit result) \<Rightarrow> json \<Rightarrow> json \<Rightarrow> net_entry list \<Rightarrow> scalar_entry list
       \<Rightarrow> (ctx \<times> design \<times> alloc) result" where
  "derive_allocation validate_shape requirements policy network_ledger scalar_ledger =
     (ebind (check_requirements validate_shape requirements policy) (\<lambda>cx.
        ebind (derive_site_context requirements policy) (\<lambda>site_context.
        ebind (initial_alloc network_ledger scalar_ledger cx) (\<lambda>a.
        (case derive_design cx site_context a of
            (Inl e, _) \<Rightarrow> Inl e
          | (Inr ds, a') \<Rightarrow> Inr (cx, ds, a'))))))"

definition derive_fabric_intent :: "(json \<Rightarrow> unit result) \<Rightarrow> deriver" where
  "derive_fabric_intent validate_shape requirements policy network_ledger scalar_ledger =
     (ebind (derive_allocation validate_shape requirements policy network_ledger scalar_ledger) (\<lambda>(cx, ds, a).
        ebind (str_at (cx_fabric cx) ''id'') (\<lambda>fid.
        Inr \<lparr>dv_intent = intent_of cx ds, dv_requirements_hash = sha256_json requirements,
              dv_policy_hash = sha256_json policy,
              dv_reservation_hash = sha256_json (reservation_body (cx_domain cx) fid a),
              dv_domain = cx_domain cx, dv_fabric = fid,
              dv_network = net_reservations a, dv_scalar = scalar_reservations a\<rparr>)))"

end
