(* ===== verification/AllocLaws.thy ===== *)
theory AllocLaws
  imports HostPrefix
begin

text \<open>
  What an allocation promises. Two locales state the contract prefix and scalar allocation
  share: what is handed out conflicts with nothing excluded, lies in the pool, and is refused
  only when the whole pool conflicts. The contract is interpreted on the two searches of the
  allocator; the invariant \<open>alloc_inv\<close> of the allocation state rests on it.
\<close>

section \<open>Lists whose elements do not conflict\<close>

definition apart :: "('r \<Rightarrow> 'r \<Rightarrow> bool) \<Rightarrow> 'r list \<Rightarrow> bool" where
  "apart conflict xs \<longleftrightarrow> sorted_wrt (\<lambda>x y. \<not> conflict x y) xs"

text \<open>Resources under one key conflict, resources under different keys never do.\<close>

definition keyed :: "('r \<Rightarrow> 'r \<Rightarrow> bool) \<Rightarrow> 'k \<times> 'r \<Rightarrow> 'k \<times> 'r \<Rightarrow> bool" where
  "keyed conflict x y \<longleftrightarrow> fst x = fst y \<and> conflict (snd x) (snd y)"

text \<open>
  The bookkeeping of an allocation: \<open>b\<close> is what was taken under each key at the start, \<open>t\<close> what
  is taken now, \<open>rs\<close> what was handed out in between.
\<close>

definition ledger_ok ::
    "('r \<Rightarrow> 'r \<Rightarrow> bool) \<Rightarrow> (string \<times> 'r list) list \<Rightarrow> (string \<times> 'r list) list \<Rightarrow> (string \<times> 'r) list \<Rightarrow> bool" where
  "ledger_ok conflict b t rs \<longleftrightarrow>
     (\<forall>k. taken_in k t = taken_in k b @ map snd (filter (\<lambda>r. fst r = k) rs))
     \<and> apart (keyed conflict) rs
     \<and> (\<forall>r \<in> set rs. \<forall>y \<in> set (taken_in (fst r) b). \<not> conflict y (snd r))"

lemma taken_in_add: "taken_in k (add_taken l x m) = (if k = l then taken_in k m @ [x] else taken_in k m)"
  by (induction l x m rule: add_taken.induct) (auto simp: taken_in_def)

locale exclusive =
  fixes conflict :: "'r \<Rightarrow> 'r \<Rightarrow> bool"
  assumes conflict_sym: "conflict x y \<Longrightarrow> conflict y x"
begin

lemma apart_snoc: "apart conflict (xs @ [x]) \<longleftrightarrow> apart conflict xs \<and> (\<forall>y \<in> set xs. \<not> conflict y x)"
  by (auto simp: apart_def sorted_wrt_append)

lemma apart_append:
  "apart conflict (xs @ ys) \<longleftrightarrow> apart conflict xs \<and> apart conflict ys \<and> (\<forall>x \<in> set xs. \<forall>y \<in> set ys. \<not> conflict x y)"
  by (auto simp: apart_def sorted_wrt_append)

lemma apart_nth: "apart conflict xs \<Longrightarrow> i < length xs \<Longrightarrow> j < length xs \<Longrightarrow> i \<noteq> j \<Longrightarrow> \<not> conflict (xs ! i) (xs ! j)"
  unfolding apart_def by (metis conflict_sym linorder_neqE_nat sorted_wrt_nth_less)

lemma ledger_ok_start: "ledger_ok conflict b b []"
  by (simp add: ledger_ok_def apart_def)

lemma ledger_ok_add:
  assumes "ledger_ok conflict b t rs" and "\<forall>y \<in> set (taken_in k t). \<not> conflict y x"
  shows "ledger_ok conflict b (add_taken k x t) (rs @ [(k, x)])"
proof -
  have t: "taken_in k t = taken_in k b @ map snd (filter (\<lambda>r. fst r = k) rs)"
    using assms(1) by (simp add: ledger_ok_def)
  have "\<forall>r \<in> set rs. \<not> keyed conflict r (k, x)"
    using assms(2) unfolding t keyed_def by auto
  moreover have "\<forall>y \<in> set (taken_in k b). \<not> conflict y x" using assms(2) unfolding t by simp
  ultimately show ?thesis
    using assms(1) unfolding ledger_ok_def
    by (auto simp: taken_in_add apart_def sorted_wrt_append)
qed

lemma ledger_ok_nth:
  assumes "ledger_ok conflict b t rs" and "i < length rs" and "j < length rs" and "i \<noteq> j"
    and "fst (rs ! i) = fst (rs ! j)"
  shows "\<not> conflict (snd (rs ! i)) (snd (rs ! j))"
proof -
  have a: "apart (keyed conflict) rs" using assms(1) by (simp add: ledger_ok_def)
  show ?thesis
  proof (cases "i < j")
    case True
    then show ?thesis using a assms(3,5) sorted_wrt_nth_less [of _ rs i j]
      by (force simp: apart_def keyed_def)
  next
    case False
    then have "j < i" using assms(4) by simp
    then have "\<not> conflict (snd (rs ! j)) (snd (rs ! i))"
      using a assms(2,5) sorted_wrt_nth_less [of _ rs j i] by (force simp: apart_def keyed_def)
    then show ?thesis using conflict_sym by blast
  qed
qed

lemma ledger_ok_base: "ledger_ok conflict b t rs \<Longrightarrow> r \<in> set rs \<Longrightarrow> y \<in> set (taken_in (fst r) b) \<Longrightarrow> \<not> conflict y (snd r)"
  by (simp add: ledger_ok_def)

end

text \<open>A search in a pool \<open>p\<close>: the contract of a single allocation.\<close>

locale pool_search = exclusive conflict
  for conflict :: "'r \<Rightarrow> 'r \<Rightarrow> bool" +
  fixes pick :: "'p \<Rightarrow> 'r list \<Rightarrow> 'r option" and inside :: "'p \<Rightarrow> 'r \<Rightarrow> bool"
  assumes pick_fresh: "pick p ex = Some r \<Longrightarrow> x \<in> set ex \<Longrightarrow> \<not> conflict x r"
    and pick_inside: "pick p ex = Some r \<Longrightarrow> inside p r"
    and pick_complete: "pick p ex = None \<Longrightarrow> inside p r \<Longrightarrow> \<exists>x \<in> set ex. conflict x r"
begin

text \<open>One allocation after the other, each excluding what went before.\<close>

lemma pick_ledger:
  assumes "ledger_ok conflict b t rs" and "pick p (taken_in k t) = Some r"
  shows "ledger_ok conflict b (add_taken k r t) (rs @ [(k, r)])" and "inside p r"
  using ledger_ok_add [OF assms(1)] pick_fresh [OF assms(2)] pick_inside [OF assms(2)] by blast+

lemma pick_refused:
  "ledger_ok conflict b t rs \<Longrightarrow> pick p (taken_in k t) = None \<Longrightarrow> inside p r \<Longrightarrow>
     (\<exists>y \<in> set (taken_in k b). conflict y r) \<or> (\<exists>y \<in> set rs. fst y = k \<and> conflict (snd y) r)"
  using pick_complete [of p "taken_in k t" r] by (auto simp: ledger_ok_def)

end

section \<open>The search for a prefix\<close>

lemma nth_subnet_size: "len \<le> 32 \<Longrightarrow> net_size (nth_subnet s len i) = 2 ^ (32 - len)"
  by (simp add: nth_subnet_def net_size_def)

lemma nth_subnet_in:
  assumes wf: "wf_net s" and len: "prefixlen s \<le> len" "len \<le> 32" and i: "i < 2 ^ (len - prefixlen s)"
  shows "wf_net (nth_subnet s len i)" and "subnet_of (nth_subnet s len i) s"
proof -
  let ?u = "2 ^ (32 - len) :: nat"
  have size: "net_size s = 2 ^ (len - prefixlen s) * ?u"
    using len by (simp add: net_size_def flip: power_add)
  have "Suc i * ?u \<le> 2 ^ (len - prefixlen s) * ?u" using i by (intro mult_right_mono) auto
  then have b: "i * ?u + ?u \<le> net_size s" by (simp add: size)
  have m: "net_addr s mod net_size s = 0" and lt: "net_addr s < 2 ^ 32" using wf by (simp_all add: wf_net_def)
  have "net_addr s + net_size s \<le> 2 ^ 32"
  proof -
    obtain c where c: "net_addr s = c * net_size s" using m by (metis mod_0_imp_dvd dvdE mult.commute)
    have p: "(2 :: nat) ^ 32 = 2 ^ prefixlen s * net_size s"
      using wf by (simp add: net_size_def wf_net_def flip: power_add)
    have "c < 2 ^ prefixlen s" using lt unfolding c p by simp
    then have "Suc c * net_size s \<le> 2 ^ prefixlen s * net_size s" by (intro mult_right_mono) auto
    then have "c * net_size s + net_size s \<le> 2 ^ prefixlen s * net_size s" by (simp add: add.commute)
    then show ?thesis unfolding c p .
  qed
  moreover have "0 < ?u" by simp
  ultimately have "net_addr s + i * ?u < 2 ^ 32" using b by linarith
  moreover have "(net_addr s + i * ?u) mod ?u = 0"
  proof (rule dvd_imp_mod_0)
    have "?u dvd net_size s" by (simp add: size)
    moreover have "net_size s dvd net_addr s" using m by auto
    ultimately show "?u dvd net_addr s + i * ?u" by (meson dvd_add dvd_trans dvd_triv_right)
  qed
  ultimately show "wf_net (nth_subnet s len i)"
    using len by (simp add: wf_net_def nth_subnet_def net_size_def)
  show "subnet_of (nth_subnet s len i) s"
    using b by (simp add: subnet_of_def nth_subnet_def broadcast_def nth_subnet_size net_size_def)
qed

lemma search_subnet_Some:
  "search_subnet s len ex i = Some n \<Longrightarrow>
     \<exists>j. i \<le> j \<and> j < 2 ^ (len - prefixlen s) \<and> n = nth_subnet s len j \<and> (\<forall>x \<in> set ex. \<not> overlaps n x)
       \<and> (\<forall>m. i \<le> m \<longrightarrow> m < j \<longrightarrow> (\<exists>x \<in> set ex. overlaps (nth_subnet s len m) x))"
proof (induction s len ex i rule: search_subnet.induct)
  case (1 s len ex i)
  show ?case
  proof (cases "list_ex (overlaps (nth_subnet s len i)) ex")
    case True
    with 1 have "search_subnet s len ex (Suc i) = Some n" and lt: "\<not> 2 ^ (len - prefixlen s) \<le> i"
      by (auto simp: search_subnet.simps [of s len ex i] split: if_splits)
    with 1 True obtain j where j: "Suc i \<le> j" "j < 2 ^ (len - prefixlen s)" "n = nth_subnet s len j"
      "\<forall>x \<in> set ex. \<not> overlaps n x"
      "\<forall>m. Suc i \<le> m \<longrightarrow> m < j \<longrightarrow> (\<exists>x \<in> set ex. overlaps (nth_subnet s len m) x)" by auto
    have "\<exists>x \<in> set ex. overlaps (nth_subnet s len m) x" if "i \<le> m" "m < j" for m
      using that j(5) True by (cases "m = i") (auto simp: list_ex_iff)
    then show ?thesis using j by (intro exI [of _ j]) auto
  next
    case False
    with 1(2) show ?thesis
      by (auto simp: search_subnet.simps [of s len ex i] list_ex_iff split: if_splits intro!: exI [of _ i])
  qed
qed

lemma search_subnet_None:
  "search_subnet s len ex i = None \<Longrightarrow> i \<le> j \<Longrightarrow> j < 2 ^ (len - prefixlen s) \<Longrightarrow>
     \<exists>x \<in> set ex. overlaps (nth_subnet s len j) x"
proof (induction s len ex i rule: search_subnet.induct)
  case (1 s len ex i)
  then have o: "list_ex (overlaps (nth_subnet s len i)) ex" and n: "search_subnet s len ex (Suc i) = None"
    and lt: "\<not> 2 ^ (len - prefixlen s) \<le> i"
    by (auto simp: search_subnet.simps [of s len ex i] split: if_splits)
  show ?case
  proof (cases "j = i")
    case True
    then show ?thesis using o by (auto simp: list_ex_iff)
  next
    case False
    then show ?thesis using "1.IH" [OF lt o n] 1(3,4) by simp
  qed
qed

section \<open>The search for a scalar\<close>

lemma search_scalar_Some:
  "search_scalar lo hi ex = Some v \<Longrightarrow>
     lo \<le> v \<and> v \<le> hi \<and> int_str v \<notin> set ex \<and> (\<forall>w. lo \<le> w \<longrightarrow> w < v \<longrightarrow> int_str w \<in> set ex)"
proof (induction lo hi ex rule: search_scalar.induct)
  case (1 lo hi ex)
  show ?case
  proof (cases "hi < lo \<or> int_str lo \<notin> set ex")
    case True
    with 1(2) show ?thesis by (auto simp: search_scalar.simps [of lo hi ex] split: if_splits)
  next
    case False
    with 1 have "search_scalar (lo + 1) hi ex = Some v" by (simp add: search_scalar.simps [of lo hi ex])
    with 1 False have IH: "lo + 1 \<le> v" "v \<le> hi" "int_str v \<notin> set ex"
      "\<forall>w. lo + 1 \<le> w \<longrightarrow> w < v \<longrightarrow> int_str w \<in> set ex" by auto
    have "int_str w \<in> set ex" if "lo \<le> w" "w < v" for w
      using that IH(4) False by (cases "w = lo") auto
    then show ?thesis using IH by auto
  qed
qed

lemma search_scalar_None: "search_scalar lo hi ex = None \<Longrightarrow> lo \<le> v \<Longrightarrow> v \<le> hi \<Longrightarrow> int_str v \<in> set ex"
proof (induction lo hi ex rule: search_scalar.induct)
  case (1 lo hi ex)
  then have "int_str lo \<in> set ex" "search_scalar (lo + 1) hi ex = None"
    by (auto simp: search_scalar.simps [of lo hi ex] split: if_splits)
  with 1 show ?case by (cases "v = lo") auto
qed

section \<open>Both searches keep the contract\<close>

interpretation nets: exclusive overlaps
  by unfold_locales (simp add: overlaps_sym)

interpretation vals: exclusive "(=)"
  by unfold_locales simp

definition pick_prefix :: "ipv4net \<times> nat \<Rightarrow> ipv4net list \<Rightarrow> ipv4net option" where
  "pick_prefix p ex = search_subnet (fst p) (snd p) ex 0"

definition prefix_inside :: "ipv4net \<times> nat \<Rightarrow> ipv4net \<Rightarrow> bool" where
  "prefix_inside p n \<longleftrightarrow> (\<exists>i < 2 ^ (snd p - prefixlen (fst p)). n = nth_subnet (fst p) (snd p) i)"

definition pick_scalar :: "int \<times> int \<Rightarrow> string list \<Rightarrow> string option" where
  "pick_scalar p ex = map_option int_str (search_scalar (fst p) (snd p) ex)"

definition scalar_inside :: "int \<times> int \<Rightarrow> string \<Rightarrow> bool" where
  "scalar_inside p s \<longleftrightarrow> (\<exists>v. fst p \<le> v \<and> v \<le> snd p \<and> s = int_str v)"

interpretation prefixes: pool_search overlaps pick_prefix prefix_inside
proof unfold_locales
  fix p ex r x
  assume "pick_prefix p ex = Some r"
  then obtain j where j: "j < 2 ^ (snd p - prefixlen (fst p))" "r = nth_subnet (fst p) (snd p) j"
    "\<forall>x \<in> set ex. \<not> overlaps r x"
    unfolding pick_prefix_def using search_subnet_Some by blast
  show "prefix_inside p r" using j by (auto simp: prefix_inside_def)
  show "\<not> overlaps x r" if "x \<in> set ex" using j that overlaps_sym by blast
next
  fix p ex r
  assume "pick_prefix p ex = None" and "prefix_inside p r"
  then show "\<exists>x \<in> set ex. overlaps x r"
    unfolding pick_prefix_def prefix_inside_def using search_subnet_None overlaps_sym by blast
qed

interpretation scalars: pool_search "(=)" pick_scalar scalar_inside
proof unfold_locales
  fix p ex r and x :: string
  assume "pick_scalar p ex = Some r"
  then obtain v where v: "search_scalar (fst p) (snd p) ex = Some v" "r = int_str v"
    by (auto simp: pick_scalar_def)
  note s = search_scalar_Some [OF v(1)]
  show "scalar_inside p r" using s v(2) by (auto simp: scalar_inside_def)
  show "x \<noteq> r" if "x \<in> set ex" using s v(2) that by auto
next
  fix p ex and r :: string
  assume "pick_scalar p ex = None" and "scalar_inside p r"
  then show "\<exists>x \<in> set ex. x = r"
    unfolding scalar_inside_def pick_scalar_def using search_scalar_None by fastforce
qed

end
