(* ===== verification/AllocInv.thy ===== *)
theory AllocInv
  imports DeriveIntent AllocLaws
begin

text \<open>
  The invariant of the allocation state and its preservation through every section of
  \<open>derive_fabric_intent\<close>. The three reservation closures are shown to keep it from the search
  contract; the sections follow by the \<open>keeps\<close> rules, since they touch the state only through
  the closures.
\<close>

section \<open>The invariant\<close>

text \<open>A network lies inside the guardrail pool of its key.\<close>

definition in_pool :: "json \<Rightarrow> string \<Rightarrow> ipv4net \<Rightarrow> bool" where
  "in_pool pools k n \<longleftrightarrow>
     wf_net n \<and> (\<exists>pool cidr s. jidx pools k = Inr pool \<and> str_at pool ''cidr'' = Inr cidr
       \<and> network cidr = Inr s \<and> subnet_of n s)"

text \<open>The kinds of scalars that are reserved.\<close>

definition scalar_kinds :: "string list" where
  "scalar_kinds = map fst scalar_range_names"

lemma scalar_kinds_simps [simp]:
  "''vlan_id'' \<in> set scalar_kinds" "''l2_instance_id'' \<in> set scalar_kinds"
  "''l3_instance_id'' \<in> set scalar_kinds" "''asn'' \<in> set scalar_kinds" "''sgt'' \<in> set scalar_kinds"
  "''lisp_domain_id'' \<in> set scalar_kinds" "''lisp_multihoming_id'' \<in> set scalar_kinds"
  by (simp_all add: scalar_kinds_def scalar_range_names_def)

text \<open>\<open>bn\<close> and \<open>bv\<close> are what ledger and guardrails exclude from the start.\<close>

definition alloc_inv ::
    "json \<Rightarrow> (string \<times> ipv4net list) list \<Rightarrow> (string \<times> string list) list \<Rightarrow> alloc \<Rightarrow> bool" where
  "alloc_inv pools bn bv a \<longleftrightarrow>
     (\<exists>ns. net_reservations a = map (\<lambda>r. (fst r, net_str (snd r))) ns
         \<and> ledger_ok overlaps bn (taken_nets a) ns
         \<and> (\<forall>r \<in> set ns. in_pool pools (fst r) (snd r)))
     \<and> ledger_ok (=) bv (taken_vals a) (scalar_reservations a)
     \<and> (\<forall>r \<in> set (scalar_reservations a). fst r \<in> set scalar_kinds)"

lemma network_wf: "network s = Inr n \<Longrightarrow> wf_net n"
  by (auto simp: network_def split: option.splits if_splits dest: parse_net_wf)

lemma first_prefix_Some:
  "first_prefix s len ex = Inr n \<Longrightarrow>
     int (prefixlen s) \<le> len \<and> len \<le> 32 \<and> pick_prefix (s, nat len) ex = Some n"
  by (auto simp: first_prefix_def pick_prefix_def res split: if_splits)

lemma alloc_inv_note_prefix:
  assumes inv: "alloc_inv pools bn bv a" and pool: "jidx pools k = Inr pool" "str_at pool ''cidr'' = Inr cidr"
    and s: "network cidr = Inr s" and n: "first_prefix s len (taken_in k (taken_nets a)) = Inr n"
  shows "alloc_inv pools bn bv (note_prefix k n a)"
proof -
  from inv obtain ns where ns: "net_reservations a = map (\<lambda>r. (fst r, net_str (snd r))) ns"
    and lo: "ledger_ok overlaps bn (taken_nets a) ns" and ip: "\<forall>r \<in> set ns. in_pool pools (fst r) (snd r)"
    and v: "ledger_ok (=) bv (taken_vals a) (scalar_reservations a)"
      "\<forall>r \<in> set (scalar_reservations a). fst r \<in> set scalar_kinds"
    by (auto simp: alloc_inv_def)
  note f = first_prefix_Some [OF n]
  have "ledger_ok overlaps bn (add_taken k n (taken_nets a)) (ns @ [(k, n)])"
    and "prefix_inside (s, nat len) n"
    using prefixes.pick_ledger [OF lo] f by blast+
  moreover have "wf_net s" using s by (rule network_wf)
  ultimately have "in_pool pools k n"
    using f pool s nth_subnet_in [of s "nat len"] by (auto simp: in_pool_def prefix_inside_def)
  then show ?thesis
    using ns ip v \<open>ledger_ok overlaps bn (add_taken k n (taken_nets a)) (ns @ [(k, n)])\<close>
    unfolding alloc_inv_def note_prefix_def by (intro conjI exI [of _ "ns @ [(k, n)]"]) auto
qed

lemma alloc_inv_note_scalar:
  assumes inv: "alloc_inv pools bn bv a" and "k \<in> set scalar_kinds" and "int_str v \<notin> set (taken_in k (taken_vals a))"
  shows "alloc_inv pools bn bv (note_scalar k v a)"
proof -
  have "ledger_ok (=) bv (add_taken k (int_str v) (taken_vals a)) (scalar_reservations a @ [(k, int_str v)])"
    using assms by (intro vals.ledger_ok_add) (auto simp: alloc_inv_def)
  then show ?thesis using inv assms(2) by (simp add: alloc_inv_def note_scalar_def)
qed

section \<open>The reservation closures keep it\<close>

lemma keeps_reserve_prefix [keeps]: "keeps (alloc_inv pools bn bv) (reserve_prefix pools k len)"
proof (rule keepsI)
  fix a r t
  assume "alloc_inv pools bn bv a" and "reserve_prefix pools k len a = (r, t)"
  then show "alloc_inv pools bn bv t"
    by (auto simp: reserve_prefix_def res split: sum.splits intro: alloc_inv_note_prefix)
qed

lemma keeps_reserve_scalar [keeps]:
  "k \<in> set scalar_kinds \<Longrightarrow> keeps (alloc_inv pools bn bv) (reserve_scalar k lo hi)"
proof (rule keepsI)
  fix a r t
  assume "k \<in> set scalar_kinds" and "alloc_inv pools bn bv a" and "reserve_scalar k lo hi a = (r, t)"
  then show "alloc_inv pools bn bv t"
    by (auto simp: reserve_scalar_def first_scalar_def res split: sum.splits
        intro!: alloc_inv_note_scalar dest!: search_scalar_Some)
qed

lemma keeps_reserve_requested_scalar [keeps]:
  "k \<in> set scalar_kinds \<Longrightarrow> keeps (alloc_inv pools bn bv) (reserve_requested_scalar k v lo hi)"
  by (rule keepsI) (auto simp: reserve_requested_scalar_def split: if_splits intro!: alloc_inv_note_scalar)

lemma keeps_reserve_l2 [keeps]: "keeps (alloc_inv pools bn bv) (reserve_l2 vr vlan)"
  by (rule keepsI) (auto simp: reserve_l2_def Let_def split: if_splits intro!: alloc_inv_note_scalar)

section \<open>The sections keep it\<close>

lemma keeps_case_prod [keeps]: "(\<And>x y. keeps I (f x y)) \<Longrightarrow> keeps I (case p of (x, y) \<Rightarrow> f x y)"
  by (cases p) simp

lemma keeps_case_option [keeps]:
  "keeps I m \<Longrightarrow> (\<And>x. keeps I (f x)) \<Longrightarrow> keeps I (case v of None \<Rightarrow> m | Some x \<Rightarrow> f x)"
  by (cases v) auto

lemma keeps_let [keeps]: "(\<And>x. keeps I (f x)) \<Longrightarrow> keeps I (let x = v in f x)"
  by simp

lemma keeps_derive_devices [keeps]: "keeps (alloc_inv (cx_pools cx) bn bv) (derive_devices cx)"
  unfolding derive_devices_def derive_device_def by (intro keeps)

lemma keeps_derive_links [keeps]: "keeps (alloc_inv (cx_pools cx) bn bv) (derive_links cx ids)"
  unfolding derive_links_def derive_link_def by (intro keeps)

lemma keeps_derive_local_as [keeps]: "keeps (alloc_inv pools bn bv) (derive_local_as cx bgp)"
  unfolding derive_local_as_def by (intro keeps; simp)

lemma keeps_derive_vnets [keeps]: "keeps (alloc_inv (cx_pools cx) bn bv) (derive_vnets cx devices local_as)"
  unfolding derive_vnets_def derive_vnet_def derive_endpoint_pool_def by (intro keeps; simp)

lemma keeps_derive_shared_services [keeps]:
  "keeps (alloc_inv (cx_pools cx) bn bv) (derive_shared_services cx fusion_ids vns pools environment)"
  unfolding derive_shared_services_def derive_services_of_def derive_service_attachment_def by (intro keeps; simp)

lemma keeps_derive_overlay_policy [keeps]:
  "keeps (alloc_inv (cx_pools cx) bn bv) (derive_overlay_policy cx devices vns ms ssm core acc raw)"
  unfolding derive_overlay_policy_def reserve_segment_def reserve_core_group_def by (intro keeps)

lemma keeps_derive_multicast [keeps]:
  "keeps (alloc_inv (cx_pools cx) bn bv) (derive_multicast cx devices links vns pools environment)"
  unfolding derive_multicast_def derive_multicast_of_def derive_underlay_rp_def derive_bum_groups_def
  by (intro keeps)

lemma keeps_derive_policy_plane [keeps]:
  "keeps (alloc_inv pools bn bv) (derive_policy_plane cx devices vns eps shared environment)"
  unfolding derive_policy_plane_def derive_policy_plane_of_def derive_security_group_def by (intro keeps; simp)

lemma keeps_derive_lisp_ids [keeps]: "keeps (alloc_inv pools bn bv) (derive_lisp_ids cx devices)"
  unfolding derive_lisp_ids_def derive_multihoming_def reserve_identity_def by (intro keeps; simp)

lemma keeps_derive_handoff [keeps]:
  "keeps (alloc_inv (cx_pools cx) bn bv) (derive_handoff cx devices fusions vns environment handoff)"
  unfolding derive_handoff_def derive_peer_def by (intro keeps; simp)

lemma keeps_derive_design: "keeps (alloc_inv (cx_pools cx) bn bv) (derive_design cx site_context)"
  unfolding derive_design_def by (intro keeps)

section \<open>What a derivation reserves\<close>

lemma alloc_inv_start:
  "initial_alloc nl sl cx = Inr a \<Longrightarrow> alloc_inv pools (taken_nets a) (taken_vals a) a"
  by (auto simp: initial_alloc_def alloc_inv_def res nets.ledger_ok_start vals.ledger_ok_start)

lemma derive_allocation_inv:
  assumes "derive_allocation v requirements policy nl sl = Inr (cx, ds, a)"
  obtains a0 where "initial_alloc nl sl cx = Inr a0"
    and "alloc_inv (cx_pools cx) (taken_nets a0) (taken_vals a0) a"
proof -
  from assms obtain sc a0 where a0: "initial_alloc nl sl cx = Inr a0"
    and d: "derive_design cx sc a0 = (Inr ds, a)"
    unfolding derive_allocation_def
    by (auto elim!: ebind_InrE split: sum.splits prod.splits)
  have "alloc_inv (cx_pools cx) (taken_nets a0) (taken_vals a0) a"
    using keepsD [OF keeps_derive_design alloc_inv_start [OF a0] d] .
  with a0 show thesis by (rule that)
qed

text \<open>The networks and values excluded from the start cover the active ledger.\<close>

lemma initial_networks_base:
  assumes "initial_networks nl cx = Inr bn" and "jidx (cx_pools cx) k = Inr pool"
  obtains active reserved where "taken_in k bn = active @ reserved"
    and "active_networks nl (cx_domain cx) k = Inr active" and "policy_reserved_networks k pool = Inr reserved"
proof -
  obtain kvs where kvs: "cx_pools cx = JObj kvs" and m: "map_of kvs k = Some pool"
    using assms(2) by (auto simp: res)
  define f where "f = (\<lambda>(pool_id, pool). ebind (active_networks nl (cx_domain cx) pool_id) (\<lambda>active.
      ebind (policy_reserved_networks pool_id pool) (\<lambda>reserved. Inr (pool_id, active @ reserved))))"
  have f: "mapE f kvs = Inr bn" using assms(1) by (simp add: initial_networks_def kvs f_def)
  have key: "f p = Inr q \<Longrightarrow> fst q = fst p" for p q by (auto simp: f_def res split: prod.splits)
  have "\<exists>ns. map_of bn k = Some ns \<and> f (k, pool) = Inr (k, ns)"
    using f m
  proof (induction kvs arbitrary: bn)
    case (Cons p kvs)
    then obtain q bn' where q: "f p = Inr q" "mapE f kvs = Inr bn'" "bn = q # bn'" by (auto simp: res)
    show ?case
    proof (cases "fst p = k")
      case True
      then show ?thesis using q Cons.prems key [OF q(1)] by (cases p; cases q) auto
    next
      case False
      then show ?thesis using Cons.IH [OF q(2)] q Cons.prems key [OF q(1)] by (cases p; cases q) auto
    qed
  qed simp
  then show thesis by (auto simp: f_def res taken_in_def intro: that)
qed

lemma initial_networks_active:
  assumes "initial_networks nl cx = Inr bn" and "jidx (cx_pools cx) k = Inr pool"
    and "e \<in> set nl" and "ne_domain e = cx_domain cx" and "ne_pool e = k" and "is_active (ne_state e)"
  shows "\<exists>m. network (ne_prefix e) = Inr m \<and> m \<in> set (taken_in k bn)"
proof -
  obtain active reserved where t: "taken_in k bn = active @ reserved"
    and a: "active_networks nl (cx_domain cx) k = Inr active"
    using assms(1,2) by (rule initial_networks_base)
  have "e \<in> set (filter (\<lambda>e. ne_domain e = cx_domain cx \<and> ne_pool e = k \<and> is_active (ne_state e)) nl)"
    using assms(3-6) by simp
  from mapE_Inr_setD [OF a [unfolded active_networks_def] this] t show ?thesis by auto
qed

text \<open>So do the prefixes that the guardrail reserves.\<close>

lemma initial_networks_reserved:
  assumes "initial_networks nl cx = Inr bn" and "jidx (cx_pools cx) k = Inr pool"
  obtains raw where "strs_get pool ''reserved'' = Inr raw"
    and "\<And>x. x \<in> set raw \<Longrightarrow> \<exists>m. network x = Inr m \<and> m \<in> set (taken_in k bn)"
proof -
  obtain active reserved where t: "taken_in k bn = active @ reserved" and r: "policy_reserved_networks k pool = Inr reserved"
    using assms by (rule initial_networks_base)
  from r obtain s raw where raw: "strs_get pool ''reserved'' = Inr raw"
    and m: "mapE (\<lambda>r. ebind (network r) (\<lambda>p. ebind (raise_if (\<not> subnet_of p s)
        (AllocationError (''Reserved prefix '' @ net_str p @ '' is outside guardrail pool '' @ k @ '' ('' @ net_str s @ '')'')))
      (\<lambda>_. Inr p))) raw = Inr reserved"
    unfolding policy_reserved_networks_def by (elim ebind_InrE) (rule that)
  have "\<exists>m. network x = Inr m \<and> m \<in> set reserved" if "x \<in> set raw" for x
    using mapE_Inr_setD [OF m that] by (auto simp: res)
  with raw t show thesis by (intro that [of raw]) auto
qed

lemma initial_scalars_active:
  assumes "initial_scalars sl cx = Inr bv" and "k \<in> set scalar_kinds"
    and "e \<in> set sl" and "se_domain e = cx_domain cx" and "se_type e = k" and "is_active (se_state e)"
  shows "se_value e \<in> set (taken_in k bv)"
proof -
  define f where "f = (\<lambda>(kind, range_name). ebind (jget (cx_ranges cx) range_name) (\<lambda>range.
      ebind (if is_obj range then policy_reserved_scalars kind range else Inr []) (\<lambda>reserved.
        Inr (kind, active_scalars sl (cx_domain cx) kind @ reserved))))"
  have f: "mapE f scalar_range_names = Inr bv" using assms(1) by (simp add: initial_scalars_def f_def)
  have val: "f p = Inr q \<Longrightarrow> fst q = fst p \<and> set (active_scalars sl (cx_domain cx) (fst p)) \<subseteq> set (snd q)" for p q
    by (auto simp: f_def res split: prod.splits)
  have "k \<in> set (map fst names) \<Longrightarrow> mapE f names = Inr bv \<Longrightarrow>
      set (active_scalars sl (cx_domain cx) k) \<subseteq> set (taken_in k bv)" for names
  proof (induction names arbitrary: bv)
    case (Cons p names)
    then obtain q bv' where q: "f p = Inr q" "mapE f names = Inr bv'" "bv = q # bv'" by (auto simp: res)
    note v = val [OF q(1)]
    show ?case
    proof (cases "fst p = k")
      case True
      then show ?thesis using q v by (cases q) (auto simp: taken_in_def)
    next
      case False
      then have "k \<in> set (map fst names)" using Cons.prems(1) by auto
      from Cons.IH [OF this q(2)] False show ?thesis using q v by (cases q) (auto simp: taken_in_def)
    qed
  qed simp
  from this [OF assms(2) [unfolded scalar_kinds_def] f] assms(3-6) show ?thesis by (auto simp: active_scalars_def)
qed

section \<open>What a derivation returns\<close>

lemma network_net_str: "wf_net n \<Longrightarrow> network (net_str n) = Inr n"
  by (simp add: network_def parse_net_str)

lemma derive_fabric_intentE:
  assumes "derive_fabric_intent v req pol nl sl = Inr d"
  obtains cx a bn bv where "dv_domain d = cx_domain cx" "dv_network d = net_reservations a"
    "dv_scalar d = scalar_reservations a" "initial_networks nl cx = Inr bn" "initial_scalars sl cx = Inr bv"
    "alloc_inv (cx_pools cx) bn bv a"
proof -
  from assms obtain cx ds a where r: "derive_allocation v req pol nl sl = Inr (cx, ds, a)"
    and d: "dv_domain d = cx_domain cx" "dv_network d = net_reservations a" "dv_scalar d = scalar_reservations a"
    by (auto simp: derive_fabric_intent_def res)
  from derive_allocation_inv [OF r] obtain a0 where "initial_alloc nl sl cx = Inr a0"
    and "alloc_inv (cx_pools cx) (taken_nets a0) (taken_vals a0) a" .
  with d show thesis by (intro that) (auto simp: initial_alloc_def res)
qed

text \<open>Read back as networks, the reserved prefixes are apart from each other and from the ledger.\<close>

lemma derive_networks_apart:
  assumes "derive_fabric_intent v req pol nl sl = Inr d"
  shows "sorted_wrt (\<lambda>x y. fst x = fst y \<longrightarrow>
      (\<exists>m n. network (snd x) = Inr m \<and> network (snd y) = Inr n \<and> addrs m \<inter> addrs n = {})) (dv_network d)"
    and "\<forall>x \<in> set (dv_network d). \<forall>e \<in> set nl. ne_domain e = dv_domain d \<and> ne_pool e = fst x \<and> is_active (ne_state e) \<longrightarrow>
      (\<exists>m n. network (ne_prefix e) = Inr m \<and> network (snd x) = Inr n \<and> addrs m \<inter> addrs n = {})"
proof -
  from assms obtain cx a bn bv where d: "dv_domain d = cx_domain cx" "dv_network d = net_reservations a"
    and bn: "initial_networks nl cx = Inr bn" and inv: "alloc_inv (cx_pools cx) bn bv a"
    by (rule derive_fabric_intentE)
  from inv obtain ns where ns: "net_reservations a = map (\<lambda>r. (fst r, net_str (snd r))) ns"
    and lo: "ledger_ok overlaps bn (taken_nets a) ns"
    and ip: "\<forall>r \<in> set ns. in_pool (cx_pools cx) (fst r) (snd r)" by (auto simp: alloc_inv_def)
  have w: "network (net_str (snd r)) = Inr (snd r)" if "r \<in> set ns" for r
    using ip that by (auto simp: in_pool_def network_net_str)
  have ap: "addrs (snd (ns ! i)) \<inter> addrs (snd (ns ! j)) = {}"
    if "i < j" "j < length ns" "fst (ns ! i) = fst (ns ! j)" for i j
    using nets.ledger_ok_nth [OF lo, of i j] that by (auto simp: overlaps_iff)
  then show "sorted_wrt (\<lambda>x y. fst x = fst y \<longrightarrow>
      (\<exists>m n. network (snd x) = Inr m \<and> network (snd y) = Inr n \<and> addrs m \<inter> addrs n = {})) (dv_network d)"
    unfolding d ns sorted_wrt_map sorted_wrt_iff_nth_less using w by (simp add: nth_mem)
  show "\<forall>x \<in> set (dv_network d). \<forall>e \<in> set nl. ne_domain e = dv_domain d \<and> ne_pool e = fst x \<and> is_active (ne_state e) \<longrightarrow>
      (\<exists>m n. network (ne_prefix e) = Inr m \<and> network (snd x) = Inr n \<and> addrs m \<inter> addrs n = {})"
  proof (intro ballI impI)
    fix x e assume x: "x \<in> set (dv_network d)" and e: "e \<in> set nl"
      and *: "ne_domain e = dv_domain d \<and> ne_pool e = fst x \<and> is_active (ne_state e)"
    from x obtain r where r: "r \<in> set ns" "x = (fst r, net_str (snd r))" by (auto simp: d ns)
    from ip r(1) obtain pool where "jidx (cx_pools cx) (fst r) = Inr pool" by (auto simp: in_pool_def)
    from initial_networks_active [OF bn this e] * r(2) d obtain m where
      m: "network (ne_prefix e) = Inr m" "m \<in> set (taken_in (fst r) bn)" by auto
    have "\<not> overlaps (snd r) m"
      using nets.ledger_ok_base [OF lo, of r] r(1) m(2) by (auto simp: overlaps_sym)
    with m(1) w [OF r(1)] show "\<exists>m n. network (ne_prefix e) = Inr m \<and> network (snd x) = Inr n \<and> addrs m \<inter> addrs n = {}"
      by (auto simp: r(2) overlaps_iff)
  qed
qed

lemma derive_scalars_apart:
  assumes "derive_fabric_intent v req pol nl sl = Inr d"
  shows "distinct (dv_scalar d)"
    and "\<forall>x \<in> set (dv_scalar d). \<forall>e \<in> set sl. se_domain e = dv_domain d \<and> se_type e = fst x \<and> is_active (se_state e) \<longrightarrow>
      se_value e \<noteq> snd x"
proof -
  from assms obtain cx a bn bv where d: "dv_domain d = cx_domain cx" "dv_scalar d = scalar_reservations a"
    and bv: "initial_scalars sl cx = Inr bv" and inv: "alloc_inv (cx_pools cx) bn bv a"
    by (rule derive_fabric_intentE)
  have lo: "ledger_ok (=) bv (taken_vals a) (scalar_reservations a)"
    and kinds: "\<forall>r \<in> set (scalar_reservations a). fst r \<in> set scalar_kinds"
    using inv by (auto simp: alloc_inv_def)
  show "distinct (dv_scalar d)"
    unfolding d distinct_conv_nth using vals.ledger_ok_nth [OF lo] by (metis (no_types, lifting))
  show "\<forall>x \<in> set (dv_scalar d). \<forall>e \<in> set sl. se_domain e = dv_domain d \<and> se_type e = fst x \<and> is_active (se_state e) \<longrightarrow>
      se_value e \<noteq> snd x"
  proof (intro ballI impI)
    fix x e assume x: "x \<in> set (dv_scalar d)" and e: "e \<in> set sl"
      and *: "se_domain e = dv_domain d \<and> se_type e = fst x \<and> is_active (se_state e)"
    have "se_value e \<in> set (taken_in (fst x) bv)"
      using initial_scalars_active [OF bv _ e] kinds x * d by auto
    then show "se_value e \<noteq> snd x"
      using vals.ledger_ok_base [OF lo, of x] x d by auto
  qed
qed

end
