(* ===== verification/AllocSample.thy ===== *)
theory AllocSample
  imports DeriveIntent
begin

text \<open>
  A small design that the witnesses of the allocator's properties run: two devices, one link and
  one virtual network at one site, a ledger with an active loopback of the same domain and a
  released one, and a guardrail that reserves a loopback. The run is evaluated once, here.
\<close>

section \<open>The documents\<close>

definition sample_pools :: json where
  "sample_pools = JObj
     [(''underlay_p2p'', JObj [(''cidr'', JStr ''10.2.0.0/24''), (''prefix_len'', JInt 31)]),
      (''loopbacks'', JObj [(''cidr'', JStr ''10.3.0.0/29''), (''prefix_len'', JInt 32),
         (''reserved'', JArr [JStr ''10.3.0.0/32''])]),
      (''overlay_hosts'', JObj [(''cidr'', JStr ''10.4.0.0/16'')])]"

definition sample_ranges :: json where
  "sample_ranges = JObj
     [(''vlan_id'', JObj [(''min'', JInt 100), (''max'', JInt 110)]),
      (''l2_instance_id'', JObj [(''base'', JInt 8000)]),
      (''l3_instance_id'', JObj [(''min'', JInt 50), (''max'', JInt 60), (''reserved'', JArr [JInt 50])])]"

definition sample_policy :: json where
  "sample_policy = JObj
     [(''fabric_control_plane'', JObj [(''allowed_modes'', JArr [JStr ''classic''])]),
      (''supernets'', sample_pools), (''ranges'', sample_ranges),
      (''platform_matrix'', JArr [JObj [(''model'', JStr ''X''), (''min_ios_xe'', JStr ''17.9''),
         (''roles'', JArr [JStr ''control_plane'', JStr ''fabric_edge''])]])]"

definition sample_device :: "string \<Rightarrow> string \<Rightarrow> json" where
  "sample_device i role = JObj
     [(''id'', JStr i), (''site'', JStr ''S''), (''platform'', JStr ''X''),
      (''software_version'', JStr ''17.12''), (''management_ip'', JStr ''192.0.2.1''),
      (''roles'', JArr [JStr role]), (''credential_ref'', JStr ''ref'')]"

definition sample_fabric :: json where
  "sample_fabric = JObj
     [(''id'', JStr ''f''), (''name'', JStr ''F''), (''mtu'', JInt 9100),
      (''control_plane_mode'', JStr ''classic''), (''lisp_auth_key_ref'', JStr ''key'')]"

definition sample_requirements :: json where
  "sample_requirements = JObj
     [(''schema_version'', JStr ''1.0''), (''metadata'', JObj [(''environment'', JStr ''lab'')]),
      (''allocation_domain'', JStr ''d''), (''fabric'', sample_fabric),
      (''devices'', JArr [sample_device ''b'' ''fabric_edge'', sample_device ''a'' ''control_plane'']),
      (''links'', JArr [JObj [(''id'', JStr ''l''), (''endpoints'', JArr
         [JObj [(''device_id'', JStr ''b''), (''interface'', JStr ''e1'')],
          JObj [(''device_id'', JStr ''a''), (''interface'', JStr ''e1'')]])]]),
      (''virtual_networks'', JArr [JObj [(''name'', JStr ''V''), (''vrf'', JStr ''V''), (''sites'', JArr
         [JObj [(''site'', JStr ''S''), (''users'', JInt 75), (''headroom_percent'', JInt 68),
                (''dhcp_helpers'', JArr [JStr ''h''])]])]])]"

definition sample_net_ledger :: "net_entry list" where
  "sample_net_ledger =
     [\<lparr>ne_domain = ''d'', ne_pool = ''loopbacks'', ne_prefix = ''10.3.0.1/32'', ne_state = Committed\<rparr>,
      \<lparr>ne_domain = ''d'', ne_pool = ''loopbacks'', ne_prefix = ''10.3.0.2/32'', ne_state = Released\<rparr>]"

definition sample_scalar_ledger :: "scalar_entry list" where
  "sample_scalar_ledger =
     [\<lparr>se_domain = ''d'', se_type = ''vlan_id'', se_value = ''100'', se_state = Quarantined\<rparr>]"

section \<open>Its run\<close>

lemmas sample_documents =
  sample_pools_def sample_ranges_def sample_policy_def sample_device_def sample_fabric_def
  sample_requirements_def sample_net_ledger_def sample_scalar_ledger_def

text \<open>The equations that evaluate a derivation, each continuation only once its argument is known.\<close>

lemmas derive_defs =
  filterE_def refuse_def str_at_def str_get_def int_at_def int_get_def items_at_def items_get_def
  strs_at_def strs_get_def hashable_def py_set_def sort_by_def sorted_diff_def sorted_set_def
  strs_repr_def jstrs_def network_def active_networks_def active_scalars_def
  policy_reserved_networks_def policy_reserved_scalars_def nth_subnet_def first_prefix_def
  first_scalar_def taken_in_def note_prefix_def note_scalar_def reserve_prefix_def
  reserve_scalar_def version_tuple_def platform_guardrail_def require_keys_def round_half_even_def
  fl_shift_def fl_def frac_add_def frac_mul_def frac_ceil_def to_double_def required_hosts_def
  host_prefix_def by_id_def has_site_context_def derive_site_context_def pool_prefix_len_def
  range_bounds_def optional_str_def lisp_override_requested_def check_requirements_def
  check_pools_def initial_networks_def scalar_range_names_def initial_scalars_def initial_alloc_def
  has_role_def derive_device_def derive_devices_def derive_fusion_nodes_def nth_address_def
  derive_link_def derive_links_def raw_handoff_def bgp_enabled_def derive_local_as_def
  derive_dhcp_def vn_ranges_of_def reserve_l2_def derive_endpoint_pool_def derive_vnet_def
  derive_vnets_def derive_attachments_def environment_of_def derive_shared_services_def
  derive_multicast_def derive_policy_plane_def control_planes_def border_ids_def
  check_redundancy_def derive_lisp_ids_def fabric_part_def lisp_part_def sxp_sources_def
  derive_design_def derive_allocation_def raise_if_def jor_def jget_default_def jget_def

lemmas text_defs =
  parse_net_def parse_addr_def parse_octet_def digits_val_def digit_val_def is_digit_def
  parse_prefixlen_def parse_nat_def net_size_def broadcast_def addr_str_def net_str_def nat_str.simps
  digit_char_simps int_str_def overlaps_def in_net_def subnet_of_def upper_def lower_def
  upper_char_def lower_char_def is_upper_def is_lower_def

lemmas loop_defs = search_subnet.simps search_scalar.simps bit_len.simps host_bits.simps

lemma sample_versions [simp]:
  "int_of_string ''17'' = Some 17" "int_of_string ''12'' = Some 12" "int_of_string ''9'' = Some 9"
  by (simp_all add: int_of_string_def strip_def lstrip_def is_space_def digits_val_def digit_val_def is_digit_def)

lemma sample_run:
  "\<exists>cx ds a. derive_allocation (\<lambda>_. Inr ()) sample_requirements sample_policy sample_net_ledger
        sample_scalar_ledger = Inr (cx, ds, a)
     \<and> cx_domain cx = ''d''
     \<and> net_reservations a = [(''loopbacks'', ''10.3.0.2/32''), (''loopbacks'', ''10.3.0.3/32''),
         (''underlay_p2p'', ''10.2.0.0/31''), (''overlay_hosts'', ''10.4.0.0/24'')]
     \<and> scalar_reservations a = [(''l3_instance_id'', ''51''), (''vlan_id'', ''101''),
         (''l2_instance_id'', ''8101'')]"
  by (simp add: derive_defs text_defs loop_defs sample_documents is_active_def sbind_def sret_def sguard_def
      Let_def of_option_def cong: ebind_weak_cong let_weak_cong)

end
