(* ===== verification/AllocProps.thy ===== *)
theory AllocProps
  imports AllocInv AllocSample
begin

text \<open>
  The properties of the allocator: what a derivation reserves is fresh and disjoint, the search
  is first fit and complete, endpoint prefixes hold their demand.
\<close>

section \<open>Fresh and disjoint resources\<close>

text \<open>
  C16: every prefix a derivation reserves lies inside the guardrail pool it was taken from; no two
  prefixes of one pool share an address; and none shares an address with a prefix that the
  guardrail reserves in the pool or with an active entry of the ledger in the same allocation
  domain and pool.
\<close>

theorem allocated_prefixes_disjoint:
  assumes "derive_allocation validate requirements policy nl sl = Inr (cx, ds, a)"
  shows "\<exists>ns. net_reservations a = map (\<lambda>r. (fst r, net_str (snd r))) ns
     \<and> (\<forall>i < length ns. \<forall>j < length ns. i \<noteq> j \<and> fst (ns ! i) = fst (ns ! j) \<longrightarrow>
          addrs (snd (ns ! i)) \<inter> addrs (snd (ns ! j)) = {})
     \<and> (\<forall>(pool_id, n) \<in> set ns.
          (\<exists>pool cidr s. jidx (cx_pools cx) pool_id = Inr pool \<and> str_at pool ''cidr'' = Inr cidr
             \<and> network cidr = Inr s \<and> addrs n \<subseteq> addrs s
             \<and> (\<exists>raw. strs_get pool ''reserved'' = Inr raw
                  \<and> (\<forall>x \<in> set raw. \<exists>m. network x = Inr m \<and> addrs m \<inter> addrs n = {})))
          \<and> (\<forall>e \<in> set nl. ne_domain e = cx_domain cx \<and> ne_pool e = pool_id \<and> is_active (ne_state e) \<longrightarrow>
               (\<exists>m. network (ne_prefix e) = Inr m \<and> addrs m \<inter> addrs n = {})))"
proof -
  from derive_allocation_inv [OF assms] obtain a0 where a0: "initial_alloc nl sl cx = Inr a0"
    and inv: "alloc_inv (cx_pools cx) (taken_nets a0) (taken_vals a0) a" by blast
  have bn: "initial_networks nl cx = Inr (taken_nets a0)"
    using a0 by (auto simp: initial_alloc_def res)
  from inv obtain ns where ns: "net_reservations a = map (\<lambda>r. (fst r, net_str (snd r))) ns"
    and lo: "ledger_ok overlaps (taken_nets a0) (taken_nets a) ns"
    and ip: "\<forall>r \<in> set ns. in_pool (cx_pools cx) (fst r) (snd r)" by (auto simp: alloc_inv_def)
  have "\<forall>i < length ns. \<forall>j < length ns. i \<noteq> j \<and> fst (ns ! i) = fst (ns ! j) \<longrightarrow>
      addrs (snd (ns ! i)) \<inter> addrs (snd (ns ! j)) = {}"
    using nets.ledger_ok_nth [OF lo] by (auto simp: overlaps_iff)
  moreover have "(\<exists>pool cidr s. jidx (cx_pools cx) pool_id = Inr pool \<and> str_at pool ''cidr'' = Inr cidr
       \<and> network cidr = Inr s \<and> addrs n \<subseteq> addrs s
       \<and> (\<exists>raw. strs_get pool ''reserved'' = Inr raw \<and> (\<forall>x \<in> set raw. \<exists>m. network x = Inr m \<and> addrs m \<inter> addrs n = {})))
     \<and> (\<forall>e \<in> set nl. ne_domain e = cx_domain cx \<and> ne_pool e = pool_id \<and> is_active (ne_state e) \<longrightarrow>
          (\<exists>m. network (ne_prefix e) = Inr m \<and> addrs m \<inter> addrs n = {}))"
    if r: "(pool_id, n) \<in> set ns" for pool_id n
  proof -
    from ip r obtain pool cidr s where p: "jidx (cx_pools cx) pool_id = Inr pool"
      "str_at pool ''cidr'' = Inr cidr" "network cidr = Inr s" "subnet_of n s"
      by (auto simp: in_pool_def)
    have "\<exists>m. network (ne_prefix e) = Inr m \<and> addrs m \<inter> addrs n = {}"
      if e: "e \<in> set nl" "ne_domain e = cx_domain cx" "ne_pool e = pool_id" "is_active (ne_state e)" for e
      using initial_networks_active [OF bn p(1) e] nets.ledger_ok_base [OF lo r]
      by (auto simp: overlaps_iff)
    moreover obtain raw where raw: "strs_get pool ''reserved'' = Inr raw"
      "\<And>x. x \<in> set raw \<Longrightarrow> \<exists>m. network x = Inr m \<and> m \<in> set (taken_in pool_id (taken_nets a0))"
      using bn p(1) by (rule initial_networks_reserved) blast
    have "\<exists>m. network x = Inr m \<and> addrs m \<inter> addrs n = {}" if "x \<in> set raw" for x
      using raw(2) [OF that] nets.ledger_ok_base [OF lo r] by (auto simp: overlaps_iff)
    ultimately show ?thesis using p raw(1) by (auto simp: subnet_of_iff)
  qed
  ultimately show ?thesis using ns by auto
qed

theorem allocated_prefixes_disjoint_witness:
  "\<exists>cx ds a ns. derive_allocation (\<lambda>_. Inr ()) sample_requirements sample_policy sample_net_ledger
        sample_scalar_ledger = Inr (cx, ds, a)
     \<and> map fst ns = [''loopbacks'', ''loopbacks'', ''underlay_p2p'', ''overlay_hosts'']
     \<and> addrs (snd (ns ! 0)) \<inter> addrs (snd (ns ! 1)) = {}"
proof -
  obtain cx ds a where r: "derive_allocation (\<lambda>_. Inr ()) sample_requirements sample_policy sample_net_ledger
        sample_scalar_ledger = Inr (cx, ds, a)"
    and n: "net_reservations a = [(''loopbacks'', ''10.3.0.2/32''), (''loopbacks'', ''10.3.0.3/32''),
         (''underlay_p2p'', ''10.2.0.0/31''), (''overlay_hosts'', ''10.4.0.0/24'')]"
    using sample_run by blast
  from allocated_prefixes_disjoint [OF r] obtain ns where
    ns: "net_reservations a = map (\<lambda>r. (fst r, net_str (snd r))) ns"
    and d: "\<forall>i < length ns. \<forall>j < length ns. i \<noteq> j \<and> fst (ns ! i) = fst (ns ! j) \<longrightarrow>
      addrs (snd (ns ! i)) \<inter> addrs (snd (ns ! j)) = {}" by blast
  have "map fst (net_reservations a) = map fst ns" unfolding ns by (simp add: comp_def)
  then have m: "map fst ns = [''loopbacks'', ''loopbacks'', ''underlay_p2p'', ''overlay_hosts'']"
    by (simp add: n)
  then obtain p q rest where "ns = p # q # rest" "fst p = ''loopbacks''" "fst q = ''loopbacks''"
    by (auto simp: map_eq_Cons_conv)
  with d have e: "addrs (snd (ns ! 0)) \<inter> addrs (snd (ns ! 1)) = {}" by fastforce
  show ?thesis by (intro exI conjI) (rule r m e)+
qed

text \<open>
  C17: the scalars a derivation reserves (VLANs, instance identifiers, autonomous system numbers,
  tags, LISP identifiers) are pairwise different within their kind and differ from every value of
  that kind that is active in the ledger of the same allocation domain.
\<close>

theorem allocated_scalars_fresh:
  assumes "derive_allocation validate requirements policy nl sl = Inr (cx, ds, a)"
  shows "distinct (scalar_reservations a)
     \<and> (\<forall>(kind, v) \<in> set (scalar_reservations a). \<forall>e \<in> set sl.
          se_domain e = cx_domain cx \<and> se_type e = kind \<and> is_active (se_state e) \<longrightarrow> se_value e \<noteq> v)"
proof -
  from derive_allocation_inv [OF assms] obtain a0 where a0: "initial_alloc nl sl cx = Inr a0"
    and inv: "alloc_inv (cx_pools cx) (taken_nets a0) (taken_vals a0) a" by blast
  have bv: "initial_scalars sl cx = Inr (taken_vals a0)"
    using a0 by (auto simp: initial_alloc_def res)
  have lo: "ledger_ok (=) (taken_vals a0) (taken_vals a) (scalar_reservations a)"
    and kinds: "\<forall>r \<in> set (scalar_reservations a). fst r \<in> set scalar_kinds"
    using inv by (auto simp: alloc_inv_def)
  have "distinct (scalar_reservations a)"
    unfolding distinct_conv_nth using vals.ledger_ok_nth [OF lo] by (metis (no_types, lifting))
  moreover have "se_value e \<noteq> v"
    if "(kind, v) \<in> set (scalar_reservations a)" and "e \<in> set sl"
      "se_domain e = cx_domain cx" "se_type e = kind" "is_active (se_state e)" for kind v e
    using initial_scalars_active [OF bv _ that(2-5)] kinds that(1) vals.ledger_ok_base [OF lo that(1)]
    by fastforce
  ultimately show ?thesis by auto
qed

theorem allocated_scalars_fresh_witness:
  "\<exists>cx ds a. derive_allocation (\<lambda>_. Inr ()) sample_requirements sample_policy sample_net_ledger
        sample_scalar_ledger = Inr (cx, ds, a)
     \<and> (''vlan_id'', ''101'') \<in> set (scalar_reservations a) \<and> distinct (scalar_reservations a)
     \<and> se_value (sample_scalar_ledger ! 0) \<noteq> ''101''"
proof -
  obtain cx ds a where r: "derive_allocation (\<lambda>_. Inr ()) sample_requirements sample_policy sample_net_ledger
        sample_scalar_ledger = Inr (cx, ds, a)"
    and dom: "cx_domain cx = ''d''"
    and v: "scalar_reservations a = [(''l3_instance_id'', ''51''), (''vlan_id'', ''101''),
         (''l2_instance_id'', ''8101'')]"
    using sample_run by blast
  note f = allocated_scalars_fresh [OF r]
  have "(''vlan_id'', ''101'') \<in> set (scalar_reservations a)" by (simp add: v)
  moreover from f this dom have "se_value (sample_scalar_ledger ! 0) \<noteq> ''101''"
    by (auto simp: sample_scalar_ledger_def)
  ultimately show ?thesis using f r by blast
qed

section \<open>First fit\<close>

lemma subnet_is_nth:
  assumes s: "wf_net s" and n: "wf_net n" and sub: "addrs n \<subseteq> addrs s" and l: "prefixlen s \<le> prefixlen n"
  shows "\<exists>i < 2 ^ (prefixlen n - prefixlen s). n = nth_subnet s (prefixlen n) i"
proof -
  let ?u = "2 ^ (32 - prefixlen n) :: nat"
  have ln: "prefixlen n \<le> 32" using n by (simp add: wf_net_def)
  have size: "net_size s = 2 ^ (prefixlen n - prefixlen s) * ?u"
    using l ln by (simp add: net_size_def flip: power_add)
  have b: "net_addr s \<le> net_addr n" "net_addr n + ?u \<le> net_addr s + net_size s"
  proof -
    have "subnet_of n s" using sub by (simp add: subnet_of_iff)
    then have "net_addr s \<le> net_addr n" "net_addr n + net_size n - 1 \<le> net_addr s + net_size s - 1"
      by (simp_all add: subnet_of_def broadcast_def)
    moreover have "net_size n = ?u" by (simp add: net_size_def)
    moreover have "0 < net_size s" by simp
    ultimately show "net_addr s \<le> net_addr n" "net_addr n + ?u \<le> net_addr s + net_size s" by linarith+
  qed
  have "net_size s dvd net_addr s" "?u dvd net_addr n"
    using s n by (simp_all add: wf_net_def net_size_def mod_0_imp_dvd)
  then have "?u dvd net_addr s" "?u dvd net_addr n" using size by (metis dvd_trans dvd_triv_right)+
  then have "?u dvd net_addr n - net_addr s" by (rule dvd_diff_nat [rotated])
  then obtain i where i: "net_addr n - net_addr s = i * ?u" by (metis dvdE mult.commute)
  then have e: "net_addr n = net_addr s + i * ?u" using b(1) by linarith
  have "i * ?u + ?u \<le> net_size s" using b(2) unfolding e by linarith
  then have "i * ?u < 2 ^ (prefixlen n - prefixlen s) * ?u"
    unfolding size using zero_less_power [of "2 :: nat" "32 - prefixlen n"] by linarith
  then have "i < 2 ^ (prefixlen n - prefixlen s)" by simp
  moreover have "n = nth_subnet s (prefixlen n) i" using e by (simp add: nth_subnet_def ipv4net.expand)
  ultimately show ?thesis by blast
qed

lemma nth_subnet_mono: "i < j \<longleftrightarrow> net_addr (nth_subnet s len i) < net_addr (nth_subnet s len j)"
  by (simp add: nth_subnet_def)

text \<open>
  C18: a prefix search returns the network with the lowest address among those of the asked length
  inside the pool that overlap nothing excluded; when it raises, the length does not fit the pool
  or every network of that length inside the pool overlaps something excluded.
\<close>

theorem prefix_first_fit:
  assumes "wf_net s"
  shows "case first_prefix s len ex of
      Inr n \<Rightarrow> wf_net n \<and> int (prefixlen n) = len \<and> addrs n \<subseteq> addrs s \<and> (\<forall>x \<in> set ex. addrs n \<inter> addrs x = {})
        \<and> (\<forall>m. wf_net m \<and> prefixlen m = prefixlen n \<and> addrs m \<subseteq> addrs s \<and> net_addr m < net_addr n \<longrightarrow>
             (\<exists>x \<in> set ex. addrs m \<inter> addrs x \<noteq> {}))
    | Inl e \<Rightarrow> len < int (prefixlen s) \<or> 32 < len
        \<or> (\<forall>m. wf_net m \<and> int (prefixlen m) = len \<and> addrs m \<subseteq> addrs s \<longrightarrow>
             (\<exists>x \<in> set ex. addrs m \<inter> addrs x \<noteq> {}))"
proof (cases "len < int (prefixlen s) \<or> 32 < len")
  case True
  then show ?thesis by (auto simp: first_prefix_def)
next
  case False
  define l where "l = nat len"
  have l: "prefixlen s \<le> l" "l \<le> 32" "len = int l" using False by (auto simp: l_def)
  have fp: "first_prefix s len ex = of_option (AllocationError (''Address pool '' @ net_str s
      @ '' is exhausted for /'' @ int_str len)) (search_subnet s l ex 0)"
    using False by (simp add: first_prefix_def l_def)
  show ?thesis
  proof (cases "search_subnet s l ex 0")
    case None
    have "\<exists>x \<in> set ex. addrs m \<inter> addrs x \<noteq> {}"
      if m: "wf_net m" "addrs m \<subseteq> addrs s" and pm: "prefixlen m = l" for m
    proof -
      obtain i where "i < 2 ^ (l - prefixlen s)" and i: "m = nth_subnet s l i"
        using subnet_is_nth [OF assms m] pm l(1) by auto
      then have "\<exists>x \<in> set ex. overlaps (nth_subnet s l i) x" using search_subnet_None [OF None] by simp
      then show ?thesis by (simp add: i overlaps_iff)
    qed
    then show ?thesis using None fp l(3) by auto
  next
    case (Some n)
    from search_subnet_Some [OF Some] obtain j where j: "j < 2 ^ (l - prefixlen s)" "n = nth_subnet s l j"
      "\<forall>x \<in> set ex. \<not> overlaps n x" "\<forall>m < j. \<exists>x \<in> set ex. overlaps (nth_subnet s l m) x" by auto
    have pn: "prefixlen n = l" by (simp add: j(2) nth_subnet_def)
    have "\<exists>x \<in> set ex. addrs m \<inter> addrs x \<noteq> {}"
      if m: "wf_net m" "addrs m \<subseteq> addrs s" and pm: "prefixlen m = prefixlen n"
        and lt: "net_addr m < net_addr n" for m
    proof -
      obtain i where i: "m = nth_subnet s l i"
        using subnet_is_nth [OF assms m] pm pn l(1) by auto
      then have "i < j" using lt nth_subnet_mono [of i j s l] by (simp add: j(2))
      then show ?thesis using j(4) i by (auto simp: overlaps_iff)
    qed
    then show ?thesis
      using Some fp nth_subnet_in [OF assms l(1,2) j(1)] j pn l(3) by (auto simp: overlaps_iff subnet_of_iff)
  qed
qed

theorem prefix_first_fit_witness:
  "first_prefix (Net 167968768 29) 30 [Net 167968768 32] = Inr (Net 167968772 30)
   \<and> addrs (Net 167968772 30) \<subseteq> addrs (Net 167968768 29)
   \<and> addrs (Net 167968768 30) \<inter> addrs (Net 167968768 32) \<noteq> {}"
proof -
  have w: "wf_net (Net 167968768 29)" by (simp add: wf_net_def net_size_def)
  have r: "first_prefix (Net 167968768 29) 30 [Net 167968768 32] = Inr (Net 167968772 30)"
    by (simp add: first_prefix_def search_subnet.simps nth_subnet_def overlaps_def in_net_def broadcast_def
        net_size_def)
  have low: "wf_net (Net 167968768 30)" "addrs (Net 167968768 30) \<subseteq> addrs (Net 167968768 29)"
    by (auto simp: wf_net_def net_size_def addrs_def broadcast_def)
  note f = prefix_first_fit [OF w, of 30 "[Net 167968768 32]", unfolded r, simplified]
  from f low have "addrs (Net 167968768 30) \<inter> addrs (Net 167968768 32) \<noteq> {}" by fastforce
  with r f show ?thesis by blast
qed

section \<open>Endpoint prefixes\<close>

text \<open>
  C19: for every number of users and headroom the requirements schema allows, the endpoint prefix is the
  longest one, up to /30, that has as many usable hosts as the code asks for, and the request is
  refused exactly when no prefix within the pool has them. What the code asks for is the users
  plus their headroom, rounded up; the floating point product adds one host at most, and none
  unless the exact demand is a whole number and the headroom no multiple of 25 percent.
\<close>

theorem endpoint_prefix_fits:
  assumes "1 \<le> users" and "users \<le> 16777214" and "headroom \<le> 500"
  shows "\<exists>r. required_hosts users headroom = Inr r
    \<and> (users * (100 + headroom) + 99) div 100 \<le> r \<and> r \<le> (users * (100 + headroom) + 99) div 100 + 1
    \<and> (\<not> 100 dvd users * (100 + headroom) \<or> 25 dvd headroom \<longrightarrow> r = (users * (100 + headroom) + 99) div 100)
    \<and> (case host_prefix (int users) (int headroom) supernet of
         Inr p \<Rightarrow> int supernet \<le> p \<and> p \<le> 30 \<and> r \<le> 2 ^ nat (32 - p) - 2
           \<and> (\<forall>q. p < q \<and> q \<le> 30 \<longrightarrow> 2 ^ nat (32 - q) - 2 < r)
       | Inl e \<Rightarrow> (\<forall>q. int supernet \<le> q \<and> q \<le> 30 \<longrightarrow> 2 ^ nat (32 - q) - 2 < r))"
proof -
  define need where "need = users * (100 + headroom)"
  obtain r where r: "required_hosts users headroom = Inr r" and lo: "need \<le> 100 * r" and hi: "100 * r \<le> need + 100"
    using required_hosts_bounds [OF assms(2,3)] unfolding need_def by blast
  have bounds: "(need + 99) div 100 \<le> r" "r \<le> (need + 99) div 100 + 1" using lo hi by linarith+
  have exact: "r = (need + 99) div 100" if "\<not> 100 dvd need \<or> 25 dvd headroom"
  proof (cases "100 dvd need")
    case True
    with that required_hosts_exact [OF assms(2,3)] r show ?thesis by (simp add: need_def)
  next
    case False
    then have "100 * r \<noteq> need + 100" by (metis dvd_add_left_iff dvd_refl dvd_triv_left)
    then show ?thesis using lo hi by linarith
  qed
  define b where "b = host_bits r 2"
  have b: "r \<le> 2 ^ b - 2" "2 \<le> b" and least: "2 \<le> c \<Longrightarrow> c < b \<Longrightarrow> 2 ^ c - 2 < r" for c
    using host_bits_spec [of r 2] by (auto simp: b_def)
  have "need \<le> 16777214 * 600" unfolding need_def using assms by (intro mult_mono) auto
  then have r32: "r \<le> 2 ^ 30 - 2" using hi by simp
  have small: "b \<le> 30" using least [of 30] r32 by (cases "30 < b") auto
  have longer: "2 ^ nat (32 - q) - 2 < r" if "32 - int b < q" "q \<le> 30" for q
    using that by (intro least) auto
  have h: "host_prefix (int users) (int headroom) supernet =
      (if 32 - int b < int supernet
       then Inl (AllocationError (''Overlay requirement of '' @ nat_str r @ '' usable hosts exceeds its supernet''))
       else Inr (32 - int b))"
    using assms r by (simp add: host_prefix_def b_def Let_def raise_if_def)
  have "case host_prefix (int users) (int headroom) supernet of
         Inr p \<Rightarrow> int supernet \<le> p \<and> p \<le> 30 \<and> r \<le> 2 ^ nat (32 - p) - 2
           \<and> (\<forall>q. p < q \<and> q \<le> 30 \<longrightarrow> 2 ^ nat (32 - q) - 2 < r)
       | Inl e \<Rightarrow> (\<forall>q. int supernet \<le> q \<and> q \<le> 30 \<longrightarrow> 2 ^ nat (32 - q) - 2 < r)"
  proof (cases "32 - int b < int supernet")
    case True
    then show ?thesis unfolding h using longer by auto
  next
    case False
    then show ?thesis unfolding h using longer b small by auto
  qed
  with r bounds exact show ?thesis unfolding need_def by blast
qed

lemma sample_host_prefix: "host_prefix 20 25 16 = Inr 27"
  by (simp add: host_prefix_def required_hosts_def fl_def fl_shift_def frac_add_def frac_mul_def frac_ceil_def
      to_double_def round_half_even_def bit_len.simps host_bits.simps Let_def raise_if_def
      cong: ebind_weak_cong let_weak_cong)

theorem endpoint_prefix_fits_witness:
  "host_prefix 20 25 16 = Inr 27 \<and> required_hosts 20 25 = Inr 25 \<and> 25 \<le> (2 :: nat) ^ nat (32 - 27) - 2
     \<and> (2 :: nat) ^ nat (32 - 28) - 2 < 25"
proof -
  from endpoint_prefix_fits [of 20 25 16] sample_host_prefix obtain r where r: "required_hosts 20 25 = Inr r" "r = 25"
    "r \<le> 2 ^ nat (32 - 27) - 2" "\<forall>q. 27 < q \<and> q \<le> 30 \<longrightarrow> 2 ^ nat (32 - q) - 2 < r" by auto
  from r(4) [rule_format, of 28] r show ?thesis using sample_host_prefix by simp
qed

text \<open>
  The rounding can cost a whole bit. Seventy-five users with 68 percent headroom are 126 hosts,
  which a /25 holds; the product in double precision is a little more than 126, so the code asks
  for 127 hosts and takes a /24.
\<close>

lemma rounding_doubles_a_pool:
  assumes "supernet \<le> 24"
  shows "host_prefix 75 68 supernet = Inr 24 \<and> 75 * (100 + 68) = (100 :: nat) * (2 ^ (32 - 25) - 2)"
  using assms
  by (simp add: host_prefix_def required_hosts_def fl_def fl_shift_def frac_add_def frac_mul_def frac_ceil_def
      to_double_def round_half_even_def bit_len.simps host_bits.simps Let_def raise_if_def
      cong: ebind_weak_cong let_weak_cong)

end
