(* ===== verification/DesignSystem.thy ===== *)
theory DesignSystem
  imports StoreSystem AllocInv
begin

text \<open>
  Store and allocator together: the state store whose \<open>reserve_design\<close> calls
  \<open>derive_fabric_intent\<close>. What the allocator promises about one derivation becomes an invariant
  of every store, because only \<open>reserve_design\<close> adds resource rows and no transaction
  reactivates one.
\<close>

section \<open>Resource rows that do not collide\<close>

definition nets_apart :: "network_row \<Rightarrow> network_row \<Rightarrow> bool" where
  "nets_apart x y \<longleftrightarrow>
     is_active (nw_state x) \<and> is_active (nw_state y) \<and> nw_domain x = nw_domain y \<and> nw_pool x = nw_pool y \<longrightarrow>
     (\<exists>m n. network (nw_prefix x) = Inr m \<and> network (nw_prefix y) = Inr n \<and> addrs m \<inter> addrs n = {})"

definition scalars_apart :: "scalar_row \<Rightarrow> scalar_row \<Rightarrow> bool" where
  "scalars_apart x y \<longleftrightarrow>
     (is_active (sc_state x) \<and> is_active (sc_state y) \<and> sc_domain x = sc_domain y \<and> sc_type x = sc_type y \<longrightarrow>
      sc_value x \<noteq> sc_value y)"

definition resources_apart :: "store \<Rightarrow> bool" where
  "resources_apart s \<longleftrightarrow> sorted_wrt nets_apart (networks s) \<and> sorted_wrt scalars_apart (scalars s)"

text \<open>A transaction that leaves both resource tables alone.\<close>

definition same_resources :: "store \<Rightarrow> store \<Rightarrow> bool" where
  "same_resources s t \<longleftrightarrow> networks t = networks s \<and> scalars t = scalars s"

lemma same_resources_refl [simp]: "same_resources s s"
  by (simp add: same_resources_def)

lemma same_resources_trans: "same_resources s t \<Longrightarrow> same_resources t u \<Longrightarrow> same_resources s u"
  by (simp add: same_resources_def)

lemma same_resources_audit: "append_audit rt k ag ai ev actor payload s = Inr t \<Longrightarrow> same_resources s t"
  by (erule append_auditE) (simp add: same_resources_def)

lemma same_resources_apart: "same_resources s t \<Longrightarrow> resources_apart s \<Longrightarrow> resources_apart t"
  by (simp add: same_resources_def resources_apart_def)

lemmas same_insert = insert_intent_def insert_plan_def insert_approval_def insert_run_def insert_lock_def
  insert_owned_def insert_evidence_def
  intents_tbl.insert_Inr plans_tbl.insert_Inr approvals_tbl.insert_Inr runs_tbl.insert_Inr locks_tbl.insert_Inr
  owned_tbl.insert_Inr evidence_tbl.insert_Inr

lemmas same_ops = same_insert same_resources_def Let_def res table_update_def end_run_def set_run_status_def release_lock_def

lemma same_save_intent: "save_intent rt intent actor s = Inr (x, t) \<Longrightarrow> same_resources s t"
  by (auto simp: save_intent_def same_ops split: option.splits if_splits elim!: append_auditE)

lemma same_rebind_plan: "rebind_plan rt p ph ah rsv actor s = Inr (x, t) \<Longrightarrow> same_resources s t"
  by (auto simp: rebind_plan_def same_ops split: if_splits elim!: append_auditE)

lemma same_store_new_plan: "store_new_plan rt i plan pid actor ah ver rsv s = Inr (x, t) \<Longrightarrow> same_resources s t"
  by (auto simp: store_new_plan_def same_ops split: if_splits elim!: append_auditE)

lemma same_save_plan: "save_plan rt iid plan actor ah ver rsv s = Inr (x, t) \<Longrightarrow> same_resources s t"
  unfolding save_plan_def reuse_plan_def
  by (auto simp: res split: option.splits dest: same_rebind_plan same_store_new_plan)

lemma same_record_approval: "record_approval rt pid dec approver ref expires s = Inr (x, t) \<Longrightarrow> same_resources s t"
  by (auto simp: record_approval_def same_ops split: if_splits elim!: append_auditE)

lemma same_queue_run: "queue_run rt p a m kh by' w ttl s = Inr (row, t) \<Longrightarrow> same_resources s t"
  by (auto simp: queue_run_def acquire_lock_def same_ops split: if_splits elim!: append_auditE)

lemma same_create_run:
  assumes "create_run rt pid mode key by' enabled ms me ttl s = Inr (x, t)"
  shows "same_resources s t"
proof (cases x)
  case (Pair row created)
  from assms [unfolded Pair] show ?thesis by (rule create_run_cases) (auto dest: same_queue_run)
qed

lemma same_end_run: "same_resources s (end_run u rid st s)"
  by (simp add: same_ops)

lemma same_transition_run: "transition_run rt rid st actor detail s = Inr (x, t) \<Longrightarrow> same_resources s t"
  by (erule transition_runE) (simp add: same_resources_def same_end_run [unfolded same_resources_def])

lemma same_complete_apply: "complete_apply rt rid ah m actor detail s = Inr (x, t) \<Longrightarrow> same_resources s t"
proof (erule complete_applyE)
  fix w u u' p1 p2 r
  assume u: "u = end_run (now rt 0) rid ApplySucceeded (s\<lparr>owned := owned s @ [w]\<rparr>)"
    and "append_audit rt 0 ''run'' rid ''run.status_changed'' actor p1 u = Inr u'"
    and "append_audit rt 1 ''fabric'' (rn_fabric r) ''owned_state.committed'' actor p2 u' = Inr t"
  then have "same_resources u u'" "same_resources u' t" by (auto dest: same_resources_audit)
  moreover have "same_resources s u"
    using same_end_run [of "s\<lparr>owned := owned s @ [w]\<rparr>" "now rt 0" rid ApplySucceeded] by (simp add: u same_resources_def)
  ultimately show "same_resources s t" by (blast intro: same_resources_trans)
qed

lemma same_record_adopted: "record_adopted_owned_state rt fab m eh cr by' ap s = (r, t) \<Longrightarrow> same_resources s t"
  by (auto simp: record_adopted_owned_state_def adopt_manifest_def same_ops split: sum.splits option.splits if_splits
      elim!: append_auditE)

lemma same_add_evidence: "add_evidence rt rid ph ty payload actor dev s = Inr (x, t) \<Longrightarrow> same_resources s t"
  by (auto simp: add_evidence_def same_ops split: option.splits if_splits elim!: append_auditE)

section \<open>The reservation state\<close>

text \<open>A released row stays released, so no two rows become active together.\<close>

lemma set_reservation_state_apart:
  assumes ap: "resources_apart s" and inv: "networks_inv s" "scalars_inv s" "ids_inv s"
    and r: "r \<in> set (reservations s)" "reservation_allowed (rs_state r) st"
  shows "resources_apart (set_reservation_state u (rs_id r) st s)"
proof -
  have rs: "y = r" if "y \<in> set (reservations s)" "rs_id y = rs_id r" for y
    using that r(1) inv(3) by (auto simp: ids_inv_def dest: distinct_map_eqD)
  have act: "rs_state r \<noteq> Released" using r(2) by (cases "rs_state r") auto
  have n: "nw_state x \<noteq> Released" if x: "x \<in> set (networks s)" "nw_reservation x = rs_id r" for x
  proof -
    from inv(1) x(1) obtain y where "y \<in> set (reservations s)" "rs_id y = nw_reservation x" "rs_state y = nw_state x"
      by (auto simp: networks_inv_def)
    then show ?thesis using rs x(2) act by metis
  qed
  have v: "sc_state x \<noteq> Released" if x: "x \<in> set (scalars s)" "sc_reservation x = rs_id r" for x
  proof -
    from inv(2) x(1) obtain y where "y \<in> set (reservations s)" "rs_id y = sc_reservation x" "rs_state y = sc_state x"
      by (auto simp: scalars_inv_def)
    then show ?thesis using rs x(2) act by metis
  qed
  let ?n = "\<lambda>x. if nw_reservation x = rs_id r then x\<lparr>nw_state := st, nw_updated_at := u\<rparr> else x"
  let ?v = "\<lambda>x. if sc_reservation x = rs_id r then x\<lparr>sc_state := st, sc_updated_at := u\<rparr> else x"
  have "sorted_wrt (\<lambda>x y. nets_apart (?n x) (?n y)) (networks s)"
    using ap unfolding resources_apart_def
    by (elim conjE sorted_wrt_mono_rel [rotated]) (auto simp: nets_apart_def n)
  moreover have "sorted_wrt (\<lambda>x y. scalars_apart (?v x) (?v y)) (scalars s)"
    using ap unfolding resources_apart_def
    by (elim conjE sorted_wrt_mono_rel [rotated]) (auto simp: scalars_apart_def v)
  ultimately show ?thesis by (simp add: resources_apart_def sorted_wrt_map)
qed

lemma transition_reservation_apart:
  assumes "transition_design_reservation rt rid st actor verified s = Inr (x, t)"
    and "resources_apart s" and "store_inv s"
  shows "resources_apart t"
proof -
  from assms(1) obtain r st' payload where r: "table_get reservations rs_id rid s = Some r" "reservation_allowed (rs_state r) st'"
    and a: "append_audit rt 0 ''reservation'' rid (''reservation.'' @ st) actor payload
      (set_reservation_state (now rt 0) rid st' s) = Inr t"
    by (auto simp: transition_design_reservation_def Let_def res)
  from reservations_tbl.get_Some [OF r(1)] have r': "r \<in> set (reservations s)" "rs_id r = rid" by auto
  have "resources_apart (set_reservation_state (now rt 0) rid st' s)"
    using set_reservation_state_apart [OF assms(2) _ _ _ r'(1) r(2)] assms(3) r'(2) by (simp add: store_inv_def)
  with same_resources_apart [OF same_resources_audit [OF a]] show ?thesis .
qed

section \<open>A new reservation\<close>

lemma reserve_design_apart:
  assumes "reserve_design (derive_fabric_intent v) rt req pol key actor s = Inr (x, t)"
    and ap: "resources_apart s"
  shows "resources_apart t"
proof (cases "t = s")
  case False
  with assms(1) obtain d kh view where
    d: "derive_fabric_intent v req pol (network_ledger s) (scalar_ledger s) = Inr d"
    and p: "persist_reservation rt kh d actor s = Inr (view, t)"
    by (auto simp: reserve_design_def Let_def res split: option.splits if_splits prod.splits)
  obtain r ns vs a where
    nd: "\<forall>n \<in> set ns. nw_reservation n = rs_id r \<and> nw_domain n = rs_domain r \<and> nw_state n = Reserved"
    and vd: "\<forall>v \<in> set vs. sc_reservation v = rs_id r \<and> sc_domain v = rs_domain r \<and> sc_state v = Reserved"
    and n: "map (\<lambda>n. (nw_pool n, nw_prefix n)) ns = dv_network d"
    and s: "map (\<lambda>v. (sc_type v, sc_value v)) vs = dv_scalar d"
    and t': "t = s\<lparr>reservations := reservations s @ [r], networks := networks s @ ns, scalars := scalars s @ vs,
           audit := audit s @ [a]\<rparr>"
    and dom: "rs_domain r = dv_domain d"
    using p by (rule persist_reservationE) blast
  have t: "networks t = networks s @ ns" "scalars t = scalars s @ vs" by (simp_all add: t')
  note da = derive_networks_apart [OF d] and sa = derive_scalars_apart [OF d]
  have "sorted_wrt nets_apart ns"
    using da(1) nd unfolding n [symmetric] sorted_wrt_map
    by (auto simp: nets_apart_def intro: sorted_wrt_mono_rel [rotated])
  moreover have "nets_apart y z" if y: "y \<in> set (networks s)" and z: "z \<in> set ns" for y z
  proof (unfold nets_apart_def, intro impI, elim conjE)
    assume *: "is_active (nw_state y)" "nw_domain y = nw_domain z" "nw_pool y = nw_pool z"
    have "(nw_pool z, nw_prefix z) \<in> set (dv_network d)" unfolding n [symmetric] using z by auto
    moreover have "\<lparr>ne_domain = nw_domain y, ne_pool = nw_pool y, ne_prefix = nw_prefix y, ne_state = nw_state y\<rparr>
        \<in> set (network_ledger s)"
      using y *(1) by (auto simp: network_ledger_def)
    ultimately show "\<exists>m n. network (nw_prefix y) = Inr m \<and> network (nw_prefix z) = Inr n \<and> addrs m \<inter> addrs n = {}"
      using da(2) nd z * dom by fastforce
  qed
  moreover have "sorted_wrt scalars_apart vs"
    using sa(1) unfolding s [symmetric] distinct_conv_nth sorted_wrt_iff_nth_less
    by (fastforce simp: scalars_apart_def dest: order.strict_trans)
  moreover have "scalars_apart y z" if y: "y \<in> set (scalars s)" and z: "z \<in> set vs" for y z
  proof (unfold scalars_apart_def, intro impI, elim conjE)
    assume *: "is_active (sc_state y)" "sc_domain y = sc_domain z" "sc_type y = sc_type z"
    have "(sc_type z, sc_value z) \<in> set (dv_scalar d)" unfolding s [symmetric] using z by auto
    moreover have "\<lparr>se_domain = sc_domain y, se_type = sc_type y, se_value = sc_value y, se_state = sc_state y\<rparr>
        \<in> set (scalar_ledger s)"
      using y *(1) by (auto simp: scalar_ledger_def)
    ultimately show "sc_value y \<noteq> sc_value z" using sa(2) vd z * dom by fastforce
  qed
  ultimately show ?thesis using ap by (simp add: resources_apart_def t sorted_wrt_append)
qed (simp add: ap)

section \<open>The invariant\<close>

lemma resources_apart_step:
  "store_step (derive_fabric_intent v) s t \<Longrightarrow> store_inv s \<Longrightarrow> resources_apart s \<Longrightarrow> resources_apart t"
  by (induction rule: store_step.induct)
    (blast intro: reserve_design_apart transition_reservation_apart same_resources_apart
      dest: same_save_intent same_save_plan same_record_approval same_create_run same_transition_run
        same_complete_apply same_record_adopted same_add_evidence)+

lemma resources_apart_steps:
  "(store_step (derive_fabric_intent v))\<^sup>*\<^sup>* s t \<Longrightarrow> store_inv s \<Longrightarrow> resources_apart s \<Longrightarrow> resources_apart t"
proof (induction rule: rtranclp_induct)
  case (step t u)
  then have "store_inv t" using store_inv_steps by blast
  with step show ?case using resources_apart_step by blast
qed simp

end
