(* ===== verification/DesignProps.thy ===== *)
theory DesignProps
  imports DesignSystem AllocSample
begin

text \<open>
  The properties of store and allocator together, with a store on which a design is reserved.
\<close>

section \<open>Released entries do not matter\<close>

lemma active_networks_active: "active_networks (filter (\<lambda>e. is_active (ne_state e)) nl) d k = active_networks nl d k"
  unfolding active_networks_def filter_filter
  by (intro arg_cong [where f = "mapE _"] filter_cong refl) auto

lemma active_scalars_active: "active_scalars (filter (\<lambda>e. is_active (se_state e)) sl) d k = active_scalars sl d k"
  unfolding active_scalars_def filter_filter
  by (intro arg_cong [where f = "map _"] filter_cong refl) auto

lemma derive_active:
  "derive_fabric_intent v req pol (filter (\<lambda>e. is_active (ne_state e)) nl) (filter (\<lambda>e. is_active (se_state e)) sl)
     = derive_fabric_intent v req pol nl sl"
  unfolding derive_fabric_intent_def derive_allocation_def initial_alloc_def initial_networks_def initial_scalars_def
    active_networks_active active_scalars_active ..

lemma derive_allocation_fabric:
  "derive_allocation v req pol nl sl = Inr (cx, ds, a) \<Longrightarrow> jidx req ''fabric'' = Inr (cx_fabric cx)"
  unfolding derive_allocation_def check_requirements_def Let_def
  by (elim ebind_InrE) (auto elim!: ebind_InrE raise_if_InrE split: sum.splits prod.splits)

section \<open>A store with a committed and a quarantined resource\<close>

definition prior_reservation :: "nat \<Rightarrow> res_state \<Rightarrow> reservation_row" where
  "prior_reservation i st =
     \<lparr>rs_id = ''prior_'' @ nat_str i, rs_key_hash = nat_str i, rs_requirements_hash = [], rs_policy_hash = [],
      rs_reservation_hash = nat_str i, rs_domain = ''d'', rs_fabric = ''g'', rs_state = st, rs_intent = JNull,
      rs_created_at = 10, rs_updated_at = 10, rs_created_by = ''ann''\<rparr>"

definition prior_network :: "nat \<Rightarrow> string \<Rightarrow> res_state \<Rightarrow> network_row" where
  "prior_network i pfx st =
     \<lparr>nw_id = CHR ''p'' # nat_str i, nw_reservation = ''prior_'' @ nat_str i, nw_domain = ''d'', nw_pool = ''loopbacks'',
      nw_fabric = ''g'', nw_prefix = pfx, nw_state = st, nw_created_at = 10, nw_updated_at = 10\<rparr>"

definition prior_scalar :: scalar_row where
  "prior_scalar =
     \<lparr>sc_id = ''v'', sc_reservation = ''prior_'' @ nat_str 3, sc_domain = ''d'', sc_type = ''vlan_id'', sc_fabric = ''g'',
      sc_value = ''100'', sc_state = Quarantined, sc_created_at = 10, sc_updated_at = 10\<rparr>"

definition prior_store :: store where
  "prior_store = empty_store\<lparr>
     reservations := [prior_reservation 1 Committed, prior_reservation 2 Released, prior_reservation 3 Quarantined],
     networks := [prior_network 1 ''10.3.0.1/32'' Committed, prior_network 2 ''10.3.0.2/32'' Released],
     scalars := [prior_scalar]\<rparr>"

definition design_runtime :: runtime where
  "design_runtime = \<lparr>now = (\<lambda>_. 1000), uuid = (\<lambda>k. CHR ''u'' # nat_str k), fromisoformat = (\<lambda>_. None)\<rparr>"

lemmas prior_defs = prior_store_def prior_reservation_def prior_network_def prior_scalar_def empty_store_def

lemma prior_inv: "store_inv prior_store"
  by (simp add: store_inv_def ids_inv_def intents_inv_def plans_inv_def approvals_inv_def runs_inv_def locks_inv_def
      networks_inv_def scalars_inv_def active_keys_inv_def owned_inv_def evidence_inv_def verify_audit_chain_def prior_defs)

lemma prior_apart: "resources_apart prior_store"
  by (simp add: resources_apart_def nets_apart_def prior_defs)

lemma prior_derivation:
  "\<exists>d. derive_fabric_intent (\<lambda>_. Inr ()) sample_requirements sample_policy (network_ledger prior_store)
         (scalar_ledger prior_store) = Inr d
     \<and> dv_domain d = ''d'' \<and> length (dv_reservation_hash d) = 64
     \<and> dv_network d = [(''loopbacks'', ''10.3.0.2/32''), (''loopbacks'', ''10.3.0.3/32''),
         (''underlay_p2p'', ''10.2.0.0/31''), (''overlay_hosts'', ''10.4.0.0/24'')]
     \<and> dv_scalar d = [(''l3_instance_id'', ''51''), (''vlan_id'', ''101''), (''l2_instance_id'', ''8101'')]"
proof -
  have n: "network_ledger prior_store = filter (\<lambda>e. is_active (ne_state e)) sample_net_ledger"
    by (simp add: network_ledger_def sample_net_ledger_def prior_defs)
  have v: "scalar_ledger prior_store = filter (\<lambda>e. is_active (se_state e)) sample_scalar_ledger"
    by (simp add: scalar_ledger_def sample_scalar_ledger_def prior_defs)
  obtain cx ds a where r: "derive_allocation (\<lambda>_. Inr ()) sample_requirements sample_policy sample_net_ledger
        sample_scalar_ledger = Inr (cx, ds, a)" "cx_domain cx = ''d''"
      "net_reservations a = [(''loopbacks'', ''10.3.0.2/32''), (''loopbacks'', ''10.3.0.3/32''),
         (''underlay_p2p'', ''10.2.0.0/31''), (''overlay_hosts'', ''10.4.0.0/24'')]"
      "scalar_reservations a = [(''l3_instance_id'', ''51''), (''vlan_id'', ''101''), (''l2_instance_id'', ''8101'')]"
    using sample_run by blast
  have f: "cx_fabric cx = sample_fabric"
    using derive_allocation_fabric [OF r(1)] by (simp add: sample_requirements_def)
  have "str_at sample_fabric ''id'' = Inr ''f''" by (simp add: sample_fabric_def str_at_def)
  with r f show ?thesis unfolding n v derive_active by (simp add: derive_fabric_intent_def sha256_json_def)
qed

section \<open>Resources never collide\<close>

text \<open>
  C20: in every store that any interleaving of transactions reaches, from the empty store or
  from one without collisions, two active network rows of one allocation domain and pool have
  no address in common, and two active scalar rows of one domain and kind have different values.
\<close>

theorem active_resources_never_collide:
  assumes "(store_step (derive_fabric_intent validate))\<^sup>*\<^sup>* s t" and "store_inv s" and "resources_apart s"
  shows "(\<forall>i < length (networks t). \<forall>j < length (networks t). i \<noteq> j
        \<and> is_active (nw_state (networks t ! i)) \<and> is_active (nw_state (networks t ! j))
        \<and> nw_domain (networks t ! i) = nw_domain (networks t ! j) \<and> nw_pool (networks t ! i) = nw_pool (networks t ! j) \<longrightarrow>
        (\<exists>m n. network (nw_prefix (networks t ! i)) = Inr m \<and> network (nw_prefix (networks t ! j)) = Inr n
          \<and> addrs m \<inter> addrs n = {}))
     \<and> (\<forall>i < length (scalars t). \<forall>j < length (scalars t). i \<noteq> j
        \<and> is_active (sc_state (scalars t ! i)) \<and> is_active (sc_state (scalars t ! j))
        \<and> sc_domain (scalars t ! i) = sc_domain (scalars t ! j) \<and> sc_type (scalars t ! i) = sc_type (scalars t ! j) \<longrightarrow>
        sc_value (scalars t ! i) \<noteq> sc_value (scalars t ! j))"
proof -
  have n: "nets_apart x y \<Longrightarrow> nets_apart y x" for x y by (fastforce simp: nets_apart_def)
  have v: "scalars_apart x y \<Longrightarrow> scalars_apart y x" for x y by (auto simp: scalars_apart_def)
  from resources_apart_steps [OF assms] have a: "sorted_wrt nets_apart (networks t)" "sorted_wrt scalars_apart (scalars t)"
    by (simp_all add: resources_apart_def)
  have "nets_apart (networks t ! i) (networks t ! j)" if "i < length (networks t)" "j < length (networks t)" "i \<noteq> j" for i j
    using a(1) that n by (cases i j rule: linorder_cases) (auto simp: sorted_wrt_iff_nth_less)
  moreover have "scalars_apart (scalars t ! i) (scalars t ! j)"
    if "i < length (scalars t)" "j < length (scalars t)" "i \<noteq> j" for i j
    using a(2) that v by (cases i j rule: linorder_cases) (auto simp: sorted_wrt_iff_nth_less)
  ultimately show ?thesis unfolding nets_apart_def scalars_apart_def by blast
qed

lemma prior_persist:
  assumes "length kh = 64" and "length (dv_reservation_hash d) = 64" and "dv_domain d = ''d''"
    and "dv_network d = [(''loopbacks'', ''10.3.0.2/32''), (''loopbacks'', ''10.3.0.3/32''),
         (''underlay_p2p'', ''10.2.0.0/31''), (''overlay_hosts'', ''10.4.0.0/24'')]"
    and "dv_scalar d = [(''l3_instance_id'', ''51''), (''vlan_id'', ''101''), (''l2_instance_id'', ''8101'')]"
  shows "\<exists>x t. persist_reservation design_runtime kh d ''ann'' prior_store = Inr (x, t)
     \<and> networks t ! 0 = prior_network 1 ''10.3.0.1/32'' Committed
     \<and> length (networks t) = 6 \<and> nw_prefix (networks t ! 3) = ''10.3.0.3/32'' \<and> nw_state (networks t ! 3) = Reserved
     \<and> nw_domain (networks t ! 3) = ''d'' \<and> nw_pool (networks t ! 3) = ''loopbacks''"
proof -
  have "kh \<noteq> nat_str i" "dv_reservation_hash d \<noteq> nat_str i" if "i < 1000" for i
    using assms(1,2) nat_str_length [OF that] by auto
  then have "kh \<noteq> nat_str 1" "kh \<noteq> nat_str 3" "dv_reservation_hash d \<noteq> nat_str 1" "dv_reservation_hash d \<noteq> nat_str 3"
    by simp_all
  then show ?thesis
    by (simp add: persist_reservation_def assms(3-5) insert_reservation_def insert_network_def insert_scalar_def
      table_insert_def table_get_def reservations_clash_def networks_clash_def scalars_clash_def append_audit_def Let_def
      prior_defs design_runtime_def)
qed

lemma prior_reserve:
  "\<exists>x t. reserve_design (derive_fabric_intent (\<lambda>_. Inr ())) design_runtime sample_requirements sample_policy
       ''design-key-1'' ''ann'' prior_store = Inr (x, t)
     \<and> networks t ! 0 = prior_network 1 ''10.3.0.1/32'' Committed
     \<and> length (networks t) = 6 \<and> nw_prefix (networks t ! 3) = ''10.3.0.3/32'' \<and> nw_state (networks t ! 3) = Reserved
     \<and> nw_domain (networks t ! 3) = ''d'' \<and> nw_pool (networks t ! 3) = ''loopbacks''"
proof -
  obtain d where d: "derive_fabric_intent (\<lambda>_. Inr ()) sample_requirements sample_policy (network_ledger prior_store)
         (scalar_ledger prior_store) = Inr d" and dv: "length (dv_reservation_hash d) = 64" "dv_domain d = ''d''"
     "dv_network d = [(''loopbacks'', ''10.3.0.2/32''), (''loopbacks'', ''10.3.0.3/32''),
         (''underlay_p2p'', ''10.2.0.0/31''), (''overlay_hosts'', ''10.4.0.0/24'')]"
     "dv_scalar d = [(''l3_instance_id'', ''51''), (''vlan_id'', ''101''), (''l2_instance_id'', ''8101'')]"
    using prior_derivation by blast
  let ?k = "sha256_hex (strip ''design-key-1'')"
  have "?k \<noteq> nat_str 1" "?k \<noteq> nat_str 3"
    using length_sha256_hex [of "strip ''design-key-1''"] nat_str_length [of 1] nat_str_length [of 3]
    by (auto simp del: length_sha256_hex)
  then have n: "active_reservation_for ?k prior_store = None"
    by (simp add: active_reservation_for_def prior_defs)
  have "length (strip ''design-key-1'') = 12" by (simp add: strip_def lstrip_def is_space_def)
  moreover obtain x t where "persist_reservation design_runtime ?k d ''ann'' prior_store = Inr (x, t)"
     and t: "networks t ! 0 = prior_network 1 ''10.3.0.1/32'' Committed"
     "length (networks t) = 6" "nw_prefix (networks t ! 3) = ''10.3.0.3/32''" "nw_state (networks t ! 3) = Reserved"
     "nw_domain (networks t ! 3) = ''d''" "nw_pool (networks t ! 3) = ''loopbacks''"
    using prior_persist [OF length_sha256_hex dv] by blast
  ultimately have "reserve_design (derive_fabric_intent (\<lambda>_. Inr ())) design_runtime sample_requirements sample_policy
       ''design-key-1'' ''ann'' prior_store = Inr ((x, True), t)"
    unfolding reserve_design_def Let_def n by (simp add: d raise_if_def)
  with t show ?thesis by blast
qed

theorem active_resources_never_collide_witness:
  "\<exists>t m n. (store_step (derive_fabric_intent (\<lambda>_. Inr ())))\<^sup>*\<^sup>* prior_store t
     \<and> length (networks t) = 6
     \<and> network (nw_prefix (networks t ! 0)) = Inr m \<and> network (nw_prefix (networks t ! 3)) = Inr n
     \<and> addrs m \<inter> addrs n = {}"
proof -
  obtain x t where r: "reserve_design (derive_fabric_intent (\<lambda>_. Inr ())) design_runtime sample_requirements sample_policy
       ''design-key-1'' ''ann'' prior_store = Inr (x, t)"
     and t: "networks t ! 0 = prior_network 1 ''10.3.0.1/32'' Committed"
     "length (networks t) = 6" "nw_prefix (networks t ! 3) = ''10.3.0.3/32''" "nw_state (networks t ! 3) = Reserved"
     "nw_domain (networks t ! 3) = ''d''" "nw_pool (networks t ! 3) = ''loopbacks''"
    using prior_reserve by blast
  have st: "(store_step (derive_fabric_intent (\<lambda>_. Inr ())))\<^sup>*\<^sup>* prior_store t"
    using store_step.st_reserve [OF r] by blast
  note c = active_resources_never_collide [OF st prior_inv prior_apart]
  have "\<exists>m n. network (nw_prefix (networks t ! 0)) = Inr m \<and> network (nw_prefix (networks t ! 3)) = Inr n
          \<and> addrs m \<inter> addrs n = {}"
    using c [THEN conjunct1, rule_format, of 0 3] t by (simp add: prior_network_def)
  with st t(2) show ?thesis by blast
qed

end
