(* ===== verification/Regex.thy ===== *)
theory Regex
  imports PyStr
begin

text \<open>
  Python's \<open>re\<close>, as far as the parsers use it: a backtracking matcher that takes the first match
  in priority order. A state is the text before the position (last character first), the text
  after it, and the groups captured so far (last one first). The matcher is in
  continuation-passing style; \<open>derives\<close> is what it implements, the relation between the states
  before and after a match.
\<close>

section \<open>Expressions\<close>

datatype re =
    REps
  | RSet "char \<Rightarrow> bool"
  | RSeq re re
  | RAlt re re
  | RRep bool nat "nat option" re
  | RGroup nat re
  | RBol bool
  | REol bool
  | REnd
  | RWord
  | RAhead bool re

type_synonym rstate = "string \<times> string \<times> (nat \<times> string) list"

definition ahead :: "rstate \<Rightarrow> string" where
  "ahead s = fst (snd s)"

text \<open>\<open>\w\<close> for code points below 256, and the word boundary \<open>\b\<close>.\<close>

definition is_word :: "char \<Rightarrow> bool" where
  "is_word c \<longleftrightarrow> is_alnum c \<or> c = CHR ''_'' \<or>
     (let n = ordc c in n \<in> {170, 178, 179, 181, 185, 186, 188, 189, 190} \<or> 192 \<le> n \<and> n \<noteq> 215 \<and> n \<noteq> 247)"

definition at_word :: "string \<Rightarrow> bool" where
  "at_word s \<longleftrightarrow> s \<noteq> [] \<and> is_word (hd s)"

text \<open>\<open>^\<close> and \<open>$\<close>, in \<open>MULTILINE\<close> mode or not.\<close>

definition at_bol :: "bool \<Rightarrow> rstate \<Rightarrow> bool" where
  "at_bol multi s \<longleftrightarrow> fst s = [] \<or> multi \<and> hd (fst s) = newline"

definition at_eol :: "bool \<Rightarrow> rstate \<Rightarrow> bool" where
  "at_eol multi s \<longleftrightarrow> ahead s = [] \<or> ahead s = [newline] \<or> multi \<and> hd (ahead s) = newline"

section \<open>The matcher\<close>

definition orelse :: "'a option \<Rightarrow> 'a option \<Rightarrow> 'a option" where
  "orelse x y = (case x of None \<Rightarrow> y | Some v \<Rightarrow> Some v)"

text \<open>
  Repetition: \<open>lo\<close> iterations still required, at most \<open>hi\<close> allowed. An iteration has to consume
  something, so the length of the rest bounds their number; the first argument counts down from it.
\<close>

fun repeat_m ::
    "nat \<Rightarrow> ((rstate \<Rightarrow> rstate option) \<Rightarrow> rstate \<Rightarrow> rstate option) \<Rightarrow> bool \<Rightarrow> nat \<Rightarrow> nat option
       \<Rightarrow> (rstate \<Rightarrow> rstate option) \<Rightarrow> rstate \<Rightarrow> rstate option" where
  "repeat_m 0 m greedy lo hi k s = (if lo = 0 then k s else None)"
| "repeat_m (Suc n) m greedy lo hi k s =
     (let go = (\<lambda>t. if length (ahead t) < length (ahead s)
                    then repeat_m n m greedy (lo - 1) (map_option (\<lambda>h. h - 1) hi) k t else None) in
      if hi = Some 0 then (if lo = 0 then k s else None)
      else if 0 < lo then m go s
      else if greedy then orelse (m go s) (k s)
      else orelse (k s) (m go s))"

fun matches :: "re \<Rightarrow> (rstate \<Rightarrow> rstate option) \<Rightarrow> rstate \<Rightarrow> rstate option" where
  "matches REps k s = k s"
| "matches (RSet p) k s =
     (case s of (b, a, g) \<Rightarrow> (case a of [] \<Rightarrow> None | c # a' \<Rightarrow> (if p c then k (c # b, a', g) else None)))"
| "matches (RSeq r q) k s = matches r (matches q k) s"
| "matches (RAlt r q) k s = orelse (matches r k s) (matches q k s)"
| "matches (RRep greedy lo hi r) k s = repeat_m (Suc (length (ahead s))) (matches r) greedy lo hi k s"
| "matches (RGroup i r) k s =
     matches r (\<lambda>(b, a, g). k (b, a, (i, rev (take (length b - length (fst s)) b)) # g)) s"
| "matches (RBol multi) k s = (if at_bol multi s then k s else None)"
| "matches (REol multi) k s = (if at_eol multi s then k s else None)"
| "matches REnd k s = (if ahead s = [] then k s else None)"
| "matches RWord k s = (if at_word (fst s) \<noteq> at_word (ahead s) then k s else None)"
| "matches (RAhead pos r) k s = (if (matches r Some s \<noteq> None) = pos then k s else None)"

section \<open>What it implements\<close>

definition consumes :: "(rstate \<Rightarrow> rstate \<Rightarrow> bool) \<Rightarrow> rstate \<Rightarrow> rstate \<Rightarrow> bool" where
  "consumes R s t \<longleftrightarrow> R s t \<and> length (ahead t) < length (ahead s)"

definition within :: "nat \<Rightarrow> nat option \<Rightarrow> nat \<Rightarrow> bool" where
  "within lo hi n \<longleftrightarrow> lo \<le> n \<and> (case hi of None \<Rightarrow> True | Some h \<Rightarrow> n \<le> h)"

primrec derives :: "re \<Rightarrow> rstate \<Rightarrow> rstate \<Rightarrow> bool" where
  "derives REps s t \<longleftrightarrow> t = s"
| "derives (RSet p) s t \<longleftrightarrow> (\<exists>b c a g. s = (b, c # a, g) \<and> p c \<and> t = (c # b, a, g))"
| "derives (RSeq r q) s t \<longleftrightarrow> (\<exists>u. derives r s u \<and> derives q u t)"
| "derives (RAlt r q) s t \<longleftrightarrow> derives r s t \<or> derives q s t"
| "derives (RRep greedy lo hi r) s t \<longleftrightarrow> (\<exists>n. within lo hi n \<and> (consumes (derives r) ^^ n) s t)"
| "derives (RGroup i r) s t \<longleftrightarrow>
     (\<exists>b a g. derives r s (b, a, g) \<and> t = (b, a, (i, rev (take (length b - length (fst s)) b)) # g))"
| "derives (RBol multi) s t \<longleftrightarrow> t = s \<and> at_bol multi s"
| "derives (REol multi) s t \<longleftrightarrow> t = s \<and> at_eol multi s"
| "derives REnd s t \<longleftrightarrow> t = s \<and> ahead s = []"
| "derives RWord s t \<longleftrightarrow> t = s \<and> at_word (fst s) \<noteq> at_word (ahead s)"
| "derives (RAhead pos r) s t \<longleftrightarrow> t = s \<and> (\<exists>u. derives r s u) = pos"

lemma orelse_Some: "orelse x y = Some v \<Longrightarrow> x = Some v \<or> y = Some v"
  by (auto simp: orelse_def split: option.splits)

lemma orelse_None [simp]: "orelse x y = None \<longleftrightarrow> x = None \<and> y = None"
  by (auto simp: orelse_def split: option.splits)

definition sound_for :: "((rstate \<Rightarrow> rstate option) \<Rightarrow> rstate \<Rightarrow> rstate option) \<Rightarrow> (rstate \<Rightarrow> rstate \<Rightarrow> bool) \<Rightarrow> bool" where
  "sound_for m R \<longleftrightarrow> (\<forall>k s v. m k s = Some v \<longrightarrow> (\<exists>t. R s t \<and> k t = Some v))"

definition complete_for :: "((rstate \<Rightarrow> rstate option) \<Rightarrow> rstate \<Rightarrow> rstate option) \<Rightarrow> (rstate \<Rightarrow> rstate \<Rightarrow> bool) \<Rightarrow> bool" where
  "complete_for m R \<longleftrightarrow> (\<forall>k s t. R s t \<longrightarrow> k t \<noteq> None \<longrightarrow> m k s \<noteq> None)"

lemma soundD: "sound_for m R \<Longrightarrow> m k s = Some v \<Longrightarrow> \<exists>t. R s t \<and> k t = Some v"
  unfolding sound_for_def by blast

lemma completeD: "complete_for m R \<Longrightarrow> R s t \<Longrightarrow> k t \<noteq> None \<Longrightarrow> m k s \<noteq> None"
  unfolding complete_for_def by blast

lemma soundI: "(\<And>k s v. m k s = Some v \<Longrightarrow> \<exists>t. R s t \<and> k t = Some v) \<Longrightarrow> sound_for m R"
  unfolding sound_for_def by blast

lemma completeI: "(\<And>k s t. R s t \<Longrightarrow> k t \<noteq> None \<Longrightarrow> m k s \<noteq> None) \<Longrightarrow> complete_for m R"
  unfolding complete_for_def by blast

lemma within_less: "within (lo - 1) (map_option (\<lambda>h. h - 1) hi) n \<Longrightarrow> hi \<noteq> Some 0 \<Longrightarrow> within lo hi (Suc n)"
  by (auto simp: within_def split: option.splits)

lemma within_Suc: "within lo hi (Suc n) \<Longrightarrow> within (lo - 1) (map_option (\<lambda>h. h - 1) hi) n"
  by (auto simp: within_def split: option.splits)

lemma repeat_sound:
  "sound_for m R \<Longrightarrow> repeat_m n m greedy lo hi k s = Some v \<Longrightarrow>
     \<exists>j t. within lo hi j \<and> (consumes R ^^ j) s t \<and> k t = Some v"
proof (induction n arbitrary: lo hi s)
  case 0
  then have "lo = 0" "k s = Some v" by (auto split: if_splits)
  then show ?case by (intro exI [of _ 0] exI [of _ s]) (auto simp: within_def split: option.splits)
next
  case (Suc n)
  let ?go = "\<lambda>t. if length (ahead t) < length (ahead s)
                 then repeat_m n m greedy (lo - 1) (map_option (\<lambda>h. h - 1) hi) k t else None"
  have more: "\<exists>j t. within lo hi j \<and> (consumes R ^^ j) s t \<and> k t = Some v" if "m ?go s = Some v" "hi \<noteq> Some 0"
  proof -
    from that(1) Suc.prems(1) obtain t where t: "R s t" "?go t = Some v" unfolding sound_for_def by blast
    then have c: "consumes R s t" "repeat_m n m greedy (lo - 1) (map_option (\<lambda>h. h - 1) hi) k t = Some v"
      by (auto simp: consumes_def split: if_splits)
    from Suc.IH [OF Suc.prems(1) c(2)] obtain j u where
      j: "within (lo - 1) (map_option (\<lambda>h. h - 1) hi) j" "(consumes R ^^ j) t u" "k u = Some v" by blast
    then show ?thesis using c(1) within_less [OF j(1) that(2)] by (intro exI [of _ "Suc j"] exI [of _ u]) (metis relpowp_Suc_I2)
  qed
  have stop: "\<exists>j t. within lo hi j \<and> (consumes R ^^ j) s t \<and> k t = Some v" if "lo = 0" "k s = Some v"
    using that by (intro exI [of _ 0] exI [of _ s]) (auto simp: within_def split: option.splits)
  from Suc.prems(2) have "lo = 0 \<and> k s = Some v \<or> m ?go s = Some v \<and> hi \<noteq> Some 0"
    by (auto simp: Let_def split: if_splits dest!: orelse_Some)
  then show ?case using more stop by blast
qed

lemma repeat_complete:
  "complete_for m R \<Longrightarrow> (consumes R ^^ j) s t \<Longrightarrow> within lo hi j \<Longrightarrow> length (ahead s) < n \<Longrightarrow> k t \<noteq> None \<Longrightarrow>
     repeat_m n m greedy lo hi k s \<noteq> None"
proof (induction n arbitrary: lo hi s j)
  case (Suc n)
  let ?go = "\<lambda>t. if length (ahead t) < length (ahead s)
                 then repeat_m n m greedy (lo - 1) (map_option (\<lambda>h. h - 1) hi) k t else None"
  show ?case
  proof (cases j)
    case 0
    with Suc.prems have "lo = 0" "k s \<noteq> None" by (auto simp: within_def)
    then show ?thesis by (simp add: Let_def del: not_None_eq)
  next
    case (Suc i)
    then obtain u where u: "consumes R s u" "(consumes R ^^ i) u t" using Suc.prems(2) relpowp_Suc_D2 by metis
    have hi: "hi \<noteq> Some 0" using Suc.prems(3) Suc by (auto simp: within_def)
    have "length (ahead u) < n" using u(1) Suc.prems(4) by (simp add: consumes_def)
    with Suc.IH [OF Suc.prems(1) u(2) within_Suc] Suc.prems(3,5) Suc u(1) have "?go u \<noteq> None"
      by (simp add: consumes_def)
    then have "m ?go s \<noteq> None" by (rule completeD [OF Suc.prems(1), rotated]) (use u(1) in \<open>simp add: consumes_def\<close>)
    then show ?thesis using hi by (simp add: Let_def del: not_None_eq)
  qed
qed simp

lemma matches_sound: "sound_for (matches r) (derives r) \<and> complete_for (matches r) (derives r)"
proof (induction r)
  case (RSet p)
  show ?case by (auto simp: sound_for_def complete_for_def split: list.splits if_splits)
next
  case (RSeq r q)
  show ?case
  proof
    show "sound_for (matches (RSeq r q)) (derives (RSeq r q))"
    proof (rule soundI)
      fix k :: "rstate \<Rightarrow> rstate option" and s v assume "matches (RSeq r q) k s = Some v"
      then obtain u where u: "derives r s u" "matches q k u = Some v"
        using soundD [OF RSeq.IH(1) [THEN conjunct1], of "matches q k"] by (simp only: matches.simps) blast
      with soundD [OF RSeq.IH(2) [THEN conjunct1] u(2)] show "\<exists>t. derives (RSeq r q) s t \<and> k t = Some v"
        by (simp only: derives.simps) blast
    qed
    show "complete_for (matches (RSeq r q)) (derives (RSeq r q))"
    proof (rule completeI)
      fix k :: "rstate \<Rightarrow> rstate option" and s t assume "derives (RSeq r q) s t" "k t \<noteq> None"
      then obtain u where u: "derives r s u" "derives q u t" by (simp only: derives.simps) blast
      have "matches q k u \<noteq> None" by (rule completeD [OF RSeq.IH(2) [THEN conjunct2] u(2)]) fact
      then show "matches (RSeq r q) k s \<noteq> None"
        unfolding matches.simps by (rule completeD [OF RSeq.IH(1) [THEN conjunct2] u(1)])
    qed
  qed
next
  case (RAlt r q)
  show ?case
  proof
    show "sound_for (matches (RAlt r q)) (derives (RAlt r q))"
    proof (rule soundI)
      fix k :: "rstate \<Rightarrow> rstate option" and s v assume "matches (RAlt r q) k s = Some v"
      then have "orelse (matches r k s) (matches q k s) = Some v" by simp
      then have "matches r k s = Some v \<or> matches q k s = Some v" by (rule orelse_Some)
      then have "(\<exists>t. derives r s t \<and> k t = Some v) \<or> (\<exists>t. derives q s t \<and> k t = Some v)"
        by (elim disjE) (drule soundD [OF RAlt.IH(1) [THEN conjunct1]] soundD [OF RAlt.IH(2) [THEN conjunct1]], blast)+
      then show "\<exists>t. derives (RAlt r q) s t \<and> k t = Some v" unfolding derives.simps by blast
    qed
    show "complete_for (matches (RAlt r q)) (derives (RAlt r q))"
    proof (rule completeI)
      fix k :: "rstate \<Rightarrow> rstate option" and s t assume "derives (RAlt r q) s t" "k t \<noteq> None"
      then show "matches (RAlt r q) k s \<noteq> None"
        using completeD [OF RAlt.IH(1) [THEN conjunct2], of s t k] completeD [OF RAlt.IH(2) [THEN conjunct2], of s t k]
        unfolding matches.simps derives.simps orelse_None by blast
    qed
  qed
next
  case (RRep greedy lo hi r)
  show ?case
  proof
    show "sound_for (matches (RRep greedy lo hi r)) (derives (RRep greedy lo hi r))"
    proof (rule soundI)
      fix k :: "rstate \<Rightarrow> rstate option" and s v assume "matches (RRep greedy lo hi r) k s = Some v"
      then have "repeat_m (Suc (length (ahead s))) (matches r) greedy lo hi k s = Some v" by (simp only: matches.simps)
      from repeat_sound [OF RRep.IH [THEN conjunct1] this]
      show "\<exists>t. derives (RRep greedy lo hi r) s t \<and> k t = Some v" unfolding derives.simps by blast
    qed
    show "complete_for (matches (RRep greedy lo hi r)) (derives (RRep greedy lo hi r))"
    proof (rule completeI)
      fix k :: "rstate \<Rightarrow> rstate option" and s t assume "derives (RRep greedy lo hi r) s t" and k: "k t \<noteq> None"
      then obtain n where n: "within lo hi n" "(consumes (derives r) ^^ n) s t" unfolding derives.simps by blast
      have "repeat_m (Suc (length (ahead s))) (matches r) greedy lo hi k s \<noteq> None"
        by (rule repeat_complete [where k = k, OF RRep.IH [THEN conjunct2] n(2,1) _ k]) simp
      then show "matches (RRep greedy lo hi r) k s \<noteq> None" unfolding matches.simps .
    qed
  qed
next
  case (RGroup i r)
  show ?case
  proof
    show "sound_for (matches (RGroup i r)) (derives (RGroup i r))"
    proof (rule soundI)
      fix k :: "rstate \<Rightarrow> rstate option" and s v assume "matches (RGroup i r) k s = Some v"
      with soundD [OF RGroup.IH [THEN conjunct1]] obtain t where "derives r s t"
        "(case t of (b, a, g) \<Rightarrow> k (b, a, (i, rev (take (length b - length (fst s)) b)) # g)) = Some v"
        unfolding matches.simps by blast
      then show "\<exists>t. derives (RGroup i r) s t \<and> k t = Some v" by (cases t) auto
    qed
    show "complete_for (matches (RGroup i r)) (derives (RGroup i r))"
    proof (rule completeI)
      fix k :: "rstate \<Rightarrow> rstate option" and s t assume "derives (RGroup i r) s t" "k t \<noteq> None"
      then obtain b a g where d: "derives r s (b, a, g)"
        and "(case (b, a, g) of (b, a, g) \<Rightarrow> k (b, a, (i, rev (take (length b - length (fst s)) b)) # g)) \<noteq> None" by auto
      then show "matches (RGroup i r) k s \<noteq> None"
        unfolding matches.simps by (intro completeD [OF RGroup.IH [THEN conjunct2] d]) simp
    qed
  qed
next
  case (RAhead pos r)
  have "(matches r Some s \<noteq> None) = (\<exists>u. derives r s u)" for s
    using soundD [OF RAhead.IH [THEN conjunct1], of Some s] completeD [OF RAhead.IH [THEN conjunct2], of s _ Some] by blast
  then show ?case by (intro conjI soundI completeI) (simp_all split: if_splits)
qed (simp_all add: sound_for_def complete_for_def)

text \<open>So a match exists exactly when a derivation exists whose end the continuation accepts.\<close>

lemma matches_Some: "matches r k s = Some v \<Longrightarrow> \<exists>t. derives r s t \<and> k t = Some v"
  using matches_sound [of r] soundD by blast

lemma matches_iff: "matches r k s \<noteq> None \<longleftrightarrow> (\<exists>t. derives r s t \<and> k t \<noteq> None)"
  using matches_sound [of r] soundD [of "matches r" "derives r" k s] completeD [of "matches r" "derives r" s _ k] by blast

section \<open>The functions of the module\<close>

record re_match =
  rm_start :: nat
  rm_end :: rstate

definition rm_groups :: "re_match \<Rightarrow> (nat \<times> string) list" where
  "rm_groups m = snd (snd (rm_end m))"

text \<open>\<open>m.group(i)\<close> of a group that took part in the match.\<close>

definition grp :: "nat \<Rightarrow> re_match \<Rightarrow> string" where
  "grp i m = (case map_of (rm_groups m) i of None \<Rightarrow> [] | Some s \<Rightarrow> s)"

definition match_here :: "re \<Rightarrow> bool \<Rightarrow> string \<Rightarrow> string \<Rightarrow> re_match option" where
  "match_here r advance b a = map_option (\<lambda>t. \<lparr>rm_start = length b, rm_end = t\<rparr>)
     (matches r (\<lambda>t. if advance \<and> length (ahead t) = length a then None else Some t) (b, a, []))"

definition re_match :: "re \<Rightarrow> string \<Rightarrow> re_match option" where
  "re_match r s = match_here r False [] s"

definition re_fullmatch :: "re \<Rightarrow> string \<Rightarrow> re_match option" where
  "re_fullmatch r s = map_option (\<lambda>t. \<lparr>rm_start = 0, rm_end = t\<rparr>)
     (matches r (\<lambda>t. if ahead t = [] then Some t else None) ([], s, []))"

text \<open>The leftmost match; with \<open>advance\<close>, the first position has to be left.\<close>

fun search_from :: "re \<Rightarrow> bool \<Rightarrow> string \<Rightarrow> string \<Rightarrow> re_match option" where
  "search_from r advance b a =
     (case match_here r advance b a of
        Some m \<Rightarrow> Some m
      | None \<Rightarrow> (case a of [] \<Rightarrow> None | c # a' \<Rightarrow> search_from r False (c # b) a'))"

declare search_from.simps [simp del]

definition re_search :: "re \<Rightarrow> string \<Rightarrow> re_match option" where
  "re_search r s = search_from r False [] s"

text \<open>
  \<open>finditer\<close>: each search starts where the last match ended, and has to advance when that match
  was empty. The test before the next search always holds (\<open>search_from_progress\<close>).
\<close>

function find_from :: "re \<Rightarrow> bool \<Rightarrow> string \<Rightarrow> string \<Rightarrow> re_match list" where
  "find_from r advance b a =
     (case search_from r advance b a of
        None \<Rightarrow> []
      | Some m \<Rightarrow>
          (let t = rm_end m; empty = (rm_start m = length (fst t)) in
           m # (if length (ahead t) < length a \<or> length (ahead t) = length a \<and> empty \<and> \<not> advance
                then find_from r empty (fst t) (ahead t) else [])))"
  by pat_completeness auto
termination
  by (relation "measure (\<lambda>(r, advance, b, a). 2 * length a + (if advance then 0 else 1))") auto

declare find_from.simps [simp del]

definition re_finditer :: "re \<Rightarrow> string \<Rightarrow> re_match list" where
  "re_finditer r s = find_from r False [] s"

section \<open>Building expressions\<close>

text \<open>A sequence; a literal text, exact or ignoring case; \<open>\s\<close>, \<open>\S\<close>, \<open>\d\<close>; \<open>*\<close>, \<open>+\<close>, \<open>?\<close>.\<close>

fun seq :: "re list \<Rightarrow> re" where
  "seq [] = REps"
| "seq [r] = r"
| "seq (r # rs) = RSeq r (seq rs)"

definition lit :: "string \<Rightarrow> re" where
  "lit s = seq (map (\<lambda>c. RSet (\<lambda>d. d = c)) s)"

definition lit_i :: "string \<Rightarrow> re" where
  "lit_i s = seq (map (\<lambda>c. RSet (\<lambda>d. lower_char d = lower_char c)) s)"

definition r_space :: re where "r_space = RSet is_space"
definition r_nonspace :: re where "r_nonspace = RSet (\<lambda>c. \<not> is_space c)"
definition r_digit :: re where "r_digit = RSet is_digit"

definition star :: "re \<Rightarrow> re" where "star = RRep True 0 None"
definition lazy_star :: "re \<Rightarrow> re" where "lazy_star = RRep False 0 None"
definition plus :: "re \<Rightarrow> re" where "plus = RRep True 1 None"
definition optional :: "re \<Rightarrow> re" where "optional = RRep True 0 (Some 1)"

lemmas re_defs = seq.simps lit_def lit_i_def r_space_def r_nonspace_def r_digit_def star_def lazy_star_def
  plus_def optional_def

section \<open>Matches read the text in order\<close>

text \<open>A derivation splits the same text at a position that is not before the one it starts from.\<close>

lemma consumes_chain:
  assumes "(consumes R ^^ n) s t"
    and "\<And>s t. R s t \<Longrightarrow> rev (fst t) @ ahead t = rev (fst s) @ ahead s \<and> length (ahead t) \<le> length (ahead s)"
  shows "rev (fst t) @ ahead t = rev (fst s) @ ahead s \<and> length (ahead t) \<le> length (ahead s)"
  using assms(1)
proof (induction n arbitrary: t)
  case (Suc n)
  obtain u where u: "(consumes R ^^ n) s u" "consumes R u t" using Suc.prems by (rule relpowp_Suc_E)
  from u(2) have "R u t" by (simp add: consumes_def)
  show ?case using Suc.IH [OF u(1)] assms(2) [OF \<open>R u t\<close>] by simp
qed simp

lemma derives_splits:
  "derives r s t \<Longrightarrow> rev (fst t) @ ahead t = rev (fst s) @ ahead s \<and> length (ahead t) \<le> length (ahead s)"
proof (induction r arbitrary: s t)
  case (RSeq r q)
  then obtain u where u: "derives r s u" "derives q u t" by auto
  show ?case using RSeq.IH(1) [OF u(1)] RSeq.IH(2) [OF u(2)] by simp
next
  case (RRep greedy lo hi r)
  then obtain n where "(consumes (derives r) ^^ n) s t" by auto
  then show ?case by (rule consumes_chain) (rule RRep.IH)
next
  case (RGroup i r)
  then obtain b a g where "derives r s (b, a, g)" and t: "fst t = b" "ahead t = a" by (auto simp: ahead_def)
  from RGroup.IH [OF this(1)] show ?case unfolding t by (simp add: ahead_def)
qed (auto simp: ahead_def)

lemma match_here_splits:
  assumes "match_here r advance b a = Some m"
  shows "rm_start m = length b \<and> rev (fst (rm_end m)) @ ahead (rm_end m) = rev b @ a
    \<and> length (ahead (rm_end m)) \<le> length a \<and> (advance \<longrightarrow> length (ahead (rm_end m)) < length a)"
proof -
  from assms obtain t where m: "rm_start m = length b" "rm_end m = t"
    and k: "matches r (\<lambda>t. if advance \<and> length (ahead t) = length a then None else Some t) (b, a, []) = Some t"
    by (auto simp: match_here_def)
  from matches_Some [OF k] obtain u where "derives r (b, a, []) u"
    "(if advance \<and> length (ahead u) = length a then None else Some u) = Some t" by blast
  then have "derives r (b, a, []) t" "\<not> (advance \<and> length (ahead t) = length a)" by (auto split: if_splits)
  with derives_splits [OF this(1)] m show ?thesis by (auto simp: ahead_def)
qed

text \<open>
  So a search never ends before its start, and it ends at the start only with an empty match
  that it did not have to leave: the test of \<open>find_from\<close> always holds.
\<close>

lemma search_from_progress:
  "search_from r advance b a = Some m \<Longrightarrow>
     length (ahead (rm_end m)) < length a
     \<or> length (ahead (rm_end m)) = length a \<and> rm_start m = length (fst (rm_end m)) \<and> \<not> advance"
proof (induction r advance b a rule: search_from.induct)
  case (1 r advance b a)
  show ?case
  proof (cases "match_here r advance b a")
    case None
    with "1.prems" obtain c a' where a: "a = c # a'" and s: "search_from r False (c # b) a' = Some m"
      by (cases a) (auto simp: search_from.simps [of r advance b])
    from "1.IH" [OF None a s] a show ?thesis by auto
  next
    case (Some m')
    with "1.prems" have "match_here r advance b a = Some m" by (simp add: search_from.simps [of r advance b a])
    note h = match_here_splits [OF this]
    then have "length (fst (rm_end m)) + length (ahead (rm_end m)) = length b + length a"
      by (metis length_append length_rev)
    with h show ?thesis by auto
  qed
qed

lemma find_from_step:
  "find_from r advance b a =
     (case search_from r advance b a of
        None \<Rightarrow> []
      | Some m \<Rightarrow> m # find_from r (rm_start m = length (fst (rm_end m))) (fst (rm_end m)) (ahead (rm_end m)))"
  by (subst find_from.simps) (auto simp: Let_def dest: search_from_progress split: option.splits)

end
