(* ===== verification/Parsers.thy ===== *)
theory Parsers
  imports Regex Doc
begin

text \<open>
  The parsers of operational output (\<open>parsers.py\<close>): each takes the text of one show command and
  what the intent expects, and returns a gate result with its reason and observations. The
  regular expressions are those of the source, written as values of \<open>re\<close>.
\<close>

record gate_result =
  gr_passed :: bool
  gr_reason :: string
  gr_observations :: json

definition verdict :: "bool \<Rightarrow> string \<Rightarrow> (string \<times> json) list \<Rightarrow> gate_result" where
  "verdict passed reason obs = \<lparr>gr_passed = passed, gr_reason = reason, gr_observations = JObj obs\<rparr>"

text \<open>\<open>len(v)\<close>\<close>

fun jlen :: "json \<Rightarrow> nat result" where
  "jlen (JArr xs) = Inr (length xs)"
| "jlen (JObj kvs) = Inr (length kvs)"
| "jlen (JStr s) = Inr (length s)"
| "jlen _ = Inl TypeError"

definition jnat :: "nat \<Rightarrow> json" where "jnat n = JInt (int n)"
definition jopt :: "string option \<Rightarrow> json" where "jopt v = (case v of None \<Rightarrow> JNull | Some s \<Rightarrow> JStr s)"

text \<open>\<open>IPV4_PATTERN\<close> and \<open>\d+\.\d+\.\d+\.\d+\<close>\<close>

definition ipv4_re :: re where
  "ipv4_re = seq [RRep True 3 (Some 3) (seq [RRep True 1 (Some 3) r_digit, lit ''.'']), RRep True 1 (Some 3) r_digit]"

definition quad_re :: re where
  "quad_re = seq [plus r_digit, lit ''.'', plus r_digit, lit ''.'', plus r_digit, lit ''.'', plus r_digit]"

definition is_ipv4_text :: "string \<Rightarrow> bool" where
  "is_ipv4_text s \<longleftrightarrow> re_fullmatch ipv4_re s \<noteq> None"

definition stripped_lines :: "string \<Rightarrow> string list" where
  "stripped_lines output = map strip (splitlines output)"

text \<open>\<open>[line.strip() for line in output.splitlines() if line.strip()]\<close>\<close>

definition config_lines :: "string \<Rightarrow> string list" where
  "config_lines output = filter (\<lambda>l. l \<noteq> []) (stripped_lines output)"

section \<open>Neighbors\<close>

text \<open>\<open>passed = len(rows) >= minimum\<close> with its two reasons.\<close>

definition counted :: "string \<Rightarrow> string \<Rightarrow> string \<Rightarrow> string list \<Rightarrow> int \<Rightarrow> gate_result" where
  "counted what things key rows minimum =
     (let n = nat_str (length rows); ok = minimum \<le> int (length rows) in
      verdict ok
        (if ok then ''Found '' @ n @ '' '' @ what @ ''; required '' @ int_str minimum
         else ''Expected at least '' @ int_str minimum @ '' '' @ what @ '', found '' @ n)
        [(key, jnat (length rows)), (things, jstrs rows)])"

definition isis_up :: "string \<Rightarrow> bool" where
  "isis_up line \<longleftrightarrow>
     (let fields = split line in
      line \<noteq> [] \<and> \<not> starts_with (lower line) ''system id'' \<and> 6 \<le> length fields
      \<and> is_ipv4_text (fields ! 3) \<and> upper (fields ! 4) = ''UP'')"

definition verify_isis_neighbors :: "string \<Rightarrow> int \<Rightarrow> gate_result" where
  "verify_isis_neighbors output minimum_up =
     counted ''UP IS-IS neighbor(s)'' ''rows'' ''up_neighbor_count''
       (filter isis_up (stripped_lines output)) minimum_up"

definition bfd_up :: "string \<Rightarrow> bool" where
  "bfd_up line \<longleftrightarrow>
     (let fields = split line in
      line \<noteq> [] \<and> 5 \<le> length fields \<and> is_ipv4_text (fields ! 0) \<and> lower (fields ! 3) = ''up'')"

definition verify_bfd_neighbors :: "string \<Rightarrow> int \<Rightarrow> gate_result" where
  "verify_bfd_neighbors output minimum_up =
     counted ''UP BFD session(s)'' ''rows'' ''up_session_count''
       (filter bfd_up (stripped_lines output)) minimum_up"

definition up_word_re :: re where "up_word_re = seq [RWord, lit_i ''up'', RWord]"

definition nve_up :: "string \<Rightarrow> bool" where
  "nve_up line \<longleftrightarrow>
     line \<noteq> [] \<and> \<not> starts_with (lower line) ''interface''
     \<and> \<not> starts_with (lower line) [CHR 0x27, CHR ''m'', CHR 0x27]
     \<and> \<not> starts_with (lower line) [CHR 0x27, CHR ''4'', CHR 0x27]
     \<and> re_search ipv4_re line \<noteq> None \<and> re_search up_word_re line \<noteq> None"

definition verify_nve_peers :: "string \<Rightarrow> int \<Rightarrow> gate_result" where
  "verify_nve_peers output minimum_up =
     counted ''UP NVE peer(s)'' ''rows'' ''up_peer_count'' (filter nve_up (stripped_lines output)) minimum_up"

text \<open>
  BGP: the rows whose last column is a number. \<open>str.isdigit\<close> also accepts superscript digits,
  on which \<open>int\<close> raises, and so it does on more than 4300 digits. An expected neighbor that is not a
  string is never established and cannot be joined into the reason.
\<close>

definition isdigit_text :: "string \<Rightarrow> bool" where
  "isdigit_text s \<longleftrightarrow> s \<noteq> [] \<and> list_all (\<lambda>c. is_digit c \<or> ordc c \<in> {178, 179, 185}) s"

definition bgp_row :: "(string \<times> json) list \<Rightarrow> string \<Rightarrow> (string \<times> json) list result" where
  "bgp_row est raw =
     (let fields = split (strip raw) in
      if length fields < 3 \<or> \<not> is_ipv4_text (fields ! 0) \<or> \<not> isdigit_text (last fields) then Inr est
      else (ebind (py_int (JStr (last fields))) (\<lambda>n.
         Inr (set_field (fields ! 0) (JInt n) est))))"

definition missing_text :: "string list \<Rightarrow> string" where
  "missing_text missing = (if join '', '' missing = [] then ''none specified'' else join '', '' missing)"

definition verify_bgp_neighbors :: "string \<Rightarrow> json list \<Rightarrow> gate_result result" where
  "verify_bgp_neighbors output expected =
     (ebind (foldE bgp_row [] (splitlines output)) (\<lambda>est.
        ebind (raise_if (\<not> list_all is_str expected) TypeError) (\<lambda>_.
        let names = map py_str expected in
        let missing = sorted_diff names (map fst est) in
        let ok = (expected \<noteq> [] \<and> missing = []) in
        Inr (verdict ok
           (if ok then ''All '' @ nat_str (length expected) @ '' expected BGP neighbor(s) are established''
            else ''Missing established BGP neighbors: '' @ missing_text missing)
           [(''expected_neighbors'', jstrs (sort names)), (''established_neighbors'', JObj est),
            (''missing_neighbors'', jstrs missing)]))))"

section \<open>MTU and LISP\<close>

definition mtu_re :: re where
  "mtu_re = seq [lit ''MTU'', plus r_space, RGroup 1 (plus r_digit), plus r_space, lit ''bytes'']"

definition verify_interface_mtu :: "string \<Rightarrow> int \<Rightarrow> gate_result result" where
  "verify_interface_mtu output expected_mtu =
     (case re_search mtu_re output of
        None \<Rightarrow> Inr (verdict False ''MTU line not found in output'' [])
      | Some m \<Rightarrow>
          (ebind (py_int (JStr (grp 1 m))) (\<lambda>observed.
             Inr (if observed \<noteq> expected_mtu
                then verdict False (''MTU '' @ int_str observed @ '' bytes != expected '' @ int_str expected_mtu)
                       [(''observed_mtu'', JInt observed)]
                else verdict True (''MTU '' @ int_str observed @ '' bytes confirmed'') [(''observed_mtu'', JInt observed)]))))"

definition established_re :: re where
  "established_re = seq [RWord, lit_i ''established'', star r_space, lit '':'', star r_space,
     RGroup 1 (plus r_digit), RWord]"

definition peer_state_re :: re where
  "peer_state_re = seq [RBol False, RGroup 1 (seq [ipv4_re, lit '':'', plus r_digit]), plus r_space,
     RGroup 2 (RAlt (lit_i ''Up'') (lit_i ''Down'')), RWord]"

definition peer_state :: "string \<Rightarrow> json list" where
  "peer_state line =
     (case re_match peer_state_re line of
        None \<Rightarrow> []
      | Some m \<Rightarrow> [JObj [(''peer'', JStr (grp 1 m)), (''state'', JStr (lower (grp 2 m)))]])"

definition verify_lisp_sessions :: "string \<Rightarrow> int \<Rightarrow> gate_result result" where
  "verify_lisp_sessions output minimum =
     (case re_search established_re output of
        None \<Rightarrow> Inr (verdict False ''LISP established-session counter was not found'' [(''established'', JNull)])
      | Some m \<Rightarrow>
          (ebind (py_int (JStr (grp 1 m))) (\<lambda>n.
             let ok = minimum \<le> n in
             Inr (verdict ok
             (if ok then ''Found '' @ int_str n @ '' established LISP session(s); required '' @ int_str minimum
              else ''Expected at least '' @ int_str minimum @ '' established LISP session(s), found '' @ int_str n)
             [(''established'', JInt n), (''peers'', JArr (concat (map peer_state (stripped_lines output))))]))))"

definition publisher_re :: re where
  "publisher_re = seq [RBol False, star r_space, RGroup 1 ipv4_re, plus r_space, RGroup 2 (plus r_nonspace), plus r_space,
     RGroup 3 (plus r_nonspace), plus r_space, RGroup 4 (plus r_nonspace), star r_space, REol False]"

definition publisher_row :: "string \<Rightarrow> string \<Rightarrow> string \<Rightarrow> json" where
  "publisher_row state session pubsub =
     JObj [(''state'', JStr state), (''session'', JStr session), (''pubsub_state'', JStr pubsub)]"

definition add_publisher :: "(string \<times> json) list \<Rightarrow> string \<Rightarrow> (string \<times> json) list" where
  "add_publisher rows line =
     (case re_match publisher_re line of
        None \<Rightarrow> rows
      | Some m \<Rightarrow> set_field (grp 1 m) (publisher_row (lower (grp 2 m)) (lower (grp 3 m)) (lower (grp 4 m))) rows)"

definition verify_lisp_publishers :: "string \<Rightarrow> json list \<Rightarrow> gate_result" where
  "verify_lisp_publishers output expected_publishers =
     (let rows = foldl add_publisher [] (splitlines output);
          established = sort (map fst (filter (\<lambda>(_, row). row = publisher_row ''reachable'' ''up'' ''established'') rows));
          expected = sorted_set (map py_str expected_publishers);
          missing = sorted_diff expected established;
          ok = (expected \<noteq> [] \<and> missing = [])
      in verdict ok
           (if ok then ''All '' @ nat_str (length expected) @ '' expected LISP publisher(s) are established''
            else ''Missing established LISP publishers: '' @ missing_text missing)
           [(''expected_publishers'', jstrs expected), (''established_publishers'', jstrs established),
            (''missing_publishers'', jstrs missing), (''publisher_rows'', JObj rows)])"

text \<open>A line \<open>key number\<close> anywhere in the output, and the numbers of all such lines.\<close>

definition id_line_re :: "string \<Rightarrow> re" where
  "id_line_re key = seq [RBol True, star r_space, lit_i key, plus r_space, RGroup 1 (plus r_digit), star r_space, REol True]"

definition ids_of :: "string \<Rightarrow> string \<Rightarrow> int list result" where
  "ids_of key output = mapE (\<lambda>m. py_int (JStr (grp 1 m))) (re_finditer (id_line_re key) output)"

definition verify_lisp_identity :: "string \<Rightarrow> int \<Rightarrow> int option \<Rightarrow> gate_result result" where
  "verify_lisp_identity output domain_id multihoming_id =
     (ebind (ids_of ''domain-id'' output) (\<lambda>domain_ids.
        ebind (ids_of ''multihoming-id'' output) (\<lambda>multihoming_ids.
        let expected = (case multihoming_id of None \<Rightarrow> [] | Some i \<Rightarrow> [i]) in
        let ok = (domain_ids = [domain_id] \<and> multihoming_ids = expected) in
        Inr (verdict ok
           (if ok then ''LISP domain and multihoming identity match intent''
            else ''LISP domain or multihoming identity does not match intent'')
           [(''expected_domain_id'', JInt domain_id), (''observed_domain_ids'', JArr (map JInt domain_ids)),
            (''expected_multihoming_id'', (case multihoming_id of None \<Rightarrow> JNull | Some i \<Rightarrow> JInt i)),
            (''observed_multihoming_ids'', JArr (map JInt multihoming_ids))]))))"

section \<open>Configuration lines\<close>

definition verify_exact_config_lines :: "string \<Rightarrow> json list \<Rightarrow> gate_result" where
  "verify_exact_config_lines output expected_lines =
     (let observed = config_lines output;
          expected = map (strip \<circ> py_str) expected_lines;
          missing = filter (\<lambda>l. count_list observed l \<noteq> 1) expected
      in verdict (missing = [])
           (if missing = [] then ''Every expected configuration line is present exactly once''
            else ''Expected configuration lines are missing or duplicated'')
           [(''expected_lines'', jstrs expected), (''observed_lines'', jstrs observed), (''failed_lines'', jstrs missing)])"

definition verify_config_lines_absent :: "string \<Rightarrow> json list \<Rightarrow> gate_result" where
  "verify_config_lines_absent output forbidden_lines =
     (let observed = config_lines output;
          forbidden = map (strip \<circ> py_str) forbidden_lines;
          present = filter (\<lambda>l. count_list observed l \<noteq> 0) forbidden
      in verdict (present = [])
           (if present = [] then ''Every stale workflow-owned configuration line is absent''
            else ''One or more stale workflow-owned configuration lines remain'')
           [(''forbidden_lines'', jstrs forbidden), (''observed_lines'', jstrs observed), (''present_lines'', jstrs present)])"

section \<open>Multicast\<close>

definition pim_mode_re :: re where
  "pim_mode_re = seq [RWord, lit_i ''v'', plus r_digit, lit ''/'', RGroup 1 (plus (RSet (\<lambda>c. is_upper c \<or> is_lower c))), RWord]"

text \<open>The interface a row shows in sparse mode, when it is one of the expected ones.\<close>

definition pim_row :: "string list \<Rightarrow> string \<Rightarrow> string list" where
  "pim_row expected line =
     (let fields = split line in
      if line = [] \<or> length fields < 2 then []
      else (let interface = (if is_ipv4_text (fields ! 0) then fields ! 1 else fields ! 0) in
        if interface \<notin> set expected then []
        else (case re_search pim_mode_re line of
                None \<Rightarrow> []
              | Some m \<Rightarrow> (if upper (grp 1 m) \<in> {''S'', ''SM''} then [interface] else []))))"

definition verify_pim_interfaces :: "string \<Rightarrow> json list \<Rightarrow> gate_result" where
  "verify_pim_interfaces output expected_interfaces =
     (let expected = sorted_set (map py_str expected_interfaces);
          lines = stripped_lines output;
          rows = filter (\<lambda>l. pim_row expected l \<noteq> []) lines;
          sparse = sorted_set (concat (map (pim_row expected) lines));
          missing = sorted_diff expected sparse
      in verdict (missing = [])
           (if missing = [] then ''Every expected PIM interface is present in sparse mode''
            else ''One or more expected PIM sparse-mode interfaces are absent'')
           [(''expected_interfaces'', jstrs expected), (''sparse_interfaces'', jstrs sparse),
            (''missing_interfaces'', jstrs missing), (''matched_rows'', jstrs rows)])"

text \<open>An MSDP block: from its header to the state, without another header in between.\<close>

definition msdp_header :: "re list" where
  "msdp_header = [RBol True, star r_space, lit_i ''MSDP'', plus r_space, lit_i ''Peer'', plus r_space]"

definition msdp_re :: "string \<Rightarrow> re" where
  "msdp_re peer = seq (msdp_header @ [lit_i peer, RWord,
     lazy_star (seq [RAhead False (seq msdp_header), RSet (\<lambda>_. True)]),
     RWord, lit_i ''state'', star r_space, lit '':'', star r_space,
     RAlt (lit_i ''established'') (lit_i ''up''), RWord])"

definition verify_msdp_peers :: "string \<Rightarrow> json list \<Rightarrow> gate_result" where
  "verify_msdp_peers output expected_peers =
     (let expected = sorted_set (map py_str expected_peers);
          established = filter (\<lambda>p. re_search (msdp_re p) output \<noteq> None) expected;
          missing = sorted_diff expected established
      in verdict (missing = [])
           (if missing = [] then ''Every expected MSDP peer is established''
            else ''One or more expected MSDP peers are not established'')
           [(''expected_peers'', jstrs expected), (''established_peers'', jstrs established),
            (''missing_peers'', jstrs missing)])"

end
