(* ===== verification/PolicyParsers.thy ===== *)
theory PolicyParsers
  imports Parsers
begin

text \<open>
  The second half of \<open>parsers.py\<close>: SXP connections, role-based permissions, software version,
  license level and routes.
\<close>

section \<open>SXP\<close>

definition rest_of_line_re :: re where
  "rest_of_line_re = plus (RSet (\<lambda>c. c \<noteq> newline \<and> c \<noteq> creturn))"

definition sxp_peer_head :: "re list" where
  "sxp_peer_head = [RBol True, star r_space, lit_i ''Peer'', plus r_space, lit_i ''IP'', star r_space, lit '':'']"

definition sxp_block_re :: re where
  "sxp_block_re = seq (sxp_peer_head @ [star r_space, RGroup 1 quad_re, star r_space, REol True,
     RGroup 2 (lazy_star (RSet (\<lambda>_. True))),
     RAhead True (RAlt (seq [RBol True, star r_space, RRep True 5 None (lit ''-''), star r_space, REol True])
       (RAlt (seq sxp_peer_head) REnd))])"

definition sxp_source_re :: re where
  "sxp_source_re = seq [RBol True, star r_space, lit_i ''Source'', plus r_space, lit_i ''IP'', star r_space, lit '':'',
     star r_space, RGroup 1 quad_re, star r_space, REol True]"

definition sxp_status_re :: re where
  "sxp_status_re = seq [RBol True, star r_space, lit_i ''Conn'', plus r_space, lit_i ''status'', star r_space, lit '':'',
     star r_space, RGroup 1 rest_of_line_re, REol True]"

definition sxp_mode_re :: re where
  "sxp_mode_re = seq [RBol True, star r_space, RAlt (lit_i ''Connection'') (lit_i ''Local''), plus r_space, lit_i ''mode'',
     star r_space, lit '':'', star r_space, RGroup 1 rest_of_line_re, REol True]"

definition sxp_on_re :: re where
  "sxp_on_re = seq [lit_i ''On'', optional (seq [star r_space, lit_i ''(Speaker)''])]"

record sxp_conn =
  sx_peer :: string
  sx_source :: string
  sx_status :: string
  sx_mode :: string

definition group_or_empty :: "re \<Rightarrow> string \<Rightarrow> string" where
  "group_or_empty r s = (case re_search r s of None \<Rightarrow> [] | Some m \<Rightarrow> grp 1 m)"

definition sxp_observed :: "string \<Rightarrow> sxp_conn list" where
  "sxp_observed output =
     map (\<lambda>m. let body = grp 2 m in
            \<lparr>sx_peer = grp 1 m, sx_source = group_or_empty sxp_source_re body,
             sx_status = strip (group_or_empty sxp_status_re body), sx_mode = strip (group_or_empty sxp_mode_re body)\<rparr>)
       (re_finditer sxp_block_re output)"

definition sxp_pair :: "json \<Rightarrow> (string \<times> string) result" where
  "sxp_pair item = (ebind (str_at item ''peer'') (\<lambda>peer.
     ebind (str_at item ''source_ip'') (\<lambda>src.
     Inr (peer, src))))"

definition sxp_on :: "string \<times> string \<Rightarrow> sxp_conn \<Rightarrow> bool" where
  "sxp_on pair c \<longleftrightarrow> (sx_peer c, sx_source c) = pair \<and> re_fullmatch sxp_on_re (sx_status c) \<noteq> None
     \<and> contains (lower (sx_mode c)) ''speaker''"

definition pair_json :: "string \<times> string \<Rightarrow> json" where
  "pair_json p = JObj [(''peer'', JStr (fst p)), (''source_ip'', JStr (snd p))]"

definition sxp_json :: "sxp_conn \<Rightarrow> json" where
  "sxp_json c = JObj [(''peer'', JStr (sx_peer c)), (''source_ip'', JStr (sx_source c)),
     (''status'', JStr (sx_status c)), (''mode'', JStr (sx_mode c))]"

definition verify_sxp_connections :: "string \<Rightarrow> json list \<Rightarrow> gate_result result" where
  "verify_sxp_connections output expected_connections =
     (let observed = sxp_observed output in
        let observed_pairs = map (\<lambda>c. (sx_peer c, sx_source c)) observed in
        ebind (mapE sxp_pair expected_connections) (\<lambda>expected_pairs.
        let missing = filter (\<lambda>p. \<not> list_ex (sxp_on p) observed) expected_pairs in
        let unexpected = sort_key fst (sort_key snd (remdups (filter (\<lambda>p. p \<notin> set expected_pairs) observed_pairs))) in
        let duplicates = (length observed \<noteq> card (set observed_pairs)) in
        let ok = (missing = [] \<and> unexpected = [] \<and> \<not> duplicates) in
        Inr (verdict ok
           (if ok then ''The exact intended SXP speaker connection set is On''
            else ''The SXP connection set or operational state does not match intent'')
           [(''expected'', JArr expected_connections), (''observed'', JArr (map sxp_json observed)),
            (''missing'', JArr (map pair_json missing)), (''unexpected'', JArr (map pair_json unexpected)),
            (''duplicates'', JBool duplicates)])))"

section \<open>Role-based permissions\<close>

definition permission_head :: "re list" where
  "permission_head = [RBol True, star r_space, optional (seq [lit_i ''IPv4'', plus r_space]),
     lit_i ''Role-based permissions from group'', plus r_space]"

definition group_name_re :: re where
  "group_name_re = optional (seq [lit '':'', plus r_nonspace])"

definition permission_re :: "int \<Rightarrow> int \<Rightarrow> re" where
  "permission_re source_tag destination_tag =
     seq (permission_head @ [lit_i (int_str source_tag), group_name_re, plus r_space, lit_i ''to group'', plus r_space,
       lit_i (int_str destination_tag), group_name_re, star r_space, lit '':'', star r_space, REol True])"

definition own_line_re :: "string \<Rightarrow> re" where
  "own_line_re name = seq [RBol True, star r_space, lit name, star r_space, REol True]"

text \<open>The text of a block: from the end of its header to the next header.\<close>

definition permission_body :: "re_match \<Rightarrow> string" where
  "permission_body header =
     (let body = ahead (rm_end header) in
      case re_search (seq permission_head) body of None \<Rightarrow> body | Some m \<Rightarrow> take (rm_start m) body)"

definition verify_role_permission :: "string \<Rightarrow> int \<Rightarrow> int \<Rightarrow> string \<Rightarrow> gate_result" where
  "verify_role_permission output source_tag destination_tag sgacl_name =
     (let headers = re_finditer (permission_re source_tag destination_tag) output;
          body = (if length headers = 1 then permission_body (hd headers) else []);
          acls = re_finditer (own_line_re sgacl_name) body;
          ok = (length headers = 1 \<and> length acls = 1)
      in verdict ok
           (if ok then ''Role-based permission and SGACL match intent''
            else ''Role-based permission or SGACL does not match intent'')
           [(''source_tag'', JInt source_tag), (''destination_tag'', JInt destination_tag),
            (''sgacl_name'', JStr sgacl_name), (''header_occurrences'', jnat (length headers)),
            (''sgacl_occurrences'', jnat (length acls))])"

section \<open>Software\<close>

definition version_re :: re where
  "version_re = seq [lit_i ''Cisco IOS XE Software,'', star r_space, lit_i ''Version'', plus r_space,
     RGroup 1 (plus (RSet (\<lambda>c. is_alnum c \<or> c \<in> set ''()._-'')))]"

definition bare_version_re :: re where
  "bare_version_re = seq [RWord, lit ''Version'', plus r_space,
     RGroup 1 (seq [plus r_digit, RRep True 2 None (seq [lit ''.'', plus (RSet (\<lambda>c. is_alnum c \<or> c \<in> set ''()-''))])])]"

definition observed_version :: "string \<Rightarrow> string option" where
  "observed_version output =
     (case re_search version_re output of
        Some m \<Rightarrow> Some (grp 1 m)
      | None \<Rightarrow> map_option (grp 1) (re_search bare_version_re output))"

definition verify_ios_xe_version :: "string \<Rightarrow> string \<Rightarrow> gate_result" where
  "verify_ios_xe_version output expected_version =
     (let observed = observed_version output;
          ok = (case observed of None \<Rightarrow> False | Some v \<Rightarrow> lower v = lower expected_version)
      in verdict ok
           (if ok then ''IOS XE version matches '' @ expected_version
            else ''Expected IOS XE '' @ expected_version @ '', observed ''
                 @ (case observed of None \<Rightarrow> ''unavailable'' | Some v \<Rightarrow> v))
           [(''expected_version'', JStr expected_version), (''observed_version'', jopt observed)])"

text \<open>A license row: the package in use and, last on the line, the package after the next reboot.\<close>

definition license_re :: "re \<Rightarrow> re" where
  "license_re package = seq [RBol True, star r_space, RGroup 1 package, plus r_space,
     lazy_star (RSet (\<lambda>c. c \<noteq> newline)), plus r_space, RGroup 2 package, star r_space, REol True]"

definition level_re :: re where
  "level_re = RAlt (lit_i ''advantage'') (lit_i ''essentials'')"

definition network_package_re :: re where
  "network_package_re = seq [lit_i ''network-'', level_re]"

definition subscription_package_re :: re where
  "subscription_package_re = seq [RAlt (lit_i ''catalyst'') (lit_i ''dna''), lit ''-'', level_re]"

text \<open>The two packages, in lower case, when exactly one row matches.\<close>

definition license_pair :: "re_match list \<Rightarrow> (string \<times> string) option" where
  "license_pair ms = (case ms of [m] \<Rightarrow> Some (lower (grp 1 m), lower (grp 2 m)) | _ \<Rightarrow> None)"

definition verify_ios_xe_license_level :: "string \<Rightarrow> string \<Rightarrow> json list \<Rightarrow> gate_result" where
  "verify_ios_xe_license_level output required_network_package allowed_subscription_packages =
     (let allowed = sorted_set (map lower (filter (\<lambda>t. t \<noteq> []) (map (strip \<circ> py_str) allowed_subscription_packages)));
          required = lower (strip required_network_package);
          nets = re_finditer (license_re network_package_re) output;
          subs = re_finditer (license_re subscription_package_re) output;
          net = license_pair nets;
          sub = license_pair subs;
          ok = (net = Some (required, required)
                \<and> (case sub of None \<Rightarrow> False | Some (a, b) \<Rightarrow> a \<in> set allowed \<and> b \<in> set allowed))
      in verdict ok
           (if ok then ''Running and next-reboot IOS XE license packages satisfy SDA policy''
            else ''IOS XE running or next-reboot license package does not satisfy SDA policy'')
           [(''required_network_package'', JStr required), (''allowed_subscription_packages'', jstrs allowed),
            (''network_row_count'', jnat (length nets)), (''subscription_row_count'', jnat (length subs)),
            (''current_network_package'', jopt (map_option fst net)),
            (''next_reboot_network_package'', jopt (map_option snd net)),
            (''current_subscription_package'', jopt (map_option fst sub)),
            (''next_reboot_subscription_package'', jopt (map_option snd sub))])"

section \<open>Routes\<close>

definition route_re :: re where
  "route_re = seq [RBol True, star r_space, lit_i ''Routing entry for'', plus r_space,
     RGroup 1 (seq [ipv4_re, lit ''/'', RRep True 1 (Some 2) r_digit]), star r_space, REol True]"

definition verify_route_prefix :: "string \<Rightarrow> string \<Rightarrow> gate_result" where
  "verify_route_prefix output expected =
     (let observed = map (grp 1) (re_finditer route_re output);
          ok = (expected \<in> set observed \<and> \<not> contains output ''% Network not in table'')
      in verdict ok
           (if ok then ''Route '' @ expected @ '' is present'' else ''Expected route '' @ expected @ '' was not present'')
           [(''expected_prefix'', JStr expected), (''observed_prefixes'', jstrs (sorted_set observed))])"

section \<open>\<open>evaluate_gate\<close>\<close>

definition ints_or_none :: "json \<Rightarrow> string \<Rightarrow> int option result" where
  "ints_or_none v k = (ebind (jget v k) (\<lambda>x.
     (if x = JNull then Inr None else (ebind (py_int x) (\<lambda>i.
     Inr (Some i))))))"

definition evaluate_gate :: "json \<Rightarrow> string \<Rightarrow> gate_result result" where
  "evaluate_gate gate output =
     (ebind (jidx gate ''evaluator'') (\<lambda>evaluator.
        ebind (jidx gate ''expected'') (\<lambda>expected.
        let is = (\<lambda>n. evaluator = JStr n) in
        (if is ''ios_xe_version''
          then (ebind (str_at expected ''version'') (\<lambda>v.
             Inr (verify_ios_xe_version output v)))
          else if is ''ios_xe_license_level''
          then (ebind (str_at expected ''network_package'') (\<lambda>n.
             ebind (items_at expected ''subscription_packages'') (\<lambda>s.
             Inr (verify_ios_xe_license_level output n s))))
          else if is ''isis_neighbors''
          then (ebind (int_at expected ''minimum_up'') (\<lambda>i.
             Inr (verify_isis_neighbors output i)))
          else if is ''lisp_sessions''
          then (ebind (int_at expected ''minimum_established'') (\<lambda>i.
             verify_lisp_sessions output i))
          else if is ''lisp_publishers''
          then (ebind (items_at expected ''publishers'') (\<lambda>p.
             Inr (verify_lisp_publishers output p)))
          else if is ''lisp_identity''
          then (ebind (int_at expected ''domain_id'') (\<lambda>d.
             ebind (ints_or_none expected ''multihoming_id'') (\<lambda>m.
             verify_lisp_identity output d m)))
          else if is ''exact_config_lines''
          then (ebind (items_at expected ''lines'') (\<lambda>l.
             Inr (verify_exact_config_lines output l)))
          else if is ''config_lines_absent''
          then (ebind (items_at expected ''lines'') (\<lambda>l.
             Inr (verify_config_lines_absent output l)))
          else if is ''pim_interfaces''
          then (ebind (items_at expected ''interfaces'') (\<lambda>l.
             Inr (verify_pim_interfaces output l)))
          else if is ''msdp_peers''
          then (ebind (items_at expected ''peers'') (\<lambda>l.
             Inr (verify_msdp_peers output l)))
          else if is ''sxp_connections''
          then (ebind (items_at expected ''connections'') (\<lambda>l.
             verify_sxp_connections output l))
          else if is ''role_permission''
          then (ebind (int_at expected ''source_tag'') (\<lambda>a.
             ebind (int_at expected ''destination_tag'') (\<lambda>b.
             ebind (str_at expected ''sgacl_name'') (\<lambda>n.
             Inr (verify_role_permission output a b n)))))
          else if is ''nve_peers''
          then (ebind (int_at expected ''minimum_up'') (\<lambda>i.
             Inr (verify_nve_peers output i)))
          else if is ''bgp_neighbors''
          then (ebind (items_at expected ''neighbors'') (\<lambda>l.
             verify_bgp_neighbors output l))
          else if is ''route_prefix''
          then (ebind (str_at expected ''prefix'') (\<lambda>p.
             Inr (verify_route_prefix output p)))
          else if is ''interface_mtu''
          then (ebind (int_at expected ''expected_mtu'') (\<lambda>i.
             verify_interface_mtu output i))
          else if is ''bfd_neighbors''
          then (ebind (int_at expected ''minimum_up'') (\<lambda>i.
             Inr (verify_bfd_neighbors output i)))
          else Inr (verdict False (''Unknown evaluator '' @ py_str evaluator) [(''evaluator'', evaluator)])))))"

end
