(* ===== verification/Worker.thy ===== *)
theory Worker
  imports StoreOwned PolicyParsers
begin

text \<open>
  The transactional apply worker (\<open>worker.py\<close>). \<open>process_apply\<close> moves one queued run through
  prechecks, checkpoints, configuration blocks and gates to success, or through a rollback to
  a failed status. The store operations are those of the model; what the worker is given at
  construction (device adapters, the ISE adapter, the secret and credential resolvers, the
  clock behind the store) and the gates it evaluates are the fields of an environment that
  acts on a world of any type. An adapter is named by its device.
\<close>

section \<open>What the worker is given\<close>

text \<open>The ISE adapter: factory, \<open>connect\<close>, \<open>prepare\<close>, \<open>apply\<close>, \<open>rollback\<close>, \<open>has_changes\<close>, \<open>close\<close>.\<close>

record 'w ise_env =
  ie_make :: "json \<Rightarrow> ('w, unit) eff"
  ie_connect :: "('w, unit) eff"
  ie_prepare :: "('w, json) eff"
  ie_apply :: "('w, json) eff"
  ie_rollback :: "('w, json) eff"
  ie_has_changes :: "'w \<Rightarrow> bool"
  ie_close :: "('w, unit) eff"

record 'w worker_env =
  we_actor :: string
  we_clock :: "'w \<Rightarrow> runtime \<times> 'w"
  we_gate_plan :: "json \<Rightarrow> json \<Rightarrow> json list result"
  we_evaluate :: "json \<Rightarrow> string \<Rightarrow> gate_result result"
  we_secret :: "string \<Rightarrow> ('w, string) eff"
  we_credentials :: "(string \<Rightarrow> ('w, unit) eff) option"
  we_connect :: "string \<Rightarrow> json \<Rightarrow> ('w, unit) eff"
  we_show :: "string \<Rightarrow> string \<Rightarrow> ('w, json) eff"
  we_checkpoint :: "string \<Rightarrow> string \<Rightarrow> ('w, json) eff"
  we_apply_block :: "string \<Rightarrow> string list \<Rightarrow> ('w, json) eff"
  we_rollback :: "string \<Rightarrow> string \<Rightarrow> ('w, json) eff"
  we_close :: "string \<Rightarrow> ('w, unit) eff"
  we_ise :: "'w ise_env option"

text \<open>The worker's state: the store, the world, and the local variables the handlers read.\<close>

record 'w wstate =
  ws_store :: store
  ws_world :: 'w
  ws_adapters :: "string list"
  ws_checkpoints :: "(string \<times> string) list"
  ws_changed :: "string list"
  ws_ise :: bool
  ws_ise_applied :: bool

type_synonym ('w, 'a) work = "('w wstate, 'a) eff"

section \<open>Steps\<close>

text \<open>A store transaction, with the clock of its instant; a call of something given.\<close>

definition store_op :: "'w worker_env \<Rightarrow> (runtime \<Rightarrow> store \<Rightarrow> ('a \<times> store) result) \<Rightarrow> ('w, 'a) work" where
  "store_op e f s =
     (let (rt, w) = we_clock e (ws_world s); s' = s\<lparr>ws_world := w\<rparr> in
      case f rt (ws_store s) of
        Inl x \<Rightarrow> (Inl x, s')
      | Inr (a, t) \<Rightarrow> (Inr a, s'\<lparr>ws_store := t\<rparr>))"

definition store_read :: "(store \<Rightarrow> 'a result) \<Rightarrow> ('w, 'a) work" where
  "store_read f s = (f (ws_store s), s)"

definition world_op :: "('w, 'a) eff \<Rightarrow> ('w, 'a) work" where
  "world_op f s = (case f (ws_world s) of (r, w) \<Rightarrow> (r, s\<lparr>ws_world := w\<rparr>))"

definition s_finally :: "('s, 'a) eff \<Rightarrow> ('s, unit) eff \<Rightarrow> ('s, 'a) eff" where
  "s_finally m c s = (case m s of (r, t) \<Rightarrow> (case c t of (Inl e, u) \<Rightarrow> (Inl e, u) | (Inr _, u) \<Rightarrow> (r, u)))"

definition s_get :: "('s \<Rightarrow> 'a) \<Rightarrow> ('s, 'a) eff" where
  "s_get f s = (Inr (f s), s)"

definition s_modify :: "('s \<Rightarrow> 's) \<Rightarrow> ('s, unit) eff" where
  "s_modify f s = (Inr (), f s)"

definition run_to :: "'w worker_env \<Rightarrow> string \<Rightarrow> run_status \<Rightarrow> json \<Rightarrow> ('w, run_row) work" where
  "run_to e run_id st detail = store_op e (\<lambda>rt. transition_run rt run_id st (we_actor e) detail)"

definition evidence_of ::
    "'w worker_env \<Rightarrow> string \<Rightarrow> string \<Rightarrow> string \<Rightarrow> json \<Rightarrow> string \<Rightarrow> ('w, evidence_row) work" where
  "evidence_of e run_id phase_id kind payload device_id =
     store_op e (\<lambda>rt. add_evidence rt run_id phase_id kind payload (we_actor e) (Some device_id))"

text \<open>\<open>adapters[device_id]\<close>\<close>

definition adapter :: "string \<Rightarrow> ('w, unit) work" where
  "adapter device_id s = (if device_id \<in> set (ws_adapters s) then Inr () else Inl (KeyError device_id), s)"

definition checkpoint_of :: "string \<Rightarrow> ('w, string) work" where
  "checkpoint_of device_id s = (of_option (KeyError device_id) (map_of (ws_checkpoints s) device_id), s)"

text \<open>\<open>if not result.get("verified"): raise ...\<close>\<close>

definition require_verified :: "json \<Rightarrow> string \<Rightarrow> unit result" where
  "require_verified v message =
     (ebind (jget v ''verified'') (\<lambda>ok.
        raise_if (\<not> truthy ok) (WorkerError message)))"

section \<open>Secrets\<close>

text \<open>
  The resolvers may raise anything; the sweep turns it into one exception (whose message also
  quotes the cause).
\<close>

definition swept :: "('s, 'a) eff \<Rightarrow> string \<Rightarrow> ('s, unit) eff" where
  "swept m message = s_try ((sbind (m) (\<lambda>_.
     sret ()))) (\<lambda>_. sraise (PreflightSecretError message))"

definition sweep_device :: "(string \<Rightarrow> ('w, unit) eff) \<Rightarrow> json \<Rightarrow> ('w, unit) eff" where
  "sweep_device resolve device =
     (sbind (slift (str_get device ''credential_ref'' [])) (\<lambda>ref.
        sbind (slift (str_get device ''id'' ''?'')) (\<lambda>did.
        (if ref = [] then sret () else swept (resolve ref) (''Credential unavailable for '' @ did)))))"

definition ise_part :: "json \<Rightarrow> json result" where
  "ise_part artifact =
     (ebind (jget artifact ''external_systems'') (\<lambda>ext.
        jget (jor ext (JObj [])) ''ise''))"

definition sweep_block :: "(string \<Rightarrow> ('w, string) eff) \<Rightarrow> json \<Rightarrow> ('w, unit list) eff" where
  "sweep_block resolve block =
     (sbind (slift (strs_get block ''secret_refs'')) (\<lambda>uris.
        s_mapM (\<lambda>uri. swept (resolve uri) (''Secret unavailable '' @ uri)) uris))"

definition preflight_secret_sweep ::
    "json \<Rightarrow> json \<Rightarrow> (string \<Rightarrow> ('w, string) eff) \<Rightarrow> (string \<Rightarrow> ('w, unit) eff) option \<Rightarrow> ('w, unit) eff" where
  "preflight_secret_sweep artifact intent resolve credentials =
     (sbind ((case credentials of
             None \<Rightarrow> sret ()
           | Some resolve_credentials \<Rightarrow>
               (sbind (slift (items_get intent ''devices'')) (\<lambda>devices.
                  sbind (s_mapM (sweep_device resolve_credentials) devices) (\<lambda>_.
                  sbind (slift (ise_part artifact)) (\<lambda>ise.
                  sbind (slift (str_get (jor ise (JObj [])) ''credential_ref'' [])) (\<lambda>ref.
                  (if ref = [] then sret () else swept (resolve_credentials ref) ''ISE credential unavailable'')))))))) (\<lambda>_.
        sbind (slift (jget_default artifact ''devices'' (JObj []))) (\<lambda>devices.
        sbind (slift (items_of devices)) (\<lambda>parts.
        sbind (s_mapM (\<lambda>(_, device).
            (sbind (slift (items_get device ''phases'')) (\<lambda>phases.
               s_mapM (\<lambda>phase.
                   (sbind (slift (items_get phase ''blocks'')) (\<lambda>blocks.
                      s_mapM (sweep_block resolve) blocks))) phases))) parts) (\<lambda>_.
        sret ())))))"

text \<open>
  The placeholders of a command: \<open><secret:(secret://[^>]+)>\<close>, replaced from left to right. The
  match at a position is unique, since the reference ends at the next \<open>>\<close>.
\<close>

definition placeholder_start :: string where
  "placeholder_start = ''<secret:secret://''"

definition placeholder :: "string \<Rightarrow> (string \<times> string) option" where
  "placeholder s =
     (let body = drop (length placeholder_start) s;
          uri = takeWhile (\<lambda>c. c \<noteq> CHR ''>'') body; rest = dropWhile (\<lambda>c. c \<noteq> CHR ''>'') body in
      if starts_with s placeholder_start \<and> uri \<noteq> [] \<and> rest \<noteq> []
      then Some (''secret://'' @ uri, tl rest) else None)"

lemma placeholder_shorter: "placeholder s = Some (uri, rest) \<Longrightarrow> length rest < length s"
proof -
  assume p: "placeholder s = Some (uri, rest)"
  let ?body = "drop (length placeholder_start) s"
  have "rest = tl (dropWhile (\<lambda>c. c \<noteq> CHR ''>'') ?body)" "dropWhile (\<lambda>c. c \<noteq> CHR ''>'') ?body \<noteq> []"
    using p by (auto simp: placeholder_def Let_def split: if_splits)
  then have "length rest < length (dropWhile (\<lambda>c. c \<noteq> CHR ''>'') ?body)" by (simp add: length_tl)
  also have "\<dots> \<le> length ?body" by (rule length_dropWhile_le)
  also have "\<dots> \<le> length s" by simp
  finally show ?thesis .
qed

function substitute :: "(string \<Rightarrow> ('w, string) eff) \<Rightarrow> string \<Rightarrow> ('w, string) eff" where
  "substitute resolve s =
     (case placeholder s of
        Some (uri, rest) \<Rightarrow>
          (sbind (resolve uri) (\<lambda>v.
             sbind (sguard (v = [] \<or> has_break v) (WorkerError ''Secret resolver returned an invalid value'')) (\<lambda>_.
             sbind (substitute resolve rest) (\<lambda>r.
             sret (v @ r)))))
      | None \<Rightarrow>
          (case s of [] \<Rightarrow> sret []
           | c # s' \<Rightarrow> (sbind (substitute resolve s') (\<lambda>r.
              sret (c # r)))))"
  by pat_completeness auto
termination
  by (relation "measure (length \<circ> snd)") (auto dest: placeholder_shorter)

definition resolve_command :: "(string \<Rightarrow> ('w, string) eff) \<Rightarrow> json \<Rightarrow> ('w, string) eff" where
  "resolve_command resolve command =
     (sbind (substitute resolve (py_str command)) (\<lambda>rendered.
        sbind (sguard (contains rendered ''<secret:'') (WorkerError ''Unresolved secret placeholder'')) (\<lambda>_.
        sret rendered)))"

definition resolve_commands :: "(string \<Rightarrow> ('w, string) eff) \<Rightarrow> json list \<Rightarrow> ('w, string list) eff" where
  "resolve_commands resolve = s_mapM (resolve_command resolve)"

section \<open>Blockers\<close>

definition unresolved_code :: "string list \<Rightarrow> json \<Rightarrow> string list result" where
  "unresolved_code allowed blocker =
     (if \<not> is_obj blocker then Inr [[]]
      else (ebind (str_get blocker ''code'' []) (\<lambda>code.
         Inr (if code = [] \<or> code \<notin> set allowed then [code] else []))))"

definition unresolved_blocker_codes :: "json \<Rightarrow> string list \<Rightarrow> string list result" where
  "unresolved_blocker_codes blockers allowed =
     (ebind (elems (jor blockers (JArr []))) (\<lambda>items.
        ebind (mapE (unresolved_code allowed) items) (\<lambda>codes.
        Inr (sort (concat codes)))))"

section \<open>The devices of a run\<close>

text \<open>The active devices and fusion nodes of the intent, then the retired ones of the artifact.\<close>

definition intent_devices :: "json \<Rightarrow> (string \<times> json) list result" where
  "intent_devices intent =
     (ebind (items_at intent ''devices'') (\<lambda>devices.
        ebind (foldE (\<lambda>ds d. (ebind (str_at d ''id'') (\<lambda>i.
            Inr (set_field i d ds)))) [] devices) (\<lambda>known.
        ebind (items_get intent ''fusion_nodes'') (\<lambda>fusions.
        foldE (\<lambda>ds d. (ebind (str_at d ''id'') (\<lambda>i.
            Inr (set_field i (JObj (set_field ''roles'' (JArr [JStr ''fusion'']) (obj_items d))) ds))))
           known fusions))))"

definition add_retired :: "(string \<times> json) list \<Rightarrow> string \<times> json \<Rightarrow> (string \<times> json) list result" where
  "add_retired ds part =
     (case part of (device_id, device) \<Rightarrow>
        if map_of ds device_id \<noteq> None then Inr ds
        else (ebind (jget device ''retired_target'') (\<lambda>retired.
           ebind (raise_if (\<not> truthy retired) (WorkerError ''Artifact contains an unknown active device'')) (\<lambda>_.
           ebind (jget device ''device_descriptor'') (\<lambda>descriptor.
           ebind (raise_if (\<not> is_obj descriptor \<or> py_str (field descriptor ''id'') \<noteq> device_id)
                   (WorkerError ''Retired reconciliation target is invalid'')) (\<lambda>_.
           Inr (set_field device_id descriptor ds)))))))"

definition run_devices :: "json \<Rightarrow> json \<Rightarrow> (string \<times> json) list result" where
  "run_devices intent artifact =
     (ebind (intent_devices intent) (\<lambda>known.
        ebind (jget_default artifact ''devices'' (JObj [])) (\<lambda>devices.
        ebind (items_of devices) (\<lambda>parts.
        foldE add_retired known parts))))"

section \<open>Gates\<close>

text \<open>\<open>_record_gate\<close>: the show command, its evaluation, the evidence.\<close>

definition record_gate :: "'w worker_env \<Rightarrow> string \<Rightarrow> json \<Rightarrow> string \<Rightarrow> ('w, bool) work" where
  "record_gate e run_id gate device_id =
     (sbind (slift (str_at gate ''command'')) (\<lambda>command.
        sbind (world_op (we_show e device_id command)) (\<lambda>response.
        sbind (slift (str_at response ''output'')) (\<lambda>output.
        sbind (slift (we_evaluate e gate output)) (\<lambda>result.
        sbind (slift (str_at gate ''phase_id'')) (\<lambda>phase_id.
        sbind (slift (str_at gate ''device_id'')) (\<lambda>dev.
        sbind (slift (jidx gate ''gate_id'')) (\<lambda>gate_id.
        sbind (slift (jidx gate ''command'')) (\<lambda>raw_command.
        sbind (slift (jidx response ''output_hash'')) (\<lambda>output_hash.
        sbind (evidence_of e run_id phase_id ''operational_gate''
            (JObj [(''gate_id'', gate_id), (''command'', raw_command), (''output_hash'', output_hash),
                   (''passed'', JBool (gr_passed result)), (''reason'', JStr (gr_reason result)),
                   (''observations'', gr_observations result)]) dev) (\<lambda>_.
        sret (gr_passed result))))))))))))"

text \<open>The gates of a phase in order, up to the first that fails.\<close>

fun first_failing :: "'w worker_env \<Rightarrow> string \<Rightarrow> json list \<Rightarrow> ('w, json option) work" where
  "first_failing e run_id [] = sret None"
| "first_failing e run_id (gate # gates) =
     (sbind (slift (str_at gate ''device_id'')) (\<lambda>dev.
        sbind (adapter dev) (\<lambda>_.
        sbind (record_gate e run_id gate dev) (\<lambda>ok.
        (if ok then first_failing e run_id gates else sret (Some gate))))))"

definition gates_of :: "string \<Rightarrow> json list \<Rightarrow> json list result" where
  "gates_of phase_id = filterE (\<lambda>g. (ebind (jidx g ''phase_id'') (\<lambda>p.
     Inr (p = JStr phase_id))))"

section \<open>The apply\<close>

record apply_result =
  ar_succeeded :: bool
  ar_run :: run_row
  ar_rolled_back :: bool
  ar_failure :: "string option"

definition open_adapter :: "'w worker_env \<Rightarrow> (string \<times> json) list \<Rightarrow> string \<Rightarrow> ('w, unit) work" where
  "open_adapter e devices device_id =
     (sbind (slift (of_option (KeyError device_id) (map_of devices device_id))) (\<lambda>device.
        sbind (world_op (we_connect e device_id device)) (\<lambda>_.
        s_modify (\<lambda>s. s\<lparr>ws_adapters := ws_adapters s @ [device_id]\<rparr>))))"

definition ise_node :: "json \<Rightarrow> string result" where
  "ise_node manifest = str_at manifest ''write_node_id''"

text \<open>The ISE preflight: the adapter exists from its factory on, also when \<open>connect\<close> raises.\<close>

definition prepare_ise :: "'w worker_env \<Rightarrow> string \<Rightarrow> json \<Rightarrow> ('w, unit) work" where
  "prepare_ise e run_id manifest =
     (case we_ise e of
        None \<Rightarrow> sraise (WorkerError ''ISE manifest requires an enabled ISE executor'')
      | Some ise \<Rightarrow>
          (sbind (world_op (ie_make ise manifest)) (\<lambda>_.
             sbind (s_modify (\<lambda>s. s\<lparr>ws_ise := True\<rparr>)) (\<lambda>_.
             sbind (world_op (ie_connect ise)) (\<lambda>_.
             sbind (world_op (ie_prepare ise)) (\<lambda>preflight.
             sbind (slift (require_verified preflight ''ISE preflight did not return verified evidence'')) (\<lambda>_.
             sbind (slift (ise_node manifest)) (\<lambda>node.
             sbind (evidence_of e run_id ''precheck'' ''ise_ers_preflight'' preflight node) (\<lambda>_.
             sret ())))))))))"

definition take_checkpoint :: "'w worker_env \<Rightarrow> string \<Rightarrow> string \<Rightarrow> ('w, unit) work" where
  "take_checkpoint e run_id device_id =
     (sbind (adapter device_id) (\<lambda>_.
        sbind (world_op (we_checkpoint e device_id run_id)) (\<lambda>checkpoint.
        sbind (slift (require_verified checkpoint ''Checkpoint verification failed'')) (\<lambda>_.
        sbind (slift (str_at checkpoint ''checkpoint'')) (\<lambda>name.
        sbind (s_modify (\<lambda>s. s\<lparr>ws_checkpoints := ws_checkpoints s @ [(device_id, name)]\<rparr>)) (\<lambda>_.
        sbind (evidence_of e run_id ''checkpoint'' ''device_checkpoint'' checkpoint device_id) (\<lambda>_.
        sret ())))))))"

definition apply_ise :: "'w worker_env \<Rightarrow> string \<Rightarrow> string \<Rightarrow> json \<Rightarrow> ('w, unit) work" where
  "apply_ise e run_id phase_id manifest =
     (case we_ise e of
        None \<Rightarrow> sret ()
      | Some ise \<Rightarrow>
          (sbind (world_op (ie_apply ise)) (\<lambda>result.
             sbind (slift (require_verified result ''ISE apply did not return verified evidence'')) (\<lambda>_.
             sbind (s_modify (\<lambda>s. s\<lparr>ws_ise_applied := True\<rparr>)) (\<lambda>_.
             sbind (slift (ise_node manifest)) (\<lambda>node.
             sbind (evidence_of e run_id phase_id ''ise_ers_transaction'' result node) (\<lambda>_.
             sret ())))))))"

text \<open>One configuration block: the device counts as changed before the commands are sent.\<close>

definition apply_block :: "'w worker_env \<Rightarrow> string \<Rightarrow> string \<Rightarrow> string \<Rightarrow> json \<Rightarrow> ('w, unit) work" where
  "apply_block e run_id phase_id device_id block =
     (sbind (slift (items_at block ''commands'')) (\<lambda>raw.
        sbind (world_op (resolve_commands (we_secret e) raw)) (\<lambda>commands.
        sbind (s_modify (\<lambda>s. if device_id \<in> set (ws_changed s) then s
                        else s\<lparr>ws_changed := ws_changed s @ [device_id]\<rparr>)) (\<lambda>_.
        sbind (adapter device_id) (\<lambda>_.
        sbind (world_op (we_apply_block e device_id commands)) (\<lambda>result.
        sbind (slift (jidx block ''block_id'')) (\<lambda>block_id.
        sbind (slift (jidx block ''command_hash'')) (\<lambda>rendered_hash.
        sbind (slift (jidx result ''command_hash'')) (\<lambda>applied_hash.
        sbind (slift (jidx result ''command_count'')) (\<lambda>command_count.
        sbind (slift (jidx result ''output_hash'')) (\<lambda>output_hash.
        sbind (evidence_of e run_id phase_id ''configuration_block''
            (JObj [(''block_id'', block_id), (''rendered_command_hash'', rendered_hash),
                   (''applied_command_hash'', applied_hash), (''command_count'', command_count),
                   (''output_hash'', output_hash)]) device_id) (\<lambda>_.
        sret ()))))))))))))"

text \<open>The phase of one device, when it has one: \<open>next((item for item in ...), None)\<close>.\<close>

fun find_phase :: "string \<Rightarrow> json list \<Rightarrow> json result" where
  "find_phase phase_id [] = Inr JNull"
| "find_phase phase_id (p # ps) =
     (ebind (jidx p ''phase_id'') (\<lambda>i.
        if i = JStr phase_id then Inr p else find_phase phase_id ps))"

definition apply_device_phase :: "'w worker_env \<Rightarrow> string \<Rightarrow> string \<Rightarrow> string \<times> json \<Rightarrow> ('w, unit) work" where
  "apply_device_phase e run_id phase_id part =
     (case part of (device_id, device) \<Rightarrow>
        (sbind (slift (items_at device ''phases'')) (\<lambda>phases.
           sbind (slift (find_phase phase_id phases)) (\<lambda>phase.
           (if \<not> truthy phase then sret ()
              else (sbind (slift (items_at phase ''blocks'')) (\<lambda>blocks.
                 sbind (s_mapM (apply_block e run_id phase_id device_id) blocks) (\<lambda>_.
                 sret ()))))))))"

definition apply_phase ::
    "'w worker_env \<Rightarrow> string \<Rightarrow> json list \<Rightarrow> json \<Rightarrow> (string \<times> json) list \<Rightarrow> string \<Rightarrow> ('w, unit) work" where
  "apply_phase e run_id gate_plan manifest parts phase_id =
     (sbind (s_get ws_ise) (\<lambda>ise.
        sbind ((if phase_id = ''policy_plane'' \<and> ise then apply_ise e run_id phase_id manifest else sret ())) (\<lambda>_.
        sbind (s_mapM (apply_device_phase e run_id phase_id) (sort_key fst parts)) (\<lambda>_.
        sbind (slift (gates_of phase_id gate_plan)) (\<lambda>gates.
        sbind (first_failing e run_id gates) (\<lambda>failed.
        (case failed of None \<Rightarrow> sret () | Some g \<Rightarrow> sraise (WorkerError ''Operational gate failed''))))))))"

definition ordered_phases :: "json \<Rightarrow> string list result" where
  "ordered_phases plan =
     (ebind (items_at plan ''phases'') (\<lambda>phases.
        ebind (mapE (\<lambda>p. str_at p ''id'') phases) (\<lambda>ids.
        Inr (filter (\<lambda>i. i \<notin> {''precheck'', ''checkpoint'', ''endpoint_assurance''}) ids))))"

definition reservation_to ::
    "'w worker_env \<Rightarrow> run_row \<Rightarrow> string \<Rightarrow> bool \<Rightarrow> ('w, unit) work" where
  "reservation_to e run state verified =
     (sbind (store_read (get_plan (rn_plan_id run))) (\<lambda>plan_row.
        (if text_or_empty (pl_reservation plan_row) = [] then sret ()
           else (sbind (store_op e (\<lambda>rt. transition_design_reservation rt (text_or_empty (pl_reservation plan_row))
                       state (we_actor e) verified)) (\<lambda>_.
              sret ())))))"

definition ise_changed :: "'w worker_env \<Rightarrow> ('w, bool) work" where
  "ise_changed e s =
     (Inr (ws_ise s \<and> (case we_ise e of None \<Rightarrow> False | Some ise \<Rightarrow> ie_has_changes ise (ws_world s))), s)"

text \<open>A precheck has failed: nothing was changed, the run fails.\<close>

definition refuse_apply :: "'w worker_env \<Rightarrow> run_row \<Rightarrow> json \<Rightarrow> ('w, apply_result) work" where
  "refuse_apply e run gate =
     (sbind (slift (jidx gate ''gate_id'')) (\<lambda>gate_id.
        sbind (run_to e (rn_id run) ApplyFailed
            (JObj [(''reason'', JStr ''precheck_failed''), (''gate_id'', gate_id)])) (\<lambda>updated.
        sret \<lparr>ar_succeeded = False, ar_run = updated, ar_rolled_back = False, ar_failure = None\<rparr>)))"

text \<open>The phases of the plan, in its order, and the commit.\<close>

definition run_phases ::
    "'w worker_env \<Rightarrow> run_row \<Rightarrow> json \<Rightarrow> json \<Rightarrow> json list \<Rightarrow> json \<Rightarrow> (string \<times> json) list \<Rightarrow> ('w, apply_result) work" where
  "run_phases e run plan artifact gate_plan manifest parts =
     (sbind (slift (ordered_phases plan)) (\<lambda>phases.
        sbind (s_mapM (apply_phase e (rn_id run) gate_plan manifest parts) phases) (\<lambda>_.
        sbind (s_get ws_ise) (\<lambda>ise.
        sbind (s_get ws_ise_applied) (\<lambda>applied.
        sbind (sguard (ise \<and> \<not> applied)
            (WorkerError ''ISE manifest was not bound to the policy_plane phase'')) (\<lambda>_.
        sbind (slift (str_at artifact ''artifact_hash'')) (\<lambda>artifact_hash.
        sbind (slift (jidx artifact ''owned_state'')) (\<lambda>owned_state.
        sbind (s_get ws_changed) (\<lambda>changed.
        sbind (ise_changed e) (\<lambda>ise_has.
        sbind (store_op e (\<lambda>rt. complete_apply rt (rn_id run) artifact_hash owned_state (we_actor e)
            (JObj [(''changed_devices'', jstrs (sort changed)),
                   (''changed_external_systems'', jstrs (if ise_has then [''ise''] else []))]))) (\<lambda>updated.
        sbind (reservation_to e run ''committed'' False) (\<lambda>_.
        sret \<lparr>ar_succeeded = True, ar_run = updated, ar_rolled_back = False, ar_failure = None\<rparr>))))))))))))"

text \<open>The prechecks have passed: checkpoints of all devices, then the phases.\<close>

definition apply_changes ::
    "'w worker_env \<Rightarrow> run_row \<Rightarrow> json \<Rightarrow> json \<Rightarrow> json list \<Rightarrow> json \<Rightarrow> ('w, apply_result) work" where
  "apply_changes e run plan artifact gate_plan manifest =
     (sbind (s_get ws_adapters) (\<lambda>ids.
        sbind (s_mapM (take_checkpoint e (rn_id run)) (sort ids)) (\<lambda>_.
        sbind (slift (jidx artifact ''devices'')) (\<lambda>artifact_devices.
        sbind (slift (items_of artifact_devices)) (\<lambda>parts.
        run_phases e run plan artifact gate_plan manifest parts)))))"

text \<open>The body of the \<open>try\<close>.\<close>

definition apply_body ::
    "'w worker_env \<Rightarrow> run_row \<Rightarrow> json \<Rightarrow> json \<Rightarrow> (string \<times> json) list \<Rightarrow> json list \<Rightarrow> json
       \<Rightarrow> ('w, apply_result) work" where
  "apply_body e run plan artifact devices gate_plan manifest =
     (sbind (s_mapM (open_adapter e devices) (sort (map fst devices))) (\<lambda>_.
        sbind ((if truthy manifest then prepare_ise e (rn_id run) manifest else sret ())) (\<lambda>_.
        sbind (slift (gates_of ''precheck'' gate_plan)) (\<lambda>prechecks.
        sbind (first_failing e (rn_id run) prechecks) (\<lambda>failed.
        (case failed of
             Some gate \<Rightarrow> refuse_apply e run gate
           | None \<Rightarrow> apply_changes e run plan artifact gate_plan manifest))))))"

section \<open>The rollback\<close>

text \<open>
  One device: every exception becomes an entry of \<open>rollback_failures\<close>. The ISE adapter comes
  last, when it has changes.
\<close>

definition rollback_device :: "'w worker_env \<Rightarrow> string \<Rightarrow> string \<Rightarrow> ('w, json list) work" where
  "rollback_device e run_id device_id =
     s_try
       ((sbind (adapter device_id) (\<lambda>_.
          sbind (checkpoint_of device_id) (\<lambda>checkpoint.
          sbind (world_op (we_rollback e device_id checkpoint)) (\<lambda>result.
          sbind (slift (require_verified result ''Rollback did not return verified evidence'')) (\<lambda>_.
          sbind (evidence_of e run_id ''rollback'' ''configure_replace'' result device_id) (\<lambda>_.
          sret [])))))))
       (\<lambda>x. sret [JObj [(''device_id'', JStr device_id), (''error_type'', JStr (exn_name x))]])"

definition rollback_ise :: "'w worker_env \<Rightarrow> string \<Rightarrow> json \<Rightarrow> ('w, json list) work" where
  "rollback_ise e run_id manifest =
     (case we_ise e of
        None \<Rightarrow> sret []
      | Some ise \<Rightarrow>
          s_try
            ((sbind (world_op (ie_rollback ise)) (\<lambda>result.
               sbind (slift (require_verified result ''ISE rollback did not return verified evidence'')) (\<lambda>_.
               sbind (slift (ise_node manifest)) (\<lambda>node.
               sbind (evidence_of e run_id ''rollback'' ''ise_ers_rollback'' result node) (\<lambda>_.
               sret []))))))
            (\<lambda>x. sret [JObj [(''external_system'', JStr ''ise''), (''error_type'', JStr (exn_name x))]]))"

definition rollback_targets :: "'w wstate \<Rightarrow> string list" where
  "rollback_targets s =
     rev (if ws_changed s = [] then sort (map fst (ws_checkpoints s)) else ws_changed s)"

definition roll_back :: "'w worker_env \<Rightarrow> run_row \<Rightarrow> json \<Rightarrow> bool \<Rightarrow> exn \<Rightarrow> ('w, apply_result) work" where
  "roll_back e run manifest ise_has x =
     (sbind (run_to e (rn_id run) RollbackRunning (JObj [(''failure_type'', JStr (exn_name x))])) (\<lambda>_.
        sbind (s_get rollback_targets) (\<lambda>targets.
        sbind (s_mapM (rollback_device e (rn_id run)) targets) (\<lambda>device_failures.
        sbind ((if ise_has then rollback_ise e (rn_id run) manifest else sret [])) (\<lambda>ise_failures.
        let failures = concat device_failures @ ise_failures in
        sbind (run_to e (rn_id run) (if failures = [] then RolledBack else RollbackFailed)
            (JObj [(''rollback_failures'', JArr failures)])) (\<lambda>updated.
        sbind (reservation_to e run (if failures = [] then ''released'' else ''quarantined'') (failures = [])) (\<lambda>_.
        sret \<lparr>ar_succeeded = False, ar_run = updated, ar_rolled_back = (failures = []),
                ar_failure = Some (exn_name x)\<rparr>)))))))"

text \<open>The handler: roll back when there is something to roll back, otherwise only fail the run.\<close>

definition on_failure :: "'w worker_env \<Rightarrow> run_row \<Rightarrow> json \<Rightarrow> exn \<Rightarrow> ('w, apply_result) work" where
  "on_failure e run manifest x =
     (sbind (ise_changed e) (\<lambda>ise_has.
        sbind (s_get ws_checkpoints) (\<lambda>checkpoints.
        (if checkpoints \<noteq> [] \<or> ise_has then roll_back e run manifest ise_has x
           else (sbind (run_to e (rn_id run) ApplyFailed (JObj [(''failure_type'', JStr (exn_name x))])) (\<lambda>updated.
              sret \<lparr>ar_succeeded = False, ar_run = updated, ar_rolled_back = False,
                           ar_failure = Some (exn_name x)\<rparr>))))))"

definition close_all :: "'w worker_env \<Rightarrow> ('w, unit) work" where
  "close_all e =
     (sbind (s_get ws_adapters) (\<lambda>ids.
        sbind (s_mapM (\<lambda>i. world_op (we_close e i)) ids) (\<lambda>_.
        sbind (s_get ws_ise) (\<lambda>ise.
        (case we_ise e of
             Some i \<Rightarrow> (if ise then world_op (ie_close i) else sret ())
           | None \<Rightarrow> sret ())))))"

section \<open>\<open>process_apply\<close>\<close>

definition check_binding :: "run_row \<Rightarrow> json \<Rightarrow> json \<Rightarrow> unit result" where
  "check_binding run plan artifact =
     (ebind (items_of artifact) (\<lambda>kvs.
        let supplied = (case map_of kvs ''artifact_hash'' of None \<Rightarrow> [] | Some v \<Rightarrow> py_str v) in
        ebind (raise_if (length supplied \<noteq> 64 \<or> sha256_json (JObj (del_field ''artifact_hash'' kvs)) \<noteq> supplied
             \<or> supplied \<noteq> rn_artifact_hash run)
           (ConflictError ''Artifact integrity or run binding check failed'')) (\<lambda>_.
        ebind (jget artifact ''plan_hash'') (\<lambda>artifact_plan.
        (if py_str artifact_plan \<noteq> rn_plan_hash run
          then Inl (ConflictError ''Plan integrity or run binding check failed'')
          else (ebind (jget plan ''plan_hash'') (\<lambda>plan_hash.
             raise_if (py_str plan_hash \<noteq> rn_plan_hash run)
                     (ConflictError ''Plan integrity or run binding check failed''))))))))"

text \<open>After the checks: what runs before \<open>apply_running\<close> is committed, then the transaction.\<close>

definition start_apply ::
    "'w worker_env \<Rightarrow> run_row \<Rightarrow> json \<Rightarrow> json \<Rightarrow> json \<Rightarrow> ('w, apply_result) work" where
  "start_apply e run intent plan artifact =
     (sbind (slift (run_devices intent artifact)) (\<lambda>devices.
        sbind (slift (we_gate_plan e intent artifact)) (\<lambda>gate_plan.
        sbind (slift (ise_part artifact)) (\<lambda>manifest.
        sbind (world_op (preflight_secret_sweep artifact intent (we_secret e) (we_credentials e))) (\<lambda>_.
        sbind (run_to e (rn_id run) ApplyRunning (JObj [])) (\<lambda>_.
        s_finally
            (s_try (apply_body e run plan artifact devices gate_plan manifest) (on_failure e run manifest))
            (close_all e)))))))"

definition process_apply ::
    "'w worker_env \<Rightarrow> string \<Rightarrow> json \<Rightarrow> json \<Rightarrow> json \<Rightarrow> string list \<Rightarrow> ('w, apply_result) work" where
  "process_apply e run_id intent plan artifact allowed_blocker_codes =
     (sbind (store_read (get_run run_id)) (\<lambda>run.
        sbind (sguard (rn_mode run \<noteq> Apply \<or> rn_status run \<noteq> ApplyQueued)
            (ConflictError ''Run is not queued for apply'')) (\<lambda>_.
        sbind (slift (check_binding run plan artifact)) (\<lambda>_.
        sbind (slift (jget artifact ''blocking_requirements'')) (\<lambda>blockers.
        sbind (slift (unresolved_blocker_codes blockers allowed_blocker_codes)) (\<lambda>unresolved.
        (if unresolved \<noteq> []
           then (sbind (run_to e run_id ApplyFailed
                       (JObj [(''reason'', JStr ''artifact_has_blocking_requirements''),
                              (''unresolved_blocker_codes'', jstrs unresolved)])) (\<lambda>updated.
              sret \<lparr>ar_succeeded = False, ar_run = updated, ar_rolled_back = False, ar_failure = None\<rparr>))
           else start_apply e run intent plan artifact)))))))"

text \<open>A worker at the start of its run.\<close>

definition worker_start :: "store \<Rightarrow> 'w \<Rightarrow> 'w wstate" where
  "worker_start s w = \<lparr>ws_store = s, ws_world = w, ws_adapters = [], ws_checkpoints = [], ws_changed = [],
     ws_ise = False, ws_ise_applied = False\<rparr>"

end
