(* ===== verification/WorkerLaws.thy ===== *)
theory WorkerLaws
  imports Worker StoreSystem
begin

text \<open>
  What every step of the worker does to the store: it runs transactions of the store system and
  nothing else. A predicate that transactions preserve is kept by the whole worker, whatever the
  adapters, resolvers and gates do and however the run ends.
\<close>

section \<open>The transactions of a worker\<close>

inductive worker_step :: "store \<Rightarrow> store \<Rightarrow> bool" where
  wk_transition: "transition_run rt rid st actor detail s = Inr (x, t) \<Longrightarrow> worker_step s t"
| wk_evidence: "add_evidence rt rid ph ty payload actor dev s = Inr (x, t) \<Longrightarrow> worker_step s t"
| wk_complete: "complete_apply rt rid ah m actor detail s = Inr (x, t) \<Longrightarrow> worker_step s t"
| wk_reservation: "transition_design_reservation rt rid st actor verified s = Inr (x, t) \<Longrightarrow> worker_step s t"

lemma worker_step_store_step: "worker_step s t \<Longrightarrow> store_step derive s t"
  by (induction rule: worker_step.induct) (blast intro: store_step.intros)+

lemma worker_steps_store_steps: "worker_step\<^sup>*\<^sup>* s t \<Longrightarrow> (store_step derive)\<^sup>*\<^sup>* s t"
  by (erule rtranclp_mono [THEN predicate2D, rotated]) (blast intro: worker_step_store_step)

section \<open>Steps that leave the store alone\<close>

text \<open>For any predicate on the store: only \<open>store_op\<close> can change it.\<close>

lemma keeps_store_op:
  assumes "\<And>rt s x t. f rt s = Inr (x, t) \<Longrightarrow> P s \<Longrightarrow> P t"
  shows "keeps (\<lambda>u. P (ws_store u)) (store_op e f)"
  by (rule keepsI) (auto simp: store_op_def Let_def split: prod.splits sum.splits intro: assms)

lemma keeps_store_read: "keeps (\<lambda>u. P (ws_store u)) (store_read f)"
  by (rule keepsI) (auto simp: store_read_def)

lemma keeps_world_op: "keeps (\<lambda>u. P (ws_store u)) (world_op f)"
  by (rule keepsI) (auto simp: world_op_def split: prod.splits)

lemma keeps_s_get: "keeps I (s_get f)"
  by (rule keepsI) (auto simp: s_get_def)

lemma keeps_s_modify: "(\<And>u. ws_store (f u) = ws_store u) \<Longrightarrow> keeps (\<lambda>u. P (ws_store u)) (s_modify f)"
  by (rule keepsI) (auto simp: s_modify_def)

lemma keeps_s_finally: "keeps I m \<Longrightarrow> keeps I c \<Longrightarrow> keeps I (s_finally m c)"
  by (rule keepsI) (auto simp: s_finally_def split: prod.splits sum.splits dest: keepsD)

lemma keeps_adapter: "keeps I (adapter d)"
  by (rule keepsI) (auto simp: adapter_def)

lemma keeps_checkpoint_of: "keeps I (checkpoint_of d)"
  by (rule keepsI) (auto simp: checkpoint_of_def)

lemma keeps_ise_changed: "keeps I (ise_changed e)"
  by (rule keepsI) (auto simp: ise_changed_def)

lemma keeps_opt: "keeps I m \<Longrightarrow> (\<And>x. keeps I (f x)) \<Longrightarrow> keeps I (case v of None \<Rightarrow> m | Some x \<Rightarrow> f x)"
  by (cases v) auto

lemma keeps_pair: "(\<And>x y. keeps I (f x y)) \<Longrightarrow> keeps I (case p of (x, y) \<Rightarrow> f x y)"
  by (cases p) simp

lemma still_let: "keeps I (f v) \<Longrightarrow> keeps I (let x = v in f x)"
  by simp

lemmas still = keeps_store_read keeps_world_op keeps_s_get keeps_adapter keeps_checkpoint_of keeps_ise_changed
  keeps_opt keeps_pair still_let keeps_s_finally

lemma keeps_close_all: "keeps (\<lambda>u. P (ws_store u)) (close_all e)"
  unfolding close_all_def by (intro keeps still)

section \<open>Predicates that transactions preserve\<close>

locale step_closed =
  fixes P :: "store \<Rightarrow> bool"
  assumes closed: "worker_step s t \<Longrightarrow> P s \<Longrightarrow> P t"
begin

abbreviation on_store :: "'w wstate \<Rightarrow> bool" where "on_store u \<equiv> P (ws_store u)"

lemma keeps_op:
  "(\<And>rt s x t. f rt s = Inr (x, t) \<Longrightarrow> worker_step s t) \<Longrightarrow> keeps on_store (store_op e f)"
  by (intro keeps_store_op) (blast intro: closed)

lemma keeps_run_to: "keeps on_store (run_to e rid st d)"
  unfolding run_to_def by (rule keeps_op) (rule worker_step.wk_transition)

lemma keeps_evidence_of: "keeps on_store (evidence_of e rid ph k p d)"
  unfolding evidence_of_def by (rule keeps_op) (rule worker_step.wk_evidence)

lemmas steps = still keeps_run_to keeps_evidence_of

lemma keeps_record_gate: "keeps on_store (record_gate e rid g d)"
  unfolding record_gate_def by (intro keeps steps)

lemma keeps_first_failing: "keeps on_store (first_failing e rid gs)"
  by (induction gs; unfold first_failing.simps; intro keeps steps keeps_record_gate; assumption?)

lemma keeps_open_adapter: "keeps on_store (open_adapter e ds d)"
  unfolding open_adapter_def by (intro keeps steps keeps_s_modify) simp

lemma keeps_prepare_ise: "keeps on_store (prepare_ise e rid m)"
  unfolding prepare_ise_def by (intro keeps steps keeps_s_modify) simp

lemma keeps_take_checkpoint: "keeps on_store (take_checkpoint e rid d)"
  unfolding take_checkpoint_def by (intro keeps steps keeps_s_modify) simp

lemma keeps_apply_ise: "keeps on_store (apply_ise e rid ph m)"
  unfolding apply_ise_def by (intro keeps steps keeps_s_modify) simp

lemma keeps_apply_block: "keeps on_store (apply_block e rid ph d b)"
  unfolding apply_block_def by (intro keeps steps keeps_s_modify) simp

lemma keeps_apply_device_phase: "keeps on_store (apply_device_phase e rid ph part)"
  unfolding apply_device_phase_def by (intro keeps steps keeps_apply_block)

lemma keeps_apply_phase: "keeps on_store (apply_phase e rid gp m parts ph)"
  unfolding apply_phase_def by (intro keeps steps keeps_apply_ise keeps_apply_device_phase keeps_first_failing)

lemma keeps_reservation_to: "keeps on_store (reservation_to e run st v)"
  unfolding reservation_to_def by (intro keeps steps keeps_op) (rule worker_step.wk_reservation)

lemma keeps_complete: "keeps on_store (store_op e (\<lambda>rt. complete_apply rt rid ah m actor d))"
  by (rule keeps_op) (rule worker_step.wk_complete)

lemma keeps_refuse_apply: "keeps on_store (refuse_apply e run g)"
  unfolding refuse_apply_def by (intro keeps steps)

lemma keeps_run_phases: "keeps on_store (run_phases e run plan artifact gp m parts)"
  unfolding run_phases_def by (intro keeps steps keeps_apply_phase keeps_reservation_to keeps_complete)

lemma keeps_apply_changes: "keeps on_store (apply_changes e run plan artifact gp m)"
  unfolding apply_changes_def by (intro keeps steps keeps_take_checkpoint keeps_run_phases)

lemma keeps_apply_body: "keeps on_store (apply_body e run plan artifact ds gp m)"
  unfolding apply_body_def
  by (intro keeps steps keeps_open_adapter keeps_prepare_ise keeps_first_failing keeps_refuse_apply
      keeps_apply_changes)

lemma keeps_rollback_device: "keeps on_store (rollback_device e rid d)"
  unfolding rollback_device_def by (intro keeps steps)

lemma keeps_rollback_ise: "keeps on_store (rollback_ise e rid m)"
  unfolding rollback_ise_def by (intro keeps steps)

lemma keeps_on_failure: "keeps on_store (on_failure e run m x)"
  unfolding on_failure_def roll_back_def
  by (intro keeps steps keeps_rollback_device keeps_rollback_ise keeps_reservation_to)

lemma keeps_start_apply: "keeps on_store (start_apply e run intent plan artifact)"
  unfolding start_apply_def by (intro keeps steps keeps_apply_body keeps_on_failure keeps_close_all)

lemma keeps_process_apply: "keeps on_store (process_apply e rid intent plan artifact allowed)"
  unfolding process_apply_def by (intro keeps steps keeps_start_apply)

end

interpretation after: step_closed "worker_step\<^sup>*\<^sup>* s" for s
  by unfold_locales (rule rtranclp.rtrancl_into_rtrancl)

text \<open>So every part of the worker advances the store by transactions.\<close>

lemma advances:
  "keeps (\<lambda>u. worker_step\<^sup>*\<^sup>* (ws_store v) (ws_store u)) m \<Longrightarrow> m v = (r, u) \<Longrightarrow> worker_step\<^sup>*\<^sup>* (ws_store v) (ws_store u)"
  by (erule keepsD) simp_all

text \<open>Invariants of the store, and what row histories give, hold throughout.\<close>

lemma worker_step_inv: "worker_step s t \<Longrightarrow> store_inv s \<Longrightarrow> store_inv t \<and> row_kept s t"
  using worker_step_store_step [of s t undefined] store_inv_steps [of undefined s t] row_kept_steps [of undefined s t]
  by blast

lemma worker_steps_inv: "worker_step\<^sup>*\<^sup>* s t \<Longrightarrow> store_inv s \<Longrightarrow> store_inv t \<and> row_kept s t"
  using worker_steps_store_steps [of s t undefined] store_inv_steps [of undefined s t] row_kept_steps [of undefined s t]
  by blast

interpretation inv: step_closed store_inv
  by unfold_locales (blast dest: worker_step_inv)

text \<open>The worker writes neither plans nor intents nor approvals.\<close>

lemma worker_step_plans: "worker_step s t \<Longrightarrow> plans t = plans s"
proof (induction rule: worker_step.induct)
  case (wk_transition rt rid st actor detail s x t)
  then show ?case by (auto simp: transition_run_def Let_def res set_run_status_def release_lock_def table_update_def elim!: append_auditE)
next
  case (wk_evidence rt rid ph ty payload actor dev s x t)
  then show ?case by (auto simp: add_evidence_def Let_def res insert_evidence_def evidence_tbl.insert_Inr
      split: option.splits if_splits elim!: append_auditE)
next
  case (wk_complete rt rid ah m actor detail s x t)
  then show ?case
    by (elim complete_applyE append_auditE) (auto simp: end_run_def set_run_status_def release_lock_def table_update_def)
next
  case (wk_reservation rt rid st actor verified s x t)
  then show ?case by (auto simp: transition_design_reservation_def Let_def res set_reservation_state_def table_update_def
      elim!: append_auditE)
qed

text \<open>Evidence is never lost.\<close>

lemma worker_step_evidence: "worker_step s t \<Longrightarrow> set (evidence s) \<subseteq> set (evidence t)"
proof (induction rule: worker_step.induct)
  case (wk_transition rt rid st actor detail s x t)
  then show ?case by (auto simp: transition_run_def Let_def res set_run_status_def release_lock_def table_update_def elim!: append_auditE)
next
  case (wk_evidence rt rid ph ty payload actor dev s x t)
  then show ?case by (auto simp: add_evidence_def Let_def res insert_evidence_def evidence_tbl.insert_Inr
      split: option.splits if_splits elim!: append_auditE)
next
  case (wk_complete rt rid ah m actor detail s x t)
  then show ?case
    by (elim complete_applyE append_auditE) (auto simp: end_run_def set_run_status_def release_lock_def table_update_def)
next
  case (wk_reservation rt rid st actor verified s x t)
  then show ?case by (auto simp: transition_design_reservation_def Let_def res set_reservation_state_def table_update_def
      elim!: append_auditE)
qed

interpretation plans_stay: step_closed "\<lambda>t. plans t = ps" for ps
  by unfold_locales (simp add: worker_step_plans)

end
