(* ===== verification/WorkerOutcome.thy ===== *)
theory WorkerOutcome
  imports WorkerLaws
begin

text \<open>
  How a run of the worker ends: the status of the run, the state of its reservation, and the
  gates that a success has behind it.
\<close>

section \<open>Status and reservation\<close>

definition outcome :: "run_row \<Rightarrow> apply_result \<Rightarrow> 'w wstate \<Rightarrow> bool" where
  "outcome run res u \<longleftrightarrow>
     table_get runs rn_id (rn_id run) (ws_store u) = Some (ar_run res)
     \<and> (if ar_succeeded res then rn_status (ar_run res) = ApplySucceeded \<and> \<not> ar_rolled_back res
        else if ar_rolled_back res then rn_status (ar_run res) = RolledBack
        else rn_status (ar_run res) \<in> {ApplyFailed, RollbackFailed})"

text \<open>The state of the reservation that the run's plan names, when it names one.\<close>

definition plan_reservation_is :: "store \<Rightarrow> string \<Rightarrow> res_state \<Rightarrow> bool" where
  "plan_reservation_is s plan_id st \<longleftrightarrow>
     (\<forall>p. get_plan plan_id s = Inr p \<and> text_or_empty (pl_reservation p) \<noteq> [] \<longrightarrow>
        (\<exists>r. table_get reservations rs_id (text_or_empty (pl_reservation p)) s = Some r \<and> rs_state r = st))"

definition settled :: "run_row \<Rightarrow> apply_result \<Rightarrow> 'w wstate \<Rightarrow> bool" where
  "settled run res u \<longleftrightarrow> outcome run res u
     \<and> (rn_status (ar_run res) = ApplySucceeded \<longrightarrow> plan_reservation_is (ws_store u) (rn_plan_id run) Committed)
     \<and> (rn_status (ar_run res) = RolledBack \<longrightarrow> plan_reservation_is (ws_store u) (rn_plan_id run) Released)
     \<and> (rn_status (ar_run res) = RollbackFailed \<longrightarrow> plan_reservation_is (ws_store u) (rn_plan_id run) Quarantined)"

lemma store_op_Inr:
  "store_op e f v = (Inr x, u) \<longleftrightarrow>
     (\<exists>rt w t. we_clock e (ws_world v) = (rt, w) \<and> f rt (ws_store v) = Inr (x, t) \<and> u = v\<lparr>ws_world := w, ws_store := t\<rparr>)"
  by (auto simp: store_op_def Let_def split: prod.splits sum.splits)

lemma end_run_status:
  assumes "x \<in> set (runs (end_run u rid st s))" and "rn_id x = rid"
  shows "rn_status x = st"
proof -
  from assms(1) obtain y where "x = (if rn_id y = rid then y\<lparr>rn_status := st, rn_updated_at := u\<rparr> else y)"
    unfolding end_run_simps set_map by blast
  then show ?thesis using assms(2) by (cases "rn_id y = rid") simp_all
qed

lemma set_reservation_state_state:
  assumes "x \<in> set (reservations (set_reservation_state u rid st s))" and "rs_id x = rid"
  shows "rs_state x = st"
proof -
  from assms(1) obtain y where "x = (if rs_id y = rid then y\<lparr>rs_state := st, rs_updated_at := u\<rparr> else y)"
    unfolding set_reservation_state_simps set_map by blast
  then show ?thesis using assms(2) by (cases "rs_id y = rid") simp_all
qed

lemma run_to_Inr:
  assumes "run_to e rid st d v = (Inr row, u)"
  shows "table_get runs rn_id rid (ws_store u) = Some row \<and> rn_status row = st"
proof -
  from assms obtain rt t where t: "transition_run rt rid st (we_actor e) d (ws_store v) = Inr (row, t)" "ws_store u = t"
    by (auto simp: run_to_def store_op_Inr)
  from t(1) obtain r a where r: "t = (end_run (now rt 0) rid st (ws_store v))\<lparr>audit := audit (ws_store v) @ [a]\<rparr>"
    "table_get runs rn_id rid t = Some row" by (rule transition_runE)
  from r(1) have "runs t = runs (end_run (now rt 0) rid st (ws_store v))" by simp
  with runs_tbl.get_Some [OF r(2)] have "rn_status row = st" using end_run_status by metis
  then show ?thesis using r(2) t(2) by simp
qed

lemma complete_Inr:
  assumes "store_op e (\<lambda>rt. complete_apply rt rid ah m actor d) v = (Inr row, u)"
  shows "table_get runs rn_id rid (ws_store u) = Some row \<and> rn_status row = ApplySucceeded"
proof -
  from assms obtain rt t where t: "complete_apply rt rid ah m actor d (ws_store v) = Inr (row, t)" "ws_store u = t"
    by (auto simp: store_op_Inr)
  from t(1) obtain r w x x' p1 p2 where "table_get runs rn_id rid (ws_store v) = Some r" "rn_status r = ApplyRunning"
    "rn_artifact_hash r = ah" "validate_owned_state m None = Inr ()" "rn_fabric r = py_str (field m ''fabric_id'')"
    "\<forall>y \<in> set (owned (ws_store v)). \<not> owned_clash w y" "ow_source_reference w = rid" "ow_source_type w = SuccessfulApply"
    "ow_fabric w = rn_fabric r" "ow_source_artifact_hash w = Some ah" "ow_manifest w = json_column m"
    and x: "x = end_run (now rt 0) rid ApplySucceeded ((ws_store v)\<lparr>owned := owned (ws_store v) @ [w]\<rparr>)"
    and log: "append_audit rt 0 ''run'' rid ''run.status_changed'' actor p1 x = Inr x'"
      "append_audit rt 1 ''fabric'' (rn_fabric r) ''owned_state.committed'' actor p2 x' = Inr t"
    and g: "table_get runs rn_id rid t = Some row" by (rule complete_applyE)
  from log have "runs t = runs x" by (auto elim!: append_auditE)
  with runs_tbl.get_Some [OF g] have "rn_status row = ApplySucceeded" unfolding x using end_run_status by metis
  then show ?thesis using g t(2) by simp
qed

lemma transition_reservationD:
  assumes "transition_design_reservation rt rid new_state actor verified s = Inr (x, t)"
    and "requested_state new_state = Some st"
  shows "runs t = runs s \<and> plans t = plans s
    \<and> (\<exists>r. table_get reservations rs_id rid s = Some r \<and> reservation_allowed (rs_state r) st)
    \<and> (\<exists>r. table_get reservations rs_id rid t = Some r \<and> rs_state r = st)"
proof -
  from assms obtain r s2 u where r: "table_get reservations rs_id rid s = Some r" "reservation_allowed (rs_state r) st"
    and log: "\<exists>payload. append_audit rt 0 ''reservation'' rid (''reservation.'' @ new_state) actor payload
      (set_reservation_state (now rt 0) rid st s) = Inr s2"
    and u: "table_get reservations rs_id rid s2 = Some u" and t: "t = s2"
    by (auto simp: transition_design_reservation_def Let_def res)
  from log obtain a where s2: "s2 = (set_reservation_state (now rt 0) rid st s)\<lparr>audit := audit s @ [a]\<rparr>"
    by (auto elim!: append_auditE simp: set_reservation_state_def table_update_def)
  from s2 have "reservations s2 = reservations (set_reservation_state (now rt 0) rid st s)" by simp
  with reservations_tbl.get_Some [OF u] have "rs_state u = st" using set_reservation_state_state by metis
  then show ?thesis using r u by (auto simp: t s2 set_reservation_state_def table_update_def)
qed

lemma reservation_to_Inr:
  assumes "reservation_to e run new_state verified v = (Inr (), u)" and "requested_state new_state = Some st"
  shows "runs (ws_store u) = runs (ws_store v) \<and> plan_reservation_is (ws_store u) (rn_plan_id run) st
    \<and> (\<forall>p. get_plan (rn_plan_id run) (ws_store v) = Inr p \<and> text_or_empty (pl_reservation p) \<noteq> [] \<longrightarrow>
         (\<exists>r. table_get reservations rs_id (text_or_empty (pl_reservation p)) (ws_store v) = Some r
            \<and> reservation_allowed (rs_state r) st))"
proof -
  from assms(1) obtain p where p: "get_plan (rn_plan_id run) (ws_store v) = Inr p"
    and c: "(if text_or_empty (pl_reservation p) = [] then sret ()
           else sbind (store_op e (\<lambda>rt. transition_design_reservation rt (text_or_empty (pl_reservation p))
                       new_state (we_actor e) verified)) (\<lambda>_. sret ())) v = (Inr (), u)"
    by (auto simp: reservation_to_def res store_read_def)
  show ?thesis
  proof (cases "text_or_empty (pl_reservation p) = []")
    case True
    with c have "u = v" by simp
    with True p show ?thesis by (simp add: plan_reservation_is_def)
  next
    case False
    with c obtain rt x t where t: "transition_design_reservation rt (text_or_empty (pl_reservation p)) new_state
        (we_actor e) verified (ws_store v) = Inr (x, t)" "ws_store u = t"
      by (auto simp: res store_op_Inr)
    from transition_reservationD [OF t(1) assms(2)] t(2) p False show ?thesis
      by (auto simp: plan_reservation_is_def get_plan_def table_get_def)
  qed
qed

section \<open>The two ways through the body\<close>

lemma sbind_InrE: "sbind m f s = (Inr y, u) \<Longrightarrow> (\<And>x t. m s = (Inr x, t) \<Longrightarrow> f x t = (Inr y, u) \<Longrightarrow> R) \<Longrightarrow> R"
  by (auto simp: sbind_Inr)

lemma slift_InrE: "slift r s = (Inr x, t) \<Longrightarrow> (r = Inr x \<Longrightarrow> t = s \<Longrightarrow> R) \<Longrightarrow> R"
  unfolding slift_def prod.inject by blast

lemma s_get_InrE: "s_get f s = (Inr x, t) \<Longrightarrow> (x = f s \<Longrightarrow> t = s \<Longrightarrow> R) \<Longrightarrow> R"
  unfolding s_get_def prod.inject sum.inject by blast

lemma sret_InrE: "sret y s = (Inr x, t) \<Longrightarrow> (x = y \<Longrightarrow> t = s \<Longrightarrow> R) \<Longrightarrow> R"
  unfolding sret_def prod.inject sum.inject by blast

lemma sguard_InrE: "sguard c e s = (Inr u, t) \<Longrightarrow> (\<not> c \<Longrightarrow> t = s \<Longrightarrow> R) \<Longrightarrow> R"
  by (auto simp: sguard_Inr)

lemma ise_changed_InrE: "ise_changed e s = (Inr x, t) \<Longrightarrow> (t = s \<Longrightarrow> R) \<Longrightarrow> R"
  unfolding ise_changed_def prod.inject by blast

lemmas run_elims = sbind_InrE slift_InrE s_get_InrE sret_InrE sguard_InrE ise_changed_InrE

lemma apply_body_InrE:
  assumes "apply_body e run plan artifact ds gp m v = (Inr res, u)"
  obtains v1 v2 v3 pre failed us z where
      "s_mapM (open_adapter e ds) (sort (map fst ds)) v = (Inr us, v1)"
      "(if truthy m then prepare_ise e (rn_id run) m else sret ()) v1 = (Inr z, v2)"
      "gates_of ''precheck'' gp = Inr pre" "first_failing e (rn_id run) pre v2 = (Inr failed, v3)"
      "(case failed of Some gate \<Rightarrow> refuse_apply e run gate | None \<Rightarrow> apply_changes e run plan artifact gp m) v3 = (Inr res, u)"
  using assms unfolding apply_body_def by (elim sbind_InrE slift_InrE) blast

lemma refuse_apply_InrE:
  assumes "refuse_apply e run gate v = (Inr res, u)"
  obtains row d where "run_to e (rn_id run) ApplyFailed d v = (Inr row, u)"
      "res = \<lparr>ar_succeeded = False, ar_run = row, ar_rolled_back = False, ar_failure = None\<rparr>"
  using assms unfolding refuse_apply_def by (elim run_elims) blast

lemma apply_changes_InrE:
  assumes "apply_changes e run plan artifact gp m v = (Inr res, u)"
  obtains v1 v2 v3 xs ys z phs arts parts row d ah ow where
      "s_mapM (take_checkpoint e (rn_id run)) (sort (ws_adapters v)) v = (Inr xs, v1)"
      "jidx artifact ''devices'' = Inr arts" "items_of arts = Inr parts" "ordered_phases plan = Inr phs"
      "s_mapM (apply_phase e (rn_id run) gp m parts) phs v1 = (Inr ys, v2)"
      "store_op e (\<lambda>rt. complete_apply rt (rn_id run) ah ow (we_actor e) d) v2 = (Inr row, v3)"
      "reservation_to e run ''committed'' False v3 = (Inr z, u)"
      "res = \<lparr>ar_succeeded = True, ar_run = row, ar_rolled_back = False, ar_failure = None\<rparr>"
  using assms unfolding apply_changes_def run_phases_def by (elim run_elims) blast

section \<open>The run is settled\<close>

lemma keeps_runs_reservation_to: "reservation_to e run st v a = (r, b) \<Longrightarrow> runs (ws_store b) = runs (ws_store a)"
proof -
  have "keeps (\<lambda>u. runs (ws_store u) = runs (ws_store a)) (reservation_to e run st v)"
    unfolding reservation_to_def
    by (intro keeps still keeps_store_op)
      (auto simp: transition_design_reservation_def Let_def res set_reservation_state_def table_update_def elim!: append_auditE)
  then show "reservation_to e run st v a = (r, b) \<Longrightarrow> runs (ws_store b) = runs (ws_store a)"
    using keepsD [of _ _ a r b] by blast
qed

lemma table_get_runs: "runs s = runs t \<Longrightarrow> table_get runs k i s = table_get runs k i t"
  by (simp add: table_get_def)

lemma requested_state_simps [simp]:
  "requested_state ''committed'' = Some Committed" "requested_state ''released'' = Some Released"
  "requested_state ''quarantined'' = Some Quarantined"
  by (simp_all add: requested_state_def)

lemma refuse_apply_settled: "refuse_apply e run gate v = (Inr res, u) \<Longrightarrow> settled run res u"
  by (erule refuse_apply_InrE) (auto simp: settled_def outcome_def dest!: run_to_Inr)

lemma apply_changes_settled:
  assumes "apply_changes e run plan artifact gp m v = (Inr res, u)"
  shows "settled run res u \<and> ar_succeeded res"
proof -
  from assms obtain v2 v3 z row d ah ow where
      c: "store_op e (\<lambda>rt. complete_apply rt (rn_id run) ah ow (we_actor e) d) v2 = (Inr row, v3)"
      and r: "reservation_to e run ''committed'' False v3 = (Inr z, u)"
      and res: "res = \<lparr>ar_succeeded = True, ar_run = row, ar_rolled_back = False, ar_failure = None\<rparr>"
    by (elim apply_changes_InrE) blast
  from complete_Inr [OF c] keeps_runs_reservation_to [OF r]
  have "table_get runs rn_id (rn_id run) (ws_store u) = Some row \<and> rn_status row = ApplySucceeded"
    by (simp add: table_get_def)
  moreover have "plan_reservation_is (ws_store u) (rn_plan_id run) Committed"
    using reservation_to_Inr [of e run "''committed''" False v3 u Committed] r by simp
  ultimately show ?thesis by (simp add: settled_def outcome_def res)
qed

lemma apply_body_settled: "apply_body e run plan artifact ds gp m v = (Inr res, u) \<Longrightarrow> settled run res u"
  by (erule apply_body_InrE) (auto split: option.splits dest: refuse_apply_settled apply_changes_settled)

lemma roll_back_InrE:
  assumes "roll_back e run m ise_has x v = (Inr res, u)"
  obtains v1 v2 v3 row0 row z fs gs d where
    "run_to e (rn_id run) RollbackRunning d v = (Inr row0, v1)"
    "s_mapM (rollback_device e (rn_id run)) (rollback_targets v1) v1 = (Inr fs, v2)"
    "\<exists>d v2'. run_to e (rn_id run) (if concat fs @ gs = [] then RolledBack else RollbackFailed) d v2' = (Inr row, v3)"
    "reservation_to e run (if concat fs @ gs = [] then ''released'' else ''quarantined'') (concat fs @ gs = []) v3 = (Inr z, u)"
    "res = \<lparr>ar_succeeded = False, ar_run = row, ar_rolled_back = (concat fs @ gs = []), ar_failure = Some (exn_name x)\<rparr>"
  using assms unfolding roll_back_def Let_def by (elim run_elims) blast

lemma roll_back_settled:
  assumes "roll_back e run m ise_has x v = (Inr res, u)"
  shows "settled run res u \<and> \<not> ar_succeeded res"
proof -
  from assms obtain v3 row z ok d v2 where
    t: "run_to e (rn_id run) (if ok then RolledBack else RollbackFailed) d v2 = (Inr row, v3)"
    and r: "reservation_to e run (if ok then ''released'' else ''quarantined'') ok v3 = (Inr z, u)"
    and res: "res = \<lparr>ar_succeeded = False, ar_run = row, ar_rolled_back = ok, ar_failure = Some (exn_name x)\<rparr>"
    by (elim roll_back_InrE) blast
  from run_to_Inr [OF t] keeps_runs_reservation_to [OF r]
  have "table_get runs rn_id (rn_id run) (ws_store u) = Some row \<and> rn_status row = (if ok then RolledBack else RollbackFailed)"
    by (simp add: table_get_def)
  moreover have "plan_reservation_is (ws_store u) (rn_plan_id run) (if ok then Released else Quarantined)"
    using reservation_to_Inr [of e run "if ok then ''released'' else ''quarantined''" ok v3 u
        "if ok then Released else Quarantined"] r by (cases ok) simp_all
  ultimately show ?thesis by (cases ok) (simp_all add: settled_def outcome_def res)
qed

lemma on_failure_settled:
  assumes "on_failure e run m x v = (Inr res, u)"
  shows "settled run res u \<and> \<not> ar_succeeded res"
proof -
  from assms obtain ise_has v1 where
    c: "(if ws_checkpoints v1 \<noteq> [] \<or> ise_has then roll_back e run m ise_has x
         else sbind (run_to e (rn_id run) ApplyFailed (JObj [(''failure_type'', JStr (exn_name x))])) (\<lambda>updated.
              sret \<lparr>ar_succeeded = False, ar_run = updated, ar_rolled_back = False,
                           ar_failure = Some (exn_name x)\<rparr>)) v1 = (Inr res, u)"
    unfolding on_failure_def by (elim sbind_InrE s_get_InrE ise_changed_InrE) simp
  show ?thesis
  proof (cases "ws_checkpoints v1 \<noteq> [] \<or> ise_has")
    case True
    with c have "roll_back e run m ise_has x v1 = (Inr res, u)" by (simp only: if_True)
    then show ?thesis by (rule roll_back_settled)
  next
    case False
    with c have "sbind (run_to e (rn_id run) ApplyFailed (JObj [(''failure_type'', JStr (exn_name x))])) (\<lambda>updated.
              sret \<lparr>ar_succeeded = False, ar_run = updated, ar_rolled_back = False,
                           ar_failure = Some (exn_name x)\<rparr>) v1 = (Inr res, u)" by (simp only: if_False)
    then show ?thesis by (elim run_elims) (auto simp: settled_def outcome_def dest!: run_to_Inr)
  qed
qed

lemma s_try_InrE:
  "s_try m h s = (Inr x, t) \<Longrightarrow> (m s = (Inr x, t) \<Longrightarrow> R) \<Longrightarrow> (\<And>e u. m s = (Inl e, u) \<Longrightarrow> h e u = (Inr x, t) \<Longrightarrow> R) \<Longrightarrow> R"
  by (auto simp: s_try_def split: prod.splits sum.splits)

lemma s_finally_InrE:
  "s_finally m c s = (Inr x, t) \<Longrightarrow> (\<And>u y. m s = (Inr x, u) \<Longrightarrow> c u = (Inr y, t) \<Longrightarrow> R) \<Longrightarrow> R"
  by (auto simp: s_finally_def split: prod.splits sum.splits)

lemma settled_store: "ws_store u = ws_store v \<Longrightarrow> settled run res u = settled run res v"
  by (simp add: settled_def outcome_def)

text \<open>What a normal return of the started transaction has behind it.\<close>

lemma start_apply_InrE:
  assumes "start_apply e run intent plan artifact v = (Inr res, u)"
  obtains (finished) ds gp m w t row where "we_gate_plan e intent artifact = Inr gp" "ise_part artifact = Inr m"
      "run_devices intent artifact = Inr ds" "run_to e (rn_id run) ApplyRunning (JObj []) w = (Inr row, t)"
      "ws_adapters w = ws_adapters v" "ws_store w = ws_store v"
      "\<exists>t'. apply_body e run plan artifact ds gp m t = (Inr res, t') \<and> ws_store u = ws_store t'"
    | (failed) ds gp m t x t' where "apply_body e run plan artifact ds gp m t = (Inl x, t')"
      "\<exists>u'. on_failure e run m x t' = (Inr res, u') \<and> ws_store u = ws_store u'"
proof -
  from assms obtain ds gp m w t row where *: "we_gate_plan e intent artifact = Inr gp" "ise_part artifact = Inr m"
      "run_devices intent artifact = Inr ds" "run_to e (rn_id run) ApplyRunning (JObj []) w = (Inr row, t)"
      and w: "\<exists>z. world_op (preflight_secret_sweep artifact intent (we_secret e) (we_credentials e)) v = (Inr z, w)"
      and f: "s_finally (s_try (apply_body e run plan artifact ds gp m) (on_failure e run m)) (close_all e) t = (Inr res, u)"
    unfolding start_apply_def by (elim sbind_InrE slift_InrE) blast
  from w have w': "ws_adapters w = ws_adapters v" "ws_store w = ws_store v"
    by (auto simp: world_op_def split: prod.splits)
  from f obtain u' y where b: "s_try (apply_body e run plan artifact ds gp m) (on_failure e run m) t = (Inr res, u')"
    and c: "close_all e u' = (Inr y, u)" by (rule s_finally_InrE)
  have "ws_store u = ws_store u'" using keepsD [OF keeps_close_all [of "\<lambda>s. s = ws_store u'"] _ c] by simp
  with b show thesis by (elim s_try_InrE) (blast intro: finished [OF * w'] failed)+
qed

lemma start_apply_settled: "start_apply e run intent plan artifact v = (Inr res, u) \<Longrightarrow> settled run res u"
proof (erule start_apply_InrE)
  fix ds gp m t
  assume "\<exists>t'. apply_body e run plan artifact ds gp m t = (Inr res, t') \<and> ws_store u = ws_store t'"
  then show "settled run res u" using apply_body_settled settled_store by blast
next
  fix m x t'
  assume "\<exists>u'. on_failure e run m x t' = (Inr res, u') \<and> ws_store u = ws_store u'"
  then show "settled run res u" using on_failure_settled settled_store by blast
qed

lemma process_apply_InrE:
  assumes "process_apply e run_id intent plan artifact allowed v = (Inr res, u)"
  obtains (refused) run d row where "get_run run_id (ws_store v) = Inr run" "run_to e run_id ApplyFailed d v = (Inr row, u)"
      "res = \<lparr>ar_succeeded = False, ar_run = row, ar_rolled_back = False, ar_failure = None\<rparr>"
    | (started) run where "get_run run_id (ws_store v) = Inr run" "start_apply e run intent plan artifact v = (Inr res, u)"
proof -
  from assms obtain run unresolved where r: "get_run run_id (ws_store v) = Inr run"
    and c: "(if unresolved \<noteq> []
           then sbind (run_to e run_id ApplyFailed
                       (JObj [(''reason'', JStr ''artifact_has_blocking_requirements''),
                              (''unresolved_blocker_codes'', jstrs unresolved)])) (\<lambda>updated.
                     sret \<lparr>ar_succeeded = False, ar_run = updated, ar_rolled_back = False, ar_failure = None\<rparr>)
           else start_apply e run intent plan artifact) v = (Inr res, u)"
    unfolding process_apply_def
    by (elim sbind_InrE slift_InrE sguard_InrE) (auto simp: store_read_def)
  show thesis
  proof (cases "unresolved = []")
    case True
    with c started [OF r] show thesis by simp
  next
    case False
    with c have "sbind (run_to e run_id ApplyFailed
                       (JObj [(''reason'', JStr ''artifact_has_blocking_requirements''),
                              (''unresolved_blocker_codes'', jstrs unresolved)])) (\<lambda>updated.
                     sret \<lparr>ar_succeeded = False, ar_run = updated, ar_rolled_back = False, ar_failure = None\<rparr>) v = (Inr res, u)"
      by (simp only: not_False_eq_True if_True)
    then obtain row where "run_to e run_id ApplyFailed
        (JObj [(''reason'', JStr ''artifact_has_blocking_requirements''),
               (''unresolved_blocker_codes'', jstrs unresolved)]) v = (Inr row, u)"
      "res = \<lparr>ar_succeeded = False, ar_run = row, ar_rolled_back = False, ar_failure = None\<rparr>"
      by (elim run_elims) blast
    then show thesis by (rule refused [OF r])
  qed
qed

section \<open>Gates\<close>

definition evidence_key :: "string \<Rightarrow> string \<Rightarrow> string \<Rightarrow> json \<Rightarrow> string option \<Rightarrow> string" where
  "evidence_key run_id phase_id kind payload device_id =
     ''evidence_'' @ take 16 (sha256_json (JObj [(''run_id'', JStr run_id), (''phase_id'', JStr phase_id),
        (''device_id'', json_opt device_id), (''evidence_type'', JStr kind),
        (''payload_hash'', JStr (sha256_json payload))]))"

definition gate_payload :: "json \<Rightarrow> json \<Rightarrow> gate_result \<Rightarrow> json" where
  "gate_payload gate output_hash result =
     JObj [(''gate_id'', field gate ''gate_id''), (''command'', field gate ''command''), (''output_hash'', output_hash),
           (''passed'', JBool (gr_passed result)), (''reason'', JStr (gr_reason result)),
           (''observations'', gr_observations result)]"

text \<open>Some output of the device passed the gate, and the evidence of it is recorded for the run.\<close>

definition gate_passed :: "'w worker_env \<Rightarrow> string \<Rightarrow> store \<Rightarrow> json \<Rightarrow> bool" where
  "gate_passed e run_id s gate \<longleftrightarrow>
     (\<exists>shown output_hash result. we_evaluate e gate shown = Inr result \<and> gr_passed result
        \<and> (\<exists>v \<in> set (evidence s). ev_id v = evidence_key run_id (py_str (field gate ''phase_id'')) ''operational_gate''
             (gate_payload gate output_hash result) (Some (py_str (field gate ''device_id'')))))"

lemma add_evidence_key:
  assumes "add_evidence rt rid ph k p actor dev s = Inr (row, t)"
  shows "\<exists>v \<in> set (evidence t). ev_id v = evidence_key rid ph k p dev"
proof -
  let ?k = "evidence_key rid ph k p dev"
  from assms have c: "(case table_get evidence ev_id ?k s of
             Some existing \<Rightarrow> Inr (existing, s)
           | None \<Rightarrow>
               ebind (insert_evidence \<lparr>ev_id = ?k, ev_run = rid, ev_phase = ph,
                         ev_device = dev, ev_type = k,
                         ev_payload = json_column p, ev_payload_hash = sha256_json p,
                         ev_created_at = now rt 0, ev_created_by = actor\<rparr> s) (\<lambda>s1.
               ebind (append_audit rt 0 ''run'' rid ''evidence.recorded'' actor
                           (JObj [(''evidence_id'', JStr ?k), (''phase_id'', JStr ph),
                                  (''device_id'', json_opt dev),
                                  (''evidence_type'', JStr k),
                                  (''payload_hash'', JStr (sha256_json p))]) s1) (\<lambda>s2.
               Inr (\<lparr>ev_id = ?k, ev_run = rid, ev_phase = ph,
                         ev_device = dev, ev_type = k,
                         ev_payload = json_column p, ev_payload_hash = sha256_json p,
                         ev_created_at = now rt 0, ev_created_by = actor\<rparr>, s2)))) = Inr (row, t)"
    unfolding add_evidence_def Let_def evidence_key_def by (elim ebind_InrE)
  show ?thesis
  proof (cases "table_get evidence ev_id ?k s")
    case None
    with c show ?thesis
      by (auto simp: res insert_evidence_def evidence_tbl.insert_Inr split: if_splits elim!: append_auditE)
  next
    case (Some v)
    with c evidence_tbl.get_Some [OF Some] show ?thesis by auto
  qed
qed

lemma gate_passed_mono: "set (evidence s) \<subseteq> set (evidence t) \<Longrightarrow> gate_passed e rid s g \<Longrightarrow> gate_passed e rid t g"
  unfolding gate_passed_def by blast

interpretation gate_stays: step_closed "\<lambda>t. gate_passed e rid t g" for e rid g
  by unfold_locales (rule gate_passed_mono [OF worker_step_evidence])

lemma record_gate_passed:
  assumes "record_gate e rid g d v = (Inr ok, u)" and "ok"
  shows "gate_passed e rid (ws_store u) g"
proof -
  from assms(1) obtain shown hash result dev phase w gid cmd row where
    r: "we_evaluate e g shown = Inr result" "str_at g ''phase_id'' = Inr phase" "str_at g ''device_id'' = Inr dev"
      "jidx g ''gate_id'' = Inr gid" "jidx g ''command'' = Inr cmd" "ok = gr_passed result"
    and e: "evidence_of e rid phase ''operational_gate''
            (JObj [(''gate_id'', gid), (''command'', cmd), (''output_hash'', hash),
                   (''passed'', JBool (gr_passed result)), (''reason'', JStr (gr_reason result)),
                   (''observations'', gr_observations result)]) dev w = (Inr row, u)"
    unfolding record_gate_def by (elim run_elims) blast
  have f: "phase = py_str (field g ''phase_id'')" "dev = py_str (field g ''device_id'')"
    "gid = field g ''gate_id''" "cmd = field g ''command''"
    using r by (auto simp: str_at_def res)
  from e have "\<exists>x \<in> set (evidence (ws_store u)). ev_id x = evidence_key rid phase ''operational_gate'' (gate_payload g hash result) (Some dev)"
    by (auto simp: evidence_of_def store_op_Inr gate_payload_def f dest!: add_evidence_key)
  with r(1,6) assms(2) f show ?thesis unfolding gate_passed_def by blast
qed

lemma stays:
  assumes "m v = (r, u)" and "\<And>g. keeps (\<lambda>u. gate_passed e rid (ws_store u) g) m" and "gate_passed e rid (ws_store v) g"
  shows "gate_passed e rid (ws_store u) g"
  using keepsD [OF assms(2) _ assms(1), of g] assms(3) by simp

lemma adapter_InrE:
  assumes "adapter d v = (Inr z, u)"
  obtains "u = v"
proof -
  have "snd (adapter d v) = v" by (simp add: adapter_def)
  then have "u = v" unfolding assms by simp
  then show thesis by (rule that)
qed

lemma first_failing_passed:
  "first_failing e rid gs v = (Inr None, u) \<Longrightarrow> \<forall>g \<in> set gs. gate_passed e rid (ws_store u) g"
proof (induction gs arbitrary: v)
  case (Cons g gs)
  from Cons.prems obtain dev ok w where r: "record_gate e rid g dev v = (Inr ok, w)"
    and c: "(if ok then first_failing e rid gs else sret (Some g)) w = (Inr None, u)"
    unfolding first_failing.simps by (elim run_elims adapter_InrE) blast
  then have ok: "ok" by (cases ok) simp_all
  with c have f: "first_failing e rid gs w = (Inr None, u)" by simp
  have "gate_passed e rid (ws_store u) g"
    using stays [OF f gate_stays.keeps_first_failing record_gate_passed [OF r ok]] .
  with Cons.IH [OF f] show ?case by simp
qed simp

lemma gates_of_set: "gates_of ph gp = Inr gs \<Longrightarrow> g \<in> set gp \<Longrightarrow> jidx g ''phase_id'' = Inr (JStr ph) \<Longrightarrow> g \<in> set gs"
proof -
  assume "gates_of ph gp = Inr gs" and g: "g \<in> set gp" "jidx g ''phase_id'' = Inr (JStr ph)"
  then obtain ys where ys: "mapE (\<lambda>x. ebind (ebind (jidx x ''phase_id'') (\<lambda>p. Inr (p = JStr ph))) (\<lambda>b. Inr (b, x))) gp = Inr ys"
    and gs: "gs = map snd (filter fst ys)" by (auto simp: gates_of_def filterE_def res)
  from mapE_Inr_setD [OF ys g(1)] g(2) have "(True, g) \<in> set ys" by auto
  then show "g \<in> set gs" by (force simp: gs)
qed

lemma apply_phase_passed:
  assumes "apply_phase e rid gp m parts ph v = (Inr z, u)"
    and g: "g \<in> set gp" "jidx g ''phase_id'' = Inr (JStr ph)"
  shows "gate_passed e rid (ws_store u) g"
proof -
  from assms(1) obtain v2 w gs failed where gs: "gates_of ph gp = Inr gs" and f: "first_failing e rid gs v2 = (Inr failed, w)"
    and c: "(case failed of None \<Rightarrow> sret () | Some g \<Rightarrow> sraise (WorkerError ''Operational gate failed'')) w = (Inr z, u)"
    unfolding apply_phase_def by (elim run_elims) blast
  from c have "failed = None" "u = w" by (auto split: option.splits)
  with first_failing_passed f gates_of_set [OF gs g] show ?thesis by blast
qed

text \<open>All phases: what one phase has passed, the later ones keep.\<close>

lemma phases_passed:
  assumes "s_mapM (apply_phase e rid gp m parts) phs v = (Inr ys, u)"
    and "g \<in> set gp" "jidx g ''phase_id'' = Inr (JStr ph)" "ph \<in> set phs"
  shows "gate_passed e rid (ws_store u) g"
  using assms(1,4)
proof (induction phs arbitrary: v ys)
  case (Cons p phs)
  from Cons.prems(1) obtain z w zs where p: "apply_phase e rid gp m parts p v = (Inr z, w)"
    and r: "s_mapM (apply_phase e rid gp m parts) phs w = (Inr zs, u)"
    unfolding s_mapM.simps by (elim run_elims) blast
  show ?case
  proof (cases "p = ph")
    case True
    with apply_phase_passed [OF p assms(2)] assms(3) have "gate_passed e rid (ws_store w) g" by simp
    moreover have "keeps (\<lambda>u. gate_passed e rid (ws_store u) g) (s_mapM (apply_phase e rid gp m parts) phs)" for g
      by (intro keeps gate_stays.keeps_apply_phase)
    ultimately show ?thesis using stays [of "s_mapM (apply_phase e rid gp m parts) phs" w, OF r] by blast
  next
    case False
    with Cons.prems(2) Cons.IH [OF r] show ?thesis by simp
  qed
qed simp

text \<open>A success has every gate of the prechecks and of the plan's phases behind it.\<close>

lemma apply_changes_passed:
  assumes "apply_changes e run plan artifact gp m v = (Inr res, u)" and phs: "ordered_phases plan = Inr phs"
    and g: "g \<in> set gp" "jidx g ''phase_id'' = Inr (JStr ph)" "ph \<in> set phs"
  shows "gate_passed e (rn_id run) (ws_store u) g"
proof -
  from assms(1) obtain w1 w2 w3 ys y phs' parts row d ah ow where
    phs': "ordered_phases plan = Inr phs'"
    and p: "s_mapM (apply_phase e (rn_id run) gp m parts) phs' w1 = (Inr ys, w2)"
    and s: "store_op e (\<lambda>rt. complete_apply rt (rn_id run) ah ow (we_actor e) d) w2 = (Inr row, w3)"
    and r: "reservation_to e run ''committed'' False w3 = (Inr y, u)"
    by (elim apply_changes_InrE) blast
  from phs phs' g(3) have "ph \<in> set phs'" by simp
  with phases_passed [OF p g(1,2)] have "gate_passed e (rn_id run) (ws_store w2) g" .
  then have "gate_passed e (rn_id run) (ws_store w3) g" by (rule stays [OF s gate_stays.keeps_complete])
  then show ?thesis by (rule stays [OF r gate_stays.keeps_reservation_to])
qed

lemma apply_body_passed:
  assumes "apply_body e run plan artifact ds gp m v = (Inr res, u)" and "ar_succeeded res"
    and phs: "ordered_phases plan = Inr phs"
    and g: "g \<in> set gp" "jidx g ''phase_id'' = Inr (JStr ph)" "ph = ''precheck'' \<or> ph \<in> set phs"
  shows "gate_passed e (rn_id run) (ws_store u) g"
proof -
  let ?rid = "rn_id run"
  from assms(1) obtain v1 v2 v3 pre failed us z where
      "s_mapM (open_adapter e ds) (sort (map fst ds)) v = (Inr us, v1)"
      "(if truthy m then prepare_ise e (rn_id run) m else sret ()) v1 = (Inr z, v2)"
      and pre: "gates_of ''precheck'' gp = Inr pre" and f: "first_failing e (rn_id run) pre v2 = (Inr failed, v3)"
      and c: "(case failed of Some gate \<Rightarrow> refuse_apply e run gate | None \<Rightarrow> apply_changes e run plan artifact gp m) v3 = (Inr res, u)"
    by (rule apply_body_InrE)
  have "failed = None"
  proof (cases failed)
    case (Some gate)
    with c have "refuse_apply e run gate v3 = (Inr res, u)" by simp
    then show ?thesis using assms(2) by (elim refuse_apply_InrE) simp
  qed
  with c f have f: "first_failing e ?rid pre v2 = (Inr None, v3)" and c: "apply_changes e run plan artifact gp m v3 = (Inr res, u)"
    by simp_all
  from g(3) show ?thesis
  proof
    assume "ph = ''precheck''"
    then have "gate_passed e ?rid (ws_store v3) g"
      using first_failing_passed [OF f] gates_of_set [OF pre g(1)] g(2) by blast
    then show ?thesis by (rule stays [OF c gate_stays.keeps_apply_changes])
  next
    assume "ph \<in> set phs"
    then show ?thesis by (rule apply_changes_passed [OF c phs g(1,2)])
  qed
qed

end
