(* ===== verification/WorkerChanges.thy ===== *)
theory WorkerChanges
  imports WorkerOutcome
begin

text \<open>
  The worker's own records. A device counts as changed only after its checkpoint is recorded,
  so a rollback finds the checkpoint of every device it has to restore. Nothing is written to
  the store before the run has left \<open>apply_queued\<close>.
\<close>

section \<open>Steps that leave the records alone\<close>

abbreviation records :: "(string list \<Rightarrow> (string \<times> string) list \<Rightarrow> string list \<Rightarrow> bool) \<Rightarrow> 'w wstate \<Rightarrow> bool" where
  "records Q u \<equiv> Q (ws_changed u) (ws_checkpoints u) (ws_adapters u)"

lemma keeps_records_store_op: "keeps (records Q) (store_op e f)"
  by (rule keepsI) (auto simp: store_op_def Let_def split: prod.splits sum.splits)

lemma keeps_records_store_read: "keeps (records Q) (store_read f)"
  by (rule keepsI) (auto simp: store_read_def)

lemma keeps_records_world_op: "keeps (records Q) (world_op f)"
  by (rule keepsI) (auto simp: world_op_def split: prod.splits)

lemma keeps_records_modify:
  "(\<And>u. ws_changed (f u) = ws_changed u \<and> ws_checkpoints (f u) = ws_checkpoints u \<and> ws_adapters (f u) = ws_adapters u) \<Longrightarrow> keeps (records Q) (s_modify f)"
  by (rule keepsI) (auto simp: s_modify_def)

lemmas quiet = keeps_records_store_op keeps_records_store_read keeps_records_world_op keeps_s_get keeps_adapter
  keeps_checkpoint_of keeps_ise_changed keeps_opt keeps_pair still_let keeps_s_finally

lemma quiet_run_to: "keeps (records Q) (run_to e rid st d)"
  unfolding run_to_def by (intro quiet)

lemma quiet_evidence_of: "keeps (records Q) (evidence_of e rid ph k p d)"
  unfolding evidence_of_def by (intro quiet)

lemma quiet_first_failing: "keeps (records Q) (first_failing e rid gs)"
  by (induction gs; unfold first_failing.simps record_gate_def; intro keeps quiet quiet_evidence_of; assumption?)

lemma quiet_prepare_ise: "keeps (records Q) (prepare_ise e rid m)"
  unfolding prepare_ise_def by (intro keeps quiet quiet_evidence_of keeps_records_modify) simp

lemma quiet_apply_ise: "keeps (records Q) (apply_ise e rid ph m)"
  unfolding apply_ise_def by (intro keeps quiet quiet_evidence_of keeps_records_modify) simp

lemma quiet_reservation_to: "keeps (records Q) (reservation_to e run st v)"
  unfolding reservation_to_def by (intro keeps quiet)

lemma quiet_on_failure: "keeps (records Q) (on_failure e run m x)"
  unfolding on_failure_def roll_back_def rollback_device_def rollback_ise_def
  by (intro keeps quiet quiet_run_to quiet_evidence_of quiet_reservation_to)

lemma quiet_close_all: "keeps (records Q) (close_all e)"
  unfolding close_all_def by (intro keeps quiet)

section \<open>Changed devices have checkpoints\<close>

abbreviation covered :: "string list \<Rightarrow> (string \<times> string) list \<Rightarrow> string list \<Rightarrow> bool" where
  "covered changed checkpoints ids \<equiv> set changed \<subseteq> fst ` set checkpoints"

lemma covered_take_checkpoint: "keeps (records covered) (take_checkpoint e rid d)"
proof -
  have m: "keeps (records covered) (s_modify (\<lambda>s. s\<lparr>ws_checkpoints := ws_checkpoints s @ [(d, n)]\<rparr>))" for n
    by (rule keepsI) (auto simp: s_modify_def)
  show ?thesis unfolding take_checkpoint_def by (intro keeps quiet quiet_evidence_of m)
qed

text \<open>Once every device of the artifact has its checkpoint, the phases keep the records covered.\<close>

abbreviation ready :: "string set \<Rightarrow> string list \<Rightarrow> (string \<times> string) list \<Rightarrow> string list \<Rightarrow> bool" where
  "ready ids changed checkpoints opened \<equiv> set changed \<subseteq> fst ` set checkpoints \<and> ids \<subseteq> fst ` set checkpoints"

lemma ready_apply_block: "d \<in> ids \<Longrightarrow> keeps (records (ready ids)) (apply_block e rid ph d b)"
proof -
  assume d: "d \<in> ids"
  have m: "keeps (records (ready ids)) (s_modify (\<lambda>s. if d \<in> set (ws_changed s) then s
      else s\<lparr>ws_changed := ws_changed s @ [d]\<rparr>))"
    by (rule keepsI) (use d in \<open>auto simp: s_modify_def split: if_splits\<close>)
  show ?thesis unfolding apply_block_def by (intro keeps quiet quiet_evidence_of m)
qed

lemma ready_apply_phase:
  assumes "fst ` set parts \<subseteq> ids"
  shows "keeps (records (ready ids)) (apply_phase e rid gp m parts ph)"
proof -
  have "keeps (records (ready ids)) (apply_device_phase e rid ph part)" if "part \<in> set (sort_key fst parts)" for part
  proof -
    have "fst part \<in> ids" using that assms by auto
    then show ?thesis unfolding apply_device_phase_def
      by (cases part) (auto intro!: keeps quiet ready_apply_block)
  qed
  then show ?thesis unfolding apply_phase_def by (intro keeps quiet quiet_apply_ise quiet_first_failing)
qed

text \<open>The two ways through a sequence.\<close>

lemma sbind_cases:
  assumes "sbind m f s = (r, u)"
  obtains (raised) e where "m s = (Inl e, u)" "r = Inl e"
    | (went) x t where "m s = (Inr x, t)" "f x t = (r, u)"
proof (cases "m s")
  case (Pair y t)
  show thesis
  proof (cases y)
    case (Inl e)
    with Pair assms have "t = u" "r = Inl e" by (simp_all add: sbind_def)
    with Pair Inl show thesis by (intro raised) simp_all
  next
    case (Inr x)
    with Pair assms show thesis by (intro went) (simp_all add: sbind_def)
  qed
qed

lemma s_mapM_each:
  assumes "s_mapM f xs v = (Inr ys, u)" and "\<And>x w y t. x \<in> set xs \<Longrightarrow> f x w = (Inr y, t) \<Longrightarrow> Q x t"
    and "\<And>x x'. x' \<in> set xs \<Longrightarrow> keeps (Q x) (f x')"
  shows "\<forall>x \<in> set xs. Q x u"
  using assms
proof (induction xs arbitrary: v ys)
  case (Cons x xs)
  from Cons.prems(1) obtain y w zs where y: "f x v = (Inr y, w)" and r: "s_mapM f xs w = (Inr zs, u)"
    unfolding s_mapM.simps by (elim run_elims) blast
  have "Q x w" using Cons.prems(2) [of x v y w] y by simp
  moreover have "keeps (Q x) (s_mapM f xs)" by (intro keeps_s_mapM Cons.prems(3)) simp
  ultimately have "Q x u" using keepsD [of "Q x" "s_mapM f xs" w _ u] r by blast
  moreover have "\<forall>x \<in> set xs. Q x u" by (rule Cons.IH [OF r]) (use Cons.prems(2,3) in auto)
  ultimately show ?case by simp
qed simp


lemma take_checkpoint_records:
  assumes "take_checkpoint e rid d v = (Inr z, u)"
  shows "d \<in> fst ` set (ws_checkpoints u)"
proof -
  from assms obtain n w t y row c where m: "s_modify (\<lambda>s. s\<lparr>ws_checkpoints := ws_checkpoints s @ [(d, n)]\<rparr>) w = (Inr y, t)"
    and e: "evidence_of e rid ''checkpoint'' ''device_checkpoint'' c d t = (Inr row, u)"
    unfolding take_checkpoint_def by (elim run_elims) blast
  have "d \<in> fst ` set (ws_checkpoints t)" using m by (auto simp: s_modify_def)
  then show ?thesis
    using keepsD [OF quiet_evidence_of [of "\<lambda>c k i. d \<in> fst ` set k"] _ e] by blast
qed

lemma more_checkpoints: "keeps (records (\<lambda>c k i. d \<in> fst ` set k)) (take_checkpoint e rid d')"
proof -
  have m: "keeps (records (\<lambda>c k i. d \<in> fst ` set k)) (s_modify (\<lambda>s. s\<lparr>ws_checkpoints := ws_checkpoints s @ [(d', n)]\<rparr>))" for n
    by (rule keepsI) (auto simp: s_modify_def)
  show ?thesis unfolding take_checkpoint_def by (intro keeps quiet quiet_evidence_of m)
qed

lemma ready_run_phases: "keeps (records (ready (fst ` set parts))) (run_phases e run plan artifact gp m parts)"
  unfolding run_phases_def by (intro keeps quiet ready_apply_phase quiet_reservation_to order_refl)

lemma apply_changes_covered:
  assumes "apply_changes e run plan artifact gp m v = (r, u)" and "records covered v"
    and parts: "\<And>arts parts. jidx artifact ''devices'' = Inr arts \<Longrightarrow> items_of arts = Inr parts \<Longrightarrow>
      fst ` set parts \<subseteq> set (ws_adapters v)"
  shows "records covered u"
proof -
  let ?cps = "s_mapM (take_checkpoint e (rn_id run)) (sort (ws_adapters v))"
  have k: "keeps (records covered) ?cps" by (intro keeps covered_take_checkpoint)
  have "sbind ?cps (\<lambda>_. sbind (slift (jidx artifact ''devices'')) (\<lambda>arts. sbind (slift (items_of arts)) (\<lambda>parts.
      run_phases e run plan artifact gp m parts))) v = (r, u)"
    using assms(1) unfolding apply_changes_def by (simp add: sbind_def [of "s_get _"] s_get_def)
  then show ?thesis
  proof (cases rule: sbind_cases)
    case (raised x)
    then show ?thesis using keepsD [of "records covered" ?cps v "Inl x" u] k assms(2) by blast
  next
    case (went xs t)
    have c: "records covered t" using keepsD [of "records covered" ?cps v "Inr xs" t] k went(1) assms(2) by blast
    have "\<forall>d \<in> set (sort (ws_adapters v)). d \<in> fst ` set (ws_checkpoints t)"
      by (rule s_mapM_each [OF went(1)]) (auto intro: take_checkpoint_records more_checkpoints)
    then have all: "set (ws_adapters v) \<subseteq> fst ` set (ws_checkpoints t)" by auto
    from went(2) show ?thesis
    proof (cases rule: sbind_cases)
      case (raised x)
      then show ?thesis using c by simp
    next
      case (went arts t')
      then have arts: "jidx artifact ''devices'' = Inr arts" "t' = t" by simp_all
      from went(2) show ?thesis
      proof (cases rule: sbind_cases)
        case (raised x)
        then show ?thesis using c arts by simp
      next
        case (went parts t'')
        then have p: "items_of arts = Inr parts" "t'' = t" using arts by simp_all
        have "records (ready (fst ` set parts)) t" using c all assms(3) [OF arts(1) p(1)] by simp
        with keepsD [OF ready_run_phases _ went(2)] p(2) show ?thesis by blast
      qed
    qed
  qed
qed

lemma covered_open_adapter: "keeps (records covered) (open_adapter e ds d)"
proof -
  have m: "keeps (records covered) (s_modify (\<lambda>s. s\<lparr>ws_adapters := ws_adapters s @ [d]\<rparr>))"
    by (rule keepsI) (auto simp: s_modify_def)
  show ?thesis unfolding open_adapter_def by (intro keeps quiet m)
qed

lemma open_adapter_opens: "open_adapter e ds d v = (Inr z, u) \<Longrightarrow> d \<in> set (ws_adapters u)"
  unfolding open_adapter_def by (elim run_elims) (auto simp: s_modify_def)

lemma more_adapters: "keeps (records (\<lambda>c k i. d \<in> set i)) (open_adapter e ds d')"
proof -
  have m: "keeps (records (\<lambda>c k i. d \<in> set i)) (s_modify (\<lambda>s. s\<lparr>ws_adapters := ws_adapters s @ [d']\<rparr>))"
    by (rule keepsI) (auto simp: s_modify_def)
  show ?thesis unfolding open_adapter_def by (intro keeps quiet m)
qed

lemma apply_body_covered:
  assumes "apply_body e run plan artifact ds gp m v = (r, u)" and "records covered v"
    and parts: "\<And>arts parts. jidx artifact ''devices'' = Inr arts \<Longrightarrow> items_of arts = Inr parts \<Longrightarrow>
      fst ` set parts \<subseteq> fst ` set ds"
  shows "records covered u"
proof -
  let ?open = "s_mapM (open_adapter e ds) (sort (map fst ds))"
  let ?ise = "if truthy m then prepare_ise e (rn_id run) m else sret ()"
  let ?Q = "\<lambda>c k i. covered c k i \<and> fst ` set ds \<subseteq> set i"
  have k: "keeps (records covered) ?open" by (intro keeps covered_open_adapter)
  from assms(1) [unfolded apply_body_def] show ?thesis
  proof (cases rule: sbind_cases)
    case (raised x)
    then show ?thesis using keepsD [of "records covered" ?open v "Inl x" u] k assms(2) by blast
  next
    case (went xs t)
    have c: "records covered t" using keepsD [of "records covered" ?open v "Inr xs" t] k went(1) assms(2) by blast
    have "\<forall>d \<in> set (sort (map fst ds)). d \<in> set (ws_adapters t)"
      by (rule s_mapM_each [OF went(1)]) (auto intro: open_adapter_opens more_adapters)
    then have q: "records ?Q t" using c by auto
    from went(2) show ?thesis
    proof (cases rule: sbind_cases)
      case (raised x)
      have "keeps (records ?Q) ?ise" by (intro keeps quiet_prepare_ise)
      then show ?thesis using keepsD [of "records ?Q" ?ise t "Inl x" u] raised(1) q by blast
    next
      case (went z t1)
      have "keeps (records ?Q) ?ise" by (intro keeps quiet_prepare_ise)
      then have q1: "records ?Q t1" using keepsD [of "records ?Q" ?ise t "Inr z" t1] went(1) q by blast
      from went(2) show ?thesis
      proof (cases rule: sbind_cases)
        case (raised x)
        then show ?thesis using q1 by simp
      next
        case (went pre t2)
        then have pre: "t2 = t1" by simp
        from went(2) show ?thesis
        proof (cases rule: sbind_cases)
          case (raised x)
          then show ?thesis using keepsD [OF quiet_first_failing [of ?Q], of t2 e "rn_id run" pre "Inl x" u] q1 pre by blast
        next
          case (went failed t3)
          then have q3: "records ?Q t3"
            using keepsD [OF quiet_first_failing [of ?Q], of t2 e "rn_id run" pre "Inr failed" t3] q1 pre by blast
          show ?thesis
          proof (cases failed)
            case None
            with went(2) have "apply_changes e run plan artifact gp m t3 = (r, u)" by simp
            then show ?thesis by (rule apply_changes_covered) (use q3 parts in blast)+
          next
            case (Some gate)
            with went(2) have f: "refuse_apply e run gate t3 = (r, u)" by simp
            have "keeps (records covered) (refuse_apply e run gate)"
              unfolding refuse_apply_def by (intro keeps quiet quiet_run_to)
            then show ?thesis using keepsD [of "records covered" "refuse_apply e run gate" t3 r u] f q3 by blast
          qed
        qed
      qed
    qed
  qed
qed

text \<open>The artifact's devices are among the devices of the run.\<close>

lemma set_field_keys: "fst ` set (set_field k x kvs) = insert k (fst ` set kvs)"
  by (induction k x kvs rule: set_field.induct) auto

lemma add_retired_keys:
  assumes "add_retired ds part = Inr ds'"
  shows "insert (fst part) (fst ` set ds) \<subseteq> fst ` set ds'"
proof (cases "map_of ds (fst part)")
  case None
  then obtain x where "ds' = set_field (fst part) x ds" using assms by (cases part) (auto simp: add_retired_def res)
  then show ?thesis by (simp add: set_field_keys)
next
  case (Some x)
  then have "fst part \<in> fst ` set ds" by (metis map_of_SomeD fst_conv image_eqI)
  moreover have "ds' = ds" using Some assms by (cases part) (simp add: add_retired_def)
  ultimately show ?thesis by simp
qed

lemma run_devices_keys:
  assumes "run_devices intent artifact = Inr ds" and "jidx artifact ''devices'' = Inr arts" "items_of arts = Inr parts"
  shows "fst ` set parts \<subseteq> fst ` set ds"
proof -
  from assms obtain known where f: "foldE add_retired known parts = Inr ds"
    by (auto simp: run_devices_def res jget_default_def)
  have "foldE add_retired known ps = Inr ds \<Longrightarrow> fst ` set known \<union> fst ` set ps \<subseteq> fst ` set ds" for known ps
  proof (induction ps arbitrary: known)
    case (Cons p ps)
    then obtain known' where a: "add_retired known p = Inr known'" "foldE add_retired known' ps = Inr ds" by (auto simp: res)
    from add_retired_keys [OF a(1)] Cons.IH [OF a(2)] show ?case by auto
  qed simp
  with f show ?thesis by blast
qed

lemma try_finally_covered:
  assumes "s_finally (s_try b h) c v = (r, u)" and "\<And>r t. b v = (r, t) \<Longrightarrow> records covered t"
    and "\<And>x. keeps (records covered) (h x)" and "keeps (records covered) c"
  shows "records covered u"
proof -
  obtain r1 t1 where t1: "s_try b h v = (r1, t1)" by (cases "s_try b h v")
  have c1: "records covered t1"
  proof (cases "b v")
    case (Pair y w)
    then have w: "records covered w" by (rule assms(2))
    show ?thesis
    proof (cases y)
      case (Inl x)
      with t1 Pair have "h x w = (r1, t1)" by (simp add: s_try_def)
      then show ?thesis using keepsD [OF assms(3) w] by blast
    next
      case (Inr z)
      with t1 Pair w show ?thesis by (auto simp: s_try_def)
    qed
  qed
  obtain r2 t2 where t2: "c t1 = (r2, t2)" by (cases "c t1")
  with assms(1) t1 have "u = t2" by (auto simp: s_finally_def split: sum.splits)
  then show ?thesis using keepsD [OF assms(4) c1 t2] by blast
qed

lemma start_apply_covered:
  assumes "start_apply e run intent plan artifact v = (r, u)" and v: "records covered v"
  shows "records covered u"
proof -
  from assms(1) [unfolded start_apply_def] show ?thesis
  proof (cases rule: sbind_cases)
    case (went ds t)
    then have ds: "run_devices intent artifact = Inr ds" "t = v" by simp_all
    from went(2) show ?thesis
    proof (cases rule: sbind_cases)
      case (went gp t1)
      then have t1: "t1 = v" using ds by simp
      from went(2) show ?thesis
      proof (cases rule: sbind_cases)
        case (went m t2)
        then have t2: "t2 = v" using t1 by simp
        from went(2) show ?thesis
        proof (cases rule: sbind_cases)
          case (raised x)
          then show ?thesis using keepsD [OF keeps_records_world_op [of covered] _ raised(1)] v t2 by blast
        next
          case (went z t3)
          then have t3: "records covered t3" using keepsD [OF keeps_records_world_op [of covered] _ went(1)] v t2 by blast
          from went(2) show ?thesis
          proof (cases rule: sbind_cases)
            case (raised x)
            then show ?thesis using keepsD [OF quiet_run_to [of covered] _ raised(1)] t3 by blast
          next
            case (went row t4)
            then have t4: "records covered t4" using keepsD [OF quiet_run_to [of covered] _ went(1)] t3 by blast
            show ?thesis
            proof (rule try_finally_covered [OF went(2)])
              fix r' t' assume "apply_body e run plan artifact ds gp m t4 = (r', t')"
              then show "records covered t'"
                by (rule apply_body_covered [OF _ t4]) (rule run_devices_keys [OF ds(1)])
            qed (rule quiet_on_failure [of covered] quiet_close_all [of covered])+
          qed
        qed
      qed (use t1 v in simp)
    qed (use ds v in simp)
  qed (use v in simp)
qed

lemma process_apply_covered: "keeps (records covered) (process_apply e rid intent plan artifact allowed)"
proof -
  have "keeps (records covered) (start_apply e run intent plan artifact)" for run
    by (rule keepsI) (rule start_apply_covered)
  then show ?thesis unfolding process_apply_def by (intro keeps quiet quiet_run_to)
qed

section \<open>A rollback that reports success\<close>

text \<open>
  The device was replaced by its checkpoint with a verified result, and the evidence of that
  result is recorded for the run.
\<close>

definition restored :: "'w worker_env \<Rightarrow> string \<Rightarrow> (string \<times> string) list \<Rightarrow> string \<Rightarrow> store \<Rightarrow> bool" where
  "restored e run_id checkpoints d s \<longleftrightarrow>
     (\<exists>checkpoint w result w'. map_of checkpoints d = Some checkpoint \<and> we_rollback e d checkpoint w = (Inr result, w')
        \<and> truthy (field result ''verified'')
        \<and> (\<exists>v \<in> set (evidence s). ev_id v = evidence_key run_id ''rollback'' ''configure_replace'' result (Some d)))"

lemma restored_mono: "set (evidence s) \<subseteq> set (evidence t) \<Longrightarrow> restored e rid K d s \<Longrightarrow> restored e rid K d t"
  unfolding restored_def by blast

interpretation restored_stays: step_closed "\<lambda>t. restored e rid K d t" for e rid K d
  by unfold_locales (rule restored_mono [OF worker_step_evidence])

lemma rollback_device_restores:
  assumes "rollback_device e rid d v = (Inr [], u)"
  shows "restored e rid (ws_checkpoints v) d (ws_store u)"
  using assms unfolding rollback_device_def
proof (rule s_try_InrE)
  assume "sbind (adapter d) (\<lambda>_. sbind (checkpoint_of d) (\<lambda>checkpoint.
      sbind (world_op (we_rollback e d checkpoint)) (\<lambda>result.
      sbind (slift (require_verified result ''Rollback did not return verified evidence'')) (\<lambda>_.
      sbind (evidence_of e rid ''rollback'' ''configure_replace'' result d) (\<lambda>_. sret []))))) v = (Inr [], u)"
  then obtain checkpoint result v1 v2 row where c: "checkpoint_of d v = (Inr checkpoint, v1)"
      and r: "world_op (we_rollback e d checkpoint) v1 = (Inr result, v2)"
      and t: "require_verified result ''Rollback did not return verified evidence'' = Inr ()"
      and ev: "evidence_of e rid ''rollback'' ''configure_replace'' result d v2 = (Inr row, u)"
    by (elim run_elims adapter_InrE) auto
  have "map_of (ws_checkpoints v) d = Some checkpoint"
    using c by (auto simp: checkpoint_of_def of_option_def split: option.splits)
  moreover obtain w' where "we_rollback e d checkpoint (ws_world v1) = (Inr result, w')"
    using r by (auto simp: world_op_def split: prod.splits)
  moreover have "truthy (field result ''verified'')"
    using t by (auto simp: require_verified_def res dest!: jget_field)
  moreover have "\<exists>x \<in> set (evidence (ws_store u)). ev_id x = evidence_key rid ''rollback'' ''configure_replace'' result (Some d)"
    using ev by (auto simp: evidence_of_def store_op_Inr dest!: add_evidence_key)
  ultimately show ?thesis unfolding restored_def by blast
qed simp

lemma quiet_rollback_device: "keeps (records Q) (rollback_device e rid d)"
  unfolding rollback_device_def by (intro keeps quiet quiet_evidence_of)

lemma quiet_rollback_ise: "keeps (records Q) (rollback_ise e rid m)"
  unfolding rollback_ise_def by (intro keeps quiet quiet_evidence_of)

lemma rollback_devices_restore:
  "s_mapM (rollback_device e rid) ds v = (Inr fs, u) \<Longrightarrow> concat fs = [] \<Longrightarrow> ws_checkpoints v = K
     \<Longrightarrow> \<forall>d \<in> set ds. restored e rid K d (ws_store u)"
proof (induction ds arbitrary: v fs)
  case (Cons d ds)
  from Cons.prems(1) obtain f w gs where f: "rollback_device e rid d v = (Inr f, w)"
    and r: "s_mapM (rollback_device e rid) ds w = (Inr gs, u)" and fs: "fs = f # gs"
    unfolding s_mapM.simps by (elim run_elims) blast
  have e: "f = []" "concat gs = []" using Cons.prems(2) by (simp_all add: fs)
  have K: "ws_checkpoints w = K"
    using keepsD [OF quiet_rollback_device [of "\<lambda>c k i. k = K"] _ f] Cons.prems(3) by blast
  have 1: "restored e rid K d (ws_store w)"
    using rollback_device_restores [OF f [unfolded e(1)]] by (simp only: Cons.prems(3))
  have k: "keeps (\<lambda>u. restored e rid K d (ws_store u)) (s_mapM (rollback_device e rid) ds)"
    by (intro keeps_s_mapM restored_stays.keeps_rollback_device)
  have "restored e rid K d (ws_store u)" by (rule keepsD [of "\<lambda>u. restored e rid K d (ws_store u)", OF k 1 r])
  with Cons.IH [OF r e(2) K] show ?case by simp
qed simp

definition all_restored :: "'w worker_env \<Rightarrow> string \<Rightarrow> 'w wstate \<Rightarrow> bool" where
  "all_restored e run_id u \<longleftrightarrow>
     (\<forall>d. d \<in> (if ws_changed u = [] then fst ` set (ws_checkpoints u) else set (ws_changed u)) \<longrightarrow>
        restored e run_id (ws_checkpoints u) d (ws_store u))"

text \<open>The end of a rollback, after the devices: nothing of it takes a restored device back.\<close>

lemma roll_back_restores:
  assumes "roll_back e run m ise_has x v = (Inr res, u)" and "ar_rolled_back res"
  shows "all_restored e (rn_id run) u"
proof -
  let ?same = "records (\<lambda>c k i. k = ws_checkpoints v \<and> c = ws_changed v)"
  from assms(1) obtain v1 v2 v3 v4 fs gs d1 d2 row1 row2 z where s1: "run_to e (rn_id run) RollbackRunning d1 v = (Inr row1, v1)"
      and s2: "s_mapM (rollback_device e (rn_id run)) (rollback_targets v1) v1 = (Inr fs, v2)"
      and s3: "(if ise_has then rollback_ise e (rn_id run) m else sret []) v2 = (Inr gs, v3)"
      and s4: "run_to e (rn_id run) (if concat fs @ gs = [] then RolledBack else RollbackFailed) d2 v3 = (Inr row2, v4)"
      and s5: "reservation_to e run (if concat fs @ gs = [] then ''released'' else ''quarantined'') (concat fs @ gs = []) v4 = (Inr z, u)"
      and r: "res = \<lparr>ar_succeeded = False, ar_run = row2, ar_rolled_back = (concat fs @ gs = []), ar_failure = Some (exn_name x)\<rparr>"
    unfolding roll_back_def Let_def by (elim run_elims) blast
  have ise: "keeps ?same (if ise_has then rollback_ise e (rn_id run) m else sret [])"
    by (intro keeps quiet_rollback_ise)
  have mapped: "keeps ?same (s_mapM (rollback_device e (rn_id run)) (rollback_targets v1))"
    by (intro keeps_s_mapM quiet_rollback_device)
  have c1: "?same v1" by (rule keepsD [of ?same, OF quiet_run_to _ s1]) simp
  have c2: "?same v2" by (rule keepsD [of ?same, OF mapped c1 s2])
  have c3: "?same v3" by (rule keepsD [of ?same, OF ise c2 s3])
  have c4: "?same v4" by (rule keepsD [of ?same, OF quiet_run_to c3 s4])
  have c5: "?same u" by (rule keepsD [of ?same, OF quiet_reservation_to c4 s5])
  have e: "concat fs = []" using assms(2) by (simp add: r)
  have "restored e (rn_id run) (ws_checkpoints v) d (ws_store u)" if "d \<in> set (rollback_targets v1)" for d
  proof -
    let ?P = "\<lambda>u. restored e (rn_id run) (ws_checkpoints v) d (ws_store u)"
    have ise: "keeps ?P (if ise_has then rollback_ise e (rn_id run) m else sret [])"
      by (intro keeps restored_stays.keeps_rollback_ise)
    have p2: "?P v2" using rollback_devices_restore [OF s2 e refl] c1 that by simp
    have p3: "?P v3" by (rule keepsD [of ?P, OF ise p2 s3])
    have p4: "?P v4" by (rule keepsD [of ?P, OF restored_stays.keeps_run_to p3 s4])
    show ?thesis by (rule keepsD [of ?P, OF restored_stays.keeps_reservation_to p4 s5])
  qed
  moreover have "set (rollback_targets v1) = (if ws_changed u = [] then fst ` set (ws_checkpoints u) else set (ws_changed u))"
    using c1 c5 by (simp add: rollback_targets_def)
  ultimately show ?thesis using c5 by (simp add: all_restored_def)
qed

lemma on_failure_restores:
  assumes "on_failure e run m x v = (Inr res, u)" and "ar_rolled_back res"
  shows "all_restored e (rn_id run) u"
proof -
  from assms(1) obtain ise_has v1 where
    c: "(if ws_checkpoints v1 \<noteq> [] \<or> ise_has then roll_back e run m ise_has x
         else sbind (run_to e (rn_id run) ApplyFailed (JObj [(''failure_type'', JStr (exn_name x))])) (\<lambda>updated.
              sret \<lparr>ar_succeeded = False, ar_run = updated, ar_rolled_back = False,
                           ar_failure = Some (exn_name x)\<rparr>)) v1 = (Inr res, u)"
    unfolding on_failure_def by (elim sbind_InrE s_get_InrE ise_changed_InrE) simp
  show ?thesis
  proof (cases "ws_checkpoints v1 \<noteq> [] \<or> ise_has")
    case True
    with c have "roll_back e run m ise_has x v1 = (Inr res, u)" by (simp only: if_True)
    then show ?thesis using assms(2) by (rule roll_back_restores)
  next
    case False
    with c have "sbind (run_to e (rn_id run) ApplyFailed (JObj [(''failure_type'', JStr (exn_name x))])) (\<lambda>updated.
              sret \<lparr>ar_succeeded = False, ar_run = updated, ar_rolled_back = False,
                           ar_failure = Some (exn_name x)\<rparr>) v1 = (Inr res, u)" by (simp only: if_False)
    then have "\<not> ar_rolled_back res" by (elim run_elims) simp
    with assms(2) show ?thesis by simp
  qed
qed

lemma apply_body_never_rolled_back: "apply_body e run plan artifact ds gp m v = (Inr res, u) \<Longrightarrow> \<not> ar_rolled_back res"
  by (erule apply_body_InrE) (auto split: option.splits elim!: refuse_apply_InrE apply_changes_InrE)

lemma start_apply_restores:
  assumes "start_apply e run intent plan artifact v = (Inr res, u)" and "ar_rolled_back res"
  shows "all_restored e (rn_id run) u"
proof -
  from assms(1) obtain ds gp m t where
    "s_finally (s_try (apply_body e run plan artifact ds gp m) (on_failure e run m)) (close_all e) t = (Inr res, u)"
    unfolding start_apply_def by (elim sbind_InrE slift_InrE) blast
  then obtain u' y where b: "s_try (apply_body e run plan artifact ds gp m) (on_failure e run m) t = (Inr res, u')"
    and c: "close_all e u' = (Inr y, u)" by (rule s_finally_InrE)
  from b have "all_restored e (rn_id run) u'"
    by (rule s_try_InrE) (use apply_body_never_rolled_back on_failure_restores assms(2) in blast)+
  moreover have "ws_store u = ws_store u'" using keepsD [OF keeps_close_all [of "\<lambda>s. s = ws_store u'"] _ c] by simp
  moreover have "ws_changed u = ws_changed u' \<and> ws_checkpoints u = ws_checkpoints u'"
    using keepsD [OF quiet_close_all [of "\<lambda>c k i. c = ws_changed u' \<and> k = ws_checkpoints u'"] _ c] by simp
  ultimately show ?thesis by (simp add: all_restored_def)
qed

lemma process_apply_restores:
  assumes "process_apply e rid intent plan artifact allowed v = (Inr res, u)" and "ar_rolled_back res"
  shows "all_restored e rid u"
  using assms(1)
proof (cases rule: process_apply_InrE)
  case (started run)
  then have "rn_id run = rid" using runs_tbl.get_Some by (auto simp: get_run_def res)
  with start_apply_restores [OF started(2) assms(2)] show ?thesis by simp
qed (use assms(2) in simp)

end
