(* ===== verification/Simulator.thy ===== *)
theory Simulator
  imports WorkerOutcome
begin

text \<open>
  The dry run (\<open>simulator.py\<close>): it walks through the rendered artifact, records what would be
  configured as evidence, and ends the run. It has no device adapters; its environment gives
  the clock and the actor only.
\<close>

section \<open>The walk\<close>

record tally =
  ty_blocks :: nat
  ty_commands :: nat
  ty_phases :: nat

definition command_count :: "json list \<Rightarrow> nat result" where
  "command_count blocks =
     (ebind (mapE (\<lambda>b. (ebind (jidx b ''commands'') (\<lambda>c.
        jlen c))) blocks) (\<lambda>lens.
        Inr (sum_list lens)))"

definition simulate_phase ::
    "'w worker_env \<Rightarrow> string \<Rightarrow> json \<Rightarrow> string \<Rightarrow> tally \<Rightarrow> json \<Rightarrow> ('w, tally) work" where
  "simulate_phase e run_id artifact device_id t phase =
     (sbind (slift (jidx phase ''blocks'')) (\<lambda>raw.
        sbind (slift (jlen raw)) (\<lambda>n.
        sbind (slift (elems raw)) (\<lambda>blocks.
        sbind (slift (command_count blocks)) (\<lambda>m.
        sbind (slift (jidx phase ''phase_id'')) (\<lambda>phase_id.
        sbind (slift (jidx artifact ''artifact_hash'')) (\<lambda>artifact_hash.
        sbind (slift (mapE (\<lambda>b. jidx b ''command_hash'') blocks)) (\<lambda>hashes.
        sbind (evidence_of e run_id (py_str phase_id) ''rendered_configuration''
            (JObj [(''artifact_hash'', artifact_hash), (''device_id'', JStr device_id), (''phase_id'', phase_id),
                   (''block_hashes'', JArr hashes), (''block_count'', JInt (int n)),
                   (''command_count'', JInt (int m)), (''contains_secret_values'', JBool False)]) device_id) (\<lambda>_.
        sret \<lparr>ty_blocks = ty_blocks t + n, ty_commands = ty_commands t + m, ty_phases = ty_phases t + 1\<rparr>)))))))))"

definition simulate_device ::
    "'w worker_env \<Rightarrow> string \<Rightarrow> json \<Rightarrow> tally \<Rightarrow> string \<times> json \<Rightarrow> ('w, tally) work" where
  "simulate_device e run_id artifact t part =
     (case part of (device_id, device) \<Rightarrow>
        (sbind (slift (items_at device ''phases'')) (\<lambda>phases.
           s_foldM (simulate_phase e run_id artifact device_id) t phases)))"

section \<open>\<open>process_dry_run\<close>\<close>

record dry_result =
  dr_run :: run_row
  dr_summary :: json
  dr_evidence :: "evidence_row list"

definition dry_run_body :: "'w worker_env \<Rightarrow> string \<Rightarrow> json \<Rightarrow> ('w, dry_result) work" where
  "dry_run_body e run_id artifact =
     (sbind (slift (jidx artifact ''devices'')) (\<lambda>devices.
        sbind (slift (items_of devices)) (\<lambda>parts.
        sbind (s_foldM (simulate_device e run_id artifact) \<lparr>ty_blocks = 0, ty_commands = 0, ty_phases = 0\<rparr> parts) (\<lambda>t.
        sbind (slift (items_get artifact ''blocking_requirements'')) (\<lambda>blockers.
        sbind (slift (jidx artifact ''artifact_hash'')) (\<lambda>artifact_hash.
        let summary = JObj [(''artifact_hash'', artifact_hash), (''device_count'', JInt (int (length parts))),
                (''phase_count'', JInt (int (ty_phases t))), (''command_block_count'', JInt (int (ty_blocks t))),
                (''command_count'', JInt (int (ty_commands t))), (''blocking_requirements'', JArr blockers)] in
        sbind (store_op e (\<lambda>rt. add_evidence rt run_id ''dry_run_summary'' ''simulation_summary'' summary (we_actor e) None)) (\<lambda>_.
        sbind (run_to e run_id (if blockers = [] then DryRunSucceeded else DryRunBlocked) summary) (\<lambda>updated.
        sbind (store_read (\<lambda>s. Inr (run_evidence run_id s))) (\<lambda>rows.
        sret \<lparr>dr_run = updated, dr_summary = summary, dr_evidence = rows\<rparr>)))))))))"

definition process_dry_run :: "'w worker_env \<Rightarrow> string \<Rightarrow> json \<Rightarrow> ('w, dry_result) work" where
  "process_dry_run e run_id artifact =
     (sbind (store_read (get_run run_id)) (\<lambda>run.
        sbind (sguard (rn_mode run \<noteq> DryRun) (ConflictError ''Simulator accepts dry_run records only'')) (\<lambda>_.
        sbind (sguard (rn_status run \<noteq> DryRunQueued) (ConflictError ''Dry run is not queued'')) (\<lambda>_.
        sbind (run_to e run_id DryRunRunning (JObj [])) (\<lambda>_.
        s_try (dry_run_body e run_id artifact)
            (\<lambda>x. (sbind (run_to e run_id DryRunFailed (JObj [(''error_type'', JStr (exn_name x))])) (\<lambda>_.
               sraise x))))))))"

section \<open>What it does to the store\<close>

text \<open>The part of the store that a dry run may not touch.\<close>

definition same_fabric :: "store \<Rightarrow> store \<Rightarrow> bool" where
  "same_fabric s t \<longleftrightarrow> intents t = intents s \<and> plans t = plans s \<and> approvals t = approvals s
     \<and> reservations t = reservations s \<and> networks t = networks s \<and> scalars t = scalars s \<and> owned t = owned s
     \<and> set (locks t) \<subseteq> set (locks s)"

lemma same_fabric_refl: "same_fabric s s"
  by (simp add: same_fabric_def)

lemma same_fabric_transition: "transition_run rt rid st actor d s = Inr (x, t) \<Longrightarrow> same_fabric s t"
  by (auto simp: transition_run_def Let_def res same_fabric_def set_run_status_def release_lock_def table_update_def
      elim!: append_auditE split: if_splits)

lemma same_fabric_evidence: "add_evidence rt rid ph k p actor dev s = Inr (x, t) \<Longrightarrow> same_fabric s t"
  by (auto simp: add_evidence_def Let_def res insert_evidence_def evidence_tbl.insert_Inr same_fabric_def
      split: option.splits if_splits elim!: append_auditE)

lemma same_fabric_trans: "same_fabric s t \<Longrightarrow> same_fabric t u \<Longrightarrow> same_fabric s u"
  by (auto simp: same_fabric_def)

lemma dry_run_to: "keeps (\<lambda>u. same_fabric s (ws_store u)) (run_to e rid st d)"
  unfolding run_to_def by (intro keeps_store_op) (blast intro: same_fabric_transition same_fabric_trans)

lemma dry_evidence: "keeps (\<lambda>u. same_fabric s (ws_store u)) (store_op e (\<lambda>rt. add_evidence rt rid ph k p actor dev))"
  by (intro keeps_store_op) (blast intro: same_fabric_evidence same_fabric_trans)

lemma dry_simulate_device: "keeps (\<lambda>u. same_fabric s (ws_store u)) (simulate_device e rid artifact t part)"
  unfolding simulate_device_def simulate_phase_def evidence_of_def by (intro keeps still dry_evidence)

lemma dry_process: "keeps (\<lambda>u. same_fabric s (ws_store u)) (process_dry_run e rid artifact)"
  unfolding process_dry_run_def dry_run_body_def
  by (intro keeps still dry_evidence dry_run_to dry_simulate_device)

context step_closed
begin

lemma keeps_process_dry_run: "keeps on_store (process_dry_run e rid artifact)"
  unfolding process_dry_run_def dry_run_body_def simulate_device_def simulate_phase_def
  by (intro keeps steps keeps_op) (rule worker_step.wk_evidence)

end

end
