(* ===== verification/WorkerProps.thy ===== *)
theory WorkerProps
  imports WorkerChanges Simulator StoreProps ReconcileProps
begin

text \<open>
  The properties of whole calls of the worker and of the dry run. They hold for every
  environment: whatever the adapters, the resolvers and the gates answer or raise.
\<close>

section \<open>A sample run\<close>

text \<open>
  An artifact with one block that needs one secret, the queued run of it, and a world that
  counts the clock's instants and has no secret to give.
\<close>

definition sample_env :: "nat worker_env" where
  "sample_env =
     \<lparr>we_actor = ''sda-worker'',
      we_clock = (\<lambda>w. (\<lparr>now = (\<lambda>k. 1000 + int w), uuid = (\<lambda>k. nat_str (100 * w + k)), fromisoformat = (\<lambda>_. None)\<rparr>, Suc w)),
      we_gate_plan = (\<lambda>_ _. Inr []), we_evaluate = (\<lambda>_ _. Inl TypeError),
      we_secret = (\<lambda>uri w. (Inl (External ''SecretNotFound''), w)), we_credentials = None,
      we_connect = (\<lambda>_ _. sret ()), we_show = (\<lambda>_ _. sret JNull), we_checkpoint = (\<lambda>_ _. sret JNull),
      we_apply_block = (\<lambda>_ _. sret JNull), we_rollback = (\<lambda>_ _. sret JNull), we_close = (\<lambda>_. sret ()), we_ise = None\<rparr>"

definition sample_body :: "json list \<Rightarrow> (string \<times> json) list" where
  "sample_body blockers =
     [(''plan_hash'', JStr ''ph''), (''blocking_requirements'', JArr blockers),
      (''owned_state'', sample_manifest []),
      (''devices'', JObj [(''b1'', JObj [(''phases'', JArr [JObj [(''phase_id'', JStr ''underlay''),
         (''blocks'', JArr [JObj [(''secret_refs'', JArr [JStr ''secret://a''])]])]])])])]"

definition sample_blocker :: json where
  "sample_blocker = JObj [(''code'', JStr ''endpoint_attachment_required'')]"

definition sample_artifact :: "json list \<Rightarrow> json" where
  "sample_artifact blockers =
     JObj (sample_body blockers @ [(''artifact_hash'', JStr (sha256_json (JObj (sample_body blockers))))])"

definition sample_work_store :: "json list \<Rightarrow> string option \<Rightarrow> reservation_row list \<Rightarrow> store" where
  "sample_work_store blockers q rs =
     (let h = sha256_json (JObj (sample_body blockers)) in
      sample_queued\<lparr>plans := [sample_plan_row\<lparr>pl_artifact_hash := h, pl_reservation := q\<rparr>],
        approvals := [sample_approval_row\<lparr>ap_artifact_hash := h\<rparr>],
        runs := [sample_run_row\<lparr>rn_artifact_hash := h\<rparr>], reservations := rs\<rparr>)"

definition sample_work_intent :: json where
  "sample_work_intent = JObj [(''devices'', JArr [JObj [(''id'', JStr ''b1'')]])]"

definition sample_work_plan :: json where
  "sample_work_plan = JObj [(''plan_hash'', JStr ''ph''), (''phases'', JArr [])]"

lemmas sample_work_defs = sample_work_store_def sample_artifact_def sample_body_def sample_work_intent_def
  sample_work_plan_def sample_env_def

lemma sample_work_inv: "rs = [] \<or> rs = [sample_reservation\<lparr>rs_state := Committed\<rparr>] \<Longrightarrow> store_inv (sample_work_store bs q rs)"
  by (auto simp: store_inv_def ids_inv_def intents_inv_def plans_inv_def approvals_inv_def runs_inv_def locks_inv_def
      networks_inv_def scalars_inv_def active_keys_inv_def owned_inv_def evidence_inv_def verify_audit_chain_def
      approval_bound_def run_authorised_def plan_matches_def approval_for_def apply_active_def sample_defs
      sample_work_store_def sample_reservation_def Let_def)

lemmas process_simps = process_apply_def check_binding_def unresolved_blocker_codes_def unresolved_code_def get_run_def
  table_get_def jget_def jget_default_def del_field_def sbind_def store_read_def slift_def sguard_def Let_def jor_def str_get_def jstrs_def sret_def

section \<open>The worker and the store\<close>

lemma start_store: "worker_start s w = u \<Longrightarrow> ws_store u = s"
  by (auto simp: worker_start_def)

lemma worker_start_simps [simp]:
  "ws_store (worker_start s w) = s" "ws_changed (worker_start s w) = []" "ws_checkpoints (worker_start s w) = []"
  "ws_adapters (worker_start s w) = []"
  by (simp_all add: worker_start_def)

text \<open>
  Whatever happens in \<open>process_apply\<close>, an exception included, the store it leaves is reached by a
  sequence of the transactions of the store; so every property of reachable stores holds while and
  after the worker runs.
\<close>

lemma worker_refines_store:
  "(store_step derive)\<^sup>*\<^sup>* s
     (ws_store (snd (process_apply e run_id intent plan artifact allowed (worker_start s w))))"
proof -
  obtain r u where p: "process_apply e run_id intent plan artifact allowed (worker_start s w) = (r, u)" by fastforce
  have "worker_step\<^sup>*\<^sup>* (ws_store (worker_start s w)) (ws_store u)"
    by (rule advances [OF after.keeps_process_apply p])
  then show ?thesis by (simp add: p worker_steps_store_steps)
qed

lemma process_steps:
  assumes "process_apply e run_id intent plan artifact allowed (worker_start s w) = (r, u)"
  shows "worker_step\<^sup>*\<^sup>* s (ws_store u)"
  using advances [OF after.keeps_process_apply assms] by simp

lemma process_settled:
  assumes "process_apply e run_id intent plan artifact allowed v = (Inr res, u)"
  obtains run where "get_run run_id (ws_store v) = Inr run" "rn_id run = run_id" "settled run res u"
proof -
  from assms show thesis
  proof (cases rule: process_apply_InrE)
    case (refused run d row)
    then have i: "rn_id run = run_id" using runs_tbl.get_Some by (auto simp: get_run_def res)
    from refused run_to_Inr [OF refused(2)] i have "settled run res u" by (simp add: settled_def outcome_def)
    with refused(1) i show thesis by (rule that)
  next
    case (started run)
    then have "rn_id run = run_id" using runs_tbl.get_Some by (auto simp: get_run_def res)
    with started(1) start_apply_settled [OF started(2)] show thesis by (intro that)
  qed
qed

text \<open>
  C21: when \<open>process_apply\<close> returns, the run it reports is the stored one and has ended: as succeeded
  exactly when it says so, as rolled back exactly when it says so, as failed otherwise; and the
  run holds no lock any more.
\<close>

theorem worker_settles_run:
  assumes "store_inv s"
    and "process_apply e run_id intent plan artifact allowed (worker_start s w) = (Inr res, u)"
  shows "get_run run_id (ws_store u) = Inr (ar_run res)
    \<and> rn_status (ar_run res) \<in> {ApplySucceeded, RolledBack, ApplyFailed, RollbackFailed}
    \<and> ar_succeeded res = (rn_status (ar_run res) = ApplySucceeded)
    \<and> ar_rolled_back res = (rn_status (ar_run res) = RolledBack)
    \<and> (\<forall>l \<in> set (locks (ws_store u)). lk_run l \<noteq> run_id)"
proof -
  from process_settled [OF assms(2)] obtain run where i: "rn_id run = run_id" and "settled run res u" by blast
  then have o: "outcome run res u" by (simp add: settled_def)
  with i have g: "table_get runs rn_id run_id (ws_store u) = Some (ar_run res)" by (simp add: outcome_def)
  have st: "rn_status (ar_run res) \<in> {ApplySucceeded, RolledBack, ApplyFailed, RollbackFailed}"
    and f: "ar_succeeded res = (rn_status (ar_run res) = ApplySucceeded)"
    and b: "ar_rolled_back res = (rn_status (ar_run res) = RolledBack)"
    using o by (auto simp: outcome_def split: if_splits)
  have inv: "store_inv (ws_store u)" using worker_steps_inv [OF process_steps [OF assms(2)] assms(1)] by simp
  then have ids: "distinct (map rn_id (runs (ws_store u)))" and lk: "locks_inv (ws_store u)"
    by (simp_all add: store_inv_def ids_inv_def)
  have "lk_run l \<noteq> run_id" if l: "l \<in> set (locks (ws_store u))" for l
  proof
    assume "lk_run l = run_id"
    with lk l obtain r where r: "r \<in> set (runs (ws_store u))" "rn_id r = run_id" "apply_active (rn_status r)"
      unfolding locks_inv_def by metis
    from runs_tbl.get_Some [OF g] r ids have "r = ar_run res" by (auto dest: distinct_map_eqD)
    with r(3) st show False by (auto simp: apply_active_def)
  qed
  with g st f b show ?thesis by (simp add: get_run_def)
qed

definition reservation_settled :: "store \<Rightarrow> string \<Rightarrow> run_status \<Rightarrow> bool" where
  "reservation_settled s plan_id status \<longleftrightarrow>
     (case status of
        ApplySucceeded \<Rightarrow> plan_reservation_is s plan_id Committed
      | RolledBack \<Rightarrow> plan_reservation_is s plan_id Released
      | RollbackFailed \<Rightarrow> plan_reservation_is s plan_id Quarantined
      | _ \<Rightarrow> True)"

lemma sample_blocked:
  "\<exists>res u. process_apply sample_env ''run_9'' sample_work_intent sample_work_plan (sample_artifact [sample_blocker]) []
     (worker_start (sample_work_store [sample_blocker] None []) 0) = (Inr res, u) \<and> ar_succeeded res = False
     \<and> rn_status (ar_run res) = ApplyFailed"
  by (simp add: process_simps sample_work_defs sample_blocker_def run_to_def store_op_def transition_run_def sample_defs
      set_run_status_def release_lock_def table_update_def run_terminal_def append_audit_def table_insert_def worker_start_def)

theorem worker_settles_run_witness:
  "\<exists>res u. process_apply sample_env ''run_9'' sample_work_intent sample_work_plan (sample_artifact [sample_blocker]) []
     (worker_start (sample_work_store [sample_blocker] None []) 0) = (Inr res, u)
     \<and> get_run ''run_9'' (ws_store u) = Inr (ar_run res) \<and> rn_status (ar_run res) = ApplyFailed \<and> ar_rolled_back res = False
     \<and> ''run_9'' \<notin> lk_run ` set (locks (ws_store u))"
proof -
  obtain res u where p: "process_apply sample_env ''run_9'' sample_work_intent sample_work_plan
      (sample_artifact [sample_blocker]) [] (worker_start (sample_work_store [sample_blocker] None []) 0) = (Inr res, u)"
    and "ar_succeeded res = False" "rn_status (ar_run res) = ApplyFailed"
    using sample_blocked by blast
  with worker_settles_run [OF sample_work_inv p] show ?thesis by force
qed

text \<open>
  C22: the design reservation of the run's plan follows the run: committed after a success, released
  after a rollback that was verified, quarantined after a failed one. (The requirement on a failed
  phase in \<open>docs/poc-end-to-end-blueprint.md\<close> asks for quarantine and no release after every revert;
  the code releases.)
\<close>

theorem reservation_follows_outcome:
  "case process_apply e run_id intent plan artifact allowed (worker_start s w) of
     (Inl x, u) \<Rightarrow> True
   | (Inr res, u) \<Rightarrow> \<exists>run. get_run run_id s = Inr run
       \<and> reservation_settled (ws_store u) (rn_plan_id run) (rn_status (ar_run res))"
proof (cases "process_apply e run_id intent plan artifact allowed (worker_start s w)")
  case (Pair y u)
  show ?thesis
  proof (cases y)
    case (Inr res)
    with Pair have "process_apply e run_id intent plan artifact allowed (worker_start s w) = (Inr res, u)" by simp
    then obtain run where r: "get_run run_id (ws_store (worker_start s w)) = Inr run" and o: "settled run res u"
      by (rule process_settled)
    from o have "reservation_settled (ws_store u) (rn_plan_id run) (rn_status (ar_run res))"
      by (simp add: settled_def reservation_settled_def split: run_status.splits)
    with r show ?thesis by (auto simp: Pair Inr)
  qed (simp add: Pair)
qed

section \<open>Gates and checkpoints\<close>

definition gates_behind :: "'w worker_env \<Rightarrow> string \<Rightarrow> json \<Rightarrow> json \<Rightarrow> json \<Rightarrow> store \<Rightarrow> bool" where
  "gates_behind e run_id intent plan artifact s \<longleftrightarrow>
     (\<exists>gates phases. we_gate_plan e intent artifact = Inr gates \<and> ordered_phases plan = Inr phases
        \<and> (\<forall>g \<in> set gates. \<forall>ph \<in> insert ''precheck'' (set phases).
             jidx g ''phase_id'' = Inr (JStr ph) \<longrightarrow> gate_passed e run_id s g))"

lemma apply_body_phases:
  "apply_body e run plan artifact ds gp m v = (Inr res, u) \<Longrightarrow> ar_succeeded res \<Longrightarrow> \<exists>phs. ordered_phases plan = Inr phs"
  by (erule apply_body_InrE) (auto split: option.splits elim!: refuse_apply_InrE apply_changes_InrE)

lemma start_apply_gates:
  assumes "start_apply e run intent plan artifact v = (Inr res, u)" and "ar_succeeded res"
  shows "gates_behind e (rn_id run) intent plan artifact (ws_store u)"
  using assms(1)
proof (cases rule: start_apply_InrE)
  case (finished ds gp m w t row)
  then obtain t' where b: "apply_body e run plan artifact ds gp m t = (Inr res, t')" and u: "ws_store u = ws_store t'" by blast
  from apply_body_phases [OF b assms(2)] obtain phs where "ordered_phases plan = Inr phs" by blast
  with finished(1) apply_body_passed [OF b assms(2)] show ?thesis
    unfolding gates_behind_def u by blast
next
  case (failed ds gp m t x t')
  with on_failure_settled assms(2) show ?thesis by blast
qed

lemma process_gates:
  assumes "process_apply e run_id intent plan artifact allowed (worker_start s w) = (Inr res, u)" and "ar_succeeded res"
  shows "gates_behind e run_id intent plan artifact (ws_store u)"
  using assms(1)
proof (cases rule: process_apply_InrE)
  case (started run)
  then have "rn_id run = run_id" using runs_tbl.get_Some by (auto simp: get_run_def res)
  then show ?thesis using start_apply_gates [OF started(2) assms(2)] by simp
qed (use assms(2) in simp)

text \<open>
  C23: a success has evidence in the store of a passed evaluation of every gate of the gate plan that
  belongs to the prechecks or to a phase of the plan.
\<close>

theorem success_has_passed_gates:
  "case process_apply e run_id intent plan artifact allowed (worker_start s w) of
     (Inl x, u) \<Rightarrow> True
   | (Inr res, u) \<Rightarrow> (if ar_succeeded res then gates_behind e run_id intent plan artifact (ws_store u) else True)"
  by (auto split: prod.split sum.split dest: process_gates)

text \<open>
  C24: however \<open>process_apply\<close> ends, each device it counts as changed has a checkpoint: the
  rollback never lacks one.
\<close>

theorem changed_devices_have_checkpoints:
  "set (ws_changed (snd (process_apply e run_id intent plan artifact allowed (worker_start s w))))
     \<subseteq> fst ` set (ws_checkpoints (snd (process_apply e run_id intent plan artifact allowed (worker_start s w))))"
proof -
  obtain r u where p: "process_apply e run_id intent plan artifact allowed (worker_start s w) = (r, u)" by fastforce
  have "records covered u" 
    by (rule keepsD [OF process_apply_covered _ p]) simp
  then show ?thesis by (simp add: p)
qed

text \<open>
  C25: a rollback that is reported as complete has restored every device. When \<open>process_apply\<close>
  returns with \<open>rolled_back\<close> set, each changed device (each device with a checkpoint, if none was
  changed) was replaced by the checkpoint recorded for it, with a result that says \<open>verified\<close>, and
  the evidence of that result is in the store.
\<close>

theorem rolled_back_devices_are_restored:
  "case process_apply e run_id intent plan artifact allowed (worker_start s w) of
     (Inl x, u) \<Rightarrow> True
   | (Inr res, u) \<Rightarrow> (if ar_rolled_back res then all_restored e run_id u else True)"
  by (auto split: prod.split sum.split dest: process_apply_restores)

section \<open>Before the transaction\<close>

lemma start_apply_untouched:
  assumes "start_apply e run intent plan artifact v = (r, u)"
  obtains (nothing) x where "ws_store u = ws_store v" "r = Inl x"
    | (running) row t w where "run_to e (rn_id run) ApplyRunning (JObj []) w = (Inr row, t)" "ws_store w = ws_store v"
        "worker_step\<^sup>*\<^sup>* (ws_store t) (ws_store u)"
proof -
  from assms [unfolded start_apply_def] show thesis
  proof (cases rule: sbind_cases)
    case (went ds t)
    then have t: "t = v" by simp
    from went(2) show thesis
    proof (cases rule: sbind_cases)
      case (went gp t1)
      then have t1: "t1 = v" using t by simp
      from went(2) show thesis
      proof (cases rule: sbind_cases)
        case (went m t2)
        then have t2: "t2 = v" using t1 by simp
        from went(2) show thesis
        proof (cases rule: sbind_cases)
          case (raised x)
          then have "ws_store u = ws_store v" using t2 keepsD [OF keeps_world_op [of "\<lambda>s. s = ws_store v"] _ raised(1)] by simp
          then show thesis using raised(2) by (rule nothing)
        next
          case (went z t3)
          then have t3: "ws_store t3 = ws_store v" using t2 keepsD [OF keeps_world_op [of "\<lambda>s. s = ws_store v"] _ went(1)] by simp
          from went(2) show thesis
          proof (cases rule: sbind_cases)
            case (raised x)
            then have "ws_store u = ws_store v"
              using t3 by (auto simp: run_to_def store_op_def Let_def split: prod.splits sum.splits)
            then show thesis using raised(2) by (rule nothing)
          next
            case (went row t4)
            have "keeps (\<lambda>s. worker_step\<^sup>*\<^sup>* (ws_store t4) (ws_store s))
                (s_finally (s_try (apply_body e run plan artifact ds gp m) (on_failure e run m)) (close_all e))"
              by (intro keeps after.steps after.keeps_apply_body after.keeps_on_failure keeps_close_all)
            then have "worker_step\<^sup>*\<^sup>* (ws_store t4) (ws_store u)" by (rule advances) (rule went(2))
            with went(1) t3 show thesis by (rule running)
          qed
        qed
      next
      case (raised x)
      then have "ws_store u = ws_store v" using t1 by auto
      then show thesis using raised(2) by (rule nothing)
    qed
    next
      case (raised x)
      then have "ws_store u = ws_store v" using t by auto
      then show thesis using raised(2) by (rule nothing)
    qed
  next
      case (raised x)
      then have "ws_store u = ws_store v" by auto
      then show thesis using raised(2) by (rule nothing)
    qed
qed

lemma inv_after: "m v = (r, u) \<Longrightarrow> keeps (\<lambda>u. store_inv (ws_store u)) m \<Longrightarrow> store_inv (ws_store v) \<Longrightarrow> store_inv (ws_store u)"
  using keepsD [of "\<lambda>u. store_inv (ws_store u)" m v r u] by blast

lemma left_queue: "run_allowed\<^sup>*\<^sup>* st st' \<Longrightarrow> st \<noteq> ApplyQueued \<Longrightarrow> st' \<noteq> ApplyQueued"
proof (induction rule: rtranclp_induct)
  case (step a b)
  then show ?case by (cases a) auto
qed simp

lemma run_to_left:
  assumes "run_to e rid st d v = (Inr row, t)" and "st \<noteq> ApplyQueued" and "worker_step\<^sup>*\<^sup>* (ws_store t) (ws_store u)"
    and "store_inv (ws_store t)" and "get_run rid (ws_store u) = Inr row'"
  shows "rn_status row' \<noteq> ApplyQueued"
proof -
  from run_to_Inr [OF assms(1)] have r: "row \<in> set (runs (ws_store t))" "rn_id row = rid" "rn_status row = st"
    using runs_tbl.get_Some by auto
  from worker_steps_inv [OF assms(3,4)] have k: "row_kept (ws_store t) (ws_store u)" "store_inv (ws_store u)" by simp_all
  from k(1) r obtain r' where r': "r' \<in> set (runs (ws_store u))" "rn_id r' = rid" "run_allowed\<^sup>*\<^sup>* st (rn_status r')"
    unfolding row_kept_def by metis
  from assms(5) have "row' \<in> set (runs (ws_store u))" "rn_id row' = rid"
    using runs_tbl.get_Some by (auto simp: get_run_def res)
  with r' k(2) have "row' = r'" by (auto simp: store_inv_def ids_inv_def dest: distinct_map_eqD)
  with left_queue [OF r'(3) assms(2)] show ?thesis by simp
qed

lemma sample_unavailable:
  "\<exists>u. process_apply sample_env ''run_9'' sample_work_intent sample_work_plan (sample_artifact []) []
      (worker_start (sample_work_store [] None []) 0) = (Inl (PreflightSecretError ''Secret unavailable secret://a''), u)
    \<and> get_run ''run_9'' (ws_store u) = Inr (sample_run_row\<lparr>rn_artifact_hash := sha256_json (JObj (sample_body []))\<rparr>)"
  by (simp add: process_simps sample_work_defs sample_defs start_apply_def run_devices_def intent_devices_def items_at_def
      items_get_def str_at_def str_get_def strs_get_def add_retired_def ise_part_def jor_def preflight_secret_sweep_def
      sweep_block_def swept_def s_try_def sraise_def sret_def world_op_def worker_start_def)

text \<open>
  C26: if the run is still queued after the call, then the call raised and the store is exactly what it
  was: no status, no evidence and no audit event is written before \<open>apply_running\<close> is committed.
\<close>

theorem preflight_leaves_no_trace:
  assumes "store_inv s"
    and "process_apply e run_id intent plan artifact allowed (worker_start s w) = (r, u)"
    and "get_run run_id (ws_store u) = Inr row" and "rn_status row = ApplyQueued"
  shows "ws_store u = s \<and> (\<exists>x. r = Inl x)"
proof -
  let ?v = "worker_start s w"
  have quiet_start: "ws_store u = s \<and> (\<exists>x. r = Inl x)"
    if run: "get_run run_id s = Inr run" and c: "start_apply e run intent plan artifact t = (r, u)" and t: "ws_store t = s" for run t
    using c
  proof (cases rule: start_apply_untouched)
    case (running row1 t1 w1)
    have "store_inv (ws_store t1)" using inv_after [OF running(1) inv.keeps_run_to] running(2) t assms(1) by simp
    moreover have "rn_id run = run_id" using run runs_tbl.get_Some by (auto simp: get_run_def res)
    ultimately show ?thesis using run_to_left [OF running(1) _ running(3)] assms(3,4) by simp
  qed (use t in simp)
  from assms(2) [unfolded process_apply_def] show ?thesis
  proof (cases rule: sbind_cases)
    case (raised x)
    then show ?thesis by (auto simp: store_read_def)
  next
    case (went run t)
    then have run: "get_run run_id s = Inr run" and t: "t = ?v" by (simp_all add: store_read_def)
    from went(2) show ?thesis
    proof (cases rule: sbind_cases)
      case (raised x)
      then show ?thesis using t by (auto simp: sguard_def split: if_splits)
    next
      case (went z t1)
      then have t1: "t1 = ?v" using t by (simp add: sguard_def split: if_splits)
      from went(2) show ?thesis
      proof (cases rule: sbind_cases)
        case (went z t2)
        then have t2: "t2 = ?v" using t1 by simp
        from went(2) show ?thesis
        proof (cases rule: sbind_cases)
          case (went b t3)
          then have t3: "t3 = ?v" using t2 by simp
          from went(2) show ?thesis
          proof (cases rule: sbind_cases)
            case (went un t4)
            then have t4: "t4 = ?v" using t3 by simp
            show ?thesis
            proof (cases "un = []")
              case True
              with went(2) t4 have "start_apply e run intent plan artifact ?v = (r, u)" by simp
              then show ?thesis using quiet_start [OF run] by simp
            next
              case False
              with went(2) have c: "sbind (run_to e run_id ApplyFailed (JObj [(''reason'', JStr ''artifact_has_blocking_requirements''),
                   (''unresolved_blocker_codes'', jstrs un)])) (\<lambda>updated. sret \<lparr>ar_succeeded = False, ar_run = updated,
                   ar_rolled_back = False, ar_failure = None\<rparr>) ?v = (r, u)" (is "sbind ?m _ _ = _") unfolding t4 by simp
              then show ?thesis
              proof (cases rule: sbind_cases)
                case (raised x)
                then show ?thesis by (auto simp: run_to_def store_op_def Let_def split: prod.splits sum.splits)
              next
                case (went row1 t5)
                then have "u = t5" by simp
                have "store_inv (ws_store t5)" using inv_after [OF went(1) inv.keeps_run_to] assms(1) by simp
                with run_to_left [OF went(1), of t5 row] assms(3,4) \<open>u = t5\<close> show ?thesis by simp
              qed
            qed
          qed (use t3 in \<open>auto dest: start_store\<close>)
        qed (use t2 in \<open>auto dest: start_store\<close>)
      qed (use t1 in \<open>auto dest: start_store\<close>)
    qed
  qed
qed

theorem preflight_leaves_no_trace_witness:
  "\<exists>x u. process_apply sample_env ''run_9'' sample_work_intent sample_work_plan (sample_artifact []) []
     (worker_start (sample_work_store [] None []) 0) = (Inl x, u) \<and> x = PreflightSecretError ''Secret unavailable secret://a''
     \<and> ws_store u = sample_work_store [] None []"
proof -
  obtain u where p: "process_apply sample_env ''run_9'' sample_work_intent sample_work_plan (sample_artifact []) []
      (worker_start (sample_work_store [] None []) 0) = (Inl (PreflightSecretError ''Secret unavailable secret://a''), u)"
    and g: "get_run ''run_9'' (ws_store u) = Inr (sample_run_row\<lparr>rn_artifact_hash := sha256_json (JObj (sample_body []))\<rparr>)"
    using sample_unavailable by blast
  with preflight_leaves_no_trace [OF sample_work_inv p g] show ?thesis by (simp add: sample_run_row_def)
qed

section \<open>Applying a plan a second time\<close>

lemma apply_changes_commit:
  assumes "apply_changes e run plan artifact gp m v = (Inr res, u)"
  obtains w where "worker_step\<^sup>*\<^sup>* (ws_store v) (ws_store w)" "reservation_to e run ''committed'' False w = (Inr (), u)"
proof -
  from assms obtain v1 v2 v3 xs ys z phs arts parts row d ah ow where
      k: "s_mapM (take_checkpoint e (rn_id run)) (sort (ws_adapters v)) v = (Inr xs, v1)"
      and *: "jidx artifact ''devices'' = Inr arts" "items_of arts = Inr parts" "ordered_phases plan = Inr phs"
      and p: "s_mapM (apply_phase e (rn_id run) gp m parts) phs v1 = (Inr ys, v2)"
      and c: "store_op e (\<lambda>rt. complete_apply rt (rn_id run) ah ow (we_actor e) d) v2 = (Inr row, v3)"
      and r: "reservation_to e run ''committed'' False v3 = (Inr z, u)"
      and **: "res = \<lparr>ar_succeeded = True, ar_run = row, ar_rolled_back = False, ar_failure = None\<rparr>"
    by (rule apply_changes_InrE)
  have "worker_step\<^sup>*\<^sup>* (ws_store v) (ws_store v1)"
    by (rule advances [of v "s_mapM (take_checkpoint e (rn_id run)) (sort (ws_adapters v))", OF _ k])
      (intro keeps after.keeps_take_checkpoint)
  also have "worker_step\<^sup>*\<^sup>* (ws_store v1) (ws_store v2)"
    by (rule advances [of v1 "s_mapM (apply_phase e (rn_id run) gp m parts) phs", OF _ p])
      (intro keeps after.keeps_apply_phase)
  also have "worker_step\<^sup>*\<^sup>* (ws_store v2) (ws_store v3)" by (rule advances [OF after.keeps_complete c])
  finally show thesis using r by (intro that) simp_all
qed

lemma apply_body_commit:
  assumes "apply_body e run plan artifact ds gp m v = (Inr res, u)" and "ar_succeeded res"
  obtains w where "worker_step\<^sup>*\<^sup>* (ws_store v) (ws_store w)" "reservation_to e run ''committed'' False w = (Inr (), u)"
proof -
  from assms(1) obtain v1 v2 v3 pre failed us z where
      o: "s_mapM (open_adapter e ds) (sort (map fst ds)) v = (Inr us, v1)"
      and i: "(if truthy m then prepare_ise e (rn_id run) m else sret ()) v1 = (Inr z, v2)"
      and pre: "gates_of ''precheck'' gp = Inr pre" and f: "first_failing e (rn_id run) pre v2 = (Inr failed, v3)"
      and c: "(case failed of Some gate \<Rightarrow> refuse_apply e run gate | None \<Rightarrow> apply_changes e run plan artifact gp m) v3 = (Inr res, u)"
    by (rule apply_body_InrE)
  have "worker_step\<^sup>*\<^sup>* (ws_store v) (ws_store v1)"
    by (rule advances [of v "s_mapM (open_adapter e ds) (sort (map fst ds))", OF _ o]) (intro keeps after.keeps_open_adapter)
  also have "worker_step\<^sup>*\<^sup>* (ws_store v1) (ws_store v2)"
    by (rule advances [of v1 "if truthy m then prepare_ise e (rn_id run) m else sret ()", OF _ i])
      (intro keeps after.keeps_prepare_ise)
  also have "worker_step\<^sup>*\<^sup>* (ws_store v2) (ws_store v3)" by (rule advances [OF after.keeps_first_failing f])
  finally have "worker_step\<^sup>*\<^sup>* (ws_store v) (ws_store v3)" .
  moreover have "apply_changes e run plan artifact gp m v3 = (Inr res, u)"
    using c assms(2) by (cases failed) (auto elim!: refuse_apply_InrE)
  ultimately show thesis by (elim apply_changes_commit) (rule that, rule rtranclp_trans)
qed

lemma reservation_never_reserved:
  "reservation_allowed\<^sup>*\<^sup>* st st' \<Longrightarrow> st \<noteq> Reserved \<Longrightarrow> st' \<noteq> Reserved"
proof (induction rule: rtranclp_induct)
  case (step a b)
  then show ?case by (cases a) auto
qed simp

text \<open>
  C27: when the reservation of the run's plan has left \<open>reserved\<close>, in particular when an earlier apply of
  the plan has committed it, \<open>process_apply\<close> does not report a success, whatever the devices do:
  the last step, \<open>committed\<close> to \<open>committed\<close>, is refused.
\<close>

theorem reapply_never_succeeds:
  assumes "store_inv s" and "get_run run_id s = Inr run" and "get_plan (rn_plan_id run) s = Inr p"
    and "pl_reservation p = Some q" and "q \<noteq> []"
    and "table_get reservations rs_id q s = Some rv" and "rs_state rv \<noteq> Reserved"
    and "process_apply e run_id intent plan artifact allowed (worker_start s w) = (r, u)"
  shows "case r of Inl x \<Rightarrow> True | Inr res \<Rightarrow> \<not> ar_succeeded res"
proof (cases r)
  case (Inr res)
  have "False" if ok: "ar_succeeded res"
  proof -
    from assms(8) Inr have "process_apply e run_id intent plan artifact allowed (worker_start s w) = (Inr res, u)" by simp
    then obtain v where v: "worker_step\<^sup>*\<^sup>* s (ws_store v)" and c: "\<exists>u. reservation_to e run ''committed'' False v = (Inr (), u)"
    proof (cases rule: process_apply_InrE)
      case (started run')
      then have run': "run' = run" using assms(2) by simp
      from started(2) show thesis
      proof (cases rule: start_apply_InrE)
        case (finished ds gp m w' t row)
        then obtain t' where b: "apply_body e run plan artifact ds gp m t = (Inr res, t')" using run' by blast
        have "worker_step\<^sup>*\<^sup>* s (ws_store t)" using advances [OF after.keeps_run_to finished(4)] finished(6) by simp
        with apply_body_commit [OF b ok] show thesis using that rtranclp_trans by metis
      next
        case (failed ds gp m t x t')
        with on_failure_settled ok show thesis by blast
      qed
    qed (use ok in simp)
    have ps: "plans (ws_store v) = plans s"
      using v by (induction rule: rtranclp_induct) (simp_all add: worker_step_plans)
    then have pl: "get_plan (rn_plan_id run) (ws_store v) = Inr p" using assms(3) by (simp add: get_plan_def table_get_def)
    from c reservation_to_Inr [of e run "''committed''" False v] pl assms(4,5) obtain rv' where
      rv': "table_get reservations rs_id q (ws_store v) = Some rv'" "reservation_allowed (rs_state rv') Committed"
      by (auto simp: text_or_empty_def)
    have k: "row_kept s (ws_store v)" "store_inv (ws_store v)" using worker_steps_inv [OF v assms(1)] by simp_all
    from reservations_tbl.get_Some [OF assms(6)] have "rv \<in> set (reservations s)" "rs_id rv = q" by simp_all
    with k(1) obtain y where y: "y \<in> set (reservations (ws_store v))" "rs_id y = q" "reservation_allowed\<^sup>*\<^sup>* (rs_state rv) (rs_state y)"
      unfolding row_kept_def by metis
    from reservations_tbl.get_Some [OF rv'(1)] y k(2) have "y = rv'"
      by (auto simp: store_inv_def ids_inv_def dest: distinct_map_eqD)
    with reservation_never_reserved [OF y(3) assms(7)] rv'(2) show False by (cases "rs_state rv'") simp_all
  qed
  then show ?thesis using Inr by auto
qed simp

text \<open>The second run of a plan whose reservation is committed, with devices that accept everything.\<close>

definition willing_env :: "nat worker_env" where
  "willing_env = sample_env\<lparr>we_secret := (\<lambda>_. sret ''pw''),
     we_checkpoint := (\<lambda>_ _. sret (JObj [(''verified'', JBool True), (''checkpoint'', JStr ''c'')]))\<rparr>"

theorem reapply_never_succeeds_witness:
  "case fst (process_apply willing_env ''run_9'' sample_work_intent sample_work_plan (sample_artifact []) []
       (worker_start (sample_work_store [] (Some ''reservation_1'') [sample_reservation\<lparr>rs_state := Committed\<rparr>]) 0)) of
     Inl x \<Rightarrow> True | Inr res \<Rightarrow> \<not> ar_succeeded res"
proof -
  let ?s = "sample_work_store [] (Some ''reservation_1'') [sample_reservation\<lparr>rs_state := Committed\<rparr>]"
  obtain r u where p: "process_apply willing_env ''run_9'' sample_work_intent sample_work_plan (sample_artifact []) []
      (worker_start ?s 0) = (r, u)" by fastforce
  let ?h = "sha256_json (JObj (sample_body []))"
  have g: "get_run ''run_9'' ?s = Inr (sample_run_row\<lparr>rn_artifact_hash := ?h\<rparr>)"
    "get_plan (rn_plan_id (sample_run_row\<lparr>rn_artifact_hash := ?h\<rparr>)) ?s
       = Inr (sample_plan_row\<lparr>pl_artifact_hash := ?h, pl_reservation := Some ''reservation_1''\<rparr>)"
    "table_get reservations rs_id ''reservation_1'' ?s = Some (sample_reservation\<lparr>rs_state := Committed\<rparr>)"
    by (simp_all add: get_run_def get_plan_def table_get_def sample_work_store_def sample_defs sample_reservation_def Let_def)
  have "case r of Inl x \<Rightarrow> True | Inr res \<Rightarrow> \<not> ar_succeeded res"
    by (rule reapply_never_succeeds [OF sample_work_inv g(1,2) _ _ g(3) _ p]) simp_all
  then show ?thesis by (simp add: p)
qed

section \<open>Dry runs\<close>

definition dry_outcome :: "json \<Rightarrow> dry_result \<Rightarrow> store \<Rightarrow> bool" where
  "dry_outcome artifact res s \<longleftrightarrow>
     (\<exists>blockers. items_get artifact ''blocking_requirements'' = Inr blockers
        \<and> table_get runs rn_id (rn_id (dr_run res)) s = Some (dr_run res)
        \<and> rn_status (dr_run res) = (if blockers = [] then DryRunSucceeded else DryRunBlocked)
        \<and> dr_evidence res = run_evidence (rn_id (dr_run res)) s)"

text \<open>
  C28: a dry run leaves everything but its own run, evidence and audit events as it is, also when it
  fails; when it returns, the run has succeeded exactly if the artifact has no blocking
  requirement, and the evidence it returns is the evidence stored for the run.
\<close>

theorem dry_run_touches_no_fabric:
  "same_fabric s (ws_store (snd (process_dry_run e run_id artifact (worker_start s w))))
   \<and> (case process_dry_run e run_id artifact (worker_start s w) of
        (Inl x, u) \<Rightarrow> True
      | (Inr res, u) \<Rightarrow> dry_outcome artifact res (ws_store u))"
proof -
  obtain r u where p: "process_dry_run e run_id artifact (worker_start s w) = (r, u)" by fastforce
  have "same_fabric s (ws_store u)" by (rule keepsD [OF dry_process _ p]) (simp add: same_fabric_refl)
  moreover have "dry_outcome artifact res (ws_store u)" if "r = Inr res" for res
  proof -
    from p that have "process_dry_run e run_id artifact (worker_start s w) = (Inr res, u)" by simp
    then obtain v where "dry_run_body e run_id artifact v = (Inr res, u)"
      unfolding process_dry_run_def by (elim run_elims s_try_InrE) (auto simp: sbind_Inr)
    then obtain blockers d w' row where "items_get artifact ''blocking_requirements'' = Inr blockers"
      and t: "run_to e run_id (if blockers = [] then DryRunSucceeded else DryRunBlocked) d w' = (Inr row, u)"
      and "dr_run res = row" "dr_evidence res = run_evidence run_id (ws_store u)"
      unfolding dry_run_body_def Let_def by (elim run_elims) (auto simp: store_read_def)
    then show ?thesis using run_to_Inr [OF t] runs_tbl.get_Some by (auto simp: dry_outcome_def)
  qed
  ultimately show ?thesis by (simp add: p split: sum.split)
qed

end
