(* ===== verification/Gates.thy ===== *)
theory Gates
  imports PolicyParsers Ipv6 "HOL-Library.AList"
begin

text \<open>
  \<open>build_gate_plan\<close> (\<open>gates.py\<close>): the gates of a run, derived from the intent and from the
  artifact's reconciliation. The plan is the concatenation of what each part of the intent
  contributes, in the order of the source: reconciliation, then per device in the order of the
  identifiers, then per fusion node.
\<close>

section \<open>Gate records\<close>

definition gate :: "string \<Rightarrow> string \<Rightarrow> string \<Rightarrow> string \<Rightarrow> string \<Rightarrow> (string \<times> json) list \<Rightarrow> json" where
  "gate gate_id phase_id device_id command evaluator expected =
     JObj [(''gate_id'', JStr gate_id), (''phase_id'', JStr phase_id), (''device_id'', JStr device_id),
           (''command'', JStr command), (''evaluator'', JStr evaluator), (''expected'', JObj expected),
           (''blocking'', JBool True)]"

text \<open>The BFD gate is the only one that does not block.\<close>

definition advisory_gate :: "string \<Rightarrow> string \<Rightarrow> string \<Rightarrow> string \<Rightarrow> string \<Rightarrow> (string \<times> json) list \<Rightarrow> json" where
  "advisory_gate gate_id phase_id device_id command evaluator expected =
     JObj [(''gate_id'', JStr gate_id), (''phase_id'', JStr phase_id), (''device_id'', JStr device_id),
           (''command'', JStr command), (''evaluator'', JStr evaluator), (''expected'', JObj expected),
           (''blocking'', JBool False)]"

definition version_gate :: "string \<Rightarrow> json \<Rightarrow> json result" where
  "version_gate device_id holder =
     (ebind (str_at holder ''software_version'') (\<lambda>v.
        Inr (gate (''precheck.version.'' @ device_id) ''precheck'' device_id ''show version'' ''ios_xe_version''
           [(''version'', JStr v)])))"

text \<open>\<open>sorted(xs)\<close> of document values: all texts, or all numbers; anything else does not compare.\<close>

definition py_sorted :: "json list \<Rightarrow> json list result" where
  "py_sorted xs =
     (if list_all is_str xs then Inr (sort_key py_str xs)
      else if list_all is_int xs then sort_by py_int xs
      else if length xs \<le> 1 then Inr xs else Inl TypeError)"

text \<open>\<open>intent.get(key) or {}\<close>\<close>

definition section_of :: "json \<Rightarrow> string \<Rightarrow> json result" where
  "section_of intent key = (ebind (jget intent key) (\<lambda>v.
     Inr (jor v (JObj []))))"

lemma section_of_field: "section_of v k = Inr x \<Longrightarrow> x = jor (field v k) (JObj [])"
  by (auto simp: section_of_def res dest: jget_field)

section \<open>Reconciliation\<close>

definition descriptor_version_gate :: "string list \<Rightarrow> string \<Rightarrow> json \<Rightarrow> json list result" where
  "descriptor_version_gate active device_id device =
     (if device_id \<in> set active then Inr []
      else (ebind (jget device ''device'') (\<lambda>raw.
         ebind (version_gate device_id (jor raw (JObj []))) (\<lambda>g.
         Inr [g]))))"

definition own_gate :: "string \<Rightarrow> json \<Rightarrow> json result" where
  "own_gate device_id g =
     (ebind (jget g ''device_id'') (\<lambda>d.
        ebind (raise_if (py_str d \<noteq> device_id) (ValueError ''Reconciliation gate device identity mismatch'')) (\<lambda>_.
        Inr g)))"

definition reconciliation_gates :: "json \<Rightarrow> json \<Rightarrow> json list result" where
  "reconciliation_gates intent artifact =
     (ebind (section_of artifact ''reconciliation'') (\<lambda>reconciliation.
        ebind (items_get intent ''devices'') (\<lambda>devices.
        ebind (items_get intent ''fusion_nodes'') (\<lambda>fusions.
        ebind (mapE (\<lambda>i. str_at i ''id'') (devices @ fusions)) (\<lambda>active.
        ebind (jget_default reconciliation ''devices'' (JObj [])) (\<lambda>raw.
        ebind (items_of raw) (\<lambda>parts.
        ebind (mapE (\<lambda>(device_id, device).
             (ebind (descriptor_version_gate active device_id device) (\<lambda>v.
                ebind (items_get device ''gates'') (\<lambda>raw_gates.
                ebind (mapE (own_gate device_id) raw_gates) (\<lambda>own.
                Inr (v @ own)))))) (sort_key fst parts)) (\<lambda>gs.
        Inr (concat gs)))))))))"

section \<open>What the devices share\<close>

definition count_endpoint :: "(string \<times> nat) list \<Rightarrow> json \<Rightarrow> (string \<times> nat) list result" where
  "count_endpoint counts endpoint =
     (ebind (str_at endpoint ''device_id'') (\<lambda>i.
        ebind (of_option (KeyError i) (map_of counts i)) (\<lambda>n.
        Inr (AList.update i (n + 1) counts))))"

definition incident_links :: "json \<Rightarrow> (string \<times> nat) list result" where
  "incident_links intent =
     (ebind (items_at intent ''devices'') (\<lambda>devices.
        ebind (mapE (\<lambda>d. str_at d ''id'') devices) (\<lambda>ids.
        ebind (items_get intent ''links'') (\<lambda>links.
        foldE (\<lambda>counts link. (ebind (items_at link ''endpoints'') (\<lambda>eps.
            foldE count_endpoint counts eps)))
           (map (\<lambda>i. (i, 0)) (remdups ids)) links))))"

definition by_device_id :: "json list \<Rightarrow> (string \<times> json) list result" where
  "by_device_id = foldE (\<lambda>ds d. (ebind (str_at d ''id'') (\<lambda>i.
     Inr (set_field i d ds)))) []"

definition publisher_address :: "(string \<times> json) list \<Rightarrow> json \<Rightarrow> string result" where
  "publisher_address devices device_id =
     (ebind (of_option (KeyError (py_str device_id)) (map_of devices (py_str device_id))) (\<lambda>d.
        str_at d ''loopback0_ip''))"

definition group_multihoming :: "json \<Rightarrow> (string \<times> int) list result" where
  "group_multihoming g =
     (ebind (strs_get g ''border_device_ids'') (\<lambda>borders.
        mapE (\<lambda>b. (ebind (int_at g ''multihoming_id'') (\<lambda>i.
            Inr (b, i)))) borders))"

text \<open>The addresses by border and by fusion node of one handoff peer.\<close>

definition handoff_peer :: "json \<Rightarrow> ((string \<times> string) \<times> (string \<times> string) list) result" where
  "handoff_peer peer =
     (ebind (str_at peer ''device_id'') (\<lambda>device_id.
        ebind (str_at peer ''neighbor_ip'') (\<lambda>neighbor.
        ebind (jget peer ''fusion_node_id'') (\<lambda>fusion.
        (if \<not> truthy fusion then Inr ((device_id, neighbor), [])
          else (ebind (str_at peer ''fusion_node_id'') (\<lambda>f.
             ebind (str_at peer ''local_ip'') (\<lambda>local_ip.
             Inr ((device_id, neighbor), [(f, local_ip)])))))))))"

record gate_facts =
  gf_incident :: "(string \<times> nat) list"
  gf_map_servers :: nat
  gf_lisp :: json
  gf_publishers :: "string list"
  gf_subscribers :: "string list"
  gf_multihoming :: "(string \<times> int) list"
  gf_handoff :: json
  gf_peers :: "(string \<times> string) list"
  gf_fusion_peers :: "(string \<times> string) list"

definition gate_facts :: "json \<Rightarrow> gate_facts result" where
  "gate_facts intent =
     (ebind (incident_links intent) (\<lambda>incident.
        ebind (jidx intent ''lisp'') (\<lambda>strict_lisp.
        ebind (jidx strict_lisp ''map_servers'') (\<lambda>map_servers.
        ebind (jlen map_servers) (\<lambda>map_server_count.
        ebind (items_at intent ''devices'') (\<lambda>devices.
        ebind (by_device_id devices) (\<lambda>known.
        ebind (section_of intent ''lisp'') (\<lambda>lisp.
        ebind (items_get lisp ''publishers'') (\<lambda>raw_publishers.
        ebind (py_sorted raw_publishers) (\<lambda>sorted_publishers.
        ebind (mapE (publisher_address known) sorted_publishers) (\<lambda>publishers.
        ebind (strs_get lisp ''subscribers'') (\<lambda>subscribers.
        ebind (items_get lisp ''multihoming_groups'') (\<lambda>groups.
        ebind (mapE group_multihoming groups) (\<lambda>multihoming.
        ebind (section_of intent ''border_handoff'') (\<lambda>handoff.
        ebind (items_get handoff ''peers'') (\<lambda>raw_peers.
        ebind (mapE handoff_peer raw_peers) (\<lambda>peers.
        Inr \<lparr>gf_incident = incident, gf_map_servers = map_server_count, gf_lisp = lisp, gf_publishers = publishers,
              gf_subscribers = subscribers, gf_multihoming = rev (concat multihoming), gf_handoff = handoff,
              gf_peers = map fst peers, gf_fusion_peers = concat (map snd peers)\<rparr>)))))))))))))))))"

definition peers_of :: "string \<Rightarrow> (string \<times> string) list \<Rightarrow> string list" where
  "peers_of i ps = map snd (filter (\<lambda>p. fst p = i) ps)"

section \<open>Prechecks and underlay\<close>

definition license_gate :: "string \<Rightarrow> json" where
  "license_gate device_id =
     gate (''precheck.license.'' @ device_id) ''precheck'' device_id ''show version'' ''ios_xe_license_level''
       [(''network_package'', JStr ''network-advantage''),
        (''subscription_packages'', jstrs [''catalyst-advantage'', ''dna-advantage''])]"

definition msdp_gates :: "json \<Rightarrow> string \<Rightarrow> json list result" where
  "msdp_gates intent device_id =
     (ebind (section_of intent ''multicast'') (\<lambda>multicast.
        ebind (strs_get multicast ''rp_device_ids'') (\<lambda>rps.
        ebind (jget multicast ''enabled'') (\<lambda>enabled.
        ebind (jget multicast ''rp_mode'') (\<lambda>mode.
        (if \<not> truthy enabled \<or> mode \<noteq> JStr ''anycast'' \<or> device_id \<notin> set rps then Inr []
          else (ebind (items_get intent ''devices'') (\<lambda>devices.
             ebind (by_device_id devices) (\<lambda>known.
             ebind (mapE (publisher_address known \<circ> JStr)
                     (filter (\<lambda>p. p \<noteq> device_id \<and> map_of known p \<noteq> None) (remdups rps))) (\<lambda>peers.
             Inr [gate (''underlay.msdp.'' @ device_id) ''underlay'' device_id ''show ip msdp peer'' ''msdp_peers''
                          [(''peers'', jstrs (sort peers))]]))))))))))"

definition mtu_gate_at :: "json \<Rightarrow> string \<Rightarrow> json \<Rightarrow> json \<Rightarrow> json list result" where
  "mtu_gate_at intent device_id link ep =
     (ebind (str_at link ''id'') (\<lambda>i.
        ebind (str_at ep ''interface'') (\<lambda>interface.
        ebind (jidx intent ''fabric'') (\<lambda>fabric.
        ebind (int_at fabric ''mtu'') (\<lambda>mtu.
        Inr [gate (''underlay.mtu.'' @ device_id @ ''.'' @ i) ''underlay'' device_id
                (''show interfaces '' @ interface) ''interface_mtu'' [(''expected_mtu'', JInt mtu)]])))))"

text \<open>The first endpoint on the device, when the link has one; the endpoints before it are read too.\<close>

definition mtu_gate :: "json \<Rightarrow> string \<Rightarrow> json \<Rightarrow> json list result" where
  "mtu_gate intent device_id link =
     (ebind (items_at link ''endpoints'') (\<lambda>eps.
        ebind (mapE (\<lambda>e. str_at e ''device_id'') (takeWhile (\<lambda>e. str_at e ''device_id'' \<noteq> Inr device_id) eps)) (\<lambda>ids.
        (case dropWhile (\<lambda>e. str_at e ''device_id'' \<noteq> Inr device_id) eps of
            [] \<Rightarrow> Inr []
          | ep # _ \<Rightarrow> mtu_gate_at intent device_id link ep))))"

definition isis_gate :: "string \<Rightarrow> nat \<Rightarrow> json" where
  "isis_gate device_id n =
     gate (''underlay.isis.'' @ device_id) ''underlay'' device_id ''show isis neighbors'' ''isis_neighbors''
       [(''minimum_up'', jnat n)]"

definition bfd_gates :: "string \<Rightarrow> nat \<Rightarrow> json list" where
  "bfd_gates device_id n =
     (if 0 < n
      then [advisory_gate (''underlay.bfd.'' @ device_id) ''underlay'' device_id ''show bfd neighbors''
              ''bfd_neighbors'' [(''minimum_up'', jnat n)]]
      else [])"

definition underlay_gates :: "json \<Rightarrow> gate_facts \<Rightarrow> string \<Rightarrow> json list result" where
  "underlay_gates intent facts device_id =
     (ebind (of_option (KeyError device_id) (map_of (gf_incident facts) device_id)) (\<lambda>n.
        ebind (items_get intent ''links'') (\<lambda>raw_links.
        ebind (sort_by (\<lambda>l. str_at l ''id'') raw_links) (\<lambda>links.
        ebind (mapE (mtu_gate intent device_id) links) (\<lambda>mtus.
        Inr (isis_gate device_id n # concat mtus @ bfd_gates device_id n))))))"

section \<open>LISP, overlay and handoff\<close>

definition edge_gates :: "gate_facts \<Rightarrow> string \<Rightarrow> json list" where
  "edge_gates facts device_id =
     [gate (''lisp.sessions.'' @ device_id) ''lisp_edges'' device_id ''show lisp session'' ''lisp_sessions''
        [(''minimum_established'', jnat (gf_map_servers facts))],
      gate (''overlay.nve.'' @ device_id) ''overlay'' device_id ''show nve peers'' ''nve_peers''
        [(''minimum_up'', jnat (max 1 (gf_map_servers facts)))]]"

definition bgp_gate :: "string \<Rightarrow> string \<Rightarrow> string list \<Rightarrow> json" where
  "bgp_gate stem device_id neighbors =
     gate (stem @ device_id) ''border_handoff'' device_id ''show bgp ipv4 unicast vrf all summary'' ''bgp_neighbors''
       [(''neighbors'', jstrs (sort neighbors))]"

definition border_gates :: "gate_facts \<Rightarrow> bool \<Rightarrow> string \<Rightarrow> json list result" where
  "border_gates facts is_border device_id =
     (if \<not> is_border then Inr []
      else (ebind (jget (gf_handoff facts) ''enabled'') (\<lambda>enabled.
         Inr (if truthy enabled then [bgp_gate ''border.bgp.'' device_id (peers_of device_id (gf_peers facts))] else []))))"

definition identity_gate :: "gate_facts \<Rightarrow> string \<Rightarrow> json result" where
  "identity_gate facts device_id =
     (ebind (int_at (gf_lisp facts) ''domain_id'') (\<lambda>domain_id.
        Inr (gate (''lisp.identity.'' @ device_id) ''overlay'' device_id
                ''show running-config | section ^router lisp'' ''lisp_identity''
                [(''domain_id'', JInt domain_id),
                 (''multihoming_id'', (case map_of (gf_multihoming facts) device_id of None \<Rightarrow> JNull | Some i \<Rightarrow> JInt i))])))"

definition pubsub_gate :: "gate_facts \<Rightarrow> string \<Rightarrow> json \<Rightarrow> json result" where
  "pubsub_gate facts device_id virtual_network =
     (ebind (int_at virtual_network ''l3_instance_id'') (\<lambda>i.
        Inr (gate (''lisp.pubsub.'' @ device_id @ ''.'' @ int_str i) ''overlay'' device_id
                (''show lisp instance-id '' @ int_str i @ '' ipv4 publisher config-propagation'') ''lisp_publishers''
                [(''publishers'', jstrs (gf_publishers facts))])))"

definition pubsub_gates :: "json \<Rightarrow> gate_facts \<Rightarrow> string \<Rightarrow> json list result" where
  "pubsub_gates intent facts device_id =
     (ebind (jget (gf_lisp facts) ''control_plane_mode'') (\<lambda>mode.
        (if mode \<noteq> JStr ''lisp_pubsub'' \<or> device_id \<notin> set (gf_subscribers facts) then Inr []
          else (ebind (identity_gate facts device_id) (\<lambda>identity.
             ebind (items_get intent ''virtual_networks'') (\<lambda>raw.
             ebind (sort_by (\<lambda>v. int_at v ''l3_instance_id'') raw) (\<lambda>vns.
             ebind (mapE (pubsub_gate facts device_id) vns) (\<lambda>gs.
             Inr (identity # gs)))))))))"

end
