(* ===== verification/GatePlan.thy ===== *)
theory GatePlan
  imports Gates
begin

text \<open>
  The multicast, policy-plane, fusion and shared-service gates, and \<open>build_gate_plan\<close>, which
  puts the parts together.
\<close>

section \<open>Multicast\<close>

text \<open>\<open>ip_network(s)\<close>: the texts of \<open>network_address\<close> and \<open>hostmask\<close>, for either family; the address
  of an IPv6 network is printed with its scope identifier.\<close>

definition network_text :: "string \<Rightarrow> (string \<times> string) result" where
  "network_text s =
     (case parse_net s of
        Some n \<Rightarrow> Inr (addr_str (net_addr n), addr_str (hostmask n))
      | None \<Rightarrow>
          (if \<not> is_net6 s then Inl (ValueError ''does not appear to be an IPv4 or IPv6 network'')
           else (let parts = split_on (CHR ''/'') s;
                     address = scoped6_str (the (parse_scoped6 (hd parts)));
                     l = (case tl parts of [] \<Rightarrow> 128 | p # _ \<Rightarrow> digits_val p);
                     mask = (2::nat) ^ (128 - l) - 1
                 in Inr (address, addr6_str (map (\<lambda>i. mask div 65536 ^ (7 - i) mod 65536) [0..<8])))))"

definition acl_lines :: "string \<Rightarrow> string \<Rightarrow> string list result" where
  "acl_lines access_list group_range =
     (ebind (network_text group_range) (\<lambda>texts.
        Inr [''ip access-list standard '' @ access_list, ''10 permit '' @ fst texts @ '' '' @ snd texts]))"

definition multicast_policy_gate :: "string \<Rightarrow> string \<Rightarrow> string \<Rightarrow> string list \<Rightarrow> json" where
  "multicast_policy_gate device_id inst vrf lines =
     gate (''multicast.policy.'' @ device_id @ ''.'' @ inst) ''multicast'' device_id
       (''show running-config | include ^ip multicast-routing vrf '' @ vrf @ ''|^ip pim vrf '' @ vrf)
       ''exact_config_lines'' [(''lines'', jstrs lines)]"

definition multicast_acl_gate :: "string \<Rightarrow> string \<Rightarrow> string \<Rightarrow> string list \<Rightarrow> json" where
  "multicast_acl_gate device_id inst access_list lines =
     gate (''multicast.acl.'' @ device_id @ ''.'' @ inst) ''multicast'' device_id
       (''show running-config | section ^ip access-list standard '' @ access_list @ ''$'')
       ''exact_config_lines'' [(''lines'', jstrs lines)]"

definition multicast_pim_gate :: "string \<Rightarrow> string \<Rightarrow> string \<Rightarrow> string list \<Rightarrow> json" where
  "multicast_pim_gate device_id inst vrf interfaces =
     gate (''multicast.pim.'' @ device_id @ ''.'' @ inst) ''multicast'' device_id
       (''show ip pim vrf '' @ vrf @ '' interface'') ''pim_interfaces'' [(''interfaces'', jstrs (sorted_set interfaces))]"

definition passive_svi_gate :: "string \<Rightarrow> int \<Rightarrow> json" where
  "passive_svi_gate device_id vlan_id =
     gate (''multicast.passive_svi.'' @ device_id @ ''.'' @ int_str vlan_id) ''multicast'' device_id
       (''show running-config | section ^interface Vlan'' @ int_str vlan_id @ ''$'') ''exact_config_lines''
       [(''lines'', jstrs [''interface Vlan'' @ int_str vlan_id, ''ip pim passive'', ''ip igmp version 3'',
           ''ip igmp explicit-tracking''])]"

definition rp_route_gates :: "string \<Rightarrow> string \<Rightarrow> string \<Rightarrow> json \<Rightarrow> json \<Rightarrow> json list result" where
  "rp_route_gates device_id inst vrf mode policy =
     (if mode \<noteq> JStr ''asm'' then Inr []
      else (ebind (str_at policy ''rp_prefix'') (\<lambda>pfx.
         Inr [gate (''multicast.rp_route.'' @ device_id @ ''.'' @ inst) ''multicast'' device_id
                      (''show ip route vrf '' @ vrf @ '' '' @ pfx) ''route_prefix'' [(''prefix'', JStr pfx)]])))"

text \<open>The PIM lines of a policy; a device that is a segment member registers from its loopback.\<close>

definition policy_lines :: "string \<Rightarrow> string option \<Rightarrow> string \<Rightarrow> json \<Rightarrow> json \<Rightarrow> string list result" where
  "policy_lines vrf loopback access_list mode policy =
     (if mode = JStr ''ssm''
      then Inr [''ip multicast-routing vrf '' @ vrf, ''ip pim vrf '' @ vrf @ '' ssm range '' @ access_list]
      else (ebind (str_at policy ''rp_address'') (\<lambda>rp.
         Inr ([''ip multicast-routing vrf '' @ vrf]
                    @ (case loopback of None \<Rightarrow> [] | Some l \<Rightarrow> [''ip pim vrf '' @ vrf @ '' register-source '' @ l])
                    @ [''ip pim vrf '' @ vrf @ '' rp-address '' @ rp @ '' '' @ access_list]))))"

text \<open>\<open>[str(peer["interface"]) for peer in handoff.get("peers", []) if ...]\<close>\<close>

definition peer_is :: "string \<Rightarrow> string \<Rightarrow> string \<Rightarrow> json \<Rightarrow> bool result" where
  "peer_is key i vrf peer =
     (ebind (jget peer key) (\<lambda>d.
        (if py_str d \<noteq> i then Inr False else (ebind (jget peer ''vrf'') (\<lambda>v.
            Inr (py_str v = vrf))))))"

definition border_interfaces :: "gate_facts \<Rightarrow> bool \<Rightarrow> string \<Rightarrow> string \<Rightarrow> string list result" where
  "border_interfaces facts is_border device_id vrf =
     (if \<not> is_border then Inr []
      else (ebind (items_get (gf_handoff facts) ''peers'') (\<lambda>peers.
         ebind (filterE (peer_is ''device_id'' device_id vrf) peers) (\<lambda>own.
         mapE (\<lambda>p. str_at p ''interface'') own))))"

definition passive_vlans :: "(string \<times> json) list \<Rightarrow> bool \<Rightarrow> json \<Rightarrow> int list result" where
  "passive_vlans pools is_edge policy =
     (if \<not> is_edge then Inr []
      else (ebind (str_at policy ''virtual_network'') (\<lambda>vn.
         ebind (mapE (\<lambda>p. int_at (snd p) ''vlan_id'') (filter (\<lambda>p. fst p = vn) pools)) (\<lambda>vlans.
         Inr (sort vlans)))))"

definition overlay_policy_gates ::
    "gate_facts \<Rightarrow> (string \<times> json) list \<Rightarrow> json list \<Rightarrow> string \<Rightarrow> json \<Rightarrow> json list result" where
  "overlay_policy_gates facts pools roles device_id policy =
     (ebind (items_get policy ''segment_loopbacks'') (\<lambda>segs.
        ebind (mapE (\<lambda>i. str_at i ''device_id'') segs) (\<lambda>members.
        (if device_id \<notin> set members then Inr []
          else (ebind (str_at policy ''vrf'') (\<lambda>vrf.
             ebind (int_at policy ''l3_instance_id'') (\<lambda>i.
             ebind (str_at policy ''access_list'') (\<lambda>access_list.
             ebind (passive_vlans pools (JStr ''fabric_edge'' \<in> set roles) policy) (\<lambda>vlans.
             ebind (border_interfaces facts (JStr ''border'' \<in> set roles) device_id vrf) (\<lambda>ifs.
             ebind (jidx policy ''mode'') (\<lambda>mode.
             let inst = int_str i in
             let loopback = ''Loopback'' @ inst in
             ebind (policy_lines vrf (Some loopback) access_list mode policy) (\<lambda>lines.
             ebind (str_at policy ''group_range'') (\<lambda>group.
             ebind (acl_lines access_list group) (\<lambda>acl.
             ebind (rp_route_gates device_id inst vrf mode policy) (\<lambda>rp.
             Inr ([multicast_policy_gate device_id inst vrf lines,
                         multicast_acl_gate device_id inst access_list acl,
                         multicast_pim_gate device_id inst vrf ([loopback, ''LISP0.'' @ inst] @ ifs)]
                        @ map (passive_svi_gate device_id) vlans @ rp))))))))))))))))"

definition native_multicast :: "json \<Rightarrow> (json \<times> bool) result" where
  "native_multicast intent =
     (ebind (section_of intent ''multicast'') (\<lambda>multicast.
        ebind (jget multicast ''enabled'') (\<lambda>enabled.
        ebind (jget multicast ''transport'') (\<lambda>transport.
        Inr (multicast, truthy enabled \<and> transport = JStr ''native'')))))"

definition overlay_policies :: "json \<Rightarrow> json list result" where
  "overlay_policies multicast =
     (ebind (items_get multicast ''overlay_policies'') (\<lambda>raw.
        sort_by (\<lambda>p. int_at p ''l3_instance_id'') raw))"

definition multicast_gates :: "json \<Rightarrow> gate_facts \<Rightarrow> json list \<Rightarrow> string \<Rightarrow> json list result" where
  "multicast_gates intent facts roles device_id =
     (ebind (native_multicast intent) (\<lambda>native.
        (if \<not> snd native then Inr []
          else (ebind (items_get intent ''endpoint_pools'') (\<lambda>raw_pools.
             ebind (mapE (\<lambda>p. (ebind (str_at p ''virtual_network'') (\<lambda>vn.
                      Inr (vn, p)))) raw_pools) (\<lambda>pools.
             ebind (overlay_policies (fst native)) (\<lambda>policies.
             ebind (mapE (overlay_policy_gates facts pools roles device_id) policies) (\<lambda>gs.
             Inr (concat gs)))))))))"

section \<open>Policy plane\<close>

text \<open>The VLAN list of \<open>cts role-based enforcement\<close>: maximal runs of consecutive numbers.\<close>

fun run_end :: "int \<Rightarrow> int list \<Rightarrow> int \<times> int list" where
  "run_end e [] = (e, [])"
| "run_end e (v # vs) = (if v = e + 1 then run_end v vs else (e, v # vs))"

lemma run_end_length: "(a, us) = run_end e vs \<Longrightarrow> length us \<le> length vs"
  by (induction e vs rule: run_end.induct) (auto split: if_splits)

function vlan_ranges :: "int list \<Rightarrow> (int \<times> int) list" where
  "vlan_ranges [] = []"
| "vlan_ranges (v # vs) = (case run_end v vs of (e, us) \<Rightarrow> (v, e) # vlan_ranges us)"
  by pat_completeness auto
termination
  by (relation "measure length") (auto simp: less_Suc_eq_le dest: run_end_length)

definition range_text :: "int \<times> int \<Rightarrow> string" where
  "range_text r = (if fst r = snd r then int_str (fst r) else int_str (fst r) @ ''-'' @ int_str (snd r))"

definition enforcement_gate :: "string \<Rightarrow> int list \<Rightarrow> json" where
  "enforcement_gate device_id vlan_ids =
     gate (''policy.enforcement.'' @ device_id) ''policy_plane'' device_id
       ''show running-config | include ^cts role-based permissions default|^cts role-based enforcement vlan-list''
       ''exact_config_lines''
       [(''lines'', jstrs [''cts role-based permissions default SDA-SGACL-DEFAULT-DENY'',
           ''cts role-based enforcement vlan-list '' @ join '','' (map range_text (vlan_ranges vlan_ids))])]"

definition permission_gate :: "string \<Rightarrow> json \<Rightarrow> json result" where
  "permission_gate device_id contract =
     (ebind (str_at contract ''name'') (\<lambda>name.
        ebind (int_at contract ''source_tag'') (\<lambda>a.
        ebind (int_at contract ''destination_tag'') (\<lambda>b.
        ebind (str_at contract ''sgacl_name'') (\<lambda>sgacl.
        Inr (gate (''policy.permission.'' @ device_id @ ''.'' @ name) ''policy_plane'' device_id
                (''show cts role-based permissions from '' @ int_str a @ '' to '' @ int_str b @ '' details'')
                ''role_permission''
                [(''source_tag'', JInt a), (''destination_tag'', JInt b), (''sgacl_name'', JStr sgacl)]))))))"

definition enforcement_gates :: "json \<Rightarrow> string \<Rightarrow> json list result" where
  "enforcement_gates policy_plane device_id =
     (ebind (strs_get policy_plane ''enforcement_device_ids'') (\<lambda>enforced.
        (if device_id \<notin> set enforced then Inr []
          else (ebind (items_get policy_plane ''enforcement_vlan_ids'') (\<lambda>raw_vlans.
             ebind (mapE py_int raw_vlans) (\<lambda>vlans.
             ebind (items_get policy_plane ''contracts'') (\<lambda>raw.
             ebind (sort_by (\<lambda>c. str_at c ''name'') raw) (\<lambda>contracts.
             ebind (mapE (permission_gate device_id) contracts) (\<lambda>gs.
             Inr (enforcement_gate device_id (sorted_set vlans) # gs))))))))))"

text \<open>A prefix as the suffix of a gate's identifier.\<close>

definition prefix_suffix :: "string \<Rightarrow> string" where
  "prefix_suffix s = replace_char (CHR ''/'') (CHR ''_'') (replace_char (CHR ''.'') (CHR ''_'') s)"

definition sxp_route_gate :: "string \<Rightarrow> string \<Rightarrow> string \<Rightarrow> json" where
  "sxp_route_gate device_id transport_vrf pfx =
     gate (''policy.sxp_route.'' @ device_id @ ''.'' @ prefix_suffix pfx) ''policy_plane'' device_id
       (if transport_vrf = ''global'' then ''show ip route '' @ pfx
        else ''show ip route vrf '' @ transport_vrf @ '' '' @ pfx)
       ''route_prefix'' [(''prefix'', JStr pfx)]"

definition sxp_connection_json :: "json \<Rightarrow> json result" where
  "sxp_connection_json item =
     (ebind (str_at item ''listener_ip'') (\<lambda>peer.
        ebind (str_at item ''source_ip'') (\<lambda>src.
        Inr (JObj [(''peer'', JStr peer), (''source_ip'', JStr src)]))))"

definition sxp_gates :: "json \<Rightarrow> string \<Rightarrow> json list result" where
  "sxp_gates policy_plane device_id =
     (ebind (section_of policy_plane ''sxp'') (\<lambda>sxp.
        ebind (items_get sxp ''connections'') (\<lambda>raw.
        ebind (filterE (\<lambda>i. (ebind (jget i ''speaker_id'') (\<lambda>s.
            Inr (py_str s = device_id)))) raw) (\<lambda>own.
        (if own = [] then Inr []
          else (ebind (mapE (\<lambda>i. str_at i ''transport_vrf'') own) (\<lambda>vrfs.
             ebind (raise_if (length (remdups vrfs) \<noteq> 1)
                     (ValueError ''One SXP speaker cannot verify multiple transport VRFs'')) (\<lambda>_.
             ebind (mapE (\<lambda>i. str_at i ''listener_prefix'') own) (\<lambda>prefixes.
             ebind (sort_by (\<lambda>i. str_at i ''listener_ip'') own) (\<lambda>ordered.
             ebind (mapE sxp_connection_json ordered) (\<lambda>connections.
             let vrf = hd vrfs in
             Inr (map (sxp_route_gate device_id vrf) (sorted_set prefixes)
                        @ [gate (''policy.sxp.'' @ device_id) ''policy_plane'' device_id
                             (if vrf = ''global'' then ''show cts sxp connections''
                              else ''show cts sxp connections vrf '' @ vrf)
                             ''sxp_connections'' [(''connections'', JArr connections)]]))))))))))))"

definition policy_plane_gates :: "json \<Rightarrow> string \<Rightarrow> json list result" where
  "policy_plane_gates intent device_id =
     (ebind (section_of intent ''policy_plane'') (\<lambda>policy_plane.
        ebind (jget policy_plane ''mode'') (\<lambda>mode.
        ebind (raise_if (\<not> hashable mode) TypeError) (\<lambda>_.
        (if mode = JNull \<or> mode = JStr ''none'' then Inr []
          else (ebind (enforcement_gates policy_plane device_id) (\<lambda>enforcement.
             ebind (sxp_gates policy_plane device_id) (\<lambda>sxp.
             Inr (enforcement @ sxp)))))))))"

section \<open>One device\<close>

definition device_gates :: "json \<Rightarrow> gate_facts \<Rightarrow> json \<Rightarrow> json list result" where
  "device_gates intent facts device =
     (ebind (str_at device ''id'') (\<lambda>device_id.
        ebind (items_get device ''roles'') (\<lambda>raw_roles.
        ebind (py_set raw_roles) (\<lambda>roles.
        ebind (version_gate device_id device) (\<lambda>version.
        ebind (msdp_gates intent device_id) (\<lambda>msdp.
        ebind (underlay_gates intent facts device_id) (\<lambda>underlay.
        let edge = (if JStr ''fabric_edge'' \<in> set roles then edge_gates facts device_id else []) in
        ebind (border_gates facts (JStr ''border'' \<in> set roles) device_id) (\<lambda>border.
        ebind (pubsub_gates intent facts device_id) (\<lambda>pubsub.
        ebind (multicast_gates intent facts roles device_id) (\<lambda>multicast.
        ebind (policy_plane_gates intent device_id) (\<lambda>policy.
        Inr ([version, license_gate device_id] @ msdp @ underlay @ edge @ border @ pubsub @ multicast @ policy))))))))))))"

section \<open>One fusion node\<close>

definition fusion_policy_gates :: "gate_facts \<Rightarrow> string \<Rightarrow> json \<Rightarrow> json list result" where
  "fusion_policy_gates facts fusion_id policy =
     (ebind (str_at policy ''vrf'') (\<lambda>vrf.
        ebind (items_get (gf_handoff facts) ''peers'') (\<lambda>all_peers.
        ebind (filterE (peer_is ''fusion_node_id'' fusion_id vrf) all_peers) (\<lambda>peers.
        (if peers = [] then Inr []
          else (ebind (int_at policy ''l3_instance_id'') (\<lambda>i.
             ebind (str_at policy ''access_list'') (\<lambda>access_list.
             ebind (jidx policy ''mode'') (\<lambda>mode.
             ebind (policy_lines vrf None access_list mode policy) (\<lambda>lines.
             ebind (str_at policy ''group_range'') (\<lambda>group.
             ebind (acl_lines access_list group) (\<lambda>acl.
             ebind (mapE (\<lambda>p. int_at p ''vlan_id'') peers) (\<lambda>vlans.
             let inst = int_str i in
             ebind (rp_route_gates fusion_id inst vrf mode policy) (\<lambda>rp.
             Inr ([multicast_policy_gate fusion_id inst vrf lines,
                         multicast_acl_gate fusion_id inst access_list acl,
                         multicast_pim_gate fusion_id inst vrf (map (\<lambda>v. ''Vlan'' @ int_str v) vlans)] @ rp)))))))))))))))"

definition shared_route_gate :: "string \<Rightarrow> string \<Rightarrow> string \<Rightarrow> string \<Rightarrow> json \<Rightarrow> json" where
  "shared_route_gate stem middle fusion_id vrf pfx =
     gate (stem @ fusion_id @ ''.'' @ middle @ ''.'' @ prefix_suffix (py_str pfx)) ''shared_services'' fusion_id
       (''show ip route vrf '' @ vrf @ '' '' @ py_str pfx) ''route_prefix'' [(''prefix'', JStr (py_str pfx))]"

definition leak_gates :: "string \<Rightarrow> string \<Rightarrow> json \<Rightarrow> json list result" where
  "leak_gates fusion_id service_vrf leak =
     (ebind (str_at leak ''consumer_vrf'') (\<lambda>consumer.
        ebind (items_get leak ''import_prefixes'') (\<lambda>raw_imports.
        ebind (py_sorted raw_imports) (\<lambda>imports.
        ebind (items_get leak ''export_prefixes'') (\<lambda>raw_exports.
        ebind (py_sorted raw_exports) (\<lambda>exports.
        Inr (map (shared_route_gate ''shared.consumer.'' consumer fusion_id consumer) imports
              @ map (shared_route_gate ''shared.service.'' (service_vrf @ ''.'' @ consumer) fusion_id service_vrf) exports)))))))"

definition shared_gates :: "json \<Rightarrow> string \<Rightarrow> json list result" where
  "shared_gates intent fusion_id =
     (ebind (section_of intent ''shared_services'') (\<lambda>shared.
        (if \<not> truthy shared then Inr []
          else (ebind (str_at shared ''vrf'') (\<lambda>service_vrf.
             ebind (items_get shared ''route_leaks'') (\<lambda>raw.
             ebind (sort_by (\<lambda>l. str_at l ''consumer_vrf'') raw) (\<lambda>leaks.
             ebind (mapE (leak_gates fusion_id service_vrf) leaks) (\<lambda>gs.
             Inr (concat gs)))))))))"

definition fusion_gates :: "json \<Rightarrow> gate_facts \<Rightarrow> json \<Rightarrow> json list result" where
  "fusion_gates intent facts fusion =
     (ebind (str_at fusion ''id'') (\<lambda>fusion_id.
        ebind (version_gate fusion_id fusion) (\<lambda>version.
        ebind (jget (gf_handoff facts) ''enabled'') (\<lambda>enabled.
        ebind (native_multicast intent) (\<lambda>native.
        ebind ((if \<not> snd native then Inr []
                       else (ebind (overlay_policies (fst native)) (\<lambda>policies.
                          ebind (mapE (fusion_policy_gates facts fusion_id) policies) (\<lambda>gs.
                          Inr (concat gs)))))) (\<lambda>multicast.
        ebind (shared_gates intent fusion_id) (\<lambda>shared.
        Inr (version # (if truthy enabled then [bgp_gate ''fusion.bgp.'' fusion_id (peers_of fusion_id (gf_fusion_peers facts))] else [])
              @ multicast @ shared))))))))"

section \<open>\<open>build_gate_plan\<close>\<close>

definition build_gate_plan :: "json \<Rightarrow> json option \<Rightarrow> json list result" where
  "build_gate_plan intent artifact =
     (ebind ((case artifact of None \<Rightarrow> Inr [] | Some a \<Rightarrow> reconciliation_gates intent a)) (\<lambda>recon.
        ebind (gate_facts intent) (\<lambda>facts.
        ebind (items_at intent ''devices'') (\<lambda>raw_devices.
        ebind (sort_by (\<lambda>d. str_at d ''id'') raw_devices) (\<lambda>devices.
        ebind (mapE (device_gates intent facts) devices) (\<lambda>device_part.
        ebind (items_get intent ''fusion_nodes'') (\<lambda>raw_fusions.
        ebind (sort_by (\<lambda>f. str_at f ''id'') raw_fusions) (\<lambda>fusions.
        ebind (mapE (fusion_gates intent facts) fusions) (\<lambda>fusion_part.
        Inr (recon @ concat device_part @ concat fusion_part))))))))))"

end
