(* ===== verification/GateLaws.thy ===== *)
theory GateLaws
  imports GatePlan
begin

text \<open>
  What every gate of a gate plan is: it names a device of the intent and a phase that the intent
  asks for, and it pairs an evaluator with the fields that this evaluator reads. So the
  evaluation of a planned gate finds its parser and does not raise.
\<close>

section \<open>Evaluators and their fields\<close>

inductive checkable :: "string \<Rightarrow> (string \<times> json) list \<Rightarrow> bool" where
  ck_version: "checkable ''ios_xe_version'' [(''version'', JStr v)]"
| ck_license: "checkable ''ios_xe_license_level'' [(''network_package'', JStr n), (''subscription_packages'', jstrs ps)]"
| ck_isis: "checkable ''isis_neighbors'' [(''minimum_up'', jnat n)]"
| ck_bfd: "checkable ''bfd_neighbors'' [(''minimum_up'', jnat n)]"
| ck_nve: "checkable ''nve_peers'' [(''minimum_up'', jnat n)]"
| ck_sessions: "checkable ''lisp_sessions'' [(''minimum_established'', jnat n)]"
| ck_publishers: "checkable ''lisp_publishers'' [(''publishers'', jstrs ps)]"
| ck_identity: "m = JNull \<or> (\<exists>i. m = JInt i) \<Longrightarrow>
    checkable ''lisp_identity'' [(''domain_id'', JInt d), (''multihoming_id'', m)]"
| ck_lines: "checkable ''exact_config_lines'' [(''lines'', jstrs ls)]"
| ck_absent: "checkable ''config_lines_absent'' [(''lines'', jstrs ls)]"
| ck_pim: "checkable ''pim_interfaces'' [(''interfaces'', jstrs ifs)]"
| ck_msdp: "checkable ''msdp_peers'' [(''peers'', jstrs ps)]"
| ck_mtu: "checkable ''interface_mtu'' [(''expected_mtu'', JInt i)]"
| ck_bgp: "checkable ''bgp_neighbors'' [(''neighbors'', jstrs ns)]"
| ck_route: "checkable ''route_prefix'' [(''prefix'', JStr p)]"
| ck_permission: "checkable ''role_permission''
    [(''source_tag'', JInt a), (''destination_tag'', JInt b), (''sgacl_name'', JStr n)]"
| ck_sxp: "checkable ''sxp_connections'' [(''connections'', JArr (map pair_json ps))]"

inductive planned :: "string set \<Rightarrow> string set \<Rightarrow> json \<Rightarrow> bool" for ids phases where
  blocking: "device_id \<in> ids \<Longrightarrow> phase_id \<in> phases \<Longrightarrow> checkable evaluator expected \<Longrightarrow>
    planned ids phases (gate gate_id phase_id device_id command evaluator expected)"
| advisory: "device_id \<in> ids \<Longrightarrow> phase_id \<in> phases \<Longrightarrow> checkable evaluator expected \<Longrightarrow>
    planned ids phases (advisory_gate gate_id phase_id device_id command evaluator expected)"

lemma planned_mono: "planned ids phases g \<Longrightarrow> ids \<subseteq> ids' \<Longrightarrow> phases \<subseteq> phases' \<Longrightarrow> planned ids' phases' g"
  by (induction rule: planned.induct) (auto intro: planned.intros)

section \<open>The phases that an intent asks for\<close>

definition needed_phases :: "json \<Rightarrow> string set" where
  "needed_phases intent =
     {''precheck'', ''underlay'', ''lisp_edges'', ''overlay'', ''border_handoff''}
     \<union> (if truthy (field intent ''shared_services'') then {''shared_services''} else {})
     \<union> (if truthy (field (jor (field intent ''multicast'') (JObj [])) ''enabled'') then {''multicast''} else {})
     \<union> (if field (jor (field intent ''policy_plane'') (JObj [])) ''mode'' \<in> {JNull, JStr ''none''} then {}
        else {''policy_plane''})"

section \<open>The parts\<close>

lemma concat_mapE:
  "mapE f xs = Inr gs \<Longrightarrow> (\<And>x ys. x \<in> set xs \<Longrightarrow> f x = Inr ys \<Longrightarrow> \<forall>y \<in> set ys. P y) \<Longrightarrow> \<forall>y \<in> set (concat gs). P y"
  by (force dest: mapE_Inr_set)

lemma each_mapE: "mapE f xs = Inr ys \<Longrightarrow> (\<And>x y. x \<in> set xs \<Longrightarrow> f x = Inr y \<Longrightarrow> P y) \<Longrightarrow> \<forall>y \<in> set ys. P y"
  by (blast dest: mapE_Inr_set)

abbreviation all_planned :: "string \<Rightarrow> string \<Rightarrow> json list \<Rightarrow> bool" where
  "all_planned i phase gs \<equiv> \<forall>g \<in> set gs. planned {i} {phase} g"

lemma version_gate_planned: "version_gate i holder = Inr g \<Longrightarrow> planned {i} {''precheck''} g"
  by (auto simp: version_gate_def res intro!: planned.blocking ck_version)

lemma license_gate_planned: "planned {i} {''precheck''} (license_gate i)"
  by (auto simp: license_gate_def intro!: planned.blocking ck_license)

lemma msdp_gates_planned: "msdp_gates intent i = Inr gs \<Longrightarrow> all_planned i ''underlay'' gs"
  by (auto simp: msdp_gates_def res split: if_splits intro!: planned.blocking ck_msdp)

lemma mtu_gate_at_planned: "mtu_gate_at intent i link ep = Inr gs \<Longrightarrow> all_planned i ''underlay'' gs"
  unfolding mtu_gate_at_def by (elim ebind_InrE) (auto intro!: planned.blocking ck_mtu)

lemma mtu_gate_planned:
  assumes "mtu_gate intent i link = Inr gs"
  shows "all_planned i ''underlay'' gs"
proof -
  from assms obtain eps where "(case dropWhile (\<lambda>e. str_at e ''device_id'' \<noteq> Inr i) eps of
      [] \<Rightarrow> Inr [] | ep # _ \<Rightarrow> mtu_gate_at intent i link ep) = Inr gs"
    unfolding mtu_gate_def by - (elim ebind_InrE, rule that)
  moreover have "(case es of [] \<Rightarrow> Inr [] | ep # _ \<Rightarrow> mtu_gate_at intent i link ep) = Inr gs \<Longrightarrow> ?thesis" for es
    using mtu_gate_at_planned by (cases es) auto
  ultimately show ?thesis by blast
qed

lemma isis_gate_planned: "planned {i} {''underlay''} (isis_gate i n)"
  by (simp add: isis_gate_def planned.blocking ck_isis)

lemma bfd_gates_planned: "all_planned i ''underlay'' (bfd_gates i n)"
  by (simp add: bfd_gates_def planned.advisory ck_bfd)

lemma underlay_gatesE:
  assumes "underlay_gates intent facts i = Inr gs"
  obtains n links mtus where "map_of (gf_incident facts) i = Some n" "mapE (mtu_gate intent i) links = Inr mtus"
    "gs = isis_gate i n # concat mtus @ bfd_gates i n"
  using assms by (auto simp: underlay_gates_def res)

lemma underlay_gates_planned: "underlay_gates intent facts i = Inr gs \<Longrightarrow> all_planned i ''underlay'' gs"
proof (erule underlay_gatesE)
  fix n links mtus
  assume m: "mapE (mtu_gate intent i) links = Inr mtus" and gs: "gs = isis_gate i n # concat mtus @ bfd_gates i n"
  have "all_planned i ''underlay'' (concat mtus)" by (rule concat_mapE [OF m]) (rule mtu_gate_planned)
  then show "all_planned i ''underlay'' gs" unfolding gs using isis_gate_planned bfd_gates_planned by auto
qed

lemma edge_gates_planned: "\<forall>g \<in> set (edge_gates facts i). planned {i} {''lisp_edges'', ''overlay''} g"
  by (auto simp: edge_gates_def intro!: planned.blocking ck_sessions ck_nve)

lemma bgp_gate_planned: "planned {i} {''border_handoff''} (bgp_gate stem i ns)"
  by (auto simp: bgp_gate_def intro!: planned.blocking ck_bgp)

lemma border_gates_planned: "border_gates facts b i = Inr gs \<Longrightarrow> all_planned i ''border_handoff'' gs"
  by (auto simp: border_gates_def res split: if_splits intro: bgp_gate_planned)

lemma pubsub_gates_planned: "pubsub_gates intent facts i = Inr gs \<Longrightarrow> all_planned i ''overlay'' gs"
proof -
  assume "pubsub_gates intent facts i = Inr gs"
  then consider "gs = []" | identity vns ps where "identity_gate facts i = Inr identity"
      "mapE (pubsub_gate facts i) vns = Inr ps" "gs = identity # ps"
    by (auto simp: pubsub_gates_def res split: if_splits)
  then show ?thesis
  proof cases
    case 2
    have "planned {i} {''overlay''} identity"
      using 2(1) by (auto simp: identity_gate_def res split: option.splits intro!: planned.blocking ck_identity)
    moreover have "\<forall>g \<in> set ps. planned {i} {''overlay''} g"
      by (rule each_mapE [OF 2(2)]) (auto simp: pubsub_gate_def res intro!: planned.blocking ck_publishers)
    ultimately show ?thesis using 2(3) by simp
  qed simp
qed

section \<open>Multicast and the policy plane\<close>

lemma rp_route_gates_planned: "rp_route_gates i inst vrf mode policy = Inr gs \<Longrightarrow> all_planned i ''multicast'' gs"
  by (auto simp: rp_route_gates_def res split: if_splits intro!: planned.blocking ck_route)

lemma multicast_gate_planned:
  "planned {i} {''multicast''} (multicast_policy_gate i inst vrf ls)"
  "planned {i} {''multicast''} (multicast_acl_gate i inst acl ls)"
  "planned {i} {''multicast''} (multicast_pim_gate i inst vrf ls)"
  "planned {i} {''multicast''} (passive_svi_gate i v)"
  by (auto simp: multicast_policy_gate_def multicast_acl_gate_def multicast_pim_gate_def passive_svi_gate_def
      intro!: planned.blocking ck_lines ck_pim)

lemma overlay_policy_gates_planned:
  "overlay_policy_gates facts pools roles i policy = Inr gs \<Longrightarrow> all_planned i ''multicast'' gs"
  unfolding overlay_policy_gates_def
  by (auto simp: res Let_def split: if_splits dest!: rp_route_gates_planned intro: multicast_gate_planned)

lemma fusion_policy_gates_planned:
  "fusion_policy_gates facts i policy = Inr gs \<Longrightarrow> all_planned i ''multicast'' gs"
  unfolding fusion_policy_gates_def
  by (auto simp: res Let_def split: if_splits dest!: rp_route_gates_planned intro: multicast_gate_planned)

lemma native_multicast_needed:
  "native_multicast intent = Inr n \<Longrightarrow> snd n \<Longrightarrow> ''multicast'' \<in> needed_phases intent"
  by (auto simp: native_multicast_def res needed_phases_def dest!: section_of_field jget_field)

lemma multicast_gates_planned:
  "multicast_gates intent facts roles i = Inr gs \<Longrightarrow> \<forall>g \<in> set gs. planned {i} (needed_phases intent) g"
proof -
  assume "multicast_gates intent facts roles i = Inr gs"
  then consider "gs = []" | n pools policies gss where "native_multicast intent = Inr n" "snd n"
      "mapE (overlay_policy_gates facts pools roles i) policies = Inr gss" "gs = concat gss"
    by (auto simp: multicast_gates_def res split: if_splits)
  then show ?thesis
  proof cases
    case 2
    have "all_planned i ''multicast'' (concat gss)"
      by (rule concat_mapE [OF 2(3)]) (rule overlay_policy_gates_planned)
    then show ?thesis using native_multicast_needed [OF 2(1,2)] 2(4) planned_mono [of "{i}" "{''multicast''}"] by blast
  qed simp
qed

lemma enforcement_gates_planned: "enforcement_gates pp i = Inr gs \<Longrightarrow> all_planned i ''policy_plane'' gs"
proof -
  assume "enforcement_gates pp i = Inr gs"
  then consider "gs = []" | vlans contracts ps where "mapE (permission_gate i) contracts = Inr ps"
      "gs = enforcement_gate i (sorted_set vlans) # ps"
    by (auto simp: enforcement_gates_def res split: if_splits)
  then show ?thesis
  proof cases
    case 2
    have "\<forall>g \<in> set ps. planned {i} {''policy_plane''} g"
      by (rule each_mapE [OF 2(1)]) (auto simp: permission_gate_def res intro!: planned.blocking ck_permission)
    then show ?thesis using 2(2) by (auto simp: enforcement_gate_def intro!: planned.blocking ck_lines)
  qed simp
qed

lemma sxp_connections_pairs: "mapE sxp_connection_json xs = Inr cs \<Longrightarrow> \<exists>ps. cs = map pair_json ps"
proof (induction xs arbitrary: cs)
  case (Cons x xs)
  then obtain c ds where c: "sxp_connection_json x = Inr c" "mapE sxp_connection_json xs = Inr ds" "cs = c # ds"
    by (auto simp: res)
  then obtain ps where "ds = map pair_json ps" using Cons.IH by blast
  moreover obtain p where "c = pair_json p" using c(1) by (auto simp: sxp_connection_json_def pair_json_def res)
  ultimately show ?case using c(3) by (intro exI [of _ "p # ps"]) simp
qed simp

lemma sxp_gates_planned: "sxp_gates pp i = Inr gs \<Longrightarrow> all_planned i ''policy_plane'' gs"
proof -
  assume "sxp_gates pp i = Inr gs"
  then consider "gs = []" | vrf prefixes ordered cs cmd where "mapE sxp_connection_json ordered = Inr cs"
      "gs = map (sxp_route_gate i vrf) (sorted_set prefixes)
            @ [gate (''policy.sxp.'' @ i) ''policy_plane'' i cmd ''sxp_connections'' [(''connections'', JArr cs)]]"
    unfolding sxp_gates_def Let_def by (auto simp: res split: if_splits)
  then show ?thesis
  proof cases
    case 2
    from sxp_connections_pairs [OF 2(1)] show ?thesis
      unfolding 2(2) by (auto simp: sxp_route_gate_def intro!: planned.blocking ck_route ck_sxp)
  qed simp
qed

lemma policy_plane_gates_planned:
  "policy_plane_gates intent i = Inr gs \<Longrightarrow> \<forall>g \<in> set gs. planned {i} (needed_phases intent) g"
proof -
  assume "policy_plane_gates intent i = Inr gs"
  then consider "gs = []" | es ss pp where "''policy_plane'' \<in> needed_phases intent"
      "enforcement_gates pp i = Inr es" "sxp_gates pp i = Inr ss" "gs = es @ ss"
    unfolding policy_plane_gates_def
    by (auto simp: res needed_phases_def split: if_splits dest!: section_of_field jget_field)
  then show ?thesis
  proof cases
    case 2
    from enforcement_gates_planned [OF 2(2)] sxp_gates_planned [OF 2(3)] 2(4)
    have "all_planned i ''policy_plane'' gs" by auto
    then show ?thesis using 2(1) planned_mono [of "{i}" "{''policy_plane''}"] by blast
  qed simp
qed

section \<open>Devices, fusion nodes, the plan\<close>

lemma needed_phases_always [simp]:
  "''precheck'' \<in> needed_phases intent" "''underlay'' \<in> needed_phases intent" "''lisp_edges'' \<in> needed_phases intent"
  "''overlay'' \<in> needed_phases intent" "''border_handoff'' \<in> needed_phases intent"
  by (simp_all add: needed_phases_def)

text \<open>From the phases of a part to those of the intent.\<close>

lemma planned_in: "planned {i} {ph} g \<Longrightarrow> ph \<in> needed_phases intent \<Longrightarrow> planned {i} (needed_phases intent) g"
  by (erule planned_mono) auto

lemma all_planned_in:
  "all_planned i ph gs \<Longrightarrow> ph \<in> needed_phases intent \<Longrightarrow> \<forall>g \<in> set gs. planned {i} (needed_phases intent) g"
  using planned_in by blast

lemma device_gatesE:
  assumes "device_gates intent facts d = Inr gs"
  obtains i roles version msdp underlay border pubsub multicast policy where
    "str_at d ''id'' = Inr i" "version_gate i d = Inr version" "msdp_gates intent i = Inr msdp"
    "underlay_gates intent facts i = Inr underlay" "border_gates facts (JStr ''border'' \<in> set roles) i = Inr border"
    "pubsub_gates intent facts i = Inr pubsub" "multicast_gates intent facts roles i = Inr multicast"
    "policy_plane_gates intent i = Inr policy"
    "gs = [version, license_gate i] @ msdp @ underlay
       @ (if JStr ''fabric_edge'' \<in> set roles then edge_gates facts i else []) @ border @ pubsub @ multicast @ policy"
  using assms unfolding device_gates_def Let_def
  by - (elim ebind_InrE, rule that, assumption+, drule Inr_inject, erule sym)

lemma device_gates_planned:
  assumes "device_gates intent facts d = Inr gs"
  shows "\<exists>i. str_at d ''id'' = Inr i \<and> (\<forall>g \<in> set gs. planned {i} (needed_phases intent) g)"
proof -
  from assms obtain i roles version msdp underlay border pubsub multicast policy where
    p: "str_at d ''id'' = Inr i" "version_gate i d = Inr version" "msdp_gates intent i = Inr msdp"
    "underlay_gates intent facts i = Inr underlay" "border_gates facts (JStr ''border'' \<in> set roles) i = Inr border"
    "pubsub_gates intent facts i = Inr pubsub" "multicast_gates intent facts roles i = Inr multicast"
    "policy_plane_gates intent i = Inr policy"
    and gs: "gs = [version, license_gate i] @ msdp @ underlay
       @ (if JStr ''fabric_edge'' \<in> set roles then edge_gates facts i else []) @ border @ pubsub @ multicast @ policy"
    by (rule device_gatesE)
  note parts = planned_in [OF version_gate_planned [OF p(2)]] planned_in [OF license_gate_planned]
    all_planned_in [OF msdp_gates_planned [OF p(3)]] all_planned_in [OF underlay_gates_planned [OF p(4)]]
    all_planned_in [OF border_gates_planned [OF p(5)]] all_planned_in [OF pubsub_gates_planned [OF p(6)]]
    multicast_gates_planned [OF p(7)] policy_plane_gates_planned [OF p(8)]
  have "\<forall>g \<in> set (edge_gates facts i). planned {i} (needed_phases intent) g"
    using edge_gates_planned [of facts i] planned_mono [of "{i}" "{''lisp_edges'', ''overlay''}"] by simp
  then have "\<forall>g \<in> set gs. planned {i} (needed_phases intent) g"
    unfolding gs by (simp add: parts ball_Un)
  with p(1) show ?thesis by blast
qed

lemma shared_route_gate_planned: "planned {i} {''shared_services''} (shared_route_gate stem middle i vrf pfx)"
  by (simp add: shared_route_gate_def planned.blocking ck_route)

lemma leak_gates_planned: "leak_gates i vrf leak = Inr gs \<Longrightarrow> all_planned i ''shared_services'' gs"
  unfolding leak_gates_def by (elim ebind_InrE) (use shared_route_gate_planned in force)

lemma shared_gates_planned:
  assumes "shared_gates intent i = Inr gs"
  shows "\<forall>g \<in> set gs. planned {i} (needed_phases intent) g"
proof -
  from assms consider "gs = []" | shared vrf leaks gss where "section_of intent ''shared_services'' = Inr shared" "truthy shared"
      "mapE (leak_gates i vrf) leaks = Inr gss" "gs = concat gss"
    by (auto simp: shared_gates_def res split: if_splits)
  then show ?thesis
  proof cases
    case 2
    from section_of_field [OF 2(1)] 2(2) have "truthy (field intent ''shared_services'')"
      by (auto simp: jor_def split: if_splits)
    then have "''shared_services'' \<in> needed_phases intent" by (simp add: needed_phases_def)
    moreover have "all_planned i ''shared_services'' (concat gss)"
      by (rule concat_mapE [OF 2(3)]) (rule leak_gates_planned)
    ultimately show ?thesis using all_planned_in 2(4) by blast
  qed simp
qed

lemma fusion_gates_planned:
  assumes "fusion_gates intent facts d = Inr gs"
  shows "\<exists>i. str_at d ''id'' = Inr i \<and> (\<forall>g \<in> set gs. planned {i} (needed_phases intent) g)"
proof -
  from assms obtain i version enabled native multicast shared where
    p: "str_at d ''id'' = Inr i" "version_gate i d = Inr version" "native_multicast intent = Inr native"
      "(if \<not> snd native then Inr [] else ebind (overlay_policies (fst native)) (\<lambda>policies.
          ebind (mapE (fusion_policy_gates facts i) policies) (\<lambda>gs. Inr (concat gs)))) = Inr multicast"
      "shared_gates intent i = Inr shared"
    and gs: "gs = version # (if truthy enabled then [bgp_gate ''fusion.bgp.'' i (peers_of i (gf_fusion_peers facts))] else [])
              @ multicast @ shared"
    unfolding fusion_gates_def by - (elim ebind_InrE, rule that, assumption+, drule Inr_inject, erule sym)
  have "\<forall>g \<in> set multicast. planned {i} (needed_phases intent) g"
  proof (cases "snd native")
    case True
    with p(4) obtain policies gss where m: "mapE (fusion_policy_gates facts i) policies = Inr gss" "multicast = concat gss"
      by (auto simp: res)
    have "all_planned i ''multicast'' (concat gss)" by (rule concat_mapE [OF m(1)]) (rule fusion_policy_gates_planned)
    then show ?thesis using all_planned_in native_multicast_needed [OF p(3) True] m(2) by blast
  qed (use p(4) in simp)
  then have "\<forall>g \<in> set gs. planned {i} (needed_phases intent) g"
    unfolding gs using planned_in [OF version_gate_planned [OF p(2)]] planned_in [OF bgp_gate_planned] shared_gates_planned [OF p(5)]
    by (simp add: ball_Un)
  with p(1) show ?thesis by blast
qed

definition intent_ids :: "json \<Rightarrow> string set" where
  "intent_ids intent =
     {i. \<exists>ds d. (items_at intent ''devices'' = Inr ds \<or> items_get intent ''fusion_nodes'' = Inr ds) \<and> d \<in> set ds
        \<and> str_at d ''id'' = Inr i}"

lemma build_gate_planE:
  assumes "build_gate_plan intent artifact = Inr gates"
  obtains recon facts raw_devices devices dparts raw_fusions fusions fparts where
    "(case artifact of None \<Rightarrow> Inr [] | Some a \<Rightarrow> reconciliation_gates intent a) = Inr recon"
    "gate_facts intent = Inr facts" "items_at intent ''devices'' = Inr raw_devices"
    "set devices = set raw_devices" "mapE (device_gates intent facts) devices = Inr dparts"
    "items_get intent ''fusion_nodes'' = Inr raw_fusions"
    "set fusions = set raw_fusions" "mapE (fusion_gates intent facts) fusions = Inr fparts"
    "gates = recon @ concat dparts @ concat fparts"
proof -
  from assms obtain recon facts raw_devices devices dparts raw_fusions fusions fparts where
    x: "(case artifact of None \<Rightarrow> Inr [] | Some a \<Rightarrow> reconciliation_gates intent a) = Inr recon"
    "gate_facts intent = Inr facts" "items_at intent ''devices'' = Inr raw_devices"
    "sort_by (\<lambda>d. str_at d ''id'') raw_devices = Inr devices" "mapE (device_gates intent facts) devices = Inr dparts"
    "items_get intent ''fusion_nodes'' = Inr raw_fusions"
    "sort_by (\<lambda>f. str_at f ''id'') raw_fusions = Inr fusions" "mapE (fusion_gates intent facts) fusions = Inr fparts"
    "gates = recon @ concat dparts @ concat fparts"
    unfolding build_gate_plan_def by - (elim ebind_InrE, rule that, assumption+, drule Inr_inject, erule sym)
  show thesis
    by (rule that [OF x(1-3) _ x(5,6) _ x(8,9)]) (rule sort_by_Inr_set [OF x(4)] sort_by_Inr_set [OF x(7)])+
qed

text \<open>Every gate is planned or comes from the reconciliation.\<close>

lemma build_gate_plan_planned:
  assumes "build_gate_plan intent artifact = Inr gates" and "g \<in> set gates"
  shows "planned (intent_ids intent) (needed_phases intent) g
    \<or> (\<exists>a recon. artifact = Some a \<and> reconciliation_gates intent a = Inr recon \<and> g \<in> set recon)"
proof -
  from assms(1) obtain recon facts raw_devices devices dparts raw_fusions fusions fparts where
    r: "(case artifact of None \<Rightarrow> Inr [] | Some a \<Rightarrow> reconciliation_gates intent a) = Inr recon"
    and d: "items_at intent ''devices'' = Inr raw_devices" "set devices = set raw_devices"
      "mapE (device_gates intent facts) devices = Inr dparts"
    and f: "items_get intent ''fusion_nodes'' = Inr raw_fusions"
      "set fusions = set raw_fusions" "mapE (fusion_gates intent facts) fusions = Inr fparts"
    and gates: "gates = recon @ concat dparts @ concat fparts"
    by (rule build_gate_planE)
  have dev: "planned (intent_ids intent) (needed_phases intent) x" if "x \<in> set (concat dparts)" for x
  proof -
    from that obtain ys where ys: "ys \<in> set dparts" "x \<in> set ys" by auto
    with mapE_Inr_set [OF d(3)] obtain c where c: "c \<in> set devices" "device_gates intent facts c = Inr ys" by blast
    with device_gates_planned [OF c(2)] ys(2) obtain i where i: "str_at c ''id'' = Inr i" "planned {i} (needed_phases intent) x"
      by blast
    have "i \<in> intent_ids intent" using c(1) d(1,2) i(1) unfolding intent_ids_def by blast
    with planned_mono [OF i(2)] show ?thesis by blast
  qed
  have fus: "planned (intent_ids intent) (needed_phases intent) x" if "x \<in> set (concat fparts)" for x
  proof -
    from that obtain ys where ys: "ys \<in> set fparts" "x \<in> set ys" by auto
    with mapE_Inr_set [OF f(3)] obtain c where c: "c \<in> set fusions" "fusion_gates intent facts c = Inr ys" by blast
    with fusion_gates_planned [OF c(2)] ys(2) obtain i where i: "str_at c ''id'' = Inr i" "planned {i} (needed_phases intent) x"
      by blast
    have "i \<in> intent_ids intent" using c(1) f(1,2) i(1) unfolding intent_ids_def by blast
    with planned_mono [OF i(2)] show ?thesis by blast
  qed
  from assms(2) gates consider "g \<in> set recon" | "g \<in> set (concat dparts)" | "g \<in> set (concat fparts)" by auto
  then show ?thesis
  proof cases
    case 1
    with r show ?thesis by (cases artifact) auto
  qed (use dev fus in blast)+
qed

end
