(* ===== verification/RegexWords.thy ===== *)
theory RegexWords
  imports Parsers
begin

text \<open>
  Expressions without groups and anchors read a word of a language and nothing else: \<open>reads r P\<close>
  says that the derivations of \<open>r\<close> take a word with the property \<open>P\<close> off the rest. For such an
  expression a full match is membership in the language.
\<close>

definition reads :: "re \<Rightarrow> (string \<Rightarrow> bool) \<Rightarrow> bool" where
  "reads r P \<longleftrightarrow> (\<forall>b a g t. derives r (b, a, g) t = (\<exists>w a'. a = w @ a' \<and> P w \<and> t = (rev w @ b, a', g)))"

lemma readsI: "(\<And>b a g t. derives r (b, a, g) t = (\<exists>w a'. a = w @ a' \<and> P w \<and> t = (rev w @ b, a', g))) \<Longrightarrow> reads r P"
  by (simp add: reads_def)

lemma readsD: "reads r P \<Longrightarrow> derives r (b, a, g) t \<longleftrightarrow> (\<exists>w a'. a = w @ a' \<and> P w \<and> t = (rev w @ b, a', g))"
  unfolding reads_def by blast

lemma reads_set: "reads (RSet p) (\<lambda>w. \<exists>c. w = [c] \<and> p c)"
  by (rule readsI) auto

lemma reads_seq: "reads r P \<Longrightarrow> reads q Q \<Longrightarrow> reads (RSeq r q) (\<lambda>w. \<exists>u v. w = u @ v \<and> P u \<and> Q v)"
proof (rule readsI)
  fix b a g t
  assume r: "reads r P" and q: "reads q Q"
  show "derives (RSeq r q) (b, a, g) t
      \<longleftrightarrow> (\<exists>w a'. a = w @ a' \<and> (\<exists>u v. w = u @ v \<and> P u \<and> Q v) \<and> t = (rev w @ b, a', g))"
  proof
    assume "derives (RSeq r q) (b, a, g) t"
    then obtain u where u: "derives r (b, a, g) u" "derives q u t" unfolding derives.simps by blast
    from u(1) obtain w a' where w: "a = w @ a'" "P w" "u = (rev w @ b, a', g)" unfolding readsD [OF r] by blast
    from u(2) obtain v a'' where v: "a' = v @ a''" "Q v" "t = (rev v @ rev w @ b, a'', g)"
      unfolding w(3) readsD [OF q] by blast
    show "\<exists>w a'. a = w @ a' \<and> (\<exists>u v. w = u @ v \<and> P u \<and> Q v) \<and> t = (rev w @ b, a', g)"
      by (rule exI [of _ "w @ v"], rule exI [of _ a'']) (use w v in auto)
  next
    assume "\<exists>w a'. a = w @ a' \<and> (\<exists>u v. w = u @ v \<and> P u \<and> Q v) \<and> t = (rev w @ b, a', g)"
    then obtain u v a' where w: "a = u @ v @ a'" "P u" "Q v" "t = (rev v @ rev u @ b, a', g)" by auto
    have "derives r (b, a, g) (rev u @ b, v @ a', g)" unfolding readsD [OF r] using w by blast
    moreover have "derives q (rev u @ b, v @ a', g) t" unfolding readsD [OF q] using w by blast
    ultimately show "derives (RSeq r q) (b, a, g) t" unfolding derives.simps by blast
  qed
qed

lemma reads_steps:
  assumes "reads r P" and "\<And>w. P w \<Longrightarrow> w \<noteq> []"
  shows "(consumes (derives r) ^^ n) (b, a, g) t
    \<longleftrightarrow> (\<exists>ws a'. a = concat ws @ a' \<and> list_all P ws \<and> length ws = n \<and> t = (rev (concat ws) @ b, a', g))"
proof (induction n arbitrary: b a)
  case (Suc n)
  have step: "consumes (derives r) (b, a, g) u \<longleftrightarrow> (\<exists>w a'. a = w @ a' \<and> P w \<and> u = (rev w @ b, a', g))" for u
    unfolding consumes_def readsD [OF assms(1)] using assms(2) by (fastforce simp: ahead_def)
  show ?case (is "?l \<longleftrightarrow> ?r")
  proof
    assume ?l
    then obtain u where u: "consumes (derives r) (b, a, g) u" "(consumes (derives r) ^^ n) u t"
      using relpowp_Suc_D2 by metis
    from u(1) obtain w a' where w: "a = w @ a'" "P w" "u = (rev w @ b, a', g)" unfolding step by blast
    from u(2) obtain ws a'' where "a' = concat ws @ a''" "list_all P ws" "length ws = n"
      "t = (rev (concat ws) @ rev w @ b, a'', g)" unfolding w(3) Suc.IH by blast
    then show ?r using w by (intro exI [of _ "w # ws"] exI [of _ a'']) simp
  next
    assume ?r
    then obtain w ws a' where w: "a = w @ concat ws @ a'" "P w" "list_all P ws" "length ws = n"
      "t = (rev (concat ws) @ rev w @ b, a', g)" by (auto simp: length_Suc_conv)
    have "consumes (derives r) (b, a, g) (rev w @ b, concat ws @ a', g)" unfolding step using w by blast
    moreover have "(consumes (derives r) ^^ n) (rev w @ b, concat ws @ a', g) t" unfolding Suc.IH using w by blast
    ultimately show ?l by (rule relpowp_Suc_I2)
  qed
qed auto

lemma reads_rep:
  assumes "reads r P" and "\<And>w. P w \<Longrightarrow> w \<noteq> []"
  shows "reads (RRep greedy lo hi r) (\<lambda>w. \<exists>ws. w = concat ws \<and> list_all P ws \<and> within lo hi (length ws))"
  by (rule readsI) (simp only: derives.simps reads_steps [OF assms], blast)

lemma reads_fullmatch:
  assumes "reads r P"
  shows "re_fullmatch r s \<noteq> None \<longleftrightarrow> P s"
proof -
  have "re_fullmatch r s \<noteq> None \<longleftrightarrow> (\<exists>t. derives r ([], s, []) t \<and> ahead t = [])"
    using matches_iff [of r "\<lambda>t. if ahead t = [] then Some t else None" "([], s, [])"]
    by (auto simp: re_fullmatch_def split: if_splits)
  then show ?thesis by (auto simp: readsD [OF assms] ahead_def)
qed

section \<open>Addresses\<close>

text \<open>One to three digits.\<close>

definition octet_text :: "string \<Rightarrow> bool" where
  "octet_text w \<longleftrightarrow> list_all is_digit w \<and> length w \<in> {1, 2, 3}"

lemma singletons_concat: "list_all (\<lambda>w. \<exists>c. w = [c] \<and> p c) ws \<Longrightarrow> list_all p (concat ws) \<and> length (concat ws) = length ws"
  by (induction ws) auto

lemma concat_singletons: "concat (map (\<lambda>c. [c]) w) = w"
  by (induction w) auto

lemma reads_octet: "reads (RRep True 1 (Some 3) r_digit) octet_text"
proof -
  have "(\<exists>ws. w = concat ws \<and> list_all (\<lambda>w. \<exists>c. w = [c] \<and> is_digit c) ws \<and> within 1 (Some 3) (length ws)) = octet_text w" for w
  proof
    assume "\<exists>ws. w = concat ws \<and> list_all (\<lambda>w. \<exists>c. w = [c] \<and> is_digit c) ws \<and> within 1 (Some 3) (length ws)"
    then show "octet_text w" using singletons_concat by (force simp: octet_text_def within_def)
  next
    assume "octet_text w"
    then show "\<exists>ws. w = concat ws \<and> list_all (\<lambda>w. \<exists>c. w = [c] \<and> is_digit c) ws \<and> within 1 (Some 3) (length ws)"
      by (intro exI [of _ "map (\<lambda>c. [c]) w"])
        (auto simp: concat_singletons octet_text_def within_def list_all_iff)
  qed
  moreover have "reads (RRep True 1 (Some 3) r_digit)
      (\<lambda>w. \<exists>ws. w = concat ws \<and> list_all (\<lambda>w. \<exists>c. w = [c] \<and> is_digit c) ws \<and> within 1 (Some 3) (length ws))"
    unfolding r_digit_def by (rule reads_rep [OF reads_set]) auto
  ultimately show ?thesis by (simp add: fun_eq_iff)
qed

lemma reads_dot: "reads (lit ''.'') (\<lambda>w. w = ''.'')"
  using reads_set [of "\<lambda>d. d = CHR ''.''"] by (simp add: lit_def)

lemma reads_ipv4:
  "reads ipv4_re (\<lambda>w. \<exists>a b c d. w = a @ ''.'' @ b @ ''.'' @ c @ ''.'' @ d
     \<and> octet_text a \<and> octet_text b \<and> octet_text c \<and> octet_text d)"
proof -
  define dotted where "dotted w \<longleftrightarrow> (\<exists>u v. w = u @ v \<and> octet_text u \<and> v = ''.'')" for w
  have d: "reads (seq [RRep True 1 (Some 3) r_digit, lit ''.'']) dotted"
    using reads_seq [OF reads_octet reads_dot] by (simp add: dotted_def [abs_def])
  have r: "reads ipv4_re (\<lambda>w. \<exists>u v. w = u @ v
      \<and> (\<exists>ws. u = concat ws \<and> list_all dotted ws \<and> within 3 (Some 3) (length ws)) \<and> octet_text v)"
    unfolding ipv4_re_def seq.simps
    by (rule reads_seq [OF reads_rep [OF d [unfolded seq.simps]] reads_octet]) (auto simp: dotted_def)
  have "(\<exists>u v. w = u @ v \<and> (\<exists>ws. u = concat ws \<and> list_all dotted ws \<and> within 3 (Some 3) (length ws)) \<and> octet_text v)
      = (\<exists>a b c d. w = a @ ''.'' @ b @ ''.'' @ c @ ''.'' @ d
          \<and> octet_text a \<and> octet_text b \<and> octet_text c \<and> octet_text d)" (is "?l = ?r") for w
  proof
    assume ?l
    then obtain ws v where w: "w = concat ws @ v" and ws: "list_all dotted ws" "length ws = 3" and v: "octet_text v"
      by (auto simp: within_def)
    from ws(2) obtain x y z where "ws = [x, y, z]" by (auto simp: numeral_3_eq_3 length_Suc_conv)
    with ws(1) obtain a b c where "x = a @ ''.''" "y = b @ ''.''" "z = c @ ''.''"
      "octet_text a" "octet_text b" "octet_text c" by (auto simp: dotted_def)
    with \<open>ws = [x, y, z]\<close> w v show ?r
      by (intro exI [of _ a] exI [of _ b] exI [of _ c] exI [of _ v]) simp
  next
    assume ?r
    then obtain a b c d where w: "w = a @ ''.'' @ b @ ''.'' @ c @ ''.'' @ d"
      and o: "octet_text a" "octet_text b" "octet_text c" "octet_text d" by blast
    show ?l
      by (rule exI [of _ "concat [a @ ''.'', b @ ''.'', c @ ''.'']"], rule exI [of _ d])
        (use w o in \<open>auto simp: dotted_def within_def intro!: exI [of _ "[a @ ''.'', b @ ''.'', c @ ''.'']"]\<close>)
  qed
  with r show ?thesis by (simp add: fun_eq_iff)
qed

section \<open>Captured numbers\<close>

lemma reads_digits: "reads (plus r_digit) (\<lambda>w. w \<noteq> [] \<and> list_all is_digit w)"
proof -
  have "(\<exists>ws. w = concat ws \<and> list_all (\<lambda>w. \<exists>c. w = [c] \<and> is_digit c) ws \<and> within 1 None (length ws))
      = (w \<noteq> [] \<and> list_all is_digit w)" (is "?l = ?r") for w
  proof
    assume ?l
    then obtain ws where ws: "w = concat ws" "list_all (\<lambda>w. \<exists>c. w = [c] \<and> is_digit c) ws" "1 \<le> length ws"
      by (auto simp: within_def)
    from singletons_concat [OF ws(2)] have "list_all is_digit w" "length w = length ws" by (simp_all add: ws(1))
    with ws(3) show ?r by (cases w) simp_all
  next
    assume r: ?r
    show ?l
    proof (intro exI conjI)
      show "w = concat (map (\<lambda>c. [c]) w)" by (simp add: concat_singletons)
      show "list_all (\<lambda>w. \<exists>c. w = [c] \<and> is_digit c) (map (\<lambda>c. [c]) w)" using r by (simp add: list_all_iff)
      show "within 1 None (length (map (\<lambda>c. [c]) w))" using r by (cases w) (simp_all add: within_def)
    qed
  qed
  moreover have "reads (plus r_digit)
      (\<lambda>w. \<exists>ws. w = concat ws \<and> list_all (\<lambda>w. \<exists>c. w = [c] \<and> is_digit c) ws \<and> within 1 None (length ws))"
    unfolding plus_def r_digit_def by (rule reads_rep [OF reads_set]) auto
  ultimately show ?thesis by (simp add: fun_eq_iff)
qed

text \<open>
  An expression whose groups are all \<open>(\d+)\<close>, and one that has the group 1 whenever it matches.
  What such a group captures is a run of digits of the text.
\<close>

primrec digit_groups :: "re \<Rightarrow> bool" where
  "digit_groups REps = True"
| "digit_groups (RSet p) = True"
| "digit_groups (RSeq r q) = (digit_groups r \<and> digit_groups q)"
| "digit_groups (RAlt r q) = (digit_groups r \<and> digit_groups q)"
| "digit_groups (RRep greedy lo hi r) = digit_groups r"
| "digit_groups (RGroup i r) = (r = plus r_digit)"
| "digit_groups (RBol multi) = True"
| "digit_groups (REol multi) = True"
| "digit_groups REnd = True"
| "digit_groups RWord = True"
| "digit_groups (RAhead pos r) = True"

primrec captures :: "re \<Rightarrow> bool" where
  "captures REps = False"
| "captures (RSet p) = False"
| "captures (RSeq r q) = (captures r \<or> captures q)"
| "captures (RAlt r q) = (captures r \<and> captures q)"
| "captures (RRep greedy lo hi r) = False"
| "captures (RGroup i r) = (i = 1)"
| "captures (RBol multi) = False"
| "captures (REol multi) = False"
| "captures REnd = False"
| "captures RWord = False"
| "captures (RAhead pos r) = False"

definition number_in :: "string \<Rightarrow> string \<Rightarrow> bool" where
  "number_in t w \<longleftrightarrow> sublist w t \<and> w \<noteq> [] \<and> list_all is_digit w"

definition numbers_of :: "string \<Rightarrow> rstate \<Rightarrow> bool" where
  "numbers_of t s \<longleftrightarrow> rev (fst s) @ ahead s = t \<and> (\<forall>(i, w) \<in> set (snd (snd s)). number_in t w)"

lemma consumes_invariant:
  assumes "(consumes R ^^ n) s u" and "I s" and "\<And>s u. R s u \<Longrightarrow> I s \<Longrightarrow> I u"
  shows "I u"
  using assms(1,2)
proof (induction n arbitrary: u)
  case (Suc n)
  obtain v where "(consumes R ^^ n) s v" "consumes R v u" using Suc.prems(1) by (rule relpowp_Suc_E)
  have "R v u" using \<open>consumes R v u\<close> by (simp add: consumes_def)
  then show ?case using Suc.IH [OF \<open>(consumes R ^^ n) s v\<close> Suc.prems(2)] by (rule assms(3))
qed simp

lemma derives_numbers: "derives r s u \<Longrightarrow> digit_groups r \<Longrightarrow> numbers_of t s \<Longrightarrow> numbers_of t u"
proof (induction r arbitrary: s u)
  case (RSeq r q)
  from RSeq.prems(1) obtain v where v: "derives r s v" "derives q v u" unfolding derives.simps by blast
  show ?case using RSeq.IH(2) [OF v(2)] RSeq.IH(1) [OF v(1)] RSeq.prems(2,3) by simp
next
  case (RAlt r q)
  then show ?case unfolding derives.simps digit_groups.simps by blast
next
  case (RRep greedy lo hi r)
  from RRep.prems(1) obtain n where "(consumes (derives r) ^^ n) s u" by auto
  then show ?case using RRep.prems(3)
    by (rule consumes_invariant) (use RRep.IH RRep.prems(2) in simp)
next
  case (RGroup i r)
  obtain b a g where s: "s = (b, a, g)" by (cases s)
  from RGroup.prems(1) obtain b' a' g' where d: "derives r s (b', a', g')"
    and u: "u = (b', a', (i, rev (take (length b' - length b) b')) # g')" by (auto simp: s)
  from d RGroup.prems(2) obtain w where w: "a = w @ a'" "w \<noteq> []" "list_all is_digit w" "b' = rev w @ b" "g' = g"
    by (auto simp: s readsD [OF reads_digits])
  from RGroup.prems(3) have t: "rev b @ a = t" "\<forall>(i, w) \<in> set g. number_in t w"
    by (simp_all add: numbers_of_def s ahead_def)
  have "number_in t w" unfolding number_in_def using w t(1) by (auto simp: sublist_def)
  then show ?case using w t by (simp add: numbers_of_def u ahead_def)
qed (auto simp: numbers_of_def ahead_def)

lemma derives_captures:
  "derives r s u \<Longrightarrow> captures r \<or> (\<exists>w. (1, w) \<in> set (snd (snd s))) \<Longrightarrow> \<exists>w. (1, w) \<in> set (snd (snd u))"
proof (induction r arbitrary: s u)
  case (RSeq r q)
  from RSeq.prems(1) obtain v where v: "derives r s v" "derives q v u" unfolding derives.simps by blast
  show ?case
  proof (rule RSeq.IH(2) [OF v(2)])
    show "captures q \<or> (\<exists>w. (1, w) \<in> set (snd (snd v)))" using RSeq.IH(1) [OF v(1)] RSeq.prems(2) by auto
  qed
next
  case (RAlt r q)
  then show ?case unfolding derives.simps captures.simps by blast
next
  case (RRep greedy lo hi r)
  from RRep.prems(1) obtain n where "(consumes (derives r) ^^ n) s u" by auto
  moreover have "\<exists>w. (1, w) \<in> set (snd (snd s))" using RRep.prems(2) by simp
  ultimately show ?case
    by (rule consumes_invariant [where I = "\<lambda>s. \<exists>w. (1, w) \<in> set (snd (snd s))"]) (use RRep.IH in blast)
next
  case (RGroup i r)
  then obtain b a g w where d: "derives r s (b, a, g)" and u: "u = (b, a, (i, w) # g)" by auto
  show ?case
  proof (cases "i = 1")
    case False
    with RGroup.prems(2) have "\<exists>w. (1, w) \<in> set (snd (snd s))" by simp
    with RGroup.IH [OF d] show ?thesis by (auto simp: u)
  qed (auto simp: u)
qed auto

lemma match_here_number:
  assumes "match_here r advance b a = Some m" and "digit_groups r" and "captures r"
  shows "number_in (rev b @ a) (grp 1 m)"
proof -
  from assms(1) obtain t where m: "rm_end m = t"
    and k: "matches r (\<lambda>t. if advance \<and> length (ahead t) = length a then None else Some t) (b, a, []) = Some t"
    by (auto simp: match_here_def)
  from matches_Some [OF k] have d: "derives r (b, a, []) t" by (auto split: if_splits)
  have n: "numbers_of (rev b @ a) t"
    by (rule derives_numbers [OF d assms(2)]) (simp add: numbers_of_def ahead_def)
  from derives_captures [OF d] assms(3) obtain v where "(1, v) \<in> set (rm_groups m)"
    unfolding rm_groups_def m by blast
  then obtain w where w: "map_of (rm_groups m) 1 = Some w" using weak_map_of_SomeI by metis
  then have "(1, w) \<in> set (snd (snd t))" using map_of_SomeD unfolding rm_groups_def m by metis
  with n have "number_in (rev b @ a) w" unfolding numbers_of_def by blast
  then show ?thesis using w by (simp add: grp_def)
qed

lemma search_from_number:
  "search_from r advance b a = Some m \<Longrightarrow> digit_groups r \<Longrightarrow> captures r \<Longrightarrow>
     number_in (rev b @ a) (grp 1 m) \<and> rev (fst (rm_end m)) @ ahead (rm_end m) = rev b @ a"
proof (induction r advance b a rule: search_from.induct)
  case (1 r advance b a)
  show ?case
  proof (cases "match_here r advance b a")
    case None
    with "1.prems"(1) obtain c a' where a: "a = c # a'" and s: "search_from r False (c # b) a' = Some m"
      by (cases a) (auto simp: search_from.simps [of r advance b])
    from "1.IH" [OF None a s "1.prems"(2,3)] a show ?thesis by simp
  next
    case (Some m')
    with "1.prems"(1) have "match_here r advance b a = Some m" by (simp add: search_from.simps [of r advance b a])
    with match_here_number match_here_splits "1.prems"(2,3) show ?thesis by blast
  qed
qed

lemma find_from_numbers:
  "digit_groups r \<Longrightarrow> captures r \<Longrightarrow> m \<in> set (find_from r advance b a) \<Longrightarrow> number_in (rev b @ a) (grp 1 m)"
proof (induction r advance b a rule: find_from.induct)
  case (1 r advance b a)
  obtain m' where s: "search_from r advance b a = Some m'"
  proof (cases "search_from r advance b a")
    case None
    then have "find_from r advance b a = []" by (simp add: find_from.simps)
    then show ?thesis using "1.prems"(3) by simp
  qed (rule that)
  note n = search_from_number [OF s "1.prems"(1,2)]
  have "find_from r advance b a
      = m' # find_from r (rm_start m' = length (fst (rm_end m'))) (fst (rm_end m')) (ahead (rm_end m'))"
    by (subst find_from_step) (simp add: s)
  then consider "m = m'"
    | "m \<in> set (find_from r (rm_start m' = length (fst (rm_end m'))) (fst (rm_end m')) (ahead (rm_end m')))"
    using "1.prems"(3) by auto
  then show ?case
  proof cases
    case 2
    with "1.IH" [OF s refl refl _ "1.prems"(1,2)] search_from_progress [OF s] n show ?thesis by simp
  qed (use n in simp)
qed

text \<open>Texts without a run of more digits than \<open>int\<close> converts.\<close>

definition short_numbers :: "string \<Rightarrow> bool" where
  "short_numbers t \<longleftrightarrow> list_all (\<lambda>i. length (takeWhile is_digit (drop i t)) \<le> max_str_digits) [0..<length t]"

lemma short_numbersD:
  assumes "short_numbers t" and "sublist w t" and "list_all is_digit w"
  shows "length w \<le> max_str_digits"
proof (cases w)
  case (Cons c w')
  from assms(2) obtain u v where t: "t = u @ w @ v" by (auto simp: sublist_def)
  then have "length u < length t" by (simp add: Cons)
  with assms(1) have "length (takeWhile is_digit (drop (length u) t)) \<le> max_str_digits"
    by (simp add: short_numbers_def list_all_iff)
  moreover have "takeWhile is_digit (w @ v) = w @ takeWhile is_digit v"
    using assms(3) by (intro takeWhile_append2) (auto simp: list_all_iff)
  ultimately show ?thesis by (simp add: t)
qed simp

end
