(* ===== verification/GateEval.thy ===== *)
theory GateEval
  imports GateLaws RegexWords
begin

text \<open>
  The evaluation of planned gates. On output in ASCII without a run of more than 4300 digits it
  always returns a verdict of the parser that the gate names. \<open>str.isdigit\<close> accepts superscript
  digits that \<open>int\<close> refuses, and \<open>int\<close> refuses more than 4300 digits: the ways in which a planned
  gate can raise.
\<close>

section \<open>Characters of lines and fields\<close>

definition ascii :: "string \<Rightarrow> bool" where
  "ascii s \<longleftrightarrow> (\<forall>c \<in> set s. ordc c < 128)"

lemma ascii_mono: "ascii s \<Longrightarrow> set t \<subseteq> set s \<Longrightarrow> ascii t"
  by (auto simp: ascii_def)

lemma split_acc_chars: "f \<in> set (split_acc acc s) \<Longrightarrow> set f \<subseteq> set acc \<union> set s"
  by (induction acc s rule: split_acc.induct) (auto split: if_splits)

lemma split_chars: "f \<in> set (split s) \<Longrightarrow> set f \<subseteq> set s"
  using split_acc_chars [of f "[]" s] by (auto simp: split_def)

lemma splitlines_acc_chars: "l \<in> set (splitlines_acc acc s) \<Longrightarrow> set l \<subseteq> set acc \<union> set s"
proof (induction acc s rule: splitlines_acc.induct)
  case (2 acc c s)
  consider "l = rev acc" | s' where "s = newline # s'" "c = creturn" "l \<in> set (splitlines_acc [] s')"
    | "l \<in> set (splitlines_acc [] s)" "c = creturn \<Longrightarrow> s \<noteq> [] \<and> hd s \<noteq> newline" "c \<noteq> creturn \<Longrightarrow> is_linebreak c"
    | "l \<in> set (splitlines_acc (c # acc) s)" "c \<noteq> creturn" "\<not> is_linebreak c"
    using 2(5) by (cases s) (auto split: if_splits)
  then show ?case
  proof cases
    case 2
    then show ?thesis using "2.IH"(1) by auto
  next
    case 3
    then show ?thesis using "2.IH"(2,3) by (cases "c = creturn"; cases s) auto
  next
    case 4
    then show ?thesis using "2.IH"(4) by auto
  qed auto
qed (auto split: if_splits)

lemma splitlines_chars: "l \<in> set (splitlines s) \<Longrightarrow> set l \<subseteq> set s"
  using splitlines_acc_chars [of l "[]" s] by (auto simp: splitlines_def)

lemma strip_chars: "set (strip s) \<subseteq> set s"
  by (auto simp: strip_def lstrip_def dest!: set_dropWhileD)

lemma split_acc_nonempty: "[] \<notin> set (split_acc acc s)"
  by (induction acc s rule: split_acc.induct) auto

lemma split_acc_sublist: "f \<in> set (split_acc acc s) \<Longrightarrow> sublist f (rev acc @ s)"
proof (induction acc s rule: split_acc.induct)
  case (2 acc c s)
  have *: "sublist f (rev acc @ c # s)" if "sublist f s"
  proof -
    from that obtain u v where "rev acc @ c # s = (rev acc @ c # u) @ f @ v" by (auto simp: sublist_def)
    then show ?thesis unfolding sublist_def by blast
  qed
  from 2 * show ?case by (auto split: if_splits)
qed (auto split: if_splits)

lemma split_sublist: "f \<in> set (split s) \<Longrightarrow> sublist f s"
  using split_acc_sublist [of f "[]" s] by (auto simp: split_def)

lemma splitlines_acc_sublist: "l \<in> set (splitlines_acc acc s) \<Longrightarrow> sublist l (rev acc @ s)"
proof (induction acc s rule: splitlines_acc.induct)
  case (2 acc c s)
  have later: "sublist l (rev acc @ c # s)" if "sublist l s" for s
  proof -
    from that obtain u v where "rev acc @ c # s = (rev acc @ c # u) @ l @ v" by (auto simp: sublist_def)
    then show ?thesis unfolding sublist_def by blast
  qed
  consider "l = rev acc" | s' where "s = newline # s'" "c = creturn" "l \<in> set (splitlines_acc [] s')"
    | "l \<in> set (splitlines_acc [] s)" "c = creturn \<Longrightarrow> s \<noteq> [] \<and> hd s \<noteq> newline" "c \<noteq> creturn \<Longrightarrow> is_linebreak c"
    | "l \<in> set (splitlines_acc (c # acc) s)" "c \<noteq> creturn" "\<not> is_linebreak c"
    using 2(5) by (cases s) (auto split: if_splits)
  then show ?case
  proof cases
    case 2
    then have "sublist l s'" using "2.IH"(1) by auto
    then have "sublist l s" unfolding \<open>s = newline # s'\<close> by (simp add: sublist_Cons_right)
    then show ?thesis by (rule later)
  next
    case 3
    then have "sublist l s" using "2.IH"(2,3) by (cases "c = creturn"; cases s) auto
    then show ?thesis by (rule later)
  next
    case 4
    then show ?thesis using "2.IH"(4) by auto
  qed auto
qed (auto split: if_splits)

lemma splitlines_sublist: "l \<in> set (splitlines s) \<Longrightarrow> sublist l s"
  using splitlines_acc_sublist [of l "[]" s] by (auto simp: splitlines_def)

lemma strip_sublist: "sublist (strip s) s"
proof -
  have "suffix (lstrip t) t" for t by (simp add: lstrip_def suffix_dropWhile)
  then have "suffix (lstrip s) s" .
  moreover have "prefix (strip s) (lstrip s)"
    using suffix_dropWhile [of is_space "rev (lstrip s)"] unfolding suffix_to_prefix by (simp add: strip_def)
  ultimately
  show ?thesis by (meson prefix_imp_sublist sublist_order.order_trans suffix_imp_sublist)
qed

lemma ascii_isdigit: "ascii s \<Longrightarrow> isdigit_text s \<Longrightarrow> list_all is_digit s"
  by (fastforce simp: ascii_def isdigit_text_def list_all_iff)

lemma int_of_digits: "s \<noteq> [] \<Longrightarrow> list_all is_digit s \<Longrightarrow> length s \<le> max_str_digits \<Longrightarrow> \<exists>i. int_of_string s = Some i"
proof -
  assume s: "s \<noteq> []" "list_all is_digit s" "length s \<le> max_str_digits"
  then obtain c t where ct: "s = c # t" and c: "is_digit c" by (cases s) auto
  from c have "c \<noteq> CHR ''-''" "c \<noteq> CHR ''+''" by (auto simp: is_digit_def)
  with s ct show ?thesis by (auto simp: int_of_string_def strip_digits drop_underscores_digits)
qed

lemma number_parses: "number_in t w \<Longrightarrow> short_numbers t \<Longrightarrow> \<exists>i. int_of_string w = Some i"
  using int_of_digits [of w] short_numbersD [of t w] by (simp add: number_in_def)

lemma number_converts: "number_in t w \<Longrightarrow> short_numbers t \<Longrightarrow> \<exists>i. py_int (JStr w) = Inr i"
  using number_parses [of t w] by auto

lemma bgp_row_total:
  assumes "ascii raw" and "sublist raw output" and "short_numbers output"
  shows "\<exists>est'. bgp_row est raw = Inr est'"
proof (cases "length (split (strip raw)) < 3 \<or> \<not> is_ipv4_text (split (strip raw) ! 0) \<or> \<not> isdigit_text (last (split (strip raw)))")
  case False
  then have "split (strip raw) \<noteq> []" and d: "isdigit_text (last (split (strip raw)))" by auto
  then have "set (last (split (strip raw))) \<subseteq> set (strip raw)" by (intro split_chars last_in_set)
  then have "set (last (split (strip raw))) \<subseteq> set raw" using strip_chars by blast
  then have "ascii (last (split (strip raw)))" by (rule ascii_mono [OF assms(1)])
  then have "list_all is_digit (last (split (strip raw)))" using d ascii_isdigit by blast
  moreover have "sublist (last (split (strip raw))) output"
    using split_sublist [OF last_in_set [OF \<open>split (strip raw) \<noteq> []\<close>]] strip_sublist assms(2)
    by (meson sublist_order.order_trans)
  ultimately have "number_in output (last (split (strip raw)))" using d by (simp add: number_in_def isdigit_text_def)
  then obtain i where "int_of_string (last (split (strip raw))) = Some i"
    using number_parses [OF _ assms(3)] by blast
  then show ?thesis using False by (simp add: bgp_row_def Let_def)
qed (auto simp: bgp_row_def Let_def)

lemma bgp_rows_total:
  "\<forall>l \<in> set ls. ascii l \<and> sublist l output \<Longrightarrow> short_numbers output \<Longrightarrow> \<exists>est'. foldE bgp_row est ls = Inr est'"
proof (induction ls arbitrary: est)
  case (Cons l ls)
  then obtain est1 where "bgp_row est l = Inr est1" using bgp_row_total by fastforce
  with Cons show ?case by simp
qed simp

lemma verify_bgp_total: "ascii output \<Longrightarrow> short_numbers output \<Longrightarrow> \<exists>r. verify_bgp_neighbors output (map JStr ns) = Inr r"
proof -
  assume a: "ascii output" and n: "short_numbers output"
  have "\<forall>l \<in> set (splitlines output). ascii l \<and> sublist l output"
    using splitlines_chars splitlines_sublist ascii_mono [OF a] by blast
  then obtain est where "foldE bgp_row [] (splitlines output) = Inr est" using bgp_rows_total n by blast
  moreover have "list_all is_str (map JStr ns)" by (simp add: list_all_iff)
  ultimately show ?thesis by (simp add: verify_bgp_neighbors_def Let_def)
qed

text \<open>The expressions whose group 1 is converted.\<close>

lemma digit_groups_seq [simp]: "digit_groups (seq rs) = list_all digit_groups rs"
  by (induction rs rule: seq.induct) auto

lemma captures_seq [simp]: "captures (seq rs) = list_ex captures rs"
  by (induction rs rule: seq.induct) auto

lemma digit_groups_lit [simp]: "digit_groups (lit s)" "digit_groups (lit_i s)"
  by (simp_all add: lit_def lit_i_def list_all_iff)

lemma digit_groups_classes [simp]: "digit_groups r_space" "digit_groups r_digit"
  "digit_groups (plus r) = digit_groups r" "digit_groups (star r) = digit_groups r"
  by (simp_all add: r_space_def r_digit_def plus_def star_def)

lemma number_expressions:
  "digit_groups mtu_re \<and> captures mtu_re" "digit_groups established_re \<and> captures established_re"
  "digit_groups (id_line_re key) \<and> captures (id_line_re key)"
  by (simp_all add: mtu_re_def established_re_def id_line_re_def)

lemma search_number:
  "re_search r t = Some m \<Longrightarrow> digit_groups r \<and> captures r \<Longrightarrow> short_numbers t \<Longrightarrow> \<exists>i. py_int (JStr (grp 1 m)) = Inr i"
  using search_from_number [of r False "[]" t m] number_converts by (auto simp: re_search_def)

lemma verify_mtu_total: "short_numbers output \<Longrightarrow> \<exists>r. verify_interface_mtu output i = Inr r"
proof (cases "re_search mtu_re output")
  case (Some m)
  assume n: "short_numbers output"
  from search_number [OF Some number_expressions(1) n] Some show ?thesis
    by (auto simp del: py_int.simps simp: verify_interface_mtu_def)
qed (simp add: verify_interface_mtu_def)

lemma verify_sessions_total: "short_numbers output \<Longrightarrow> \<exists>r. verify_lisp_sessions output i = Inr r"
proof (cases "re_search established_re output")
  case (Some m)
  assume n: "short_numbers output"
  from search_number [OF Some number_expressions(2) n] Some show ?thesis
    by (auto simp del: py_int.simps simp: verify_lisp_sessions_def Let_def)
qed (simp add: verify_lisp_sessions_def)

lemma mapE_ok: "\<forall>x \<in> set xs. \<exists>y. f x = Inr y \<Longrightarrow> \<exists>ys. mapE f xs = Inr ys"
  by (induction xs) auto

lemma ids_of_total: "short_numbers output \<Longrightarrow> \<exists>is. ids_of key output = Inr is"
  unfolding ids_of_def re_finditer_def
proof (intro mapE_ok ballI)
  fix m
  assume n: "short_numbers output" and "m \<in> set (find_from (id_line_re key) False [] output)"
  then have "number_in (rev [] @ output) (grp 1 m)"
    using find_from_numbers number_expressions(3) by blast
  then show "\<exists>i. py_int (JStr (grp 1 m)) = Inr i" using number_converts [OF _ n] by simp
qed

lemma verify_identity_total: "short_numbers output \<Longrightarrow> \<exists>r. verify_lisp_identity output d m = Inr r"
  using ids_of_total [of "output" "''domain-id''"] ids_of_total [of "output" "''multihoming-id''"]
  by (auto simp: verify_lisp_identity_def Let_def)

lemma sxp_pairs_total: "mapE sxp_pair (map pair_json ps) = Inr ps"
  by (induction ps) (simp_all add: sxp_pair_def pair_json_def str_at_def)

section \<open>Planned gates evaluate\<close>

definition evaluators :: "string list" where
  "evaluators = [''ios_xe_version'', ''ios_xe_license_level'', ''isis_neighbors'', ''lisp_sessions'', ''lisp_publishers'',
     ''lisp_identity'', ''exact_config_lines'', ''config_lines_absent'', ''pim_interfaces'', ''msdp_peers'',
     ''sxp_connections'', ''role_permission'', ''nve_peers'', ''bgp_neighbors'', ''route_prefix'', ''interface_mtu'',
     ''bfd_neighbors'']"

lemma evaluate_fields:
  "evaluate_gate (gate i ph d c ev exp) output = evaluate_gate (JObj [(''evaluator'', JStr ev), (''expected'', JObj exp)]) output"
  "evaluate_gate (advisory_gate i ph d c ev exp) output = evaluate_gate (JObj [(''evaluator'', JStr ev), (''expected'', JObj exp)]) output"
  by (simp_all add: evaluate_gate_def gate_def advisory_gate_def)

lemma checkable_evaluator: "checkable ev exp \<Longrightarrow> ev \<in> set evaluators"
  by (induction rule: checkable.induct) (simp_all add: evaluators_def)

lemma checkable_evaluates:
  assumes "checkable ev exp" and "ascii output" and "short_numbers output"
  shows "\<exists>r. evaluate_gate (JObj [(''evaluator'', JStr ev), (''expected'', JObj exp)]) output = Inr r"
  using assms(1)
proof cases
  case (ck_bgp ns)
  then show ?thesis using verify_bgp_total [OF assms(2,3)]
    by (simp add: evaluate_gate_def Let_def items_at_def jstrs_def)
next
  case (ck_sxp ps)
  then show ?thesis by (simp add: evaluate_gate_def Let_def items_at_def verify_sxp_connections_def sxp_pairs_total)
next
  case (ck_identity m d)
  then show ?thesis using verify_identity_total [OF assms(3)]
    by (auto simp: evaluate_gate_def Let_def int_at_def ints_or_none_def jget_def jget_default_def)
qed (use verify_mtu_total [OF assms(3)] verify_sessions_total [OF assms(3)] in
  \<open>simp_all add: evaluate_gate_def Let_def items_at_def int_at_def str_at_def jstrs_def jnat_def\<close>)

lemma planned_evaluates:
  "planned ids phases g \<Longrightarrow> ascii output \<Longrightarrow> short_numbers output \<Longrightarrow> \<exists>r. evaluate_gate g output = Inr r"
  by (induction rule: planned.induct) (auto simp: evaluate_fields dest: checkable_evaluates)

end
