(* ===== verification/GateProps.thy ===== *)
theory GateProps
  imports GateEval RegexWords ReconcileProps
begin

text \<open>
  The properties of whole gate plans: what every gate is, which gates every device has, and what
  passing them says of the output of the device.
\<close>

section \<open>Endpoints of links\<close>

definition link_endpoints :: "json \<Rightarrow> json list result" where
  "link_endpoints intent =
     (ebind (items_get intent ''links'') (\<lambda>links.
        ebind (mapE (\<lambda>l. items_at l ''endpoints'') links) (\<lambda>epss.
        Inr (concat epss))))"

definition endpoints_on :: "string \<Rightarrow> json list \<Rightarrow> nat" where
  "endpoints_on i eps = length (filter (\<lambda>e. str_at e ''device_id'' = Inr i) eps)"

lemma count_endpoint_step:
  "count_endpoint counts e = Inr counts' \<Longrightarrow>
     map_of counts' i = map_option (\<lambda>n. n + endpoints_on i [e]) (map_of counts i)"
  by (auto simp: count_endpoint_def res update_conv' endpoints_on_def option.map_ident)

lemma count_endpoints:
  "foldE count_endpoint counts eps = Inr counts' \<Longrightarrow>
     map_of counts' i = map_option (\<lambda>n. n + endpoints_on i eps) (map_of counts i)"
proof (induction eps arbitrary: counts)
  case (Cons e eps)
  then obtain c where c: "count_endpoint counts e = Inr c" "foldE count_endpoint c eps = Inr counts'"
    by (auto simp: res)
  show ?case using Cons.IH [OF c(2)] count_endpoint_step [OF c(1), of i]
    by (simp add: option.map_comp comp_def endpoints_on_def add.assoc)
qed (simp add: endpoints_on_def option.map_ident)

lemma count_links:
  "foldE (\<lambda>counts link. ebind (items_at link ''endpoints'') (foldE count_endpoint counts)) counts links = Inr counts' \<Longrightarrow>
     \<exists>epss. mapE (\<lambda>l. items_at l ''endpoints'') links = Inr epss
       \<and> foldE count_endpoint counts (concat epss) = Inr counts'"
proof (induction links arbitrary: counts)
  case (Cons l links)
  then obtain eps c where c: "items_at l ''endpoints'' = Inr eps" "foldE count_endpoint counts eps = Inr c"
    "foldE (\<lambda>counts link. ebind (items_at link ''endpoints'') (foldE count_endpoint counts)) c links = Inr counts'"
    by (auto simp: res)
  from Cons.IH [OF c(3)] c(1,2) show ?case by (auto simp: foldE_append)
qed simp

lemma incident_links_count:
  assumes "incident_links intent = Inr counts" and "map_of counts i = Some n"
  shows "\<exists>eps. link_endpoints intent = Inr eps \<and> n = endpoints_on i eps"
proof -
  from assms(1) obtain ids links where l: "items_get intent ''links'' = Inr links"
    and f: "foldE (\<lambda>counts link. ebind (items_at link ''endpoints'') (foldE count_endpoint counts))
        (map (\<lambda>i. (i, 0)) (remdups ids)) links = Inr counts"
    by (auto simp: incident_links_def res)
  from count_links [OF f] obtain epss where e: "mapE (\<lambda>l. items_at l ''endpoints'') links = Inr epss"
    and c: "foldE count_endpoint (map (\<lambda>i. (i, 0)) (remdups ids)) (concat epss) = Inr counts" by blast
  have "map_of (map (\<lambda>i. (i, 0::nat)) xs) i = (if i \<in> set xs then Some 0 else None)" for xs
    by (induction xs) auto
  with count_endpoints [OF c, of i] assms(2) have "n = endpoints_on i (concat epss)" by (auto split: if_splits)
  with l e show ?thesis by (simp add: link_endpoints_def)
qed

lemma gate_facts_incident: "gate_facts intent = Inr facts \<Longrightarrow> incident_links intent = Inr (gf_incident facts)"
  unfolding gate_facts_def by (elim ebind_InrE) auto

section \<open>What passing an adjacency gate means\<close>

lemma isis_gate_passed:
  assumes "evaluate_gate (isis_gate i n) output = Inr r" and "gr_passed r"
  shows "n \<le> length (filter isis_up (stripped_lines output))"
proof -
  have "evaluate_gate (isis_gate i n) output = Inr (verify_isis_neighbors output (int n))"
    by (simp add: isis_gate_def evaluate_fields(1)) (simp add: evaluate_gate_def Let_def int_at_def jnat_def)
  with assms show ?thesis by (auto simp: verify_isis_neighbors_def counted_def verdict_def Let_def)
qed

text \<open>
  C29: the plan requires of every device of the intent its software version, the SDA licenses
  and an UP IS-IS neighbor for each endpoint of a link that the intent places on it; the gate
  passes only on output that shows that many.
\<close>

theorem device_needs_its_adjacencies:
  assumes "build_gate_plan intent artifact = Inr gates" and "items_at intent ''devices'' = Inr devices"
    and "d \<in> set devices" and "str_at d ''id'' = Inr i"
  shows "\<exists>eps version. link_endpoints intent = Inr eps \<and> version_gate i d = Inr version
      \<and> {version, license_gate i, isis_gate i (endpoints_on i eps)} \<subseteq> set gates
      \<and> (\<forall>output r. evaluate_gate (isis_gate i (endpoints_on i eps)) output = Inr r \<and> gr_passed r
           \<longrightarrow> endpoints_on i eps \<le> length (filter isis_up (stripped_lines output)))"
proof -
  from assms(1) obtain facts raw_devices ds dparts recon fparts where
    f: "gate_facts intent = Inr facts" "items_at intent ''devices'' = Inr raw_devices" "set ds = set raw_devices"
      "mapE (device_gates intent facts) ds = Inr dparts" "gates = recon @ concat dparts @ concat fparts"
    by (rule build_gate_planE)
  with assms(2,3) have "d \<in> set ds" by simp
  with mapE_Inr_setD [OF f(4)] obtain gs where gs: "gs \<in> set dparts" "device_gates intent facts d = Inr gs" by blast
  from gs(2) obtain j roles version msdp underlay border pubsub multicast policy where
    p: "str_at d ''id'' = Inr j" "version_gate j d = Inr version" "underlay_gates intent facts j = Inr underlay"
    and g: "gs = [version, license_gate j] @ msdp @ underlay
       @ (if JStr ''fabric_edge'' \<in> set roles then edge_gates facts j else []) @ border @ pubsub @ multicast @ policy"
    by (rule device_gatesE)
  have j: "j = i" using p(1) assms(4) by simp
  from p(3) obtain n mtus where n: "map_of (gf_incident facts) i = Some n" and u: "underlay = isis_gate i n # concat mtus @ bfd_gates i n"
    unfolding j by (rule underlay_gatesE)
  from incident_links_count [OF gate_facts_incident [OF f(1)] n] obtain eps where
    e: "link_endpoints intent = Inr eps" "n = endpoints_on i eps" by blast
  have "{version, license_gate i, isis_gate i n} \<subseteq> set gs" unfolding g u j by simp
  with gs(1) have "{version, license_gate i, isis_gate i n} \<subseteq> set gates" unfolding f(5) by auto
  moreover have "\<forall>output r. evaluate_gate (isis_gate i n) output = Inr r \<and> gr_passed r
           \<longrightarrow> n \<le> length (filter isis_up (stripped_lines output))"
    using isis_gate_passed by blast
  ultimately show ?thesis using p(2) unfolding j e(2) by (intro exI conjI) (rule e(1))
qed

section \<open>A sample intent\<close>

definition sample_gate_intent :: json where
  "sample_gate_intent =
     JObj [(''devices'', JArr [JObj [(''id'', JStr ''b1''), (''software_version'', JStr ''17.12.3''), (''roles'', JArr [])],
             JObj [(''id'', JStr ''b2''), (''software_version'', JStr ''17.12.3''), (''roles'', JArr [])]]),
           (''fabric'', JObj [(''mtu'', JInt 9100)]), (''lisp'', JObj [(''map_servers'', JArr [])]),
           (''links'', JArr [JObj [(''id'', JStr ''l1''),
              (''endpoints'', JArr [JObj [(''device_id'', JStr ''b1''), (''interface'', JStr ''Te1/0/1'')],
                                    JObj [(''device_id'', JStr ''b2''), (''interface'', JStr ''Te1/0/1'')]])]])]"

lemmas gate_plan_simps = build_gate_plan_def gate_facts_def incident_links_def count_endpoint_def by_device_id_def
  section_of_def items_get_def items_at_def str_at_def strs_get_def jget_def jget_default_def jor_def py_sorted_def
  sort_by_def device_gates_def py_set_def version_gate_def msdp_gates_def underlay_gates_def mtu_gate_def mtu_gate_at_def
  int_at_def edge_gates_def border_gates_def pubsub_gates_def multicast_gates_def native_multicast_def
  policy_plane_gates_def hashable_def

definition sample_device_gates :: "string \<Rightarrow> json list" where
  "sample_device_gates i =
     [gate (''precheck.version.'' @ i) ''precheck'' i ''show version'' ''ios_xe_version'' [(''version'', JStr ''17.12.3'')],
      license_gate i, isis_gate i 1,
      gate (''underlay.mtu.'' @ i @ ''.l1'') ''underlay'' i ''show interfaces Te1/0/1'' ''interface_mtu''
        [(''expected_mtu'', JInt 9100)]] @ bfd_gates i 1"

lemma sample_gate_plan:
  "build_gate_plan sample_gate_intent None = Inr (sample_device_gates ''b1'' @ sample_device_gates ''b2'')"
  by (simp add: sample_gate_intent_def gate_plan_simps sample_device_gates_def Let_def)

theorem device_needs_its_adjacencies_witness:
  "license_gate ''b2'' \<in> set (sample_device_gates ''b1'' @ sample_device_gates ''b2'')
     \<and> isis_gate ''b2'' 1 \<in> set (sample_device_gates ''b1'' @ sample_device_gates ''b2'')"
proof -
  let ?d = "JObj [(''id'', JStr ''b2''), (''software_version'', JStr ''17.12.3''), (''roles'', JArr [])]"
  have "items_at sample_gate_intent ''devices''
      = Inr [JObj [(''id'', JStr ''b1''), (''software_version'', JStr ''17.12.3''), (''roles'', JArr [])], ?d]"
    by (simp add: items_at_def sample_gate_intent_def)
  from device_needs_its_adjacencies [OF sample_gate_plan this, of ?d "''b2''"]
  obtain eps where e: "link_endpoints sample_gate_intent = Inr eps"
    and g: "{license_gate ''b2'', isis_gate ''b2'' (endpoints_on ''b2'' eps)}
      \<subseteq> set (sample_device_gates ''b1'' @ sample_device_gates ''b2'')"
    by (auto simp: str_at_def simp del: set_append)
  have "link_endpoints sample_gate_intent
      = Inr [JObj [(''device_id'', JStr ''b1''), (''interface'', JStr ''Te1/0/1'')],
             JObj [(''device_id'', JStr ''b2''), (''interface'', JStr ''Te1/0/1'')]]"
    by (simp add: link_endpoints_def sample_gate_intent_def items_get_def items_at_def jget_default_def)
  with e have "endpoints_on ''b2'' eps = 1" by (auto simp: endpoints_on_def str_at_def)
  with g show ?thesis by simp
qed

section \<open>Every planned gate evaluates\<close>

text \<open>
  C30: a gate plan without a reconciliation is well typed. Each gate names a device and a phase of the
  intent and one of the seventeen evaluators, and on ASCII output without a run of more than
  4300 digits, the most that \<open>int\<close> converts, its evaluation finds every field it reads and returns
  a verdict.
\<close>

theorem gate_plan_evaluates:
  assumes "build_gate_plan intent None = Inr gates" and "g \<in> set gates" and "ascii output" and "short_numbers output"
  shows "(\<exists>i ph ev. field g ''device_id'' = JStr i \<and> i \<in> intent_ids intent
        \<and> field g ''phase_id'' = JStr ph \<and> ph \<in> needed_phases intent
        \<and> field g ''evaluator'' = JStr ev \<and> ev \<in> set evaluators)
      \<and> (\<exists>r. evaluate_gate g output = Inr r)"
proof -
  from build_gate_plan_planned [OF assms(1,2)] have p: "planned (intent_ids intent) (needed_phases intent) g" by simp
  then have "\<exists>i ph ev. field g ''device_id'' = JStr i \<and> i \<in> intent_ids intent
        \<and> field g ''phase_id'' = JStr ph \<and> ph \<in> needed_phases intent
        \<and> field g ''evaluator'' = JStr ev \<and> ev \<in> set evaluators"
    by (induction rule: planned.induct) (auto simp: gate_def advisory_gate_def dest: checkable_evaluator)
  with planned_evaluates [OF p assms(3,4)] show ?thesis by blast
qed

theorem gate_plan_evaluates_witness:
  "\<exists>r. evaluate_gate (isis_gate ''b1'' 1) ''no 12 neighbors'' = Inr r"
  using gate_plan_evaluates [OF sample_gate_plan, of "isis_gate ''b1'' 1" "''no 12 neighbors''"]
  by (simp add: sample_device_gates_def ascii_def short_numbers_def upt_rec)

section \<open>Reconciliation gates\<close>

lemma reconciliation_gates_member:
  assumes "reconciliation_gates intent artifact = Inr gates" and "section_of artifact ''reconciliation'' = Inr plan"
    and "g \<in> set (plan_gates plan d)" and "field plan ''devices'' = removal_plan_json devs"
  shows "g \<in> set gates"
proof -
  obtain v where v: "map_of devs d = Some v" "g \<in> set (map removal_gate (dr_removals v))"
    using assms(3) unfolding plan_gates_def assms(4) field_removal_plan by (auto split: option.splits)
  have j: "jget_default plan ''devices'' (JObj []) = Inr x \<Longrightarrow> x = removal_plan_json devs" for x
    using assms(4) by (cases plan) (auto simp: jget_default_def field_def removal_plan_json_def split: option.splits)
  from assms(1) obtain devices fusions active raw parts gss where r: "jget_default plan ''devices'' (JObj []) = Inr raw"
      "items_of raw = Inr parts"
      "mapE (\<lambda>(device_id, device). ebind (descriptor_version_gate active device_id device)
          (\<lambda>v. ebind (items_get device ''gates'') (\<lambda>rg. ebind (mapE (own_gate device_id) rg) (\<lambda>own. Inr (v @ own)))))
        (sort_key fst parts) = Inr gss" and gates: "gates = concat gss"
    unfolding reconciliation_gates_def assms(2) ebind_simps
    by - (elim ebind_InrE, rule that, assumption+, drule Inr_inject, erule sym)
  let ?entry = "(d, JObj [(''device'', dr_device v), (''blocks'', JArr (map removal_block (dr_removals v))),
      (''gates'', JArr (map removal_gate (dr_removals v)))])"
  have "parts = obj_items (removal_plan_json devs)" using j r(1,2) by (auto simp: removal_plan_json_def)
  then have "?entry \<in> set (sort_key fst parts)"
    using map_of_SomeD [OF v(1)] by (force simp: removal_plan_json_def)
  from mapE_Inr_setD [OF r(3) this] obtain gs vg own where gs: "gs \<in> set gss" "gs = vg @ own"
    and own: "mapE (own_gate d) (map removal_gate (dr_removals v)) = Inr own"
    by (auto simp: ebind_Inr items_get_def jget_default_def)
  have "own = map removal_gate (dr_removals v)"
    using mapE_Inr_map [OF own, of "\<lambda>x. x"] by (auto simp: own_gate_def res)
  with v(2) gs(2) have "g \<in> set gs" by simp
  with gs(1) show ?thesis by (auto simp: gates)
qed

lemma reconciliation_plan_devices:
  assumes "build_multicast_reconciliation (Some b) c = Inr plan" and "wf_json b" and "wf_json c"
  obtains devs where "field plan ''devices'' = removal_plan_json devs"
  using assms by (rule reconciliationE)

text \<open>
  C31: for every stale resource of the baseline the plan has a gate on the device that owns it, which
  always evaluates and passes exactly when none of the resource's forbidden lines is a line of
  the output.
\<close>

theorem stale_lines_are_gated:
  assumes "build_multicast_reconciliation (Some b) c = Inr plan" and "wf_json b" and "wf_json c"
    and "build_gate_plan intent (Some artifact) = Inr gates" and "section_of artifact ''reconciliation'' = Inr plan"
    and "((d, k), item) \<in> set (owned_resources (field b ''manifest''))" and "stale_in c ((d, k), item)"
  shows "\<exists>g \<in> set gates. field g ''device_id'' = JStr d \<and> field g ''phase_id'' = JStr ''multicast_reconciliation''
      \<and> field g ''command'' = JStr (py_str (field item ''gate_command''))
      \<and> (\<forall>output. \<exists>r. evaluate_gate g output = Inr r
           \<and> gr_passed r = (\<forall>l \<in> set (arr_items (field item ''forbidden_lines'')). strip (py_str l) \<notin> set (config_lines output)))"
proof -
  let ?r = "removal_rec ((d, k), item)"
  have "plan_gates plan d = map removal_gate (removals_on d (sorted_stale (field b ''manifest'') c))"
    using assms(1-3) by (rule reconciliationE) blast
  moreover have "?r \<in> set (removals_on d (sorted_stale (field b ''manifest'') c))"
    using assms(6,7) unfolding removals_on_def sorted_stale_def by force
  ultimately have g: "removal_gate ?r \<in> set (plan_gates plan d)" by simp
  from assms(4) obtain recon where r: "reconciliation_gates intent artifact = Inr recon" and "set recon \<subseteq> set gates"
    by (auto elim!: build_gate_planE)
  moreover obtain devs where "field plan ''devices'' = removal_plan_json devs"
    using assms(1-3) by (rule reconciliation_plan_devices)
  ultimately have "removal_gate ?r \<in> set gates" using reconciliation_gates_member [OF r assms(5) g] by blast
  moreover have "evaluate_gate (removal_gate ?r) t
      = Inr (verify_config_lines_absent t (arr_items (field item ''forbidden_lines'')))" for t
    by (simp add: removal_gate_def removal_rec_def evaluate_gate_def Let_def items_at_def)
  moreover have "gr_passed (verify_config_lines_absent t ls)
      = (\<forall>l \<in> set ls. strip (py_str l) \<notin> set (config_lines t))" for t ls
    by (auto simp: verify_config_lines_absent_def verdict_def Let_def filter_empty_conv count_list_0_iff)
  ultimately show ?thesis
    by (intro bexI [of _ "removal_gate ?r"]) (auto simp: removal_gate_def removal_rec_def)
qed

lemma sample_reconciled_plan:
  obtains plan gates where
    "build_multicast_reconciliation (Some sample_baseline) (sample_manifest [sample_originator]) = Inr plan"
    "build_gate_plan sample_gate_intent (Some (JObj [(''reconciliation'', plan)])) = Inr gates"
proof -
  let ?m = "sample_manifest [sample_routing, sample_originator]" and ?c = "sample_manifest [sample_originator]"
  obtain plan where p: "build_multicast_reconciliation (Some sample_baseline) ?c = Inr plan"
    using sample_reconciliation by blast
  obtain device r where d: "plan_removals ?m ?c = Inr (1, [(''b1'', \<lparr>dr_device = device, dr_removals = [r]\<rparr>)])"
    "rm_device r = ''b1''" using sample_plan by blast
  obtain body where plan: "plan = JObj body" and "map_of body ''devices'' = Some
      (removal_plan_json [(''b1'', \<lparr>dr_device = device, dr_removals = [r]\<rparr>)])"
    using p d(1) by (auto simp: build_multicast_reconciliation_def res sample_baseline(3) Let_def)
  then have "reconciliation_gates sample_gate_intent (JObj [(''reconciliation'', plan)]) = Inr [removal_gate r]"
    by (cases body) (simp_all add: reconciliation_gates_def sample_gate_intent_def section_of_def jget_def jget_default_def
        items_get_def str_at_def jor_def removal_plan_json_def descriptor_version_gate_def own_gate_def removal_gate_def d(2))
  then have "\<exists>gates. build_gate_plan sample_gate_intent (Some (JObj [(''reconciliation'', plan)])) = Inr gates"
    using sample_gate_plan by (auto simp: build_gate_plan_def ebind_Inr)
  with p show thesis by (blast intro: that)
qed

theorem stale_lines_are_gated_witness:
  "\<exists>gates r. (\<exists>g \<in> set gates. field g ''device_id'' = JStr ''b1'' \<and> evaluate_gate g ''hostname b1'' = Inr r)"
proof -
  obtain plan gates where p: "build_multicast_reconciliation (Some sample_baseline) (sample_manifest [sample_originator]) = Inr plan"
    "build_gate_plan sample_gate_intent (Some (JObj [(''reconciliation'', plan)])) = Inr gates"
    by (rule sample_reconciled_plan)
  have t: "truthy plan" using p(1) by (auto simp: build_multicast_reconciliation_def res Let_def)
  have "((''b1'', ''multicast.overlay.routing:BLUE''), sample_routing) \<in> set (owned_resources (field sample_baseline ''manifest''))"
    "stale_in (sample_manifest [sample_originator]) ((''b1'', ''multicast.overlay.routing:BLUE''), sample_routing)"
    by (simp_all add: sample_baseline(2) sample_owned stale_in_def)
  from stale_lines_are_gated [OF p(1) sample_baseline(5) sample_manifest_wf(2) p(2) _ this] t
  show ?thesis by (fastforce simp: section_of_def jget_def jget_default_def jor_def)
qed

section \<open>VLAN lists\<close>

lemma run_end_exact:
  "run_end v vs = (e, us) \<Longrightarrow> sorted_wrt (<) (v # vs) \<Longrightarrow>
     v \<le> e \<and> v # vs = [v..e] @ us \<and> (\<forall>u \<in> set us. e + 1 < u) \<and> sorted_wrt (<) us"
proof (induction v vs rule: run_end.induct)
  case (1 v)
  then have "e = v" "us = []" by simp_all
  then show ?case by simp
next
  case (2 v w vs)
  show ?case
  proof (cases "w = v + 1")
    case True
    from "2.IH" [OF True] "2.prems" True have "w \<le> e \<and> w # vs = [w..e] @ us \<and> (\<forall>u \<in> set us. e + 1 < u) \<and> sorted_wrt (<) us"
      by simp
    moreover then have "[v..e] = v # [w..e]" using True by (simp add: upto_rec1)
    ultimately show ?thesis using True by simp
  next
    case False
    with "2.prems"(1) have e: "e = v" "us = w # vs" by simp_all
    with "2.prems"(2) False show ?thesis by auto
  qed
qed

text \<open>
  The ranges of the enforcement line stand for the VLANs of the policy, in order and each
  once; every range is nonempty and between two ranges there is a number that is not a VLAN.
\<close>

theorem vlan_ranges_denote_the_vlans:
  "concat (map (\<lambda>r. [fst r..snd r]) (vlan_ranges (sorted_set vs))) = sorted_set vs
     \<and> list_all (\<lambda>r. fst r \<le> snd r) (vlan_ranges (sorted_set vs))
     \<and> sorted_wrt (\<lambda>r r'. snd r + 1 < fst r') (vlan_ranges (sorted_set vs))"
proof -
  have "sorted_wrt (<) xs \<Longrightarrow> concat (map (\<lambda>r. [fst r..snd r]) (vlan_ranges xs)) = xs
      \<and> list_all (\<lambda>r. fst r \<le> snd r) (vlan_ranges xs) \<and> sorted_wrt (\<lambda>r r'. snd r + 1 < fst r') (vlan_ranges xs)
      \<and> (\<forall>r \<in> set (vlan_ranges xs). fst r \<in> set xs)" for xs
  proof (induction xs rule: vlan_ranges.induct)
    case (2 v vs)
    obtain e us where r: "run_end v vs = (e, us)" by fastforce
    note x = run_end_exact [OF r "2.prems"]
    from x have us: "sorted_wrt (<) us" by simp
    note ih = "2.IH" [OF r [symmetric] us]
    have "vlan_ranges (v # vs) = (v, e) # vlan_ranges us" by (simp add: r)
    with x ih show ?case by force
  qed simp
  moreover have "sorted_wrt (<) (sorted_set vs)" by (simp add: sorted_set_def strict_sorted_iff)
  ultimately show ?thesis by blast
qed

text \<open>
  The backtracking matcher and the relation agree on what the address pattern accepts in full:
  four groups of one to three digits between dots.
\<close>

theorem ipv4_text_is_dotted_quad:
  "is_ipv4_text s = (\<exists>a b c d. s = a @ ''.'' @ b @ ''.'' @ c @ ''.'' @ d
     \<and> octet_text a \<and> octet_text b \<and> octet_text c \<and> octet_text d)"
  unfolding is_ipv4_text_def by (rule reads_fullmatch [OF reads_ipv4])

end
