(* ===== verification/OwnedState.thy ===== *)
theory OwnedState
  imports Reconcile GatePlan
begin

text \<open>
  \<open>build_multicast_owned_state\<close> (\<open>reconciliation.py\<close>): the manifest of the multicast state that a
  candidate artifact will own, device by device, each resource with the commands that remove it
  and the lines whose absence proves the removal. The resources are collected as pairs of a
  device and a resource in the order of the calls of \<open>_add\<close>.
\<close>

type_synonym additions = "(string \<times> json) list"

section \<open>Removal commands\<close>

definition router_lisp_mapping_remove :: "int \<Rightarrow> string \<Rightarrow> string list" where
  "router_lisp_mapping_remove i mapping =
     [''router lisp'', '' instance-id '' @ int_str i, ''  service ipv4'', ''   no '' @ mapping,
      ''   exit-service-ipv4'', ''  exit-instance-id'', '' exit-router-lisp'']"

definition router_lisp_bum_remove :: "int \<Rightarrow> string \<Rightarrow> string list" where
  "router_lisp_bum_remove i bum_group =
     [''router lisp'', '' instance-id '' @ int_str i, ''  service ethernet'', ''   no broadcast-underlay '' @ bum_group,
      ''   exit-service-ethernet'', ''  exit-instance-id'', '' exit-router-lisp'']"

definition interface_remove :: "string \<Rightarrow> string list \<Rightarrow> string list" where
  "interface_remove interface lines = (''interface '' @ interface) # map (\<lambda>l. '' no '' @ l) lines"

section \<open>Underlay\<close>

definition rp_loopback_resource :: "int \<Rightarrow> string \<Rightarrow> json" where
  "rp_loopback_resource rp_loopback_id rp_address =
     (let loopback = ''Loopback'' @ int_str rp_loopback_id in
      resource ''multicast.underlay.rp_loopback'' ''multicast_rp_loopback''
        [''interface '' @ loopback, ''ip address '' @ rp_address @ '' 255.255.255.255'']
        [''no interface '' @ loopback] (''show running-config | section ^interface '' @ loopback @ ''$'')
        [''interface '' @ loopback] 200)"

definition msdp_peer_resource :: "string \<Rightarrow> json" where
  "msdp_peer_resource peer =
     (let line = ''ip msdp peer '' @ peer @ '' connect-source Loopback0'' in
      resource (''multicast.underlay.msdp_peer:'' @ peer) ''msdp_peer'' [line] [''no '' @ line]
        (''show running-config | include ^ip msdp peer '' @ peer @ '' '') [line] 300)"

definition msdp_global_resource :: "string \<Rightarrow> string \<Rightarrow> json" where
  "msdp_global_resource name line =
     resource (''multicast.underlay.msdp_'' @ name) ''msdp_global'' [line] [''no '' @ line]
       (''show running-config | include ^'' @ line @ ''$'') [line] 250"

definition rp_device_resources :: "json \<Rightarrow> (string \<times> json) list \<Rightarrow> string list \<Rightarrow> int \<Rightarrow> string \<Rightarrow> string \<Rightarrow> json list result" where
  "rp_device_resources multicast devices rps rp_loopback_id rp_address device_id =
     (ebind (jget multicast ''rp_mode'') (\<lambda>mode.
        (if mode \<noteq> JStr ''anycast'' then Inr [rp_loopback_resource rp_loopback_id rp_address]
          else (ebind (mapE (publisher_address devices \<circ> JStr)
                     (filter (\<lambda>p. p \<noteq> device_id \<and> map_of devices p \<noteq> None) rps)) (\<lambda>peers.
             Inr (rp_loopback_resource rp_loopback_id rp_address # map msdp_peer_resource (sort peers)
                        @ (if peers = [] then []
                           else [msdp_global_resource ''cache'' ''ip msdp cache-sa-state'',
                                 msdp_global_resource ''originator'' ''ip msdp originator-id Loopback0''])))))))"

definition underlay_additions :: "json \<Rightarrow> json \<Rightarrow> (string \<times> json) list \<Rightarrow> additions result" where
  "underlay_additions intent multicast devices =
     (ebind (jget_default intent ''fabric'' (JObj [])) (\<lambda>fabric.
        ebind (jget fabric ''multicast'') (\<lambda>raw.
        let fabric_multicast = jor raw (JObj []) in
        ebind (strs_get multicast ''rp_device_ids'') (\<lambda>unsorted.
        let rps = sort unsorted in
        ebind (jget fabric_multicast ''rp_address'') (\<lambda>rp_address.
        ebind (int_get fabric_multicast ''rp_loopback_id'' 60000) (\<lambda>rp_loopback_id.
        ebind (jget_default fabric_multicast ''enabled'' (JBool True)) (\<lambda>enabled.
        (if \<not> truthy enabled \<or> \<not> truthy rp_address then Inr []
          else (ebind (mapE (\<lambda>d. (ebind (rp_device_resources multicast devices rps rp_loopback_id (py_str rp_address) d) (\<lambda>rs.
             Inr (map (\<lambda>r. (d, r)) rs)))) rps) (\<lambda>parts.
             Inr (concat parts)))))))))))"

section \<open>Overlay policies\<close>

definition routing_resource :: "string \<Rightarrow> json" where
  "routing_resource vrf =
     resource (''multicast.overlay.routing:'' @ vrf) ''multicast_routing'' [''ip multicast-routing vrf '' @ vrf]
       [''no ip multicast-routing vrf '' @ vrf]
       (''show running-config | include ^ip multicast-routing vrf '' @ vrf @ ''$'')
       [''ip multicast-routing vrf '' @ vrf] 400"

definition acl_resource :: "string \<Rightarrow> string \<Rightarrow> string list \<Rightarrow> json" where
  "acl_resource vrf acl lines =
     resource (''multicast.overlay.acl:'' @ vrf) ''overlay_acl'' lines [''no ip access-list standard '' @ acl]
       (''show running-config | section ^ip access-list standard '' @ acl @ ''$'') lines 500"

definition policy_resource :: "string \<Rightarrow> string list \<Rightarrow> json" where
  "policy_resource vrf lines =
     resource (''multicast.overlay.policy:'' @ vrf) ''overlay_policy'' lines (map (\<lambda>l. ''no '' @ l) lines)
       (''show running-config | include ^ip pim vrf '' @ vrf @ '' '') lines 600"

definition owned_policy_lines :: "json \<Rightarrow> string \<Rightarrow> string \<Rightarrow> int \<Rightarrow> bool \<Rightarrow> string list result" where
  "owned_policy_lines policy vrf acl i member =
     (ebind (jidx policy ''mode'') (\<lambda>mode.
        (if mode = JStr ''ssm'' then Inr [''ip pim vrf '' @ vrf @ '' ssm range '' @ acl]
          else (ebind (str_at policy ''rp_address'') (\<lambda>rp.
             Inr ((if member then [''ip pim vrf '' @ vrf @ '' register-source Loopback'' @ int_str i] else [])
                        @ [''ip pim vrf '' @ vrf @ '' rp-address '' @ rp @ '' '' @ acl]))))))"

definition participant_resources ::
    "json \<Rightarrow> string \<Rightarrow> string \<Rightarrow> int \<Rightarrow> string list \<Rightarrow> string list \<Rightarrow> string \<Rightarrow> additions result" where
  "participant_resources policy vrf acl i lines members device_id =
     (ebind (owned_policy_lines policy vrf acl i (device_id \<in> set members)) (\<lambda>pl.
        Inr (map (\<lambda>r. (device_id, r)) [routing_resource vrf, acl_resource vrf acl lines, policy_resource vrf pl])))"

definition segment_loopback_resource :: "int \<Rightarrow> string \<Rightarrow> json" where
  "segment_loopback_resource i address =
     (let loopback = ''Loopback'' @ int_str i in
      resource (''multicast.overlay.segment_loopback:'' @ int_str i) ''segment_loopback''
        [''interface '' @ loopback, ''ip address '' @ address @ '' 255.255.255.255''] [''no interface '' @ loopback]
        (''show running-config | section ^interface '' @ loopback @ ''$'') [''interface '' @ loopback] 700)"

definition lisp_interface_resource :: "int \<Rightarrow> string \<Rightarrow> int \<Rightarrow> json" where
  "lisp_interface_resource i start n =
     (let interface = ''LISP0.'' @ int_str i in
      resource (''multicast.overlay.lisp_interface:'' @ int_str i) ''lisp_interface''
        [''interface '' @ interface, ''ip pim lisp transport multicast'',
         ''ip pim lisp core-group-range '' @ start @ '' '' @ int_str n] [''no interface '' @ interface]
        (''show running-config | section ^interface '' @ interface @ ''$'') [''interface '' @ interface] 750)"

definition lisp_mapping_resource :: "int \<Rightarrow> string \<Rightarrow> string \<Rightarrow> json" where
  "lisp_mapping_resource i address locator_name =
     (let mapping = ''database-mapping '' @ address @ ''/32 locator-set '' @ locator_name in
      resource (''multicast.overlay.lisp_mapping:'' @ int_str i) ''lisp_mapping'' [mapping]
        (router_lisp_mapping_remove i mapping) ''show running-config | section ^router lisp'' [mapping] 800)"

definition svi_lines :: "string list" where
  "svi_lines = [''ip pim passive'', ''ip igmp version 3'', ''ip igmp explicit-tracking'']"

definition edge_svi_resource :: "int \<Rightarrow> json" where
  "edge_svi_resource vlan =
     (let v = ''Vlan'' @ int_str vlan in
      resource (''multicast.overlay.edge_svi:'' @ int_str vlan) ''edge_svi'' svi_lines (interface_remove v svi_lines)
        (''show running-config | section ^interface '' @ v @ ''$'') svi_lines 900)"

text \<open>The handoff of a border (\<open>border_handoff\<close>, on its interface) or a fusion node (on the VLAN interface).\<close>

definition handoff_resource :: "string \<Rightarrow> string \<Rightarrow> int \<Rightarrow> string \<Rightarrow> json" where
  "handoff_resource name vrf vlan interface =
     resource (''multicast.overlay.'' @ name @ '':'' @ vrf @ '':'' @ int_str vlan) ''handoff_pim''
       [''ip pim sparse-mode''] (interface_remove interface [''ip pim sparse-mode''])
       (''show running-config | section ^interface '' @ interface @ ''$'') [''ip pim sparse-mode''] 900"

text \<open>The handoff peers of a node in a VRF, by VLAN.\<close>

definition handoff_peers_of :: "json \<Rightarrow> string \<Rightarrow> string \<Rightarrow> string \<Rightarrow> json list result" where
  "handoff_peers_of handoff key i vrf =
     (ebind (items_get handoff ''peers'') (\<lambda>peers.
        ebind (filterE (peer_is key i vrf) peers) (\<lambda>own.
        sort_by (\<lambda>p. int_at p ''vlan_id'') own)))"

definition border_resource :: "string \<Rightarrow> json \<Rightarrow> json result" where
  "border_resource vrf peer =
     (ebind (str_at peer ''interface'') (\<lambda>interface.
        ebind (int_at peer ''vlan_id'') (\<lambda>vlan.
        Inr (handoff_resource ''border_handoff'' vrf vlan interface))))"

definition fusion_resource :: "string \<Rightarrow> json \<Rightarrow> json result" where
  "fusion_resource vrf peer =
     (ebind (int_at peer ''vlan_id'') (\<lambda>vlan.
        Inr (handoff_resource ''fusion_handoff'' vrf vlan (''Vlan'' @ int_str vlan))))"

definition edge_resources :: "(string \<times> json) list \<Rightarrow> string \<Rightarrow> bool \<Rightarrow> json list result" where
  "edge_resources pools vn is_edge =
     (if \<not> is_edge then Inr []
      else (ebind (sort_by (\<lambda>p. int_at p ''vlan_id'') (map snd (filter (\<lambda>p. fst p = vn) pools))) (\<lambda>sorted_pools.
         mapE (\<lambda>p. (ebind (int_at p ''vlan_id'') (\<lambda>vlan.
                  Inr (edge_svi_resource vlan)))) sorted_pools)))"

definition border_resources :: "json \<Rightarrow> string \<Rightarrow> string \<Rightarrow> bool \<Rightarrow> json list result" where
  "border_resources handoff device_id vrf is_border =
     (if \<not> is_border then Inr []
      else (ebind (handoff_peers_of handoff ''device_id'' device_id vrf) (\<lambda>peers.
         mapE (border_resource vrf) peers)))"

definition segment_resources ::
    "json \<Rightarrow> (string \<times> json) list \<Rightarrow> (string \<times> json) list \<Rightarrow> json \<Rightarrow> string \<Rightarrow> string \<Rightarrow> string \<Rightarrow> int
       \<Rightarrow> string \<times> string \<Rightarrow> additions result" where
  "segment_resources handoff nodes pools policy locator_name vrf vn i member =
     (case member of (device_id, address) \<Rightarrow>
        (ebind (jidx policy ''core_group'') (\<lambda>core.
           ebind (str_at core ''start'') (\<lambda>start.
           ebind (int_at core ''count'') (\<lambda>n.
           ebind (of_option (KeyError device_id) (map_of nodes device_id)) (\<lambda>node.
           ebind (items_get node ''roles'') (\<lambda>raw_roles.
           ebind (py_set raw_roles) (\<lambda>roles.
           ebind (edge_resources pools vn (JStr ''fabric_edge'' \<in> set roles)) (\<lambda>edge.
           ebind (border_resources handoff device_id vrf (JStr ''border'' \<in> set roles)) (\<lambda>border.
           Inr (map (\<lambda>r. (device_id, r))
              ([segment_loopback_resource i address, lisp_interface_resource i start n,
                lisp_mapping_resource i address locator_name] @ edge @ border))))))))))))"

definition segment_by_device :: "json \<Rightarrow> (string \<times> json) list result" where
  "segment_by_device policy =
     (ebind (items_get policy ''segment_loopbacks'') (\<lambda>segs.
        foldE (\<lambda>acc s. (ebind (str_at s ''device_id'') (\<lambda>d.
            ebind (str_at s ''address'') (\<lambda>a.
            Inr (set_field d (JStr a) acc))))) [] segs))"

definition fusion_participant :: "string \<Rightarrow> json \<Rightarrow> string list result" where
  "fusion_participant vrf peer =
     (ebind (jget peer ''fusion_node_id'') (\<lambda>f.
        (if \<not> truthy f then Inr []
          else (ebind (jget peer ''vrf'') (\<lambda>v.
             (if py_str v \<noteq> vrf then Inr [] else (ebind (str_at peer ''fusion_node_id'') (\<lambda>i.
                      Inr [i]))))))))"

definition fusion_additions :: "json \<Rightarrow> string \<Rightarrow> string \<Rightarrow> additions result" where
  "fusion_additions handoff vrf fusion_id =
     (ebind (handoff_peers_of handoff ''fusion_node_id'' fusion_id vrf) (\<lambda>peers.
        ebind (mapE (fusion_resource vrf) peers) (\<lambda>rs.
        Inr (map (\<lambda>r. (fusion_id, r)) rs))))"

definition policy_additions ::
    "json \<Rightarrow> (string \<times> json) list \<Rightarrow> (string \<times> json) list \<Rightarrow> string \<Rightarrow> json \<Rightarrow> additions result" where
  "policy_additions handoff nodes pools locator_name policy =
     (ebind (str_at policy ''vrf'') (\<lambda>vrf.
        ebind (str_at policy ''virtual_network'') (\<lambda>vn.
        ebind (int_at policy ''l3_instance_id'') (\<lambda>i.
        ebind (str_at policy ''access_list'') (\<lambda>acl.
        ebind (str_at policy ''group_range'') (\<lambda>range.
        ebind (acl_lines acl range) (\<lambda>lines.
        ebind (segment_by_device policy) (\<lambda>segments.
        ebind (items_get handoff ''peers'') (\<lambda>peers.
        ebind (mapE (fusion_participant vrf) peers) (\<lambda>participating.
        let fusions = sorted_set (concat participating) in
        let members = map fst segments in
        ebind (mapE (participant_resources policy vrf acl i lines members) (sorted_set (members @ fusions))) (\<lambda>shared.
        ebind (mapE (segment_resources handoff nodes pools policy locator_name vrf vn i)
           (map (\<lambda>(d, a). (d, py_str a)) (sort_key fst segments))) (\<lambda>segment.
        ebind (mapE (fusion_additions handoff vrf) fusions) (\<lambda>fusion.
        Inr (concat shared @ concat segment @ concat fusion))))))))))))))"

section \<open>Broadcast, unknown unicast, multicast\<close>

definition bum_resource :: "int \<Rightarrow> string \<Rightarrow> json" where
  "bum_resource l2_instance_id bum_group =
     (let line = ''broadcast-underlay '' @ bum_group in
      resource (''multicast.overlay.bum:'' @ int_str l2_instance_id) ''l2_bum'' [line]
        (router_lisp_bum_remove l2_instance_id bum_group) ''show running-config | section ^router lisp'' [line] 850)"

definition is_edge_device :: "json \<Rightarrow> bool result" where
  "is_edge_device device =
     (ebind (items_get device ''roles'') (\<lambda>raw_roles.
        ebind (py_set raw_roles) (\<lambda>roles.
        Inr (JStr ''fabric_edge'' \<in> set roles))))"

text \<open>\<open>sorted(str(item["id"]) for item in ... if ...)\<close>: test and identifier of one device before the next.\<close>

definition edge_id :: "json \<Rightarrow> string list result" where
  "edge_id device = (ebind (is_edge_device device) (\<lambda>e.
     (if e then (ebind (str_at device ''id'') (\<lambda>i.
     Inr [i])) else Inr [])))"

definition pool_bum :: "(string \<times> json) list \<Rightarrow> string list \<Rightarrow> json \<Rightarrow> additions result" where
  "pool_bum groups edges pool =
     (ebind (str_at pool ''id'') (\<lambda>i.
        (case map_of groups i of
            None \<Rightarrow> Inr []
          | Some g \<Rightarrow>
              (if \<not> truthy g then Inr []
               else (ebind (int_at pool ''l2_instance_id'') (\<lambda>l2.
                  Inr (map (\<lambda>d. (d, bum_resource l2 (py_str g))) edges)))))))"

definition bum_additions :: "json \<Rightarrow> json \<Rightarrow> additions result" where
  "bum_additions intent multicast =
     (ebind (items_get multicast ''l2_bum_groups'') (\<lambda>raw.
        ebind (foldE (\<lambda>acc g. (ebind (str_at g ''endpoint_pool_id'') (\<lambda>p.
            ebind (str_at g ''group'') (\<lambda>a.
            Inr (set_field p (JStr a) acc))))) [] raw) (\<lambda>groups.
        ebind (items_get intent ''devices'') (\<lambda>devices.
        ebind (mapE edge_id devices) (\<lambda>ids.
        ebind (items_get intent ''endpoint_pools'') (\<lambda>raw_pools.
        ebind (sort_by (\<lambda>p. int_at p ''vlan_id'') raw_pools) (\<lambda>pools.
        ebind (mapE (pool_bum groups (sort (concat ids))) pools) (\<lambda>parts.
        Inr (concat parts)))))))))"

section \<open>The manifest\<close>

definition multicast_applies :: "json \<Rightarrow> json \<Rightarrow> bool result" where
  "multicast_applies intent multicast =
     (ebind (jget intent ''schema_version'') (\<lambda>version.
        (if py_str version \<noteq> ''1.2'' then Inr False
          else (ebind (jget multicast ''enabled'') (\<lambda>enabled.
             ebind (jget multicast ''transport'') (\<lambda>transport.
             Inr (truthy enabled \<and> transport = JStr ''native'')))))))"

text \<open>\<open>{**item, "roles": ["fusion"]}\<close> under the node's identifier; a later node of the same name replaces an earlier one.\<close>

definition fusion_node :: "json \<Rightarrow> (string \<times> json) result" where
  "fusion_node item =
     (ebind (str_at item ''id'') (\<lambda>i.
        ebind (Json.fields item) (\<lambda>kvs.
        Inr (i, JObj (set_field ''roles'' (jstrs [''fusion'']) kvs)))))"

definition all_nodes :: "json \<Rightarrow> ((string \<times> json) list \<times> (string \<times> json) list) result" where
  "all_nodes intent =
     (ebind (items_get intent ''devices'') (\<lambda>ds.
        ebind (by_device_id ds) (\<lambda>devices.
        ebind (items_get intent ''fusion_nodes'') (\<lambda>fs.
        ebind (mapE fusion_node fs) (\<lambda>fusions.
        Inr (devices, foldl (\<lambda>acc (k, v). set_field k v acc) devices fusions))))))"

definition multicast_additions :: "json \<Rightarrow> json \<Rightarrow> (additions \<times> (string \<times> json) list) result" where
  "multicast_additions intent multicast =
     (ebind (all_nodes intent) (\<lambda>(devices, nodes).
        ebind (underlay_additions intent multicast devices) (\<lambda>underlay.
        ebind (items_get intent ''endpoint_pools'') (\<lambda>raw_pools.
        ebind (mapE (\<lambda>p. (ebind (str_at p ''virtual_network'') (\<lambda>vn.
            Inr (vn, p)))) raw_pools) (\<lambda>pools.
        ebind (section_of intent ''border_handoff'') (\<lambda>handoff.
        ebind (section_of intent ''lisp'') (\<lambda>lisp.
        ebind (str_get lisp ''locator_set'' ''rloc_fabric'') (\<lambda>locator_name.
        ebind (overlay_policies multicast) (\<lambda>policies.
        ebind (mapE (policy_additions handoff nodes pools locator_name) policies) (\<lambda>parts.
        ebind (bum_additions intent multicast) (\<lambda>bum.
        Inr (underlay @ concat parts @ bum, nodes))))))))))))"

definition resource_key :: "json \<Rightarrow> string result" where
  "resource_key item = str_at item ''key''"

definition owned_descriptor :: "json \<Rightarrow> json result" where
  "owned_descriptor node =
     (ebind (Json.fields node) (\<lambda>kvs.
        ebind (items_get node ''roles'') (\<lambda>raw.
        ebind (py_set raw) (\<lambda>roles.
        ebind (py_sorted (remdups roles)) (\<lambda>ordered.
        Inr (JObj (set_field ''roles'' (JArr ordered) kvs)))))))"

definition owned_device :: "(string \<times> json) list \<Rightarrow> additions \<Rightarrow> string \<Rightarrow> (string \<times> json) result" where
  "owned_device nodes adds device_id =
     (ebind (sort_by resource_key (map snd (filter (\<lambda>a. fst a = device_id) adds))) (\<lambda>ordered.
        ebind (mapE resource_key ordered) (\<lambda>keys.
        ebind (raise_if (\<not> distinct keys) (rec_err (''Duplicate owned multicast resource key on '' @ device_id))) (\<lambda>_.
        ebind (of_option (KeyError device_id) (map_of nodes device_id)) (\<lambda>node.
        ebind (owned_descriptor node) (\<lambda>descriptor.
        Inr (device_id, JObj [(''device'', descriptor), (''resources'', JArr ordered)])))))))"

definition owned_manifest :: "string \<Rightarrow> json \<Rightarrow> (string \<times> json) list \<Rightarrow> json" where
  "owned_manifest fabric_id intent devices =
     (let body = [(''owned_state_schema_version'', JStr ''1.0''), (''scope'', JStr ''multicast''),
                  (''fabric_id'', JStr fabric_id), (''intent_hash'', JStr (sha256_json intent)),
                  (''devices'', JObj devices)]
      in JObj (body @ [(''manifest_hash'', JStr (sha256_json (JObj body)))]))"

definition build_multicast_owned_state :: "json \<Rightarrow> json result" where
  "build_multicast_owned_state intent =
     (ebind (jidx intent ''fabric'') (\<lambda>fabric.
        ebind (str_at fabric ''id'') (\<lambda>fabric_id.
        ebind (section_of intent ''multicast'') (\<lambda>multicast.
        ebind (multicast_applies intent multicast) (\<lambda>applies.
        ebind ((if applies then multicast_additions intent multicast else Inr ([], []))) (\<lambda>(adds, nodes).
        ebind (mapE (owned_device nodes adds) (sorted_set (map fst adds))) (\<lambda>devices.
        Inr (owned_manifest fabric_id intent devices))))))))"

end
