(* ===== verification/OwnedLaws.thy ===== *)
theory OwnedLaws
  imports OwnedState ReconcileSpec GateLaws
begin

text \<open>
  What the manifest of a candidate holds: each resource is one of the twelve kinds, made from
  values that the intent states (\<open>emitted\<close>). From this follow the shape of every resource and,
  when the names and addresses of the intent use the characters of the allowed patterns, that
  the manifest passes its own validation.
\<close>

section \<open>What a resource is made from\<close>

definition members :: "json \<Rightarrow> string \<Rightarrow> json set" where
  "members v k = {x. \<exists>xs. items_get v k = Inr xs \<and> x \<in> set xs}"

definition policies_of :: "json \<Rightarrow> json set" where
  "policies_of intent = members (jor (field intent ''multicast'') (JObj [])) ''overlay_policies''"

definition peers_in :: "json \<Rightarrow> json set" where
  "peers_in intent = members (jor (field intent ''border_handoff'') (JObj [])) ''peers''"

definition fabric_multicast :: "json \<Rightarrow> json" where
  "fabric_multicast intent = jor (field (field intent ''fabric'') ''multicast'') (JObj [])"

inductive emitted :: "json \<Rightarrow> json \<Rightarrow> bool" for intent where
  rp_loopback: "int_get (fabric_multicast intent) ''rp_loopback_id'' 60000 = Inr i \<Longrightarrow>
    emitted intent (rp_loopback_resource i (py_str (field (fabric_multicast intent) ''rp_address'')))"
| msdp_peer: "d \<in> members intent ''devices'' \<Longrightarrow> str_at d ''loopback0_ip'' = Inr a \<Longrightarrow> emitted intent (msdp_peer_resource a)"
| msdp_cache: "emitted intent (msdp_global_resource ''cache'' ''ip msdp cache-sa-state'')"
| msdp_originator: "emitted intent (msdp_global_resource ''originator'' ''ip msdp originator-id Loopback0'')"
| routing: "p \<in> policies_of intent \<Longrightarrow> str_at p ''vrf'' = Inr vrf \<Longrightarrow> emitted intent (routing_resource vrf)"
| acl: "p \<in> policies_of intent \<Longrightarrow> str_at p ''vrf'' = Inr vrf \<Longrightarrow> str_at p ''access_list'' = Inr name \<Longrightarrow>
    str_at p ''group_range'' = Inr r \<Longrightarrow> acl_lines name r = Inr lines \<Longrightarrow> emitted intent (acl_resource vrf name lines)"
| policy: "p \<in> policies_of intent \<Longrightarrow> str_at p ''vrf'' = Inr vrf \<Longrightarrow> str_at p ''access_list'' = Inr name \<Longrightarrow>
    int_at p ''l3_instance_id'' = Inr i \<Longrightarrow> owned_policy_lines p vrf name i member = Inr lines \<Longrightarrow>
    emitted intent (policy_resource vrf lines)"
| segment_loopback: "p \<in> policies_of intent \<Longrightarrow> int_at p ''l3_instance_id'' = Inr i \<Longrightarrow>
    s \<in> members p ''segment_loopbacks'' \<Longrightarrow> str_at s ''address'' = Inr a \<Longrightarrow> emitted intent (segment_loopback_resource i a)"
| lisp_interface: "p \<in> policies_of intent \<Longrightarrow> int_at p ''l3_instance_id'' = Inr i \<Longrightarrow>
    str_at (field p ''core_group'') ''start'' = Inr start \<Longrightarrow> int_at (field p ''core_group'') ''count'' = Inr n \<Longrightarrow>
    emitted intent (lisp_interface_resource i start n)"
| lisp_mapping: "p \<in> policies_of intent \<Longrightarrow> int_at p ''l3_instance_id'' = Inr i \<Longrightarrow>
    s \<in> members p ''segment_loopbacks'' \<Longrightarrow> str_at s ''address'' = Inr a \<Longrightarrow>
    str_get (jor (field intent ''lisp'') (JObj [])) ''locator_set'' ''rloc_fabric'' = Inr loc \<Longrightarrow>
    emitted intent (lisp_mapping_resource i a loc)"
| edge_svi: "pool \<in> members intent ''endpoint_pools'' \<Longrightarrow> int_at pool ''vlan_id'' = Inr vlan \<Longrightarrow>
    emitted intent (edge_svi_resource vlan)"
| border: "p \<in> policies_of intent \<Longrightarrow> str_at p ''vrf'' = Inr vrf \<Longrightarrow> peer \<in> peers_in intent \<Longrightarrow>
    str_at peer ''interface'' = Inr ifc \<Longrightarrow> int_at peer ''vlan_id'' = Inr vlan \<Longrightarrow>
    emitted intent (handoff_resource ''border_handoff'' vrf vlan ifc)"
| fusion: "p \<in> policies_of intent \<Longrightarrow> str_at p ''vrf'' = Inr vrf \<Longrightarrow> peer \<in> peers_in intent \<Longrightarrow>
    int_at peer ''vlan_id'' = Inr vlan \<Longrightarrow>
    emitted intent (handoff_resource ''fusion_handoff'' vrf vlan (''Vlan'' @ int_str vlan))"
| bum: "pool \<in> members intent ''endpoint_pools'' \<Longrightarrow> int_at pool ''l2_instance_id'' = Inr i \<Longrightarrow>
    g \<in> members (jor (field intent ''multicast'') (JObj [])) ''l2_bum_groups'' \<Longrightarrow> str_at g ''group'' = Inr a \<Longrightarrow>
    emitted intent (bum_resource i a)"

lemma filterE_Inr_set: "filterE p xs = Inr ys \<Longrightarrow> set ys \<subseteq> set xs"
  unfolding filterE_def by (auto simp: res dest!: mapE_Inr_set)

lemma jidx_field: "jidx v k = Inr x \<Longrightarrow> x = field v k"
  by (cases v) (auto simp: field_def res)

lemma membersI: "items_get v k = Inr xs \<Longrightarrow> x \<in> set xs \<Longrightarrow> x \<in> members v k"
  by (auto simp: members_def)

abbreviation additions_emitted :: "json \<Rightarrow> additions \<Rightarrow> bool" where
  "additions_emitted intent adds \<equiv> \<forall>a \<in> set adds. emitted intent (snd a)"

lemma by_device_id_members:
  "foldE (\<lambda>ds d. ebind (str_at d ''id'') (\<lambda>i. Inr (set_field i d ds))) acc ds = Inr known \<Longrightarrow>
     map_of known i = Some d \<Longrightarrow> d \<in> set ds \<or> map_of acc i = Some d"
proof (induction ds arbitrary: acc)
  case (Cons x xs)
  then obtain j where "str_at x ''id'' = Inr j"
    "foldE (\<lambda>ds d. ebind (str_at d ''id'') (\<lambda>i. Inr (set_field i d ds))) (set_field j x acc) xs = Inr known"
    by (auto simp: res)
  with Cons.IH [OF this(2) Cons.prems(2)] show ?case by (auto simp: map_of_set_field split: if_splits)
qed simp

text \<open>A loop that puts a text per item into a dict: each value comes from an item.\<close>

lemma dict_fold_members:
  "foldE (\<lambda>acc s. ebind (str_at s k) (\<lambda>d. ebind (str_at s l) (\<lambda>a. Inr (set_field d (JStr a) acc)))) acc xs = Inr out \<Longrightarrow>
     (d, v) \<in> set out \<Longrightarrow> (d, v) \<in> set acc \<or> (\<exists>s \<in> set xs. \<exists>a. str_at s l = Inr a \<and> v = JStr a)"
proof (induction xs arbitrary: acc)
  case (Cons x xs)
  then obtain e a where e: "str_at x l = Inr a"
    "foldE (\<lambda>acc s. ebind (str_at s k) (\<lambda>d. ebind (str_at s l) (\<lambda>a. Inr (set_field d (JStr a) acc)))) (set_field e (JStr a) acc) xs = Inr out"
    by (auto simp: res)
  have "set (set_field e w kvs) \<subseteq> insert (e, w) (set kvs)" for w kvs
    by (induction e w kvs rule: set_field.induct) auto
  with Cons.IH [OF e(2) Cons.prems(2)] e(1) show ?case by fastforce
qed simp

section \<open>The parts of the builder\<close>

lemma underlay_additions_emitted:
  assumes "underlay_additions intent multicast devices = Inr adds"
    and "\<And>i d. map_of devices i = Some d \<Longrightarrow> d \<in> members intent ''devices''"
  shows "additions_emitted intent adds"
proof -
  from assms(1) obtain fabric raw unsorted rp i enabled where
    f: "jget_default intent ''fabric'' (JObj []) = Inr fabric" "jget fabric ''multicast'' = Inr raw"
      "jget (jor raw (JObj [])) ''rp_address'' = Inr rp" "int_get (jor raw (JObj [])) ''rp_loopback_id'' 60000 = Inr i"
    and last: "(if \<not> truthy enabled \<or> \<not> truthy rp then Inr []
       else ebind (mapE (\<lambda>d. ebind (rp_device_resources multicast devices (sort unsorted) i (py_str rp) d)
           (\<lambda>rs. Inr (map (\<lambda>r. (d, r)) rs))) (sort unsorted)) (\<lambda>parts. Inr (concat parts))) = Inr adds"
    unfolding underlay_additions_def Let_def by - (elim ebind_InrE, rule that, assumption+)
  consider "adds = []" | parts where "adds = concat parts"
      "mapE (\<lambda>d. ebind (rp_device_resources multicast devices (sort unsorted) i (py_str rp) d)
           (\<lambda>rs. Inr (map (\<lambda>r. (d, r)) rs))) (sort unsorted) = Inr parts"
    using last by (cases "\<not> truthy enabled \<or> \<not> truthy rp") (auto simp: ebind_Inr)
  note parts = this
  have fm: "fabric_multicast intent = jor raw (JObj [])"
    using f(1,2) jget_field [OF f(2)]
    by (cases intent) (auto simp: fabric_multicast_def jget_default_def field_def jget_def split: option.splits)
  have rp: "rp = field (fabric_multicast intent) ''rp_address''" using jget_field [OF f(3)] by (simp add: fm)
  have loop: "emitted intent (rp_loopback_resource i (py_str rp))"
    using emitted.rp_loopback [of intent i] f(4) by (simp add: fm rp)
  have peers: "a \<in> set peers \<Longrightarrow> emitted intent (msdp_peer_resource a)"
    if "mapE (publisher_address devices \<circ> JStr) ps = Inr peers" for ps peers a
    using that mapE_Inr_set [OF that, of a] assms(2)
    by (fastforce simp: publisher_address_def res intro: emitted.msdp_peer)
  have rs: "\<forall>r \<in> set rs. emitted intent r" if "rp_device_resources multicast devices rps i (py_str rp) d = Inr rs" for d rs rps
    using that loop peers unfolding rp_device_resources_def
    by (auto simp: res split: if_splits intro: emitted.msdp_cache emitted.msdp_originator)
  show ?thesis
  proof (cases rule: parts)
    case (2 parts)
    show ?thesis unfolding 2(1)
      by (rule concat_mapE [OF 2(2)]) (elim ebind_InrE, drule rs, auto)
  qed simp
qed

lemma participant_emitted:
  assumes "participant_resources policy vrf name i lines mem d = Inr adds"
    and "policy \<in> policies_of intent" "str_at policy ''vrf'' = Inr vrf" "int_at policy ''l3_instance_id'' = Inr i"
      "str_at policy ''access_list'' = Inr name" "str_at policy ''group_range'' = Inr r" "acl_lines name r = Inr lines"
  shows "additions_emitted intent adds"
  using assms unfolding participant_resources_def
  by (auto simp: ebind_Inr intro: emitted.routing emitted.acl emitted.policy)

lemma edge_resources_emitted:
  assumes "edge_resources pools vn e = Inr rs" and "\<forall>p \<in> set pools. snd p \<in> members intent ''endpoint_pools''"
  shows "\<forall>r \<in> set rs. emitted intent r"
  using assms unfolding edge_resources_def
  by (fastforce simp: ebind_Inr split: if_splits dest: mapE_Inr_set sort_by_Inr_set intro: emitted.edge_svi)

lemma handoff_peers_of_members: "handoff_peers_of handoff k i vrf = Inr ps \<Longrightarrow> set ps \<subseteq> members handoff ''peers''"
  unfolding handoff_peers_of_def
  by (auto simp: ebind_Inr intro: membersI dest!: sort_by_Inr_set filterE_Inr_set)

lemma border_resources_emitted:
  assumes "border_resources (jor (field intent ''border_handoff'') (JObj [])) d vrf b = Inr rs"
    and "policy \<in> policies_of intent" "str_at policy ''vrf'' = Inr vrf"
  shows "\<forall>r \<in> set rs. emitted intent r"
  using assms(1) unfolding border_resources_def
proof (split if_splits, simp, elim conjE ebind_InrE)
  fix ps assume "handoff_peers_of (jor (field intent ''border_handoff'') (JObj [])) ''device_id'' d vrf = Inr ps"
    and m: "mapE (border_resource vrf) ps = Inr rs"
  then have "set ps \<subseteq> peers_in intent" unfolding peers_in_def by (intro handoff_peers_of_members)
  with m show ?thesis using assms(2,3)
    by (fastforce simp: border_resource_def ebind_Inr dest: mapE_Inr_set intro: emitted.border)
qed

lemma fusion_additions_emitted:
  assumes "fusion_additions (jor (field intent ''border_handoff'') (JObj [])) vrf d = Inr adds"
    and "policy \<in> policies_of intent" "str_at policy ''vrf'' = Inr vrf"
  shows "additions_emitted intent adds"
proof -
  from assms(1) obtain ps rs where "handoff_peers_of (jor (field intent ''border_handoff'') (JObj [])) ''fusion_node_id'' d vrf = Inr ps"
    and m: "mapE (fusion_resource vrf) ps = Inr rs" and a: "adds = map (\<lambda>r. (d, r)) rs"
    unfolding fusion_additions_def by (elim ebind_InrE) auto
  then have "set ps \<subseteq> peers_in intent" unfolding peers_in_def by (intro handoff_peers_of_members)
  then have p: "p \<in> set ps \<Longrightarrow> fusion_resource vrf p = Inr r \<Longrightarrow> emitted intent r" for p r
    by (auto simp: fusion_resource_def ebind_Inr simp del: append.simps intro!: emitted.fusion [OF assms(2,3)])
  have "\<forall>r \<in> set rs. emitted intent r" by (rule each_mapE [OF m]) (rule p)
  then show ?thesis unfolding a by simp
qed

lemma segment_resources_emitted:
  assumes "segment_resources (jor (field intent ''border_handoff'') (JObj [])) nodes pools policy loc vrf vn i (d, a) = Inr adds"
    and "policy \<in> policies_of intent" "str_at policy ''vrf'' = Inr vrf" "int_at policy ''l3_instance_id'' = Inr i"
    and "s \<in> members policy ''segment_loopbacks''" "str_at s ''address'' = Inr a"
    and "str_get (jor (field intent ''lisp'') (JObj [])) ''locator_set'' ''rloc_fabric'' = Inr loc"
    and "\<forall>p \<in> set pools. snd p \<in> members intent ''endpoint_pools''"
  shows "additions_emitted intent adds"
proof -
  from assms(1) obtain core start n e b edge border where
    c: "jidx policy ''core_group'' = Inr core" "str_at core ''start'' = Inr start" "int_at core ''count'' = Inr n"
      "edge_resources pools vn e = Inr edge"
      "border_resources (jor (field intent ''border_handoff'') (JObj [])) d vrf b = Inr border"
    and adds: "adds = map (\<lambda>r. (d, r)) ([segment_loopback_resource i a, lisp_interface_resource i start n,
                lisp_mapping_resource i a loc] @ edge @ border)"
    unfolding segment_resources_def prod.case
    by - (elim ebind_InrE, rule that, assumption+, drule Inr_inject, erule sym)
  have "emitted intent (lisp_interface_resource i start n)"
    using emitted.lisp_interface [OF assms(2,4)] c(1-3) jidx_field [OF c(1)] by simp
  then show ?thesis
    using edge_resources_emitted [OF c(4) assms(8)] border_resources_emitted [OF c(5) assms(2,3)]
      emitted.segment_loopback [OF assms(2,4,5,6)] emitted.lisp_mapping [OF assms(2,4,5,6,7)]
    unfolding adds by auto
qed

lemma policy_additions_emitted:
  assumes "policy_additions (jor (field intent ''border_handoff'') (JObj [])) nodes pools loc policy = Inr adds"
    and p: "policy \<in> policies_of intent"
    and loc: "str_get (jor (field intent ''lisp'') (JObj [])) ''locator_set'' ''rloc_fabric'' = Inr loc"
    and pools: "\<forall>p \<in> set pools. snd p \<in> members intent ''endpoint_pools''"
  shows "additions_emitted intent adds"
proof -
  from assms(1) obtain vrf vn i name r lines segments peers participating shared segment fusion where
    v: "str_at policy ''vrf'' = Inr vrf" "int_at policy ''l3_instance_id'' = Inr i" "str_at policy ''access_list'' = Inr name"
      "str_at policy ''group_range'' = Inr r" "acl_lines name r = Inr lines" "segment_by_device policy = Inr segments"
    and m: "mapE (participant_resources policy vrf name i lines (map fst segments))
          (sorted_set (map fst segments @ sorted_set (concat participating))) = Inr shared"
      "mapE (segment_resources (jor (field intent ''border_handoff'') (JObj [])) nodes pools policy loc vrf vn i)
          (map (\<lambda>(d, a). (d, py_str a)) (sort_key fst segments)) = Inr segment"
      "mapE (fusion_additions (jor (field intent ''border_handoff'') (JObj [])) vrf) (sorted_set (concat participating)) = Inr fusion"
    and adds: "adds = concat shared @ concat segment @ concat fusion"
    unfolding policy_additions_def Let_def
    by - (elim ebind_InrE, rule that, assumption+, drule Inr_inject, erule sym)
  have "additions_emitted intent (concat shared)"
    by (rule concat_mapE [OF m(1)]) (rule participant_emitted [OF _ p v(1,2,3,4,5)])
  moreover have "additions_emitted intent (concat fusion)"
    by (rule concat_mapE [OF m(3)]) (rule fusion_additions_emitted [OF _ p v(1)])
  moreover have "additions_emitted intent (concat segment)"
  proof (rule concat_mapE [OF m(2)])
    fix x ys
    assume "x \<in> set (map (\<lambda>(d, a). (d, py_str a)) (sort_key fst segments))"
      and y: "segment_resources (jor (field intent ''border_handoff'') (JObj [])) nodes pools policy loc vrf vn i x = Inr ys"
    then obtain d w where w: "(d, w) \<in> set segments" "x = (d, py_str w)" by auto
    from v(6) obtain segs where segs: "items_get policy ''segment_loopbacks'' = Inr segs"
      "foldE (\<lambda>acc s. ebind (str_at s ''device_id'') (\<lambda>d. ebind (str_at s ''address'') (\<lambda>a. Inr (set_field d (JStr a) acc)))) [] segs = Inr segments"
      by (auto simp: segment_by_device_def ebind_Inr)
    from dict_fold_members [OF segs(2) w(1)] obtain s a where "s \<in> set segs" "str_at s ''address'' = Inr a" "w = JStr a"
      by auto
    with segment_resources_emitted [OF _ p v(1,2) membersI [OF segs(1)] _ loc pools] y w(2)
    show "additions_emitted intent ys" by simp
  qed
  ultimately show ?thesis unfolding adds by auto
qed

lemma bum_additions_emitted:
  assumes "bum_additions intent (jor (field intent ''multicast'') (JObj [])) = Inr adds"
  shows "additions_emitted intent adds"
proof -
  from assms obtain raw groups ids raw_pools pools parts where
    raw: "items_get (jor (field intent ''multicast'') (JObj [])) ''l2_bum_groups'' = Inr raw"
      "foldE (\<lambda>acc g. ebind (str_at g ''endpoint_pool_id'') (\<lambda>p. ebind (str_at g ''group'') (\<lambda>a. Inr (set_field p (JStr a) acc)))) [] raw = Inr groups"
      "items_get intent ''endpoint_pools'' = Inr raw_pools" "sort_by (\<lambda>p. int_at p ''vlan_id'') raw_pools = Inr pools"
      "mapE (pool_bum groups (sort (concat ids))) pools = Inr parts" and adds: "adds = concat parts"
    unfolding bum_additions_def
    by - (elim ebind_InrE, rule that, assumption+, drule Inr_inject, erule sym)
  show ?thesis unfolding adds
  proof (rule concat_mapE [OF raw(5)])
    fix pool ys
    assume pool: "pool \<in> set pools" and y: "pool_bum groups (sort (concat ids)) pool = Inr ys"
    then have mem: "pool \<in> members intent ''endpoint_pools''" using sort_by_Inr_set [OF raw(4)] membersI [OF raw(3)] by simp
    show "additions_emitted intent ys"
    proof (cases "ys = []")
      case False
      with y obtain k g i where g: "map_of groups k = Some g" "int_at pool ''l2_instance_id'' = Inr i"
        "ys = map (\<lambda>d. (d, bum_resource i (py_str g))) (sort (concat ids))"
        by (cases "str_at pool ''id''")
          (auto simp: pool_bum_def ebind_Inr split: option.splits if_splits)
      from dict_fold_members [OF raw(2) map_of_SomeD [OF g(1)]] obtain x a where
        "x \<in> set raw" "str_at x ''group'' = Inr a" "g = JStr a" by auto
      with emitted.bum [OF mem g(2) membersI [OF raw(1)]] show ?thesis unfolding g(3) by simp
    qed simp
  qed
qed

lemma multicast_additions_emitted:
  assumes "multicast_additions intent (jor (field intent ''multicast'') (JObj [])) = Inr (adds, nodes)"
  shows "additions_emitted intent adds"
proof -
  from assms obtain devices underlay raw_pools pools handoff lisp loc policies parts bum where
    d: "all_nodes intent = Inr (devices, nodes)"
    and u: "underlay_additions intent (jor (field intent ''multicast'') (JObj [])) devices = Inr underlay"
    and pools: "items_get intent ''endpoint_pools'' = Inr raw_pools"
      "mapE (\<lambda>p. ebind (str_at p ''virtual_network'') (\<lambda>vn. Inr (vn, p))) raw_pools = Inr pools"
    and sec: "section_of intent ''border_handoff'' = Inr handoff" "section_of intent ''lisp'' = Inr lisp"
      "str_get lisp ''locator_set'' ''rloc_fabric'' = Inr loc"
    and pol: "overlay_policies (jor (field intent ''multicast'') (JObj [])) = Inr policies"
      "mapE (policy_additions handoff nodes pools loc) policies = Inr parts"
    and bum: "bum_additions intent (jor (field intent ''multicast'') (JObj [])) = Inr bum"
    and adds: "adds = underlay @ concat parts @ bum"
    unfolding multicast_additions_def by (auto simp: ebind_Inr)
  from d obtain ds where ds: "items_get intent ''devices'' = Inr ds"
    "foldE (\<lambda>ds d. ebind (str_at d ''id'') (\<lambda>i. Inr (set_field i d ds))) [] ds = Inr devices"
    by (auto simp: all_nodes_def by_device_id_def ebind_Inr)
  have dev: "map_of devices i = Some x \<Longrightarrow> x \<in> members intent ''devices''" for i x
    using by_device_id_members [OF ds(2)] membersI [OF ds(1)] by fastforce
  have "\<forall>p \<in> set pools. snd p \<in> members intent ''endpoint_pools''"
    using mapE_Inr_set [OF pools(2)] membersI [OF pools(1)] by (fastforce simp: ebind_Inr)
  moreover have "set policies \<subseteq> policies_of intent"
    using pol(1) unfolding overlay_policies_def policies_of_def
    by (auto simp: ebind_Inr intro: membersI dest!: sort_by_Inr_set)
  ultimately have "additions_emitted intent (concat parts)"
    using section_of_field [OF sec(1)] section_of_field [OF sec(2)] sec(3)
    by (intro concat_mapE [OF pol(2)] policy_additions_emitted) auto
  moreover have "additions_emitted intent underlay" by (rule underlay_additions_emitted [OF u]) (rule dev)
  ultimately show ?thesis using bum_additions_emitted [OF bum] unfolding adds by auto
qed

end
