(* ===== verification/OwnedValid.thy ===== *)
theory OwnedValid
  imports OwnedLaws
begin

text \<open>
  The resources of a candidate manifest pass \<open>validate_resource\<close>: their commands match the
  allowed patterns as soon as the names, addresses and numbers of the intent use the characters
  of those patterns.
\<close>

section \<open>Characters\<close>

text \<open>The characters of show commands; none of them breaks a line or opens a secret placeholder.\<close>

definition plain :: "char \<Rightarrow> bool" where
  "plain = in_class '' ._:/|^$-''"

text \<open>A nonempty text of one class: names, addresses, locator sets, numbers.\<close>

definition text_in :: "(char \<Rightarrow> bool) \<Rightarrow> string \<Rightarrow> bool" where
  "text_in c s \<longleftrightarrow> s \<noteq> [] \<and> list_all c s"

abbreviation name_text :: "string \<Rightarrow> bool" where "name_text \<equiv> text_in name_class"
abbreviation addr_text :: "string \<Rightarrow> bool" where "addr_text \<equiv> text_in addr_class"
abbreviation locator_text :: "string \<Rightarrow> bool" where "locator_text \<equiv> text_in (in_class ''_.:/-'')"

fun interface_text :: "string \<Rightarrow> bool" where
  "interface_text [] = False"
| "interface_text (c # s) = ((is_upper c \<or> is_lower c) \<and> list_all (in_class ''./-'') s)"

named_theorems plains

lemma class_mono: "list_all (in_class ex) s \<Longrightarrow> set ex \<subseteq> set ex' \<Longrightarrow> list_all (in_class ex') s"
  by (auto simp: list_all_iff in_class_def)

lemma class_addr: "list_all addr_class s \<Longrightarrow> CHR ''.'' \<in> set ex \<Longrightarrow> list_all (in_class ex) s"
  by (auto simp: list_all_iff in_class_def addr_class_def is_alnum_def)

lemma class_digit: "list_all is_digit s \<Longrightarrow> list_all (in_class ex) s"
  by (auto simp: list_all_iff in_class_def is_alnum_def)

lemma class_int: "CHR ''-'' \<in> set ex \<Longrightarrow> list_all (in_class ex) (int_str i)"
  using class_digit [OF nat_str_digits] by (simp add: int_str_def in_class_def)

lemma plain_addr [plains]: "list_all addr_class s \<Longrightarrow> list_all plain s"
  unfolding plain_def by (rule class_addr) auto

lemma plain_texts [plains]:
  "name_text s \<Longrightarrow> list_all plain s" "addr_text s \<Longrightarrow> list_all plain s" "locator_text s \<Longrightarrow> list_all plain s"
  unfolding plain_def name_class_def text_in_def by (auto intro: class_mono class_addr)

lemma plain_interface [plains]: "interface_text s \<Longrightarrow> list_all plain s"
proof (cases s)
  case (Cons c t)
  assume "interface_text s"
  with Cons have "is_alnum c" "list_all (in_class ''./-'') t" by (auto simp: is_alnum_def)
  with class_mono [of "''./-''" t "'' ._:/|^$-''"] show ?thesis unfolding Cons plain_def by (auto simp: in_class_def)
qed simp

lemma plain_int [plains]: "list_all plain (int_str i)"
  unfolding plain_def by (rule class_int) simp

lemma name_addr: "addr_text s \<Longrightarrow> list_all name_class s"
  unfolding name_class_def text_in_def by (auto intro: class_addr)

lemma name_int: "list_all name_class (int_str i)"
  unfolding name_class_def by (rule class_int) simp

lemma digits_int: "0 \<le> i \<Longrightarrow> text_in is_digit (int_str i)"
  by (simp add: int_str_nonneg nat_str_digits text_in_def)

lemmas char_defs = in_class_def is_alnum_def is_upper_def is_lower_def is_digit_def

lemma plain_safe:
  assumes "list_all plain s"
  shows "\<not> has_break s" and "\<not> contains s ''<secret:''"
proof -
  from assms have "\<forall>c \<in> set s. plain c" by (simp add: list_all_iff)
  moreover have "\<not> plain newline" "\<not> plain creturn" "\<not> plain (CHR ''<'')"
    by (simp_all add: plain_def char_defs newline_def creturn_def)
  ultimately show "\<not> has_break s" "\<not> contains s ''<secret:''" by (auto simp: has_break_def contains_iff)
qed

section \<open>Commands that match a pattern\<close>

named_theorems patterns

lemma rmatch_lit [patterns]: "rmatch ps s \<Longrightarrow> rmatch (Lit p # ps) (p @ s)"
  by (simp add: starts_with_def)

lemma rmatch_end [patterns]: "rmatch [Lit p] p"
  by (simp add: starts_with_def)

lemma rmatch_plus [patterns]: "text_in c s \<Longrightarrow> rmatch ps t \<Longrightarrow> rmatch (Plus c # ps) (s @ t)"
  unfolding text_in_def
proof (induction s)
  case (Cons x s)
  then show ?case by (cases s) auto
qed simp

lemma rmatch_last [patterns]: "text_in c s \<Longrightarrow> rmatch [Plus c] s"
  using rmatch_plus [of c s "[]" "[]"] by simp

lemma safe_pattern: "p \<in> set safe_remove_patterns \<Longrightarrow> rmatch p s \<Longrightarrow> safe_remove s"
  by (auto simp: safe_remove_def list_ex_iff)

lemma pattern_members:
  "[Lit ''no ip multicast-routing vrf '', Plus name_class] \<in> set safe_remove_patterns"
  "[Lit ''no ip access-list standard '', Plus name_class] \<in> set safe_remove_patterns"
  "[Lit ''no ip pim vrf '', Plus name_class, Lit '' ssm range '', Plus name_class] \<in> set safe_remove_patterns"
  "[Lit ''no ip pim vrf '', Plus name_class, Lit '' register-source Loopback'', Plus is_digit] \<in> set safe_remove_patterns"
  "[Lit ''no ip pim vrf '', Plus name_class, Lit '' rp-address '', Plus addr_class, Lit '' '', Plus name_class]
     \<in> set safe_remove_patterns"
  "[Lit ''no ip msdp peer '', Plus addr_class, Lit '' connect-source Loopback0''] \<in> set safe_remove_patterns"
  "[Lit '' instance-id '', Plus is_digit] \<in> set safe_remove_patterns"
  "[Lit ''   no database-mapping '', Plus addr_class, Lit ''/32 locator-set '', Plus (in_class ''_.:/-'')]
     \<in> set safe_remove_patterns"
  "[Lit ''   no broadcast-underlay '', Plus addr_class] \<in> set safe_remove_patterns"
  by (simp_all add: safe_remove_patterns_def)

lemma safe_routing: "name_text vrf \<Longrightarrow> safe_remove (''no ip multicast-routing vrf '' @ vrf)"
  by (rule safe_pattern [OF pattern_members(1)]) (intro patterns)

lemma safe_acl: "name_text acl \<Longrightarrow> safe_remove (''no ip access-list standard '' @ acl)"
  by (rule safe_pattern [OF pattern_members(2)]) (intro patterns)

lemma safe_ssm: "name_text vrf \<Longrightarrow> name_text acl \<Longrightarrow> safe_remove (''no ip pim vrf '' @ vrf @ '' ssm range '' @ acl)"
  by (rule safe_pattern [OF pattern_members(3)]) (intro patterns)

lemma safe_register:
  "name_text vrf \<Longrightarrow> 0 \<le> i \<Longrightarrow> safe_remove (''no ip pim vrf '' @ vrf @ '' register-source Loopback'' @ int_str i)"
  by (rule safe_pattern [OF pattern_members(4)]) (intro patterns digits_int)

lemma safe_rp:
  "name_text vrf \<Longrightarrow> addr_text a \<Longrightarrow> name_text acl \<Longrightarrow>
     safe_remove (''no ip pim vrf '' @ vrf @ '' rp-address '' @ a @ '' '' @ acl)"
  by (rule safe_pattern [OF pattern_members(5)]) (intro patterns)

lemma safe_msdp: "addr_text a \<Longrightarrow> safe_remove (''no ip msdp peer '' @ a @ '' connect-source Loopback0'')"
  by (rule safe_pattern [OF pattern_members(6)]) (intro patterns)

lemma safe_instance: "0 \<le> i \<Longrightarrow> safe_remove ('' instance-id '' @ int_str i)"
  by (rule safe_pattern [OF pattern_members(7)]) (intro patterns digits_int)

lemma safe_mapping:
  "addr_text a \<Longrightarrow> locator_text loc \<Longrightarrow> safe_remove (''   no database-mapping '' @ a @ ''/32 locator-set '' @ loc)"
  by (rule safe_pattern [OF pattern_members(8)]) (intro patterns)

lemma safe_bum: "addr_text a \<Longrightarrow> safe_remove (''   no broadcast-underlay '' @ a)"
  by (rule safe_pattern [OF pattern_members(9)]) (intro patterns)

lemma safe_interface_command:
  assumes "interface_text s"
  shows "safe_remove (''interface '' @ s)" and "safe_remove (''no interface '' @ s)"
proof -
  obtain c t where s: "s = c # t" "is_upper c \<or> is_lower c" "list_all (in_class ''./-'') t"
    using assms by (cases s) auto
  then show "safe_remove (''interface '' @ s)" "safe_remove (''no interface '' @ s)"
    by (auto simp: safe_remove_def safe_interface_def starts_with_def)
qed

lemma safe_literals:
  "safe_remove '' no ip pim passive''" "safe_remove '' no ip igmp version 3''"
  "safe_remove '' no ip igmp explicit-tracking''" "safe_remove '' no ip pim sparse-mode''"
  "safe_remove ''no ip msdp cache-sa-state''" "safe_remove ''no ip msdp originator-id Loopback0''"
  "safe_remove ''router lisp''" "safe_remove ''  service ipv4''" "safe_remove ''  service ethernet''"
  "safe_remove ''   exit-service-ipv4''" "safe_remove ''   exit-service-ethernet''"
  "safe_remove ''  exit-instance-id''" "safe_remove '' exit-router-lisp''"
  by (simp_all add: safe_remove_def safe_remove_patterns_def starts_with_def)

lemma int_interface_text:
  "0 \<le> i \<Longrightarrow> interface_text (''Loopback'' @ int_str i)" "0 \<le> i \<Longrightarrow> interface_text (''LISP0.'' @ int_str i)"
  "0 \<le> i \<Longrightarrow> interface_text (''Vlan'' @ int_str i)"
proof -
  assume "0 \<le> i"
  then have "list_all (in_class ''./-'') (int_str i)" using digits_int class_digit by (auto simp: text_in_def)
  then show "interface_text (''Loopback'' @ int_str i)" "interface_text (''LISP0.'' @ int_str i)"
    "interface_text (''Vlan'' @ int_str i)"
    by (simp_all add: char_defs)
qed

section \<open>Resources that validate\<close>

definition commands_ok :: "string list \<Rightarrow> bool" where
  "commands_ok rc \<longleftrightarrow> rc \<noteq> [] \<and> list_all safe_remove rc \<and> list_all (list_all plain) rc
     \<and> list_ex (\<lambda>l. starts_with (lstrip l) ''no '') rc"

definition lines_ok :: "string list \<Rightarrow> bool" where
  "lines_ok ls \<longleftrightarrow> ls \<noteq> [] \<and> list_all (\<lambda>l. l \<noteq> [] \<and> list_all plain l) ls"

definition gate_ok :: "string \<Rightarrow> bool" where
  "gate_ok g \<longleftrightarrow> list_all plain g \<and> starts_with g ''show running-config ''"

lemma validate_commands_ok:
  "commands_ok rc \<Longrightarrow> validate_remove_commands (jstrs rc) = Inr rc"
proof -
  assume ok: "commands_ok rc"
  then obtain c cs where rc: "rc = c # cs" by (cases rc) (auto simp: commands_ok_def)
  have "mapE validate_remove_command rc = Inr (map (\<lambda>_. ()) rc)"
    using ok by (intro mapE_total) (auto simp: commands_ok_def list_all_iff validate_remove_command_def plain_safe)
  moreover have "map (py_str \<circ> JStr) rc = rc" by (simp add: comp_def)
  ultimately show ?thesis using ok unfolding rc
    by (simp add: validate_remove_commands_def jstrs_def commands_ok_def comp_def raise_if_def del: mapE.simps)
qed

lemma validate_line_ok: "l \<noteq> [] \<Longrightarrow> list_all plain l \<Longrightarrow> validate_config_line (JStr l) = Inr ()"
  using plain_safe [of l] by (simp add: validate_config_line_def is_text_def)

lemma resource_valid:
  assumes "text_in name_class key" and "kind \<in> set owned_resource_kinds" and "lines_ok cl" and "commands_ok rc"
    and "gate_ok g" and "lines_ok fl"
  shows "validate_resource (resource key kind cl rc g fl n) = Inr key"
proof -
  obtain c cs where cl: "cl = c # cs" using assms(3) by (cases cl) (auto simp: lines_ok_def)
  obtain f fs where fl: "fl = f # fs" using assms(6) by (cases fl) (auto simp: lines_ok_def)
  have "mapE validate_config_line (map JStr (cl @ fl)) = Inr (map (\<lambda>_. ()) (map JStr (cl @ fl)))"
    using assms(3,6) by (intro mapE_total) (auto simp: lines_ok_def list_all_iff intro!: validate_line_ok)
  moreover have "g \<noteq> []" using assms(5) by (auto simp: gate_ok_def starts_with_def)
  ultimately show ?thesis
    using assms(1,2,5) validate_commands_ok [OF assms(4)]
    unfolding validate_resource_def resource_def Let_def
    by (simp add: text_in_def validate_lines_def jstrs_def cl fl safe_show_command_def plain_def gate_ok_def
        commands_hash_def del: mapE.simps)
qed

section \<open>Texts of networks\<close>

lemma join_all: "list_all P sep \<Longrightarrow> list_all (list_all P) xs \<Longrightarrow> list_all P (join sep xs)"
  by (induction sep xs rule: join.induct) auto

lemma plain_digits: "list_all plain (nat_str n)"
  unfolding plain_def by (rule class_digit) (rule nat_str_digits)

lemma plain_addr_str: "list_all plain (addr_str a)"
  unfolding addr_str_def by (rule join_all) (simp_all add: plain_digits, simp add: plain_def char_defs)

lemma plain_hex: "list_all plain (hex_str n)"
proof (induction n rule: hex_str.induct)
  case (1 n)
  have "plain (hex_digit k)" if "k < 16" for k
  proof -
    have "k \<in> set [0..<16]" using that by simp
    moreover have "list_all (\<lambda>k. plain (hex_digit k)) [0..<16]"
      by (simp add: upt_rec hex_digit_def plain_def char_defs)
    ultimately show ?thesis by (simp add: list_all_iff)
  qed
  with 1 show ?case by (subst hex_str.simps) auto
qed

lemma plain_addr6_str: "list_all plain (addr6_str gs)"
proof -
  have "list_all plain (join '':'' (map hex_str xs))" for xs
    by (rule join_all) (simp_all add: list_all_iff plain_hex [unfolded list_all_iff], simp add: plain_def char_defs)
  moreover have "list_all plain ''::''" by (simp add: plain_def char_defs)
  ultimately show ?thesis by (simp add: addr6_str_def Let_def)
qed

text \<open>A network without a scope identifier is printed with plain characters.\<close>

lemma unscoped_net6: "is_net6 s \<Longrightarrow> CHR ''%'' \<notin> set s \<Longrightarrow> \<exists>gs. scoped6_str (the (parse_scoped6 (hd (split_on (CHR ''/'') s)))) = addr6_str gs"
proof -
  assume n: "is_net6 s" and p: "CHR ''%'' \<notin> set s"
  then have "split_on (CHR ''/'') s \<noteq> []" by (auto simp: is_net6_def)
  then have "CHR ''%'' \<notin> set (hd (split_on (CHR ''/'') s))" using p split_on_chars hd_in_set by blast
  with is_net6_parses [OF n] show ?thesis using unscoped6 by fastforce
qed

lemma network_text_plain:
  assumes "network_text s = Inr (a, w)" and "CHR ''%'' \<notin> set s"
  shows "list_all plain a \<and> list_all plain w"
proof (cases "parse_net s")
  case None
  with assms(1) have n: "is_net6 s" by (auto simp: network_text_def split: if_splits)
  from unscoped_net6 [OF n assms(2)] None n assms(1) show ?thesis
    by (auto simp: network_text_def Let_def plain_addr6_str)
next
  case (Some n)
  with assms(1) show ?thesis by (auto simp: network_text_def plain_addr_str)
qed

end
