(* ===== verification/OwnedClean.thy ===== *)
theory OwnedClean
  imports OwnedValid
begin

text \<open>
  Every resource that a clean intent emits validates, and every resource at all has the shape of
  one that removes itself.
\<close>

section \<open>Literal characters\<close>

lemma plain_each: "list_all plain ''abcdefghijklmnopqrstuvwxyzABCDEFGHIJKLMNOPQRSTUVWXYZ0123456789 ._:/|^$-''"
  by (simp add: plain_def char_defs)

lemma name_each: "list_all name_class ''abcdefghijklmnopqrstuvwxyzABCDEFGHIJKLMNOPQRSTUVWXYZ0123456789_.:-''"
  by (simp add: name_class_def char_defs)

lemmas plain_chars = plain_each [simplified list.pred_inject]
lemmas name_chars = name_each [simplified list.pred_inject]

section \<open>Clean intents\<close>

definition text_ok :: "json set \<Rightarrow> string \<Rightarrow> (string \<Rightarrow> bool) \<Rightarrow> bool" where
  "text_ok S k P \<longleftrightarrow> (\<forall>x \<in> S. \<forall>s. str_at x k = Inr s \<longrightarrow> P s)"

definition num_ok :: "json set \<Rightarrow> string \<Rightarrow> bool" where
  "num_ok S k \<longleftrightarrow> (\<forall>x \<in> S. \<forall>i. int_at x k = Inr i \<longrightarrow> 0 \<le> i)"

text \<open>
  The names of a policy have the characters of the allowed commands, its addresses consist of
  digits and dots, its group range has no scope identifier, its numbers are not negative.
\<close>

definition clean_policies :: "json set \<Rightarrow> bool" where
  "clean_policies ps \<longleftrightarrow>
     text_ok ps ''vrf'' name_text \<and> text_ok ps ''access_list'' name_text \<and> text_ok ps ''rp_address'' addr_text
     \<and> text_ok ps ''group_range'' (\<lambda>s. CHR ''%'' \<notin> set s) \<and> num_ok ps ''l3_instance_id''
     \<and> text_ok (\<Union>p \<in> ps. members p ''segment_loopbacks'') ''address'' addr_text
     \<and> text_ok ((\<lambda>p. field p ''core_group'') ` ps) ''start'' (list_all plain)"

definition clean_intent :: "json \<Rightarrow> bool" where
  "clean_intent intent \<longleftrightarrow>
     clean_policies (policies_of intent)
     \<and> (\<forall>i. int_get (fabric_multicast intent) ''rp_loopback_id'' 60000 = Inr i \<longrightarrow> 0 \<le> i)
     \<and> list_all plain (py_str (field (fabric_multicast intent) ''rp_address''))
     \<and> text_ok (members intent ''devices'') ''loopback0_ip'' addr_text
     \<and> text_ok (peers_in intent) ''interface'' interface_text \<and> num_ok (peers_in intent) ''vlan_id''
     \<and> num_ok (members intent ''endpoint_pools'') ''vlan_id'' \<and> num_ok (members intent ''endpoint_pools'') ''l2_instance_id''
     \<and> text_ok (members (jor (field intent ''multicast'') (JObj [])) ''l2_bum_groups'') ''group'' addr_text
     \<and> (\<forall>s. str_get (jor (field intent ''lisp'') (JObj [])) ''locator_set'' ''rloc_fabric'' = Inr s \<longrightarrow> locator_text s)"

lemma text_okD: "text_ok S k P \<Longrightarrow> x \<in> S \<Longrightarrow> str_at x k = Inr s \<Longrightarrow> P s"
  by (auto simp: text_ok_def)

lemma num_okD: "num_ok S k \<Longrightarrow> x \<in> S \<Longrightarrow> int_at x k = Inr i \<Longrightarrow> 0 \<le> i"
  by (auto simp: num_ok_def)

section \<open>Validity by kind\<close>

lemmas ok_defs = lines_ok_def commands_ok_def gate_ok_def starts_with_def lstrip_def is_space_def owned_resource_kinds_def

lemmas safe_commands = safe_routing [simplified] safe_acl [simplified] safe_ssm [simplified] safe_register [simplified]
  safe_rp [simplified] safe_msdp [simplified] safe_instance [simplified] safe_mapping [simplified] safe_bum [simplified]
  safe_literals safe_interface_command [simplified]
  safe_interface_command [OF int_interface_text(1), simplified] safe_interface_command [OF int_interface_text(2), simplified]
  safe_interface_command [OF int_interface_text(3), simplified]

lemmas valid_simps = ok_defs plain_chars name_chars plains safe_commands name_int name_addr

lemma rp_loopback_valid:
  "0 \<le> i \<Longrightarrow> list_all plain a \<Longrightarrow> \<exists>k. validate_resource (rp_loopback_resource i a) = Inr k"
  unfolding rp_loopback_resource_def Let_def
  by (rule exI, rule resource_valid) (simp_all add: valid_simps text_in_def)

lemma msdp_peer_valid: "addr_text a \<Longrightarrow> \<exists>k. validate_resource (msdp_peer_resource a) = Inr k"
  unfolding msdp_peer_resource_def Let_def
  by (rule exI, rule resource_valid) (simp_all add: valid_simps, simp add: text_in_def name_chars name_addr)

lemma msdp_global_valid:
  "\<exists>k. validate_resource (msdp_global_resource ''cache'' ''ip msdp cache-sa-state'') = Inr k"
  "\<exists>k. validate_resource (msdp_global_resource ''originator'' ''ip msdp originator-id Loopback0'') = Inr k"
  unfolding msdp_global_resource_def
  by (rule exI, rule resource_valid, simp_all add: valid_simps text_in_def)+

lemma routing_valid: "name_text vrf \<Longrightarrow> \<exists>k. validate_resource (routing_resource vrf) = Inr k"
  unfolding routing_resource_def
  by (rule exI, rule resource_valid) (simp_all add: valid_simps, simp add: text_in_def name_chars)

lemma acl_valid:
  assumes "name_text vrf" and "name_text name" and "acl_lines name r = Inr lines" and "CHR ''%'' \<notin> set r"
  shows "\<exists>k. validate_resource (acl_resource vrf name lines) = Inr k"
proof -
  from assms(3) obtain a w where n: "network_text r = Inr (a, w)"
    and l: "lines = [''ip access-list standard '' @ name, ''10 permit '' @ a @ '' '' @ w]"
    by (auto simp: acl_lines_def ebind_Inr)
  have "lines_ok lines" using network_text_plain [OF n assms(4)] assms(2) by (simp add: l valid_simps)
  then show ?thesis unfolding acl_resource_def using assms(1,2)
    by - (rule exI, rule resource_valid, simp_all add: valid_simps, simp add: text_in_def name_chars)
qed

lemma policy_valid:
  assumes "owned_policy_lines p vrf name i mem = Inr lines" and "name_text vrf" and "name_text name" and "0 \<le> i"
    and "\<And>a. str_at p ''rp_address'' = Inr a \<Longrightarrow> addr_text a"
  shows "\<exists>k. validate_resource (policy_resource vrf lines) = Inr k"
proof -
  consider "lines = [''ip pim vrf '' @ vrf @ '' ssm range '' @ name]"
    | rp where "addr_text rp" "lines = (if mem then [''ip pim vrf '' @ vrf @ '' register-source Loopback'' @ int_str i] else [])
          @ [''ip pim vrf '' @ vrf @ '' rp-address '' @ rp @ '' '' @ name]"
    using assms(1,5) unfolding owned_policy_lines_def by (elim ebind_InrE) (auto simp: ebind_Inr split: if_splits)
  then have "lines_ok lines \<and> commands_ok (map (\<lambda>l. ''no '' @ l) lines)"
    by cases (use assms(2-4) in \<open>simp_all add: valid_simps\<close>)
  then have ok: "lines_ok lines" "commands_ok (map (\<lambda>l. ''no '' @ l) lines)" by blast+
  show ?thesis unfolding policy_resource_def
    by (rule exI, rule resource_valid [OF _ _ ok _ ok(1)])
      (use assms(2) in \<open>simp_all add: valid_simps\<close>, simp add: text_in_def name_chars)
qed

lemma segment_loopback_valid:
  "0 \<le> i \<Longrightarrow> addr_text a \<Longrightarrow> \<exists>k. validate_resource (segment_loopback_resource i a) = Inr k"
  unfolding segment_loopback_resource_def Let_def
  by (rule exI, rule resource_valid) (simp_all add: valid_simps, simp add: text_in_def name_chars name_int)

lemma lisp_interface_valid:
  "0 \<le> i \<Longrightarrow> list_all plain start \<Longrightarrow> \<exists>k. validate_resource (lisp_interface_resource i start n) = Inr k"
  unfolding lisp_interface_resource_def Let_def
  by (rule exI, rule resource_valid) (simp_all add: valid_simps, simp add: text_in_def name_chars name_int)

lemma lisp_mapping_valid:
  "0 \<le> i \<Longrightarrow> addr_text a \<Longrightarrow> locator_text loc \<Longrightarrow> \<exists>k. validate_resource (lisp_mapping_resource i a loc) = Inr k"
  unfolding lisp_mapping_resource_def router_lisp_mapping_remove_def Let_def
  by (rule exI, rule resource_valid) (simp_all add: valid_simps, simp add: text_in_def name_chars name_int)

lemma edge_svi_valid: "0 \<le> vlan \<Longrightarrow> \<exists>k. validate_resource (edge_svi_resource vlan) = Inr k"
  unfolding edge_svi_resource_def svi_lines_def interface_remove_def Let_def
  by (rule exI, rule resource_valid) (simp_all add: valid_simps, simp add: text_in_def name_chars name_int)

lemma border_valid:
  "name_text vrf \<Longrightarrow> interface_text ifc \<Longrightarrow> \<exists>k. validate_resource (handoff_resource ''border_handoff'' vrf vlan ifc) = Inr k"
  unfolding handoff_resource_def interface_remove_def
  by (rule exI, rule resource_valid) (simp_all add: valid_simps, simp add: text_in_def name_chars name_int)

lemma fusion_valid:
  "name_text vrf \<Longrightarrow> 0 \<le> vlan \<Longrightarrow>
     \<exists>k. validate_resource (handoff_resource ''fusion_handoff'' vrf vlan (''Vlan'' @ int_str vlan)) = Inr k"
  unfolding handoff_resource_def interface_remove_def
  by (rule exI, rule resource_valid) (simp_all add: valid_simps, simp add: text_in_def name_chars name_int)

lemma bum_valid: "0 \<le> i \<Longrightarrow> addr_text a \<Longrightarrow> \<exists>k. validate_resource (bum_resource i a) = Inr k"
  unfolding bum_resource_def router_lisp_bum_remove_def Let_def
  by (rule exI, rule resource_valid) (simp_all add: valid_simps, simp add: text_in_def name_chars name_int)

lemma emitted_valid:
  assumes "emitted intent r" and clean: "clean_intent intent"
  shows "\<exists>k. validate_resource r = Inr k"
proof -
  from clean have c: "clean_policies (policies_of intent)"
    "text_ok (members intent ''devices'') ''loopback0_ip'' addr_text"
    "text_ok (peers_in intent) ''interface'' interface_text" "num_ok (peers_in intent) ''vlan_id''"
    "num_ok (members intent ''endpoint_pools'') ''vlan_id''" "num_ok (members intent ''endpoint_pools'') ''l2_instance_id''"
    "text_ok (members (jor (field intent ''multicast'') (JObj [])) ''l2_bum_groups'') ''group'' addr_text"
    by (auto simp: clean_intent_def)
  from c(1) have p: "text_ok (policies_of intent) ''vrf'' name_text" "text_ok (policies_of intent) ''access_list'' name_text"
    "text_ok (policies_of intent) ''rp_address'' addr_text" "num_ok (policies_of intent) ''l3_instance_id''"
    "text_ok (\<Union>p \<in> policies_of intent. members p ''segment_loopbacks'') ''address'' addr_text"
    "text_ok ((\<lambda>p. field p ''core_group'') ` policies_of intent) ''start'' (list_all plain)"
    "text_ok (policies_of intent) ''group_range'' (\<lambda>s. CHR ''%'' \<notin> set s)"
    by (simp_all add: clean_policies_def)
  have seg: "q \<in> policies_of intent \<Longrightarrow> s \<in> members q ''segment_loopbacks'' \<Longrightarrow> str_at s ''address'' = Inr a \<Longrightarrow> addr_text a"
    for q s a using text_okD [OF p(5)] by blast
  from assms(1) show ?thesis
  proof cases
    case (rp_loopback i)
    then show ?thesis using clean by (simp add: clean_intent_def rp_loopback_valid)
  next
    case (lisp_interface q i start n)
    then have "list_all plain start" using text_okD [OF p(6), of "field q ''core_group''"] by blast
    then show ?thesis unfolding lisp_interface(1) by (rule lisp_interface_valid [OF num_okD [OF p(4) lisp_interface(2,3)]])
  next
    case (lisp_mapping q i s a loc)
    moreover have "locator_text loc" using clean lisp_mapping by (simp add: clean_intent_def)
    ultimately show ?thesis using num_okD [OF p(4)] seg by (auto intro: lisp_mapping_valid)
  next
    case (policy q vrf name i mem lines)
    then show ?thesis using text_okD [OF p(1)] text_okD [OF p(2)] text_okD [OF p(3)] num_okD [OF p(4)]
      by (auto intro!: policy_valid)
  next
    case (acl q vrf name rng lines)
    then show ?thesis using text_okD [OF p(1)] text_okD [OF p(2)] text_okD [OF p(7)] by (auto intro: acl_valid)
  next
    case (segment_loopback q i s a)
    then show ?thesis using num_okD [OF p(4)] seg by (auto intro: segment_loopback_valid)
  next
    case (fusion q vrf peer vlan)
    show ?thesis unfolding fusion(1)
      by (rule fusion_valid [OF text_okD [OF p(1) fusion(2,3)] num_okD [OF c(4) fusion(4,5)]])
  qed (auto intro: msdp_global_valid msdp_peer_valid routing_valid edge_svi_valid border_valid bum_valid
      text_okD [OF p(1)] text_okD [OF c(2)] text_okD [OF c(3)] text_okD [OF c(7)] num_okD [OF c(5)] num_okD [OF c(6)])
qed

end
