(* ===== verification/OwnedProps.thy ===== *)
theory OwnedProps
  imports OwnedClean
begin

text \<open>The properties of candidate manifests.\<close>

section \<open>The parts of a manifest\<close>

lemma built_manifestE:
  assumes "build_multicast_owned_state intent = Inr m"
  obtains applies adds nodes devices fid where
    "multicast_applies intent (jor (field intent ''multicast'') (JObj [])) = Inr applies"
    "(if applies then multicast_additions intent (jor (field intent ''multicast'') (JObj [])) else Inr ([], [])) = Inr (adds, nodes)"
    "mapE (owned_device nodes adds) (sorted_set (map fst adds)) = Inr devices"
    "additions_emitted intent adds"
    "m = owned_manifest fid intent devices"
proof -
  from assms obtain multicast applies fid an devices where
    mc: "section_of intent ''multicast'' = Inr multicast" and a: "multicast_applies intent multicast = Inr applies"
    and ad: "(if applies then multicast_additions intent multicast else Inr ([], [])) = Inr an"
    and d: "mapE (owned_device (snd an) (fst an)) (sorted_set (map fst (fst an))) = Inr devices"
    and m: "m = owned_manifest fid intent devices"
    unfolding build_multicast_owned_state_def case_prod_beta
    by - (elim ebind_InrE, rule that, assumption+, drule Inr_inject, erule sym)
  note mc' = section_of_field [OF mc]
  have "additions_emitted intent (fst an)"
    using ad multicast_additions_emitted [of intent "fst an" "snd an"] unfolding mc' by (cases applies) auto
  with a ad d m show thesis unfolding mc' by (intro that [of applies "fst an" "snd an" devices]) simp_all
qed

lemma owned_deviceD:
  assumes "owned_device nodes adds d = Inr entry"
  obtains items keys node descriptor where
    "set items = snd ` {a \<in> set adds. fst a = d}" "mapE resource_key items = Inr keys" "distinct keys"
    "map_of nodes d = Some node" "owned_descriptor node = Inr descriptor"
    "entry = (d, JObj [(''device'', descriptor), (''resources'', JArr items)])"
proof -
  from assms obtain items keys node descriptor where
    "sort_by resource_key (map snd (filter (\<lambda>a. fst a = d) adds)) = Inr items" "mapE resource_key items = Inr keys" "distinct keys"
    "map_of nodes d = Some node" "owned_descriptor node = Inr descriptor"
    "entry = (d, JObj [(''device'', descriptor), (''resources'', JArr items)])"
    unfolding owned_device_def
    by (elim ebind_InrE raise_if_InrE of_option_InrE) blast
  note x = this
  have "set items = snd ` {a \<in> set adds. fst a = d}" using sort_by_Inr_set [OF x(1)] by auto
  then show thesis using x(2-6) by (rule that)
qed

lemma owned_resources_added:
  assumes "build_multicast_owned_state intent = Inr m" and "((d, k), item) \<in> set (owned_resources m)"
  shows "emitted intent item"
  using assms(1)
proof (rule built_manifestE)
  fix adds nodes devices fid
  assume d: "mapE (owned_device nodes adds) (sorted_set (map fst adds)) = Inr devices"
    and e: "additions_emitted intent adds" and m: "m = owned_manifest fid intent devices"
  from assms(2) m obtain entry where entry: "entry \<in> set devices" "((d, k), item) \<in> set (device_resources entry)"
    by (auto simp: owned_resources_def owned_manifest_def Let_def)
  with mapE_Inr_set [OF d] obtain i where "owned_device nodes adds i = Inr entry" by blast
  then obtain items descriptor where i: "set items = snd ` {a \<in> set adds. fst a = i}"
    and en: "entry = (i, JObj [(''device'', descriptor), (''resources'', JArr items)])"
    by (rule owned_deviceD) blast
  from entry(2) en have "item \<in> set items" by (auto simp: device_resources_def)
  with i e show ?thesis by auto
qed

section \<open>Resources that remove themselves\<close>

definition self_removing :: "json \<Rightarrow> bool" where
  "self_removing item \<longleftrightarrow>
     py_str (field item ''kind'') \<in> set owned_resource_kinds
     \<and> arr_items (field item ''forbidden_lines'') \<noteq> []
     \<and> set (arr_items (field item ''forbidden_lines'')) \<subseteq> set (arr_items (field item ''configured_lines''))
     \<and> starts_with (py_str (field item ''gate_command'')) ''show running-config ''
     \<and> list_ex (\<lambda>l. starts_with (lstrip l) ''no '') (map py_str (arr_items (field item ''remove_commands'')))
     \<and> field item ''remove_command_hash'' = JStr (commands_hash (map py_str (arr_items (field item ''remove_commands''))))"

lemma resource_self_removing:
  assumes "kind \<in> set owned_resource_kinds" and "fl \<noteq> []" and "set fl \<subseteq> set cl" and "starts_with g ''show running-config ''"
    and "list_ex (\<lambda>l. starts_with (lstrip l) ''no '') rc"
  shows "self_removing (resource key kind cl rc g fl n)"
  using assms by (auto simp: self_removing_def resource_def Let_def jstrs_def list_ex_iff comp_def)

lemma policy_lines_nonempty: "owned_policy_lines p vrf name i mem = Inr lines \<Longrightarrow> lines \<noteq> []"
  unfolding owned_policy_lines_def by (elim ebind_InrE) (auto simp: ebind_Inr split: if_splits)

lemma emitted_self_removing: "emitted intent r \<Longrightarrow> self_removing r"
proof (induction rule: emitted.induct)
  case (acl p vrf name rng lines)
  then have "lines \<noteq> []" by (auto simp: acl_lines_def ebind_Inr)
  then show ?case unfolding acl_resource_def
    by (intro resource_self_removing) (simp_all add: ok_defs)
next
  case (policy p vrf name i mem lines)
  note n = policy_lines_nonempty [OF policy(5)]
  then have "list_ex (\<lambda>l. starts_with (lstrip l) ''no '') (map (\<lambda>l. ''no '' @ l) lines)"
    by (cases lines) (simp_all add: ok_defs)
  then show ?case unfolding policy_resource_def
    by (intro resource_self_removing [OF _ n]) (simp_all only: owned_resource_kinds_def order_refl, simp_all add: starts_with_def)
qed (simp_all add: rp_loopback_resource_def msdp_peer_resource_def msdp_global_resource_def routing_resource_def
    segment_loopback_resource_def lisp_interface_resource_def lisp_mapping_resource_def edge_svi_resource_def
    handoff_resource_def bum_resource_def router_lisp_mapping_remove_def router_lisp_bum_remove_def interface_remove_def
    svi_lines_def Let_def resource_self_removing ok_defs)

text \<open>
  Every resource of a candidate manifest is of a known kind, forbids after its removal
  only lines that it configures, at least one, checks for them in the running configuration, and
  its removal, bound by its digest, contains a negation.
\<close>

lemma owned_resources_remove_themselves:
  assumes "build_multicast_owned_state intent = Inr m" and "((d, k), item) \<in> set (owned_resources m)"
  shows "self_removing item"
  by (rule emitted_self_removing [OF owned_resources_added [OF assms]])

section \<open>The manifest validates\<close>

definition descriptor_body_ok :: "(string \<times> json) list \<Rightarrow> bool" where
  "descriptor_body_ok kvs \<longleftrightarrow>
     list_all (\<lambda>k. k \<in> set device_descriptor_fields) (map fst kvs)
     \<and> filter (\<lambda>k. map_of kvs k = None) required_descriptor_fields = []
     \<and> (\<forall>f \<in> set [''id'', ''hostname'', ''platform'', ''software_version'', ''management_ip'']. \<exists>v. map_of kvs f = Some v \<and> is_text v)
     \<and> starts_with (py_str (case map_of kvs ''credential_ref'' of None \<Rightarrow> JStr [] | Some v \<Rightarrow> v)) ''secret://''"

definition roles_ok :: "json option \<Rightarrow> bool" where
  "roles_ok v \<longleftrightarrow> (\<exists>r rs. v = Some (JArr (r # rs)) \<and> list_all (\<lambda>r. is_str r \<and> truthy r) (r # rs))"

lemma validate_descriptor_obj:
  "validate_descriptor i (JObj kvs) = Inr () \<longleftrightarrow>
     py_str (case map_of kvs ''id'' of None \<Rightarrow> JNull | Some v \<Rightarrow> v) = i \<and> descriptor_body_ok kvs \<and> roles_ok (map_of kvs ''roles'')"
proof -
  have m: "(\<exists>ys. mapE (\<lambda>f. ebind (jidx (JObj kvs) f) (\<lambda>v. raise_if (\<not> is_text v) (e f))) fs = Inr ys)
      \<longleftrightarrow> (\<forall>f \<in> set fs. \<exists>v. map_of kvs f = Some v \<and> is_text v)" for e fs
    by (induction fs) (auto simp: res)
  have r: "(\<exists>roles. jidx (JObj kvs) ''roles'' = Inr roles
        \<and> \<not> (case roles of JArr (r # rs) \<Rightarrow> \<not> list_all (\<lambda>r. is_str r \<and> truthy r) (r # rs) | _ \<Rightarrow> True))
      \<longleftrightarrow> roles_ok (map_of kvs ''roles'')"
    by (cases "map_of kvs ''roles''") (auto simp: roles_ok_def split: json.split list.split)
  have c: "jget_default (JObj kvs) ''credential_ref'' (JStr []) = Inr v
      \<longleftrightarrow> v = (case map_of kvs ''credential_ref'' of None \<Rightarrow> JStr [] | Some v \<Rightarrow> v)" for v
    by (auto simp: jget_default_def)
  show ?thesis
    unfolding validate_descriptor_def json.case Let_def ebind_Inr raise_if_Inr not_not
    by (simp only: c ex_simps simp_thms m r [symmetric] descriptor_body_ok_def) blast
qed

lemma map_fst_set_field: "k \<in> fst ` set kvs \<Longrightarrow> map fst (set_field k v kvs) = map fst kvs"
  by (induction k v kvs rule: set_field.induct) auto

lemma descriptor_body_roles:
  assumes "descriptor_body_ok kvs" and "map_of kvs ''roles'' = Some w"
  shows "descriptor_body_ok (set_field ''roles'' v kvs)"
proof -
  have k: "map fst (set_field ''roles'' v kvs) = map fst kvs"
    using map_of_SomeD [OF assms(2)] by (intro map_fst_set_field) force
  have f: "map_of (set_field ''roles'' v kvs) f = map_of kvs f" if "f \<noteq> ''roles''" for f
    using that by (simp add: map_of_set_field)
  have n: "(map_of (set_field ''roles'' v kvs) f = None) = (map_of kvs f = None)" for f
    using assms(2) by (simp add: map_of_set_field)
  have c: "map_of (set_field ''roles'' v kvs) ''credential_ref'' = map_of kvs ''credential_ref''" by (rule f) simp
  have d: "map_of (set_field ''roles'' v kvs) f = map_of kvs f"
    if "f \<in> set [''id'', ''hostname'', ''platform'', ''software_version'', ''management_ip'']" for f
    by (rule f) (use that in auto)
  show ?thesis using assms(1) unfolding descriptor_body_ok_def k n c by (simp only: d ball_triv simp_thms cong: ball_cong)
qed

lemma owned_descriptor_valid:
  assumes "validate_descriptor i node = Inr ()" and "owned_descriptor node = Inr d"
  shows "validate_descriptor i d = Inr ()"
proof -
  obtain kvs where node: "node = JObj kvs"
    using assms(2) by (cases node) (auto simp: owned_descriptor_def)
  note v = assms(1) [unfolded node validate_descriptor_obj]
  from v obtain r rs where roles: "map_of kvs ''roles'' = Some (JArr (r # rs))"
    and ok: "\<forall>x \<in> set (r # rs). is_str x \<and> truthy x"
    by (auto simp: roles_ok_def list_all_iff)
  define xs where "xs = r # rs"
  have h: "py_set xs = Inr xs" using ok by (auto simp: xs_def py_set_def list_all_iff hashable_def elim!: is_str.elims)
  have st: "py_sorted (remdups xs) = Inr (sort_key py_str (remdups xs))"
    using ok by (simp add: py_sorted_def list_all_iff xs_def [symmetric])
  from assms(2) have d: "d = JObj (set_field ''roles'' (JArr (sort_key py_str (remdups xs))) kvs)"
    using roles h st unfolding node xs_def [symmetric]
    by (simp add: owned_descriptor_def items_get_def jget_default_def)
  have "set (sort_key py_str (remdups xs)) = set (r # rs)" by (auto simp: xs_def)
  then have "roles_ok (Some (JArr (sort_key py_str (remdups xs))))"
    using ok by (cases "sort_key py_str (remdups xs)") (auto simp: roles_ok_def list_all_iff)
  moreover have "map_of (set_field ''roles'' w kvs) ''id'' = map_of kvs ''id''" for w by (simp add: map_of_set_field)
  ultimately show ?thesis using v descriptor_body_roles [OF _ roles]
    unfolding d validate_descriptor_obj by (simp add: map_of_set_field)
qed

lemma emitted_key:
  assumes "emitted intent r" and "clean_intent intent"
  obtains k where "validate_resource r = Inr k" "resource_key r = Inr k"
proof -
  from emitted_valid [OF assms] obtain k where k: "validate_resource r = Inr k" ..
  from validate_resourceD(2,4) [OF k] have "resource_key r = Inr k" by (simp add: resource_key_def str_at_def)
  with k show thesis by (rule that)
qed

text \<open>
  The records of the nodes in an intent: the fields that the schema of the intent gives a device
  and a fusion node, the texts among them that every node has, a credential that is a reference,
  and for a device its roles. Nothing is asked of the descriptors: the builder makes them.
\<close>

definition intent_device_fields :: "string list" where
  "intent_device_fields =
     [''id'', ''hostname'', ''site'', ''platform'', ''software_version'', ''management_ip'',
      ''dashboard_management_ip'', ''loopback0_ip'', ''roles'', ''credential_ref'']"

definition intent_fusion_fields :: "string list" where
  "intent_fusion_fields =
     [''id'', ''hostname'', ''platform'', ''software_version'', ''management_ip'', ''dashboard_management_ip'',
      ''credential_ref'', ''bgp_asn'']"

definition clean_node :: "string list \<Rightarrow> json \<Rightarrow> bool" where
  "clean_node fs node \<longleftrightarrow>
     (case node of
        JObj kvs \<Rightarrow>
          list_all (\<lambda>k. k \<in> set fs) (map fst kvs)
          \<and> list_all (\<lambda>f. case map_of kvs f of Some v \<Rightarrow> is_text v | None \<Rightarrow> False)
              [''id'', ''hostname'', ''platform'', ''software_version'', ''management_ip'']
          \<and> (case map_of kvs ''credential_ref'' of Some (JStr c) \<Rightarrow> starts_with c ''secret://'' | _ \<Rightarrow> False)
      | _ \<Rightarrow> False)"

definition clean_roles :: "json \<Rightarrow> bool" where
  "clean_roles node \<longleftrightarrow>
     (case field node ''roles'' of JArr (r # rs) \<Rightarrow> list_all (\<lambda>x. is_str x \<and> truthy x) (r # rs) | _ \<Rightarrow> False)"

definition clean_nodes :: "json \<Rightarrow> bool" where
  "clean_nodes intent \<longleftrightarrow>
     (\<forall>d \<in> members intent ''devices''. clean_node intent_device_fields d \<and> clean_roles d)
   \<and> (\<forall>f \<in> members intent ''fusion_nodes''. clean_node intent_fusion_fields f)"

lemma clean_node_valid:
  assumes "clean_node fs (JObj kvs)" and "set fs \<subseteq> set device_descriptor_fields"
    and "str_at (JObj kvs) ''id'' = Inr i" and "roles_ok (map_of kvs ''roles'')"
  shows "validate_descriptor i (JObj kvs) = Inr ()"
proof -
  from assms(1) obtain c where keys: "list_all (\<lambda>k. k \<in> set fs) (map fst kvs)"
    and texts: "list_all (\<lambda>f. case map_of kvs f of Some v \<Rightarrow> is_text v | None \<Rightarrow> False)
              [''id'', ''hostname'', ''platform'', ''software_version'', ''management_ip'']"
    and c: "map_of kvs ''credential_ref'' = Some (JStr c)" "starts_with c ''secret://''"
    by (auto simp: clean_node_def split: option.splits json.splits)
  have t: "\<exists>v. map_of kvs f = Some v \<and> is_text v"
    if "f \<in> set [''id'', ''hostname'', ''platform'', ''software_version'', ''management_ip'']" for f
    using texts that unfolding list_all_iff by (auto split: option.splits)
  from assms(4) have r: "map_of kvs ''roles'' \<noteq> None" by (auto simp: roles_ok_def)
  have "filter (\<lambda>k. map_of kvs k = None) required_descriptor_fields = []"
    using t [of "''id''"] t [of "''hostname''"] t [of "''platform''"] t [of "''software_version''"] t [of "''management_ip''"] c r
    by (auto simp: required_descriptor_fields_def)
  moreover have "list_all (\<lambda>k. k \<in> set device_descriptor_fields) (map fst kvs)"
    using keys assms(2) unfolding list_all_iff by blast
  ultimately have "descriptor_body_ok kvs" unfolding descriptor_body_ok_def using t c by simp
  moreover have "py_str (case map_of kvs ''id'' of None \<Rightarrow> JNull | Some v \<Rightarrow> v) = i"
    using assms(3) by (auto simp: str_at_def res split: option.splits)
  ultimately show ?thesis using assms(4) by (simp add: validate_descriptor_obj)
qed

lemma keys_set_field: "fst ` set (set_field k v kvs) = insert k (fst ` set kvs)"
  by (induction k v kvs rule: set_field.induct) auto

lemma clean_node_roles:
  assumes "clean_node fs (JObj kvs)"
  shows "clean_node (''roles'' # fs) (JObj (set_field ''roles'' v kvs))"
proof -
  have "map_of (set_field ''roles'' v kvs) f = map_of kvs f" if "f \<noteq> ''roles''" for f
    using that by (simp add: map_of_set_field)
  moreover have "set (map fst (set_field ''roles'' v kvs)) = insert ''roles'' (set (map fst kvs))"
    by (simp add: keys_set_field)
  ultimately show ?thesis using assms unfolding clean_node_def json.case list_all_iff by auto
qed

lemma descriptor_fields:
  "set intent_device_fields \<subseteq> set device_descriptor_fields"
  "set (''roles'' # intent_fusion_fields) \<subseteq> set device_descriptor_fields"
  by (simp_all add: intent_device_fields_def intent_fusion_fields_def device_descriptor_fields_def)

lemma by_device_id_member:
  "by_device_id ds = Inr kvs \<Longrightarrow> map_of kvs i = Some d \<Longrightarrow> d \<in> set ds \<and> str_at d ''id'' = Inr i"
proof -
  have "foldE (\<lambda>ds d. ebind (str_at d ''id'') (\<lambda>i. Inr (set_field i d ds))) acc ds = Inr kvs \<Longrightarrow> map_of kvs i = Some d \<Longrightarrow>
      (d \<in> set ds \<and> str_at d ''id'' = Inr i) \<or> map_of acc i = Some d" for acc
  proof (induction ds arbitrary: acc)
    case (Cons x ds)
    from Cons.prems(1) obtain k where k: "str_at x ''id'' = Inr k"
      "foldE (\<lambda>ds d. ebind (str_at d ''id'') (\<lambda>i. Inr (set_field i d ds))) (set_field k x acc) ds = Inr kvs"
      by (auto simp: res)
    from Cons.IH [OF k(2) Cons.prems(2)] k(1) show ?case by (auto simp: map_of_set_field split: if_splits)
  qed simp
  from this [of "[]"] show "by_device_id ds = Inr kvs \<Longrightarrow> map_of kvs i = Some d \<Longrightarrow> d \<in> set ds \<and> str_at d ''id'' = Inr i"
    by (simp add: by_device_id_def)
qed

lemma merged_nodes:
  "map_of (foldl (\<lambda>acc (k, v). set_field k v acc) ds fs) i = Some node \<Longrightarrow> (i, node) \<in> set fs \<or> map_of ds i = Some node"
proof (induction fs arbitrary: ds)
  case (Cons f fs)
  obtain k v where f: "f = (k, v)" by (cases f)
  from Cons.prems have "map_of (foldl (\<lambda>acc (k, v). set_field k v acc) (set_field k v ds) fs) i = Some node" by (simp add: f)
  from Cons.IH [OF this] show ?case by (auto simp: f map_of_set_field split: if_splits)
qed simp

lemma all_nodes_valid:
  assumes "all_nodes intent = Inr (devices, nodes)" and "map_of nodes i = Some node" and "clean_nodes intent"
  shows "validate_descriptor i node = Inr ()"
proof -
  from assms(1) obtain ds fs fusions where ds: "items_get intent ''devices'' = Inr ds" "by_device_id ds = Inr devices"
    and fs: "items_get intent ''fusion_nodes'' = Inr fs" "mapE fusion_node fs = Inr fusions"
    and n: "nodes = foldl (\<lambda>acc (k, v). set_field k v acc) devices fusions"
    unfolding all_nodes_def by (auto simp: res)
  from merged_nodes [OF assms(2) [unfolded n]] show ?thesis
  proof
    assume "(i, node) \<in> set fusions"
    with mapE_Inr_set [OF fs(2)] obtain f where f: "f \<in> set fs" "fusion_node f = Inr (i, node)" by blast
    then obtain kvs where kvs: "f = JObj kvs" "str_at f ''id'' = Inr i" "node = JObj (set_field ''roles'' (jstrs [''fusion'']) kvs)"
      by (cases f) (auto simp: fusion_node_def res)
    have "clean_node intent_fusion_fields f"
      using assms(3) f(1) fs(1) by (auto simp: clean_nodes_def members_def)
    from clean_node_roles [OF this [unfolded kvs(1)]] have c: "clean_node (''roles'' # intent_fusion_fields) node"
      unfolding kvs(3) .
    have "str_at node ''id'' = Inr i" using kvs(1,2) unfolding kvs(3) by (simp add: str_at_def map_of_set_field)
    moreover have "roles_ok (map_of (set_field ''roles'' (jstrs [''fusion'']) kvs) ''roles'')"
      by (simp add: map_of_set_field roles_ok_def jstrs_def)
    ultimately show ?thesis using clean_node_valid [OF _ descriptor_fields(2)] c unfolding kvs(3) by blast
  next
    assume "map_of devices i = Some node"
    from by_device_id_member [OF ds(2) this] have d: "node \<in> set ds" "str_at node ''id'' = Inr i" by simp_all
    then have c: "clean_node intent_device_fields node" "clean_roles node"
      using assms(3) ds(1) by (auto simp: clean_nodes_def members_def)
    then obtain kvs where kvs: "node = JObj kvs" by (auto simp: clean_node_def split: json.splits)
    have "roles_ok (map_of kvs ''roles'')"
      using c(2) unfolding kvs by (auto simp: clean_roles_def roles_ok_def field_def jget_def split: json.splits list.splits option.splits)
    then show ?thesis using clean_node_valid [OF _ descriptor_fields(1)] c(1) d(2) unfolding kvs by blast
  qed
qed

lemma owned_device_valid:
  assumes "owned_device nodes adds d = Inr entry" and "additions_emitted intent adds" and "clean_intent intent"
    and "\<And>i node. map_of nodes i = Some node \<Longrightarrow> validate_descriptor i node = Inr ()"
  shows "validate_device entry = Inr ()"
  using assms(1)
proof (rule owned_deviceD)
  fix items keys node descriptor
  assume i: "set items = snd ` {a \<in> set adds. fst a = d}" and k: "mapE resource_key items = Inr keys" "distinct keys"
    and n: "map_of nodes d = Some node" "owned_descriptor node = Inr descriptor"
    and e: "entry = (d, JObj [(''device'', descriptor), (''resources'', JArr items)])"
  have "validate_resource x = resource_key x" if "x \<in> set items" for x
  proof -
    from that i assms(2) have "emitted intent x" by auto
    then show ?thesis using assms(3) by (rule emitted_key) simp
  qed
  then have "mapE validate_resource items = Inr keys" using k(1) by (simp cong: mapE_cong)
  then show ?thesis
    using owned_descriptor_valid [OF assms(4) [OF n(1)] n(2)] k(2) by (simp add: validate_device_def e jget_def jget_default_def)
qed

text \<open>
  C32: the manifest built for a clean intent passes the validation that guards every use of a
  manifest: the builder writes only device descriptors, removal commands, gate commands and digests
  that the validator accepts. A descriptor may carry every field that the schema of the intent
  gives a device or a fusion node. The names and addresses of the policies are assumed to be
  printable in commands, and their group ranges to have no scope identifier: \<open>ip_network\<close> keeps
  one, whatever its characters, and the builder prints it.
\<close>

theorem owned_state_validates:
  assumes "build_multicast_owned_state intent = Inr m" and "clean_intent intent" and "clean_nodes intent"
  shows "validate_owned_state m None = Inr ()"
  using assms(1)
proof (rule built_manifestE)
  fix applies adds nodes devices fid
  assume ad: "(if applies then multicast_additions intent (jor (field intent ''multicast'') (JObj [])) else Inr ([], []))
      = Inr (adds, nodes)"
    and d: "mapE (owned_device nodes adds) (sorted_set (map fst adds)) = Inr devices"
    and e: "additions_emitted intent adds" and m: "m = owned_manifest fid intent devices"
  have "validate_descriptor i node = Inr ()" if "map_of nodes i = Some node" for i node
  proof (cases applies)
    case True
    with ad obtain devs where "all_nodes intent = Inr (devs, nodes)"
      unfolding multicast_additions_def by (auto simp: ebind_Inr)
    then show ?thesis using that assms(3) by (rule all_nodes_valid)
  qed (use ad that in simp)
  then have "\<forall>x \<in> set devices. validate_device x = Inr ()"
    using mapE_Inr_set [OF d] owned_device_valid [OF _ e assms(2)] by blast
  then have "mapE validate_device devices = Inr (map (\<lambda>_. ()) devices)" by (intro mapE_total) simp
  then show ?thesis
    by (simp add: validate_owned_state_def m owned_manifest_def Let_def jget_def jget_default_def del_field_def)
qed

section \<open>A sample intent\<close>

text \<open>One border that takes part in one source-specific policy, without pools or handoff.\<close>

definition sample_mc_policy :: json where
  "sample_mc_policy =
     JObj [(''vrf'', JStr ''BLUE''), (''virtual_network'', JStr ''BLUE''), (''l3_instance_id'', JInt 4099),
           (''access_list'', JStr ''SDA-MCAST-0A''), (''group_range'', JStr ''232.0.0.0/8''), (''mode'', JStr ''ssm''),
           (''segment_loopbacks'', JArr [JObj [(''device_id'', JStr ''b1''), (''address'', JStr ''10.1.0.1'')]]),
           (''core_group'', JObj [(''start'', JStr ''232.1.0.0''), (''count'', JInt 100)])]"

definition sample_mc_node :: json where
  "sample_mc_node = JObj [(''id'', JStr ''b1''), (''hostname'', JStr ''border-1''), (''site'', JStr ''hq''), (''platform'', JStr ''c9500''),
     (''software_version'', JStr ''17.12.3''), (''management_ip'', JStr ''10.0.0.1''), (''loopback0_ip'', JStr ''10.0.1.1''),
     (''roles'', JArr [JStr ''border'']), (''credential_ref'', JStr ''secret://device'')]"

definition sample_mc_intent :: "bool \<Rightarrow> json" where
  "sample_mc_intent enabled =
     JObj [(''schema_version'', JStr ''1.2''), (''fabric'', JObj [(''id'', JStr ''f1'')]),
           (''devices'', JArr [sample_mc_node]),
           (''multicast'', JObj [(''enabled'', JBool enabled), (''transport'', JStr ''native''),
              (''overlay_policies'', JArr [sample_mc_policy])])]"

lemmas sample_mc_defs = sample_mc_intent_def sample_mc_node_def sample_mc_policy_def

lemma sample_network: "network_text ''232.0.0.0/8'' = Inr (''232.0.0.0'', ''0.255.255.255'')"
proof -
  have t: "net_str (Net 3892314112 8) = ''232.0.0.0/8''" "addr_str 3892314112 = ''232.0.0.0''" "addr_str 16777215 = ''0.255.255.255''"
    by (simp_all add: net_str_def addr_str_def nat_str.simps digit_char_def char_of_def bit_0)
  have "parse_net (net_str (Net 3892314112 8)) = Some (Net 3892314112 8)"
    by (rule parse_net_str) (simp add: wf_net_def net_size_def)
  then show ?thesis by (simp add: network_text_def t hostmask_def net_size_def)
qed

lemma resource_key_resource [simp]: "resource_key (resource key kind cl rc g fl n) = Inr key"
  by (simp add: resource_key_def str_at_def resource_def Let_def)

lemmas sample_resources = routing_resource_def acl_resource_def policy_resource_def segment_loopback_resource_def
  lisp_interface_resource_def lisp_mapping_resource_def

lemma sort_by_total: "mapE f xs = Inr ks \<Longrightarrow> \<exists>ys. sort_by f xs = Inr ys \<and> (\<exists>ls. mapE f ys = Inr ls \<and> mset ls = mset ks)"
proof -
  assume m: "mapE f xs = Inr ks"
  then have p: "mapE (\<lambda>x. ebind (f x) (\<lambda>k. Inr (k, x))) xs = Inr (zip ks xs)"
    by (induction xs arbitrary: ks) (auto simp: ebind_Inr)
  have k: "\<forall>p \<in> set (zip ks xs). f (snd p) = Inr (fst p)" using mapE_pairs_fst [OF p] by blast
  have "mapE f (map snd qs) = Inr (map fst qs)" if "\<forall>p \<in> set qs. f (snd p) = Inr (fst p)" for qs
    using that by (induction qs) auto
  then have "mapE f (map snd (sort_key fst (zip ks xs))) = Inr (map fst (sort_key fst (zip ks xs)))" using k by simp
  moreover have "mset (map fst (sort_key fst (zip ks xs))) = mset (map fst (zip ks xs))" by simp
  then have "mset (map fst (sort_key fst (zip ks xs))) = mset ks"
    using mapE_Inr_length [OF m] by (simp only: map_fst_zip)
  ultimately show ?thesis by (auto simp: sort_by_def p)
qed

lemma owned_device_total:
  assumes "mapE resource_key (map snd (filter (\<lambda>a. fst a = d) adds)) = Inr keys" and "distinct keys"
    and "map_of nodes d = Some node" and "owned_descriptor node = Inr descriptor"
  shows "\<exists>entry. owned_device nodes adds d = Inr entry"
proof -
  from sort_by_total [OF assms(1)] obtain ys ls where
    y: "sort_by resource_key (map snd (filter (\<lambda>a. fst a = d) adds)) = Inr ys" "mapE resource_key ys = Inr ls" "mset ls = mset keys"
    by blast
  have "distinct ls" using y(3) assms(2) by (metis mset_eq_imp_distinct_iff)
  with y assms(3,4) show ?thesis by (simp add: owned_device_def)
qed

definition sample_mc_additions :: additions where
  "sample_mc_additions = map (\<lambda>r. (''b1'', r))
     [routing_resource ''BLUE'',
      acl_resource ''BLUE'' ''SDA-MCAST-0A'' [''ip access-list standard SDA-MCAST-0A'', ''10 permit 232.0.0.0 0.255.255.255''],
      policy_resource ''BLUE'' [''ip pim vrf BLUE ssm range SDA-MCAST-0A''],
      segment_loopback_resource 4099 ''10.1.0.1'', lisp_interface_resource 4099 ''232.1.0.0'' 100,
      lisp_mapping_resource 4099 ''10.1.0.1'' ''rloc_fabric'']"

lemma sample_mc_nodes: "all_nodes (sample_mc_intent e) = Inr ([(''b1'', sample_mc_node)], [(''b1'', sample_mc_node)])"
  by (simp add: sample_mc_intent_def sample_mc_node_def all_nodes_def items_get_def jget_default_def by_device_id_def str_at_def)

lemma sample_mc_policy_additions:
  "policy_additions (JObj []) [(''b1'', sample_mc_node)] [] ''rloc_fabric'' sample_mc_policy = Inr sample_mc_additions"
  by (simp add: sample_mc_policy_def sample_mc_node_def policy_additions_def str_at_def int_at_def acl_lines_def sample_network
      segment_by_device_def items_get_def jget_default_def sorted_set_def participant_resources_def owned_policy_lines_def
      segment_resources_def py_set_def hashable_def edge_resources_def border_resources_def handoff_peers_of_def filterE_def
      sort_by_def sample_mc_additions_def Let_def cong: ebind_weak_cong let_weak_cong)

lemma sample_mc_fields:
  "field (sample_mc_intent e) ''multicast'' = JObj [(''enabled'', JBool e), (''transport'', JStr ''native''),
      (''overlay_policies'', JArr [sample_mc_policy])]"
  "field (sample_mc_intent e) ''border_handoff'' = JNull" "field (sample_mc_intent e) ''lisp'' = JNull"
  "field (sample_mc_intent e) ''endpoint_pools'' = JNull"
  "items_get (sample_mc_intent e) ''endpoint_pools'' = Inr []"
  "items_get (sample_mc_intent e) ''devices'' = Inr [sample_mc_node]"
  by (simp_all add: sample_mc_intent_def field_def jget_def items_get_def jget_default_def)

lemma sample_mc_multicast_additions:
  "multicast_additions (sample_mc_intent e) (field (sample_mc_intent e) ''multicast'')
     = Inr (sample_mc_additions, [(''b1'', sample_mc_node)])"
proof -
  have u: "underlay_additions (sample_mc_intent e) (field (sample_mc_intent e) ''multicast'') [(''b1'', sample_mc_node)] = Inr []"
    unfolding sample_mc_fields
    by (simp add: sample_mc_intent_def underlay_additions_def jget_def jget_default_def jor_def strs_get_def items_get_def int_get_def)
  have g: "items_get (field (sample_mc_intent e) ''multicast'') ''l2_bum_groups'' = Inr []"
    "items_get sample_mc_node ''roles'' = Inr [JStr ''border'']"
    unfolding sample_mc_fields by (simp_all add: items_get_def jget_default_def sample_mc_node_def)
  have b: "bum_additions (sample_mc_intent e) (field (sample_mc_intent e) ''multicast'') = Inr []"
    by (simp add: bum_additions_def sample_mc_fields(5,6) g edge_id_def is_edge_device_def py_set_def hashable_def sort_by_def)
  have h: "section_of (sample_mc_intent e) ''border_handoff'' = Inr (JObj [])" "section_of (sample_mc_intent e) ''lisp'' = Inr (JObj [])"
    by (simp_all add: section_of_def sample_mc_intent_def jget_def jget_default_def jor_def)
  have p: "overlay_policies (field (sample_mc_intent e) ''multicast'') = Inr [sample_mc_policy]"
    unfolding sample_mc_fields
    by (simp add: overlay_policies_def items_get_def jget_default_def sort_by_def int_at_def sample_mc_policy_def)
  show ?thesis
    by (simp add: multicast_additions_def sample_mc_nodes u b h p sample_mc_fields(5,6) str_get_def jget_default_def
        sample_mc_policy_additions)
qed

lemma sample_mc_built: "\<exists>m. build_multicast_owned_state (sample_mc_intent e) = Inr m"
proof (cases e)
  case True
  have "mapE resource_key (map snd (filter (\<lambda>a. fst a = ''b1'') sample_mc_additions))
      = Inr [''multicast.overlay.routing:BLUE'', ''multicast.overlay.acl:BLUE'', ''multicast.overlay.policy:BLUE'',
             ''multicast.overlay.segment_loopback:'' @ int_str 4099, ''multicast.overlay.lisp_interface:'' @ int_str 4099,
             ''multicast.overlay.lisp_mapping:'' @ int_str 4099]"
    by (simp add: sample_mc_additions_def sample_resources Let_def)
  moreover have "\<exists>d. owned_descriptor sample_mc_node = Inr d"
    by (simp add: owned_descriptor_def sample_mc_node_def items_get_def jget_default_def py_set_def hashable_def py_sorted_def)
  ultimately obtain entry where d: "owned_device [(''b1'', sample_mc_node)] sample_mc_additions ''b1'' = Inr entry"
    using owned_device_total [of "''b1''" sample_mc_additions _ "[(''b1'', sample_mc_node)]" sample_mc_node] by fastforce
  have s: "sorted_set (map fst sample_mc_additions) = [''b1'']" by (simp add: sample_mc_additions_def sorted_set_def)
  have a: "section_of (sample_mc_intent e) ''multicast'' = Inr (field (sample_mc_intent e) ''multicast'')"
    "multicast_applies (sample_mc_intent e) (field (sample_mc_intent e) ''multicast'') = Inr True"
    unfolding sample_mc_fields
    by (simp_all add: section_of_def sample_mc_intent_def jget_def jget_default_def jor_def multicast_applies_def True)
  have f: "jidx (sample_mc_intent e) ''fabric'' = Inr (JObj [(''id'', JStr ''f1'')])" by (simp add: sample_mc_intent_def)
  show ?thesis
    by (simp add: build_multicast_owned_state_def a f str_at_def sample_mc_multicast_additions s d)
next
  case False
  then show ?thesis
    by (simp add: sample_mc_intent_def build_multicast_owned_state_def section_of_def multicast_applies_def jget_def
        jget_default_def jor_def str_at_def sorted_set_def)
qed

lemma sample_mc_members:
  "policies_of (sample_mc_intent e) = {sample_mc_policy}" "peers_in (sample_mc_intent e) = {}"
  "members (sample_mc_intent e) ''devices'' = {sample_mc_node}" "members (sample_mc_intent e) ''endpoint_pools'' = {}"
  "fabric_multicast (sample_mc_intent e) = JObj []"
  "members (jor (field (sample_mc_intent e) ''multicast'') (JObj [])) ''l2_bum_groups'' = {}"
  "members sample_mc_policy ''segment_loopbacks'' = {JObj [(''device_id'', JStr ''b1''), (''address'', JStr ''10.1.0.1'')]}"
  by (auto simp: policies_of_def peers_in_def members_def fabric_multicast_def sample_mc_fields jor_def items_get_def
      jget_default_def sample_mc_policy_def)
    (auto simp: sample_mc_intent_def)

lemma sample_mc_clean: "clean_intent (sample_mc_intent e)"
  by (simp add: clean_intent_def clean_policies_def sample_mc_members text_ok_def num_ok_def)
    (simp add: sample_mc_fields sample_mc_policy_def sample_mc_node_def str_at_def int_at_def str_get_def int_get_def
      jget_default_def jor_def text_in_def name_chars plain_chars addr_class_def in_class_def is_alnum_def is_lower_def is_digit_def)

lemma sample_mc_clean_nodes: "clean_nodes (sample_mc_intent e)"
proof -
  have "members (sample_mc_intent e) ''fusion_nodes'' = {}"
    by (simp add: members_def sample_mc_intent_def items_get_def jget_default_def)
  then show ?thesis
    by (simp add: clean_nodes_def sample_mc_members(3) clean_node_def clean_roles_def sample_mc_node_def intent_device_fields_def
        is_text_def has_break_def newline_def creturn_def starts_with_def field_def jget_def)
qed

theorem owned_state_validates_witness:
  "\<exists>m. build_multicast_owned_state (sample_mc_intent True) = Inr m \<and> validate_owned_state m None = Inr ()"
proof -
  obtain m where m: "build_multicast_owned_state (sample_mc_intent True) = Inr m" using sample_mc_built by blast
  with owned_state_validates [OF m sample_mc_clean sample_mc_clean_nodes] show ?thesis by blast
qed

section \<open>Turning multicast off\<close>

text \<open>
  C33: an intent for which native multicast does not apply owns nothing, so its reconciliation
  removes, on every device, exactly what the baseline owns there.
\<close>

theorem disabled_multicast_is_removed:
  assumes "build_multicast_owned_state intent = Inr m"
    and "multicast_applies intent (jor (field intent ''multicast'') (JObj [])) = Inr False"
    and "build_multicast_reconciliation (Some b) m = Inr plan" and "wf_json b"
  shows "set (map (\<lambda>blk. field blk ''owned_resource_key'') (plan_blocks plan d))
    = {JStr k | k item. ((d, k), item) \<in> set (owned_resources (field b ''manifest''))}"
proof -
  from assms(1,2) obtain fid where m: "m = owned_manifest fid intent []"
    by (auto elim!: built_manifestE simp: sorted_set_def)
  then have none: "owned_resources m = []" and wf: "wf_json m"
    by (simp_all add: owned_manifest_def Let_def owned_resources_def)
  have "plan_blocks plan d = map removal_block (removals_on d (sorted_stale (field b ''manifest'') m))"
    using assms(3,4) wf by (rule reconciliationE) blast
  moreover have "set (sorted_stale (field b ''manifest'') m) = set (owned_resources (field b ''manifest''))"
    by (auto simp: sorted_stale_def stale_in_def none)
  ultimately show ?thesis
    by (force simp: removals_on_def removal_block_def removal_rec_def image_iff)
qed

lemma sample_originator_fields:
  "jidx sample_originator ''remove_commands'' = Inr (jstrs [''no ip msdp originator-id Loopback0''])"
  "jidx sample_originator ''forbidden_lines'' = Inr (jstrs [''ip msdp originator-id Loopback0''])"
  "\<exists>h. jidx sample_originator ''remove_command_hash'' = Inr h"
  "\<exists>g. jidx sample_originator ''gate_command'' = Inr g"
  "jget_default sample_originator ''remove_order'' (JInt 0) = Inr (JInt 250)"
  by (simp_all add: sample_originator_def resource_def Let_def)

lemma sample_full_removal:
  assumes "resource_index m = Inr []"
  shows "\<exists>x. plan_removals (sample_manifest [sample_routing, sample_originator]) m = Inr x"
proof -
  obtain h g h' g' where f: "jidx sample_routing ''remove_command_hash'' = Inr h" "jidx sample_routing ''gate_command'' = Inr g"
      "jidx sample_originator ''remove_command_hash'' = Inr h'" "jidx sample_originator ''gate_command'' = Inr g'"
    using sample_routing_fields sample_originator_fields by blast
  have "stale_resources (sample_manifest [sample_routing, sample_originator]) m
      = Inr [((''b1'', ''multicast.overlay.routing:BLUE''), sample_routing),
             ((''b1'', ''multicast.underlay.msdp_originator''), sample_originator)]"
    by (simp add: stale_resources_def sample_index assms filterE_def is_stale_def removal_key_def f sample_routing_fields
        sample_originator_fields)
  then show ?thesis
    by (simp add: plan_removals_def add_removal_def removal_of_def sample_manifest_fields sample_device_def
        f sample_routing_fields sample_originator_fields elems_jstrs Let_def)
qed

theorem disabled_multicast_is_removed_witness:
  "\<exists>m plan. build_multicast_owned_state (sample_mc_intent False) = Inr m
     \<and> build_multicast_reconciliation (Some sample_baseline) m = Inr plan
     \<and> JStr ''multicast.overlay.routing:BLUE'' \<in> set (map (\<lambda>blk. field blk ''owned_resource_key'') (plan_blocks plan ''b1''))"
proof -
  obtain m where b: "build_multicast_owned_state (sample_mc_intent False) = Inr m" using sample_mc_built by blast
  then have m: "m = owned_manifest ''f1'' (sample_mc_intent False) []"
    by (simp add: sample_mc_intent_def build_multicast_owned_state_def section_of_def multicast_applies_def jget_def
        jget_default_def jor_def str_at_def sorted_set_def)
  have a: "multicast_applies (sample_mc_intent False) (jor (field (sample_mc_intent False) ''multicast'') (JObj [])) = Inr False"
    unfolding sample_mc_fields by (simp add: sample_mc_intent_def jget_def jget_default_def jor_def multicast_applies_def)
  have v: "validate_owned_state m None = Inr ()"
    by (simp add: validate_owned_state_def m owned_manifest_def Let_def jget_def jget_default_def del_field_def)
  have fm: "jidx m ''fabric_id'' = Inr (JStr ''f1'')" "\<exists>h. jidx m ''manifest_hash'' = Inr h" "resource_index m = Inr []"
    by (simp_all add: m owned_manifest_def Let_def resource_index_def jget_default_def)
  obtain x where x: "plan_removals (sample_manifest [sample_routing, sample_originator]) m = Inr x"
    using sample_full_removal [OF fm(3)] by blast
  have vb: "validate_baseline sample_baseline ''f1'' = Inr ()"
    using sample_baseline(1)
    by (rule make_baseline_validates) (simp_all add: source_proved_def sample_hash_any sample_manifest_def hashed_def)
  obtain plan where p: "build_multicast_reconciliation (Some sample_baseline) m = Inr plan"
    using fm(2) sample_baseline(4)
    by (cases x) (auto simp: build_multicast_reconciliation_def v vb fm(1) sample_baseline(3) x sample_manifest_fields Let_def)
  have "((''b1'', ''multicast.overlay.routing:BLUE''), sample_routing) \<in> set (owned_resources (field sample_baseline ''manifest''))"
    by (simp add: sample_baseline(2) sample_owned)
  with disabled_multicast_is_removed [OF b a p sample_baseline(5), of "''b1''"] b p show ?thesis by blast
qed

end
