(* ===== verification/RenderBase.thy ===== *)
theory RenderBase
  imports OwnedState
begin

text \<open>
  The configuration renderer (\<open>renderer.py\<close>): the check of the values that reach a command, the
  names of owned objects, blocks of commands, and the reading of documents that its parts share.
\<close>

section \<open>Values in commands\<close>

text \<open>\<open>SAFE_TOKEN\<close> and, with spaces, \<open>SAFE_TEXT\<close>.\<close>

definition safe_chars :: "bool \<Rightarrow> string \<Rightarrow> bool" where
  "safe_chars spaces s \<longleftrightarrow> s \<noteq> [] \<and> list_all (in_class (if spaces then ''_.:/ -'' else ''_.:/-'')) s"

definition safe_text :: "bool \<Rightarrow> string \<Rightarrow> string \<Rightarrow> string result" where
  "safe_text spaces label s =
     (if s = [] \<or> \<not> safe_chars spaces s \<or> has_break s then Inl (RenderError (''Unsafe value for '' @ label)) else Inr s)"

text \<open>\<open>_safe(v[k], label)\<close> and \<open>_safe(v[k], label, True)\<close>\<close>

definition safe_at :: "json \<Rightarrow> string \<Rightarrow> string \<Rightarrow> string result" where
  "safe_at v k label = (ebind (str_at v k) (\<lambda>s.
     safe_text False label s))"

definition text_at :: "json \<Rightarrow> string \<Rightarrow> string \<Rightarrow> string result" where
  "text_at v k label = (ebind (str_at v k) (\<lambda>s.
     safe_text True label s))"

definition policy_name :: "string \<Rightarrow> string \<Rightarrow> string result" where
  "policy_name kind value =
     (ebind (safe_text False ''policy kind'' kind) (\<lambda>safe_kind.
        Inr (''SDA-'' @ safe_kind @ ''-'' @ upper (take 12 (sha256_json (JStr value))))))"

definition octet3 :: "nat \<Rightarrow> string" where
  "octet3 n = (if n < 10 then ''00'' else if n < 100 then ''0'' else []) @ nat_str n"

definition isis_digits :: "nat \<Rightarrow> string" where
  "isis_digits a = octet3 (a div 16777216) @ octet3 (a div 65536 mod 256) @ octet3 (a div 256 mod 256) @ octet3 (a mod 256)"

text \<open>The part of an IPv6 address before the first dot holds a colon, so that \<open>int\<close> of it raises.\<close>

definition isis_net :: "string \<Rightarrow> string \<Rightarrow> string result" where
  "isis_net loopback_ip area =
     (ebind (ip_address loopback_ip) (\<lambda>address.
        (case address of
            V6 gs scope \<Rightarrow> Inl (ValueError ''invalid literal for int()'')
          | V4 a \<Rightarrow>
              (ebind (safe_text False ''IS-IS area'' area) (\<lambda>safe_area.
                 let d = isis_digits a in
                 Inr (safe_area @ ''.'' @ take 4 d @ ''.'' @ take 4 (drop 4 d) @ ''.'' @ take 4 (drop 8 d) @ ''.00''))))))"

text \<open>
  \<open>ip_network(s)\<close>: the texts of its address, netmask and hostmask, and of the network. The address
  of an IPv6 network keeps its scope identifier, the masks have none.
\<close>

record net_texts =
  nt_address :: string
  nt_netmask :: string
  nt_hostmask :: string
  nt_network :: string

definition groups_of :: "nat \<Rightarrow> nat list" where
  "groups_of v = map (\<lambda>i. v div 65536 ^ (7 - i) mod 65536) [0..<8]"

definition net6_texts :: "string \<Rightarrow> net_texts" where
  "net6_texts s =
     (let parts = split_on (CHR ''/'') s; address = scoped6_str (the (parse_scoped6 (hd parts)));
          l = (case tl parts of [] \<Rightarrow> 128 | p # _ \<Rightarrow> digits_val p); size6 = (2::nat) ^ (128 - l) in
      \<lparr>nt_address = address, nt_netmask = addr6_str (groups_of (2 ^ 128 - size6)), nt_hostmask = addr6_str (groups_of (size6 - 1)),
       nt_network = address @ ''/'' @ nat_str l\<rparr>)"

definition net_texts :: "string \<Rightarrow> net_texts result" where
  "net_texts s =
     (case parse_net s of
        Some n \<Rightarrow> Inr \<lparr>nt_address = addr_str (net_addr n), nt_netmask = addr_str (2 ^ 32 - net_size n),
                       nt_hostmask = addr_str (hostmask n), nt_network = net_str n\<rparr>
      | None \<Rightarrow> (if is_net6 s then Inr (net6_texts s) else Inl (ValueError ''does not appear to be an IPv4 or IPv6 network'')))"

definition net_at_key :: "json \<Rightarrow> string \<Rightarrow> net_texts result" where
  "net_at_key v k = (ebind (str_at v k) (\<lambda>s.
     net_texts s))"

section \<open>Blocks\<close>

definition secret_text :: "string \<Rightarrow> string" where
  "secret_text ref = ''<secret:'' @ ref @ ''>''"

definition block :: "string \<Rightarrow> string list \<Rightarrow> string list \<Rightarrow> json" where
  "block block_id commands secret_refs =
     (let filtered = filter (\<lambda>c. c \<noteq> []) commands in
      JObj [(''block_id'', JStr block_id), (''commands'', jstrs filtered), (''command_hash'', JStr (commands_hash filtered)),
            (''secret_refs'', jstrs (sorted_set secret_refs))])"

section \<open>Documents\<close>

text \<open>\<open>next((x for x in xs if p(x)), None)\<close>\<close>

fun findE :: "('a \<Rightarrow> bool result) \<Rightarrow> 'a list \<Rightarrow> 'a option result" where
  "findE p [] = Inr None"
| "findE p (x # xs) = (ebind (p x) (\<lambda>b.
   (if b then Inr (Some x) else findE p xs)))"

text \<open>\<open>{item[k]: item for item in v}\<close> and a subscript of it: the last item counts.\<close>

definition keyed_by :: "string \<Rightarrow> json list \<Rightarrow> (json \<times> json) list result" where
  "keyed_by k items =
     (ebind (mapE (\<lambda>item. (ebind (jidx item k) (\<lambda>key.
        ebind (raise_if (\<not> hashable key) TypeError) (\<lambda>_.
        Inr (key, item))))) items) (\<lambda>entries.
        Inr (rev entries)))"

definition keyed_at :: "(json \<times> json) list \<Rightarrow> json \<Rightarrow> json result" where
  "keyed_at table key =
     (ebind (raise_if (\<not> hashable key) TypeError) (\<lambda>_.
        of_option (KeyError (py_str key)) (map_of table key)))"

text \<open>\<open>role in v.get("roles", [])\<close> and \<open>role in set(v.get("roles", []))\<close>\<close>

definition listed_role :: "string \<Rightarrow> json \<Rightarrow> bool result" where
  "listed_role role device = (ebind (jget_default device ''roles'' (JArr [])) (\<lambda>roles.
     contains_key role roles))"

definition role_set :: "json \<Rightarrow> json list result" where
  "role_set device = (ebind (items_get device ''roles'') (\<lambda>raw.
     py_set raw))"

definition device_roles :: "json \<Rightarrow> string \<Rightarrow> json list result" where
  "device_roles intent role =
     (ebind (items_at intent ''devices'') (\<lambda>devices.
        ebind (filterE (listed_role role) devices) (\<lambda>own.
        sort_by (\<lambda>d. str_at d ''id'') own)))"

text \<open>\<open>str(x.get(k)) == i\<close> and \<open>str(x.get(k, "")) == i\<close>\<close>

definition names :: "string \<Rightarrow> string \<Rightarrow> json \<Rightarrow> bool result" where
  "names k i item = (ebind (jget item k) (\<lambda>v.
     Inr (py_str v = i)))"

definition names_or_empty :: "string \<Rightarrow> string \<Rightarrow> json \<Rightarrow> bool result" where
  "names_or_empty k i item = (ebind (str_get item k []) (\<lambda>s.
     Inr (s = i)))"

text \<open>\<open>v.get(k) not in {None, "none"}\<close> of the mode of the policy plane\<close>

definition has_mode :: "json \<Rightarrow> bool result" where
  "has_mode policy_plane =
     (ebind (jget policy_plane ''mode'') (\<lambda>mode.
        ebind (raise_if (\<not> hashable mode) TypeError) (\<lambda>_.
        Inr (mode \<noteq> JNull \<and> mode \<noteq> JStr ''none''))))"

definition locator_set :: "json \<Rightarrow> string result" where
  "locator_set intent =
     (ebind (jget_default intent ''lisp'' (JObj [])) (\<lambda>lisp.
        ebind (str_get lisp ''locator_set'' ''rloc_fabric'') (\<lambda>raw.
        safe_text False ''locator set'' raw)))"

end
