(* ===== verification/RenderUnderlay.thy ===== *)
theory RenderUnderlay
  imports RenderBase
begin

text \<open>
  \<open>_underlay_blocks\<close> (\<open>renderer.py\<close>): system settings, the loopback, IS-IS, the rendezvous point
  with its MSDP peers, and the fabric links of a device.
\<close>

section \<open>System, loopback, IS-IS\<close>

definition system_commands :: "int \<Rightarrow> json \<Rightarrow> bool \<Rightarrow> string list result" where
  "system_commands mtu multicast enabled =
     (if \<not> enabled then Inr [''system mtu '' @ int_str mtu, ''ip routing'']
      else (ebind (jget_default multicast ''ssm_default'' (JBool True)) (\<lambda>ssm_default.
         ebind (jget multicast ''rp_address'') (\<lambda>rp.
         ebind ((if \<not> truthy rp then Inr []
                            else (ebind (safe_at multicast ''rp_address'' ''multicast RP address'') (\<lambda>a.
                               Inr [''ip pim rp-address '' @ a])))) (\<lambda>rp_lines.
         Inr ([''system mtu '' @ int_str mtu, ''ip routing'', ''ip multicast-routing'', ''ip pim register-source Loopback0'']
                    @ (if truthy ssm_default then [''ip pim ssm default''] else []) @ rp_lines))))))"

definition loopback_commands :: "json \<Rightarrow> string \<Rightarrow> bool \<Rightarrow> string list result" where
  "loopback_commands device area_tag enabled =
     (ebind (text_at device ''hostname'' ''hostname'') (\<lambda>hostname.
        ebind (safe_at device ''loopback0_ip'' ''loopback address'') (\<lambda>address.
        Inr ([''interface Loopback0'', '' description Fabric RLOC '' @ hostname, '' ip address '' @ address @ '' 255.255.255.255'']
              @ (if enabled then ['' ip pim sparse-mode''] else [])
              @ ['' ip router isis '' @ area_tag, '' no shutdown'']))))"

definition isis_commands :: "json \<Rightarrow> string \<Rightarrow> string \<Rightarrow> string list result" where
  "isis_commands device area_tag area =
     (ebind (str_at device ''loopback0_ip'') (\<lambda>loopback.
        ebind (isis_net loopback area) (\<lambda>net.
        Inr [''router isis '' @ area_tag, '' net '' @ net, '' is-type level-2-only'', '' metric-style wide'', '' log-adjacency-changes'',
              '' bfd all-interfaces'', '' nsf ietf'', '' passive-interface Loopback0''])))"

section \<open>The rendezvous point\<close>

definition is_rp_device :: "json \<Rightarrow> json \<Rightarrow> string list \<Rightarrow> string \<Rightarrow> bool result" where
  "is_rp_device intent device rps device_id =
     (if rps \<noteq> [] then Inr (device_id \<in> set rps)
      else (ebind (jget intent ''schema_version'') (\<lambda>version.
         (if py_str version = ''1.2'' then Inr False
                else (ebind (role_set device) (\<lambda>roles.
                   Inr (JStr ''border'' \<in> set roles)))))))"

definition msdp_blocks :: "json \<Rightarrow> string list \<Rightarrow> string \<Rightarrow> json list result" where
  "msdp_blocks intent rps device_id =
     (ebind (items_get intent ''devices'') (\<lambda>devices.
        ebind (by_device_id devices) (\<lambda>by_id.
        ebind (mapE (publisher_address by_id \<circ> JStr) (filter (\<lambda>p. p \<noteq> device_id \<and> map_of by_id p \<noteq> None) (remdups rps))) (\<lambda>unsorted.
        ebind (mapE (safe_text False ''MSDP peer'') (sort unsorted)) (\<lambda>peers.
        Inr (if peers = [] then []
              else [block ''multicast_msdp'' (map (\<lambda>a. ''ip msdp peer '' @ a @ '' connect-source Loopback0'') peers
                      @ [''ip msdp cache-sa-state'', ''ip msdp originator-id Loopback0'']) []]))))))"

definition rp_blocks :: "json \<Rightarrow> json \<Rightarrow> json \<Rightarrow> string list \<Rightarrow> string \<Rightarrow> string \<Rightarrow> json list result" where
  "rp_blocks intent multicast multicast_intent rps device_id area_tag =
     (ebind (int_get multicast ''rp_loopback_id'' 60000) (\<lambda>loopback_id.
        ebind (safe_at multicast ''rp_address'' ''multicast RP address'') (\<lambda>address.
        ebind (jget multicast_intent ''rp_mode'') (\<lambda>mode.
        ebind ((if mode = JStr ''anycast'' then msdp_blocks intent rps device_id else Inr [])) (\<lambda>msdp.
        Inr (block ''multicast_rp_loopback''
                [''interface Loopback'' @ int_str loopback_id, '' description Fabric multicast RP'',
                 '' ip address '' @ address @ '' 255.255.255.255'', '' ip pim sparse-mode'', '' ip router isis '' @ area_tag,
                 '' no shutdown''] [] # msdp))))))"

section \<open>Links\<close>

definition default_bfd :: json where
  "default_bfd =
     JObj [(''enabled'', JBool True), (''interval_ms'', JInt 100), (''min_rx_ms'', JInt 100), (''multiplier'', JInt 3)]"

definition bfd_commands :: "json \<Rightarrow> string list result" where
  "bfd_commands bfd =
     (ebind (jget_default bfd ''enabled'' (JBool False)) (\<lambda>enabled.
        (if \<not> truthy enabled then Inr []
          else (ebind (int_at bfd ''interval_ms'') (\<lambda>interval.
             ebind (int_at bfd ''min_rx_ms'') (\<lambda>min_rx.
             ebind (int_at bfd ''multiplier'') (\<lambda>multiplier.
             Inr ['' bfd interval '' @ int_str interval @ '' min_rx '' @ int_str min_rx @ '' multiplier '' @ int_str multiplier])))))))"

definition link_commands :: "json \<Rightarrow> json \<Rightarrow> json \<Rightarrow> string \<Rightarrow> int \<Rightarrow> int \<Rightarrow> string list result" where
  "link_commands link here peer area_tag fabric_mtu ip_mtu =
     (ebind (net_at_key link ''subnet'') (\<lambda>network.
        ebind (safe_at here ''interface'' ''interface'') (\<lambda>interface.
        ebind (jget_default link ''pim_sparse_mode'' (JBool True)) (\<lambda>pim.
        ebind (jget link ''bfd'') (\<lambda>raw_bfd.
        ebind (text_at peer ''device_id'' ''peer device'') (\<lambda>peer_name.
        ebind (safe_at here ''ip'' ''link address'') (\<lambda>address.
        ebind (bfd_commands (jor raw_bfd default_bfd)) (\<lambda>bfd.
        Inr ([''interface '' @ interface, '' description Fabric link to '' @ peer_name, '' no switchport'',
               '' mtu '' @ int_str fabric_mtu, '' ip address '' @ address @ '' '' @ nt_netmask network, '' ip mtu '' @ int_str ip_mtu]
              @ (if truthy pim then ['' ip pim sparse-mode''] else [])
              @ ['' ip router isis '' @ area_tag, '' isis network point-to-point''] @ bfd @ ['' no shutdown''])))))))))"

definition on_device :: "string \<Rightarrow> json \<Rightarrow> bool result" where
  "on_device device_id endpoint = (ebind (jidx endpoint ''device_id'') (\<lambda>d.
     Inr (d = JStr device_id)))"

definition off_device :: "string \<Rightarrow> json \<Rightarrow> bool result" where
  "off_device device_id endpoint = (ebind (on_device device_id endpoint) (\<lambda>b.
     Inr (\<not> b)))"

definition link_blocks :: "string \<Rightarrow> string \<Rightarrow> int \<Rightarrow> int \<Rightarrow> json \<Rightarrow> json list result" where
  "link_blocks device_id area_tag fabric_mtu ip_mtu link =
     (ebind (items_at link ''endpoints'') (\<lambda>endpoints.
        ebind (findE (on_device device_id) endpoints) (\<lambda>found.
        (case found of
            None \<Rightarrow> Inr []
          | Some here \<Rightarrow>
              (ebind (findE (off_device device_id) endpoints) (\<lambda>other.
                 ebind (of_option StopIteration other) (\<lambda>peer.
                 ebind (link_commands link here peer area_tag fabric_mtu ip_mtu) (\<lambda>commands.
                 ebind (safe_at link ''id'' ''link id'') (\<lambda>link_id.
                 Inr [block (''link_'' @ link_id) commands []])))))))))"

section \<open>The underlay of a device\<close>

definition underlay_rp_blocks :: "json \<Rightarrow> json \<Rightarrow> json \<Rightarrow> bool \<Rightarrow> string \<Rightarrow> string \<Rightarrow> json list result" where
  "underlay_rp_blocks intent device multicast enabled device_id area_tag =
     (ebind (section_of intent ''multicast'') (\<lambda>multicast_intent.
        ebind (jget_default multicast ''rp_device_ids'' (JArr [])) (\<lambda>fallback.
        ebind (jget_default multicast_intent ''rp_device_ids'' fallback) (\<lambda>raw.
        ebind (elems raw) (\<lambda>items.
        let rps = map py_str items in
        ebind (is_rp_device intent device rps device_id) (\<lambda>is_rp.
        (if \<not> enabled \<or> \<not> is_rp then Inr []
          else (ebind (jget multicast ''rp_address'') (\<lambda>rp.
             (if truthy rp then rp_blocks intent multicast multicast_intent rps device_id area_tag else Inr []))))))))))"

definition underlay_blocks :: "json \<Rightarrow> json \<Rightarrow> json list result" where
  "underlay_blocks intent device =
     (ebind (str_at device ''id'') (\<lambda>device_id.
        ebind (jidx intent ''fabric'') (\<lambda>fabric.
        ebind (str_get fabric ''isis_process'' ''SDA-ISIS'') (\<lambda>raw_tag.
        ebind (safe_text False ''IS-IS process'' raw_tag) (\<lambda>area_tag.
        ebind (str_get fabric ''isis_area'' ''49.0001'') (\<lambda>raw_area.
        ebind (safe_text False ''IS-IS area'' raw_area) (\<lambda>area.
        ebind (section_of fabric ''multicast'') (\<lambda>multicast.
        ebind (jget_default multicast ''enabled'' (JBool True)) (\<lambda>raw_enabled.
        let enabled = truthy raw_enabled in
        ebind (int_at fabric ''mtu'') (\<lambda>mtu.
        ebind (system_commands mtu multicast enabled) (\<lambda>system.
        ebind (loopback_commands device area_tag enabled) (\<lambda>loopback.
        ebind (isis_commands device area_tag area) (\<lambda>isis.
        ebind (underlay_rp_blocks intent device multicast enabled device_id area_tag) (\<lambda>rp.
        ebind (int_get fabric ''mtu_headroom'' 50) (\<lambda>headroom.
        ebind (items_get intent ''links'') (\<lambda>raw_links.
        ebind (sort_by (\<lambda>l. str_at l ''id'') raw_links) (\<lambda>links.
        ebind (mapE (link_blocks device_id area_tag mtu (mtu - headroom)) links) (\<lambda>parts.
        Inr ([block ''system'' system [], block ''loopback0'' loopback [], block ''router_isis'' isis []] @ rp @ concat parts)))))))))))))))))))"

end
