(* ===== verification/RenderLisp.thy ===== *)
theory RenderLisp
  imports RenderBase
begin

text \<open>
  The LISP, overlay and endpoint blocks of the renderer (\<open>renderer.py\<close>): locators, control plane,
  edges, publication subscribers, VRFs, endpoint pools, endpoint ports and local DHCP.
\<close>

section \<open>LISP roles\<close>

definition locator_block :: "json \<Rightarrow> json result" where
  "locator_block intent =
     (ebind (locator_set intent) (\<lambda>locator_name.
        Inr (block ''lisp_locator''
           [''router lisp'', '' locator-set '' @ locator_name, ''  IPv4-interface Loopback0 priority 10 weight 10'',
            ''  exit-locator-set'', '' exit-router-lisp''] [])))"

definition eid_records :: "(json \<times> json) list \<Rightarrow> json \<Rightarrow> string list result" where
  "eid_records vns pool =
     (ebind (jidx pool ''virtual_network'') (\<lambda>name.
        ebind (keyed_at vns name) (\<lambda>vn.
        ebind (int_at vn ''l3_instance_id'') (\<lambda>l3.
        ebind (safe_at pool ''prefix'' ''endpoint prefix'') (\<lambda>pfx.
        ebind (int_at pool ''l2_instance_id'') (\<lambda>l2.
        Inr [''  eid-record instance-id '' @ int_str l3 @ '' '' @ pfx @ '' accept-more-specifics'',
              ''  eid-record instance-id '' @ int_str l2 @ '' any-mac'']))))))"

definition control_plane_block :: "string \<Rightarrow> json" where
  "control_plane_block loopback =
     block ''lisp_control_plane''
       [''router lisp'', '' service ipv4'', ''  encapsulation vxlan'', ''  map-server'', ''  map-resolver'', ''  proxy-etr'',
        ''  proxy-itr '' @ loopback, ''  no map-cache away-eids send-map-request'', ''  exit-service-ipv4'', '' service ethernet'',
        ''  map-server'', ''  map-resolver'', ''  exit-service-ethernet'', '' exit-router-lisp''] []"

definition control_plane_blocks :: "json \<Rightarrow> json \<Rightarrow> json list result" where
  "control_plane_blocks intent device =
     (ebind (jidx intent ''lisp'') (\<lambda>lisp.
        ebind (safe_at lisp ''site_name'' ''LISP site'') (\<lambda>site_name.
        ebind (str_at lisp ''auth_key_ref'') (\<lambda>auth_ref.
        ebind (items_at intent ''virtual_networks'') (\<lambda>raw_vns.
        ebind (keyed_by ''name'' raw_vns) (\<lambda>vns.
        ebind (items_at intent ''endpoint_pools'') (\<lambda>raw_pools.
        ebind (sort_by (\<lambda>p. str_at p ''id'') raw_pools) (\<lambda>pools.
        ebind (mapE (eid_records vns) pools) (\<lambda>records.
        ebind (safe_at device ''loopback0_ip'' ''control-plane loopback'') (\<lambda>loopback.
        ebind (locator_block intent) (\<lambda>locator.
        Inr [locator,
              block ''lisp_site''
                ([''router lisp'', '' site '' @ site_name, ''  authentication-key '' @ secret_text auth_ref,
                  ''  description Managed SDA-style fabric site''] @ concat records @ [''  exit-site'', '' exit-router-lisp''])
                [auth_ref],
              control_plane_block loopback])))))))))))"

definition map_server_commands :: "string \<Rightarrow> json \<Rightarrow> string list result" where
  "map_server_commands auth_ref server =
     (ebind (safe_at server ''loopback0_ip'' ''map server address'') (\<lambda>address.
        Inr [''  itr map-resolver '' @ address, ''  etr map-server '' @ address @ '' key '' @ secret_text auth_ref,
              ''  use-petr '' @ address]))"

definition edge_lisp_blocks :: "json \<Rightarrow> json list result" where
  "edge_lisp_blocks intent =
     (ebind (jidx intent ''lisp'') (\<lambda>lisp.
        ebind (str_at lisp ''auth_key_ref'') (\<lambda>auth_ref.
        ebind (device_roles intent ''control_plane'') (\<lambda>map_servers.
        ebind (mapE (map_server_commands auth_ref) map_servers) (\<lambda>servers.
        ebind (locator_block intent) (\<lambda>locator.
        Inr [locator,
              block ''lisp_edge'' ([''router lisp'', '' service ipv4'', ''  encapsulation vxlan''] @ concat servers
                @ [''  etr'', ''  exit-service-ipv4'', '' exit-router-lisp'']) [auth_ref]]))))))"

section \<open>Publication subscribers\<close>

definition is_subscriber :: "json \<Rightarrow> string \<Rightarrow> bool result" where
  "is_subscriber lisp device_id =
     (ebind (jget lisp ''control_plane_mode'') (\<lambda>mode.
        (if mode \<noteq> JStr ''lisp_pubsub'' then Inr False
          else (ebind (items_get lisp ''subscribers'') (\<lambda>raw.
             ebind (py_set raw) (\<lambda>subscribers.
             Inr (JStr device_id \<in> set subscribers)))))))"

definition in_homing_group :: "string \<Rightarrow> json \<Rightarrow> bool result" where
  "in_homing_group device_id entry =
     (ebind (items_get entry ''border_device_ids'') (\<lambda>raw.
        ebind (py_set raw) (\<lambda>members.
        Inr (JStr device_id \<in> set members))))"

definition identity_block :: "json \<Rightarrow> string \<Rightarrow> json result" where
  "identity_block lisp device_id =
     (ebind (int_at lisp ''domain_id'') (\<lambda>domain_id.
        ebind (items_get lisp ''multihoming_groups'') (\<lambda>homing_groups.
        ebind (findE (in_homing_group device_id) homing_groups) (\<lambda>found.
        ebind ((case found of
                      None \<Rightarrow> Inr []
                    | Some entry \<Rightarrow> (ebind (int_at entry ''multihoming_id'') (\<lambda>i.
                       Inr ['' multihoming-id '' @ int_str i])))) (\<lambda>homing.
        Inr (block ''lisp_pubsub_identity'' ([''router lisp'', '' domain-id '' @ int_str domain_id] @ homing @ ['' exit-router-lisp'']) []))))))"

definition publisher_commands :: "string \<Rightarrow> json \<Rightarrow> string list result" where
  "publisher_commands auth_ref publisher =
     (ebind (safe_at publisher ''loopback0_ip'' ''LISP publisher address'') (\<lambda>address.
        Inr [''  import publication publisher '' @ address, ''  itr map-resolver '' @ address,
              ''  etr map-server '' @ address @ '' key '' @ secret_text auth_ref, ''  etr map-server '' @ address @ '' proxy-reply'']))"

definition publisher_devices :: "json \<Rightarrow> json \<Rightarrow> json list result" where
  "publisher_devices intent lisp =
     (ebind (items_at intent ''devices'') (\<lambda>raw_devices.
        ebind (by_device_id raw_devices) (\<lambda>devices.
        ebind (items_get lisp ''publishers'') (\<lambda>raw.
        ebind (py_sorted raw) (\<lambda>publishers.
        mapE (\<lambda>p. of_option (KeyError (py_str p)) (map_of devices (py_str p))) publishers)))))"

definition proxy_commands :: "json \<Rightarrow> bool \<Rightarrow> string list result" where
  "proxy_commands device colocated =
     (if colocated then Inr []
      else (ebind (safe_at device ''loopback0_ip'' ''subscriber loopback'') (\<lambda>loopback.
         Inr [''  no map-cache away-eids send-map-request'', ''  proxy-etr'', ''  proxy-itr '' @ loopback])))"

definition subscriber_block :: "json \<Rightarrow> json \<Rightarrow> json \<Rightarrow> json result" where
  "subscriber_block intent device lisp =
     (ebind (publisher_devices intent lisp) (\<lambda>publishers.
        ebind (str_at lisp ''auth_key_ref'') (\<lambda>auth_ref.
        ebind (role_set device) (\<lambda>roles.
        let colocated = JStr ''control_plane'' \<in> set roles in
        ebind (mapE (publisher_commands auth_ref) publishers) (\<lambda>imports.
        ebind (section_of intent ''policy_plane'') (\<lambda>policy_plane.
        ebind (has_mode policy_plane) (\<lambda>tagged.
        ebind (proxy_commands device colocated) (\<lambda>proxy.
        Inr (block ''lisp_pubsub_subscriber''
           ([''router lisp'', '' service ipv4''] @ (if colocated then [] else [''  encapsulation vxlan''])
            @ [''  map-cache publications''] @ concat imports @ [''  etr''] @ (if tagged then [''  sgt''] else [])
            @ [''  route-export publications'', ''  distance publications 250''] @ proxy
            @ [''  exit-service-ipv4'', '' exit-router-lisp'']) [auth_ref])))))))))"

definition pubsub_subscriber_blocks :: "json \<Rightarrow> json \<Rightarrow> json list result" where
  "pubsub_subscriber_blocks intent device =
     (ebind (section_of intent ''lisp'') (\<lambda>lisp.
        ebind (str_at device ''id'') (\<lambda>device_id.
        ebind (is_subscriber lisp device_id) (\<lambda>subscriber.
        (if \<not> subscriber then Inr []
          else (ebind (identity_block lisp device_id) (\<lambda>identity.
             ebind (subscriber_block intent device lisp) (\<lambda>subscription.
             Inr [identity, subscription]))))))))"

section \<open>VRFs\<close>

definition route_target_commands :: "json \<Rightarrow> string list result" where
  "route_target_commands target =
     (ebind (safe_text False ''route target'' (py_str target)) (\<lambda>rt.
        Inr [''  route-target import '' @ rt, ''  route-target export '' @ rt]))"

definition l3_block :: "string \<Rightarrow> int \<Rightarrow> json" where
  "l3_block vrf i =
     block (''lisp_l3_'' @ int_str i)
       [''router lisp'', '' instance-id '' @ int_str i, ''  service ipv4'', ''   eid-table vrf '' @ vrf,
        ''   database-mapping limit dynamic 5000'', ''   exit-service-ipv4'', ''  exit-instance-id'', '' exit-router-lisp''] []"

definition vn_blocks :: "json \<Rightarrow> json list result" where
  "vn_blocks vn =
     (ebind (safe_at vn ''vrf'' ''VRF'') (\<lambda>vrf.
        ebind (safe_at vn ''rd'' ''route distinguisher'') (\<lambda>rd.
        ebind (items_at vn ''route_targets'') (\<lambda>raw.
        ebind (py_sorted raw) (\<lambda>targets.
        ebind (mapE route_target_commands targets) (\<lambda>commands.
        ebind (int_at vn ''l3_instance_id'') (\<lambda>i.
        Inr [block (''vrf_'' @ vrf)
                ([''vrf definition '' @ vrf, '' rd '' @ rd, '' address-family ipv4''] @ concat commands @ [''  exit-address-family'']) [],
              l3_block vrf i])))))))"

definition vrf_blocks :: "json \<Rightarrow> json list result" where
  "vrf_blocks intent =
     (ebind (items_at intent ''virtual_networks'') (\<lambda>raw.
        ebind (sort_by (\<lambda>v. int_at v ''l3_instance_id'') raw) (\<lambda>vns.
        ebind (mapE vn_blocks vns) (\<lambda>parts.
        Inr (concat parts)))))"

section \<open>Endpoint pools\<close>

definition bum_group_entry :: "json \<Rightarrow> (string \<times> string) result" where
  "bum_group_entry item = (ebind (str_at item ''endpoint_pool_id'') (\<lambda>i.
     ebind (str_at item ''group'') (\<lambda>g.
     Inr (i, g))))"

definition helper_command :: "json \<Rightarrow> json \<Rightarrow> string result" where
  "helper_command pool helper =
     (ebind (section_of pool ''dhcp'') (\<lambda>dhcp.
        ebind (jget dhcp ''mode'') (\<lambda>mode.
        ebind (jget dhcp ''relay_global'') (\<lambda>relay.
        ebind (jget dhcp ''helper_address'') (\<lambda>address.
        ebind (safe_text False ''DHCP helper'' (py_str helper)) (\<lambda>safe_helper.
        Inr ((if mode = JStr ''local_border'' \<and> relay = JBool True \<and> py_str address = py_str helper
               then '' ip helper-address global'' else '' ip helper-address'') @ '' '' @ safe_helper)))))))"

definition svi_block :: "json \<Rightarrow> int \<Rightarrow> string \<Rightarrow> net_texts \<Rightarrow> json result" where
  "svi_block pool vlan vrf network =
     (ebind (text_at pool ''id'' ''pool id'') (\<lambda>pool_id.
        ebind (safe_at pool ''gateway'' ''gateway'') (\<lambda>gateway.
        ebind (items_get pool ''dhcp_helpers'') (\<lambda>raw.
        ebind (mapE (helper_command pool) raw) (\<lambda>helpers.
        Inr (block (''svi_'' @ int_str vlan)
           ([''interface Vlan'' @ int_str vlan, '' description Anycast gateway '' @ pool_id, '' vrf forwarding '' @ vrf,
             '' ip address '' @ gateway @ '' '' @ nt_netmask network, '' no ip redirects''] @ helpers @ ['' no shutdown'']) []))))))"

definition underlay_bum :: "json \<Rightarrow> (string \<times> string) list \<Rightarrow> string \<Rightarrow> string list result" where
  "underlay_bum intent groups pool_id =
     (case map_of groups pool_id of
        Some (c # g) \<Rightarrow> (ebind (safe_text False ''L2 BUM multicast group'' (c # g)) (\<lambda>address.
           Inr [''   broadcast-underlay '' @ address]))
      | _ \<Rightarrow> (ebind (jget intent ''schema_version'') (\<lambda>version.
         Inr (if py_str version \<noteq> ''1.2'' then [''   broadcast-underlay 232.0.0.1''] else []))))"

definition lisp_pool_block :: "json \<Rightarrow> (string \<times> string) list \<Rightarrow> string \<Rightarrow> json \<Rightarrow> json \<Rightarrow> int \<Rightarrow> net_texts \<Rightarrow> json result" where
  "lisp_pool_block intent groups locator_name pool vn vlan network =
     (ebind (int_at vn ''l3_instance_id'') (\<lambda>l3.
        ebind (safe_at pool ''id'' ''dynamic EID'') (\<lambda>eid.
        ebind (int_at pool ''l2_instance_id'') (\<lambda>l2.
        ebind (str_at pool ''id'') (\<lambda>raw_id.
        ebind (underlay_bum intent groups raw_id) (\<lambda>bum.
        ebind (safe_at pool ''id'' ''pool id'') (\<lambda>pool_id.
        Inr (block (''lisp_pool_'' @ pool_id)
           ([''router lisp'', '' instance-id '' @ int_str l3, ''  dynamic-eid '' @ eid,
             ''   database-mapping '' @ nt_network network @ '' locator-set '' @ locator_name, ''   exit-dynamic-eid'',
             ''  exit-instance-id'', '' instance-id '' @ int_str l2, ''  service ethernet'', ''   eid-table vlan '' @ int_str vlan]
            @ bum @ [''   database-mapping mac locator-set '' @ locator_name, ''   exit-service-ethernet'', ''  exit-instance-id'',
                     '' exit-router-lisp'']) []))))))))"

definition pool_blocks :: "json \<Rightarrow> (json \<times> json) list \<Rightarrow> (string \<times> string) list \<Rightarrow> string \<Rightarrow> json \<Rightarrow> json list result" where
  "pool_blocks intent vns groups locator_name pool =
     (ebind (jidx pool ''virtual_network'') (\<lambda>name.
        ebind (keyed_at vns name) (\<lambda>vn.
        ebind (int_at pool ''vlan_id'') (\<lambda>vlan.
        ebind (safe_at vn ''vrf'' ''VRF'') (\<lambda>vrf.
        ebind (net_at_key pool ''prefix'') (\<lambda>network.
        ebind (text_at pool ''id'' ''pool id'') (\<lambda>pool_id.
        ebind (svi_block pool vlan vrf network) (\<lambda>svi.
        ebind (lisp_pool_block intent groups locator_name pool vn vlan network) (\<lambda>lisp.
        Inr [block (''vlan_'' @ int_str vlan) [''vlan '' @ int_str vlan, '' name '' @ pool_id] [], svi, lisp])))))))))"

definition edge_overlay_blocks :: "json \<Rightarrow> json list result" where
  "edge_overlay_blocks intent =
     (ebind (vrf_blocks intent) (\<lambda>vrfs.
        ebind (items_at intent ''virtual_networks'') (\<lambda>raw_vns.
        ebind (keyed_by ''name'' raw_vns) (\<lambda>vns.
        ebind (section_of intent ''multicast'') (\<lambda>multicast.
        ebind (items_get multicast ''l2_bum_groups'') (\<lambda>raw_groups.
        ebind (mapE bum_group_entry raw_groups) (\<lambda>groups.
        ebind (locator_set intent) (\<lambda>locator_name.
        ebind (items_at intent ''endpoint_pools'') (\<lambda>raw_pools.
        ebind (sort_by (\<lambda>p. int_at p ''vlan_id'') raw_pools) (\<lambda>pools.
        ebind (mapE (pool_blocks intent vns (rev groups) locator_name) pools) (\<lambda>parts.
        Inr (vrfs @ concat parts))))))))))))"

section \<open>Endpoint ports and local DHCP\<close>

definition attachment_text :: "json \<Rightarrow> string result" where
  "attachment_text attachment =
     (ebind (jget attachment ''description'') (\<lambda>description.
        (if truthy description then Inr (py_str description)
          else (ebind (str_at attachment ''id'') (\<lambda>i.
             Inr (''SDA endpoint '' @ i))))))"

definition attachment_block :: "json \<Rightarrow> json result" where
  "attachment_block attachment =
     (ebind (attachment_text attachment) (\<lambda>raw.
        ebind (safe_at attachment ''id'' ''endpoint attachment id'') (\<lambda>attachment_id.
        ebind (safe_at attachment ''interface'' ''endpoint interface'') (\<lambda>interface.
        ebind (safe_text True ''endpoint description'' raw) (\<lambda>description.
        ebind (int_at attachment ''vlan_id'') (\<lambda>vlan.
        Inr (block (''endpoint_attachment_'' @ attachment_id)
           [''interface '' @ interface, '' description '' @ description, '' switchport mode access'',
            '' switchport access vlan '' @ int_str vlan, '' spanning-tree portfast'', '' no shutdown''] [])))))))"

definition edge_endpoint_attachment_blocks :: "json \<Rightarrow> json \<Rightarrow> json list result" where
  "edge_endpoint_attachment_blocks intent device =
     (ebind (str_at device ''id'') (\<lambda>device_id.
        ebind (items_get intent ''endpoint_attachments'') (\<lambda>raw.
        ebind (filterE (names ''device_id'' device_id) raw) (\<lambda>own.
        ebind (sort_by (\<lambda>a. str_at a ''id'') own) (\<lambda>attachments.
        mapE attachment_block attachments)))))"

definition serves_dhcp :: "string \<Rightarrow> json \<Rightarrow> bool result" where
  "serves_dhcp device_id dhcp =
     (ebind (jget dhcp ''mode'') (\<lambda>mode.
        (if mode \<noteq> JStr ''local_border'' then Inr False else names ''server_device_id'' device_id dhcp)))"

definition local_dhcp_blocks :: "string \<Rightarrow> json \<Rightarrow> json list result" where
  "local_dhcp_blocks device_id pool =
     (ebind (section_of pool ''dhcp'') (\<lambda>dhcp.
        ebind (serves_dhcp device_id dhcp) (\<lambda>serves.
        (if \<not> serves then Inr []
          else (ebind (net_at_key pool ''prefix'') (\<lambda>network.
             ebind (int_at dhcp ''lease_minutes'') (\<lambda>lease.
             ebind (str_at pool ''id'') (\<lambda>raw_id.
             ebind (safe_at pool ''gateway'' ''DHCP gateway'') (\<lambda>gateway.
             ebind (items_get dhcp ''dns_servers'') (\<lambda>raw_servers.
             ebind (py_sorted raw_servers) (\<lambda>servers.
             ebind (mapE (\<lambda>s. safe_text False ''DHCP DNS server'' (py_str s)) servers) (\<lambda>dns.
             ebind (safe_at pool ''id'' ''endpoint pool id'') (\<lambda>pool_id.
             Inr [block (''local_dhcp_'' @ pool_id)
                     ([''ip dhcp excluded-address '' @ gateway,
                       ''ip dhcp pool SDA-DHCP-'' @ upper (take 12 (sha256_json (JStr raw_id))),
                       '' network '' @ nt_address network @ '' '' @ nt_netmask network, '' default-router '' @ gateway,
                       '' lease '' @ int_str (lease div 1440) @ '' '' @ int_str (lease mod 1440 div 60) @ '' ''
                         @ int_str (lease mod 1440 mod 60)]
                      @ map (\<lambda>s. '' dns-server '' @ s) dns) []])))))))))))))"

definition border_local_dhcp_blocks :: "json \<Rightarrow> json \<Rightarrow> json list result" where
  "border_local_dhcp_blocks intent device =
     (ebind (str_at device ''id'') (\<lambda>device_id.
        ebind (items_get intent ''endpoint_pools'') (\<lambda>raw.
        ebind (sort_by (\<lambda>p. str_at p ''id'') raw) (\<lambda>pools.
        ebind (mapE (local_dhcp_blocks device_id) pools) (\<lambda>parts.
        Inr (concat parts))))))"

end
