(* ===== verification/RenderHandoff.thy ===== *)
theory RenderHandoff
  imports RenderBase
begin

text \<open>
  The native multicast blocks of the renderer (\<open>renderer.py\<close>) on fabric devices and fusion nodes,
  the handoff blocks on borders and fusion nodes, and the route leaking between shared services and
  their consumers.
\<close>

section \<open>Policies\<close>

text \<open>The access list of a policy and the routing of its VRF.\<close>

definition acl_commands :: "string \<Rightarrow> string \<Rightarrow> net_texts \<Rightarrow> string list" where
  "acl_commands vrf access_list group_net =
     [''ip multicast-routing vrf '' @ vrf, ''no ip access-list standard '' @ access_list,
      ''ip access-list standard '' @ access_list, '' 10 permit '' @ nt_address group_net @ '' '' @ nt_hostmask group_net]"

text \<open>The groups of a policy: source-specific, or with a rendezvous point.\<close>

definition pim_commands :: "json \<Rightarrow> string \<Rightarrow> string \<Rightarrow> string list \<Rightarrow> string list result" where
  "pim_commands policy vrf access_list register =
     (ebind (jidx policy ''mode'') (\<lambda>mode.
        (if mode = JStr ''ssm'' then Inr [''ip pim vrf '' @ vrf @ '' ssm range '' @ access_list]
          else (ebind (safe_at policy ''rp_address'' ''overlay RP address'') (\<lambda>rp.
             Inr (register @ [''ip pim vrf '' @ vrf @ '' rp-address '' @ rp @ '' '' @ access_list]))))))"

text \<open>\<open>native\<close>: whether the multicast of an intent is enabled and native.\<close>

definition native_multicast :: "json \<Rightarrow> bool result" where
  "native_multicast multicast =
     (ebind (jget multicast ''enabled'') (\<lambda>enabled.
        ebind (jget multicast ''transport'') (\<lambda>transport.
        Inr (truthy enabled \<and> transport = JStr ''native''))))"

definition sorted_policies :: "json \<Rightarrow> json list result" where
  "sorted_policies multicast =
     (ebind (items_get multicast ''overlay_policies'') (\<lambda>raw.
        sort_by (\<lambda>p. int_at p ''l3_instance_id'') raw))"

section \<open>Fabric devices\<close>

definition segment_block :: "string \<Rightarrow> string \<Rightarrow> string \<Rightarrow> int \<Rightarrow> json" where
  "segment_block vn vrf address i =
     block (''multicast_segment_'' @ int_str i)
       [''interface Loopback'' @ int_str i, '' description SDA multicast segment '' @ vn, '' vrf forwarding '' @ vrf,
        '' ip address '' @ address @ '' 255.255.255.255'', '' ip pim sparse-mode'', '' no shutdown''] []"

definition lisp_interface_block :: "json \<Rightarrow> string \<Rightarrow> int \<Rightarrow> json result" where
  "lisp_interface_block policy vrf i =
     (ebind (jidx policy ''core_group'') (\<lambda>core.
        ebind (safe_at core ''start'' ''core group start'') (\<lambda>start.
        ebind (int_at core ''count'') (\<lambda>n.
        Inr (block (''multicast_lisp_'' @ int_str i)
           [''interface LISP0.'' @ int_str i, '' vrf forwarding '' @ vrf, '' ip pim lisp transport multicast'',
            '' ip pim lisp core-group-range '' @ start @ '' '' @ int_str n] [])))))"

definition lisp_database_block :: "string \<Rightarrow> string \<Rightarrow> int \<Rightarrow> json" where
  "lisp_database_block locator_name address i =
     block (''multicast_lisp_database_'' @ int_str i)
       [''router lisp'', '' instance-id '' @ int_str i, ''  service ipv4'',
        ''   database-mapping '' @ address @ ''/32 locator-set '' @ locator_name, ''   exit-service-ipv4'',
        ''  exit-instance-id'', '' exit-router-lisp''] []"

definition edge_svi_block :: "json \<Rightarrow> json result" where
  "edge_svi_block pool =
     (ebind (int_at pool ''vlan_id'') (\<lambda>vlan.
        Inr (block (''multicast_edge_svi_'' @ int_str vlan)
           [''interface Vlan'' @ int_str vlan, '' ip pim passive'', '' ip igmp version 3'', '' ip igmp explicit-tracking''] [])))"

definition edge_svi_blocks :: "(string \<times> json) list \<Rightarrow> string \<Rightarrow> bool \<Rightarrow> json list result" where
  "edge_svi_blocks pools vn is_edge =
     (if \<not> is_edge then Inr []
      else (ebind (sort_by (\<lambda>p. int_at p ''vlan_id'') (map snd (filter (\<lambda>p. fst p = vn) pools))) (\<lambda>own.
         mapE edge_svi_block own)))"

definition border_pim_block :: "json \<Rightarrow> json result" where
  "border_pim_block peer =
     (ebind (int_at peer ''vlan_id'') (\<lambda>vlan.
        ebind (safe_at peer ''interface'' ''multicast handoff interface'') (\<lambda>interface.
        Inr (block (''multicast_border_handoff_'' @ int_str vlan) [''interface '' @ interface, '' ip pim sparse-mode''] []))))"

definition border_pim_blocks :: "(string \<times> json) list \<Rightarrow> string \<Rightarrow> bool \<Rightarrow> json list result" where
  "border_pim_blocks peers vrf is_border =
     (if \<not> is_border then Inr []
      else (ebind (sort_by (\<lambda>p. int_at p ''vlan_id'') (map snd (filter (\<lambda>p. fst p = vrf) peers))) (\<lambda>own.
         mapE border_pim_block own)))"

text \<open>What a member of a policy is configured with.\<close>

definition member_blocks ::
    "(string \<times> json) list \<Rightarrow> (string \<times> json) list \<Rightarrow> json list \<Rightarrow> string \<Rightarrow> json \<Rightarrow> json \<Rightarrow> json list result" where
  "member_blocks pools peers roles locator_name policy loopback =
     (ebind (str_at policy ''virtual_network'') (\<lambda>vn.
        ebind (safe_at policy ''vrf'' ''multicast VRF'') (\<lambda>vrf.
        ebind (int_at policy ''l3_instance_id'') (\<lambda>i.
        ebind (safe_at loopback ''address'' ''multicast segment address'') (\<lambda>address.
        ebind (net_at_key policy ''group_range'') (\<lambda>group_net.
        ebind (safe_at policy ''access_list'' ''multicast access list'') (\<lambda>access_list.
        ebind (pim_commands policy vrf access_list [''ip pim vrf '' @ vrf @ '' register-source Loopback'' @ int_str i]) (\<lambda>pim.
        ebind (safe_text True ''virtual network'' vn) (\<lambda>safe_vn.
        ebind (lisp_interface_block policy vrf i) (\<lambda>interface.
        ebind (edge_svi_blocks pools vn (JStr ''fabric_edge'' \<in> set roles)) (\<lambda>edge.
        ebind (border_pim_blocks peers vrf (JStr ''border'' \<in> set roles)) (\<lambda>border.
        Inr ([block (''multicast_policy_'' @ int_str i) (acl_commands vrf access_list group_net @ pim) [],
               segment_block safe_vn vrf address i, interface, lisp_database_block locator_name address i] @ edge @ border)))))))))))))"

definition overlay_policy_blocks ::
    "(string \<times> json) list \<Rightarrow> (string \<times> json) list \<Rightarrow> json list \<Rightarrow> string \<Rightarrow> string \<Rightarrow> json \<Rightarrow> json list result" where
  "overlay_policy_blocks pools peers roles locator_name device_id policy =
     (ebind (items_get policy ''segment_loopbacks'') (\<lambda>segments.
        ebind (findE (names ''device_id'' device_id) segments) (\<lambda>found.
        (case found of
            None \<Rightarrow> Inr []
          | Some loopback \<Rightarrow> member_blocks pools peers roles locator_name policy loopback))))"

definition own_peer :: "string \<Rightarrow> json \<Rightarrow> (string \<times> json) list result" where
  "own_peer device_id peer =
     (ebind (names ''device_id'' device_id peer) (\<lambda>own.
        (if own then (ebind (str_at peer ''vrf'') (\<lambda>vrf.
            Inr [(vrf, peer)])) else Inr [])))"

text \<open>\<open>_multicast_overlay_blocks\<close>\<close>

definition multicast_overlay_blocks :: "json \<Rightarrow> json \<Rightarrow> json list result" where
  "multicast_overlay_blocks intent device =
     (ebind (section_of intent ''multicast'') (\<lambda>multicast.
        ebind (native_multicast multicast) (\<lambda>native.
        (if \<not> native then Inr []
          else (ebind (str_at device ''id'') (\<lambda>device_id.
             ebind (role_set device) (\<lambda>roles.
             ebind (locator_set intent) (\<lambda>locator_name.
             ebind (items_get intent ''endpoint_pools'') (\<lambda>raw_pools.
             ebind (mapE (\<lambda>p. (ebind (str_at p ''virtual_network'') (\<lambda>vn.
                      Inr (vn, p)))) raw_pools) (\<lambda>pools.
             ebind (section_of intent ''border_handoff'') (\<lambda>handoff.
             ebind (items_get handoff ''peers'') (\<lambda>raw_peers.
             ebind (mapE (own_peer device_id) raw_peers) (\<lambda>peers.
             ebind (sorted_policies multicast) (\<lambda>policies.
             ebind (mapE (overlay_policy_blocks pools (concat peers) roles locator_name device_id) policies) (\<lambda>parts.
             Inr (concat parts))))))))))))))))"

section \<open>Fusion nodes\<close>

definition fusion_pim_block :: "json \<Rightarrow> json result" where
  "fusion_pim_block peer =
     (ebind (int_at peer ''vlan_id'') (\<lambda>vlan.
        Inr (block (''fusion_multicast_handoff_'' @ int_str vlan) [''interface Vlan'' @ int_str vlan, '' ip pim sparse-mode''] [])))"

definition fusion_policy_block :: "json \<Rightarrow> string \<Rightarrow> json result" where
  "fusion_policy_block policy vrf =
     (ebind (net_at_key policy ''group_range'') (\<lambda>group_net.
        ebind (safe_at policy ''access_list'' ''multicast access list'') (\<lambda>access_list.
        ebind (pim_commands policy vrf access_list []) (\<lambda>pim.
        ebind (int_at policy ''l3_instance_id'') (\<lambda>i.
        Inr (block (''fusion_multicast_policy_'' @ int_str i) (acl_commands vrf access_list group_net @ pim) []))))))"

definition fusion_policy_blocks :: "json list \<Rightarrow> string \<Rightarrow> json \<Rightarrow> json list result" where
  "fusion_policy_blocks handoff_peers fusion_id policy =
     (ebind (safe_at policy ''vrf'' ''multicast VRF'') (\<lambda>vrf.
        ebind (filterE (peer_is ''fusion_node_id'' fusion_id vrf) handoff_peers) (\<lambda>own.
        ebind (sort_by (\<lambda>p. int_at p ''vlan_id'') own) (\<lambda>peers.
        (if peers = [] then Inr []
          else (ebind (fusion_policy_block policy vrf) (\<lambda>policy_block.
             ebind (mapE fusion_pim_block peers) (\<lambda>handoffs.
             Inr (policy_block # handoffs)))))))))"

text \<open>\<open>_fusion_multicast_blocks\<close>\<close>

definition fusion_multicast_blocks :: "json \<Rightarrow> json \<Rightarrow> json list result" where
  "fusion_multicast_blocks intent fusion =
     (ebind (section_of intent ''multicast'') (\<lambda>multicast.
        ebind (native_multicast multicast) (\<lambda>native.
        (if \<not> native then Inr []
          else (ebind (str_at fusion ''id'') (\<lambda>fusion_id.
             ebind (section_of intent ''border_handoff'') (\<lambda>handoff.
             ebind (items_get handoff ''peers'') (\<lambda>peers.
             ebind (sorted_policies multicast) (\<lambda>policies.
             ebind (mapE (fusion_policy_blocks peers fusion_id) policies) (\<lambda>parts.
             Inr (concat parts)))))))))))"

section \<open>Trunks\<close>

text \<open>The VLANs by interface; the trunks go before the other blocks, the last interface first.\<close>

definition trunk_block :: "string \<Rightarrow> string \<Rightarrow> string \<times> int list \<Rightarrow> json" where
  "trunk_block stem description = (\<lambda>(interface, vlans).
     block (stem @ replace_char (CHR ''/'') (CHR ''_'') interface)
       [''interface '' @ interface, '' description '' @ description, '' switchport mode trunk'',
        '' switchport trunk allowed vlan '' @ join '','' (map int_str (sort vlans)), '' no shutdown''] [])"

definition trunk_blocks :: "string \<Rightarrow> string \<Rightarrow> (string \<times> int) list \<Rightarrow> json list" where
  "trunk_blocks stem description trunks =
     rev (map (\<lambda>i. trunk_block stem description (i, map snd (filter (\<lambda>t. fst t = i) trunks))) (sorted_set (map fst trunks)))"

section \<open>Borders\<close>

definition border_trunk :: "json \<Rightarrow> int \<Rightarrow> (string \<times> int) list result" where
  "border_trunk peer vlan =
     (ebind (jget peer ''border_interface'') (\<lambda>raw.
        (if \<not> truthy raw then Inr []
          else (ebind (safe_at peer ''border_interface'' ''border physical interface'') (\<lambda>interface.
             Inr [(interface, vlan)])))))"

definition border_bgp_block :: "json \<Rightarrow> int \<Rightarrow> string \<Rightarrow> string \<Rightarrow> int \<Rightarrow> json result" where
  "border_bgp_block device local_as vrf neighbor remote_as =
     (ebind (safe_at device ''loopback0_ip'' ''BGP router ID'') (\<lambda>router_id.
        Inr (block (''bgp_'' @ vrf @ ''_'' @ replace_char (CHR ''.'') (CHR ''_'') neighbor)
           [''router bgp '' @ int_str local_as, '' bgp router-id '' @ router_id, '' address-family ipv4 vrf '' @ vrf,
            ''  neighbor '' @ neighbor @ '' remote-as '' @ int_str remote_as, ''  neighbor '' @ neighbor @ '' activate'',
            ''  redistribute lisp metric 10'', ''  exit-address-family''] [])))"

definition border_peer :: "json \<Rightarrow> int \<Rightarrow> json \<Rightarrow> ((string \<times> int) list \<times> json list) result" where
  "border_peer device local_as peer =
     (ebind (jget peer ''device_id'') (\<lambda>peer_device.
        ebind (jidx device ''id'') (\<lambda>device_id.
        (if peer_device \<noteq> device_id then Inr ([], [])
          else (ebind (safe_at peer ''vrf'' ''handoff VRF'') (\<lambda>vrf.
             ebind (safe_at peer ''neighbor_ip'' ''BGP neighbor'') (\<lambda>neighbor.
             ebind (int_at peer ''remote_as'') (\<lambda>remote_as.
             ebind (safe_at peer ''interface'' ''handoff interface'') (\<lambda>interface.
             ebind (net_at_key peer ''prefix'') (\<lambda>network.
             ebind (safe_at peer ''local_ip'' ''handoff local IP'') (\<lambda>local_ip.
             ebind (int_at peer ''vlan_id'') (\<lambda>vlan.
             ebind (border_trunk peer vlan) (\<lambda>trunk.
             ebind (border_bgp_block device local_as vrf neighbor remote_as) (\<lambda>bgp.
             Inr (trunk,
                     [block (''handoff_'' @ vrf @ ''_'' @ int_str vlan)
                        [''vlan '' @ int_str vlan, '' name SDA-HANDOFF-'' @ vrf, ''interface '' @ interface,
                         '' description BGP fusion handoff '' @ vrf, '' vrf forwarding '' @ vrf,
                         '' ip address '' @ local_ip @ '' '' @ nt_netmask network, '' no shutdown''] [], bgp])))))))))))))))"

definition border_handoff_blocks :: "json \<Rightarrow> json \<Rightarrow> json list result" where
  "border_handoff_blocks intent device =
     (ebind (section_of intent ''border_handoff'') (\<lambda>handoff.
        ebind (jget handoff ''enabled'') (\<lambda>enabled.
        (if \<not> truthy enabled then Inr []
          else (ebind (int_at handoff ''local_as'') (\<lambda>local_as.
             ebind (items_get handoff ''peers'') (\<lambda>peers.
             ebind (mapE (border_peer device local_as) peers) (\<lambda>parts.
             Inr (trunk_blocks ''border_trunk_'' ''SDA fusion handoff trunk'' (concat (map fst parts))
                        @ concat (map snd parts))))))))))"

section \<open>Fusion nodes\<close>

record fusion_state =
  fs_vrfs :: "string list"
  fs_trunks :: "(string \<times> int) list"
  fs_blocks :: "json list"

definition fusion_vrf_blocks :: "string list \<Rightarrow> string \<Rightarrow> json \<Rightarrow> json list result" where
  "fusion_vrf_blocks seen vrf vn =
     (if vrf \<in> set seen then Inr []
      else (ebind (safe_at vn ''rd'' ''route distinguisher'') (\<lambda>rd.
         Inr [block (''fusion_vrf_'' @ vrf)
                 [''vrf definition '' @ vrf, '' rd '' @ rd, '' address-family ipv4'', ''  exit-address-family''] []])))"

definition fusion_peer_blocks :: "string \<Rightarrow> int \<Rightarrow> string \<Rightarrow> string \<Rightarrow> string \<Rightarrow> int \<Rightarrow> int \<Rightarrow> json list" where
  "fusion_peer_blocks vrf vlan local_ip netmask neighbor local_as border_as =
     [block (''fusion_handoff_'' @ vrf @ ''_'' @ int_str vlan)
        [''vlan '' @ int_str vlan, '' name SDA-HANDOFF-'' @ vrf, ''interface Vlan'' @ int_str vlan,
         '' description SDA border handoff '' @ vrf, '' vrf forwarding '' @ vrf, '' ip address '' @ local_ip @ '' '' @ netmask,
         '' no shutdown''] [],
      block (''fusion_bgp_'' @ vrf @ ''_'' @ replace_char (CHR ''.'') (CHR ''_'') neighbor)
        [''router bgp '' @ int_str local_as, '' address-family ipv4 vrf '' @ vrf,
         ''  neighbor '' @ neighbor @ '' remote-as '' @ int_str border_as, ''  neighbor '' @ neighbor @ '' activate'',
         ''  exit-address-family''] []]"

definition fusion_peer :: "(json \<times> json) list \<Rightarrow> int \<Rightarrow> int \<Rightarrow> fusion_state \<Rightarrow> json \<Rightarrow> fusion_state result" where
  "fusion_peer vns local_as border_as fs peer =
     (ebind (safe_at peer ''vrf'' ''fusion VRF'') (\<lambda>vrf.
        ebind (jidx peer ''vrf'') (\<lambda>key.
        ebind (keyed_at vns key) (\<lambda>vn.
        ebind (fusion_vrf_blocks (fs_vrfs fs) vrf vn) (\<lambda>vrf_part.
        ebind (int_at peer ''vlan_id'') (\<lambda>vlan.
        ebind (safe_at peer ''fusion_interface'' ''fusion physical interface'') (\<lambda>interface.
        ebind (net_at_key peer ''prefix'') (\<lambda>network.
        ebind (safe_at peer ''neighbor_ip'' ''fusion local IP'') (\<lambda>local_ip.
        ebind (safe_at peer ''local_ip'' ''border neighbor IP'') (\<lambda>neighbor.
        Inr \<lparr>fs_vrfs = fs_vrfs fs @ [vrf], fs_trunks = fs_trunks fs @ [(interface, vlan)],
              fs_blocks = fs_blocks fs @ vrf_part
                @ fusion_peer_blocks vrf vlan local_ip (nt_netmask network) neighbor local_as border_as\<rparr>))))))))))"

definition fusion_peer_key :: "json \<Rightarrow> (string \<times> int) result" where
  "fusion_peer_key peer = (ebind (str_at peer ''vrf'') (\<lambda>vrf.
     ebind (int_at peer ''vlan_id'') (\<lambda>vlan.
     Inr (vrf, vlan))))"

definition fusion_handoff_blocks :: "json \<Rightarrow> json \<Rightarrow> json list result" where
  "fusion_handoff_blocks intent fusion =
     (ebind (section_of intent ''border_handoff'') (\<lambda>handoff.
        ebind (jget handoff ''enabled'') (\<lambda>enabled.
        (if \<not> truthy enabled then Inr []
          else (ebind (str_at fusion ''id'') (\<lambda>fusion_id.
             ebind (int_at fusion ''bgp_asn'') (\<lambda>local_as.
             ebind (int_at handoff ''local_as'') (\<lambda>border_as.
             ebind (items_at intent ''virtual_networks'') (\<lambda>raw_vns.
             ebind (keyed_by ''vrf'' raw_vns) (\<lambda>vns.
             ebind (items_get handoff ''peers'') (\<lambda>raw_peers.
             ebind (filterE (names_or_empty ''fusion_node_id'' fusion_id) raw_peers) (\<lambda>own.
             ebind (sort_by fusion_peer_key own) (\<lambda>peers.
             ebind (foldE (fusion_peer vns local_as border_as) \<lparr>fs_vrfs = [], fs_trunks = [], fs_blocks = []\<rparr> peers) (\<lambda>fs.
             Inr (trunk_blocks ''fusion_trunk_'' ''SDA border handoff trunk'' (fs_trunks fs) @ fs_blocks fs)))))))))))))))"

section \<open>Route leaking\<close>

text \<open>\<open>v[0]\<close>\<close>

fun first_item :: "json \<Rightarrow> json result" where
  "first_item (JArr xs) = (case xs of [] \<Rightarrow> Inl IndexError | x # _ \<Rightarrow> Inr x)"
| "first_item (JStr s) = (case s of [] \<Rightarrow> Inl IndexError | c # _ \<Rightarrow> Inr (JStr [c]))"
| "first_item (JObj kvs) = Inl (KeyError ''0'')"
| "first_item _ = Inl TypeError"

definition first_target :: "(json \<times> json) list \<Rightarrow> string \<Rightarrow> string \<Rightarrow> string result" where
  "first_target vns vrf label =
     (ebind (keyed_at vns (JStr vrf)) (\<lambda>vn.
        ebind (jidx vn ''route_targets'') (\<lambda>targets.
        ebind (first_item targets) (\<lambda>target.
        safe_text False label (py_str target)))))"

text \<open>\<open>policy_blocks\<close>: a prefix list and the route map that matches it.\<close>

definition prefix_command :: "string \<Rightarrow> nat \<times> json \<Rightarrow> string result" where
  "prefix_command prefix_name = (\<lambda>(index, pfx).
     (ebind (safe_text False ''route-leak prefix'' (py_str pfx)) (\<lambda>p.
        Inr (''ip prefix-list '' @ prefix_name @ '' seq '' @ nat_str (10 * index) @ '' permit '' @ p))))"

definition leak_policy_blocks :: "string \<Rightarrow> json list \<Rightarrow> json list result" where
  "leak_policy_blocks label pfxs =
     (ebind (policy_name ''PFX'' label) (\<lambda>prefix_name.
        ebind (policy_name ''RMAP'' label) (\<lambda>route_map.
        ebind (py_set pfxs) (\<lambda>distinct_prefixes.
        ebind (py_sorted (remdups distinct_prefixes)) (\<lambda>ordered.
        ebind (mapE (prefix_command prefix_name) (List.enumerate 1 ordered)) (\<lambda>commands.
        Inr [block (''prefix_list_'' @ label) ((''no ip prefix-list '' @ prefix_name) # commands) [],
              block (''route_map_'' @ label)
                [''no route-map '' @ route_map, ''route-map '' @ route_map @ '' permit 10'',
                 '' match ip address prefix-list '' @ prefix_name] []]))))))"

text \<open>The blocks of one consumer and its route target.\<close>

definition leak_blocks :: "(json \<times> json) list \<Rightarrow> string \<Rightarrow> json \<Rightarrow> (string \<times> json list) result" where
  "leak_blocks vns service_rt leak =
     (ebind (safe_at leak ''consumer_vrf'' ''consumer VRF'') (\<lambda>vrf.
        ebind (raise_if (map_of vns (JStr vrf) = None) (RenderError ''Shared-services consumer VRF is unknown'')) (\<lambda>_.
        ebind (first_target vns vrf ''consumer route target'') (\<lambda>rt.
        ebind (items_at leak ''export_prefixes'') (\<lambda>exports.
        ebind (leak_policy_blocks (vrf @ ''_export'') exports) (\<lambda>export_blocks.
        ebind (items_at leak ''import_prefixes'') (\<lambda>imports.
        ebind (leak_policy_blocks (vrf @ ''_import'') imports) (\<lambda>import_blocks.
        ebind (policy_name ''RMAP'' (vrf @ ''_export'')) (\<lambda>export_map.
        ebind (policy_name ''RMAP'' (vrf @ ''_import'')) (\<lambda>import_map.
        Inr (rt, export_blocks @ import_blocks
           @ [block (''shared_leak_vrf_'' @ vrf)
                [''vrf definition '' @ vrf, '' address-family ipv4'', ''  route-target export '' @ rt,
                 ''  route-target import '' @ service_rt, ''  export map '' @ export_map, ''  import map '' @ import_map,
                 ''  exit-address-family''] []])))))))))))"

definition shared_vrf_block :: "string \<Rightarrow> string \<Rightarrow> string list \<Rightarrow> json result" where
  "shared_vrf_block vrf rt consumer_rts =
     (ebind (policy_name ''RMAP'' ''service_export'') (\<lambda>export_map.
        ebind (policy_name ''RMAP'' ''service_import'') (\<lambda>import_map.
        Inr (block ''shared_service_vrf_policy''
           ([''vrf definition '' @ vrf, '' address-family ipv4'', ''  route-target export '' @ rt]
            @ map (\<lambda>t. ''  route-target import '' @ t) (sorted_set consumer_rts)
            @ [''  export map '' @ export_map, ''  import map '' @ import_map, ''  exit-address-family'']) []))))"

definition static_route :: "string \<Rightarrow> string \<Rightarrow> string \<Rightarrow> string result" where
  "static_route vrf next_hop pfx =
     (ebind (net_texts pfx) (\<lambda>network.
        Inr (''ip route vrf '' @ vrf @ '' '' @ nt_address network @ '' '' @ nt_netmask network @ '' '' @ next_hop)))"

definition attachment_blocks :: "json \<Rightarrow> json \<Rightarrow> string \<Rightarrow> string list \<Rightarrow> json list result" where
  "attachment_blocks fusion attachment vrf service_prefixes =
     (ebind (int_at attachment ''vlan_id'') (\<lambda>vlan.
        ebind (safe_at attachment ''interface'' ''shared-service interface'') (\<lambda>interface.
        ebind (net_at_key attachment ''prefix'') (\<lambda>network.
        ebind (safe_at attachment ''local_ip'' ''shared-service local IP'') (\<lambda>local_ip.
        ebind (safe_at attachment ''next_hop'' ''shared-service next hop'') (\<lambda>next_hop.
        ebind (mapE (static_route vrf next_hop) service_prefixes) (\<lambda>routes.
        ebind (int_at fusion ''bgp_asn'') (\<lambda>asn.
        Inr [block ''shared_service_attachment''
                [''vlan '' @ int_str vlan, '' name SDA-SHARED-SERVICES'', ''interface '' @ interface,
                 '' description SDA shared-services handoff'', '' switchport mode trunk'',
                 '' switchport trunk allowed vlan '' @ int_str vlan, '' no shutdown'', ''interface Vlan'' @ int_str vlan,
                 '' description SDA shared-services routed handoff'', '' vrf forwarding '' @ vrf,
                 '' ip address '' @ local_ip @ '' '' @ nt_netmask network, '' no shutdown''] [],
              block ''shared_service_static_routes'' routes [],
              block ''shared_service_bgp_redistribution''
                [''router bgp '' @ int_str asn, '' address-family ipv4 vrf '' @ vrf, ''  redistribute static'',
                 ''  exit-address-family''] []]))))))))"

definition prefix_set :: "string \<Rightarrow> json list \<Rightarrow> string list result" where
  "prefix_set k items = (ebind (mapE (\<lambda>i. strs_get i k) items) (\<lambda>parts.
     Inr (sorted_set (concat parts))))"

definition shared_policy_blocks :: "json \<Rightarrow> json \<Rightarrow> json \<Rightarrow> json \<Rightarrow> json list result" where
  "shared_policy_blocks intent fusion shared attachment =
     (ebind (items_at intent ''virtual_networks'') (\<lambda>raw_vns.
        ebind (keyed_by ''vrf'' raw_vns) (\<lambda>vns.
        ebind (safe_at shared ''vrf'' ''shared-services VRF'') (\<lambda>vrf.
        ebind (raise_if (map_of vns (JStr vrf) = None) (RenderError ''Shared-services VRF is not a virtual network'')) (\<lambda>_.
        ebind (first_target vns vrf ''shared-services route target'') (\<lambda>rt.
        ebind (items_get shared ''route_leaks'') (\<lambda>raw_leaks.
        ebind (sort_by (\<lambda>l. str_at l ''consumer_vrf'') raw_leaks) (\<lambda>leaks.
        ebind (items_get shared ''services'') (\<lambda>services.
        ebind (prefix_set ''prefixes'' services) (\<lambda>service_prefixes.
        ebind (prefix_set ''export_prefixes'' leaks) (\<lambda>consumer_prefixes.
        ebind (raise_if (service_prefixes = [] \<or> consumer_prefixes = [])
           (RenderError ''Shared-services route policy has no approved prefixes'')) (\<lambda>_.
        ebind (leak_policy_blocks ''service_export'' (map JStr service_prefixes)) (\<lambda>exports.
        ebind (leak_policy_blocks ''service_import'' (map JStr consumer_prefixes)) (\<lambda>imports.
        ebind (mapE (leak_blocks vns rt) leaks) (\<lambda>parts.
        ebind (shared_vrf_block vrf rt (map fst parts)) (\<lambda>vrf_policy.
        ebind (attachment_blocks fusion attachment vrf service_prefixes) (\<lambda>attached.
        Inr (exports @ imports @ concat (map snd parts) @ [vrf_policy] @ attached))))))))))))))))))"

definition fusion_shared_service_blocks :: "json \<Rightarrow> json \<Rightarrow> json list result" where
  "fusion_shared_service_blocks intent fusion =
     (ebind (section_of intent ''shared_services'') (\<lambda>shared.
        (if \<not> truthy shared then Inr []
          else (ebind (str_at fusion ''id'') (\<lambda>fusion_id.
             ebind (items_get shared ''attachments'') (\<lambda>attachments.
             ebind (findE (names_or_empty ''fusion_node_id'' fusion_id) attachments) (\<lambda>found.
             (case found of
                      Some attachment \<Rightarrow>
                        (if truthy attachment then shared_policy_blocks intent fusion shared attachment
                         else Inl (RenderError (''Fusion node '' @ fusion_id @ '' has no shared-service attachment'')))
                    | None \<Rightarrow> Inl (RenderError (''Fusion node '' @ fusion_id @ '' has no shared-service attachment''))))))))))"

end
