(* ===== verification/Renderer.thy ===== *)
theory Renderer
  imports RenderUnderlay RenderLisp RenderHandoff
begin

text \<open>
  The policy plane of the renderer (\<open>renderer.py\<close>) with the manifest of the operations on ISE, and
  \<open>render_configuration\<close>: the checks against the plan, the requirements that block an apply, the
  phases of every device, and the artifact with its digest.
\<close>

section \<open>Ranges of VLANs\<close>

definition range_text :: "int \<Rightarrow> int \<Rightarrow> string" where
  "range_text start end_of = (if start = end_of then int_str start else int_str start @ ''-'' @ int_str end_of)"

text \<open>The inner and the outer \<open>while\<close> loop: a run from \<open>start\<close> to \<open>end_of\<close>, and what follows it.\<close>

fun compress_runs :: "int \<Rightarrow> int \<Rightarrow> int list \<Rightarrow> string list" where
  "compress_runs start end_of [] = [range_text start end_of]"
| "compress_runs start end_of (x # xs) =
     (if x = end_of + 1 then compress_runs start x xs else range_text start end_of # compress_runs x x xs)"

definition range_texts :: "int list \<Rightarrow> string list" where
  "range_texts ordered = (case ordered of [] \<Rightarrow> [] | x # xs \<Rightarrow> compress_runs x x xs)"

definition compress_integer_ranges :: "json list \<Rightarrow> string result" where
  "compress_integer_ranges values =
     (ebind (mapE py_int values) (\<lambda>numbers.
        Inr (join '','' (range_texts (sorted_set numbers)))))"

section \<open>Enforcement\<close>

definition default_deny_block :: "string \<Rightarrow> json" where
  "default_deny_block vlan_list =
     block ''policy_default_deny''
       [''no ip access-list role-based SDA-SGACL-DEFAULT-DENY'', ''ip access-list role-based SDA-SGACL-DEFAULT-DENY'',
        '' 10 deny ip'', ''cts role-based permissions default SDA-SGACL-DEFAULT-DENY'',
        ''cts role-based enforcement vlan-list '' @ vlan_list] []"

definition ace_command :: "nat \<times> json \<Rightarrow> string result" where
  "ace_command = (\<lambda>(index, ace).
     (ebind (safe_text True ''SGACL ACE'' (py_str ace)) (\<lambda>a.
        Inr ('' '' @ nat_str (10 * index) @ '' '' @ a))))"

definition contract_block :: "json \<Rightarrow> json result" where
  "contract_block contract =
     (ebind (safe_at contract ''sgacl_name'' ''SGACL name'') (\<lambda>name.
        ebind (items_at contract ''aces'') (\<lambda>aces.
        ebind (mapE ace_command (List.enumerate 1 aces)) (\<lambda>lines.
        ebind (int_at contract ''source_tag'') (\<lambda>source.
        ebind (int_at contract ''destination_tag'') (\<lambda>destination.
        Inr (block (''policy_contract_'' @ name)
           ([''no ip access-list role-based '' @ name, ''ip access-list role-based '' @ name] @ lines
            @ [''cts role-based permissions from '' @ int_str source @ '' to '' @ int_str destination @ '' '' @ name]) [])))))))"

definition contract_blocks :: "json \<Rightarrow> json list result" where
  "contract_blocks policy =
     (ebind (jget policy ''mode'') (\<lambda>mode.
        (if mode \<noteq> JStr ''sxp'' then Inr []
          else (ebind (items_get policy ''contracts'') (\<lambda>raw.
             ebind (sort_by (\<lambda>c. str_at c ''name'') raw) (\<lambda>contracts.
             mapE contract_block contracts))))))"

definition enforcement_blocks :: "json \<Rightarrow> string \<Rightarrow> json list result" where
  "enforcement_blocks policy device_id =
     (ebind (strs_get policy ''enforcement_device_ids'') (\<lambda>enforcing.
        (if device_id \<notin> set enforcing then Inr []
          else (ebind (items_get policy ''enforcement_vlan_ids'') (\<lambda>vlans.
             ebind (compress_integer_ranges vlans) (\<lambda>vlan_list.
             ebind (contract_blocks policy) (\<lambda>contracts.
             Inr (default_deny_block vlan_list # contracts))))))))"

section \<open>SXP\<close>

text \<open>The one value that all connections of a speaker have under a key.\<close>

definition one_value :: "json list \<Rightarrow> string \<Rightarrow> string \<Rightarrow> string result" where
  "one_value connections key what =
     (ebind (mapE (\<lambda>c. str_at c key) connections) (\<lambda>vs.
        (case sorted_set vs of
            [v] \<Rightarrow> Inr v
          | _ \<Rightarrow> Inl (RenderError (''One SXP speaker cannot render multiple '' @ what)))))"

definition connection_command :: "string \<Rightarrow> json \<Rightarrow> string result" where
  "connection_command vrf_suffix connection =
     (ebind (safe_at connection ''listener_ip'' ''SXP listener address'') (\<lambda>a.
        Inr (''cts sxp connection peer '' @ a @ '' password default mode local speaker'' @ vrf_suffix)))"

definition connection_key :: "json \<Rightarrow> (string \<times> string) result" where
  "connection_key c = (ebind (str_at c ''listener_ip'') (\<lambda>a.
     ebind (str_at c ''id'') (\<lambda>i.
     Inr (a, i))))"

definition speaker_blocks :: "json list \<Rightarrow> json list result" where
  "speaker_blocks connections =
     (if connections = [] then Inr []
      else (ebind (one_value connections ''password_ref'' ''default passwords'') (\<lambda>password_ref.
         ebind (one_value connections ''source_ip'' ''source addresses'') (\<lambda>source_ip.
         ebind (one_value connections ''transport_vrf'' ''transport VRFs'') (\<lambda>vrf.
         ebind ((if vrf = ''global'' then Inr []
                          else (ebind (safe_text False ''SXP transport VRF'' vrf) (\<lambda>v.
                             Inr ('' vrf '' @ v))))) (\<lambda>vrf_suffix.
         ebind (safe_text False ''SXP source address'' source_ip) (\<lambda>source.
         ebind (mapE (connection_command vrf_suffix) connections) (\<lambda>lines.
         Inr [block ''sxp_speaker''
                 ([''cts sxp enable'', ''cts sxp default source-ip '' @ source,
                   ''cts sxp default password '' @ secret_text password_ref] @ lines @ [''cts sxp log binding-changes''])
                 [password_ref]]))))))))"

definition policy_plane_blocks :: "json \<Rightarrow> json \<Rightarrow> json list result" where
  "policy_plane_blocks intent device =
     (ebind (section_of intent ''policy_plane'') (\<lambda>policy.
        ebind (has_mode policy) (\<lambda>active.
        (if \<not> active then Inr []
          else (ebind (str_at device ''id'') (\<lambda>device_id.
             ebind (enforcement_blocks policy device_id) (\<lambda>enforcement.
             ebind (section_of policy ''sxp'') (\<lambda>sxp.
             ebind (items_get sxp ''connections'') (\<lambda>raw.
             ebind (filterE (names ''speaker_id'' device_id) raw) (\<lambda>own.
             ebind (sort_by connection_key own) (\<lambda>connections.
             ebind (speaker_blocks connections) (\<lambda>speaker.
             Inr (enforcement @ speaker)))))))))))))"

section \<open>The operations on ISE\<close>

definition marker :: string where
  "marker = ''managed-by:meraki-dynamic-sda''"

definition operation_id :: "string \<Rightarrow> (string \<times> json) list \<Rightarrow> string" where
  "operation_id stem what = stem @ take 16 (sha256_json (JObj what))"

definition ise_operation :: "string \<Rightarrow> string \<Rightarrow> string \<Rightarrow> (string \<times> json) list \<Rightarrow> (string \<times> json) list \<Rightarrow> json" where
  "ise_operation op_id resource_name strategy lookup desired =
     JObj [(''operation_id'', JStr op_id), (''resource'', JStr resource_name), (''strategy'', JStr strategy),
           (''collision_policy'', JStr ''fail_if_unmanaged''), (''lookup'', JObj lookup), (''desired'', JObj desired)]"

definition group_operation :: "json \<Rightarrow> json result" where
  "group_operation entry =
     (ebind (str_at entry ''name'') (\<lambda>name.
        ebind (int_at entry ''tag'') (\<lambda>tag.
        Inr (ise_operation (operation_id ''ise-sgt-'' [(''resource'', JStr ''sgt''), (''name'', JStr name)]) ''sgt''
           ''upsert_owned_by_name'' [(''name'', JStr name)]
           [(''name'', JStr name), (''value'', JInt tag), (''description'', JStr marker), (''propogateToApic'', JBool False)]))))"

definition acl_operation :: "string \<Rightarrow> string \<Rightarrow> string list \<Rightarrow> json" where
  "acl_operation name contract_name aces =
     ise_operation (operation_id ''ise-sgacl-'' [(''resource'', JStr ''sgacl''), (''name'', JStr name)]) ''sgacl''
       ''upsert_owned_by_name'' [(''name'', JStr name)]
       [(''name'', JStr name), (''description'', JStr (marker @ '' contract:'' @ contract_name)), (''ipVersion'', JStr ''IPV4''),
        (''aclcontent'', JStr (join [newline] aces))]"

definition cell_operation :: "string \<Rightarrow> string \<Rightarrow> string \<Rightarrow> string \<Rightarrow> json" where
  "cell_operation source destination name contract_name =
     ise_operation
       (operation_id ''ise-cell-'' [(''resource'', JStr ''egressmatrixcell''), (''source'', JStr source), (''destination'', JStr destination)])
       ''egressmatrixcell'' ''upsert_owned_by_sgt_pair''
       [(''source_sgt_name'', JStr source), (''destination_sgt_name'', JStr destination)]
       [(''description'', JStr (marker @ '' contract:'' @ contract_name)), (''matrixCellStatus'', JStr ''ENABLED''),
        (''defaultRule'', JStr ''NONE''), (''sgacl_name_refs'', jstrs [name])]"

definition contract_operations :: "json \<Rightarrow> json list result" where
  "contract_operations contract =
     (ebind (str_at contract ''sgacl_name'') (\<lambda>name.
        ebind (str_at contract ''name'') (\<lambda>contract_name.
        ebind (strs_at contract ''aces'') (\<lambda>aces.
        ebind (str_at contract ''source'') (\<lambda>source.
        ebind (str_at contract ''destination'') (\<lambda>destination.
        Inr [acl_operation name contract_name aces, cell_operation source destination name contract_name]))))))"

definition ise_manifest_json :: "json \<Rightarrow> string \<Rightarrow> json \<Rightarrow> json list \<Rightarrow> json result" where
  "ise_manifest_json ise write_node_id write_node operations =
     (ebind (str_at write_node ''address'') (\<lambda>address.
        ebind (str_at write_node ''api_base_url'') (\<lambda>url.
        ebind (str_at ise ''credential_ref'') (\<lambda>credential_ref.
        ebind (jget ise ''ca_bundle_ref'') (\<lambda>bundle.
        Inr (JObj ([(''type'', JStr ''cisco_ise_ers''), (''executor_contract_version'', JStr ''1.0''),
           (''contains_secret_values'', JBool False), (''write_node_id'', JStr write_node_id),
           (''write_node_address'', JStr address), (''api_base_url'', JStr url), (''credential_ref'', JStr credential_ref),
           (''tls_verify'', JBool True), (''csrf_mode'', JStr ''auto''),
           (''ownership'', JObj [(''marker'', JStr marker), (''unmanaged_collision'', JStr ''fail''),
              (''delete_policy'', JStr ''new_owned_resources_only_during_verified_rollback'')]),
           (''preconditions'', jstrs [''ers_read_write_enabled'', ''write_node_is_primary_pan'', ''trusted_tls_chain'',
              ''default_egress_matrix_is_deny'']),
           (''operations'', JArr operations),
           (''rollback'', JStr ''restore_prechange_snapshots_and_delete_only_new_owned_resources'')]
           @ (if truthy bundle then [(''ca_bundle_ref'', JStr (py_str bundle))] else []))))))))"

text \<open>The manifest, when the mode uses ISE.\<close>

definition ise_policy_manifest :: "json \<Rightarrow> json option result" where
  "ise_policy_manifest intent =
     (ebind (section_of intent ''policy_plane'') (\<lambda>policy.
        ebind (section_of policy ''ise'') (\<lambda>ise.
        ebind (jget policy ''mode'') (\<lambda>mode.
        ebind (raise_if (\<not> hashable mode) TypeError) (\<lambda>_.
        (if mode \<noteq> JStr ''ise'' \<and> mode \<noteq> JStr ''hybrid'' then Inr None
          else (ebind (items_get ise ''nodes'') (\<lambda>raw_nodes.
             ebind (by_device_id raw_nodes) (\<lambda>nodes.
             ebind (str_at ise ''write_node_id'') (\<lambda>write_node_id.
             ebind (of_option (KeyError write_node_id) (map_of nodes write_node_id)) (\<lambda>write_node.
             ebind (items_get policy ''security_groups'') (\<lambda>raw_groups.
             ebind (sort_by (\<lambda>g. str_at g ''name'') raw_groups) (\<lambda>sorted_groups.
             ebind (mapE group_operation sorted_groups) (\<lambda>groups.
             ebind (items_get policy ''contracts'') (\<lambda>raw_contracts.
             ebind (sort_by (\<lambda>c. str_at c ''name'') raw_contracts) (\<lambda>sorted_contracts.
             ebind (mapE contract_operations sorted_contracts) (\<lambda>contracts.
             ebind (ise_manifest_json ise write_node_id write_node (groups @ concat contracts)) (\<lambda>manifest.
             Inr (Some manifest)))))))))))))))))))"

section \<open>Binding to the plan\<close>

text \<open>The candidate manifest and its reconciliation with the plan's baseline.\<close>

definition bound_reconciliation :: "json \<Rightarrow> json \<Rightarrow> (json \<times> json) result" where
  "bound_reconciliation intent plan =
     (ebind (str_at plan ''intent_hash'') (\<lambda>intent_hash.
        ebind (raise_if (intent_hash \<noteq> sha256_json intent) (RenderError ''Plan intent hash does not match the supplied intent'')) (\<lambda>_.
        ebind (build_multicast_owned_state intent) (\<lambda>owned.
        ebind (jget plan ''reconciliation_baseline'') (\<lambda>baseline.
        ebind (build_multicast_reconciliation (if baseline = JNull then None else Some baseline) owned) (\<lambda>reconciliation.
        ebind (section_of plan ''reconciliation'') (\<lambda>planned.
        ebind (jget planned ''status'') (\<lambda>planned_status.
        ebind (jidx reconciliation ''status'') (\<lambda>status.
        ebind (raise_if (py_str planned_status \<noteq> py_str status)
           (RenderError ''Plan reconciliation status does not match the supplied baseline'')) (\<lambda>_.
        ebind (jget planned ''baseline_hash'') (\<lambda>planned_baseline.
        ebind (jget reconciliation ''baseline_hash'') (\<lambda>baseline_hash.
        ebind (raise_if (planned_baseline \<noteq> baseline_hash) (RenderError ''Plan reconciliation baseline hash does not match'')) (\<lambda>_.
        ebind (jget planned ''reconciliation_hash'') (\<lambda>planned_delta.
        ebind (jget reconciliation ''reconciliation_hash'') (\<lambda>delta.
        ebind (raise_if (planned_delta \<noteq> delta) (RenderError ''Plan reconciliation delta hash does not match'')) (\<lambda>_.
        Inr (owned, reconciliation)))))))))))))))))"

section \<open>Blocking requirements\<close>

definition blocker :: "bool \<Rightarrow> string \<Rightarrow> string \<Rightarrow> json list" where
  "blocker b code message = (if b then [JObj [(''code'', JStr code), (''message'', JStr message)]] else [])"

definition handoff_blockers :: "json \<Rightarrow> json list result" where
  "handoff_blockers intent =
     (ebind (section_of intent ''border_handoff'') (\<lambda>handoff.
        ebind (jget handoff ''enabled'') (\<lambda>enabled.
        ebind (jget handoff ''mode'') (\<lambda>mode.
        ebind (jget_default intent ''fabric'' (JObj [])) (\<lambda>fabric.
        ebind (jget fabric ''control_plane_mode'') (\<lambda>control.
        ebind (jget intent ''shared_services'') (\<lambda>shared.
        Inr (blocker (\<not> truthy enabled \<and> mode \<noteq> JStr ''isolated'') ''border_handoff.missing''
                ''BGP/fusion handoff is not defined; apply remains disabled''
              @ blocker (control = JStr ''lisp_pubsub'') ''lisp_pubsub.hardware_acceptance_pending''
                ''LISP Pub/Sub subscriber CLI and operational gates are rendered and rollback-tested but await compatible IOS XE hardware acceptance''
              @ blocker (truthy shared) ''shared_services.hardware_acceptance_pending''
                ''Shared-service route leaking is rendered and rollback-tested but awaits compatible IOS XE fusion hardware acceptance''))))))))"

definition multicast_blockers :: "json \<Rightarrow> json \<Rightarrow> json list result" where
  "multicast_blockers intent reconciliation =
     (ebind (section_of intent ''multicast'') (\<lambda>multicast.
        ebind (jget intent ''schema_version'') (\<lambda>version.
        ebind (contains_key ''multicast'' intent) (\<lambda>has_multicast.
        ebind (jidx reconciliation ''status'') (\<lambda>status.
        ebind (jget_default reconciliation ''stale_resource_count'' (JInt 0)) (\<lambda>stale.
        ebind (jget multicast ''enabled'') (\<lambda>enabled.
        ebind (jget multicast ''transport'') (\<lambda>transport.
        Inr (blocker (py_str version = ''1.2'' \<and> has_multicast \<and> status \<noteq> JStr ''ready'') ''multicast.reconciliation_baseline_missing''
                ''Multicast apply remains disabled until a last-successful-apply or independently approved discovery baseline is bound to the plan''
              @ blocker (truthy stale) ''multicast.reconciliation_hardware_acceptance_pending''
                ''Owned-state pruning is deterministic and rollback-bound but its removal commands and absence gates await compatible IOS XE hardware acceptance''
              @ blocker (truthy enabled \<and> transport = JStr ''native'') ''multicast.hardware_acceptance_pending''
                ''Native overlay ASM/SSM fabric and fusion CLI plus operational gates are rendered but await compatible IOS XE hardware acceptance and traffic-flow proof''
              @ blocker (truthy enabled \<and> transport \<noteq> JStr ''native'') ''multicast.head_end_replication_renderer_pending''
                ''Head-end replication remains disabled until its release-specific renderer and acceptance suite are complete'')))))))))"

definition local_pool :: "json \<Rightarrow> bool result" where
  "local_pool pool = (ebind (section_of pool ''dhcp'') (\<lambda>dhcp.
     ebind (jget dhcp ''mode'') (\<lambda>mode.
     Inr (mode = JStr ''local_border''))))"

definition policy_blockers :: "json \<Rightarrow> json list result" where
  "policy_blockers intent =
     (ebind (section_of intent ''policy_plane'') (\<lambda>policy_plane.
        ebind (has_mode policy_plane) (\<lambda>active.
        ebind (items_get intent ''endpoint_pools'') (\<lambda>pools.
        ebind (anyE local_pool pools) (\<lambda>local_dhcp.
        ebind (jget intent ''endpoint_attachments'') (\<lambda>attachments.
        Inr (blocker active ''policy_plane.hardware_api_acceptance_pending''
                ''ISE reconciliation, SXP transport, SGACL policy, and edge enforcement are rendered but await ISE API and IOS XE hardware acceptance''
              @ blocker (local_dhcp \<or> truthy attachments) ''poc.local_dhcp_and_attachment_hardware_acceptance_pending''
                ''C9500 local DHCP relay and fabric-edge endpoint-port rendering are plan-derived but require controlled IOS XE DHCP, relay, endpoint DHCP, and rollback acceptance before Apply can be enabled'')))))))"

definition blocking_requirements :: "json \<Rightarrow> json \<Rightarrow> json list result" where
  "blocking_requirements intent reconciliation =
     (ebind (handoff_blockers intent) (\<lambda>handoff.
        ebind (multicast_blockers intent reconciliation) (\<lambda>multicast.
        ebind (policy_blockers intent) (\<lambda>policy.
        Inr (handoff @ multicast @ policy)))))"

section \<open>Phases of a device\<close>

definition phase_part :: "string \<Rightarrow> json list \<Rightarrow> json" where
  "phase_part phase_id blocks = JObj [(''phase_id'', JStr phase_id), (''blocks'', JArr blocks)]"

text \<open>The phase of a part that renders something.\<close>

definition some_blocks :: "string \<Rightarrow> json list \<Rightarrow> json list" where
  "some_blocks phase_id blocks = (if blocks = [] then [] else [phase_part phase_id blocks])"

definition removal_phase :: "json \<Rightarrow> json list result" where
  "removal_phase entry = (ebind (items_at entry ''blocks'') (\<lambda>blocks.
     Inr [phase_part ''multicast_reconciliation'' blocks]))"

definition reconciled :: "json \<Rightarrow> string \<Rightarrow> json list result" where
  "reconciled reconciliation device_id =
     (ebind (jget_default reconciliation ''devices'' (JObj [])) (\<lambda>devices.
        ebind (jget devices device_id) (\<lambda>entry.
        (if truthy entry then removal_phase entry else Inr []))))"

definition edge_phases :: "json \<Rightarrow> json \<Rightarrow> bool \<Rightarrow> json list result" where
  "edge_phases intent device is_border =
     (ebind (edge_lisp_blocks intent) (\<lambda>lisp.
        ebind (edge_overlay_blocks intent) (\<lambda>overlay.
        ebind (edge_endpoint_attachment_blocks intent device) (\<lambda>attachments.
        ebind ((if is_border then pubsub_subscriber_blocks intent device else Inr [])) (\<lambda>subscriber.
        Inr [phase_part ''lisp_edges'' lisp, phase_part ''overlay'' (overlay @ attachments @ subscriber)])))))"

definition border_overlay_phases :: "json \<Rightarrow> json \<Rightarrow> json list result" where
  "border_overlay_phases intent device =
     (ebind (vrf_blocks intent) (\<lambda>vrfs.
        ebind (pubsub_subscriber_blocks intent device) (\<lambda>subscriber.
        ebind (border_local_dhcp_blocks intent device) (\<lambda>dhcp.
        Inr [phase_part ''overlay'' (vrfs @ subscriber @ dhcp)]))))"

definition overlay_phases :: "json \<Rightarrow> json \<Rightarrow> json list \<Rightarrow> json list result" where
  "overlay_phases intent device roles =
     (if JStr ''fabric_edge'' \<in> set roles then edge_phases intent device (JStr ''border'' \<in> set roles)
      else if JStr ''border'' \<in> set roles then border_overlay_phases intent device
      else Inr [])"

definition device_phases :: "json \<Rightarrow> json \<Rightarrow> json \<Rightarrow> json list \<Rightarrow> json list result" where
  "device_phases intent reconciliation device roles =
     (ebind (str_at device ''id'') (\<lambda>device_id.
        ebind (reconciled reconciliation device_id) (\<lambda>removal.
        ebind (underlay_blocks intent device) (\<lambda>underlay.
        ebind ((if JStr ''control_plane'' \<in> set roles
                     then (ebind (control_plane_blocks intent device) (\<lambda>bs.
                        Inr [phase_part ''lisp_control_plane'' bs])) else Inr [])) (\<lambda>control.
        ebind (overlay_phases intent device roles) (\<lambda>overlay.
        ebind (multicast_overlay_blocks intent device) (\<lambda>multicast.
        ebind (policy_plane_blocks intent device) (\<lambda>policy.
        ebind ((if JStr ''border'' \<in> set roles
                     then (ebind (border_handoff_blocks intent device) (\<lambda>bs.
                        Inr [phase_part ''border_handoff'' bs])) else Inr [])) (\<lambda>handoff.
        Inr (removal @ [phase_part ''underlay'' underlay] @ control @ overlay @ some_blocks ''multicast'' multicast
              @ some_blocks ''policy_plane'' policy @ handoff))))))))))"

definition fusion_phases :: "json \<Rightarrow> json \<Rightarrow> json \<Rightarrow> json list result" where
  "fusion_phases intent reconciliation fusion =
     (ebind (fusion_multicast_blocks intent fusion) (\<lambda>multicast.
        ebind (str_at fusion ''id'') (\<lambda>fusion_id.
        ebind (reconciled reconciliation fusion_id) (\<lambda>removal.
        ebind (fusion_handoff_blocks intent fusion) (\<lambda>handoff.
        ebind (fusion_shared_service_blocks intent fusion) (\<lambda>shared.
        Inr (removal @ [phase_part ''border_handoff'' handoff, phase_part ''shared_services'' shared]
              @ some_blocks ''multicast'' multicast)))))))"

section \<open>Devices of the artifact\<close>

definition software_of :: "json \<Rightarrow> (string \<times> json) list result" where
  "software_of device =
     (ebind (str_at device ''hostname'') (\<lambda>hostname.
        ebind (str_at device ''platform'') (\<lambda>platform.
        ebind (str_at device ''software_version'') (\<lambda>version.
        Inr [(''hostname'', JStr hostname), (''platform'', JStr platform), (''software_version'', JStr version)]))))"

definition device_artifact :: "json \<Rightarrow> json \<Rightarrow> json \<Rightarrow> (string \<times> json) result" where
  "device_artifact intent reconciliation device =
     (ebind (role_set device) (\<lambda>roles.
        ebind (device_phases intent reconciliation device roles) (\<lambda>phases.
        ebind (str_at device ''id'') (\<lambda>device_id.
        ebind (software_of device) (\<lambda>software.
        ebind (py_sorted (remdups roles)) (\<lambda>ordered.
        Inr (device_id, JObj (software @ [(''roles'', JArr ordered), (''phases'', JArr phases)]))))))))"

definition fusion_artifact :: "json \<Rightarrow> json \<Rightarrow> json \<Rightarrow> (string \<times> json) result" where
  "fusion_artifact intent reconciliation fusion =
     (ebind (fusion_phases intent reconciliation fusion) (\<lambda>phases.
        ebind (str_at fusion ''id'') (\<lambda>fusion_id.
        ebind (software_of fusion) (\<lambda>software.
        Inr (fusion_id, JObj (software @ [(''roles'', jstrs [''fusion'']), (''phases'', JArr phases)]))))))"

definition retired_artifact :: "string \<times> json \<Rightarrow> (string \<times> json) result" where
  "retired_artifact = (\<lambda>(device_id, entry).
     (ebind (jidx entry ''device'') (\<lambda>descriptor.
        ebind (software_of descriptor) (\<lambda>software.
        ebind (role_set descriptor) (\<lambda>roles.
        ebind (py_sorted (remdups roles)) (\<lambda>ordered.
        ebind (Json.fields descriptor) (\<lambda>kvs.
        ebind (removal_phase entry) (\<lambda>phases.
        Inr (device_id, JObj (software @ [(''roles'', JArr ordered), (''retired_target'', JBool True),
           (''device_descriptor'', JObj kvs), (''phases'', JArr phases)]))))))))))"

text \<open>The artifacts by device; a later one of the same name replaces an earlier one.\<close>

definition put_all :: "(string \<times> json) list \<Rightarrow> (string \<times> json) list \<Rightarrow> (string \<times> json) list" where
  "put_all = foldl (\<lambda>acc (k, v). set_field k v acc)"

definition artifact_devices :: "json \<Rightarrow> json \<Rightarrow> (string \<times> json) list result" where
  "artifact_devices intent reconciliation =
     (ebind (items_at intent ''devices'') (\<lambda>raw_devices.
        ebind (sort_by (\<lambda>d. str_at d ''id'') raw_devices) (\<lambda>devices.
        ebind (mapE (device_artifact intent reconciliation) devices) (\<lambda>fabric.
        ebind (items_get intent ''fusion_nodes'') (\<lambda>raw_fusions.
        ebind (sort_by (\<lambda>d. str_at d ''id'') raw_fusions) (\<lambda>fusions.
        ebind (mapE (fusion_artifact intent reconciliation) fusions) (\<lambda>fusion.
        let active = put_all [] (fabric @ fusion) in
        ebind (jget_default reconciliation ''devices'' (JObj [])) (\<lambda>raw.
        ebind (items_of raw) (\<lambda>entries.
        ebind (mapE retired_artifact (sort_key fst (filter (\<lambda>e. map_of active (fst e) = None) entries))) (\<lambda>retired.
        Inr (put_all active retired)))))))))))"

section \<open>The artifact\<close>

definition render_configuration :: "json \<Rightarrow> json \<Rightarrow> json result" where
  "render_configuration intent plan =
     (ebind (bound_reconciliation intent plan) (\<lambda>(owned, reconciliation).
        ebind (blocking_requirements intent reconciliation) (\<lambda>blockers.
        ebind (artifact_devices intent reconciliation) (\<lambda>devices.
        ebind (str_at intent ''schema_version'') (\<lambda>version.
        ebind (str_at plan ''plan_id'') (\<lambda>plan_id.
        ebind (str_at plan ''plan_hash'') (\<lambda>plan_hash.
        ebind (str_at plan ''intent_hash'') (\<lambda>intent_hash.
        ebind (jidx intent ''fabric'') (\<lambda>fabric.
        ebind (str_at fabric ''id'') (\<lambda>fabric_id.
        ebind (ise_policy_manifest intent) (\<lambda>ise.
        let external = (case ise of None \<Rightarrow> [] | Some manifest \<Rightarrow> [(''ise'', manifest)]) in
        let body = [(''artifact_schema_version'', JStr ''1.0''), (''intent_schema_version'', JStr version),
                     (''plan_id'', JStr plan_id), (''plan_hash'', JStr plan_hash), (''intent_hash'', JStr intent_hash),
                     (''fabric_id'', JStr fabric_id), (''devices'', JObj devices), (''owned_state'', owned),
                     (''reconciliation'', reconciliation), (''external_systems'', JObj external),
                     (''blocking_requirements'', JArr blockers), (''contains_secret_values'', JBool False),
                     (''review_required'', JBool True), (''executable'', JBool False)] in
        Inr (JObj (body @ [(''artifact_hash'', JStr (sha256_json (JObj body)))])))))))))))))"

end
