(* ===== verification/RenderSound.thy ===== *)
theory RenderSound
  imports Renderer
begin

text \<open>
  The blocks of every part of the renderer are sound: their commands carry checked text, and the
  placeholders of the secrets that the block declares.
\<close>

section \<open>Clean text\<close>

definition clean_char :: "char \<Rightarrow> bool" where
  "clean_char c \<longleftrightarrow> ordc c \<noteq> (60 :: nat) \<and> ordc c \<noteq> (10 :: nat) \<and> ordc c \<noteq> (13 :: nat)"

definition clean :: "string \<Rightarrow> bool" where
  "clean s \<longleftrightarrow> (\<forall>c \<in> set s. clean_char c)"

named_theorems cleanI \<open>texts that are clean\<close>

lemma clean_simps [simp]: "clean []" "clean (c # s) \<longleftrightarrow> clean_char c \<and> clean s" "clean (s @ t) \<longleftrightarrow> clean s \<and> clean t"
  by (auto simp: clean_def)

lemma clean_char_Char [simp]:
  "clean_char (Char b0 b1 b2 b3 b4 b5 b6 b7) \<longleftrightarrow>
     b7 \<or> b6 \<or> (if b5 then \<not> b4 \<or> \<not> b3 \<or> \<not> b2 \<or> b1 \<or> b0 else b4 \<or> \<not> b3 \<or> (if b2 then b1 \<or> \<not> b0 else \<not> b1 \<or> b0))"
  by (cases b0; cases b1; cases b2; cases b3; cases b4; cases b5; cases b6; cases b7) (simp_all add: clean_char_def)

lemma clean_digit: "is_digit c \<Longrightarrow> clean_char c"
  by (simp add: clean_char_def is_digit_def)

lemma clean_in_class: "in_class extra c \<Longrightarrow> clean extra \<Longrightarrow> clean_char c"
proof -
  have "is_alnum c \<Longrightarrow> clean_char c"
    by (auto simp: clean_char_def is_alnum_def is_digit_def is_upper_def is_lower_def)
  then show "in_class extra c \<Longrightarrow> clean extra \<Longrightarrow> clean_char c" by (auto simp: in_class_def clean_def)
qed

lemma clean_all: "list_all P s \<Longrightarrow> (\<And>c. P c \<Longrightarrow> clean_char c) \<Longrightarrow> clean s"
  by (auto simp: clean_def list_all_iff)

lemma clean_nat_str [simp]: "clean (nat_str n)"
  using nat_str_digits clean_digit by (rule clean_all)

lemma clean_int_str [simp]: "clean (int_str i)"
  by (simp add: int_str_def)

lemma clean_join [simp]: "clean sep \<Longrightarrow> clean (join sep xs) \<longleftrightarrow> (\<forall>x \<in> set xs. clean x)"
  by (induction sep xs rule: join.induct) auto

lemma clean_replace [simp]: "clean_char d \<Longrightarrow> clean s \<Longrightarrow> clean (replace_char c d s)"
  by (auto simp: clean_def replace_char_def)

lemma clean_take [simp]: "clean s \<Longrightarrow> clean (take n s)"
  by (auto simp: clean_def dest: in_set_takeD)

lemma clean_drop [simp]: "clean s \<Longrightarrow> clean (drop n s)"
  by (auto simp: clean_def dest: in_set_dropD)

lemma clean_addr_str [simp]: "clean (addr_str a)"
  by (simp add: addr_str_def)

lemma clean_hex_digit: "d < 16 \<Longrightarrow> clean_char (hex_digit d)"
  using is_hex_lower_hex_digit [of d] by (auto simp: clean_char_def is_hex_lower_def is_digit_def)

lemma clean_hex_str [simp]: "clean (hex_str n)"
  by (induction n rule: hex_str.induct) (subst hex_str.simps, simp add: clean_hex_digit)

lemma clean_addr6_str [simp]: "clean (addr6_str gs)"
  by (simp add: addr6_str_def Let_def)

lemma clean_net_str [simp]: "clean (net_str n)"
  by (simp add: net_str_def)

lemma clean_upper_hex: "is_hex_lower c \<Longrightarrow> clean_char (upper_char c)"
  by (auto simp: clean_char_def is_hex_lower_def is_digit_def upper_char_def is_lower_def)

lemma clean_digest [simp]: "clean (upper (take n (sha256_json v)))"
proof -
  have "list_all is_hex_lower (sha256_json v)"
    using sha256_json_form [of v] by (simp add: sha256_hex_lower_def)
  then have "\<forall>c \<in> set (take n (sha256_json v)). clean_char (upper_char c)"
    by (auto simp: list_all_iff dest: in_set_takeD clean_upper_hex)
  then show ?thesis by (simp add: clean_def upper_def)
qed

section \<open>What the checks of values return\<close>

lemma safe_text_clean: "safe_text b label s = Inr t \<Longrightarrow> clean t"
proof -
  assume "safe_text b label s = Inr t"
  then have "list_all (in_class (if b then ''_.:/ -'' else ''_.:/-'')) t"
    by (auto simp: safe_text_def safe_chars_def split: if_splits)
  moreover have "clean (if b then ''_.:/ -'' else ''_.:/-'')" by (simp add: clean_char_def)
  ultimately show "clean t" by (auto simp: clean_def list_all_iff intro: clean_in_class)
qed

lemma safe_at_clean: "safe_at v k label = Inr t \<Longrightarrow> clean t"
  by (auto simp: safe_at_def res intro: safe_text_clean)

lemma text_at_clean: "text_at v k label = Inr t \<Longrightarrow> clean t"
  by (auto simp: text_at_def res intro: safe_text_clean)

lemma locator_set_clean: "locator_set intent = Inr t \<Longrightarrow> clean t"
  by (auto simp: locator_set_def res intro: safe_text_clean)

lemma policy_name_clean: "policy_name kind v = Inr t \<Longrightarrow> clean t"
  by (auto simp: policy_name_def res dest!: safe_text_clean)

lemma clean_octet3 [simp]: "clean (octet3 n)"
  by (simp add: octet3_def)

lemma clean_isis_digits [simp]: "clean (isis_digits a)"
  by (simp only: isis_digits_def clean_simps clean_octet3)

lemma isis_net_clean: "isis_net a area = Inr t \<Longrightarrow> clean t"
  unfolding isis_net_def Let_def
  by (elim ebind_InrE, simp split: ipaddr.split_asm, elim ebind_InrE) (auto dest!: safe_text_clean)

definition clean_net :: "net_texts \<Rightarrow> bool" where
  "clean_net n \<longleftrightarrow> clean (nt_address n) \<and> clean (nt_netmask n) \<and> clean (nt_hostmask n) \<and> clean (nt_network n)"

lemma clean_slash: "clean ''/''"
  by (simp add: clean_char_def)

text \<open>
  An IPv6 network is printed with its scope identifier, the text after the percent sign: it is
  clean when that text is.
\<close>

definition scope_clean :: "string \<Rightarrow> bool" where
  "scope_clean s \<longleftrightarrow> clean (dropWhile (\<lambda>c. c \<noteq> CHR ''%'') s)"

lemma scope_cleanI: "clean s \<Longrightarrow> scope_clean s"
  by (auto simp: scope_clean_def clean_def dest: set_dropWhileD)

lemma unscoped_clean:
  assumes "CHR ''%'' \<notin> set s"
  shows "scope_clean s"
proof -
  have "dropWhile (\<lambda>c. c \<noteq> CHR ''%'') s = []" using assms by (auto simp: dropWhile_eq_Nil_conv)
  then show ?thesis unfolding scope_clean_def by (simp only:) (simp add: clean_def)
qed

lemma net6_texts_clean:
  assumes "is_net6 s" and "scope_clean s"
  shows "clean_net (net6_texts s)"
proof -
  from is_net6_parses [OF assms(1)] obtain x where x: "parse_scoped6 (hd (split_on (CHR ''/'') s)) = Some x" ..
  have "set (dropWhile (\<lambda>c. c \<noteq> CHR ''%'') (hd (split_on (CHR ''/'') s))) \<subseteq> set (dropWhile (\<lambda>c. c \<noteq> CHR ''%'') s)"
    by (rule split_on_scope) simp
  then have "clean (scoped6_str x)"
    using scoped6_chars [OF x] clean_addr6_str [of "fst x"] assms(2) unfolding scope_clean_def clean_def by blast
  then have "clean (scoped6_str (the (parse_scoped6 (hd (split_on (CHR ''/'') s)))))" by (simp add: x)
  then show ?thesis unfolding net6_texts_def clean_net_def Let_def net_texts.select_convs clean_simps(3)
    by (intro conjI clean_addr6_str clean_slash clean_nat_str)
qed

lemma net4_texts_clean:
  "clean_net \<lparr>nt_address = addr_str a, nt_netmask = addr_str m, nt_hostmask = addr_str h, nt_network = net_str n\<rparr>"
  by (simp only: clean_net_def net_texts.select_convs clean_addr_str clean_net_str)

lemma net_texts_clean: "net_texts s = Inr n \<Longrightarrow> scope_clean s \<Longrightarrow> clean_net n"
  unfolding net_texts_def
  by (auto simp only: sum.inject net6_texts_clean net4_texts_clean split: option.splits if_splits)

text \<open>The masks of a network have no scope.\<close>

lemma net_texts_masks: "net_texts s = Inr n \<Longrightarrow> clean (nt_netmask n) \<and> clean (nt_hostmask n)"
  unfolding net_texts_def
  by (auto simp: net6_texts_def Let_def split: option.splits if_splits)

lemma net_at_key_masks: "net_at_key v k = Inr n \<Longrightarrow> clean (nt_netmask n) \<and> clean (nt_hostmask n)"
  by (auto simp: net_at_key_def res dest: net_texts_masks)

text \<open>
  The networks that the renderer prints without checking their texts: the prefixes of the
  endpoint pools and the group ranges of the multicast policies, here without scope identifiers.
\<close>

definition unscoped :: "json \<Rightarrow> string \<Rightarrow> bool" where
  "unscoped v k \<longleftrightarrow> (case str_at v k of Inr s \<Rightarrow> CHR ''%'' \<notin> set s | Inl _ \<Rightarrow> True)"

definition unscoped_networks :: "json \<Rightarrow> bool" where
  "unscoped_networks intent \<longleftrightarrow>
     (case items_get intent ''endpoint_pools'' of
        Inr pools \<Rightarrow> list_all (\<lambda>p. unscoped p ''prefix'') pools | Inl _ \<Rightarrow> True)
   \<and> (case items_get (jor (field intent ''multicast'') (JObj [])) ''overlay_policies'' of
        Inr policies \<Rightarrow> list_all (\<lambda>p. unscoped p ''group_range'') policies | Inl _ \<Rightarrow> True)"

lemma net_at_key_clean: "net_at_key v k = Inr n \<Longrightarrow> unscoped v k \<Longrightarrow> clean_net n"
  by (auto simp: net_at_key_def unscoped_def res dest!: net_texts_clean unscoped_clean)

lemma unscoped_pools:
  assumes "unscoped_networks intent" and "items_get intent ''endpoint_pools'' = Inr raw" and "sort_by f raw = Inr pools"
    and "p \<in> set pools"
  shows "unscoped p ''prefix''"
  using assms sort_by_Inr_set [OF assms(3)] by (simp add: unscoped_networks_def list_all_iff)

lemma unscoped_policies:
  assumes "unscoped_networks intent" and "section_of intent ''multicast'' = Inr m" and "sorted_policies m = Inr policies"
    and "p \<in> set policies"
  shows "unscoped p ''group_range''"
proof -
  from assms(3) obtain raw where r: "items_get m ''overlay_policies'' = Inr raw"
    "sort_by (\<lambda>p. int_at p ''l3_instance_id'') raw = Inr policies" by (auto simp: sorted_policies_def res)
  then show ?thesis using assms(1,4) sort_by_Inr_set [OF r(2)] section_of_field [OF assms(2)]
    by (simp add: unscoped_networks_def list_all_iff)
qed

lemma items_at_get: "items_at v k = Inr xs \<Longrightarrow> items_get v k = Inr xs"
  by (cases v) (auto simp: items_at_def items_get_def jget_default_def res split: option.splits)

lemmas clean_dests = safe_text_clean safe_at_clean text_at_clean locator_set_clean policy_name_clean isis_net_clean
  net_texts_masks net_at_key_masks

section \<open>Commands and blocks\<close>

definition cleans :: "string list \<Rightarrow> bool" where
  "cleans cs \<longleftrightarrow> (\<forall>c \<in> set cs. clean c)"

lemma cleans_simps [simp]: "cleans []" "cleans (c # cs) \<longleftrightarrow> clean c \<and> cleans cs" "cleans (xs @ ys) \<longleftrightarrow> cleans xs \<and> cleans ys"
  "cleans (concat xss) \<longleftrightarrow> (\<forall>xs \<in> set xss. cleans xs)" "cleans (map f as) \<longleftrightarrow> (\<forall>a \<in> set as. clean (f a))"
  by (auto simp: cleans_def)

text \<open>A command is clean, or it is clean around the placeholder of one of the references.\<close>

definition command_sound :: "string list \<Rightarrow> string \<Rightarrow> bool" where
  "command_sound refs c \<longleftrightarrow>
     clean c \<or> (\<exists>pre r post. r \<in> set refs \<and> clean pre \<and> clean post \<and> c = pre @ secret_text r @ post)"

definition block_sound :: "json \<Rightarrow> bool" where
  "block_sound b \<longleftrightarrow>
     (\<exists>commands refs. field b ''commands'' = jstrs commands \<and> field b ''secret_refs'' = jstrs refs
        \<and> field b ''command_hash'' = JStr (commands_hash commands)
        \<and> (\<forall>c \<in> set commands. command_sound refs c))"

definition sounds :: "json list \<Rightarrow> bool" where
  "sounds bs \<longleftrightarrow> (\<forall>b \<in> set bs. block_sound b)"

lemma sounds_simps [simp]: "sounds []" "sounds (b # bs) \<longleftrightarrow> block_sound b \<and> sounds bs" "sounds (xs @ ys) \<longleftrightarrow> sounds xs \<and> sounds ys"
  "sounds (concat xss) \<longleftrightarrow> (\<forall>xs \<in> set xss. sounds xs)" "sounds (map f as) \<longleftrightarrow> (\<forall>a \<in> set as. block_sound (f a))"
  "sounds (rev bs) \<longleftrightarrow> sounds bs"
  by (auto simp: sounds_def)

lemma block_fields [simp]:
  "field (block i cs rs) ''commands'' = jstrs (filter (\<lambda>c. c \<noteq> []) cs)" "field (block i cs rs) ''secret_refs'' = jstrs (sorted_set rs)"
  "field (block i cs rs) ''command_hash'' = JStr (commands_hash (filter (\<lambda>c. c \<noteq> []) cs))"
  by (simp_all add: block_def Let_def)

lemma block_sound_block: "(\<forall>c \<in> set cs. command_sound rs c) \<Longrightarrow> block_sound (block i cs rs)"
  unfolding block_sound_def command_sound_def by (intro exI conjI, rule block_fields, rule block_fields, rule block_fields) auto

lemma block_sound_clean [simp]: "cleans cs \<Longrightarrow> block_sound (block i cs [])"
  by (rule block_sound_block) (auto simp: cleans_def command_sound_def)

lemma command_sound_clean: "clean c \<Longrightarrow> command_sound rs c"
  by (simp add: command_sound_def)

lemma command_sound_secret: "clean pre \<Longrightarrow> r \<in> set rs \<Longrightarrow> clean post \<Longrightarrow> command_sound rs (pre @ secret_text r @ post)"
  unfolding command_sound_def by blast

text \<open>What loops return.\<close>

lemma mapE_cleans: "mapE f xs = Inr ys \<Longrightarrow> (\<And>x y. f x = Inr y \<Longrightarrow> clean y) \<Longrightarrow> cleans ys"
  by (auto simp: cleans_def dest: mapE_Inr_set)

lemma mapE_all: "mapE f xs = Inr ys \<Longrightarrow> (\<And>x y. f x = Inr y \<Longrightarrow> P y) \<Longrightarrow> \<forall>y \<in> set ys. P y"
  by (blast dest: mapE_Inr_set)

section \<open>The underlay\<close>

lemma system_commands_clean: "system_commands mtu multicast b = Inr cs \<Longrightarrow> cleans cs"
  by (auto simp: system_commands_def res dest!: clean_dests split: if_splits)

lemma loopback_commands_clean: "loopback_commands device tag b = Inr cs \<Longrightarrow> clean tag \<Longrightarrow> cleans cs"
  by (auto simp: loopback_commands_def res dest!: clean_dests)

lemma isis_commands_clean: "isis_commands device tag area = Inr cs \<Longrightarrow> clean tag \<Longrightarrow> cleans cs"
  by (auto simp: isis_commands_def res dest!: clean_dests)

lemma msdp_blocks_sound: "msdp_blocks intent rps i = Inr bs \<Longrightarrow> sounds bs"
proof -
  assume "msdp_blocks intent rps i = Inr bs"
  then obtain us ps where p: "mapE (safe_text False ''MSDP peer'') us = Inr ps"
    and bs: "bs = (if ps = [] then [] else [block ''multicast_msdp'' (map (\<lambda>a. ''ip msdp peer '' @ a @ '' connect-source Loopback0'') ps
        @ [''ip msdp cache-sa-state'', ''ip msdp originator-id Loopback0'']) []])"
    by (auto simp: msdp_blocks_def res)
  have "\<forall>a \<in> set ps. clean a" using p safe_text_clean by (rule mapE_all)
  then show "sounds bs" by (simp add: bs)
qed

lemma rp_blocks_sound: "rp_blocks intent m mi rps i tag = Inr bs \<Longrightarrow> clean tag \<Longrightarrow> sounds bs"
  by (auto simp: rp_blocks_def res dest!: clean_dests msdp_blocks_sound split: if_splits)

lemma bfd_commands_clean: "bfd_commands bfd = Inr cs \<Longrightarrow> cleans cs"
  by (auto simp: bfd_commands_def res split: if_splits)

lemma link_commands_clean: "link_commands link here peer tag mtu ip_mtu = Inr cs \<Longrightarrow> clean tag \<Longrightarrow> cleans cs"
  by (auto simp: link_commands_def res clean_net_def dest!: clean_dests bfd_commands_clean)

lemma link_blocks_sound: "link_blocks i tag mtu ip_mtu link = Inr bs \<Longrightarrow> clean tag \<Longrightarrow> sounds bs"
  by (auto simp: link_blocks_def res dest!: link_commands_clean split: option.splits)

lemma underlay_rp_blocks_sound: "underlay_rp_blocks intent device m b i tag = Inr bs \<Longrightarrow> clean tag \<Longrightarrow> sounds bs"
  by (auto simp: underlay_rp_blocks_def res Let_def dest!: rp_blocks_sound split: if_splits)

lemma underlay_blocks_sound:
  assumes "underlay_blocks intent device = Inr bs"
  shows "sounds bs"
proof -
  from assms obtain tag area system loopback isis rp parts m1 m2 m3 i mu mtu ip_mtu b links raw where
    t: "safe_text False ''IS-IS process'' raw = Inr tag"
    and p: "system_commands mtu m1 b = Inr system" "loopback_commands device tag b = Inr loopback" "isis_commands device tag area = Inr isis"
      "underlay_rp_blocks intent device m1 b i tag = Inr rp" "mapE (link_blocks i tag mtu ip_mtu) links = Inr parts"
    and bs: "bs = [block ''system'' system [], block ''loopback0'' loopback [], block ''router_isis'' isis []] @ rp @ concat parts"
    unfolding underlay_blocks_def Let_def by (elim ebind_InrE) (rule that, assumption+, simp)
  have tag: "clean tag" using t by (rule safe_text_clean)
  have "\<forall>xs \<in> set parts. sounds xs" using p(5) by (rule mapE_all) (rule link_blocks_sound [OF _ tag])
  then show ?thesis
    using system_commands_clean [OF p(1)] loopback_commands_clean [OF p(2) tag] isis_commands_clean [OF p(3) tag]
      underlay_rp_blocks_sound [OF p(4) tag] by (simp add: bs)
qed

section \<open>Commands with secrets\<close>

lemma command_sound_Cons [simp]: "clean_char c \<Longrightarrow> command_sound rs s \<Longrightarrow> command_sound rs (c # s)"
  unfolding command_sound_def by (metis append_Cons clean_simps(2))

lemma command_sound_append [simp]: "clean t \<Longrightarrow> command_sound rs s \<Longrightarrow> command_sound rs (t @ s)"
  unfolding command_sound_def by (metis append_assoc clean_simps(3))

lemma command_sound_secret_text [simp]:
  "r \<in> set rs \<Longrightarrow> command_sound rs (secret_text r)" "r \<in> set rs \<Longrightarrow> clean t \<Longrightarrow> command_sound rs (secret_text r @ t)"
  using command_sound_secret [of "[]" r rs "[]"] command_sound_secret [of "[]" r rs t] by simp_all

lemma command_sound_of_clean [simp]: "clean c \<Longrightarrow> command_sound rs c"
  by (rule command_sound_clean)

definition commands_sound :: "string list \<Rightarrow> string list \<Rightarrow> bool" where
  "commands_sound rs cs \<longleftrightarrow> (\<forall>c \<in> set cs. command_sound rs c)"

lemma commands_sound_simps [simp]:
  "commands_sound rs []" "commands_sound rs (c # cs) \<longleftrightarrow> command_sound rs c \<and> commands_sound rs cs"
  "commands_sound rs (xs @ ys) \<longleftrightarrow> commands_sound rs xs \<and> commands_sound rs ys"
  "commands_sound rs (concat css) \<longleftrightarrow> (\<forall>cs \<in> set css. commands_sound rs cs)"
  by (auto simp: commands_sound_def)

lemma commands_sound_clean [simp]: "cleans cs \<Longrightarrow> commands_sound rs cs"
  by (simp add: commands_sound_def cleans_def)

lemma block_sound_commands [simp]: "commands_sound rs cs \<Longrightarrow> block_sound (block i cs rs)"
  unfolding commands_sound_def by (rule block_sound_block)

lemma mapE_sounds_in:
  "mapE f xs = Inr bss \<Longrightarrow> (\<And>x bs. x \<in> set xs \<Longrightarrow> f x = Inr bs \<Longrightarrow> sounds bs) \<Longrightarrow> sounds (concat bss)"
  unfolding sounds_simps by (blast dest: mapE_Inr_set)

lemma mapE_sounds: "mapE f xs = Inr bss \<Longrightarrow> (\<And>x bs. f x = Inr bs \<Longrightarrow> sounds bs) \<Longrightarrow> sounds (concat bss)"
  unfolding sounds_simps by (rule mapE_all)

lemma mapE_blocks: "mapE f xs = Inr bs \<Longrightarrow> (\<And>x b. f x = Inr b \<Longrightarrow> block_sound b) \<Longrightarrow> sounds bs"
  unfolding sounds_def by (rule mapE_all)

lemma mapE_commands: "mapE f xs = Inr css \<Longrightarrow> (\<And>x cs. f x = Inr cs \<Longrightarrow> commands_sound rs cs) \<Longrightarrow> commands_sound rs (concat css)"
  unfolding commands_sound_simps by (rule mapE_all)

section \<open>LISP and the overlay\<close>

lemma locator_block_sound: "locator_block intent = Inr b \<Longrightarrow> block_sound b"
  by (auto simp: locator_block_def res dest!: clean_dests)

lemma eid_records_clean: "mapE (eid_records vns) pools = Inr css \<Longrightarrow> \<forall>cs \<in> set css. cleans cs"
  by (erule mapE_all) (auto simp: eid_records_def res dest!: clean_dests)

lemma control_plane_blocks_sound:
  assumes "control_plane_blocks intent device = Inr bs"
  shows "sounds bs"
proof -
  from assms obtain lisp site ref vns pools records loopback locator where
    v: "safe_at lisp ''site_name'' ''LISP site'' = Inr site" "mapE (eid_records vns) pools = Inr records"
      "safe_at device ''loopback0_ip'' ''control-plane loopback'' = Inr loopback" "locator_block intent = Inr locator"
    and bs: "bs = [locator, block ''lisp_site''
                ([''router lisp'', '' site '' @ site, ''  authentication-key '' @ secret_text ref,
                  ''  description Managed SDA-style fabric site''] @ concat records @ [''  exit-site'', '' exit-router-lisp'']) [ref],
              control_plane_block loopback]"
    unfolding control_plane_blocks_def by (elim ebind_InrE) (rule that, assumption+, drule Inr_inject, erule sym)
  have "commands_sound [ref] (concat records)" using eid_records_clean [OF v(2)] by simp
  moreover have "block_sound (control_plane_block loopback)"
    using safe_at_clean [OF v(3)] by (simp add: control_plane_block_def)
  moreover have "command_sound [ref] (''  authentication-key '' @ secret_text ref)" by simp
  ultimately show ?thesis
    using safe_at_clean [OF v(1)] locator_block_sound [OF v(4)] by (simp add: bs del: commands_sound_simps(4))
qed

lemma map_server_sound: "map_server_commands ref server = Inr cs \<Longrightarrow> commands_sound [ref] cs"
  by (auto simp: map_server_commands_def res dest!: clean_dests)

lemma edge_lisp_blocks_sound: "edge_lisp_blocks intent = Inr bs \<Longrightarrow> sounds bs"
  unfolding edge_lisp_blocks_def
  by (elim ebind_InrE) (auto dest!: locator_block_sound mapE_commands [OF _ map_server_sound])

lemma identity_block_sound: "identity_block lisp i = Inr b \<Longrightarrow> block_sound b"
  by (auto simp: identity_block_def res split: option.splits)

lemma publisher_sound: "publisher_commands ref publisher = Inr cs \<Longrightarrow> commands_sound [ref] cs"
  by (auto simp: publisher_commands_def res dest!: clean_dests)

lemma proxy_commands_clean: "proxy_commands device b = Inr cs \<Longrightarrow> cleans cs"
  by (auto simp: proxy_commands_def res dest!: clean_dests split: if_splits)

lemma subscriber_block_sound: "subscriber_block intent device lisp = Inr b \<Longrightarrow> block_sound b"
  unfolding subscriber_block_def Let_def
  by (elim ebind_InrE) (auto dest!: proxy_commands_clean mapE_commands [OF _ publisher_sound])

lemma pubsub_subscriber_blocks_sound: "pubsub_subscriber_blocks intent device = Inr bs \<Longrightarrow> sounds bs"
  by (auto simp: pubsub_subscriber_blocks_def res dest!: identity_block_sound subscriber_block_sound split: if_splits)

section \<open>VRFs, pools and ports\<close>

lemma route_targets_clean: "mapE route_target_commands targets = Inr css \<Longrightarrow> \<forall>cs \<in> set css. cleans cs"
  by (erule mapE_all) (auto simp: route_target_commands_def res dest!: clean_dests)

lemma vn_blocks_sound: "vn_blocks vn = Inr bs \<Longrightarrow> sounds bs"
  by (auto simp: vn_blocks_def l3_block_def res dest!: clean_dests route_targets_clean)

lemma vrf_blocks_sound: "vrf_blocks intent = Inr bs \<Longrightarrow> sounds bs"
  by (auto simp: vrf_blocks_def res dest!: mapE_sounds [OF _ vn_blocks_sound])

lemma helper_commands_clean: "mapE (helper_command pool) helpers = Inr cs \<Longrightarrow> cleans cs"
  by (erule mapE_cleans) (auto simp: helper_command_def res dest!: clean_dests split: if_splits)

lemma svi_block_sound: "svi_block pool vlan vrf network = Inr b \<Longrightarrow> clean vrf \<Longrightarrow> clean_net network \<Longrightarrow> block_sound b"
  by (auto simp: svi_block_def res clean_net_def dest!: clean_dests helper_commands_clean)

lemma underlay_bum_clean: "underlay_bum intent groups i = Inr cs \<Longrightarrow> cleans cs"
  by (auto simp: underlay_bum_def res dest!: clean_dests split: option.splits list.splits)

lemma lisp_pool_block_sound:
  "lisp_pool_block intent groups locator pool vn vlan network = Inr b \<Longrightarrow> clean locator \<Longrightarrow> clean_net network \<Longrightarrow> block_sound b"
  by (auto simp: lisp_pool_block_def res clean_net_def dest!: clean_dests underlay_bum_clean)

lemma pool_blocks_sound:
  assumes "pool_blocks intent vns groups locator pool = Inr bs" and "clean locator" and "unscoped pool ''prefix''"
  shows "sounds bs"
proof -
  from assms(1) obtain vn vlan vrf network pool_id svi lisp where v: "safe_at vn ''vrf'' ''VRF'' = Inr vrf"
      "net_at_key pool ''prefix'' = Inr network" "text_at pool ''id'' ''pool id'' = Inr pool_id"
    and b: "svi_block pool vlan vrf network = Inr svi" "lisp_pool_block intent groups locator pool vn vlan network = Inr lisp"
    and bs: "bs = [block (''vlan_'' @ int_str vlan) [''vlan '' @ int_str vlan, '' name '' @ pool_id] [], svi, lisp]"
    unfolding pool_blocks_def by (elim ebind_InrE) (rule that, assumption+, drule Inr_inject, erule sym)
  note n = net_at_key_clean [OF v(2) assms(3)]
  show ?thesis
    using svi_block_sound [OF b(1) safe_at_clean [OF v(1)] n] lisp_pool_block_sound [OF b(2) assms(2) n] text_at_clean [OF v(3)]
    by (simp add: bs)
qed

lemma edge_overlay_blocks_sound:
  assumes "edge_overlay_blocks intent = Inr bs" and "unscoped_networks intent"
  shows "sounds bs"
proof -
  from assms(1) obtain vrfs parts vns groups locator raw pools where p: "vrf_blocks intent = Inr vrfs" "locator_set intent = Inr locator"
      "mapE (pool_blocks intent vns groups locator) pools = Inr parts"
    and r: "items_at intent ''endpoint_pools'' = Inr raw" "sort_by (\<lambda>p. int_at p ''vlan_id'') raw = Inr pools"
    and bs: "bs = vrfs @ concat parts"
    unfolding edge_overlay_blocks_def by (elim ebind_InrE) (rule that, assumption+, drule Inr_inject, erule sym)
  have "sounds (concat parts)" using p(3)
    by (rule mapE_sounds_in)
      (erule pool_blocks_sound, rule locator_set_clean [OF p(2)], rule unscoped_pools [OF assms(2) items_at_get [OF r(1)] r(2)])
  then show ?thesis using vrf_blocks_sound [OF p(1)] by (simp only: bs sounds_simps)
qed

lemma attachment_block_sound: "attachment_block attachment = Inr b \<Longrightarrow> block_sound b"
  by (auto simp: attachment_block_def res dest!: clean_dests)

lemma edge_endpoint_attachment_blocks_sound: "edge_endpoint_attachment_blocks intent device = Inr bs \<Longrightarrow> sounds bs"
  by (auto simp: edge_endpoint_attachment_blocks_def res dest!: mapE_blocks [OF _ attachment_block_sound])

lemma dns_clean: "mapE (\<lambda>s. safe_text False ''DHCP DNS server'' (py_str s)) servers = Inr dns \<Longrightarrow> cleans dns"
  by (erule mapE_cleans) (rule safe_text_clean)

lemma local_dhcp_blocks_sound: "local_dhcp_blocks i pool = Inr bs \<Longrightarrow> unscoped pool ''prefix'' \<Longrightarrow> sounds bs"
  by (auto simp: local_dhcp_blocks_def res clean_net_def cleans_def
      dest!: net_at_key_clean safe_text_clean safe_at_clean dns_clean split: if_splits)

lemma border_local_dhcp_blocks_sound:
  assumes "border_local_dhcp_blocks intent device = Inr bs" and "unscoped_networks intent"
  shows "sounds bs"
proof -
  from assms(1) obtain i raw pools parts where r: "items_get intent ''endpoint_pools'' = Inr raw"
      "sort_by (\<lambda>p. str_at p ''id'') raw = Inr pools"
    and p: "mapE (local_dhcp_blocks i) pools = Inr parts" and bs: "bs = concat parts"
    unfolding border_local_dhcp_blocks_def by (elim ebind_InrE) (rule that, assumption+, drule Inr_inject, erule sym)
  show ?thesis unfolding bs using p
    by (rule mapE_sounds_in) (erule local_dhcp_blocks_sound, rule unscoped_pools [OF assms(2) r])
qed

section \<open>Multicast\<close>

lemma acl_commands_clean: "clean vrf \<Longrightarrow> clean name \<Longrightarrow> clean_net network \<Longrightarrow> cleans (acl_commands vrf name network)"
  by (simp add: acl_commands_def clean_net_def)

lemma pim_commands_clean: "pim_commands policy vrf name register = Inr cs \<Longrightarrow> clean vrf \<Longrightarrow> clean name \<Longrightarrow> cleans register \<Longrightarrow> cleans cs"
  by (auto simp: pim_commands_def res dest!: clean_dests split: if_splits)

lemma lisp_interface_block_sound: "lisp_interface_block policy vrf i = Inr b \<Longrightarrow> clean vrf \<Longrightarrow> block_sound b"
  by (auto simp: lisp_interface_block_def res dest!: clean_dests)

lemma edge_svi_blocks_sound: "edge_svi_blocks pools vn b = Inr bs \<Longrightarrow> sounds bs"
proof -
  have "edge_svi_block pool = Inr b \<Longrightarrow> block_sound b" for pool b by (auto simp: edge_svi_block_def res)
  then show "edge_svi_blocks pools vn b = Inr bs \<Longrightarrow> sounds bs"
    by (auto simp: edge_svi_blocks_def res dest!: mapE_blocks split: if_splits)
qed

lemma border_pim_blocks_sound: "border_pim_blocks peers vrf b = Inr bs \<Longrightarrow> sounds bs"
proof -
  have "border_pim_block peer = Inr b \<Longrightarrow> block_sound b" for peer b by (auto simp: border_pim_block_def res dest!: clean_dests)
  then show "border_pim_blocks peers vrf b = Inr bs \<Longrightarrow> sounds bs"
    by (auto simp: border_pim_blocks_def res dest!: mapE_blocks split: if_splits)
qed

lemma member_blocks_sound:
  assumes "member_blocks pools peers roles locator policy loopback = Inr bs" and "clean locator"
    and "unscoped policy ''group_range''"
  shows "sounds bs"
proof -
  from assms(1) obtain vn vrf i address network name pim safe_vn interface edge border where
    v: "safe_at policy ''vrf'' ''multicast VRF'' = Inr vrf" "safe_at loopback ''address'' ''multicast segment address'' = Inr address"
      "net_at_key policy ''group_range'' = Inr network" "safe_at policy ''access_list'' ''multicast access list'' = Inr name"
      "safe_text True ''virtual network'' vn = Inr safe_vn"
    and p: "pim_commands policy vrf name [''ip pim vrf '' @ vrf @ '' register-source Loopback'' @ int_str i] = Inr pim"
      "lisp_interface_block policy vrf i = Inr interface" "edge_svi_blocks pools vn (JStr ''fabric_edge'' \<in> set roles) = Inr edge"
      "border_pim_blocks peers vrf (JStr ''border'' \<in> set roles) = Inr border"
    and bs: "bs = [block (''multicast_policy_'' @ int_str i) (acl_commands vrf name network @ pim) [],
               segment_block safe_vn vrf address i, interface, lisp_database_block locator address i] @ edge @ border"
    unfolding member_blocks_def by (elim ebind_InrE) (rule that, assumption+, drule Inr_inject, erule sym)
  note c = safe_at_clean [OF v(1)] safe_at_clean [OF v(2)] net_at_key_clean [OF v(3) assms(3)] safe_at_clean [OF v(4)] safe_text_clean [OF v(5)]
  have "cleans pim" using pim_commands_clean [OF p(1) c(1) c(4)] c(1) by simp
  then have "block_sound (block (''multicast_policy_'' @ int_str i) (acl_commands vrf name network @ pim) [])"
    using acl_commands_clean [OF c(1) c(4) c(3)] by simp
  moreover have "block_sound (segment_block safe_vn vrf address i)" using c(1,2,5) by (simp add: segment_block_def)
  moreover have "block_sound (lisp_database_block locator address i)" using c(2) assms(2) by (simp add: lisp_database_block_def)
  ultimately show ?thesis
    using lisp_interface_block_sound [OF p(2) c(1)] edge_svi_blocks_sound [OF p(3)] border_pim_blocks_sound [OF p(4)]
    by (simp only: bs sounds_simps simp_thms)
qed

lemma overlay_policy_blocks_sound:
  "overlay_policy_blocks pools peers roles locator i policy = Inr bs \<Longrightarrow> clean locator \<Longrightarrow>
     unscoped policy ''group_range'' \<Longrightarrow> sounds bs"
  by (auto simp: overlay_policy_blocks_def res dest!: member_blocks_sound split: option.splits)

lemma multicast_overlay_blocks_sound:
  assumes "multicast_overlay_blocks intent device = Inr bs" and "unscoped_networks intent"
  shows "sounds bs"
proof -
  from assms(1) consider "bs = []" | m i roles locator pools peers policies parts where
      "section_of intent ''multicast'' = Inr m" "sorted_policies m = Inr policies" "locator_set intent = Inr locator"
      "mapE (overlay_policy_blocks pools peers roles locator i) policies = Inr parts" "bs = concat parts"
    unfolding multicast_overlay_blocks_def by (elim ebind_InrE) (simp split: if_splits, elim ebind_InrE, simp)
  then show ?thesis
  proof cases
    case 2
    show ?thesis unfolding 2(5) using 2(4)
      by (rule mapE_sounds_in)
        (erule overlay_policy_blocks_sound, rule locator_set_clean [OF 2(3)], rule unscoped_policies [OF assms(2) 2(1,2)])
  qed simp
qed

lemma fusion_policy_block_sound:
  "fusion_policy_block policy vrf = Inr b \<Longrightarrow> clean vrf \<Longrightarrow> unscoped policy ''group_range'' \<Longrightarrow> block_sound b"
  by (auto simp: fusion_policy_block_def res acl_commands_clean dest!: net_at_key_clean safe_at_clean pim_commands_clean)

lemma fusion_policy_blocks_sound:
  "fusion_policy_blocks peers i policy = Inr bs \<Longrightarrow> unscoped policy ''group_range'' \<Longrightarrow> sounds bs"
proof -
  have "fusion_pim_block peer = Inr b \<Longrightarrow> block_sound b" for peer b by (auto simp: fusion_pim_block_def res)
  then show "fusion_policy_blocks peers i policy = Inr bs \<Longrightarrow> unscoped policy ''group_range'' \<Longrightarrow> sounds bs"
    by (auto simp: fusion_policy_blocks_def res dest!: safe_at_clean fusion_policy_block_sound mapE_blocks split: if_splits)
qed

lemma fusion_multicast_blocks_sound:
  assumes "fusion_multicast_blocks intent fusion = Inr bs" and "unscoped_networks intent"
  shows "sounds bs"
proof -
  from assms(1) consider "bs = []" | m i peers policies parts where
      "section_of intent ''multicast'' = Inr m" "sorted_policies m = Inr policies"
      "mapE (fusion_policy_blocks peers i) policies = Inr parts" "bs = concat parts"
    unfolding fusion_multicast_blocks_def by (elim ebind_InrE) (simp split: if_splits, elim ebind_InrE, simp)
  then show ?thesis
  proof cases
    case 2
    show ?thesis unfolding 2(4) using 2(3)
      by (rule mapE_sounds_in) (erule fusion_policy_blocks_sound, rule unscoped_policies [OF assms(2) 2(1,2)])
  qed simp
qed

section \<open>Handoffs\<close>

lemma trunk_blocks_sound:
  assumes "clean description" and "\<forall>t \<in> set trunks. clean (fst t)"
  shows "sounds (trunk_blocks stem description trunks)"
proof -
  have "block_sound (trunk_block stem description (i, vlans))" if "clean i" for i vlans
    using assms(1) that by (simp add: trunk_block_def)
  then show ?thesis using assms(2) by (auto simp: trunk_blocks_def sorted_set_def)
qed

lemma border_trunk_clean: "border_trunk peer vlan = Inr ts \<Longrightarrow> \<forall>t \<in> set ts. clean (fst t)"
  by (auto simp: border_trunk_def res dest!: clean_dests split: if_splits)

lemma border_bgp_block_sound:
  "border_bgp_block device a vrf neighbor b = Inr bl \<Longrightarrow> clean vrf \<Longrightarrow> clean neighbor \<Longrightarrow> block_sound bl"
  by (auto simp: border_bgp_block_def res dest!: clean_dests)

lemma border_peer_sound: "border_peer device a peer = Inr part \<Longrightarrow> sounds (snd part) \<and> (\<forall>t \<in> set (fst part). clean (fst t))"
  by (auto simp: border_peer_def res clean_net_def dest!: clean_dests border_trunk_clean border_bgp_block_sound split: if_splits)

lemma border_handoff_blocks_sound:
  assumes "border_handoff_blocks intent device = Inr bs"
  shows "sounds bs"
proof -
  from assms consider "bs = []" | a peers parts where "mapE (border_peer device a) peers = Inr parts"
      "bs = trunk_blocks ''border_trunk_'' ''SDA fusion handoff trunk'' (concat (map fst parts)) @ concat (map snd parts)"
    unfolding border_handoff_blocks_def by (elim ebind_InrE) (simp split: if_splits, elim ebind_InrE, simp)
  then show ?thesis
  proof cases
    case 2
    have "\<forall>part \<in> set parts. sounds (snd part) \<and> (\<forall>t \<in> set (fst part). clean (fst t))"
      using 2(1) by (rule mapE_all) (rule border_peer_sound)
    then show ?thesis by (fastforce simp: 2(2) intro!: trunk_blocks_sound)
  qed simp
qed

lemma fusion_vrf_blocks_sound: "fusion_vrf_blocks seen vrf vn = Inr bs \<Longrightarrow> clean vrf \<Longrightarrow> sounds bs"
  by (auto simp: fusion_vrf_blocks_def res dest!: clean_dests split: if_splits)

lemma fusion_peer_blocks_sound:
  "clean vrf \<Longrightarrow> clean local_ip \<Longrightarrow> clean netmask \<Longrightarrow> clean neighbor \<Longrightarrow> sounds (fusion_peer_blocks vrf vlan local_ip netmask neighbor a b)"
  by (simp add: fusion_peer_blocks_def)

definition fusion_sound :: "fusion_state \<Rightarrow> bool" where
  "fusion_sound fs \<longleftrightarrow> sounds (fs_blocks fs) \<and> (\<forall>t \<in> set (fs_trunks fs). clean (fst t))"

lemma fusion_peer_sound: "fusion_peer vns a b fs peer = Inr fs' \<Longrightarrow> fusion_sound fs \<Longrightarrow> fusion_sound fs'"
  by (auto simp: fusion_peer_def res fusion_sound_def clean_net_def intro!: fusion_peer_blocks_sound
      dest!: clean_dests fusion_vrf_blocks_sound)

lemma fusion_handoff_blocks_sound:
  assumes "fusion_handoff_blocks intent fusion = Inr bs"
  shows "sounds bs"
proof -
  from assms consider "bs = []" | vns a b peers fs where
      "foldE (fusion_peer vns a b) \<lparr>fs_vrfs = [], fs_trunks = [], fs_blocks = []\<rparr> peers = Inr fs"
      "bs = trunk_blocks ''fusion_trunk_'' ''SDA border handoff trunk'' (fs_trunks fs) @ fs_blocks fs"
    unfolding fusion_handoff_blocks_def by (elim ebind_InrE) (simp split: if_splits, elim ebind_InrE, simp)
  then show ?thesis
  proof cases
    case 2
    have "fusion_sound fs"
      using 2(1) by (rule foldE_invariant) (simp add: fusion_sound_def, rule fusion_peer_sound)
    then show ?thesis by (simp add: 2(2) fusion_sound_def trunk_blocks_sound)
  qed simp
qed

section \<open>Route leaking\<close>

lemma prefix_commands_clean:
  assumes "mapE (prefix_command name) ps = Inr cs" and "clean name"
  shows "cleans cs"
  using assms(1)
proof (rule mapE_cleans)
  fix p c assume "prefix_command name p = Inr c"
  then show "clean c" using assms(2) by (cases p) (auto simp: prefix_command_def res dest!: clean_dests)
qed

lemma leak_policy_blocks_sound: "leak_policy_blocks label ps = Inr bs \<Longrightarrow> sounds bs"
  by (auto simp: leak_policy_blocks_def res dest!: clean_dests prefix_commands_clean)

text \<open>The prefixes of a policy are checked, before the static routes of the same prefixes are printed.\<close>

lemma py_sorted_set: "py_sorted xs = Inr ys \<Longrightarrow> set ys = set xs"
  by (auto simp: py_sorted_def split: if_splits dest: sort_by_Inr_set)

lemma leak_prefixes_clean:
  assumes "leak_policy_blocks label ps = Inr bs" and "p \<in> set ps"
  shows "clean (py_str p)"
proof -
  from assms(1) obtain name distinct_prefixes ordered commands where d: "py_set ps = Inr distinct_prefixes"
      "py_sorted (remdups distinct_prefixes) = Inr ordered"
    and c: "mapE (prefix_command name) (List.enumerate 1 ordered) = Inr commands"
    unfolding leak_policy_blocks_def by (elim ebind_InrE) (rule that)
  have "p \<in> set ordered" using py_sorted_set [OF d(2)] d(1) assms(2) by (auto simp: py_set_def split: if_splits)
  then have "p \<in> snd ` set (List.enumerate 1 ordered)" by (metis list.set_map map_snd_enumerate)
  then obtain q where q: "q \<in> set (List.enumerate 1 ordered)" "p = snd q" by blast
  from mapE_Inr_setD [OF c q(1)] obtain x where "prefix_command name q = Inr x" by blast
  then obtain t where "safe_text False ''route-leak prefix'' (py_str p) = Inr t"
    by (cases q) (auto simp: prefix_command_def res q(2))
  from safe_text_clean [OF this] this show ?thesis by (auto simp: safe_text_def split: if_splits)
qed

lemma first_target_clean: "first_target vns vrf label = Inr rt \<Longrightarrow> clean rt"
  by (auto simp: first_target_def res dest!: clean_dests)

lemma leak_blocks_sound: "leak_blocks vns rt leak = Inr part \<Longrightarrow> clean rt \<Longrightarrow> clean (fst part) \<and> sounds (snd part)"
  by (auto simp: leak_blocks_def res dest!: clean_dests first_target_clean leak_policy_blocks_sound)

lemma shared_vrf_block_sound: "shared_vrf_block vrf rt ts = Inr b \<Longrightarrow> clean vrf \<Longrightarrow> clean rt \<Longrightarrow> \<forall>t \<in> set ts. clean t \<Longrightarrow> block_sound b"
  by (auto simp: shared_vrf_block_def res sorted_set_def dest!: policy_name_clean)

lemma static_routes_clean:
  assumes "mapE (static_route vrf hop) ps = Inr cs" and "clean vrf" and "clean hop" and "\<forall>p \<in> set ps. clean p"
  shows "cleans cs"
  unfolding cleans_def
proof
  fix c assume "c \<in> set cs"
  with mapE_Inr_set [OF assms(1)] obtain p where p: "p \<in> set ps" "static_route vrf hop p = Inr c" by blast
  then obtain n where n: "net_texts p = Inr n"
    "c = ''ip route vrf '' @ vrf @ '' '' @ nt_address n @ '' '' @ nt_netmask n @ '' '' @ hop"
    by (auto simp: static_route_def res)
  have "clean_net n" using net_texts_clean [OF n(1)] scope_cleanI assms(4) p(1) by blast
  then show "clean c" using assms(2,3) by (simp add: n(2) clean_net_def)
qed

lemma attachment_blocks_sound:
  "attachment_blocks fusion attachment vrf ps = Inr bs \<Longrightarrow> clean vrf \<Longrightarrow> \<forall>p \<in> set ps. clean p \<Longrightarrow> sounds bs"
  by (auto simp: attachment_blocks_def res dest!: clean_dests static_routes_clean)

lemma shared_policy_blocks_sound:
  assumes "shared_policy_blocks intent fusion shared attachment = Inr bs"
  shows "sounds bs"
proof -
  from assms obtain vns vrf rt leaks sp cp exps imps parts vrf_policy attached where
    v: "safe_at shared ''vrf'' ''shared-services VRF'' = Inr vrf" "first_target vns vrf ''shared-services route target'' = Inr rt"
    and p: "leak_policy_blocks ''service_export'' (map JStr sp) = Inr exps" "leak_policy_blocks ''service_import'' (map JStr cp) = Inr imps"
      "mapE (leak_blocks vns rt) leaks = Inr parts" "shared_vrf_block vrf rt (map fst parts) = Inr vrf_policy"
      "attachment_blocks fusion attachment vrf sp = Inr attached"
    and bs: "bs = exps @ imps @ concat (map snd parts) @ [vrf_policy] @ attached"
    unfolding shared_policy_blocks_def by (elim ebind_InrE raise_if_InrE) (rule that, assumption+, simp)
  note c = safe_at_clean [OF v(1)] first_target_clean [OF v(2)]
  have l: "\<forall>part \<in> set parts. clean (fst part) \<and> sounds (snd part)" using p(3) by (rule mapE_all) (rule leak_blocks_sound [OF _ c(2)])
  then have "block_sound vrf_policy" by (intro shared_vrf_block_sound [OF p(4) c]) auto
  have "\<forall>p \<in> set sp. clean p"
  proof
    fix q assume "q \<in> set sp"
    then have "clean (py_str (JStr q))" by (intro leak_prefixes_clean [OF p(1)]) simp
    then show "clean q" by simp
  qed
  with l \<open>block_sound vrf_policy\<close> leak_policy_blocks_sound [OF p(1)] leak_policy_blocks_sound [OF p(2)]
    attachment_blocks_sound [OF p(5) c(1)]
  show ?thesis by (simp add: bs)
qed

lemma fusion_shared_service_blocks_sound: "fusion_shared_service_blocks intent fusion = Inr bs \<Longrightarrow> sounds bs"
  by (auto simp: fusion_shared_service_blocks_def res dest!: shared_policy_blocks_sound split: if_splits option.splits)

section \<open>The policy plane\<close>

lemma clean_ranges: "clean (join '','' (range_texts xs))"
proof -
  have "\<forall>t \<in> set (compress_runs a b xs). clean t" for a b xs
    by (induction a b xs rule: compress_runs.induct) (simp_all add: range_text_def)
  then show ?thesis by (auto simp: range_texts_def split: list.split)
qed

lemma ace_commands_clean: "mapE ace_command as = Inr cs \<Longrightarrow> cleans cs"
  by (erule mapE_cleans) (auto simp: ace_command_def res dest!: clean_dests)

lemma contract_block_sound: "contract_block contract = Inr b \<Longrightarrow> block_sound b"
  by (auto simp: contract_block_def res dest!: clean_dests ace_commands_clean)

lemma enforcement_blocks_sound: "enforcement_blocks policy i = Inr bs \<Longrightarrow> sounds bs"
proof -
  have "contract_blocks policy = Inr cs \<Longrightarrow> sounds cs" for cs
    by (auto simp: contract_blocks_def res dest!: mapE_blocks [OF _ contract_block_sound] split: if_splits)
  then show "enforcement_blocks policy i = Inr bs \<Longrightarrow> sounds bs"
    by (auto simp: enforcement_blocks_def default_deny_block_def compress_integer_ranges_def res clean_ranges split: if_splits)
qed

lemma connection_commands_clean: "mapE (connection_command vrf_text) cs = Inr ls \<Longrightarrow> clean vrf_text \<Longrightarrow> cleans ls"
  by (erule mapE_cleans) (auto simp: connection_command_def res dest!: clean_dests)

lemma transport_clean:
  "(if vrf = ''global'' then Inr [] else ebind (safe_text False ''SXP transport VRF'' vrf) (\<lambda>v. Inr ('' vrf '' @ v))) = Inr vrf_text
     \<Longrightarrow> clean vrf_text"
  by (auto simp: res dest!: clean_dests split: if_splits)

lemma speaker_blocks_sound:
  assumes "speaker_blocks connections = Inr bs"
  shows "sounds bs"
proof (cases "connections = []")
  case True
  with assms show ?thesis by (simp add: speaker_blocks_def)
next
  case False
  from assms obtain password vrf vrf_text ip source ls where
    t: "(if vrf = ''global'' then Inr [] else ebind (safe_text False ''SXP transport VRF'' vrf) (\<lambda>v. Inr ('' vrf '' @ v))) = Inr vrf_text"
    and s: "safe_text False ''SXP source address'' ip = Inr source" and l: "mapE (connection_command vrf_text) connections = Inr ls"
    and bs: "bs = [block ''sxp_speaker''
                 ([''cts sxp enable'', ''cts sxp default source-ip '' @ source,
                   ''cts sxp default password '' @ secret_text password] @ ls @ [''cts sxp log binding-changes''])
                 [password]]"
    unfolding speaker_blocks_def if_not_P [OF False]
    by (elim ebind_InrE) (rule that, assumption+, drule Inr_inject, erule sym)
  have "commands_sound [password] ls" using connection_commands_clean [OF l transport_clean [OF t]] by simp
  then show ?thesis using safe_text_clean [OF s] by (simp add: bs)
qed

lemma policy_plane_blocks_sound: "policy_plane_blocks intent device = Inr bs \<Longrightarrow> sounds bs"
  by (auto simp: policy_plane_blocks_def res dest!: enforcement_blocks_sound speaker_blocks_sound split: if_splits)

end
