(* ===== verification/Planner.thy ===== *)
theory Planner
  imports OwnedState Doc Clock
begin

text \<open>
  \<open>create_plan\<close> (\<open>planner.py\<close>): validation, the candidate manifest and its reconciliation, the
  phases of the deployment, and the plan document with its digest. The validator of intents is a
  parameter; the clock shows \<open>seconds\<close>.
\<close>

section \<open>Targets\<close>

definition role_target :: "string \<Rightarrow> json \<Rightarrow> string list result" where
  "role_target role device =
     (ebind (jget_default device ''roles'' (JArr [])) (\<lambda>roles.
        ebind (contains_key role roles) (\<lambda>has.
        (if has then (ebind (str_at device ''id'') (\<lambda>i.
            Inr [i])) else Inr []))))"

definition targets_by_role :: "json list \<Rightarrow> string \<Rightarrow> string list result" where
  "targets_by_role devices role = (ebind (mapE (role_target role) devices) (\<lambda>ts.
     Inr (sort (concat ts))))"

section \<open>Phases\<close>

definition phase ::
    "string \<Rightarrow> string \<Rightarrow> string list \<Rightarrow> string list \<Rightarrow> string \<Rightarrow> (string \<times> json) list \<Rightarrow> json" where
  "phase phase_id name depends_on targets gate_name objects =
     JObj ([(''id'', JStr phase_id), (''name'', JStr name), (''depends_on'', jstrs depends_on), (''targets'', jstrs targets),
            (''gate'', JStr gate_name)] @ (if objects = [] then [] else [(''objects'', JObj objects)]))"

text \<open>\<open>len(v.get(k, []))\<close>\<close>

definition len_get :: "json \<Rightarrow> string \<Rightarrow> json result" where
  "len_get v k = (ebind (jget_default v k (JArr [])) (\<lambda>xs.
     ebind (jlen xs) (\<lambda>n.
     Inr (jnat n))))"

definition opening_phases :: "string list \<Rightarrow> json list" where
  "opening_phases all_targets =
     [phase ''precheck'' ''Read-only discovery and prechecks'' [] all_targets
        ''inventory_topology_addressing_services_and_checkpoint_ready'' [],
      phase ''checkpoint'' ''Create and verify device checkpoints'' [''precheck''] all_targets
        ''checkpoint_exists_and_is_restorable'' []]"

definition reconciliation_phases :: "bool \<Rightarrow> string list \<Rightarrow> json \<Rightarrow> json list result" where
  "reconciliation_phases ready targets reconciliation =
     (if \<not> ready \<or> targets = [] then Inr []
      else (ebind (int_at reconciliation ''stale_resource_count'') (\<lambda>n.
         Inr [phase ''multicast_reconciliation'' ''Remove stale workflow-owned multicast state'' [''checkpoint''] targets
                      ''every_stale_owned_configuration_line_is_absent'' [(''stale_resources'', JInt n)]])))"

text \<open>The five phases of every fabric, after the reconciliation or the checkpoint.\<close>

definition fabric_phases ::
    "json \<Rightarrow> string \<Rightarrow> string list \<Rightarrow> string list \<Rightarrow> string list \<Rightarrow> string list \<Rightarrow> string list \<Rightarrow> json list result" where
  "fabric_phases intent dependency all_devices control_plane edges borders fusion =
     (ebind (len_get intent ''virtual_networks'') (\<lambda>vns.
        ebind (len_get intent ''endpoint_pools'') (\<lambda>pools.
        Inr [phase ''underlay'' ''Deploy and verify IS-IS underlay'' [dependency] all_devices ''expected_isis_bfd_and_mtu_pass'' [],
              phase ''lisp_control_plane'' ''Deploy LISP control-plane publisher/map-server roles'' [''underlay''] control_plane
                ''map_server_and_resolver_operational'' [],
              phase ''lisp_edges'' ''Deploy LISP ITR/ETR fabric-edge roles'' [''lisp_control_plane''] edges
                ''lisp_sessions_established_and_registrations_present'' [],
              phase ''overlay'' ''Deploy VRFs, L2/L3 instances, gateways, and endpoint pools'' [''lisp_edges'']
                (sorted_set (edges @ borders)) ''vxlan_peers_vnis_remote_eids_and_gateways_operational''
                [(''virtual_networks'', vns), (''endpoint_pools'', pools)],
              phase ''border_handoff'' ''Deploy and verify border/BGP handoff'' [''overlay''] (sorted_set (borders @ fusion))
                ''expected_bgp_neighbors_and_routes_established'' []])))"

definition shared_phases :: "json \<Rightarrow> string list \<Rightarrow> json list result" where
  "shared_phases intent fusion =
     (ebind (jget intent ''shared_services'') (\<lambda>shared.
        (if \<not> truthy shared then Inr []
          else (ebind (len_get shared ''services'') (\<lambda>services.
             ebind (len_get shared ''route_leaks'') (\<lambda>leaks.
             Inr [phase ''shared_services'' ''Deploy and verify deny-by-default shared-service route leaking''
                          [''border_handoff''] fusion ''only_approved_service_and_consumer_prefixes_are_reachable''
                          [(''services'', services), (''route_leaks'', leaks)]]))))))"

definition multicast_fusion :: "string list \<Rightarrow> json \<Rightarrow> string list result" where
  "multicast_fusion vrfs peer =
     (ebind (jget peer ''fusion_node_id'') (\<lambda>f.
        (if \<not> truthy f then Inr []
          else (ebind (jget peer ''vrf'') (\<lambda>v.
             (if py_str v \<notin> set vrfs then Inr [] else (ebind (str_at peer ''fusion_node_id'') (\<lambda>i.
                      Inr [i]))))))))"

definition multicast_targets :: "json \<Rightarrow> json \<Rightarrow> string list result" where
  "multicast_targets intent multicast =
     (ebind (items_get multicast ''overlay_policies'') (\<lambda>policies.
        ebind (mapE (\<lambda>p. str_at p ''vrf'') policies) (\<lambda>vrfs.
        ebind (section_of intent ''border_handoff'') (\<lambda>handoff.
        ebind (items_get handoff ''peers'') (\<lambda>peers.
        ebind (mapE (multicast_fusion vrfs) peers) (\<lambda>fusions.
        ebind (mapE (\<lambda>p. (ebind (items_get p ''segment_loopbacks'') (\<lambda>segs.
            mapE (\<lambda>s. str_at s ''device_id'') segs))) policies) (\<lambda>members.
        Inr (sorted_set (concat members @ concat fusions)))))))))"

definition multicast_phases :: "json \<Rightarrow> string \<Rightarrow> json list result" where
  "multicast_phases intent dependency =
     (ebind (section_of intent ''multicast'') (\<lambda>multicast.
        ebind (jget multicast ''enabled'') (\<lambda>enabled.
        (if \<not> truthy enabled then Inr []
          else (ebind (multicast_targets intent multicast) (\<lambda>targets.
             ebind (len_get multicast ''asm_virtual_networks'') (\<lambda>asm.
             ebind (len_get multicast ''ssm_virtual_networks'') (\<lambda>ssm.
             Inr [phase ''multicast'' ''Deploy and verify fabric multicast and rendezvous points'' [dependency] targets
                          ''pim_interfaces_rp_routes_and_multicast_policy_pass''
                          [(''asm_virtual_networks'', asm), (''ssm_virtual_networks'', ssm)]]))))))))"

definition policy_phases :: "json \<Rightarrow> string \<Rightarrow> json list result" where
  "policy_phases intent dependency =
     (ebind (section_of intent ''policy_plane'') (\<lambda>policy_plane.
        ebind (jget policy_plane ''mode'') (\<lambda>mode.
        ebind (raise_if (\<not> hashable mode) TypeError) (\<lambda>_.
        (if mode = JNull \<or> mode = JStr ''none'' then Inr []
          else (ebind (strs_get policy_plane ''enforcement_device_ids'') (\<lambda>enforcement.
             ebind (section_of policy_plane ''sxp'') (\<lambda>sxp.
             ebind (items_get sxp ''connections'') (\<lambda>connections.
             ebind (mapE (\<lambda>c. str_at c ''speaker_id'') connections) (\<lambda>speakers.
             ebind (len_get policy_plane ''security_groups'') (\<lambda>groups.
             ebind (len_get policy_plane ''contracts'') (\<lambda>contracts.
             ebind (len_get sxp ''connections'') (\<lambda>sxp_count.
             ebind (section_of policy_plane ''ise'') (\<lambda>ise.
             ebind (jget ise ''write_node_id'') (\<lambda>node.
             Inr [phase ''policy_plane'' ''Publish and verify ISE/SGT/SXP policy-plane intent'' [dependency]
                          (sorted_set (enforcement @ speakers)) ''ise_sgt_contracts_and_sxp_sessions_match_approved_intent''
                          [(''security_groups'', groups), (''contracts'', contracts), (''sxp_connections'', sxp_count),
                           (''ise_write_node'', node)]])))))))))))))))"

definition assurance_phase :: "string list \<Rightarrow> string \<Rightarrow> json" where
  "assurance_phase all_devices dependency =
     phase ''endpoint_assurance'' ''Run DHCP, reachability, mobility, multicast, and policy assurance'' [dependency] all_devices
       ''synthetic_endpoint_transactions_pass'' []"

text \<open>The dependency of what follows: the phase just added, or the one before.\<close>

definition next_dependency :: "json list \<Rightarrow> string \<Rightarrow> string \<Rightarrow> string" where
  "next_dependency added phase_id earlier = (if added = [] then earlier else phase_id)"

definition later_phases :: "json \<Rightarrow> string list \<Rightarrow> string list \<Rightarrow> json list result" where
  "later_phases intent all_devices fusion =
     (ebind (shared_phases intent fusion) (\<lambda>shared.
        let d1 = next_dependency shared ''shared_services'' ''border_handoff'' in
        ebind (multicast_phases intent d1) (\<lambda>multicast.
        let d2 = next_dependency multicast ''multicast'' d1 in
        ebind (policy_phases intent d2) (\<lambda>policy.
        let d3 = next_dependency policy ''policy_plane'' d2 in
        Inr (shared @ multicast @ policy @ [assurance_phase all_devices d3])))))"

section \<open>The plan\<close>

definition safety_json :: json where
  "safety_json =
     JObj [(''executable'', JBool False), (''requires_approval'', JBool True), (''requires_maintenance_window'', JBool True),
           (''requires_fabric_lock'', JBool True), (''requires_verified_rollback'', JBool True)]"

definition reconciliation_summary :: "json \<Rightarrow> json result" where
  "reconciliation_summary reconciliation =
     (ebind (str_at reconciliation ''status'') (\<lambda>status.
        ebind (jget reconciliation ''baseline_hash'') (\<lambda>baseline_hash.
        ebind (jget reconciliation ''reconciliation_hash'') (\<lambda>reconciliation_hash.
        ebind (int_get reconciliation ''stale_resource_count'' 0) (\<lambda>n.
        Inr (JObj [(''status'', JStr status), (''baseline_hash'', baseline_hash), (''reconciliation_hash'', reconciliation_hash),
                    (''stale_resource_count'', JInt n)]))))))"

text \<open>The devices, the fusion nodes and the roles: \<open>(all_devices, fusion, control_plane, borders, edges)\<close>.\<close>

definition plan_roles :: "json \<Rightarrow> (string list \<times> string list \<times> string list \<times> string list \<times> string list) result" where
  "plan_roles intent =
     (ebind (items_at intent ''devices'') (\<lambda>devices.
        ebind (mapE (\<lambda>d. str_at d ''id'') devices) (\<lambda>ids.
        ebind (items_get intent ''fusion_nodes'') (\<lambda>fusion_nodes.
        ebind (mapE (\<lambda>d. str_at d ''id'') fusion_nodes) (\<lambda>fusion_ids.
        ebind (targets_by_role devices ''control_plane'') (\<lambda>control_plane.
        ebind (targets_by_role devices ''border'') (\<lambda>borders.
        ebind (targets_by_role devices ''fabric_edge'') (\<lambda>edges.
        Inr (sort ids, sort fusion_ids, control_plane, borders, edges)))))))))"

definition plan_phases ::
    "json \<Rightarrow> json \<Rightarrow> string list \<times> string list \<times> string list \<times> string list \<times> string list \<Rightarrow> (string list \<times> json list) result" where
  "plan_phases intent reconciliation = (\<lambda>(all_devices, fusion, control_plane, borders, edges).
     (ebind (jidx reconciliation ''status'') (\<lambda>status.
        ebind (jget_default reconciliation ''devices'' (JObj [])) (\<lambda>raw.
        ebind (elems raw) (\<lambda>keys.
        let stale_targets = sort (map py_str keys) in
        let all_targets = sorted_set (all_devices @ fusion @ stale_targets) in
        ebind (reconciliation_phases (status = JStr ''ready'') stale_targets reconciliation) (\<lambda>recon.
        ebind (fabric_phases intent (next_dependency recon ''multicast_reconciliation'' ''checkpoint'')
           all_devices control_plane edges borders fusion) (\<lambda>fabric.
        ebind (later_phases intent all_devices fusion) (\<lambda>later.
        Inr (all_targets, opening_phases all_targets @ recon @ fabric @ later)))))))))"

definition create_plan :: "(json \<Rightarrow> issue list result) \<Rightarrow> int \<Rightarrow> json \<Rightarrow> json option \<Rightarrow> json result" where
  "create_plan validate_intent seconds intent baseline =
     (ebind (validate_intent intent) (\<lambda>issues.
        ebind (raise_if (\<not> is_valid issues) PlanValidationError) (\<lambda>_.
        ebind (plan_roles intent) (\<lambda>roles.
        ebind (build_multicast_owned_state intent) (\<lambda>owned.
        ebind (build_multicast_reconciliation baseline owned) (\<lambda>reconciliation.
        ebind (plan_phases intent reconciliation roles) (\<lambda>(all_targets, phases).
        ebind (jidx intent ''fabric'') (\<lambda>fabric.
        ebind (jidx fabric ''id'') (\<lambda>fabric_id.
        ebind (jidx intent ''metadata'') (\<lambda>metadata.
        ebind (jidx metadata ''environment'') (\<lambda>environment.
        ebind (reconciliation_summary reconciliation) (\<lambda>summary.
        let body = [(''schema_version'', JStr ''1.0''), (''intent_hash'', JStr (sha256_json intent)), (''fabric_id'', fabric_id),
                     (''environment'', environment), (''targets'', jstrs all_targets), (''phases'', JArr phases),
                     (''reconciliation'', summary), (''safety'', safety_json)]
                    @ (case baseline of None \<Rightarrow> [] | Some b \<Rightarrow> [(''reconciliation_baseline'', b)]) in
        let plan_hash = sha256_json (JObj body) in
        Inr (JObj (body @ [(''plan_id'', JStr (''plan_'' @ take 16 plan_hash)), (''plan_hash'', JStr plan_hash),
                            (''generated_at'', JStr (isoformat seconds)), (''validation'', validation_dict issues)]))))))))))))))"

end
