(* ===== verification/PlannerProps.thy ===== *)
theory PlannerProps
  imports Planner OwnedProps WorkerProps GateProps
begin

text \<open>
  The properties of whole plans: the phases form one chain, and together with the gate plan and
  the worker no gate of the intent is left out.
\<close>

section \<open>Chains of phases\<close>

definition phase_id :: "json \<Rightarrow> string" where
  "phase_id p = py_str (field p ''id'')"

lemma phase_fields [simp]:
  "phase_id (phase i n ds ts g os) = i" "field (phase i n ds ts g os) ''depends_on'' = jstrs ds"
  "str_at (phase i n ds ts g os) ''id'' = Inr i"
  by (simp_all add: phase_def phase_id_def field_def jget_def jget_default_def str_at_def)

definition depends_on :: "string \<Rightarrow> json \<Rightarrow> bool" where
  "depends_on d p \<longleftrightarrow> (\<exists>i n ts g os. p = phase i n [d] ts g os)"

lemma depends_on_phase [simp]: "depends_on d (phase i n [d] ts g os)"
  unfolding depends_on_def by blast

lemma depends_on_fields:
  assumes "depends_on d p"
  shows "field p ''depends_on'' = jstrs [d]" "str_at p ''id'' = Inr (phase_id p)"
  using assms by (auto simp: depends_on_def)

text \<open>The phases of a list depend each on the one before it, the first one on \<open>d\<close>; \<open>ends\<close> is the identifier of the last.\<close>

fun chained :: "string \<Rightarrow> json list \<Rightarrow> bool" where
  "chained d [] = True"
| "chained d (p # ps) \<longleftrightarrow> depends_on d p \<and> chained (phase_id p) ps"

fun ends :: "string \<Rightarrow> json list \<Rightarrow> string" where
  "ends d [] = d"
| "ends d (p # ps) = ends (phase_id p) ps"

lemma chained_append [simp]: "chained d (xs @ ys) \<longleftrightarrow> chained d xs \<and> chained (ends d xs) ys"
  by (induction xs arbitrary: d) auto

lemma ends_append [simp]: "ends d (xs @ ys) = ends (ends d xs) ys"
  by (induction xs arbitrary: d) auto

lemma chained_depends: "chained d ps \<Longrightarrow> map (\<lambda>p. field p ''depends_on'') ps = map (\<lambda>i. jstrs [i]) (butlast (d # map phase_id ps))"
  by (induction ps arbitrary: d) (auto simp: depends_on_fields)

lemma chained_ids: "chained d ps \<Longrightarrow> mapE (\<lambda>p. str_at p ''id'') ps = Inr (map phase_id ps)"
  by (induction ps arbitrary: d) (auto simp: depends_on_fields)

section \<open>The phases of a plan\<close>

definition planned_ids :: "json \<Rightarrow> bool \<Rightarrow> string list" where
  "planned_ids intent stale =
     [''precheck'', ''checkpoint''] @ (if stale then [''multicast_reconciliation''] else [])
     @ [''underlay'', ''lisp_control_plane'', ''lisp_edges'', ''overlay'', ''border_handoff'']
     @ (if ''shared_services'' \<in> needed_phases intent then [''shared_services''] else [])
     @ (if ''multicast'' \<in> needed_phases intent then [''multicast''] else [])
     @ (if ''policy_plane'' \<in> needed_phases intent then [''policy_plane''] else [])
     @ [''endpoint_assurance'']"

lemma planned_ids_distinct: "distinct (planned_ids intent stale)"
  by (simp add: planned_ids_def)

lemma needed_planned: "needed_phases intent \<subseteq> set (planned_ids intent stale)"
  by (auto simp: planned_ids_def needed_phases_def)

text \<open>What a group of phases adds: one phase of this name, or nothing.\<close>

definition adds_phase :: "string \<Rightarrow> string \<Rightarrow> bool \<Rightarrow> json list \<Rightarrow> bool" where
  "adds_phase d i wanted ps \<longleftrightarrow> (if wanted then \<exists>n ts g os. ps = [phase i n [d] ts g os] else ps = [])"

lemma adds_phaseD:
  assumes "adds_phase d i wanted ps"
  shows "chained d ps" "map phase_id ps = (if wanted then [i] else [])" "ends d ps = next_dependency ps i d"
  using assms by (auto simp: adds_phase_def next_dependency_def split: if_splits)

lemma reconciliation_phases_adds:
  "reconciliation_phases b ts r = Inr ps \<Longrightarrow> adds_phase ''checkpoint'' ''multicast_reconciliation'' (b \<and> ts \<noteq> []) ps"
  by (auto simp: reconciliation_phases_def adds_phase_def res split: if_splits)

lemma shared_phases_adds:
  "shared_phases intent fusion = Inr ps \<Longrightarrow>
     adds_phase ''border_handoff'' ''shared_services'' (''shared_services'' \<in> needed_phases intent) ps"
  by (auto simp: shared_phases_def adds_phase_def res needed_phases_def dest: jget_field split: if_splits)

lemma multicast_phases_adds:
  "multicast_phases intent d = Inr ps \<Longrightarrow> adds_phase d ''multicast'' (''multicast'' \<in> needed_phases intent) ps"
  by (auto simp: multicast_phases_def adds_phase_def res needed_phases_def dest!: jget_field section_of_field split: if_splits)

lemma policy_phases_adds:
  "policy_phases intent d = Inr ps \<Longrightarrow> adds_phase d ''policy_plane'' (''policy_plane'' \<in> needed_phases intent) ps"
  by (auto simp: policy_phases_def adds_phase_def res needed_phases_def dest!: jget_field section_of_field split: if_splits)

lemma fabric_phases_chained:
  assumes "fabric_phases intent d devices cp es bs fs = Inr ps"
  shows "chained d ps"
    and "map phase_id ps = [''underlay'', ''lisp_control_plane'', ''lisp_edges'', ''overlay'', ''border_handoff'']"
    and "ends d ps = ''border_handoff''"
  using assms by (auto simp: fabric_phases_def res)

lemma later_phases_chained:
  assumes "later_phases intent devices fusion = Inr ps"
  shows "chained ''border_handoff'' ps
    \<and> map phase_id ps = (if ''shared_services'' \<in> needed_phases intent then [''shared_services''] else [])
     @ (if ''multicast'' \<in> needed_phases intent then [''multicast''] else [])
     @ (if ''policy_plane'' \<in> needed_phases intent then [''policy_plane''] else []) @ [''endpoint_assurance'']"
proof -
  from assms obtain sh mc pp where s: "shared_phases intent fusion = Inr sh"
    and m: "multicast_phases intent (next_dependency sh ''shared_services'' ''border_handoff'') = Inr mc"
    and p: "policy_phases intent (next_dependency mc ''multicast'' (next_dependency sh ''shared_services'' ''border_handoff'')) = Inr pp"
    and ps: "ps = sh @ mc @ pp @ [assurance_phase devices (next_dependency pp ''policy_plane''
        (next_dependency mc ''multicast'' (next_dependency sh ''shared_services'' ''border_handoff'')))]"
    by (auto simp: later_phases_def Let_def res)
  note a = adds_phaseD [OF shared_phases_adds [OF s]] adds_phaseD [OF multicast_phases_adds [OF m]]
    adds_phaseD [OF policy_phases_adds [OF p]]
  show ?thesis unfolding ps by (simp add: a assurance_phase_def)
qed

lemma plan_phases_chained:
  assumes "plan_phases intent recon (ad, fu, cp, bo, ed) = Inr (ts, phases)"
  obtains status raw keys p ps where "jidx recon ''status'' = Inr status" "jget_default recon ''devices'' (JObj []) = Inr raw"
    "elems raw = Inr keys" "phases = p # ps" "field p ''depends_on'' = jstrs []" "phase_id p = ''precheck''"
    "str_at p ''id'' = Inr ''precheck''" "chained ''precheck'' ps"
    "map phase_id phases = planned_ids intent (status = JStr ''ready'' \<and> keys \<noteq> [])"
proof -
  from assms obtain status raw keys rp fp lp where r: "jidx recon ''status'' = Inr status"
      "jget_default recon ''devices'' (JObj []) = Inr raw" "elems raw = Inr keys"
      "reconciliation_phases (status = JStr ''ready'') (sort (map py_str keys)) recon = Inr rp"
      "fabric_phases intent (next_dependency rp ''multicast_reconciliation'' ''checkpoint'') ad cp ed bo fu = Inr fp"
      "later_phases intent ad fu = Inr lp" and ts: "phases = opening_phases ts @ rp @ fp @ lp"
    by (auto simp: plan_phases_def Let_def res)
  note a = adds_phaseD [OF reconciliation_phases_adds [OF r(4)]] fabric_phases_chained [OF r(5)] later_phases_chained [OF r(6)]
  have e: "sort (map py_str keys) = [] \<longleftrightarrow> keys = []" by (metis length_0_conv length_map length_sort)
  show thesis
    by (rule that [OF r(1-3), of "hd phases" "tl phases"])
      (simp_all add: ts opening_phases_def a planned_ids_def e)
qed

lemma plan_of:
  assumes "create_plan validate_intent seconds intent baseline = Inr plan"
  obtains issues roles made recon ts phases where "validate_intent intent = Inr issues" "is_valid issues"
    "build_multicast_owned_state intent = Inr made" "build_multicast_reconciliation baseline made = Inr recon"
    "plan_phases intent recon roles = Inr (ts, phases)" "items_at plan ''phases'' = Inr phases"
proof -
  from assms obtain issues roles made recon tp where i: "validate_intent intent = Inr issues" "is_valid issues"
    "build_multicast_owned_state intent = Inr made" "build_multicast_reconciliation baseline made = Inr recon"
    "plan_phases intent recon roles = Inr tp" and p: "items_at plan ''phases'' = Inr (snd tp)"
    unfolding create_plan_def Let_def
    by (elim ebind_InrE raise_if_InrE) (auto simp: items_at_def res split: prod.splits elim!: ebind_InrE)
  then show thesis by (cases tp) (auto intro: that)
qed

text \<open>
  C34: the phases of a plan are a chain. Their identifiers are the prechecks, the checkpoint and the phases that
  the intent asks for, each once and in the order of the deployment, and each phase depends on
  exactly the phase before it.
\<close>

theorem plan_is_a_chain:
  assumes "create_plan validate_intent seconds intent baseline = Inr plan"
  shows "\<exists>phases stale. items_at plan ''phases'' = Inr phases
    \<and> mapE (\<lambda>p. str_at p ''id'') phases = Inr (planned_ids intent stale)
    \<and> distinct (planned_ids intent stale) \<and> needed_phases intent \<subseteq> set (planned_ids intent stale)
    \<and> map (\<lambda>p. field p ''depends_on'') phases = jstrs [] # map (\<lambda>i. jstrs [i]) (butlast (planned_ids intent stale))"
proof -
  from assms obtain roles recon ts phases where t: "plan_phases intent recon roles = Inr (ts, phases)"
    and i: "items_at plan ''phases'' = Inr phases" by (rule plan_of)
  obtain ad fu cp bo ed where r: "roles = (ad, fu, cp, bo, ed)" by (cases roles)
  from t [unfolded r] obtain stale p ps where p: "phases = p # ps" "field p ''depends_on'' = jstrs []"
      "phase_id p = ''precheck''" "str_at p ''id'' = Inr ''precheck''" "chained ''precheck'' ps"
      "map phase_id phases = planned_ids intent stale"
    by (rule plan_phases_chained) (rule that)
  from p(1,3,6) have ids: "planned_ids intent stale = ''precheck'' # map phase_id ps" by simp
  have "mapE (\<lambda>p. str_at p ''id'') phases = Inr (planned_ids intent stale)"
    unfolding p(1) ids by (simp add: p(4) chained_ids [OF p(5)])
  moreover have "map (\<lambda>p. field p ''depends_on'') phases = jstrs [] # map (\<lambda>i. jstrs [i]) (butlast (planned_ids intent stale))"
    unfolding p(1) ids by (simp only: list.map p(2) chained_depends [OF p(5)])
  ultimately show ?thesis using i planned_ids_distinct needed_planned by (intro exI conjI)
qed

section \<open>Every gate has its phase\<close>

lemma planned_phase_id: "planned ids phases g \<Longrightarrow> \<exists>ph \<in> phases. jidx g ''phase_id'' = Inr (JStr ph)"
  by (induction rule: planned.induct) (auto simp: gate_def advisory_gate_def)

lemma version_gate_phase: "version_gate i holder = Inr g \<Longrightarrow> jidx g ''phase_id'' = Inr (JStr ''precheck'')"
  using planned_phase_id [OF version_gate_planned] by blast

lemma reconciliation_status:
  assumes "build_multicast_reconciliation baseline m = Inr recon"
  obtains devs where "field recon ''devices'' = removal_plan_json devs"
    "jget_default recon ''devices'' (JObj []) = Inr (removal_plan_json devs)"
    "devs = [] \<or> jidx recon ''status'' = Inr (JStr ''ready'')"
  using assms by (auto simp: build_multicast_reconciliation_def Let_def res removal_plan_json_def field_def jget_def
      jget_default_def split: option.splits elim!: ebind_InrE)

lemma reconciliation_gate_phase:
  assumes "reconciliation_gates intent artifact = Inr gs" and "section_of artifact ''reconciliation'' = Inr recon"
    and "jget_default recon ''devices'' (JObj []) = Inr (removal_plan_json devs)" and "g \<in> set gs"
  shows "devs \<noteq> [] \<and> (\<exists>ph \<in> {''precheck'', ''multicast_reconciliation''}. jidx g ''phase_id'' = Inr (JStr ph))"
proof -
  from assms(1) obtain active parts gss where i: "items_of (removal_plan_json devs) = Inr parts"
    and m: "mapE (\<lambda>(device_id, device). ebind (descriptor_version_gate active device_id device)
          (\<lambda>v. ebind (items_get device ''gates'') (\<lambda>rg. ebind (mapE (own_gate device_id) rg) (\<lambda>own. Inr (v @ own)))))
        (sort_key fst parts) = Inr gss" and gs: "gs = concat gss"
    unfolding reconciliation_gates_def assms(2) assms(3) ebind_simps
    by - (elim ebind_InrE, rule that, assumption+, drule Inr_inject, erule sym)
  from gs assms(4) obtain ys where ys: "ys \<in> set gss" "g \<in> set ys" by auto
  from mapE_Inr_set [OF m ys(1)] obtain d v vg own where
    e: "(d, v) \<in> set parts" "ys = vg @ own"
      "descriptor_version_gate active d v = Inr vg" "\<exists>rg. items_get v ''gates'' = Inr rg \<and> mapE (own_gate d) rg = Inr own"
    by (auto simp: res)
  from e(1) i obtain r where r: "(d, r) \<in> set devs" "field v ''gates'' = JArr (map removal_gate (dr_removals r))"
    by (auto simp: removal_plan_json_def field_def jget_def jget_default_def)
  have "\<exists>ph \<in> {''precheck'', ''multicast_reconciliation''}. jidx g ''phase_id'' = Inr (JStr ph)"
  proof (cases "g \<in> set vg")
    case True
    with e(3) version_gate_phase show ?thesis by (auto simp: descriptor_version_gate_def res split: if_splits)
  next
    case False
    with ys(2) e(2) have "g \<in> set own" by simp
    moreover from e(1) i have "items_get v ''gates'' = Inr (arr_items (field v ''gates''))"
      by (auto simp: removal_plan_json_def items_get_def jget_default_def field_def jget_def)
    moreover have "mapE (own_gate d) xs = Inr own \<Longrightarrow> own = map (\<lambda>x. x) xs" for xs
      by (erule mapE_Inr_map) (auto simp: own_gate_def res)
    ultimately have "g \<in> set (map removal_gate (dr_removals r))"
      using e(4) r(2) by fastforce
    then show ?thesis by (auto simp: removal_gate_def)
  qed
  with r(1) show ?thesis by auto
qed

lemma ordered_planned:
  "items_at plan ''phases'' = Inr phases \<Longrightarrow> mapE (\<lambda>p. str_at p ''id'') phases = Inr ids \<Longrightarrow> ph \<in> set ids
     \<Longrightarrow> ph \<notin> {''checkpoint'', ''endpoint_assurance''} \<Longrightarrow> \<exists>os. ordered_phases plan = Inr os \<and> ph \<in> insert ''precheck'' (set os)"
  by (auto simp: ordered_phases_def)

lemma every_gate_has_a_phase:
  assumes "create_plan validate_intent seconds intent baseline = Inr plan"
    and "build_multicast_owned_state intent = Inr made" and "build_multicast_reconciliation baseline made = Inr recon"
    and "section_of artifact ''reconciliation'' = Inr recon"
    and "build_gate_plan intent (Some artifact) = Inr gates" and "g \<in> set gates"
  shows "\<exists>ph os. jidx g ''phase_id'' = Inr (JStr ph) \<and> ordered_phases plan = Inr os \<and> ph \<in> insert ''precheck'' (set os)"
proof -
  from assms(1) obtain made' recon' roles ts phases where c: "build_multicast_owned_state intent = Inr made'"
      "build_multicast_reconciliation baseline made' = Inr recon'"
      "plan_phases intent recon' roles = Inr (ts, phases)" and i: "items_at plan ''phases'' = Inr phases" by (rule plan_of)
  from c assms(2,3) have t: "plan_phases intent recon roles = Inr (ts, phases)" by simp
  obtain ad fu cp bo ed where r: "roles = (ad, fu, cp, bo, ed)" by (cases roles)
  from t [unfolded r] obtain status raw keys p ps where s: "jidx recon ''status'' = Inr status"
      "jget_default recon ''devices'' (JObj []) = Inr raw" "elems raw = Inr keys" "phases = p # ps"
      "phase_id p = ''precheck''" "str_at p ''id'' = Inr ''precheck''" "chained ''precheck'' ps"
      "map phase_id phases = planned_ids intent (status = JStr ''ready'' \<and> keys \<noteq> [])"
    by (rule plan_phases_chained) (blast intro: that)
  then have ids: "mapE (\<lambda>p. str_at p ''id'') phases = Inr (planned_ids intent (status = JStr ''ready'' \<and> keys \<noteq> []))"
    using chained_ids [OF s(7)] by simp
  obtain devs where d: "jget_default recon ''devices'' (JObj []) = Inr (removal_plan_json devs)"
      "devs = [] \<or> jidx recon ''status'' = Inr (JStr ''ready'')"
    using assms(3) by (rule reconciliation_status)
  have stale: "devs \<noteq> [] \<Longrightarrow> status = JStr ''ready'' \<and> keys \<noteq> []"
    using d s(1-3) by (auto simp: removal_plan_json_def)
  from build_gate_plan_planned [OF assms(5,6)] obtain ph where
    "ph \<in> set (planned_ids intent (status = JStr ''ready'' \<and> keys \<noteq> [])) - {''checkpoint'', ''endpoint_assurance''}"
    "jidx g ''phase_id'' = Inr (JStr ph)"
  proof
    assume "planned (intent_ids intent) (needed_phases intent) g"
    from planned_phase_id [OF this] obtain ph where "ph \<in> needed_phases intent" "jidx g ''phase_id'' = Inr (JStr ph)" by blast
    moreover from this(1) have "ph \<notin> {''checkpoint'', ''endpoint_assurance''}" by (auto simp: needed_phases_def split: if_splits)
    ultimately show thesis using needed_planned [of intent "status = JStr ''ready'' \<and> keys \<noteq> []"] by (intro that) auto
  next
    assume "\<exists>a recon. Some artifact = Some a \<and> reconciliation_gates intent a = Inr recon \<and> g \<in> set recon"
    then obtain gs where "reconciliation_gates intent artifact = Inr gs" "g \<in> set gs" by blast
    from reconciliation_gate_phase [OF this(1) assms(4) d(1) this(2)] stale obtain ph where
      "ph \<in> {''precheck'', ''multicast_reconciliation''}" "jidx g ''phase_id'' = Inr (JStr ph)" "status = JStr ''ready'' \<and> keys \<noteq> []"
      by blast
    then show thesis by (intro that) (auto simp: planned_ids_def)
  qed
  with ordered_planned [OF i ids] show ?thesis by blast
qed

text \<open>
  C35: a plan and the gate plan of the same intent, whose artifact carries the reconciliation of the
  planner: every gate belongs to the prechecks or to a phase that the worker runs, so after a
  run that succeeds the store has evidence that each of them passed.
\<close>

theorem no_gate_is_left_out:
  assumes "create_plan validate_intent seconds intent baseline = Inr plan"
    and "build_multicast_owned_state intent = Inr made" and "build_multicast_reconciliation baseline made = Inr recon"
    and "section_of artifact ''reconciliation'' = Inr recon"
    and "build_gate_plan intent (Some artifact) = Inr gates" and "g \<in> set gates"
  shows "(\<exists>ph os. jidx g ''phase_id'' = Inr (JStr ph) \<and> ordered_phases plan = Inr os \<and> ph \<in> insert ''precheck'' (set os))
    \<and> (case process_apply e run_id intent plan artifact allowed (worker_start s w) of
         (Inl x, u) \<Rightarrow> True
       | (Inr res, u) \<Rightarrow> (if ar_succeeded res \<and> we_gate_plan e intent artifact = Inr gates
                         then gate_passed e run_id (ws_store u) g else True))"
proof -
  from every_gate_has_a_phase [OF assms] obtain ph os where
    p: "jidx g ''phase_id'' = Inr (JStr ph)" "ordered_phases plan = Inr os" "ph \<in> insert ''precheck'' (set os)" by blast
  have "gate_passed e run_id (ws_store u) g"
    if "process_apply e run_id intent plan artifact allowed (worker_start s w) = (Inr res, u)"
      and "ar_succeeded res" and "we_gate_plan e intent artifact = Inr gates" for res u
    using process_gates [OF that(1,2)] that(3) p assms(6) by (auto simp: gates_behind_def)
  with p show ?thesis by (auto split: prod.split sum.split)
qed

section \<open>A sample plan\<close>

definition sample_plan_intent :: json where
  "sample_plan_intent =
     JObj [(''devices'', JArr [JObj [(''id'', JStr ''b1''), (''software_version'', JStr ''17.12.3''), (''roles'', JArr [JStr ''border''])]]),
           (''fabric'', JObj [(''id'', JStr ''f1''), (''mtu'', JInt 9100)]), (''metadata'', JObj [(''environment'', JStr ''lab'')]),
           (''lisp'', JObj [(''map_servers'', JArr [])])]"

definition sample_recon :: json where
  "sample_recon = JObj [(''status'', JStr ''baseline_missing''), (''baseline_hash'', JNull),
                        (''stale_resource_count'', JInt 0), (''devices'', JObj [])]"

lemma sample_plan_owned:
  "build_multicast_owned_state sample_plan_intent = Inr (owned_manifest ''f1'' sample_plan_intent [])"
  by (simp add: sample_plan_intent_def build_multicast_owned_state_def section_of_def multicast_applies_def jget_def
      jget_default_def jor_def str_at_def sorted_set_def)

lemma sample_plan_recon:
  "build_multicast_reconciliation None (owned_manifest ''f1'' sample_plan_intent []) = Inr sample_recon"
proof -
  have "validate_owned_state (owned_manifest ''f1'' sample_plan_intent []) None = Inr ()"
    by (simp add: validate_owned_state_def owned_manifest_def Let_def jget_def jget_default_def del_field_def)
  then show ?thesis by (simp add: build_multicast_reconciliation_def sample_recon_def)
qed

lemmas plan_simps = plan_phases_def fabric_phases_def later_phases_def shared_phases_def multicast_phases_def
  policy_phases_def reconciliation_phases_def reconciliation_summary_def plan_roles_def targets_by_role_def role_target_def
  len_get_def section_of_def items_get_def items_at_def str_at_def int_at_def int_get_def jget_def jget_default_def jor_def hashable_def

lemma sample_plan_created: "\<exists>plan. create_plan (\<lambda>_. Inr []) seconds sample_plan_intent None = Inr plan"
proof -
  have "plan_roles sample_plan_intent = Inr ([''b1''], [], [], [''b1''], [])"
    by (simp add: sample_plan_intent_def plan_simps)
  moreover have "\<exists>x. plan_phases sample_plan_intent sample_recon ([''b1''], [], [], [''b1''], []) = Inr x"
    by (simp add: sample_plan_intent_def sample_recon_def plan_simps Let_def)
  ultimately show ?thesis
    by (auto simp: create_plan_def sample_plan_owned sample_plan_recon is_valid_def is_errors_def Let_def
        split: prod.splits)
      (simp add: sample_plan_intent_def sample_recon_def reconciliation_summary_def str_at_def int_get_def jget_def jget_default_def)
qed

lemma sample_artifact_gates:
  "build_gate_plan sample_plan_intent (Some (JObj [(''reconciliation'', sample_recon)]))
     = Inr [gate ''precheck.version.b1'' ''precheck'' ''b1'' ''show version'' ''ios_xe_version'' [(''version'', JStr ''17.12.3'')],
            license_gate ''b1'', isis_gate ''b1'' 0]"
  by (simp add: sample_plan_intent_def sample_recon_def gate_plan_simps reconciliation_gates_def bfd_gates_def Let_def)

theorem plan_is_a_chain_witness:
  "\<exists>plan phases stale. create_plan (\<lambda>_. Inr []) 0 sample_plan_intent None = Inr plan \<and> items_at plan ''phases'' = Inr phases
     \<and> mapE (\<lambda>p. str_at p ''id'') phases = Inr (planned_ids sample_plan_intent stale)"
proof -
  obtain plan where p: "create_plan (\<lambda>_. Inr []) 0 sample_plan_intent None = Inr plan" using sample_plan_created by blast
  from plan_is_a_chain [OF p] p show ?thesis by blast
qed

theorem no_gate_is_left_out_witness:
  "\<exists>plan os. create_plan (\<lambda>_. Inr []) 0 sample_plan_intent None = Inr plan \<and> ordered_phases plan = Inr os \<and> ''underlay'' \<in> set os"
proof -
  obtain plan where p: "create_plan (\<lambda>_. Inr []) 0 sample_plan_intent None = Inr plan" using sample_plan_created by blast
  have a: "section_of (JObj [(''reconciliation'', sample_recon)]) ''reconciliation'' = Inr sample_recon"
    by (simp add: section_of_def sample_recon_def jget_def jget_default_def jor_def)
  have "isis_gate ''b1'' 0 \<in> set [gate ''precheck.version.b1'' ''precheck'' ''b1'' ''show version'' ''ios_xe_version''
      [(''version'', JStr ''17.12.3'')], license_gate ''b1'', isis_gate ''b1'' 0]" by simp
  from no_gate_is_left_out [OF p sample_plan_owned sample_plan_recon a sample_artifact_gates this, THEN conjunct1] p
  show ?thesis by (auto simp: isis_gate_def gate_def)
qed

end
