(* ===== verification/RenderProps.thy ===== *)
theory RenderProps
  imports RenderSound PlannerProps
begin

text \<open>
  The properties of the renderer: it renders nothing outside the phases of the plan, its commands
  carry only checked text and placeholders, and the enforcement line is the one its gate expects.
\<close>

section \<open>What a part of the artifact needs\<close>

lemma multicast_overlay_needed:
  "multicast_overlay_blocks intent device = Inr bs \<Longrightarrow> bs = [] \<or> ''multicast'' \<in> needed_phases intent"
  by (auto simp: multicast_overlay_blocks_def native_multicast_def needed_phases_def res dest!: jget_field section_of_field split: if_splits)

lemma fusion_multicast_needed:
  "fusion_multicast_blocks intent fusion = Inr bs \<Longrightarrow> bs = [] \<or> ''multicast'' \<in> needed_phases intent"
  by (auto simp: fusion_multicast_blocks_def native_multicast_def needed_phases_def res dest!: jget_field section_of_field split: if_splits)

lemma policy_plane_needed:
  "policy_plane_blocks intent device = Inr bs \<Longrightarrow> bs = [] \<or> ''policy_plane'' \<in> needed_phases intent"
  by (auto simp: policy_plane_blocks_def has_mode_def needed_phases_def res dest!: jget_field section_of_field split: if_splits)

lemma shared_services_needed:
  "fusion_shared_service_blocks intent fusion = Inr bs \<Longrightarrow> bs = [] \<or> ''shared_services'' \<in> needed_phases intent"
proof -
  have "truthy (jor v (JObj [])) \<Longrightarrow> truthy v" for v by (cases "truthy v") (simp_all add: jor_def)
  then show "fusion_shared_service_blocks intent fusion = Inr bs \<Longrightarrow> bs = [] \<or> ''shared_services'' \<in> needed_phases intent"
    by (auto simp: fusion_shared_service_blocks_def needed_phases_def res dest!: section_of_field split: if_splits)
qed

section \<open>Phases of the artifact\<close>

text \<open>
  A rendered phase is empty or one of the plan, and its blocks are sound unless they remove owned
  state or a network that is printed unchecked has a scope.
\<close>

definition rendered :: "json \<Rightarrow> (string \<Rightarrow> bool) \<Rightarrow> json \<Rightarrow> bool" where
  "rendered intent known p \<longleftrightarrow>
     (\<exists>i blocks. p = phase_part i blocks \<and> (blocks = [] \<or> known i)
        \<and> (unscoped_networks intent \<longrightarrow> i = ''multicast_reconciliation'' \<or> sounds blocks))"

lemma rendered_part [simp]:
  "rendered intent known (phase_part i blocks) \<longleftrightarrow>
     (blocks = [] \<or> known i) \<and> (unscoped_networks intent \<longrightarrow> i = ''multicast_reconciliation'' \<or> sounds blocks)"
  by (auto simp: rendered_def phase_part_def)

lemma rendered_some:
  "bs = [] \<or> known i \<Longrightarrow> (unscoped_networks intent \<Longrightarrow> sounds bs) \<Longrightarrow> \<forall>p \<in> set (some_blocks i bs). rendered intent known p"
  by (auto simp: some_blocks_def)

lemma rendered_fields:
  assumes "rendered intent known p"
  obtains i blocks where "jidx p ''phase_id'' = Inr (JStr i)" "items_at p ''blocks'' = Inr blocks"
    "blocks = [] \<or> known i" "unscoped_networks intent \<longrightarrow> i = ''multicast_reconciliation'' \<or> sounds blocks"
  using assms by (auto simp: rendered_def phase_part_def items_at_def)

definition plan_knows :: "json \<Rightarrow> (string \<Rightarrow> bool) \<Rightarrow> json \<Rightarrow> bool" where
  "plan_knows intent known recon \<longleftrightarrow>
     (\<forall>i \<in> (needed_phases intent - {''precheck''}) \<union> {''underlay'', ''lisp_control_plane'', ''lisp_edges'', ''overlay'', ''border_handoff''}. known i)
     \<and> (\<exists>devs. field recon ''devices'' = removal_plan_json devs
          \<and> jget_default recon ''devices'' (JObj []) = Inr (removal_plan_json devs)
          \<and> (devs \<noteq> [] \<longrightarrow> known ''multicast_reconciliation''))"

lemma plan_knowsD:
  assumes "plan_knows intent known recon"
  shows "i \<in> needed_phases intent \<Longrightarrow> i \<noteq> ''precheck'' \<Longrightarrow> known i"
    and "known ''underlay''" "known ''lisp_control_plane''" "known ''lisp_edges''" "known ''overlay''" "known ''border_handoff''"
  using assms by (auto simp: plan_knows_def)

lemma reconciled_rendered:
  assumes "plan_knows intent known recon" and "reconciled recon i = Inr ps"
  shows "\<forall>p \<in> set ps. rendered intent known p"
proof -
  from assms(1) obtain devs where d: "jget_default recon ''devices'' (JObj []) = Inr (removal_plan_json devs)"
    and k: "devs \<noteq> [] \<longrightarrow> known ''multicast_reconciliation''" by (auto simp: plan_knows_def)
  have "ps = [] \<or> (devs \<noteq> [] \<and> (\<exists>bs. ps = [phase_part ''multicast_reconciliation'' bs]))"
    using assms(2) unfolding reconciled_def d ebind_simps
    by (cases devs) (auto simp: removal_phase_def removal_plan_json_def jget_def jget_default_def res split: if_splits)
  with k show ?thesis by auto
qed

lemma edge_phases_rendered:
  "edge_phases intent device b = Inr ps \<Longrightarrow> known ''lisp_edges'' \<Longrightarrow> known ''overlay'' \<Longrightarrow> \<forall>p \<in> set ps. rendered intent known p"
  by (auto simp: edge_phases_def res edge_lisp_blocks_sound edge_overlay_blocks_sound edge_endpoint_attachment_blocks_sound
      pubsub_subscriber_blocks_sound split: if_splits)

lemma border_overlay_phases_rendered:
  "border_overlay_phases intent device = Inr ps \<Longrightarrow> known ''overlay'' \<Longrightarrow> \<forall>p \<in> set ps. rendered intent known p"
  by (auto simp: border_overlay_phases_def res vrf_blocks_sound pubsub_subscriber_blocks_sound border_local_dhcp_blocks_sound)

lemma overlay_phases_rendered:
  "overlay_phases intent device roles = Inr ps \<Longrightarrow> known ''lisp_edges'' \<Longrightarrow> known ''overlay'' \<Longrightarrow> \<forall>p \<in> set ps. rendered intent known p"
  unfolding overlay_phases_def
  using edge_phases_rendered border_overlay_phases_rendered by (auto split: if_splits)

lemma device_phases_rendered:
  assumes k: "plan_knows intent known recon" and d: "device_phases intent recon device roles = Inr ps"
  shows "\<forall>p \<in> set ps. rendered intent known p"
proof -
  from d obtain i removal underlay control overlay multicast policy handoff where
    r: "reconciled recon i = Inr removal" and u: "underlay_blocks intent device = Inr underlay"
    and o: "overlay_phases intent device roles = Inr overlay"
    and m: "multicast_overlay_blocks intent device = Inr multicast" and q: "policy_plane_blocks intent device = Inr policy"
    and c: "(if JStr ''control_plane'' \<in> set roles
             then ebind (control_plane_blocks intent device) (\<lambda>bs. Inr [phase_part ''lisp_control_plane'' bs]) else Inr []) = Inr control"
    and h: "(if JStr ''border'' \<in> set roles
             then ebind (border_handoff_blocks intent device) (\<lambda>bs. Inr [phase_part ''border_handoff'' bs]) else Inr []) = Inr handoff"
    and ps: "ps = removal @ [phase_part ''underlay'' underlay] @ control @ overlay @ some_blocks ''multicast'' multicast
        @ some_blocks ''policy_plane'' policy @ handoff"
    unfolding device_phases_def by (elim ebind_InrE) (rule that, assumption+, drule Inr_inject, erule sym)
  note k' = plan_knowsD [OF k]
  have "\<forall>p \<in> set control. rendered intent known p" using c k'(3) by (auto simp: res control_plane_blocks_sound split: if_splits)
  moreover have "\<forall>p \<in> set handoff. rendered intent known p" using h k'(6) by (auto simp: res border_handoff_blocks_sound split: if_splits)
  moreover have "\<forall>p \<in> set (some_blocks ''multicast'' multicast). rendered intent known p"
    using multicast_overlay_needed [OF m] k'(1) multicast_overlay_blocks_sound [OF m] by (intro rendered_some) auto
  moreover have "\<forall>p \<in> set (some_blocks ''policy_plane'' policy). rendered intent known p"
    using policy_plane_needed [OF q] k'(1) policy_plane_blocks_sound [OF q] by (intro rendered_some) auto
  ultimately show ?thesis
    using reconciled_rendered [OF k r] overlay_phases_rendered [OF o k'(4,5)] underlay_blocks_sound [OF u] k'(2)
    unfolding ps by (simp add: ball_Un)
qed

lemma fusion_phases_rendered:
  assumes k: "plan_knows intent known recon" and d: "fusion_phases intent recon fusion = Inr ps"
  shows "\<forall>p \<in> set ps. rendered intent known p"
proof -
  from d obtain i removal handoff shared multicast where
    r: "reconciled recon i = Inr removal" and m: "fusion_multicast_blocks intent fusion = Inr multicast"
    and h: "fusion_handoff_blocks intent fusion = Inr handoff" and s: "fusion_shared_service_blocks intent fusion = Inr shared"
    and ps: "ps = removal @ [phase_part ''border_handoff'' handoff, phase_part ''shared_services'' shared]
        @ some_blocks ''multicast'' multicast"
    unfolding fusion_phases_def by (elim ebind_InrE) (rule that, assumption+, drule Inr_inject, erule sym)
  have "\<forall>p \<in> set (some_blocks ''multicast'' multicast). rendered intent known p"
    using fusion_multicast_needed [OF m] plan_knowsD(1) [OF k] fusion_multicast_blocks_sound [OF m] by (intro rendered_some) auto
  then show ?thesis
    using reconciled_rendered [OF k r] fusion_handoff_blocks_sound [OF h] fusion_shared_service_blocks_sound [OF s]
      shared_services_needed [OF s] plan_knowsD [OF k]
    unfolding ps by (auto simp: ball_Un)
qed

section \<open>Devices of the artifact\<close>

lemma map_of_put_all: "map_of (put_all acc xs) k = Some v \<Longrightarrow> map_of acc k = Some v \<or> (k, v) \<in> set xs"
proof (induction xs arbitrary: acc)
  case (Cons x xs)
  obtain a b where x: "x = (a, b)" by fastforce
  have "map_of (put_all (set_field a b acc) xs) k = Some v" using Cons.prems by (simp add: x put_all_def)
  from Cons.IH [OF this] show ?case by (auto simp: x map_of_set_field split: if_splits)
qed (simp add: put_all_def)

definition device_rendered :: "json \<Rightarrow> (string \<Rightarrow> bool) \<Rightarrow> json \<Rightarrow> bool" where
  "device_rendered intent known device \<longleftrightarrow> (\<exists>phases. items_at device ''phases'' = Inr phases \<and> (\<forall>p \<in> set phases. rendered intent known p))"

lemma software_phases: "software_of device = Inr sw \<Longrightarrow> map_of sw ''phases'' = None"
  by (auto simp: software_of_def res)

lemma device_artifact_rendered:
  assumes "plan_knows intent known recon" and "device_artifact intent recon device = Inr (d, a)"
  shows "device_rendered intent known a"
proof -
  from assms(2) obtain roles ps i sw ordered where p: "device_phases intent recon device roles = Inr ps"
    and s: "software_of device = Inr sw" and a: "(i, JObj (sw @ [(''roles'', JArr ordered), (''phases'', JArr ps)])) = (d, a)"
    unfolding device_artifact_def by (elim ebind_InrE) (rule that, assumption+, erule Inr_inject)
  have "items_at a ''phases'' = Inr ps"
    using a software_phases [OF s] by (auto simp: items_at_def map_add_def)
  then show ?thesis using device_phases_rendered [OF assms(1) p] unfolding device_rendered_def by blast
qed

lemma fusion_artifact_rendered:
  assumes "plan_knows intent known recon" and "fusion_artifact intent recon fusion = Inr (d, a)"
  shows "device_rendered intent known a"
proof -
  from assms(2) obtain ps i sw where p: "fusion_phases intent recon fusion = Inr ps"
    and s: "software_of fusion = Inr sw" and a: "(i, JObj (sw @ [(''roles'', jstrs [''fusion'']), (''phases'', JArr ps)])) = (d, a)"
    unfolding fusion_artifact_def by (elim ebind_InrE) (rule that, assumption+, erule Inr_inject)
  have "items_at a ''phases'' = Inr ps"
    using a software_phases [OF s] by (auto simp: items_at_def map_add_def)
  then show ?thesis using fusion_phases_rendered [OF assms(1) p] unfolding device_rendered_def by blast
qed

lemma retired_artifact_rendered:
  assumes "retired_artifact e = Inr (d, a)" and "known ''multicast_reconciliation''"
  shows "device_rendered intent known a"
proof -
  from assms(1) obtain sw descriptor ordered kvs ps where p: "removal_phase (snd e) = Inr ps" and s: "software_of descriptor = Inr sw"
    and a: "(fst e, JObj (sw @ [(''roles'', JArr ordered), (''retired_target'', JBool True),
           (''device_descriptor'', JObj kvs), (''phases'', JArr ps)])) = (d, a)"
    unfolding retired_artifact_def case_prod_beta by (elim ebind_InrE) (rule that, assumption+, erule Inr_inject)
  have "items_at a ''phases'' = Inr ps"
    using a software_phases [OF s] by (auto simp: items_at_def map_add_def)
  moreover have "\<forall>p \<in> set ps. rendered intent known p" using p assms(2) by (auto simp: removal_phase_def res)
  ultimately show ?thesis unfolding device_rendered_def by blast
qed

lemma artifact_devices_rendered:
  assumes k: "plan_knows intent known recon" and "artifact_devices intent recon = Inr devices"
    and d: "map_of devices i = Some device"
  shows "device_rendered intent known device"
proof -
  from assms(2) obtain ds fs fabric fusion raw entries retired where
    a: "mapE (device_artifact intent recon) ds = Inr fabric" "mapE (fusion_artifact intent recon) fs = Inr fusion"
    and r: "jget_default recon ''devices'' (JObj []) = Inr raw" "items_of raw = Inr entries"
      "mapE retired_artifact (sort_key fst (filter (\<lambda>e. map_of (put_all [] (fabric @ fusion)) (fst e) = None) entries)) = Inr retired"
    and ds: "devices = put_all (put_all [] (fabric @ fusion)) retired"
    unfolding artifact_devices_def Let_def by (elim ebind_InrE) (rule that, assumption+, drule Inr_inject, erule sym)
  have "(i, device) \<in> set fabric \<or> (i, device) \<in> set fusion \<or> (i, device) \<in> set retired"
    using d map_of_put_all [of "put_all [] (fabric @ fusion)" retired i device] map_of_put_all [of "[]" "fabric @ fusion" i device]
    unfolding ds by auto
  then show ?thesis
  proof (elim disjE)
    assume "(i, device) \<in> set fabric"
    with mapE_Inr_set [OF a(1)] device_artifact_rendered [OF k] show ?thesis by metis
  next
    assume "(i, device) \<in> set fusion"
    with mapE_Inr_set [OF a(2)] fusion_artifact_rendered [OF k] show ?thesis by metis
  next
    assume "(i, device) \<in> set retired"
    then obtain e where e: "e \<in> set entries" "retired_artifact e = Inr (i, device)"
      using mapE_Inr_set [OF r(3)] by fastforce
    from k r(1) obtain devs where "raw = removal_plan_json devs" "devs \<noteq> [] \<longrightarrow> known ''multicast_reconciliation''"
      by (auto simp: plan_knows_def)
    with e(1) r(2) have "known ''multicast_reconciliation''" by (cases devs) (auto simp: removal_plan_json_def)
    with e(2) show ?thesis by (rule retired_artifact_rendered)
  qed
qed

lemma rendered_artifact:
  assumes "render_configuration intent plan = Inr artifact"
  obtains made_state recon devices where "bound_reconciliation intent plan = Inr (made_state, recon)"
    "artifact_devices intent recon = Inr devices" "field artifact ''devices'' = JObj devices"
proof -
  from assms obtain part devices where b: "bound_reconciliation intent plan = Inr part"
    "artifact_devices intent (snd part) = Inr devices" "field artifact ''devices'' = JObj devices"
    unfolding render_configuration_def Let_def case_prod_beta
    by (elim ebind_InrE) (rule that, assumption, assumption, drule Inr_inject, hypsubst,
      simp add: field_def jget_def jget_default_def)
  then show thesis by (intro that [of "fst part" "snd part"]) simp_all
qed

section \<open>The artifact of a plan\<close>

lemma bound_reconciliationD:
  assumes "bound_reconciliation intent plan = Inr (made_state, recon)"
  obtains b where "build_multicast_owned_state intent = Inr made_state" "jget plan ''reconciliation_baseline'' = Inr b"
    "build_multicast_reconciliation (if b = JNull then None else Some b) made_state = Inr recon"
  using assms unfolding bound_reconciliation_def
  by (elim ebind_InrE raise_if_InrE) (drule Inr_inject, erule Pair_inject, hypsubst, rule that, assumption+)

lemma no_null_baseline: "build_multicast_reconciliation (Some JNull) m \<noteq> Inr recon"
  by (auto simp: build_multicast_reconciliation_def validate_baseline_def res)

lemma plan_baseline:
  assumes "create_plan validate_intent seconds intent baseline = Inr plan"
  obtains b where "jget plan ''reconciliation_baseline'' = Inr b" "(if b = JNull then None else Some b) = baseline"
proof -
  from assms obtain made recon where r: "build_multicast_reconciliation baseline made = Inr recon"
    and p: "jget plan ''reconciliation_baseline'' = Inr (case baseline of None \<Rightarrow> JNull | Some b \<Rightarrow> b)"
    unfolding create_plan_def Let_def case_prod_beta
    by (elim ebind_InrE raise_if_InrE)
      (rule that, assumption, drule Inr_inject, hypsubst, simp add: jget_def jget_default_def map_add_def split: option.split)
  have "baseline \<noteq> Some JNull" using r no_null_baseline by blast
  then show thesis using p by (cases baseline) (auto intro!: that)
qed

lemma planned_phases_known:
  assumes "create_plan validate_intent seconds intent baseline = Inr plan"
    and "bound_reconciliation intent plan = Inr (made_state, recon)"
  obtains os where "ordered_phases plan = Inr os" "plan_knows intent (\<lambda>i. i \<in> set os) recon"
proof -
  from assms(1) obtain made recon' roles ts phases where c: "build_multicast_owned_state intent = Inr made"
      "build_multicast_reconciliation baseline made = Inr recon'" "plan_phases intent recon' roles = Inr (ts, phases)"
    and i: "items_at plan ''phases'' = Inr phases" by (rule plan_of)
  from assms(2) obtain b where b: "build_multicast_owned_state intent = Inr made_state" "jget plan ''reconciliation_baseline'' = Inr b"
    "build_multicast_reconciliation (if b = JNull then None else Some b) made_state = Inr recon" by (rule bound_reconciliationD)
  from assms(1) obtain b' where b': "jget plan ''reconciliation_baseline'' = Inr b'" "(if b' = JNull then None else Some b') = baseline"
    by (rule plan_baseline)
  have e: "b' = b" "made = made_state" using b(1,2) b'(1) c(1) by simp_all
  have r: "recon' = recon" using c(2) b(3) unfolding b'(2) [unfolded e(1)] e(2) by simp
  obtain ad fu cp bo ed where roles: "roles = (ad, fu, cp, bo, ed)" by (cases roles)
  from c(3) [unfolded roles r] obtain status raw keys p ps where s: "jidx recon ''status'' = Inr status"
      "jget_default recon ''devices'' (JObj []) = Inr raw" "elems raw = Inr keys" "phases = p # ps"
      "phase_id p = ''precheck''" "str_at p ''id'' = Inr ''precheck''" "chained ''precheck'' ps"
      "map phase_id phases = planned_ids intent (status = JStr ''ready'' \<and> keys \<noteq> [])"
    by (rule plan_phases_chained) (blast intro: that)
  have ids: "mapE (\<lambda>p. str_at p ''id'') phases = Inr (planned_ids intent (status = JStr ''ready'' \<and> keys \<noteq> []))"
    using chained_ids [OF s(7)] s(4-6,8) by simp
  from c(2) [unfolded r] obtain devs where d: "field recon ''devices'' = removal_plan_json devs"
      "jget_default recon ''devices'' (JObj []) = Inr (removal_plan_json devs)"
      "devs = [] \<or> jidx recon ''status'' = Inr (JStr ''ready'')" by (rule reconciliation_status)
  have "devs \<noteq> [] \<Longrightarrow> status = JStr ''ready'' \<and> keys \<noteq> []"
    using d(2,3) s(1-3) by (cases devs) (auto simp: removal_plan_json_def)
  then have "plan_knows intent (\<lambda>i. i \<in> set (planned_ids intent (status = JStr ''ready'' \<and> keys \<noteq> []))
      - {''precheck'', ''checkpoint'', ''endpoint_assurance''}) recon"
    unfolding plan_knows_def using d(1,2) by (auto simp: planned_ids_def needed_phases_def)
  moreover have "ordered_phases plan = Inr (filter (\<lambda>i. i \<notin> {''precheck'', ''checkpoint'', ''endpoint_assurance''})
      (planned_ids intent (status = JStr ''ready'' \<and> keys \<noteq> [])))"
    unfolding ordered_phases_def i ebind_simps ids ..
  ultimately show thesis by (intro that) (assumption, simp add: set_diff_eq)
qed

text \<open>
  C36: the renderer produces nothing that the worker would pass over. For a plan and an artifact rendered
  from it, every phase of every device of the artifact, retired ones included, either has no block
  or is one of the phases that the worker runs for this plan.
\<close>

theorem no_block_is_left_out:
  assumes "create_plan validate_intent seconds intent baseline = Inr plan"
    and "render_configuration intent plan = Inr artifact"
    and "field artifact ''devices'' = JObj devices" and "map_of devices device_id = Some device"
  shows "\<exists>phases os. items_at device ''phases'' = Inr phases \<and> ordered_phases plan = Inr os
    \<and> (\<forall>p \<in> set phases. \<exists>i blocks. jidx p ''phase_id'' = Inr (JStr i) \<and> items_at p ''blocks'' = Inr blocks
         \<and> (blocks = [] \<or> i \<in> set os))"
proof -
  from assms(2) obtain made_state recon devices' where b: "bound_reconciliation intent plan = Inr (made_state, recon)"
      "artifact_devices intent recon = Inr devices'" "field artifact ''devices'' = JObj devices'" by (rule rendered_artifact)
  from assms(1) b(1) obtain os where os: "ordered_phases plan = Inr os" and k: "plan_knows intent (\<lambda>i. i \<in> set os) recon"
    by (rule planned_phases_known)
  from b(3) assms(3,4) have "map_of devices' device_id = Some device" by simp
  with k b(2) have "device_rendered intent (\<lambda>i. i \<in> set os) device" by (rule artifact_devices_rendered)
  then obtain phases where p: "items_at device ''phases'' = Inr phases"
      "\<forall>p \<in> set phases. rendered intent (\<lambda>i. i \<in> set os) p" by (auto simp: device_rendered_def)
  have "\<exists>i blocks. jidx p ''phase_id'' = Inr (JStr i) \<and> items_at p ''blocks'' = Inr blocks \<and> (blocks = [] \<or> i \<in> set os)"
    if "p \<in> set phases" for p
    using p(2) that by (auto elim!: rendered_fields)
  with p(1) os show ?thesis by blast
qed

text \<open>
  C37: a rendered command is one line of checked text. Outside the removal of owned state, every
  command of every block of an artifact has no line break and no opening angle bracket, except that it may
  carry one placeholder, of a secret reference that its block declares; and the digest of the block
  is that of its commands. The prefixes of endpoint pools and the group ranges of multicast policies
  are assumed to have no scope identifier: they alone are printed without a check, and
  \<open>ip_network\<close> keeps the scope of an IPv6 network with whatever characters it has. (The validation
  of intents asks for IPv4 networks in both places.)
\<close>

theorem rendered_commands_are_sound:
  assumes "render_configuration intent plan = Inr artifact"
    and "field artifact ''devices'' = JObj devices" and "map_of devices device_id = Some device"
    and "items_at device ''phases'' = Inr phases" and "p \<in> set phases"
    and "jidx p ''phase_id'' \<noteq> Inr (JStr ''multicast_reconciliation'')"
    and "items_at p ''blocks'' = Inr blocks" and "b \<in> set blocks" and "unscoped_networks intent"
  shows "\<exists>commands refs. field b ''commands'' = jstrs commands \<and> field b ''secret_refs'' = jstrs refs
    \<and> field b ''command_hash'' = JStr (commands_hash commands)
    \<and> (\<forall>c \<in> set commands. clean c \<or> (\<exists>pre r post. r \<in> set refs \<and> clean pre \<and> clean post \<and> c = pre @ secret_text r @ post))"
proof -
  from assms(1) obtain made_state recon devices' where r: "bound_reconciliation intent plan = Inr (made_state, recon)"
      "artifact_devices intent recon = Inr devices'" "field artifact ''devices'' = JObj devices'" by (rule rendered_artifact)
  from r(1) obtain x where "build_multicast_reconciliation x made_state = Inr recon" by (rule bound_reconciliationD)
  then obtain devs where "field recon ''devices'' = removal_plan_json devs"
      "jget_default recon ''devices'' (JObj []) = Inr (removal_plan_json devs)" by (rule reconciliation_status)
  then have k: "plan_knows intent (\<lambda>_. True) recon" by (auto simp: plan_knows_def)
  from r(3) assms(2,3) have "map_of devices' device_id = Some device" by simp
  with k r(2) have "device_rendered intent (\<lambda>_. True) device" by (rule artifact_devices_rendered)
  with assms(4,5) have "rendered intent (\<lambda>_. True) p" by (auto simp: device_rendered_def)
  then obtain i blocks' where i: "jidx p ''phase_id'' = Inr (JStr i)" "items_at p ''blocks'' = Inr blocks'"
      "unscoped_networks intent \<longrightarrow> i = ''multicast_reconciliation'' \<or> sounds blocks'" by (rule rendered_fields)
  with assms(6-9) have "block_sound b" by (auto simp: sounds_def)
  then show ?thesis by (simp only: block_sound_def command_sound_def)
qed

section \<open>The enforcement line\<close>

lemma compress_runs_ranges:
  "compress_runs a b xs = (case run_end b xs of (e, us) \<Rightarrow> GatePlan.range_text (a, e) # range_texts us)"
  by (induction a b xs rule: compress_runs.induct)
    (auto simp: range_texts_def Renderer.range_text_def GatePlan.range_text_def split: prod.splits)

lemma range_texts_ranges: "range_texts xs = map GatePlan.range_text (vlan_ranges xs)"
  by (induction xs rule: vlan_ranges.induct)
    (auto simp: range_texts_def compress_runs_ranges [unfolded range_texts_def] split: prod.splits)

text \<open>
  C38: the renderer and the gate plan agree on enforcement. They compress the VLANs of
  the policy with different loops, but when a device enforces the policy, the first gate of its
  enforcement expects exactly lines that the first rendered block configures, among them the one
  with the VLAN ranges; and these ranges stand for the VLANs of the policy, in order and each once,
  are nonempty, and between two of them there is a number that is not a VLAN.
\<close>

theorem enforcement_gate_expects_the_rendering:
  assumes "enforcement_blocks policy device_id = Inr (b # bs)" and "enforcement_gates policy device_id = Inr gates"
    and "items_get policy ''enforcement_vlan_ids'' = Inr raw" and "mapE py_int raw = Inr vlans"
  shows "\<exists>commands lines ranges. field b ''commands'' = jstrs commands \<and> field (field (hd gates) ''expected'') ''lines'' = jstrs lines
    \<and> set lines \<subseteq> set commands
    \<and> ''cts role-based enforcement vlan-list '' @ join '','' (map GatePlan.range_text ranges) \<in> set lines
    \<and> concat (map (\<lambda>r. [fst r..snd r]) ranges) = sorted_set vlans \<and> list_all (\<lambda>r. fst r \<le> snd r) ranges
    \<and> sorted_wrt (\<lambda>r r'. snd r + 1 < fst r') ranges"
proof -
  let ?line = "''cts role-based enforcement vlan-list '' @ join '','' (map GatePlan.range_text (vlan_ranges (sorted_set vlans)))"
  from assms(1) have "device_id \<in> set enforcing" if "strs_get policy ''enforcement_device_ids'' = Inr enforcing" for enforcing
    using that by (auto simp: enforcement_blocks_def split: if_splits)
  with assms(2,3,4) obtain rest where g: "gates = enforcement_gate device_id (sorted_set vlans) # rest"
    unfolding enforcement_gates_def by (auto simp: res split: if_splits)
  from assms(1,3,4) have "b = default_deny_block (join '','' (map GatePlan.range_text (vlan_ranges (sorted_set vlans))))"
    unfolding enforcement_blocks_def compress_integer_ranges_def range_texts_ranges
    by (auto simp: res split: if_splits)
  then have c: "field b ''commands'' = jstrs [''no ip access-list role-based SDA-SGACL-DEFAULT-DENY'',
      ''ip access-list role-based SDA-SGACL-DEFAULT-DENY'', '' 10 deny ip'',
      ''cts role-based permissions default SDA-SGACL-DEFAULT-DENY'', ?line]"
    by (simp add: default_deny_block_def)
  have "field (field (hd gates) ''expected'') ''lines'' = jstrs [''cts role-based permissions default SDA-SGACL-DEFAULT-DENY'', ?line]"
    by (simp add: g enforcement_gate_def gate_def field_def jget_def jget_default_def)
  with c vlan_ranges_denote_the_vlans [of vlans] show ?thesis by (intro exI conjI) (assumption | simp)+
qed

section \<open>A sample artifact\<close>

definition sample_border :: json where
  "sample_border =
     JObj [(''id'', JStr ''b1''), (''hostname'', JStr ''b1''), (''platform'', JStr ''C9500''), (''software_version'', JStr ''17.12.3''),
           (''roles'', JArr [JStr ''control_plane'']), (''loopback0_ip'', JStr ''10.0.0.1'')]"

definition sample_site :: json where
  "sample_site =
     JObj [(''schema_version'', JStr ''1.1''), (''devices'', JArr [sample_border]), (''fabric'', JObj [(''id'', JStr ''f1''), (''mtu'', JInt 9100)]),
           (''metadata'', JObj [(''environment'', JStr ''lab'')]), (''virtual_networks'', JArr []), (''endpoint_pools'', JArr []),
           (''lisp'', JObj [(''map_servers'', JArr []), (''site_name'', JStr ''site''), (''auth_key_ref'', JStr ''lisp-key'')])]"

lemma sample_texts:
  "safe_text False ''IS-IS process'' ''SDA-ISIS'' = Inr ''SDA-ISIS''" "safe_text False ''IS-IS area'' ''49.0001'' = Inr ''49.0001''"
  "safe_text True ''hostname'' ''b1'' = Inr ''b1''" "safe_text False ''loopback address'' ''10.0.0.1'' = Inr ''10.0.0.1''"
  "safe_text False ''LISP site'' ''site'' = Inr ''site''" "safe_text False ''control-plane loopback'' ''10.0.0.1'' = Inr ''10.0.0.1''"
  "safe_text False ''locator set'' ''rloc_fabric'' = Inr ''rloc_fabric''"
  by code_simp+

lemma sample_net: "isis_net ''10.0.0.1'' ''49.0001'' = Inr ''49.0001.0100.0000.0001.00''"
proof -
  have "parse_addr ''10.0.0.1'' = Some 167772161"
    by (simp add: parse_addr_def parse_octet_def digits_val_def digit_val_def is_digit_def)
  moreover have "isis_digits 167772161 = ''010000000001''"
    by (simp add: isis_digits_def octet3_def nat_str.simps digit_char_simps)
  ultimately show ?thesis by (simp add: isis_net_def ip_address_def parse_ip_def sample_texts)
qed

lemma sort_by_Nil: "sort_by f [] = Inr []"
  by (simp add: sort_by_def)

lemmas sample_reads = str_at_def str_get_def int_at_def int_get_def items_at_def items_get_def section_of_def jget_def jget_default_def
  jor_def sort_by_Nil py_set_def hashable_def sample_texts sample_net

definition sample_underlay :: "json list" where
  "sample_underlay =
     [block ''system'' [''system mtu 9100'', ''ip routing'', ''ip multicast-routing'', ''ip pim register-source Loopback0'', ''ip pim ssm default''] [],
      block ''loopback0'' [''interface Loopback0'', '' description Fabric RLOC b1'', '' ip address 10.0.0.1 255.255.255.255'',
        '' ip pim sparse-mode'', '' ip router isis SDA-ISIS'', '' no shutdown''] [],
      block ''router_isis'' [''router isis SDA-ISIS'', '' net 49.0001.0100.0000.0001.00'', '' is-type level-2-only'', '' metric-style wide'',
        '' log-adjacency-changes'', '' bfd all-interfaces'', '' nsf ietf'', '' passive-interface Loopback0''] []]"

lemma sample_mtu: "int_str 9100 = ''9100''"
  by (simp add: int_str_def nat_str.simps digit_char_simps)

lemma sample_underlay: "underlay_blocks sample_site sample_border = Inr sample_underlay"
  using sample_mtu
  by (simp add: underlay_blocks_def system_commands_def loopback_commands_def isis_commands_def underlay_rp_blocks_def is_rp_device_def
      role_set_def sample_site_def sample_border_def safe_at_def text_at_def Let_def sample_reads sample_underlay_def)

definition sample_control :: "json list" where
  "sample_control =
     [block ''lisp_locator'' [''router lisp'', '' locator-set rloc_fabric'', ''  IPv4-interface Loopback0 priority 10 weight 10'',
        ''  exit-locator-set'', '' exit-router-lisp''] [],
      block ''lisp_site'' [''router lisp'', '' site site'', ''  authentication-key <secret:lisp-key>'',
        ''  description Managed SDA-style fabric site'', ''  exit-site'', '' exit-router-lisp''] [''lisp-key''],
      control_plane_block ''10.0.0.1'']"

lemma sample_control: "control_plane_blocks sample_site sample_border = Inr sample_control"
  by (simp add: control_plane_blocks_def locator_block_def locator_set_def keyed_by_def secret_text_def
      sample_site_def sample_border_def safe_at_def Let_def sample_reads sample_control_def)

definition sample_device :: json where
  "sample_device =
     JObj [(''hostname'', JStr ''b1''), (''platform'', JStr ''C9500''), (''software_version'', JStr ''17.12.3''),
           (''roles'', JArr [JStr ''control_plane'']),
           (''phases'', JArr [phase_part ''underlay'' sample_underlay, phase_part ''lisp_control_plane'' sample_control])]"

lemma sample_device_artifact: "device_artifact sample_site sample_recon sample_border = Inr (''b1'', sample_device)"
proof -
  have "reconciled sample_recon ''b1'' = Inr []"
    by (simp add: reconciled_def sample_recon_def jget_def jget_default_def)
  moreover have "multicast_overlay_blocks sample_site sample_border = Inr []"
    by (simp add: multicast_overlay_blocks_def native_multicast_def sample_site_def sample_reads)
  moreover have "policy_plane_blocks sample_site sample_border = Inr []"
    by (simp add: policy_plane_blocks_def has_mode_def sample_site_def sample_reads)
  moreover have "role_set sample_border = Inr [JStr ''control_plane'']" "str_at sample_border ''id'' = Inr ''b1''"
    "software_of sample_border = Inr [(''hostname'', JStr ''b1''), (''platform'', JStr ''C9500''), (''software_version'', JStr ''17.12.3'')]"
    by (simp_all add: role_set_def software_of_def sample_border_def sample_reads)
  ultimately show ?thesis
    by (simp add: device_artifact_def device_phases_def overlay_phases_def some_blocks_def py_sorted_def
        sample_underlay sample_control sample_device_def)
qed

lemma sample_devices: "artifact_devices sample_site sample_recon = Inr [(''b1'', sample_device)]"
proof -
  have "items_at sample_site ''devices'' = Inr [sample_border]" "items_get sample_site ''fusion_nodes'' = Inr []"
    "jget_default sample_recon ''devices'' (JObj []) = Inr (JObj [])" "sort_by (\<lambda>d. str_at d ''id'') [sample_border] = Inr [sample_border]"
    by (simp_all add: sort_by_def sample_site_def sample_border_def sample_recon_def sample_reads)
  then show ?thesis
    by (simp add: artifact_devices_def put_all_def sample_device_artifact sort_by_Nil Let_def)
qed

lemma sample_site_owned: "build_multicast_owned_state sample_site = Inr (owned_manifest ''f1'' sample_site [])"
  by (simp add: sample_site_def build_multicast_owned_state_def section_of_def multicast_applies_def jget_def
      jget_default_def jor_def str_at_def sorted_set_def)

lemma sample_site_recon: "build_multicast_reconciliation None (owned_manifest ''f1'' sample_site []) = Inr sample_recon"
proof -
  have "validate_owned_state (owned_manifest ''f1'' sample_site []) None = Inr ()"
    by (simp add: validate_owned_state_def owned_manifest_def Let_def jget_def jget_default_def del_field_def)
  then show ?thesis by (simp add: build_multicast_reconciliation_def sample_recon_def)
qed

text \<open>A plan of the sample, with the fields that the renderer reads.\<close>

lemma sample_site_plan:
  obtains plan summary plan_id plan_hash where "create_plan (\<lambda>_. Inr []) 0 sample_site None = Inr plan"
    "str_at plan ''intent_hash'' = Inr (sha256_json sample_site)" "jget plan ''reconciliation_baseline'' = Inr JNull"
    "section_of plan ''reconciliation'' = Inr summary" "jget summary ''status'' = Inr (JStr ''baseline_missing'')"
    "jget summary ''baseline_hash'' = Inr JNull" "jget summary ''reconciliation_hash'' = Inr JNull"
    "str_at plan ''plan_id'' = Inr plan_id" "str_at plan ''plan_hash'' = Inr plan_hash"
proof -
  have r: "plan_roles sample_site = Inr ([''b1''], [], [''b1''], [], [])"
    by (simp add: sample_site_def sample_border_def plan_simps)
  have "\<exists>x. plan_phases sample_site sample_recon ([''b1''], [], [''b1''], [], []) = Inr x"
    by (simp add: sample_site_def sample_recon_def plan_simps Let_def)
  then obtain ts phases where t: "plan_phases sample_site sample_recon ([''b1''], [], [''b1''], [], []) = Inr (ts, phases)" by auto
  obtain summary where s: "reconciliation_summary sample_recon = Inr summary" "jget summary ''status'' = Inr (JStr ''baseline_missing'')"
    "jget summary ''baseline_hash'' = Inr JNull" "jget summary ''reconciliation_hash'' = Inr JNull" "truthy summary"
    by (simp add: reconciliation_summary_def sample_recon_def str_at_def int_get_def jget_def jget_default_def)
  have "jidx sample_site ''fabric'' = Inr (JObj [(''id'', JStr ''f1''), (''mtu'', JInt 9100)])"
    "jidx sample_site ''metadata'' = Inr (JObj [(''environment'', JStr ''lab'')])" by (simp_all add: sample_site_def)
  then have "\<exists>body. create_plan (\<lambda>_. Inr []) 0 sample_site None = Inr (JObj ([(''schema_version'', JStr ''1.0''),
      (''intent_hash'', JStr (sha256_json sample_site))] @ body)) \<and> map_of body ''reconciliation_baseline'' = None
      \<and> map_of body ''reconciliation'' = Some summary \<and> (\<exists>h. map_of body ''plan_hash'' = Some (JStr h))
      \<and> (\<exists>i. map_of body ''plan_id'' = Some (JStr i))"
    by (simp add: create_plan_def sample_site_owned sample_site_recon r t s(1) is_valid_def is_errors_def Let_def)
  then show thesis
    using s(2-5) by (elim exE conjE, intro that) (assumption | simp add: str_at_def jget_def jget_default_def section_of_def jor_def)+
qed

lemma sample_site_artifact:
  obtains plan artifact where "create_plan (\<lambda>_. Inr []) 0 sample_site None = Inr plan"
    "render_configuration sample_site plan = Inr artifact" "field artifact ''devices'' = JObj [(''b1'', sample_device)]"
proof -
  obtain plan summary i h where p: "create_plan (\<lambda>_. Inr []) 0 sample_site None = Inr plan"
    "str_at plan ''intent_hash'' = Inr (sha256_json sample_site)" "jget plan ''reconciliation_baseline'' = Inr JNull"
    "section_of plan ''reconciliation'' = Inr summary" "jget summary ''status'' = Inr (JStr ''baseline_missing'')"
    "jget summary ''baseline_hash'' = Inr JNull" "jget summary ''reconciliation_hash'' = Inr JNull"
    "str_at plan ''plan_id'' = Inr i" "str_at plan ''plan_hash'' = Inr h" by (rule sample_site_plan)
  have r: "jidx sample_recon ''status'' = Inr (JStr ''baseline_missing'')" "jget sample_recon ''baseline_hash'' = Inr JNull"
    "jget sample_recon ''reconciliation_hash'' = Inr JNull"
    by (simp_all add: sample_recon_def jget_def jget_default_def)
  have "bound_reconciliation sample_site plan = Inr (owned_manifest ''f1'' sample_site [], sample_recon)"
    by (simp add: bound_reconciliation_def p sample_site_owned sample_site_recon r)
  moreover obtain blockers where "blocking_requirements sample_site sample_recon = Inr blockers"
    by (simp add: blocking_requirements_def handoff_blockers_def multicast_blockers_def policy_blockers_def has_mode_def
        sample_site_def sample_recon_def sample_reads)
  moreover have "ise_policy_manifest sample_site = Inr None"
    by (simp add: ise_policy_manifest_def sample_site_def sample_reads)
  moreover have "str_at sample_site ''schema_version'' = Inr ''1.1''"
    "jidx sample_site ''fabric'' = Inr (JObj [(''id'', JStr ''f1''), (''mtu'', JInt 9100)])"
    "str_at (JObj [(''id'', JStr ''f1''), (''mtu'', JInt 9100)]) ''id'' = Inr ''f1''"
    by (simp_all add: sample_site_def str_at_def)
  ultimately have "\<exists>artifact. render_configuration sample_site plan = Inr artifact"
    by (simp add: render_configuration_def sample_devices p Let_def)
  then obtain artifact where a: "render_configuration sample_site plan = Inr artifact" by blast
  then obtain made_state recon devices where b: "bound_reconciliation sample_site plan = Inr (made_state, recon)"
    "artifact_devices sample_site recon = Inr devices" "field artifact ''devices'' = JObj devices" by (rule rendered_artifact)
  moreover have "recon = sample_recon"
    using b(1) by (simp add: bound_reconciliation_def p sample_site_owned sample_site_recon r)
  ultimately have "field artifact ''devices'' = JObj [(''b1'', sample_device)]" by (simp add: sample_devices)
  with p(1) a show thesis by (rule that)
qed

lemma sample_device_phases:
  "items_at sample_device ''phases'' = Inr [phase_part ''underlay'' sample_underlay, phase_part ''lisp_control_plane'' sample_control]"
  by (simp add: sample_device_def items_at_def)

theorem no_block_is_left_out_witness:
  "\<exists>plan artifact phases os. create_plan (\<lambda>_. Inr []) 0 sample_site None = Inr plan
     \<and> render_configuration sample_site plan = Inr artifact \<and> items_at sample_device ''phases'' = Inr phases
     \<and> ordered_phases plan = Inr os \<and> ''underlay'' \<in> set os \<and> ''lisp_control_plane'' \<in> set os"
proof -
  obtain plan artifact where p: "create_plan (\<lambda>_. Inr []) 0 sample_site None = Inr plan"
    "render_configuration sample_site plan = Inr artifact" "field artifact ''devices'' = JObj [(''b1'', sample_device)]"
    by (rule sample_site_artifact)
  have m: "map_of [(''b1'', sample_device)] ''b1'' = Some sample_device" by simp
  from no_block_is_left_out [OF p m] obtain os where os: "ordered_phases plan = Inr os"
    "\<forall>p \<in> set [phase_part ''underlay'' sample_underlay, phase_part ''lisp_control_plane'' sample_control]. \<exists>i blocks.
       jidx p ''phase_id'' = Inr (JStr i) \<and> items_at p ''blocks'' = Inr blocks \<and> (blocks = [] \<or> i \<in> set os)"
    unfolding sample_device_phases by blast
  have "sample_underlay \<noteq> []" "sample_control \<noteq> []" by (simp_all add: sample_underlay_def sample_control_def)
  with os(2) have "''underlay'' \<in> set os" "''lisp_control_plane'' \<in> set os" by (simp_all add: phase_part_def items_at_def)
  with p(1,2) os(1) sample_device_phases show ?thesis by blast
qed

lemma sample_site_unscoped: "unscoped_networks sample_site"
  by (simp add: unscoped_networks_def unscoped_def sample_site_def sample_reads jor_def field_def)

theorem rendered_commands_are_sound_witness:
  "\<exists>plan artifact b commands refs. render_configuration sample_site plan = Inr artifact \<and> b \<in> set sample_control
     \<and> field b ''commands'' = jstrs commands \<and> field b ''secret_refs'' = jstrs refs
     \<and> ''  authentication-key '' @ secret_text ''lisp-key'' \<in> set commands
     \<and> (\<forall>c \<in> set commands. clean c \<or> (\<exists>pre r post. r \<in> set refs \<and> clean pre \<and> clean post \<and> c = pre @ secret_text r @ post))"
proof -
  obtain plan artifact where p: "create_plan (\<lambda>_. Inr []) 0 sample_site None = Inr plan"
    "render_configuration sample_site plan = Inr artifact" "field artifact ''devices'' = JObj [(''b1'', sample_device)]"
    by (rule sample_site_artifact)
  let ?p = "phase_part ''lisp_control_plane'' sample_control"
  let ?b = "sample_control ! 1"
  have f: "jidx ?p ''phase_id'' \<noteq> Inr (JStr ''multicast_reconciliation'')" "items_at ?p ''blocks'' = Inr sample_control"
    "?b \<in> set sample_control" "?p \<in> set [phase_part ''underlay'' sample_underlay, ?p]"
    by (simp_all add: phase_part_def items_at_def sample_control_def)
  have m: "map_of [(''b1'', sample_device)] ''b1'' = Some sample_device" by simp
  from rendered_commands_are_sound [OF p(2,3) m sample_device_phases f(4,1,2,3) sample_site_unscoped] obtain commands refs where
    c: "field ?b ''commands'' = jstrs commands" "field ?b ''secret_refs'' = jstrs refs"
      "\<forall>c \<in> set commands. clean c \<or> (\<exists>pre r post. r \<in> set refs \<and> clean pre \<and> clean post \<and> c = pre @ secret_text r @ post)"
    by blast
  have "''  authentication-key '' @ secret_text ''lisp-key'' \<in> set commands"
  proof -
    have "field ?b ''commands'' = jstrs [''router lisp'', '' site site'', ''  authentication-key <secret:lisp-key>'',
        ''  description Managed SDA-style fabric site'', ''  exit-site'', '' exit-router-lisp'']"
      by (simp add: sample_control_def)
    with c(1) show ?thesis by (auto simp: secret_text_def jstrs_def)
  qed
  with p(2) f(3) c show ?thesis by blast
qed

definition sample_policy :: json where
  "sample_policy = JObj [(''mode'', JStr ''ise''), (''enforcement_device_ids'', JArr [JStr ''e1'']),
     (''enforcement_vlan_ids'', JArr [JInt 12, JInt 10, JInt 11, JInt 20])]"

theorem enforcement_gate_expects_the_rendering_witness:
  "\<exists>b bs gates ranges lines. enforcement_blocks sample_policy ''e1'' = Inr (b # bs) \<and> enforcement_gates sample_policy ''e1'' = Inr gates
     \<and> field (field (hd gates) ''expected'') ''lines'' = jstrs lines
     \<and> ''cts role-based enforcement vlan-list '' @ join '','' (map GatePlan.range_text ranges) \<in> set lines
     \<and> concat (map (\<lambda>r. [fst r..snd r]) ranges) = [10, 11, 12, 20]"
proof -
  have v: "items_get sample_policy ''enforcement_vlan_ids'' = Inr [JInt 12, JInt 10, JInt 11, JInt 20]"
    "mapE py_int [JInt 12, JInt 10, JInt 11, JInt 20] = Inr [12, 10, 11, 20]"
    by (simp_all add: sample_policy_def items_get_def jget_default_def)
  have e: "strs_get sample_policy ''enforcement_device_ids'' = Inr [''e1'']" "items_get sample_policy ''contracts'' = Inr []"
    "jget sample_policy ''mode'' = Inr (JStr ''ise'')"
    by (simp_all add: strs_get_def sample_policy_def items_get_def jget_default_def jget_def)
  have "\<exists>b. enforcement_blocks sample_policy ''e1'' = Inr [b]"
    by (simp add: enforcement_blocks_def compress_integer_ranges_def contract_blocks_def e v)
  then obtain b where b: "enforcement_blocks sample_policy ''e1'' = Inr [b]" by blast
  have "\<exists>gates. enforcement_gates sample_policy ''e1'' = Inr gates"
    by (simp add: enforcement_gates_def e v sort_by_Nil)
  then obtain gates where g: "enforcement_gates sample_policy ''e1'' = Inr gates" by blast
  have s: "sorted_set [12, 10, 11, 20 :: int] = [10, 11, 12, 20]" by (simp add: sorted_set_def)
  from enforcement_gate_expects_the_rendering [OF b g v] b g show ?thesis unfolding s by blast
qed

end
