(* ===== verification/Checks.thy ===== *)
theory Checks
  imports Doc Ipv6
begin

text \<open>
  How \<open>validate_intent\<close> (\<open>intent.py\<close>) reads a document. A check is what a part of it appends to
  the list of issues, in order, together with its value or the exception that ends it. The
  helpers of the file are the primitive checks.
\<close>

section \<open>Checks\<close>

type_synonym 'a checked = "issue list \<times> 'a result"

definition wbind :: "'a checked \<Rightarrow> ('a \<Rightarrow> 'b checked) \<Rightarrow> 'b checked" where
  "wbind m f =
     (case m of
        (is, Inl e) \<Rightarrow> (is, Inl e)
      | (is, Inr x) \<Rightarrow> (case f x of (js, r) \<Rightarrow> (is @ js, r)))"

definition wret :: "'a \<Rightarrow> 'a checked" where
  "wret x = ([], Inr x)"

definition of_res :: "'a result \<Rightarrow> 'a checked" where
  "of_res r = ([], r)"

text \<open>\<open>_add\<close>\<close>

definition add_issue :: "string \<Rightarrow> string \<Rightarrow> string \<Rightarrow> severity \<Rightarrow> unit checked" where
  "add_issue code path message sev =
     ([\<lparr>is_code = code, is_path = path, is_message = message, is_severity = sev\<rparr>], Inr ())"

definition report :: "string \<Rightarrow> string \<Rightarrow> string \<Rightarrow> unit checked" where
  "report code path message = add_issue code path message Error"

definition report_if :: "bool \<Rightarrow> string \<Rightarrow> string \<Rightarrow> string \<Rightarrow> unit checked" where
  "report_if b code path message = (if b then report code path message else wret ())"

definition advise_if :: "bool \<Rightarrow> string \<Rightarrow> string \<Rightarrow> string \<Rightarrow> unit checked" where
  "advise_if b code path message = (if b then add_issue code path message Warning else wret ())"

text \<open>\<open>for\<close> loops, with and without local variables that they change.\<close>

fun w_each :: "('a \<Rightarrow> unit checked) \<Rightarrow> 'a list \<Rightarrow> unit checked" where
  "w_each f [] = wret ()"
| "w_each f (x # xs) = wbind (f x) (\<lambda>_. w_each f xs)"

fun w_fold :: "('s \<Rightarrow> 'a \<Rightarrow> 's checked) \<Rightarrow> 's \<Rightarrow> 'a list \<Rightarrow> 's checked" where
  "w_fold f s [] = wret s"
| "w_fold f s (x # xs) = wbind (f s x) (\<lambda>t. w_fold f t xs)"

lemma w_each_cong [fundef_cong]:
  "xs = ys \<Longrightarrow> (\<And>x. x \<in> set ys \<Longrightarrow> f x = g x) \<Longrightarrow> w_each f xs = w_each g ys"
  by (induction xs arbitrary: ys) auto

section \<open>Accepted checks\<close>

text \<open>A check accepts with a value: it returns the value and reports no error.\<close>

definition accepts :: "'a checked \<Rightarrow> 'a \<Rightarrow> bool" where
  "accepts m x \<longleftrightarrow> snd m = Inr x \<and> is_valid (fst m)"

named_theorems acc \<open>what it means that a check accepts\<close>

lemma accepts_wbind [acc]: "accepts (wbind m f) y \<longleftrightarrow> (\<exists>x. accepts m x \<and> accepts (f x) y)"
  by (auto simp: accepts_def wbind_def split: prod.splits sum.splits)

lemma accepts_wret [acc]: "accepts (wret x) y \<longleftrightarrow> y = x"
  by (auto simp: accepts_def wret_def)

lemma accepts_of_res [acc]: "accepts (of_res r) y \<longleftrightarrow> r = Inr y"
  by (simp add: accepts_def of_res_def)

lemma accepts_report [acc]: "\<not> accepts (report c p m) u"
  by (simp add: accepts_def report_def add_issue_def)

lemma accepts_report_if [acc]: "accepts (report_if b c p m) u \<longleftrightarrow> \<not> b"
  by (simp add: report_if_def acc)

lemma accepts_advise_if [acc]: "accepts (advise_if b c p m) u"
  by (simp add: advise_if_def accepts_def add_issue_def wret_def)

lemma accepts_if [acc]: "accepts (if b then m else n) x \<longleftrightarrow> (if b then accepts m x else accepts n x)"
  by simp

lemma accepts_w_each [acc]: "accepts (w_each f xs) u \<longleftrightarrow> (\<forall>x \<in> set xs. accepts (f x) ())"
  by (induction xs) (auto simp: acc)

lemma accepts_w_fold_Nil [acc]: "accepts (w_fold f s []) t \<longleftrightarrow> t = s"
  by (simp add: acc)

lemma accepts_w_fold_Cons [acc]: "accepts (w_fold f s (x # xs)) t \<longleftrightarrow> (\<exists>u. accepts (f s x) u \<and> accepts (w_fold f u xs) t)"
  by (simp add: acc)

text \<open>What each accepted round of a loop keeps, the loop keeps.\<close>

lemma w_fold_invariant:
  "accepts (w_fold f s xs) t \<Longrightarrow> P s \<Longrightarrow> (\<And>s x t. x \<in> set xs \<Longrightarrow> P s \<Longrightarrow> accepts (f s x) t \<Longrightarrow> P t) \<Longrightarrow> P t"
  by (induction xs arbitrary: s) (auto simp: acc)

lemma wbind_simps [simp]: "wbind (is, Inl e) f = (is, Inl e)" "wbind (is, Inr x) f = (is @ fst (f x), snd (f x))"
  by (simp_all add: wbind_def split: prod.split)

section \<open>The helpers\<close>

text \<open>The value under a key of an object, \<open>None\<close> when there is none.\<close>

definition val :: "(string \<times> json) list \<Rightarrow> string \<Rightarrow> json" where
  "val kvs k = (case map_of kvs k of None \<Rightarrow> JNull | Some v \<Rightarrow> v)"

definition has_key :: "(string \<times> json) list \<Rightarrow> string \<Rightarrow> bool" where
  "has_key kvs k \<longleftrightarrow> map_of kvs k \<noteq> None"

definition at_key :: "string \<Rightarrow> string \<Rightarrow> string" where
  "at_key path key = path @ ''.'' @ key"

definition at_index :: "string \<Rightarrow> nat \<Rightarrow> string" where
  "at_index path i = path @ ''['' @ nat_str i @ '']''"

definition mapping :: "json \<Rightarrow> string \<Rightarrow> (string \<times> json) list checked" where
  "mapping v path =
     (case v of
        JObj kvs \<Rightarrow> wret kvs
      | _ \<Rightarrow> (wbind (report ''type.mapping'' path ''Expected an object/mapping'') (\<lambda>_.
         wret [])))"

definition listing :: "json \<Rightarrow> string \<Rightarrow> json list checked" where
  "listing v path =
     (case v of
        JArr xs \<Rightarrow> wret xs
      | _ \<Rightarrow> (wbind (report ''type.list'' path ''Expected a list'') (\<lambda>_.
         wret [])))"

definition required_string :: "(string \<times> json) list \<Rightarrow> string \<Rightarrow> string \<Rightarrow> string option checked" where
  "required_string kvs key path =
     (if \<not> is_str (val kvs key) \<or> strip (py_str (val kvs key)) = []
      then (wbind (report ''required.string'' (at_key path key) ''A non-empty string is required'') (\<lambda>_.
         wret None))
      else if has_break (py_str (val kvs key))
      then (wbind (report ''security.control_character'' (at_key path key) ''Line breaks are forbidden'') (\<lambda>_.
         wret None))
      else wret (Some (strip (py_str (val kvs key)))))"

definition checked_int :: "(string \<times> json) list \<Rightarrow> string \<Rightarrow> string \<Rightarrow> int \<Rightarrow> int \<Rightarrow> int option checked" where
  "checked_int kvs key path minimum maximum =
     (case val kvs key of
        JInt i \<Rightarrow>
          (if minimum \<le> i \<and> i \<le> maximum then wret (Some i)
           else (wbind (report ''range.integer'' (at_key path key)
                       (''Value must be between '' @ int_str minimum @ '' and '' @ int_str maximum)) (\<lambda>_.
              wret None)))
      | _ \<Rightarrow> (wbind (report ''required.integer'' (at_key path key) ''An integer is required'') (\<lambda>_.
         wret None)))"

definition ipv4_address :: "json \<Rightarrow> string \<Rightarrow> nat option checked" where
  "ipv4_address v path =
     (case ip_of_json v of
        Inr (V4 a) \<Rightarrow> wret (Some a)
      | Inr (V6 gs scope) \<Rightarrow> (wbind (report ''format.ipv4'' path ''IPv6 is not supported in schema version 1.0'') (\<lambda>_.
         wret None))
      | Inl e \<Rightarrow> (wbind (report ''format.ipv4'' path ''A valid IPv4 address is required'') (\<lambda>_.
         wret None)))"

text \<open>\<open>ip_network(v, strict=True)\<close>: text, or the number of an address; \<open>Some None\<close> is a network of IPv6.\<close>

fun net_of_json :: "json \<Rightarrow> ipv4net option option" where
  "net_of_json (JInt i) =
     (if 0 \<le> i \<and> i < 2 ^ 32 then Some (Some (Net (nat i) 32)) else if 0 \<le> i \<and> i < 2 ^ 128 then Some None else None)"
| "net_of_json (JBool b) = Some (Some (Net (if b then 1 else 0) 32))"
| "net_of_json v =
     (case parse_net (py_str v) of
        Some n \<Rightarrow> Some (Some n)
      | None \<Rightarrow> (if is_net6 (py_str v) then Some None else None))"

definition ipv4_network :: "json \<Rightarrow> string \<Rightarrow> ipv4net option checked" where
  "ipv4_network v path =
     (case net_of_json v of
        Some (Some n) \<Rightarrow> wret (Some n)
      | Some None \<Rightarrow> (wbind (report ''format.prefix'' path ''IPv6 is not supported in schema version 1.0'') (\<lambda>_.
         wret None))
      | None \<Rightarrow> (wbind (report ''format.prefix'' path ''A canonical IPv4 prefix is required'') (\<lambda>_.
         wret None)))"

text \<open>\<open>_check_duplicate\<close> returns the table of the values it has seen.\<close>

definition check_duplicate :: "('k \<times> string) list \<Rightarrow> 'k option \<Rightarrow> string \<Rightarrow> string \<Rightarrow> ('k \<times> string) list checked" where
  "check_duplicate seen value path label =
     (case value of
        None \<Rightarrow> wret seen
      | Some v \<Rightarrow>
          (case map_of seen v of
             Some first \<Rightarrow> (wbind (report ''unique.duplicate'' path (''Duplicate '' @ label @ ''; first declared at '' @ first)) (\<lambda>_.
                wret seen))
           | None \<Rightarrow> wret (seen @ [(v, path)])))"

definition check_overlap :: "string \<times> ipv4net \<times> string \<Rightarrow> string \<times> ipv4net \<times> string \<Rightarrow> unit checked" where
  "check_overlap = (\<lambda>(path_a, a, kind_a) (path_b, b, kind_b).
     report_if (overlaps a b) ''address.overlap'' path_b
       (kind_b @ '' '' @ net_str b @ '' overlaps '' @ kind_a @ '' '' @ net_str a @ '' at '' @ path_a))"

fun check_network_overlaps :: "(string \<times> ipv4net \<times> string) list \<Rightarrow> unit checked" where
  "check_network_overlaps [] = wret ()"
| "check_network_overlaps (n # ns) = (wbind (w_each (check_overlap n) ns) (\<lambda>_.
   check_network_overlaps ns))"

section \<open>Inline secrets\<close>

definition sensitive_field_names :: "string list" where
  "sensitive_field_names = [''api_key'', ''auth_key'', ''password'', ''radius_key'', ''secret'', ''shared_secret'', ''token'']"

definition normalized_key :: "string \<Rightarrow> string" where
  "normalized_key key = replace_char (CHR ''-'') (CHR ''_'') (lower key)"

definition ends_with :: "string \<Rightarrow> string \<Rightarrow> bool" where
  "ends_with s e \<longleftrightarrow> starts_with (rev s) (rev e)"

definition sensitive :: "string \<Rightarrow> bool" where
  "sensitive key \<longleftrightarrow> normalized_key key \<in> set sensitive_field_names \<and> \<not> ends_with (normalized_key key) ''_ref''"

lemma enumerate_size: "(i, c) \<in> set (List.enumerate n (xs :: json list)) \<Longrightarrow> size c < Suc (size_list size xs)"
  by (induction xs arbitrary: n) (auto simp: less_Suc_eq_le intro: le_SucI, fastforce)

lemma pair_size: "(k, c) \<in> set (kvs :: (string \<times> json) list) \<Longrightarrow> size c < Suc (size_list (size_prod (\<lambda>x. 0) size) kvs)"
  by (induction kvs) auto

function walk_sensitive :: "string \<Rightarrow> json \<Rightarrow> unit checked" where
  "walk_sensitive path (JObj kvs) =
     w_each (\<lambda>(k, child). (wbind (report_if (sensitive k) ''security.inline_secret'' (at_key path k)
         ''Inline secrets are forbidden; use a *_ref secret reference'') (\<lambda>_.
        walk_sensitive (at_key path k) child))) kvs"
| "walk_sensitive path (JArr xs) =
     w_each (\<lambda>(i, child). walk_sensitive (at_index path i) child) (List.enumerate 0 xs)"
| "walk_sensitive path JNull = wret ()"
| "walk_sensitive path (JBool b) = wret ()"
| "walk_sensitive path (JInt n) = wret ()"
| "walk_sensitive path (JStr s) = wret ()"
  by pat_completeness auto

termination
  by (relation "measure (size \<circ> snd)") (auto simp: size_list_estimation' dest: enumerate_size intro: pair_size)

lemmas walk_sensitive_acc = walk_sensitive.simps acc

text \<open>A document without a sensitive key at any depth.\<close>

fun keys_of :: "json \<Rightarrow> string set" where
  "keys_of (JObj kvs) = (\<Union>(k, v) \<in> set kvs. insert k (keys_of v))"
| "keys_of (JArr xs) = (\<Union>v \<in> set xs. keys_of v)"
| "keys_of _ = {}"

lemma walk_sensitive_accepts: "accepts (walk_sensitive path v) () \<longleftrightarrow> (\<forall>k \<in> keys_of v. \<not> sensitive k)"
proof (induction path v rule: walk_sensitive.induct)
  case (1 path kvs)
  then show ?case by (auto simp: acc split: prod.splits)
next
  case (2 path xs)
  have "accepts (walk_sensitive path (JArr xs)) ()
      \<longleftrightarrow> (\<forall>(i, v) \<in> set (List.enumerate 0 xs). \<forall>k \<in> keys_of v. \<not> sensitive k)"
    using 2 by (auto simp: acc)
  also have "\<dots> \<longleftrightarrow> (\<forall>v \<in> snd ` set (List.enumerate 0 xs). \<forall>k \<in> keys_of v. \<not> sensitive k)" by auto
  also have "snd ` set (List.enumerate 0 xs) = set xs" by (metis list.set_map map_snd_enumerate)
  finally show ?case by simp
qed (auto simp: acc)

end
