(* ===== verification/IntentSites.thy ===== *)
theory IntentSites
  imports Checks "HOL-Library.AList"
begin

text \<open>
  The first part of \<open>validate_intent\<close> (\<open>intent.py\<close>): the schema, the metadata, the site hierarchy
  with its depths, the fabric sites, and the ancestor test of the fabric zones. The JSON Schema
  validator is a parameter; its errors arrive as records.
\<close>

section \<open>Schema and metadata\<close>

record schema_error =
  se_path :: "(nat + string) list"
  se_validator :: string
  se_message :: string

definition part_str :: "nat + string \<Rightarrow> string" where
  "part_str p = (case p of Inl i \<Rightarrow> nat_str i | Inr k \<Rightarrow> k)"

definition schema_path :: "(nat + string) list \<Rightarrow> string" where
  "schema_path parts = foldl (\<lambda>p part. case part of Inl i \<Rightarrow> at_index p i | Inr k \<Rightarrow> at_key p k) ''$'' parts"

definition check_schema :: "schema_error list \<Rightarrow> unit checked" where
  "check_schema errors =
     w_each (\<lambda>e. report (''schema.'' @ se_validator e) (schema_path (se_path e)) (se_message e))
       (sort_key (\<lambda>e. map part_str (se_path e)) errors)"

text \<open>\<open>value in {...}\<close> for a set of strings: a list or an object has no hash.\<close>

definition one_of :: "json \<Rightarrow> string list \<Rightarrow> bool checked" where
  "one_of v names = of_res (if hashable v then Inr (\<exists>n \<in> set names. v = JStr n) else Inl TypeError)"

definition later_schema :: "json \<Rightarrow> bool" where
  "later_schema version \<longleftrightarrow> version = JStr ''1.1'' \<or> version = JStr ''1.2''"

definition check_version :: "(string \<times> json) list \<Rightarrow> unit checked" where
  "check_version root =
     (wbind (one_of (val root ''schema_version'') [''1.0'', ''1.1'', ''1.2'']) (\<lambda>known.
        wbind (report_if (\<not> known) ''schema.unsupported'' ''$.schema_version''
            (''Supported schema_version values are '' @ repr_str ''1.0'' @ '', '' @ repr_str ''1.1'' @ '', and '' @ repr_str ''1.2'')) (\<lambda>_.
        report_if (val root ''schema_version'' \<noteq> JStr ''1.2'' \<and> has_key root ''multicast'') ''multicast.unexpected''
            ''$.multicast'' ''Top-level multicast intent requires schema_version 1.2'')))"

definition unknown :: "string option \<Rightarrow> string list \<Rightarrow> bool" where
  "unknown v known \<longleftrightarrow> (case v of None \<Rightarrow> False | Some s \<Rightarrow> s \<notin> set known)"

definition allowed_environments :: "string list" where
  "allowed_environments = [''lab'', ''production'', ''staging'']"

definition check_metadata :: "(string \<times> json) list \<Rightarrow> string option checked" where
  "check_metadata root =
     (wbind (mapping (val root ''metadata'') ''$.metadata'') (\<lambda>metadata.
        wbind (required_string metadata ''name'' ''$.metadata'') (\<lambda>_.
        wbind (required_string metadata ''environment'' ''$.metadata'') (\<lambda>environment.
        wbind (required_string metadata ''organization'' ''$.metadata'') (\<lambda>_.
        wbind (required_string metadata ''region'' ''$.metadata'') (\<lambda>_.
        wbind (report_if (unknown environment allowed_environments) ''enum.environment'' ''$.metadata.environment''
            (''Expected one of '' @ strs_repr allowed_environments)) (\<lambda>_.
        wret environment)))))))"

section \<open>The site hierarchy\<close>

record hierarchy =
  hi_ids :: "(string \<times> string) list"
  hi_types :: "(string \<times> string) list"
  hi_parents :: "(string \<times> string) list"
  hi_parent_paths :: "(string \<times> string) list"
  hi_globals :: nat

definition no_hierarchy :: hierarchy where
  "no_hierarchy = \<lparr>hi_ids = [], hi_types = [], hi_parents = [], hi_parent_paths = [], hi_globals = 0\<rparr>"

text \<open>\<open>if node_id: ...\<close>: the identifier and the type of a node.\<close>

definition note_node :: "hierarchy \<Rightarrow> string option \<Rightarrow> string option \<Rightarrow> string \<Rightarrow> hierarchy checked" where
  "note_node h node_id node_type path =
     (case node_id of
        None \<Rightarrow> wret h
      | Some i \<Rightarrow>
          (wbind (check_duplicate (hi_ids h) (Some i) (at_key path ''id'') ''hierarchy node id'') (\<lambda>ids.
             wret (h\<lparr>hi_ids := ids,
                       hi_types := (case node_type of None \<Rightarrow> hi_types h | Some t \<Rightarrow> AList.update i t (hi_types h))\<rparr>))))"

definition note_parent :: "hierarchy \<Rightarrow> string option \<Rightarrow> string option \<Rightarrow> string \<Rightarrow> hierarchy" where
  "note_parent h node_id parent_id path =
     (case (node_id, parent_id) of
        (Some i, Some p) \<Rightarrow> h\<lparr>hi_parents := AList.update i p (hi_parents h),
                             hi_parent_paths := AList.update i (at_key path ''parent_id'') (hi_parent_paths h)\<rparr>
      | _ \<Rightarrow> h)"

definition check_node :: "hierarchy \<Rightarrow> nat \<times> json \<Rightarrow> hierarchy checked" where
  "check_node h = (\<lambda>(index, raw).
     let path = at_index ''$.site_hierarchy'' index in
     (wbind (mapping raw path) (\<lambda>node.
        wbind (required_string node ''id'' path) (\<lambda>node_id.
        wbind (required_string node ''name'' path) (\<lambda>_.
        wbind (required_string node ''type'' path) (\<lambda>node_type.
        wbind (note_node h node_id node_type path) (\<lambda>g.
        (if node_type = Some ''global''
           then (wbind (report_if (has_key node ''parent_id'') ''hierarchy.global_parent'' (at_key path ''parent_id'')
                       ''Global node cannot have a parent'') (\<lambda>_.
              wret (g\<lparr>hi_globals := Suc (hi_globals g)\<rparr>)))
           else (wbind (required_string node ''parent_id'' path) (\<lambda>parent_id.
              wret (note_parent g node_id parent_id path)))))))))))"

fun allowed_children :: "string option \<Rightarrow> string list" where
  "allowed_children None = []"
| "allowed_children (Some t) =
     (if t = ''global'' \<or> t = ''area'' then [''area'', ''building''] else if t = ''building'' then [''floor''] else [])"

definition parent_path :: "hierarchy \<Rightarrow> string \<Rightarrow> string" where
  "parent_path h i = (case map_of (hi_parent_paths h) i of None \<Rightarrow> ''$.site_hierarchy'' | Some p \<Rightarrow> p)"

definition check_parent :: "hierarchy \<Rightarrow> string \<times> string \<Rightarrow> unit checked" where
  "check_parent h = (\<lambda>(node_id, parent_id).
     (if map_of (hi_ids h) parent_id = None
      then report ''reference.hierarchy_parent'' (parent_path h node_id) (''Unknown hierarchy parent '' @ repr_str parent_id)
      else report_if (case map_of (hi_types h) node_id of
                        None \<Rightarrow> True
                      | Some t \<Rightarrow> t \<notin> set (allowed_children (map_of (hi_types h) parent_id)))
             ''hierarchy.parent_type'' (parent_path h node_id) ''Invalid hierarchy parent/child type relationship''))"

section \<open>Depths\<close>

text \<open>
  The walk from a node to a node whose depth is known, with the trail of the nodes on the way.
  It ends because the trail has no node twice and stays within the declared nodes.
\<close>

datatype walk =
    Climbed "string list" string "(string \<times> nat) list"
  | Looped string
  | Lost

function climb :: "hierarchy \<Rightarrow> (string \<times> nat) list \<Rightarrow> string list \<Rightarrow> string \<Rightarrow> walk" where
  "climb h depths trail cursor =
     (if map_of depths cursor \<noteq> None then Climbed trail cursor depths
      else if cursor \<in> set trail then Looped cursor
      else if map_of (hi_ids h) cursor = None then Lost
      else (case map_of (hi_parents h) cursor of
              None \<Rightarrow> Climbed (trail @ [cursor]) cursor (AList.update cursor 0 depths)
            | Some p \<Rightarrow> climb h depths (trail @ [cursor]) p))"
  by pat_completeness auto

lemma unvisited_decreases:
  assumes "c \<notin> set trail" and "map_of kvs c = Some v"
  shows "card (fst ` set kvs - insert c (set trail)) < card (fst ` set kvs - set trail)"
proof -
  from assms(2) have "c \<in> fst ` set kvs" by (force dest: map_of_SomeD)
  with assms(1) have "fst ` set kvs - insert c (set trail) \<subset> fst ` set kvs - set trail" by blast
  then show ?thesis by (rule psubset_card_mono [rotated]) simp
qed

termination climb
  by (relation "measure (\<lambda>(h, depths, trail, cursor). card (fst ` set (hi_ids h) - set trail))")
    (auto simp: unvisited_decreases)

declare climb.simps [simp del]

definition max_hierarchy_depth :: nat where
  "max_hierarchy_depth = 16"

definition settle :: "hierarchy \<Rightarrow> nat \<times> (string \<times> nat) list \<Rightarrow> string \<Rightarrow> (nat \<times> (string \<times> nat) list) checked" where
  "settle h = (\<lambda>(depth, depths) i.
     (case map_of depths i of
        Some d \<Rightarrow> wret (d, depths)
      | None \<Rightarrow>
          (wbind (report_if (depth + 1 > max_hierarchy_depth) ''hierarchy.too_deep'' (parent_path h i)
                 (''Site hierarchy exceeds maximum depth '' @ nat_str max_hierarchy_depth)) (\<lambda>_.
             wret (depth + 1, AList.update i (depth + 1) depths)))))"

definition check_depth :: "hierarchy \<Rightarrow> (string \<times> nat) list \<times> bool \<Rightarrow> string \<Rightarrow> ((string \<times> nat) list \<times> bool) checked" where
  "check_depth h = (\<lambda>(depths, cycle_reported) start.
     (case climb h depths [] start of
        Looped c \<Rightarrow>
          (wbind (report_if (\<not> cycle_reported) ''hierarchy.cycle'' (parent_path h c) ''Site hierarchy contains a parent cycle'') (\<lambda>_.
             wret (depths, True)))
      | Lost \<Rightarrow> wret (depths, cycle_reported)
      | Climbed trail c ds \<Rightarrow>
          (case map_of ds c of
             None \<Rightarrow> of_res (Inl (KeyError c))
           | Some d \<Rightarrow> (wbind (w_fold (settle h) (d, ds) (rev trail)) (\<lambda>(last_depth, ds').
              wret (ds', cycle_reported))))))"

definition root_depths :: "hierarchy \<Rightarrow> (string \<times> nat) list" where
  "root_depths h = map (\<lambda>(i, t). (i, 0)) (filter (\<lambda>(i, t). t = ''global'') (hi_types h))"

definition check_depths :: "hierarchy \<Rightarrow> unit checked" where
  "check_depths h =
     (wbind (w_fold (check_depth h) (root_depths h, False) (sort (map fst (hi_ids h)))) (\<lambda>_.
        wret ()))"

definition check_hierarchy :: "(string \<times> json) list \<Rightarrow> hierarchy checked" where
  "check_hierarchy root =
     (wbind (listing (val root ''site_hierarchy'') ''$.site_hierarchy'') (\<lambda>nodes.
        wbind (w_fold check_node no_hierarchy (List.enumerate 0 nodes)) (\<lambda>h.
        wbind (report_if (hi_globals h \<noteq> 1) ''hierarchy.global_count'' ''$.site_hierarchy'' ''Exactly one global node is required'') (\<lambda>_.
        wbind (w_each (check_parent h) (hi_parents h)) (\<lambda>_.
        wbind (check_depths h) (\<lambda>_.
        wret h))))))"

text \<open>\<open>hierarchy_descends_from\<close>, which carries the nodes it has visited.\<close>

function descends :: "(string \<times> string) list \<Rightarrow> string list \<Rightarrow> string \<Rightarrow> string \<Rightarrow> bool" where
  "descends parents visited cursor ancestor =
     (if cursor \<in> set visited then False
      else if cursor = ancestor then True
      else (case map_of parents cursor of
              None \<Rightarrow> False
            | Some p \<Rightarrow> descends parents (visited @ [cursor]) p ancestor))"
  by pat_completeness auto

termination descends
  by (relation "measure (\<lambda>(parents, visited, cursor, ancestor). card (fst ` set parents - set visited))")
    (auto simp: unvisited_decreases)

declare descends.simps [simp del]

definition hierarchy_descends_from :: "hierarchy \<Rightarrow> string \<Rightarrow> string \<Rightarrow> bool" where
  "hierarchy_descends_from h node_id ancestor_id = descends (hi_parents h) [] node_id ancestor_id"

section \<open>Fabric sites\<close>

record sites =
  st_hierarchy :: hierarchy
  st_ids :: "(string \<times> string) list"
  st_nodes :: "(string \<times> string) list"
  st_node_ids :: "(string \<times> string) list"

definition note_site :: "sites \<Rightarrow> string option \<Rightarrow> string option \<Rightarrow> string \<Rightarrow> sites checked" where
  "note_site s site_id node_id path =
     (case site_id of
        None \<Rightarrow> wret s
      | Some i \<Rightarrow>
          (wbind (check_duplicate (st_ids s) (Some i) (at_key path ''id'') ''fabric site id'') (\<lambda>ids.
             wret (s\<lparr>st_ids := ids,
                       st_nodes := (case node_id of None \<Rightarrow> st_nodes s | Some n \<Rightarrow> AList.update i n (st_nodes s))\<rparr>))))"

definition check_site_node :: "sites \<Rightarrow> string option \<Rightarrow> string \<Rightarrow> sites checked" where
  "check_site_node s node_id path =
     (case node_id of
        None \<Rightarrow> wret s
      | Some n \<Rightarrow>
          (if map_of (hi_ids (st_hierarchy s)) n = None
           then (wbind (report ''reference.hierarchy_node'' (at_key path ''hierarchy_node_id'') (''Unknown hierarchy node '' @ repr_str n)) (\<lambda>_.
              wret s))
           else (wbind (check_duplicate (st_node_ids s) (Some n) (at_key path ''hierarchy_node_id'') ''fabric-site hierarchy node'') (\<lambda>seen.
              wbind (report_if (map_of (hi_types (st_hierarchy s)) n = Some ''global'') ''site.global_node''
                       (at_key path ''hierarchy_node_id'') ''A fabric site cannot be attached to the global node'') (\<lambda>_.
              wret (s\<lparr>st_node_ids := seen\<rparr>))))))"

definition check_site :: "sites \<Rightarrow> nat \<times> json \<Rightarrow> sites checked" where
  "check_site s = (\<lambda>(index, raw).
     let path = at_index ''$.fabric_sites'' index in
     (wbind (mapping raw path) (\<lambda>site.
        wbind (required_string site ''id'' path) (\<lambda>site_id.
        wbind (required_string site ''name'' path) (\<lambda>_.
        wbind (required_string site ''hierarchy_node_id'' path) (\<lambda>node_id.
        wbind (checked_int site ''endpoint_count'' path 1 1000000) (\<lambda>_.
        wbind (checked_int site ''ap_count'' path 0 100000) (\<lambda>_.
        wbind (required_string site ''profile'' path) (\<lambda>_.
        wbind (note_site s site_id node_id path) (\<lambda>t.
        check_site_node t node_id path))))))))))"

definition check_sites :: "(string \<times> json) list \<Rightarrow> sites checked" where
  "check_sites root =
     (wbind (required_string root ''deployment_model'' ''$'') (\<lambda>model.
        wbind (report_if (unknown model [''single_site'', ''distributed_campus'']) ''enum.deployment_model'' ''$.deployment_model''
            ''deployment_model must be single_site or distributed_campus'') (\<lambda>_.
        wbind (check_hierarchy root) (\<lambda>h.
        wbind (listing (val root ''fabric_sites'') ''$.fabric_sites'') (\<lambda>raw_sites.
        wbind (w_fold check_site \<lparr>st_hierarchy = h, st_ids = [], st_nodes = [], st_node_ids = []\<rparr> (List.enumerate 0 raw_sites)) (\<lambda>s.
        wbind (report_if (model = Some ''single_site'' \<and> length raw_sites \<noteq> 1) ''site.count'' ''$.fabric_sites''
            ''single_site requires exactly one fabric site'') (\<lambda>_.
        wbind (report_if (model = Some ''distributed_campus'' \<and> length raw_sites < 2) ''site.count'' ''$.fabric_sites''
            ''distributed_campus requires at least two fabric sites'') (\<lambda>_.
        wret s))))))))"

definition no_sites :: sites where
  "no_sites = \<lparr>st_hierarchy = no_hierarchy, st_ids = [], st_nodes = [], st_node_ids = []\<rparr>"

text \<open>Documents of schema 1.0 have no sites.\<close>

definition sites_of :: "(string \<times> json) list \<Rightarrow> sites checked" where
  "sites_of root = (if later_schema (val root ''schema_version'') then check_sites root else wret no_sites)"

end
