(* ===== verification/HierarchyLaws.thy ===== *)
theory HierarchyLaws
  imports IntentSites
begin

text \<open>
  What an accepted site hierarchy is: every node has one type, every node but the one global node
  has a parent among the nodes, and the climb from a node settles its depth.
\<close>

section \<open>Accepted helpers\<close>

lemma required_string_accepts [dest]: "accepts (required_string kvs k p) x \<Longrightarrow> \<exists>s. x = Some s \<and> s \<noteq> []"
  by (auto simp: required_string_def acc split: if_splits)

lemma mapping_accepts [acc]: "accepts (mapping v p) kvs \<longleftrightarrow> v = JObj kvs"
  by (cases v) (auto simp: mapping_def acc)

lemma listing_accepts [acc]: "accepts (listing v p) xs \<longleftrightarrow> v = JArr xs"
  by (cases v) (auto simp: listing_def acc)

lemma check_duplicate_accepts [acc]:
  "accepts (check_duplicate seen v p l) seen' \<longleftrightarrow>
     (case v of None \<Rightarrow> seen' = seen | Some w \<Rightarrow> map_of seen w = None \<and> seen' = seen @ [(w, p)])"
  by (auto simp: check_duplicate_def acc split: option.splits)

section \<open>The nodes\<close>

definition roots :: "hierarchy \<Rightarrow> string set" where
  "roots h = {i. map_of (hi_types h) i = Some ''global''}"

definition hierarchy_ok :: "hierarchy \<Rightarrow> bool" where
  "hierarchy_ok h \<longleftrightarrow>
     dom (map_of (hi_types h)) = dom (map_of (hi_ids h)) \<and> dom (map_of (hi_parents h)) = dom (map_of (hi_ids h)) - roots h
     \<and> hi_globals h = card (roots h) \<and> distinct (map fst (hi_types h))"

lemma finite_roots: "finite (roots h)"
  by (rule finite_subset [OF _ finite_dom_map_of [of "hi_types h"]]) (auto simp: roots_def)

lemma hierarchy_ok_node:
  assumes ok: "hierarchy_ok h" and new: "map_of (hi_ids h) i = None"
    and ids: "hi_ids g = hi_ids h @ [(i, p)]" and types: "hi_types g = AList.update i t (hi_types h)"
    and parents: "hi_parents g = (if t = ''global'' then hi_parents h else AList.update i q (hi_parents h))"
    and globals: "hi_globals g = (if t = ''global'' then Suc (hi_globals h) else hi_globals h)"
  shows "hierarchy_ok g"
proof -
  have n: "i \<notin> dom (map_of (hi_ids h))" using new by (simp add: domIff)
  then have "i \<notin> dom (map_of (hi_types h))" using ok by (simp add: hierarchy_ok_def)
  then have r: "roots g = (if t = ''global'' then insert i (roots h) else roots h)" and i: "i \<notin> roots h"
    by (auto simp: roots_def types update_conv' domIff)
  have d: "dom (map_of (hi_ids g)) = insert i (dom (map_of (hi_ids h)))"
    by (auto simp: ids map_add_def split: option.splits)
  show ?thesis
    using ok i n by (simp add: hierarchy_ok_def r d types parents globals update_conv' finite_roots distinct_update insert_Diff_if)
qed

lemma check_node_ok:
  assumes "hierarchy_ok h" and "accepts (check_node h x) g"
  shows "hierarchy_ok g"
proof -
  obtain index raw where x: "x = (index, raw)" by (cases x)
  let ?path = "at_index ''$.site_hierarchy'' index"
  from assms(2) obtain node node_id name node_type f where n: "accepts (required_string node ''id'' ?path) node_id"
      "accepts (required_string node ''type'' ?path) node_type" "accepts (note_node h node_id node_type ?path) f"
    and g: "accepts (if node_type = Some ''global''
       then wbind (report_if (has_key node ''parent_id'') ''hierarchy.global_parent'' (at_key ?path ''parent_id'')
                       ''Global node cannot have a parent'') (\<lambda>_. wret (f\<lparr>hi_globals := Suc (hi_globals f)\<rparr>))
       else wbind (required_string node ''parent_id'' ?path) (\<lambda>parent_id. wret (note_parent f node_id parent_id ?path))) g"
    unfolding check_node_def x Let_def prod.case accepts_wbind by blast
  from n(1,2) obtain i t where it: "node_id = Some i" "node_type = Some t" by blast
  have f: "map_of (hi_ids h) i = None"
      "f = h\<lparr>hi_ids := hi_ids h @ [(i, at_key ?path ''id'')], hi_types := AList.update i t (hi_types h)\<rparr>"
    using n(3) by (auto simp: note_node_def it acc)
  show ?thesis
  proof (cases "t = ''global''")
    case True
    with g have "g = f\<lparr>hi_globals := Suc (hi_globals f)\<rparr>" by (auto simp: it acc)
    with True show ?thesis by (intro hierarchy_ok_node [OF assms(1) f(1)]) (simp_all add: f(2))
  next
    case False
    with g obtain parent_id where "accepts (required_string node ''parent_id'' ?path) parent_id"
      "g = note_parent f node_id parent_id ?path" by (auto simp: it acc)
    then obtain q where "g = note_parent f (Some i) (Some q) ?path" using it by blast
    with False show ?thesis by (intro hierarchy_ok_node [OF assms(1) f(1)]) (simp_all add: f(2) note_parent_def)
  qed
qed

lemma no_hierarchy_ok: "hierarchy_ok no_hierarchy"
  by (simp add: hierarchy_ok_def no_hierarchy_def roots_def)

section \<open>Ancestors\<close>

fun ancestor :: "(string \<times> string) list \<Rightarrow> nat \<Rightarrow> string \<Rightarrow> string option" where
  "ancestor parents 0 n = Some n"
| "ancestor parents (Suc k) n = (case map_of parents n of None \<Rightarrow> None | Some p \<Rightarrow> ancestor parents k p)"

lemma ancestor_add: "ancestor ps (i + j) n = Option.bind (ancestor ps i n) (ancestor ps j)"
  by (induction i arbitrary: n) (auto split: option.splits)

lemma descends_sound: "descends ps visited n a \<Longrightarrow> \<exists>k. ancestor ps k n = Some a"
proof (induction ps visited n a rule: descends.induct)
  case (1 ps visited n a)
  show ?case
  proof (cases "n = a")
    case True
    then show ?thesis by (intro exI [of _ 0]) simp
  next
    case False
    with 1 obtain p k where "map_of ps n = Some p" "ancestor ps k p = Some a"
      by (subst (asm) (2) descends.simps) (auto split: if_splits option.splits)
    then show ?thesis by (intro exI [of _ "Suc k"]) simp
  qed
qed

lemma descends_complete:
  assumes "ancestor ps k n = Some a" and "\<forall>j < k. ancestor ps j n \<noteq> Some a"
    and "\<forall>j \<le> k. \<forall>x. ancestor ps j n = Some x \<longrightarrow> x \<notin> set visited"
  shows "descends ps visited n a"
  using assms
proof (induction k arbitrary: n visited)
  case 0
  then show ?case by (subst descends.simps) auto
next
  case (Suc k)
  from Suc.prems(1) obtain p where p: "map_of ps n = Some p" "ancestor ps k p = Some a" by (auto split: option.splits)
  have n: "n \<notin> set visited" "n \<noteq> a" using Suc.prems(2,3) by (force dest: spec [of _ 0])+
  have up: "ancestor ps j p = ancestor ps (Suc j) n" for j using p(1) by simp
  have fresh: "x \<noteq> n" if "j \<le> k" "ancestor ps j p = Some x" for j x
  proof
    assume "x = n"
    with that(2) up have loop: "ancestor ps (Suc j) n = Some n" by simp
    have "ancestor ps (Suc j + (k - j)) n = ancestor ps (k - j) n"
      unfolding ancestor_add [of ps "Suc j"] loop by simp
    moreover have "Suc j + (k - j) = Suc k" using that(1) by simp
    ultimately have "ancestor ps (k - j) n = Some a" using Suc.prems(1) by (simp only:)
    with Suc.prems(2) show False by (metis diff_le_self le_imp_less_Suc)
  qed
  have "descends ps (visited @ [n]) p a"
  proof (rule Suc.IH [OF p(2)])
    show "\<forall>j < k. ancestor ps j p \<noteq> Some a" using Suc.prems(2) up by (metis Suc_less_eq)
    show "\<forall>j \<le> k. \<forall>x. ancestor ps j p = Some x \<longrightarrow> x \<notin> set (visited @ [n])"
      using Suc.prems(3) up fresh by (metis Suc_le_mono Un_iff set_append set_ConsD empty_iff list.set(1))
  qed
  with n p(1) show ?case by (subst descends.simps) simp
qed

text \<open>The walk with a visited list decides the ancestor relation, also where the parents form a cycle.\<close>

lemma descends_iff: "descends ps [] n a \<longleftrightarrow> (\<exists>k. ancestor ps k n = Some a)"
proof
  assume "\<exists>k. ancestor ps k n = Some a"
  then have "ancestor ps (LEAST k. ancestor ps k n = Some a) n = Some a" by (rule LeastI_ex)
  then show "descends ps [] n a" by (rule descends_complete) (auto dest: not_less_Least)
qed (rule descends_sound)

section \<open>Depths\<close>

text \<open>Nodes that lead, each to the next, to \<open>c\<close>.\<close>

fun linked :: "(string \<times> string) list \<Rightarrow> string \<Rightarrow> string list \<Rightarrow> bool" where
  "linked ps c [] = True"
| "linked ps c (n # ns) \<longleftrightarrow> map_of ps n = Some c \<and> linked ps n ns"

text \<open>Every settled node has its root as many parents away as its depth says, and no further than allowed.\<close>

definition depths_ok :: "hierarchy \<Rightarrow> (string \<times> nat) list \<Rightarrow> bool" where
  "depths_ok h ds \<longleftrightarrow>
     (\<forall>i d. map_of ds i = Some d \<longrightarrow> d \<le> max_hierarchy_depth \<and> (\<exists>g \<in> roots h. ancestor (hi_parents h) d i = Some g))
     \<and> roots h \<subseteq> dom (map_of ds)"

lemma settle_ok:
  assumes "depths_ok h ds" and "accepts (settle h (d, ds) i) (d', ds')"
    and "map_of ds c = Some d" and "map_of (hi_parents h) i = Some c"
  shows "depths_ok h ds'" "map_of ds' i = Some d'" "dom (map_of ds) \<subseteq> dom (map_of ds')"
  using assms by (auto simp: settle_def acc depths_ok_def update_conv' split: option.splits if_splits)

lemma settle_all_ok:
  assumes "depths_ok h ds" and "accepts (w_fold (settle h) (d, ds) ns) t"
    and "map_of ds c = Some d" and "linked (hi_parents h) c ns"
  shows "depths_ok h (snd t) \<and> set ns \<subseteq> dom (map_of (snd t)) \<and> dom (map_of ds) \<subseteq> dom (map_of (snd t))"
  using assms
proof (induction ns arbitrary: c d ds)
  case (Cons n ns)
  from Cons.prems(2) obtain e es where s: "accepts (settle h (d, ds) n) (e, es)" "accepts (w_fold (settle h) (e, es) ns) t"
    unfolding accepts_w_fold_Cons by fastforce
  have p: "map_of (hi_parents h) n = Some c" "linked (hi_parents h) n ns" using Cons.prems(4) by simp_all
  note n = settle_ok [OF Cons.prems(1) s(1) Cons.prems(3) p(1)]
  from Cons.IH [OF n(1) s(2) n(2) p(2)] n(2,3) show ?case by (simp, blast)
qed (simp add: acc)

lemma climb_linked:
  assumes "hierarchy_ok h" and "\<forall>p \<in> ran (map_of (hi_parents h)). map_of (hi_ids h) p \<noteq> None" and "roots h \<subseteq> dom (map_of depths)"
    and "climb h depths trail c = w" and "linked (hi_parents h) c (rev trail)" and "map_of (hi_ids h) c \<noteq> None"
  shows "case w of Climbed trail' c' ds \<Rightarrow> ds = depths \<and> linked (hi_parents h) c' (rev trail') \<and> map_of depths c' \<noteq> None
                    \<and> set trail \<subseteq> set trail' \<and> c \<in> insert c' (set trail')
      | Looped c' \<Rightarrow> True | Lost \<Rightarrow> False"
  using assms
proof (induction h depths trail c rule: climb.induct)
  case (1 h depths trail c)
  show ?case
  proof (cases "map_of depths c \<noteq> None \<or> c \<in> set trail")
    case True
    with 1(5-) show ?thesis by (subst (asm) climb.simps) auto
  next
    case False
    with 1(4) have "c \<notin> roots h" by auto
    with 1(2,7) obtain p where p: "map_of (hi_parents h) c = Some p" unfolding hierarchy_ok_def by blast
    with False 1(5,7) have w: "climb h depths (trail @ [c]) p = w" by (subst (asm) climb.simps) auto
    have "map_of (hi_ids h) p \<noteq> None" using 1(3) p by (auto intro: ranI)
    with 1(1) [OF _ _ _ p 1(2-4) w] False 1(6,7) p show ?thesis by (auto split: walk.splits)
  qed
qed

lemma check_depth_ok:
  assumes "hierarchy_ok h" and "\<forall>p \<in> ran (map_of (hi_parents h)). map_of (hi_ids h) p \<noteq> None"
    and "depths_ok h ds" and "accepts (check_depth h (ds, False) i) t" and "map_of (hi_ids h) i \<noteq> None"
  shows "\<exists>ds'. t = (ds', False) \<and> depths_ok h ds' \<and> i \<in> dom (map_of ds') \<and> dom (map_of ds) \<subseteq> dom (map_of ds')"
proof -
  have r: "roots h \<subseteq> dom (map_of ds)" using assms(3) by (simp add: depths_ok_def)
  note c = climb_linked [OF assms(1,2) r refl [of "climb h ds [] i"] _ assms(5)]
  show ?thesis
  proof (cases "climb h ds [] i")
    case (Climbed trail c ds')
    with c have w: "ds' = ds" "linked (hi_parents h) c (rev trail)" "map_of ds c \<noteq> None" "i \<in> insert c (set trail)" by auto
    then obtain d where d: "map_of ds c = Some d" by blast
    with assms(4) w(1) obtain e ds'' where f: "accepts (w_fold (settle h) (d, ds) (rev trail)) (e, ds'')" "t = (ds'', False)"
      by (auto simp: check_depth_def Climbed acc split: prod.splits)
    have "i \<in> dom (map_of ds'')" using settle_all_ok [OF assms(3) f(1) d w(2)] w(4) d by auto
    with settle_all_ok [OF assms(3) f(1) d w(2)] f(2) show ?thesis by simp
  next
    case (Looped c)
    with assms(4) show ?thesis by (simp add: check_depth_def acc)
  next
    case Lost
    with c show ?thesis by simp
  qed
qed

lemma check_depths_ok:
  assumes "hierarchy_ok h" and "\<forall>p \<in> ran (map_of (hi_parents h)). map_of (hi_ids h) p \<noteq> None"
    and "depths_ok h ds" and "accepts (w_fold (check_depth h) (ds, False) is) t" and "\<forall>i \<in> set is. map_of (hi_ids h) i \<noteq> None"
  shows "\<exists>ds'. t = (ds', False) \<and> depths_ok h ds' \<and> set is \<subseteq> dom (map_of ds') \<and> dom (map_of ds) \<subseteq> dom (map_of ds')"
  using assms(3-)
proof (induction "is" arbitrary: ds)
  case (Cons i js)
  from Cons.prems(2) obtain u where u: "accepts (check_depth h (ds, False) i) u" "accepts (w_fold (check_depth h) u js) t"
    by (auto simp: acc)
  from check_depth_ok [OF assms(1,2) Cons.prems(1) u(1)] Cons.prems(3) obtain ds1 where
    d: "u = (ds1, False)" "depths_ok h ds1" "i \<in> dom (map_of ds1)" "dom (map_of ds) \<subseteq> dom (map_of ds1)" by auto
  from Cons.IH [OF d(2)] u(2) d(1) Cons.prems(3) obtain ds2 where
    "t = (ds2, False)" "depths_ok h ds2" "set js \<subseteq> dom (map_of ds2)" "dom (map_of ds1) \<subseteq> dom (map_of ds2)" by auto
  moreover have "set (i # js) \<subseteq> dom (map_of ds2)" "dom (map_of ds) \<subseteq> dom (map_of ds2)"
    using calculation d(3,4) by (simp_all, blast+)
  ultimately show ?case by blast
qed (auto simp: acc)

lemma map_of_root_depths:
  assumes "distinct (map fst (hi_types h))"
  shows "map_of (root_depths h) i = (if i \<in> roots h then Some 0 else None)"
proof -
  have "distinct (map fst ts) \<Longrightarrow> map_of (map (\<lambda>(i, t). (i, 0::nat)) (filter (\<lambda>(i, t). t = r) ts)) i
      = (if map_of ts i = Some r then Some 0 else None)" for ts :: "(string \<times> string) list" and r
    by (induction ts) (auto simp: map_of_eq_None_iff dest: map_of_SomeD, force+)
  with assms show ?thesis by (simp add: root_depths_def roots_def)
qed

lemma root_depths_ok: "hierarchy_ok h \<Longrightarrow> depths_ok h (root_depths h)"
  by (auto simp: depths_ok_def hierarchy_ok_def map_of_root_depths split: if_splits)

end
