(* ===== verification/IntentFabric.thy ===== *)
theory IntentFabric
  imports IntentSites
begin

text \<open>
  The fabric settings, the devices, the fusion nodes and the numbers of their roles in
  \<open>validate_intent\<close> (\<open>intent.py\<close>).
\<close>

fun is_bool :: "json \<Rightarrow> bool" where
  "is_bool (JBool _) = True"
| "is_bool _ = False"

section \<open>Fabric settings\<close>

definition check_fabric_multicast :: "json \<Rightarrow> unit checked" where
  "check_fabric_multicast raw =
     (if raw = JNull then wret ()
      else (wbind (mapping raw ''$.fabric.multicast'') (\<lambda>multicast.
         wbind (report_if (\<not> is_bool (val multicast ''enabled'')) ''type.boolean'' ''$.fabric.multicast.enabled''
                  ''enabled must be boolean'') (\<lambda>_.
         wbind ((if truthy (val multicast ''enabled'')
                 then (wbind (ipv4_address (val multicast ''rp_address'') ''$.fabric.multicast.rp_address'') (\<lambda>_.
                    wbind (checked_int multicast ''rp_loopback_id'' ''$.fabric.multicast'' 1 2147483647) (\<lambda>_.
                    wret ())))
                 else wret ())) (\<lambda>_.
         report_if (has_key multicast ''ssm_default'' \<and> \<not> is_bool (val multicast ''ssm_default'')) ''type.boolean''
                  ''$.fabric.multicast.ssm_default'' ''ssm_default must be boolean'')))))"

definition check_fabric :: "(string \<times> json) list \<Rightarrow> unit checked" where
  "check_fabric root =
     (wbind (mapping (val root ''fabric'') ''$.fabric'') (\<lambda>fabric.
        wbind (required_string fabric ''id'' ''$.fabric'') (\<lambda>_.
        wbind (required_string fabric ''name'' ''$.fabric'') (\<lambda>_.
        wbind (required_string fabric ''underlay_protocol'' ''$.fabric'') (\<lambda>protocol.
        wbind (report_if (unknown protocol [''isis'']) ''enum.underlay_protocol'' ''$.fabric.underlay_protocol''
            (''Schema 1.0 supports '' @ strs_repr [''isis''])) (\<lambda>_.
        wbind (checked_int fabric ''mtu'' ''$.fabric'' 1550 9216) (\<lambda>mtu.
        wbind (advise_if (case mtu of None \<Rightarrow> False | Some m \<Rightarrow> m < 9100) ''fabric.mtu.recommended'' ''$.fabric.mtu''
            ''An MTU of at least 9100 is recommended for the validated VXLAN design'') (\<lambda>_.
        wbind ((if val fabric ''mtu_headroom'' = JNull then wret ()
           else (wbind (checked_int fabric ''mtu_headroom'' ''$.fabric'' 0 500) (\<lambda>_.
              wret ())))) (\<lambda>_.
        check_fabric_multicast (val fabric ''multicast''))))))))))"

section \<open>The inventory\<close>

type_synonym named_net = "string \<times> ipv4net \<times> string"

record inventory =
  iv_ids :: "(string \<times> string) list"
  iv_hostnames :: "(string \<times> string) list"
  iv_management :: "(nat \<times> string) list"
  iv_dashboard :: "(nat \<times> string) list"
  iv_loopbacks :: "(nat \<times> string) list"
  iv_counts :: "(string \<times> nat) list"
  iv_roles :: "(string \<times> json list) list"
  iv_sites :: "(string \<times> string) list"
  iv_fusions :: "(string \<times> string) list"
  iv_asns :: "(string \<times> int) list"
  iv_networks :: "named_net list"

definition allowed_roles :: "string list" where
  "allowed_roles = [''border'', ''control_plane'', ''fabric_edge'', ''fusion'', ''underlay'']"

definition no_inventory :: inventory where
  "no_inventory =
     \<lparr>iv_ids = [], iv_hostnames = [], iv_management = [], iv_dashboard = [], iv_loopbacks = [],
      iv_counts = map (\<lambda>r. (r, 0)) allowed_roles, iv_roles = [], iv_sites = [], iv_fusions = [], iv_asns = [], iv_networks = []\<rparr>"

definition count_of :: "inventory \<Rightarrow> string \<Rightarrow> nat" where
  "count_of iv r = (case map_of (iv_counts iv) r of None \<Rightarrow> 0 | Some n \<Rightarrow> n)"

definition check_site_ref :: "json \<Rightarrow> (string \<times> string) list \<Rightarrow> string option \<Rightarrow> string \<Rightarrow> unit checked" where
  "check_site_ref version site_ids site path =
     (case site of
        None \<Rightarrow> wret ()
      | Some s \<Rightarrow> report_if (later_schema version \<and> map_of site_ids s = None) ''reference.fabric_site'' (at_key path ''site'')
                   (''Unknown fabric site '' @ repr_str s))"

definition check_credential_ref :: "(string \<times> json) list \<Rightarrow> string \<Rightarrow> unit checked" where
  "check_credential_ref kvs path =
     report_if (\<not> is_str (val kvs ''credential_ref'') \<or> \<not> starts_with (py_str (val kvs ''credential_ref'')) ''secret://'')
       ''security.credential_ref'' (at_key path ''credential_ref'') ''credential_ref must use the secret:// reference scheme''"

text \<open>\<open>dashboard_management_ip\<close>, which may be absent.\<close>

definition dashboard_address :: "(string \<times> json) list \<Rightarrow> string \<Rightarrow> nat option checked" where
  "dashboard_address kvs path =
     (if has_key kvs ''dashboard_management_ip''
      then ipv4_address (val kvs ''dashboard_management_ip'') (at_key path ''dashboard_management_ip'')
      else wret None)"

definition check_names :: "inventory \<Rightarrow> string option \<Rightarrow> string option \<Rightarrow> string \<Rightarrow> inventory checked" where
  "check_names iv device_id hostname path =
     (wbind (check_duplicate (iv_ids iv) device_id (at_key path ''id'') ''device id'') (\<lambda>ids.
        wbind (check_duplicate (iv_hostnames iv) (map_option lower hostname) (at_key path ''hostname'') ''hostname'') (\<lambda>hostnames.
        wret (iv\<lparr>iv_ids := ids, iv_hostnames := hostnames\<rparr>))))"

definition check_addresses :: "inventory \<Rightarrow> (string \<times> json) list \<Rightarrow> string \<Rightarrow> inventory checked" where
  "check_addresses iv device path =
     (wbind (ipv4_address (val device ''management_ip'') (at_key path ''management_ip'')) (\<lambda>management_ip.
        wbind (dashboard_address device path) (\<lambda>dashboard_ip.
        wbind (ipv4_address (val device ''loopback0_ip'') (at_key path ''loopback0_ip'')) (\<lambda>loopback.
        wbind (check_duplicate (iv_management iv) management_ip (at_key path ''management_ip'') ''management IP'') (\<lambda>management.
        wbind (check_duplicate (iv_dashboard iv) dashboard_ip (at_key path ''dashboard_management_ip'')
            ''Dashboard management IP'') (\<lambda>dashboard.
        wbind (check_duplicate (iv_loopbacks iv) loopback (at_key path ''loopback0_ip'') ''loopback IP'') (\<lambda>loopbacks.
        wret (iv\<lparr>iv_management := management, iv_dashboard := dashboard, iv_loopbacks := loopbacks,
                    iv_networks := iv_networks iv @ (case loopback of None \<Rightarrow> []
                      | Some a \<Rightarrow> [(at_key path ''loopback0_ip'', Net a 32, ''loopback'')])\<rparr>))))))))"

definition check_role :: "string \<Rightarrow> inventory \<Rightarrow> json \<Rightarrow> inventory checked" where
  "check_role path iv role =
     (wbind (one_of role allowed_roles) (\<lambda>known.
        wbind (report_if (\<not> known) ''enum.device_role'' (at_key path ''roles'')
            (''Unsupported role '' @ py_repr role @ ''; expected one of '' @ strs_repr allowed_roles)) (\<lambda>_.
        wret (if known then iv\<lparr>iv_counts := AList.update (py_str role) (Suc (count_of iv (py_str role))) (iv_counts iv)\<rparr>
                else iv))))"

definition check_roles :: "inventory \<Rightarrow> (string \<times> json) list \<Rightarrow> string option \<Rightarrow> string option \<Rightarrow> string \<Rightarrow> inventory checked" where
  "check_roles iv device device_id site path =
     (wbind (listing (val device ''roles'') (at_key path ''roles'')) (\<lambda>roles.
        wbind ((case device_id of
             None \<Rightarrow> wret iv
           | Some i \<Rightarrow> (wbind (of_res (py_set roles)) (\<lambda>rs.
              wret (iv\<lparr>iv_roles := AList.update i rs (iv_roles iv),
                                     iv_sites := (case site of None \<Rightarrow> iv_sites iv | Some s \<Rightarrow> AList.update i s (iv_sites iv))\<rparr>))))) (\<lambda>noted.
        wbind (report_if (roles = []) ''device.roles.empty'' (at_key path ''roles'') ''At least one role is required'') (\<lambda>_.
        w_fold (check_role path) noted roles))))"

definition check_device :: "json \<Rightarrow> (string \<times> string) list \<Rightarrow> inventory \<Rightarrow> nat \<times> json \<Rightarrow> inventory checked" where
  "check_device version site_ids iv = (\<lambda>(index, raw).
     let path = at_index ''$.devices'' index in
     (wbind (mapping raw path) (\<lambda>device.
        wbind (required_string device ''id'' path) (\<lambda>device_id.
        wbind (required_string device ''hostname'' path) (\<lambda>hostname.
        wbind (required_string device ''site'' path) (\<lambda>site.
        wbind (check_site_ref version site_ids site path) (\<lambda>_.
        wbind (required_string device ''platform'' path) (\<lambda>_.
        wbind (required_string device ''software_version'' path) (\<lambda>_.
        wbind (check_names iv device_id hostname path) (\<lambda>named.
        wbind (check_addresses named device path) (\<lambda>addressed.
        wbind (check_roles addressed device device_id site path) (\<lambda>placed.
        wbind (check_credential_ref device path) (\<lambda>_.
        wret placed)))))))))))))"

definition check_devices :: "(string \<times> json) list \<Rightarrow> (string \<times> string) list \<Rightarrow> inventory checked" where
  "check_devices root site_ids =
     (wbind (listing (val root ''devices'') ''$.devices'') (\<lambda>devices.
        w_fold (check_device (val root ''schema_version'') site_ids) no_inventory (List.enumerate 0 devices)))"

section \<open>Fusion nodes\<close>

definition check_fusion_id :: "inventory \<Rightarrow> string option \<Rightarrow> string \<Rightarrow> inventory checked" where
  "check_fusion_id iv fusion_id path =
     (case fusion_id of
        None \<Rightarrow> wret iv
      | Some i \<Rightarrow>
          (wbind (check_duplicate (iv_fusions iv) (Some i) (at_key path ''id'') ''fusion node id'') (\<lambda>fusions.
             wbind (report_if (map_of (iv_ids iv) i \<noteq> None) ''unique.duplicate'' (at_key path ''id'')
                 ''Fusion node id duplicates a fabric device id'') (\<lambda>_.
             wret (iv\<lparr>iv_fusions := fusions\<rparr>)))))"

definition check_fusion_addresses :: "inventory \<Rightarrow> (string \<times> json) list \<Rightarrow> string \<Rightarrow> inventory checked" where
  "check_fusion_addresses iv fusion path =
     (wbind (ipv4_address (val fusion ''management_ip'') (at_key path ''management_ip'')) (\<lambda>management_ip.
        wbind (dashboard_address fusion path) (\<lambda>dashboard_ip.
        wbind (check_duplicate (iv_management iv) management_ip (at_key path ''management_ip'') ''management IP'') (\<lambda>management.
        wbind (check_duplicate (iv_dashboard iv) dashboard_ip (at_key path ''dashboard_management_ip'')
            ''Dashboard management IP'') (\<lambda>dashboard.
        wret (iv\<lparr>iv_management := management, iv_dashboard := dashboard\<rparr>))))))"

definition check_fusion :: "inventory \<Rightarrow> nat \<times> json \<Rightarrow> inventory checked" where
  "check_fusion iv = (\<lambda>(index, raw).
     let path = at_index ''$.fusion_nodes'' index in
     (wbind (mapping raw path) (\<lambda>fusion.
        wbind (required_string fusion ''id'' path) (\<lambda>fusion_id.
        wbind (required_string fusion ''hostname'' path) (\<lambda>hostname.
        wbind (required_string fusion ''platform'' path) (\<lambda>_.
        wbind (required_string fusion ''software_version'' path) (\<lambda>_.
        wbind (check_fusion_id iv fusion_id path) (\<lambda>iv1.
        wbind (check_duplicate (iv_hostnames iv1) (map_option lower hostname) (at_key path ''hostname'') ''hostname'') (\<lambda>hostnames.
        wbind (check_fusion_addresses (iv1\<lparr>iv_hostnames := hostnames\<rparr>) fusion path) (\<lambda>iv2.
        wbind (checked_int fusion ''bgp_asn'' path 1 4294967295) (\<lambda>asn.
        wbind (check_credential_ref fusion path) (\<lambda>_.
        wret (case (fusion_id, asn) of
                  (Some i, Some n) \<Rightarrow> iv2\<lparr>iv_asns := AList.update i n (iv_asns iv2)\<rparr>
                | _ \<Rightarrow> iv2)))))))))))))"

definition check_fusion_nodes :: "(string \<times> json) list \<Rightarrow> string option \<Rightarrow> inventory \<Rightarrow> inventory checked" where
  "check_fusion_nodes root environment iv =
     (if val root ''schema_version'' \<noteq> JStr ''1.2'' then wret iv
      else (wbind (listing (val root ''fusion_nodes'') ''$.fusion_nodes'') (\<lambda>nodes.
         wbind (w_fold check_fusion iv (List.enumerate 0 nodes)) (\<lambda>checked.
         wbind (report_if (environment = Some ''production'' \<and> length nodes < 2) ''ha.fusion'' ''$.fusion_nodes''
                  ''Production schema 1.2 requires at least two fusion nodes'') (\<lambda>_.
         wret checked)))))"

section \<open>Numbers of roles\<close>

definition check_role_counts :: "string option \<Rightarrow> inventory \<Rightarrow> unit checked" where
  "check_role_counts environment iv =
     (wbind (report_if (count_of iv ''fabric_edge'' = 0) ''roles.fabric_edge.required'' ''$.devices''
            ''At least one fabric_edge is required'') (\<lambda>_.
        wbind (report_if (count_of iv ''control_plane'' = 0) ''roles.control_plane.required'' ''$.devices''
            ''At least one control_plane is required'') (\<lambda>_.
        wbind (report_if (count_of iv ''border'' = 0) ''roles.border.required'' ''$.devices'' ''At least one border is required'') (\<lambda>_.
        (if environment = Some ''production''
           then (wbind (report_if (count_of iv ''control_plane'' < 2) ''ha.control_plane'' ''$.devices''
                       ''Production requires at least two control_plane nodes'') (\<lambda>_.
              report_if (count_of iv ''border'' < 2) ''ha.border'' ''$.devices''
                       ''Production requires at least two border nodes''))
           else (wbind (advise_if (count_of iv ''control_plane'' = 1) ''ha.control_plane.single'' ''$.devices''
                       ''Single control-plane node is acceptable only for lab/staging'') (\<lambda>_.
              advise_if (count_of iv ''border'' = 1) ''ha.border.single'' ''$.devices''
                       ''Single border node is acceptable only for lab/staging'')))))))"

end
