(* ===== verification/IntentNetworks.thy ===== *)
theory IntentNetworks
  imports IntentFabric
begin

text \<open>
  The links, the virtual networks, the fabric zones and the endpoint pools in \<open>validate_intent\<close>
  (\<open>intent.py\<close>), and the composition of the checks from the schema to the pools.
\<close>

section \<open>Links\<close>

definition outside :: "nat option \<Rightarrow> ipv4net option \<Rightarrow> bool" where
  "outside address net = (case (address, net) of (Some a, Some n) \<Rightarrow> \<not> in_net a n | _ \<Rightarrow> False)"

definition outside_message :: "string \<Rightarrow> nat option \<Rightarrow> ipv4net option \<Rightarrow> string" where
  "outside_message what address net =
     (case (address, net) of (Some a, Some n) \<Rightarrow> what @ '' '' @ addr_str a @ '' is not in '' @ net_str n | _ \<Rightarrow> [])"

definition unknown_key :: "(string \<times> string) list \<Rightarrow> string option \<Rightarrow> bool" where
  "unknown_key table key = (case key of None \<Rightarrow> False | Some k \<Rightarrow> map_of table k = None)"

definition repr_option :: "string option \<Rightarrow> string" where
  "repr_option s = py_repr (case s of None \<Rightarrow> JNull | Some t \<Rightarrow> JStr t)"

definition check_bfd :: "json \<Rightarrow> string \<Rightarrow> unit checked" where
  "check_bfd raw path =
     (if raw = JNull then wret ()
      else (wbind (mapping raw (at_key path ''bfd'')) (\<lambda>bfd.
         wbind (report_if (\<not> is_bool (val bfd ''enabled'')) ''type.boolean'' (at_key path ''bfd.enabled'') ''enabled must be boolean'') (\<lambda>_.
         (if truthy (val bfd ''enabled'')
                 then (wbind (checked_int bfd ''interval_ms'' (at_key path ''bfd'') 50 1000) (\<lambda>_.
                    wbind (checked_int bfd ''min_rx_ms'' (at_key path ''bfd'') 50 1000) (\<lambda>_.
                    wbind (checked_int bfd ''multiplier'' (at_key path ''bfd'') 3 50) (\<lambda>_.
                    wret ()))))
                 else wret ())))))"

text \<open>The devices and the addresses of the endpoints seen so far.\<close>

type_synonym link_ends = "string list \<times> (nat \<times> string) list"

definition check_endpoint :: "inventory \<Rightarrow> ipv4net option \<Rightarrow> string \<Rightarrow> link_ends \<Rightarrow> nat \<times> json \<Rightarrow> link_ends checked" where
  "check_endpoint iv subnet link_path = (\<lambda>(names, ips) (index, raw).
     let path = at_index (at_key link_path ''endpoints'') index in
     (wbind (mapping raw path) (\<lambda>endpoint.
        wbind (required_string endpoint ''device_id'' path) (\<lambda>device.
        wbind (required_string endpoint ''interface'' path) (\<lambda>_.
        wbind (report_if (unknown_key (iv_ids iv) device) ''reference.device'' (at_key path ''device_id'')
            (''Unknown device_id '' @ repr_option device)) (\<lambda>_.
        wbind (ipv4_address (val endpoint ''ip'') (at_key path ''ip'')) (\<lambda>ip.
        wbind (check_duplicate ips ip (at_key path ''ip'') ''link endpoint IP'') (\<lambda>ips'.
        wbind (report_if (outside ip subnet) ''link.endpoint.outside_subnet'' (at_key path ''ip'') (outside_message ''Address'' ip subnet)) (\<lambda>_.
        wret (names @ (case device of None \<Rightarrow> [] | Some d \<Rightarrow> [d]), ips'))))))))))"

definition note_net :: "named_net list \<Rightarrow> string \<Rightarrow> ipv4net option \<Rightarrow> string \<Rightarrow> named_net list" where
  "note_net nets path net kind = nets @ (case net of None \<Rightarrow> [] | Some n \<Rightarrow> [(path, n, kind)])"

definition wrong_p2p_length :: "ipv4net option \<Rightarrow> bool" where
  "wrong_p2p_length net = (case net of None \<Rightarrow> False | Some n \<Rightarrow> prefixlen n \<noteq> 30 \<and> prefixlen n \<noteq> 31)"

definition check_link ::
    "inventory \<Rightarrow> (string \<times> string) list \<times> named_net list \<Rightarrow> nat \<times> json \<Rightarrow> ((string \<times> string) list \<times> named_net list) checked" where
  "check_link iv = (\<lambda>(link_ids, nets) (index, raw).
     let path = at_index ''$.links'' index in
     (wbind (mapping raw path) (\<lambda>link.
        wbind (required_string link ''id'' path) (\<lambda>link_id.
        wbind (check_duplicate link_ids link_id (at_key path ''id'') ''link id'') (\<lambda>link_ids'.
        wbind (ipv4_network (val link ''subnet'') (at_key path ''subnet'')) (\<lambda>subnet.
        wbind (report_if (wrong_p2p_length subnet) ''link.prefix_length'' (at_key path ''subnet'')
            ''Point-to-point links must use /31 or /30'') (\<lambda>_.
        wbind (report_if (has_key link ''pim_sparse_mode'' \<and> \<not> is_bool (val link ''pim_sparse_mode'')) ''type.boolean''
            (at_key path ''pim_sparse_mode'') ''pim_sparse_mode must be boolean'') (\<lambda>_.
        wbind (check_bfd (val link ''bfd'') path) (\<lambda>_.
        wbind (listing (val link ''endpoints'') (at_key path ''endpoints'')) (\<lambda>endpoints.
        wbind (report_if (length endpoints \<noteq> 2) ''link.endpoints.count'' (at_key path ''endpoints'') ''Exactly two endpoints are required'') (\<lambda>_.
        wbind (w_fold (check_endpoint iv subnet path) ([], []) (List.enumerate 0 endpoints)) (\<lambda>(names, ips).
        wbind (report_if (length names = 2 \<and> names ! 0 = names ! 1) ''link.self'' (at_key path ''endpoints'')
            ''A fabric link cannot connect a device to itself'') (\<lambda>_.
        wret (link_ids', note_net nets (at_key path ''subnet'') subnet ''underlay link''))))))))))))))"

definition check_links :: "(string \<times> json) list \<Rightarrow> inventory \<Rightarrow> named_net list checked" where
  "check_links root iv =
     (wbind (listing (val root ''links'') ''$.links'') (\<lambda>links.
        wbind (w_fold (check_link iv) ([], iv_networks iv) (List.enumerate 0 links)) (\<lambda>(link_ids, nets).
        wret nets)))"

section \<open>Virtual networks\<close>

record networks_seen =
  ns_names :: "(string \<times> string) list"
  ns_vrfs :: "(string \<times> string) list"
  ns_instances :: "(int \<times> string) list"
  ns_distinguishers :: "(string \<times> string) list"

definition no_networks :: networks_seen where
  "no_networks = \<lparr>ns_names = [], ns_vrfs = [], ns_instances = [], ns_distinguishers = []\<rparr>"

definition check_vn :: "networks_seen \<Rightarrow> nat \<times> json \<Rightarrow> networks_seen checked" where
  "check_vn ns = (\<lambda>(index, raw).
     let path = at_index ''$.virtual_networks'' index in
     (wbind (mapping raw path) (\<lambda>vn.
        wbind (required_string vn ''name'' path) (\<lambda>name.
        wbind (required_string vn ''vrf'' path) (\<lambda>vrf.
        wbind (checked_int vn ''l3_instance_id'' path 1 16777215) (\<lambda>l3_instance.
        wbind (required_string vn ''rd'' path) (\<lambda>distinguisher.
        wbind (listing (val vn ''route_targets'') (at_key path ''route_targets'')) (\<lambda>targets.
        wbind (report_if (targets = []) ''vn.route_targets.empty'' (at_key path ''route_targets'') ''At least one route target is required'') (\<lambda>_.
        wbind (check_duplicate (ns_names ns) name (at_key path ''name'') ''virtual-network name'') (\<lambda>names.
        wbind (check_duplicate (ns_vrfs ns) vrf (at_key path ''vrf'') ''VRF name'') (\<lambda>vrfs.
        wbind (check_duplicate (ns_instances ns) l3_instance (at_key path ''l3_instance_id'') ''L3 instance id'') (\<lambda>instances.
        wbind (check_duplicate (ns_distinguishers ns) distinguisher (at_key path ''rd'') ''route distinguisher'') (\<lambda>rds.
        wret \<lparr>ns_names = names, ns_vrfs = vrfs, ns_instances = instances, ns_distinguishers = rds\<rparr>)))))))))))))"

definition check_virtual_networks :: "(string \<times> json) list \<Rightarrow> networks_seen checked" where
  "check_virtual_networks root =
     (wbind (listing (val root ''virtual_networks'') ''$.virtual_networks'') (\<lambda>vns.
        w_fold check_vn no_networks (List.enumerate 0 vns)))"

section \<open>Fabric zones\<close>

definition zone_outside :: "sites \<Rightarrow> string option \<Rightarrow> string option \<Rightarrow> bool" where
  "zone_outside s site_id node_id =
     (case (site_id, node_id) of
        (Some i, Some n) \<Rightarrow>
          (case map_of (st_nodes s) i of
             None \<Rightarrow> False
           | Some site_node \<Rightarrow> map_of (hi_ids (st_hierarchy s)) n \<noteq> None \<and> \<not> hierarchy_descends_from (st_hierarchy s) n site_node)
      | _ \<Rightarrow> False)"

definition check_zone_vn :: "networks_seen \<Rightarrow> string \<Rightarrow> nat \<times> json \<Rightarrow> unit checked" where
  "check_zone_vn ns path = (\<lambda>(index, vn_name).
     (wbind (one_of vn_name (map fst (ns_names ns))) (\<lambda>known.
        report_if (\<not> known) ''reference.virtual_network'' (at_index (at_key path ''virtual_networks'') index)
            (''Unknown virtual network '' @ py_repr vn_name))))"

definition check_zone :: "sites \<Rightarrow> networks_seen \<Rightarrow> (string \<times> string) list \<Rightarrow> nat \<times> json \<Rightarrow> (string \<times> string) list checked" where
  "check_zone s ns zone_ids = (\<lambda>(index, raw).
     let path = at_index ''$.fabric_zones'' index in
     (wbind (mapping raw path) (\<lambda>zone.
        wbind (required_string zone ''id'' path) (\<lambda>zone_id.
        wbind (required_string zone ''fabric_site_id'' path) (\<lambda>site_id.
        wbind (required_string zone ''hierarchy_node_id'' path) (\<lambda>node_id.
        wbind (check_duplicate zone_ids zone_id (at_key path ''id'') ''fabric zone id'') (\<lambda>zone_ids'.
        wbind (report_if (unknown_key (st_ids s) site_id) ''reference.fabric_site'' (at_key path ''fabric_site_id'')
            (''Unknown fabric site '' @ repr_option site_id)) (\<lambda>_.
        wbind (report_if (unknown_key (hi_ids (st_hierarchy s)) node_id) ''reference.hierarchy_node'' (at_key path ''hierarchy_node_id'')
            (''Unknown hierarchy node '' @ repr_option node_id)) (\<lambda>_.
        wbind (report_if (zone_outside s site_id node_id) ''zone.outside_site'' (at_key path ''hierarchy_node_id'')
            ''Fabric zone hierarchy node is outside its fabric site'') (\<lambda>_.
        wbind (listing (val zone ''virtual_networks'') (at_key path ''virtual_networks'')) (\<lambda>vns.
        wbind (w_each (check_zone_vn ns path) (List.enumerate 0 vns)) (\<lambda>_.
        wret zone_ids'))))))))))))"

definition check_zones :: "(string \<times> json) list \<Rightarrow> sites \<Rightarrow> networks_seen \<Rightarrow> unit checked" where
  "check_zones root s ns =
     (if \<not> later_schema (val root ''schema_version'') then wret ()
      else (wbind (listing (if has_key root ''fabric_zones'' then val root ''fabric_zones'' else JArr []) ''$.fabric_zones'') (\<lambda>zones.
         wbind (w_fold (check_zone s ns) [] (List.enumerate 0 zones)) (\<lambda>_.
         wret ()))))"

section \<open>Endpoint pools\<close>

record pools_seen =
  ps_ids :: "(string \<times> string) list"
  ps_instances :: "(int \<times> string) list"
  ps_vlans :: "((string \<times> int) \<times> string) list"
  ps_prefixes :: "ipv4net list"
  ps_networks :: "named_net list"

definition has_role :: "inventory \<Rightarrow> string \<Rightarrow> string \<Rightarrow> bool" where
  "has_role iv role i = (case map_of (iv_roles iv) i of None \<Rightarrow> False | Some rs \<Rightarrow> JStr role \<in> set rs)"

definition check_dhcp :: "inventory \<Rightarrow> json list \<Rightarrow> json \<Rightarrow> string \<Rightarrow> unit checked" where
  "check_dhcp iv helpers raw path =
     (if raw = JNull then wret ()
      else (wbind (mapping raw path) (\<lambda>dhcp.
         wbind (report_if (val dhcp ''mode'' \<noteq> JStr ''local_border'') ''dhcp.mode'' (at_key path ''mode'')
                  ''Only local_border DHCP is supported'') (\<lambda>_.
         wbind (required_string dhcp ''server_device_id'' path) (\<lambda>server.
         wbind (ipv4_address (val dhcp ''helper_address'') (at_key path ''helper_address'')) (\<lambda>helper.
         wbind (report_if (case server of None \<Rightarrow> False | Some i \<Rightarrow> \<not> has_role iv ''border'' i) ''dhcp.server.role''
                  (at_key path ''server_device_id'') ''Local DHCP server must be a fabric border device'') (\<lambda>_.
         wbind (report_if (case helper of None \<Rightarrow> False | Some a \<Rightarrow> addr_str a \<notin> py_str ` set helpers) ''dhcp.helper.mismatch''
                  (at_key path ''helper_address'') ''Local DHCP helper address must be present in dhcp_helpers'') (\<lambda>_.
         wbind (report_if (val dhcp ''relay_global'' \<noteq> JBool True) ''dhcp.relay_global'' (at_key path ''relay_global'')
                  ''Local border DHCP requires an explicit global relay'') (\<lambda>_.
         wbind (checked_int dhcp ''lease_minutes'' path 5 10080) (\<lambda>_.
         wbind (listing (val dhcp ''dns_servers'') (at_key path ''dns_servers'')) (\<lambda>servers.
         w_each (\<lambda>(i, a). (wbind (ipv4_address a (at_index (at_key path ''dns_servers'') i)) (\<lambda>_.
                   wret ())))
                  (List.enumerate 0 servers))))))))))))"

definition check_pool_refs ::
    "json \<Rightarrow> sites \<Rightarrow> networks_seen \<Rightarrow> pools_seen \<Rightarrow> (string \<times> json) list \<Rightarrow> string \<Rightarrow> (string option \<times> pools_seen) checked" where
  "check_pool_refs version s ns ps pool path =
     (wbind (required_string pool ''id'' path) (\<lambda>pool_id.
        wbind (required_string pool ''site'' path) (\<lambda>site.
        wbind (required_string pool ''virtual_network'' path) (\<lambda>vn_name.
        wbind (check_site_ref version (st_ids s) site path) (\<lambda>_.
        wbind (check_duplicate (ps_ids ps) pool_id (at_key path ''id'') ''endpoint-pool id'') (\<lambda>ids.
        wbind (report_if (unknown_key (ns_names ns) vn_name) ''reference.virtual_network'' (at_key path ''virtual_network'')
            (''Unknown virtual network '' @ repr_option vn_name)) (\<lambda>_.
        wret (site, ps\<lparr>ps_ids := ids\<rparr>))))))))"

definition site_vlan :: "string option \<Rightarrow> int option \<Rightarrow> (string \<times> int) option" where
  "site_vlan site vlan = (case (site, vlan) of (Some s, Some v) \<Rightarrow> Some (s, v) | _ \<Rightarrow> None)"

definition vlan_label :: "string option \<Rightarrow> int option \<Rightarrow> string" where
  "vlan_label site vlan =
     (case site_vlan site vlan of None \<Rightarrow> [] | Some (s, v) \<Rightarrow> ''VLAN '' @ int_str v @ '' in site '' @ s)"

definition check_pool_numbers :: "pools_seen \<Rightarrow> (string \<times> json) list \<Rightarrow> string option \<Rightarrow> string \<Rightarrow> pools_seen checked" where
  "check_pool_numbers ps pool site path =
     (wbind (checked_int pool ''vlan_id'' path 1 4094) (\<lambda>vlan.
        wbind (report_if (case vlan of None \<Rightarrow> False | Some v \<Rightarrow> 1002 \<le> v \<and> v \<le> 1005) ''vlan.reserved'' (at_key path ''vlan_id'')
            ''Legacy reserved VLAN ID is not allowed'') (\<lambda>_.
        wbind (check_duplicate (ps_vlans ps) (site_vlan site vlan) (at_key path ''vlan_id'') (vlan_label site vlan)) (\<lambda>vlans.
        wbind (checked_int pool ''l2_instance_id'' path 1 16777215) (\<lambda>l2_instance.
        wbind (check_duplicate (ps_instances ps) l2_instance (at_key path ''l2_instance_id'') ''L2 instance id'') (\<lambda>instances.
        wret (ps\<lparr>ps_vlans := vlans, ps_instances := instances\<rparr>)))))))"

definition check_pool_prefix :: "pools_seen \<Rightarrow> (string \<times> json) list \<Rightarrow> string \<Rightarrow> pools_seen checked" where
  "check_pool_prefix ps pool path =
     (wbind (ipv4_network (val pool ''prefix'') (at_key path ''prefix'')) (\<lambda>net.
        wbind (ipv4_address (val pool ''gateway'') (at_key path ''gateway'')) (\<lambda>gateway.
        wbind (report_if (outside gateway net) ''pool.gateway.outside_prefix'' (at_key path ''gateway'')
            (outside_message ''Gateway'' gateway net)) (\<lambda>_.
        wret (ps\<lparr>ps_networks := note_net (ps_networks ps) (at_key path ''prefix'') net ''endpoint pool'',
                   ps_prefixes := ps_prefixes ps @ (case net of None \<Rightarrow> [] | Some n \<Rightarrow> [n])\<rparr>)))))"

definition check_pool ::
    "json \<Rightarrow> sites \<Rightarrow> inventory \<Rightarrow> networks_seen \<Rightarrow> pools_seen \<Rightarrow> nat \<times> json \<Rightarrow> pools_seen checked" where
  "check_pool version s iv ns ps = (\<lambda>(index, raw).
     let path = at_index ''$.endpoint_pools'' index in
     (wbind (mapping raw path) (\<lambda>pool.
        wbind (check_pool_refs version s ns ps pool path) (\<lambda>(site, ps1).
        wbind (check_pool_numbers ps1 pool site path) (\<lambda>ps2.
        wbind (check_pool_prefix ps2 pool path) (\<lambda>ps3.
        wbind (listing (val pool ''dhcp_helpers'') (at_key path ''dhcp_helpers'')) (\<lambda>helpers.
        wbind (report_if (helpers = []) ''pool.dhcp_helpers.empty'' (at_key path ''dhcp_helpers'')
            ''At least one external DHCP helper is required'') (\<lambda>_.
        wbind (w_each (\<lambda>(i, h). (wbind (ipv4_address h (at_index (at_key path ''dhcp_helpers'') i)) (\<lambda>_.
             wret ()))) (List.enumerate 0 helpers)) (\<lambda>_.
        wbind (check_dhcp iv helpers (val pool ''dhcp'') (at_key path ''dhcp'')) (\<lambda>_.
        wret ps3))))))))))"

definition check_pools ::
    "(string \<times> json) list \<Rightarrow> sites \<Rightarrow> inventory \<Rightarrow> networks_seen \<Rightarrow> named_net list \<Rightarrow> pools_seen checked" where
  "check_pools root s iv ns nets =
     (wbind (listing (val root ''endpoint_pools'') ''$.endpoint_pools'') (\<lambda>pools.
        w_fold (check_pool (val root ''schema_version'') s iv ns)
            \<lparr>ps_ids = [], ps_instances = [], ps_vlans = [], ps_prefixes = [], ps_networks = nets\<rparr> (List.enumerate 0 pools)))"

section \<open>From the schema to the pools\<close>

record topology =
  tp_environment :: "string option"
  tp_sites :: sites
  tp_inventory :: inventory
  tp_vns :: networks_seen
  tp_pools :: pools_seen

definition check_topology :: "((string \<times> json) list \<Rightarrow> schema_error list) \<Rightarrow> json \<Rightarrow> topology checked" where
  "check_topology schema_errors document =
     (wbind (mapping document ''$'') (\<lambda>root.
        wbind (check_schema (schema_errors root)) (\<lambda>_.
        wbind (walk_sensitive ''$'' (JObj root)) (\<lambda>_.
        wbind (check_version root) (\<lambda>_.
        wbind (check_metadata root) (\<lambda>environment.
        wbind (sites_of root) (\<lambda>s.
        wbind (check_fabric root) (\<lambda>_.
        wbind (check_devices root (st_ids s)) (\<lambda>devices.
        wbind (check_fusion_nodes root environment devices) (\<lambda>iv.
        wbind (check_role_counts environment iv) (\<lambda>_.
        wbind (check_links root iv) (\<lambda>nets.
        wbind (check_virtual_networks root) (\<lambda>vns.
        wbind (check_zones root s vns) (\<lambda>_.
        wbind (check_pools root s iv vns nets) (\<lambda>pools.
        wret \<lparr>tp_environment = environment, tp_sites = s, tp_inventory = iv, tp_vns = vns, tp_pools = pools\<rparr>)))))))))))))))"

end
