(* ===== verification/IntentLaws.thy ===== *)
theory IntentLaws
  imports HierarchyLaws IntentNetworks
begin

text \<open>
  What the accepted checks of devices, links and pools say of the document: the networks they
  collect and the references they follow.
\<close>

section \<open>Reading an accepted document\<close>

definition name_at :: "json \<Rightarrow> string \<Rightarrow> string" where
  "name_at v k = strip (py_str (field v k))"

definition addr_at :: "json \<Rightarrow> string \<Rightarrow> nat" where
  "addr_at v k = (case ip_of_json (field v k) of Inr (V4 a) \<Rightarrow> a | _ \<Rightarrow> 0)"

definition net_at :: "json \<Rightarrow> string \<Rightarrow> ipv4net" where
  "net_at v k = (case net_of_json (field v k) of Some (Some n) \<Rightarrow> n | _ \<Rightarrow> Net 0 0)"

lemma val_field: "val kvs k = field (JObj kvs) k"
  by (simp add: val_def field_def)

lemma required_string_name: "accepts (required_string kvs k p) x \<Longrightarrow> x = Some (name_at (JObj kvs) k)"
  by (auto simp: required_string_def name_at_def val_field acc split: if_splits)

lemma ipv4_address_accepts: "accepts (ipv4_address v p) x \<longleftrightarrow> (\<exists>a. ip_of_json v = Inr (V4 a) \<and> x = Some a)"
  by (auto simp: ipv4_address_def acc split: sum.splits ipaddr.splits)

lemma ipv4_address_at: "accepts (ipv4_address (val kvs k) p) x \<Longrightarrow> x = Some (addr_at (JObj kvs) k)"
  by (auto simp: ipv4_address_accepts addr_at_def val_field)

lemma ipv4_network_at: "accepts (ipv4_network (val kvs k) p) x \<Longrightarrow> x = Some (net_at (JObj kvs) k)"
  by (cases "net_of_json (val kvs k)") (auto simp: ipv4_network_def net_at_def val_field acc split: option.splits)

lemma accepts_option [acc]:
  "accepts (case v of None \<Rightarrow> m | Some x \<Rightarrow> f x) y \<longleftrightarrow> (case v of None \<Rightarrow> accepts m y | Some x \<Rightarrow> accepts (f x) y)"
  by (cases v) auto

lemma listing_val: "accepts (listing (val kvs k) p) xs \<Longrightarrow> xs = arr_items (field (JObj kvs) k)"
  by (auto simp: acc val_field)

text \<open>A loop whose accepted rounds append one item each.\<close>

lemma w_fold_collect:
  assumes "accepts (w_fold f s (List.enumerate n xs)) t"
    and "\<And>i x s t. x \<in> set xs \<Longrightarrow> accepts (f s (i, x)) t \<Longrightarrow> g t = g s @ [h x]"
  shows "g t = g s @ map h xs"
  using assms by (induction xs arbitrary: n s) (fastforce simp: acc)+

lemma w_fold_keeps:
  assumes "accepts (w_fold f s xs) t" and "\<And>x s t. x \<in> set xs \<Longrightarrow> accepts (f s x) t \<Longrightarrow> g t = g s"
  shows "g t = g s"
  using assms by (induction xs arbitrary: s) (fastforce simp: acc)+

lemma w_fold_each:
  assumes "accepts (w_fold f s (List.enumerate n xs)) t" and "x \<in> set xs"
  obtains i u v where "accepts (f u (i, x)) v"
  using assms by (induction xs arbitrary: n s) (fastforce simp: acc)+

lemma accepts_wbindE: "accepts (wbind m f) y \<Longrightarrow> (\<And>x. accepts m x \<Longrightarrow> accepts (f x) y \<Longrightarrow> P) \<Longrightarrow> P"
  by (auto simp: accepts_wbind)

section \<open>Overlaps\<close>

lemma disjoint_addrs: "\<not> overlaps m n \<Longrightarrow> addrs m \<inter> addrs n = {}"
  by (simp add: overlaps_iff)

lemma check_network_overlaps_accepts:
  "accepts (check_network_overlaps ns) () \<longleftrightarrow> sorted_wrt (\<lambda>m n. \<not> overlaps m n) (map (fst \<circ> snd) ns)"
  by (induction ns) (auto simp: acc check_overlap_def)

section \<open>Devices\<close>

lemma check_role_keeps:
  assumes "accepts (check_role path iv role) iv'"
  shows "(iv_ids iv', iv_networks iv') = (iv_ids iv, iv_networks iv)"
  using assms by (auto simp: check_role_def acc split: if_splits)

lemma check_roles_keeps:
  assumes "accepts (check_roles iv device i site path) iv'"
  shows "(iv_ids iv', iv_networks iv') = (iv_ids iv, iv_networks iv)"
proof -
  from assms obtain roles noted where
    c: "accepts (case i of None \<Rightarrow> wret iv
       | Some i \<Rightarrow> wbind (of_res (py_set roles)) (\<lambda>rs. wret (iv\<lparr>iv_roles := AList.update i rs (iv_roles iv),
           iv_sites := (case site of None \<Rightarrow> iv_sites iv | Some s \<Rightarrow> AList.update i s (iv_sites iv))\<rparr>))) noted"
    and f: "accepts (w_fold (check_role path) noted roles) iv'"
    unfolding check_roles_def accepts_wbind by blast
  from c have n: "(iv_ids noted, iv_networks noted) = (iv_ids iv, iv_networks iv)"
    by (cases i) (auto simp: acc)
  show ?thesis unfolding n [symmetric]
    by (rule w_fold_keeps [OF f, of "\<lambda>iv. (iv_ids iv, iv_networks iv)"]) (rule check_role_keeps)
qed

lemma check_deviceD:
  assumes "accepts (check_device version site_ids iv (i, raw)) iv'"
  shows "map fst (iv_ids iv') = map fst (iv_ids iv) @ [name_at raw ''id'']"
    and "map (fst \<circ> snd) (iv_networks iv') = map (fst \<circ> snd) (iv_networks iv) @ [Net (addr_at raw ''loopback0_ip'') 32]"
    and "name_at raw ''id'' \<notin> fst ` set (iv_ids iv)"
proof -
  let ?path = "at_index ''$.devices'' i"
  from assms obtain device device_id hostname site named addressed where
    d: "raw = JObj device" "accepts (required_string device ''id'' ?path) device_id"
      "accepts (check_names iv device_id hostname ?path) named" "accepts (check_addresses named device ?path) addressed"
      "accepts (check_roles addressed device device_id site ?path) iv'"
    unfolding check_device_def prod.case Let_def accepts_wbind mapping_accepts accepts_wret by blast
  from d(2) have i: "device_id = Some (name_at raw ''id'')" unfolding d(1) by (rule required_string_name)
  from d(3) have n: "map fst (iv_ids named) = map fst (iv_ids iv) @ [name_at raw ''id'']" "iv_networks named = iv_networks iv"
      "name_at raw ''id'' \<notin> fst ` set (iv_ids iv)"
    by (auto simp: check_names_def i acc map_of_eq_None_iff)
  from d(4) have a: "iv_ids addressed = iv_ids named"
      "map (fst \<circ> snd) (iv_networks addressed) = map (fst \<circ> snd) (iv_networks named) @ [Net (addr_at raw ''loopback0_ip'') 32]"
    by (auto simp: check_addresses_def d(1) acc dest!: ipv4_address_at)
  from check_roles_keeps [OF d(5)] n a show
    "map fst (iv_ids iv') = map fst (iv_ids iv) @ [name_at raw ''id'']"
    "map (fst \<circ> snd) (iv_networks iv') = map (fst \<circ> snd) (iv_networks iv) @ [Net (addr_at raw ''loopback0_ip'') 32]"
    "name_at raw ''id'' \<notin> fst ` set (iv_ids iv)" by simp_all
qed

lemma check_devicesD:
  assumes "accepts (check_devices root site_ids) iv"
  shows "map fst (iv_ids iv) = map (\<lambda>d. name_at d ''id'') (arr_items (field (JObj root) ''devices''))"
    and "map (fst \<circ> snd) (iv_networks iv)
      = map (\<lambda>d. Net (addr_at d ''loopback0_ip'') 32) (arr_items (field (JObj root) ''devices''))"
    and "distinct (map fst (iv_ids iv))"
proof -
  let ?f = "check_device (val root ''schema_version'') site_ids"
  from assms obtain devices where l: "devices = arr_items (field (JObj root) ''devices'')"
    and f: "accepts (w_fold ?f no_inventory (List.enumerate 0 devices)) iv"
    by (auto simp: check_devices_def accepts_wbind dest: listing_val)
  have "map fst (iv_ids iv) = map fst (iv_ids no_inventory) @ map (\<lambda>d. name_at d ''id'') devices"
    using f by (rule w_fold_collect) (rule check_deviceD)
  then show "map fst (iv_ids iv) = map (\<lambda>d. name_at d ''id'') (arr_items (field (JObj root) ''devices''))"
    by (simp add: no_inventory_def l)
  have "map (fst \<circ> snd) (iv_networks iv)
      = map (fst \<circ> snd) (iv_networks no_inventory) @ map (\<lambda>d. Net (addr_at d ''loopback0_ip'') 32) devices"
    using f by (rule w_fold_collect [where g = "\<lambda>iv. map (fst \<circ> snd) (iv_networks iv)"]) (rule check_deviceD)
  then show "map (fst \<circ> snd) (iv_networks iv)
      = map (\<lambda>d. Net (addr_at d ''loopback0_ip'') 32) (arr_items (field (JObj root) ''devices''))"
    by (simp add: no_inventory_def l)
  have "distinct (map fst (iv_ids t))" if "distinct (map fst (iv_ids s))" "accepts (?f s x) t" for s t x
    using check_deviceD(1,3) [of _ _ s "fst x" "snd x" t] that by simp
  then show "distinct (map fst (iv_ids iv))"
    by (rule w_fold_invariant [OF f, where P = "\<lambda>iv. distinct (map fst (iv_ids iv))", rotated])
      (simp_all add: no_inventory_def)
qed

lemma check_fusion_keeps:
  assumes "accepts (check_fusion iv x) iv'"
  shows "(iv_ids iv', iv_networks iv') = (iv_ids iv, iv_networks iv)"
proof -
  obtain index raw where x: "x = (index, raw)" by (cases x)
  let ?path = "at_index ''$.fusion_nodes'' index"
  from assms obtain fusion i asn iv1 hostnames iv2 where
    f: "accepts (check_fusion_id iv i ?path) iv1"
      "accepts (check_fusion_addresses (iv1\<lparr>iv_hostnames := hostnames\<rparr>) fusion ?path) iv2"
      "iv' = (case (i, asn) of (Some i, Some n) \<Rightarrow> iv2\<lparr>iv_asns := AList.update i n (iv_asns iv2)\<rparr> | _ \<Rightarrow> iv2)"
    unfolding check_fusion_def x prod.case Let_def accepts_wbind accepts_wret by blast
  have "(iv_ids iv1, iv_networks iv1) = (iv_ids iv, iv_networks iv)"
    using f(1) by (cases i) (auto simp: check_fusion_id_def acc)
  moreover have "(iv_ids iv2, iv_networks iv2) = (iv_ids iv1, iv_networks iv1)"
    using f(2) by (auto simp: check_fusion_addresses_def accepts_wbind accepts_wret)
  ultimately show ?thesis unfolding f(3) by (cases i; cases asn) simp_all
qed

lemma check_fusion_nodes_keeps:
  assumes "accepts (check_fusion_nodes root env iv) iv'"
  shows "(iv_ids iv', iv_networks iv') = (iv_ids iv, iv_networks iv)"
proof (cases "val root ''schema_version'' = JStr ''1.2''")
  case True
  with assms obtain xs where "accepts (w_fold check_fusion iv xs) iv'" by (auto simp: check_fusion_nodes_def acc)
  then show ?thesis by (rule w_fold_keeps [where g = "\<lambda>iv. (iv_ids iv, iv_networks iv)"]) (rule check_fusion_keeps)
qed (use assms in \<open>simp add: check_fusion_nodes_def acc\<close>)

section \<open>Links\<close>

lemma check_endpointD:
  assumes "accepts (check_endpoint iv (Some n) path (names, ips) (i, raw)) (names', ips')"
  shows "names' = names @ [name_at raw ''device_id'']" and "name_at raw ''device_id'' \<in> fst ` set (iv_ids iv)"
    and "map fst ips' = map fst ips @ [addr_at raw ''ip'']" and "addr_at raw ''ip'' \<notin> fst ` set ips"
    and "addr_at raw ''ip'' \<in> addrs n"
proof -
  let ?p = "at_index (at_key path ''endpoints'') i"
  from assms obtain endpoint device ip where
    e: "raw = JObj endpoint" "accepts (required_string endpoint ''device_id'' ?p) device" "\<not> unknown_key (iv_ids iv) device"
      "accepts (ipv4_address (val endpoint ''ip'') (at_key ?p ''ip'')) ip"
      "accepts (check_duplicate ips ip (at_key ?p ''ip'') ''link endpoint IP'') ips'" "\<not> outside ip (Some n)"
      "names' = names @ (case device of None \<Rightarrow> [] | Some d \<Rightarrow> [d])"
    unfolding check_endpoint_def prod.case Let_def accepts_wbind mapping_accepts accepts_wret accepts_report_if prod.inject by blast
  have d: "device = Some (name_at raw ''device_id'')" using e(2) unfolding e(1) by (rule required_string_name)
  have a: "ip = Some (addr_at raw ''ip'')" using e(4) unfolding e(1) by (rule ipv4_address_at)
  from e(3,5,6,7) show "names' = names @ [name_at raw ''device_id'']" "name_at raw ''device_id'' \<in> fst ` set (iv_ids iv)"
    "map fst ips' = map fst ips @ [addr_at raw ''ip'']" "addr_at raw ''ip'' \<notin> fst ` set ips" "addr_at raw ''ip'' \<in> addrs n"
    by (auto simp: d a unknown_key_def outside_def in_net_def addrs_def acc map_of_eq_None_iff)
qed

text \<open>A link joins two different devices of the intent, with two different addresses of its own /30 or /31.\<close>

definition link_ok :: "string set \<Rightarrow> json \<Rightarrow> bool" where
  "link_ok ids l \<longleftrightarrow>
     (\<exists>e1 e2. field l ''endpoints'' = JArr [e1, e2]
        \<and> name_at e1 ''device_id'' \<noteq> name_at e2 ''device_id'' \<and> {name_at e1 ''device_id'', name_at e2 ''device_id''} \<subseteq> ids
        \<and> addr_at e1 ''ip'' \<noteq> addr_at e2 ''ip'' \<and> {addr_at e1 ''ip'', addr_at e2 ''ip''} \<subseteq> addrs (net_at l ''subnet''))
     \<and> prefixlen (net_at l ''subnet'') \<in> {30, 31}"

lemma check_linkD:
  assumes "accepts (check_link iv (link_ids, nets) (i, raw)) (link_ids', nets')"
  shows "map (fst \<circ> snd) nets' = map (fst \<circ> snd) nets @ [net_at raw ''subnet'']" and "link_ok (fst ` set (iv_ids iv)) raw"
proof -
  let ?p = "at_index ''$.links'' i"
  from assms obtain link subnet endpoints names ips where
    l: "raw = JObj link" "accepts (ipv4_network (val link ''subnet'') (at_key ?p ''subnet'')) subnet"
      "\<not> wrong_p2p_length subnet" "accepts (listing (val link ''endpoints'') (at_key ?p ''endpoints'')) endpoints"
      "length endpoints = 2"
      "accepts (w_fold (check_endpoint iv subnet ?p) ([], []) (List.enumerate 0 endpoints)) (names, ips)"
      "\<not> (length names = 2 \<and> names ! 0 = names ! 1)"
      "nets' = note_net nets (at_key ?p ''subnet'') subnet ''underlay link''"
    unfolding check_link_def prod.case Let_def accepts_wbind mapping_accepts accepts_wret accepts_report_if split_paired_Ex
      prod.inject not_not
    by blast
  have n: "subnet = Some (net_at raw ''subnet'')" using l(2) unfolding l(1) by (rule ipv4_network_at)
  show "map (fst \<circ> snd) nets' = map (fst \<circ> snd) nets @ [net_at raw ''subnet'']" by (simp add: l(8) n note_net_def)
  obtain e1 e2 where e: "endpoints = [e1, e2]" using l(5) by (auto simp: length_Suc_conv numeral_2_eq_2)
  from l(6) obtain n1 i1 where e1: "accepts (check_endpoint iv (Some (net_at raw ''subnet'')) ?p ([], []) (0, e1)) (n1, i1)"
    and e2: "accepts (check_endpoint iv (Some (net_at raw ''subnet'')) ?p (n1, i1) (1, e2)) (names, ips)"
    unfolding e n by (auto simp: acc)
  note d1 = check_endpointD [OF e1] and d2 = check_endpointD [OF e2]
  have "fst ` set i1 = {addr_at e1 ''ip''}" using arg_cong [OF d1(3), of set] by simp
  moreover have "names = [name_at e1 ''device_id'', name_at e2 ''device_id'']" by (simp add: d1(1) d2(1))
  moreover have "field raw ''endpoints'' = JArr [e1, e2]"
    using l(4) by (simp add: e listing_accepts val_field l(1))
  ultimately show "link_ok (fst ` set (iv_ids iv)) raw"
    using d1 d2 l(3,7) unfolding link_ok_def
    by (intro conjI exI [of _ e1] exI [of _ e2]) (auto simp: n wrong_p2p_length_def)
qed

lemma check_linksD:
  assumes "accepts (check_links root iv) nets"
  shows "map (fst \<circ> snd) nets
      = map (fst \<circ> snd) (iv_networks iv) @ map (\<lambda>l. net_at l ''subnet'') (arr_items (field (JObj root) ''links''))"
    and "\<forall>l \<in> set (arr_items (field (JObj root) ''links'')). link_ok (fst ` set (iv_ids iv)) l"
proof -
  from assms obtain links seen where l: "links = arr_items (field (JObj root) ''links'')"
    and f: "accepts (w_fold (check_link iv) ([], iv_networks iv) (List.enumerate 0 links)) (seen, nets)"
    by (auto simp: check_links_def accepts_wbind accepts_wret dest: listing_val split: prod.splits)
  have "map (fst \<circ> snd) (snd (seen, nets)) = map (fst \<circ> snd) (snd ([] :: (string \<times> string) list, iv_networks iv))
      @ map (\<lambda>l. net_at l ''subnet'') links"
    using f
  proof (rule w_fold_collect [where g = "\<lambda>s. map (fst \<circ> snd) (snd s)"])
    fix i x s t
    assume "accepts (check_link iv s (i, x)) t"
    then show "map (fst \<circ> snd) (snd t) = map (fst \<circ> snd) (snd s) @ [net_at x ''subnet'']"
      using check_linkD(1) [of iv "fst s" "snd s" i x "fst t" "snd t"] by simp
  qed
  then show "map (fst \<circ> snd) nets
      = map (fst \<circ> snd) (iv_networks iv) @ map (\<lambda>l. net_at l ''subnet'') (arr_items (field (JObj root) ''links''))"
    by (simp add: l)
  have "link_ok (fst ` set (iv_ids iv)) x" if x: "x \<in> set links" for x
  proof -
    from f x obtain i u v where "accepts (check_link iv u (i, x)) v" by (rule w_fold_each)
    then show ?thesis using check_linkD(2) [of iv "fst u" "snd u" i x "fst v" "snd v"] by simp
  qed
  then show "\<forall>l \<in> set (arr_items (field (JObj root) ''links'')). link_ok (fst ` set (iv_ids iv)) l" by (simp add: l)
qed

section \<open>Pools\<close>

lemma check_poolD:
  assumes "accepts (check_pool version s iv ns ps (i, raw)) ps'"
  shows "map (fst \<circ> snd) (ps_networks ps') = map (fst \<circ> snd) (ps_networks ps) @ [net_at raw ''prefix'']"
proof -
  let ?p = "at_index ''$.endpoint_pools'' i"
  from assms obtain pool site ps1 ps2 where
    p: "raw = JObj pool" "accepts (check_pool_refs version s ns ps pool ?p) (site, ps1)"
      "accepts (check_pool_numbers ps1 pool site ?p) ps2" "accepts (check_pool_prefix ps2 pool ?p) ps'"
    unfolding check_pool_def prod.case Let_def accepts_wbind mapping_accepts accepts_wret split_paired_Ex by blast
  have "ps_networks ps1 = ps_networks ps" using p(2) by (auto simp: check_pool_refs_def accepts_wbind accepts_wret)
  moreover have "ps_networks ps2 = ps_networks ps1" using p(3) by (auto simp: check_pool_numbers_def accepts_wbind accepts_wret)
  moreover have "map (fst \<circ> snd) (ps_networks ps') = map (fst \<circ> snd) (ps_networks ps2) @ [net_at raw ''prefix'']"
    using p(4) by (auto simp: check_pool_prefix_def p(1) accepts_wbind accepts_wret note_net_def dest!: ipv4_network_at)
  ultimately show ?thesis by simp
qed

lemma check_poolsD:
  assumes "accepts (check_pools root s iv ns nets) ps"
  shows "map (fst \<circ> snd) (ps_networks ps)
    = map (fst \<circ> snd) nets @ map (\<lambda>p. net_at p ''prefix'') (arr_items (field (JObj root) ''endpoint_pools''))"
proof -
  from assms obtain pools where l: "pools = arr_items (field (JObj root) ''endpoint_pools'')"
    and f: "accepts (w_fold (check_pool (val root ''schema_version'') s iv ns)
      \<lparr>ps_ids = [], ps_instances = [], ps_vlans = [], ps_prefixes = [], ps_networks = nets\<rparr> (List.enumerate 0 pools)) ps"
    by (auto simp: check_pools_def accepts_wbind dest: listing_val)
  from f have "map (fst \<circ> snd) (ps_networks ps) = map (fst \<circ> snd) (ps_networks
      \<lparr>ps_ids = [], ps_instances = [], ps_vlans = [], ps_prefixes = [], ps_networks = nets\<rparr>) @ map (\<lambda>p. net_at p ''prefix'') pools"
    by (rule w_fold_collect [where g = "\<lambda>ps. map (fst \<circ> snd) (ps_networks ps)"]) (rule check_poolD)
  then show ?thesis by (simp add: l)
qed

section \<open>The whole of it\<close>

lemma check_topologyE:
  assumes "accepts (check_topology schema_errors doc) t"
  obtains root s devices iv nets where "doc = JObj root" "accepts (walk_sensitive ''$'' doc) ()" "tp_inventory t = iv"
    "tp_sites t = s" "accepts (sites_of root) s"
    "accepts (check_devices root (st_ids s)) devices" "iv_ids iv = iv_ids devices" "iv_networks iv = iv_networks devices"
    "accepts (check_links root iv) nets" "accepts (check_virtual_networks root) (tp_vns t)"
    "accepts (check_pools root s iv (tp_vns t) nets) (tp_pools t)"
proof -
  from assms obtain root u1 u2 u3 env s u4 devices iv u5 nets vns u6 pools where
    d: "accepts (mapping doc ''$'') root" "accepts (check_schema (schema_errors root)) u1"
      "accepts (walk_sensitive ''$'' (JObj root)) u2" "accepts (check_version root) u3"
      "accepts (check_metadata root) env" "accepts (sites_of root) s" "accepts (check_fabric root) u4"
      "accepts (check_devices root (st_ids s)) devices" "accepts (check_fusion_nodes root env devices) iv"
      "accepts (check_role_counts env iv) u5"
      "accepts (check_links root iv) nets" "accepts (check_virtual_networks root) vns" "accepts (check_zones root s vns) u6"
      "accepts (check_pools root s iv vns nets) pools"
      "accepts (wret \<lparr>tp_environment = env, tp_sites = s, tp_inventory = iv, tp_vns = vns, tp_pools = pools\<rparr>) t"
    unfolding check_topology_def by - (elim accepts_wbindE, rule that, assumption+)
  have "doc = JObj root" "t = \<lparr>tp_environment = env, tp_sites = s, tp_inventory = iv, tp_vns = vns, tp_pools = pools\<rparr>"
    using d(1,15) by (simp_all only: mapping_accepts accepts_wret)
  with check_fusion_nodes_keeps [OF d(9)] d show thesis by (intro that) simp_all
qed

end
