(* ===== verification/IntentHandoff.thy ===== *)
theory IntentHandoff
  imports IntentNetworks
begin

text \<open>
  The endpoint attachments and the border handoff in \<open>validate_intent\<close> (\<open>intent.py\<close>).
\<close>

section \<open>Tables of a document\<close>

text \<open>\<open>{str(item.get("id")): item for item in items if isinstance(item, Mapping) and item.get("id")}\<close>: the last one counts.\<close>

definition by_key :: "string \<Rightarrow> json list \<Rightarrow> (string \<times> (string \<times> json) list) list" where
  "by_key key items =
     rev (concat (map (\<lambda>item. case item of
        JObj kvs \<Rightarrow> (if truthy (val kvs key) then [(py_str (val kvs key), kvs)] else [])
      | _ \<Rightarrow> []) items))"

definition val_or :: "(string \<times> json) list \<Rightarrow> string \<Rightarrow> json \<Rightarrow> json" where
  "val_or kvs k d = (case map_of kvs k of None \<Rightarrow> d | Some v \<Rightarrow> v)"

section \<open>Endpoint attachments\<close>

definition endpoint_pair :: "json \<Rightarrow> (string \<times> string) list" where
  "endpoint_pair endpoint =
     (case endpoint of
        JObj kvs \<Rightarrow> [(py_str (val kvs ''device_id''), py_str (val kvs ''interface''))]
      | _ \<Rightarrow> [])"

definition link_pairs :: "(string \<times> string) list \<Rightarrow> json \<Rightarrow> (string \<times> string) list checked" where
  "link_pairs seen link =
     (case link of
        JObj kvs \<Rightarrow> (wbind (listing (val kvs ''endpoints'') ''$.links[].endpoints'') (\<lambda>endpoints.
           wret (seen @ concat (map endpoint_pair endpoints))))
      | _ \<Rightarrow> wret seen)"

definition link_interfaces :: "(string \<times> json) list \<Rightarrow> (string \<times> string) list checked" where
  "link_interfaces root =
     (wbind (listing (val root ''links'') ''$.links'') (\<lambda>links.
        w_fold link_pairs [] links))"

definition check_attachment_pool ::
    "(string \<times> json) list option \<Rightarrow> string option \<Rightarrow> string option \<Rightarrow> int option \<Rightarrow> string \<Rightarrow> unit checked" where
  "check_attachment_pool pool site vn vlan path =
     (case pool of
        None \<Rightarrow> report ''reference.endpoint_pool'' (at_key path ''endpoint_pool_id'') ''Unknown endpoint pool''
      | Some kvs \<Rightarrow>
          (wbind (report_if (case site of None \<Rightarrow> False | Some s \<Rightarrow> py_str (val kvs ''site'') \<noteq> s) ''attachment.pool.site''
                 (at_key path ''site'') ''Endpoint pool site does not match attachment'') (\<lambda>_.
             wbind (report_if (case vn of None \<Rightarrow> False | Some v \<Rightarrow> py_str (val kvs ''virtual_network'') \<noteq> v)
                 ''attachment.pool.virtual_network'' (at_key path ''virtual_network'') ''Endpoint pool VN does not match attachment'') (\<lambda>_.
             (case vlan of
                  None \<Rightarrow> wret ()
                | Some n \<Rightarrow> (wbind (of_res (py_int (val_or kvs ''vlan_id'' (JInt (-1))))) (\<lambda>pool_vlan.
                   report_if (pool_vlan \<noteq> n) ''attachment.pool.vlan'' (at_key path ''vlan_id'')
                                  ''Endpoint pool VLAN does not match attachment'')))))))"

type_synonym attachments_seen = "(string \<times> string) list \<times> ((string \<times> string) \<times> string) list"

definition both :: "'a option \<Rightarrow> 'b option \<Rightarrow> ('a \<times> 'b) option" where
  "both x y = (case (x, y) of (Some a, Some b) \<Rightarrow> Some (a, b) | _ \<Rightarrow> None)"

definition check_attachment ::
    "inventory \<Rightarrow> (string \<times> string) list \<Rightarrow> (string \<times> (string \<times> json) list) list \<Rightarrow> attachments_seen \<Rightarrow> nat \<times> json
       \<Rightarrow> attachments_seen checked" where
  "check_attachment iv interfaces pools = (\<lambda>(ids, taken) (index, raw).
     let path = at_index ''$.endpoint_attachments'' index in
     (wbind (mapping raw path) (\<lambda>attachment.
        wbind (required_string attachment ''id'' path) (\<lambda>attachment_id.
        wbind (required_string attachment ''device_id'' path) (\<lambda>device_id.
        wbind (required_string attachment ''interface'' path) (\<lambda>interface.
        wbind (required_string attachment ''site'' path) (\<lambda>site.
        wbind (required_string attachment ''virtual_network'' path) (\<lambda>vn.
        wbind (required_string attachment ''endpoint_pool_id'' path) (\<lambda>pool_id.
        wbind (checked_int attachment ''vlan_id'' path 1 4094) (\<lambda>vlan.
        wbind (check_duplicate ids attachment_id (at_key path ''id'') ''endpoint attachment id'') (\<lambda>ids'.
        wbind (check_duplicate taken (both device_id interface) (at_key path ''interface'') ''endpoint attachment interface'') (\<lambda>taken'.
        wbind (report_if (case device_id of None \<Rightarrow> False | Some d \<Rightarrow> \<not> has_role iv ''fabric_edge'' d) ''attachment.device.role''
            (at_key path ''device_id'') ''Endpoint attachment must target a fabric-edge device'') (\<lambda>_.
        wbind (report_if (case both device_id site of None \<Rightarrow> False | Some (d, s) \<Rightarrow> map_of (iv_sites iv) d \<noteq> Some s) ''attachment.site''
            (at_key path ''site'') ''Endpoint attachment site must match device site'') (\<lambda>_.
        wbind (report_if (case both device_id interface of None \<Rightarrow> False | Some p \<Rightarrow> p \<in> set interfaces) ''attachment.interface.fabric_link''
            (at_key path ''interface'') ''Endpoint attachment cannot reuse a fabric-link interface'') (\<lambda>_.
        wbind (check_attachment_pool (Option.bind pool_id (map_of pools)) site vn vlan path) (\<lambda>_.
        wret (ids', taken')))))))))))))))))"

definition check_attachments :: "(string \<times> json) list \<Rightarrow> inventory \<Rightarrow> unit checked" where
  "check_attachments root iv =
     (wbind (listing (val_or root ''endpoint_attachments'' (JArr [])) ''$.endpoint_attachments'') (\<lambda>attachments.
        wbind (link_interfaces root) (\<lambda>interfaces.
        wbind (w_fold (check_attachment iv interfaces (by_key ''id'' (arr_items (val root ''endpoint_pools'')))) ([], [])
            (List.enumerate 0 attachments)) (\<lambda>_.
        wret ()))))"

section \<open>Border handoff\<close>

definition check_handoff_mode :: "json \<Rightarrow> bool \<Rightarrow> string option \<Rightarrow> unit checked" where
  "check_handoff_mode mode enabled environment =
     (wbind ((if mode = JNull then wret True else one_of mode [''bgp'', ''isolated''])) (\<lambda>known.
        wbind (report_if (\<not> known) ''enum.border_handoff_mode'' ''$.border_handoff.mode''
            (''mode must be '' @ repr_str ''bgp'' @ '' or '' @ repr_str ''isolated'')) (\<lambda>_.
        wbind (report_if (mode = JStr ''isolated'' \<and> enabled) ''bgp.handoff.mode_conflict'' ''$.border_handoff''
            ''Isolated mode requires enabled=false'') (\<lambda>_.
        wbind (report_if (mode = JStr ''bgp'' \<and> \<not> enabled) ''bgp.handoff.mode_conflict'' ''$.border_handoff''
            ''BGP mode requires enabled=true'') (\<lambda>_.
        wbind (advise_if (mode = JStr ''isolated'') ''bgp.handoff.isolated'' ''$.border_handoff''
            ''Fabric is intentionally isolated and has no external Layer-3 handoff'') (\<lambda>_.
        report_if (environment = Some ''production'' \<and> (\<not> enabled \<or> mode = JStr ''isolated'')) ''bgp.handoff.required''
            ''$.border_handoff'' ''Production requires an enabled BGP/fusion border handoff''))))))"

record peers_seen =
  pr_keys :: "((string \<times> string \<times> string) \<times> string) list"
  pr_vlans :: "((string \<times> int) \<times> string) list"
  pr_borders :: "string list"
  pr_fusions :: "string list"
  pr_pairs :: "(string \<times> string) list"
  pr_redundant :: "((string \<times> string) \<times> string) list"
  pr_networks :: "named_net list"

definition check_peer_device :: "inventory \<Rightarrow> peers_seen \<Rightarrow> string option \<Rightarrow> string \<Rightarrow> peers_seen checked" where
  "check_peer_device iv pr device_id path =
     (case device_id of
        None \<Rightarrow> wret pr
      | Some d \<Rightarrow>
          (if map_of (iv_ids iv) d = None
           then (wbind (report ''reference.device'' (at_key path ''device_id'') (''Unknown device_id '' @ repr_str d)) (\<lambda>_.
              wret pr))
           else if \<not> has_role iv ''border'' d
           then (wbind (report ''bgp.peer.not_border'' (at_key path ''device_id'') ''BGP handoff peer must target a border device'') (\<lambda>_.
              wret pr))
           else wret (pr\<lparr>pr_borders := pr_borders pr @ [d]\<rparr>)))"

text \<open>\<open>isinstance(v, int)\<close>, which a truth value is, too.\<close>

fun int_value :: "json \<Rightarrow> int option" where
  "int_value (JInt i) = Some i"
| "int_value (JBool b) = Some (if b then 1 else 0)"
| "int_value _ = None"

definition check_peer_fusion ::
    "inventory \<Rightarrow> peers_seen \<Rightarrow> string option \<Rightarrow> (string \<times> string) option \<Rightarrow> json \<Rightarrow> string \<Rightarrow> peers_seen checked" where
  "check_peer_fusion iv pr fusion_id pair remote_as path =
     (case fusion_id of
        None \<Rightarrow> wret pr
      | Some f \<Rightarrow>
          (if map_of (iv_fusions iv) f = None
           then (wbind (report ''reference.fusion_node'' (at_key path ''fusion_node_id'') (''Unknown fusion node '' @ repr_str f)) (\<lambda>_.
              wret pr))
           else (wbind (report_if (case (int_value remote_as, map_of (iv_asns iv) f) of (Some r, Some a) \<Rightarrow> r \<noteq> a | _ \<Rightarrow> False)
                       ''bgp.remote_as.mismatch'' (at_key path ''remote_as'')
                       ''BGP remote AS does not match the referenced fusion node'') (\<lambda>_.
              wret (pr\<lparr>pr_fusions := pr_fusions pr @ [f],
                              pr_redundant := pr_redundant pr @ (case pair of None \<Rightarrow> [] | Some p \<Rightarrow> [(p, f)])\<rparr>)))))"

definition unusable :: "nat option \<Rightarrow> ipv4net option \<Rightarrow> bool" where
  "unusable address net =
     (case both address net of None \<Rightarrow> False | Some (a, n) \<Rightarrow> prefixlen n \<le> 30 \<and> (a = net_addr n \<or> a = broadcast n))"

definition unusable_message :: "nat option \<Rightarrow> ipv4net option \<Rightarrow> string" where
  "unusable_message address net =
     (case both address net of
        None \<Rightarrow> []
      | Some (a, n) \<Rightarrow> ''Address '' @ addr_str a @ '' is not a usable host in '' @ net_str n)"

definition check_peer_addresses :: "ipv4net option \<Rightarrow> nat option \<Rightarrow> nat option \<Rightarrow> string \<Rightarrow> unit checked" where
  "check_peer_addresses net local_ip neighbor_ip path =
     (wbind (report_if (wrong_p2p_length net) ''bgp.prefix_length'' (at_key path ''prefix'') ''BGP handoffs must use /31 or /30'') (\<lambda>_.
        wbind (report_if (outside local_ip net) ''bgp.local_ip.outside_prefix'' (at_key path ''local_ip'')
            (outside_message ''Address'' local_ip net)) (\<lambda>_.
        wbind (report_if (outside neighbor_ip net) ''bgp.neighbor_ip.outside_prefix'' (at_key path ''neighbor_ip'')
            (outside_message ''Address'' neighbor_ip net)) (\<lambda>_.
        wbind (report_if (unusable local_ip net) ''bgp.local_ip.not_usable'' (at_key path ''local_ip'') (unusable_message local_ip net)) (\<lambda>_.
        wbind (report_if (unusable neighbor_ip net) ''bgp.neighbor_ip.not_usable'' (at_key path ''neighbor_ip'')
            (unusable_message neighbor_ip net)) (\<lambda>_.
        report_if (case both local_ip neighbor_ip of None \<Rightarrow> False | Some (a, b) \<Rightarrow> a = b) ''bgp.peer.same_address'' path
            ''Local and neighbor addresses must differ''))))))"

definition peer_key :: "(string \<times> string) option \<Rightarrow> nat option \<Rightarrow> (string \<times> string \<times> string) option" where
  "peer_key pair neighbor_ip = map_option (\<lambda>((d, v), a). (d, v, addr_str a)) (both pair neighbor_ip)"

definition check_peer :: "json \<Rightarrow> inventory \<Rightarrow> networks_seen \<Rightarrow> peers_seen \<Rightarrow> nat \<times> json \<Rightarrow> peers_seen checked" where
  "check_peer version iv ns pr = (\<lambda>(index, raw).
     let path = at_index ''$.border_handoff.peers'' index in
     (wbind (mapping raw path) (\<lambda>peer.
        wbind (required_string peer ''device_id'' path) (\<lambda>device_id.
        wbind ((if version = JStr ''1.2'' then required_string peer ''fusion_node_id'' path else wret None)) (\<lambda>fusion_id.
        wbind (required_string peer ''vrf'' path) (\<lambda>vrf.
        wbind (required_string peer ''interface'' path) (\<lambda>_.
        wbind (checked_int peer ''vlan_id'' path 1 4094) (\<lambda>vlan.
        wbind (checked_int peer ''remote_as'' path 1 4294967295) (\<lambda>_.
        wbind (ipv4_network (val peer ''prefix'') (at_key path ''prefix'')) (\<lambda>net.
        wbind (ipv4_address (val peer ''local_ip'') (at_key path ''local_ip'')) (\<lambda>local_ip.
        wbind (ipv4_address (val peer ''neighbor_ip'') (at_key path ''neighbor_ip'')) (\<lambda>neighbor_ip.
        wbind (check_peer_device iv pr device_id path) (\<lambda>pr1.
        wbind (report_if (unknown_key (ns_vrfs ns) vrf) ''reference.vrf'' (at_key path ''vrf'') (''Unknown VRF '' @ repr_option vrf)) (\<lambda>_.
        wbind (check_peer_fusion iv pr1 fusion_id (both device_id vrf) (val peer ''remote_as'') path) (\<lambda>pr2.
        wbind (check_peer_addresses net local_ip neighbor_ip path) (\<lambda>_.
        wbind (check_duplicate (pr_keys pr2) (peer_key (both device_id vrf) neighbor_ip) path ''BGP peer'') (\<lambda>keys.
        wbind (check_duplicate (pr_vlans pr2) (both device_id vlan) (at_key path ''vlan_id'') ''handoff VLAN on device'') (\<lambda>vlans.
        wret (pr2\<lparr>pr_keys := keys, pr_vlans := vlans,
                    pr_pairs := pr_pairs pr2 @ (case both device_id vrf of None \<Rightarrow> [] | Some p \<Rightarrow> [p]),
                    pr_networks := note_net (pr_networks pr2) (at_key path ''prefix'') net ''BGP handoff''\<rparr>)))))))))))))))))))"

definition borders :: "inventory \<Rightarrow> string list" where
  "borders iv = map fst (filter (\<lambda>(i, rs). JStr ''border'' \<in> set rs) (iv_roles iv))"

definition check_border_vrf :: "string option \<Rightarrow> peers_seen \<Rightarrow> string \<Rightarrow> string \<Rightarrow> unit checked" where
  "check_border_vrf environment pr border vrf =
     (if (border, vrf) \<notin> set (pr_pairs pr)
      then report ''bgp.border_vrf_without_peer'' ''$.border_handoff.peers''
             (''Border '' @ repr_str border @ '' has no BGP handoff for VRF '' @ repr_str vrf)
      else report_if (environment = Some ''production''
               \<and> card (set (map snd (filter (\<lambda>e. fst e = (border, vrf)) (pr_redundant pr)))) < 2)
             ''bgp.border_vrf.insufficient_fusion_redundancy'' ''$.border_handoff.peers''
             (''Border '' @ repr_str border @ '' VRF '' @ repr_str vrf @ '' requires peers to at least two fusion nodes''))"

definition check_peer_coverage :: "json \<Rightarrow> string option \<Rightarrow> inventory \<Rightarrow> networks_seen \<Rightarrow> peers_seen \<Rightarrow> unit checked" where
  "check_peer_coverage version environment iv ns pr =
     (wbind (w_each (\<lambda>b. report_if (b \<notin> set (pr_borders pr)) ''bgp.border_without_peer'' ''$.border_handoff.peers''
            (''Border device '' @ repr_str b @ '' has no BGP handoff peer'')) (borders iv)) (\<lambda>_.
        (if version \<noteq> JStr ''1.2'' then wret ()
           else (wbind (w_each (\<lambda>f. report_if (f \<notin> set (pr_fusions pr)) ''bgp.fusion_without_peer'' ''$.border_handoff.peers''
                       (''Fusion node '' @ repr_str f @ '' has no BGP handoff peer'')) (sort (map fst (iv_fusions iv)))) (\<lambda>_.
              w_each (\<lambda>b. w_each (check_border_vrf environment pr b) (sort (map fst (ns_vrfs ns)))) (sort (borders iv)))))))"

definition check_peers ::
    "json \<Rightarrow> string option \<Rightarrow> inventory \<Rightarrow> networks_seen \<Rightarrow> named_net list \<Rightarrow> (string \<times> json) list \<Rightarrow> named_net list checked" where
  "check_peers version environment iv ns nets handoff =
     (wbind (checked_int handoff ''local_as'' ''$.border_handoff'' 1 4294967295) (\<lambda>_.
        wbind (listing (val handoff ''peers'') ''$.border_handoff.peers'') (\<lambda>peers.
        wbind (report_if (peers = []) ''bgp.peers.empty'' ''$.border_handoff.peers'' ''At least one BGP peer is required'') (\<lambda>_.
        wbind (w_fold (check_peer version iv ns)
            \<lparr>pr_keys = [], pr_vlans = [], pr_borders = [], pr_fusions = [], pr_pairs = [], pr_redundant = [], pr_networks = nets\<rparr>
            (List.enumerate 0 peers)) (\<lambda>pr.
        wbind (check_peer_coverage version environment iv ns pr) (\<lambda>_.
        wret (pr_networks pr)))))))"

text \<open>The handoff, empty when there is none, and the networks with those of its peers.\<close>

definition check_handoff ::
    "(string \<times> json) list \<Rightarrow> string option \<Rightarrow> inventory \<Rightarrow> networks_seen \<Rightarrow> named_net list
       \<Rightarrow> ((string \<times> json) list \<times> named_net list) checked" where
  "check_handoff root environment iv ns nets =
     (wbind ((if val root ''border_handoff'' = JNull then wret [] else mapping (val root ''border_handoff'') ''$.border_handoff'')) (\<lambda>handoff.
        let raw = val_or handoff ''enabled'' (JBool False) in
        wbind (report_if (\<not> is_bool raw) ''type.boolean'' ''$.border_handoff.enabled'' ''enabled must be boolean'') (\<lambda>_.
        wbind (check_handoff_mode (val handoff ''mode'') (raw = JBool True) environment) (\<lambda>_.
        wbind ((if raw = JBool True then check_peers (val root ''schema_version'') environment iv ns nets handoff else wret nets)) (\<lambda>nets'.
        wret (handoff, nets'))))))"

end
