(* ===== verification/IntentServices.thy ===== *)
theory IntentServices
  imports IntentHandoff
begin

text \<open>
  The shared services of schema 1.2 in \<open>validate_intent\<close> (\<open>intent.py\<close>): the attachments of the
  fusion nodes and the services with their prefixes, addresses and consumers.
\<close>

section \<open>Attachments\<close>

record service_seen =
  sv_ids :: "(string \<times> string) list"
  sv_fusions :: "(string \<times> string) list"
  sv_networks :: "named_net list"

definition check_service_fusion ::
    "inventory \<Rightarrow> (string \<times> string) list \<Rightarrow> string option \<Rightarrow> string \<Rightarrow> (string \<times> string) list checked" where
  "check_service_fusion iv fusions fusion_id path =
     (wbind (report_if (unknown_key (iv_fusions iv) fusion_id) ''reference.fusion_node'' (at_key path ''fusion_node_id'')
            (''Unknown fusion node '' @ repr_option fusion_id)) (\<lambda>_.
        check_duplicate fusions fusion_id (at_key path ''fusion_node_id'') ''fusion shared-service attachment''))"

definition outside_text :: "nat option \<Rightarrow> ipv4net option \<Rightarrow> string" where
  "outside_text address net =
     (case both address net of None \<Rightarrow> [] | Some (a, n) \<Rightarrow> ''Address '' @ addr_str a @ '' is outside '' @ net_str n)"

definition check_service_address :: "ipv4net option \<Rightarrow> string \<Rightarrow> string \<times> nat option \<Rightarrow> unit checked" where
  "check_service_address net path = (\<lambda>(name, address).
     (wbind (report_if (outside address net) ''shared_service.attachment.address_outside_prefix'' (at_key path name)
            (outside_text address net)) (\<lambda>_.
        report_if (unusable address net) ''shared_service.attachment.address_not_usable'' (at_key path name)
            (unusable_message address net))))"

definition check_service_attachment :: "inventory \<Rightarrow> service_seen \<Rightarrow> nat \<times> json \<Rightarrow> service_seen checked" where
  "check_service_attachment iv sv = (\<lambda>(index, raw).
     let path = at_index ''$.shared_services.attachments'' index in
     (wbind (mapping raw path) (\<lambda>attachment.
        wbind (required_string attachment ''id'' path) (\<lambda>attachment_id.
        wbind (required_string attachment ''fusion_node_id'' path) (\<lambda>fusion_id.
        wbind (required_string attachment ''interface'' path) (\<lambda>_.
        wbind (checked_int attachment ''vlan_id'' path 1 4094) (\<lambda>_.
        wbind (check_duplicate (sv_ids sv) attachment_id (at_key path ''id'') ''shared-service attachment id'') (\<lambda>ids.
        wbind (check_service_fusion iv (sv_fusions sv) fusion_id path) (\<lambda>fusions.
        wbind (ipv4_network (val attachment ''prefix'') (at_key path ''prefix'')) (\<lambda>net.
        wbind (ipv4_address (val attachment ''local_ip'') (at_key path ''local_ip'')) (\<lambda>local_ip.
        wbind (ipv4_address (val attachment ''next_hop'') (at_key path ''next_hop'')) (\<lambda>next_hop.
        wbind (report_if (wrong_p2p_length net) ''shared_service.attachment.prefix_length'' (at_key path ''prefix'')
            ''Shared-service handoffs must use /30 or /31'') (\<lambda>_.
        wbind (w_each (check_service_address net path) [(''local_ip'', local_ip), (''next_hop'', next_hop)]) (\<lambda>_.
        wbind (report_if (case both local_ip next_hop of None \<Rightarrow> False | Some (a, b) \<Rightarrow> a = b) ''shared_service.attachment.same_address''
            path ''Shared-service local and next-hop addresses must differ'') (\<lambda>_.
        wret \<lparr>sv_ids = ids, sv_fusions = fusions,
                sv_networks = note_net (sv_networks sv) (at_key path ''prefix'') net ''shared-service handoff''\<rparr>)))))))))))))))"

definition check_service_coverage :: "string option \<Rightarrow> inventory \<Rightarrow> service_seen \<Rightarrow> unit checked" where
  "check_service_coverage environment iv sv =
     (if environment \<noteq> Some ''production'' then wret ()
      else w_each (\<lambda>f. report_if (map_of (sv_fusions sv) f = None) ''shared_service.attachment.missing''
             ''$.shared_services.attachments'' (''Fusion node '' @ repr_str f @ '' has no shared-service attachment''))
             (sort (map fst (iv_fusions iv))))"

section \<open>Services\<close>

definition check_service_prefix :: "ipv4net list \<Rightarrow> string \<Rightarrow> ipv4net list \<Rightarrow> nat \<times> json \<Rightarrow> ipv4net list checked" where
  "check_service_prefix pools service_path nets = (\<lambda>(index, raw).
     let path = at_index (at_key service_path ''prefixes'') index in
     (wbind (ipv4_network raw path) (\<lambda>net.
        (case net of
             None \<Rightarrow> wret nets
           | Some n \<Rightarrow> (wbind (report_if (list_ex (overlaps n) pools) ''shared_service.prefix.overlap'' path
                             (''Shared-service prefix '' @ net_str n @ '' overlaps fabric endpoint space'')) (\<lambda>_.
              wret (nets @ [n])))))))"

definition check_service_member :: "ipv4net list \<Rightarrow> string \<Rightarrow> nat \<times> json \<Rightarrow> unit checked" where
  "check_service_member nets service_path = (\<lambda>(index, raw).
     let path = at_index (at_key service_path ''addresses'') index in
     (wbind (ipv4_address raw path) (\<lambda>address.
        (case address of
             None \<Rightarrow> wret ()
           | Some a \<Rightarrow> report_if (nets \<noteq> [] \<and> \<not> list_ex (in_net a) nets) ''shared_service.address.outside_prefix'' path
                        (''Address '' @ addr_str a @ '' is outside the service prefixes'')))))"

definition check_consumer :: "networks_seen \<Rightarrow> string \<Rightarrow> nat \<times> json \<Rightarrow> unit checked" where
  "check_consumer ns service_path = (\<lambda>(index, consumer).
     (wbind (one_of consumer (map fst (ns_names ns))) (\<lambda>known.
        report_if (\<not> known) ''reference.virtual_network'' (at_index (at_key service_path ''consumer_virtual_networks'') index)
            (''Unknown virtual network '' @ py_repr consumer))))"

definition check_service ::
    "networks_seen \<Rightarrow> ipv4net list \<Rightarrow> (string \<times> string) list \<Rightarrow> nat \<times> json \<Rightarrow> (string \<times> string) list checked" where
  "check_service ns pools ids = (\<lambda>(index, raw).
     let path = at_index ''$.shared_services.services'' index in
     (wbind (mapping raw path) (\<lambda>service.
        wbind (required_string service ''id'' path) (\<lambda>service_id.
        wbind (check_duplicate ids service_id (at_key path ''id'') ''shared service id'') (\<lambda>ids'.
        wbind (listing (val service ''prefixes'') (at_key path ''prefixes'')) (\<lambda>raw_prefixes.
        wbind (w_fold (check_service_prefix pools path) [] (List.enumerate 0 raw_prefixes)) (\<lambda>nets.
        wbind (listing (val service ''addresses'') (at_key path ''addresses'')) (\<lambda>addresses.
        wbind (w_each (check_service_member nets path) (List.enumerate 0 addresses)) (\<lambda>_.
        wbind (listing (val service ''consumer_virtual_networks'') (at_key path ''consumer_virtual_networks'')) (\<lambda>consumers.
        wbind (w_each (check_consumer ns path) (List.enumerate 0 consumers)) (\<lambda>_.
        wret ids')))))))))))"

text \<open>The section, its VRF, and the networks with those of its attachments.\<close>

definition check_shared ::
    "(string \<times> json) list \<Rightarrow> string option \<Rightarrow> inventory \<Rightarrow> networks_seen \<Rightarrow> ipv4net list \<Rightarrow> named_net list
       \<Rightarrow> ((string \<times> json) list \<times> string option \<times> named_net list) checked" where
  "check_shared root environment iv ns pools nets =
     (wbind (mapping (val root ''shared_services'') ''$.shared_services'') (\<lambda>shared.
        wbind (required_string shared ''vrf'' ''$.shared_services'') (\<lambda>vrf.
        wbind (report_if (unknown_key (ns_vrfs ns) vrf) ''reference.shared_services_vrf'' ''$.shared_services.vrf''
            (''Unknown shared-services VRF '' @ repr_option vrf)) (\<lambda>_.
        wbind (listing (val shared ''attachments'') ''$.shared_services.attachments'') (\<lambda>attachments.
        wbind (w_fold (check_service_attachment iv) \<lparr>sv_ids = [], sv_fusions = [], sv_networks = nets\<rparr>
            (List.enumerate 0 attachments)) (\<lambda>sv.
        wbind (check_service_coverage environment iv sv) (\<lambda>_.
        wbind (listing (val shared ''services'') ''$.shared_services.services'') (\<lambda>services.
        wbind (w_fold (check_service ns pools) [] (List.enumerate 0 services)) (\<lambda>_.
        wret (shared, vrf, sv_networks sv))))))))))"

end
