(* ===== verification/IntentMulticast.thy ===== *)
theory IntentMulticast
  imports IntentServices Gates
begin

text \<open>
  The multicast section of schema 1.2 in \<open>validate_intent\<close> (\<open>intent.py\<close>): rendezvous points,
  alignment with the fabric, modes, overlay policies and the groups for broadcast, unknown unicast
  and multicast traffic.
\<close>

section \<open>Equality of values\<close>

text \<open>\<open>v == w\<close>: a truth value equals its number, objects are equal as maps.\<close>

function py_eq :: "json \<Rightarrow> json \<Rightarrow> bool" where
  "py_eq (JInt i) w = (int_value w = Some i)"
| "py_eq (JBool b) w = (int_value w = Some (if b then 1 else 0))"
| "py_eq (JArr xs) w =
     (case w of JArr ys \<Rightarrow> length xs = length ys \<and> (\<forall>i < length xs. py_eq (xs ! i) (ys ! i)) | _ \<Rightarrow> False)"
| "py_eq (JObj kvs) w =
     (case w of
        JObj lws \<Rightarrow> length kvs = length lws
          \<and> (\<forall>(k, v) \<in> set kvs. case map_of lws k of None \<Rightarrow> False | Some u \<Rightarrow> py_eq v u)
      | _ \<Rightarrow> False)"
| "py_eq JNull w = (w = JNull)"
| "py_eq (JStr s) w = (w = JStr s)"
  by pat_completeness auto

lemma nth_size_le: "i < length xs \<Longrightarrow> size (xs ! i) \<le> size_list size (xs :: json list)"
proof (induction xs arbitrary: i)
  case (Cons x xs)
  then show ?case by (cases i) (auto simp: Suc_le_eq intro: le_SucI trans_le_add2)
qed simp

lemma nth_size: "i < length xs \<Longrightarrow> size (xs ! i) < Suc (size_list size (xs :: json list))"
  by (simp add: less_Suc_eq_le nth_size_le)

termination py_eq
  by (relation "measure (size \<circ> fst)") (auto simp: nth_size intro: pair_size)

definition json_str :: "string option \<Rightarrow> json" where
  "json_str s = (case s of None \<Rightarrow> JNull | Some t \<Rightarrow> JStr t)"

definition json_int :: "int option \<Rightarrow> json" where
  "json_int i = (case i of None \<Rightarrow> JNull | Some n \<Rightarrow> JInt n)"

definition obj_of :: "json \<Rightarrow> (string \<times> json) list" where
  "obj_of v = (case v of JObj kvs \<Rightarrow> kvs | _ \<Rightarrow> [])"

section \<open>Rendezvous points and alignment\<close>

definition check_rp_device :: "inventory \<Rightarrow> nat \<times> json \<Rightarrow> unit checked" where
  "check_rp_device iv = (\<lambda>(index, device).
     let path = at_index ''$.multicast.rp_device_ids'' index in
     (wbind (one_of device (map fst (iv_ids iv))) (\<lambda>known.
        (if \<not> known then report ''reference.device'' path (''Unknown RP device '' @ py_repr device)
           else report_if (\<not> has_role iv ''border'' (py_str device)) ''multicast.rp.not_border'' path
                  ''Multicast RP devices must be border nodes''))))"

definition check_rp_address :: "(string \<times> json) list \<Rightarrow> bool \<Rightarrow> unit checked" where
  "check_rp_address multicast enabled =
     (if \<not> enabled then wret ()
      else (wbind (one_of (val multicast ''rp_mode'') [''anycast'', ''static'']) (\<lambda>needed.
         (if needed then (wbind (ipv4_address (val multicast ''rp_address'') ''$.multicast.rp_address'') (\<lambda>_.
                   wret ())) else wret ()))))"

definition check_aligned :: "(string \<times> json) list \<Rightarrow> (string \<times> json) list \<Rightarrow> string \<Rightarrow> unit checked" where
  "check_aligned multicast fabric_multicast key =
     report_if (\<not> py_eq (val fabric_multicast key) (val multicast key)) ''multicast.fabric_alignment''
       (at_key ''$.fabric.multicast'' key) (''Fabric multicast '' @ key @ '' must match the top-level multicast intent'')"

definition check_alignment :: "(string \<times> json) list \<Rightarrow> json \<Rightarrow> json list \<Rightarrow> unit checked" where
  "check_alignment multicast fabric_multicast_raw rp_devices =
     (wbind (mapping fabric_multicast_raw ''$.fabric.multicast'') (\<lambda>fabric_multicast.
        wbind (w_each (check_aligned multicast fabric_multicast) [''enabled'', ''transport'', ''rp_address'']) (\<lambda>_.
        wbind (of_res (elems (val_or fabric_multicast ''rp_device_ids'' (JArr [])))) (\<lambda>raw.
        wbind (of_res (py_sorted raw)) (\<lambda>fabric_rps.
        wbind (of_res (py_sorted rp_devices)) (\<lambda>rps.
        report_if (\<not> py_eq (JArr fabric_rps) (JArr rps)) ''multicast.fabric_alignment'' ''$.fabric.multicast.rp_device_ids''
            ''Fabric multicast RP devices must match the top-level multicast intent''))))))"

definition check_pim_link :: "nat \<times> json \<Rightarrow> unit checked" where
  "check_pim_link = (\<lambda>(index, link).
     (wbind (of_res (jget link ''pim_sparse_mode'')) (\<lambda>pim.
        report_if (\<not> truthy pim) ''multicast.native.pim_required'' (at_key (at_index ''$.links'' index) ''pim_sparse_mode'')
            ''Native multicast requires PIM sparse mode on every fabric link'')))"

section \<open>Modes\<close>

definition ssm_space :: ipv4net where
  "ssm_space = Net 3892314112 8"

definition multicast_space :: ipv4net where
  "multicast_space = Net 3758096384 4"

definition vn_set :: "(string \<times> json) list \<Rightarrow> string \<Rightarrow> json list checked" where
  "vn_set multicast key =
     (wbind (listing (val_or multicast key (JArr [])) (at_key ''$.multicast'' key)) (\<lambda>raw.
        wbind (of_res (py_set raw)) (\<lambda>vns.
        wret (remdups vns))))"

definition not_inside :: "ipv4net option \<Rightarrow> ipv4net \<Rightarrow> bool" where
  "not_inside net space = (case net of None \<Rightarrow> False | Some n \<Rightarrow> \<not> subnet_of n space)"

text \<open>The virtual networks in each mode and the source-specific range.\<close>

definition check_modes ::
    "(string \<times> json) list \<Rightarrow> networks_seen \<Rightarrow> bool \<Rightarrow> (json list \<times> json list \<times> ipv4net option) checked" where
  "check_modes multicast ns enabled =
     (wbind (vn_set multicast ''asm_virtual_networks'') (\<lambda>asm.
        wbind (vn_set multicast ''ssm_virtual_networks'') (\<lambda>ssm.
        wbind (ipv4_network (val multicast ''ssm_range'') ''$.multicast.ssm_range'') (\<lambda>ssm_range.
        wbind (report_if (not_inside ssm_range ssm_space) ''multicast.ssm_range'' ''$.multicast.ssm_range''
            ''SSM range must be inside 232.0.0.0/8'') (\<lambda>_.
        wbind (report_if (enabled \<and> asm \<noteq> [] \<and> val multicast ''rp_mode'' = JStr ''none'') ''multicast.asm.rp_required''
            ''$.multicast.rp_mode'' ''ASM virtual networks require a static or Anycast rendezvous point'') (\<lambda>_.
        wbind (of_res (py_sorted (remdups (asm @ ssm)))) (\<lambda>union.
        wbind (w_each (\<lambda>v. report_if (v \<notin> JStr ` fst ` set (ns_names ns)) ''reference.virtual_network'' ''$.multicast''
            (''Unknown multicast virtual network '' @ py_repr v)) union) (\<lambda>_.
        wbind (of_res (py_sorted (filter (\<lambda>v. v \<in> set ssm) asm))) (\<lambda>shared.
        wbind (w_each (\<lambda>v. report ''multicast.mode_conflict'' ''$.multicast''
            (''Virtual network '' @ py_repr v @ '' cannot use both ASM and SSM'')) shared) (\<lambda>_.
        wret (asm, ssm, ssm_range)))))))))))"

section \<open>Overlay policies\<close>

record overlay_seen =
  ov_names :: "(string \<times> string) list"
  ov_lists :: "(string \<times> string) list"
  ov_segments :: "(nat \<times> string) list"
  ov_cores :: "(string \<times> ipv4net) list"
  ov_networks :: "named_net list"

text \<open>\<open>re.fullmatch(r"SDA-...-[A-F0-9]{12}", s)\<close>\<close>

definition owned_name :: "string \<Rightarrow> string \<Rightarrow> bool" where
  "owned_name start s \<longleftrightarrow> starts_with s start \<and> length s = length start + 12
     \<and> list_all (\<lambda>c. is_digit c \<or> (CHR ''A'' \<le> c \<and> c \<le> CHR ''F'')) (drop (length start) s)"

definition check_access_list :: "(string \<times> string) list \<Rightarrow> string option \<Rightarrow> string \<Rightarrow> (string \<times> string) list checked" where
  "check_access_list seen access_list path =
     (wbind (check_duplicate seen access_list (at_key path ''access_list'') ''multicast overlay access list'') (\<lambda>seen'.
        wbind (report_if (case access_list of None \<Rightarrow> False | Some a \<Rightarrow> \<not> owned_name ''SDA-MCAST-'' a) ''multicast.overlay.access_list''
            (at_key path ''access_list'') ''Multicast access-list name must be an owned deterministic name'') (\<lambda>_.
        wret seen')))"

definition overlay_mode_of :: "json list \<Rightarrow> json list \<Rightarrow> string \<Rightarrow> string option" where
  "overlay_mode_of asm ssm vn =
     (if JStr vn \<in> set asm then Some ''asm'' else if JStr vn \<in> set ssm then Some ''ssm'' else None)"

definition check_overlay_vn ::
    "(string \<times> (string \<times> json) list) list \<Rightarrow> json list \<Rightarrow> json list \<Rightarrow> (string \<times> string) list \<Rightarrow> string option \<Rightarrow> string option
       \<Rightarrow> string option \<Rightarrow> int option \<Rightarrow> string \<Rightarrow> (string \<times> string) list checked" where
  "check_overlay_vn vns asm ssm names vn_name mode vrf instance_id path =
     (case vn_name of
        None \<Rightarrow> wret names
      | Some n \<Rightarrow>
          (wbind (check_duplicate names (Some n) (at_key path ''virtual_network'') ''multicast overlay virtual network'') (\<lambda>names'.
             wbind ((case map_of vns n of
                  None \<Rightarrow> report ''reference.virtual_network'' (at_key path ''virtual_network'')
                           (''Unknown multicast virtual network '' @ repr_str n)
                | Some vn \<Rightarrow>
                    (wbind (report_if (json_str vrf \<noteq> val vn ''vrf'') ''multicast.overlay.vrf_mismatch'' (at_key path ''vrf'')
                           ''Multicast overlay VRF must match the virtual network'') (\<lambda>_.
                       report_if (\<not> py_eq (json_int instance_id) (val vn ''l3_instance_id'')) ''multicast.overlay.instance_mismatch''
                           (at_key path ''l3_instance_id'') ''Multicast overlay instance ID must match the virtual network'')))) (\<lambda>_.
             wbind (report_if (mode \<noteq> overlay_mode_of asm ssm n) ''multicast.overlay.mode_mismatch'' (at_key path ''mode'')
                 ''Multicast overlay mode must match the ASM/SSM selection'') (\<lambda>_.
             wret names')))))"

definition check_group_range :: "ipv4net option \<Rightarrow> string option \<Rightarrow> ipv4net option \<Rightarrow> string \<Rightarrow> unit checked" where
  "check_group_range net mode ssm_range path =
     (wbind (report_if (not_inside net multicast_space) ''multicast.overlay.group_range'' (at_key path ''group_range'')
            ''Overlay group range must be an IPv4 multicast prefix'') (\<lambda>_.
        wbind (report_if (mode = Some ''ssm'' \<and> (case ssm_range of None \<Rightarrow> False | Some r \<Rightarrow> not_inside net r))
            ''multicast.overlay.ssm_range'' (at_key path ''group_range'')
            ''SSM overlay group range must be inside the fabric SSM range'') (\<lambda>_.
        report_if (mode = Some ''asm'' \<and> (case net of None \<Rightarrow> False | Some n \<Rightarrow> overlaps n ssm_space))
            ''multicast.overlay.asm_range'' (at_key path ''group_range'') ''ASM overlay group range cannot overlap SSM space'')))"

definition check_overlay_rp :: "(string \<times> json) list \<Rightarrow> string option \<Rightarrow> string \<Rightarrow> unit checked" where
  "check_overlay_rp policy mode path =
     (if mode = Some ''asm''
      then (wbind (ipv4_address (val policy ''rp_address'') (at_key path ''rp_address'')) (\<lambda>rp.
         wbind (ipv4_network (val policy ''rp_prefix'') (at_key path ''rp_prefix'')) (\<lambda>net.
         wbind (report_if (case rp of None \<Rightarrow> False | Some a \<Rightarrow> ip_multicast (V4 a)) ''multicast.overlay.rp_address''
                  (at_key path ''rp_address'') ''Overlay RP address must be unicast'') (\<lambda>_.
         report_if (outside rp net) ''multicast.overlay.rp_prefix'' (at_key path ''rp_address'')
                  ''Overlay RP address must be inside rp_prefix''))))
      else report_if (has_key policy ''rp_address'' \<or> has_key policy ''rp_prefix'') ''multicast.overlay.rp_unexpected'' path
             ''SSM overlay policy cannot declare an RP'')"

definition multicast_devices :: "inventory \<Rightarrow> string list" where
  "multicast_devices iv =
     map fst (filter (\<lambda>(i, rs). JStr ''border'' \<in> set rs \<or> JStr ''fabric_edge'' \<in> set rs) (iv_roles iv))"

text \<open>The devices seen (\<open>None\<close> where the name was refused), the addresses seen, and the networks.\<close>

type_synonym segments_seen = "string option list \<times> (nat \<times> string) list \<times> named_net list"

definition check_segment :: "string list \<Rightarrow> string \<Rightarrow> segments_seen \<Rightarrow> nat \<times> json \<Rightarrow> segments_seen checked" where
  "check_segment expected policy_path = (\<lambda>(devices, segments, nets) (index, raw).
     let path = at_index (at_key policy_path ''segment_loopbacks'') index in
     (wbind (mapping raw path) (\<lambda>loopback.
        wbind (required_string loopback ''device_id'' path) (\<lambda>device_id.
        wbind (ipv4_address (val loopback ''address'') (at_key path ''address'')) (\<lambda>address.
        wbind (report_if (device_id \<in> set devices) ''unique.duplicate'' (at_key path ''device_id'')
            ''Duplicate multicast segment-loopback device'') (\<lambda>_.
        wbind (report_if (device_id \<notin> Some ` set expected) ''multicast.overlay.loopback_device'' (at_key path ''device_id'')
            ''Segment loopbacks are allowed only on border and fabric-edge devices'') (\<lambda>_.
        wbind (check_duplicate segments address (at_key path ''address'') ''multicast segment-loopback address'') (\<lambda>segments'.
        wret (devices @ [device_id], segments',
                note_net nets (at_key path ''address'') (map_option (\<lambda>a. Net a 32) address) ''multicast segment loopback'')))))))))"

definition check_core_start :: "ipv4net \<Rightarrow> nat option \<Rightarrow> string \<Rightarrow> unit checked" where
  "check_core_start core start path =
     (wbind (of_res (if net_addr core + 1 < 2 ^ 32 then Inr (net_addr core + 1)
            else Inl (ValueError ''4294967296 (>= 2**32) is not permitted as an IPv4 address''))) (\<lambda>expected.
        report_if (case start of None \<Rightarrow> False | Some a \<Rightarrow> a \<noteq> expected) ''multicast.overlay.core_group_start''
            (at_key path ''core_group.start'') ''Core group start must be the first address after the network boundary''))"

definition check_core_prefix ::
    "(string \<times> ipv4net) list \<Rightarrow> ipv4net option \<Rightarrow> nat option \<Rightarrow> int option \<Rightarrow> string \<Rightarrow> (string \<times> ipv4net) list checked" where
  "check_core_prefix cores net start size_wanted path =
     (case net of
        None \<Rightarrow> wret cores
      | Some core \<Rightarrow>
          (wbind (report_if (\<not> subnet_of core ssm_space) ''multicast.overlay.core_group_range'' (at_key path ''core_group.prefix'')
                 ''Native transport core groups must be inside 232.0.0.0/8'') (\<lambda>_.
             wbind (w_each (\<lambda>(previous_path, previous). report_if (overlaps core previous) ''multicast.overlay.core_group_overlap''
                 (at_key path ''core_group.prefix'') (''Core group prefix overlaps '' @ previous_path)) cores) (\<lambda>_.
             wbind (check_core_start core start path) (\<lambda>_.
             wbind (report_if (case size_wanted of None \<Rightarrow> False | Some n \<Rightarrow> n > int (net_size core) - 1)
                 ''multicast.overlay.core_group_count'' (at_key path ''core_group.count'')
                 ''Core group count exceeds the reserved prefix'') (\<lambda>_.
             wret (cores @ [(at_key path ''core_group.prefix'', core)])))))))"

definition check_core_group :: "(string \<times> ipv4net) list \<Rightarrow> json \<Rightarrow> json \<Rightarrow> string \<Rightarrow> (string \<times> ipv4net) list checked" where
  "check_core_group cores raw transport path =
     (if transport = JStr ''native''
      then (wbind (mapping raw (at_key path ''core_group'')) (\<lambda>core.
         wbind (ipv4_network (val core ''prefix'') (at_key path ''core_group.prefix'')) (\<lambda>net.
         wbind (ipv4_address (val core ''start'') (at_key path ''core_group.start'')) (\<lambda>start.
         wbind (checked_int core ''count'' (at_key path ''core_group'') 1 16777214) (\<lambda>size_wanted.
         check_core_prefix cores net start size_wanted path)))))
      else (wbind (report_if (raw \<noteq> JNull) ''multicast.overlay.core_group_unexpected'' (at_key path ''core_group'')
                  ''Head-end replication cannot declare native core groups'') (\<lambda>_.
         wret cores)))"

definition check_overlay_policy ::
    "inventory \<Rightarrow> (string \<times> (string \<times> json) list) list \<Rightarrow> json list \<times> json list \<times> ipv4net option \<Rightarrow> json
       \<Rightarrow> overlay_seen \<Rightarrow> nat \<times> json \<Rightarrow> overlay_seen checked" where
  "check_overlay_policy iv vns = (\<lambda>(asm, ssm, ssm_range) transport ov (index, raw).
     let path = at_index ''$.multicast.overlay_policies'' index in
     (wbind (mapping raw path) (\<lambda>policy.
        wbind (required_string policy ''virtual_network'' path) (\<lambda>vn_name.
        wbind (required_string policy ''mode'' path) (\<lambda>mode.
        wbind (required_string policy ''access_list'' path) (\<lambda>access_list.
        wbind (check_access_list (ov_lists ov) access_list path) (\<lambda>lists.
        wbind (required_string policy ''vrf'' path) (\<lambda>vrf.
        wbind (checked_int policy ''l3_instance_id'' path 1 16777215) (\<lambda>instance_id.
        wbind (ipv4_network (val policy ''group_range'') (at_key path ''group_range'')) (\<lambda>net.
        wbind (check_overlay_vn vns asm ssm (ov_names ov) vn_name mode vrf instance_id path) (\<lambda>names.
        wbind (check_group_range net mode ssm_range path) (\<lambda>_.
        wbind (check_overlay_rp policy mode path) (\<lambda>_.
        wbind (listing (val_or policy ''segment_loopbacks'' (JArr [])) (at_key path ''segment_loopbacks'')) (\<lambda>loopbacks.
        wbind (w_fold (check_segment (multicast_devices iv) path) ([], ov_segments ov, ov_networks ov)
            (List.enumerate 0 loopbacks)) (\<lambda>(devices, segments, nets).
        wbind (report_if (set devices \<noteq> Some ` set (multicast_devices iv)) ''multicast.overlay.loopback_membership''
            (at_key path ''segment_loopbacks'') ''Every border and fabric-edge device requires one segment loopback'') (\<lambda>_.
        wbind (check_core_group (ov_cores ov) (val policy ''core_group'') transport path) (\<lambda>cores.
        wret \<lparr>ov_names = names, ov_lists = lists, ov_segments = segments, ov_cores = cores, ov_networks = nets\<rparr>)))))))))))))))))"

definition check_overlay_policies ::
    "inventory \<Rightarrow> (string \<times> (string \<times> json) list) list \<Rightarrow> (string \<times> json) list \<Rightarrow> bool
       \<Rightarrow> json list \<times> json list \<times> ipv4net option \<Rightarrow> named_net list \<Rightarrow> named_net list checked" where
  "check_overlay_policies iv vns multicast enabled modes nets =
     (wbind (listing (val_or multicast ''overlay_policies'' (JArr [])) ''$.multicast.overlay_policies'') (\<lambda>policies.
        wbind (w_fold (check_overlay_policy iv vns modes (val multicast ''transport''))
            \<lparr>ov_names = [], ov_lists = [], ov_segments = [], ov_cores = [], ov_networks = nets\<rparr> (List.enumerate 0 policies)) (\<lambda>ov.
        wbind (report_if (enabled \<and> JStr ` fst ` set (ov_names ov) \<noteq> set (fst modes) \<union> set (fst (snd modes)))
            ''multicast.overlay.policy_membership'' ''$.multicast.overlay_policies''
            ''Overlay policies must match the complete ASM/SSM virtual-network set'') (\<lambda>_.
        wbind (report_if (\<not> enabled \<and> policies \<noteq> []) ''multicast.overlay.disabled'' ''$.multicast.overlay_policies''
            ''Disabled multicast cannot contain overlay policies'') (\<lambda>_.
        wret (ov_networks ov))))))"

section \<open>Broadcast, unknown unicast, multicast\<close>

definition check_bum_pool ::
    "(string \<times> (string \<times> json) list) list \<Rightarrow> string option \<Rightarrow> int option \<Rightarrow> int option \<Rightarrow> string \<Rightarrow> unit checked" where
  "check_bum_pool pools pool_id l2_instance vlan path =
     (case pool_id of
        None \<Rightarrow> wret ()
      | Some i \<Rightarrow>
          (case map_of pools i of
             None \<Rightarrow> report ''reference.endpoint_pool'' (at_key path ''endpoint_pool_id'') (''Unknown endpoint pool '' @ repr_str i)
           | Some pool \<Rightarrow>
               (wbind (report_if (\<not> py_eq (json_int l2_instance) (val pool ''l2_instance_id'')) ''multicast.bum.instance_mismatch''
                      (at_key path ''l2_instance_id'') ''BUM L2 instance must match the endpoint pool'') (\<lambda>_.
                  report_if (\<not> py_eq (json_int vlan) (val pool ''vlan_id'')) ''multicast.bum.vlan_mismatch''
                      (at_key path ''vlan_id'') ''BUM VLAN must match the endpoint pool''))))"

definition check_bum_group ::
    "(string \<times> (string \<times> json) list) list \<Rightarrow> (string \<times> string) list \<times> (nat \<times> string) list \<Rightarrow> nat \<times> json
       \<Rightarrow> ((string \<times> string) list \<times> (nat \<times> string) list) checked" where
  "check_bum_group pools = (\<lambda>(pool_ids, addresses) (index, raw).
     let path = at_index ''$.multicast.l2_bum_groups'' index in
     (wbind (mapping raw path) (\<lambda>bum.
        wbind (required_string bum ''endpoint_pool_id'' path) (\<lambda>pool_id.
        wbind (checked_int bum ''l2_instance_id'' path 1 16777215) (\<lambda>l2_instance.
        wbind (checked_int bum ''vlan_id'' path 1 4094) (\<lambda>vlan.
        wbind (ipv4_address (val bum ''group'') (at_key path ''group'')) (\<lambda>address.
        wbind (check_duplicate pool_ids pool_id (at_key path ''endpoint_pool_id'') ''L2 BUM endpoint pool'') (\<lambda>pool_ids'.
        wbind (check_bum_pool pools pool_id l2_instance vlan path) (\<lambda>_.
        wbind (check_duplicate addresses address (at_key path ''group'') ''L2 BUM multicast group'') (\<lambda>addresses'.
        wbind (report_if (case address of None \<Rightarrow> False | Some a \<Rightarrow> \<not> ip_multicast (V4 a) \<or> in_net a ssm_space) ''multicast.bum.group''
            (at_key path ''group'') ''L2 BUM group must use non-SSM IPv4 multicast space'') (\<lambda>_.
        wret (pool_ids', addresses'))))))))))))"

definition check_bum_groups :: "(string \<times> (string \<times> json) list) list \<Rightarrow> (string \<times> json) list \<Rightarrow> bool \<Rightarrow> unit checked" where
  "check_bum_groups pools multicast enabled =
     (wbind (listing (val_or multicast ''l2_bum_groups'' (JArr [])) ''$.multicast.l2_bum_groups'') (\<lambda>raw_groups.
        wbind (w_fold (check_bum_group pools) ([], []) (List.enumerate 0 raw_groups)) (\<lambda>(pool_ids, addresses).
        report_if (fst ` set pool_ids
              \<noteq> (if enabled \<and> val multicast ''transport'' = JStr ''native'' then fst ` set pools else {}))
            ''multicast.bum.membership'' ''$.multicast.l2_bum_groups''
            ''Native multicast requires exactly one BUM group per endpoint pool'')))"

section \<open>The section\<close>

definition check_multicast ::
    "(string \<times> json) list \<Rightarrow> string option \<Rightarrow> inventory \<Rightarrow> networks_seen \<Rightarrow> named_net list \<Rightarrow> named_net list checked" where
  "check_multicast root environment iv ns nets =
     (wbind (mapping (val root ''multicast'') ''$.multicast'') (\<lambda>multicast.
        let enabled = (val multicast ''enabled'' = JBool True) in
        wbind (listing (val_or multicast ''rp_device_ids'' (JArr [])) ''$.multicast.rp_device_ids'') (\<lambda>rps.
        wbind (w_each (check_rp_device iv) (List.enumerate 0 rps)) (\<lambda>_.
        wbind (check_rp_address multicast enabled) (\<lambda>_.
        wbind (report_if (enabled \<and> val multicast ''rp_mode'' = JStr ''anycast'' \<and> environment = Some ''production'' \<and> length rps < 2)
            ''ha.multicast_rp'' ''$.multicast.rp_device_ids'' ''Production Anycast-RP requires at least two border nodes'') (\<lambda>_.
        wbind (check_alignment multicast (val (obj_of (val root ''fabric'')) ''multicast'') rps) (\<lambda>_.
        wbind ((if enabled \<and> val multicast ''transport'' = JStr ''native''
           then w_each check_pim_link (List.enumerate 0 (arr_items (val root ''links''))) else wret ())) (\<lambda>_.
        wbind (check_modes multicast ns enabled) (\<lambda>modes.
        wbind (check_overlay_policies iv (by_key ''name'' (arr_items (val root ''virtual_networks''))) multicast enabled modes nets) (\<lambda>nets'.
        wbind (check_bum_groups (by_key ''id'' (arr_items (val root ''endpoint_pools''))) multicast enabled) (\<lambda>_.
        wret nets')))))))))))"

end
