(* ===== verification/IntentPolicy.thy ===== *)
theory IntentPolicy
  imports IntentMulticast Url
begin

text \<open>
  The policy plane of schema 1.2 in \<open>validate_intent\<close> (\<open>intent.py\<close>): enforcement, security groups,
  contracts, the nodes of ISE and the SXP connections.
\<close>

section \<open>Enforcement\<close>

text \<open>The numbers among the values of a set count as integers.\<close>

definition as_number :: "json \<Rightarrow> json" where
  "as_number v = (case int_value v of None \<Rightarrow> v | Some i \<Rightarrow> JInt i)"

definition pool_vlan_list :: "json list \<Rightarrow> int list" where
  "pool_vlan_list pools =
     concat (map (\<lambda>p. case p of
        JObj kvs \<Rightarrow> (case int_value (val kvs ''vlan_id'') of None \<Rightarrow> [] | Some i \<Rightarrow> [i]) | _ \<Rightarrow> []) pools)"

definition check_enforcement :: "(string \<times> json) list \<Rightarrow> inventory \<Rightarrow> (string \<times> json) list \<Rightarrow> unit checked" where
  "check_enforcement root iv policy =
     (wbind (listing (val_or policy ''enforcement_device_ids'' (JArr [])) ''$.policy_plane.enforcement_device_ids'') (\<lambda>raw_devices.
        wbind (of_res (py_set raw_devices)) (\<lambda>devices.
        wbind (report_if (val policy ''mode'' \<noteq> JStr ''none''
              \<and> set devices \<noteq> JStr ` fst ` set (filter (\<lambda>(i, rs). JStr ''fabric_edge'' \<in> set rs) (iv_roles iv)))
            ''policy.enforcement.devices'' ''$.policy_plane.enforcement_device_ids''
            ''Policy enforcement devices must match the complete fabric-edge set'') (\<lambda>_.
        wbind (listing (val_or policy ''enforcement_vlan_ids'' (JArr [])) ''$.policy_plane.enforcement_vlan_ids'') (\<lambda>raw_vlans.
        wbind (of_res (py_set raw_vlans)) (\<lambda>vlans.
        report_if (val policy ''mode'' \<noteq> JStr ''none''
              \<and> as_number ` set vlans \<noteq> JInt ` set (pool_vlan_list (arr_items (val root ''endpoint_pools''))))
            ''policy.enforcement.vlans'' ''$.policy_plane.enforcement_vlan_ids''
            ''Policy enforcement VLANs must match the complete endpoint-pool VLAN set''))))))"

definition mode_text :: "json \<Rightarrow> string \<Rightarrow> string" where
  "mode_text mode rest = ''Policy mode '' @ py_repr mode @ rest"

text \<open>Whether the mode uses ISE and whether it uses SXP.\<close>

definition check_policy_mode :: "(string \<times> json) list \<Rightarrow> (bool \<times> bool) checked" where
  "check_policy_mode policy =
     (let mode = val policy ''mode'' in
        let ise = is_obj (val policy ''ise'') in
        let sxp = is_obj (val policy ''sxp'') in
        wbind (one_of mode [''ise'', ''hybrid'']) (\<lambda>uses_ise.
        wbind (report_if (uses_ise \<and> \<not> ise) ''policy.ise.required'' ''$.policy_plane.ise'' (mode_text mode '' requires ISE settings'')) (\<lambda>_.
        wbind (one_of mode [''sxp'', ''hybrid'']) (\<lambda>uses_sxp.
        wbind (report_if (uses_sxp \<and> \<not> sxp) ''policy.sxp.required'' ''$.policy_plane.sxp'' (mode_text mode '' requires SXP settings'')) (\<lambda>_.
        wbind (report_if (\<not> uses_ise \<and> ise) ''policy.ise.unexpected'' ''$.policy_plane.ise''
            (mode_text mode '' cannot contain ISE settings'')) (\<lambda>_.
        wbind (report_if (\<not> uses_sxp \<and> sxp) ''policy.sxp.unexpected'' ''$.policy_plane.sxp''
            (mode_text mode '' cannot contain SXP settings'')) (\<lambda>_.
        wret (uses_ise, uses_sxp))))))))"

section \<open>Security groups and contracts\<close>

record groups_seen =
  sg_names :: "(string \<times> string) list"
  sg_tags :: "(int \<times> string) list"
  sg_values :: "(string \<times> int) list"

definition check_security_group :: "groups_seen \<Rightarrow> nat \<times> json \<Rightarrow> groups_seen checked" where
  "check_security_group sg = (\<lambda>(index, raw).
     let path = at_index ''$.policy_plane.security_groups'' index in
     (wbind (mapping raw path) (\<lambda>entry.
        wbind (required_string entry ''name'' path) (\<lambda>name.
        wbind (checked_int entry ''tag'' path 2 65519) (\<lambda>tag.
        wbind (check_duplicate (sg_names sg) name (at_key path ''name'') ''security group name'') (\<lambda>names.
        wbind (check_duplicate (sg_tags sg) tag (at_key path ''tag'') ''security group tag'') (\<lambda>tags.
        wret \<lparr>sg_names = names, sg_tags = tags,
                sg_values = (case both name tag of None \<Rightarrow> sg_values sg | Some (n, t) \<Rightarrow> AList.update n t (sg_values sg))\<rparr>)))))))"

definition check_group_ref :: "groups_seen \<Rightarrow> string \<Rightarrow> string \<times> string option \<Rightarrow> unit checked" where
  "check_group_ref sg path = (\<lambda>(name, value).
     report_if (unknown_key (sg_names sg) value) ''reference.security_group'' (at_key path name)
       (''Unknown security group '' @ repr_option value))"

definition tag_differs :: "groups_seen \<Rightarrow> string option \<Rightarrow> json \<Rightarrow> bool" where
  "tag_differs sg name tag =
     (case name of None \<Rightarrow> False | Some n \<Rightarrow> \<not> py_eq tag (json_int (map_of (sg_values sg) n)))"

definition expected_aces :: "string option \<Rightarrow> string option \<Rightarrow> json" where
  "expected_aces action protocol =
     (case both action protocol of None \<Rightarrow> JArr [] | Some (a, p) \<Rightarrow> JArr [JStr (a @ '' '' @ p)])"

definition contract_key :: "string option \<Rightarrow> string option \<Rightarrow> string option \<Rightarrow> (string \<times> string \<times> string) option" where
  "contract_key source destination protocol =
     map_option (\<lambda>((s, d), p). (s, d, p)) (both (both source destination) protocol)"

definition check_contract ::
    "groups_seen \<Rightarrow> ((string \<times> string \<times> string) \<times> string) list \<Rightarrow> nat \<times> json
       \<Rightarrow> ((string \<times> string \<times> string) \<times> string) list checked" where
  "check_contract sg keys = (\<lambda>(index, raw).
     let path = at_index ''$.policy_plane.contracts'' index in
     (wbind (mapping raw path) (\<lambda>contract.
        wbind (required_string contract ''source'' path) (\<lambda>source.
        wbind (required_string contract ''destination'' path) (\<lambda>destination.
        wbind (required_string contract ''protocol'' path) (\<lambda>protocol.
        wbind (required_string contract ''action'' path) (\<lambda>action.
        wbind (w_each (check_group_ref sg path) [(''source'', source), (''destination'', destination)]) (\<lambda>_.
        wbind (check_duplicate keys (contract_key source destination protocol) path ''policy contract'') (\<lambda>keys'.
        wbind (report_if (tag_differs sg source (val contract ''source_tag'')) ''policy.contract.source_tag''
            (at_key path ''source_tag'') ''Contract source tag must match its security group'') (\<lambda>_.
        wbind (report_if (tag_differs sg destination (val contract ''destination_tag'')) ''policy.contract.destination_tag''
            (at_key path ''destination_tag'') ''Contract destination tag must match its security group'') (\<lambda>_.
        wbind (report_if (val contract ''default_action'' \<noteq> JStr ''deny'') ''policy.contract.default_action''
            (at_key path ''default_action'') ''Every policy contract must be deny by default'') (\<lambda>_.
        wbind (report_if (val contract ''aces'' \<noteq> expected_aces action protocol) ''policy.contract.aces'' (at_key path ''aces'')
            ''Contract ACEs must exactly represent the approved action and protocol'') (\<lambda>_.
        wbind (report_if (action = Some ''deny'' \<and> protocol \<noteq> Some ''ip'') ''policy.contract.deny_scope'' path
            ''Default-deny contracts may declare explicit deny only for protocol ip'') (\<lambda>_.
        wbind (report_if (\<not> owned_name ''SDA-SGACL-'' (py_str (val_or contract ''sgacl_name'' (JStr [])))) ''policy.contract.sgacl_name''
            (at_key path ''sgacl_name'') ''Contract SGACL must use an owned deterministic name'') (\<lambda>_.
        wret keys')))))))))))))))"

definition check_contracts :: "(string \<times> json) list \<Rightarrow> unit checked" where
  "check_contracts policy =
     (wbind (listing (val policy ''security_groups'') ''$.policy_plane.security_groups'') (\<lambda>raw_groups.
        wbind (w_fold check_security_group \<lparr>sg_names = [], sg_tags = [], sg_values = []\<rparr> (List.enumerate 0 raw_groups)) (\<lambda>sg.
        wbind (listing (val policy ''contracts'') ''$.policy_plane.contracts'') (\<lambda>contracts.
        wbind (w_fold (check_contract sg) [] (List.enumerate 0 contracts)) (\<lambda>_.
        wret ())))))"

section \<open>The nodes of ISE\<close>

definition origin_char :: "char \<Rightarrow> bool" where
  "origin_char c \<longleftrightarrow> is_alnum c \<or> c = CHR ''.'' \<or> c = CHR ''-''"

text \<open>\<open>re.fullmatch(r"https://[A-Za-z0-9.-]+(?::[0-9]{1,5})?", s)\<close>\<close>

definition https_origin :: "string \<Rightarrow> bool" where
  "https_origin s \<longleftrightarrow>
     starts_with s ''https://''
     \<and> (let host = takeWhile origin_char (drop 8 s); tail = dropWhile origin_char (drop 8 s) in
        host \<noteq> [] \<and> (tail = [] \<or> hd tail = CHR '':'' \<and> list_all is_digit (tl tail) \<and> tl tail \<noteq> [] \<and> length (tl tail) \<le> 5))"

definition bad_origin :: "string \<Rightarrow> url \<Rightarrow> bool" where
  "bad_origin s u \<longleftrightarrow>
     \<not> https_origin s \<or> url_hostname u = []
     \<or> (case url_port u of Inl e \<Rightarrow> True | Inr None \<Rightarrow> False | Inr (Some p) \<Rightarrow> p < 1 \<or> 65535 < p)"

record ise_seen =
  in_ids :: "string list"
  in_addresses :: "string list"
  in_pans :: "string list"

definition check_ise_node :: "ise_seen \<Rightarrow> nat \<times> json \<Rightarrow> ise_seen checked" where
  "check_ise_node seen = (\<lambda>(index, raw).
     let path = at_index ''$.policy_plane.ise.nodes'' index in
     (case raw of
        JObj node \<Rightarrow>
          (let node_id = py_str (val_or node ''id'' (JStr [])) in
             let address = py_str (val_or node ''address'' (JStr [])) in
             wbind (report_if (node_id \<in> set (in_ids seen)) ''unique.duplicate'' (at_key path ''id'') ''Duplicate ISE node ID'') (\<lambda>_.
             wbind (report_if (address \<in> set (in_addresses seen)) ''unique.duplicate'' (at_key path ''address'')
                 ''Duplicate ISE node address'') (\<lambda>_.
             wbind (of_res (elems (val_or node ''roles'' (JArr [])))) (\<lambda>raw_roles.
             wbind (of_res (py_set raw_roles)) (\<lambda>roles.
             let origin = py_str (val_or node ''api_base_url'' (JStr [])) in
             wbind (of_res (urlparse origin)) (\<lambda>parsed.
             wbind (report_if (bad_origin origin parsed) ''policy.ise.https'' (at_key path ''api_base_url'')
                 ''ISE API origin must use HTTPS without a path'') (\<lambda>_.
             wret \<lparr>in_ids = in_ids seen @ [node_id], in_addresses = in_addresses seen @ [address],
                     in_pans = in_pans seen @ (if JStr ''pan'' \<in> set roles then [node_id] else [])\<rparr>)))))))
      | _ \<Rightarrow> wret seen))"

text \<open>The addresses of the nodes.\<close>

definition check_ise :: "json \<Rightarrow> string option \<Rightarrow> string list checked" where
  "check_ise raw environment =
     (case raw of
        JObj ise \<Rightarrow>
          (wbind (of_res (elems (val_or ise ''nodes'' (JArr [])))) (\<lambda>nodes.
             wbind (w_fold check_ise_node \<lparr>in_ids = [], in_addresses = [], in_pans = []\<rparr> (List.enumerate 0 nodes)) (\<lambda>seen.
             wbind (report_if (py_str (val_or ise ''write_node_id'' (JStr [])) \<notin> set (in_pans seen)) ''policy.ise.write_node''
                 ''$.policy_plane.ise.write_node_id'' ''ISE write node must reference a PAN node'') (\<lambda>_.
             wbind (report_if (environment = Some ''production'' \<and> length (remdups (in_pans seen)) < 2) ''ha.ise_pan''
                 ''$.policy_plane.ise.nodes'' ''Production policy plane requires redundant ISE PAN nodes'') (\<lambda>_.
             wret (in_addresses seen))))))
      | _ \<Rightarrow> wret [])"

section \<open>SXP\<close>

definition ise_service_prefix :: "json \<Rightarrow> string list result" where
  "ise_service_prefix service =
     (case service of
        JObj kvs \<Rightarrow>
          (if val kvs ''type'' = JStr ''ise''
           then (ebind (elems (val_or kvs ''prefixes'' (JArr []))) (\<lambda>prefixes.
              Inr (map py_str prefixes))) else Inr [])
      | _ \<Rightarrow> Inr [])"

definition ise_service_prefixes :: "(string \<times> json) list \<Rightarrow> string list result" where
  "ise_service_prefixes shared =
     (ebind (elems (val_or shared ''services'' (JArr []))) (\<lambda>services.
        ebind (mapE ise_service_prefix services) (\<lambda>ps.
        Inr (concat ps))))"

definition peer_source :: "string \<Rightarrow> string \<Rightarrow> json \<Rightarrow> string list result" where
  "peer_source speaker vrf peer =
     (ebind (jget peer ''device_id'') (\<lambda>d.
        (if py_str d \<noteq> speaker then Inr []
          else (ebind (jget peer ''vrf'') (\<lambda>v.
             (if py_str v \<noteq> vrf then Inr [] else (ebind (jget peer ''local_ip'') (\<lambda>l.
                      Inr [py_str l]))))))))"

definition sxp_sources ::
    "(string \<times> (string \<times> json) list) list \<Rightarrow> (string \<times> json) list \<Rightarrow> string \<Rightarrow> string \<Rightarrow> string list result" where
  "sxp_sources devices handoff speaker vrf =
     (if vrf = ''global''
      then Inr [py_str (val_or (case map_of devices speaker of None \<Rightarrow> [] | Some d \<Rightarrow> d) ''loopback0_ip'' (JStr []))]
      else (ebind (elems (val_or handoff ''peers'' (JArr []))) (\<lambda>peers.
         ebind (mapE (peer_source speaker vrf) peers) (\<lambda>ss.
         Inr (concat ss)))))"

record sxp_context =
  xc_inventory :: inventory
  xc_vrfs :: "(string \<times> string) list"
  xc_devices :: "(string \<times> (string \<times> json) list) list"
  xc_handoff :: "(string \<times> json) list"
  xc_service_vrf :: "string option"
  xc_service_prefixes :: "string list"
  xc_ise_addresses :: "string list"
  xc_uses_ise :: bool

record sxp_seen =
  xs_passwords :: "(string \<times> string) list"
  xs_vrfs :: "(string \<times> string) list"
  xs_keys :: "((string \<times> string \<times> string) \<times> string) list"

definition check_speaker :: "inventory \<Rightarrow> json \<Rightarrow> string \<Rightarrow> unit checked" where
  "check_speaker iv speaker path =
     (wbind (one_of speaker (map fst (iv_ids iv))) (\<lambda>known.
        (if \<not> known then report ''reference.sxp_speaker'' (at_key path ''speaker_id'') (''Unknown SXP speaker '' @ py_repr speaker)
           else report_if (py_str speaker \<notin> set (multicast_devices iv)) ''policy.sxp.speaker_role'' (at_key path ''speaker_id'')
                  ''SXP speakers must be border or fabric-edge devices'')))"

definition check_listener :: "sxp_context \<Rightarrow> (string \<times> json) list \<Rightarrow> string \<Rightarrow> string \<Rightarrow> unit checked" where
  "check_listener xc connection vrf path =
     (wbind (ipv4_address (val connection ''listener_ip'') (at_key path ''listener_ip'')) (\<lambda>listener.
        wbind (ipv4_network (val connection ''listener_prefix'') (at_key path ''listener_prefix'')) (\<lambda>net.
        wbind (report_if (outside listener net) ''policy.sxp.listener_prefix'' (at_key path ''listener_ip'')
            ''SXP listener must be inside listener_prefix'') (\<lambda>_.
        wbind ((if \<not> xc_uses_ise xc then wret ()
           else (wbind (report_if ((case net of None \<Rightarrow> ''None'' | Some n \<Rightarrow> net_str n) \<notin> set (xc_service_prefixes xc))
                       ''policy.sxp.listener_service_prefix'' (at_key path ''listener_prefix'')
                       ''SXP listener prefix must exactly match an approved ISE shared-service prefix'') (\<lambda>_.
              report_if (xc_service_vrf xc \<noteq> Some vrf) ''policy.sxp.transport_vrf'' (at_key path ''transport_vrf'')
                       ''SXP transport VRF must match the shared-services VRF for ISE listeners'')))) (\<lambda>_.
        wbind (report_if (val connection ''local_mode'' \<noteq> JStr ''speaker'') ''policy.sxp.local_mode'' (at_key path ''local_mode'')
            ''This workflow supports SXP speaker mode only'') (\<lambda>_.
        report_if (xc_uses_ise xc \<and> py_str (val connection ''listener_ip'') \<notin> set (xc_ise_addresses xc))
            ''reference.sxp_listener'' (at_key path ''listener_ip'')
            (''SXP listener '' @ py_repr (val connection ''listener_ip'') @ '' is not an approved ISE node'')))))))"

text \<open>\<open>speaker_id in table and table[str(speaker_id)] != value\<close>\<close>

definition other_value :: "(string \<times> string) list \<Rightarrow> json \<Rightarrow> string \<Rightarrow> bool" where
  "other_value table speaker v =
     (case speaker of JStr s \<Rightarrow> (case map_of table s of None \<Rightarrow> False | Some w \<Rightarrow> w \<noteq> v) | _ \<Rightarrow> False)"

definition check_connection :: "sxp_context \<Rightarrow> sxp_seen \<Rightarrow> nat \<times> json \<Rightarrow> sxp_seen checked" where
  "check_connection xc seen = (\<lambda>(index, raw).
     let path = at_index ''$.policy_plane.sxp.connections'' index in
     (wbind (mapping raw path) (\<lambda>connection.
        let speaker = val connection ''speaker_id'' in
        let vrf = py_str (val_or connection ''transport_vrf'' (JStr [])) in
        let password = py_str (val_or connection ''password_ref'' (JStr [])) in
        wbind (check_speaker (xc_inventory xc) speaker path) (\<lambda>_.
        wbind (report_if (vrf \<noteq> ''global'' \<and> map_of (xc_vrfs xc) vrf = None) ''reference.sxp_transport_vrf'' (at_key path ''transport_vrf'')
            (''Unknown SXP transport VRF '' @ repr_str vrf)) (\<lambda>_.
        wbind (of_res (sxp_sources (xc_devices xc) (xc_handoff xc) (py_str speaker) vrf)) (\<lambda>sources.
        wbind (report_if (py_str (val_or connection ''source_ip'' (JStr [])) \<notin> set sources) ''policy.sxp.source_ip''
            (at_key path ''source_ip'') ''SXP source IP must be routed on the speaker in its transport VRF'') (\<lambda>_.
        wbind (check_listener xc connection vrf path) (\<lambda>_.
        wbind (report_if (other_value (xs_passwords seen) speaker password) ''policy.sxp.password_scope'' (at_key path ''password_ref'')
            ''One SXP speaker cannot use multiple default passwords'') (\<lambda>_.
        wbind (report_if (other_value (xs_vrfs seen) speaker vrf) ''policy.sxp.transport_scope'' (at_key path ''transport_vrf'')
            ''One SXP speaker cannot use multiple transport VRFs'') (\<lambda>_.
        wbind (check_duplicate (xs_keys seen) (Some (py_str speaker, py_str (val connection ''listener_ip''), vrf)) path
            ''SXP speaker/listener/VRF connection'') (\<lambda>keys.
        wret \<lparr>xs_passwords = AList.update (py_str speaker) password (xs_passwords seen),
                xs_vrfs = AList.update (py_str speaker) vrf (xs_vrfs seen), xs_keys = keys\<rparr>)))))))))))"

definition distinct_texts :: "string \<Rightarrow> json list \<Rightarrow> nat" where
  "distinct_texts key items =
     length (remdups (concat (map (\<lambda>i. case i of JObj kvs \<Rightarrow> [py_str (val kvs key)] | _ \<Rightarrow> []) items)))"

definition check_sxp_redundancy :: "(string \<times> json) list \<Rightarrow> string option \<Rightarrow> unit checked" where
  "check_sxp_redundancy sxp environment =
     (if environment \<noteq> Some ''production'' then wret ()
      else (wbind (of_res (elems (val_or sxp ''connections'' (JArr [])))) (\<lambda>connections.
         wbind (report_if (distinct_texts ''speaker_id'' connections < 2) ''ha.sxp_speakers'' ''$.policy_plane.sxp.connections''
                  ''Production SXP requires at least two speakers'') (\<lambda>_.
         report_if (distinct_texts ''listener_ip'' connections < 2) ''ha.sxp_listeners'' ''$.policy_plane.sxp.connections''
                  ''Production SXP requires at least two listeners''))))"

definition check_sxp :: "sxp_context \<Rightarrow> (string \<times> json) list \<Rightarrow> string option \<Rightarrow> unit checked" where
  "check_sxp xc sxp environment =
     (wbind (listing (val sxp ''connections'') ''$.policy_plane.sxp.connections'') (\<lambda>connections.
        wbind (w_fold (check_connection xc) \<lparr>xs_passwords = [], xs_vrfs = [], xs_keys = []\<rparr> (List.enumerate 0 connections)) (\<lambda>_.
        check_sxp_redundancy sxp environment)))"

section \<open>The section\<close>

text \<open>\<open>False\<close> when the contract version ends the validation.\<close>

definition check_policy_plane ::
    "(string \<times> json) list \<Rightarrow> string option \<Rightarrow> inventory \<Rightarrow> networks_seen \<Rightarrow> (string \<times> json) list
       \<Rightarrow> (string \<times> json) list \<Rightarrow> string option \<Rightarrow> bool checked" where
  "check_policy_plane root environment iv ns handoff shared service_vrf =
     (wbind (mapping (val root ''policy_plane'') ''$.policy_plane'') (\<lambda>policy.
        (if val policy ''contract_version'' \<noteq> JStr ''1.0''
           then (wbind (report ''policy.contract_version.migration_required'' ''$.policy_plane.contract_version''
                       ''Policy-plane contract_version 1.0 is required; migrate stored schema 1.2 intent before planning or replay'') (\<lambda>_.
              wret False))
           else (wbind (report_if (val policy ''default_action'' \<noteq> JStr ''deny'') ''policy.default_action''
                       ''$.policy_plane.default_action'' ''Policy plane must be deny by default'') (\<lambda>_.
              wbind (check_enforcement root iv policy) (\<lambda>_.
              wbind (check_policy_mode policy) (\<lambda>uses.
              wbind (check_contracts policy) (\<lambda>_.
              wbind (check_ise (val policy ''ise'') environment) (\<lambda>addresses.
              wbind ((case val policy ''sxp'' of
                        JObj sxp \<Rightarrow>
                          (wbind (of_res (ise_service_prefixes shared)) (\<lambda>prefixes.
                             check_sxp \<lparr>xc_inventory = iv, xc_vrfs = ns_vrfs ns,
                                   xc_devices = by_key ''id'' (arr_items (val root ''devices'')), xc_handoff = handoff,
                                   xc_service_vrf = service_vrf, xc_service_prefixes = prefixes,
                                   xc_ise_addresses = addresses, xc_uses_ise = fst uses\<rparr> sxp environment))
                      | _ \<Rightarrow> wret ())) (\<lambda>_.
              wret True))))))))))"

end
