(* ===== verification/IntentLisp.thy ===== *)
theory IntentLisp
  imports IntentPolicy
begin

text \<open>
  The LISP section in \<open>validate_intent\<close> (\<open>intent.py\<close>) and \<open>validate_intent\<close> itself, composed of
  the checks of all sections in their order.
\<close>

section \<open>Map servers, publishers, subscribers\<close>

definition check_map_server :: "inventory \<Rightarrow> nat \<times> json \<Rightarrow> unit checked" where
  "check_map_server iv = (\<lambda>(index, server).
     (wbind (one_of server (map fst (iv_ids iv))) (\<lambda>known.
        report_if (\<not> known) ''reference.map_server'' (at_index ''$.lisp.map_servers'' index)
            (''Unknown map-server device_id '' @ py_repr server))))"

definition json_role :: "inventory \<Rightarrow> string \<Rightarrow> json \<Rightarrow> bool" where
  "json_role iv role device = (case device of JStr i \<Rightarrow> has_role iv role i | _ \<Rightarrow> False)"

definition same_set :: "json list \<Rightarrow> json list \<Rightarrow> bool" where
  "same_set xs ys \<longleftrightarrow> as_number ` set xs = as_number ` set ys"

definition check_pubsub_sets :: "inventory \<Rightarrow> json list \<Rightarrow> json list \<Rightarrow> json list \<Rightarrow> unit checked" where
  "check_pubsub_sets iv map_servers publishers subscribers =
     (wbind (of_res (py_set publishers)) (\<lambda>ps.
        wbind (of_res (py_set map_servers)) (\<lambda>ms.
        wbind (report_if (\<not> same_set ps ms) ''lisp.pubsub.publishers'' ''$.lisp.publishers''
            ''Pub/Sub publishers must match the control-plane map-server set'') (\<lambda>_.
        wbind (w_each (\<lambda>(i, p). report_if (\<not> json_role iv ''control_plane'' p) ''lisp.publisher.not_control_plane''
            (at_index ''$.lisp.publishers'' i) ''LISP publishers must be control-plane nodes'') (List.enumerate 0 publishers)) (\<lambda>_.
        wbind (w_each (\<lambda>(i, s). (wbind (of_res (raise_if (\<not> hashable s) TypeError)) (\<lambda>_.
             report_if (\<not> json_role iv ''border'' s) ''lisp.subscriber.not_border''
                                  (at_index ''$.lisp.subscribers'' i) ''LISP subscribers must be border nodes'')))
            (List.enumerate 0 subscribers)) (\<lambda>_.
        report_if (\<not> same_set subscribers (map JStr (borders iv))) ''lisp.pubsub.subscribers'' ''$.lisp.subscribers''
            ''Pub/Sub subscribers must match the complete border-node set''))))))"

section \<open>Multihoming groups\<close>

record homing_seen =
  hm_sites :: "(string \<times> string) list"
  hm_ids :: "(int \<times> string) list"
  hm_groups :: "(string \<times> json list) list"

definition check_member :: "inventory \<Rightarrow> string option \<Rightarrow> string \<Rightarrow> json list \<Rightarrow> nat \<times> json \<Rightarrow> json list checked" where
  "check_member iv site group_path members = (\<lambda>(index, member).
     let path = at_index (at_key group_path ''border_device_ids'') index in
     (wbind (of_res (raise_if (\<not> hashable member) TypeError)) (\<lambda>_.
        wbind (report_if (as_number member \<in> as_number ` set members) ''unique.duplicate'' path
            ''Duplicate border in LISP multihoming group'') (\<lambda>_.
        wbind ((if \<not> json_role iv ''border'' member
           then report ''lisp.multihoming.member.not_border'' path ''LISP multihoming members must be border nodes''
           else report_if (site \<noteq> None \<and> map_of (iv_sites iv) (py_str member) \<noteq> site) ''lisp.multihoming.member.wrong_site'' path
                  ''LISP multihoming members must belong to the group site'')) (\<lambda>_.
        wret (members @ [member]))))))"

definition check_homing_group :: "inventory \<Rightarrow> homing_seen \<Rightarrow> nat \<times> json \<Rightarrow> homing_seen checked" where
  "check_homing_group iv hm = (\<lambda>(index, raw).
     let path = at_index ''$.lisp.multihoming_groups'' index in
     (wbind (mapping raw path) (\<lambda>entry.
        wbind (required_string entry ''site_id'' path) (\<lambda>site.
        wbind (checked_int entry ''multihoming_id'' path 1 65535) (\<lambda>homing_id.
        wbind (listing (val entry ''border_device_ids'') (at_key path ''border_device_ids'')) (\<lambda>devices.
        wbind (check_duplicate (hm_sites hm) site (at_key path ''site_id'') ''LISP multihoming site'') (\<lambda>sites.
        wbind (check_duplicate (hm_ids hm) homing_id (at_key path ''multihoming_id'') ''LISP multihoming id'') (\<lambda>ids.
        wbind (w_fold (check_member iv site path) [] (List.enumerate 0 devices)) (\<lambda>members.
        wret \<lparr>hm_sites = sites, hm_ids = ids,
                hm_groups = (case site of None \<Rightarrow> hm_groups hm | Some s \<Rightarrow> AList.update s members (hm_groups hm))\<rparr>)))))))))"

definition site_of :: "inventory \<Rightarrow> string \<Rightarrow> string" where
  "site_of iv i = (case map_of (iv_sites iv) i of None \<Rightarrow> [] | Some s \<Rightarrow> s)"

text \<open>The border subscribers of a site; the sites that have at least two of them.\<close>

definition site_borders :: "inventory \<Rightarrow> json list \<Rightarrow> string \<Rightarrow> string list" where
  "site_borders iv subscribers site = filter (\<lambda>i. JStr i \<in> set subscribers \<and> site_of iv i = site) (borders iv)"

definition homing_sites :: "inventory \<Rightarrow> json list \<Rightarrow> string list" where
  "homing_sites iv subscribers =
     filter (\<lambda>s. s \<noteq> [] \<and> 2 \<le> length (site_borders iv subscribers s)) (sorted_set (map (site_of iv) (borders iv)))"

definition check_homing_site :: "inventory \<Rightarrow> json list \<Rightarrow> (string \<times> json list) list \<Rightarrow> string \<Rightarrow> unit checked" where
  "check_homing_site iv subscribers groups site =
     (case map_of groups site of
        None \<Rightarrow> report ''lisp.multihoming.group.missing'' ''$.lisp.multihoming_groups''
                 (''Missing LISP multihoming group for site '' @ repr_str site)
      | Some members \<Rightarrow>
          report_if (set members \<noteq> JStr ` set (site_borders iv subscribers site)) ''lisp.multihoming.group.membership''
            ''$.lisp.multihoming_groups''
            (''LISP multihoming group for site '' @ repr_str site @ '' must contain every border subscriber in that site''))"

definition check_homing :: "inventory \<Rightarrow> json list \<Rightarrow> (string \<times> json) list \<Rightarrow> unit checked" where
  "check_homing iv subscribers lisp =
     (wbind (listing (val lisp ''multihoming_groups'') ''$.lisp.multihoming_groups'') (\<lambda>raw_groups.
        wbind (w_fold (check_homing_group iv) \<lparr>hm_sites = [], hm_ids = [], hm_groups = []\<rparr> (List.enumerate 0 raw_groups)) (\<lambda>hm.
        wbind (w_each (check_homing_site iv subscribers (hm_groups hm)) (homing_sites iv subscribers)) (\<lambda>_.
        w_each (\<lambda>s. report ''lisp.multihoming.group.unexpected'' ''$.lisp.multihoming_groups''
              (''LISP multihoming group for site '' @ repr_str s @ '' does not have two border subscribers''))
            (sorted_diff (map fst (hm_groups hm)) (homing_sites iv subscribers))))))"

definition check_pubsub :: "inventory \<Rightarrow> json list \<Rightarrow> (string \<times> json) list \<Rightarrow> unit checked" where
  "check_pubsub iv map_servers lisp =
     (wbind (listing (val lisp ''publishers'') ''$.lisp.publishers'') (\<lambda>publishers.
        wbind (listing (val lisp ''subscribers'') ''$.lisp.subscribers'') (\<lambda>subscribers.
        wbind (checked_int lisp ''domain_id'' ''$.lisp'' 1 4294967295) (\<lambda>_.
        wbind (check_pubsub_sets iv map_servers publishers subscribers) (\<lambda>_.
        check_homing iv subscribers lisp)))))"

section \<open>The LISP section\<close>

definition check_lisp :: "(string \<times> json) list \<Rightarrow> inventory \<Rightarrow> unit checked" where
  "check_lisp root iv =
     (wbind (mapping (val root ''lisp'') ''$.lisp'') (\<lambda>lisp.
        wbind (required_string lisp ''site_name'' ''$.lisp'') (\<lambda>_.
        wbind (report_if (\<not> is_str (val lisp ''auth_key_ref'') \<or> \<not> starts_with (py_str (val lisp ''auth_key_ref'')) ''secret://'')
            ''security.auth_key_ref'' ''$.lisp.auth_key_ref'' ''auth_key_ref must use the secret:// reference scheme'') (\<lambda>_.
        wbind (listing (val lisp ''map_servers'') ''$.lisp.map_servers'') (\<lambda>map_servers.
        wbind (report_if (map_servers = []) ''lisp.map_servers.empty'' ''$.lisp.map_servers'' ''At least one map server is required'') (\<lambda>_.
        wbind (w_each (check_map_server iv) (List.enumerate 0 map_servers)) (\<lambda>_.
        let version = val root ''schema_version'' in
        let mode = val (obj_of (val root ''fabric'')) ''control_plane_mode'' in
        wbind ((if version \<noteq> JStr ''1.2'' then wret ()
           else (wbind (report_if (\<not> py_eq (val lisp ''control_plane_mode'') mode) ''lisp.control_plane_mode.mismatch''
                       ''$.lisp.control_plane_mode'' ''LISP and fabric control-plane modes must match'') (\<lambda>_.
              (if mode = JStr ''lisp_pubsub'' then check_pubsub iv map_servers lisp else wret ()))))) (\<lambda>_.
        report_if ((version \<noteq> JStr ''1.2'' \<or> mode \<noteq> JStr ''lisp_pubsub'')
              \<and> (has_key lisp ''domain_id'' \<or> has_key lisp ''multihoming_groups''))
            ''lisp.identity.unexpected'' ''$.lisp''
            ''LISP domain and multihoming identity fields require schema 1.2 lisp_pubsub mode''))))))))"

section \<open>\<open>validate_intent\<close>\<close>

text \<open>The sections of schema 1.2: whether the validation goes on, and the networks.\<close>

definition check_later_sections ::
    "(string \<times> json) list \<Rightarrow> topology \<Rightarrow> (string \<times> json) list \<Rightarrow> named_net list \<Rightarrow> (bool \<times> named_net list) checked" where
  "check_later_sections root t handoff nets =
     (if val root ''schema_version'' \<noteq> JStr ''1.2'' then wret (True, nets)
      else (wbind (check_shared root (tp_environment t) (tp_inventory t) (tp_vns t)
                  (ps_prefixes (tp_pools t)) nets) (\<lambda>(shared, service_vrf, nets1).
         wbind (check_multicast root (tp_environment t) (tp_inventory t) (tp_vns t) nets1) (\<lambda>nets2.
         wbind (check_policy_plane root (tp_environment t) (tp_inventory t) (tp_vns t) handoff shared service_vrf) (\<lambda>going.
         wret (going, nets2))))))"

definition check_intent :: "((string \<times> json) list \<Rightarrow> schema_error list) \<Rightarrow> json \<Rightarrow> unit checked" where
  "check_intent schema_errors document =
     (wbind (check_topology schema_errors document) (\<lambda>t.
        let root = obj_of document in
        wbind (check_attachments root (tp_inventory t)) (\<lambda>_.
        wbind (check_handoff root (tp_environment t) (tp_inventory t) (tp_vns t) (ps_networks (tp_pools t))) (\<lambda>(handoff, nets).
        wbind (check_later_sections root t handoff nets) (\<lambda>(going, nets').
        (if \<not> going then wret ()
           else (wbind (check_network_overlaps nets') (\<lambda>_.
              wbind (check_lisp root (tp_inventory t)) (\<lambda>_.
              report_if (arr_items (val root ''endpoint_pools'') = []) ''endpoint_pools.empty'' ''$.endpoint_pools''
                       ''A deployable fabric intent requires at least one endpoint pool'')))))))))"

definition validate_intent :: "((string \<times> json) list \<Rightarrow> schema_error list) \<Rightarrow> json \<Rightarrow> issue list result" where
  "validate_intent schema_errors document =
     (case check_intent schema_errors document of
        (is, Inr u) \<Rightarrow> Inr is
      | (is, Inl e) \<Rightarrow> Inl e)"

end
