(* ===== verification/IntentAccepted.thy ===== *)
theory IntentAccepted
  imports IntentLaws IntentLisp
begin

text \<open>
  What an accepted validation says of the sections after the topology: the peers of the border
  handoff, the shared services and the networks that every section adds to the check of overlaps.
\<close>

section \<open>Networks that grow\<close>

abbreviation nets_of :: "named_net list \<Rightarrow> ipv4net list" where
  "nets_of nets \<equiv> map (fst \<circ> snd) nets"

lemma note_net_some: "nets_of (note_net nets p (Some n) k) = nets_of nets @ [n]"
  by (simp add: note_net_def)

lemma note_net_extends: "\<exists>more. note_net nets p n k = nets @ more"
  by (simp add: note_net_def)

lemma w_fold_extends:
  assumes "accepts (w_fold f s xs) t" and "\<And>x s t. accepts (f s x) t \<Longrightarrow> \<exists>more. g t = g s @ more"
  shows "\<exists>more. g t = g s @ more"
  using assms(1)
proof (rule w_fold_invariant [where P = "\<lambda>t. \<exists>more. g t = g s @ more"])
  fix u x t
  assume "\<exists>more. g u = g s @ more" and "accepts (f u x) t"
  then show "\<exists>more. g t = g s @ more" using assms(2) [of u x t] by auto
qed simp

section \<open>Peers of the handoff\<close>

text \<open>
  A peer is at a device of the document and in a VRF of it; its two addresses are different hosts
  of its own /30 or /31.
\<close>

definition peer_ok :: "string set \<Rightarrow> string set \<Rightarrow> json \<Rightarrow> bool" where
  "peer_ok ids vrfs p \<longleftrightarrow>
     name_at p ''device_id'' \<in> ids \<and> name_at p ''vrf'' \<in> vrfs
     \<and> addr_at p ''local_ip'' \<noteq> addr_at p ''neighbor_ip''
     \<and> {addr_at p ''local_ip'', addr_at p ''neighbor_ip''} \<subseteq> addrs (net_at p ''prefix'')
     \<and> prefixlen (net_at p ''prefix'') \<in> {30, 31}"

lemma check_peer_deviceD:
  assumes "accepts (check_peer_device iv pr (Some d) path) pr'"
  shows "pr_networks pr' = pr_networks pr" and "d \<in> fst ` set (iv_ids iv)"
  using assms by (auto simp: check_peer_device_def acc map_of_eq_None_iff split: if_splits)

lemma check_peer_fusion_keeps:
  assumes "accepts (check_peer_fusion iv pr fusion pair remote path) pr'"
  shows "pr_networks pr' = pr_networks pr"
  using assms by (auto simp: check_peer_fusion_def acc split: if_splits option.splits)

lemma check_peer_addressesD:
  assumes "accepts (check_peer_addresses (Some n) (Some a) (Some b) path) u"
  shows "a \<noteq> b \<and> {a, b} \<subseteq> addrs n \<and> prefixlen n \<in> {30, 31}"
  using assms by (auto simp: check_peer_addresses_def acc wrong_p2p_length_def outside_def both_def addrs_def in_net_def)

lemma check_peerD:
  assumes "accepts (check_peer version iv ns pr (i, raw)) pr'"
  shows "nets_of (pr_networks pr') = nets_of (pr_networks pr) @ [net_at raw ''prefix'']"
    and "peer_ok (fst ` set (iv_ids iv)) (fst ` set (ns_vrfs ns)) raw"
proof -
  let ?p = "at_index ''$.border_handoff.peers'' i"
  from assms obtain peer device fusion vrf net local_ip neighbor_ip pr1 pr2 where
    p: "raw = JObj peer" "accepts (required_string peer ''device_id'' ?p) device" "accepts (required_string peer ''vrf'' ?p) vrf"
      "accepts (ipv4_network (val peer ''prefix'') (at_key ?p ''prefix'')) net"
      "accepts (ipv4_address (val peer ''local_ip'') (at_key ?p ''local_ip'')) local_ip"
      "accepts (ipv4_address (val peer ''neighbor_ip'') (at_key ?p ''neighbor_ip'')) neighbor_ip"
      "accepts (check_peer_device iv pr device ?p) pr1" "\<not> unknown_key (ns_vrfs ns) vrf"
      "accepts (check_peer_fusion iv pr1 fusion (both device vrf) (val peer ''remote_as'') ?p) pr2"
      "accepts (check_peer_addresses net local_ip neighbor_ip ?p) ()"
      "pr_networks pr' = note_net (pr_networks pr2) (at_key ?p ''prefix'') net ''BGP handoff''"
    unfolding check_peer_def prod.case Let_def accepts_wbind mapping_accepts accepts_wret accepts_report_if
    by (auto simp del: unit_all_eq1)
  have d: "device = Some (name_at raw ''device_id'')" using p(2) unfolding p(1) by (rule required_string_name)
  have v: "vrf = Some (name_at raw ''vrf'')" using p(3) unfolding p(1) by (rule required_string_name)
  have n: "net = Some (net_at raw ''prefix'')" using p(4) unfolding p(1) by (rule ipv4_network_at)
  have l: "local_ip = Some (addr_at raw ''local_ip'')" using p(5) unfolding p(1) by (rule ipv4_address_at)
  have r: "neighbor_ip = Some (addr_at raw ''neighbor_ip'')" using p(6) unfolding p(1) by (rule ipv4_address_at)
  note device = check_peer_deviceD [OF p(7) [unfolded d]]
  show "nets_of (pr_networks pr') = nets_of (pr_networks pr) @ [net_at raw ''prefix'']"
    by (simp only: p(11) n note_net_some device(1) check_peer_fusion_keeps [OF p(9)])
  show "peer_ok (fst ` set (iv_ids iv)) (fst ` set (ns_vrfs ns)) raw"
    using device(2) p(8) check_peer_addressesD [OF p(10) [unfolded n l r]]
    by (auto simp: peer_ok_def v unknown_key_def map_of_eq_None_iff)
qed

lemma check_vnD:
  assumes "accepts (check_vn ns (i, raw)) ns'"
  shows "map fst (ns_vrfs ns') = map fst (ns_vrfs ns) @ [name_at raw ''vrf'']"
proof -
  let ?p = "at_index ''$.virtual_networks'' i"
  from assms obtain vn vrf where v: "raw = JObj vn" "accepts (required_string vn ''vrf'' ?p) vrf"
      "accepts (check_duplicate (ns_vrfs ns) vrf (at_key ?p ''vrf'') ''VRF name'') (ns_vrfs ns')"
    unfolding check_vn_def prod.case Let_def accepts_wbind mapping_accepts accepts_wret by auto
  have "vrf = Some (name_at raw ''vrf'')" using v(2) unfolding v(1) by (rule required_string_name)
  then show ?thesis using v(3) by (simp add: check_duplicate_accepts)
qed

lemma check_virtual_networksD:
  assumes "accepts (check_virtual_networks root) ns"
  shows "map fst (ns_vrfs ns) = map (\<lambda>v. name_at v ''vrf'') (arr_items (field (JObj root) ''virtual_networks''))"
proof -
  from assms obtain vns where l: "vns = arr_items (field (JObj root) ''virtual_networks'')"
    and f: "accepts (w_fold check_vn no_networks (List.enumerate 0 vns)) ns"
    by (auto simp: check_virtual_networks_def accepts_wbind dest: listing_val)
  from f have "map fst (ns_vrfs ns) = map fst (ns_vrfs no_networks) @ map (\<lambda>v. name_at v ''vrf'') vns"
    by (rule w_fold_collect [where g = "\<lambda>ns. map fst (ns_vrfs ns)"]) (rule check_vnD)
  then show ?thesis by (simp add: l no_networks_def)
qed

text \<open>The peers of a document, when its handoff is enabled.\<close>

definition planned_peers :: "json \<Rightarrow> json list" where
  "planned_peers doc =
     (if field (field doc ''border_handoff'') ''enabled'' = JBool True
      then arr_items (field (field doc ''border_handoff'') ''peers'') else [])"

lemma check_peersD:
  assumes "accepts (check_peers version environment iv ns nets handoff) nets'"
  shows "nets_of nets' = nets_of nets @ map (\<lambda>p. net_at p ''prefix'') (arr_items (field (JObj handoff) ''peers''))"
    and "\<forall>p \<in> set (arr_items (field (JObj handoff) ''peers'')). peer_ok (fst ` set (iv_ids iv)) (fst ` set (ns_vrfs ns)) p"
proof -
  let ?s = "\<lparr>pr_keys = [], pr_vlans = [], pr_borders = [], pr_fusions = [], pr_pairs = [], pr_redundant = [], pr_networks = nets\<rparr>"
  from assms obtain peers pr where l: "peers = arr_items (field (JObj handoff) ''peers'')" and n: "nets' = pr_networks pr"
    and f: "accepts (w_fold (check_peer version iv ns) ?s (List.enumerate 0 peers)) pr"
    by (auto simp: check_peers_def accepts_wbind accepts_wret dest: listing_val)
  from f have "nets_of (pr_networks pr) = nets_of (pr_networks ?s) @ map (\<lambda>p. net_at p ''prefix'') peers"
    by (rule w_fold_collect [where g = "\<lambda>pr. nets_of (pr_networks pr)"]) (rule check_peerD)
  then show "nets_of nets' = nets_of nets @ map (\<lambda>p. net_at p ''prefix'') (arr_items (field (JObj handoff) ''peers''))"
    by (simp add: l n)
  have "peer_ok (fst ` set (iv_ids iv)) (fst ` set (ns_vrfs ns)) x" if x: "x \<in> set peers" for x
  proof -
    from f x obtain i u v where "accepts (check_peer version iv ns u (i, x)) v" by (rule w_fold_each)
    then show ?thesis by (rule check_peerD)
  qed
  then show "\<forall>p \<in> set (arr_items (field (JObj handoff) ''peers'')). peer_ok (fst ` set (iv_ids iv)) (fst ` set (ns_vrfs ns)) p"
    by (simp add: l)
qed

lemma check_handoffD:
  assumes "accepts (check_handoff root environment iv ns nets) (handoff, nets')"
  shows "nets_of nets' = nets_of nets @ map (\<lambda>p. net_at p ''prefix'') (planned_peers (JObj root))"
    and "\<forall>p \<in> set (planned_peers (JObj root)). peer_ok (fst ` set (iv_ids iv)) (fst ` set (ns_vrfs ns)) p"
proof -
  let ?h = "field (JObj root) ''border_handoff''" and ?raw = "val_or handoff ''enabled'' (JBool False)"
  from assms have h: "accepts (if ?h = JNull then wret [] else mapping ?h ''$.border_handoff'') handoff"
    and n: "accepts (if ?raw = JBool True then check_peers (val root ''schema_version'') environment iv ns nets handoff else wret nets) nets'"
    by (auto simp: check_handoff_def Let_def accepts_wbind accepts_wret val_field)
  have e: "?raw = JBool True \<longleftrightarrow> field ?h ''enabled'' = JBool True" and p: "?raw = JBool True \<Longrightarrow> ?h = JObj handoff"
    using h by (auto simp: acc val_or_def field_def jget_def jget_default_def split: if_splits option.splits)
  have "nets_of nets' = nets_of nets @ map (\<lambda>p. net_at p ''prefix'') (planned_peers (JObj root))
      \<and> (\<forall>p \<in> set (planned_peers (JObj root)). peer_ok (fst ` set (iv_ids iv)) (fst ` set (ns_vrfs ns)) p)"
  proof (cases "?raw = JBool True")
    case True
    then have q: "planned_peers (JObj root) = arr_items (field (JObj handoff) ''peers'')"
      using e p unfolding planned_peers_def by metis
    have c: "accepts (check_peers (val root ''schema_version'') environment iv ns nets handoff) nets'"
      using n True by simp
    show ?thesis unfolding q using check_peersD [OF c] by blast
  next
    case False
    then have "planned_peers (JObj root) = []" and "nets' = nets"
      using n e by (simp_all only: planned_peers_def if_False accepts_wret)
    then show ?thesis by simp
  qed
  then show "nets_of nets' = nets_of nets @ map (\<lambda>p. net_at p ''prefix'') (planned_peers (JObj root))"
    and "\<forall>p \<in> set (planned_peers (JObj root)). peer_ok (fst ` set (iv_ids iv)) (fst ` set (ns_vrfs ns)) p"
    by blast+
qed

section \<open>Shared services\<close>

definition service_handoffs :: "json \<Rightarrow> json list" where
  "service_handoffs doc =
     (if field doc ''schema_version'' = JStr ''1.2''
      then arr_items (field (field doc ''shared_services'') ''attachments'') else [])"

lemma check_service_attachmentD:
  assumes "accepts (check_service_attachment iv sv (i, raw)) sv'"
  shows "nets_of (sv_networks sv') = nets_of (sv_networks sv) @ [net_at raw ''prefix'']"
proof -
  let ?p = "at_index ''$.shared_services.attachments'' i"
  from assms obtain attachment net where
    a: "raw = JObj attachment" "accepts (ipv4_network (val attachment ''prefix'') (at_key ?p ''prefix'')) net"
      "sv_networks sv' = note_net (sv_networks sv) (at_key ?p ''prefix'') net ''shared-service handoff''"
    unfolding check_service_attachment_def prod.case Let_def accepts_wbind mapping_accepts accepts_wret accepts_report_if
    by auto
  have "net = Some (net_at raw ''prefix'')" using a(2) unfolding a(1) by (rule ipv4_network_at)
  then show ?thesis by (simp only: a(3) note_net_some)
qed

lemma check_sharedD:
  assumes "accepts (check_shared root environment iv ns pools nets) (shared, vrf, nets')"
    and "val root ''schema_version'' = JStr ''1.2''"
  shows "nets_of nets' = nets_of nets @ map (\<lambda>a. net_at a ''prefix'') (service_handoffs (JObj root))"
proof -
  let ?s = "\<lparr>sv_ids = [], sv_fusions = [], sv_networks = nets\<rparr>"
  from assms(1) obtain attachments sv where h: "val root ''shared_services'' = JObj shared"
    and l: "attachments = arr_items (field (JObj shared) ''attachments'')" and n: "nets' = sv_networks sv"
    and f: "accepts (w_fold (check_service_attachment iv) ?s (List.enumerate 0 attachments)) sv"
    by (auto simp: check_shared_def accepts_wbind accepts_wret mapping_accepts dest: listing_val)
  from f have "nets_of (sv_networks sv) = nets_of (sv_networks ?s) @ map (\<lambda>a. net_at a ''prefix'') attachments"
    by (rule w_fold_collect [where g = "\<lambda>sv. nets_of (sv_networks sv)"]) (rule check_service_attachmentD)
  then show ?thesis using assms(2) h by (simp add: l n service_handoffs_def val_field)
qed

section \<open>Multicast and the policy plane\<close>

lemma check_segment_extends:
  assumes "accepts (check_segment expected path s x) t"
  shows "\<exists>more. snd (snd t) = snd (snd s) @ more"
  using assms by (auto simp: check_segment_def Let_def accepts_wbind accepts_wret note_net_def split: prod.splits)

lemma check_overlay_policy_extends:
  assumes "accepts (check_overlay_policy iv vns modes transport ov x) ov'"
  shows "\<exists>more. ov_networks ov' = ov_networks ov @ more"
proof -
  obtain asm ssm ssm_range where modes: "modes = (asm, ssm, ssm_range)" by (cases modes)
  obtain index raw where x: "x = (index, raw)" by (cases x)
  from assms obtain path loopbacks devices segments nets where
    f: "accepts (w_fold (check_segment (multicast_devices iv) path) ([], ov_segments ov, ov_networks ov)
        (List.enumerate 0 loopbacks)) (devices, segments, nets)" and n: "ov_networks ov' = nets"
    unfolding check_overlay_policy_def modes x prod.case Let_def accepts_wbind accepts_wret split_paired_Ex
    by auto
  from w_fold_extends [OF f, where g = "snd \<circ> snd"] show ?thesis
    unfolding n by (simp add: check_segment_extends)
qed

lemma check_multicast_extends:
  assumes "accepts (check_multicast root environment iv ns nets) nets'"
  shows "\<exists>more. nets' = nets @ more"
proof -
  from assms obtain vns multicast enabled modes where
    "accepts (check_overlay_policies iv vns multicast enabled modes nets) nets'"
    unfolding check_multicast_def Let_def accepts_wbind accepts_wret by auto
  then obtain policies ov where n: "nets' = ov_networks ov"
    and f: "accepts (w_fold (check_overlay_policy iv vns modes (val multicast ''transport''))
      \<lparr>ov_names = [], ov_lists = [], ov_segments = [], ov_cores = [], ov_networks = nets\<rparr> (List.enumerate 0 policies)) ov"
    unfolding check_overlay_policies_def accepts_wbind accepts_wret by auto
  from w_fold_extends [OF f, where g = ov_networks] show ?thesis
    unfolding n by (simp add: check_overlay_policy_extends)
qed

text \<open>A contract version that ends the validation is an error.\<close>

lemma check_policy_plane_goes_on:
  assumes "accepts (check_policy_plane root environment iv ns handoff shared service_vrf) going"
  shows going
  using assms by (auto simp: check_policy_plane_def accepts_wbind accepts_wret accepts_report split: if_splits)

section \<open>The whole validation\<close>

lemma check_later_sectionsD:
  assumes "accepts (check_later_sections root t handoff nets) (going, nets')"
  shows going and "\<exists>more. nets_of nets' = nets_of nets @ map (\<lambda>a. net_at a ''prefix'') (service_handoffs (JObj root)) @ more"
proof -
  show going using assms
    by (auto simp: check_later_sections_def accepts_wbind accepts_wret split: if_splits prod.splits dest: check_policy_plane_goes_on)
  show "\<exists>more. nets_of nets' = nets_of nets @ map (\<lambda>a. net_at a ''prefix'') (service_handoffs (JObj root)) @ more"
  proof (cases "val root ''schema_version'' = JStr ''1.2''")
    case True
    with assms obtain shared vrf nets1 where
      s: "accepts (check_shared root (tp_environment t) (tp_inventory t) (tp_vns t) (ps_prefixes (tp_pools t)) nets) (shared, vrf, nets1)"
      and m: "accepts (check_multicast root (tp_environment t) (tp_inventory t) (tp_vns t) nets1) nets'"
      by (auto simp: check_later_sections_def accepts_wbind accepts_wret split: prod.splits)
    from check_sharedD [OF s True] check_multicast_extends [OF m] show ?thesis by auto
  next
    case False
    with assms show ?thesis
      by (auto simp: check_later_sections_def accepts_wret service_handoffs_def val_field)
  qed
qed

lemma check_intentE:
  assumes "accepts (check_intent schema_errors doc) u"
  obtains t handoff nets nets' where "accepts (check_topology schema_errors doc) t"
    "accepts (check_handoff (obj_of doc) (tp_environment t) (tp_inventory t) (tp_vns t) (ps_networks (tp_pools t))) (handoff, nets)"
    "accepts (check_later_sections (obj_of doc) t handoff nets) (True, nets')" "accepts (check_network_overlaps nets') ()"
proof -
  from assms obtain t handoff nets nets' going where
    i: "accepts (check_topology schema_errors doc) t"
      "accepts (check_handoff (obj_of doc) (tp_environment t) (tp_inventory t) (tp_vns t) (ps_networks (tp_pools t))) (handoff, nets)"
      "accepts (check_later_sections (obj_of doc) t handoff nets) (going, nets')"
      "going \<longrightarrow> accepts (check_network_overlaps nets') ()"
    unfolding check_intent_def Let_def accepts_wbind split_paired_Ex prod.case by (auto simp: accepts_wbind split: if_splits)
  have going using i(3) by (rule check_later_sectionsD(1))
  with i show thesis by (intro that) simp_all
qed

lemma validate_intentE:
  assumes "validate_intent schema_errors doc = Inr issues" and "is_valid issues"
  shows "accepts (check_intent schema_errors doc) ()"
  using assms by (auto simp: validate_intent_def accepts_def split: prod.splits sum.splits)

end
