(* ===== verification/IntentProps.thy ===== *)
theory IntentProps
  imports IntentAccepted "HOL-Library.Code_Target_Nat"
begin

text \<open>
  The properties of the validation of an intent.
\<close>

section \<open>The tree of sites\<close>

lemma ancestor_end:
  assumes "ancestor ps d n = Some g" and "map_of ps g = None" and "ancestor ps k n = Some a"
  shows "k \<le> d"
proof (rule ccontr)
  assume "\<not> k \<le> d"
  then obtain j where k: "k = d + Suc j" by (metis add_Suc_right less_imp_Suc_add not_le)
  have "ancestor ps (d + Suc j) n = None" unfolding ancestor_add assms(1) by (simp add: assms(2))
  with assms(3) k show False by (simp del: add_Suc_right)
qed

lemma accepted_hierarchyE:
  assumes "accepts (check_hierarchy root) h"
  obtains ds g where "hierarchy_ok h" "roots h = {g}" "depths_ok h ds" "fst ` set (hi_ids h) \<subseteq> dom (map_of ds)"
proof -
  from assms obtain nodes t where w: "accepts (w_fold check_node no_hierarchy (List.enumerate 0 nodes)) h"
    and one: "hi_globals h = 1" and p: "\<forall>e \<in> set (hi_parents h). accepts (check_parent h e) ()"
    and d: "accepts (w_fold (check_depth h) (root_depths h, False) (sort (map fst (hi_ids h)))) t"
    by (auto simp: check_hierarchy_def check_depths_def acc)
  have ok: "hierarchy_ok h" using w no_hierarchy_ok check_node_ok by (rule w_fold_invariant [where P = hierarchy_ok])
  then have "card (roots h) = 1" using one by (simp add: hierarchy_ok_def)
  then obtain g where g: "roots h = {g}" by (rule card_1_singletonE)
  have ids: "\<forall>p \<in> ran (map_of (hi_parents h)). map_of (hi_ids h) p \<noteq> None"
    using p by (fastforce simp: ran_def check_parent_def acc dest: map_of_SomeD split: if_splits)
  from check_depths_ok [OF ok ids root_depths_ok [OF ok] d] obtain ds where
    "depths_ok h ds" "set (sort (map fst (hi_ids h))) \<subseteq> dom (map_of ds)"
    by (auto simp: map_of_eq_None_iff)
  with ok g show thesis by (intro that) auto
qed

text \<open>
  C39: an accepted site hierarchy is a tree. It has one global node, to which every walk up the
  parents comes within sixteen steps; so the loops over parents end, and \<open>hierarchy_descends_from\<close>
  holds exactly between a node and its ancestors, of which the furthest is sixteen steps away.
\<close>

theorem accepted_hierarchy_is_a_tree:
  assumes "accepts (check_hierarchy root) h"
  shows "\<exists>g. roots h = {g} \<and> (\<forall>n \<in> fst ` set (hi_ids h).
      (\<exists>k \<le> 16. ancestor (hi_parents h) k n = Some g)
    \<and> (\<forall>a. hierarchy_descends_from h n a \<longleftrightarrow> (\<exists>k \<le> 16. ancestor (hi_parents h) k n = Some a)))"
proof -
  from assms obtain ds g where ok: "hierarchy_ok h" and g: "roots h = {g}" and ds: "depths_ok h ds"
    and all: "fst ` set (hi_ids h) \<subseteq> dom (map_of ds)"
    by (rule accepted_hierarchyE)
  have root: "map_of (hi_parents h) g = None" using ok g by (auto simp: hierarchy_ok_def domIff)
  have up: "\<exists>d \<le> 16. ancestor (hi_parents h) d n = Some g" if n: "n \<in> fst ` set (hi_ids h)" for n
  proof -
    obtain d where "map_of ds n = Some d" using all n by blast
    with ds have "d \<le> 16 \<and> (\<exists>r \<in> roots h. ancestor (hi_parents h) d n = Some r)"
      unfolding depths_ok_def max_hierarchy_depth_def by simp
    with g show ?thesis by (intro exI [of _ d]) simp
  qed
  moreover have "hierarchy_descends_from h n a \<longleftrightarrow> (\<exists>k \<le> 16. ancestor (hi_parents h) k n = Some a)"
    if n: "n \<in> fst ` set (hi_ids h)" for n a
  proof -
    obtain d where d: "d \<le> 16" "ancestor (hi_parents h) d n = Some g" using up [OF n] by blast
    have "k \<le> 16" if "ancestor (hi_parents h) k n = Some a" for k
      using ancestor_end [OF d(2) root that] d(1) by simp
    then show ?thesis unfolding hierarchy_descends_from_def descends_iff by blast
  qed
  ultimately show ?thesis using g by blast
qed

section \<open>A sample hierarchy\<close>

definition sample_site :: "string \<Rightarrow> string \<Rightarrow> string option \<Rightarrow> json" where
  "sample_site i t parent =
     JObj ([(''id'', JStr i), (''name'', JStr i), (''type'', JStr t)]
           @ (case parent of None \<Rightarrow> [] | Some p \<Rightarrow> [(''parent_id'', JStr p)]))"

definition sample_sites_root :: "(string \<times> json) list" where
  "sample_sites_root =
     [(''site_hierarchy'', JArr [sample_site ''f1'' ''floor'' (Some ''b1''), sample_site ''g'' ''global'' None,
         sample_site ''b1'' ''building'' (Some ''g'')])]"

definition sample_hierarchy :: hierarchy where
  "sample_hierarchy =
     \<lparr>hi_ids = [(''f1'', ''$.site_hierarchy[0].id''), (''g'', ''$.site_hierarchy[1].id''), (''b1'', ''$.site_hierarchy[2].id'')],
      hi_types = [(''f1'', ''floor''), (''g'', ''global''), (''b1'', ''building'')],
      hi_parents = [(''f1'', ''b1''), (''b1'', ''g'')],
      hi_parent_paths = [(''f1'', ''$.site_hierarchy[0].parent_id''), (''b1'', ''$.site_hierarchy[2].parent_id'')],
      hi_globals = 1\<rparr>"

lemma sample_hierarchy_checked: "check_hierarchy sample_sites_root = ([], Inr sample_hierarchy)"
  by code_simp

theorem accepted_hierarchy_is_a_tree_witness:
  "hierarchy_descends_from sample_hierarchy ''f1'' ''g'' \<and> \<not> hierarchy_descends_from sample_hierarchy ''b1'' ''f1''"
proof -
  have a: "accepts (check_hierarchy sample_sites_root) sample_hierarchy"
    by (simp add: accepts_def sample_hierarchy_checked)
  from accepted_hierarchy_is_a_tree [OF a] have
    d: "hierarchy_descends_from sample_hierarchy n a \<longleftrightarrow> (\<exists>k \<le> 16. ancestor (hi_parents sample_hierarchy) k n = Some a)"
    if "n \<in> fst ` set (hi_ids sample_hierarchy)" for n a using that by blast
  have "ancestor (hi_parents sample_hierarchy) 2 ''f1'' = Some ''g''"
    by (simp add: sample_hierarchy_def numeral_2_eq_2)
  moreover have "ancestor (hi_parents sample_hierarchy) k ''b1'' \<noteq> Some ''f1''" for k
  proof (cases k)
    case (Suc j)
    then show ?thesis by (cases j) (simp_all add: sample_hierarchy_def)
  qed simp
  ultimately show ?thesis by (simp add: d sample_hierarchy_def [THEN arg_cong [of _ _ hi_ids]]) (auto intro: exI [of _ 2])
qed

section \<open>An accepted intent\<close>

text \<open>
  The addresses that a document takes: the loopbacks of its devices, the subnets of its links, the
  prefixes of its pools, of the peers of its handoff and of its attachments to shared services.
\<close>

definition planned_nets :: "json \<Rightarrow> ipv4net list" where
  "planned_nets doc =
     map (\<lambda>d. Net (addr_at d ''loopback0_ip'') 32) (arr_items (field doc ''devices''))
     @ map (\<lambda>l. net_at l ''subnet'') (arr_items (field doc ''links''))
     @ map (\<lambda>p. net_at p ''prefix'') (arr_items (field doc ''endpoint_pools''))
     @ map (\<lambda>p. net_at p ''prefix'') (planned_peers doc)
     @ map (\<lambda>a. net_at a ''prefix'') (service_handoffs doc)"

definition declared_ids :: "json \<Rightarrow> string list" where
  "declared_ids doc = map (\<lambda>d. name_at d ''id'') (arr_items (field doc ''devices''))"

definition declared_vrfs :: "json \<Rightarrow> string list" where
  "declared_vrfs doc = map (\<lambda>v. name_at v ''vrf'') (arr_items (field doc ''virtual_networks''))"

lemma topology_sound:
  assumes "accepts (check_topology schema_errors doc) t"
  shows "doc = JObj (obj_of doc)" and "\<forall>k \<in> keys_of doc. \<not> sensitive k"
    and "map fst (iv_ids (tp_inventory t)) = declared_ids doc" and "distinct (declared_ids doc)"
    and "map fst (ns_vrfs (tp_vns t)) = declared_vrfs doc"
    and "nets_of (ps_networks (tp_pools t)) @ map (\<lambda>p. net_at p ''prefix'') (planned_peers doc)
        @ map (\<lambda>a. net_at a ''prefix'') (service_handoffs doc) = planned_nets doc"
    and "\<forall>l \<in> set (arr_items (field doc ''links'')). link_ok (set (declared_ids doc)) l"
proof -
  from assms obtain root s devices iv nets where d: "doc = JObj root" "accepts (walk_sensitive ''$'' doc) ()"
      "tp_inventory t = iv" "accepts (check_devices root (st_ids s)) devices" "iv_ids iv = iv_ids devices"
      "iv_networks iv = iv_networks devices" "accepts (check_links root iv) nets"
      "accepts (check_virtual_networks root) (tp_vns t)" "accepts (check_pools root s iv (tp_vns t) nets) (tp_pools t)"
    by (rule check_topologyE)
  note dev = check_devicesD [OF d(4)] and link = check_linksD [OF d(7)]
  show ids: "map fst (iv_ids (tp_inventory t)) = declared_ids doc" by (simp add: declared_ids_def d(1,3,5) dev(1))
  show "doc = JObj (obj_of doc)" by (simp add: d(1) obj_of_def)
  show "\<forall>k \<in> keys_of doc. \<not> sensitive k" using d(2) by (simp add: walk_sensitive_accepts)
  show "distinct (declared_ids doc)" using dev(3) ids d(3,5) by simp
  show "map fst (ns_vrfs (tp_vns t)) = declared_vrfs doc"
    by (simp add: declared_vrfs_def d(1) check_virtual_networksD [OF d(8)])
  show "nets_of (ps_networks (tp_pools t)) @ map (\<lambda>p. net_at p ''prefix'') (planned_peers doc)
      @ map (\<lambda>a. net_at a ''prefix'') (service_handoffs doc) = planned_nets doc"
    by (simp only: planned_nets_def check_poolsD [OF d(9)] link(1) d(1,6) dev(2) append_assoc)
  show "\<forall>l \<in> set (arr_items (field doc ''links'')). link_ok (set (declared_ids doc)) l"
    using link(2) unfolding d(1) [symmetric] ids [symmetric] d(3) list.set_map .
qed

text \<open>
  C40: what \<open>validate_intent\<close> accepts. When it returns issues without an
  error, the document has no inline secret at any depth; its devices have different identifiers;
  the loopbacks, the subnets of the links, the prefixes of the pools, of the enabled handoff's
  peers and of the attachments to shared services share no address; each link joins two different
  devices of the document, and each peer is at a device and in a VRF of the document, by two
  different addresses of its own /30 or /31.
\<close>

theorem accepted_intent_is_sound:
  assumes "validate_intent schema_errors doc = Inr issues" and "is_valid issues"
  shows "(\<forall>k \<in> keys_of doc. \<not> sensitive k) \<and> distinct (declared_ids doc)
    \<and> sorted_wrt (\<lambda>m n. addrs m \<inter> addrs n = {}) (planned_nets doc)
    \<and> (\<forall>l \<in> set (arr_items (field doc ''links'')). link_ok (set (declared_ids doc)) l)
    \<and> (\<forall>p \<in> set (planned_peers doc). peer_ok (set (declared_ids doc)) (set (declared_vrfs doc)) p)"
proof -
  from validate_intentE [OF assms] obtain t handoff nets nets' where t: "accepts (check_topology schema_errors doc) t"
    and h: "accepts (check_handoff (obj_of doc) (tp_environment t) (tp_inventory t) (tp_vns t) (ps_networks (tp_pools t))) (handoff, nets)"
    and l: "accepts (check_later_sections (obj_of doc) t handoff nets) (True, nets')"
    and o: "accepts (check_network_overlaps nets') ()"
    by (rule check_intentE)
  note top = topology_sound [OF t]
  note peers = check_handoffD [OF h, folded top(1)]
  obtain more where "nets_of nets' = planned_nets doc @ more"
    using check_later_sectionsD(2) [OF l, folded top(1)] unfolding peers(1) top(6) [symmetric] by auto
  then have "sorted_wrt (\<lambda>m n. \<not> overlaps m n) (planned_nets doc)"
    using o by (simp add: check_network_overlaps_accepts sorted_wrt_append)
  then have "sorted_wrt (\<lambda>m n. addrs m \<inter> addrs n = {}) (planned_nets doc)"
    by (rule sorted_wrt_mono_rel [rotated]) (rule disjoint_addrs)
  moreover have "\<forall>p \<in> set (planned_peers doc). peer_ok (set (declared_ids doc)) (set (declared_vrfs doc)) p"
    using peers(2) unfolding list.set_map [symmetric] top(3,5) .
  ultimately show ?thesis using top(2,4,7) by blast
qed

section \<open>A sample topology\<close>

definition sample_fabric_device :: "string \<Rightarrow> string \<Rightarrow> string \<Rightarrow> string list \<Rightarrow> json" where
  "sample_fabric_device i management loopback roles =
     JObj [(''id'', JStr i), (''hostname'', JStr i), (''site'', JStr ''s''), (''platform'', JStr ''c9300''),
           (''software_version'', JStr ''17.12.3''), (''management_ip'', JStr management), (''loopback0_ip'', JStr loopback),
           (''roles'', jstrs roles), (''credential_ref'', JStr ''secret://d'')]"

definition sample_fabric_link :: json where
  "sample_fabric_link =
     JObj [(''id'', JStr ''l1''), (''subnet'', JStr ''10.0.2.0/31''),
           (''endpoints'', JArr [JObj [(''device_id'', JStr ''b1''), (''interface'', JStr ''Te1''), (''ip'', JStr ''10.0.2.0'')],
                                 JObj [(''device_id'', JStr ''e1''), (''interface'', JStr ''Te1''), (''ip'', JStr ''10.0.2.1'')]])]"

definition sample_fabric_pool :: json where
  "sample_fabric_pool =
     JObj [(''id'', JStr ''p1''), (''site'', JStr ''s''), (''virtual_network'', JStr ''CAMPUS''), (''vlan_id'', JInt 1021),
           (''l2_instance_id'', JInt 8188), (''prefix'', JStr ''10.1.0.0/24''), (''gateway'', JStr ''10.1.0.1''),
           (''dhcp_helpers'', JArr [JStr ''10.0.9.1''])]"

definition sample_handoff_peer :: json where
  "sample_handoff_peer =
     JObj [(''device_id'', JStr ''b1''), (''vrf'', JStr ''CAMPUS''), (''interface'', JStr ''Te2''), (''vlan_id'', JInt 3001),
           (''remote_as'', JInt 65002), (''prefix'', JStr ''10.0.3.0/30''), (''local_ip'', JStr ''10.0.3.1''),
           (''neighbor_ip'', JStr ''10.0.3.2'')]"

definition sample_topology_doc :: json where
  "sample_topology_doc =
     JObj [(''schema_version'', JStr ''1.0''),
           (''metadata'', JObj [(''name'', JStr ''n''), (''environment'', JStr ''lab''), (''organization'', JStr ''o''), (''region'', JStr ''r'')]),
           (''fabric'', JObj [(''id'', JStr ''f1''), (''name'', JStr ''f''), (''underlay_protocol'', JStr ''isis''), (''mtu'', JInt 9100)]),
           (''devices'', JArr [sample_fabric_device ''b1'' ''10.0.0.1'' ''10.0.1.1'' [''border'', ''control_plane''],
                               sample_fabric_device ''e1'' ''10.0.0.2'' ''10.0.1.2'' [''fabric_edge'']]),
           (''links'', JArr [sample_fabric_link]),
           (''virtual_networks'', JArr [JObj [(''name'', JStr ''CAMPUS''), (''vrf'', JStr ''CAMPUS''), (''l3_instance_id'', JInt 4099),
              (''rd'', JStr ''1:4099''), (''route_targets'', JArr [JStr ''1:4099''])]]),
           (''endpoint_pools'', JArr [sample_fabric_pool]),
           (''border_handoff'', JObj [(''enabled'', JBool True), (''mode'', JStr ''bgp''), (''local_as'', JInt 65001),
              (''peers'', JArr [sample_handoff_peer])]),
           (''lisp'', JObj [(''site_name'', JStr ''uci''), (''auth_key_ref'', JStr ''secret://lisp''), (''map_servers'', JArr [JStr ''b1''])])]"

lemma sample_document_accepted:
  "case validate_intent (\<lambda>_. []) sample_topology_doc of Inr issues \<Rightarrow> is_valid issues | Inl e \<Rightarrow> False"
  by code_simp

theorem accepted_intent_is_sound_witness:
  "link_ok (set (declared_ids sample_topology_doc)) sample_fabric_link
     \<and> peer_ok (set (declared_ids sample_topology_doc)) {''CAMPUS''} sample_handoff_peer
     \<and> sorted_wrt (\<lambda>m n. addrs m \<inter> addrs n = {}) (planned_nets sample_topology_doc)
     \<and> length (planned_nets sample_topology_doc) = 5"
proof -
  obtain issues where v: "validate_intent (\<lambda>_. []) sample_topology_doc = Inr issues" "is_valid issues"
    using sample_document_accepted by (auto split: sum.splits)
  have "sample_fabric_link \<in> set (arr_items (field sample_topology_doc ''links''))"
    and "sample_handoff_peer \<in> set (planned_peers sample_topology_doc)" and "length (planned_nets sample_topology_doc) = 5"
    by (simp_all add: planned_nets_def planned_peers_def service_handoffs_def sample_topology_doc_def field_def)
  moreover have "set (declared_vrfs sample_topology_doc) = {''CAMPUS''}" by code_simp
  ultimately show ?thesis using accepted_intent_is_sound [OF v] by metis
qed

end
