(* ===== verification/Spec2Isabelle.thy ===== *)
theory Spec2Isabelle
  imports ReconcileProps StoreProps AllocProps DesignProps WorkerProps GateProps OwnedProps RenderProps IntentProps
begin

text \<open>
  A verification development for the Meraki dynamic SDA orchestrator (Python, under
  \<open>src/orchestrator\<close>). The program turns a request for a campus fabric into an intent with
  allocated addresses and identifiers, validates it, plans its deployment, stores plan, approvals
  and runs in a transactional store, and applies an approved plan to the devices under a fabric
  lock, with gates that read the devices' output and a rollback from checkpoints.

  \<^bold>\<open>The parts and how they interact.\<close> Requirements and guardrails go through \<open>allocator.py\<close>,
  which \<open>store.reserve_design\<close> calls with the ledger of what is already taken; the intent it
  returns goes through \<open>intent.py\<close> and \<open>planner.py\<close>; \<open>reconciliation.py\<close> compares the multicast
  state that the new intent owns with an approved baseline; \<open>renderer.py\<close> turns intent and plan into
  the commands of every device; \<open>gates.py\<close> lists the checks of the
  result and \<open>parsers.py\<close> evaluates them; \<open>worker.py\<close> (or \<open>simulator.py\<close> for a dry run) executes
  the plan, and every step of it is a transaction of \<open>store.py\<close>.

  \<^bold>\<open>Theories and code.\<close> The base: \<open>Prelude\<close> (exceptions as values, loops), \<open>PyStr\<close>, \<open>Json\<close>,
  \<open>JsonCanon\<close>, \<open>Doc\<close> (text and documents as the code reads them), \<open>Ipv4\<close>, \<open>Ipv6\<close>, \<open>Url\<close>, \<open>Clock\<close>,
  \<open>Sha256\<close> (\<open>hashlib.sha256\<close> over words), \<open>Regex\<close> with \<open>RegexWords\<close> (Python's \<open>re\<close> as a
  backtracking matcher). A value that raises is \<open>Inl\<close> of an exception, and every \<open>raise\<close> of the
  source is such a branch.

  \<open>reconciliation.py\<close>: \<open>OwnedState\<close> builds the manifest of a candidate (\<open>build_multicast_owned_state\<close>),
  \<open>Reconcile\<close> validates manifests and baselines and plans the removals; \<open>ReconcileSpec\<close>,
  \<open>OwnedLaws\<close>, \<open>OwnedValid\<close> and \<open>OwnedClean\<close> are their laws, \<open>ReconcileProps\<close> and \<open>OwnedProps\<close> their
  properties. \<open>store.py\<close>: \<open>StoreState\<close> has one record per row type and one list per table,
  and what the store gives the allocator, \<open>StoreOps\<close> and \<open>StoreOwned\<close> the operations of \<open>StateStore\<close>
  as transactions, \<open>AuditChain\<close> the hash chain; \<open>StoreEvents\<close> is the abstract step
  relation that every operation refines, \<open>StoreInv\<close> its invariants, \<open>StoreSystem\<close> the
  interleavings of transactions, \<open>StoreProps\<close> the properties. \<open>allocator.py\<close>: \<open>AllocCore\<close>
  (prefixes, scalars, guardrails), \<open>HostPrefix\<close> (endpoint prefix sizes in double precision),
  \<open>SiteContext\<close>, and \<open>DeriveTopology\<close>, \<open>DeriveNetworks\<close>, \<open>DeriveServices\<close>, \<open>DeriveMulticast\<close>,
  \<open>DerivePolicy\<close>, \<open>DeriveHandoff\<close>, \<open>DeriveIntent\<close> in the order of \<open>derive_fabric_intent\<close>; \<open>AllocLaws\<close>
  has the contract of a search that skips what is taken, \<open>AllocInv\<close> the invariant, \<open>AllocProps\<close>
  the properties; \<open>DesignSystem\<close> and \<open>DesignProps\<close> put store and allocator together.
  \<open>worker.py\<close>: \<open>Worker\<close> is \<open>process_apply\<close> with everything it calls, on a store, its own records
  and a world; \<open>WorkerLaws\<close>, \<open>WorkerOutcome\<close>, \<open>WorkerChanges\<close> are its laws, \<open>Simulator\<close> the dry run,
  \<open>WorkerProps\<close> the properties of both. \<open>parsers.py\<close> and \<open>gates.py\<close>: \<open>Parsers\<close>, \<open>PolicyParsers\<close>
  (the parsers and \<open>evaluate_gate\<close>), \<open>Gates\<close>, \<open>GatePlan\<close> (\<open>build_gate_plan\<close>), \<open>GateLaws\<close>, \<open>GateEval\<close>,
  \<open>GateProps\<close>. \<open>planner.py\<close>: \<open>Planner\<close> (\<open>create_plan\<close>) and \<open>PlannerProps\<close>. \<open>renderer.py\<close>: \<open>RenderBase\<close>
  (the check of values, blocks), \<open>RenderUnderlay\<close>, \<open>RenderLisp\<close>, \<open>RenderHandoff\<close>, each function that
  returns blocks being a definition of its name, \<open>Renderer\<close> (the policy plane and
  \<open>render_configuration\<close>), \<open>RenderSound\<close> for the text of commands, \<open>RenderProps\<close>. \<open>intent.py\<close>: \<open>Doc\<close> (issues),
  \<open>Checks\<close> (the helpers, a check being what it appends to the issues and what it returns),
  \<open>IntentSites\<close>, \<open>IntentFabric\<close>, \<open>IntentNetworks\<close>, \<open>IntentHandoff\<close>, \<open>IntentServices\<close>, \<open>IntentMulticast\<close>,
  \<open>IntentPolicy\<close>, \<open>IntentLisp\<close> (the sections in their order, and \<open>validate_intent\<close> at the end), with
  \<open>HierarchyLaws\<close>, \<open>IntentLaws\<close>, \<open>IntentAccepted\<close> for what an accepted check says of the document, and
  \<open>IntentProps\<close>.

  \<^bold>\<open>What the lemmas show.\<close> Of the store: at most one apply per fabric, locks exactly while an
  apply is active, only authorised runs (by which of its readings of the clock, and of which
  instant, is said there), requests that can be repeated but run once, final states that stay, an
  append-only and tamper-evident audit log, resources that follow their reservation. Of the allocator: what it
  hands out is inside the guardrail, disjoint from all that is taken or reserved and first fit;
  endpoint prefixes are the longest that hold what is asked for, which is the demand rounded up, at
  most one host more; and no interleaving of reservations lets active resources collide.
  Of reconciliation: it removes exactly what is stale, in order, with safe commands, and the
  manifest that the builder makes validates, with every field a device may have. Of the gates:
  every planned gate evaluates on output that \<open>int\<close> can convert, every
  device is asked for its adjacencies, stale lines are gated. Of planner and worker: the phases
  are a chain, no gate is left out of them, a success has evidence that each gate passed, changed
  devices have checkpoints, a rollback that is reported has restored every one of them, a run ends
  with its status, its locks and its reservation settled.
  Of the renderer: nothing it renders falls outside the phases that the worker runs, its commands
  are single lines of checked text with placeholders of declared secrets when the networks that it
  prints unchecked have no scope identifier, and the enforcement line
  is the one that its gate expects.
  Of the validation: an accepted hierarchy is a tree of bounded depth on which the walks over
  parents end, and an accepted intent has disjoint addresses over all its sections, sound links,
  sound handoff peers and no inline secret.
  Four interfaces are locales, each interpreted on the model: the tables of the store, the
  exclusive search and its pools, and the predicates that every step of the worker keeps.

  \<^bold>\<open>Bounds and termination.\<close> Loops over lists are recursion over them. The two walks over
  parents in \<open>IntentSites\<close> carry the nodes they have visited and end because those grow within a
  finite set. A repetition of the matcher runs with one more than the length of the rest as fuel,
  which is enough because each round has to read something: the matcher finds a match exactly
  where the relation \<open>derives\<close> has one. The prefix search runs over the subnets of its pool.

  \<^bold>\<open>Parameters.\<close> The clock, the identifiers and \<open>datetime.fromisoformat\<close> are fields of
  a runtime; the clock of an operation is the sequence of its readings, so \<open>create_run\<close> reads one
  instant for the window, another for the approval, a third for the row and a fourth for the lock.
  The JSON Schema validator
  (third-party, over the schemas of \<open>src/schemas\<close>) is the argument \<open>validate_shape\<close> of the
  allocator and \<open>schema_errors\<close> of the validation; the planner takes the validation of intents as
  a function that returns issues, which \<open>validate_intent\<close> is one of. Device adapters, the
  ISE adapter, the secret resolvers and the gate functions are the fields of the worker's
  environment over a world of any type, so the theorems about the worker hold whatever they
  answer or raise.

  \<^bold>\<open>Simplifications.\<close> Characters are those up to code point 255, with the case mapping of
  ASCII; numbers in documents are integers, of at most the 4300 digits that \<open>int()\<close> and \<open>str()\<close>
  convert (text is converted with that limit); the contents of brackets in URLs are not inspected; \<open>sorted\<close>
  of nested lists or of truth values raises; sets of values from a document hold documents, so that
  \<open>True\<close> and \<open>1\<close> are two members unless the code compares numbers, and a key of a document that is
  compared with another is compared as a document. When a rendering raises, it may raise for another of
  several offending values than the code, which checks them in the order of the text.

  \<^bold>\<open>Not modelled.\<close> \<open>meraki_workflow_package.py\<close>, \<open>meraki_native_export.py\<close>: generators of text and of
  documents for an external product. \<open>api.py\<close>, \<open>auth.py\<close>, \<open>secrets.py\<close>, \<open>ise.py\<close>, \<open>adapters.py\<close>,
  \<open>worker_runtime.py\<close>, \<open>postgres_store.py\<close>: input and output against services outside the
  repository (HTTP, an identity provider, secret stores, ISE, SSH, a database server); what the
  core uses of them is a parameter. \<open>acceptance.py\<close>, \<open>runtime_recovery.py\<close>, \<open>workflow_audit.py\<close>,
  \<open>poc_intake.py\<close>, \<open>poc_execution.py\<close>, \<open>tools\<close> and \<open>admin\<close>: reports and scripts around the core.
\<close>

end
